(* ===== verification/Prelude.thy ===== *)
theory Prelude
  imports Main "HOL-Library.Word" "HOL-Library.AList"
begin

text \<open>
  Shared vocabulary of the development.

  \<^item> The C++ unsigned integer types are words of their width, so \<open>+\<close>, \<open>-\<close> and \<open>++\<close> wrap
    exactly as the language says. \<open>std::size_t\<close> is 64 bits wide.
  \<^item> \<open>std::int64_t\<close> is \<open>int\<close>; every comparison the code makes with
    \<open>std::numeric_limits\<close> is written out, and signed overflow, which C++ leaves undefined, is
    never replaced by a wrap-around.
  \<^item> A thrown exception is the left summand of a sum type.
  \<^item> \<open>std::unordered_map\<close> is an association list: its order is one possible iteration order, and
    the operations below are the ones the sources call.
  \<^item> A pointer that may be null is an \<open>option\<close>.
\<close>

unbundle bit_operations_syntax

section \<open>Machine types\<close>

type_synonym u8 = "8 word"
type_synonym u16 = "16 word"
type_synonym u32 = "32 word"
type_synonym u64 = "64 word"
type_synonym i64 = int

abbreviation u32_max :: u32 where "u32_max \<equiv> - 1"
abbreviation u64_max :: u64 where "u64_max \<equiv> - 1"
abbreviation i64_max :: i64 where "i64_max \<equiv> 9223372036854775807"
abbreviation i64_min :: i64 where "i64_min \<equiv> - 9223372036854775808"

text \<open>\<open>static_cast<std::uint64_t>(x)\<close> and \<open>static_cast<std::int64_t>(w)\<close>: reduction modulo
  \<open>2 ^ 64\<close>, and its two's-complement reading.\<close>

abbreviation to_u64 :: "i64 \<Rightarrow> u64" where "to_u64 \<equiv> word_of_int"
abbreviation to_i64 :: "u64 \<Rightarrow> i64" where "to_i64 \<equiv> sint"

datatype cpp_exception =
    invalid_argument string
  | logic_error string

section \<open>Collections of facts\<close>

named_theorems predex_inv \<open>preservation of the components' invariants\<close>
named_theorems predex_frame \<open>what an operation leaves unchanged\<close>

section \<open>Words\<close>

lemma unat_add_no_wrap:
  fixes a b :: "'a::len word"
  assumes "unat a + unat b < 2 ^ LENGTH('a)"
  shows "unat (a + b) = unat a + unat b"
  using assms by (simp add: unat_word_ariths)

lemma unat_Suc_no_wrap:
  fixes a b :: "'a::len word"
  assumes "a \<noteq> b" and "unat a \<le> unat b"
  shows "unat (a + 1) = Suc (unat a)"
proof -
  have "unat a \<noteq> unat b" using assms(1) by (simp add: word_unat_eq_iff)
  with assms(2) have "unat a < unat b" by simp
  moreover have "unat b < 2 ^ LENGTH('a)" by (rule unsigned_less)
  ultimately have "Suc (unat a) < 2 ^ LENGTH('a)" by linarith
  then show ?thesis by (simp add: unat_word_ariths)
qed

lemma word_less_succ:
  fixes w :: "'a::len word"
  assumes "w + 1 \<noteq> 0"
  shows "w < w + 1"
proof -
  have "1 + w \<noteq> 0" using assms by (simp add: add.commute)
  then have "unat (1 + w) = Suc (unat w)" by (rule unatSuc)
  then show ?thesis by (simp add: word_less_nat_alt add.commute)
qed

lemma unat_max_word: "unat (- 1 :: 'a::len word) = 2 ^ LENGTH('a) - 1"
  by (simp add: unsigned_minus_1_eq_mask mask_eq_exp_minus_1)

lemma word_of_nat_unat: "of_nat (unat w) = w"
  by simp

lemma unat_u32_less: "unat (w :: u32) < 4294967296"
proof -
  have "unat w < 2 ^ LENGTH(32)" by (rule unsigned_less)
  then show ?thesis by simp
qed

lemma unat_u64_less: "unat (w :: u64) < 18446744073709551616"
proof -
  have "unat w < 2 ^ LENGTH(64)" by (rule unsigned_less)
  then show ?thesis by simp
qed

lemma sint_small_u64:
  assumes "unat (w :: u64) < 2 ^ 63"
  shows "sint w = int (unat w)"
proof -
  have "int (unat w) < int (2 ^ 63)" using assms by (simp only: of_nat_less_iff)
  then have "uint w < 2 ^ 63" by (simp only: uint_nat of_nat_power of_nat_numeral)
  moreover have "- (2 ^ 63) \<le> uint w" by (rule order_trans [OF _ uint_ge_0]) simp
  ultimately have "signed_take_bit 63 (uint w) = uint w"
    by (intro signed_take_bit_int_eq_self)
  then show ?thesis by (simp add: sint_uint)
qed

lemma unat_and_mask:
  fixes w :: "'a::len word"
  assumes "k < LENGTH('a)"
  shows "unat (w AND (2 ^ k - 1)) = unat w mod 2 ^ k"
proof -
  have "w AND (2 ^ k - 1) = take_bit k w"
    by (simp add: take_bit_eq_mask mask_eq_exp_minus_1)
  moreover have "unat (take_bit k w) = take_bit k (unat w)"
    by (simp add: unsigned_take_bit_eq)
  ultimately show ?thesis by (simp add: take_bit_eq_mod)
qed

lemma unat_add_of_nat_mod:
  fixes h :: "'a::len word"
  assumes "k \<le> LENGTH('a)"
  shows "unat (h + of_nat i) mod 2 ^ k = (unat h + i) mod 2 ^ k"
proof -
  have dvd: "(2::nat) ^ k dvd 2 ^ LENGTH('a)" using assms by (simp add: le_imp_power_dvd)
  have "unat (h + of_nat i) = (unat h + i) mod 2 ^ LENGTH('a)"
    by (simp add: unat_word_ariths unat_of_nat mod_add_right_eq)
  then show ?thesis using dvd by (simp add: mod_mod_cancel)
qed

lemma add_mod_inj:
  fixes h i j n :: nat
  assumes "(h + i) mod n = (h + j) mod n" and "i < n" and "j < n"
  shows "i = j"
proof -
  have "i mod n = j mod n"
  proof -
    have "int (h + i) mod int n = int (h + j) mod int n"
      using assms(1) by (metis zmod_int)
    then have "int n dvd int (h + i) - int (h + j)" by (simp add: mod_eq_dvd_iff)
    then have "int n dvd int i - int j" by simp
    then have "int i mod int n = int j mod int n" by (simp add: mod_eq_dvd_iff)
    then show ?thesis by (metis nat_int of_nat_mod)
  qed
  with assms(2,3) show ?thesis by simp
qed

text \<open>The power-of-two test \<open>c & (c - 1)\<close>.\<close>

lemma nat_and_pred_0:
  fixes n :: nat
  assumes "0 < n" and "n AND (n - 1) = 0"
  shows "\<exists>k. n = 2 ^ k"
  using assms
proof (induction n rule: less_induct)
  case (less n)
  have split: "n AND (n - 1) = of_bool (odd n \<and> odd (n - 1)) + 2 * ((n div 2) AND ((n - 1) div 2))"
    by (rule and_rec)
  show ?case
  proof (cases "odd n")
    case True
    then have "(n - 1) div 2 = n div 2" by presburger
    with split less.prems have "n div 2 = 0" by simp
    with True have "n = 1" by presburger
    then have "n = 2 ^ 0" by simp
    then show ?thesis ..
  next
    case False
    then have half: "(n - 1) div 2 = n div 2 - 1" and pos: "0 < n div 2" and lt: "n div 2 < n"
      using less.prems(1) by presburger+
    have "n div 2 AND (n div 2 - 1) = 0" using split less.prems(2) False half by simp
    with less.IH [OF lt pos] obtain k where "n div 2 = 2 ^ k" by blast
    with False have "n = 2 ^ Suc k" by auto
    then show ?thesis ..
  qed
qed

lemma word_and_pred_0:
  fixes c :: "'a::len word"
  assumes "c \<noteq> 0" and "c AND (c - 1) = 0"
  shows "\<exists>k < LENGTH('a). c = 2 ^ k \<and> unat c = 2 ^ k"
proof -
  have pos: "0 < unat c" using assms(1) by (simp add: unat_gt_0)
  have "unat (c AND (c - 1)) = unat c AND (unat c - 1)"
    using assms(1) by (simp add: unsigned_and_eq unat_minus_one)
  with assms(2) have "unat c AND (unat c - 1) = 0" by simp
  with nat_and_pred_0 [OF pos] obtain k where k: "unat c = 2 ^ k" by blast
  have "unat c < 2 ^ LENGTH('a)" by (rule unsigned_less)
  with k have "(2::nat) ^ k < 2 ^ LENGTH('a)" by (simp only:)
  then have "k < LENGTH('a)" by (rule power_less_imp_less_exp [rotated]) simp
  moreover have "c = of_nat (2 ^ k)" unfolding k [symmetric] by simp
  ultimately show ?thesis using k by auto
qed

section \<open>Lists and options\<close>

lemma nth_list_update_if:
  "i < length xs \<Longrightarrow> xs[i := v] ! j = (if i = j then v else xs ! j)"
  by simp

lemma list_update_same_conv_nth:
  "i < length xs \<Longrightarrow> xs ! i = v \<Longrightarrow> xs[i := v] = xs"
  by (metis list_update_id)

lemma list_all_list_update: "list_all P xs \<Longrightarrow> P x \<Longrightarrow> list_all P (xs[i := x])"
  using set_update_subset_insert [of xs i x] by (auto simp: list_all_iff)

lemma replicate_two: "replicate 2 x = [x, x]"
  by (simp add: numeral_2_eq_2)

text \<open>Access to a \<open>std::vector\<close> behind a bounds test.\<close>

definition nth_opt :: "'a list \<Rightarrow> nat \<Rightarrow> 'a option" where
  "nth_opt xs i = (if i < length xs then Some (xs ! i) else None)"

lemma nth_opt_Some [simp]: "nth_opt xs i = Some x \<longleftrightarrow> i < length xs \<and> xs ! i = x"
  by (auto simp: nth_opt_def)

lemma nth_opt_None [simp]: "nth_opt xs i = None \<longleftrightarrow> length xs \<le> i"
  by (auto simp: nth_opt_def)

section \<open>Unordered maps\<close>

type_synonym ('k, 'v) umap = "('k \<times> 'v) list"

definition um_find :: "('k, 'v) umap \<Rightarrow> 'k \<Rightarrow> 'v option" where
  "um_find m k = map_of m k"

text \<open>\<open>m[k] = v\<close>\<close>

definition um_assign :: "'k \<Rightarrow> 'v \<Rightarrow> ('k, 'v) umap \<Rightarrow> ('k, 'v) umap" where
  "um_assign k v m = AList.update k v m"

text \<open>\<open>m.emplace(k, v)\<close>: the new map and whether the element was inserted.\<close>

definition um_emplace :: "'k \<Rightarrow> 'v \<Rightarrow> ('k, 'v) umap \<Rightarrow> ('k, 'v) umap \<times> bool" where
  "um_emplace k v m = (case um_find m k of None \<Rightarrow> (m @ [(k, v)], True) | Some _ \<Rightarrow> (m, False))"

definition um_erase :: "'k \<Rightarrow> ('k, 'v) umap \<Rightarrow> ('k, 'v) umap" where
  "um_erase k m = AList.delete k m"

definition um_wf :: "('k, 'v) umap \<Rightarrow> bool" where
  "um_wf m \<longleftrightarrow> distinct (map fst m)"

text \<open>The dictionary interface the components rely on, and the laws they use.\<close>

locale dictionary =
  fixes empty :: 'm
    and find :: "'m \<Rightarrow> 'k \<Rightarrow> 'v option"
    and assign :: "'k \<Rightarrow> 'v \<Rightarrow> 'm \<Rightarrow> 'm"
    and emplace :: "'k \<Rightarrow> 'v \<Rightarrow> 'm \<Rightarrow> 'm \<times> bool"
    and erase :: "'k \<Rightarrow> 'm \<Rightarrow> 'm"
    and wf :: "'m \<Rightarrow> bool"
  assumes find_empty: "find empty = (\<lambda>_. None)"
    and find_assign: "find (assign k v m) = (find m)(k \<mapsto> v)"
    and find_erase: "find (erase k m) = (find m)(k := None)"
    and find_emplace_new: "find m k = None \<Longrightarrow> find (fst (emplace k v m)) = (find m)(k \<mapsto> v)"
    and emplace_old: "find m k = Some v' \<Longrightarrow> emplace k v m = (m, False)"
    and emplace_inserted: "snd (emplace k v m) \<longleftrightarrow> find m k = None"
    and wf_empty: "wf empty"
    and wf_assign: "wf m \<Longrightarrow> wf (assign k v m)"
    and wf_emplace: "wf m \<Longrightarrow> wf (fst (emplace k v m))"
    and wf_erase: "wf m \<Longrightarrow> wf (erase k m)"
begin

lemma dom_assign: "dom (find (assign k v m)) = insert k (dom (find m))"
  by (auto simp: find_assign)

lemma dom_erase: "dom (find (erase k m)) = dom (find m) - {k}"
  by (auto simp: find_erase split: if_splits)

lemma find_emplace: "find (fst (emplace k v m)) k' =
    (if k' = k \<and> find m k = None then Some v else find m k')"
  by (cases "find m k") (auto simp: find_emplace_new emplace_old)

lemma emplace_erase_cancel:
  assumes "find m k = None"
  shows "find (erase k (fst (emplace k v m))) = find m"
  using assms by (auto simp: find_erase find_emplace_new)

end

interpretation um: dictionary "[]" um_find um_assign um_emplace um_erase um_wf
proof (unfold_locales, goal_cases)
  case 1
  show ?case by (simp add: um_find_def fun_eq_iff)
next
  case (2 k v m)
  show ?case by (simp add: um_find_def um_assign_def update_conv' fun_eq_iff)
next
  case (3 k m)
  show ?case by (simp add: um_find_def um_erase_def delete_conv' fun_eq_iff)
next
  case (4 m k v)
  then show ?case
    by (auto simp: um_find_def um_emplace_def fun_eq_iff map_add_def split: option.splits)
next
  case (5 m k v' v)
  then show ?case by (simp add: um_emplace_def)
next
  case (6 k v m)
  show ?case by (simp add: um_emplace_def split: option.splits)
next
  case 7
  show ?case by (simp add: um_wf_def)
next
  case (8 m k v)
  then show ?case by (simp add: um_wf_def um_assign_def distinct_update)
next
  case (9 m k v)
  then show ?case
    by (auto simp: um_wf_def um_emplace_def um_find_def map_of_eq_None_iff split: option.splits)
next
  case (10 m k)
  then show ?case by (simp add: um_wf_def um_erase_def distinct_delete)
qed

lemma um_find_in_set: "um_find m k = Some v \<Longrightarrow> (k, v) \<in> set m"
  by (simp add: um_find_def map_of_SomeD)

lemma um_find_eq: "um_wf m \<Longrightarrow> (k, v) \<in> set m \<Longrightarrow> um_find m k = Some v"
  by (simp add: um_find_def um_wf_def)

lemma um_find_None_iff: "um_find m k = None \<longleftrightarrow> k \<notin> fst ` set m"
  by (simp add: um_find_def map_of_eq_None_iff)

lemma um_wf_Cons: "um_wf ((k, v) # m) \<longleftrightarrow> k \<notin> fst ` set m \<and> um_wf m"
  by (auto simp: um_wf_def)

lemma um_find_append:
  "um_find (m @ n) k = (case um_find m k of None \<Rightarrow> um_find n k | Some v \<Rightarrow> Some v)"
  by (induction m) (auto simp: um_find_def)

lemma um_find_const: "um_find (map (\<lambda>x. (x, v)) xs) k = (if k \<in> set xs then Some v else None)"
  by (induction xs) (auto simp: um_find_def)

text \<open>Rewriting every value, as a loop \<open>for (auto& [k, v] : m)\<close> does.\<close>

definition um_map_values :: "('k \<Rightarrow> 'v \<Rightarrow> 'v) \<Rightarrow> ('k, 'v) umap \<Rightarrow> ('k, 'v) umap" where
  "um_map_values f m = map (\<lambda>(k, v). (k, f k v)) m"

lemma um_find_map_values: "um_find (um_map_values f m) k = map_option (f k) (um_find m k)"
  by (induction m) (auto simp: um_map_values_def um_find_def)

lemma um_wf_map_values [simp]: "um_wf (um_map_values f m) = um_wf m"
  by (simp add: um_wf_def um_map_values_def case_prod_beta comp_def)

section \<open>Runs of deterministic components\<close>

text \<open>A component whose operations are a function \<open>step\<close> on its state, with an invariant, for inputs the
  caller promises to be well-formed.\<close>

locale guarded_machine =
  fixes step :: "'op \<Rightarrow> 's \<Rightarrow> 's"
    and invar :: "'s \<Rightarrow> bool"
    and ok :: "'op \<Rightarrow> bool"
  assumes step_invar: "invar s \<Longrightarrow> ok x \<Longrightarrow> invar (step x s)"
begin

lemma run_invar: "invar s \<Longrightarrow> list_all ok xs \<Longrightarrow> invar (fold step xs s)"
  by (induction xs arbitrary: s) (simp_all add: step_invar)

lemma run_mono:
  assumes mono: "\<And>s x. invar s \<Longrightarrow> ok x \<Longrightarrow> R s (step x s)"
    and refl: "\<And>s. R s s" and trans: "\<And>a b c. R a b \<Longrightarrow> R b c \<Longrightarrow> R a c"
  shows "invar s \<Longrightarrow> list_all ok xs \<Longrightarrow> R s (fold step xs s)"
proof (induction xs arbitrary: s)
  case Nil
  then show ?case by (simp add: refl)
next
  case (Cons x xs)
  then have "R s (step x s)" and "R (step x s) (fold step xs (step x s))"
    by (simp_all add: mono step_invar)
  then show ?case using trans by simp
qed

end

text \<open>A machine that implements an abstract one: the abstraction commutes with every step, hence with
  every run.\<close>

locale functional_refinement = guarded_machine step invar ok
  for step :: "'op \<Rightarrow> 's \<Rightarrow> 's" and invar :: "'s \<Rightarrow> bool" and ok :: "'op \<Rightarrow> bool" +
  fixes abs :: "'s \<Rightarrow> 'a"
    and spec :: "'op \<Rightarrow> 'a \<Rightarrow> 'a"
  assumes step_refines: "invar s \<Longrightarrow> ok x \<Longrightarrow> abs (step x s) = spec x (abs s)"
begin

lemma run_refines: "invar s \<Longrightarrow> list_all ok xs \<Longrightarrow> abs (fold step xs s) = fold spec xs (abs s)"
  by (induction xs arbitrary: s) (simp_all add: step_invar step_refines)

end

end
