(* ===== verification/Bounded_Queue.thy ===== *)
theory Bounded_Queue
  imports Prelude
begin

text \<open>
  The contract every component relies on when it talks to another one: a bounded first-in
  first-out queue whose \<open>try_push\<close> fails, without any effect, exactly when the queue is full.
  The locale \<open>bounded_fifo\<close> states it; \<open>bqueue\<close>, a capacity and a list, is its canonical model
  and the view of \<open>utils::SPSCQueue\<close> that the component models use. The ring buffer of
  \<open>cpp/include/predex/utils/spsc.hpp\<close> is shown to satisfy the same contract in \<open>Spsc_Queue\<close>.
\<close>

section \<open>The interface\<close>

primrec push_all :: "('a \<Rightarrow> 'q \<Rightarrow> 'q \<times> bool) \<Rightarrow> 'a list \<Rightarrow> 'q \<Rightarrow> 'q \<times> bool list" where
  "push_all push [] q = (q, [])"
| "push_all push (x # xs) q =
     (let (q1, ok) = push x q; (q2, oks) = push_all push xs q1 in (q2, ok # oks))"

primrec pop_n :: "('q \<Rightarrow> 'q \<times> 'a option) \<Rightarrow> nat \<Rightarrow> 'q \<Rightarrow> 'q \<times> 'a list" where
  "pop_n pop 0 q = (q, [])"
| "pop_n pop (Suc n) q =
     (case pop q of (q1, None) \<Rightarrow> (q1, [])
      | (q1, Some x) \<Rightarrow> (let (q2, xs) = pop_n pop n q1 in (q2, x # xs)))"

locale bounded_fifo =
  fixes push :: "'a \<Rightarrow> 'q \<Rightarrow> 'q \<times> bool"
    and pop :: "'q \<Rightarrow> 'q \<times> 'a option"
    and items :: "'q \<Rightarrow> 'a list"
    and cap :: "'q \<Rightarrow> nat"
    and invar :: "'q \<Rightarrow> bool"
  assumes push_room: "invar q \<Longrightarrow> length (items q) < cap q \<Longrightarrow>
      snd (push x q) \<and> items (fst (push x q)) = items q @ [x]"
    and push_full: "invar q \<Longrightarrow> length (items q) = cap q \<Longrightarrow>
      \<not> snd (push x q) \<and> items (fst (push x q)) = items q"
    and pop_empty: "invar q \<Longrightarrow> items q = [] \<Longrightarrow>
      snd (pop q) = None \<and> items (fst (pop q)) = []"
    and pop_item: "invar q \<Longrightarrow> items q = x # xs \<Longrightarrow>
      snd (pop q) = Some x \<and> items (fst (pop q)) = xs"
    and items_le_cap: "invar q \<Longrightarrow> length (items q) \<le> cap q"
    and cap_push: "cap (fst (push x q)) = cap q"
    and cap_pop: "cap (fst (pop q)) = cap q"
    and invar_push: "invar q \<Longrightarrow> invar (fst (push x q))"
    and invar_pop: "invar q \<Longrightarrow> invar (fst (pop q))"
begin

lemma push_result_iff: "invar q \<Longrightarrow> snd (push x q) \<longleftrightarrow> length (items q) < cap q"
  using push_room push_full items_le_cap by (metis le_neq_implies_less less_irrefl)

lemma push_items:
  "invar q \<Longrightarrow> items (fst (push x q)) = (if length (items q) < cap q then items q @ [x] else items q)"
  using push_room push_full items_le_cap by (metis le_neq_implies_less)

lemma push_all_fits:
  assumes "invar q" and "length (items q) + length xs \<le> cap q"
  shows "items (fst (push_all push xs q)) = items q @ xs
    \<and> list_all id (snd (push_all push xs q)) \<and> invar (fst (push_all push xs q))"
  using assms
proof (induction xs arbitrary: q)
  case Nil
  then show ?case by simp
next
  case (Cons x xs)
  obtain q1 ok where p: "push x q = (q1, ok)" by fastforce
  have room: "ok \<and> items q1 = items q @ [x]" and inv: "invar q1" and c: "cap q1 = cap q"
    using push_room [of q x] invar_push [of q x] cap_push [of x q] Cons.prems p by auto
  have "length (items q1) + length xs \<le> cap q1" using room c Cons.prems(2) by simp
  from Cons.IH [OF inv this] room show ?case
    by (simp add: p case_prod_beta)
qed

lemma pop_n_items:
  assumes "invar q"
  shows "snd (pop_n pop n q) = take n (items q)
    \<and> items (fst (pop_n pop n q)) = drop n (items q) \<and> invar (fst (pop_n pop n q))"
  using assms
proof (induction n arbitrary: q)
  case 0
  then show ?case by simp
next
  case (Suc n)
  obtain q1 r where p: "pop q = (q1, r)" by fastforce
  have inv: "invar q1" using invar_pop [OF Suc.prems] p by simp
  show ?case
  proof (cases "items q")
    case Nil
    then have "r = None" "items q1 = []" using pop_empty [OF Suc.prems] p by auto
    with Nil inv show ?thesis by (simp add: p)
  next
    case (Cons x xs)
    then have "r = Some x" "items q1 = xs" using pop_item [OF Suc.prems] p by auto
    with Cons Suc.IH [OF inv] show ?thesis by (simp add: p case_prod_beta)
  qed
qed

lemma fifo_roundtrip:
  assumes "invar q" and "items q = []" and "length xs \<le> cap q"
  shows "snd (pop_n pop (length xs) (fst (push_all push xs q))) = xs"
  using push_all_fits [of q xs] pop_n_items [of "fst (push_all push xs q)" "length xs"] assms
  by simp

end

section \<open>The list model\<close>

record 'a bqueue =
  bq_capacity :: nat
  bq_items :: "'a list"

definition bq_push :: "'a \<Rightarrow> 'a bqueue \<Rightarrow> 'a bqueue \<times> bool" where
  "bq_push x q =
     (if length (bq_items q) < bq_capacity q
      then (q\<lparr>bq_items := bq_items q @ [x]\<rparr>, True) else (q, False))"

definition bq_pop :: "'a bqueue \<Rightarrow> 'a bqueue \<times> 'a option" where
  "bq_pop q = (case bq_items q of [] \<Rightarrow> (q, None) | x # xs \<Rightarrow> (q\<lparr>bq_items := xs\<rparr>, Some x))"

definition bq_size :: "'a bqueue \<Rightarrow> nat" where
  "bq_size q = length (bq_items q)"

definition bq_wf :: "'a bqueue \<Rightarrow> bool" where
  "bq_wf q \<longleftrightarrow> length (bq_items q) \<le> bq_capacity q"

interpretation lq: bounded_fifo bq_push bq_pop bq_items bq_capacity bq_wf
  by unfold_locales (auto simp: bq_push_def bq_pop_def bq_wf_def split: list.splits)

lemma bq_push_cases:
  obtains (sent) "bq_push x q = (q\<lparr>bq_items := bq_items q @ [x]\<rparr>, True)"
      "length (bq_items q) < bq_capacity q"
    | (full) "bq_push x q = (q, False)" "\<not> length (bq_items q) < bq_capacity q"
  by (cases "length (bq_items q) < bq_capacity q") (simp_all add: bq_push_def)

lemma bq_push_False: "bq_push x q = (q', False) \<Longrightarrow> q' = q"
  by (simp add: bq_push_def split: if_splits)

lemma bq_push_True:
  "bq_push x q = (q', True) \<Longrightarrow> bq_items q' = bq_items q @ [x] \<and> bq_capacity q' = bq_capacity q"
  by (auto simp: bq_push_def split: if_splits)

text \<open>A queue behind a pointer: pushing through a null pointer fails.\<close>

definition ptr_push :: "'a \<Rightarrow> 'a bqueue option \<Rightarrow> 'a bqueue option \<times> bool" where
  "ptr_push x p = (case p of None \<Rightarrow> (None, False)
     | Some q \<Rightarrow> (let (q', ok) = bq_push x q in (Some q', ok)))"

definition ptr_items :: "'a bqueue option \<Rightarrow> 'a list" where
  "ptr_items p = (case p of None \<Rightarrow> [] | Some q \<Rightarrow> bq_items q)"

lemma ptr_push_items:
  "ptr_items (fst (ptr_push x p)) = (if snd (ptr_push x p) then ptr_items p @ [x] else ptr_items p)"
  by (auto simp: ptr_push_def ptr_items_def bq_push_def split: option.splits)

lemma ptr_push_None [simp]: "ptr_push x None = (None, False)"
  by (simp add: ptr_push_def)

lemma ptr_push_failed: "ptr_push x p = (p', False) \<Longrightarrow> p' = p"
  by (auto simp: ptr_push_def bq_push_def split: option.splits if_splits)

end
