(* ===== verification/Spsc_Queue.thy ===== *)
theory Spsc_Queue
  imports Bounded_Queue
begin

text \<open>
  The lock-free single-producer single-consumer ring of
  \<open>cpp/include/predex/utils/spsc.hpp\<close>. The record \<open>spsc\<close> has the class's members; a buffer slot
  is \<open>None\<close> while it is raw storage and \<open>Some x\<close> while an object is constructed in it, so reading
  raw storage and constructing over a live object are visible in the model.

  \<open>try_emplace\<close> and \<open>try_pop\<close> are the two operations run without interference. The step relation
  \<open>spsc_step\<close> splits each into its atomic parts (the index check with its acquire load, the access
  to the slot, the release store) and interleaves the producer and the consumer in every way. An
  acquire load may return any value stored since the last one that thread saw, so stale reads are
  covered.
\<close>

section \<open>State and operations\<close>

record 'a spsc =
  q_capacity :: u64
  q_mask :: u64
  q_tail :: u64                  \<comment> \<open>\<open>tail_.v\<close>\<close>
  q_head :: u64                  \<comment> \<open>\<open>head_.v\<close>\<close>
  consumer_head :: u64
  consumer_cached_tail :: u64
  producer_tail :: u64
  producer_cached_head :: u64
  q_buffer :: "'a option list"

definition spsc_make :: "u64 \<Rightarrow> cpp_exception + 'a spsc" where
  "spsc_make capacity =
     (if capacity = 0 \<or> capacity AND (capacity - 1) \<noteq> 0
      then Inl (invalid_argument ''Capacity must be a power of 2 and greater than 0'')
      else Inr \<lparr>q_capacity = capacity, q_mask = capacity - 1, q_tail = 0, q_head = 0,
                consumer_head = 0, consumer_cached_tail = 0, producer_tail = 0,
                producer_cached_head = 0, q_buffer = replicate (unat capacity) None\<rparr>)"

definition slot_index :: "'a spsc \<Rightarrow> u64 \<Rightarrow> nat" where
  "slot_index q i = unat (i AND q_mask q)"

definition try_emplace :: "'a \<Rightarrow> 'a spsc \<Rightarrow> 'a spsc \<times> bool" where
  "try_emplace x q =
     (let tail = producer_tail q;
          q1 = (if tail - producer_cached_head q = q_capacity q
                then q\<lparr>producer_cached_head := q_head q\<rparr> else q)
      in if tail - producer_cached_head q1 = q_capacity q1 then (q1, False)
         else (q1\<lparr>q_buffer := (q_buffer q1)[slot_index q1 tail := Some x],
                  producer_tail := tail + 1, q_tail := tail + 1\<rparr>, True))"

text \<open>What \<open>try_pop\<close> hands out: nothing, an item, or the contents of raw storage (which would be
  undefined behaviour).\<close>

datatype 'a pop_result = PopEmpty | PopItem 'a | PopRaw

definition read_slot :: "'a spsc \<Rightarrow> u64 \<Rightarrow> 'a pop_result" where
  "read_slot q i =
     (case nth_opt (q_buffer q) (slot_index q i) of Some (Some x) \<Rightarrow> PopItem x | _ \<Rightarrow> PopRaw)"

definition try_pop :: "'a spsc \<Rightarrow> 'a spsc \<times> 'a pop_result" where
  "try_pop q =
     (let head = consumer_head q;
          q1 = (if head = consumer_cached_tail q
                then q\<lparr>consumer_cached_tail := q_tail q\<rparr> else q)
      in if head = consumer_cached_tail q1 then (q1, PopEmpty)
         else (q1\<lparr>q_buffer := (q_buffer q1)[slot_index q1 head := None],
                  consumer_head := head + 1, q_head := head + 1\<rparr>, read_slot q1 head))"

definition spsc_capacity :: "'a spsc \<Rightarrow> u64" where
  "spsc_capacity q = q_capacity q"

definition producer_size :: "'a spsc \<Rightarrow> u64" where
  "producer_size q = producer_tail q - q_head q"

text \<open>The destructor destroys the objects between head and tail: the slots it visits, by at most
  \<open>capacity\<close> iterations of its loop.\<close>

fun destroy_range :: "nat \<Rightarrow> 'a spsc \<Rightarrow> u64 \<Rightarrow> u64 \<Rightarrow> 'a option list option" where
  "destroy_range 0 q cur tail = (if cur = tail then Some (q_buffer q) else None)"
| "destroy_range (Suc n) q cur tail =
     (if cur = tail then Some (q_buffer q)
      else destroy_range n (q\<lparr>q_buffer := (q_buffer q)[slot_index q cur := None]\<rparr>) (cur + 1) tail)"

definition spsc_destroy :: "'a spsc \<Rightarrow> 'a option list option" where
  "spsc_destroy q = destroy_range (unat (q_capacity q)) q (q_head q) (q_tail q)"

section \<open>Ring arithmetic\<close>

definition ring_shape :: "'a spsc \<Rightarrow> nat \<Rightarrow> bool" where
  "ring_shape q k \<longleftrightarrow> k < 64 \<and> q_capacity q = 2 ^ k \<and> q_mask q = 2 ^ k - 1
     \<and> length (q_buffer q) = 2 ^ k"

lemma ring_cap_less: "ring_shape q k \<Longrightarrow> (2::nat) ^ k < 2 ^ 64"
  by (metis power_strict_increasing_iff ring_shape_def one_less_numeral_iff semiring_norm(76))

lemma ring_shape_cap:
  assumes "ring_shape q k"
  shows "unat (q_capacity q) = 2 ^ k"
proof -
  have "q_capacity q = of_nat (2 ^ k)" using assms by (simp add: ring_shape_def)
  then have "unat (q_capacity q) = unat (of_nat (2 ^ k) :: u64)" by (simp only:)
  also have "\<dots> = 2 ^ k mod 2 ^ 64" by (subst unat_of_nat) simp
  also have "\<dots> = 2 ^ k" using ring_cap_less [OF assms] by (rule mod_less)
  finally show ?thesis .
qed

lemma slot_index_mod:
  assumes "ring_shape q k"
  shows "slot_index q (h + of_nat i) = (unat h + i) mod 2 ^ k"
proof -
  have "slot_index q (h + of_nat i) = unat (h + of_nat i) mod 2 ^ k"
    using assms by (simp add: ring_shape_def slot_index_def unat_and_mask)
  also have "\<dots> = (unat h + i) mod 2 ^ k"
    using assms by (intro unat_add_of_nat_mod) (simp add: ring_shape_def)
  finally show ?thesis .
qed

lemma slot_index_less: "ring_shape q k \<Longrightarrow> slot_index q h < length (q_buffer q)"
  using slot_index_mod [of q k h 0] by (simp add: ring_shape_def)

lemma slot_index_inj:
  assumes "ring_shape q k" and "i < 2 ^ k" and "j < 2 ^ k"
  shows "slot_index q (h + of_nat i) = slot_index q (h + of_nat j) \<longleftrightarrow> i = j"
  using assms add_mod_inj [of "unat h" i "2 ^ k" j] by (auto simp: slot_index_mod)

lemma slot_index_cong [simp]:
  "slot_index (q\<lparr>q_buffer := b\<rparr>) = slot_index q"
  "slot_index (q\<lparr>producer_cached_head := w\<rparr>) = slot_index q"
  "slot_index (q\<lparr>consumer_cached_tail := w\<rparr>) = slot_index q"
  "slot_index (q\<lparr>producer_tail := w\<rparr>) = slot_index q"
  "slot_index (q\<lparr>consumer_head := w\<rparr>) = slot_index q"
  "slot_index (q\<lparr>q_tail := w\<rparr>) = slot_index q"
  "slot_index (q\<lparr>q_head := w\<rparr>) = slot_index q"
  by (simp_all add: slot_index_def fun_eq_iff)

lemma ring_shape_cong [simp]:
  "ring_shape (q\<lparr>producer_cached_head := w\<rparr>) k = ring_shape q k"
  "ring_shape (q\<lparr>consumer_cached_tail := w\<rparr>) k = ring_shape q k"
  "ring_shape (q\<lparr>producer_tail := w\<rparr>) k = ring_shape q k"
  "ring_shape (q\<lparr>consumer_head := w\<rparr>) k = ring_shape q k"
  "ring_shape (q\<lparr>q_tail := w\<rparr>) k = ring_shape q k"
  "ring_shape (q\<lparr>q_head := w\<rparr>) k = ring_shape q k"
  "ring_shape (q\<lparr>q_buffer := (q_buffer q)[i := x]\<rparr>) k = ring_shape q k"
  by (simp_all add: ring_shape_def)

text \<open>Distances along the ring of indices, which run modulo \<open>2 ^ 64\<close>.\<close>

definition dist :: "u64 \<Rightarrow> u64 \<Rightarrow> nat" where
  "dist a b = unat (b - a)"

lemma dist_self [simp]: "dist a a = 0"
  by (simp add: dist_def)

lemma dist_0_iff: "dist a b = 0 \<longleftrightarrow> a = b"
  by (auto simp: dist_def unat_eq_0)

lemma dist_split:
  assumes "dist a b \<le> dist a c"
  shows "dist a c = dist a b + dist b c"
proof -
  have "b - a \<le> c - a" using assms by (simp add: dist_def word_le_nat_alt)
  then have "unat ((c - a) - (b - a)) = unat (c - a) - unat (b - a)" by (rule unat_sub)
  then have "unat (c - b) = unat (c - a) - unat (b - a)" by simp
  then show ?thesis using assms by (simp add: dist_def)
qed

lemma dist_shift: "a + of_nat (dist a b) = b"
  by (simp add: dist_def)

lemma dist_Suc_right:
  assumes "dist a b < n" and "n < 2 ^ 64"
  shows "dist a (b + 1) = Suc (dist a b)"
proof -
  have "b + 1 - a = (b - a) + 1" by simp
  moreover have "unat ((b - a) + 1) = unat (b - a) + unat (1 :: u64)"
    using assms by (intro unat_add_no_wrap) (simp add: dist_def)
  ultimately show ?thesis by (simp add: dist_def diff_add_eq)
qed

lemma dist_Suc_left:
  assumes "a \<noteq> b"
  shows "Suc (dist (a + 1) b) = dist a b"
proof -
  have "unat (b - a) \<noteq> 0" using assms by (simp add: unat_eq_0)
  moreover have "b - (a + 1) = (b - a) - 1" by simp
  ultimately show ?thesis
    unfolding dist_def by (metis One_nat_def Suc_pred bot_nat_0.not_eq_extremum unat_minus_one unat_eq_0)
qed

lemma full_iff:
  assumes "ring_shape q k"
  shows "b - a = q_capacity q \<longleftrightarrow> dist a b = 2 ^ k"
  using ring_shape_cap [OF assms] by (metis dist_def word_unat_eq_iff)

section \<open>The ring invariant\<close>

text \<open>
  \<open>ring_inv k q rest pend taken\<close>: the ring has \<open>2 ^ k\<close> slots and holds the items \<open>rest\<close> between
  head and tail. \<open>pend\<close> is an item already constructed at the tail and not yet published;
  \<open>taken\<close> says that the head slot was moved out of and not yet released. Every other slot is raw
  storage, and the two cached indices lie behind the indices they cache.
\<close>

definition expected_slot :: "'a list \<Rightarrow> 'a option \<Rightarrow> bool \<Rightarrow> nat \<Rightarrow> 'a option" where
  "expected_slot rest pend taken i =
     (if i < length rest then (if taken \<and> i = 0 then None else Some (rest ! i))
      else if i = length rest then pend else None)"

definition ring_inv :: "nat \<Rightarrow> 'a spsc \<Rightarrow> 'a list \<Rightarrow> 'a option \<Rightarrow> bool \<Rightarrow> bool" where
  "ring_inv k q rest pend taken \<longleftrightarrow>
     ring_shape q k \<and> producer_tail q = q_tail q \<and> consumer_head q = q_head q
     \<and> length rest = dist (q_head q) (q_tail q) \<and> length rest \<le> 2 ^ k
     \<and> dist (producer_cached_head q) (q_tail q) \<le> 2 ^ k
     \<and> dist (producer_cached_head q) (q_head q) \<le> dist (producer_cached_head q) (q_tail q)
     \<and> dist (q_head q) (consumer_cached_tail q) \<le> length rest
     \<and> (\<forall>i < 2 ^ k. q_buffer q ! slot_index q (q_head q + of_nat i) = expected_slot rest pend taken i)
     \<and> (pend \<noteq> None \<longrightarrow> dist (producer_cached_head q) (q_tail q) < 2 ^ k)
     \<and> (taken \<longrightarrow> q_head q \<noteq> consumer_cached_tail q)"

lemma ring_inv_shape: "ring_inv k q rest pend taken \<Longrightarrow> ring_shape q k"
  by (simp add: ring_inv_def)

lemma ring_inv_slot:
  "ring_inv k q rest pend taken \<Longrightarrow> i < 2 ^ k \<Longrightarrow>
     q_buffer q ! slot_index q (q_head q + of_nat i) = expected_slot rest pend taken i"
  by (simp add: ring_inv_def)

lemma ring_inv_nonempty:
  assumes "ring_inv k q rest pend taken" and "q_head q \<noteq> consumer_cached_tail q"
  shows "rest \<noteq> []"
  using assms dist_0_iff [of "q_head q" "consumer_cached_tail q"] by (auto simp: ring_inv_def)

lemma ring_inv_cached_head:
  assumes "ring_inv k q rest pend taken"
  shows "dist (producer_cached_head q) (q_tail q)
    = dist (producer_cached_head q) (q_head q) + length rest"
  using assms dist_split [of "producer_cached_head q" "q_head q" "q_tail q"]
  by (simp add: ring_inv_def)

text \<open>The acquire loads.\<close>

lemma ring_inv_load_head:
  assumes inv: "ring_inv k q rest None taken"
    and seen: "dist (producer_cached_head q) h \<le> dist (producer_cached_head q) (q_head q)"
  shows "ring_inv k (q\<lparr>producer_cached_head := h\<rparr>) rest None taken"
proof -
  have a: "dist (producer_cached_head q) (q_tail q)
      = dist (producer_cached_head q) h + dist h (q_tail q)"
    using dist_split [of "producer_cached_head q" h "q_tail q"] seen inv by (simp add: ring_inv_def)
  have b: "dist (producer_cached_head q) (q_head q)
      = dist (producer_cached_head q) h + dist h (q_head q)"
    using dist_split [OF seen] .
  from a b inv show ?thesis by (simp add: ring_inv_def)
qed

lemma ring_inv_load_tail:
  assumes "ring_inv k q rest pend False" and "dist (q_head q) t \<le> dist (q_head q) (q_tail q)"
  shows "ring_inv k (q\<lparr>consumer_cached_tail := t\<rparr>) rest pend False"
  using assms by (simp add: ring_inv_def)

text \<open>The producer constructs in the slot at the tail, which is raw, and publishes it.\<close>

lemma ring_inv_construct:
  assumes inv: "ring_inv k q rest None taken"
    and room: "dist (producer_cached_head q) (q_tail q) < 2 ^ k"
  shows "q_buffer q ! slot_index q (q_tail q) = None
    \<and> ring_inv k (q\<lparr>q_buffer := (q_buffer q)[slot_index q (q_tail q) := Some x]\<rparr>) rest (Some x) taken"
proof
  note shape = ring_inv_shape [OF inv]
  have len: "length rest < 2 ^ k" using ring_inv_cached_head [OF inv] room by simp
  have tail: "q_head q + of_nat (length rest) = q_tail q"
    using inv dist_shift [of "q_head q" "q_tail q"] by (simp add: ring_inv_def)
  show "q_buffer q ! slot_index q (q_tail q) = None"
    using ring_inv_slot [OF inv len] by (simp add: tail expected_slot_def)
  have "(q_buffer q)[slot_index q (q_tail q) := Some x] ! slot_index q (q_head q + of_nat i)
      = expected_slot rest (Some x) taken i" if i: "i < 2 ^ k" for i
  proof (cases "i = length rest")
    case True
    then show ?thesis using slot_index_less [OF shape] by (simp add: tail expected_slot_def)
  next
    case False
    then have "slot_index q (q_head q + of_nat i) \<noteq> slot_index q (q_head q + of_nat (length rest))"
      using slot_index_inj [OF shape i len] by simp
    with ring_inv_slot [OF inv i] False show ?thesis
      by (simp add: tail nth_list_update_neq expected_slot_def)
  qed
  with inv room show "ring_inv k (q\<lparr>q_buffer := (q_buffer q)[slot_index q (q_tail q) := Some x]\<rparr>)
      rest (Some x) taken"
    by (simp add: ring_inv_def)
qed

lemma ring_inv_publish_tail:
  assumes inv: "ring_inv k q rest (Some x) taken"
  shows "ring_inv k (q\<lparr>producer_tail := q_tail q + 1, q_tail := q_tail q + 1\<rparr>) (rest @ [x]) None taken"
proof -
  note shape = ring_inv_shape [OF inv]
  have room: "dist (producer_cached_head q) (q_tail q) < 2 ^ k" using inv by (simp add: ring_inv_def)
  have len: "length rest < 2 ^ k" using ring_inv_cached_head [OF inv] room by simp
  have d1: "dist (producer_cached_head q) (q_tail q + 1) = Suc (dist (producer_cached_head q) (q_tail q))"
    by (rule dist_Suc_right [OF room ring_cap_less [OF shape]])
  have d2: "dist (q_head q) (q_tail q + 1) = Suc (length rest)"
    using dist_Suc_right [of "q_head q" "q_tail q" "2 ^ k"] len ring_cap_less [OF shape] inv
    by (simp add: ring_inv_def)
  have "expected_slot (rest @ [x]) None taken i = expected_slot rest (Some x) taken i"
    if "taken \<longrightarrow> rest \<noteq> []" for i
    using that by (auto simp: expected_slot_def nth_append)
  moreover have "taken \<longrightarrow> rest \<noteq> []"
    using ring_inv_nonempty [OF inv] inv by (auto simp: ring_inv_def)
  ultimately show ?thesis using inv room len d1 d2 by (simp add: ring_inv_def)
qed

text \<open>The consumer moves the head item out and releases its slot.\<close>

lemma ring_inv_take:
  assumes inv: "ring_inv k q (x # xs) pend False" and avail: "q_head q \<noteq> consumer_cached_tail q"
  shows "read_slot q (q_head q) = PopItem x
    \<and> ring_inv k (q\<lparr>q_buffer := (q_buffer q)[slot_index q (q_head q) := None]\<rparr>) (x # xs) pend True"
proof
  note shape = ring_inv_shape [OF inv]
  have pos: "(0::nat) < 2 ^ k" by simp
  show "read_slot q (q_head q) = PopItem x"
    using ring_inv_slot [OF inv pos] slot_index_less [OF shape, of "q_head q"]
    by (simp add: read_slot_def expected_slot_def nth_opt_def)
  have "(q_buffer q)[slot_index q (q_head q) := None] ! slot_index q (q_head q + of_nat i)
      = expected_slot (x # xs) pend True i" if i: "i < 2 ^ k" for i
  proof (cases "i = 0")
    case True
    then show ?thesis using slot_index_less [OF shape] by (simp add: expected_slot_def)
  next
    case False
    then have "slot_index q (q_head q + of_nat i) \<noteq> slot_index q (q_head q + of_nat 0)"
      using slot_index_inj [OF shape i pos] by simp
    with ring_inv_slot [OF inv i] False show ?thesis
      by (simp add: nth_list_update_neq expected_slot_def)
  qed
  with inv avail show "ring_inv k (q\<lparr>q_buffer := (q_buffer q)[slot_index q (q_head q) := None]\<rparr>)
      (x # xs) pend True"
    by (simp add: ring_inv_def)
qed

lemma ring_inv_publish_head:
  assumes inv: "ring_inv k q (x # xs) pend True"
  shows "ring_inv k (q\<lparr>consumer_head := q_head q + 1, q_head := q_head q + 1\<rparr>) xs pend False"
proof -
  note shape = ring_inv_shape [OF inv]
  let ?ch = "producer_cached_head q" and ?h = "q_head q"
  have avail: "?h \<noteq> consumer_cached_tail q" using inv by (simp add: ring_inv_def)
  have ht: "?h \<noteq> q_tail q" using inv by (auto simp: ring_inv_def)
  have d1: "Suc (dist (?h + 1) (q_tail q)) = dist ?h (q_tail q)" by (rule dist_Suc_left [OF ht])
  have d2: "Suc (dist (?h + 1) (consumer_cached_tail q)) = dist ?h (consumer_cached_tail q)"
    by (rule dist_Suc_left [OF avail])
  have cht: "dist ?ch (q_tail q) = dist ?ch ?h + Suc (length xs)"
    using ring_inv_cached_head [OF inv] by simp
  then have "dist ?ch ?h < 2 ^ k" using inv by (simp add: ring_inv_def)
  then have d3: "dist ?ch (?h + 1) = Suc (dist ?ch ?h)"
    by (rule dist_Suc_right [OF _ ring_cap_less [OF shape]])
  have slots: "q_buffer q ! slot_index q (?h + 1 + of_nat i) = expected_slot xs pend False i"
    if i: "i < 2 ^ k" for i
  proof (cases "Suc i < 2 ^ k")
    case True
    from ring_inv_slot [OF inv True] show ?thesis by (simp add: expected_slot_def add.assoc)
  next
    case False
    with i have Suci: "Suc i = 2 ^ k" by simp
    have "slot_index q (?h + 1 + of_nat i) = slot_index q (?h + of_nat (Suc i))"
      by (simp add: add.assoc)
    also have "\<dots> = slot_index q (?h + of_nat 0)"
      using slot_index_mod [OF shape, of ?h "Suc i"] slot_index_mod [OF shape, of ?h 0]
      by (simp only: Suci) simp
    finally have "q_buffer q ! slot_index q (?h + 1 + of_nat i) = None"
      using ring_inv_slot [OF inv, of 0] by (simp add: expected_slot_def)
    moreover have "length xs \<le> i" and "i = length xs \<longrightarrow> pend = None"
      using inv Suci cht by (auto simp: ring_inv_def)
    ultimately show ?thesis by (simp add: expected_slot_def)
  qed
  show ?thesis using inv slots d1 d2 d3 cht by (auto simp: ring_inv_def)
qed

section \<open>Run without interference: a bounded queue\<close>

definition spsc_wf :: "'a spsc \<Rightarrow> bool" where
  "spsc_wf q \<longleftrightarrow> (\<exists>k rest. ring_inv k q rest None False)"

definition spsc_items :: "'a spsc \<Rightarrow> 'a list" where
  "spsc_items q = map (\<lambda>i. the (q_buffer q ! slot_index q (q_head q + of_nat i)))
     [0..<dist (q_head q) (q_tail q)]"

definition try_pop_item :: "'a spsc \<Rightarrow> 'a spsc \<times> 'a option" where
  "try_pop_item q = (let (q', r) = try_pop q
     in (q', case r of PopItem x \<Rightarrow> Some x | _ \<Rightarrow> None))"

lemma ring_inv_items:
  assumes "ring_inv k q rest None False"
  shows "spsc_items q = rest"
proof (rule nth_equalityI)
  show "length (spsc_items q) = length rest"
    using assms by (simp add: spsc_items_def ring_inv_def)
  fix i assume "i < length (spsc_items q)"
  then have "i < length rest" "i < 2 ^ k"
    using assms by (auto simp: spsc_items_def ring_inv_def)
  with ring_inv_slot [OF assms] assms show "spsc_items q ! i = rest ! i"
    by (simp add: spsc_items_def ring_inv_def expected_slot_def)
qed

lemma spsc_wfE:
  assumes "spsc_wf q"
  obtains k where "ring_inv k q (spsc_items q) None False"
  using assms ring_inv_items by (auto simp: spsc_wf_def)

lemma try_emplace_spec:
  assumes inv: "ring_inv k q rest None False"
  shows "if length rest < 2 ^ k
    then snd (try_emplace x q) \<and> ring_inv k (fst (try_emplace x q)) (rest @ [x]) None False
    else \<not> snd (try_emplace x q) \<and> ring_inv k (fst (try_emplace x q)) rest None False"
proof -
  note shape = ring_inv_shape [OF inv]
  define q1 where "q1 = (if producer_tail q - producer_cached_head q = q_capacity q
                then q\<lparr>producer_cached_head := q_head q\<rparr> else q)"
  have same: "q_tail q1 = q_tail q" "q_head q1 = q_head q" "q_capacity q1 = q_capacity q"
    by (simp_all add: q1_def)
  have inv1: "ring_inv k q1 rest None False"
    using ring_inv_load_head [OF inv, of "q_head q"] inv by (simp add: q1_def)
  have tail: "producer_tail q = q_tail q" "producer_tail q1 = q_tail q1"
    using inv inv1 by (simp_all add: ring_inv_def)
  have full: "q_tail q1 - producer_cached_head q1 = q_capacity q1 \<longleftrightarrow> \<not> length rest < 2 ^ k"
  proof (cases "producer_tail q - producer_cached_head q = q_capacity q")
    case True
    then have "producer_cached_head q1 = q_head q" by (simp add: q1_def)
    then show ?thesis using full_iff [OF ring_inv_shape [OF inv1]] inv1 same
      by (auto simp: ring_inv_def)
  next
    case False
    then have "dist (producer_cached_head q) (q_tail q) < 2 ^ k"
      using full_iff [OF shape] inv by (simp add: tail ring_inv_def nat_less_le)
    with False ring_inv_cached_head [OF inv] show ?thesis by (simp add: q1_def tail)
  qed
  have try_eq: "try_emplace x q = (if q_tail q1 - producer_cached_head q1 = q_capacity q1 then (q1, False)
      else (q1\<lparr>q_buffer := (q_buffer q1)[slot_index q1 (q_tail q1) := Some x],
               producer_tail := q_tail q1 + 1, q_tail := q_tail q1 + 1\<rparr>, True))"
    by (simp add: try_emplace_def Let_def q1_def tail(1))
  show ?thesis
  proof (cases "length rest < 2 ^ k")
    case False
    with full inv1 show ?thesis by (simp add: try_eq)
  next
    case True
    have "dist (producer_cached_head q1) (q_tail q1) < 2 ^ k"
      using True full full_iff [OF ring_inv_shape [OF inv1]] inv1 by (simp add: ring_inv_def nat_less_le)
    from ring_inv_publish_tail [OF conjunct2 [OF ring_inv_construct [OF inv1 this, of x]]] True full
    show ?thesis by (simp add: try_eq)
  qed
qed

lemma try_pop_spec:
  assumes inv: "ring_inv k q rest None False"
  shows "case rest of
      [] \<Rightarrow> snd (try_pop q) = PopEmpty \<and> ring_inv k (fst (try_pop q)) [] None False
    | x # xs \<Rightarrow> snd (try_pop q) = PopItem x \<and> ring_inv k (fst (try_pop q)) xs None False"
proof -
  define q1 where "q1 = (if consumer_head q = consumer_cached_tail q
                then q\<lparr>consumer_cached_tail := q_tail q\<rparr> else q)"
  have inv1: "ring_inv k q1 rest None False"
    using ring_inv_load_tail [OF inv, of "q_tail q"] inv by (simp add: q1_def)
  have same: "q_head q1 = q_head q" and head: "consumer_head q = q_head q"
    using inv by (simp_all add: q1_def ring_inv_def)
  have empty: "q_head q1 = consumer_cached_tail q1 \<longleftrightarrow> rest = []"
  proof (cases "consumer_head q = consumer_cached_tail q")
    case True
    then have "consumer_cached_tail q1 = q_tail q" by (simp add: q1_def)
    then show ?thesis using inv dist_0_iff [of "q_head q" "q_tail q"] same
      by (auto simp: ring_inv_def)
  next
    case False
    then show ?thesis using ring_inv_nonempty [OF inv] head by (auto simp: q1_def)
  qed
  have try_eq: "try_pop q = (if q_head q1 = consumer_cached_tail q1 then (q1, PopEmpty)
      else (q1\<lparr>q_buffer := (q_buffer q1)[slot_index q1 (q_head q1) := None],
               consumer_head := q_head q1 + 1, q_head := q_head q1 + 1\<rparr>, read_slot q1 (q_head q1)))"
    by (simp add: try_pop_def Let_def q1_def head)
  show ?thesis
  proof (cases rest)
    case Nil
    with empty inv1 show ?thesis by (simp add: try_eq)
  next
    case (Cons x xs)
    with empty have av: "q_head q1 \<noteq> consumer_cached_tail q1" by simp
    note tk = ring_inv_take [OF inv1 [unfolded Cons] av]
    from tk ring_inv_publish_head [OF conjunct2 [OF tk]] Cons av show ?thesis
      by (simp add: try_eq)
  qed
qed

interpretation ring: bounded_fifo try_emplace try_pop_item spsc_items
  "\<lambda>q. unat (q_capacity q)" spsc_wf
proof (unfold_locales, goal_cases)
  case (1 q x)
  then obtain k where k: "ring_inv k q (spsc_items q) None False" by (auto elim: spsc_wfE)
  with 1 show ?case
    using try_emplace_spec [OF k, of x] ring_shape_cap [OF ring_inv_shape [OF k]] ring_inv_items
    by auto
next
  case (2 q x)
  then obtain k where k: "ring_inv k q (spsc_items q) None False" by (auto elim: spsc_wfE)
  with 2 show ?case
    using try_emplace_spec [OF k, of x] ring_shape_cap [OF ring_inv_shape [OF k]] ring_inv_items
    by auto
next
  case (3 q)
  then obtain k where "ring_inv k q [] None False" by (auto elim: spsc_wfE)
  from try_pop_spec [OF this] show ?case
    by (auto simp: try_pop_item_def case_prod_beta intro: ring_inv_items)
next
  case (4 q x xs)
  then obtain k where "ring_inv k q (x # xs) None False" by (auto elim: spsc_wfE)
  from try_pop_spec [OF this] show ?case
    by (auto simp: try_pop_item_def case_prod_beta intro: ring_inv_items)
next
  case (5 q)
  then obtain k where k: "ring_inv k q (spsc_items q) None False" by (auto elim: spsc_wfE)
  then have "length (spsc_items q) \<le> 2 ^ k" by (simp add: ring_inv_def)
  then show ?case using ring_shape_cap [OF ring_inv_shape [OF k]] by simp
next
  case (6 x q)
  show ?case by (simp add: try_emplace_def Let_def)
next
  case (7 q)
  show ?case by (simp add: try_pop_item_def try_pop_def Let_def)
next
  case (8 q x)
  then obtain k where k: "ring_inv k q (spsc_items q) None False" by (auto elim: spsc_wfE)
  from try_emplace_spec [OF k, of x] show ?case by (auto simp: spsc_wf_def split: if_splits)
next
  case (9 q)
  then obtain k where k: "ring_inv k q (spsc_items q) None False" by (auto elim: spsc_wfE)
  from try_pop_spec [OF k] show ?case
    by (auto simp: spsc_wf_def try_pop_item_def case_prod_beta split: list.splits)
qed

lemma spsc_make_wf:
  assumes "spsc_make capacity = Inr q"
  shows "spsc_wf q \<and> spsc_items q = [] \<and> q_capacity q = capacity"
proof -
  have nz: "capacity \<noteq> 0" and pow: "capacity AND (capacity - 1) = 0"
    and q: "q = \<lparr>q_capacity = capacity, q_mask = capacity - 1, q_tail = 0, q_head = 0,
                consumer_head = 0, consumer_cached_tail = 0, producer_tail = 0,
                producer_cached_head = 0, q_buffer = replicate (unat capacity) None\<rparr>"
    using assms by (auto simp: spsc_make_def split: if_splits)
  from word_and_pred_0 [OF nz pow] obtain k where "k < 64" "capacity = 2 ^ k" "unat capacity = 2 ^ k"
    by auto
  then have "ring_shape q k" by (simp add: q ring_shape_def)
  moreover have "q_buffer q ! slot_index q w = None" for w
    using slot_index_less [OF \<open>ring_shape q k\<close>, of w] by (simp add: q)
  ultimately have "ring_inv k q [] None False"
    by (simp add: ring_inv_def) (simp add: q expected_slot_def)
  then show ?thesis using ring_inv_items [of k q "[]"] by (auto simp: spsc_wf_def q)
qed

lemma producer_size_items:
  assumes "spsc_wf q"
  shows "unat (producer_size q) = length (spsc_items q)"
  using assms by (elim spsc_wfE) (simp add: ring_inv_def producer_size_def dist_def)

section \<open>Every interleaving\<close>

datatype 'a producer_pc = PIdle | PReady 'a | PConstructed 'a
datatype 'a consumer_pc = CIdle | CReady | CTaken 'a

record 'a spsc_sys =
  sys_queue :: "'a spsc"
  sys_ppc :: "'a producer_pc"
  sys_cpc :: "'a consumer_pc"
  sys_pushed :: "'a list"      \<comment> \<open>items whose \<open>try_emplace\<close> has returned \<open>true\<close>\<close>
  sys_popped :: "'a list"      \<comment> \<open>items \<open>try_pop\<close> has handed out\<close>
  sys_raw_read :: bool         \<comment> \<open>raw storage was read\<close>
  sys_overwrite :: bool        \<comment> \<open>an object was constructed over a live one\<close>

text \<open>A load of an index returns a value stored since \<open>seen\<close>, the last one this thread saw.\<close>

definition observable :: "u64 \<Rightarrow> u64 \<Rightarrow> u64 \<Rightarrow> bool" where
  "observable seen v current \<longleftrightarrow> dist seen v \<le> dist seen current"

inductive spsc_step :: "'a spsc_sys \<Rightarrow> 'a spsc_sys \<Rightarrow> bool" where
  push_room: "sys_ppc s = PIdle \<Longrightarrow> q = sys_queue s \<Longrightarrow>
     producer_tail q - producer_cached_head q \<noteq> q_capacity q \<Longrightarrow>
     spsc_step s (s\<lparr>sys_ppc := PReady x\<rparr>)"
| push_load_room: "sys_ppc s = PIdle \<Longrightarrow> q = sys_queue s \<Longrightarrow>
     producer_tail q - producer_cached_head q = q_capacity q \<Longrightarrow>
     observable (producer_cached_head q) h (q_head q) \<Longrightarrow>
     producer_tail q - h \<noteq> q_capacity q \<Longrightarrow>
     spsc_step s (s\<lparr>sys_queue := q\<lparr>producer_cached_head := h\<rparr>, sys_ppc := PReady x\<rparr>)"
| push_load_full: "sys_ppc s = PIdle \<Longrightarrow> q = sys_queue s \<Longrightarrow>
     producer_tail q - producer_cached_head q = q_capacity q \<Longrightarrow>
     observable (producer_cached_head q) h (q_head q) \<Longrightarrow>
     producer_tail q - h = q_capacity q \<Longrightarrow>
     spsc_step s (s\<lparr>sys_queue := q\<lparr>producer_cached_head := h\<rparr>\<rparr>)"
| push_construct: "sys_ppc s = PReady x \<Longrightarrow> q = sys_queue s \<Longrightarrow>
     spsc_step s (s\<lparr>sys_queue := q\<lparr>q_buffer := (q_buffer q)[slot_index q (producer_tail q) := Some x]\<rparr>,
       sys_overwrite := (sys_overwrite s \<or> q_buffer q ! slot_index q (producer_tail q) \<noteq> None),
       sys_ppc := PConstructed x\<rparr>)"
| push_publish: "sys_ppc s = PConstructed x \<Longrightarrow> q = sys_queue s \<Longrightarrow>
     spsc_step s (s\<lparr>sys_queue := q\<lparr>producer_tail := producer_tail q + 1, q_tail := producer_tail q + 1\<rparr>,
       sys_pushed := sys_pushed s @ [x], sys_ppc := PIdle\<rparr>)"
| pop_ready: "sys_cpc s = CIdle \<Longrightarrow> q = sys_queue s \<Longrightarrow>
     consumer_head q \<noteq> consumer_cached_tail q \<Longrightarrow>
     spsc_step s (s\<lparr>sys_cpc := CReady\<rparr>)"
| pop_load_ready: "sys_cpc s = CIdle \<Longrightarrow> q = sys_queue s \<Longrightarrow>
     consumer_head q = consumer_cached_tail q \<Longrightarrow>
     observable (consumer_cached_tail q) t (q_tail q) \<Longrightarrow> consumer_head q \<noteq> t \<Longrightarrow>
     spsc_step s (s\<lparr>sys_queue := q\<lparr>consumer_cached_tail := t\<rparr>, sys_cpc := CReady\<rparr>)"
| pop_load_empty: "sys_cpc s = CIdle \<Longrightarrow> q = sys_queue s \<Longrightarrow>
     consumer_head q = consumer_cached_tail q \<Longrightarrow>
     observable (consumer_cached_tail q) t (q_tail q) \<Longrightarrow> consumer_head q = t \<Longrightarrow>
     spsc_step s (s\<lparr>sys_queue := q\<lparr>consumer_cached_tail := t\<rparr>\<rparr>)"
| pop_take: "sys_cpc s = CReady \<Longrightarrow> q = sys_queue s \<Longrightarrow>
     read_slot q (consumer_head q) = PopItem x \<Longrightarrow>
     spsc_step s (s\<lparr>sys_queue := q\<lparr>q_buffer := (q_buffer q)[slot_index q (consumer_head q) := None]\<rparr>,
       sys_cpc := CTaken x\<rparr>)"
| pop_take_raw: "sys_cpc s = CReady \<Longrightarrow> q = sys_queue s \<Longrightarrow>
     read_slot q (consumer_head q) = PopRaw \<Longrightarrow>
     spsc_step s (s\<lparr>sys_raw_read := True\<rparr>)"
| pop_publish: "sys_cpc s = CTaken x \<Longrightarrow> q = sys_queue s \<Longrightarrow>
     spsc_step s (s\<lparr>sys_queue := q\<lparr>consumer_head := consumer_head q + 1, q_head := consumer_head q + 1\<rparr>,
       sys_popped := sys_popped s @ [x], sys_cpc := CIdle\<rparr>)"

definition spsc_init :: "'a spsc \<Rightarrow> 'a spsc_sys" where
  "spsc_init q = \<lparr>sys_queue = q, sys_ppc = PIdle, sys_cpc = CIdle, sys_pushed = [],
     sys_popped = [], sys_raw_read = False, sys_overwrite = False\<rparr>"

inductive spsc_reachable :: "u64 \<Rightarrow> 'a spsc_sys \<Rightarrow> bool" for capacity where
  start: "spsc_make capacity = Inr q \<Longrightarrow> spsc_reachable capacity (spsc_init q)"
| step: "spsc_reachable capacity s \<Longrightarrow> spsc_step s s' \<Longrightarrow> spsc_reachable capacity s'"

definition pending_item :: "'a producer_pc \<Rightarrow> 'a option" where
  "pending_item pc = (case pc of PConstructed x \<Rightarrow> Some x | _ \<Rightarrow> None)"

definition is_taken :: "'a consumer_pc \<Rightarrow> bool" where
  "is_taken pc = (case pc of CTaken _ \<Rightarrow> True | _ \<Rightarrow> False)"

definition spsc_sys_inv :: "nat \<Rightarrow> 'a spsc_sys \<Rightarrow> bool" where
  "spsc_sys_inv k s \<longleftrightarrow> (\<exists>rest.
     ring_inv k (sys_queue s) rest (pending_item (sys_ppc s)) (is_taken (sys_cpc s))
     \<and> sys_pushed s = sys_popped s @ rest
     \<and> (sys_ppc s \<noteq> PIdle \<longrightarrow>
          dist (producer_cached_head (sys_queue s)) (q_tail (sys_queue s)) < 2 ^ k)
     \<and> (sys_cpc s \<noteq> CIdle \<longrightarrow> q_head (sys_queue s) \<noteq> consumer_cached_tail (sys_queue s))
     \<and> (\<forall>x. sys_cpc s = CTaken x \<longrightarrow> rest \<noteq> [] \<and> hd rest = x)
     \<and> \<not> sys_raw_read s \<and> \<not> sys_overwrite s)"

lemmas sys_inv_simps = spsc_sys_inv_def pending_item_def is_taken_def

lemma ring_inv_idx:
  assumes "ring_inv k q rest pend taken"
  shows "producer_tail q = q_tail q" "consumer_head q = q_head q"
  using assms by (simp_all add: ring_inv_def)

lemma ring_inv_not_full:
  assumes "ring_inv k q rest pend taken" and "q_tail q - producer_cached_head q \<noteq> q_capacity q"
  shows "dist (producer_cached_head q) (q_tail q) < 2 ^ k"
  using assms full_iff [OF ring_inv_shape [OF assms(1)]] by (simp add: ring_inv_def nat_less_le)

text \<open>One lemma per group of steps: the producer's and the consumer's.\<close>

lemma producer_step_inv:
  assumes inv: "ring_inv k q rest (pending_item pc) taken"
    and pc: "pc \<noteq> PIdle \<longrightarrow> dist (producer_cached_head q) (q_tail q) < 2 ^ k"
  shows
    "pc = PIdle \<Longrightarrow> producer_tail q - producer_cached_head q \<noteq> q_capacity q \<Longrightarrow>
       dist (producer_cached_head q) (q_tail q) < 2 ^ k"
    "pc = PIdle \<Longrightarrow> observable (producer_cached_head q) h (q_head q) \<Longrightarrow>
       ring_inv k (q\<lparr>producer_cached_head := h\<rparr>) rest None taken
       \<and> (producer_tail q - h \<noteq> q_capacity q \<longrightarrow> dist h (q_tail q) < 2 ^ k)"
    "pc = PReady x \<Longrightarrow> q_buffer q ! slot_index q (producer_tail q) = None
       \<and> ring_inv k (q\<lparr>q_buffer := (q_buffer q)[slot_index q (producer_tail q) := Some x]\<rparr>)
           rest (Some x) taken"
    "pc = PConstructed x \<Longrightarrow>
       ring_inv k (q\<lparr>producer_tail := producer_tail q + 1, q_tail := producer_tail q + 1\<rparr>)
         (rest @ [x]) None taken"
proof -
  note idx = ring_inv_idx [OF inv]
  show "pc = PIdle \<Longrightarrow> producer_tail q - producer_cached_head q \<noteq> q_capacity q \<Longrightarrow>
       dist (producer_cached_head q) (q_tail q) < 2 ^ k"
    using ring_inv_not_full [OF inv] idx by simp
  show "ring_inv k (q\<lparr>producer_cached_head := h\<rparr>) rest None taken
       \<and> (producer_tail q - h \<noteq> q_capacity q \<longrightarrow> dist h (q_tail q) < 2 ^ k)"
    if "pc = PIdle" "observable (producer_cached_head q) h (q_head q)"
  proof -
    have "ring_inv k (q\<lparr>producer_cached_head := h\<rparr>) rest None taken"
      using ring_inv_load_head [of k q rest taken h] inv that
      by (simp add: pending_item_def observable_def)
    from this ring_inv_not_full [OF this] show ?thesis using idx by simp
  qed
  show "pc = PReady x \<Longrightarrow> q_buffer q ! slot_index q (producer_tail q) = None
       \<and> ring_inv k (q\<lparr>q_buffer := (q_buffer q)[slot_index q (producer_tail q) := Some x]\<rparr>)
           rest (Some x) taken"
    using ring_inv_construct [of k q rest taken x] inv pc idx by (simp add: pending_item_def)
  show "pc = PConstructed x \<Longrightarrow>
       ring_inv k (q\<lparr>producer_tail := producer_tail q + 1, q_tail := producer_tail q + 1\<rparr>)
         (rest @ [x]) None taken"
    using ring_inv_publish_tail [of k q rest x taken] inv idx by (simp add: pending_item_def)
qed

lemma consumer_step_inv:
  assumes inv: "ring_inv k q rest pend (is_taken pc)"
    and pc: "pc \<noteq> CIdle \<longrightarrow> q_head q \<noteq> consumer_cached_tail q"
    and hd: "\<forall>x. pc = CTaken x \<longrightarrow> rest \<noteq> [] \<and> hd rest = x"
  shows
    "pc = CIdle \<Longrightarrow> consumer_head q = consumer_cached_tail q \<Longrightarrow>
       observable (consumer_cached_tail q) t (q_tail q) \<Longrightarrow>
       ring_inv k (q\<lparr>consumer_cached_tail := t\<rparr>) rest pend False"
    "pc = CReady \<Longrightarrow> \<exists>x xs. rest = x # xs \<and> read_slot q (consumer_head q) = PopItem x
       \<and> ring_inv k (q\<lparr>q_buffer := (q_buffer q)[slot_index q (consumer_head q) := None]\<rparr>)
           rest pend True"
    "pc = CTaken x \<Longrightarrow> \<exists>xs. rest = x # xs
       \<and> ring_inv k (q\<lparr>consumer_head := consumer_head q + 1, q_head := consumer_head q + 1\<rparr>)
           xs pend False"
proof -
  note idx = ring_inv_idx [OF inv]
  show "pc = CIdle \<Longrightarrow> consumer_head q = consumer_cached_tail q \<Longrightarrow>
       observable (consumer_cached_tail q) t (q_tail q) \<Longrightarrow>
       ring_inv k (q\<lparr>consumer_cached_tail := t\<rparr>) rest pend False"
    using ring_inv_load_tail [of k q rest pend t] inv idx by (simp add: is_taken_def observable_def)
  show "\<exists>x xs. rest = x # xs \<and> read_slot q (consumer_head q) = PopItem x
       \<and> ring_inv k (q\<lparr>q_buffer := (q_buffer q)[slot_index q (consumer_head q) := None]\<rparr>)
           rest pend True" if "pc = CReady"
  proof -
    from ring_inv_nonempty [OF inv] pc that obtain x xs where "rest = x # xs" by (cases rest) auto
    with ring_inv_take [of k q x xs pend] inv pc that idx show ?thesis by (simp add: is_taken_def)
  qed
  show "\<exists>xs. rest = x # xs
       \<and> ring_inv k (q\<lparr>consumer_head := consumer_head q + 1, q_head := consumer_head q + 1\<rparr>)
           xs pend False" if "pc = CTaken x"
  proof -
    from hd that obtain xs where "rest = x # xs" by (cases rest) auto
    with ring_inv_publish_head [of k q x xs pend] inv that idx show ?thesis by (simp add: is_taken_def)
  qed
qed

lemma spsc_sys_invE:
  assumes "spsc_sys_inv k s"
  obtains rest where
    "ring_inv k (sys_queue s) rest (pending_item (sys_ppc s)) (is_taken (sys_cpc s))"
    "sys_pushed s = sys_popped s @ rest"
    "sys_ppc s \<noteq> PIdle \<longrightarrow> dist (producer_cached_head (sys_queue s)) (q_tail (sys_queue s)) < 2 ^ k"
    "sys_cpc s \<noteq> CIdle \<longrightarrow> q_head (sys_queue s) \<noteq> consumer_cached_tail (sys_queue s)"
    "\<forall>x. sys_cpc s = CTaken x \<longrightarrow> rest \<noteq> [] \<and> hd rest = x"
    "\<not> sys_raw_read s" "\<not> sys_overwrite s"
  using assms by (auto simp: spsc_sys_inv_def)

lemma spsc_step_inv [predex_inv]:
  assumes step: "spsc_step s s'" and "spsc_sys_inv k s"
  shows "spsc_sys_inv k s'"
proof -
  from assms(2) obtain rest where
    inv: "ring_inv k (sys_queue s) rest (pending_item (sys_ppc s)) (is_taken (sys_cpc s))"
    and pushed: "sys_pushed s = sys_popped s @ rest"
    and p: "sys_ppc s \<noteq> PIdle \<longrightarrow> dist (producer_cached_head (sys_queue s)) (q_tail (sys_queue s)) < 2 ^ k"
    and c: "sys_cpc s \<noteq> CIdle \<longrightarrow> q_head (sys_queue s) \<noteq> consumer_cached_tail (sys_queue s)"
    and h: "\<forall>x. sys_cpc s = CTaken x \<longrightarrow> rest \<noteq> [] \<and> hd rest = x"
    and flags: "\<not> sys_raw_read s" "\<not> sys_overwrite s"
    by (rule spsc_sys_invE)
  note P = producer_step_inv [OF inv p] and C = consumer_step_inv [OF inv c h]
  note facts = inv pushed p c h flags
  from step show ?thesis
  proof cases
    case (push_room q x)
    with P(1) facts show ?thesis by (auto simp: sys_inv_simps)
  next
    case (push_load_room q h' x)
    with P(2) [of h'] facts show ?thesis by (auto simp: sys_inv_simps)
  next
    case (push_load_full q h')
    with P(2) [of h'] facts show ?thesis by (auto simp: sys_inv_simps)
  next
    case (push_construct x q)
    with P(3) [of x] facts show ?thesis by (auto simp: sys_inv_simps)
  next
    case (push_publish x q)
    with P(4) [of x] facts show ?thesis
      by (auto simp: sys_inv_simps intro!: exI [of _ "rest @ [x]"])
  next
    case (pop_ready q)
    with facts show ?thesis by (auto simp: sys_inv_simps ring_inv_idx)
  next
    case (pop_load_ready q t)
    with C(1) [of t] facts show ?thesis by (auto simp: sys_inv_simps ring_inv_idx)
  next
    case (pop_load_empty q t)
    with C(1) [of t] facts show ?thesis by (auto simp: sys_inv_simps ring_inv_idx)
  next
    case (pop_take q x)
    with C(2) facts show ?thesis by (auto simp: sys_inv_simps)
  next
    case (pop_take_raw q)
    with C(2) facts show ?thesis by auto
  next
    case (pop_publish x q)
    with C(3) [of x] facts show ?thesis by (auto simp: sys_inv_simps)
  qed
qed

lemma spsc_init_inv:
  assumes "spsc_make capacity = Inr q"
  shows "\<exists>k. spsc_sys_inv k (spsc_init q) \<and> unat capacity = 2 ^ k"
proof -
  from spsc_make_wf [OF assms] obtain k where k: "ring_inv k q [] None False"
    and cap: "q_capacity q = capacity"
    by (auto elim: spsc_wfE)
  with ring_shape_cap [OF ring_inv_shape [OF k]] show ?thesis
    by (auto simp: sys_inv_simps spsc_init_def)
qed

lemma spsc_reachable_inv:
  "spsc_reachable capacity s \<Longrightarrow> \<exists>k. spsc_sys_inv k s \<and> unat capacity = 2 ^ k"
  by (induction rule: spsc_reachable.induct) (blast dest: spsc_init_inv spsc_step_inv)+

text \<open>The destructor.\<close>

lemma destroy_range_clears:
  assumes "ring_shape q k" and "n = dist cur tail" and "n \<le> 2 ^ k" and "n \<le> fuel"
    and "\<forall>i < 2 ^ k. n \<le> i \<longrightarrow> q_buffer q ! slot_index q (cur + of_nat i) = None"
  shows "\<exists>b. destroy_range fuel q cur tail = Some b \<and> length b = 2 ^ k
    \<and> (\<forall>i < 2 ^ k. b ! slot_index q (cur + of_nat i) = None)"
  using assms
proof (induction fuel arbitrary: q cur n)
  case 0
  then have "cur = tail" using dist_0_iff by auto
  with 0 show ?case by (auto simp: ring_shape_def)
next
  case (Suc fuel)
  show ?case
  proof (cases "cur = tail")
    case True
    with Suc.prems show ?thesis by (auto simp: ring_shape_def)
  next
    case False
    let ?q = "q\<lparr>q_buffer := (q_buffer q)[slot_index q cur := None]\<rparr>"
    have n: "n = Suc (dist (cur + 1) tail)" using dist_Suc_left [OF False] Suc.prems(2) by simp
    have pow: "(0::nat) < 2 ^ k" by simp
    have raw: "q_buffer ?q ! slot_index ?q (cur + 1 + of_nat i) = None"
      if i: "i < 2 ^ k" "dist (cur + 1) tail \<le> i" for i
    proof (cases "Suc i < 2 ^ k")
      case True
      then have ne: "slot_index q cur \<noteq> slot_index q (cur + of_nat (Suc i))"
        using slot_index_inj [OF Suc.prems(1) pow True, of cur] by auto
      have "q_buffer q ! slot_index q (cur + of_nat (Suc i)) = None"
        using Suc.prems(5) [rule_format, of "Suc i"] True i n by auto
      with ne show ?thesis by (simp add: nth_list_update_neq add.assoc)
    next
      case False
      with i have "Suc i = 2 ^ k" by simp
      then have "slot_index q (cur + of_nat (Suc i)) = slot_index q (cur + of_nat 0)"
        using slot_index_mod [OF Suc.prems(1), of cur "Suc i"] slot_index_mod [OF Suc.prems(1), of cur 0]
        by (simp only:) simp
      then show ?thesis using slot_index_less [OF Suc.prems(1), of cur] by (simp add: add.assoc)
    qed
    have "\<exists>b. destroy_range fuel ?q (cur + 1) tail = Some b \<and> length b = 2 ^ k
        \<and> (\<forall>i < 2 ^ k. b ! slot_index ?q (cur + 1 + of_nat i) = None)"
      using Suc.prems n raw by (intro Suc.IH [of ?q "dist (cur + 1) tail"]) auto
    then obtain b where b: "destroy_range fuel ?q (cur + 1) tail = Some b" "length b = 2 ^ k"
      and all: "\<forall>i < 2 ^ k. b ! slot_index q (cur + 1 + of_nat i) = None" by auto
    have "b ! slot_index q (cur + of_nat i) = None" if "i < 2 ^ k" for i
    proof (cases i)
      case 0
      have "slot_index q (cur + 1 + of_nat (2 ^ k - 1)) = slot_index q (cur + of_nat (2 ^ k))"
        by (simp add: add.assoc of_nat_diff)
      also have "\<dots> = slot_index q (cur + of_nat 0)"
        using slot_index_mod [OF Suc.prems(1), of cur "2 ^ k"] slot_index_mod [OF Suc.prems(1), of cur 0]
        by (simp only:) simp
      finally have "slot_index q (cur + 1 + of_nat (2 ^ k - 1)) = slot_index q (cur + of_nat i)"
        by (simp only: 0)
      moreover have "b ! slot_index q (cur + 1 + of_nat (2 ^ k - 1)) = None"
        by (rule all [rule_format]) simp
      ultimately show ?thesis by (simp only:)
    next
      case (Suc j)
      with all that show ?thesis by (simp add: add.assoc)
    qed
    with b False show ?thesis by auto
  qed
qed

lemma slot_index_surj:
  assumes "ring_shape q k" and "j < 2 ^ k"
  shows "\<exists>i < 2 ^ k. slot_index q (h + of_nat i) = j"
proof -
  let ?i = "(j + (2 ^ k - unat h mod 2 ^ k)) mod 2 ^ k"
  have less: "unat h mod 2 ^ k < 2 ^ k" by simp
  have "(unat h + ?i) mod 2 ^ k = (unat h mod 2 ^ k + (j + (2 ^ k - unat h mod 2 ^ k))) mod 2 ^ k"
    by (simp add: mod_add_left_eq mod_add_right_eq)
  also have "unat h mod 2 ^ k + (j + (2 ^ k - unat h mod 2 ^ k)) = j + 2 ^ k"
    using less by linarith
  also have "(j + 2 ^ k) mod 2 ^ k = j" using assms(2) by simp
  finally show ?thesis
    by (intro exI [of _ ?i]) (simp add: slot_index_mod [OF assms(1)])
qed

section \<open>Properties\<close>

text \<open>C2. Under every interleaving of one producer and one consumer, with loads that may be stale,
  and across wrap-around of the 64-bit indices, the queue is first-in first-out: the items handed out
  are a prefix of the items accepted, at most \<open>capacity\<close> are in flight, raw storage is never read and
  a live object is never overwritten.\<close>

theorem spsc_interleaving_fifo:
  assumes "spsc_reachable capacity s"
  shows "\<exists>rest. sys_pushed s = sys_popped s @ rest \<and> length rest \<le> unat capacity
    \<and> \<not> sys_raw_read s \<and> \<not> sys_overwrite s"
proof -
  from spsc_reachable_inv [OF assms] obtain k where "spsc_sys_inv k s" and "unat capacity = 2 ^ k"
    by blast
  then show ?thesis by (auto simp: spsc_sys_inv_def ring_inv_def)
qed

definition example_ring :: "nat spsc" where
  "example_ring = \<lparr>q_capacity = 2, q_mask = 1, q_tail = 0, q_head = 0, consumer_head = 0,
     consumer_cached_tail = 0, producer_tail = 0, producer_cached_head = 0, q_buffer = [None, None]\<rparr>"

lemma example_ring_make: "spsc_make 2 = Inr example_ring"
proof -
  have "replicate (2::nat) None = [None, None]" by (simp add: numeral_2_eq_2)
  then show ?thesis by (simp add: spsc_make_def example_ring_def)
qed

theorem spsc_interleaving_fifo_witness:
  "\<exists>rest. sys_pushed ((spsc_init example_ring)\<lparr>sys_ppc := PReady 7\<rparr>) =
      sys_popped ((spsc_init example_ring)\<lparr>sys_ppc := PReady 7\<rparr>) @ rest \<and> length rest \<le> unat (2 :: u64)"
proof -
  have "spsc_step (spsc_init example_ring) ((spsc_init example_ring)\<lparr>sys_ppc := PReady 7\<rparr>)"
    by (rule spsc_step.push_room [OF _ refl]) (simp_all add: spsc_init_def example_ring_def)
  then have "spsc_reachable 2 ((spsc_init example_ring)\<lparr>sys_ppc := PReady 7\<rparr>)"
    using spsc_reachable.start [OF example_ring_make] spsc_reachable.step by blast
  from spsc_interleaving_fifo [OF this] show ?thesis by blast
qed

text \<open>Run without interference, the ring is the bounded list queue: \<open>try_emplace\<close> and \<open>try_pop\<close>
  commute with the abstraction to a capacity and a list, and keep the ring well formed. In particular a
  push fails exactly when \<open>capacity\<close> items are waiting.\<close>

definition spsc_abs :: "'a spsc \<Rightarrow> 'a bqueue" where
  "spsc_abs q = \<lparr>bq_capacity = unat (q_capacity q), bq_items = spsc_items q\<rparr>"

theorem spsc_refines_bqueue:
  assumes "spsc_wf q"
  shows "spsc_abs (fst (try_emplace x q)) = fst (bq_push x (spsc_abs q))
    \<and> snd (try_emplace x q) = snd (bq_push x (spsc_abs q))
    \<and> spsc_abs (fst (try_pop q)) = fst (bq_pop (spsc_abs q))
    \<and> snd (try_pop q) = (case snd (bq_pop (spsc_abs q)) of None \<Rightarrow> PopEmpty | Some y \<Rightarrow> PopItem y)
    \<and> spsc_wf (fst (try_emplace x q)) \<and> spsc_wf (fst (try_pop q))"
proof -
  from assms obtain k where k: "ring_inv k q (spsc_items q) None False" by (rule spsc_wfE)
  note cap = ring_shape_cap [OF ring_inv_shape [OF k]]
  have push: "spsc_abs (fst (try_emplace x q)) = fst (bq_push x (spsc_abs q))
      \<and> snd (try_emplace x q) = snd (bq_push x (spsc_abs q))"
    using ring.push_items [OF assms, of x] ring.push_result_iff [OF assms, of x] ring.cap_push [of x q]
    by (simp add: spsc_abs_def bq_push_def)
  have pop: "spsc_abs (fst (try_pop q)) = fst (bq_pop (spsc_abs q))
    \<and> snd (try_pop q) = (case snd (bq_pop (spsc_abs q)) of None \<Rightarrow> PopEmpty | Some y \<Rightarrow> PopItem y)"
    using try_pop_spec [OF k] ring.cap_pop [of q]
    by (auto simp: spsc_abs_def bq_pop_def try_pop_item_def case_prod_beta ring_inv_items
        split: list.splits)
  have "spsc_wf (fst (try_pop q))"
    using ring.invar_pop [OF assms] by (simp add: try_pop_item_def case_prod_beta)
  with push pop ring.invar_push [OF assms, of x] show ?thesis by blast
qed

theorem spsc_refines_bqueue_witness:
  "snd (try_emplace 7 example_ring) = snd (bq_push 7 (spsc_abs example_ring))
    \<and> spsc_wf (fst (try_emplace 7 example_ring))"
proof -
  have "spsc_wf example_ring" using spsc_make_wf [OF example_ring_make] by blast
  from spsc_refines_bqueue [OF this, of 7] show ?thesis by blast
qed

text \<open>The destructor's loop terminates within \<open>capacity\<close> iterations and destroys every object
  still in the ring: no slot is left constructed.\<close>

theorem spsc_destroy_complete:
  assumes "spsc_wf q"
  shows "spsc_destroy q = Some (replicate (unat (q_capacity q)) None)"
proof -
  from assms obtain k where k: "ring_inv k q (spsc_items q) None False" by (rule spsc_wfE)
  note shape = ring_inv_shape [OF k]
  have "\<forall>i < 2 ^ k. dist (q_head q) (q_tail q) \<le> i \<longrightarrow>
      q_buffer q ! slot_index q (q_head q + of_nat i) = None"
    using k by (auto simp: ring_inv_def expected_slot_def)
  moreover have "dist (q_head q) (q_tail q) \<le> 2 ^ k" using k by (simp add: ring_inv_def)
  ultimately obtain b where b: "spsc_destroy q = Some b" "length b = 2 ^ k"
    and raw: "\<forall>i < 2 ^ k. b ! slot_index q (q_head q + of_nat i) = None"
    using destroy_range_clears [OF shape refl, of "q_head q" "q_tail q" "unat (q_capacity q)"]
    by (auto simp: spsc_destroy_def ring_shape_cap [OF shape])
  have "b ! j = None" if "j < 2 ^ k" for j
    using slot_index_surj [OF shape that, of "q_head q"] raw by auto
  then have "b = replicate (2 ^ k) None" using b(2) by (intro nth_equalityI) auto
  with b(1) show ?thesis by (simp add: ring_shape_cap [OF shape])
qed

theorem spsc_destroy_complete_witness:
  "spsc_destroy (fst (try_emplace 7 example_ring)) = Some [None, None]"
proof -
  have wf: "spsc_wf example_ring" using spsc_make_wf [OF example_ring_make] by blast
  have two: "replicate (2::nat) None = [None, None]" by (simp add: numeral_2_eq_2)
  from spsc_destroy_complete [OF ring.invar_push [OF wf, of 7]] two show ?thesis
    by (simp add: ring.cap_push) (simp add: example_ring_def)
qed

end
