(* ===== verification/Market_Types.thy ===== *)
theory Market_Types
  imports Prelude
begin

text \<open>
  The values that travel along the market-data path: identifiers and enumerations of
  \<open>control_types.hpp\<close>, the integrity messages of \<open>integrity_messages.hpp\<close> and the frame handle of
  \<open>frame_pool.hpp\<close>. An enumerator \<open>kNAME\<close> of an enum class is written with an abbreviation of the
  class in front (\<open>FK_kTRADE\<close> is \<open>FrameKind::kTRADE\<close>); a record field carries an abbreviation of its
  struct (\<open>fh_market_id\<close> is \<open>FrameHandle::market_id\<close>).
\<close>

type_synonym market_id = u32
type_synonym event_id = u32
type_synonym recovery_id = u64
type_synonym affinity_key = u64

datatype event_topology =
    ET_kUNKNOWN | ET_kMONOTONIC_CHAIN | ET_kMUTUALLY_EXCLUSIVE | ET_kUNORDERED_GROUP
  | ET_kSINGLE_MARKET

datatype price_level_structure =
    PLS_kUNKNOWN | PLS_kLINEAR_CENT | PLS_kTAPERED_DECI_CENT | PLS_kDECI_CENT

datatype frame_kind =
    FK_kUNKNOWN | FK_kORDERBOOK_SNAPSHOT | FK_kORDERBOOK_DELTA | FK_kTRADE
  | FK_kSUBSCRIPTION_ACK | FK_kUNSUBSCRIBED | FK_kLIFECYCLE | FK_kHEARTBEAT

definition kMarketDataChannelCount :: nat where
  "kMarketDataChannelCount = 3"

fun market_data_channel_index :: "frame_kind \<Rightarrow> nat" where
  "market_data_channel_index FK_kORDERBOOK_SNAPSHOT = 0"
| "market_data_channel_index FK_kORDERBOOK_DELTA = 0"
| "market_data_channel_index FK_kTRADE = 1"
| "market_data_channel_index FK_kLIFECYCLE = 2"
| "market_data_channel_index FK_kUNKNOWN = kMarketDataChannelCount"
| "market_data_channel_index FK_kSUBSCRIPTION_ACK = kMarketDataChannelCount"
| "market_data_channel_index FK_kUNSUBSCRIBED = kMarketDataChannelCount"
| "market_data_channel_index FK_kHEARTBEAT = kMarketDataChannelCount"

datatype book_invalidation_reason =
    BIR_kNONE | BIR_kEXCHANGE_SEQUENCE_GAP | BIR_kWIRE_POOL_EXHAUSTION
  | BIR_kWIRE_TO_ROUTER_DELIVERY_LOSS | BIR_kROUTER_TO_SHARD_DELIVERY_LOSS
  | BIR_kSHARD_FRAME_MISSING | BIR_kSHARD_PARSE_FAILURE

datatype integrity_incident_origin =
    IIO_kUNKNOWN | IIO_kWIRE_SESSION | IIO_kROUTER | IIO_kSHARD

record integrity_incident_key =
  iik_origin :: integrity_incident_origin
  iik_producer_index :: u32
  iik_incident_id :: u64

record market_invalidation_barrier =
  mib_universe_version :: u64
  mib_incident :: integrity_incident_key
  mib_sid :: u32
  mib_sequence :: u64
  mib_market_id :: market_id
  mib_event_id :: event_id
  mib_shard_index :: u32
  mib_shard_event_index :: u32
  mib_event_market_index :: u32
  mib_reason :: book_invalidation_reason

record subscription_invalidation_barrier =
  sib_universe_version :: u64
  sib_incident :: integrity_incident_key
  sib_sid :: u32
  sib_expected_sequence :: u64
  sib_observed_sequence :: u64
  sib_reason :: book_invalidation_reason

record frame_handle =
  fh_universe_version :: u64
  fh_sequence :: u64
  fh_recovery_id :: recovery_id
  fh_ingress_ts_ns :: u64
  fh_wire_publish_ts_ns :: u64
  fh_router_publish_ts_ns :: u64
  fh_shard_dequeue_ts_ns :: u64
  fh_shard_publish_ts_ns :: u64
  fh_sid :: u32
  fh_pool_index :: u32
  fh_pool_generation :: u32
  fh_market_id :: market_id
  fh_event_id :: event_id
  fh_affinity_key :: affinity_key
  fh_topology :: event_topology
  fh_shard_index :: u32
  fh_shard_event_index :: u32
  fh_event_market_index :: u32
  fh_kind :: frame_kind

text \<open>\<open>FrameHandle{}\<close>\<close>

definition empty_handle :: frame_handle where
  "empty_handle = \<lparr>fh_universe_version = 0, fh_sequence = 0, fh_recovery_id = 0,
     fh_ingress_ts_ns = 0, fh_wire_publish_ts_ns = 0, fh_router_publish_ts_ns = 0,
     fh_shard_dequeue_ts_ns = 0, fh_shard_publish_ts_ns = 0, fh_sid = 0, fh_pool_index = 0,
     fh_pool_generation = 0, fh_market_id = 0, fh_event_id = 0, fh_affinity_key = 0,
     fh_topology = ET_kUNKNOWN, fh_shard_index = 0, fh_shard_event_index = 0,
     fh_event_market_index = 0, fh_kind = FK_kUNKNOWN\<rparr>"

datatype market_data_path_message =
    PathFrame frame_handle
  | PathMarketBarrier market_invalidation_barrier
  | PathSubscriptionBarrier subscription_invalidation_barrier

end
