(* ===== verification/Frame_Pool.thy ===== *)
theory Frame_Pool
  imports Market_Types
begin

text \<open>
  The fixed pool of frame slots of
  \<open>cpp/include/predex/ingest/kalshi/market_data/frame_pool.hpp\<close>. Slots are handed out as handles that
  carry a generation; recycling a slot advances its generation, so that handles issued earlier stop
  being accepted. The padding of a frame's payload is a constant of the JSON library and a parameter
  here.
\<close>

section \<open>State and operations\<close>

definition kMaxFrameBytes :: nat where
  "kMaxFrameBytes = 8192"

record kalshi_frame =
  kf_recv_ts_ns :: u64
  kf_len :: u32
  kf_flags :: u32
  kf_payload :: "u8 list"

definition empty_frame :: "nat \<Rightarrow> kalshi_frame" where
  "empty_frame padding = \<lparr>kf_recv_ts_ns = 0, kf_len = 0, kf_flags = 0,
     kf_payload = replicate (kMaxFrameBytes + padding) 0\<rparr>"

record frame_pool =
  fp_capacity :: nat
  fp_frames :: "kalshi_frame list"
  fp_free_slots :: "u32 list"      \<comment> \<open>a stack; its back is the end of the list\<close>
  fp_generations :: "u32 list"
  fp_in_use :: "u8 list"

definition frame_pool_make :: "nat \<Rightarrow> nat \<Rightarrow> cpp_exception + frame_pool" where
  "frame_pool_make padding capacity =
     (if capacity > unat u32_max
      then Inl (invalid_argument ''FramePool capacity exceeds uint32_t handle range'')
      else Inr \<lparr>fp_capacity = capacity, fp_frames = replicate capacity (empty_frame padding),
                fp_free_slots = map of_nat (rev [0..<capacity]),
                fp_generations = replicate capacity 1, fp_in_use = replicate capacity 0\<rparr>)"

definition fp_available :: "frame_pool \<Rightarrow> nat" where
  "fp_available p = length (fp_free_slots p)"

definition is_live_handle :: "frame_pool \<Rightarrow> frame_handle \<Rightarrow> bool" where
  "is_live_handle p h =
     (let i = unat (fh_pool_index h) in
      if i \<ge> length (fp_frames p) then False
      else if fp_in_use p ! i = 0 then False
      else fp_generations p ! i = fh_pool_generation h)"

definition try_acquire :: "nat \<Rightarrow> frame_pool \<Rightarrow> frame_pool \<times> frame_handle option" where
  "try_acquire padding p =
     (if fp_free_slots p = [] then (p, None)
      else let slot = last (fp_free_slots p); i = unat slot
           in (p\<lparr>fp_free_slots := butlast (fp_free_slots p),
                 fp_in_use := (fp_in_use p)[i := 1],
                 fp_frames := (fp_frames p)[i := empty_frame padding]\<rparr>,
               Some (empty_handle\<lparr>fh_pool_index := slot,
                                  fh_pool_generation := fp_generations p ! i\<rparr>)))"

text \<open>\<open>frame\<close> reads through a handle; \<open>write_frame\<close> is a store through the pointer that
  \<open>writable_frame\<close> returns. Both are refused for a handle that is not live.\<close>

definition frame :: "frame_pool \<Rightarrow> frame_handle \<Rightarrow> kalshi_frame option" where
  "frame p h = (if is_live_handle p h then Some (fp_frames p ! unat (fh_pool_index h)) else None)"

definition write_frame :: "frame_handle \<Rightarrow> kalshi_frame \<Rightarrow> frame_pool \<Rightarrow> frame_pool \<times> bool" where
  "write_frame h f p =
     (if is_live_handle p h
      then (p\<lparr>fp_frames := (fp_frames p)[unat (fh_pool_index h) := f]\<rparr>, True) else (p, False))"

definition next_generation :: "u32 \<Rightarrow> u32" where
  "next_generation g = (let g' = g + 1 in if g' = 0 then 1 else g')"

definition recycle :: "frame_handle \<Rightarrow> frame_pool \<Rightarrow> frame_pool \<times> bool" where
  "recycle h p =
     (if \<not> is_live_handle p h then (p, False)
      else let slot = fh_pool_index h; i = unat slot
           in (p\<lparr>fp_in_use := (fp_in_use p)[i := 0],
                 fp_generations := (fp_generations p)[i := next_generation (fp_generations p ! i)],
                 fp_free_slots := fp_free_slots p @ [slot]\<rparr>, True))"

section \<open>Invariant\<close>

definition pool_wf :: "frame_pool \<Rightarrow> bool" where
  "pool_wf p \<longleftrightarrow> fp_capacity p \<le> unat u32_max
     \<and> length (fp_frames p) = fp_capacity p \<and> length (fp_generations p) = fp_capacity p
     \<and> length (fp_in_use p) = fp_capacity p
     \<and> distinct (fp_free_slots p) \<and> (\<forall>s \<in> set (fp_free_slots p). unat s < fp_capacity p)
     \<and> (\<forall>i < fp_capacity p. fp_in_use p ! i = 0 \<longleftrightarrow> of_nat i \<in> set (fp_free_slots p))
     \<and> (\<forall>i < fp_capacity p. fp_generations p ! i \<noteq> 0)"

definition slots_in_use :: "frame_pool \<Rightarrow> nat" where
  "slots_in_use p = length (filter (\<lambda>u. u \<noteq> 0) (fp_in_use p))"

lemma is_live_handle_iff:
  "is_live_handle p h \<longleftrightarrow> unat (fh_pool_index h) < length (fp_frames p)
     \<and> fp_in_use p ! unat (fh_pool_index h) \<noteq> 0
     \<and> fp_generations p ! unat (fh_pool_index h) = fh_pool_generation h"
  by (auto simp: is_live_handle_def Let_def)

lemma next_generation_nonzero: "next_generation g \<noteq> 0"
  by (simp add: next_generation_def Let_def)

lemma of_nat_unat_slot: "(of_nat (unat s) :: u32) = s"
  by simp

lemma pool_free_iff:
  assumes "pool_wf p" and "unat s < fp_capacity p"
  shows "fp_in_use p ! unat s = 0 \<longleftrightarrow> s \<in> set (fp_free_slots p)"
  using assms by (auto simp: pool_wf_def)

lemma frame_pool_make_wf:
  assumes "frame_pool_make padding capacity = Inr p"
  shows "pool_wf p \<and> fp_capacity p = capacity \<and> fp_available p = capacity \<and> slots_in_use p = 0"
proof -
  have cap: "capacity \<le> unat u32_max"
    and p: "p = \<lparr>fp_capacity = capacity, fp_frames = replicate capacity (empty_frame padding),
                fp_free_slots = map of_nat (rev [0..<capacity]),
                fp_generations = replicate capacity 1, fp_in_use = replicate capacity 0\<rparr>"
    using assms by (auto simp: frame_pool_make_def split: if_splits)
  have inv: "unat (of_nat i :: u32) = i" if "i < capacity" for i
    using that cap by (simp add: unat_of_nat unat_max_word)
  have "inj_on (of_nat :: nat \<Rightarrow> u32) {0..<capacity}"
    by (rule inj_on_inverseI [where g = unat]) (simp add: inv)
  then show ?thesis
    using cap by (auto simp: p pool_wf_def fp_available_def slots_in_use_def distinct_map inv)
qed

lemma pool_wf_free_set:
  assumes "pool_wf p"
  shows "set (fp_free_slots p) = of_nat ` {i. i < fp_capacity p \<and> fp_in_use p ! i = 0}"
proof (intro set_eqI iffI)
  fix s :: u32 assume s: "s \<in> set (fp_free_slots p)"
  then have "unat s < fp_capacity p" using assms by (simp add: pool_wf_def)
  moreover from this s have "fp_in_use p ! unat s = 0" using assms by (simp add: pool_free_iff)
  ultimately show "s \<in> of_nat ` {i. i < fp_capacity p \<and> fp_in_use p ! i = 0}"
    by (intro image_eqI [of _ _ "unat s"]) simp_all
next
  fix s :: u32 assume "s \<in> of_nat ` {i. i < fp_capacity p \<and> fp_in_use p ! i = 0}"
  then show "s \<in> set (fp_free_slots p)" using assms by (auto simp: pool_wf_def)
qed

lemma pool_conservation:
  assumes "pool_wf p"
  shows "fp_available p + slots_in_use p = fp_capacity p"
proof -
  let ?F = "{i. i < fp_capacity p \<and> fp_in_use p ! i = 0}"
  have "inj_on (of_nat :: nat \<Rightarrow> u32) ?F"
  proof (rule inj_on_inverseI [where g = unat])
    fix i assume "i \<in> ?F"
    then show "unat (of_nat i :: u32) = i"
      using assms by (auto simp: pool_wf_def unat_of_nat unat_max_word)
  qed
  then have "card (set (fp_free_slots p)) = card ?F"
    by (simp add: pool_wf_free_set [OF assms] card_image)
  then have "fp_available p = card ?F"
    using assms by (simp add: fp_available_def pool_wf_def distinct_card)
  also have "\<dots> = length (filter (\<lambda>u. u = 0) (fp_in_use p))"
    using assms by (simp add: length_filter_conv_card pool_wf_def)
  finally show ?thesis
    using sum_length_filter_compl [of "\<lambda>u. u = 0" "fp_in_use p"] assms
    by (simp add: slots_in_use_def pool_wf_def)
qed

lemma try_acquire_SomeE:
  assumes "try_acquire padding p = (p', Some h)" and "pool_wf p"
  obtains slot where "fp_free_slots p = butlast (fp_free_slots p) @ [slot]"
    "slot \<in> set (fp_free_slots p)" "unat slot < fp_capacity p"
    "p' = p\<lparr>fp_free_slots := butlast (fp_free_slots p), fp_in_use := (fp_in_use p)[unat slot := 1],
            fp_frames := (fp_frames p)[unat slot := empty_frame padding]\<rparr>"
    "fh_pool_index h = slot" "fh_pool_generation h = fp_generations p ! unat slot"
proof -
  have ne: "fp_free_slots p \<noteq> []" using assms by (auto simp: try_acquire_def split: if_splits)
  then have "last (fp_free_slots p) \<in> set (fp_free_slots p)" by simp
  moreover from this have "unat (last (fp_free_slots p)) < fp_capacity p"
    using assms(2) by (simp add: pool_wf_def)
  ultimately show thesis
    using assms(1) ne by (intro that [of "last (fp_free_slots p)"])
      (auto simp: try_acquire_def Let_def split: if_splits)
qed

lemma recycle_TrueE:
  assumes "recycle h p = (p', True)"
  obtains "is_live_handle p h"
    "p' = p\<lparr>fp_in_use := (fp_in_use p)[unat (fh_pool_index h) := 0],
            fp_generations := (fp_generations p)[unat (fh_pool_index h) :=
               next_generation (fp_generations p ! unat (fh_pool_index h))],
            fp_free_slots := fp_free_slots p @ [fh_pool_index h]\<rparr>"
  using assms by (auto simp: recycle_def Let_def split: if_splits)

lemma unat_of_nat_slot:
  assumes "pool_wf p" and "i < fp_capacity p"
  shows "unat (of_nat i :: u32) = i"
  using assms by (auto simp: pool_wf_def unat_of_nat unat_max_word)

lemma try_acquire_wf [predex_inv]:
  assumes "pool_wf p"
  shows "pool_wf (fst (try_acquire padding p))"
proof (cases "try_acquire padding p")
  case (Pair p' r)
  show ?thesis
  proof (cases r)
    case None
    then show ?thesis using Pair assms by (auto simp: try_acquire_def Let_def split: if_splits)
  next
    case (Some h)
    from try_acquire_SomeE [OF Pair [unfolded Some] assms] obtain slot where
      free: "fp_free_slots p = butlast (fp_free_slots p) @ [slot]" and lt: "unat slot < fp_capacity p"
      and p': "p' = p\<lparr>fp_free_slots := butlast (fp_free_slots p), fp_in_use := (fp_in_use p)[unat slot := 1],
            fp_frames := (fp_frames p)[unat slot := empty_frame padding]\<rparr>"
      by metis
    have dist: "distinct (butlast (fp_free_slots p) @ [slot])"
      using assms free by (simp add: pool_wf_def)
    have mem: "s \<in> set (fp_free_slots p) \<longleftrightarrow> s \<in> set (butlast (fp_free_slots p)) \<or> s = slot" for s
      by (subst free) auto
    have "(fp_in_use p)[unat slot := 1] ! i = 0 \<longleftrightarrow> of_nat i \<in> set (butlast (fp_free_slots p))"
      if i: "i < fp_capacity p" for i
      using assms i dist lt unat_of_nat_slot [OF assms i] mem [of "of_nat i"]
      by (cases "i = unat slot") (auto simp: pool_wf_def)
    then show ?thesis using assms dist mem by (auto simp: Pair p' pool_wf_def)
  qed
qed

lemma recycle_wf [predex_inv]:
  assumes "pool_wf p"
  shows "pool_wf (fst (recycle h p))"
proof (cases "recycle h p")
  case (Pair p' ok)
  show ?thesis
  proof (cases ok)
    case False
    then show ?thesis using Pair assms by (auto simp: recycle_def Let_def split: if_splits)
  next
    case True
    let ?s = "fh_pool_index h"
    from Pair True have eq: "recycle h p = (p', True)" by simp
    from eq have live: "is_live_handle p h"
      and p': "p' = p\<lparr>fp_in_use := (fp_in_use p)[unat ?s := 0],
            fp_generations := (fp_generations p)[unat ?s := next_generation (fp_generations p ! unat ?s)],
            fp_free_slots := fp_free_slots p @ [?s]\<rparr>"
      by (auto elim: recycle_TrueE)
    have lt: "unat ?s < fp_capacity p" and used: "?s \<notin> set (fp_free_slots p)"
      using live assms pool_free_iff [OF assms, of ?s] by (auto simp: is_live_handle_iff pool_wf_def)
    have "(fp_in_use p)[unat ?s := 0] ! i = 0 \<longleftrightarrow> of_nat i \<in> set (fp_free_slots p @ [?s])"
      if i: "i < fp_capacity p" for i
      using assms i lt unat_of_nat_slot [OF assms i]
      by (cases "i = unat ?s") (auto simp: pool_wf_def)
    moreover have "(fp_generations p)[unat ?s := next_generation (fp_generations p ! unat ?s)] ! i \<noteq> 0"
      if i: "i < fp_capacity p" for i
      using assms i by (cases "i = unat ?s") (auto simp: pool_wf_def next_generation_nonzero)
    ultimately show ?thesis using assms used lt by (auto simp: Pair p' pool_wf_def)
  qed
qed

lemma write_frame_wf [predex_inv]: "pool_wf p \<Longrightarrow> pool_wf (fst (write_frame h f p))"
  by (auto simp: write_frame_def pool_wf_def)

section \<open>Runs of the pool\<close>

datatype pool_op = OpAcquire | OpWrite frame_handle kalshi_frame | OpRecycle frame_handle

fun pool_step :: "nat \<Rightarrow> pool_op \<Rightarrow> frame_pool \<Rightarrow> frame_pool" where
  "pool_step padding OpAcquire p = fst (try_acquire padding p)"
| "pool_step padding (OpWrite h f) p = fst (write_frame h f p)"
| "pool_step padding (OpRecycle h) p = fst (recycle h p)"

definition pool_run :: "nat \<Rightarrow> pool_op list \<Rightarrow> frame_pool \<Rightarrow> frame_pool" where
  "pool_run padding ops p = fold (pool_step padding) ops p"

text \<open>How often a run recycles one slot.\<close>

fun recycles :: "nat \<Rightarrow> u32 \<Rightarrow> pool_op list \<Rightarrow> frame_pool \<Rightarrow> nat" where
  "recycles padding s [] p = 0"
| "recycles padding s (a # as) p =
     (case a of OpRecycle h \<Rightarrow> if fh_pool_index h = s \<and> snd (recycle h p) then 1 else 0 | _ \<Rightarrow> 0)
     + recycles padding s as (pool_step padding a p)"

lemma pool_step_wf: "pool_wf p \<Longrightarrow> pool_wf (pool_step padding a p)"
  by (cases a) (auto intro: predex_inv)

lemma pool_run_wf: "pool_wf p \<Longrightarrow> pool_wf (pool_run padding ops p)"
  by (induction ops arbitrary: p) (auto simp: pool_run_def pool_step_wf)

lemma pool_step_capacity [simp]: "fp_capacity (pool_step padding a p) = fp_capacity p"
  by (cases a) (auto simp: try_acquire_def write_frame_def recycle_def Let_def)

lemma pool_run_capacity [simp]: "fp_capacity (pool_run padding ops p) = fp_capacity p"
  by (induction ops arbitrary: p) (auto simp: pool_run_def)

text \<open>A slot's generation is the number of times it was recycled, counted around the
  \<open>2 ^ 32 - 1\<close> non-zero values.\<close>

lemma pool_step_generation:
  assumes "pool_wf p" and "unat s < fp_capacity p"
  shows "fp_generations (pool_step padding a p) ! unat s =
    (case a of OpRecycle h \<Rightarrow> if fh_pool_index h = s \<and> snd (recycle h p)
        then next_generation (fp_generations p ! unat s) else fp_generations p ! unat s
     | _ \<Rightarrow> fp_generations p ! unat s)"
proof (cases a)
  case OpAcquire
  then show ?thesis by (simp add: try_acquire_def Let_def)
next
  case (OpWrite h f)
  then show ?thesis by (simp add: write_frame_def)
next
  case (OpRecycle h)
  have "length (fp_generations p) = fp_capacity p" using assms by (simp add: pool_wf_def)
  moreover have "unat (fh_pool_index h) = unat s \<longleftrightarrow> fh_pool_index h = s"
    by (simp add: word_unat_eq_iff)
  ultimately show ?thesis using assms(2) OpRecycle
    by (simp add: recycle_def Let_def nth_list_update)
qed

lemma pool_run_generation:
  assumes "pool_wf p" and "unat s < fp_capacity p"
  shows "fp_generations (pool_run padding ops p) ! unat s
    = (next_generation ^^ recycles padding s ops p) (fp_generations p ! unat s)"
  using assms
proof (induction ops arbitrary: p)
  case Nil
  then show ?case by (simp add: pool_run_def)
next
  case (Cons a ops)
  have "fp_generations (pool_run padding ops (pool_step padding a p)) ! unat s
      = (next_generation ^^ recycles padding s ops (pool_step padding a p))
          (fp_generations (pool_step padding a p) ! unat s)"
    using Cons.prems by (intro Cons.IH) (simp_all add: pool_step_wf)
  then show ?case
    by (simp add: pool_run_def pool_step_generation [OF Cons.prems] funpow_swap1 split: pool_op.splits)
qed

lemma unat_next_generation:
  assumes "g \<noteq> 0"
  shows "unat (next_generation g) = unat g mod (2 ^ 32 - 1) + 1"
proof (cases "g = u32_max")
  case True
  then show ?thesis by (simp add: next_generation_def Let_def unat_max_word)
next
  case False
  have lt: "unat g < 2 ^ 32" using unat_u32_less [of g] by simp
  have "unat g \<noteq> unat u32_max" using False by (simp add: word_unat_eq_iff)
  then have "unat g \<noteq> 2 ^ 32 - 1" by (simp add: unat_max_word)
  with lt have lt': "unat g < 2 ^ 32 - 1" by simp
  have "unat (g + 1) = unat g + unat (1 :: u32)"
    by (rule unat_add_no_wrap) (use lt' in simp)
  moreover from this have "g + 1 \<noteq> 0" by (metis add_is_0 unat_0 unat_1 zero_neq_one)
  ultimately show ?thesis using lt' by (simp add: next_generation_def Let_def)
qed

lemma unat_generation_after:
  assumes "g \<noteq> 0"
  shows "unat ((next_generation ^^ n) g) = (unat g - 1 + n) mod (2 ^ 32 - 1) + 1
    \<and> (next_generation ^^ n) g \<noteq> 0"
proof (induction n)
  case 0
  have "unat g < 2 ^ 32" using unat_u32_less [of g] by simp
  moreover have "0 < unat g" using assms by (simp add: unat_gt_0)
  ultimately show ?case using assms by simp
next
  case (Suc n)
  then have "unat (next_generation ((next_generation ^^ n) g))
      = ((unat g - 1 + n) mod (2 ^ 32 - 1) + 1) mod (2 ^ 32 - 1) + 1"
    using unat_next_generation by metis
  then show ?case by (simp add: next_generation_nonzero mod_Suc_eq)
qed

lemma generation_returns:
  assumes "g \<noteq> 0"
  shows "(next_generation ^^ n) g = g \<longleftrightarrow> (2 ^ 32 - 1) dvd n"
proof -
  have pos: "0 < unat g" using assms by (simp add: unat_gt_0)
  have lt: "unat g - 1 < 2 ^ 32 - 1" using unat_u32_less [of g] pos by simp
  have "(next_generation ^^ n) g = g \<longleftrightarrow> (unat g - 1 + n) mod (2 ^ 32 - 1) + 1 = unat g"
    using unat_generation_after [OF assms, of n] by (metis word_unat_eq_iff)
  also have "\<dots> \<longleftrightarrow> (unat g - 1 + n) mod (2 ^ 32 - 1) = (unat g - 1) mod (2 ^ 32 - 1)"
    using pos lt by (simp add: mod_less) linarith
  also have "\<dots> \<longleftrightarrow> (2 ^ 32 - 1) dvd n"
    by (subst mod_eq_dvd_iff_nat) simp_all
  finally show ?thesis .
qed

lemma live_handle_lt: "pool_wf p \<Longrightarrow> is_live_handle p h \<Longrightarrow> unat (fh_pool_index h) < fp_capacity p"
  by (simp add: is_live_handle_iff pool_wf_def)

lemma pool_run_lengths: "pool_wf p \<Longrightarrow> length (fp_frames (pool_run padding ops p)) = fp_capacity p"
  using pool_run_wf [of p padding ops] by (simp add: pool_wf_def)

section \<open>Properties\<close>

text \<open>C3. However the pool is used, slots are neither lost nor duplicated: after any run of acquires,
  writes and recycles on a fresh pool, free and used slots add up to the capacity, the free list has no
  duplicates and names exactly the slots not in use, and no slot has generation \<open>0\<close>, the generation of a
  default-constructed handle.\<close>

theorem pool_run_invariant:
  assumes "frame_pool_make padding capacity = Inr p"
  shows "pool_wf (pool_run padding ops p)
    \<and> fp_available (pool_run padding ops p) + slots_in_use (pool_run padding ops p) = capacity
    \<and> \<not> is_live_handle (pool_run padding ops p) empty_handle"
proof -
  from frame_pool_make_wf [OF assms] have wf: "pool_wf p" and cap: "fp_capacity p = capacity" by auto
  have wf': "pool_wf (pool_run padding ops p)" by (rule pool_run_wf [OF wf])
  then have "\<not> is_live_handle (pool_run padding ops p) empty_handle"
    by (auto simp: is_live_handle_iff pool_wf_def empty_handle_def)
  with pool_conservation [OF wf'] wf' cap show ?thesis by simp
qed

definition example_pool :: frame_pool where
  "example_pool = \<lparr>fp_capacity = 2, fp_frames = replicate 2 (empty_frame 64), fp_free_slots = [1, 0],
     fp_generations = [1, 1], fp_in_use = [0, 0]\<rparr>"

lemma example_pool_make: "frame_pool_make 64 2 = Inr example_pool"
proof -
  have "rev [0..<2] = [1, 0 :: nat]" by (simp add: upt_rec)
  then show ?thesis
    by (simp add: frame_pool_make_def example_pool_def unat_max_word replicate_two)
qed

theorem pool_run_invariant_witness:
  "fp_available (pool_run 64 [OpAcquire, OpAcquire, OpAcquire] example_pool)
     + slots_in_use (pool_run 64 [OpAcquire, OpAcquire, OpAcquire] example_pool) = 2"
  using pool_run_invariant [OF example_pool_make] by blast

text \<open>An acquired handle owns its slot exclusively: it is live and reads a cleared frame, no handle
  that was live before names the same slot, those handles stay live and read what they read before, and
  whatever is written through the new handle they do not see.\<close>

theorem try_acquire_exclusive:
  assumes "pool_wf p" and "try_acquire padding p = (p', Some h)"
  shows "is_live_handle p' h \<and> frame p' h = Some (empty_frame padding)
    \<and> (\<forall>h'. is_live_handle p h' \<longrightarrow> fh_pool_index h' \<noteq> fh_pool_index h
          \<and> frame p' h' = frame p h' \<and> frame (fst (write_frame h f p')) h' = frame p h')"
proof -
  from try_acquire_SomeE [OF assms(2,1)] obtain slot where
    slot: "slot \<in> set (fp_free_slots p)" "unat slot < fp_capacity p"
    and p': "p' = p\<lparr>fp_free_slots := butlast (fp_free_slots p), fp_in_use := (fp_in_use p)[unat slot := 1],
            fp_frames := (fp_frames p)[unat slot := empty_frame padding]\<rparr>"
    and h: "fh_pool_index h = slot" "fh_pool_generation h = fp_generations p ! unat slot"
    by metis
  have len: "length (fp_frames p) = fp_capacity p" "length (fp_in_use p) = fp_capacity p"
    using assms(1) by (simp_all add: pool_wf_def)
  have live: "is_live_handle p' h" using slot(2) len by (simp add: is_live_handle_iff p' h)
  have other: "fh_pool_index h' \<noteq> slot \<and> unat (fh_pool_index h') \<noteq> unat slot"
    if "is_live_handle p h'" for h'
  proof -
    have "fp_in_use p ! unat slot = 0" using pool_free_iff [OF assms(1) slot(2)] slot(1) by simp
    with that show ?thesis by (auto simp: is_live_handle_iff)
  qed
  have "frame p' h' = frame p h' \<and> frame (fst (write_frame h f p')) h' = frame p h'"
    if "is_live_handle p h'" for h'
    using other [OF that] that live
    by (simp add: frame_def write_frame_def is_live_handle_iff p' h nth_list_update_neq)
  with live other slot(2) len show ?thesis by (auto simp: frame_def p' h)
qed

lemma example_pool_wf: "pool_wf example_pool"
  using frame_pool_make_wf [OF example_pool_make] by blast

lemma example_pool_acquire:
  "try_acquire 64 example_pool = (example_pool\<lparr>fp_free_slots := [1], fp_in_use := [1, 0],
     fp_frames := (fp_frames example_pool)[0 := empty_frame 64]\<rparr>, Some (empty_handle\<lparr>fh_pool_generation := 1\<rparr>))"
  by (simp add: try_acquire_def example_pool_def empty_handle_def)

theorem try_acquire_exclusive_witness:
  "frame (fst (try_acquire 64 example_pool)) (empty_handle\<lparr>fh_pool_generation := 1\<rparr>)
     = Some (empty_frame 64)"
  using try_acquire_exclusive [OF example_pool_wf example_pool_acquire]
  by (simp add: example_pool_acquire)

text \<open>C39. A recycled handle is refused by every later operation (\<open>frame\<close>, \<open>writable_frame\<close>,
  \<open>recycle\<close>), whatever happens to its slot, until the slot has been recycled a multiple of \<open>2 ^ 32 - 1\<close>
  times: a use after recycling or a double recycle is detected.\<close>

theorem recycled_handle_stale:
  assumes "pool_wf p" and "recycle h p = (p', True)"
    and "\<not> (2 ^ 32 - 1) dvd Suc (recycles padding (fh_pool_index h) ops p')"
  shows "frame (pool_run padding ops p') h = None
    \<and> write_frame h f (pool_run padding ops p') = (pool_run padding ops p', False)
    \<and> recycle h (pool_run padding ops p') = (pool_run padding ops p', False)"
proof -
  let ?i = "unat (fh_pool_index h)" and ?n = "recycles padding (fh_pool_index h) ops p'"
  from assms(2) have live: "is_live_handle p h"
    and gen: "fp_generations p' ! ?i = next_generation (fp_generations p ! ?i)"
    and cap: "fp_capacity p' = fp_capacity p"
    using assms(1) by (auto elim!: recycle_TrueE simp: is_live_handle_iff pool_wf_def)
  have wf': "pool_wf p'" using recycle_wf [OF assms(1), of h] assms(2) by simp
  have lt: "?i < fp_capacity p" by (rule live_handle_lt [OF assms(1) live])
  have nz: "fp_generations p ! ?i \<noteq> 0" using assms(1) lt by (simp add: pool_wf_def)
  have "fp_generations (pool_run padding ops p') ! ?i = (next_generation ^^ Suc ?n) (fp_generations p ! ?i)"
    using pool_run_generation [OF wf', of "fh_pool_index h" padding ops] lt cap gen
    by (simp add: funpow_swap1)
  moreover have "(next_generation ^^ Suc ?n) (fp_generations p ! ?i) \<noteq> fp_generations p ! ?i"
    using generation_returns [OF nz] assms(3) by blast
  moreover have "fp_generations p ! ?i = fh_pool_generation h" using live by (simp add: is_live_handle_iff)
  ultimately have "\<not> is_live_handle (pool_run padding ops p') h" by (auto simp: is_live_handle_iff)
  then show ?thesis by (simp add: frame_def write_frame_def recycle_def)
qed

theorem recycled_handle_stale_witness:
  "frame (pool_run 64 [OpAcquire] (fst (recycle (empty_handle\<lparr>fh_pool_generation := 1\<rparr>)
       (fst (try_acquire 64 example_pool))))) (empty_handle\<lparr>fh_pool_generation := 1\<rparr>) = None"
proof -
  let ?h = "empty_handle\<lparr>fh_pool_generation := 1\<rparr>" and ?p = "fst (try_acquire 64 example_pool)"
  have wf: "pool_wf ?p" by (rule try_acquire_wf [OF example_pool_wf])
  have "is_live_handle ?p ?h"
    unfolding example_pool_acquire
    by (simp add: is_live_handle_iff example_pool_def empty_handle_def)
  then have "recycle ?h ?p = (fst (recycle ?h ?p), True)" by (simp add: recycle_def Let_def)
  from recycled_handle_stale [OF wf this, of 64 "[OpAcquire]"] show ?thesis by simp
qed

end
