(* ===== verification/Money_Ticks.thy ===== *)
theory Money_Ticks
  imports Prelude
begin

text \<open>
  \<open>parse_money_ticks\<close> of \<open>cpp/include/predex/exchange/kalshi/money_ticks.hpp\<close>: the conversion of a
  venue dollar string to ticks of $0.0001 with a rounding policy. The code works on unsigned 64-bit
  accumulators with overflow tests; the reference \<open>money_spec\<close> reads the string as an exact number of
  millionths of a dollar and rounds it in the integers.
\<close>

section \<open>The code\<close>

datatype money_tick_rounding = MTR_kTOWARD_ZERO | MTR_kAWAY_FROM_ZERO | MTR_kFLOOR

definition kMONEY_TICKS_PER_DOLLAR :: u64 where "kMONEY_TICKS_PER_DOLLAR = 10000"
definition kMONEY_TICK_DECIMAL_PLACES :: nat where "kMONEY_TICK_DECIMAL_PLACES = 4"
definition kMAX_WIRE_DECIMAL_PLACES :: nat where "kMAX_WIRE_DECIMAL_PLACES = 6"

definition is_digit :: "char \<Rightarrow> bool" where
  "is_digit ch \<longleftrightarrow> \<not> (of_char ch < (48::nat) \<or> of_char ch > (57::nat))"

definition digit_value :: "char \<Rightarrow> nat" where
  "digit_value ch = of_char ch - 48"

primrec parse_whole :: "u64 \<Rightarrow> string \<Rightarrow> u64 option" where
  "parse_whole whole [] = Some whole"
| "parse_whole whole (ch # chs) =
     (if \<not> is_digit ch then None
      else let digit = of_nat (digit_value ch)
           in if whole > (u64_max - digit) div 10 then None
              else parse_whole (whole * 10 + digit) chs)"

primrec parse_fraction :: "nat \<Rightarrow> u64 \<Rightarrow> bool \<Rightarrow> string \<Rightarrow> (u64 \<times> bool) option" where
  "parse_fraction index ticks discarded [] = Some (ticks, discarded)"
| "parse_fraction index ticks discarded (ch # chs) =
     (if \<not> is_digit ch then None
      else if index < kMONEY_TICK_DECIMAL_PLACES
      then parse_fraction (Suc index) (ticks * 10 + of_nat (digit_value ch)) discarded chs
      else parse_fraction (Suc index) ticks (discarded \<or> ch \<noteq> CHR ''0'') chs)"

primrec scale_fraction :: "nat \<Rightarrow> u64 \<Rightarrow> u64" where
  "scale_fraction 0 ticks = ticks"
| "scale_fraction (Suc n) ticks = scale_fraction n (ticks * 10)"

definition split_sign :: "string \<Rightarrow> bool \<times> string" where
  "split_sign value =
     (case value of [] \<Rightarrow> (False, []) | ch # chs \<Rightarrow>
        if ch = CHR ''-'' \<or> ch = CHR ''+'' then (ch = CHR ''-'', chs) else (False, value))"

definition split_point :: "string \<Rightarrow> string \<times> string" where
  "split_point value = (takeWhile (\<lambda>ch. ch \<noteq> CHR ''.'') value,
     tl (dropWhile (\<lambda>ch. ch \<noteq> CHR ''.'') value))"

definition parse_money_ticks :: "string \<Rightarrow> money_tick_rounding \<Rightarrow> i64 option" where
  "parse_money_ticks value rounding =
     (if value = [] then None
      else let (negative, value1) = split_sign value
      in if value1 = [] then None
      else let (whole_text, fractional_text) = split_point value1
      in if whole_text = [] \<or> length fractional_text > kMAX_WIRE_DECIMAL_PLACES then None
      else case parse_whole 0 whole_text of None \<Rightarrow> None | Some whole \<Rightarrow>
      (case parse_fraction 0 0 False fractional_text of None \<Rightarrow> None
       | Some (ticks, discarded_nonzero) \<Rightarrow>
        let fractional_ticks =
              scale_fraction (kMONEY_TICK_DECIMAL_PLACES - length fractional_text) ticks;
            max_magnitude = to_u64 i64_max
        in if whole > (max_magnitude - fractional_ticks) div kMONEY_TICKS_PER_DOLLAR then None
           else let magnitude = whole * kMONEY_TICKS_PER_DOLLAR + fractional_ticks;
                    increment_magnitude = (discarded_nonzero \<and>
                      (rounding = MTR_kAWAY_FROM_ZERO \<or> (rounding = MTR_kFLOOR \<and> negative)))
                in if increment_magnitude \<and> magnitude = max_magnitude then None
                   else let magnitude1 = (if increment_magnitude then magnitude + 1 else magnitude);
                            signed_magnitude = to_i64 magnitude1
                        in Some (if negative then - signed_magnitude else signed_magnitude)))"

section \<open>The reference\<close>

primrec dec_value :: "nat \<Rightarrow> string \<Rightarrow> nat" where
  "dec_value acc [] = acc"
| "dec_value acc (ch # chs) = dec_value (acc * 10 + digit_value ch) chs"

text \<open>\<open>[+-] digits [. up to six digits]\<close>, as a sign and a number of millionths.\<close>

definition decimal_micros :: "string \<Rightarrow> (bool \<times> nat) option" where
  "decimal_micros s =
     (let (neg, t) = split_sign s; (whole, frac) = split_point t
      in if whole \<noteq> [] \<and> length frac \<le> 6 \<and> list_all is_digit whole \<and> list_all is_digit frac
         then Some (neg, dec_value 0 whole * 1000000 + dec_value 0 frac * 10 ^ (6 - length frac))
         else None)"

definition round_ticks :: "money_tick_rounding \<Rightarrow> bool \<Rightarrow> nat \<Rightarrow> i64" where
  "round_ticks r neg micros =
     (let v = int micros; s = (if neg then -1 else 1) in
      case r of MTR_kTOWARD_ZERO \<Rightarrow> s * (v div 100)
      | MTR_kAWAY_FROM_ZERO \<Rightarrow> s * ((v + 99) div 100)
      | MTR_kFLOOR \<Rightarrow> (s * v) div 100)"

definition money_spec :: "string \<Rightarrow> money_tick_rounding \<Rightarrow> i64 option" where
  "money_spec s r = (case decimal_micros s of None \<Rightarrow> None
     | Some (neg, micros) \<Rightarrow>
         let t = round_ticks r neg micros in if \<bar>t\<bar> \<le> i64_max then Some t else None)"

section \<open>Correctness of the loops\<close>

lemma digit_value_less: "is_digit ch \<Longrightarrow> digit_value ch < 10"
  by (auto simp: is_digit_def digit_value_def)

lemma digit_value_0: "is_digit ch \<Longrightarrow> digit_value ch = 0 \<longleftrightarrow> ch = CHR ''0''"
proof -
  assume d: "is_digit ch"
  have "(of_char (CHR ''0'') :: nat) = 48" by simp
  then have "ch = CHR ''0'' \<longleftrightarrow> of_char ch = (48::nat)" by (metis of_char_eq_iff)
  then show ?thesis using d by (auto simp: is_digit_def digit_value_def)
qed

lemma dec_value_mono: "acc \<le> dec_value acc chs"
proof (induction chs arbitrary: acc)
  case Nil
  then show ?case by simp
next
  case (Cons ch chs)
  have "acc \<le> acc * 10 + digit_value ch" by simp
  also have "\<dots> \<le> dec_value (acc * 10 + digit_value ch) chs" by (rule Cons.IH)
  finally show ?case by simp
qed

lemma dec_value_append: "dec_value acc (xs @ ys) = dec_value (dec_value acc xs) ys"
  by (induction xs arbitrary: acc) simp_all

lemma dec_value_acc: "dec_value acc chs = acc * 10 ^ length chs + dec_value 0 chs"
proof (induction chs arbitrary: acc)
  case Nil
  then show ?case by simp
next
  case (Cons ch chs)
  have "dec_value acc (ch # chs) = (acc * 10 + digit_value ch) * 10 ^ length chs + dec_value 0 chs"
    using Cons.IH [of "acc * 10 + digit_value ch"] by simp
  moreover have "dec_value 0 (ch # chs) = digit_value ch * 10 ^ length chs + dec_value 0 chs"
    using Cons.IH [of "digit_value ch"] by simp
  ultimately show ?case by (simp add: algebra_simps)
qed

lemma dec_value_less: "list_all is_digit chs \<Longrightarrow> dec_value 0 chs < 10 ^ length chs"
proof (induction chs)
  case Nil
  then show ?case by simp
next
  case (Cons ch chs)
  then have "dec_value 0 chs < 10 ^ length chs" and "digit_value ch < 10"
    by (simp_all add: digit_value_less)
  have "dec_value 0 (ch # chs) = digit_value ch * 10 ^ length chs + dec_value 0 chs"
    using dec_value_acc [of "digit_value ch" chs] by simp
  also have "\<dots> < Suc (digit_value ch) * 10 ^ length chs"
    using \<open>dec_value 0 chs < 10 ^ length chs\<close> by simp
  also have "\<dots> \<le> 10 * 10 ^ length chs"
    using \<open>digit_value ch < 10\<close> by (intro mult_le_mono1) simp
  finally show ?case by simp
qed

lemma dec_value_0_iff:
  "list_all is_digit chs \<Longrightarrow> dec_value 0 chs = 0 \<longleftrightarrow> list_all (\<lambda>ch. ch = CHR ''0'') chs"
proof (induction chs)
  case Nil
  then show ?case by simp
next
  case (Cons ch chs)
  then show ?case using dec_value_acc [of "digit_value ch" chs] digit_value_0 [of ch] by auto
qed

lemma checked_append_digit:
  fixes w :: u64
  assumes "d < 10"
  shows "w > (u64_max - of_nat d) div 10 \<longleftrightarrow> 2 ^ 64 \<le> unat w * 10 + d"
    and "unat w * 10 + d < 2 ^ 64 \<Longrightarrow> unat (w * 10 + of_nat d) = unat w * 10 + d"
proof -
  have d: "unat (of_nat d :: u64) = d" using assms by (simp add: unat_of_nat)
  have le: "(of_nat d :: u64) \<le> u64_max" by simp
  have "unat ((u64_max - of_nat d) div 10) = (2 ^ 64 - 1 - d) div 10"
    by (simp add: unat_div unat_sub [OF le] d unat_max_word)
  then have "w > (u64_max - of_nat d) div 10 \<longleftrightarrow> (2 ^ 64 - 1 - d) div 10 < unat w"
    by (simp add: word_less_nat_alt)
  also have "\<dots> \<longleftrightarrow> 2 ^ 64 \<le> unat w * 10 + d" using assms by (simp; linarith)
  finally show "w > (u64_max - of_nat d) div 10 \<longleftrightarrow> 2 ^ 64 \<le> unat w * 10 + d" .
  assume *: "unat w * 10 + d < 2 ^ 64"
  have "unat (w * 10) = unat w * 10"
    using * by (simp add: unat_word_ariths)
  then show "unat (w * 10 + of_nat d) = unat w * 10 + d"
    using * d by (subst unat_add_no_wrap) simp_all
qed

lemma parse_whole_eq:
  "parse_whole w chs = (if list_all is_digit chs \<and> dec_value (unat w) chs < 2 ^ 64
     then Some (of_nat (dec_value (unat w) chs)) else None)"
proof (induction chs arbitrary: w)
  case Nil
  then show ?case using unat_u64_less [of w] by simp
next
  case (Cons ch chs)
  show ?case
  proof (cases "is_digit ch")
    case True
    note d = digit_value_less [OF True]
    note over = checked_append_digit [OF d, of w]
    show ?thesis
    proof (cases "unat w * 10 + digit_value ch < 2 ^ 64")
      case True
      then show ?thesis using \<open>is_digit ch\<close> over Cons.IH by (simp add: Let_def)
    next
      case False
      then have "\<not> dec_value (unat w * 10 + digit_value ch) chs < 2 ^ 64"
        using dec_value_mono [of "unat w * 10 + digit_value ch" chs] by linarith
      with False over(1) show ?thesis by (simp add: Let_def)
    qed
  qed simp
qed

lemma parse_fraction_eq:
  assumes "list_all is_digit chs" and "unat t < 10 ^ min idx 4"
  shows "parse_fraction idx t b chs = Some (of_nat (dec_value (unat t) (take (4 - idx) chs)),
     b \<or> \<not> list_all (\<lambda>ch. ch = CHR ''0'') (drop (4 - idx) chs))"
  using assms
proof (induction chs arbitrary: idx t b)
  case Nil
  then show ?case by simp
next
  case (Cons ch chs)
  show ?case
  proof (cases "idx < 4")
    case True
    have d: "digit_value ch < 10" using Cons.prems by (simp add: digit_value_less)
    have t: "unat t < 10 ^ idx" using Cons.prems(2) True by simp
    also have "(10::nat) ^ idx \<le> 10 ^ 3" using True by (intro power_increasing) auto
    finally have "unat t < 1000" by simp
    then have t': "unat (t * 10 + of_nat (digit_value ch)) = unat t * 10 + digit_value ch"
      using checked_append_digit(2) [OF d, of t] d by simp
    moreover have "unat t * 10 + digit_value ch < 10 ^ min (Suc idx) 4"
      using True t d by simp
    ultimately have "parse_fraction (Suc idx) (t * 10 + of_nat (digit_value ch)) b chs
        = Some (of_nat (dec_value (unat t * 10 + digit_value ch) (take (4 - Suc idx) chs)),
            b \<or> \<not> list_all (\<lambda>ch. ch = CHR ''0'') (drop (4 - Suc idx) chs))"
      using Cons.IH [of "t * 10 + of_nat (digit_value ch)" "Suc idx" b] Cons.prems(1) by simp
    moreover have "4 - idx = Suc (4 - Suc idx)" using True by simp
    ultimately show ?thesis using Cons.prems(1) True by (simp add: kMONEY_TICK_DECIMAL_PLACES_def)
  next
    case False
    then show ?thesis using Cons.prems Cons.IH [of t "Suc idx"]
      by (simp add: kMONEY_TICK_DECIMAL_PLACES_def)
  qed
qed

lemma parse_fraction_bad: "\<not> list_all is_digit chs \<Longrightarrow> parse_fraction idx t b chs = None"
  by (induction chs arbitrary: idx t b) auto

lemma unat_scale_fraction:
  "unat t * 10 ^ n < 2 ^ 64 \<Longrightarrow> unat (scale_fraction n t) = unat t * 10 ^ n"
proof (induction n arbitrary: t)
  case 0
  then show ?case by simp
next
  case (Suc n)
  have "unat t * 10 \<le> unat t * 10 ^ Suc n" by simp
  with Suc.prems have "unat t * 10 < 2 ^ 64" by linarith
  then have "unat (t * 10) = unat t * 10" by (simp add: unat_word_ariths)
  with Suc show ?case by (simp add: ac_simps)
qed

lemma micros_split:
  fixes w f :: nat
  shows "(w * 1000000 + f) div 100 = w * 10000 + f div 100" and "(w * 1000000 + f) mod 100 = f mod 100"
proof -
  have eq: "w * 1000000 + f = f + (w * 10000) * 100" by simp
  show "(w * 1000000 + f) div 100 = w * 10000 + f div 100"
    unfolding eq by (subst div_mult_self1) (simp_all only: numeral_neq_zero not_False_eq_True)
  show "(w * 1000000 + f) mod 100 = f mod 100"
    unfolding eq by (rule mod_mult_self1)
qed

lemma fraction_split:
  assumes dig: "list_all is_digit cs" and len: "length cs \<le> 6"
  defines "t \<equiv> dec_value 0 (take 4 cs) * 10 ^ (4 - length cs)"
    and "f \<equiv> dec_value 0 cs * 10 ^ (6 - length cs)"
  shows "f div 100 = t" and "f mod 100 = 0 \<longleftrightarrow> list_all (\<lambda>ch. ch = CHR ''0'') (drop 4 cs)"
    and "t < 10000"
proof -
  let ?a = "dec_value 0 (take 4 cs)" and ?d = "dec_value 0 (drop 4 cs)"
  have take: "list_all is_digit (take 4 cs)" and drop: "list_all is_digit (drop 4 cs)"
    using dig by (metis append_take_drop_id list_all_append)+
  have a: "?a < 10 ^ min (length cs) 4" using dec_value_less [OF take] by simp
  have d: "?d < 10 ^ (length cs - 4)" using dec_value_less [OF drop] by simp
  have "dec_value 0 cs = dec_value ?a (drop 4 cs)"
    by (metis append_take_drop_id dec_value_append)
  then have cs: "dec_value 0 cs = ?a * 10 ^ (length cs - 4) + ?d"
    using dec_value_acc [of ?a "drop 4 cs"] by simp
  have zero: "?d = 0 \<longleftrightarrow> list_all (\<lambda>ch. ch = CHR ''0'') (drop 4 cs)"
    by (rule dec_value_0_iff [OF drop])
  consider "length cs \<le> 4" | "length cs = 5" | "length cs = 6" using len by linarith
  then have "f div 100 = t \<and> (f mod 100 = 0 \<longleftrightarrow> list_all (\<lambda>ch. ch = CHR ''0'') (drop 4 cs)) \<and> t < 10000"
  proof cases
    case 1
    then have "6 - length cs = (4 - length cs) + 2" by simp
    then have "(10::nat) ^ (6 - length cs) = 10 ^ (4 - length cs) * 10 ^ 2" by (simp only: power_add)
    then have f: "f = t * 100" using 1 cs d by (simp add: f_def t_def)
    have "t < 10 ^ length cs * 10 ^ (4 - length cs)" using a 1 by (simp add: t_def)
    also have "\<dots> = 10 ^ 4" using 1 by (simp flip: power_add)
    finally show ?thesis using f 1 by simp
  next
    case 2
    then have "f = ?a * 100 + ?d * 10" "t = ?a" "?d * 10 < 100" "?a < 10000"
      using cs a d by (simp_all add: f_def t_def)
    then show ?thesis using zero by auto
  next
    case 3
    then have "f = ?a * 100 + ?d" "t = ?a" "?d < 100" "?a < 10000"
      using cs a d by (simp_all add: f_def t_def)
    then show ?thesis using zero by simp
  qed
  then show "f div 100 = t" and "f mod 100 = 0 \<longleftrightarrow> list_all (\<lambda>ch. ch = CHR ''0'') (drop 4 cs)"
    and "t < 10000"
    by simp_all
qed

lemma round_ticks_eq:
  "round_ticks r neg m =
     (let q = int (m div 100) + (if m mod 100 \<noteq> 0 \<and> (r = MTR_kAWAY_FROM_ZERO \<or> r = MTR_kFLOOR \<and> neg)
                                then 1 else 0)
      in if neg then - q else q)"
proof -
  let ?q = "int m div 100" and ?r = "int m mod 100"
  have q: "int (m div 100) = ?q" by (simp add: zdiv_int)
  have z: "m mod 100 = 0 \<longleftrightarrow> ?r = 0" by presburger
  have m: "int m = 100 * ?q + ?r" and r: "0 \<le> ?r" "?r < 100" by simp_all
  have "(int m + 99) div 100 = ?q" "(- int m) div 100 = - ?q" if "?r = 0"
    using m that int_div_pos_eq [of "int m + 99" 100 ?q 99] int_div_pos_eq [of "- int m" 100 "- ?q" 0]
    by linarith+
  moreover have "(int m + 99) div 100 = ?q + 1" "(- int m) div 100 = - ?q - 1" if "?r \<noteq> 0"
    using m r that int_div_pos_eq [of "int m + 99" 100 "?q + 1" "?r - 1"]
      int_div_pos_eq [of "- int m" 100 "- ?q - 1" "100 - ?r"] by linarith+
  ultimately show ?thesis
    unfolding round_ticks_def Let_def q z by (cases "?r = 0"; cases r; simp)
qed

lemma magnitude_arith:
  fixes w t :: u64
  assumes "unat t < 10000"
  shows "w > (to_u64 i64_max - t) div 10000 \<longleftrightarrow> \<not> unat w * 10000 + unat t \<le> 2 ^ 63 - 1"
    and "unat w * 10000 + unat t \<le> 2 ^ 63 - 1 \<Longrightarrow> unat (w * 10000 + t) = unat w * 10000 + unat t"
proof -
  have "t \<le> to_u64 i64_max" using assms by (simp add: word_le_nat_alt)
  then have "unat ((to_u64 i64_max - t) div 10000) = (2 ^ 63 - 1 - unat t) div 10000"
    by (simp add: unat_div unat_sub)
  then have "w > (to_u64 i64_max - t) div 10000 \<longleftrightarrow> (2 ^ 63 - 1 - unat t) div 10000 < unat w"
    by (simp add: word_less_nat_alt)
  then show "w > (to_u64 i64_max - t) div 10000 \<longleftrightarrow> \<not> unat w * 10000 + unat t \<le> 2 ^ 63 - 1"
    using assms by (simp; linarith)
  assume *: "unat w * 10000 + unat t \<le> 2 ^ 63 - 1"
  then have "unat (w * 10000) = unat w * 10000" by (simp add: unat_word_ariths)
  then show "unat (w * 10000 + t) = unat w * 10000 + unat t"
    using * by (subst unat_add_no_wrap) simp_all
qed

lemma round_ticks_large:
  assumes "2 ^ 64 \<le> w"
  shows "\<not> \<bar>round_ticks r neg (w * 1000000 + n)\<bar> \<le> i64_max"
proof -
  define q where "q = (w * 1000000 + n) div 100"
  have "w * 10000 \<le> q" by (simp add: q_def micros_split)
  then have "2 ^ 64 \<le> int q" using assms by simp
  then show ?thesis unfolding round_ticks_eq Let_def q_def [symmetric] by (auto split: if_splits)
qed

lemma money_spec_signed:
  "decimal_micros s = Some (neg, m) \<Longrightarrow> round_ticks r neg m = (if neg then - q else q) \<Longrightarrow> 0 \<le> q \<Longrightarrow>
   money_spec s r = (if q \<le> i64_max then Some ((if neg then - 1 else 1) * q) else None)"
  by (simp add: money_spec_def Let_def)

lemma money_case_ok:
  assumes syn: "whole \<noteq> []" "length frac \<le> 6" "list_all is_digit whole \<and> list_all is_digit frac"
    and W: "dec_value 0 whole < 2 ^ 64"
    and sign: "split_sign s = (neg, t)" and point: "split_point t = (whole, frac)"
  shows "parse_money_ticks s r = money_spec s r"
proof -
  define ft where "ft = scale_fraction (4 - length frac) (of_nat (dec_value 0 (take 4 frac)))"
  define w :: u64 where "w = of_nat (dec_value 0 whole)"
  define M where "M = dec_value 0 whole * 1000000 + dec_value 0 frac * 10 ^ (6 - length frac)"
  define disc where "disc = (\<not> list_all (\<lambda>ch. ch = CHR ''0'') (drop 4 frac))"
  note split = fraction_split [OF conjunct2 [OF syn(3)] syn(2)]
  have ne: "s \<noteq> []" "t \<noteq> []" using sign point syn(1) by (auto simp: split_sign_def split_point_def)
  have "list_all is_digit (take 4 frac)" using syn(3) by (metis append_take_drop_id list_all_append)
  then have "dec_value 0 (take 4 frac) < 10 ^ length (take 4 frac)" by (rule dec_value_less)
  also have "\<dots> \<le> 10 ^ 4" by (intro power_increasing) simp_all
  finally have "unat (of_nat (dec_value 0 (take 4 frac)) :: u64) = dec_value 0 (take 4 frac)"
    by (simp add: unat_of_nat)
  then have ft: "unat ft = dec_value 0 (take 4 frac) * 10 ^ (4 - length frac)" and ft_less: "unat ft < 10000"
    using unat_scale_fraction [of "of_nat (dec_value 0 (take 4 frac))" "4 - length frac"] split(3)
    by (simp_all add: ft_def)
  have w: "unat w = dec_value 0 whole" using W by (simp add: w_def unat_of_nat)
  have M: "M div 100 = unat w * 10000 + unat ft" "M mod 100 \<noteq> 0 \<longleftrightarrow> disc"
    using split(1,2) by (simp_all add: M_def w ft disc_def micros_split)
  have frac: "parse_fraction 0 0 False frac = Some (of_nat (dec_value 0 (take 4 frac)), disc)"
    using parse_fraction_eq [of frac 0 0 False] syn(3) by (simp add: disc_def)
  have whole: "parse_whole 0 whole = Some w" using syn(3) W by (simp add: parse_whole_eq w_def)
  note mag = magnitude_arith [OF ft_less, of w]
  define inc where "inc = (disc \<and> (r = MTR_kAWAY_FROM_ZERO \<or> r = MTR_kFLOOR \<and> neg))"
  have code: "parse_money_ticks s r =
      (if w > (to_u64 i64_max - ft) div 10000 then None
       else if inc \<and> w * 10000 + ft = to_u64 i64_max then None
       else Some ((if neg then - 1 else 1) * to_i64 (if inc then w * 10000 + ft + 1 else w * 10000 + ft)))"
    using syn ne
    by (simp add: parse_money_ticks_def sign point whole frac kMAX_WIRE_DECIMAL_PLACES_def
        kMONEY_TICK_DECIMAL_PLACES_def kMONEY_TICKS_PER_DOLLAR_def inc_def Let_def flip: ft_def;
        cases disc; cases r; cases neg; simp)
  have spec: "money_spec s r =
      (let q = int (unat w * 10000 + unat ft) + (if inc then 1 else 0)
       in if q \<le> i64_max then Some ((if neg then - 1 else 1) * q) else None)"
  proof -
    let ?q = "int (unat w * 10000 + unat ft) + (if inc then 1 else 0)"
    have "decimal_micros s = Some (neg, M)" using syn by (simp add: decimal_micros_def sign point M_def)
    moreover have "round_ticks r neg M = (if neg then - ?q else ?q)"
      unfolding round_ticks_eq M inc_def Let_def by simp
    moreover have "0 \<le> ?q" by simp
    ultimately show ?thesis unfolding Let_def by (rule money_spec_signed)
  qed
  define N where "N = unat w * 10000 + unat ft"
  note mag' = mag [folded N_def] and spec' = spec [folded N_def]
  show ?thesis
  proof (cases "N \<le> 2 ^ 63 - 1")
    case False
    then show ?thesis using mag'(1) by (simp add: code spec' Let_def)
  next
    case True
    have le: "unat (w * 10000 + ft) = N" by (rule mag'(2) [OF True])
    have fits: "\<not> w > (to_u64 i64_max - ft) div 10000" using True mag'(1) by blast
    have top: "w * 10000 + ft = to_u64 i64_max \<longleftrightarrow> N = 2 ^ 63 - 1"
      by (simp add: word_unat_eq_iff le)
    have val: "to_i64 (w * 10000 + ft) = int N"
      using True sint_small_u64 [of "w * 10000 + ft"] by (simp add: le)
    show ?thesis
    proof (cases "N = 2 ^ 63 - 1")
      case top': True
      then show ?thesis using fits top val by (simp add: code spec' Let_def)
    next
      case False
      have "unat (w * 10000 + ft + 1) = N + 1"
        using True le by (subst unat_add_no_wrap) simp_all
      then have "to_i64 (w * 10000 + ft + 1) = int N + 1"
        using False True sint_small_u64 [of "w * 10000 + ft + 1"] by simp
      with False True fits top val show ?thesis by (simp add: code spec' Let_def)
    qed
  qed
qed

section \<open>Properties\<close>

text \<open>C33. \<open>parse_money_ticks\<close> is exact decimal parsing: it accepts exactly an optional sign, at least
  one digit and at most six decimals, and returns the exact amount rounded to ticks as the policy says
  (towards zero, away from zero, or down), whenever the rounded amount fits a signed 64-bit integer;
  otherwise it returns \<open>nullopt\<close>. No intermediate unsigned value wraps.\<close>

theorem parse_money_ticks_exact: "parse_money_ticks s r = money_spec s r"
proof -
  obtain neg t where sign: "split_sign s = (neg, t)" by fastforce
  obtain whole frac where point: "split_point t = (whole, frac)" by fastforce
  have empty: "s = [] \<or> t = [] \<Longrightarrow> whole = []"
    using sign point by (auto simp: split_sign_def split_point_def)
  let ?syn = "whole \<noteq> [] \<and> length frac \<le> 6 \<and> list_all is_digit whole \<and> list_all is_digit frac"
  note unfolds = parse_money_ticks_def money_spec_def decimal_micros_def sign point
  show ?thesis
  proof (cases "?syn \<and> dec_value 0 whole < 2 ^ 64")
    case True
    then show ?thesis
      using money_case_ok [OF _ _ _ _ sign point, of r] empty by blast
  next
    case False
    show ?thesis
    proof (cases ?syn)
      case True
      then have big: "2 ^ 64 \<le> dec_value 0 whole" using False by simp
      then have "parse_whole 0 whole = None" by (simp add: parse_whole_eq)
      moreover have "\<not> \<bar>round_ticks r neg (dec_value 0 whole * 1000000 + n)\<bar> \<le> i64_max" for n
        using round_ticks_large [OF big] .
      ultimately show ?thesis by (simp add: unfolds Let_def)
    next
      case False
      then show ?thesis using parse_fraction_bad [of frac 0 0 False]
        by (auto simp: unfolds parse_whole_eq kMAX_WIRE_DECIMAL_PLACES_def split: option.splits)
    qed
  qed
qed

end
