(* ===== verification/Book.thy ===== *)
theory Book
  imports Market_Types
begin

text \<open>
  \<open>cpp/include/predex/shard/models.hpp\<close>: the order book of one market (\<open>KalshiBook\<close>), the market and
  event state around it, and the parsed market-data events. A book stores one quantity per price level
  of its grid; \<open>index_by_tick\<close> and \<open>tick_by_index\<close> translate between price ticks and levels. Shown
  here: \<open>set_index_grid\<close> builds a consistent pair of tables for every price structure, and the
  abstract view of a book as a quantity for every price.

  \<open>set_index_grid\<close> catches \<open>std::bad_alloc\<close>; whether the allocations succeed is an input (\<open>alloc_ok\<close>).
\<close>

section \<open>Data\<close>

definition kTICKSCALE :: nat where "kTICKSCALE = 10000"
definition kTICK_TO_LINEAR_CENTS_DIVISOR :: nat where "kTICK_TO_LINEAR_CENTS_DIVISOR = 100"
definition kTICK_TO_TAPERED_DECI_CENTS_DIVISOR :: nat where "kTICK_TO_TAPERED_DECI_CENTS_DIVISOR = 10"
definition kTICK_TO_DECI_CENTS_DIVISOR :: nat where "kTICK_TO_DECI_CENTS_DIVISOR = 10"
definition kLEVEL_COUNT_LINEAR_CENTS :: nat where "kLEVEL_COUNT_LINEAR_CENTS = 101"
definition kLEVEL_COUNT_TAPERED_DECI_CENTS :: nat where "kLEVEL_COUNT_TAPERED_DECI_CENTS = 1001"
definition kLEVEL_COUNT_DECI_CENTS :: nat where "kLEVEL_COUNT_DECI_CENTS = 1001"

lemmas grid_constants = kTICKSCALE_def kTICK_TO_LINEAR_CENTS_DIVISOR_def
  kTICK_TO_TAPERED_DECI_CENTS_DIVISOR_def kTICK_TO_DECI_CENTS_DIVISOR_def
  kLEVEL_COUNT_LINEAR_CENTS_def kLEVEL_COUNT_TAPERED_DECI_CENTS_def kLEVEL_COUNT_DECI_CENTS_def

type_synonym price_ticks = u64
type_synonym qty_lots = u64
type_synonym delta_qty_lots = i64

datatype side = S_kUNKNOWN | S_kBID | S_kASK
datatype aggressor_side = AS_kUNKNOWN | AS_kBUY | AS_kSELL
datatype market_scale = MS_kUNKNOWN | MS_kLINEAR_CENTS | MS_kTAPERED_DECI_CENTS | MS_kDECI_CENTS
datatype book_sync_state =
    BSS_kAWAITING_INITIAL_SNAPSHOT | BSS_kSYNCHRONIZED | BSS_kAWAITING_RECOVERY_SNAPSHOT

definition kInvalidBookIndex :: u16 where "kInvalidBookIndex = - 1"

record kalshi_book =
  kb_index_by_tick :: "u16 list"
  kb_tick_by_index :: "price_ticks list"
  kb_invalid_index :: u16
  kb_bids :: "qty_lots list"
  kb_asks :: "qty_lots list"
  kb_scale :: market_scale
  kb_sync_state :: book_sync_state

text \<open>\<open>KalshiBook{}\<close>\<close>

definition empty_book :: kalshi_book where
  "empty_book = \<lparr>kb_index_by_tick = [], kb_tick_by_index = [], kb_invalid_index = kInvalidBookIndex,
     kb_bids = [], kb_asks = [], kb_scale = MS_kUNKNOWN,
     kb_sync_state = BSS_kAWAITING_INITIAL_SNAPSHOT\<rparr>"

record kalshi_market =
  km_market_id :: market_id
  km_event_market_index :: u32
  km_tradeable :: bool
  km_book :: kalshi_book
  km_strike_key :: "i64 option"
  km_market_time_s :: u64
  km_market_close_time_s :: u64
  km_market_expected_expiration_time_s :: u64
  km_market_expiration_time_s :: u64

datatype event_derived_state =
    EDS_monostate | SingleMarketState | MutuallyExclusiveState | MonotonicChainState | UnorderedGroupState

record kalshi_event =
  ke_event_id :: event_id
  ke_topology :: event_topology
  ke_shard_event_index :: u32
  ke_markets :: "kalshi_market list"
  ke_derived_state :: event_derived_state

record level =
  lv_price_ticks :: price_ticks
  lv_qty_lots :: qty_lots

record kalshi_snapshot_event =
  se_bids :: "level list"
  se_asks :: "level list"

record kalshi_delta_data =
  dd_side :: side
  dd_price_ticks :: price_ticks
  dd_delta_qty_lots :: delta_qty_lots

record kalshi_trade_data =
  td_price_ticks :: price_ticks
  td_qty_lots :: qty_lots
  td_aggressor :: aggressor_side
  td_book_side :: side

datatype kalshi_parsed_event =
    PE_monostate
  | PE_Snapshot kalshi_snapshot_event
  | PE_Delta kalshi_delta_data
  | PE_Trade kalshi_trade_data
  | PE_Lifecycle

section \<open>Operations of a book\<close>

definition get_index :: "kalshi_book \<Rightarrow> price_ticks \<Rightarrow> nat option" where
  "get_index b price_ticks =
     (if unat price_ticks \<ge> length (kb_index_by_tick b) then None
      else let index = kb_index_by_tick b ! unat price_ticks
           in if index = kb_invalid_index b then None else Some (unat index))"

definition price_ticks_at_index :: "kalshi_book \<Rightarrow> nat \<Rightarrow> price_ticks option" where
  "price_ticks_at_index b index =
     (if index \<ge> length (kb_tick_by_index b) then None else Some (kb_tick_by_index b ! index))"

fun grid_parameters :: "market_scale \<Rightarrow> (nat \<times> nat) option" where
  "grid_parameters MS_kLINEAR_CENTS =
     Some (kTICK_TO_LINEAR_CENTS_DIVISOR, kLEVEL_COUNT_LINEAR_CENTS)"
| "grid_parameters MS_kTAPERED_DECI_CENTS =
     Some (kTICK_TO_TAPERED_DECI_CENTS_DIVISOR, kLEVEL_COUNT_TAPERED_DECI_CENTS)"
| "grid_parameters MS_kDECI_CENTS = Some (kTICK_TO_DECI_CENTS_DIVISOR, kLEVEL_COUNT_DECI_CENTS)"
| "grid_parameters MS_kUNKNOWN = None"

text \<open>The body of the loop over \<open>tick\<close>.\<close>

definition grid_step :: "nat \<Rightarrow> nat \<Rightarrow> nat \<Rightarrow> u16 list \<times> price_ticks list \<Rightarrow> u16 list \<times> price_ticks list" where
  "grid_step divisor level_count tick tables =
     (let (index_by_tick, tick_by_index) = tables
      in if tick mod divisor = 0
         then let idx = (of_nat (tick div divisor) :: u16)
              in (index_by_tick[tick := idx],
                  if unat idx < level_count then tick_by_index[unat idx := of_nat tick] else tick_by_index)
         else tables)"

definition clear_levels :: "kalshi_book \<Rightarrow> kalshi_book" where
  "clear_levels b = b\<lparr>kb_bids := [], kb_asks := [], kb_index_by_tick := [], kb_tick_by_index := []\<rparr>"

definition set_index_grid :: "bool \<Rightarrow> kalshi_book \<Rightarrow> kalshi_book \<times> bool" where
  "set_index_grid alloc_ok b =
     (case grid_parameters (kb_scale b) of
        None \<Rightarrow> (clear_levels b, False)
      | Some (divisor, level_count) \<Rightarrow>
          if \<not> alloc_ok then (clear_levels b, False)
          else let (index_by_tick, tick_by_index) =
                     fold (grid_step divisor level_count) [0..<kTICKSCALE + 1]
                       (replicate (kTICKSCALE + 1) (kb_invalid_index b), replicate level_count 0)
               in (b\<lparr>kb_index_by_tick := index_by_tick, kb_tick_by_index := tick_by_index,
                     kb_bids := replicate level_count 0, kb_asks := replicate level_count 0\<rparr>, True))"

definition book_usable :: "kalshi_book \<Rightarrow> bool" where
  "book_usable b \<longleftrightarrow> kb_sync_state b = BSS_kSYNCHRONIZED"

definition awaiting_snapshot :: "kalshi_book \<Rightarrow> bool" where
  "awaiting_snapshot b \<longleftrightarrow> \<not> book_usable b"

definition book_invalidate :: "kalshi_book \<Rightarrow> kalshi_book" where
  "book_invalidate b = b\<lparr>kb_sync_state := BSS_kAWAITING_RECOVERY_SNAPSHOT,
     kb_bids := replicate (length (kb_bids b)) 0, kb_asks := replicate (length (kb_asks b)) 0\<rparr>"

section \<open>The grid\<close>

lemma grid_parameters_cases:
  "grid_parameters s = Some (d, n) \<Longrightarrow> 0 < d \<and> d dvd 10000 \<and> n = 10000 div d + 1 \<and> n \<le> 1001"
  by (cases s) (auto simp: grid_constants)

definition grid_tables :: "nat \<Rightarrow> nat \<Rightarrow> nat \<Rightarrow> u16 list \<times> price_ticks list" where
  "grid_tables d n k = (map (\<lambda>t. if t < k \<and> t mod d = 0 then of_nat (t div d) else - 1) [0..<10001],
     map (\<lambda>i. if i * d < k then of_nat (i * d) else 0) [0..<n])"

lemma grid_step_tables:
  assumes d: "0 < d" "d dvd 10000" and n: "n = 10000 div d + 1" "n \<le> 1001" and k: "k \<le> 10000"
  shows "grid_step d n k (grid_tables d n k) = grid_tables d n (Suc k)"
proof (cases "k mod d = 0")
  case False
  then have "t < Suc k \<and> t mod d = 0 \<longleftrightarrow> t < k \<and> t mod d = 0" for t
    by (auto simp: less_Suc_eq)
  moreover have "i * d < Suc k \<longleftrightarrow> i * d < k" for i
    using False by (metis less_Suc_eq mod_mult_self2_is_0)
  ultimately show ?thesis using False by (simp add: grid_step_def grid_tables_def)
next
  case True
  let ?i = "k div d"
  have k': "?i * d = k" using True by (simp add: div_mult_self_is_m mod_0_imp_dvd)
  have i: "?i < n" using k n by (simp add: div_le_mono le_imp_less_Suc)
  have u: "unat (of_nat ?i :: u16) = ?i" using i n(2) by (simp add: unat_of_nat)
  have "(map (\<lambda>t. if t < k \<and> t mod d = 0 then of_nat (t div d) else - 1) [0..<10001])[k := of_nat ?i :: u16]
      = map (\<lambda>t. if t < Suc k \<and> t mod d = 0 then of_nat (t div d) else - 1) [0..<10001]"
    using k True by (intro nth_equalityI) (auto simp: nth_list_update less_Suc_eq simp del: upt_Suc)
  moreover have "(map (\<lambda>i. if i * d < k then of_nat (i * d) else 0) [0..<n])[?i := of_nat k :: u64]
      = map (\<lambda>i. if i * d < Suc k then of_nat (i * d) else 0) [0..<n]"
  proof (rule nth_equalityI)
    fix j assume "j < length ((map (\<lambda>i. if i * d < k then of_nat (i * d) else 0) [0..<n])[?i := of_nat k :: u64])"
    then have "j < n" by simp
    have "j * d = k \<longleftrightarrow> j = ?i" using k' d(1) by auto
    then show "(map (\<lambda>i. if i * d < k then of_nat (i * d) else 0) [0..<n])[?i := of_nat k :: u64] ! j
        = map (\<lambda>i. if i * d < Suc k then of_nat (i * d) else 0) [0..<n] ! j"
      using \<open>j < n\<close> i k' by (auto simp: nth_list_update less_Suc_eq simp del: of_nat_mult)
  qed simp
  ultimately show ?thesis using True i u by (simp add: grid_step_def grid_tables_def Let_def)
qed

lemma grid_fold:
  assumes "0 < d" "d dvd 10000" and "n = 10000 div d + 1" "n \<le> 1001" and "k \<le> 10001"
  shows "fold (grid_step d n) [0..<k] (grid_tables d n 0) = grid_tables d n k"
  using assms(5)
proof (induction k)
  case 0
  then show ?case by simp
next
  case (Suc k)
  then show ?case using grid_step_tables [OF assms(1-4), of k] by simp
qed

lemma set_index_grid_eq:
  assumes g: "grid_parameters (kb_scale b) = Some (d, n)" and inv: "kb_invalid_index b = - 1"
  shows "set_index_grid True b =
    (b\<lparr>kb_index_by_tick := map (\<lambda>t. if t mod d = 0 then of_nat (t div d) else - 1) [0..<10001],
       kb_tick_by_index := map (\<lambda>i. of_nat (i * d)) [0..<n],
       kb_bids := replicate n 0, kb_asks := replicate n 0\<rparr>, True)"
proof -
  note p = grid_parameters_cases [OF g]
  have "grid_tables d n 0 = (replicate 10001 (- 1), replicate n 0)"
    by (simp add: grid_tables_def map_replicate_const)
  moreover have "i * d < 10001" if "i < n" for i
  proof -
    have "i \<le> 10000 div d" using that p by simp
    then have "i * d \<le> 10000 div d * d" by (rule mult_le_mono1)
    also have "\<dots> \<le> 10000" by simp
    finally show ?thesis by simp
  qed
  then have "grid_tables d n 10001 = (map (\<lambda>t. if t mod d = 0 then of_nat (t div d) else - 1) [0..<10001],
      map (\<lambda>i. of_nat (i * d)) [0..<n])"
    by (auto simp: grid_tables_def)
  ultimately show ?thesis
    using grid_fold [of d n 10001] p g inv
    by (simp add: set_index_grid_def kTICKSCALE_def del: upt_Suc replicate_Suc)
qed

text \<open>The levels of a scale, as prices.\<close>

definition on_grid :: "market_scale \<Rightarrow> price_ticks \<Rightarrow> bool" where
  "on_grid s p \<longleftrightarrow> (case grid_parameters s of None \<Rightarrow> False
     | Some (d, _) \<Rightarrow> unat p \<le> kTICKSCALE \<and> unat p mod d = 0)"

text \<open>A book whose tables are those of its scale.\<close>

definition gridded :: "kalshi_book \<Rightarrow> bool" where
  "gridded b \<longleftrightarrow> (case grid_parameters (kb_scale b) of None \<Rightarrow> False
     | Some (d, n) \<Rightarrow> kb_invalid_index b = - 1
         \<and> kb_index_by_tick b = map (\<lambda>t. if t mod d = 0 then of_nat (t div d) else - 1) [0..<10001]
         \<and> kb_tick_by_index b = map (\<lambda>i. of_nat (i * d)) [0..<n]
         \<and> length (kb_bids b) = n \<and> length (kb_asks b) = n)"

definition book_wf :: "kalshi_book \<Rightarrow> bool" where
  "book_wf b \<longleftrightarrow> (book_usable b \<longrightarrow> gridded b)"

lemma set_index_grid_gridded:
  "set_index_grid alloc_ok b = (b', True) \<Longrightarrow> kb_invalid_index b = - 1 \<Longrightarrow> gridded b'
     \<and> kb_scale b' = kb_scale b \<and> kb_sync_state b' = kb_sync_state b
     \<and> kb_bids b' = replicate (length (kb_bids b')) 0 \<and> kb_asks b' = replicate (length (kb_asks b')) 0"
  using set_index_grid_eq [of b]
  by (cases alloc_ok; cases "grid_parameters (kb_scale b)")
    (auto simp: gridded_def set_index_grid_def split: prod.splits)

lemma set_index_grid_ok_iff:
  "snd (set_index_grid alloc_ok b) \<longleftrightarrow> alloc_ok \<and> kb_scale b \<noteq> MS_kUNKNOWN"
  by (cases "kb_scale b") (auto simp: set_index_grid_def split: prod.splits)

lemma grid_index_word:
  assumes "grid_parameters s = Some (d, n)" and "t \<le> 10000"
  shows "unat (of_nat (t div d) :: u16) = t div d" and "of_nat (t div d) \<noteq> (- 1 :: u16)"
    and "t div d < n"
proof -
  note p = grid_parameters_cases [OF assms(1)]
  show le: "t div d < n" using p assms(2) by (simp add: div_le_mono le_imp_less_Suc)
  with p have lt: "t div d < 65535" by linarith
  then show u: "unat (of_nat (t div d) :: u16) = t div d" by (simp add: unat_of_nat)
  show "of_nat (t div d) \<noteq> (- 1 :: u16)"
  proof
    assume "of_nat (t div d) = (- 1 :: u16)"
    then have "unat (of_nat (t div d) :: u16) = 65535" by (simp add: unat_max_word)
    with u lt show False by simp
  qed
qed

lemma get_index_gridded:
  assumes "gridded b"
  shows "get_index b p = (if on_grid (kb_scale b) p
    then Some (unat p div fst (the (grid_parameters (kb_scale b)))) else None)"
proof -
  from assms obtain d n where g: "grid_parameters (kb_scale b) = Some (d, n)"
    by (auto simp: gridded_def split: option.splits)
  show ?thesis
  proof (cases "unat p \<le> 10000")
    case True
    then show ?thesis using assms g grid_index_word [OF g True]
      by (auto simp: get_index_def gridded_def on_grid_def kTICKSCALE_def Let_def simp del: upt_Suc)
  next
    case False
    then show ?thesis using assms g
      by (auto simp: get_index_def gridded_def on_grid_def kTICKSCALE_def simp del: upt_Suc)
  qed
qed

lemma get_index_bound:
  assumes "gridded b" and "get_index b p = Some i"
  shows "i < length (kb_bids b)" and "i < length (kb_asks b)"
proof -
  from assms(1) obtain d n where g: "grid_parameters (kb_scale b) = Some (d, n)"
    by (auto simp: gridded_def split: option.splits)
  have "on_grid (kb_scale b) p" and i: "i = unat p div d"
    using assms g by (auto simp: get_index_gridded split: if_splits)
  then have "unat p \<le> 10000" using g by (simp add: on_grid_def kTICKSCALE_def)
  then show "i < length (kb_bids b)" "i < length (kb_asks b)"
    using grid_index_word(3) [OF g] i assms(1) g by (simp_all add: gridded_def)
qed

lemma get_index_inj:
  assumes "gridded b" and "get_index b p = Some i" and "get_index b q = Some i"
  shows "p = q"
proof -
  from assms(1) obtain d n where g: "grid_parameters (kb_scale b) = Some (d, n)"
    by (auto simp: gridded_def split: option.splits)
  have "unat p mod d = 0" "unat q mod d = 0" "unat p div d = unat q div d"
    using assms g by (auto simp: get_index_gridded on_grid_def split: if_splits)
  then have "unat p = unat q" by (metis div_mult_mod_eq)
  then show ?thesis by (simp add: word_unat_eq_iff)
qed

lemma get_index_price_at:
  assumes "gridded b" and "price_ticks_at_index b i = Some p"
  shows "get_index b p = Some i"
proof -
  from assms(1) obtain d n where g: "grid_parameters (kb_scale b) = Some (d, n)"
    by (auto simp: gridded_def split: option.splits)
  note c = grid_parameters_cases [OF g]
  have i: "i < n" and p: "p = of_nat (i * d)"
    using assms g by (auto simp: price_ticks_at_index_def gridded_def split: if_splits)
  have "i \<le> 10000 div d" using i c by simp
  then have le: "i * d \<le> 10000" by (metis c dvd_div_mult_self mult_le_mono1)
  then have "unat p = i * d" unfolding p by (simp add: unat_of_nat del: of_nat_mult)
  then show ?thesis using assms(1) g le c
    by (simp add: get_index_gridded on_grid_def kTICKSCALE_def)
qed

lemma price_at_get_index:
  assumes "gridded b" and "get_index b p = Some i"
  shows "price_ticks_at_index b i = Some p"
proof -
  from assms(1) obtain d n where g: "grid_parameters (kb_scale b) = Some (d, n)"
    by (auto simp: gridded_def split: option.splits)
  have "i < length (kb_tick_by_index b)"
    using get_index_bound(1) [OF assms] assms(1) g by (simp add: gridded_def)
  then obtain q where q: "price_ticks_at_index b i = Some q" by (simp add: price_ticks_at_index_def)
  with get_index_price_at [OF assms(1) q] get_index_inj [OF assms(1)] assms(2) show ?thesis by blast
qed

section \<open>A book as a quantity for every price\<close>

definition level_at :: "kalshi_book \<Rightarrow> qty_lots list \<Rightarrow> price_ticks \<Rightarrow> nat" where
  "level_at b levels p = (case get_index b p of None \<Rightarrow> 0 | Some i \<Rightarrow> unat (levels ! i))"

definition bid_qty :: "kalshi_book \<Rightarrow> price_ticks \<Rightarrow> nat" where
  "bid_qty b = level_at b (kb_bids b)"

definition ask_qty :: "kalshi_book \<Rightarrow> price_ticks \<Rightarrow> nat" where
  "ask_qty b = level_at b (kb_asks b)"

lemma level_at_update:
  assumes "gridded b" and "get_index b p = Some i" and "i < length levels"
  shows "level_at b (levels[i := q]) = (level_at b levels)(p := unat q)"
proof
  fix r
  show "level_at b (levels[i := q]) r = ((level_at b levels)(p := unat q)) r"
  proof (cases "get_index b r")
    case None
    with assms(2) show ?thesis by (auto simp: level_at_def)
  next
    case (Some j)
    then have "j = i \<longleftrightarrow> r = p" using get_index_inj [OF assms(1)] assms(2) by auto
    with Some assms show ?thesis by (auto simp: level_at_def)
  qed
qed

lemma get_index_cong:
  "kb_index_by_tick b = kb_index_by_tick c \<Longrightarrow> kb_invalid_index b = kb_invalid_index c \<Longrightarrow>
   get_index b = get_index c"
  by (simp add: get_index_def fun_eq_iff)

text \<open>C40. For every price structure the two tables built by \<open>set_index_grid\<close> are inverse to each other:
  a price has an index exactly when it is a tick of the structure between $0 and $1, every index is in
  range of both sides of the book, and \<open>get_index\<close> and \<open>price_ticks_at_index\<close> invert each other.\<close>

theorem index_grid_roundtrip:
  assumes "set_index_grid alloc_ok b = (b', True)" and "kb_invalid_index b = kInvalidBookIndex"
  shows "(get_index b' p \<noteq> None \<longleftrightarrow> on_grid (kb_scale b) p)
    \<and> (get_index b' p = Some i \<longleftrightarrow> price_ticks_at_index b' i = Some p)
    \<and> (get_index b' p = Some i \<longrightarrow> i < length (kb_bids b') \<and> i < length (kb_asks b'))
    \<and> (i < length (kb_bids b') \<longrightarrow> price_ticks_at_index b' i \<noteq> None)"
proof -
  have g: "gridded b'" and s: "kb_scale b' = kb_scale b"
    using set_index_grid_gridded [OF assms(1)] assms(2) by (simp_all add: kInvalidBookIndex_def)
  have "price_ticks_at_index b' i \<noteq> None" if "i < length (kb_bids b')"
    using g that by (auto simp: gridded_def price_ticks_at_index_def split: option.splits)
  moreover have "get_index b' p \<noteq> None \<longleftrightarrow> on_grid (kb_scale b) p"
    by (simp add: get_index_gridded [OF g] s)
  ultimately show ?thesis
    using get_index_price_at [OF g] price_at_get_index [OF g] get_index_bound [OF g] by blast
qed

theorem index_grid_roundtrip_witness:
  "get_index (fst (set_index_grid True (empty_book\<lparr>kb_scale := MS_kLINEAR_CENTS\<rparr>))) 4200 \<noteq> None
   \<and> get_index (fst (set_index_grid True (empty_book\<lparr>kb_scale := MS_kLINEAR_CENTS\<rparr>))) 4250 = None"
proof -
  let ?b = "empty_book\<lparr>kb_scale := MS_kLINEAR_CENTS\<rparr>"
  have ok: "set_index_grid True ?b = (fst (set_index_grid True ?b), True)"
    using set_index_grid_ok_iff [of True ?b] by (simp add: prod_eq_iff)
  have "kb_invalid_index ?b = kInvalidBookIndex" by (simp add: empty_book_def)
  note rt = index_grid_roundtrip [OF ok this, THEN conjunct1]
  show ?thesis using rt [of 4200] rt [of 4250] by (simp add: on_grid_def grid_constants)
qed

end
