(* ===== verification/Event.thy ===== *)
theory Event
  imports Book
begin

text \<open>
  \<open>cpp/src/shard/event.cpp\<close> and \<open>cpp/src/shard/event_store.cpp\<close>: how a shard applies parsed market
  data to the books of an event, invalidates books, counts revisions and builds the observation of a
  monotonic pair for the strategy. The abstract book \<open>book_view\<close> says whether a snapshot is missing, a
  recovery snapshot is awaited, or which quantity rests at every price; the operations are shown to
  refine it.
\<close>

section \<open>Results\<close>

datatype apply_disposition = AD_kAPPLIED | AD_kIGNORED | AD_kREJECTED

datatype book_sync_transition =
    BST_kNONE | BST_kINITIAL_SNAPSHOT_INSTALLED | BST_kBECAME_UNUSABLE | BST_kRECOVERED
  | BST_kRECOVERY_REQUIRED

datatype market_apply_reason =
    MAR_kNONE | MAR_kUNKNOWN_EVENT_TYPE | MAR_kINVALID_MARKET_INDEX | MAR_kINVALID_SIDE
  | MAR_kINVALID_PRICE | MAR_kMISSING_INITIAL_SNAPSHOT | MAR_kMISSING_RECOVERY_SNAPSHOT
  | MAR_kNEGATIVE_LEVEL | MAR_kINVALID_BOOK_SCALE | MAR_kOVERFLOW

record market_apply_result =
  mar_disposition :: apply_disposition
  mar_book_sync_transition :: book_sync_transition
  mar_reason :: market_apply_reason

record event_apply_result =
  ear_disposition :: apply_disposition
  ear_book_sync_transition :: book_sync_transition
  ear_reason :: market_apply_reason
  ear_book_changed :: bool
  ear_event_became_usable :: bool
  ear_event_revision :: u64

datatype invalidation_reject_reason =
    IRR_kNONE | IRR_kINVALID_EVENT_INDEX | IRR_kINVALID_MARKET_INDEX | IRR_kMARKET_ID_MISMATCH

record book_invalidation_result =
  bir_target_found :: bool
  bir_book_sync_transition :: book_sync_transition
  bir_reason :: book_invalidation_reason
  bir_reject_reason :: invalidation_reject_reason
  bir_event_revision :: u64

record book_invalidation_summary =
  bis_targets_found :: u64
  bis_targets_became_unusable :: u64
  bis_targets_recovery_required :: u64
  bis_targets_already_awaiting_recovery :: u64

definition empty_summary :: book_invalidation_summary where
  "empty_summary = \<lparr>bis_targets_found = 0, bis_targets_became_unusable = 0,
     bis_targets_recovery_required = 0, bis_targets_already_awaiting_recovery = 0\<rparr>"

section \<open>One market\<close>

definition install_level :: "kalshi_book \<Rightarrow> qty_lots list \<Rightarrow> level \<Rightarrow> qty_lots list option" where
  "install_level book levels level =
     (case get_index book (lv_price_ticks level) of
        None \<Rightarrow> None
      | Some i \<Rightarrow> if i \<ge> length levels then None else Some (levels[i := lv_qty_lots level]))"

primrec install_levels :: "kalshi_book \<Rightarrow> qty_lots list \<Rightarrow> level list \<Rightarrow> qty_lots list option" where
  "install_levels book levels [] = Some levels"
| "install_levels book levels (l # ls) =
     (case install_level book levels l of None \<Rightarrow> None
      | Some levels' \<Rightarrow> install_levels book levels' ls)"

definition set_book :: "kalshi_market \<Rightarrow> kalshi_book \<Rightarrow> kalshi_market" where
  "set_book m b = m\<lparr>km_book := b\<rparr>"

definition reject_snapshot :: "kalshi_market \<Rightarrow> market_apply_reason \<Rightarrow> kalshi_market \<times> market_apply_result" where
  "reject_snapshot market reason =
     (let previous_state = kb_sync_state (km_book market)
      in if reason = MAR_kINVALID_BOOK_SCALE
         then (market, \<lparr>mar_disposition = AD_kREJECTED, mar_book_sync_transition = BST_kNONE,
                        mar_reason = reason\<rparr>)
         else (set_book market (book_invalidate (km_book market)),
               \<lparr>mar_disposition = AD_kREJECTED,
                mar_book_sync_transition =
                  (case previous_state of
                     BSS_kSYNCHRONIZED \<Rightarrow> BST_kBECAME_UNUSABLE
                   | BSS_kAWAITING_INITIAL_SNAPSHOT \<Rightarrow> BST_kRECOVERY_REQUIRED
                   | BSS_kAWAITING_RECOVERY_SNAPSHOT \<Rightarrow> BST_kNONE),
                mar_reason = reason\<rparr>))"

definition reject_delta :: "kalshi_market \<Rightarrow> market_apply_reason \<Rightarrow> kalshi_market \<times> market_apply_result" where
  "reject_delta market reason =
     (let was_usable = book_usable (km_book market)
      in (set_book market (book_invalidate (km_book market)),
          \<lparr>mar_disposition = AD_kREJECTED,
           mar_book_sync_transition = (if was_usable then BST_kBECAME_UNUSABLE else BST_kNONE),
           mar_reason = reason\<rparr>))"

definition apply_snapshot ::
  "bool \<Rightarrow> kalshi_market \<Rightarrow> kalshi_snapshot_event \<Rightarrow> kalshi_market \<times> market_apply_result" where
  "apply_snapshot alloc_ok market parsed_event =
     (let (candidate, grid_ok) = set_index_grid alloc_ok (empty_book\<lparr>kb_scale := kb_scale (km_book market)\<rparr>)
      in if \<not> grid_ok then reject_snapshot market MAR_kINVALID_BOOK_SCALE
      else case install_levels candidate (kb_bids candidate) (se_bids parsed_event) of
        None \<Rightarrow> reject_snapshot market MAR_kINVALID_PRICE
      | Some bids \<Rightarrow>
      (case install_levels (candidate\<lparr>kb_bids := bids\<rparr>) (kb_asks candidate) (se_asks parsed_event) of
        None \<Rightarrow> reject_snapshot market MAR_kINVALID_PRICE
      | Some asks \<Rightarrow>
        let candidate1 = candidate\<lparr>kb_bids := bids, kb_asks := asks, kb_sync_state := BSS_kSYNCHRONIZED\<rparr>;
            became_usable = (\<not> book_usable (km_book market));
            prev_sync_state = kb_sync_state (km_book market)
        in (set_book market candidate1,
            \<lparr>mar_disposition = AD_kAPPLIED,
             mar_book_sync_transition =
               (if became_usable
                then (if prev_sync_state = BSS_kAWAITING_INITIAL_SNAPSHOT
                      then BST_kINITIAL_SNAPSHOT_INSTALLED else BST_kRECOVERED)
                else BST_kNONE),
             mar_reason = MAR_kNONE\<rparr>)))"

text \<open>The arithmetic on one level, the same code for a bid and for an ask: the new quantity or the
  reason for the rejection.\<close>

definition delta_level :: "qty_lots \<Rightarrow> delta_qty_lots \<Rightarrow> market_apply_reason + qty_lots" where
  "delta_level level delta =
     (if delta < 0
      then let remove_qty = to_u64 (- (delta + 1)) + 1
           in if level < remove_qty then Inl MAR_kNEGATIVE_LEVEL else Inr (level - remove_qty)
      else let add_qty = to_u64 delta
           in if level > u64_max - add_qty then Inl MAR_kOVERFLOW else Inr (level + add_qty))"

definition applied :: "market_apply_result" where
  "applied = \<lparr>mar_disposition = AD_kAPPLIED, mar_book_sync_transition = BST_kNONE, mar_reason = MAR_kNONE\<rparr>"

definition apply_delta :: "kalshi_market \<Rightarrow> kalshi_delta_data \<Rightarrow> kalshi_market \<times> market_apply_result" where
  "apply_delta market parsed_event =
     (let book = km_book market in
      if kb_sync_state book = BSS_kAWAITING_INITIAL_SNAPSHOT
      then (market, \<lparr>mar_disposition = AD_kIGNORED, mar_book_sync_transition = BST_kNONE,
                     mar_reason = MAR_kMISSING_INITIAL_SNAPSHOT\<rparr>)
      else if kb_sync_state book = BSS_kAWAITING_RECOVERY_SNAPSHOT
      then (market, \<lparr>mar_disposition = AD_kIGNORED, mar_book_sync_transition = BST_kNONE,
                     mar_reason = MAR_kMISSING_RECOVERY_SNAPSHOT\<rparr>)
      else case get_index book (dd_price_ticks parsed_event) of
        None \<Rightarrow> reject_delta market MAR_kINVALID_PRICE
      | Some index \<Rightarrow>
          (case dd_side parsed_event of
             S_kBID \<Rightarrow>
               (case delta_level (kb_bids book ! index) (dd_delta_qty_lots parsed_event) of
                  Inl reason \<Rightarrow> reject_delta market reason
                | Inr level \<Rightarrow> (set_book market (book\<lparr>kb_bids := (kb_bids book)[index := level]\<rparr>), applied))
           | S_kASK \<Rightarrow>
               (case delta_level (kb_asks book ! index) (dd_delta_qty_lots parsed_event) of
                  Inl reason \<Rightarrow> reject_delta market reason
                | Inr level \<Rightarrow> (set_book market (book\<lparr>kb_asks := (kb_asks book)[index := level]\<rparr>), applied))
           | S_kUNKNOWN \<Rightarrow> reject_delta market MAR_kINVALID_SIDE))"

definition apply_trade :: "kalshi_market \<Rightarrow> kalshi_trade_data \<Rightarrow> kalshi_market \<times> market_apply_result" where
  "apply_trade market parsed_event = (market, applied)"

definition apply_lifecycle :: "kalshi_market \<Rightarrow> kalshi_market \<times> market_apply_result" where
  "apply_lifecycle market = (market, applied)"

definition apply_to_market ::
  "bool \<Rightarrow> kalshi_market \<Rightarrow> kalshi_parsed_event \<Rightarrow> kalshi_market \<times> market_apply_result" where
  "apply_to_market alloc_ok market parsed_event =
     (case parsed_event of
        PE_Snapshot s \<Rightarrow> apply_snapshot alloc_ok market s
      | PE_Delta d \<Rightarrow> apply_delta market d
      | PE_Trade t \<Rightarrow> apply_trade market t
      | PE_Lifecycle \<Rightarrow> apply_lifecycle market
      | PE_monostate \<Rightarrow> (market, \<lparr>mar_disposition = AD_kREJECTED, mar_book_sync_transition = BST_kNONE,
                                  mar_reason = MAR_kUNKNOWN_EVENT_TYPE\<rparr>))"

section \<open>One event\<close>

record event =
  ev_state :: kalshi_event
  ev_revision :: u64

definition make_event :: "kalshi_event \<Rightarrow> event" where
  "make_event s = \<lparr>ev_state = s, ev_revision = 0\<rparr>"

abbreviation ev_markets :: "event \<Rightarrow> kalshi_market list" where
  "ev_markets e \<equiv> ke_markets (ev_state e)"

definition set_market :: "event \<Rightarrow> nat \<Rightarrow> kalshi_market \<Rightarrow> event" where
  "set_market e i m = e\<lparr>ev_state := (ev_state e)\<lparr>ke_markets := (ev_markets e)[i := m]\<rparr>\<rparr>"

definition event_usable :: "event \<Rightarrow> bool" where
  "event_usable e \<longleftrightarrow> ev_markets e \<noteq> [] \<and> list_all (\<lambda>m. book_usable (km_book m)) (ev_markets e)"

definition is_book_message :: "kalshi_parsed_event \<Rightarrow> bool" where
  "is_book_message p = (case p of PE_Snapshot _ \<Rightarrow> True | PE_Delta _ \<Rightarrow> True | _ \<Rightarrow> False)"

text \<open>\<open>update_derived_state_after_market_update\<close> has an empty body.\<close>

definition update_derived_state_after_market_update :: "u32 \<Rightarrow> event \<Rightarrow> event" where
  "update_derived_state_after_market_update event_market_index e = e"

definition event_apply :: "bool \<Rightarrow> event \<Rightarrow> u32 \<Rightarrow> kalshi_parsed_event \<Rightarrow> event \<times> event_apply_result" where
  "event_apply alloc_ok e event_market_index parsed_event =
     (if unat event_market_index \<ge> length (ev_markets e)
      then (e, \<lparr>ear_disposition = AD_kREJECTED, ear_book_sync_transition = BST_kNONE,
               ear_reason = MAR_kINVALID_MARKET_INDEX, ear_book_changed = False,
               ear_event_became_usable = False, ear_event_revision = ev_revision e\<rparr>)
      else let event_was_usable = event_usable e;
               (market, result) = apply_to_market alloc_ok (ev_markets e ! unat event_market_index) parsed_event;
               e1 = set_market e (unat event_market_index) market;
               book_changed = (is_book_message parsed_event \<and> mar_disposition result = AD_kAPPLIED);
               sync_state_changed = (mar_book_sync_transition result \<noteq> BST_kNONE);
               e2 = (if book_changed \<or> sync_state_changed then e1\<lparr>ev_revision := ev_revision e1 + 1\<rparr> else e1);
               event_is_usable = event_usable e2;
               e3 = (if book_changed \<and> event_is_usable
                     then update_derived_state_after_market_update event_market_index e2 else e2)
           in (e3, \<lparr>ear_disposition = mar_disposition result,
                   ear_book_sync_transition = mar_book_sync_transition result,
                   ear_reason = mar_reason result, ear_book_changed = book_changed,
                   ear_event_became_usable = (\<not> event_was_usable \<and> event_is_usable),
                   ear_event_revision = ev_revision e3\<rparr>))"

definition get_market :: "event \<Rightarrow> u32 \<Rightarrow> kalshi_market option" where
  "get_market e event_market_index = nth_opt (ev_markets e) (unat event_market_index)"

definition invalidation_transition :: "book_sync_state \<Rightarrow> book_sync_transition" where
  "invalidation_transition s = (case s of
       BSS_kSYNCHRONIZED \<Rightarrow> BST_kBECAME_UNUSABLE
     | BSS_kAWAITING_INITIAL_SNAPSHOT \<Rightarrow> BST_kRECOVERY_REQUIRED
     | BSS_kAWAITING_RECOVERY_SNAPSHOT \<Rightarrow> BST_kNONE)"

definition invalidate_market ::
  "event \<Rightarrow> u32 \<Rightarrow> book_invalidation_reason \<Rightarrow> event \<times> book_invalidation_result" where
  "invalidate_market e event_market_index reason =
     (if unat event_market_index \<ge> length (ev_markets e)
      then (e, \<lparr>bir_target_found = False, bir_book_sync_transition = BST_kNONE, bir_reason = reason,
               bir_reject_reason = IRR_kINVALID_MARKET_INDEX, bir_event_revision = ev_revision e\<rparr>)
      else let market = ev_markets e ! unat event_market_index;
               previous_state = kb_sync_state (km_book market);
               e1 = (if previous_state \<noteq> BSS_kAWAITING_RECOVERY_SNAPSHOT
                     then set_market e (unat event_market_index) (set_book market (book_invalidate (km_book market)))
                     else e);
               transition = invalidation_transition previous_state;
               e2 = (if transition \<noteq> BST_kNONE then e1\<lparr>ev_revision := ev_revision e1 + 1\<rparr> else e1)
           in (e2, \<lparr>bir_target_found = True, bir_book_sync_transition = transition, bir_reason = reason,
                   bir_reject_reason = IRR_kNONE, bir_event_revision = ev_revision e2\<rparr>))"

definition count_invalidation ::
  "book_invalidation_result \<Rightarrow> book_invalidation_summary \<Rightarrow> book_invalidation_summary" where
  "count_invalidation result summary =
     (if \<not> bir_target_found result then summary
      else let s = summary\<lparr>bis_targets_found := bis_targets_found summary + 1\<rparr>
      in case bir_book_sync_transition result of
           BST_kBECAME_UNUSABLE \<Rightarrow> s\<lparr>bis_targets_became_unusable := bis_targets_became_unusable s + 1\<rparr>
         | BST_kRECOVERY_REQUIRED \<Rightarrow> s\<lparr>bis_targets_recovery_required := bis_targets_recovery_required s + 1\<rparr>
         | BST_kNONE \<Rightarrow> s\<lparr>bis_targets_already_awaiting_recovery := bis_targets_already_awaiting_recovery s + 1\<rparr>
         | BST_kINITIAL_SNAPSHOT_INSTALLED \<Rightarrow> s
         | BST_kRECOVERED \<Rightarrow> s)"

text \<open>The loop counter is 32 bits wide; an event has fewer than \<open>2 ^ 32\<close> markets (\<open>event_wf\<close>).\<close>

definition invalidate_all_step ::
  "book_invalidation_reason \<Rightarrow> nat \<Rightarrow> event \<times> book_invalidation_summary \<Rightarrow> event \<times> book_invalidation_summary" where
  "invalidate_all_step reason idx acc =
     (let (e, summary) = acc; (e', result) = invalidate_market e (of_nat idx) reason
      in (e', count_invalidation result summary))"

definition event_invalidate_all ::
  "event \<Rightarrow> book_invalidation_reason \<Rightarrow> event \<times> book_invalidation_summary" where
  "event_invalidate_all e reason =
     fold (invalidate_all_step reason) [0..<length (ev_markets e)] (e, empty_summary)"

section \<open>Observations for the strategy\<close>

definition kStrategyBookDepth :: nat where "kStrategyBookDepth = 4"

record strategy_observation_context =
  soc_universe_version :: u64
  soc_shard_index :: u32
  soc_ingress_timestamp_ns :: u64
  soc_book_apply_timestamp_ns :: u64
  soc_publish_timestamp_ns :: u64

record strategy_book_level =
  sbl_price_ticks :: price_ticks
  sbl_quantity_lots :: qty_lots

record strategy_market_view =
  smv_market_id :: market_id
  smv_event_market_index :: u32
  smv_strike_key :: i64
  smv_tradeable :: bool
  smv_market_time_s :: u64
  smv_market_close_time_s :: u64
  smv_market_expected_expiration_time_s :: u64
  smv_market_expiration_time_s :: u64
  smv_bids :: "strategy_book_level list"
  smv_asks :: "strategy_book_level list"
  smv_bid_count :: u8
  smv_ask_count :: u8

record monotonic_pair_observation =
  mpo_universe_version :: u64
  mpo_shard_index :: u32
  mpo_event_id :: event_id
  mpo_event_revision :: u64
  mpo_ingress_timestamp_ns :: u64
  mpo_book_apply_timestamp_ns :: u64
  mpo_publish_timestamp_ns :: u64
  mpo_easier :: strategy_market_view
  mpo_harder :: strategy_market_view

text \<open>The loops over the levels, best price first: \<open>slots\<close> is the fixed array of the view and \<open>count\<close>
  the number of its entries in use; a missing price makes the whole function return \<open>nullopt\<close>.\<close>

primrec collect_levels ::
  "kalshi_book \<Rightarrow> qty_lots list \<Rightarrow> nat list \<Rightarrow> strategy_book_level list \<Rightarrow> nat
   \<Rightarrow> (strategy_book_level list \<times> nat) option" where
  "collect_levels book levels [] slots count = Some (slots, count)"
| "collect_levels book levels (index # rest) slots count =
     (if \<not> count < kStrategyBookDepth then Some (slots, count)
      else let quantity = levels ! index
      in if quantity = 0 then collect_levels book levels rest slots count
      else case price_ticks_at_index book index of
        None \<Rightarrow> None
      | Some price \<Rightarrow>
          collect_levels book levels rest
            (slots[count := \<lparr>sbl_price_ticks = price, sbl_quantity_lots = quantity\<rparr>]) (Suc count))"

definition empty_slots :: "strategy_book_level list" where
  "empty_slots = replicate kStrategyBookDepth \<lparr>sbl_price_ticks = 0, sbl_quantity_lots = 0\<rparr>"

definition market_view_of :: "kalshi_market \<Rightarrow> i64 \<Rightarrow> strategy_market_view option" where
  "market_view_of market strike_key =
     (let book = km_book market in
      case collect_levels book (kb_bids book) (rev [0..<length (kb_bids book)]) empty_slots 0 of
        None \<Rightarrow> None
      | Some (bids, bid_count) \<Rightarrow>
      (case collect_levels book (kb_asks book) [0..<length (kb_asks book)] empty_slots 0 of
        None \<Rightarrow> None
      | Some (asks, ask_count) \<Rightarrow>
          Some \<lparr>smv_market_id = km_market_id market, smv_event_market_index = km_event_market_index market,
                smv_strike_key = strike_key, smv_tradeable = km_tradeable market,
                smv_market_time_s = km_market_time_s market,
                smv_market_close_time_s = km_market_close_time_s market,
                smv_market_expected_expiration_time_s = km_market_expected_expiration_time_s market,
                smv_market_expiration_time_s = km_market_expiration_time_s market,
                smv_bids = bids, smv_asks = asks,
                smv_bid_count = of_nat bid_count, smv_ask_count = of_nat ask_count\<rparr>))"

definition build_monotonic_pair_observation ::
  "event \<Rightarrow> u32 \<Rightarrow> strategy_observation_context \<Rightarrow> monotonic_pair_observation option" where
  "build_monotonic_pair_observation e easier_market_index context =
     (if ke_topology (ev_state e) \<noteq> ET_kMONOTONIC_CHAIN then None
      else if \<not> event_usable e then None
      else if length (ev_markets e) < 2 \<or> unat easier_market_index \<ge> length (ev_markets e) - 1 then None
      else let easier_market = ev_markets e ! unat easier_market_index;
               harder_market = ev_markets e ! (unat (easier_market_index + 1))
      in if km_event_market_index easier_market \<noteq> easier_market_index
          \<or> km_event_market_index harder_market \<noteq> easier_market_index + 1 then None
      else case (km_strike_key easier_market, km_strike_key harder_market) of
        (Some easier_key, Some harder_key) \<Rightarrow>
          if easier_key \<ge> harder_key then None
          else (case (market_view_of easier_market easier_key, market_view_of harder_market harder_key) of
            (Some easier, Some harder) \<Rightarrow>
              Some \<lparr>mpo_universe_version = soc_universe_version context,
                    mpo_shard_index = soc_shard_index context,
                    mpo_event_id = ke_event_id (ev_state e),
                    mpo_event_revision = ev_revision e,
                    mpo_ingress_timestamp_ns = soc_ingress_timestamp_ns context,
                    mpo_book_apply_timestamp_ns = soc_book_apply_timestamp_ns context,
                    mpo_publish_timestamp_ns = soc_publish_timestamp_ns context,
                    mpo_easier = easier, mpo_harder = harder\<rparr>
          | _ \<Rightarrow> None)
      | _ \<Rightarrow> None)"

section \<open>The abstract book\<close>

datatype book_view =
    BV_Initial
  | BV_Recovering
  | BV_Live "price_ticks \<Rightarrow> nat" "price_ticks \<Rightarrow> nat"

definition view_book :: "kalshi_book \<Rightarrow> book_view" where
  "view_book b = (case kb_sync_state b of
       BSS_kAWAITING_INITIAL_SNAPSHOT \<Rightarrow> BV_Initial
     | BSS_kAWAITING_RECOVERY_SNAPSHOT \<Rightarrow> BV_Recovering
     | BSS_kSYNCHRONIZED \<Rightarrow> BV_Live (bid_qty b) (ask_qty b))"

definition view_market :: "kalshi_market \<Rightarrow> market_scale \<times> book_view" where
  "view_market m = (kb_scale (km_book m), view_book (km_book m))"

definition view_levels :: "level list \<Rightarrow> price_ticks \<Rightarrow> nat" where
  "view_levels ls = fold (\<lambda>l f. f(lv_price_ticks l := unat (lv_qty_lots l))) ls (\<lambda>_. 0)"

definition spec_level :: "(price_ticks \<Rightarrow> nat) \<Rightarrow> price_ticks \<Rightarrow> int \<Rightarrow> (price_ticks \<Rightarrow> nat) option" where
  "spec_level f p delta =
     (let q = int (f p) + delta in if 0 \<le> q \<and> q < 2 ^ 64 then Some (f(p := nat q)) else None)"

definition spec_delta :: "market_scale \<Rightarrow> kalshi_delta_data \<Rightarrow> book_view \<Rightarrow> book_view" where
  "spec_delta s d v = (case v of
       BV_Live bid ask \<Rightarrow>
         if \<not> on_grid s (dd_price_ticks d) then BV_Recovering
         else (case dd_side d of
             S_kBID \<Rightarrow> (case spec_level bid (dd_price_ticks d) (dd_delta_qty_lots d) of
                 None \<Rightarrow> BV_Recovering | Some bid' \<Rightarrow> BV_Live bid' ask)
           | S_kASK \<Rightarrow> (case spec_level ask (dd_price_ticks d) (dd_delta_qty_lots d) of
                 None \<Rightarrow> BV_Recovering | Some ask' \<Rightarrow> BV_Live bid ask')
           | S_kUNKNOWN \<Rightarrow> BV_Recovering)
     | _ \<Rightarrow> v)"

definition spec_snapshot :: "bool \<Rightarrow> market_scale \<Rightarrow> kalshi_snapshot_event \<Rightarrow> book_view \<Rightarrow> book_view" where
  "spec_snapshot alloc_ok s snap v =
     (if \<not> alloc_ok \<or> s = MS_kUNKNOWN then v
      else if list_all (\<lambda>l. on_grid s (lv_price_ticks l)) (se_bids snap @ se_asks snap)
      then BV_Live (view_levels (se_bids snap)) (view_levels (se_asks snap))
      else BV_Recovering)"

definition spec_message :: "bool \<Rightarrow> kalshi_parsed_event \<Rightarrow> market_scale \<times> book_view \<Rightarrow> market_scale \<times> book_view" where
  "spec_message alloc_ok p sv = (fst sv, case p of
       PE_Snapshot snap \<Rightarrow> spec_snapshot alloc_ok (fst sv) snap (snd sv)
     | PE_Delta d \<Rightarrow> spec_delta (fst sv) d (snd sv)
     | _ \<Rightarrow> snd sv)"

definition parsed_ok :: "kalshi_parsed_event \<Rightarrow> bool" where
  "parsed_ok p = (case p of PE_Delta d \<Rightarrow> i64_min \<le> dd_delta_qty_lots d \<and> dd_delta_qty_lots d \<le> i64_max
     | _ \<Rightarrow> True)"

section \<open>One market refines the abstract book\<close>

lemma unat_to_u64: "0 \<le> x \<Longrightarrow> x < 2 ^ 64 \<Longrightarrow> unat (to_u64 x) = nat x"
  by (simp add: unsigned_of_int take_bit_int_eq_self)

lemma delta_level_spec:
  assumes "i64_min \<le> delta" and "delta \<le> i64_max"
  shows "delta_level l delta =
    (let q = int (unat l) + delta in
     if q < 0 then Inl MAR_kNEGATIVE_LEVEL
     else if q \<ge> 2 ^ 64 then Inl MAR_kOVERFLOW else Inr (of_nat (nat q)))"
proof (cases "delta < 0")
  case True
  let ?r = "to_u64 (- (delta + 1)) + 1"
  have "unat (to_u64 (- (delta + 1))) = nat (- (delta + 1))"
    using True assms by (intro unat_to_u64) simp_all
  then have r: "unat ?r = nat (- delta)"
    using True assms by (subst unat_add_no_wrap) simp_all
  have less: "l < ?r \<longleftrightarrow> int (unat l) + delta < 0"
    unfolding word_less_nat_alt r using True by linarith
  have val: "l - ?r = of_nat (nat (int (unat l) + delta))" if "\<not> l < ?r"
  proof -
    have "unat (l - ?r) = unat l - unat ?r" using that by (intro unat_sub) (simp only: not_less)
    then have "unat (l - ?r) = unat l - nat (- delta)" by (simp only: r)
    also have "\<dots> = nat (int (unat l) + delta)" using True by linarith
    finally have "of_nat (unat (l - ?r)) = (of_nat (nat (int (unat l) + delta)) :: u64)"
      by (simp only:)
    then show ?thesis by (simp only: word_of_nat_unat)
  qed
  have "int (unat l) < 18446744073709551616" using unat_u64_less [of l] by (metis of_nat_less_iff of_nat_numeral)
  then have "int (unat l) + delta < 18446744073709551616" using True by linarith
  then show ?thesis using True less val by (auto simp: delta_level_def Let_def)
next
  case False
  let ?a = "to_u64 delta"
  have a: "unat ?a = nat delta" using False assms by (intro unat_to_u64) simp_all
  have "unat (u64_max - ?a) = 18446744073709551615 - nat delta"
    using a by (simp add: unat_sub unat_max_word)
  then have over: "l > u64_max - ?a \<longleftrightarrow> 18446744073709551616 \<le> int (unat l) + delta"
    unfolding word_less_nat_alt using False assms by linarith
  have "nat (int (unat l) + delta) = unat l + unat ?a" unfolding a using False by linarith
  then have "l + ?a = of_nat (nat (int (unat l) + delta))" by (simp only: of_nat_add word_of_nat_unat)
  moreover have "\<not> int (unat l) + delta < 0" using False by linarith
  ultimately show ?thesis using False over by (auto simp: delta_level_def Let_def)
qed

lemma level_at_zero: "level_at b (replicate n 0) p = 0 \<or> (\<exists>i \<ge> n. get_index b p = Some i)"
  by (cases "get_index b p") (auto simp: level_at_def not_le)

lemma install_levels_length: "install_levels book lv ls = Some lv' \<Longrightarrow> length lv' = length lv"
  by (induction ls arbitrary: lv) (auto simp: install_level_def split: option.splits if_splits)

lemma install_levels_spec:
  assumes g: "gridded book" and n: "length lv = length (kb_bids book)"
  shows "install_levels book lv ls =
      (if list_all (\<lambda>l. on_grid (kb_scale book) (lv_price_ticks l)) ls
       then Some (the (install_levels book lv ls)) else None)"
    and "list_all (\<lambda>l. on_grid (kb_scale book) (lv_price_ticks l)) ls \<Longrightarrow>
      level_at book (the (install_levels book lv ls))
        = fold (\<lambda>l f. f(lv_price_ticks l := unat (lv_qty_lots l))) ls (level_at book lv)"
  using n
proof (induction ls arbitrary: lv)
  case Nil
  { case 1 show ?case by simp }
  { case 2 show ?case by simp }
next
  case (Cons l ls)
  have step: "\<exists>i. get_index book (lv_price_ticks l) = Some i \<and> i < length lv
      \<and> install_level book lv l = Some (lv[i := lv_qty_lots l])"
    if "on_grid (kb_scale book) (lv_price_ticks l)" "length lv = length (kb_bids book)" for lv
    using that get_index_gridded [OF g, of "lv_price_ticks l"] get_index_bound(1) [OF g, of "lv_price_ticks l"]
    by (auto simp: install_level_def)
  have bad: "install_level book lv l = None" if "\<not> on_grid (kb_scale book) (lv_price_ticks l)" for lv
    using that get_index_gridded [OF g, of "lv_price_ticks l"] by (simp add: install_level_def)
  { case 1
    show ?case
    proof (cases "on_grid (kb_scale book) (lv_price_ticks l)")
      case True
      then show ?thesis using step [OF True 1] Cons.IH(1) 1 by (auto split: if_splits)
    next
      case False
      then show ?thesis using bad by simp
    qed }
  { case 2
    then obtain i where i: "get_index book (lv_price_ticks l) = Some i" "i < length lv"
        "install_level book lv l = Some (lv[i := lv_qty_lots l])"
      using step by auto
    with 2 Cons.IH(2) [of "lv[i := lv_qty_lots l]"] level_at_update [OF g i(1,2)]
    show ?case by simp }
qed

lemma book_invalidate_simps [simp]:
  "kb_sync_state (book_invalidate b) = BSS_kAWAITING_RECOVERY_SNAPSHOT"
  "kb_scale (book_invalidate b) = kb_scale b"
  "\<not> book_usable (book_invalidate b)"
  "book_wf (book_invalidate b)"
  by (simp_all add: book_invalidate_def book_usable_def book_wf_def)

lemma view_invalidate [simp]: "view_book (book_invalidate b) = BV_Recovering"
  by (simp add: view_book_def)

lemma set_book_simps [simp]:
  "km_book (set_book m b) = b" "km_market_id (set_book m b) = km_market_id m"
  "km_event_market_index (set_book m b) = km_event_market_index m"
  "km_strike_key (set_book m b) = km_strike_key m"
  by (simp_all add: set_book_def)

lemma reject_snapshot_market:
  "reason \<noteq> MAR_kINVALID_BOOK_SCALE \<Longrightarrow>
   fst (reject_snapshot m reason) = set_book m (book_invalidate (km_book m))"
  "fst (reject_snapshot m MAR_kINVALID_BOOK_SCALE) = m"
  by (simp_all add: reject_snapshot_def Let_def)

lemma reject_delta_market: "fst (reject_delta m reason) = set_book m (book_invalidate (km_book m))"
  by (simp add: reject_delta_def Let_def)

lemma bid_ask_with_sides:
  "bid_qty (c\<lparr>kb_bids := x, kb_asks := y, kb_sync_state := st\<rparr>) = level_at c x"
  "ask_qty (c\<lparr>kb_bids := x, kb_asks := y, kb_sync_state := st\<rparr>) = level_at c y"
  by (simp_all add: bid_qty_def ask_qty_def level_at_def get_index_def fun_eq_iff)

lemma snapshot_candidate:
  assumes "alloc_ok" and "s \<noteq> MS_kUNKNOWN"
  obtains c where "set_index_grid alloc_ok (empty_book\<lparr>kb_scale := s\<rparr>) = (c, True)" and "gridded c"
    and "kb_scale c = s" and "level_at c (kb_bids c) = (\<lambda>_. 0)" and "level_at c (kb_asks c) = (\<lambda>_. 0)"
    and "length (kb_asks c) = length (kb_bids c)"
proof -
  let ?e = "empty_book\<lparr>kb_scale := s\<rparr>"
  obtain c ok where c: "set_index_grid alloc_ok ?e = (c, ok)" by fastforce
  have ok: "ok" using set_index_grid_ok_iff [of alloc_ok ?e] c assms by simp
  have "kb_invalid_index ?e = - 1" by (simp add: empty_book_def kInvalidBookIndex_def)
  with c ok have g: "gridded c" "kb_scale c = s"
      "kb_bids c = replicate (length (kb_bids c)) 0" "kb_asks c = replicate (length (kb_asks c)) 0"
    using set_index_grid_gridded [of alloc_ok ?e c] by simp_all
  have len: "length (kb_asks c) = length (kb_bids c)"
    using g(1) by (auto simp: gridded_def split: option.splits)
  have zero: "level_at c (replicate (length (kb_bids c)) 0) = (\<lambda>_. 0)"
    using level_at_zero [of c "length (kb_bids c)"] get_index_bound(1) [OF g(1)] by (fastforce simp: not_le)
  have "level_at c (kb_bids c) = (\<lambda>_. 0)" using zero g(3) by simp
  moreover have "level_at c (kb_asks c) = (\<lambda>_. 0)" using zero g(4) len by simp
  ultimately show thesis using that [of c] c ok g len by simp
qed

lemma gridded_sides:
  "gridded c \<Longrightarrow> length x = length (kb_bids c) \<Longrightarrow> length y = length (kb_asks c) \<Longrightarrow>
   gridded (c\<lparr>kb_bids := x, kb_asks := y, kb_sync_state := st\<rparr>)"
  by (auto simp: gridded_def split: option.splits)

definition market_wf :: "kalshi_market \<Rightarrow> bool" where
  "market_wf m \<longleftrightarrow> book_wf (km_book m)"

text \<open>The effect of \<open>apply_snapshot\<close> on a market, by cases.\<close>

lemma apply_snapshot_cases:
  assumes "apply_snapshot alloc_ok m snap = (m', r)"
  obtains (bad_scale) "\<not> alloc_ok \<or> kb_scale (km_book m) = MS_kUNKNOWN" "m' = m"
      "mar_disposition r = AD_kREJECTED" "mar_book_sync_transition r = BST_kNONE"
    | (bad_price) "alloc_ok" "kb_scale (km_book m) \<noteq> MS_kUNKNOWN"
      "\<not> list_all (\<lambda>l. on_grid (kb_scale (km_book m)) (lv_price_ticks l)) (se_bids snap @ se_asks snap)"
      "m' = set_book m (book_invalidate (km_book m))"
      "mar_disposition r = AD_kREJECTED"
      "mar_book_sync_transition r = invalidation_transition (kb_sync_state (km_book m))"
    | (accepted) b where "alloc_ok" "kb_scale (km_book m) \<noteq> MS_kUNKNOWN"
      "list_all (\<lambda>l. on_grid (kb_scale (km_book m)) (lv_price_ticks l)) (se_bids snap @ se_asks snap)"
      "m' = set_book m b" "gridded b" "kb_scale b = kb_scale (km_book m)"
      "kb_sync_state b = BSS_kSYNCHRONIZED"
      "bid_qty b = view_levels (se_bids snap)" "ask_qty b = view_levels (se_asks snap)"
      "mar_disposition r = AD_kAPPLIED"
proof (cases "alloc_ok \<and> kb_scale (km_book m) \<noteq> MS_kUNKNOWN")
  case False
  then have "\<not> snd (set_index_grid alloc_ok (empty_book\<lparr>kb_scale := kb_scale (km_book m)\<rparr>))"
    by (simp add: set_index_grid_ok_iff)
  then show thesis using bad_scale False assms
    by (auto simp: apply_snapshot_def reject_snapshot_def Let_def split: prod.splits)
next
  case True
  then obtain c where c: "set_index_grid alloc_ok (empty_book\<lparr>kb_scale := kb_scale (km_book m)\<rparr>) = (c, True)"
      "gridded c" "kb_scale c = kb_scale (km_book m)" "level_at c (kb_bids c) = (\<lambda>_. 0)"
      "level_at c (kb_asks c) = (\<lambda>_. 0)" "length (kb_asks c) = length (kb_bids c)"
    using snapshot_candidate by blast
  let ?ok = "list_all (\<lambda>l. on_grid (kb_scale (km_book m)) (lv_price_ticks l))"
  have bids: "install_levels c (kb_bids c) ls = (if ?ok ls then Some (the (install_levels c (kb_bids c) ls)) else None)"
    for ls using install_levels_spec(1) [OF c(2)] c(3) by simp
  have "install_level (c\<lparr>kb_bids := x\<rparr>) = install_level c" for x
    by (simp add: install_level_def get_index_def fun_eq_iff)
  then have c': "install_levels (c\<lparr>kb_bids := x\<rparr>) lv ls = install_levels c lv ls" for x lv ls
    by (induction ls arbitrary: lv) (simp_all split: option.split)
  have asks: "install_levels c (kb_asks c) ls = (if ?ok ls then Some (the (install_levels c (kb_asks c) ls)) else None)"
    for ls using install_levels_spec(1) [OF c(2)] c(3,6) by simp
  show thesis
  proof (cases "?ok (se_bids snap @ se_asks snap)")
    case False
    then have "apply_snapshot alloc_ok m snap = reject_snapshot m MAR_kINVALID_PRICE"
      using bids [of "se_bids snap"] asks [of "se_asks snap"] c'
      by (auto simp: apply_snapshot_def c(1) split: option.splits)
    then show thesis using bad_price True False assms
      by (auto simp: reject_snapshot_def Let_def invalidation_transition_def)
  next
    case ok: True
    obtain x y where x: "install_levels c (kb_bids c) (se_bids snap) = Some x"
      and y: "install_levels c (kb_asks c) (se_asks snap) = Some y"
      using bids [of "se_bids snap"] asks [of "se_asks snap"] ok by auto
    let ?b = "c\<lparr>kb_bids := x, kb_asks := y, kb_sync_state := BSS_kSYNCHRONIZED\<rparr>"
    have "m' = set_book m ?b" "mar_disposition r = AD_kAPPLIED"
      using assms by (auto simp: apply_snapshot_def c(1) x y c' Let_def)
    moreover have "gridded ?b"
      using install_levels_length [OF x] install_levels_length [OF y] by (intro gridded_sides c(2)) simp_all
    moreover have "bid_qty ?b = view_levels (se_bids snap)" "ask_qty ?b = view_levels (se_asks snap)"
      using install_levels_spec(2) [OF c(2), of "kb_bids c" "se_bids snap"]
        install_levels_spec(2) [OF c(2), of "kb_asks c" "se_asks snap"] ok c(3-6)
      by (simp_all add: bid_ask_with_sides view_levels_def x y)
    ultimately show thesis using accepted [of ?b] True ok c(3) by simp
  qed
qed

text \<open>The effect of \<open>apply_delta\<close> on a market, by cases.\<close>

lemma view_book_sides:
  assumes "gridded b" and "kb_sync_state b = BSS_kSYNCHRONIZED" and "get_index b p = Some i"
  shows "view_book (b\<lparr>kb_bids := (kb_bids b)[i := q]\<rparr>) = BV_Live ((bid_qty b)(p := unat q)) (ask_qty b)"
    and "view_book (b\<lparr>kb_asks := (kb_asks b)[i := q]\<rparr>) = BV_Live (bid_qty b) ((ask_qty b)(p := unat q))"
proof -
  note bound = get_index_bound [OF assms(1,3)]
  have "level_at (b\<lparr>kb_bids := x\<rparr>) = level_at b" "level_at (b\<lparr>kb_asks := x\<rparr>) = level_at b" for x
    by (simp_all add: level_at_def get_index_def fun_eq_iff)
  then show "view_book (b\<lparr>kb_bids := (kb_bids b)[i := q]\<rparr>) = BV_Live ((bid_qty b)(p := unat q)) (ask_qty b)"
    and "view_book (b\<lparr>kb_asks := (kb_asks b)[i := q]\<rparr>) = BV_Live (bid_qty b) ((ask_qty b)(p := unat q))"
    using assms level_at_update [OF assms(1,3) bound(1), of q] level_at_update [OF assms(1,3) bound(2), of q]
    by (simp_all add: view_book_def bid_qty_def ask_qty_def)
qed

lemma delta_level_view:
  assumes "i64_min \<le> delta" and "delta \<le> i64_max" and "f p = unat l"
  shows "spec_level f p delta = (case delta_level l delta of Inl _ \<Rightarrow> None | Inr q \<Rightarrow> Some (f(p := unat q)))"
proof -
  have "unat (of_nat (nat q) :: u64) = nat q" if "0 \<le> q" "q < 2 ^ 64" for q
  proof -
    have "nat q < 2 ^ 64" using that by (simp add: nat_less_iff)
    then show ?thesis by (simp add: unat_of_nat)
  qed
  moreover define q where "q = int (unat l) + delta"
  ultimately show ?thesis
    unfolding delta_level_spec [OF assms(1,2)] spec_level_def assms(3) Let_def q_def [symmetric]
    by (auto simp: not_le not_less simp del: of_nat_nat)
qed

lemma level_at_index: "get_index b p = Some i \<Longrightarrow> level_at b lv p = unat (lv ! i)"
  by (simp add: level_at_def)

lemma apply_delta_refines:
  assumes "market_wf m" and "parsed_ok (PE_Delta d)"
  shows "view_book (km_book (fst (apply_delta m d))) = spec_delta (kb_scale (km_book m)) d (view_book (km_book m))"
    and "kb_scale (km_book (fst (apply_delta m d))) = kb_scale (km_book m)"
    and "market_wf (fst (apply_delta m d))"
proof -
  let ?b = "km_book m" and ?p = "dd_price_ticks d" and ?d = "dd_delta_qty_lots d"
  have "view_book (km_book (fst (apply_delta m d))) = spec_delta (kb_scale ?b) d (view_book ?b)
      \<and> kb_scale (km_book (fst (apply_delta m d))) = kb_scale ?b \<and> market_wf (fst (apply_delta m d))"
  proof (cases "kb_sync_state ?b")
    case BSS_kSYNCHRONIZED
    then have g: "gridded ?b" using assms(1) by (simp add: market_wf_def book_wf_def book_usable_def)
    have view: "view_book ?b = BV_Live (bid_qty ?b) (ask_qty ?b)" using BSS_kSYNCHRONIZED by (simp add: view_book_def)
    show ?thesis
    proof (cases "get_index ?b ?p")
      case None
      then have "\<not> on_grid (kb_scale ?b) ?p" using get_index_gridded [OF g, of ?p] by (auto split: if_splits)
      then show ?thesis using None BSS_kSYNCHRONIZED view
        by (simp add: apply_delta_def Let_def reject_delta_market spec_delta_def market_wf_def)
    next
      case (Some i)
      then have on: "on_grid (kb_scale ?b) ?p" using get_index_gridded [OF g, of ?p] by (auto split: if_splits)
      have grid: "gridded (?b\<lparr>kb_bids := (kb_bids ?b)[i := q]\<rparr>)" "gridded (?b\<lparr>kb_asks := (kb_asks ?b)[i := q]\<rparr>)" for q
        using g by (auto simp: gridded_def split: option.splits)
      have bid: "spec_level (bid_qty ?b) ?p ?d = (case delta_level (kb_bids ?b ! i) ?d of Inl _ \<Rightarrow> None
          | Inr q \<Rightarrow> Some ((bid_qty ?b)(?p := unat q)))"
        and ask: "spec_level (ask_qty ?b) ?p ?d = (case delta_level (kb_asks ?b ! i) ?d of Inl _ \<Rightarrow> None
          | Inr q \<Rightarrow> Some ((ask_qty ?b)(?p := unat q)))"
        unfolding bid_qty_def ask_qty_def using assms(2) level_at_index [OF Some]
        by (simp_all add: delta_level_view parsed_ok_def)
      note simps = apply_delta_def Let_def reject_delta_market spec_delta_def market_wf_def book_wf_def
      show ?thesis
      proof (cases "dd_side d")
        case S_kUNKNOWN
        then show ?thesis using Some on BSS_kSYNCHRONIZED view by (simp add: simps)
      next
        case S_kBID
        then show ?thesis using Some on BSS_kSYNCHRONIZED view bid view_book_sides(1) [OF g BSS_kSYNCHRONIZED Some] grid(1)
          by (cases "delta_level (kb_bids ?b ! i) ?d") (simp_all add: simps)
      next
        case S_kASK
        then show ?thesis using Some on BSS_kSYNCHRONIZED view ask view_book_sides(2) [OF g BSS_kSYNCHRONIZED Some] grid(2)
          by (cases "delta_level (kb_asks ?b ! i) ?d") (simp_all add: simps)
      qed
    qed
  qed (use assms in \<open>simp_all add: apply_delta_def Let_def spec_delta_def view_book_def\<close>)
  then show "view_book (km_book (fst (apply_delta m d))) = spec_delta (kb_scale ?b) d (view_book ?b)"
    and "kb_scale (km_book (fst (apply_delta m d))) = kb_scale ?b" and "market_wf (fst (apply_delta m d))"
    by simp_all
qed

lemma apply_snapshot_refines:
  assumes "market_wf m"
  shows "view_book (km_book (fst (apply_snapshot a m snap))) = spec_snapshot a (kb_scale (km_book m)) snap (view_book (km_book m))"
    and "kb_scale (km_book (fst (apply_snapshot a m snap))) = kb_scale (km_book m)"
    and "market_wf (fst (apply_snapshot a m snap))"
proof -
  obtain m' r where r: "apply_snapshot a m snap = (m', r)" by fastforce
  have "view_book (km_book m') = spec_snapshot a (kb_scale (km_book m)) snap (view_book (km_book m))
      \<and> kb_scale (km_book m') = kb_scale (km_book m) \<and> market_wf m'"
    using r
  proof (cases rule: apply_snapshot_cases)
    case bad_scale
    then show ?thesis using assms by (simp add: spec_snapshot_def)
  next
    case bad_price
    then show ?thesis by (simp add: spec_snapshot_def market_wf_def)
  next
    case (accepted b)
    then show ?thesis by (simp add: spec_snapshot_def market_wf_def book_wf_def view_book_def)
  qed
  then show "view_book (km_book (fst (apply_snapshot a m snap))) = spec_snapshot a (kb_scale (km_book m)) snap (view_book (km_book m))"
    and "kb_scale (km_book (fst (apply_snapshot a m snap))) = kb_scale (km_book m)"
    and "market_wf (fst (apply_snapshot a m snap))"
    by (simp_all add: r)
qed

lemma apply_to_market_refines:
  assumes "market_wf m" and "parsed_ok p"
  shows "view_market (fst (apply_to_market a m p)) = spec_message a p (view_market m)"
    and "market_wf (fst (apply_to_market a m p))"
  using assms apply_snapshot_refines [OF assms(1)] apply_delta_refines [OF assms(1)]
  by (cases p; simp add: apply_to_market_def spec_message_def view_market_def apply_trade_def apply_lifecycle_def)+

section \<open>Sequences of operations on an event\<close>

datatype event_op =
    EO_Apply bool u32 kalshi_parsed_event
  | EO_Invalidate u32 book_invalidation_reason
  | EO_InvalidateAll book_invalidation_reason

definition event_step :: "event_op \<Rightarrow> event \<Rightarrow> event" where
  "event_step op e = (case op of
       EO_Apply a i p \<Rightarrow> fst (event_apply a e i p)
     | EO_Invalidate i r \<Rightarrow> fst (invalidate_market e i r)
     | EO_InvalidateAll r \<Rightarrow> fst (event_invalidate_all e r))"

definition event_op_ok :: "event_op \<Rightarrow> bool" where
  "event_op_ok op = (case op of EO_Apply a i p \<Rightarrow> parsed_ok p | _ \<Rightarrow> True)"

definition event_wf :: "event \<Rightarrow> bool" where
  "event_wf e \<longleftrightarrow> list_all market_wf (ev_markets e) \<and> length (ev_markets e) < 2 ^ 32"

definition event_view :: "event \<Rightarrow> (market_scale \<times> book_view) list" where
  "event_view e = map view_market (ev_markets e)"

definition modify_nth :: "nat \<Rightarrow> ('a \<Rightarrow> 'a) \<Rightarrow> 'a list \<Rightarrow> 'a list" where
  "modify_nth i f xs = (if i < length xs then xs[i := f (xs ! i)] else xs)"

definition spec_invalidate :: "market_scale \<times> book_view \<Rightarrow> market_scale \<times> book_view" where
  "spec_invalidate sv = (fst sv, BV_Recovering)"

definition spec_event_op ::
  "event_op \<Rightarrow> (market_scale \<times> book_view) list \<Rightarrow> (market_scale \<times> book_view) list" where
  "spec_event_op op vs = (case op of
       EO_Apply a i p \<Rightarrow> modify_nth (unat i) (spec_message a p) vs
     | EO_Invalidate i r \<Rightarrow> modify_nth (unat i) spec_invalidate vs
     | EO_InvalidateAll r \<Rightarrow> map spec_invalidate vs)"

lemma ev_markets_set_market [simp]: "ev_markets (set_market e i m) = (ev_markets e)[i := m]"
  "ev_revision (set_market e i m) = ev_revision e"
  by (simp_all add: set_market_def)

lemma event_apply_markets:
  "ev_markets (fst (event_apply a e i p)) =
     modify_nth (unat i) (\<lambda>m. fst (apply_to_market a m p)) (ev_markets e)"
  by (simp add: event_apply_def modify_nth_def Let_def update_derived_state_after_market_update_def
      case_prod_beta)

lemma invalidated_view [simp]:
  "view_market (set_book m (book_invalidate (km_book m))) = spec_invalidate (view_market m)"
  "market_wf (set_book m (book_invalidate (km_book m)))"
  by (simp_all add: view_market_def spec_invalidate_def market_wf_def)

lemma recovering_view:
  "kb_sync_state (km_book m) = BSS_kAWAITING_RECOVERY_SNAPSHOT \<Longrightarrow> spec_invalidate (view_market m) = view_market m"
  by (simp add: view_market_def spec_invalidate_def view_book_def)

definition market_invalidate :: "kalshi_market \<Rightarrow> kalshi_market" where
  "market_invalidate m = (if kb_sync_state (km_book m) = BSS_kAWAITING_RECOVERY_SNAPSHOT then m
     else set_book m (book_invalidate (km_book m)))"

lemma invalidate_market_markets:
  "ev_markets (fst (invalidate_market e i r)) = modify_nth (unat i) market_invalidate (ev_markets e)"
  by (auto simp: invalidate_market_def modify_nth_def market_invalidate_def Let_def)

lemma view_market_invalidate [simp]: "view_market (market_invalidate m) = spec_invalidate (view_market m)"
  by (simp add: market_invalidate_def recovering_view)

lemma market_wf_invalidate [simp]: "market_wf m \<Longrightarrow> market_wf (market_invalidate m)"
  by (simp add: market_invalidate_def)

lemma modify_nth_map:
  "(\<And>x. x \<in> set xs \<Longrightarrow> g (f x) = h (g x)) \<Longrightarrow> map g (modify_nth i f xs) = modify_nth i h (map g xs)"
  by (simp add: modify_nth_def map_update)

lemma modify_nth_all: "(\<And>x. P x \<Longrightarrow> P (f x)) \<Longrightarrow> list_all P xs \<Longrightarrow> list_all P (modify_nth i f xs)"
  by (auto simp: modify_nth_def list_all_length nth_list_update)

lemma length_modify_nth [simp]: "length (modify_nth i f xs) = length xs"
  by (simp add: modify_nth_def)

lemma invalidate_all_prefix:
  assumes "length (ev_markets e) < 2 ^ 32" and "k \<le> length (ev_markets e)"
  shows "ev_markets (fst (fold (invalidate_all_step r) [0..<k] (e, s))) =
    map market_invalidate (take k (ev_markets e)) @ drop k (ev_markets e)"
  using assms(2)
proof (induction k)
  case 0
  then show ?case by simp
next
  case (Suc k)
  let ?acc = "fold (invalidate_all_step r) [0..<k] (e, s)"
  have "unat (of_nat k :: u32) = k" using Suc.prems assms(1) by (simp add: unat_of_nat)
  then have "ev_markets (fst (fold (invalidate_all_step r) [0..<Suc k] (e, s)))
      = modify_nth k market_invalidate (ev_markets (fst ?acc))"
    by (simp add: invalidate_all_step_def case_prod_beta invalidate_market_markets)
  also have "\<dots> = map market_invalidate (take (Suc k) (ev_markets e)) @ drop (Suc k) (ev_markets e)"
    using Suc by (simp add: modify_nth_def nth_append list_update_append take_Suc_conv_app_nth
        Cons_nth_drop_Suc [symmetric])
  finally show ?case .
qed

lemma event_invalidate_all_markets:
  "length (ev_markets e) < 2 ^ 32 \<Longrightarrow> ev_markets (fst (event_invalidate_all e r)) = map market_invalidate (ev_markets e)"
  unfolding event_invalidate_all_def by (subst invalidate_all_prefix) simp_all

interpretation event: functional_refinement event_step event_wf event_op_ok event_view spec_event_op
proof (unfold_locales, goal_cases)
  case (1 e op)
  then show ?case
    by (cases op) (auto simp: event_wf_def event_step_def event_op_ok_def event_apply_markets
        invalidate_market_markets event_invalidate_all_markets list.pred_map comp_def
        intro!: modify_nth_all apply_to_market_refines elim: list.pred_mono_strong)
next
  case (2 e op)
  have wf: "market_wf m" if "m \<in> set (ev_markets e)" for m
    using 2(1) that by (simp add: event_wf_def list_all_iff)
  then show ?case using 2
    by (cases op) (auto simp: event_wf_def event_step_def event_op_ok_def event_view_def spec_event_op_def
        event_apply_markets invalidate_market_markets event_invalidate_all_markets
        intro!: modify_nth_map apply_to_market_refines)
qed

section \<open>Revisions\<close>

lemma apply_to_market_silent:
  assumes "market_wf m" and "parsed_ok p"
    and "apply_to_market a m p = (m', r)" and "mar_book_sync_transition r = BST_kNONE"
    and "\<not> (is_book_message p \<and> mar_disposition r = AD_kAPPLIED)"
  shows "view_market m' = view_market m"
proof (cases p)
  case (PE_Snapshot snap)
  with assms(3) have "apply_snapshot a m snap = (m', r)" by (simp add: apply_to_market_def)
  then show ?thesis
  proof (cases rule: apply_snapshot_cases)
    case bad_price
    then have "kb_sync_state (km_book m) = BSS_kAWAITING_RECOVERY_SNAPSHOT"
      using assms(4) by (simp add: invalidation_transition_def split: book_sync_state.splits)
    with bad_price show ?thesis by (simp add: recovering_view)
  qed (use assms(5) PE_Snapshot in \<open>simp_all add: is_book_message_def\<close>)
next
  case (PE_Delta d)
  have "False" if "reject_delta m why = (m', r)" "kb_sync_state (km_book m) \<noteq> BSS_kAWAITING_INITIAL_SNAPSHOT"
      "kb_sync_state (km_book m) \<noteq> BSS_kAWAITING_RECOVERY_SNAPSHOT" for why
    using that assms(4) by (cases "kb_sync_state (km_book m)") (auto simp: reject_delta_def Let_def book_usable_def)
  then show ?thesis using assms(3,5) PE_Delta
    by (auto simp: apply_to_market_def apply_delta_def Let_def is_book_message_def applied_def
        split: if_splits option.splits sum.splits side.splits book_sync_state.splits)
qed (use assms(3) in \<open>simp_all add: apply_to_market_def apply_trade_def apply_lifecycle_def\<close>)

lemma modify_nth_same: "(\<And>x. i < length xs \<Longrightarrow> x = xs ! i \<Longrightarrow> f x = x) \<Longrightarrow> modify_nth i f xs = xs"
  by (simp add: modify_nth_def)

lemma event_apply_revision:
  assumes "event_wf e" and "parsed_ok p"
  shows "\<exists>k \<le> 1. ev_revision (fst (event_apply a e i p)) = ev_revision e + of_nat k
    \<and> (k = 0 \<longrightarrow> event_view (fst (event_apply a e i p)) = event_view e)"
proof (cases "unat i < length (ev_markets e)")
  case False
  then show ?thesis by (intro exI [of _ 0]) (simp add: event_apply_def)
next
  case True
  let ?m = "ev_markets e ! unat i"
  obtain m' r where r: "apply_to_market a ?m p = (m', r)" by fastforce
  let ?bump = "is_book_message p \<and> mar_disposition r = AD_kAPPLIED \<or> mar_book_sync_transition r \<noteq> BST_kNONE"
  have wf: "market_wf ?m" using assms(1) True by (simp add: event_wf_def list_all_length)
  have rev: "ev_revision (fst (event_apply a e i p)) = ev_revision e + (if ?bump then 1 else 0)"
    using True by (simp add: event_apply_def r Let_def update_derived_state_after_market_update_def)
  have "event_view (fst (event_apply a e i p)) = event_view e" if "\<not> ?bump"
    using apply_to_market_silent [OF wf assms(2) r] that r True
    by (simp add: event_view_def event_apply_markets modify_nth_def map_update list_update_same_conv_nth)
  with rev show ?thesis by (intro exI [of _ "if ?bump then 1 else 0"]) auto
qed

lemma invalidate_market_revision:
  "\<exists>k \<le> 1. ev_revision (fst (invalidate_market e i r)) = ev_revision e + of_nat k
    \<and> (k = 0 \<longrightarrow> fst (invalidate_market e i r) = e)"
proof (cases "unat i < length (ev_markets e)")
  case False
  then show ?thesis by (intro exI [of _ 0]) (simp add: invalidate_market_def)
next
  case True
  let ?k = "if kb_sync_state (km_book (ev_markets e ! unat i)) = BSS_kAWAITING_RECOVERY_SNAPSHOT then 0 else 1"
  show ?thesis using True
    by (intro exI [of _ ?k]) (auto simp: invalidate_market_def Let_def invalidation_transition_def
        split: book_sync_state.splits)
qed

lemma invalidate_all_revision:
  "\<exists>k \<le> length is. ev_revision (fst (fold (invalidate_all_step r) is (e, s))) = ev_revision e + of_nat k
    \<and> (k = 0 \<longrightarrow> fst (fold (invalidate_all_step r) is (e, s)) = e)"
proof (induction "is" arbitrary: e s)
  case Nil
  then show ?case by simp
next
  case (Cons i "is")
  obtain e1 r1 where 1: "invalidate_market e (of_nat i) r = (e1, r1)" by fastforce
  obtain k1 where k1: "k1 \<le> 1" "ev_revision e1 = ev_revision e + of_nat k1" "k1 = 0 \<longrightarrow> e1 = e"
    using invalidate_market_revision [of e "of_nat i" r] 1 by auto
  obtain k2 where k2: "k2 \<le> length is"
      "ev_revision (fst (fold (invalidate_all_step r) is (e1, count_invalidation r1 s))) = ev_revision e1 + of_nat k2"
      "k2 = 0 \<longrightarrow> fst (fold (invalidate_all_step r) is (e1, count_invalidation r1 s)) = e1"
    using Cons.IH by blast
  have "invalidate_all_step r i (e, s) = (e1, count_invalidation r1 s)"
    using 1 by (simp add: invalidate_all_step_def)
  then show ?case using k1 k2
    by (intro exI [of _ "k1 + k2"]) auto
qed

lemma event_step_revision:
  assumes "event_wf e" and "event_op_ok op"
  shows "\<exists>k < 2 ^ 32. ev_revision (event_step op e) = ev_revision e + of_nat k
    \<and> (k = 0 \<longrightarrow> event_view (event_step op e) = event_view e)"
proof (cases op)
  case (EO_Apply a i p)
  then obtain k where "k \<le> 1" "ev_revision (event_step op e) = ev_revision e + of_nat k
      \<and> (k = 0 \<longrightarrow> event_view (event_step op e) = event_view e)"
    using event_apply_revision [OF assms(1), of p a i] assms(2)
    by (auto simp: event_step_def event_op_ok_def)
  then show ?thesis by (intro exI [of _ k]) simp
next
  case (EO_Invalidate i r)
  then obtain k where "k \<le> 1" "ev_revision (event_step op e) = ev_revision e + of_nat k
      \<and> (k = 0 \<longrightarrow> event_step op e = e)"
    using invalidate_market_revision [of e i r] by (auto simp: event_step_def)
  then show ?thesis by (intro exI [of _ k]) auto
next
  case (EO_InvalidateAll r)
  have "length (ev_markets e) < 2 ^ 32" using assms(1) by (simp add: event_wf_def)
  moreover obtain k where "k \<le> length (ev_markets e)" "ev_revision (event_step op e) = ev_revision e + of_nat k
      \<and> (k = 0 \<longrightarrow> event_step op e = e)"
    using invalidate_all_revision [of "[0..<length (ev_markets e)]" r e empty_summary] EO_InvalidateAll
    by (auto simp: event_step_def event_invalidate_all_def)
  ultimately show ?thesis by (intro exI [of _ k]) auto
qed

section \<open>Properties of an event\<close>

text \<open>C1. The books of an event implement the abstract book. Over any sequence of applied messages and
  invalidations, the quantity resting at every price of every market, and whether the market awaits an
  initial or a recovery snapshot, is what the abstract transition function says: an accepted snapshot
  replaces the whole book, a delta adds to one level of one side exactly, a delta that would make a level
  negative, exceed 64 bits, name no side or leave the grid discards the book until the next snapshot, and
  deltas before a snapshot change nothing.\<close>

theorem event_run_refines:
  assumes "event_wf e" and "list_all event_op_ok ops"
  shows "event_view (fold event_step ops e) = fold spec_event_op ops (event_view e)"
  using assms by (rule event.run_refines)

definition demo_market :: kalshi_market where
  "demo_market = \<lparr>km_market_id = 7, km_event_market_index = 0, km_tradeable = True,
     km_book = empty_book\<lparr>kb_scale := MS_kLINEAR_CENTS\<rparr>, km_strike_key = Some 10, km_market_time_s = 0,
     km_market_close_time_s = 0, km_market_expected_expiration_time_s = 0, km_market_expiration_time_s = 0\<rparr>"

definition demo_event :: event where
  "demo_event = make_event \<lparr>ke_event_id = 3, ke_topology = ET_kMONOTONIC_CHAIN, ke_shard_event_index = 0,
     ke_markets = [demo_market], ke_derived_state = EDS_monostate\<rparr>"

definition demo_ops :: "event_op list" where
  "demo_ops =
     [EO_Apply True 0 (PE_Delta \<lparr>dd_side = S_kBID, dd_price_ticks = 4200, dd_delta_qty_lots = 5\<rparr>),
      EO_Apply True 0 (PE_Snapshot \<lparr>se_bids = [\<lparr>lv_price_ticks = 4200, lv_qty_lots = 10\<rparr>], se_asks = []\<rparr>),
      EO_Apply True 0 (PE_Delta \<lparr>dd_side = S_kBID, dd_price_ticks = 4200, dd_delta_qty_lots = - 4\<rparr>)]"

lemma demo_event_wf: "event_wf demo_event" "list_all event_op_ok demo_ops"
  by (simp_all add: event_wf_def demo_event_def make_event_def demo_market_def market_wf_def book_wf_def
      book_usable_def empty_book_def demo_ops_def event_op_ok_def parsed_ok_def)

theorem event_run_refines_witness:
  "event_view (fold event_step demo_ops demo_event)
     = [(MS_kLINEAR_CENTS, BV_Live ((\<lambda>_. 0)(4200 := 6)) (\<lambda>_. 0))]"
proof -
  have "event_view demo_event = [(MS_kLINEAR_CENTS, BV_Initial)]"
    by (simp add: demo_event_def event_view_def make_event_def demo_market_def view_market_def view_book_def empty_book_def)
  then show ?thesis
    unfolding event_run_refines [OF demo_event_wf]
    by (simp add: demo_ops_def spec_event_op_def modify_nth_def spec_message_def spec_delta_def
        spec_snapshot_def on_grid_def grid_constants view_levels_def spec_level_def Let_def)
qed

text \<open>The revision counter never misses a change: when an operation leaves \<open>revision()\<close> as it was,
  the abstract book of every market of the event is unchanged, also for the operations that raise it by
  more than one.\<close>

theorem revision_tracks_changes:
  assumes "event_wf e" and "event_op_ok op" and "ev_revision (event_step op e) = ev_revision e"
  shows "event_view (event_step op e) = event_view e"
proof -
  obtain k where k: "k < 2 ^ 32" "ev_revision (event_step op e) = ev_revision e + of_nat k"
      "k = 0 \<longrightarrow> event_view (event_step op e) = event_view e"
    using event_step_revision [OF assms(1,2)] by blast
  have "(of_nat k :: u64) = 0" using k(2) assms(3) by simp
  then have "unat (of_nat k :: u64) = 0" by simp
  then have "k = 0" using k(1) by (simp add: unat_of_nat)
  with k(3) show ?thesis by simp
qed

theorem revision_tracks_changes_witness:
  "event_view (event_step (hd demo_ops) demo_event) = event_view demo_event"
proof (rule revision_tracks_changes [OF demo_event_wf(1)])
  show "event_op_ok (hd demo_ops)" using demo_event_wf(2) by (simp add: demo_ops_def)
  show "ev_revision (event_step (hd demo_ops) demo_event) = ev_revision demo_event"
    by (simp add: demo_ops_def event_step_def event_apply_def demo_event_def make_event_def demo_market_def
        apply_to_market_def apply_delta_def empty_book_def is_book_message_def set_market_def Let_def)
qed

end
