(* ===== verification/Event_Store.thy ===== *)
theory Event_Store
  imports Event
begin

text \<open>
  \<open>cpp/src/shard/event_store.cpp\<close>: the events of one shard, addressed by index, and the properties of
  invalidating all of them, of becoming usable and of the observations built from them.
\<close>

section \<open>The store\<close>

type_synonym event_store = "event list"

definition store_initialize :: "kalshi_event list \<Rightarrow> event_store \<times> bool" where
  "store_initialize events = (map make_event events, True)"

definition store_apply ::
  "bool \<Rightarrow> event_store \<Rightarrow> frame_handle \<Rightarrow> kalshi_parsed_event \<Rightarrow> event_store \<times> event_apply_result" where
  "store_apply alloc_ok events handle parsed_event =
     (if unat (fh_shard_event_index handle) \<ge> length events
      then (events, \<lparr>ear_disposition = AD_kREJECTED, ear_book_sync_transition = BST_kNONE,
               ear_reason = MAR_kINVALID_MARKET_INDEX, ear_book_changed = False,
               ear_event_became_usable = False, ear_event_revision = 0\<rparr>)
      else let (e, result) = event_apply alloc_ok (events ! unat (fh_shard_event_index handle))
                               (fh_event_market_index handle) parsed_event
           in (events[unat (fh_shard_event_index handle) := e], result))"

definition get_event :: "event_store \<Rightarrow> u32 \<Rightarrow> event option" where
  "get_event events shard_event_index = nth_opt events (unat shard_event_index)"

definition store_invalidate_market ::
  "event_store \<Rightarrow> u32 \<Rightarrow> u32 \<Rightarrow> market_id \<Rightarrow> book_invalidation_reason \<Rightarrow> event_store \<times> book_invalidation_result" where
  "store_invalidate_market events shard_event_index event_market_index expected_market_id reason =
     (let rejected = (\<lambda>why. (events, \<lparr>bir_target_found = False, bir_book_sync_transition = BST_kNONE,
            bir_reason = reason, bir_reject_reason = why, bir_event_revision = 0\<rparr>))
      in if unat shard_event_index \<ge> length events then rejected IRR_kINVALID_EVENT_INDEX
      else case get_market (events ! unat shard_event_index) event_market_index of
        None \<Rightarrow> rejected IRR_kINVALID_MARKET_INDEX
      | Some market \<Rightarrow>
          if km_market_id market \<noteq> expected_market_id then rejected IRR_kMARKET_ID_MISMATCH
          else let (e, result) = invalidate_market (events ! unat shard_event_index) event_market_index reason
               in (events[unat shard_event_index := e], result))"

primrec store_invalidate_all ::
  "event_store \<Rightarrow> book_invalidation_reason \<Rightarrow> event_store \<times> book_invalidation_summary" where
  "store_invalidate_all [] reason = ([], empty_summary)"
| "store_invalidate_all (e # es) reason =
     (let (e', result) = event_invalidate_all e reason;
          (es', summary) = store_invalidate_all es reason
      in (e' # es',
          \<lparr>bis_targets_found = bis_targets_found result + bis_targets_found summary,
           bis_targets_became_unusable = bis_targets_became_unusable result + bis_targets_became_unusable summary,
           bis_targets_recovery_required = bis_targets_recovery_required result + bis_targets_recovery_required summary,
           bis_targets_already_awaiting_recovery =
             bis_targets_already_awaiting_recovery result + bis_targets_already_awaiting_recovery summary\<rparr>))"

section \<open>Becoming usable\<close>

lemma event_usable_view: "event_usable e \<longleftrightarrow> event_view e \<noteq> []
    \<and> list_all (\<lambda>v. case snd v of BV_Live _ _ \<Rightarrow> True | _ \<Rightarrow> False) (event_view e)"
proof -
  have "book_usable b \<longleftrightarrow> (case view_book b of BV_Live _ _ \<Rightarrow> True | _ \<Rightarrow> False)" for b
    by (simp add: book_usable_def view_book_def split: book_sync_state.split)
  then show ?thesis
    by (simp add: event_usable_def event_view_def view_market_def list.pred_map comp_def)
qed

definition live :: "market_scale \<times> book_view \<Rightarrow> bool" where
  "live v \<longleftrightarrow> (case snd v of BV_Live _ _ \<Rightarrow> True | _ \<Rightarrow> False)"

lemma spec_message_live:
  "live (spec_message a p v) \<Longrightarrow> \<not> live v \<Longrightarrow> \<exists>snap. p = PE_Snapshot snap \<and> a \<and> fst v \<noteq> MS_kUNKNOWN
     \<and> list_all (\<lambda>l. on_grid (fst v) (lv_price_ticks l)) (se_bids snap @ se_asks snap)"
  by (cases p; cases "snd v")
    (auto simp: live_def spec_message_def spec_delta_def spec_snapshot_def split: if_splits)

text \<open>C31. An event that is not usable becomes usable only through an accepted snapshot of the one market
  that was still missing: no delta, trade, lifecycle message or invalidation makes it usable, the snapshot
  has only prices of the market's grid, and every other market already was synchronized.\<close>

theorem usable_only_by_snapshot:
  assumes "event_wf e" and "event_op_ok op" and "\<not> event_usable e" and "event_usable (event_step op e)"
  shows "\<exists>i snap. op = EO_Apply True i (PE_Snapshot snap) \<and> unat i < length (ev_markets e)
    \<and> list_all (\<lambda>l. on_grid (kb_scale (km_book (ev_markets e ! unat i))) (lv_price_ticks l))
        (se_bids snap @ se_asks snap)
    \<and> (\<forall>j < length (ev_markets e). j \<noteq> unat i \<longrightarrow> book_usable (km_book (ev_markets e ! j)))"
proof -
  have us: "event_usable e' \<longleftrightarrow> event_view e' \<noteq> [] \<and> list_all live (event_view e')" for e'
    by (simp add: event_usable_view live_def [abs_def])
  have live_nth: "live (event_view e ! j) \<longleftrightarrow> book_usable (km_book (ev_markets e ! j))"
    if "j < length (ev_markets e)" for j
    using that by (simp add: event_view_def live_def view_market_def book_usable_def view_book_def
        split: book_sync_state.split)
  have "event_view (event_step op e) = spec_event_op op (event_view e)"
    using event.step_refines assms(1,2) by blast
  with assms(4) have after: "event_view e \<noteq> []" "list_all live (spec_event_op op (event_view e))"
    using us by (auto simp: spec_event_op_def modify_nth_def split: event_op.splits if_splits)
  have len: "length (event_view e) = length (ev_markets e)" by (simp add: event_view_def)
  show ?thesis
  proof (cases op)
    case (EO_Apply a i p)
    have i: "unat i < length (event_view e)"
      using after assms(3) us EO_Apply by (auto simp: spec_event_op_def modify_nth_def split: if_splits)
    have all: "live (if j = unat i then spec_message a p (event_view e ! j) else event_view e ! j)"
      if "j < length (event_view e)" for j
      using after(2) i that EO_Apply
      by (auto simp: spec_event_op_def modify_nth_def list_all_length nth_list_update split: if_splits)
    then have others: "live (event_view e ! j)" if "j < length (event_view e)" "j \<noteq> unat i" for j
      using that by fastforce
    have "\<not> live (event_view e ! unat i)"
      using assms(3) us after(1) others by (auto simp: list_all_length)
    then obtain snap where "p = PE_Snapshot snap" "a"
        "list_all (\<lambda>l. on_grid (fst (event_view e ! unat i)) (lv_price_ticks l)) (se_bids snap @ se_asks snap)"
      using spec_message_live [of a p "event_view e ! unat i"] all [OF i] by auto
    moreover have "fst (event_view e ! unat i) = kb_scale (km_book (ev_markets e ! unat i))"
      using i by (simp add: event_view_def view_market_def)
    ultimately show ?thesis using EO_Apply i len others live_nth
      by (intro exI [of _ i] exI [of _ snap]) simp
  next
    case (EO_Invalidate i r)
    with after assms(3) us show ?thesis
      by (auto simp: spec_event_op_def modify_nth_def list_all_length nth_list_update spec_invalidate_def
          live_def split: if_splits)
  next
    case (EO_InvalidateAll r)
    with after show ?thesis
      by (cases "event_view e") (simp_all add: spec_event_op_def spec_invalidate_def live_def)
  qed
qed

theorem usable_only_by_snapshot_witness:
  "\<exists>i snap. demo_ops ! 1 = EO_Apply True i (PE_Snapshot snap) \<and> unat i < length (ev_markets demo_event)"
proof -
  have ok: "event_op_ok (demo_ops ! 1)" by (simp add: demo_ops_def event_op_ok_def parsed_ok_def)
  have v: "event_view demo_event = [(MS_kLINEAR_CENTS, BV_Initial)]"
    by (simp add: demo_event_def event_view_def make_event_def demo_market_def view_market_def view_book_def empty_book_def)
  then have before: "\<not> event_usable demo_event" by (simp add: event_usable_view)
  have "event_view (event_step (demo_ops ! 1) demo_event) = spec_event_op (demo_ops ! 1) (event_view demo_event)"
    using event.step_refines demo_event_wf(1) ok by blast
  then have "event_usable (event_step (demo_ops ! 1) demo_event)"
    by (simp add: event_usable_view v demo_ops_def spec_event_op_def modify_nth_def spec_message_def
        spec_snapshot_def on_grid_def grid_constants)
  from usable_only_by_snapshot [OF demo_event_wf(1) ok before this] show ?thesis by blast
qed

section \<open>Invalidating everything\<close>

definition count_state :: "book_sync_state \<Rightarrow> kalshi_market list \<Rightarrow> nat" where
  "count_state st ms = length (filter (\<lambda>m. kb_sync_state (km_book m) = st) ms)"

definition summary_of :: "kalshi_market list \<Rightarrow> book_invalidation_summary" where
  "summary_of ms = \<lparr>bis_targets_found = of_nat (length ms),
     bis_targets_became_unusable = of_nat (count_state BSS_kSYNCHRONIZED ms),
     bis_targets_recovery_required = of_nat (count_state BSS_kAWAITING_INITIAL_SNAPSHOT ms),
     bis_targets_already_awaiting_recovery = of_nat (count_state BSS_kAWAITING_RECOVERY_SNAPSHOT ms)\<rparr>"

lemma summary_snoc:
  "count_invalidation (snd (invalidate_market e i r)) (summary_of ms) = summary_of (ms @ [ev_markets e ! unat i])"
  if "unat i < length (ev_markets e)"
  using that
  by (cases "kb_sync_state (km_book (ev_markets e ! unat i))")
    (simp_all add: count_invalidation_def invalidate_market_def Let_def invalidation_transition_def
      summary_of_def count_state_def)

lemma event_invalidate_all_summary:
  assumes "length (ev_markets e) < 2 ^ 32"
  shows "snd (event_invalidate_all e r) = summary_of (ev_markets e)"
proof -
  have "snd (fold (invalidate_all_step r) [0..<k] (e, empty_summary)) = summary_of (take k (ev_markets e))"
    if "k \<le> length (ev_markets e)" for k
    using that
  proof (induction k)
    case 0
    then show ?case by (simp add: empty_summary_def summary_of_def count_state_def)
  next
    case (Suc k)
    let ?acc = "fold (invalidate_all_step r) [0..<k] (e, empty_summary)"
    have u: "unat (of_nat k :: u32) = k" using Suc.prems assms by (simp add: unat_of_nat)
    have ms: "ev_markets (fst ?acc) = map market_invalidate (take k (ev_markets e)) @ drop k (ev_markets e)"
      using invalidate_all_prefix [OF assms, of k] Suc.prems by simp
    then have nth: "ev_markets (fst ?acc) ! k = ev_markets e ! k" and len: "k < length (ev_markets (fst ?acc))"
      using Suc.prems by (simp_all add: nth_append)
    have "snd (fold (invalidate_all_step r) [0..<Suc k] (e, empty_summary))
        = count_invalidation (snd (invalidate_market (fst ?acc) (of_nat k) r)) (snd ?acc)"
      by (simp add: invalidate_all_step_def case_prod_beta)
    also have "\<dots> = summary_of (take k (ev_markets e) @ [ev_markets (fst ?acc) ! k])"
      using summary_snoc [of "of_nat k" "fst ?acc" r "take k (ev_markets e)"] Suc len u by simp
    finally show ?case using nth Suc.prems by (simp add: take_Suc_conv_app_nth)
  qed
  from this [of "length (ev_markets e)"] show ?thesis by (simp add: event_invalidate_all_def)
qed

definition store_markets :: "event_store \<Rightarrow> kalshi_market list" where
  "store_markets es = concat (map (\<lambda>e. ev_markets e) es)"

definition store_wf :: "event_store \<Rightarrow> bool" where
  "store_wf es \<longleftrightarrow> list_all event_wf es"

lemma summary_of_append:
  "summary_of (xs @ ys) =
    \<lparr>bis_targets_found = bis_targets_found (summary_of xs) + bis_targets_found (summary_of ys),
     bis_targets_became_unusable = bis_targets_became_unusable (summary_of xs) + bis_targets_became_unusable (summary_of ys),
     bis_targets_recovery_required = bis_targets_recovery_required (summary_of xs) + bis_targets_recovery_required (summary_of ys),
     bis_targets_already_awaiting_recovery =
       bis_targets_already_awaiting_recovery (summary_of xs) + bis_targets_already_awaiting_recovery (summary_of ys)\<rparr>"
  by (simp add: summary_of_def count_state_def)

lemma store_invalidate_all_eq:
  "store_wf es \<Longrightarrow> store_markets (fst (store_invalidate_all es r)) = map market_invalidate (store_markets es)
     \<and> snd (store_invalidate_all es r) = summary_of (store_markets es)
     \<and> store_wf (fst (store_invalidate_all es r))"
proof (induction es)
  case Nil
  then show ?case by (simp add: store_markets_def empty_summary_def summary_of_def count_state_def store_wf_def)
next
  case (Cons e es)
  then have wf: "event_wf e" and len: "length (ev_markets e) < 2 ^ 32"
    by (simp_all add: store_wf_def event_wf_def)
  have "event_wf (event_step (EO_InvalidateAll r) e)"
    using wf by (intro event.step_invar) (simp_all add: event_op_ok_def)
  then show ?case using Cons event_invalidate_all_markets [OF len, of r] event_invalidate_all_summary [OF len, of r]
    by (simp add: store_markets_def store_wf_def event_step_def case_prod_beta summary_of_append)
qed

lemma market_invalidate_state [simp]:
  "kb_sync_state (km_book (market_invalidate m)) = BSS_kAWAITING_RECOVERY_SNAPSHOT"
  by (simp add: market_invalidate_def)

lemma market_invalidate_idem [simp]: "market_invalidate (market_invalidate m) = market_invalidate m"
  by (simp add: market_invalidate_def)

text \<open>\<open>EventStore::invalidate_all_markets\<close> leaves no market of the shard usable, each one awaiting a
  recovery snapshot, and its summary counts every market once, by the state it was in: synchronized ones
  as become unusable, ones without their first snapshot as requiring recovery, the rest as already
  awaiting recovery. Invalidating again changes no market and counts all of them as already awaiting.\<close>

theorem invalidate_all_complete:
  assumes "store_wf es" and "store_invalidate_all es r = (es', s)" and "store_invalidate_all es' r' = (es'', s')"
  shows "list_all (\<lambda>m. kb_sync_state (km_book m) = BSS_kAWAITING_RECOVERY_SNAPSHOT) (store_markets es')
    \<and> s = summary_of (store_markets es)
    \<and> store_markets es'' = store_markets es'
    \<and> bis_targets_already_awaiting_recovery s' = of_nat (length (store_markets es))
    \<and> bis_targets_became_unusable s' = 0 \<and> bis_targets_recovery_required s' = 0"
proof -
  have es': "store_markets es' = map market_invalidate (store_markets es)" "store_wf es'"
    and s: "s = summary_of (store_markets es)"
    using store_invalidate_all_eq [OF assms(1), of r] assms(2) by simp_all
  have "store_markets es'' = map market_invalidate (store_markets es')" "s' = summary_of (store_markets es')"
    using store_invalidate_all_eq [OF es'(2), of r'] assms(3) by simp_all
  then show ?thesis using es' s
    by (simp add: list.pred_map comp_def list_all_iff summary_of_def count_state_def filter_map)
qed

theorem invalidate_all_complete_witness:
  "list_all (\<lambda>m. kb_sync_state (km_book m) = BSS_kAWAITING_RECOVERY_SNAPSHOT)
      (store_markets (fst (store_invalidate_all [demo_event] BIR_kEXCHANGE_SEQUENCE_GAP)))
   \<and> bis_targets_recovery_required (snd (store_invalidate_all [demo_event] BIR_kEXCHANGE_SEQUENCE_GAP)) = 1"
proof -
  have "store_wf [demo_event]" using demo_event_wf(1) by (simp add: store_wf_def)
  from invalidate_all_complete [OF this surjective_pairing surjective_pairing,
      of BIR_kEXCHANGE_SEQUENCE_GAP BIR_kEXCHANGE_SEQUENCE_GAP]
  show ?thesis
    by (simp add: store_markets_def summary_of_def count_state_def demo_event_def make_event_def
        demo_market_def empty_book_def)
qed

section \<open>Observations\<close>

definition shown_level :: "kalshi_book \<Rightarrow> qty_lots list \<Rightarrow> nat \<Rightarrow> strategy_book_level" where
  "shown_level b levels i = \<lparr>sbl_price_ticks = kb_tick_by_index b ! i, sbl_quantity_lots = levels ! i\<rparr>"

text \<open>The non-empty levels along a list of indices, in its order.\<close>

definition shown_levels :: "kalshi_book \<Rightarrow> qty_lots list \<Rightarrow> nat list \<Rightarrow> strategy_book_level list" where
  "shown_levels b levels is = map (shown_level b levels) (filter (\<lambda>i. levels ! i \<noteq> 0) is)"

lemma collect_levels_eq:
  assumes "list_all (\<lambda>i. i < length (kb_tick_by_index b)) is" and "length slots = 4" and "count \<le> 4"
  shows "\<exists>slots'. collect_levels b levels is slots count = Some (slots', min 4 (count + length (shown_levels b levels is)))
    \<and> length slots' = 4
    \<and> take (min 4 (count + length (shown_levels b levels is))) slots'
        = take count slots @ take (4 - count) (shown_levels b levels is)"
  using assms
proof (induction "is" arbitrary: slots count)
  case Nil
  then show ?case by (simp add: shown_levels_def)
next
  case (Cons i "is")
  show ?case
  proof (cases "count < 4 \<and> levels ! i \<noteq> 0")
    case True
    let ?l = "shown_level b levels i"
    have p: "price_ticks_at_index b i = Some (kb_tick_by_index b ! i)"
      using Cons.prems(1) by (simp add: price_ticks_at_index_def)
    obtain slots' where s: "collect_levels b levels is (slots[count := ?l]) (Suc count)
          = Some (slots', min 4 (Suc count + length (shown_levels b levels is)))" "length slots' = 4"
        "take (min 4 (Suc count + length (shown_levels b levels is))) slots'
          = take (Suc count) (slots[count := ?l]) @ take (4 - Suc count) (shown_levels b levels is)"
      using Cons.IH [of "slots[count := ?l]" "Suc count"] Cons.prems True by auto
    have "take (Suc count) (slots[count := ?l]) = take count slots @ [?l]"
      using Cons.prems True by (simp add: take_Suc_conv_app_nth)
    moreover have "4 - count = Suc (4 - Suc count)" using True by arith
    ultimately show ?thesis using s p True
      by (intro exI [of _ slots']) (simp add: shown_levels_def shown_level_def kStrategyBookDepth_def)
  next
    case False
    then show ?thesis
    proof (cases "count < 4")
      case True
      with False have "levels ! i = 0" by simp
      then show ?thesis using Cons True by (simp add: shown_levels_def kStrategyBookDepth_def)
    next
      case False
      then have "count = 4" using Cons.prems by simp
      then show ?thesis using Cons.prems by (simp add: kStrategyBookDepth_def)
    qed
  qed
qed

definition best_bids :: "kalshi_book \<Rightarrow> strategy_book_level list" where
  "best_bids b = shown_levels b (kb_bids b) (rev [0..<length (kb_bids b)])"

definition best_asks :: "kalshi_book \<Rightarrow> strategy_book_level list" where
  "best_asks b = shown_levels b (kb_asks b) [0..<length (kb_asks b)]"

lemma market_view_total:
  assumes "gridded (km_book m)"
  shows "\<exists>v. market_view_of m key = Some v
    \<and> take (unat (smv_bid_count v)) (smv_bids v) = take 4 (best_bids (km_book m))
    \<and> take (unat (smv_ask_count v)) (smv_asks v) = take 4 (best_asks (km_book m))
    \<and> smv_market_id v = km_market_id m \<and> smv_strike_key v = key \<and> smv_tradeable v = km_tradeable m"
proof -
  let ?b = "km_book m"
  have len: "length (kb_bids ?b) = length (kb_tick_by_index ?b)" "length (kb_asks ?b) = length (kb_tick_by_index ?b)"
    using assms by (auto simp: gridded_def split: option.splits)
  obtain bs where bs: "collect_levels ?b (kb_bids ?b) (rev [0..<length (kb_bids ?b)]) empty_slots 0
      = Some (bs, min 4 (length (best_bids ?b)))" "take (min 4 (length (best_bids ?b))) bs = take 4 (best_bids ?b)"
    using collect_levels_eq [of ?b "rev [0..<length (kb_bids ?b)]" empty_slots 0 "kb_bids ?b"] len
    by (auto simp: best_bids_def empty_slots_def kStrategyBookDepth_def list_all_iff)
  obtain as where as: "collect_levels ?b (kb_asks ?b) [0..<length (kb_asks ?b)] empty_slots 0
      = Some (as, min 4 (length (best_asks ?b)))" "take (min 4 (length (best_asks ?b))) as = take 4 (best_asks ?b)"
    using collect_levels_eq [of ?b "[0..<length (kb_asks ?b)]" empty_slots 0 "kb_asks ?b"] len
    by (auto simp: best_asks_def empty_slots_def kStrategyBookDepth_def list_all_iff)
  have "unat (of_nat (min 4 n) :: u8) = min 4 n" for n by (simp add: unat_of_nat)
  then show ?thesis using bs as by (simp add: market_view_of_def Let_def)
qed

text \<open>The levels shown are the levels of the abstract book, best price first, and none better is left out.\<close>

lemma gridded_tick:
  assumes "gridded b" and "i < length (kb_tick_by_index b)"
  shows "get_index b (kb_tick_by_index b ! i) = Some i"
  using get_index_price_at [OF assms(1), of i] assms(2) by (simp add: price_ticks_at_index_def)

lemma gridded_tick_mono:
  assumes "gridded b" and "i < j" and "j < length (kb_tick_by_index b)"
  shows "kb_tick_by_index b ! i < kb_tick_by_index b ! j"
proof -
  from assms(1) obtain d n where g: "grid_parameters (kb_scale b) = Some (d, n)"
    by (auto simp: gridded_def split: option.splits)
  note c = grid_parameters_cases [OF g]
  have t: "kb_tick_by_index b ! k = of_nat (k * d)" "k * d \<le> 10000" if "k < length (kb_tick_by_index b)" for k
  proof -
    show "kb_tick_by_index b ! k = of_nat (k * d)" using that assms(1) g by (simp add: gridded_def)
    have "k < n" using that assms(1) g by (simp add: gridded_def)
    then have "k \<le> 10000 div d" using c by simp
    then show "k * d \<le> 10000" by (metis c dvd_div_mult_self mult_le_mono1)
  qed
  then have u: "unat (kb_tick_by_index b ! k) = k * d" if "k < length (kb_tick_by_index b)" for k
    unfolding t(1) [OF that] using t(2) [OF that] by (simp add: unat_of_nat del: of_nat_mult)
  have "i * d < j * d" using assms(2) c by simp
  then show ?thesis using u assms by (simp add: word_less_nat_alt)
qed

lemma set_shown_levels:
  assumes "gridded b" and "length levels = length (kb_tick_by_index b)" and "set is = {..<length levels}"
  shows "set (shown_levels b levels is) =
    {l. 0 < level_at b levels (sbl_price_ticks l) \<and> unat (sbl_quantity_lots l) = level_at b levels (sbl_price_ticks l)}"
proof (rule set_eqI)
  fix l
  have "l \<in> set (shown_levels b levels is) \<longleftrightarrow> (\<exists>i < length levels. levels ! i \<noteq> 0 \<and> l = shown_level b levels i)"
    using assms(3) by (auto simp: shown_levels_def)
  also have "\<dots> \<longleftrightarrow> 0 < level_at b levels (sbl_price_ticks l)
      \<and> unat (sbl_quantity_lots l) = level_at b levels (sbl_price_ticks l)" (is "?L \<longleftrightarrow> ?R")
  proof
    assume ?L
    then show ?R using gridded_tick [OF assms(1)] assms(2)
      by (auto simp: shown_level_def level_at_def unat_gt_0)
  next
    assume r: ?R
    then obtain i where i: "get_index b (sbl_price_ticks l) = Some i"
      by (auto simp: level_at_def split: option.splits)
    have "price_ticks_at_index b i = Some (sbl_price_ticks l)" using price_at_get_index [OF assms(1) i] .
    then have "i < length levels" "kb_tick_by_index b ! i = sbl_price_ticks l"
      using assms(2) by (auto simp: price_ticks_at_index_def split: if_splits)
    with r i show ?L
      by (intro exI [of _ i]) (auto simp: level_at_def shown_level_def word_unat_eq_iff)
  qed
  finally show "l \<in> set (shown_levels b levels is) \<longleftrightarrow> l \<in> {l. 0 < level_at b levels (sbl_price_ticks l)
      \<and> unat (sbl_quantity_lots l) = level_at b levels (sbl_price_ticks l)}" by simp
qed

lemma best_bids_props:
  assumes "gridded b"
  shows "set (best_bids b) = {l. 0 < bid_qty b (sbl_price_ticks l) \<and> unat (sbl_quantity_lots l) = bid_qty b (sbl_price_ticks l)}"
    and "sorted_wrt (\<lambda>x y. sbl_price_ticks x > sbl_price_ticks y) (best_bids b)"
proof -
  have len: "length (kb_bids b) = length (kb_tick_by_index b)"
    using assms by (auto simp: gridded_def split: option.splits)
  show "set (best_bids b) = {l. 0 < bid_qty b (sbl_price_ticks l) \<and> unat (sbl_quantity_lots l) = bid_qty b (sbl_price_ticks l)}"
    unfolding best_bids_def bid_qty_def by (rule set_shown_levels [OF assms len]) auto
  have "sorted_wrt (\<lambda>i j. j < i \<and> i < length (kb_bids b)) (rev [0..<length (kb_bids b)])"
    by (auto simp: sorted_wrt_rev intro: sorted_wrt_mono_rel [OF _ sorted_wrt_upt])
  then show "sorted_wrt (\<lambda>x y. sbl_price_ticks x > sbl_price_ticks y) (best_bids b)"
    unfolding best_bids_def shown_levels_def sorted_wrt_map
    by (intro sorted_wrt_mono_rel [OF _ sorted_wrt_filter])
      (auto simp: shown_level_def len intro: gridded_tick_mono [OF assms])
qed

lemma best_asks_props:
  assumes "gridded b"
  shows "set (best_asks b) = {l. 0 < ask_qty b (sbl_price_ticks l) \<and> unat (sbl_quantity_lots l) = ask_qty b (sbl_price_ticks l)}"
    and "sorted_wrt (\<lambda>x y. sbl_price_ticks x < sbl_price_ticks y) (best_asks b)"
proof -
  have len: "length (kb_asks b) = length (kb_tick_by_index b)"
    using assms by (auto simp: gridded_def split: option.splits)
  show "set (best_asks b) = {l. 0 < ask_qty b (sbl_price_ticks l) \<and> unat (sbl_quantity_lots l) = ask_qty b (sbl_price_ticks l)}"
    unfolding best_asks_def ask_qty_def by (rule set_shown_levels [OF assms len]) auto
  have "sorted_wrt (\<lambda>i j. i < j \<and> j < length (kb_asks b)) [0..<length (kb_asks b)]"
    by (auto intro: sorted_wrt_mono_rel [OF _ sorted_wrt_upt])
  then show "sorted_wrt (\<lambda>x y. sbl_price_ticks x < sbl_price_ticks y) (best_asks b)"
    unfolding best_asks_def shown_levels_def sorted_wrt_map
    by (intro sorted_wrt_mono_rel [OF _ sorted_wrt_filter])
      (auto simp: shown_level_def len intro: gridded_tick_mono [OF assms])
qed

definition top_of_book ::
  "(price_ticks \<Rightarrow> price_ticks \<Rightarrow> bool) \<Rightarrow> (price_ticks \<Rightarrow> nat) \<Rightarrow> strategy_book_level list \<Rightarrow> bool" where
  "top_of_book better qty ls \<longleftrightarrow> length ls \<le> kStrategyBookDepth
     \<and> sorted_wrt (\<lambda>x y. better (sbl_price_ticks x) (sbl_price_ticks y)) ls
     \<and> (\<forall>l \<in> set ls. 0 < qty (sbl_price_ticks l) \<and> unat (sbl_quantity_lots l) = qty (sbl_price_ticks l))
     \<and> (\<forall>p. 0 < qty p \<longrightarrow> p \<in> sbl_price_ticks ` set ls
          \<or> length ls = kStrategyBookDepth \<and> (\<forall>l \<in> set ls. better (sbl_price_ticks l) p))"

lemma top_of_book_take:
  assumes "set xs = {l. 0 < qty (sbl_price_ticks l) \<and> unat (sbl_quantity_lots l) = qty (sbl_price_ticks l)}"
    and "sorted_wrt (\<lambda>x y. better (sbl_price_ticks x) (sbl_price_ticks y)) xs"
    and bound: "\<And>p. qty p < 2 ^ 64"
  shows "top_of_book better qty (take 4 xs)"
proof -
  have "p \<in> sbl_price_ticks ` set (take 4 xs)
      \<or> length (take 4 xs) = 4 \<and> (\<forall>l \<in> set (take 4 xs). better (sbl_price_ticks l) p)" if "0 < qty p" for p
  proof -
    let ?l = "\<lparr>sbl_price_ticks = p, sbl_quantity_lots = of_nat (qty p)\<rparr>"
    have "?l \<in> set xs" using assms(1) that bound [of p] by (simp add: unat_of_nat)
    then have "?l \<in> set (take 4 xs) \<or> ?l \<in> set (drop 4 xs)" by (metis Un_iff append_take_drop_id set_append)
    moreover have "length (take 4 xs) = 4 \<and> (\<forall>l \<in> set (take 4 xs). better (sbl_price_ticks l) p)"
      if d: "?l \<in> set (drop 4 xs)"
    proof -
      have "drop 4 xs \<noteq> []" using d by auto
      moreover have "sorted_wrt (\<lambda>x y. better (sbl_price_ticks x) (sbl_price_ticks y)) (take 4 xs @ drop 4 xs)"
        using assms(2) by simp
      ultimately show ?thesis using d unfolding sorted_wrt_append by fastforce
    qed
    ultimately show ?thesis by force
  qed
  then show ?thesis using assms(1) sorted_wrt_take [OF assms(2), of 4] set_take_subset [of 4 xs]
    unfolding top_of_book_def kStrategyBookDepth_def by auto
qed

lemma qty_bounded: "bid_qty b p < 2 ^ 64" "ask_qty b p < 2 ^ 64"
  unfolding bid_qty_def ask_qty_def level_at_def using unat_u64_less
  by (auto split: option.splits)

definition observable :: "event \<Rightarrow> u32 \<Rightarrow> bool" where
  "observable e i \<longleftrightarrow> ke_topology (ev_state e) = ET_kMONOTONIC_CHAIN \<and> event_usable e
     \<and> Suc (unat i) < length (ev_markets e)
     \<and> km_event_market_index (ev_markets e ! unat i) = i
     \<and> km_event_market_index (ev_markets e ! Suc (unat i)) = i + 1
     \<and> (case (km_strike_key (ev_markets e ! unat i), km_strike_key (ev_markets e ! Suc (unat i))) of
          (Some a, Some b) \<Rightarrow> a < b | _ \<Rightarrow> False)"

text \<open>C32. \<open>build_monotonic_pair_observation\<close> produces an observation exactly for two neighbouring markets
  of a usable monotonic chain with increasing strikes (the search for a price never fails on a
  synchronized book), stamped with the current revision. For both markets it shows the top of the book:
  at most four levels a side, best price first, each with the exact resting quantity, and a price with
  resting quantity is missing only when four strictly better ones are shown.\<close>

theorem observation_is_top_of_book:
  assumes "event_wf e"
  shows "(build_monotonic_pair_observation e i ctx \<noteq> None \<longleftrightarrow> observable e i)
    \<and> (\<forall>obs. build_monotonic_pair_observation e i ctx = Some obs \<longrightarrow>
         mpo_event_revision obs = ev_revision e
       \<and> smv_strike_key (mpo_easier obs) < smv_strike_key (mpo_harder obs)
       \<and> (\<forall>(v, m) \<in> {(mpo_easier obs, ev_markets e ! unat i), (mpo_harder obs, ev_markets e ! Suc (unat i))}.
            smv_market_id v = km_market_id m
          \<and> top_of_book (\<lambda>x y. x > y) (bid_qty (km_book m)) (take (unat (smv_bid_count v)) (smv_bids v))
          \<and> top_of_book (\<lambda>x y. x < y) (ask_qty (km_book m)) (take (unat (smv_ask_count v)) (smv_asks v))))"
proof (cases "observable e i")
  case False
  have "unat (i + 1) = Suc (unat i)" if "Suc (unat i) < length (ev_markets e)"
    using assms that unat_u32_less [of i] by (intro unat_Suc_no_wrap [of i "- 1"])
      (auto simp: event_wf_def unat_max_word word_unat_eq_iff)
  then have "build_monotonic_pair_observation e i ctx = None"
    using False by (auto simp: build_monotonic_pair_observation_def observable_def Let_def split: option.splits)
  with False show ?thesis by simp
next
  case True
  let ?m = "ev_markets e ! unat i" and ?n = "ev_markets e ! Suc (unat i)"
  have len: "Suc (unat i) < length (ev_markets e)" and us: "event_usable e" using True by (simp_all add: observable_def)
  have suc: "unat (i + 1) = Suc (unat i)"
    using assms len by (intro unat_Suc_no_wrap [of i "- 1"]) (auto simp: event_wf_def unat_max_word word_unat_eq_iff)
  have g: "gridded (km_book m)" if "m \<in> set (ev_markets e)" for m
    using that us assms by (auto simp: event_usable_def event_wf_def list_all_iff market_wf_def book_wf_def)
  then have gm: "gridded (km_book ?m)" and gn: "gridded (km_book ?n)" using len by simp_all
  obtain a b where keys: "km_strike_key ?m = Some a" "km_strike_key ?n = Some b" "a < b"
    using True by (auto simp: observable_def split: option.splits)
  obtain v where v: "market_view_of ?m a = Some v"
      "take (unat (smv_bid_count v)) (smv_bids v) = take 4 (best_bids (km_book ?m))"
      "take (unat (smv_ask_count v)) (smv_asks v) = take 4 (best_asks (km_book ?m))"
      "smv_market_id v = km_market_id ?m" "smv_strike_key v = a"
    using market_view_total [OF gm, of a] by blast
  obtain w where w: "market_view_of ?n b = Some w"
      "take (unat (smv_bid_count w)) (smv_bids w) = take 4 (best_bids (km_book ?n))"
      "take (unat (smv_ask_count w)) (smv_asks w) = take 4 (best_asks (km_book ?n))"
      "smv_market_id w = km_market_id ?n" "smv_strike_key w = b"
    using market_view_total [OF gn, of b] by blast
  have top: "top_of_book (\<lambda>x y. x > y) (bid_qty c) (take 4 (best_bids c))"
      "top_of_book (\<lambda>x y. x < y) (ask_qty c) (take 4 (best_asks c))" if "gridded c" for c
    using that by (auto intro!: top_of_book_take best_bids_props best_asks_props qty_bounded)
  have "\<exists>obs. build_monotonic_pair_observation e i ctx = Some obs \<and> mpo_easier obs = v \<and> mpo_harder obs = w
      \<and> mpo_event_revision obs = ev_revision e"
    using True keys len suc v(1) w(1)
    by (simp add: build_monotonic_pair_observation_def observable_def Let_def)
  then show ?thesis using True top [OF gm] top [OF gn] v w keys(3) by auto
qed

definition demo_live_book :: kalshi_book where
  "demo_live_book = (fst (set_index_grid True (empty_book\<lparr>kb_scale := MS_kLINEAR_CENTS\<rparr>)))\<lparr>kb_sync_state := BSS_kSYNCHRONIZED\<rparr>"

definition demo_chain :: event where
  "demo_chain = make_event \<lparr>ke_event_id = 3, ke_topology = ET_kMONOTONIC_CHAIN, ke_shard_event_index = 0,
     ke_markets = [demo_market\<lparr>km_book := demo_live_book\<rparr>,
       demo_market\<lparr>km_book := demo_live_book, km_market_id := 8, km_event_market_index := 1, km_strike_key := Some 20\<rparr>],
     ke_derived_state = EDS_monostate\<rparr>"

lemma gridded_sync_state [simp]: "gridded (b\<lparr>kb_sync_state := st\<rparr>) = gridded b"
  by (simp add: gridded_def split: option.split)

lemma demo_live_book_wf: "book_usable demo_live_book" "gridded demo_live_book"
proof -
  let ?b = "empty_book\<lparr>kb_scale := MS_kLINEAR_CENTS\<rparr>"
  have "set_index_grid True ?b = (fst (set_index_grid True ?b), True)"
    using set_index_grid_ok_iff [of True ?b] by (simp add: prod_eq_iff)
  then have "gridded (fst (set_index_grid True ?b))"
    using set_index_grid_gridded [of True ?b "fst (set_index_grid True ?b)"]
    by (simp add: empty_book_def kInvalidBookIndex_def)
  then show "gridded demo_live_book" by (simp add: demo_live_book_def)
  show "book_usable demo_live_book" by (simp add: demo_live_book_def book_usable_def)
qed

theorem observation_is_top_of_book_witness:
  "build_monotonic_pair_observation demo_chain 0
     \<lparr>soc_universe_version = 1, soc_shard_index = 0, soc_ingress_timestamp_ns = 0,
      soc_book_apply_timestamp_ns = 0, soc_publish_timestamp_ns = 0\<rparr> \<noteq> None"
proof -
  have "event_wf demo_chain"
    using demo_live_book_wf by (simp add: event_wf_def demo_chain_def make_event_def market_wf_def book_wf_def)
  moreover have "observable demo_chain 0"
    using demo_live_book_wf
    by (simp add: observable_def demo_chain_def make_event_def event_usable_def demo_market_def)
  ultimately show ?thesis using observation_is_top_of_book [of demo_chain 0] by blast
qed

end
