(* ===== verification/Control_Types.thy ===== *)
theory Control_Types
  imports Event
begin

text \<open>
  The universe of markets and the messages between the control plane, the market-data I/O thread and the
  shards (\<open>cpp/include/predex/control/control_types.hpp\<close>, \<open>cpp/include/predex/shard/shard_types.hpp\<close>,
  \<open>cpp/include/predex/router/router_types.hpp\<close>): the data the recovery coordinator and the router work on.
  Time points and durations are integers, in nanoseconds of the steady clock.
\<close>

type_synonym time_ns = int

record universe_market =
  um_market_id :: market_id
  um_kalshi_ticker :: string
  um_tradeable :: bool
  um_price_level_structure :: price_level_structure
  um_strike_key :: "i64 option"
  um_market_time_s :: u64
  um_market_close_time_s :: u64
  um_market_expected_expiration_time_s :: u64
  um_market_expiration_time_s :: u64

record universe_event =
  ue_event_id :: event_id
  ue_affinity_key :: affinity_key
  ue_topology :: event_topology
  ue_markets :: "universe_market list"

record universe_market_route =
  umr_kalshi_ticker :: string
  umr_market_id :: market_id
  umr_event_id :: event_id
  umr_affinity_key :: affinity_key
  umr_topology :: event_topology
  umr_shard_index :: u32
  umr_shard_event_index :: u32
  umr_event_market_index :: u32
  umr_tradeable :: bool
  umr_price_level_structure :: price_level_structure
  umr_strike_key :: "i64 option"
  umr_market_time_s :: u64
  umr_market_close_time_s :: u64
  umr_market_expected_expiration_time_s :: u64
  umr_market_expiration_time_s :: u64

record universe_snapshot =
  us_version :: u64
  us_events :: "universe_event list"
  us_market_routes :: "universe_market_route list"

record recover_market_io =
  rmi_recovery_id :: recovery_id
  rmi_universe_version :: u64
  rmi_market_id :: market_id
  rmi_request_attempt :: u32

record io_recovery_request_accepted =
  ira_recovery_id :: recovery_id
  ira_universe_version :: u64
  ira_market_id :: market_id
  ira_request_attempt :: u32

record io_recovery_request_failed =
  irf_recovery_id :: recovery_id
  irf_universe_version :: u64
  irf_market_id :: market_id
  irf_request_attempt :: u32
  irf_reason :: string

record shard_market_recovery_required =
  smr_universe_version :: u64
  smr_shard_index :: u32
  smr_incident :: integrity_incident_key
  smr_sid :: u32
  smr_sequence :: u64
  smr_market_id :: market_id
  smr_event_id :: event_id
  smr_reason :: book_invalidation_reason

record shard_recovery_snapshot_applied =
  srs_recovery_id :: recovery_id
  srs_universe_version :: u64
  srs_shard_index :: u32
  srs_sid :: u32
  srs_sequence :: u64
  srs_market_id :: market_id
  srs_transition :: book_sync_transition

record subscription_barrier_delivered =
  sbd_universe_version :: u64
  sbd_incident :: integrity_incident_key
  sbd_sid :: u32
  sbd_expected_sequence :: u64
  sbd_observed_sequence :: u64
  sbd_reason :: book_invalidation_reason

definition find_route :: "universe_snapshot \<Rightarrow> market_id \<Rightarrow> universe_market_route option" where
  "find_route u market_id = find (\<lambda>route. umr_market_id route = market_id) (us_market_routes u)"

end
