(* ===== verification/Recovery.thy ===== *)
theory Recovery
  imports Control_Types "HOL-Library.Multiset"
begin

text \<open>
  \<open>cpp/include/predex/control/recovery_coordinator.hpp\<close> and
  \<open>cpp/src/control/recovery_coordinator.cpp\<close>: the component of the control plane that turns integrity
  incidents into recovery requests, one market at a time, retries them with a backoff and releases the
  market when its recovery snapshot has been applied.

  The three unordered maps are association lists; pointers and iterators into them become lookups and
  assignments. The steady clock is an integer number of nanoseconds. Allocation in \<open>emplace\<close> succeeds;
  the \<open>std::logic_error\<close> thrown for a universe that routes a market twice is modelled with its rollback.
\<close>

section \<open>State\<close>

datatype market_recovery_phase =
    MRP_kPENDING_REQUEST | MRP_kREQUEST_ENQUEUED | MRP_kREQUEST_ACCEPTED | MRP_kSNAPSHOT_APPLIED
  | MRP_kFAILED | MRP_kSUPERSEDED

datatype recovery_observation_code =
    ROC_kCREATED | ROC_kDUPLICATE | ROC_kSTALE_UNIVERSE | ROC_kINVALID_INCIDENT | ROC_kINVALID_REASON
  | ROC_kUNKNOWN_MARKET | ROC_kROUTE_MISMATCH | ROC_kALREADY_RECOVERING | ROC_kRECOVERY_ID_EXHAUSTED

record recovery_observation_result =
  ror_code :: recovery_observation_code
  ror_recovery_id :: recovery_id
  ror_markets_affected :: nat

record market_recovery_state =
  mrs_market_id :: market_id
  mrs_event_id :: event_id
  mrs_shard_index :: u32
  mrs_phase :: market_recovery_phase
  mrs_attempts_sent :: u32
  mrs_last_attempt_time :: time_ns
  mrs_next_attempt_time :: time_ns

record recovery_incident_state =
  ris_recovery_id :: recovery_id
  ris_source :: integrity_incident_key
  ris_universe_version :: u64
  ris_sid :: u32
  ris_reason :: book_invalidation_reason
  ris_market_recoveries :: "market_recovery_state list"
  ris_started_at :: time_ns
  ris_last_progress_at :: time_ns

datatype recovery_fact_disposition = RFD_kAPPLIED | RFD_kIGNORED | RFD_kREJECTED

datatype recovery_fact_effect =
    RFE_kNONE | RFE_kREQUEST_ACCEPTED | RFE_kRETRY_SCHEDULED | RFE_kMARKET_RECOVERED | RFE_kMARKET_FAILED

record recovery_fact_result =
  rfr_disposition :: recovery_fact_disposition
  rfr_effect :: recovery_fact_effect
  rfr_recovery_id :: recovery_id
  rfr_market_id :: market_id
  rfr_incident_completed :: bool
  rfr_recovery_duration :: time_ns

record recovery_supersession_summary =
  rss_incidents_superseded :: nat
  rss_markets_superseded :: nat
  rss_active_latches_released :: nat

record recovery_timeout_summary =
  rts_request_ack_timeouts :: nat
  rts_snapshot_timeouts :: nat
  rts_retries_scheduled :: nat
  rts_markets_failed :: nat

text \<open>The durations of the configuration are milliseconds.\<close>

record recovery_coordinator_config =
  rcc_max_attempts :: u32
  rcc_initial_backoff :: int
  rcc_max_backoff :: int
  rcc_request_ack_timeout :: int
  rcc_snapshot_timeout :: int

definition default_config :: recovery_coordinator_config where
  "default_config = \<lparr>rcc_max_attempts = 5, rcc_initial_backoff = 100, rcc_max_backoff = 5000,
     rcc_request_ack_timeout = 2000, rcc_snapshot_timeout = 5000\<rparr>"

type_synonym recovery_source_key = "u64 \<times> integrity_incident_key"

record recovery_coordinator =
  rc_next_recovery_id :: recovery_id
  rc_incidents :: "(recovery_id, recovery_incident_state) umap"
  rc_recovery_by_source :: "(recovery_source_key, recovery_id) umap"
  rc_active_recovery_by_market :: "(market_id, recovery_id) umap"
  rc_config :: recovery_coordinator_config

definition make_coordinator :: "recovery_coordinator_config \<Rightarrow> recovery_coordinator" where
  "make_coordinator config = \<lparr>rc_next_recovery_id = 1, rc_incidents = [], rc_recovery_by_source = [],
     rc_active_recovery_by_market = [], rc_config = config\<rparr>"

definition millis :: "int \<Rightarrow> time_ns" where "millis d = d * 1000000"

section \<open>Retry backoff\<close>

function backoff_loop :: "int \<Rightarrow> u32 \<Rightarrow> int \<Rightarrow> u32 \<Rightarrow> int" where
  "backoff_loop max_backoff attempts_sent delay attempt =
     (if attempt < attempts_sent \<and> delay < max_backoff
      then if delay > max_backoff div 2 then max_backoff
           else backoff_loop max_backoff attempts_sent (delay * 2) (attempt + 1)
      else min delay max_backoff)"
  by pat_completeness auto
termination
proof (relation "measure (\<lambda>(m, a, d, i). unat a - unat i)")
  fix m d :: int and a i :: u32
  assume "i < a \<and> d < m"
  then have lt: "unat i < unat a" by (simp add: word_less_nat_alt)
  then have "unat (i + 1) = Suc (unat i)" by (intro unat_Suc_no_wrap [of i a]) auto
  with lt show "((m, a, d * 2, i + 1), (m, a, d, i)) \<in> measure (\<lambda>(m, a, d, i). unat a - unat i)" by simp
qed simp

declare backoff_loop.simps [simp del]

definition retry_backoff :: "recovery_coordinator_config \<Rightarrow> u32 \<Rightarrow> int" where
  "retry_backoff config attempts_sent =
     backoff_loop (rcc_max_backoff config) attempts_sent
       (min (rcc_initial_backoff config) (rcc_max_backoff config)) 1"

section \<open>Observing incidents\<close>

definition valid_targeted_incident_source :: "shard_market_recovery_required \<Rightarrow> bool" where
  "valid_targeted_incident_source msg =
     (let origin = iik_origin (smr_incident msg); producer = iik_producer_index (smr_incident msg)
      in case smr_reason msg of
           BIR_kWIRE_POOL_EXHAUSTION \<Rightarrow> origin = IIO_kWIRE_SESSION \<and> producer = 0
         | BIR_kWIRE_TO_ROUTER_DELIVERY_LOSS \<Rightarrow> origin = IIO_kWIRE_SESSION \<and> producer = 0
         | BIR_kROUTER_TO_SHARD_DELIVERY_LOSS \<Rightarrow> origin = IIO_kROUTER \<and> producer = 0
         | BIR_kSHARD_FRAME_MISSING \<Rightarrow> origin = IIO_kSHARD \<and> producer = smr_shard_index msg
         | BIR_kSHARD_PARSE_FAILURE \<Rightarrow> origin = IIO_kSHARD \<and> producer = smr_shard_index msg
         | BIR_kNONE \<Rightarrow> False
         | BIR_kEXCHANGE_SEQUENCE_GAP \<Rightarrow> False)"

definition observation :: "recovery_observation_code \<Rightarrow> recovery_id \<Rightarrow> nat \<Rightarrow> recovery_observation_result" where
  "observation code rid n = \<lparr>ror_code = code, ror_recovery_id = rid, ror_markets_affected = n\<rparr>"

definition new_market_recovery :: "market_id \<Rightarrow> event_id \<Rightarrow> u32 \<Rightarrow> time_ns \<Rightarrow> market_recovery_state" where
  "new_market_recovery market event shard now =
     \<lparr>mrs_market_id = market, mrs_event_id = event, mrs_shard_index = shard,
      mrs_phase = MRP_kPENDING_REQUEST, mrs_attempts_sent = 0, mrs_last_attempt_time = 0,
      mrs_next_attempt_time = now\<rparr>"

definition observe_market ::
  "recovery_coordinator \<Rightarrow> shard_market_recovery_required \<Rightarrow> universe_snapshot \<Rightarrow> time_ns
   \<Rightarrow> recovery_coordinator \<times> recovery_observation_result" where
  "observe_market s msg active_universe now =
     (if us_version active_universe = 0 \<or> us_version active_universe \<noteq> smr_universe_version msg
      then (s, observation ROC_kSTALE_UNIVERSE 0 0)
      else if iik_origin (smr_incident msg) = IIO_kUNKNOWN \<or> iik_incident_id (smr_incident msg) = 0
      then (s, observation ROC_kINVALID_INCIDENT 0 0)
      else if \<not> valid_targeted_incident_source msg
      then (s, observation ROC_kINVALID_REASON 0 0)
      else (case find_route active_universe (smr_market_id msg) of
        None \<Rightarrow> (s, observation ROC_kUNKNOWN_MARKET 0 0)
      | Some route \<Rightarrow>
      if umr_event_id route \<noteq> smr_event_id msg \<or> umr_shard_index route \<noteq> smr_shard_index msg
      then (s, observation ROC_kROUTE_MISMATCH 0 0)
      else let source_key = (smr_universe_version msg, smr_incident msg)
      in (case um_find (rc_recovery_by_source s) source_key of
        Some rid \<Rightarrow> (s, observation ROC_kDUPLICATE rid 0)
      | None \<Rightarrow>
      (case um_find (rc_active_recovery_by_market s) (smr_market_id msg) of
        Some rid \<Rightarrow> (s, observation ROC_kALREADY_RECOVERING rid 0)
      | None \<Rightarrow>
      if rc_next_recovery_id s = 0 then (s, observation ROC_kRECOVERY_ID_EXHAUSTED 0 0)
      else let rid = rc_next_recovery_id s;
               incident = \<lparr>ris_recovery_id = rid, ris_source = smr_incident msg,
                 ris_universe_version = smr_universe_version msg, ris_sid = smr_sid msg,
                 ris_reason = smr_reason msg,
                 ris_market_recoveries =
                   [new_market_recovery (smr_market_id msg) (smr_event_id msg) (smr_shard_index msg) now],
                 ris_started_at = now, ris_last_progress_at = now\<rparr>;
               (incidents, inserted) = um_emplace rid incident (rc_incidents s)
      in if \<not> inserted then (s, observation ROC_kRECOVERY_ID_EXHAUSTED 0 0)
      else let (sources, source_inserted) = um_emplace source_key rid (rc_recovery_by_source s)
      in if \<not> source_inserted
         then (s\<lparr>rc_incidents := um_erase rid incidents\<rparr>,
               observation ROC_kDUPLICATE (the (um_find sources source_key)) 0)
      else let (active, market_inserted) = um_emplace (smr_market_id msg) rid (rc_active_recovery_by_market s)
      in if \<not> market_inserted
         then (s\<lparr>rc_incidents := um_erase rid incidents, rc_recovery_by_source := um_erase source_key sources\<rparr>,
               observation ROC_kALREADY_RECOVERING (the (um_find active (smr_market_id msg))) 0)
      else (s\<lparr>rc_incidents := incidents, rc_recovery_by_source := sources,
              rc_active_recovery_by_market := active, rc_next_recovery_id := rid + 1\<rparr>,
            observation ROC_kCREATED rid 1)))))"

text \<open>The loop that collects the markets without a recovery: the new market recoveries and the id of the
  first recovery found active.\<close>

primrec collect_unlatched ::
  "(market_id, recovery_id) umap \<Rightarrow> time_ns \<Rightarrow> universe_market_route list \<Rightarrow> recovery_id
   \<Rightarrow> market_recovery_state list \<times> recovery_id" where
  "collect_unlatched active now [] existing = ([], existing)"
| "collect_unlatched active now (route # routes) existing =
     (case um_find active (umr_market_id route) of
        Some rid \<Rightarrow> collect_unlatched active now routes (if existing = 0 then rid else existing)
      | None \<Rightarrow>
          (let (ms, ex) = collect_unlatched active now routes existing
           in (new_market_recovery (umr_market_id route) (umr_event_id route) (umr_shard_index route) now # ms, ex)))"

text \<open>Latching the markets of the incident: the new map, the markets latched, and whether all were.\<close>

primrec latch_markets ::
  "(market_id, recovery_id) umap \<Rightarrow> recovery_id \<Rightarrow> market_id list \<Rightarrow> market_id list
   \<Rightarrow> (market_id, recovery_id) umap \<times> market_id list \<times> bool" where
  "latch_markets active rid [] latched = (active, latched, True)"
| "latch_markets active rid (m # ms) latched =
     (let (active', inserted) = um_emplace m rid active
      in if inserted then latch_markets active' rid ms (latched @ [m]) else (active', latched, False))"

definition observe_subscription ::
  "recovery_coordinator \<Rightarrow> subscription_barrier_delivered \<Rightarrow> universe_snapshot \<Rightarrow> time_ns
   \<Rightarrow> recovery_coordinator \<times> (cpp_exception + recovery_observation_result)" where
  "observe_subscription s msg active_universe now =
     (if us_version active_universe = 0 \<or> us_version active_universe \<noteq> sbd_universe_version msg
      then (s, Inr (observation ROC_kSTALE_UNIVERSE 0 0))
      else if iik_origin (sbd_incident msg) \<noteq> IIO_kWIRE_SESSION \<or> iik_producer_index (sbd_incident msg) \<noteq> 0
          \<or> iik_incident_id (sbd_incident msg) = 0
      then (s, Inr (observation ROC_kINVALID_INCIDENT 0 0))
      else if sbd_reason msg \<noteq> BIR_kEXCHANGE_SEQUENCE_GAP
      then (s, Inr (observation ROC_kINVALID_REASON 0 0))
      else let source_key = (sbd_universe_version msg, sbd_incident msg)
      in case um_find (rc_recovery_by_source s) source_key of
        Some rid \<Rightarrow> (s, Inr (observation ROC_kDUPLICATE rid 0))
      | None \<Rightarrow>
      if us_market_routes active_universe = [] then (s, Inr (observation ROC_kUNKNOWN_MARKET 0 0))
      else if rc_next_recovery_id s = 0 then (s, Inr (observation ROC_kRECOVERY_ID_EXHAUSTED 0 0))
      else let (market_recoveries, existing) =
                 collect_unlatched (rc_active_recovery_by_market s) now (us_market_routes active_universe) 0
      in if market_recoveries = [] then (s, Inr (observation ROC_kALREADY_RECOVERING existing 0))
      else let rid = rc_next_recovery_id s;
               incident = \<lparr>ris_recovery_id = rid, ris_source = sbd_incident msg,
                 ris_universe_version = sbd_universe_version msg, ris_sid = sbd_sid msg,
                 ris_reason = sbd_reason msg, ris_market_recoveries = market_recoveries,
                 ris_started_at = now, ris_last_progress_at = now\<rparr>;
               (incidents, inserted) = um_emplace rid incident (rc_incidents s)
      in if \<not> inserted then (s, Inr (observation ROC_kRECOVERY_ID_EXHAUSTED 0 0))
      else let (sources, source_inserted) = um_emplace source_key rid (rc_recovery_by_source s)
      in if \<not> source_inserted
         then (s\<lparr>rc_incidents := um_erase rid incidents\<rparr>,
               Inr (observation ROC_kDUPLICATE (the (um_find sources source_key)) 0))
      else let (active, latched, all_latched) =
                 latch_markets (rc_active_recovery_by_market s) rid (map mrs_market_id market_recoveries) []
      in if \<not> all_latched
         then (s\<lparr>rc_incidents := um_erase rid incidents, rc_recovery_by_source := um_erase source_key sources,
                 rc_active_recovery_by_market := fold um_erase latched active\<rparr>,
               Inl (logic_error ''Market recovery latch changed during subscription recovery creation''))
      else (s\<lparr>rc_incidents := incidents, rc_recovery_by_source := sources,
              rc_active_recovery_by_market := active, rc_next_recovery_id := rid + 1\<rparr>,
            Inr (observation ROC_kCREATED rid (length market_recoveries))))"

section \<open>Commands\<close>

definition market_ready :: "time_ns \<Rightarrow> market_recovery_state \<Rightarrow> bool" where
  "market_ready now m \<longleftrightarrow> mrs_phase m = MRP_kPENDING_REQUEST \<and> \<not> mrs_next_attempt_time m > now
     \<and> mrs_attempts_sent m \<noteq> u32_max"

definition recover_command :: "recovery_incident_state \<Rightarrow> market_recovery_state \<Rightarrow> recover_market_io" where
  "recover_command incident market =
     \<lparr>rmi_recovery_id = ris_recovery_id incident, rmi_universe_version = ris_universe_version incident,
      rmi_market_id = mrs_market_id market, rmi_request_attempt = mrs_attempts_sent market + 1\<rparr>"

type_synonym selection = "(recovery_incident_state \<times> market_recovery_state) option"

definition select_market ::
  "time_ns \<Rightarrow> recovery_id \<Rightarrow> recovery_incident_state \<Rightarrow> market_recovery_state \<Rightarrow> selection \<Rightarrow> selection" where
  "select_market now rid incident market selected =
     (if \<not> market_ready now market then selected
      else case selected of
        None \<Rightarrow> Some (incident, market)
      | Some (incident0, market0) \<Rightarrow>
          if rid < ris_recovery_id incident0
             \<or> (rid = ris_recovery_id incident0 \<and> mrs_market_id market < mrs_market_id market0)
          then Some (incident, market) else selected)"

definition next_pending_command :: "recovery_coordinator \<Rightarrow> time_ns \<Rightarrow> recover_market_io option" where
  "next_pending_command s now =
     map_option (\<lambda>(incident, market). recover_command incident market)
       (fold (\<lambda>(rid, incident). fold (select_market now rid incident) (ris_market_recoveries incident))
          (rc_incidents s) None)"

definition select_incident ::
  "time_ns \<Rightarrow> recovery_id \<times> recovery_incident_state \<Rightarrow> recovery_incident_state option \<Rightarrow> recovery_incident_state option" where
  "select_incident now entry selected =
     (if list_ex (market_ready now) (ris_market_recoveries (snd entry))
         \<and> (case selected of None \<Rightarrow> True | Some inc0 \<Rightarrow> fst entry < ris_recovery_id inc0)
      then Some (snd entry) else selected)"

definition next_pending_commands :: "recovery_coordinator \<Rightarrow> time_ns \<Rightarrow> nat \<Rightarrow> recover_market_io list" where
  "next_pending_commands s now maximum_commands =
     (if maximum_commands = 0 then []
      else case fold (select_incident now) (rc_incidents s) None of
        None \<Rightarrow> []
      | Some incident \<Rightarrow>
          take maximum_commands
            (sort_key rmi_market_id
              (map (recover_command incident) (filter (market_ready now) (ris_market_recoveries incident)))))"

text \<open>An update of the first market recovery with a given market id (the iterator of \<open>find_if\<close>).\<close>

primrec update_market ::
  "market_id \<Rightarrow> (market_recovery_state \<Rightarrow> market_recovery_state) \<Rightarrow> market_recovery_state list \<Rightarrow> market_recovery_state list" where
  "update_market mid f [] = []"
| "update_market mid f (m # ms) = (if mrs_market_id m = mid then f m # ms else m # update_market mid f ms)"

definition find_market :: "recovery_incident_state \<Rightarrow> market_id \<Rightarrow> market_recovery_state option" where
  "find_market incident mid = find (\<lambda>m. mrs_market_id m = mid) (ris_market_recoveries incident)"

definition store_market ::
  "recovery_coordinator \<Rightarrow> recovery_id \<Rightarrow> recovery_incident_state \<Rightarrow> time_ns \<Rightarrow> market_id
   \<Rightarrow> (market_recovery_state \<Rightarrow> market_recovery_state) \<Rightarrow> recovery_coordinator" where
  "store_market s rid incident now mid f =
     s\<lparr>rc_incidents := um_assign rid
         (incident\<lparr>ris_market_recoveries := update_market mid f (ris_market_recoveries incident),
                   ris_last_progress_at := now\<rparr>) (rc_incidents s)\<rparr>"

definition mark_command_enqueued ::
  "recovery_coordinator \<Rightarrow> recover_market_io \<Rightarrow> time_ns \<Rightarrow> recovery_coordinator \<times> bool" where
  "mark_command_enqueued s command now =
     (case um_find (rc_incidents s) (rmi_recovery_id command) of
        None \<Rightarrow> (s, False)
      | Some incident \<Rightarrow>
      if rmi_universe_version command \<noteq> ris_universe_version incident then (s, False)
      else (case find_market incident (rmi_market_id command) of
        None \<Rightarrow> (s, False)
      | Some market \<Rightarrow>
      if um_find (rc_active_recovery_by_market s) (rmi_market_id command) \<noteq> Some (rmi_recovery_id command)
      then (s, False)
      else if mrs_phase market \<noteq> MRP_kPENDING_REQUEST \<or> mrs_next_attempt_time market > now
          \<or> mrs_attempts_sent market = u32_max \<or> rmi_request_attempt command \<noteq> mrs_attempts_sent market + 1
      then (s, False)
      else (store_market s (rmi_recovery_id command) incident now (rmi_market_id command)
              (\<lambda>m. m\<lparr>mrs_attempts_sent := rmi_request_attempt command,
                     mrs_phase := MRP_kREQUEST_ENQUEUED, mrs_last_attempt_time := now\<rparr>), True)))"

section \<open>Facts\<close>

definition fact_result ::
  "recovery_fact_disposition \<Rightarrow> recovery_fact_effect \<Rightarrow> recovery_id \<Rightarrow> market_id \<Rightarrow> recovery_fact_result" where
  "fact_result d e rid mid = \<lparr>rfr_disposition = d, rfr_effect = e, rfr_recovery_id = rid,
     rfr_market_id = mid, rfr_incident_completed = False, rfr_recovery_duration = 0\<rparr>"

definition handle_request_accepted ::
  "recovery_coordinator \<Rightarrow> io_recovery_request_accepted \<Rightarrow> time_ns \<Rightarrow> recovery_coordinator \<times> recovery_fact_result" where
  "handle_request_accepted s msg now =
     (let rid = ira_recovery_id msg; mid = ira_market_id msg;
          rejected = (s, fact_result RFD_kREJECTED RFE_kNONE rid mid);
          ignored = (s, fact_result RFD_kIGNORED RFE_kNONE rid mid)
      in case um_find (rc_incidents s) rid of
        None \<Rightarrow> rejected
      | Some incident \<Rightarrow>
      if ira_universe_version msg \<noteq> ris_universe_version incident then rejected
      else (case find_market incident mid of
        None \<Rightarrow> rejected
      | Some market \<Rightarrow>
      if ira_request_attempt msg < mrs_attempts_sent market then ignored
      else if ira_request_attempt msg > mrs_attempts_sent market then rejected
      else if um_find (rc_active_recovery_by_market s) mid \<noteq> Some rid then ignored
      else if mrs_phase market \<noteq> MRP_kREQUEST_ENQUEUED then ignored
      else (store_market s rid incident now mid
              (\<lambda>m. m\<lparr>mrs_phase := MRP_kREQUEST_ACCEPTED, mrs_last_attempt_time := now\<rparr>),
            fact_result RFD_kAPPLIED RFE_kREQUEST_ACCEPTED rid mid)))"

definition handle_request_failed ::
  "recovery_coordinator \<Rightarrow> io_recovery_request_failed \<Rightarrow> time_ns \<Rightarrow> recovery_coordinator \<times> recovery_fact_result" where
  "handle_request_failed s msg now =
     (let rid = irf_recovery_id msg; mid = irf_market_id msg;
          rejected = (s, fact_result RFD_kREJECTED RFE_kNONE rid mid);
          ignored = (s, fact_result RFD_kIGNORED RFE_kNONE rid mid)
      in case um_find (rc_incidents s) rid of
        None \<Rightarrow> rejected
      | Some incident \<Rightarrow>
      if irf_universe_version msg \<noteq> ris_universe_version incident then rejected
      else (case find_market incident mid of
        None \<Rightarrow> rejected
      | Some market \<Rightarrow>
      if irf_request_attempt msg < mrs_attempts_sent market then ignored
      else if irf_request_attempt msg > mrs_attempts_sent market then rejected
      else if um_find (rc_active_recovery_by_market s) mid \<noteq> Some rid then ignored
      else if mrs_phase market \<noteq> MRP_kREQUEST_ENQUEUED \<and> mrs_phase market \<noteq> MRP_kREQUEST_ACCEPTED then ignored
      else if mrs_attempts_sent market \<ge> rcc_max_attempts (rc_config s)
      then (store_market s rid incident now mid (\<lambda>m. m\<lparr>mrs_phase := MRP_kFAILED\<rparr>),
            fact_result RFD_kAPPLIED RFE_kMARKET_FAILED rid mid)
      else (store_market s rid incident now mid
              (\<lambda>m. m\<lparr>mrs_phase := MRP_kPENDING_REQUEST,
                     mrs_next_attempt_time := now + millis (retry_backoff (rc_config s) (mrs_attempts_sent market))\<rparr>),
            fact_result RFD_kAPPLIED RFE_kRETRY_SCHEDULED rid mid)))"

definition finished :: "market_recovery_phase \<Rightarrow> bool" where
  "finished p \<longleftrightarrow> p = MRP_kSNAPSHOT_APPLIED \<or> p = MRP_kSUPERSEDED"

definition handle_snapshot_applied ::
  "recovery_coordinator \<Rightarrow> shard_recovery_snapshot_applied \<Rightarrow> universe_snapshot \<Rightarrow> time_ns
   \<Rightarrow> recovery_coordinator \<times> recovery_fact_result" where
  "handle_snapshot_applied s msg active_universe now =
     (let rid = srs_recovery_id msg; mid = srs_market_id msg;
          rejected = (s, fact_result RFD_kREJECTED RFE_kNONE rid mid);
          ignored = (s, fact_result RFD_kIGNORED RFE_kNONE rid mid)
      in if us_version active_universe = 0 \<or> srs_universe_version msg \<noteq> us_version active_universe then ignored
      else case um_find (rc_incidents s) rid of
        None \<Rightarrow> rejected
      | Some incident \<Rightarrow>
      if srs_universe_version msg \<noteq> ris_universe_version incident then rejected
      else (case find_market incident mid of
        None \<Rightarrow> rejected
      | Some market \<Rightarrow>
      (case find_route active_universe mid of
        None \<Rightarrow> rejected
      | Some route \<Rightarrow>
      if umr_shard_index route \<noteq> srs_shard_index msg \<or> umr_shard_index route \<noteq> mrs_shard_index market
          \<or> umr_event_id route \<noteq> mrs_event_id market then rejected
      else if um_find (rc_active_recovery_by_market s) mid \<noteq> Some rid then ignored
      else if finished (mrs_phase market) then ignored
      else if mrs_phase market = MRP_kPENDING_REQUEST \<and> mrs_attempts_sent market = 0 then rejected
      else if srs_transition msg \<noteq> BST_kRECOVERED \<and> srs_transition msg \<noteq> BST_kNONE then rejected
      else let s1 = store_market s rid incident now mid (\<lambda>m. m\<lparr>mrs_phase := MRP_kSNAPSHOT_APPLIED\<rparr>);
               s2 = s1\<lparr>rc_active_recovery_by_market := um_erase mid (rc_active_recovery_by_market s1)\<rparr>;
               markets = update_market mid (\<lambda>m. m\<lparr>mrs_phase := MRP_kSNAPSHOT_APPLIED\<rparr>)
                           (ris_market_recoveries incident);
               completed = list_all (\<lambda>candidate. finished (mrs_phase candidate)) markets
           in (s2, (fact_result RFD_kAPPLIED RFE_kMARKET_RECOVERED rid mid)
                     \<lparr>rfr_incident_completed := completed,
                      rfr_recovery_duration := (if completed then now - ris_started_at incident else 0)\<rparr>))))"

section \<open>Timeouts\<close>

definition expire_market ::
  "recovery_coordinator_config \<Rightarrow> (market_id, recovery_id) umap \<Rightarrow> recovery_id \<Rightarrow> time_ns
   \<Rightarrow> market_recovery_state \<Rightarrow> recovery_timeout_summary \<Rightarrow> market_recovery_state \<times> bool \<times> recovery_timeout_summary" where
  "expire_market config active rid now market summary =
     (let go = (\<lambda>timeout.
        if now < mrs_last_attempt_time market + millis timeout then (market, False, summary)
        else if um_find active (mrs_market_id market) \<noteq> Some rid then (market, False, summary)
        else let summary1 = (if mrs_phase market = MRP_kREQUEST_ENQUEUED
                             then summary\<lparr>rts_request_ack_timeouts := Suc (rts_request_ack_timeouts summary)\<rparr>
                             else summary\<lparr>rts_snapshot_timeouts := Suc (rts_snapshot_timeouts summary)\<rparr>)
             in if mrs_attempts_sent market \<ge> rcc_max_attempts config
                then (market\<lparr>mrs_phase := MRP_kFAILED\<rparr>, True,
                      summary1\<lparr>rts_markets_failed := Suc (rts_markets_failed summary1)\<rparr>)
                else (market\<lparr>mrs_phase := MRP_kPENDING_REQUEST,
                             mrs_next_attempt_time := now + millis (retry_backoff config (mrs_attempts_sent market))\<rparr>, True,
                      summary1\<lparr>rts_retries_scheduled := Suc (rts_retries_scheduled summary1)\<rparr>))
      in case mrs_phase market of
           MRP_kREQUEST_ENQUEUED \<Rightarrow> go (rcc_request_ack_timeout config)
         | MRP_kREQUEST_ACCEPTED \<Rightarrow> go (rcc_snapshot_timeout config)
         | _ \<Rightarrow> (market, False, summary))"

primrec expire_markets ::
  "recovery_coordinator_config \<Rightarrow> (market_id, recovery_id) umap \<Rightarrow> recovery_id \<Rightarrow> time_ns
   \<Rightarrow> market_recovery_state list \<Rightarrow> recovery_timeout_summary
   \<Rightarrow> market_recovery_state list \<times> bool \<times> recovery_timeout_summary" where
  "expire_markets config active rid now [] summary = ([], False, summary)"
| "expire_markets config active rid now (m # ms) summary =
     (let (m', p, summary1) = expire_market config active rid now m summary;
          (ms', q, summary2) = expire_markets config active rid now ms summary1
      in (m' # ms', p \<or> q, summary2))"

primrec expire_incidents ::
  "recovery_coordinator_config \<Rightarrow> (market_id, recovery_id) umap \<Rightarrow> time_ns
   \<Rightarrow> (recovery_id, recovery_incident_state) umap \<Rightarrow> recovery_timeout_summary
   \<Rightarrow> (recovery_id, recovery_incident_state) umap \<times> recovery_timeout_summary" where
  "expire_incidents config active now [] summary = ([], summary)"
| "expire_incidents config active now (entry # rest) summary =
     (let (rid, incident) = entry;
          (markets, progress, summary1) =
            expire_markets config active rid now (ris_market_recoveries incident) summary;
          incident' = incident\<lparr>ris_market_recoveries := markets,
                        ris_last_progress_at := (if progress then now else ris_last_progress_at incident)\<rparr>;
          (rest', summary2) = expire_incidents config active now rest summary1
      in ((rid, incident') # rest', summary2))"

definition expire_timeouts :: "recovery_coordinator \<Rightarrow> time_ns \<Rightarrow> recovery_coordinator \<times> recovery_timeout_summary" where
  "expire_timeouts s now =
     (let (incidents, summary) = expire_incidents (rc_config s) (rc_active_recovery_by_market s) now (rc_incidents s)
            \<lparr>rts_request_ack_timeouts = 0, rts_snapshot_timeouts = 0, rts_retries_scheduled = 0, rts_markets_failed = 0\<rparr>
      in (s\<lparr>rc_incidents := incidents\<rparr>, summary))"

section \<open>Supersession\<close>

type_synonym latches = "(market_id, recovery_id) umap"

primrec supersede_markets ::
  "recovery_id \<Rightarrow> market_recovery_state list \<Rightarrow> latches \<Rightarrow> recovery_supersession_summary
   \<Rightarrow> market_recovery_state list \<times> latches \<times> bool \<times> recovery_supersession_summary" where
  "supersede_markets rid [] active summary = ([], active, False, summary)"
| "supersede_markets rid (m # ms) active summary =
     (let latched = (um_find active (mrs_market_id m) = Some rid);
          active1 = (if latched then um_erase (mrs_market_id m) active else active);
          summary1 = (if latched then summary\<lparr>rss_active_latches_released := Suc (rss_active_latches_released summary)\<rparr>
                      else summary);
          unfinished = (\<not> finished (mrs_phase m));
          m1 = (if unfinished then m\<lparr>mrs_phase := MRP_kSUPERSEDED\<rparr> else m);
          summary2 = (if unfinished then summary1\<lparr>rss_markets_superseded := Suc (rss_markets_superseded summary1)\<rparr>
                      else summary1);
          (ms', active2, changed, summary3) = supersede_markets rid ms active1 summary2
      in (m1 # ms', active2, latched \<or> unfinished \<or> changed, summary3))"

primrec supersede_incidents ::
  "u64 \<Rightarrow> time_ns \<Rightarrow> (recovery_id, recovery_incident_state) umap \<Rightarrow> latches \<Rightarrow> recovery_supersession_summary
   \<Rightarrow> (recovery_id, recovery_incident_state) umap \<times> latches \<times> recovery_supersession_summary" where
  "supersede_incidents v now [] active summary = ([], active, summary)"
| "supersede_incidents v now (entry # rest) active summary =
     (let (rid, incident) = entry
      in if ris_universe_version incident = v
         then let (rest', active', summary') = supersede_incidents v now rest active summary
              in (entry # rest', active', summary')
         else let (markets, active1, changed, summary1) =
                    supersede_markets rid (ris_market_recoveries incident) active summary;
                  incident1 = incident\<lparr>ris_market_recoveries := markets,
                    ris_last_progress_at := (if changed then now else ris_last_progress_at incident)\<rparr>;
                  summary2 = (if changed then summary1\<lparr>rss_incidents_superseded := Suc (rss_incidents_superseded summary1)\<rparr>
                              else summary1);
                  (rest', active', summary') = supersede_incidents v now rest active1 summary2
              in ((rid, incident1) # rest', active', summary'))"

definition supersede_before_universe ::
  "recovery_coordinator \<Rightarrow> u64 \<Rightarrow> time_ns \<Rightarrow> recovery_coordinator \<times> recovery_supersession_summary" where
  "supersede_before_universe s new_universe_version now =
     (let empty = \<lparr>rss_incidents_superseded = 0, rss_markets_superseded = 0, rss_active_latches_released = 0\<rparr>
      in if new_universe_version = 0 then (s, empty)
         else let (incidents, active, summary) =
                    supersede_incidents new_universe_version now (rc_incidents s) (rc_active_recovery_by_market s) empty
              in (s\<lparr>rc_incidents := incidents, rc_active_recovery_by_market := active\<rparr>, summary))"

section \<open>Counts\<close>

definition active_market_count :: "recovery_coordinator \<Rightarrow> nat" where
  "active_market_count s = length (rc_active_recovery_by_market s)"

definition incident_active :: "latches \<Rightarrow> recovery_id \<times> recovery_incident_state \<Rightarrow> bool" where
  "incident_active active entry \<longleftrightarrow>
     list_ex (\<lambda>m. um_find active (mrs_market_id m) = Some (fst entry)) (ris_market_recoveries (snd entry))"

definition active_incident_count :: "recovery_coordinator \<Rightarrow> nat" where
  "active_incident_count s = length (filter (incident_active (rc_active_recovery_by_market s)) (rc_incidents s))"

section \<open>The invariant\<close>

definition attempt_limit :: "recovery_coordinator_config \<Rightarrow> nat" where
  "attempt_limit config = max 1 (unat (rcc_max_attempts config))"

definition market_recovery_ok :: "recovery_coordinator_config \<Rightarrow> market_recovery_state \<Rightarrow> bool" where
  "market_recovery_ok config m \<longleftrightarrow> unat (mrs_attempts_sent m) \<le> attempt_limit config
     \<and> (mrs_phase m = MRP_kPENDING_REQUEST \<longrightarrow> unat (mrs_attempts_sent m) < attempt_limit config)
     \<and> (mrs_phase m \<noteq> MRP_kPENDING_REQUEST \<and> mrs_phase m \<noteq> MRP_kSUPERSEDED \<longrightarrow> mrs_attempts_sent m \<noteq> 0)"

definition incident_ok ::
  "recovery_id \<Rightarrow> recovery_coordinator_config \<Rightarrow> latches \<Rightarrow> recovery_id \<Rightarrow> recovery_incident_state \<Rightarrow> bool" where
  "incident_ok next config active rid inc \<longleftrightarrow> ris_recovery_id inc = rid \<and> rid \<noteq> 0 \<and> (next = 0 \<or> rid < next)
     \<and> distinct (map mrs_market_id (ris_market_recoveries inc))
     \<and> (\<forall>m \<in> set (ris_market_recoveries inc). market_recovery_ok config m
          \<and> (\<not> finished (mrs_phase m) \<longleftrightarrow> um_find active (mrs_market_id m) = Some rid))"

definition rc_inv :: "recovery_coordinator \<Rightarrow> bool" where
  "rc_inv s \<longleftrightarrow> um_wf (rc_incidents s) \<and> um_wf (rc_recovery_by_source s) \<and> um_wf (rc_active_recovery_by_market s)
     \<and> (\<forall>rid inc. um_find (rc_incidents s) rid = Some inc \<longrightarrow>
          incident_ok (rc_next_recovery_id s) (rc_config s) (rc_active_recovery_by_market s) rid inc)
     \<and> (\<forall>m rid. um_find (rc_active_recovery_by_market s) m = Some rid \<longrightarrow>
          (\<exists>inc. um_find (rc_incidents s) rid = Some inc \<and> m \<in> mrs_market_id ` set (ris_market_recoveries inc)))"

lemma rc_invD:
  assumes "rc_inv s"
  shows "um_wf (rc_incidents s)" "um_wf (rc_recovery_by_source s)" "um_wf (rc_active_recovery_by_market s)"
    and "um_find (rc_incidents s) rid = Some inc \<Longrightarrow>
      incident_ok (rc_next_recovery_id s) (rc_config s) (rc_active_recovery_by_market s) rid inc"
    and "um_find (rc_active_recovery_by_market s) m = Some rid \<Longrightarrow>
      \<exists>inc. um_find (rc_incidents s) rid = Some inc \<and> m \<in> mrs_market_id ` set (ris_market_recoveries inc)"
  using assms by (auto simp: rc_inv_def)

lemma rc_invI:
  assumes "um_wf (rc_incidents s)" "um_wf (rc_recovery_by_source s)" "um_wf (rc_active_recovery_by_market s)"
    and "\<And>rid inc. um_find (rc_incidents s) rid = Some inc \<Longrightarrow>
      incident_ok (rc_next_recovery_id s) (rc_config s) (rc_active_recovery_by_market s) rid inc"
    and "\<And>m rid. um_find (rc_active_recovery_by_market s) m = Some rid \<Longrightarrow>
      \<exists>inc. um_find (rc_incidents s) rid = Some inc \<and> m \<in> mrs_market_id ` set (ris_market_recoveries inc)"
  shows "rc_inv s"
  using assms by (auto simp: rc_inv_def)

subsection \<open>Updating one market\<close>

lemma update_market_map:
  "distinct (map mrs_market_id xs) \<Longrightarrow>
   update_market mid f xs = map (\<lambda>m. if mrs_market_id m = mid then f m else m) xs"
proof (induction xs)
  case Nil
  then show ?case by simp
next
  case (Cons x xs)
  have "map (\<lambda>m. if mrs_market_id m = mid then f m else m) xs = xs" if "mrs_market_id x = mid"
    using Cons.prems that by (intro map_idI) (auto, metis imageI)
  with Cons show ?case by auto
qed

lemma find_market_Some:
  "find_market inc mid = Some m \<Longrightarrow> m \<in> set (ris_market_recoveries inc) \<and> mrs_market_id m = mid"
  by (auto simp: find_market_def find_Some_iff)

lemma distinct_market_unique:
  assumes "distinct (map mrs_market_id xs)" "x \<in> set xs" "y \<in> set xs" "mrs_market_id x = mrs_market_id y"
  shows "x = y"
  using assms by (metis distinct_map inj_onD)

lemma find_market_eq:
  assumes "distinct (map mrs_market_id (ris_market_recoveries inc))" "m \<in> set (ris_market_recoveries inc)"
  shows "find_market inc (mrs_market_id m) = Some m"
proof (cases "find_market inc (mrs_market_id m)")
  case None
  with assms(2) show ?thesis by (auto simp: find_market_def find_None_iff)
next
  case (Some x)
  with find_market_Some [OF Some] distinct_market_unique [OF assms(1)] assms(2) show ?thesis by auto
qed

text \<open>Assigning a market of an incident and, when its recovery is finished, releasing its latch.\<close>

lemma rc_inv_store_market:
  assumes inv: "rc_inv s" and inc: "um_find (rc_incidents s) rid = Some inc"
    and m: "find_market inc mid = Some m" and latched: "um_find (rc_active_recovery_by_market s) mid = Some rid"
    and f_id: "\<And>x. mrs_market_id (f x) = mrs_market_id x" and f_ok: "market_recovery_ok (rc_config s) (f m)"
    and active: "active = (if finished (mrs_phase (f m)) then um_erase mid (rc_active_recovery_by_market s)
      else rc_active_recovery_by_market s)"
  shows "rc_inv ((store_market s rid inc now mid f)\<lparr>rc_active_recovery_by_market := active\<rparr>)"
proof -
  let ?act = "rc_active_recovery_by_market s"
  note d = rc_invD [OF inv]
  note ok = d(4) [OF inc]
  define inc' where "inc' = inc\<lparr>ris_market_recoveries := update_market mid f (ris_market_recoveries inc),
      ris_last_progress_at := now\<rparr>"
  have dist: "distinct (map mrs_market_id (ris_market_recoveries inc))" using ok by (simp add: incident_ok_def)
  have ms: "ris_market_recoveries inc' = map (\<lambda>x. if mrs_market_id x = mid then f x else x) (ris_market_recoveries inc)"
    by (simp add: inc'_def update_market_map [OF dist])
  then have ids: "map mrs_market_id (ris_market_recoveries inc') = map mrs_market_id (ris_market_recoveries inc)"
    using f_id by simp
  have find_active: "um_find active k = (if k = mid \<and> finished (mrs_phase (f m)) then None else um_find ?act k)" for k
    by (simp add: active um.find_erase)
  have uniq: "x = m" if "x \<in> set (ris_market_recoveries inc)" "mrs_market_id x = mid" for x
    using distinct_market_unique [OF dist that(1)] find_market_Some [OF m] that(2) by auto
  have inc'_ok: "incident_ok (rc_next_recovery_id s) (rc_config s) active rid inc'"
  proof -
    have "market_recovery_ok (rc_config s) y \<and> (\<not> finished (mrs_phase y) \<longleftrightarrow> um_find active (mrs_market_id y) = Some rid)"
      if "y \<in> set (ris_market_recoveries inc')" for y
    proof -
      from that obtain x where x: "x \<in> set (ris_market_recoveries inc)"
          "y = (if mrs_market_id x = mid then f x else x)"
        by (auto simp: ms)
      show ?thesis
      proof (cases "mrs_market_id x = mid")
        case True
        then have "x = m" "y = f m" using uniq x by auto
        with True show ?thesis using f_ok f_id latched find_active by auto
      next
        case False
        with x ok show ?thesis by (auto simp: incident_ok_def find_active)
      qed
    qed
    with ok show ?thesis by (simp add: incident_ok_def ids) (simp add: inc'_def)
  qed
  show ?thesis
  proof (rule rc_invI, goal_cases)
    case 1
    show ?case using d(1) by (simp add: store_market_def um.wf_assign)
  next
    case 2
    show ?case using d(2) by (simp add: store_market_def)
  next
    case 3
    show ?case using d(3) by (simp add: active um.wf_erase)
  next
    case (4 k i)
    show ?case
    proof (cases "k = rid")
      case True
      with 4 have "i = inc'" by (simp add: store_market_def um.find_assign flip: inc'_def)
      with True inc'_ok show ?thesis by (simp add: store_market_def)
    next
      case False
      with 4 have "um_find (rc_incidents s) k = Some i" by (simp add: store_market_def um.find_assign)
      then have "incident_ok (rc_next_recovery_id s) (rc_config s) ?act k i" by (rule d(4))
      with False latched show ?thesis by (auto simp: incident_ok_def store_market_def find_active)
    qed
  next
    case (5 k r)
    then have "um_find ?act k = Some r" by (auto simp: find_active split: if_splits)
    then obtain i where i: "um_find (rc_incidents s) r = Some i" "k \<in> mrs_market_id ` set (ris_market_recoveries i)"
      using d(5) by blast
    show ?case
    proof (cases "r = rid")
      case True
      then have "i = inc" using i(1) inc by simp
      then have "k \<in> set (map mrs_market_id (ris_market_recoveries inc'))" using i(2) ids by simp
      then show ?thesis using True by (simp add: store_market_def um.find_assign flip: inc'_def)
    next
      case False
      with i show ?thesis by (simp add: store_market_def um.find_assign)
    qed
  qed
qed

lemma rc_inv_store_unfinished:
  assumes "rc_inv s" "um_find (rc_incidents s) rid = Some inc" "find_market inc mid = Some m"
    "um_find (rc_active_recovery_by_market s) mid = Some rid" "\<And>x. mrs_market_id (f x) = mrs_market_id x"
    "market_recovery_ok (rc_config s) (f m)" "\<not> finished (mrs_phase (f m))"
  shows "rc_inv (store_market s rid inc now mid f)"
proof -
  have "(store_market s rid inc now mid f)\<lparr>rc_active_recovery_by_market := rc_active_recovery_by_market s\<rparr>
      = store_market s rid inc now mid f"
    by (simp add: store_market_def)
  then show ?thesis
    using rc_inv_store_market [OF assms(1-6) refl, of now] assms(7) by simp
qed

subsection \<open>The facts preserve the invariant\<close>

lemma attempt_succ_ok:
  assumes "market_recovery_ok config m" and "mrs_phase m = MRP_kPENDING_REQUEST"
  shows "unat (mrs_attempts_sent m + 1) = Suc (unat (mrs_attempts_sent m))"
    and "Suc (unat (mrs_attempts_sent m)) \<le> attempt_limit config" and "mrs_attempts_sent m \<noteq> u32_max"
proof -
  have lt: "unat (mrs_attempts_sent m) < attempt_limit config" using assms by (simp add: market_recovery_ok_def)
  then show "Suc (unat (mrs_attempts_sent m)) \<le> attempt_limit config" by simp
  have "attempt_limit config \<le> 4294967295"
    using unat_u32_less [of "rcc_max_attempts config"] by (simp add: attempt_limit_def)
  with lt have small: "unat (mrs_attempts_sent m) < 4294967295" by linarith
  then show "mrs_attempts_sent m \<noteq> u32_max" by (auto simp: unat_max_word)
  show "unat (mrs_attempts_sent m + 1) = Suc (unat (mrs_attempts_sent m))"
    using small by (subst unat_add_no_wrap) simp_all
qed

lemma inv_market_ok:
  assumes "rc_inv s" "um_find (rc_incidents s) rid = Some inc" "find_market inc mid = Some m"
  shows "market_recovery_ok (rc_config s) m" and "mrs_market_id m = mid"
    and "\<not> finished (mrs_phase m) \<longleftrightarrow> um_find (rc_active_recovery_by_market s) mid = Some rid"
    and "ris_recovery_id inc = rid"
  using rc_invD(4) [OF assms(1,2)] find_market_Some [OF assms(3)] by (auto simp: incident_ok_def)

lemma rc_inv_mark [predex_inv]: "rc_inv s \<Longrightarrow> rc_inv (fst (mark_command_enqueued s c now))"
proof -
  assume inv: "rc_inv s"
  show ?thesis
  proof (cases "snd (mark_command_enqueued s c now)")
    case False
    then have "fst (mark_command_enqueued s c now) = s"
      by (auto simp: mark_command_enqueued_def split: option.splits if_splits)
    with inv show ?thesis by simp
  next
    case True
    then obtain inc m where f: "um_find (rc_incidents s) (rmi_recovery_id c) = Some inc"
        "find_market inc (rmi_market_id c) = Some m"
        "um_find (rc_active_recovery_by_market s) (rmi_market_id c) = Some (rmi_recovery_id c)"
        "mrs_phase m = MRP_kPENDING_REQUEST" "rmi_request_attempt c = mrs_attempts_sent m + 1"
      and eq: "fst (mark_command_enqueued s c now) = store_market s (rmi_recovery_id c) inc now (rmi_market_id c)
        (\<lambda>m. m\<lparr>mrs_attempts_sent := rmi_request_attempt c, mrs_phase := MRP_kREQUEST_ENQUEUED, mrs_last_attempt_time := now\<rparr>)"
      by (auto simp: mark_command_enqueued_def split: option.splits if_splits)
    note succ = attempt_succ_ok [OF inv_market_ok(1) [OF inv f(1,2)] f(4)]
    have "mrs_attempts_sent m + 1 \<noteq> 0" using succ(1) by (metis Zero_not_Suc unsigned_0)
    then show ?thesis unfolding eq using f succ
      by (intro rc_inv_store_unfinished [OF inv f(1,2,3)]) (simp_all add: market_recovery_ok_def finished_def)
  qed
qed

lemma rc_inv_accepted [predex_inv]: "rc_inv s \<Longrightarrow> rc_inv (fst (handle_request_accepted s msg now))"
  unfolding handle_request_accepted_def Let_def
  by (auto split: option.splits dest: inv_market_ok(1)
      intro!: rc_inv_store_unfinished simp: market_recovery_ok_def finished_def)

lemma rc_inv_failed [predex_inv]: "rc_inv s \<Longrightarrow> rc_inv (fst (handle_request_failed s msg now))"
proof -
  assume inv: "rc_inv s"
  have lim: "unat a < attempt_limit c" if "\<not> rcc_max_attempts c \<le> a" for a c
    using that by (auto simp: attempt_limit_def word_le_nat_alt)
  show ?thesis using inv lim
    unfolding handle_request_failed_def Let_def
    by (auto split: option.splits dest: inv_market_ok(1)
        intro!: rc_inv_store_unfinished simp: market_recovery_ok_def finished_def)
qed

lemma rc_inv_snapshot [predex_inv]: "rc_inv s \<Longrightarrow> rc_inv (fst (handle_snapshot_applied s msg u now))"
proof -
  assume inv: "rc_inv s"
  have store: "rc_inv ((store_market s rid inc now mid (\<lambda>m. m\<lparr>mrs_phase := MRP_kSNAPSHOT_APPLIED\<rparr>))
        \<lparr>rc_active_recovery_by_market := um_erase mid (rc_active_recovery_by_market s)\<rparr>)"
    if "um_find (rc_incidents s) rid = Some inc" "find_market inc mid = Some m"
      "um_find (rc_active_recovery_by_market s) mid = Some rid" "\<not> finished (mrs_phase m)"
      "\<not> (mrs_phase m = MRP_kPENDING_REQUEST \<and> mrs_attempts_sent m = 0)" for rid inc mid m
    using that inv_market_ok(1) [OF inv that(1,2)]
    by (intro rc_inv_store_market [OF inv that(1,2,3)])
      (auto simp: market_recovery_ok_def finished_def)
  have act: "rc_active_recovery_by_market (store_market s rid inc now mid f) = rc_active_recovery_by_market s"
    for rid inc mid f by (simp add: store_market_def)
  show ?thesis using inv
    unfolding handle_snapshot_applied_def Let_def
    by (auto split: option.splits intro!: store simp: act)
qed

subsection \<open>Creating an incident\<close>

lemma rc_inv_create:
  assumes inv: "rc_inv s" and rid: "rid = rc_next_recovery_id s" "rid \<noteq> 0"
    and new: "um_find (rc_incidents s) rid = None"
    and inc: "ris_recovery_id inc = rid" "ris_market_recoveries inc = ms" "distinct (map mrs_market_id ms)"
    and ms: "\<And>m. m \<in> set ms \<Longrightarrow> mrs_phase m = MRP_kPENDING_REQUEST \<and> mrs_attempts_sent m = 0"
    and act: "um_wf active"
      "\<And>k. um_find active k = (if k \<in> mrs_market_id ` set ms then Some rid else um_find (rc_active_recovery_by_market s) k)"
    and free: "\<And>m. m \<in> set ms \<Longrightarrow> um_find (rc_active_recovery_by_market s) (mrs_market_id m) = None"
    and src: "um_wf sources"
  shows "rc_inv (s\<lparr>rc_incidents := fst (um_emplace rid inc (rc_incidents s)), rc_recovery_by_source := sources,
    rc_active_recovery_by_market := active, rc_next_recovery_id := rid + 1\<rparr>)"
proof -
  note d = rc_invD [OF inv]
  have find: "um_find (fst (um_emplace rid inc (rc_incidents s))) k = (if k = rid then Some inc else um_find (rc_incidents s) k)" for k
    using new by (simp add: um.find_emplace)
  have lt: "x < rid + 1" if "rid + 1 \<noteq> 0" "x \<le> rid" for x :: recovery_id
    using word_less_succ [OF that(1)] that(2) by (rule order.strict_trans1 [rotated])
  show ?thesis
  proof (rule rc_invI, goal_cases)
    case 1
    show ?case using d(1) by (simp add: um.wf_emplace)
  next
    case 2
    show ?case using src by simp
  next
    case 3
    show ?case using act(1) by simp
  next
    case (4 k i)
    show ?case
    proof (cases "k = rid")
      case True
      with 4 have "i = inc" by (simp add: find)
      with True show ?thesis using rid(2) inc ms act(2) lt
        by (auto simp: incident_ok_def market_recovery_ok_def attempt_limit_def finished_def)
    next
      case False
      with 4 have old: "um_find (rc_incidents s) k = Some i" by (simp add: find)
      note ok = d(4) [OF old]
      have "um_find active (mrs_market_id m) = Some k \<longleftrightarrow> um_find (rc_active_recovery_by_market s) (mrs_market_id m) = Some k"
        for m using free False by (auto simp: act(2))
      moreover have "k \<le> rid" using ok rid by (auto simp: incident_ok_def)
      ultimately show ?thesis using ok lt by (auto simp: incident_ok_def)
    qed
  next
    case (5 k r)
    show ?case
    proof (cases "k \<in> mrs_market_id ` set ms")
      case True
      with 5 have "r = rid" by (simp add: act(2))
      with True inc(2) show ?thesis by (simp add: find)
    next
      case False
      with 5 have "um_find (rc_active_recovery_by_market s) k = Some r" by (simp add: act(2))
      with d(5) obtain i where "um_find (rc_incidents s) r = Some i" "k \<in> mrs_market_id ` set (ris_market_recoveries i)" by blast
      then show ?thesis using new by (auto simp: find)
    qed
  qed
qed

lemma next_id_new: "rc_inv s \<Longrightarrow> rc_next_recovery_id s \<noteq> 0 \<Longrightarrow> um_find (rc_incidents s) (rc_next_recovery_id s) = None"
  by (cases "um_find (rc_incidents s) (rc_next_recovery_id s)") (auto dest!: rc_invD(4) simp: incident_ok_def)

text \<open>Under the invariant the insertions of \<open>observe\<close> cannot fail.\<close>

lemma observe_market_cases:
  assumes inv: "rc_inv s" and o: "observe_market s msg u now = (s', r)"
  obtains (unchanged) "s' = s" "ror_code r \<noteq> ROC_kCREATED"
    | (created) inc where "rc_next_recovery_id s \<noteq> 0"
      "us_version u = smr_universe_version msg"
      "um_find (rc_recovery_by_source s) (smr_universe_version msg, smr_incident msg) = None"
      "um_find (rc_active_recovery_by_market s) (smr_market_id msg) = None"
      "ris_recovery_id inc = rc_next_recovery_id s" "ris_universe_version inc = smr_universe_version msg"
      "ris_market_recoveries inc =
        [new_market_recovery (smr_market_id msg) (smr_event_id msg) (smr_shard_index msg) now]"
      "s' = s\<lparr>rc_incidents := fst (um_emplace (rc_next_recovery_id s) inc (rc_incidents s)),
         rc_recovery_by_source := fst (um_emplace (smr_universe_version msg, smr_incident msg)
           (rc_next_recovery_id s) (rc_recovery_by_source s)),
         rc_active_recovery_by_market := fst (um_emplace (smr_market_id msg) (rc_next_recovery_id s)
           (rc_active_recovery_by_market s)),
         rc_next_recovery_id := rc_next_recovery_id s + 1\<rparr>"
      "r = observation ROC_kCREATED (rc_next_recovery_id s) 1"
proof -
  let ?n = "rc_next_recovery_id s"
  have emp: "um_emplace ?n i (rc_incidents s) = (rc_incidents s @ [(?n, i)], True)" if "?n \<noteq> 0" for i
    using next_id_new [OF inv that] by (simp add: um_emplace_def)
  show thesis
  proof (cases "ror_code r = ROC_kCREATED")
    case False
    have "s' = s" using o False
      by (auto simp: observe_market_def Let_def emp um.emplace_inserted observation_def
          um_emplace_def split: option.splits if_splits prod.splits)
    then show thesis using False by (rule unchanged)
  next
    case True
    let ?key = "(smr_universe_version msg, smr_incident msg)"
    have n: "?n \<noteq> 0" and ver: "us_version u = smr_universe_version msg" "us_version u \<noteq> 0"
      and src: "um_find (rc_recovery_by_source s) ?key = None"
      and act: "um_find (rc_active_recovery_by_market s) (smr_market_id msg) = None"
      and inc: "iik_origin (smr_incident msg) \<noteq> IIO_kUNKNOWN" "iik_incident_id (smr_incident msg) \<noteq> 0"
        "valid_targeted_incident_source msg"
      using o True by (auto simp: observe_market_def observation_def Let_def split: if_splits option.splits)
    obtain route where route: "find_route u (smr_market_id msg) = Some route"
        "umr_event_id route = smr_event_id msg" "umr_shard_index route = smr_shard_index msg"
      using o True by (auto simp: observe_market_def observation_def Let_def split: if_splits option.splits)
    have ins: "um_emplace ?key ?n (rc_recovery_by_source s) = (rc_recovery_by_source s @ [(?key, ?n)], True)"
      "um_emplace (smr_market_id msg) ?n (rc_active_recovery_by_market s)
        = (rc_active_recovery_by_market s @ [(smr_market_id msg, ?n)], True)"
      using src act by (simp_all add: um_emplace_def)
    define i where "i = \<lparr>ris_recovery_id = ?n, ris_source = smr_incident msg,
        ris_universe_version = smr_universe_version msg, ris_sid = smr_sid msg, ris_reason = smr_reason msg,
        ris_market_recoveries =
          [new_market_recovery (smr_market_id msg) (smr_event_id msg) (smr_shard_index msg) now],
        ris_started_at = now, ris_last_progress_at = now\<rparr>"
    have "(s', r) = (s\<lparr>rc_incidents := fst (um_emplace ?n i (rc_incidents s)),
         rc_recovery_by_source := fst (um_emplace ?key ?n (rc_recovery_by_source s)),
         rc_active_recovery_by_market := fst (um_emplace (smr_market_id msg) ?n (rc_active_recovery_by_market s)),
         rc_next_recovery_id := ?n + 1\<rparr>, observation ROC_kCREATED ?n 1)"
      using o n ver src act inc route emp [OF n, of i] ins
      by (simp add: observe_market_def Let_def case_prod_beta i_def [symmetric])
    then show thesis using created [OF n ver(1) src act, of i] by (simp add: i_def)
  qed
qed

lemma collect_unlatched_eq:
  "fst (collect_unlatched active now routes ex) =
     map (\<lambda>r. new_market_recovery (umr_market_id r) (umr_event_id r) (umr_shard_index r) now)
       (filter (\<lambda>r. um_find active (umr_market_id r) = None) routes)"
  by (induction routes arbitrary: ex) (auto simp: case_prod_beta split: option.splits)

lemma um_erase_new: "k \<notin> fst ` set m \<Longrightarrow> um_erase k (m @ (k, v) # n) = m @ um_erase k n"
  by (simp add: um_erase_def AList.delete_eq) (force intro: filter_True)

lemma um_erase_absent: "k \<notin> fst ` set m \<Longrightarrow> um_erase k m = m"
  by (simp add: um_erase_def AList.delete_eq) (force intro: filter_True)

lemma latch_markets_cases:
  assumes "latch_markets active rid ms latched = (active', latched', ok)"
  shows "\<exists>xs. latched' = latched @ xs \<and> distinct xs \<and> (\<forall>x \<in> set xs. x \<notin> fst ` set active)
    \<and> active' = active @ map (\<lambda>x. (x, rid)) xs \<and> (ok \<longrightarrow> xs = ms)
    \<and> (distinct ms \<and> (\<forall>x \<in> set ms. x \<notin> fst ` set active) \<longrightarrow> ok)"
  using assms
proof (induction ms arbitrary: active latched)
  case Nil
  then show ?case by (intro exI [of _ "[]"]) simp
next
  case (Cons m ms)
  show ?case
  proof (cases "m \<in> fst ` set active")
    case True
    then obtain v where "um_find active m = Some v" by (metis um_find_None_iff option.exhaust)
    then have "active' = active \<and> latched' = latched \<and> \<not> ok"
      using Cons.prems by (simp add: um.emplace_old)
    with True show ?thesis by (intro exI [of _ "[]"]) simp
  next
    case False
    then have "um_emplace m rid active = (active @ [(m, rid)], True)"
      by (simp add: um_emplace_def um_find_None_iff [symmetric])
    with Cons.prems have "latch_markets (active @ [(m, rid)]) rid ms (latched @ [m]) = (active', latched', ok)" by simp
    from Cons.IH [OF this] obtain xs where xs: "latched' = (latched @ [m]) @ xs" "distinct xs"
        "\<forall>x \<in> set xs. x \<notin> fst ` set (active @ [(m, rid)])" "active' = (active @ [(m, rid)]) @ map (\<lambda>x. (x, rid)) xs"
        "ok \<longrightarrow> xs = ms" "distinct ms \<and> (\<forall>x \<in> set ms. x \<notin> fst ` set (active @ [(m, rid)])) \<longrightarrow> ok"
      by blast
    then show ?thesis using False by (intro exI [of _ "m # xs"]) auto
  qed
qed

lemma unlatch_all:
  "distinct xs \<Longrightarrow> \<forall>x \<in> set xs. x \<notin> fst ` set active \<Longrightarrow>
   fold um_erase xs (active @ map (\<lambda>x. (x, rid)) xs) = active"
proof (induction xs)
  case Nil
  then show ?case by simp
next
  case (Cons x xs)
  have "um_erase x (active @ map (\<lambda>x. (x, rid)) (x # xs)) = active @ map (\<lambda>x. (x, rid)) xs"
    using Cons.prems um_erase_absent [of x "map (\<lambda>x. (x, rid)) xs"] by (simp add: um_erase_new image_image)
  with Cons show ?case by simp
qed

definition route_distinct :: "universe_snapshot \<Rightarrow> bool" where
  "route_distinct u \<longleftrightarrow> distinct (map umr_market_id (us_market_routes u))"

text \<open>The outcomes of \<open>observe\<close> for a subscription barrier; the exception needs a universe that routes a
  market twice, and restores every map.\<close>

lemma observe_subscription_cases:
  assumes inv: "rc_inv s" and o: "observe_subscription s msg u now = (s', r)"
  obtains (unchanged) x where "s' = s" "r = Inr x" "ror_code x \<noteq> ROC_kCREATED"
    | (thrown) e where "s' = s" "r = Inl e" "\<not> route_distinct u"
    | (created) inc ms where "rc_next_recovery_id s \<noteq> 0" "us_version u = sbd_universe_version msg"
      "um_find (rc_recovery_by_source s) (sbd_universe_version msg, sbd_incident msg) = None"
      "ris_recovery_id inc = rc_next_recovery_id s" "ris_universe_version inc = sbd_universe_version msg"
      "ris_market_recoveries inc = ms"
      "ms = map (\<lambda>r. new_market_recovery (umr_market_id r) (umr_event_id r) (umr_shard_index r) now)
         (filter (\<lambda>r. um_find (rc_active_recovery_by_market s) (umr_market_id r) = None) (us_market_routes u))"
      "distinct (map mrs_market_id ms)"
      "s' = s\<lparr>rc_incidents := fst (um_emplace (rc_next_recovery_id s) inc (rc_incidents s)),
         rc_recovery_by_source := fst (um_emplace (sbd_universe_version msg, sbd_incident msg)
           (rc_next_recovery_id s) (rc_recovery_by_source s)),
         rc_active_recovery_by_market := rc_active_recovery_by_market s
           @ map (\<lambda>x. (x, rc_next_recovery_id s)) (map mrs_market_id ms),
         rc_next_recovery_id := rc_next_recovery_id s + 1\<rparr>"
      "r = Inr (observation ROC_kCREATED (rc_next_recovery_id s) (length ms))"
proof -
  let ?n = "rc_next_recovery_id s" and ?act = "rc_active_recovery_by_market s"
  let ?key = "(sbd_universe_version msg, sbd_incident msg)"
  let ?early = "us_version u = 0 \<or> us_version u \<noteq> sbd_universe_version msg
      \<or> iik_origin (sbd_incident msg) \<noteq> IIO_kWIRE_SESSION \<or> iik_producer_index (sbd_incident msg) \<noteq> 0
      \<or> iik_incident_id (sbd_incident msg) = 0 \<or> sbd_reason msg \<noteq> BIR_kEXCHANGE_SEQUENCE_GAP
      \<or> um_find (rc_recovery_by_source s) ?key \<noteq> None \<or> us_market_routes u = [] \<or> ?n = 0
      \<or> fst (collect_unlatched ?act now (us_market_routes u) 0) = []"
  show thesis
  proof (cases ?early)
    case True
    then show thesis using o unchanged
      by (auto simp: observe_subscription_def observation_def Let_def case_prod_beta
          split: if_splits option.splits)
  next
    case False
    then have n: "?n \<noteq> 0" and key: "um_find (rc_recovery_by_source s) ?key = None"
      and ver: "us_version u = sbd_universe_version msg" by auto
    define mks where "mks = fst (collect_unlatched ?act now (us_market_routes u) 0)"
    define inc where "inc = \<lparr>ris_recovery_id = ?n, ris_source = sbd_incident msg,
        ris_universe_version = sbd_universe_version msg, ris_sid = sbd_sid msg, ris_reason = BIR_kEXCHANGE_SEQUENCE_GAP,
        ris_market_recoveries = mks, ris_started_at = now, ris_last_progress_at = now\<rparr>"
    have emp: "um_emplace ?n inc (rc_incidents s) = (rc_incidents s @ [(?n, inc)], True)"
      "um_emplace ?key ?n (rc_recovery_by_source s) = (rc_recovery_by_source s @ [(?key, ?n)], True)"
      using next_id_new [OF inv n] key by (simp_all add: um_emplace_def)
    have undo: "um_erase ?n (rc_incidents s @ [(?n, inc)]) = rc_incidents s"
      "um_erase ?key (rc_recovery_by_source s @ [(?key, ?n)]) = rc_recovery_by_source s"
      using next_id_new [OF inv n] key by (simp_all add: um_find_None_iff um_erase_new) (simp_all add: um_erase_def)
    obtain active latched ok where l: "latch_markets ?act ?n (map mrs_market_id mks) [] = (active, latched, ok)"
      using prod_cases3 by blast
    obtain xs where xs: "latched = xs" "distinct xs" "\<forall>x \<in> set xs. x \<notin> fst ` set ?act"
        "active = ?act @ map (\<lambda>x. (x, ?n)) xs" "ok \<longrightarrow> xs = map mrs_market_id mks"
        "distinct (map mrs_market_id mks) \<and> (\<forall>x \<in> set (map mrs_market_id mks). x \<notin> fst ` set ?act) \<longrightarrow> ok"
      using latch_markets_cases [OF l] by auto
    have mks: "mks = map (\<lambda>r. new_market_recovery (umr_market_id r) (umr_event_id r) (umr_shard_index r) now)
         (filter (\<lambda>r. um_find ?act (umr_market_id r) = None) (us_market_routes u))"
      unfolding mks_def by (rule collect_unlatched_eq)
    have body: "(s', r) = (if \<not> ok then (s, Inl (logic_error ''Market recovery latch changed during subscription recovery creation''))
        else (s\<lparr>rc_incidents := rc_incidents s @ [(?n, inc)], rc_recovery_by_source := rc_recovery_by_source s @ [(?key, ?n)],
              rc_active_recovery_by_market := active, rc_next_recovery_id := ?n + 1\<rparr>,
            Inr (observation ROC_kCREATED ?n (length mks))))"
      using o False l emp undo unlatch_all [OF xs(2,3), of ?n] xs(1,4)
      by (cases ok; simp add: observe_subscription_def Let_def case_prod_beta mks_def [symmetric] inc_def [symmetric])
    show thesis
    proof (cases ok)
      case True
      then have "active = ?act @ map (\<lambda>x. (x, ?n)) (map mrs_market_id mks)" "distinct (map mrs_market_id mks)"
        using xs by auto
      then show thesis using True body created [OF n ver key _ _ _ mks, of inc] emp
        by (simp add: inc_def)
    next
      case False
      have "\<not> route_distinct u"
      proof
        assume "route_distinct u"
        then have "distinct (map umr_market_id (filter (\<lambda>r. um_find ?act (umr_market_id r) = None) (us_market_routes u)))"
          unfolding route_distinct_def by (rule distinct_map_filter)
        then have "distinct (map mrs_market_id mks)"
          unfolding mks by (simp add: comp_def new_market_recovery_def)
        moreover have "\<forall>x \<in> set (map mrs_market_id mks). x \<notin> fst ` set ?act"
          unfolding mks by (auto simp: new_market_recovery_def um_find_None_iff)
        ultimately show False using False xs(6) by blast
      qed
      with False body show thesis by (intro thrown) auto
    qed
  qed
qed

lemma new_market_recovery_simps [simp]:
  "mrs_market_id (new_market_recovery a b c d) = a" "mrs_phase (new_market_recovery a b c d) = MRP_kPENDING_REQUEST"
  "mrs_attempts_sent (new_market_recovery a b c d) = 0"
  by (simp_all add: new_market_recovery_def)

lemma rc_inv_observe_market [predex_inv]: "rc_inv s \<Longrightarrow> rc_inv (fst (observe_market s msg u now))"
proof -
  assume inv: "rc_inv s"
  obtain s' r where o: "observe_market s msg u now = (s', r)" by fastforce
  from inv o have "rc_inv s'"
  proof (cases rule: observe_market_cases)
    case unchanged
    with inv show ?thesis by simp
  next
    case (created inc)
    note new = next_id_new [OF inv created(1)]
    show ?thesis unfolding created(8)
      by (rule rc_inv_create [OF inv refl created(1) new created(5,7)])
        (use created(4) rc_invD(2,3) [OF inv] in \<open>auto simp: um.wf_emplace um.find_emplace\<close>)
  qed
  with o show ?thesis by simp
qed

lemma rc_inv_observe_subscription [predex_inv]: "rc_inv s \<Longrightarrow> rc_inv (fst (observe_subscription s msg u now))"
proof -
  assume inv: "rc_inv s"
  obtain s' r where o: "observe_subscription s msg u now = (s', r)" by fastforce
  from inv o have "rc_inv s'"
  proof (cases rule: observe_subscription_cases)
    case unchanged
    with inv show ?thesis by simp
  next
    case thrown
    with inv show ?thesis by simp
  next
    case (created inc mks)
    note new = next_id_new [OF inv created(1)]
    let ?act = "rc_active_recovery_by_market s" and ?ids = "map mrs_market_id mks"
    have free: "um_find ?act (mrs_market_id m) = None" if "m \<in> set mks" for m
      using that created(7) by auto
    have disj: "fst ` set ?act \<inter> set ?ids = {}" using free unfolding um_find_None_iff by (auto simp del: image_iff) (metis fst_conv image_eqI)
    have find: "um_find (?act @ map (\<lambda>x. (x, n)) ?ids) k = (if k \<in> set ?ids then Some n else um_find ?act k)" for k n
      unfolding um_find_append um_find_const using free by (auto split: option.splits)
    have wf: "um_wf (?act @ map (\<lambda>x. (x, n)) ?ids)" for n
      using rc_invD(3) [OF inv] created(8) disj by (simp add: um_wf_def comp_def)
    have idle: "mrs_phase m = MRP_kPENDING_REQUEST \<and> mrs_attempts_sent m = 0" if "m \<in> set mks" for m
      using that created(7) by auto
    show ?thesis unfolding created(9)
      by (rule rc_inv_create [OF inv refl created(1) new created(4,6,8) idle wf])
        (use find free rc_invD(2) [OF inv] in \<open>auto simp: um.wf_emplace\<close>)
  qed
  with o show ?thesis by simp
qed

subsection \<open>Timeouts and supersession preserve the invariant\<close>

definition expired_market ::
  "recovery_coordinator_config \<Rightarrow> latches \<Rightarrow> recovery_id \<Rightarrow> time_ns \<Rightarrow> market_recovery_state \<Rightarrow> market_recovery_state" where
  "expired_market config active rid now m = fst (expire_market config active rid now m
     \<lparr>rts_request_ack_timeouts = 0, rts_snapshot_timeouts = 0, rts_retries_scheduled = 0, rts_markets_failed = 0\<rparr>)"

lemma expire_market_fst: "fst (expire_market config active rid now m summary) = expired_market config active rid now m"
  by (cases "mrs_phase m") (simp_all add: expired_market_def expire_market_def Let_def)

lemma expire_markets_fst:
  "fst (expire_markets config active rid now xs summary) = map (expired_market config active rid now) xs"
  by (induction xs arbitrary: summary) (simp_all add: case_prod_beta Let_def expire_market_fst)

lemma expire_incidents_find:
  "um_find (fst (expire_incidents config active now incs summary)) k = Some inc' \<Longrightarrow>
   \<exists>inc t. um_find incs k = Some inc \<and> inc' = inc\<lparr>ris_market_recoveries :=
      map (expired_market config active k now) (ris_market_recoveries inc), ris_last_progress_at := t\<rparr>"
proof (induction incs arbitrary: summary)
  case Nil
  then show ?case by (simp add: um_find_def)
next
  case (Cons e incs)
  obtain rid inc where e: "e = (rid, inc)" by fastforce
  show ?case
  proof (cases "rid = k")
    case True
    with Cons.prems show ?thesis
      by (auto simp: e um_find_def case_prod_beta Let_def expire_markets_fst)
  next
    case False
    with Cons.prems Cons.IH show ?thesis
      by (simp add: e um_find_def case_prod_beta Let_def)
  qed
qed

lemma expire_incidents_keys: "map fst (fst (expire_incidents config active now incs summary)) = map fst incs"
  by (induction incs arbitrary: summary) (simp_all add: case_prod_beta Let_def)

lemma um_find_dom: "map fst m = map fst n \<Longrightarrow> um_find m k = None \<longleftrightarrow> um_find n k = None"
  by (metis list.set_map um_find_None_iff)

lemma expired_market_props:
  assumes "market_recovery_ok config m"
  shows "mrs_market_id (expired_market config active rid now m) = mrs_market_id m"
    and "market_recovery_ok config (expired_market config active rid now m)"
    and "finished (mrs_phase (expired_market config active rid now m)) \<longleftrightarrow> finished (mrs_phase m)"
proof -
  have lim: "unat a < attempt_limit config" if "\<not> rcc_max_attempts config \<le> a" for a
    using that by (auto simp: attempt_limit_def word_le_nat_alt)
  show "mrs_market_id (expired_market config active rid now m) = mrs_market_id m"
    by (cases "mrs_phase m") (simp_all add: expired_market_def expire_market_def Let_def)
  show "market_recovery_ok config (expired_market config active rid now m)"
    using assms lim by (cases "mrs_phase m")
      (auto simp: expired_market_def expire_market_def Let_def market_recovery_ok_def)
  show "finished (mrs_phase (expired_market config active rid now m)) \<longleftrightarrow> finished (mrs_phase m)"
    by (cases "mrs_phase m") (simp_all add: expired_market_def expire_market_def Let_def finished_def)
qed

lemma incident_ok_map:
  assumes ok: "incident_ok next config active rid inc"
    and ms: "ris_market_recoveries inc' = map g (ris_market_recoveries inc)" "ris_recovery_id inc' = ris_recovery_id inc"
    and g: "\<And>m. m \<in> set (ris_market_recoveries inc) \<Longrightarrow> mrs_market_id (g m) = mrs_market_id m
      \<and> market_recovery_ok config (g m)
      \<and> (\<not> finished (mrs_phase (g m)) \<longleftrightarrow> um_find active' (mrs_market_id m) = Some rid)"
  shows "incident_ok next config active' rid inc'"
proof -
  have "map mrs_market_id (ris_market_recoveries inc') = map mrs_market_id (ris_market_recoveries inc)"
    using ms(1) g by simp
  then have "distinct (map mrs_market_id (ris_market_recoveries inc'))" using ok by (simp add: incident_ok_def)
  moreover have "\<forall>m \<in> set (ris_market_recoveries inc'). market_recovery_ok config m
      \<and> (\<not> finished (mrs_phase m) \<longleftrightarrow> um_find active' (mrs_market_id m) = Some rid)"
    using ms(1) g by auto
  ultimately show ?thesis using ok ms(2) by (simp add: incident_ok_def)
qed

lemma rc_inv_expire [predex_inv]: "rc_inv s \<Longrightarrow> rc_inv (fst (expire_timeouts s now))"
proof -
  assume inv: "rc_inv s"
  note d = rc_invD [OF inv]
  let ?act = "rc_active_recovery_by_market s"
  define incs where "incs = rc_incidents (fst (expire_timeouts s now))"
  have eq: "fst (expire_timeouts s now) = s\<lparr>rc_incidents := incs\<rparr>"
    and incs: "incs = fst (expire_incidents (rc_config s) ?act now (rc_incidents s)
      \<lparr>rts_request_ack_timeouts = 0, rts_snapshot_timeouts = 0, rts_retries_scheduled = 0, rts_markets_failed = 0\<rparr>)"
    by (simp_all add: incs_def expire_timeouts_def case_prod_beta Let_def)
  have keys: "map fst incs = map fst (rc_incidents s)" unfolding incs by (rule expire_incidents_keys)
  have ex: "\<exists>inc t. um_find (rc_incidents s) k = Some inc \<and> inc' = inc\<lparr>ris_market_recoveries :=
      map (expired_market (rc_config s) ?act k now) (ris_market_recoveries inc), ris_last_progress_at := t\<rparr>"
    if "um_find incs k = Some inc'" for k inc'
    using that unfolding incs by (rule expire_incidents_find)
  show ?thesis unfolding eq
  proof (rule rc_invI, goal_cases)
    case 1
    show ?case using d(1) keys by (simp add: um_wf_def)
  next
    case (4 k inc')
    then have "um_find incs k = Some inc'" by simp
    from ex [OF this] obtain inc t where inc: "um_find (rc_incidents s) k = Some inc" "inc' = inc\<lparr>ris_market_recoveries :=
        map (expired_market (rc_config s) ?act k now) (ris_market_recoveries inc), ris_last_progress_at := t\<rparr>"
      by blast
    note ok = d(4) [OF inc(1)]
    then have "market_recovery_ok (rc_config s) m \<and> (\<not> finished (mrs_phase m) \<longleftrightarrow> um_find ?act (mrs_market_id m) = Some k)"
      if "m \<in> set (ris_market_recoveries inc)" for m using that by (auto simp: incident_ok_def)
    then show ?case
      using incident_ok_map [OF ok, of inc' "expired_market (rc_config s) ?act k now" ?act] inc(2)
      by (simp add: expired_market_props)
  next
    case (5 m k)
    then obtain inc where inc: "um_find (rc_incidents s) k = Some inc" "m \<in> mrs_market_id ` set (ris_market_recoveries inc)"
      using d(5) [of m k] by auto
    then obtain inc' where "um_find incs k = Some inc'" using um_find_dom [OF keys, of k] by fastforce
    moreover from ex [OF this] inc(1) obtain t where "inc' = inc\<lparr>ris_market_recoveries :=
        map (expired_market (rc_config s) ?act k now) (ris_market_recoveries inc), ris_last_progress_at := t\<rparr>" by auto
    ultimately show ?case using inc(2) d(4) [OF inc(1)]
      by (fastforce simp: incident_ok_def expired_market_props image_iff)
  qed (use d in simp_all)
qed

definition superseded_market :: "market_recovery_state \<Rightarrow> market_recovery_state" where
  "superseded_market m = (if finished (mrs_phase m) then m else m\<lparr>mrs_phase := MRP_kSUPERSEDED\<rparr>)"

lemma supersede_markets_eq:
  "fst (supersede_markets rid xs active summary) = map superseded_market xs"
  "um_find (fst (snd (supersede_markets rid xs active summary))) k =
     (if k \<in> mrs_market_id ` set xs \<and> um_find active k = Some rid then None else um_find active k)"
  "um_wf active \<Longrightarrow> um_wf (fst (snd (supersede_markets rid xs active summary)))"
  by (induction xs arbitrary: active summary)
    (auto simp: case_prod_beta Let_def superseded_market_def um.find_erase um.wf_erase)

definition superseded_incident :: "u64 \<Rightarrow> recovery_incident_state \<Rightarrow> recovery_incident_state \<Rightarrow> bool" where
  "superseded_incident v inc inc' \<longleftrightarrow> ris_recovery_id inc' = ris_recovery_id inc
     \<and> ris_universe_version inc' = ris_universe_version inc
     \<and> ris_market_recoveries inc' = (if ris_universe_version inc = v then ris_market_recoveries inc
        else map superseded_market (ris_market_recoveries inc))"

lemma supersede_incidents_find:
  "um_find (fst (supersede_incidents v now incs active summary)) k = Some inc' \<Longrightarrow>
   \<exists>inc. um_find incs k = Some inc \<and> superseded_incident v inc inc'"
proof (induction incs arbitrary: active summary)
  case Nil
  then show ?case by (simp add: um_find_def)
next
  case (Cons e incs)
  obtain rid inc where e: "e = (rid, inc)" by fastforce
  show ?case
  proof (cases "rid = k")
    case True
    with Cons.prems show ?thesis
      by (auto simp: e um_find_def case_prod_beta Let_def supersede_markets_eq superseded_incident_def split: if_splits)
  next
    case False
    with Cons.prems Cons.IH show ?thesis
      by (simp add: e um_find_def case_prod_beta Let_def split: if_splits)
  qed
qed

lemma supersede_incidents_keys: "map fst (fst (supersede_incidents v now incs active summary)) = map fst incs"
  by (induction incs arbitrary: active summary) (simp_all add: case_prod_beta Let_def)

definition released_by :: "u64 \<Rightarrow> (recovery_id, recovery_incident_state) umap \<Rightarrow> market_id \<Rightarrow> recovery_id \<Rightarrow> bool" where
  "released_by v incs m rid \<longleftrightarrow> (\<exists>inc. (rid, inc) \<in> set incs \<and> ris_universe_version inc \<noteq> v
     \<and> m \<in> mrs_market_id ` set (ris_market_recoveries inc))"

lemma supersede_incidents_active:
  "um_find (fst (snd (supersede_incidents v now incs active summary))) k =
     (case um_find active k of None \<Rightarrow> None | Some rid \<Rightarrow> if released_by v incs k rid then None else Some rid)"
proof (induction incs arbitrary: active summary)
  case Nil
  then show ?case by (simp add: released_by_def split: option.splits)
next
  case (Cons e incs)
  obtain rid inc where e: "e = (rid, inc)" by fastforce
  show ?case
    by (auto simp: e case_prod_beta Let_def Cons.IH supersede_markets_eq released_by_def split: option.splits)
qed

lemma supersede_incidents_wf:
  "um_wf active \<Longrightarrow> um_wf (fst (snd (supersede_incidents v now incs active summary)))"
  by (induction incs arbitrary: active summary) (simp_all add: case_prod_beta Let_def supersede_markets_eq)

lemma released_by_iff:
  "um_wf incs \<Longrightarrow> um_find incs rid = Some inc \<Longrightarrow>
   released_by v incs m rid \<longleftrightarrow> ris_universe_version inc \<noteq> v \<and> m \<in> mrs_market_id ` set (ris_market_recoveries inc)"
  by (auto simp: released_by_def dest: um_find_eq um_find_in_set)

lemma superseded_market_simps [simp]:
  "mrs_market_id (superseded_market m) = mrs_market_id m" "finished (mrs_phase (superseded_market m))"
  by (auto simp: superseded_market_def finished_def)

lemma superseded_market_props: "market_recovery_ok config m \<Longrightarrow> market_recovery_ok config (superseded_market m)"
  by (auto simp: superseded_market_def finished_def market_recovery_ok_def)

lemma rc_inv_supersede [predex_inv]: "rc_inv s \<Longrightarrow> rc_inv (fst (supersede_before_universe s v now))"
proof (cases "v = 0")
  case True
  then show "rc_inv s \<Longrightarrow> ?thesis" by (simp add: supersede_before_universe_def Let_def)
next
  case False
  assume inv: "rc_inv s"
  note d = rc_invD [OF inv]
  let ?act = "rc_active_recovery_by_market s"
  let ?r = "supersede_incidents v now (rc_incidents s) ?act
    \<lparr>rss_incidents_superseded = 0, rss_markets_superseded = 0, rss_active_latches_released = 0\<rparr>"
  define incs act where "incs = fst ?r" and "act = fst (snd ?r)"
  have eq: "fst (supersede_before_universe s v now) = s\<lparr>rc_incidents := incs, rc_active_recovery_by_market := act\<rparr>"
    using False by (simp add: supersede_before_universe_def Let_def case_prod_beta incs_def act_def)
  have keys: "map fst incs = map fst (rc_incidents s)" unfolding incs_def by (rule supersede_incidents_keys)
  have find_act: "um_find act k = (case um_find ?act k of None \<Rightarrow> None
      | Some rid \<Rightarrow> if released_by v (rc_incidents s) k rid then None else Some rid)" for k
    unfolding act_def by (rule supersede_incidents_active)
  note ex = supersede_incidents_find [of v now "rc_incidents s" ?act
      "\<lparr>rss_incidents_superseded = 0, rss_markets_superseded = 0, rss_active_latches_released = 0\<rparr>", folded incs_def]
  note rel = released_by_iff [OF d(1)]
  show ?thesis unfolding eq
  proof (rule rc_invI, goal_cases)
    case 1
    show ?case using d(1) keys by (simp add: um_wf_def)
  next
    case 3
    show ?case using supersede_incidents_wf [OF d(3)] by (simp add: act_def)
  next
    case (4 k inc')
    then obtain inc where inc: "um_find (rc_incidents s) k = Some inc" "superseded_incident v inc inc'"
      using ex by auto
    note ok = d(4) [OF inc(1)]
    then have old: "market_recovery_ok (rc_config s) m" "\<not> finished (mrs_phase m) \<longleftrightarrow> um_find ?act (mrs_market_id m) = Some k"
      if "m \<in> set (ris_market_recoveries inc)" for m using that by (auto simp: incident_ok_def)
    have act_k: "um_find act (mrs_market_id m) = Some k \<longleftrightarrow>
        ris_universe_version inc = v \<and> um_find ?act (mrs_market_id m) = Some k"
      if "m \<in> set (ris_market_recoveries inc)" for m
      using that rel [OF inc(1), of v "mrs_market_id m"] by (auto simp: find_act split: option.splits)
    have "incident_ok (rc_next_recovery_id s) (rc_config s) act k inc'"
    proof (rule incident_ok_map [OF ok, of inc' "if ris_universe_version inc = v then id else superseded_market"])
      show "ris_market_recoveries inc' = map (if ris_universe_version inc = v then id else superseded_market)
          (ris_market_recoveries inc)" "ris_recovery_id inc' = ris_recovery_id inc"
        using inc(2) by (auto simp: superseded_incident_def)
    qed (use old act_k superseded_market_props in auto)
    then show ?case by simp
  next
    case (5 m k)
    then have k: "um_find ?act m = Some k" by (auto simp: find_act split: option.splits if_splits)
    then obtain inc where inc: "um_find (rc_incidents s) k = Some inc" "m \<in> mrs_market_id ` set (ris_market_recoveries inc)"
      using d(5) [of m k] by auto
    then obtain inc' where i: "um_find incs k = Some inc'" using um_find_dom [OF keys, of k] by fastforce
    from ex [OF this] inc(1) have "superseded_incident v inc inc'" by auto
    then have "map mrs_market_id (ris_market_recoveries inc') = map mrs_market_id (ris_market_recoveries inc)"
      by (auto simp: superseded_incident_def superseded_market_def)
    then have "m \<in> mrs_market_id ` set (ris_market_recoveries inc')" using inc(2) by (metis list.set_map)
    with i show ?case by auto
  qed (use d in simp_all)
qed

section \<open>Runs\<close>

datatype recovery_op =
    RO_ObserveMarket shard_market_recovery_required universe_snapshot time_ns
  | RO_ObserveSubscription subscription_barrier_delivered universe_snapshot time_ns
  | RO_MarkEnqueued recover_market_io time_ns
  | RO_Accepted io_recovery_request_accepted time_ns
  | RO_Failed io_recovery_request_failed time_ns
  | RO_Snapshot shard_recovery_snapshot_applied universe_snapshot time_ns
  | RO_Expire time_ns
  | RO_Supersede u64 time_ns

fun recovery_step :: "recovery_op \<Rightarrow> recovery_coordinator \<Rightarrow> recovery_coordinator" where
  "recovery_step (RO_ObserveMarket f u t) s = fst (observe_market s f u t)"
| "recovery_step (RO_ObserveSubscription f u t) s = fst (observe_subscription s f u t)"
| "recovery_step (RO_MarkEnqueued c t) s = fst (mark_command_enqueued s c t)"
| "recovery_step (RO_Accepted f t) s = fst (handle_request_accepted s f t)"
| "recovery_step (RO_Failed f t) s = fst (handle_request_failed s f t)"
| "recovery_step (RO_Snapshot f u t) s = fst (handle_snapshot_applied s f u t)"
| "recovery_step (RO_Expire t) s = fst (expire_timeouts s t)"
| "recovery_step (RO_Supersede v t) s = fst (supersede_before_universe s v t)"

interpretation recovery: guarded_machine recovery_step rc_inv "\<lambda>_. True"
proof (unfold_locales, goal_cases)
  case (1 s x)
  then show ?case by (cases x) (simp_all add: predex_inv)
qed

lemma rc_inv_initial: "rc_inv (make_coordinator config)"
  by (simp add: rc_inv_def make_coordinator_def um_wf_def um_find_def)

lemma recovery_reachable_inv: "rc_inv (fold recovery_step ops (make_coordinator config))"
  using recovery.run_invar [OF rc_inv_initial, of ops] by (simp add: list_all_iff)

end
