(* ===== verification/Recovery_Properties.thy ===== *)
theory Recovery_Properties
  imports Recovery
begin

text \<open>
  What the recovery coordinator guarantees to the control plane: at most one recovery per market, bounded
  attempts with an exact backoff, a deterministic choice of the next request, no duplicate incidents, and
  latches that only a recovery snapshot or a new universe releases.
\<close>

section \<open>A concrete history\<close>

definition demo_universe :: universe_snapshot where
  "demo_universe = \<lparr>us_version = 4, us_events = [], us_market_routes =
     [\<lparr>umr_kalshi_ticker = ''A'', umr_market_id = 7, umr_event_id = 3, umr_affinity_key = 1,
       umr_topology = ET_kSINGLE_MARKET, umr_shard_index = 0, umr_shard_event_index = 0,
       umr_event_market_index = 0, umr_tradeable = True, umr_price_level_structure = PLS_kLINEAR_CENT,
       umr_strike_key = None, umr_market_time_s = 0, umr_market_close_time_s = 0,
       umr_market_expected_expiration_time_s = 0, umr_market_expiration_time_s = 0\<rparr>]\<rparr>"

definition demo_fact :: shard_market_recovery_required where
  "demo_fact = \<lparr>smr_universe_version = 4, smr_shard_index = 0,
     smr_incident = \<lparr>iik_origin = IIO_kSHARD, iik_producer_index = 0, iik_incident_id = 9\<rparr>,
     smr_sid = 1, smr_sequence = 20, smr_market_id = 7, smr_event_id = 3, smr_reason = BIR_kSHARD_PARSE_FAILURE\<rparr>"

definition demo_coordinator :: recovery_coordinator where
  "demo_coordinator = fst (observe_market (make_coordinator default_config) demo_fact demo_universe 1000)"

lemmas demo_simps = demo_fact_def demo_universe_def find_route_def valid_targeted_incident_source_def
  make_coordinator_def observation_def um_find_def um_emplace_def new_market_recovery_def

lemma demo_observe:
  "observe_market (make_coordinator default_config) demo_fact demo_universe 1000
     = (demo_coordinator, observation ROC_kCREATED 1 1)"
  by (simp add: demo_coordinator_def observe_market_def demo_simps Let_def)

lemma demo_coordinator_eq:
  "demo_coordinator = \<lparr>rc_next_recovery_id = 2,
     rc_incidents = [(1, \<lparr>ris_recovery_id = 1, ris_source = smr_incident demo_fact, ris_universe_version = 4,
       ris_sid = 1, ris_reason = BIR_kSHARD_PARSE_FAILURE, ris_market_recoveries = [new_market_recovery 7 3 0 1000],
       ris_started_at = 1000, ris_last_progress_at = 1000\<rparr>)],
     rc_recovery_by_source = [((4, smr_incident demo_fact), 1)],
     rc_active_recovery_by_market = [(7, 1)], rc_config = default_config\<rparr>"
  by (simp add: demo_coordinator_def observe_market_def demo_simps Let_def)

lemma demo_inv: "rc_inv demo_coordinator"
  using rc_inv_observe_market [OF rc_inv_initial] by (simp add: demo_coordinator_def)

section \<open>Single flight and bounded attempts\<close>

text \<open>C4. In every reachable state of the coordinator a market has at most one unfinished recovery: two
  unfinished market recoveries of the same market are the same entry of the same incident, the market is
  latched to exactly that incident, and every market recovery has sent at most \<open>max_attempts\<close> requests (one,
  if that is configured as zero).\<close>

theorem recovery_single_flight:
  assumes "s = fold recovery_step ops (make_coordinator config)"
    and "um_find (rc_incidents s) rid = Some inc" "m \<in> set (ris_market_recoveries inc)"
    and "um_find (rc_incidents s) rid' = Some inc'" "m' \<in> set (ris_market_recoveries inc')"
    and "mrs_market_id m = mrs_market_id m'"
  shows "(\<not> finished (mrs_phase m) \<and> \<not> finished (mrs_phase m') \<longrightarrow> rid = rid' \<and> m = m')
    \<and> (\<not> finished (mrs_phase m) \<longleftrightarrow> um_find (rc_active_recovery_by_market s) (mrs_market_id m) = Some rid)
    \<and> unat (mrs_attempts_sent m) \<le> attempt_limit (rc_config s)"
proof -
  have inv: "rc_inv s" unfolding assms(1) by (rule recovery_reachable_inv)
  note ok = rc_invD(4) [OF inv assms(2)] and ok' = rc_invD(4) [OF inv assms(4)]
  have latch: "\<not> finished (mrs_phase m) \<longleftrightarrow> um_find (rc_active_recovery_by_market s) (mrs_market_id m) = Some rid"
      "\<not> finished (mrs_phase m') \<longleftrightarrow> um_find (rc_active_recovery_by_market s) (mrs_market_id m) = Some rid'"
    using ok ok' assms(3,5,6) by (auto simp: incident_ok_def)
  have "m = m'" if "rid = rid'"
    using that assms ok distinct_market_unique [of "ris_market_recoveries inc" m m'] by (auto simp: incident_ok_def)
  with latch show ?thesis using ok assms(3) by (auto simp: incident_ok_def market_recovery_ok_def)
qed

theorem recovery_single_flight_witness:
  "um_find (rc_active_recovery_by_market demo_coordinator) 7 = Some 1"
proof -
  let ?inc = "snd (hd (rc_incidents demo_coordinator))"
  have run: "demo_coordinator = fold recovery_step [RO_ObserveMarket demo_fact demo_universe 1000] (make_coordinator default_config)"
    by (simp add: demo_coordinator_def)
  have inc: "um_find (rc_incidents demo_coordinator) 1 = Some ?inc"
    and m: "new_market_recovery 7 3 0 1000 \<in> set (ris_market_recoveries ?inc)"
    by (simp_all add: demo_coordinator_eq um_find_def)
  from recovery_single_flight [OF run inc m inc m refl] show ?thesis by (simp add: finished_def)
qed

section \<open>Backoff\<close>

lemma backoff_loop_eq:
  assumes "0 \<le> d" and "d \<le> mx"
  shows "backoff_loop mx a d i = min mx (d * 2 ^ (unat a - unat i))"
  using assms
proof (induction mx a d i rule: backoff_loop.induct)
  case (1 mx a d i)
  show ?case
  proof (cases "i < a \<and> d < mx")
    case False
    have "min d mx = min mx (d * 2 ^ (unat a - unat i))"
    proof (cases "i < a")
      case True
      with False 1 have "d = mx" by simp
      moreover have "mx * 1 \<le> mx * 2 ^ (unat a - unat i)" using 1 \<open>d = mx\<close> by (intro mult_left_mono) simp_all
      ultimately show ?thesis by simp
    next
      case False
      then show ?thesis using 1 by (simp add: word_less_nat_alt)
    qed
    then show ?thesis using False by (subst backoff_loop.simps) auto
  next
    case True
    then have i: "unat i < unat a" by (simp add: word_less_nat_alt)
    then have suc: "unat (i + 1) = Suc (unat i)" by (intro unat_Suc_no_wrap [of i a]) auto
    have pow: "(2::int) ^ (unat a - unat i) = 2 * 2 ^ (unat a - Suc (unat i))"
      using i by (metis Suc_diff_Suc power_Suc)
    show ?thesis
    proof (cases "d > mx div 2")
      case big: True
      have "mx \<le> d * 2 * 1" using big by simp
      also have "\<dots> \<le> d * 2 * 2 ^ (unat a - Suc (unat i))" using 1 by (intro mult_left_mono) simp_all
      finally have "mx \<le> d * 2 ^ (unat a - unat i)" by (simp add: pow mult.assoc)
      then show ?thesis using True big by (subst backoff_loop.simps) simp
    next
      case False
      then have "backoff_loop mx a (d * 2) (i + 1) = min mx (d * 2 * 2 ^ (unat a - unat (i + 1)))"
        using 1 True by simp
      then show ?thesis using True False by (subst backoff_loop.simps) (simp add: suc pow mult.assoc)
    qed
  qed
qed

text \<open>C37. The delay before the next attempt after \<open>n\<close> attempts is exactly the initial backoff doubled
  \<open>n - 1\<close> times, capped at the maximum; the loop's doubling never exceeds the cap, so it cannot overflow.\<close>

theorem retry_backoff_closed_form:
  assumes "0 \<le> rcc_initial_backoff config" and "0 \<le> rcc_max_backoff config"
  shows "retry_backoff config n = min (rcc_max_backoff config) (rcc_initial_backoff config * 2 ^ (unat n - 1))"
proof -
  let ?i = "rcc_initial_backoff config" and ?m = "rcc_max_backoff config"
  have eq: "retry_backoff config n = min ?m (min ?i ?m * 2 ^ (unat n - 1))"
    unfolding retry_backoff_def using assms by (subst backoff_loop_eq) simp_all
  have "min ?m (min ?i ?m * 2 ^ (unat n - 1)) = min ?m (?i * 2 ^ (unat n - 1))"
  proof (cases "?i \<le> ?m")
    case False
    have "?m * 1 \<le> ?m * 2 ^ (unat n - 1)" "?i * 1 \<le> ?i * 2 ^ (unat n - 1)" using assms by (intro mult_left_mono; simp)+
    with False show ?thesis by simp
  qed simp
  with eq show ?thesis by simp
qed

theorem retry_backoff_closed_form_witness:
  "map (retry_backoff default_config) [1, 2, 3, 7] = [100, 200, 400, 5000]"
proof -
  have "0 \<le> rcc_initial_backoff default_config" "0 \<le> rcc_max_backoff default_config"
    by (simp_all add: default_config_def)
  note eq = retry_backoff_closed_form [OF this]
  show ?thesis by (simp add: eq) (simp add: default_config_def)
qed

section \<open>Choosing the next request\<close>

text \<open>The ready markets of all incidents, with their keys.\<close>

definition ready_markets ::
  "recovery_coordinator \<Rightarrow> time_ns \<Rightarrow> (recovery_incident_state \<times> market_recovery_state) set" where
  "ready_markets s now = {(inc, m). (\<exists>rid. (rid, inc) \<in> set (rc_incidents s)) \<and> m \<in> set (ris_market_recoveries inc)
     \<and> market_ready now m}"

definition request_key :: "recovery_incident_state \<times> market_recovery_state \<Rightarrow> recovery_id \<times> market_id" where
  "request_key p = (ris_recovery_id (fst p), mrs_market_id (snd p))"

definition key_le :: "recovery_id \<times> market_id \<Rightarrow> recovery_id \<times> market_id \<Rightarrow> bool" where
  "key_le a b \<longleftrightarrow> fst a < fst b \<or> (fst a = fst b \<and> snd a \<le> snd b)"

lemma key_le_trans: "key_le a b \<Longrightarrow> key_le b c \<Longrightarrow> key_le a c"
  by (auto simp: key_le_def)

lemma key_le_total: "key_le a b \<or> key_le b a"
  by (auto simp: key_le_def)

lemma key_le_antisym: "key_le a b \<Longrightarrow> key_le b a \<Longrightarrow> a = b"
  by (auto simp: key_le_def prod_eq_iff)

definition least_of :: "(recovery_incident_state \<times> market_recovery_state) set \<Rightarrow> selection \<Rightarrow> bool" where
  "least_of S sel \<longleftrightarrow> (case sel of None \<Rightarrow> S = {}
     | Some p \<Rightarrow> p \<in> S \<and> (\<forall>q \<in> S. key_le (request_key p) (request_key q)))"

lemma lex_less_iff:
  fixes a b :: "'a::linorder" and m n :: "'b::linorder"
  shows "a < b \<or> a = b \<and> m < n \<longleftrightarrow> \<not> (b < a \<or> b = a \<and> n \<le> m)"
  by auto

lemma select_market_least:
  assumes "least_of S sel" and "ris_recovery_id inc = rid"
  shows "least_of (S \<union> (if market_ready now m then {(inc, m)} else {})) (select_market now rid inc m sel)"
proof (cases "market_ready now m")
  case False
  with assms show ?thesis by (simp add: select_market_def)
next
  case True
  show ?thesis
  proof (cases sel)
    case None
    with assms True show ?thesis by (simp add: select_market_def least_of_def key_le_def)
  next
    case (Some p)
    obtain i0 m0 where p: "p = (i0, m0)" by fastforce
    have "rid < ris_recovery_id i0 \<or> rid = ris_recovery_id i0 \<and> mrs_market_id m < mrs_market_id m0
        \<longleftrightarrow> \<not> key_le (request_key p) (request_key (inc, m))"
      unfolding key_le_def request_key_def p assms(2) [symmetric] fst_conv snd_conv by (rule lex_less_iff)
    then have sel: "select_market now rid inc m sel =
        (if key_le (request_key p) (request_key (inc, m)) then sel else Some (inc, m))"
      using Some True by (auto simp: select_market_def p)
    show ?thesis
    proof (cases "key_le (request_key p) (request_key (inc, m))")
      case le: True
      with sel Some True assms(1) show ?thesis by (simp add: least_of_def)
    next
      case False
      then have "key_le (request_key (inc, m)) (request_key p)" using key_le_total by blast
      then have "key_le (request_key (inc, m)) (request_key q)" if "q \<in> S" for q
        using that assms(1) Some key_le_trans by (auto simp: least_of_def)
      moreover have "key_le k k" for k by (simp add: key_le_def)
      ultimately show ?thesis using sel False True by (simp add: least_of_def)
    qed
  qed
qed

lemma fold_select_market_least:
  assumes "least_of S sel" and "ris_recovery_id inc = rid"
  shows "least_of (S \<union> {(inc, m) |m. m \<in> set xs \<and> market_ready now m}) (fold (select_market now rid inc) xs sel)"
  using assms(1)
proof (induction xs arbitrary: S sel)
  case Nil
  then show ?case by simp
next
  case (Cons x xs)
  let ?S = "S \<union> (if market_ready now x then {(inc, x)} else {})"
  have "least_of (?S \<union> {(inc, m) |m. m \<in> set xs \<and> market_ready now m})
      (fold (select_market now rid inc) xs (select_market now rid inc x sel))"
    by (rule Cons.IH [OF select_market_least [OF Cons.prems assms(2)]])
  moreover have "?S \<union> {(inc, m) |m. m \<in> set xs \<and> market_ready now m}
      = S \<union> {(inc, m) |m. m \<in> set (x # xs) \<and> market_ready now m}"
    by auto
  ultimately show ?case by simp
qed

definition pending_selection :: "recovery_coordinator \<Rightarrow> time_ns \<Rightarrow> selection" where
  "pending_selection s now =
     fold (\<lambda>(rid, incident). fold (select_market now rid incident) (ris_market_recoveries incident)) (rc_incidents s) None"

lemma fold_select_least:
  assumes "\<forall>(rid, inc) \<in> set incs. ris_recovery_id inc = rid" and "least_of S sel"
  shows "least_of (S \<union> {(inc, m). (\<exists>rid. (rid, inc) \<in> set incs) \<and> m \<in> set (ris_market_recoveries inc) \<and> market_ready now m})
    (fold (\<lambda>(rid, incident). fold (select_market now rid incident) (ris_market_recoveries incident)) incs sel)"
  using assms
proof (induction incs arbitrary: S sel)
  case Nil
  then show ?case by simp
next
  case (Cons e incs)
  obtain rid inc where e: "e = (rid, inc)" by fastforce
  let ?S = "S \<union> {(inc, m) |m. m \<in> set (ris_market_recoveries inc) \<and> market_ready now m}"
  let ?sel = "fold (select_market now rid inc) (ris_market_recoveries inc) sel"
  have "least_of ?S ?sel" using Cons.prems e by (intro fold_select_market_least) auto
  moreover have "\<forall>(rid, inc) \<in> set incs. ris_recovery_id inc = rid" using Cons.prems(1) by simp
  ultimately have "least_of (?S \<union> {(inc, m). (\<exists>rid. (rid, inc) \<in> set incs) \<and> m \<in> set (ris_market_recoveries inc) \<and> market_ready now m})
      (fold (\<lambda>(rid, incident). fold (select_market now rid incident) (ris_market_recoveries incident)) incs ?sel)"
    by (intro Cons.IH)
  moreover have "?S \<union> {(inc, m). (\<exists>rid. (rid, inc) \<in> set incs) \<and> m \<in> set (ris_market_recoveries inc) \<and> market_ready now m}
      = S \<union> {(inc, m). (\<exists>rid. (rid, inc) \<in> set (e # incs)) \<and> m \<in> set (ris_market_recoveries inc) \<and> market_ready now m}"
    by (auto simp: e)
  ultimately show ?case by (simp add: e)
qed

lemma pending_selection_least: "rc_inv s \<Longrightarrow> least_of (ready_markets s now) (pending_selection s now)"
proof -
  assume inv: "rc_inv s"
  have "\<forall>(rid, inc) \<in> set (rc_incidents s). ris_recovery_id inc = rid"
    using um_find_eq [OF rc_invD(1) [OF inv]] rc_invD(4) [OF inv] by (auto simp: incident_ok_def)
  from fold_select_least [OF this, of "{}" None now] show ?thesis
    by (simp add: pending_selection_def ready_markets_def least_of_def)
qed

lemma next_pending_command_eq:
  "next_pending_command s now = map_option (\<lambda>(incident, market). recover_command incident market) (pending_selection s now)"
  by (simp add: next_pending_command_def pending_selection_def)

text \<open>Entries of a well-formed coordinator are determined by their key.\<close>

lemma ready_markets_unique:
  assumes "rc_inv s" "p \<in> ready_markets s now" "q \<in> ready_markets s now" "request_key p = request_key q"
  shows "p = q"
proof -
  obtain i m j n where p: "p = (i, m)" "q = (j, n)" by fastforce
  note d = rc_invD [OF assms(1)]
  have find: "um_find (rc_incidents s) (ris_recovery_id k) = Some k" if "(rid, k) \<in> set (rc_incidents s)" for rid k
    using that um_find_eq [OF d(1)] d(4) by (fastforce simp: incident_ok_def)
  have "i = j" using assms(2-4) find by (auto simp: p ready_markets_def request_key_def) (metis option.inject)
  moreover obtain rid where "(rid, i) \<in> set (rc_incidents s)" using assms(2) by (auto simp: p ready_markets_def)
  then have "distinct (map mrs_market_id (ris_market_recoveries i))"
    using um_find_eq [OF d(1)] d(4) by (fastforce simp: incident_ok_def)
  ultimately show ?thesis using assms(2-4) distinct_market_unique [of "ris_market_recoveries i" m n]
    by (auto simp: p ready_markets_def request_key_def)
qed

lemma mark_accepts_ready:
  assumes inv: "rc_inv s" and r: "(inc, m) \<in> ready_markets s now"
  shows "snd (mark_command_enqueued s (recover_command inc m) now)"
proof -
  note d = rc_invD [OF inv]
  obtain rid where rid: "(rid, inc) \<in> set (rc_incidents s)" and m: "m \<in> set (ris_market_recoveries inc)" "market_ready now m"
    using r by (auto simp: ready_markets_def)
  have f: "um_find (rc_incidents s) rid = Some inc" using um_find_eq [OF d(1) rid] .
  have ok: "ris_recovery_id inc = rid" "distinct (map mrs_market_id (ris_market_recoveries inc))"
      "\<not> finished (mrs_phase m) \<longleftrightarrow> um_find (rc_active_recovery_by_market s) (mrs_market_id m) = Some rid"
    using d(4) [OF f] m(1) unfolding incident_ok_def by blast+
  have "\<not> finished (mrs_phase m)" using m(2) by (simp add: market_ready_def finished_def)
  with ok find_market_eq [OF ok(2) m(1)] f m(2) show ?thesis by (simp add: mark_command_enqueued_def recover_command_def market_ready_def)
qed

text \<open>\<open>next_pending_command\<close> returns a command exactly when some market of some incident is ready for a
  request, and then the one with the least recovery id and, within it, the least market id; the coordinator
  accepts that command when it is marked as enqueued.\<close>

theorem next_pending_command_least:
  assumes "rc_inv s"
  shows "(next_pending_command s now = None \<longleftrightarrow> ready_markets s now = {})
    \<and> (\<forall>c. next_pending_command s now = Some c \<longrightarrow>
         (\<exists>p \<in> ready_markets s now. c = recover_command (fst p) (snd p)
            \<and> (\<forall>q \<in> ready_markets s now. key_le (request_key p) (request_key q)))
       \<and> snd (mark_command_enqueued s c now))"
proof -
  note least = pending_selection_least [OF assms, of now]
  show ?thesis
  proof (cases "pending_selection s now")
    case None
    with least show ?thesis by (simp add: next_pending_command_eq least_of_def)
  next
    case (Some p)
    with least have p: "p \<in> ready_markets s now" "\<forall>q \<in> ready_markets s now. key_le (request_key p) (request_key q)"
      by (simp_all add: least_of_def)
    have "snd (mark_command_enqueued s (recover_command (fst p) (snd p)) now)"
      using mark_accepts_ready [OF assms, of "fst p" "snd p"] p(1) by simp
    with p Some show ?thesis by (auto simp: next_pending_command_eq case_prod_beta)
  qed
qed

theorem next_pending_command_least_witness:
  "ready_markets demo_coordinator 2000 \<noteq> {}
   \<and> snd (mark_command_enqueued demo_coordinator
       \<lparr>rmi_recovery_id = 1, rmi_universe_version = 4, rmi_market_id = 7, rmi_request_attempt = 1\<rparr> 2000)"
proof -
  have "next_pending_command demo_coordinator 2000 =
      Some \<lparr>rmi_recovery_id = 1, rmi_universe_version = 4, rmi_market_id = 7, rmi_request_attempt = 1\<rparr>"
    by (simp add: next_pending_command_def demo_coordinator_eq select_market_def market_ready_def
        new_market_recovery_def recover_command_def)
  with next_pending_command_least [OF demo_inv, of 2000] show ?thesis by auto
qed

text \<open>The choice does not depend on the iteration order of the unordered map: two coordinators whose
  incident tables hold the same entries in any order choose the same command.\<close>

theorem next_pending_command_order_independent:
  assumes "rc_inv s" and "rc_inv s'" and "mset (rc_incidents s) = mset (rc_incidents s')"
  shows "next_pending_command s now = next_pending_command s' now"
proof -
  have "set (rc_incidents s) = set (rc_incidents s')" using assms(3) by (metis set_mset_mset)
  then have eq: "ready_markets s' now = ready_markets s now" by (simp add: ready_markets_def)
  note l = pending_selection_least [OF assms(1), of now] and l' = pending_selection_least [OF assms(2), of now]
  have "pending_selection s now = pending_selection s' now"
  proof (cases "pending_selection s now")
    case None
    with l l' eq show ?thesis by (auto simp: least_of_def split: option.splits)
  next
    case (Some p)
    then obtain q where q: "pending_selection s' now = Some q" using l l' eq by (auto simp: least_of_def split: option.splits)
    have "request_key p = request_key q"
      using l l' Some q eq by (intro key_le_antisym) (auto simp: least_of_def)
    then have "p = q" using l l' Some q eq by (intro ready_markets_unique [OF assms(1), of p now q]) (simp_all add: least_of_def)
    with Some q show ?thesis by simp
  qed
  then show ?thesis by (simp add: next_pending_command_eq)
qed

theorem next_pending_command_order_independent_witness:
  "next_pending_command demo_coordinator 2000
     = next_pending_command (demo_coordinator\<lparr>rc_incidents := rev (rc_incidents demo_coordinator)\<rparr>) 2000"
proof (rule next_pending_command_order_independent [OF demo_inv])
  show "rc_inv (demo_coordinator\<lparr>rc_incidents := rev (rc_incidents demo_coordinator)\<rparr>)"
    using demo_inv by (simp add: demo_coordinator_eq)
qed simp

section \<open>What the operations leave alone\<close>

lemma store_market_frame [simp]:
  "rc_recovery_by_source (store_market s rid inc now mid f) = rc_recovery_by_source s"
  "rc_active_recovery_by_market (store_market s rid inc now mid f) = rc_active_recovery_by_market s"
  "rc_next_recovery_id (store_market s rid inc now mid f) = rc_next_recovery_id s"
  "rc_config (store_market s rid inc now mid f) = rc_config s"
  by (simp_all add: store_market_def)

lemma facts_frame [predex_frame]:
  "rc_recovery_by_source (fst (mark_command_enqueued s c t)) = rc_recovery_by_source s"
  "rc_recovery_by_source (fst (handle_request_accepted s a t)) = rc_recovery_by_source s"
  "rc_recovery_by_source (fst (handle_request_failed s f t)) = rc_recovery_by_source s"
  "rc_recovery_by_source (fst (handle_snapshot_applied s p u t)) = rc_recovery_by_source s"
  "rc_recovery_by_source (fst (expire_timeouts s t)) = rc_recovery_by_source s"
  "rc_recovery_by_source (fst (supersede_before_universe s v t)) = rc_recovery_by_source s"
  "rc_active_recovery_by_market (fst (mark_command_enqueued s c t)) = rc_active_recovery_by_market s"
  "rc_active_recovery_by_market (fst (handle_request_accepted s a t)) = rc_active_recovery_by_market s"
  "rc_active_recovery_by_market (fst (handle_request_failed s f t)) = rc_active_recovery_by_market s"
  "rc_active_recovery_by_market (fst (expire_timeouts s t)) = rc_active_recovery_by_market s"
  by (simp_all add: mark_command_enqueued_def handle_request_accepted_def handle_request_failed_def
      handle_snapshot_applied_def expire_timeouts_def supersede_before_universe_def Let_def case_prod_beta
      split: option.split)

lemma observe_keeps:
  assumes "rc_inv s"
  shows "um_find (rc_recovery_by_source s) k = Some v \<Longrightarrow>
      um_find (rc_recovery_by_source (fst (observe_market s f u t))) k = Some v"
    and "um_find (rc_recovery_by_source s) k = Some v \<Longrightarrow>
      um_find (rc_recovery_by_source (fst (observe_subscription s g u t))) k = Some v"
    and "um_find (rc_active_recovery_by_market s) m = Some r \<Longrightarrow>
      um_find (rc_active_recovery_by_market (fst (observe_market s f u t))) m = Some r"
    and "um_find (rc_active_recovery_by_market s) m = Some r \<Longrightarrow>
      um_find (rc_active_recovery_by_market (fst (observe_subscription s g u t))) m = Some r"
proof -
  obtain s1 r1 s2 r2 where o: "observe_market s f u t = (s1, r1)" "observe_subscription s g u t = (s2, r2)" by fastforce
  have 1: "(um_find (rc_recovery_by_source s) k = Some v \<longrightarrow> um_find (rc_recovery_by_source s1) k = Some v)
      \<and> (um_find (rc_active_recovery_by_market s) m = Some r \<longrightarrow> um_find (rc_active_recovery_by_market s1) m = Some r)"
    using assms o(1) by (cases rule: observe_market_cases) (auto simp: um.find_emplace)
  have 2: "(um_find (rc_recovery_by_source s) k = Some v \<longrightarrow> um_find (rc_recovery_by_source s2) k = Some v)
      \<and> (um_find (rc_active_recovery_by_market s) m = Some r \<longrightarrow> um_find (rc_active_recovery_by_market s2) m = Some r)"
    using assms o(2) by (cases rule: observe_subscription_cases) (auto simp: um.find_emplace um_find_append)
  from 1 2 o show "um_find (rc_recovery_by_source s) k = Some v \<Longrightarrow>
      um_find (rc_recovery_by_source (fst (observe_market s f u t))) k = Some v"
    and "um_find (rc_recovery_by_source s) k = Some v \<Longrightarrow>
      um_find (rc_recovery_by_source (fst (observe_subscription s g u t))) k = Some v"
    and "um_find (rc_active_recovery_by_market s) m = Some r \<Longrightarrow>
      um_find (rc_active_recovery_by_market (fst (observe_market s f u t))) m = Some r"
    and "um_find (rc_active_recovery_by_market s) m = Some r \<Longrightarrow>
      um_find (rc_active_recovery_by_market (fst (observe_subscription s g u t))) m = Some r"
    by simp_all
qed

lemma run_keeps_sources:
  assumes "rc_inv s" and "um_find (rc_recovery_by_source s) k = Some v"
  shows "um_find (rc_recovery_by_source (fold recovery_step ops s)) k = Some v"
proof -
  let ?R = "\<lambda>a b. um_find (rc_recovery_by_source a) k = Some v \<longrightarrow> um_find (rc_recovery_by_source b) k = Some v"
  have "?R s (fold recovery_step ops s)"
  proof (rule recovery.run_mono [of ?R])
    fix s x assume "rc_inv s"
    then show "?R s (recovery_step x s)" by (cases x) (simp_all add: predex_frame observe_keeps)
  qed (use assms(1) in \<open>auto simp: list_all_iff\<close>)
  with assms(2) show ?thesis by simp
qed

section \<open>Deduplication\<close>

text \<open>An incident is recovered once: after a fact has created a recovery, observing the same fact
  again, at any later time and after any other operations, changes nothing and reports the recovery it
  created.\<close>

theorem observe_market_once:
  assumes "rc_inv s" and "observe_market s msg u now = (s1, r)" and "ror_code r = ROC_kCREATED"
    and "s2 = fold recovery_step ops s1"
  shows "observe_market s2 msg u later = (s2, observation ROC_kDUPLICATE (ror_recovery_id r) 0)"
proof -
  have inv1: "rc_inv s1" using rc_inv_observe_market [OF assms(1), of msg u now] assms(2) by simp
  have src1: "um_find (rc_recovery_by_source s1) (smr_universe_version msg, smr_incident msg) = Some (ror_recovery_id r)"
    using assms(1,2)
    by (cases rule: observe_market_cases) (use assms(3) in \<open>auto simp: um.find_emplace observation_def\<close>)
  have src2: "um_find (rc_recovery_by_source s2) (smr_universe_version msg, smr_incident msg) = Some (ror_recovery_id r)"
    unfolding assms(4) by (rule run_keeps_sources [OF inv1 src1])
  have "us_version u \<noteq> 0" "us_version u = smr_universe_version msg" "iik_origin (smr_incident msg) \<noteq> IIO_kUNKNOWN"
      "iik_incident_id (smr_incident msg) \<noteq> 0" "valid_targeted_incident_source msg"
    using assms(2,3) by (auto simp: observe_market_def observation_def split: if_splits)
  moreover obtain route where "find_route u (smr_market_id msg) = Some route"
      "umr_event_id route = smr_event_id msg" "umr_shard_index route = smr_shard_index msg"
    using assms(2,3) by (auto simp: observe_market_def observation_def split: if_splits option.splits)
  ultimately show ?thesis using src2 by (simp add: observe_market_def Let_def)
qed

theorem observe_market_once_witness:
  "observe_market demo_coordinator demo_fact demo_universe 5000 = (demo_coordinator, observation ROC_kDUPLICATE 1 0)"
  using observe_market_once [OF rc_inv_initial demo_observe, of demo_coordinator "[]" 5000]
  by (simp add: observation_def)

section \<open>Latches\<close>

lemma supersede_latches:
  assumes "rc_inv s" and "v \<noteq> 0"
  shows "um_find (rc_active_recovery_by_market (fst (supersede_before_universe s v t))) m =
    (case um_find (rc_active_recovery_by_market s) m of None \<Rightarrow> None
     | Some rid \<Rightarrow> if released_by v (rc_incidents s) m rid then None else Some rid)"
  using assms(2) by (simp add: supersede_before_universe_def Let_def case_prod_beta supersede_incidents_active)

text \<open>C35. Once a market is latched to a recovery, only two operations release it: the shard reports that a
  recovery snapshot of that very recovery, universe and market was applied, after at least one request was
  sent; or a universe with another version supersedes the incident. Requests that fail, time out or run out
  of attempts keep the market latched.\<close>

theorem latch_released_only_by:
  assumes "rc_inv s" and "um_find (rc_active_recovery_by_market s) m = Some rid"
    and "um_find (rc_active_recovery_by_market (recovery_step op s)) m \<noteq> Some rid"
  shows "\<exists>inc. um_find (rc_incidents s) rid = Some inc
    \<and> ((\<exists>msg u t mr. op = RO_Snapshot msg u t \<and> srs_recovery_id msg = rid \<and> srs_market_id msg = m
          \<and> srs_universe_version msg = ris_universe_version inc \<and> us_version u = ris_universe_version inc
          \<and> srs_transition msg \<in> {BST_kRECOVERED, BST_kNONE}
          \<and> find_market inc m = Some mr \<and> mrs_attempts_sent mr \<noteq> 0)
       \<or> (\<exists>v t. op = RO_Supersede v t \<and> v \<noteq> 0 \<and> ris_universe_version inc \<noteq> v))"
proof -
  obtain inc where inc: "um_find (rc_incidents s) rid = Some inc" "m \<in> mrs_market_id ` set (ris_market_recoveries inc)"
    using rc_invD(5) [OF assms(1,2)] by blast
  show ?thesis
  proof (cases op)
    case (RO_Snapshot msg u t)
    have mid: "srs_market_id msg = m" and rid: "srs_recovery_id msg = rid"
      using assms(2,3) RO_Snapshot
      by (auto simp: handle_snapshot_applied_def Let_def um.find_erase split: if_splits option.splits)
    obtain mr where mr: "find_market inc m = Some mr" "mrs_phase mr = MRP_kPENDING_REQUEST \<longrightarrow> mrs_attempts_sent mr \<noteq> 0"
        "\<not> finished (mrs_phase mr)" "srs_universe_version msg = ris_universe_version inc"
        "us_version u = ris_universe_version inc" "srs_transition msg \<in> {BST_kRECOVERED, BST_kNONE}"
      using assms(2,3) RO_Snapshot inc(1) mid rid
      by (auto simp: handle_snapshot_applied_def Let_def split: if_splits option.splits)
    have "mrs_attempts_sent mr \<noteq> 0"
      using mr inv_market_ok(1) [OF assms(1) inc(1) mr(1)] by (auto simp: market_recovery_ok_def finished_def)
    with mr mid rid RO_Snapshot inc(1) show ?thesis by blast
  next
    case (RO_Supersede v t)
    have v: "v \<noteq> 0" using assms(2,3) RO_Supersede by (auto simp: supersede_before_universe_def Let_def)
    then have "released_by v (rc_incidents s) m rid"
      using assms(2,3) RO_Supersede supersede_latches [OF assms(1) v, of t m] by (auto split: if_splits)
    then have "ris_universe_version inc \<noteq> v" using released_by_iff [OF rc_invD(1) [OF assms(1)] inc(1)] by simp
    with v RO_Supersede inc(1) show ?thesis by blast
  qed (use assms observe_keeps [OF assms(1)] in \<open>simp_all add: predex_frame\<close>)
qed

theorem latch_released_only_by_witness:
  "\<exists>inc. um_find (rc_incidents demo_coordinator) 1 = Some inc \<and> ris_universe_version inc \<noteq> 5"
proof -
  have l: "um_find (rc_active_recovery_by_market demo_coordinator) 7 = Some 1"
    by (simp add: demo_coordinator_eq um_find_def)
  have "um_find (rc_active_recovery_by_market (recovery_step (RO_Supersede 5 0) demo_coordinator)) 7 \<noteq> Some 1"
    by (simp add: demo_coordinator_eq supersede_before_universe_def um_find_def um_erase_def new_market_recovery_def Let_def)
  from latch_released_only_by [OF demo_inv l this] show ?thesis by auto
qed

text \<open>After \<open>supersede_before_universe v\<close> every unfinished recovery and every latch belongs to an
  incident of universe \<open>v\<close>, so that no market of the new universe is blocked by a recovery of an old one.\<close>

theorem supersede_clears_old_universes:
  assumes "rc_inv s" and "v \<noteq> 0" and "s' = fst (supersede_before_universe s v t)"
  shows "(\<forall>m rid. um_find (rc_active_recovery_by_market s') m = Some rid \<longrightarrow>
      (\<exists>inc. um_find (rc_incidents s') rid = Some inc \<and> ris_universe_version inc = v))
    \<and> (\<forall>rid inc. um_find (rc_incidents s') rid = Some inc \<and> ris_universe_version inc \<noteq> v \<longrightarrow>
        list_all (\<lambda>mr. finished (mrs_phase mr)) (ris_market_recoveries inc))"
proof -
  have inv': "rc_inv s'" unfolding assms(3) by (rule rc_inv_supersede [OF assms(1)])
  have inc': "\<exists>inc. um_find (rc_incidents s) rid = Some inc \<and> superseded_incident v inc i"
    if "um_find (rc_incidents s') rid = Some i" for rid i
    using that assms(2) unfolding assms(3)
    by (intro supersede_incidents_find [where now = t]) (simp add: supersede_before_universe_def Let_def case_prod_beta)
  have fin: "list_all (\<lambda>mr. finished (mrs_phase mr)) (ris_market_recoveries i)"
    if "um_find (rc_incidents s') rid = Some i" "ris_universe_version i \<noteq> v" for rid i
    using inc' [OF that(1)] that(2) by (auto simp: superseded_incident_def list.pred_map comp_def list_all_iff)
  have "\<exists>inc. um_find (rc_incidents s') rid = Some inc \<and> ris_universe_version inc = v"
    if l: "um_find (rc_active_recovery_by_market s') m = Some rid" for m rid
  proof -
    obtain i mr where i: "um_find (rc_incidents s') rid = Some i" "mr \<in> set (ris_market_recoveries i)" "m = mrs_market_id mr"
      using rc_invD(5) [OF inv' l] by auto
    then have "\<not> finished (mrs_phase mr)" using rc_invD(4) [OF inv' i(1)] l by (auto simp: incident_ok_def)
    then have "ris_universe_version i = v" using fin [OF i(1)] i(2) by (auto simp: list_all_iff)
    with i(1) show ?thesis by blast
  qed
  with fin show ?thesis by blast
qed

theorem supersede_clears_old_universes_witness:
  "um_find (rc_active_recovery_by_market (fst (supersede_before_universe demo_coordinator 5 0))) 7 = None"
proof (rule ccontr)
  let ?s = "fst (supersede_before_universe demo_coordinator 5 0)"
  assume "um_find (rc_active_recovery_by_market ?s) 7 \<noteq> None"
  then obtain rid where "um_find (rc_active_recovery_by_market ?s) 7 = Some rid" by auto
  moreover have "(5::u64) \<noteq> 0" by simp
  ultimately obtain inc where "um_find (rc_incidents ?s) rid = Some inc" "ris_universe_version inc = 5"
    using supersede_clears_old_universes [OF demo_inv _ refl, of 5 0, THEN conjunct1] by blast
  then show False
    by (auto simp: demo_coordinator_eq supersede_before_universe_def um_find_def new_market_recovery_def Let_def
        split: if_splits)
qed

section \<open>Subscription-wide recovery\<close>

definition new_loss :: "recovery_coordinator \<Rightarrow> subscription_barrier_delivered \<Rightarrow> universe_snapshot \<Rightarrow> bool" where
  "new_loss s msg u \<longleftrightarrow> us_version u \<noteq> 0 \<and> sbd_universe_version msg = us_version u
     \<and> iik_origin (sbd_incident msg) = IIO_kWIRE_SESSION \<and> iik_producer_index (sbd_incident msg) = 0
     \<and> iik_incident_id (sbd_incident msg) \<noteq> 0 \<and> sbd_reason msg = BIR_kEXCHANGE_SEQUENCE_GAP
     \<and> um_find (rc_recovery_by_source s) (sbd_universe_version msg, sbd_incident msg) = None
     \<and> us_market_routes u \<noteq> [] \<and> rc_next_recovery_id s \<noteq> 0"

abbreviation unlatched_routes :: "recovery_coordinator \<Rightarrow> universe_snapshot \<Rightarrow> universe_market_route list" where
  "unlatched_routes s u \<equiv>
     filter (\<lambda>route. um_find (rc_active_recovery_by_market s) (umr_market_id route) = None) (us_market_routes u)"

lemma observe_not_new:
  assumes "\<not> new_loss s msg u"
  shows "fst (observe_subscription s msg u now) = s
    \<and> (\<exists>x. snd (observe_subscription s msg u now) = Inr x \<and> ror_code x \<notin> {ROC_kCREATED, ROC_kALREADY_RECOVERING})"
  using assms by (cases "um_find (rc_recovery_by_source s) (sbd_universe_version msg, sbd_incident msg)")
    (auto simp: new_loss_def observe_subscription_def observation_def Let_def)

lemma observe_already:
  assumes "new_loss s msg u" "unlatched_routes s u = []"
  shows "\<exists>rid. observe_subscription s msg u now = (s, Inr (observation ROC_kALREADY_RECOVERING rid 0))"
proof -
  have "fst (collect_unlatched (rc_active_recovery_by_market s) now (us_market_routes u) 0) = []"
    using assms(2) by (simp add: collect_unlatched_eq)
  then show ?thesis using assms(1) by (auto simp: new_loss_def observe_subscription_def Let_def case_prod_beta)
qed

lemma observe_not_unchanged:
  assumes "new_loss s msg u" "unlatched_routes s u \<noteq> []" "rc_inv s"
  shows "observe_subscription s msg u now \<noteq> (s, Inr x)"
proof
  assume o: "observe_subscription s msg u now = (s, Inr x)"
  have ms: "fst (collect_unlatched (rc_active_recovery_by_market s) now (us_market_routes u) 0) \<noteq> []"
    using assms(2) by (simp add: collect_unlatched_eq)
  have "um_find (rc_incidents s) (rc_next_recovery_id s) = None"
    using next_id_new [OF assms(3)] assms(1) by (simp add: new_loss_def um_find_None_iff)
  then have "rc_next_recovery_id s + 1 = rc_next_recovery_id s"
    using o assms(1) ms by (auto simp: new_loss_def observe_subscription_def um_emplace_def Let_def case_prod_beta split: if_splits
        dest!: arg_cong [of _ s rc_next_recovery_id])
  then show False by simp
qed

text \<open>C34. A lost sequence number of the subscription puts every routed market into recovery. Let the barrier name the
  active universe, a wire-session incident not observed before and a sequence gap, let the universe route some
  market, each market once, and let a recovery id be left. Then \<open>observe\<close> does not throw; it returns that every
  market is already recovering, changing nothing, exactly when every routed market is latched, and otherwise creates
  one recovery with the next id for exactly the markets not latched yet. Afterwards every routed market is latched,
  an earlier latch unchanged. A barrier that is not such a loss changes nothing and is answered with another code; a
  repeated one with the id of its recovery. Only a universe that routes a market twice makes it throw, and then the
  coordinator is unchanged.\<close>

theorem subscription_recovery_complete:
  assumes "rc_inv s" and "observe_subscription s msg u now = (s', r)"
  shows "(new_loss s msg u \<and> route_distinct u \<longrightarrow>
      (\<exists>x. r = Inr x \<and> ror_code x = (if unlatched_routes s u = [] then ROC_kALREADY_RECOVERING else ROC_kCREATED)
         \<and> ror_markets_affected x = length (unlatched_routes s u)
         \<and> (unlatched_routes s u = [] \<longrightarrow> s' = s)
         \<and> (unlatched_routes s u \<noteq> [] \<longrightarrow> ror_recovery_id x = rc_next_recovery_id s))
      \<and> (\<forall>route \<in> set (us_market_routes u). um_find (rc_active_recovery_by_market s') (umr_market_id route)
           = (case um_find (rc_active_recovery_by_market s) (umr_market_id route) of
                None \<Rightarrow> Some (rc_next_recovery_id s) | Some rid \<Rightarrow> Some rid)))
    \<and> (\<not> new_loss s msg u \<longrightarrow> s' = s \<and> (\<exists>x. r = Inr x \<and> ror_code x \<notin> {ROC_kCREATED, ROC_kALREADY_RECOVERING}))
    \<and> (\<forall>rid. new_loss (s\<lparr>rc_recovery_by_source := []\<rparr>) msg u
         \<and> um_find (rc_recovery_by_source s) (sbd_universe_version msg, sbd_incident msg) = Some rid
         \<longrightarrow> r = Inr (observation ROC_kDUPLICATE rid 0))
    \<and> (\<forall>e. r = Inl e \<longrightarrow> s' = s \<and> \<not> route_distinct u)"
proof (intro conjI allI impI)
  let ?act = "rc_active_recovery_by_market s"
  assume loss: "new_loss s msg u \<and> route_distinct u"
  have all: "(\<forall>route \<in> set (us_market_routes u). um_find ?act (umr_market_id route) \<noteq> None) \<longleftrightarrow> unlatched_routes s u = []"
    by (auto simp: filter_empty_conv)
  from assms show "\<exists>x. r = Inr x \<and> ror_code x = (if unlatched_routes s u = [] then ROC_kALREADY_RECOVERING else ROC_kCREATED)
         \<and> ror_markets_affected x = length (unlatched_routes s u)
         \<and> (unlatched_routes s u = [] \<longrightarrow> s' = s)
         \<and> (unlatched_routes s u \<noteq> [] \<longrightarrow> ror_recovery_id x = rc_next_recovery_id s)"
  proof (cases rule: observe_subscription_cases)
    case (unchanged x)
    then have none: "unlatched_routes s u = []" using observe_not_unchanged [of s msg u now x] loss assms by blast
    from observe_already [OF _ this, of msg now] loss assms(2) unchanged(1) none show ?thesis
      by (auto simp: observation_def)
  next
    case (created inc ms)
    have "unlatched_routes s u \<noteq> []" using observe_already [of s msg u now] loss assms(2) created(10) by (auto simp: observation_def)
    then show ?thesis using created(7,10) by (simp add: observation_def)
  qed (use loss in simp)
  from assms show "\<forall>route \<in> set (us_market_routes u). um_find (rc_active_recovery_by_market s') (umr_market_id route)
      = (case um_find ?act (umr_market_id route) of None \<Rightarrow> Some (rc_next_recovery_id s) | Some rid \<Rightarrow> Some rid)"
  proof (cases rule: observe_subscription_cases)
    case (unchanged x)
    then have "unlatched_routes s u = []" using observe_not_unchanged [of s msg u now x] loss assms by blast
    then show ?thesis using all unchanged(1) by (auto split: option.splits)
  next
    case (created inc ms)
    show ?thesis unfolding created(9)
      by (auto simp: um_find_append um_find_const created(7) image_iff simp del: map_map split: option.splits)
  qed (use loss in simp)
next
  assume "\<not> new_loss s msg u"
  from observe_not_new [OF this, of now] show "s' = s" "\<exists>x. r = Inr x \<and> ror_code x \<notin> {ROC_kCREATED, ROC_kALREADY_RECOVERING}"
    unfolding assms(2) by simp_all
next
  fix rid
  assume "new_loss (s\<lparr>rc_recovery_by_source := []\<rparr>) msg u
    \<and> um_find (rc_recovery_by_source s) (sbd_universe_version msg, sbd_incident msg) = Some rid"
  then show "r = Inr (observation ROC_kDUPLICATE rid 0)"
    using assms(2) by (auto simp: new_loss_def observe_subscription_def)
next
  fix e
  assume e: "r = Inl e"
  from assms show "s' = s" using e by (cases rule: observe_subscription_cases) simp_all
  from assms show "\<not> route_distinct u" using e by (cases rule: observe_subscription_cases) simp_all
qed

definition demo_barrier :: subscription_barrier_delivered where
  "demo_barrier = \<lparr>sbd_universe_version = 4,
     sbd_incident = \<lparr>iik_origin = IIO_kWIRE_SESSION, iik_producer_index = 0, iik_incident_id = 2\<rparr>,
     sbd_sid = 1, sbd_expected_sequence = 10, sbd_observed_sequence = 12, sbd_reason = BIR_kEXCHANGE_SEQUENCE_GAP\<rparr>"

theorem subscription_recovery_complete_witness:
  "um_find (rc_active_recovery_by_market
     (fst (observe_subscription (make_coordinator default_config) demo_barrier demo_universe 0))) 7 = Some 1"
proof -
  let ?s = "make_coordinator default_config"
  have "new_loss ?s demo_barrier demo_universe" "route_distinct demo_universe"
    by (simp_all add: new_loss_def route_distinct_def demo_barrier_def demo_simps)
  with subscription_recovery_complete [OF rc_inv_initial surjective_pairing, of default_config demo_barrier demo_universe 0]
  have "\<forall>route \<in> set (us_market_routes demo_universe).
      um_find (rc_active_recovery_by_market (fst (observe_subscription ?s demo_barrier demo_universe 0))) (umr_market_id route)
        = (case um_find (rc_active_recovery_by_market ?s) (umr_market_id route) of
             None \<Rightarrow> Some (rc_next_recovery_id ?s) | Some rid \<Rightarrow> Some rid)"
    by blast
  then show ?thesis by (simp add: demo_universe_def make_coordinator_def um_find_def)
qed

section \<open>Timeouts\<close>

definition request_deadline :: "recovery_coordinator_config \<Rightarrow> market_recovery_state \<Rightarrow> time_ns option" where
  "request_deadline config m = (case mrs_phase m of
       MRP_kREQUEST_ENQUEUED \<Rightarrow> Some (mrs_last_attempt_time m + millis (rcc_request_ack_timeout config))
     | MRP_kREQUEST_ACCEPTED \<Rightarrow> Some (mrs_last_attempt_time m + millis (rcc_snapshot_timeout config))
     | _ \<Rightarrow> None)"

lemma expired_market_cases:
  assumes "\<not> finished (mrs_phase m) \<longrightarrow> um_find active (mrs_market_id m) = Some rid"
  shows "expired_market config active rid now m =
    (case request_deadline config m of
       None \<Rightarrow> m
     | Some t \<Rightarrow> if now < t then m
         else if mrs_attempts_sent m \<ge> rcc_max_attempts config then m\<lparr>mrs_phase := MRP_kFAILED\<rparr>
         else m\<lparr>mrs_phase := MRP_kPENDING_REQUEST,
                mrs_next_attempt_time := now + millis (retry_backoff config (mrs_attempts_sent m))\<rparr>)"
  using assms
  by (cases "mrs_phase m") (simp_all add: expired_market_def expire_market_def request_deadline_def finished_def Let_def)

abbreviation overdue :: "recovery_coordinator_config \<Rightarrow> time_ns \<Rightarrow> market_recovery_state \<Rightarrow> bool" where
  "overdue config now m \<equiv> (case request_deadline config m of None \<Rightarrow> False | Some t \<Rightarrow> \<not> now < t)"

abbreviation exhausted :: "recovery_coordinator_config \<Rightarrow> market_recovery_state \<Rightarrow> bool" where
  "exhausted config m \<equiv> mrs_attempts_sent m \<ge> rcc_max_attempts config"

definition recovering_markets :: "(recovery_id, recovery_incident_state) umap \<Rightarrow> market_recovery_state list" where
  "recovering_markets incs = concat (map (\<lambda>(rid, inc). ris_market_recoveries inc) incs)"

definition count_timeouts :: "recovery_coordinator_config \<Rightarrow> time_ns \<Rightarrow> market_recovery_state list \<Rightarrow> recovery_timeout_summary" where
  "count_timeouts config now ms =
     \<lparr>rts_request_ack_timeouts = length (filter (\<lambda>m. overdue config now m \<and> mrs_phase m = MRP_kREQUEST_ENQUEUED) ms),
      rts_snapshot_timeouts = length (filter (\<lambda>m. overdue config now m \<and> mrs_phase m = MRP_kREQUEST_ACCEPTED) ms),
      rts_retries_scheduled = length (filter (\<lambda>m. overdue config now m \<and> \<not> exhausted config m) ms),
      rts_markets_failed = length (filter (\<lambda>m. overdue config now m \<and> exhausted config m) ms)\<rparr>"

definition add_summary :: "recovery_timeout_summary \<Rightarrow> recovery_timeout_summary \<Rightarrow> recovery_timeout_summary" where
  "add_summary a b = \<lparr>rts_request_ack_timeouts = rts_request_ack_timeouts a + rts_request_ack_timeouts b,
     rts_snapshot_timeouts = rts_snapshot_timeouts a + rts_snapshot_timeouts b,
     rts_retries_scheduled = rts_retries_scheduled a + rts_retries_scheduled b,
     rts_markets_failed = rts_markets_failed a + rts_markets_failed b\<rparr>"

lemma add_summary_assoc: "add_summary (add_summary a b) c = add_summary a (add_summary b c)"
  by (simp add: add_summary_def)

lemma count_timeouts_append: "count_timeouts config now (xs @ ys) = add_summary (count_timeouts config now xs) (count_timeouts config now ys)"
  by (simp add: count_timeouts_def add_summary_def)

lemma add_summary_none: "add_summary a (count_timeouts config now []) = a"
  by (simp add: count_timeouts_def add_summary_def)

lemma expire_market_counts:
  assumes "\<not> finished (mrs_phase m) \<longrightarrow> um_find active (mrs_market_id m) = Some rid"
  shows "snd (snd (expire_market config active rid now m summary)) = add_summary summary (count_timeouts config now [m])"
  using assms
  by (cases "mrs_phase m") (simp_all add: expire_market_def request_deadline_def finished_def count_timeouts_def add_summary_def Let_def)

lemma expire_markets_counts:
  assumes "\<forall>m \<in> set ms. \<not> finished (mrs_phase m) \<longrightarrow> um_find active (mrs_market_id m) = Some rid"
  shows "snd (snd (expire_markets config active rid now ms summary)) = add_summary summary (count_timeouts config now ms)"
  using assms
proof (induction ms arbitrary: summary)
  case (Cons m ms)
  then show ?case using count_timeouts_append [of config now "[m]" ms]
    by (simp add: case_prod_beta Let_def expire_market_counts add_summary_assoc)
qed (simp add: add_summary_none)

lemma expire_incidents_counts:
  assumes "\<And>rid inc m. (rid, inc) \<in> set incs \<Longrightarrow> m \<in> set (ris_market_recoveries inc) \<Longrightarrow>
    \<not> finished (mrs_phase m) \<longrightarrow> um_find active (mrs_market_id m) = Some rid"
  shows "snd (expire_incidents config active now incs summary) = add_summary summary (count_timeouts config now (recovering_markets incs))"
  using assms
proof (induction incs arbitrary: summary)
  case (Cons e incs)
  obtain rid inc where e: "e = (rid, inc)" by fastforce
  have "\<forall>m \<in> set (ris_market_recoveries inc). \<not> finished (mrs_phase m) \<longrightarrow> um_find active (mrs_market_id m) = Some rid"
    using Cons.prems [of rid inc] by (simp add: e)
  note head = expire_markets_counts [OF this]
  have tail: "snd (expire_incidents config active now incs summary) = add_summary summary (count_timeouts config now (recovering_markets incs))"
    for summary using Cons.prems by (intro Cons.IH) (meson list.set_intros(2))
  show ?case
    by (simp add: e case_prod_beta Let_def head tail recovering_markets_def count_timeouts_append add_summary_assoc)
qed (simp add: add_summary_none recovering_markets_def)

text \<open>What the check at time \<open>now\<close> makes of one market.\<close>

definition timed_out :: "recovery_coordinator_config \<Rightarrow> time_ns \<Rightarrow> market_recovery_state \<Rightarrow> market_recovery_state" where
  "timed_out config now m =
     (if \<not> overdue config now m then m
      else if exhausted config m then m\<lparr>mrs_phase := MRP_kFAILED\<rparr>
      else m\<lparr>mrs_phase := MRP_kPENDING_REQUEST,
             mrs_next_attempt_time := now + millis (retry_backoff config (mrs_attempts_sent m))\<rparr>)"

lemma timed_out_not_overdue: "\<not> overdue config now (timed_out config now m)"
  by (auto simp: timed_out_def request_deadline_def split: option.splits)

text \<open>C36. \<open>expire_timeouts\<close> leaves no overdue request behind. No incident appears or disappears and no latch changes; in
  every incident each market whose request is past its acknowledgement or snapshot deadline fails when its
  attempts are used up and is otherwise pending again, with the backoff for its attempts before the next one; every
  other market is as it was, and afterwards no market is overdue. The summary counts exactly these markets over all
  incidents: the overdue acknowledgements, the overdue snapshots, the retries scheduled and the markets failed.\<close>

theorem expire_timeouts_complete:
  assumes "rc_inv s" and "expire_timeouts s now = (s', summary)"
  shows "rel_option (\<lambda>inc inc'. ris_market_recoveries inc' = map (timed_out (rc_config s) now) (ris_market_recoveries inc))
      (um_find (rc_incidents s) rid) (um_find (rc_incidents s') rid)
    \<and> rc_active_recovery_by_market s' = rc_active_recovery_by_market s
    \<and> list_all (\<lambda>m. \<not> overdue (rc_config s) now m) (recovering_markets (rc_incidents s'))
    \<and> rts_request_ack_timeouts summary = length (filter (\<lambda>m. overdue (rc_config s) now m
         \<and> mrs_phase m = MRP_kREQUEST_ENQUEUED) (recovering_markets (rc_incidents s)))
    \<and> rts_snapshot_timeouts summary = length (filter (\<lambda>m. overdue (rc_config s) now m
         \<and> mrs_phase m = MRP_kREQUEST_ACCEPTED) (recovering_markets (rc_incidents s)))
    \<and> rts_retries_scheduled summary = length (filter (\<lambda>m. overdue (rc_config s) now m
         \<and> \<not> exhausted (rc_config s) m) (recovering_markets (rc_incidents s)))
    \<and> rts_markets_failed summary = length (filter (\<lambda>m. overdue (rc_config s) now m
         \<and> exhausted (rc_config s) m) (recovering_markets (rc_incidents s)))"
proof -
  let ?act = "rc_active_recovery_by_market s" and ?c = "rc_config s"
  let ?zero = "count_timeouts ?c now []"
  have zero: "\<lparr>rts_request_ack_timeouts = 0, rts_snapshot_timeouts = 0, rts_retries_scheduled = 0, rts_markets_failed = 0\<rparr> = ?zero"
    by (simp add: count_timeouts_def)
  have s': "s' = s\<lparr>rc_incidents := fst (expire_incidents ?c ?act now (rc_incidents s) ?zero)\<rparr>"
    and summary: "summary = snd (expire_incidents ?c ?act now (rc_incidents s) ?zero)"
    using assms(2) unfolding expire_timeouts_def zero by (simp_all add: Let_def case_prod_beta)
  have latched: "\<not> finished (mrs_phase m) \<longrightarrow> um_find ?act (mrs_market_id m) = Some rid"
    if "um_find (rc_incidents s) rid = Some inc" "m \<in> set (ris_market_recoveries inc)" for rid inc m
    using rc_invD(4) [OF assms(1) that(1)] that(2) by (simp add: incident_ok_def)
  have step: "expired_market ?c ?act rid now m = timed_out ?c now m"
    if "um_find (rc_incidents s) rid = Some inc" "m \<in> set (ris_market_recoveries inc)" for rid inc m
    using expired_market_cases [OF latched [OF that]] by (simp add: timed_out_def split: option.splits)
  have keys: "map fst (rc_incidents s') = map fst (rc_incidents s)" by (simp add: s' expire_incidents_keys)
  have markets: "\<exists>inc. um_find (rc_incidents s) rid = Some inc
      \<and> ris_market_recoveries inc' = map (timed_out ?c now) (ris_market_recoveries inc)"
    if "um_find (rc_incidents s') rid = Some inc'" for rid inc'
    using expire_incidents_find [OF that [unfolded s', simplified]] step by fastforce
  have "rel_option (\<lambda>inc inc'. ris_market_recoveries inc' = map (timed_out ?c now) (ris_market_recoveries inc))
      (um_find (rc_incidents s) rid) (um_find (rc_incidents s') rid)"
    using um_find_dom [OF keys, of rid] markets [of rid]
    by (cases "um_find (rc_incidents s') rid"; cases "um_find (rc_incidents s) rid") auto
  moreover have "um_wf (rc_incidents s')" using rc_invD(1) [OF assms(1)] keys by (simp add: um_wf_def)
  then have "list_all (\<lambda>m. \<not> overdue ?c now m) (recovering_markets (rc_incidents s'))"
    using markets um_find_eq timed_out_not_overdue by (fastforce simp: list_all_iff recovering_markets_def)
  moreover have "summary = count_timeouts ?c now (recovering_markets (rc_incidents s))"
    unfolding summary
    by (subst expire_incidents_counts) (use latched um_find_eq [OF rc_invD(1) [OF assms(1)]] in \<open>blast, simp add: add_summary_def count_timeouts_def\<close>)
  ultimately show ?thesis by (simp add: s' count_timeouts_def)
qed

definition demo_enqueued :: recovery_coordinator where
  "demo_enqueued = fst (mark_command_enqueued demo_coordinator
     \<lparr>rmi_recovery_id = 1, rmi_universe_version = 4, rmi_market_id = 7, rmi_request_attempt = 1\<rparr> 2000)"

lemma demo_enqueued_facts:
  "rc_inv demo_enqueued" "rc_config demo_enqueued = default_config"
  "um_find (rc_incidents demo_enqueued) 1 = Some inc \<Longrightarrow> ris_market_recoveries inc =
     [(new_market_recovery 7 3 0 1000)\<lparr>mrs_attempts_sent := 1, mrs_phase := MRP_kREQUEST_ENQUEUED, mrs_last_attempt_time := 2000\<rparr>]"
  "um_find (rc_incidents (fst (expire_timeouts demo_enqueued t))) 1 \<noteq> None"
proof -
  show "rc_inv demo_enqueued" unfolding demo_enqueued_def by (rule rc_inv_mark [OF demo_inv])
  note eqs = demo_enqueued_def mark_command_enqueued_def demo_coordinator_eq um_find_def find_market_def
    new_market_recovery_def store_market_def um_assign_def
  show "rc_config demo_enqueued = default_config" by (simp add: eqs)
  show "um_find (rc_incidents demo_enqueued) 1 = Some inc \<Longrightarrow> ris_market_recoveries inc =
     [(new_market_recovery 7 3 0 1000)\<lparr>mrs_attempts_sent := 1, mrs_phase := MRP_kREQUEST_ENQUEUED, mrs_last_attempt_time := 2000\<rparr>]"
    by (auto simp: eqs)
  show "um_find (rc_incidents (fst (expire_timeouts demo_enqueued t))) 1 \<noteq> None"
    by (simp add: eqs expire_timeouts_def case_prod_beta Let_def)
qed

theorem expire_timeouts_complete_witness:
  "\<exists>inc m. um_find (rc_incidents (fst (expire_timeouts demo_enqueued 2000002000))) 1 = Some inc
     \<and> ris_market_recoveries inc = [m] \<and> mrs_phase m = MRP_kPENDING_REQUEST \<and> mrs_attempts_sent m = 1"
proof -
  obtain inc' where inc': "um_find (rc_incidents (fst (expire_timeouts demo_enqueued 2000002000))) 1 = Some inc'"
    using demo_enqueued_facts(4) by blast
  have "rel_option (\<lambda>inc inc'. ris_market_recoveries inc' = map (timed_out (rc_config demo_enqueued) 2000002000) (ris_market_recoveries inc))
      (um_find (rc_incidents demo_enqueued) 1) (Some inc')"
    using expire_timeouts_complete [OF demo_enqueued_facts(1) surjective_pairing, of 2000002000 1] unfolding inc' by blast
  then obtain inc where inc: "um_find (rc_incidents demo_enqueued) 1 = Some inc"
    and all: "ris_market_recoveries inc' = map (timed_out (rc_config demo_enqueued) 2000002000) (ris_market_recoveries inc)"
    by (auto simp: option_rel_Some2)
  have "\<not> (5::u32) \<le> 1" by (simp add: word_le_nat_alt)
  then show ?thesis using all inc'
    by (auto simp: demo_enqueued_facts(3) [OF inc] timed_out_def request_deadline_def demo_enqueued_facts(2)
        default_config_def millis_def)
qed

end
