(* ===== verification/Latency_Histogram.thy ===== *)
theory Latency_Histogram
  imports Prelude
begin

text \<open>
  \<open>cpp/include/predex/utils/latency_histogram.hpp\<close>: the fixed-bucket histogram every stage of the
  pipeline uses to report its latencies. All counters saturate at the 64-bit maximum. A histogram is
  related to the list of samples it has recorded: recording and merging agree with that list exactly,
  and the reported percentile is the bound the list justifies.
\<close>

section \<open>The code\<close>

definition kLatencyBucketUpperBoundsNs :: "u64 list" where
  "kLatencyBucketUpperBoundsNs =
     [100, 250, 500, 1000, 2500, 5000, 10000, 25000, 50000, 100000, 250000, 500000, 1000000, 2500000,
      5000000, 10000000, 25000000, 50000000, 100000000, 250000000, 500000000, 1000000000]"

definition kLatencyOverflowBucket :: nat where
  "kLatencyOverflowBucket = length kLatencyBucketUpperBoundsNs"

definition kLatencyBucketCount :: nat where
  "kLatencyBucketCount = length kLatencyBucketUpperBoundsNs + 1"

record latency_histogram =
  lh_count :: u64
  lh_sum_ns :: u64
  lh_max_ns :: u64
  lh_buckets :: "u64 list"

definition empty_histogram :: latency_histogram where
  "empty_histogram = \<lparr>lh_count = 0, lh_sum_ns = 0, lh_max_ns = 0, lh_buckets = replicate kLatencyBucketCount 0\<rparr>"

definition saturating_add :: "u64 \<Rightarrow> u64 \<Rightarrow> u64" where
  "saturating_add lhs rhs = (if rhs > u64_max - lhs then u64_max else lhs + rhs)"

text \<open>\<open>std::lower_bound\<close> on the sorted bounds: the number of bounds below the value.\<close>

definition lower_bound_index :: "u64 list \<Rightarrow> u64 \<Rightarrow> nat" where
  "lower_bound_index bounds v = length (takeWhile (\<lambda>b. b < v) bounds)"

definition bucket_index :: "u64 \<Rightarrow> nat" where
  "bucket_index latency_ns =
     (let iterator = lower_bound_index kLatencyBucketUpperBoundsNs latency_ns
      in if iterator = length kLatencyBucketUpperBoundsNs then kLatencyOverflowBucket else iterator)"

definition saturating_inc :: "u64 \<Rightarrow> u64" where
  "saturating_inc c = (if c \<noteq> u64_max then c + 1 else c)"

definition histogram_record :: "u64 \<Rightarrow> latency_histogram \<Rightarrow> latency_histogram" where
  "histogram_record latency_ns h =
     (let index = bucket_index latency_ns
      in h\<lparr>lh_count := saturating_inc (lh_count h),
           lh_sum_ns := saturating_add (lh_sum_ns h) latency_ns,
           lh_max_ns := max (lh_max_ns h) latency_ns,
           lh_buckets := (lh_buckets h)[index := saturating_inc (lh_buckets h ! index)]\<rparr>)"

definition histogram_merge :: "latency_histogram \<Rightarrow> latency_histogram \<Rightarrow> latency_histogram" where
  "histogram_merge h other =
     h\<lparr>lh_count := saturating_add (lh_count h) (lh_count other),
       lh_sum_ns := saturating_add (lh_sum_ns h) (lh_sum_ns other),
       lh_max_ns := max (lh_max_ns h) (lh_max_ns other),
       lh_buckets := map2 saturating_add (lh_buckets h) (lh_buckets other)\<rparr>"

definition mean_ns :: "latency_histogram \<Rightarrow> u64" where
  "mean_ns h = (if lh_count h = 0 then 0 else lh_sum_ns h div lh_count h)"

primrec percentile_loop :: "u64 \<Rightarrow> u64 \<Rightarrow> u64 \<Rightarrow> (u64 \<times> u64) list \<Rightarrow> u64" where
  "percentile_loop target max_ns cumulative [] = max_ns"
| "percentile_loop target max_ns cumulative (e # rest) =
     (let (bound, bucket) = e; cumulative1 = saturating_add cumulative bucket
      in if cumulative1 \<ge> target then bound else percentile_loop target max_ns cumulative1 rest)"

definition percentile_target :: "u64 \<Rightarrow> u32 \<Rightarrow> u64" where
  "percentile_target count basis_points =
     (let bounded_basis_points = (ucast (min basis_points 10000) :: u64);
          quotient = count div 10000; remainder = count mod 10000
      in quotient * bounded_basis_points + (remainder * bounded_basis_points + 9999) div 10000)"

definition percentile_upper_bound :: "latency_histogram \<Rightarrow> u32 \<Rightarrow> u64" where
  "percentile_upper_bound h basis_points =
     (if lh_count h = 0 \<or> basis_points = 0 then 0
      else percentile_loop (percentile_target (lh_count h) basis_points) (lh_max_ns h) 0
             (zip kLatencyBucketUpperBoundsNs (lh_buckets h)))"

definition record_elapsed_ns :: "u64 \<Rightarrow> u64 \<Rightarrow> latency_histogram \<Rightarrow> latency_histogram" where
  "record_elapsed_ns start_ns end_ns h =
     (if start_ns = 0 \<or> end_ns < start_ns then h else histogram_record (end_ns - start_ns) h)"

section \<open>Saturating counters\<close>

definition sat :: "nat \<Rightarrow> u64" where
  "sat n = (if n < 2 ^ 64 then of_nat n else u64_max)"

lemma unat_sat: "unat (sat n) = min n (2 ^ 64 - 1)"
  by (auto simp: sat_def unat_of_nat unat_max_word)

lemma sat_eqI: "unat w = min n (2 ^ 64 - 1) \<Longrightarrow> w = sat n"
  by (simp add: word_unat_eq_iff unat_sat)

lemma unat_saturating_add: "unat (saturating_add a b) = min (unat a + unat b) (2 ^ 64 - 1)"
proof -
  have "unat (u64_max - a) = 18446744073709551615 - unat a" by (simp add: unat_sub unat_max_word)
  then have over: "b > u64_max - a \<longleftrightarrow> 18446744073709551615 - unat a < unat b" by (simp add: word_less_nat_alt)
  have a: "unat a < 18446744073709551616" by (rule unat_u64_less)
  show ?thesis
  proof (cases "b > u64_max - a")
    case True
    then show ?thesis using over a by (simp add: saturating_add_def unat_max_word)
  next
    case False
    then have le: "unat a + unat b \<le> 18446744073709551615" using over a by linarith
    then have "unat (a + b) = unat a + unat b" by (intro unat_add_no_wrap) simp
    with False le show ?thesis by (simp add: saturating_add_def)
  qed
qed

lemma saturating_add_sat: "saturating_add (sat a) (sat b) = sat (a + b)"
  by (rule sat_eqI) (auto simp: unat_saturating_add unat_sat)

lemma saturating_inc_sat: "saturating_inc (sat n) = sat (Suc n)"
proof (rule sat_eqI, cases "sat n = u64_max")
  case True
  then have "unat (sat n) = 2 ^ 64 - 1" by (simp add: unat_max_word)
  then have "2 ^ 64 - 1 \<le> n" unfolding unat_sat by simp
  with True show "unat (saturating_inc (sat n)) = min (Suc n) (2 ^ 64 - 1)"
    by (simp add: saturating_inc_def unat_max_word)
next
  case False
  have le: "unat (sat n) \<le> unat u64_max" by (simp add: unat_sat unat_max_word)
  have "unat (sat n + 1) = Suc (unat (sat n))" by (rule unat_Suc_no_wrap [OF False le])
  moreover have "n < 2 ^ 64 - 1"
  proof (rule ccontr)
    assume "\<not> n < 2 ^ 64 - 1"
    then have "unat (sat n) = unat u64_max" unfolding unat_sat by (simp add: unat_max_word)
    with False show False by (simp add: word_unat_eq_iff)
  qed
  ultimately show "unat (saturating_inc (sat n)) = min (Suc n) (2 ^ 64 - 1)"
    using False by (simp add: saturating_inc_def unat_sat)
qed

section \<open>Histograms of samples\<close>

definition histogram_of :: "u64 list \<Rightarrow> latency_histogram" where
  "histogram_of xs = fold histogram_record xs empty_histogram"

definition samples_in :: "nat \<Rightarrow> u64 list \<Rightarrow> nat" where
  "samples_in i xs = length (filter (\<lambda>x. bucket_index x = i) xs)"

lemma bucket_index_less: "bucket_index x < kLatencyBucketCount"
  unfolding bucket_index_def lower_bound_index_def kLatencyBucketCount_def kLatencyOverflowBucket_def Let_def
  using length_takeWhile_le [of "\<lambda>b. b < x" kLatencyBucketUpperBoundsNs] by auto

lemma histogram_of_eq:
  "histogram_of xs = \<lparr>lh_count = sat (length xs), lh_sum_ns = sat (sum_list (map unat xs)),
     lh_max_ns = fold (\<lambda>x m. max m x) xs 0,
     lh_buckets = map (\<lambda>i. sat (samples_in i xs)) [0..<kLatencyBucketCount]\<rparr>"
proof (induction xs rule: rev_induct)
  case Nil
  have "replicate n (0::u64) = map (\<lambda>i. 0) [0..<n]" for n by (simp add: map_replicate_const)
  then show ?case by (simp add: histogram_of_def empty_histogram_def sat_def samples_in_def)
next
  case (snoc x xs)
  have x: "x = sat (unat x)" using unat_u64_less [of x] by (simp add: sat_def)
  have "saturating_add (sat (sum_list (map unat xs))) x = sat (sum_list (map unat xs) + unat x)"
    using saturating_add_sat [of "sum_list (map unat xs)" "unat x"] x by simp
  moreover have "(map (\<lambda>i. sat (samples_in i xs)) [0..<kLatencyBucketCount])[bucket_index x := saturating_inc (sat (samples_in (bucket_index x) xs))]
      = map (\<lambda>i. sat (samples_in i (xs @ [x]))) [0..<kLatencyBucketCount]"
    using bucket_index_less [of x]
    by (intro nth_equalityI) (auto simp: nth_list_update samples_in_def saturating_inc_sat)
  ultimately show ?case using snoc bucket_index_less [of x]
    by (simp add: histogram_of_def histogram_record_def Let_def saturating_inc_sat)
qed

lemma fold_max_append: "fold (\<lambda>x m. max m x) ys (m :: u64) = max m (fold (\<lambda>x m. max m x) ys 0)"
proof (induction ys arbitrary: m)
  case Nil
  then show ?case by (simp add: max_absorb1)
next
  case (Cons y ys)
  have "max 0 y = y" by (simp add: max_absorb2)
  then show ?case using Cons [of "max m y"] Cons [of y] by (simp add: max.assoc)
qed

text \<open>Merging the histograms two threads have recorded gives exactly the histogram of all their samples
  together: count, sum, maximum and every bucket, including when counters have saturated.\<close>

theorem histogram_merge_homomorphism:
  "histogram_merge (histogram_of xs) (histogram_of ys) = histogram_of (xs @ ys)"
proof -
  have "map2 saturating_add (map (\<lambda>i. sat (samples_in i xs)) [0..<kLatencyBucketCount])
        (map (\<lambda>i. sat (samples_in i ys)) [0..<kLatencyBucketCount])
      = map (\<lambda>i. sat (samples_in i (xs @ ys))) [0..<kLatencyBucketCount]"
    by (intro nth_equalityI) (simp_all add: saturating_add_sat samples_in_def)
  then show ?thesis
    using fold_max_append [of ys "fold (\<lambda>x m. max m x) xs 0"]
    by (simp add: histogram_merge_def histogram_of_eq saturating_add_sat)
qed

section \<open>Percentiles\<close>

lemma lower_bound_index_le:
  "sorted bs \<Longrightarrow> i < length bs \<Longrightarrow> lower_bound_index bs x \<le> i \<longleftrightarrow> x \<le> bs ! i"
proof (induction bs arbitrary: i)
  case Nil
  then show ?case by simp
next
  case (Cons b bs)
  show ?case
  proof (cases "b < x")
    case True
    then show ?thesis using Cons by (cases i) (auto simp: lower_bound_index_def)
  next
    case False
    then have "x \<le> b" by simp
    moreover have "b \<le> (b # bs) ! i" using Cons.prems by (cases i) simp_all
    ultimately have "x \<le> (b # bs) ! i" by (rule order_trans)
    with False show ?thesis by (simp add: lower_bound_index_def)
  qed
qed

lemma bounds_sorted: "sorted kLatencyBucketUpperBoundsNs" "length kLatencyBucketUpperBoundsNs = 22"
  by (simp_all add: kLatencyBucketUpperBoundsNs_def)

lemma bucket_index_le:
  "i < 22 \<Longrightarrow> bucket_index x \<le> i \<longleftrightarrow> x \<le> kLatencyBucketUpperBoundsNs ! i"
  using lower_bound_index_le [OF bounds_sorted(1), of i x]
  by (auto simp: bucket_index_def kLatencyOverflowBucket_def Let_def bounds_sorted(2))

definition samples_below :: "nat \<Rightarrow> u64 list \<Rightarrow> nat" where
  "samples_below k xs = length (filter (\<lambda>x. bucket_index x < k) xs)"

lemma samples_below_Suc: "samples_below (Suc k) xs = samples_below k xs + samples_in k xs"
  by (induction xs) (auto simp: samples_below_def samples_in_def)

lemma samples_below_bound:
  "i < 22 \<Longrightarrow> samples_below (Suc i) xs = length (filter (\<lambda>x. x \<le> kLatencyBucketUpperBoundsNs ! i) xs)"
  by (simp add: samples_below_def less_Suc_eq_le bucket_index_le)

lemma percentile_loop_spec:
  assumes "length xs < 2 ^ 64" and "k \<le> 22"
    and "v = percentile_loop target mx (sat (samples_below k xs))
      (zip (drop k kLatencyBucketUpperBoundsNs) (drop k (map (\<lambda>i. sat (samples_in i xs)) [0..<kLatencyBucketCount])))"
  shows "(\<exists>i. k \<le> i \<and> i < 22 \<and> v = kLatencyBucketUpperBoundsNs ! i \<and> unat target \<le> samples_below (Suc i) xs
        \<and> (\<forall>j. k \<le> j \<and> j < i \<longrightarrow> samples_below (Suc j) xs < unat target))
    \<or> (v = mx \<and> (\<forall>j. k \<le> j \<and> j < 22 \<longrightarrow> samples_below (Suc j) xs < unat target))"
  using assms(2,3)
proof (induction "22 - k" arbitrary: k)
  case 0
  then show ?case by (simp add: bounds_sorted)
next
  case (Suc n)
  then have k: "k < 22" by simp
  let ?bs = kLatencyBucketUpperBoundsNs and ?cs = "map (\<lambda>i. sat (samples_in i xs)) [0..<kLatencyBucketCount]"
  have bs: "drop k ?bs = ?bs ! k # drop (Suc k) ?bs" using k by (simp add: bounds_sorted Cons_nth_drop_Suc)
  have "drop k ?cs = ?cs ! k # drop (Suc k) ?cs" using k
    by (intro Cons_nth_drop_Suc [symmetric]) (simp add: kLatencyBucketCount_def bounds_sorted)
  then have cs: "drop k ?cs = sat (samples_in k xs) # drop (Suc k) ?cs"
    using k by (simp add: kLatencyBucketCount_def bounds_sorted)
  have cum: "saturating_add (sat (samples_below k xs)) (sat (samples_in k xs)) = sat (samples_below (Suc k) xs)"
    by (simp add: saturating_add_sat samples_below_Suc)
  have "samples_below (Suc k) xs < 2 ^ 64"
    unfolding samples_below_def using assms(1) by (rule le_less_trans [OF length_filter_le])
  then have "unat (sat (samples_below (Suc k) xs)) = samples_below (Suc k) xs" by (simp add: unat_sat)
  then have cmp: "sat (samples_below (Suc k) xs) \<ge> target \<longleftrightarrow> unat target \<le> samples_below (Suc k) xs"
    by (simp add: word_le_nat_alt)
  have v: "v = (if unat target \<le> samples_below (Suc k) xs then ?bs ! k
      else percentile_loop target mx (sat (samples_below (Suc k) xs)) (zip (drop (Suc k) ?bs) (drop (Suc k) ?cs)))"
    using Suc.prems(2) unfolding bs cs by (simp add: cum cmp Let_def)
  show ?case
  proof (cases "unat target \<le> samples_below (Suc k) xs")
    case True
    then show ?thesis using v k by auto
  next
    case False
    then have "(\<exists>i. Suc k \<le> i \<and> i < 22 \<and> v = ?bs ! i \<and> unat target \<le> samples_below (Suc i) xs
          \<and> (\<forall>j. Suc k \<le> j \<and> j < i \<longrightarrow> samples_below (Suc j) xs < unat target))
        \<or> (v = mx \<and> (\<forall>j. Suc k \<le> j \<and> j < 22 \<longrightarrow> samples_below (Suc j) xs < unat target))"
      using v k Suc.hyps(2) by (intro Suc.hyps(1)) simp_all
    moreover have "samples_below (Suc j) xs < unat target" if "k \<le> j" "\<not> Suc k \<le> j" for j
      using that False by (metis le_antisym not_less_eq_eq linorder_not_le)
    ultimately show ?thesis by (metis Suc_leD)
  qed
qed

definition percentile_rank :: "nat \<Rightarrow> nat \<Rightarrow> nat" where
  "percentile_rank n bp = (n * bp + 9999) div 10000"

lemma percentile_target_eq:
  assumes "unat bp \<le> 10000"
  shows "unat (percentile_target c bp) = percentile_rank (unat c) (unat bp)"
proof -
  let ?b = "ucast bp :: u64" and ?q = "unat c div 10000" and ?r = "unat c mod 10000"
  have "unat bp < 2 ^ 64" using unat_u32_less [of bp] by simp
  then have "take_bit 64 (unat bp) = unat bp" by (rule take_bit_nat_eq_self)
  then have b: "unat ?b = unat bp" by (simp add: unsigned_ucast_eq)
  have mn: "min bp 10000 = bp" using assms by (simp add: min_def word_le_nat_alt)
  have "?q * unat bp \<le> ?q * 10000" using assms by simp
  also have "\<dots> \<le> unat c" by simp
  finally have qb: "?q * unat bp \<le> unat c" .
  have r: "?r * unat bp \<le> 9999 * 10000" using assms by (intro mult_le_mono) simp_all
  have c: "unat c < 18446744073709551616" by (rule unat_u64_less)
  have 1: "unat (c div 10000 * ?b) = ?q * unat bp"
    using qb c b by (simp add: unat_word_ariths unat_div)
  have 2: "unat (c mod 10000 * ?b) = ?r * unat bp"
    using r b by (simp add: unat_word_ariths unat_mod)
  have 3: "unat (c mod 10000 * ?b + 9999) = ?r * unat bp + 9999"
    using r by (subst unat_add_no_wrap) (simp_all add: 2)
  have 4: "unat ((c mod 10000 * ?b + 9999) div 10000) = (?r * unat bp + 9999) div 10000"
    by (simp add: unat_div 3)
  have le: "(?r * unat bp + 9999) div 10000 \<le> 9999 + ?r" using r by linarith
  have split: "percentile_rank (unat c) (unat bp) = ?q * unat bp + (?r * unat bp + 9999) div 10000"
  proof -
    have "n * b + 9999 = (r * b + 9999) + (q * b) * 10000" if "n = q * 10000 + r" for n b q r :: nat
      unfolding that by (simp add: algebra_simps)
    from this [of "unat c" ?q ?r "unat bp"]
    have "unat c * unat bp + 9999 = (?r * unat bp + 9999) + (?q * unat bp) * 10000" by simp
    then have "percentile_rank (unat c) (unat bp) = ((?r * unat bp + 9999) + (?q * unat bp) * 10000) div 10000"
      by (simp only: percentile_rank_def)
    also have "\<dots> = ?q * unat bp + (?r * unat bp + 9999) div 10000"
      by (subst div_mult_self1) (simp_all only: numeral_neq_zero not_False_eq_True)
    finally show ?thesis .
  qed
  have "?r * unat bp \<le> ?r * 10000" using assms by simp
  then have "(?r * unat bp + 9999) div 10000 \<le> ?r" by linarith
  then have "?q * unat bp + (?r * unat bp + 9999) div 10000 \<le> unat c"
  proof -
    have "?q * unat bp \<le> ?q * 10000" using assms by simp
    moreover have "unat c = ?q * 10000 + ?r" by simp
    ultimately show ?thesis using \<open>(?r * unat bp + 9999) div 10000 \<le> ?r\<close> by linarith
  qed
  then have "unat (percentile_target c bp) = ?q * unat bp + (?r * unat bp + 9999) div 10000"
    unfolding percentile_target_def Let_def mn using c
    by (subst unat_add_no_wrap) (simp_all add: 1 4)
  with split show ?thesis by simp
qed

text \<open>For a histogram of fewer than \<open>2 ^ 64\<close> samples, \<open>percentile_upper_bound\<close> returns a value that at
  least the requested share of the samples (in basis points, rounded up) do not exceed, and it is the least
  such bucket bound: at every smaller bucket bound the share is not yet reached. The rank is computed
  exactly although the product of count and basis points may exceed 64 bits.\<close>

theorem percentile_upper_bound_correct:
  assumes "length xs < 2 ^ 64" and "xs \<noteq> []" and "0 < unat bp" and "unat bp \<le> 10000"
  shows "let v = percentile_upper_bound (histogram_of xs) bp; rank = percentile_rank (length xs) (unat bp)
    in rank \<le> length (filter (\<lambda>x. x \<le> v) xs)
       \<and> (\<forall>b \<in> set kLatencyBucketUpperBoundsNs. b < v \<longrightarrow> length (filter (\<lambda>x. x \<le> b) xs) < rank)"
proof -
  let ?bs = kLatencyBucketUpperBoundsNs
  define v where "v = percentile_upper_bound (histogram_of xs) bp"
  define mx where "mx = fold (\<lambda>x m. max m x) xs (0::u64)"
  define target where "target = percentile_target (sat (length xs)) bp"
  have len: "unat (sat (length xs)) = length xs" using assms(1) by (simp add: unat_sat)
  then have nz: "sat (length xs) \<noteq> 0" using assms(2) by (metis length_0_conv unsigned_0)
  have bp: "bp \<noteq> 0" using assms(3) by auto
  have rank: "unat target = percentile_rank (length xs) (unat bp)"
    unfolding target_def by (simp add: percentile_target_eq [OF assms(4)] len)
  have zero: "(0::u64) = sat (samples_below 0 xs)" by (simp add: samples_below_def sat_def)
  have "v = percentile_loop target mx (sat (samples_below 0 xs))
      (zip (drop 0 ?bs) (drop 0 (map (\<lambda>i. sat (samples_in i xs)) [0..<kLatencyBucketCount])))"
    using nz bp unfolding v_def percentile_upper_bound_def histogram_of_eq target_def mx_def zero [symmetric] by simp
  from percentile_loop_spec [OF assms(1) _ this]
  have v: "(\<exists>i < 22. v = ?bs ! i \<and> unat target \<le> samples_below (Suc i) xs
        \<and> (\<forall>j < i. samples_below (Suc j) xs < unat target))
    \<or> (v = mx \<and> (\<forall>j < 22. samples_below (Suc j) xs < unat target))"
    by auto
  have below: "length (filter (\<lambda>x. x \<le> ?bs ! j) xs) = samples_below (Suc j) xs" if "j < 22" for j
    using samples_below_bound [OF that] by simp
  have max_ge: "x \<le> mx" if "x \<in> set xs" for x
    using that unfolding mx_def
  proof (induction xs)
    case (Cons y ys)
    have "fold (\<lambda>x m. max m x) (y # ys) 0 = max y (fold (\<lambda>x m. max m x) ys 0)"
      using fold_max_append [of ys "max 0 y"] by (simp add: max_absorb2)
    with Cons show ?case by (auto simp: le_max_iff_disj)
  qed simp
  have rank_le: "percentile_rank (length xs) (unat bp) \<le> length xs"
  proof -
    have "length xs * unat bp + 9999 < Suc (length xs) * 10000"
      using mult_le_mono2 [OF assms(4), of "length xs"] by (simp only: mult_Suc)
    then have "percentile_rank (length xs) (unat bp) < Suc (length xs)"
      unfolding percentile_rank_def by (rule less_mult_imp_div_less)
    then show ?thesis by simp
  qed
  have "unat target \<le> length (filter (\<lambda>x. x \<le> v) xs)"
    using v
  proof
    assume "\<exists>i < 22. v = ?bs ! i \<and> unat target \<le> samples_below (Suc i) xs
        \<and> (\<forall>j < i. samples_below (Suc j) xs < unat target)"
    then show ?thesis using below by auto
  next
    assume "v = mx \<and> (\<forall>j < 22. samples_below (Suc j) xs < unat target)"
    then have "filter (\<lambda>x. x \<le> v) xs = xs" using max_ge by (simp add: filter_id_conv)
    then show ?thesis using rank_le rank by simp
  qed
  moreover have "length (filter (\<lambda>x. x \<le> b) xs) < unat target" if b: "b \<in> set ?bs" and "b < v" for b
  proof -
    obtain j where j: "j < 22" "b = ?bs ! j" using b by (auto simp: in_set_conv_nth bounds_sorted)
    have "j < i" if "v = ?bs ! i" "i < 22" for i
    proof (rule ccontr)
      assume "\<not> j < i"
      then have "?bs ! i \<le> ?bs ! j" using j that by (intro sorted_nth_mono [OF bounds_sorted(1)]) (simp_all add: bounds_sorted)
      with \<open>b < v\<close> j that show False by simp
    qed
    then show ?thesis using v below [OF j(1)] j by auto
  qed
  ultimately show ?thesis unfolding Let_def v_def [symmetric] rank by blast
qed

theorem percentile_upper_bound_correct_witness:
  "percentile_rank (length [90, 200, 400 :: u64]) (unat (5000 :: u32)) \<le> length (filter (\<lambda>x. x \<le> percentile_upper_bound (histogram_of [90, 200, 400]) 5000)
     [90, 200, 400 :: u64])"
proof -
  have "length [90, 200, 400 :: u64] < 2 ^ 64" "[90, 200, 400 :: u64] \<noteq> []"
    "0 < unat (5000 :: u32)" "unat (5000 :: u32) \<le> 10000" by simp_all
  from percentile_upper_bound_correct [OF this] show ?thesis unfolding Let_def by (rule conjunct1)
qed

end
