(* ===== verification/Router.thy ===== *)
theory Router
  imports Control_Types Bounded_Queue Latency_Histogram
begin

text \<open>
  \<open>cpp/include/predex/router/router.hpp\<close> and \<open>cpp/src/router/router.cpp\<close>: the stage between the wire
  session and the shards. It forwards frames to the queue of their shard, hands a frame it cannot deliver
  to the logger or back to the pool, and delivers invalidation barriers, which must not be lost: a barrier
  that does not fit is kept and blocks the router until it is flushed.

  The queues are the bounded queues of \<open>Bounded_Queue\<close>, a null pointer being \<open>None\<close>. The two readings of the
  monotonic clock in \<open>route_frame\<close> are arguments.
\<close>

section \<open>State\<close>

record channel_telemetry =
  ct_channel :: u8
  ct_frames_observed :: u64
  ct_sequence_gaps :: u64
  ct_duplicate_sequences :: u64
  ct_stale_sequences :: u64
  ct_intentionally_filtered :: u64
  ct_logger_only_frames :: u64
  ct_downstream_delivery_losses :: u64

definition make_channel_telemetry :: "channel_telemetry list" where
  "make_channel_telemetry = map (\<lambda>c. \<lparr>ct_channel = c, ct_frames_observed = 0, ct_sequence_gaps = 0,
     ct_duplicate_sequences = 0, ct_stale_sequences = 0, ct_intentionally_filtered = 0,
     ct_logger_only_frames = 0, ct_downstream_delivery_losses = 0\<rparr>) [1, 2, 3]"

record shard_backpressure =
  sbp_shard_index :: u64
  sbp_affinity_key :: affinity_key
  sbp_market_id :: market_id
  sbp_event_id :: event_id

record router_handle_leak =
  rhl_universe_version :: u64
  rhl_sid :: u64
  rhl_sequence :: u64
  rhl_pool_index :: u32
  rhl_pool_generation :: u32
  rhl_shard_index :: u64
  rhl_market_id :: market_id
  rhl_event_id :: event_id

record router_telemetry =
  rt_total_frames_seen :: u64
  rt_frames_to_shards :: u64
  rt_frames_to_logger :: u64
  rt_frames_recycled :: u64
  rt_market_barriers_received :: u64
  rt_market_barriers_delivered :: u64
  rt_subscription_barriers_received :: u64
  rt_subscription_barriers_delivered :: u64
  rt_barriers_deferred :: u64
  rt_subscription_recovery_facts_deferred :: u64
  rt_shard_queue_depth_high_water :: u64
  rt_channel_stats :: "channel_telemetry list"
  rt_wire_to_router_latency :: "latency_histogram list"
  rt_router_service_latency :: "latency_histogram list"

datatype router_to_control =
    RC_ShardBackpressure shard_backpressure
  | RC_RouterTelemetry router_telemetry
  | RC_RouterHandleLeak router_handle_leak
  | RC_SubscriptionBarrierDelivered subscription_barrier_delivered

datatype router_route_result = RRR_kCOMPLETED | RRR_kBLOCKED | RRR_kFAULTED
datatype shard_enqueue_result = SER_kENQUEUED | SER_kFULL | SER_kINVALID_TARGET
datatype barrier_delivery_result = BDR_kDELIVERED | BDR_kBLOCKED | BDR_kINVALID_TARGET

datatype pending_barrier =
    PendingMarketBarrier market_invalidation_barrier
  | PendingSubscriptionBarrier subscription_invalidation_barrier nat

record router =
  ro_shard_queues :: "market_data_path_message bqueue option list"
  ro_logger_queue :: "frame_handle bqueue option"
  ro_control_queue :: "router_to_control bqueue option"
  ro_recycle_queue :: "frame_handle bqueue option"
  ro_pending_barrier :: "pending_barrier option"
  ro_pending_fact :: "subscription_barrier_delivered option"
  ro_next_incident_id :: u64
  ro_telemetry_send_threshold :: u64
  ro_current_frame_count :: u64
  ro_total_frames_seen :: u64
  ro_total_frames_to_shards :: u64
  ro_total_frames_to_logger :: u64
  ro_total_frames_recycled :: u64
  ro_market_barriers_received :: u64
  ro_market_barriers_delivered :: u64
  ro_subscription_barriers_received :: u64
  ro_subscription_barriers_delivered :: u64
  ro_barriers_deferred :: u64
  ro_facts_deferred :: u64
  ro_queue_depth_high_water :: u64
  ro_channel_stats :: "channel_telemetry list"
  ro_wire_to_router_latency :: "latency_histogram list"
  ro_router_service_latency :: "latency_histogram list"

definition kFRAMETHRESHOLD :: u64 where "kFRAMETHRESHOLD = 1000"

definition make_router ::
  "market_data_path_message bqueue option list \<Rightarrow> frame_handle bqueue option \<Rightarrow> router_to_control bqueue option
   \<Rightarrow> frame_handle bqueue option \<Rightarrow> router" where
  "make_router shards logger control recycle = \<lparr>ro_shard_queues = shards, ro_logger_queue = logger,
     ro_control_queue = control, ro_recycle_queue = recycle, ro_pending_barrier = None, ro_pending_fact = None,
     ro_next_incident_id = 1, ro_telemetry_send_threshold = kFRAMETHRESHOLD, ro_current_frame_count = 0,
     ro_total_frames_seen = 0, ro_total_frames_to_shards = 0, ro_total_frames_to_logger = 0,
     ro_total_frames_recycled = 0, ro_market_barriers_received = 0, ro_market_barriers_delivered = 0,
     ro_subscription_barriers_received = 0, ro_subscription_barriers_delivered = 0, ro_barriers_deferred = 0,
     ro_facts_deferred = 0, ro_queue_depth_high_water = 0, ro_channel_stats = make_channel_telemetry,
     ro_wire_to_router_latency = replicate kMarketDataChannelCount empty_histogram,
     ro_router_service_latency = replicate kMarketDataChannelCount empty_histogram\<rparr>"

section \<open>Telemetry\<close>

definition send_telemetry :: "router_to_control \<Rightarrow> router \<Rightarrow> router \<times> bool" where
  "send_telemetry t r = (let (q, ok) = ptr_push t (ro_control_queue r) in (r\<lparr>ro_control_queue := q\<rparr>, ok))"

fun channel_stats_index :: "frame_kind \<Rightarrow> nat option" where
  "channel_stats_index FK_kORDERBOOK_SNAPSHOT = Some 0"
| "channel_stats_index FK_kORDERBOOK_DELTA = Some 0"
| "channel_stats_index FK_kTRADE = Some 1"
| "channel_stats_index FK_kLIFECYCLE = Some 2"
| "channel_stats_index FK_kSUBSCRIPTION_ACK = None"
| "channel_stats_index FK_kUNSUBSCRIBED = None"
| "channel_stats_index FK_kHEARTBEAT = None"
| "channel_stats_index FK_kUNKNOWN = None"

text \<open>\<open>if (auto* stats = channel_stats(kind); stats != nullptr) ...\<close>\<close>

definition update_channel :: "frame_kind \<Rightarrow> (channel_telemetry \<Rightarrow> channel_telemetry) \<Rightarrow> router \<Rightarrow> router" where
  "update_channel kind f r = (case channel_stats_index kind of None \<Rightarrow> r
     | Some i \<Rightarrow> r\<lparr>ro_channel_stats := (ro_channel_stats r)[i := f (ro_channel_stats r ! i)]\<rparr>)"

definition update_high_water :: "market_data_path_message bqueue \<Rightarrow> router \<Rightarrow> router" where
  "update_high_water queue r =
     r\<lparr>ro_queue_depth_high_water := max (ro_queue_depth_high_water r) (of_nat (bq_size queue))\<rparr>"

definition maybe_send_periodic_telemetry :: "router \<Rightarrow> router" where
  "maybe_send_periodic_telemetry r =
     (if ro_telemetry_send_threshold r = 0 \<or> ro_current_frame_count r < ro_telemetry_send_threshold r then r
      else let telemetry = RC_RouterTelemetry \<lparr>
             rt_total_frames_seen = ro_total_frames_seen r, rt_frames_to_shards = ro_total_frames_to_shards r,
             rt_frames_to_logger = ro_total_frames_to_logger r, rt_frames_recycled = ro_total_frames_recycled r,
             rt_market_barriers_received = ro_market_barriers_received r,
             rt_market_barriers_delivered = ro_market_barriers_delivered r,
             rt_subscription_barriers_received = ro_subscription_barriers_received r,
             rt_subscription_barriers_delivered = ro_subscription_barriers_delivered r,
             rt_barriers_deferred = ro_barriers_deferred r,
             rt_subscription_recovery_facts_deferred = ro_facts_deferred r,
             rt_shard_queue_depth_high_water = ro_queue_depth_high_water r,
             rt_channel_stats = ro_channel_stats r,
             rt_wire_to_router_latency = ro_wire_to_router_latency r,
             rt_router_service_latency = ro_router_service_latency r\<rparr>;
               (r1, _) = send_telemetry telemetry r
           in r1\<lparr>ro_current_frame_count := 0\<rparr>)"

definition report_handle_leak :: "frame_handle \<Rightarrow> router \<Rightarrow> router" where
  "report_handle_leak h r = fst (send_telemetry (RC_RouterHandleLeak
     \<lparr>rhl_universe_version = fh_universe_version h, rhl_sid = ucast (fh_sid h), rhl_sequence = fh_sequence h,
      rhl_pool_index = fh_pool_index h, rhl_pool_generation = fh_pool_generation h,
      rhl_shard_index = ucast (fh_shard_index h), rhl_market_id = fh_market_id h, rhl_event_id = fh_event_id h\<rparr>) r)"

section \<open>Frames\<close>

text \<open>\<open>router_to_shard_queues[i]\<close>, when the index is in range and the pointer is not null.\<close>

definition shard_queue :: "router \<Rightarrow> nat \<Rightarrow> market_data_path_message bqueue option" where
  "shard_queue r i = (if i < length (ro_shard_queues r) then ro_shard_queues r ! i else None)"

definition push_shard :: "nat \<Rightarrow> market_data_path_message \<Rightarrow> router \<Rightarrow> router \<times> shard_enqueue_result" where
  "push_shard i m r =
     (case shard_queue r i of
        None \<Rightarrow> (r, SER_kINVALID_TARGET)
      | Some q \<Rightarrow>
          (let (q', ok) = bq_push m q;
               r1 = r\<lparr>ro_shard_queues := (ro_shard_queues r)[i := Some q']\<rparr>
           in if ok then (update_high_water q' r1, SER_kENQUEUED) else (r1, SER_kFULL)))"

definition try_route_to_shard :: "frame_handle \<Rightarrow> router \<Rightarrow> router \<times> shard_enqueue_result" where
  "try_route_to_shard h r = push_shard (unat (fh_shard_index h)) (PathFrame h) r"

definition try_route_to_logger :: "frame_handle \<Rightarrow> router \<Rightarrow> router \<times> bool" where
  "try_route_to_logger h r = (let (q, ok) = ptr_push h (ro_logger_queue r) in (r\<lparr>ro_logger_queue := q\<rparr>, ok))"

definition try_recycle :: "frame_handle \<Rightarrow> router \<Rightarrow> router \<times> bool" where
  "try_recycle h r = (let (q, ok) = ptr_push h (ro_recycle_queue r) in (r\<lparr>ro_recycle_queue := q\<rparr>, ok))"

definition terminal_handoff :: "frame_handle \<Rightarrow> router \<Rightarrow> router \<times> bool" where
  "terminal_handoff h r =
     (let (r1, logged) = try_route_to_logger h r
      in if logged
         then (update_channel (fh_kind h)
                 (\<lambda>s. s\<lparr>ct_logger_only_frames := ct_logger_only_frames s + 1\<rparr>)
                 (r1\<lparr>ro_total_frames_to_logger := ro_total_frames_to_logger r1 + 1\<rparr>), True)
         else let (r2, recycled) = try_recycle h r1
         in if recycled then (r2\<lparr>ro_total_frames_recycled := ro_total_frames_recycled r2 + 1\<rparr>, True)
            else (report_handle_leak h r2, False))"

section \<open>Barriers\<close>

definition route_market_barrier :: "market_invalidation_barrier \<Rightarrow> router \<Rightarrow> router \<times> barrier_delivery_result" where
  "route_market_barrier b r =
     (if mib_reason b = BIR_kNONE then (r, BDR_kINVALID_TARGET)
      else case push_shard (unat (mib_shard_index b)) (PathMarketBarrier b) r of
        (r1, SER_kINVALID_TARGET) \<Rightarrow> (r1, BDR_kINVALID_TARGET)
      | (r1, SER_kFULL) \<Rightarrow> (r1, BDR_kBLOCKED)
      | (r1, SER_kENQUEUED) \<Rightarrow> (r1, BDR_kDELIVERED))"

text \<open>The loop over the shards from \<open>next_shard_idx\<close> on; \<open>todo\<close> counts the shards left.\<close>

primrec deliver_from ::
  "subscription_invalidation_barrier \<Rightarrow> nat \<Rightarrow> nat \<Rightarrow> router \<Rightarrow> router \<times> nat \<times> barrier_delivery_result" where
  "deliver_from b 0 next_shard_idx r = (r, next_shard_idx, BDR_kDELIVERED)"
| "deliver_from b (Suc todo) next_shard_idx r =
     (case push_shard next_shard_idx (PathSubscriptionBarrier b) r of
        (r1, SER_kINVALID_TARGET) \<Rightarrow> (r1, next_shard_idx, BDR_kINVALID_TARGET)
      | (r1, SER_kFULL) \<Rightarrow> (r1, next_shard_idx, BDR_kBLOCKED)
      | (r1, SER_kENQUEUED) \<Rightarrow> deliver_from b todo (Suc next_shard_idx) r1)"

definition route_subscription_barrier ::
  "subscription_invalidation_barrier \<Rightarrow> nat \<Rightarrow> router \<Rightarrow> router \<times> nat \<times> barrier_delivery_result" where
  "route_subscription_barrier b next_shard_idx r =
     (if sib_reason b = BIR_kNONE \<or> ro_shard_queues r = [] \<or> next_shard_idx > length (ro_shard_queues r)
      then (r, next_shard_idx, BDR_kINVALID_TARGET)
      else deliver_from b (length (ro_shard_queues r) - next_shard_idx) next_shard_idx r)"

definition delivered_fact :: "subscription_invalidation_barrier \<Rightarrow> subscription_barrier_delivered" where
  "delivered_fact b = \<lparr>sbd_universe_version = sib_universe_version b, sbd_incident = sib_incident b,
     sbd_sid = sib_sid b, sbd_expected_sequence = sib_expected_sequence b,
     sbd_observed_sequence = sib_observed_sequence b, sbd_reason = sib_reason b\<rparr>"

definition finish_subscription_barrier ::
  "subscription_invalidation_barrier \<Rightarrow> router \<Rightarrow> router \<times> router_route_result" where
  "finish_subscription_barrier b r =
     (let r1 = r\<lparr>ro_subscription_barriers_delivered := ro_subscription_barriers_delivered r + 1\<rparr>
      in if ro_control_queue r1 = None then (r1, RRR_kFAULTED)
         else let (r2, ok) = send_telemetry (RC_SubscriptionBarrierDelivered (delivered_fact b)) r1
         in if ok then (r2, RRR_kCOMPLETED)
            else (r2\<lparr>ro_pending_fact := Some (delivered_fact b), ro_facts_deferred := ro_facts_deferred r2 + 1\<rparr>,
                  RRR_kBLOCKED))"

definition begin_market_barrier :: "market_invalidation_barrier \<Rightarrow> router \<Rightarrow> router \<times> router_route_result" where
  "begin_market_barrier b r =
     (case route_market_barrier b r of
        (r1, BDR_kDELIVERED) \<Rightarrow>
          (r1\<lparr>ro_market_barriers_delivered := ro_market_barriers_delivered r1 + 1\<rparr>, RRR_kCOMPLETED)
      | (r1, BDR_kBLOCKED) \<Rightarrow>
          (r1\<lparr>ro_pending_barrier := Some (PendingMarketBarrier b), ro_barriers_deferred := ro_barriers_deferred r1 + 1\<rparr>,
           RRR_kBLOCKED)
      | (r1, BDR_kINVALID_TARGET) \<Rightarrow> (r1, RRR_kFAULTED))"

definition begin_subscription_barrier ::
  "subscription_invalidation_barrier \<Rightarrow> router \<Rightarrow> router \<times> router_route_result" where
  "begin_subscription_barrier b r =
     (case route_subscription_barrier b 0 r of
        (r1, _, BDR_kDELIVERED) \<Rightarrow> finish_subscription_barrier b r1
      | (r1, next_shard_idx, BDR_kBLOCKED) \<Rightarrow>
          (r1\<lparr>ro_pending_barrier := Some (PendingSubscriptionBarrier b next_shard_idx),
              ro_barriers_deferred := ro_barriers_deferred r1 + 1\<rparr>, RRR_kBLOCKED)
      | (r1, _, BDR_kINVALID_TARGET) \<Rightarrow> (r1, RRR_kFAULTED))"

section \<open>Entry points\<close>

fun is_book_frame :: "frame_kind \<Rightarrow> bool" where
  "is_book_frame FK_kORDERBOOK_DELTA = True"
| "is_book_frame FK_kORDERBOOK_SNAPSHOT = True"
| "is_book_frame _ = False"

definition loss_barrier :: "frame_handle \<Rightarrow> u64 \<Rightarrow> market_invalidation_barrier" where
  "loss_barrier h incident_id =
     \<lparr>mib_universe_version = fh_universe_version h,
      mib_incident = \<lparr>iik_origin = IIO_kROUTER, iik_producer_index = 0, iik_incident_id = incident_id\<rparr>,
      mib_sid = fh_sid h, mib_sequence = fh_sequence h, mib_market_id = fh_market_id h, mib_event_id = fh_event_id h,
      mib_shard_index = fh_shard_index h, mib_shard_event_index = fh_shard_event_index h,
      mib_event_market_index = fh_event_market_index h, mib_reason = BIR_kROUTER_TO_SHARD_DELIVERY_LOSS\<rparr>"

definition record_channel_latency ::
  "((latency_histogram list \<Rightarrow> latency_histogram list) \<Rightarrow> router \<Rightarrow> router) \<Rightarrow> nat \<Rightarrow> u64 \<Rightarrow> u64 \<Rightarrow> router \<Rightarrow> router" where
  "record_channel_latency upd i start_ns end_ns r =
     (if i < kMarketDataChannelCount then upd (\<lambda>hs. hs[i := record_elapsed_ns start_ns end_ns (hs ! i)]) r else r)"

definition route_frame :: "u64 \<Rightarrow> u64 \<Rightarrow> frame_handle \<Rightarrow> router \<Rightarrow> router \<times> router_route_result" where
  "route_frame dequeue_ts publish_ts handle r =
     (let channel = market_data_channel_index (fh_kind handle);
          r1 = record_channel_latency ro_wire_to_router_latency_update channel (fh_wire_publish_ts_ns handle) dequeue_ts r;
          r2 = r1\<lparr>ro_total_frames_seen := ro_total_frames_seen r1 + 1,
                  ro_current_frame_count := ro_current_frame_count r1 + 1\<rparr>;
          r3 = update_channel (fh_kind handle) (\<lambda>s. s\<lparr>ct_frames_observed := ct_frames_observed s + 1\<rparr>) r2;
          routed = handle\<lparr>fh_router_publish_ts_ns := publish_ts\<rparr>;
          r4 = record_channel_latency ro_router_service_latency_update channel dequeue_ts publish_ts r3
      in case try_route_to_shard routed r4 of
        (r5, SER_kENQUEUED) \<Rightarrow>
          (maybe_send_periodic_telemetry (r5\<lparr>ro_total_frames_to_shards := ro_total_frames_to_shards r5 + 1\<rparr>), RRR_kCOMPLETED)
      | (r5, SER_kFULL) \<Rightarrow>
          (let r6 = update_channel (fh_kind handle)
                      (\<lambda>s. s\<lparr>ct_downstream_delivery_losses := ct_downstream_delivery_losses s + 1\<rparr>) r5;
               (r7, _) = send_telemetry (RC_ShardBackpressure \<lparr>sbp_shard_index = ucast (fh_shard_index handle),
                           sbp_affinity_key = fh_affinity_key handle, sbp_market_id = fh_market_id handle,
                           sbp_event_id = fh_event_id handle\<rparr>) r6;
               (r8, handed) = terminal_handoff routed r7
           in if \<not> handed then (maybe_send_periodic_telemetry r8, RRR_kFAULTED)
              else if \<not> is_book_frame (fh_kind handle) then (maybe_send_periodic_telemetry r8, RRR_kCOMPLETED)
              else let barrier = loss_barrier handle (ro_next_incident_id r8);
                       (r9, result) = begin_market_barrier barrier
                         (r8\<lparr>ro_next_incident_id := ro_next_incident_id r8 + 1\<rparr>)
                   in (maybe_send_periodic_telemetry r9, result))
      | (r5, SER_kINVALID_TARGET) \<Rightarrow>
          (maybe_send_periodic_telemetry (fst (terminal_handoff routed r5)), RRR_kFAULTED))"

definition route_message :: "u64 \<Rightarrow> u64 \<Rightarrow> market_data_path_message \<Rightarrow> router \<Rightarrow> router \<times> router_route_result" where
  "route_message dequeue_ts publish_ts message r =
     (if ro_pending_barrier r \<noteq> None \<or> ro_pending_fact r \<noteq> None then (r, RRR_kBLOCKED)
      else case message of
        PathFrame h \<Rightarrow> route_frame dequeue_ts publish_ts h r
      | PathMarketBarrier b \<Rightarrow>
          begin_market_barrier b (r\<lparr>ro_market_barriers_received := ro_market_barriers_received r + 1\<rparr>)
      | PathSubscriptionBarrier b \<Rightarrow>
          begin_subscription_barrier b (r\<lparr>ro_subscription_barriers_received := ro_subscription_barriers_received r + 1\<rparr>))"

definition flush_pending_barrier :: "router \<Rightarrow> router \<times> router_route_result" where
  "flush_pending_barrier r =
     (case ro_pending_fact r of
        Some f \<Rightarrow>
          (let (r1, ok) = send_telemetry (RC_SubscriptionBarrierDelivered f) r
           in if \<not> ok then (r1, RRR_kBLOCKED) else (r1\<lparr>ro_pending_fact := None\<rparr>, RRR_kCOMPLETED))
      | None \<Rightarrow>
          (case ro_pending_barrier r of
             None \<Rightarrow> (r, RRR_kCOMPLETED)
           | Some (PendingMarketBarrier b) \<Rightarrow>
               (case route_market_barrier b r of
                  (r1, BDR_kDELIVERED) \<Rightarrow>
                    (r1\<lparr>ro_market_barriers_delivered := ro_market_barriers_delivered r1 + 1, ro_pending_barrier := None\<rparr>,
                     RRR_kCOMPLETED)
                | (r1, BDR_kBLOCKED) \<Rightarrow> (r1, RRR_kBLOCKED)
                | (r1, BDR_kINVALID_TARGET) \<Rightarrow> (r1, RRR_kFAULTED))
           | Some (PendingSubscriptionBarrier b next_shard_idx) \<Rightarrow>
               (case route_subscription_barrier b next_shard_idx r of
                  (r1, _, BDR_kDELIVERED) \<Rightarrow> finish_subscription_barrier b (r1\<lparr>ro_pending_barrier := None\<rparr>)
                | (r1, k, BDR_kBLOCKED) \<Rightarrow>
                    (r1\<lparr>ro_pending_barrier := Some (PendingSubscriptionBarrier b k)\<rparr>, RRR_kBLOCKED)
                | (r1, k, BDR_kINVALID_TARGET) \<Rightarrow>
                    (r1\<lparr>ro_pending_barrier := Some (PendingSubscriptionBarrier b k)\<rparr>, RRR_kFAULTED))))"

end
