(* ===== verification/Router_Properties.thy ===== *)
theory Router_Properties
  imports Router "HOL-Library.Multiset"
begin

text \<open>
  What the router guarantees: every frame has exactly one owner afterwards, a lost book frame is always
  followed by an invalidation barrier for its market, and a subscription barrier reaches every shard exactly
  once, in whatever way the consumers drain their queues in between.
\<close>

section \<open>Frames of the telemetry operations\<close>

definition routing :: "router \<Rightarrow> market_data_path_message bqueue option list \<times> frame_handle bqueue option
    \<times> frame_handle bqueue option \<times> pending_barrier option \<times> subscription_barrier_delivered option" where
  "routing r = (ro_shard_queues r, ro_logger_queue r, ro_recycle_queue r, ro_pending_barrier r, ro_pending_fact r)"

lemma routing_eq:
  assumes "routing r = routing s"
  shows "ro_shard_queues r = ro_shard_queues s" "ro_logger_queue r = ro_logger_queue s"
    "ro_recycle_queue r = ro_recycle_queue s" "ro_pending_barrier r = ro_pending_barrier s"
    "ro_pending_fact r = ro_pending_fact s"
  using assms by (simp_all add: routing_def)

lemma routing_updates [simp]:
  "routing (r\<lparr>ro_control_queue := a\<rparr>) = routing r" "routing (r\<lparr>ro_current_frame_count := b\<rparr>) = routing r"
  "routing (r\<lparr>ro_total_frames_seen := b\<rparr>) = routing r" "routing (r\<lparr>ro_total_frames_to_shards := b\<rparr>) = routing r"
  "routing (r\<lparr>ro_total_frames_to_logger := b\<rparr>) = routing r" "routing (r\<lparr>ro_total_frames_recycled := b\<rparr>) = routing r"
  "routing (r\<lparr>ro_channel_stats := c\<rparr>) = routing r" "routing (r\<lparr>ro_queue_depth_high_water := b\<rparr>) = routing r"
  "routing (r\<lparr>ro_next_incident_id := b\<rparr>) = routing r"
  "routing (r\<lparr>ro_market_barriers_delivered := b\<rparr>) = routing r"
  "routing (r\<lparr>ro_market_barriers_received := b\<rparr>) = routing r"
  "routing (r\<lparr>ro_subscription_barriers_received := b\<rparr>) = routing r"
  "routing (r\<lparr>ro_subscription_barriers_delivered := b\<rparr>) = routing r"
  "routing (ro_wire_to_router_latency_update f r) = routing r"
  "routing (ro_router_service_latency_update f r) = routing r"
  by (simp_all add: routing_def)

lemma routing_telemetry [simp]:
  "routing (fst (send_telemetry t r)) = routing r"
  "routing (update_channel k g r) = routing r"
  "routing (update_high_water q r) = routing r"
  "routing (maybe_send_periodic_telemetry r) = routing r"
  "routing (report_handle_leak h r) = routing r"
proof -
  show send: "routing (fst (send_telemetry t r)) = routing r" for t r
    by (simp add: send_telemetry_def case_prod_beta Let_def)
  show "routing (update_channel k g r) = routing r" by (simp add: update_channel_def split: option.split)
  show "routing (update_high_water q r) = routing r" by (simp add: update_high_water_def)
  show "routing (maybe_send_periodic_telemetry r) = routing r"
    by (simp add: maybe_send_periodic_telemetry_def Let_def case_prod_beta send)
  show "routing (report_handle_leak h r) = routing r" by (simp add: report_handle_leak_def send)
qed

lemma routing_record_latency [simp]:
  "routing (record_channel_latency ro_wire_to_router_latency_update i a b r) = routing r"
  "routing (record_channel_latency ro_router_service_latency_update i a b r) = routing r"
  by (simp_all add: record_channel_latency_def)

section \<open>Queues\<close>

definition shard_items :: "router \<Rightarrow> nat \<Rightarrow> market_data_path_message list" where
  "shard_items r i = ptr_items (shard_queue r i)"

definition room :: "'a bqueue option \<Rightarrow> bool" where
  "room p = (case p of None \<Rightarrow> False | Some q \<Rightarrow> length (bq_items q) < bq_capacity q)"

lemma room_push: "snd (ptr_push x p) \<longleftrightarrow> room p"
  by (simp add: ptr_push_def room_def bq_push_def split: option.split)

lemma ptr_push_eq:
  "ptr_push x p = (if room p then (map_option (\<lambda>q. q\<lparr>bq_items := bq_items q @ [x]\<rparr>) p, True) else (p, False))"
  by (auto simp: ptr_push_def room_def bq_push_def split: option.split)

lemma ptr_items_push: "room p \<Longrightarrow> ptr_items (map_option (\<lambda>q. q\<lparr>bq_items := bq_items q @ [x]\<rparr>) p) = ptr_items p @ [x]"
  by (auto simp: ptr_items_def room_def split: option.splits)

text \<open>The effect of a push to a shard, by cases.\<close>

lemma push_shard_cases:
  assumes "push_shard i m r = (r', res)"
  obtains (invalid) "res = SER_kINVALID_TARGET" "r' = r" "shard_queue r i = None"
    | (full) q where "res = SER_kFULL" "routing r' = routing r" "r' = r" "shard_queue r i = Some q" "\<not> room (Some q)"
    | (enqueued) q where "res = SER_kENQUEUED" "shard_queue r i = Some q" "room (Some q)" "i < length (ro_shard_queues r)"
      "routing r' = routing (r\<lparr>ro_shard_queues := (ro_shard_queues r)[i := Some (q\<lparr>bq_items := bq_items q @ [m]\<rparr>)]\<rparr>)"
proof (cases "shard_queue r i")
  case None
  with assms invalid show thesis by (simp add: push_shard_def)
next
  case (Some q)
  then have i: "i < length (ro_shard_queues r)" "ro_shard_queues r ! i = Some q"
    by (auto simp: shard_queue_def split: if_splits)
  show thesis
  proof (cases "length (bq_items q) < bq_capacity q")
    case True
    then show thesis using assms Some i enqueued [of q]
      by (auto simp: push_shard_def bq_push_def room_def Let_def)
  next
    case False
    have "r\<lparr>ro_shard_queues := (ro_shard_queues r)[i := Some q]\<rparr> = r"
      using i by (simp add: list_update_same_conv_nth)
    then have "push_shard i m r = (r, SER_kFULL)"
      using Some False by (simp add: push_shard_def bq_push_def)
    with assms have "r' = r" "res = SER_kFULL" by simp_all
    with Some False show thesis using full [of q] by (simp add: room_def)
  qed
qed

lemma shard_items_cong: "ro_shard_queues r = ro_shard_queues s \<Longrightarrow> shard_items r = shard_items s"
  by (simp add: shard_items_def shard_queue_def fun_eq_iff)

lemma shard_items_routing: "routing r = routing s \<Longrightarrow> shard_items r = shard_items s"
  by (rule shard_items_cong) (rule routing_eq(1))

lemma shard_items_enqueued:
  assumes "shard_queue r i = Some q" and "i < length (ro_shard_queues r)"
    and "routing r' = routing (r\<lparr>ro_shard_queues := (ro_shard_queues r)[i := Some (q\<lparr>bq_items := bq_items q @ [m]\<rparr>)]\<rparr>)"
  shows "shard_items r' = (shard_items r)(i := shard_items r i @ [m])"
proof -
  have q: "ro_shard_queues r' = (ro_shard_queues r)[i := Some (q\<lparr>bq_items := bq_items q @ [m]\<rparr>)]"
    using routing_eq(1) [OF assms(3)] by simp
  have "ro_shard_queues r ! i = Some q" using assms(1,2) by (simp add: shard_queue_def)
  then show ?thesis using assms(2)
    by (auto simp: shard_items_def shard_queue_def q fun_eq_iff ptr_items_def)
qed

section \<open>Ownership of frames\<close>

text \<open>The frame handles the router's output queues hold.\<close>

definition shard_frames :: "market_data_path_message list \<Rightarrow> frame_handle multiset" where
  "shard_frames ms = mset (concat (map (\<lambda>m. case m of PathFrame h \<Rightarrow> [h] | _ \<Rightarrow> []) ms))"

definition held :: "router \<Rightarrow> frame_handle multiset" where
  "held r = sum_list (map (\<lambda>p. shard_frames (ptr_items p)) (ro_shard_queues r))
     + mset (ptr_items (ro_logger_queue r)) + mset (ptr_items (ro_recycle_queue r))"

lemma shard_frames_append: "shard_frames (xs @ [m]) = shard_frames xs + (case m of PathFrame h \<Rightarrow> {#h#} | _ \<Rightarrow> {#})"
  by (cases m) (simp_all add: shard_frames_def)

lemma held_routing: "routing r = routing s \<Longrightarrow> held r = held s"
  by (simp add: held_def routing_def)

lemma sum_list_update_plus:
  fixes xs :: "'a multiset list"
  assumes "i < length xs" and "y = xs ! i + d"
  shows "sum_list (xs[i := y]) = sum_list xs + d"
proof -
  have "xs = take i xs @ xs ! i # drop (Suc i) xs" using assms(1) by (rule id_take_nth_drop)
  then have "sum_list xs = sum_list (take i xs) + (xs ! i + sum_list (drop (Suc i) xs))"
    by (metis sum_list.append sum_list.Cons)
  moreover have "sum_list (xs[i := y]) = sum_list (take i xs) + (y + sum_list (drop (Suc i) xs))"
    using assms(1) by (simp add: upd_conv_take_nth_drop)
  ultimately show ?thesis using assms(2) by (simp add: ac_simps)
qed

lemma held_enqueued:
  assumes "shard_queue r i = Some q" and "i < length (ro_shard_queues r)"
    and "routing r' = routing (r\<lparr>ro_shard_queues := (ro_shard_queues r)[i := Some (q\<lparr>bq_items := bq_items q @ [m]\<rparr>)]\<rparr>)"
  shows "held r' = held r + (case m of PathFrame h \<Rightarrow> {#h#} | _ \<Rightarrow> {#})"
proof -
  have nth: "ro_shard_queues r ! i = Some q" using assms(1,2) by (simp add: shard_queue_def)
  have "sum_list (map (\<lambda>p. shard_frames (ptr_items p)) (ro_shard_queues r'))
      = sum_list ((map (\<lambda>p. shard_frames (ptr_items p)) (ro_shard_queues r))[i := shard_frames (bq_items q @ [m])])"
    using routing_eq(1) [OF assms(3)] by (simp add: map_update ptr_items_def)
  also have "\<dots> = sum_list (map (\<lambda>p. shard_frames (ptr_items p)) (ro_shard_queues r))
      + (case m of PathFrame h \<Rightarrow> {#h#} | _ \<Rightarrow> {#})"
    using assms(2) nth by (intro sum_list_update_plus) (simp_all add: shard_frames_append ptr_items_def)
  finally show ?thesis using routing_eq(2,3) [OF assms(3)] by (simp add: held_def ac_simps)
qed

lemma terminal_handoff_cases:
  assumes "terminal_handoff h r = (r', ok)"
  shows "ro_shard_queues r' = ro_shard_queues r \<and> ro_pending_barrier r' = ro_pending_barrier r
    \<and> ro_pending_fact r' = ro_pending_fact r
    \<and> held r' = held r + (if ok then {#h#} else {#})
    \<and> (ok \<longleftrightarrow> room (ro_logger_queue r) \<or> room (ro_recycle_queue r))"
proof -
  consider "room (ro_logger_queue r)" | "\<not> room (ro_logger_queue r)" "room (ro_recycle_queue r)"
    | "\<not> room (ro_logger_queue r)" "\<not> room (ro_recycle_queue r)" by blast
  then show ?thesis
  proof cases
    case 1
    then have "ok" and rt: "routing r' = routing (r\<lparr>ro_logger_queue :=
        map_option (\<lambda>q. q\<lparr>bq_items := bq_items q @ [h]\<rparr>) (ro_logger_queue r)\<rparr>)"
      using assms by (auto simp: terminal_handoff_def try_route_to_logger_def ptr_push_eq Let_def)
    with 1 routing_eq [OF rt] show ?thesis by (simp add: held_def ptr_items_push ac_simps)
  next
    case 2
    then have "ok" and rt: "routing r' = routing (r\<lparr>ro_recycle_queue :=
        map_option (\<lambda>q. q\<lparr>bq_items := bq_items q @ [h]\<rparr>) (ro_recycle_queue r)\<rparr>)"
      using assms by (auto simp: terminal_handoff_def try_route_to_logger_def try_recycle_def ptr_push_eq Let_def)
    with 2 routing_eq [OF rt] show ?thesis by (simp add: held_def ptr_items_push ac_simps)
  next
    case 3
    then have "\<not> ok" and rt: "routing r' = routing r"
      using assms by (auto simp: terminal_handoff_def try_route_to_logger_def try_recycle_def ptr_push_eq Let_def)
    with 3 routing_eq [OF rt] held_routing [OF rt] show ?thesis by simp
  qed
qed

lemma begin_market_barrier_cases:
  assumes "begin_market_barrier b r = (r', res)" and "mib_reason b \<noteq> BIR_kNONE"
  obtains (faulted) "res = RRR_kFAULTED" "routing r' = routing r" "shard_queue r (unat (mib_shard_index b)) = None"
    | (latched) "res = RRR_kBLOCKED" "shard_items r' = shard_items r" "held r' = held r"
      "ro_pending_barrier r' = Some (PendingMarketBarrier b)" "ro_pending_fact r' = ro_pending_fact r"
    | (delivered) "res = RRR_kCOMPLETED" "held r' = held r"
      "shard_items r' = (shard_items r)(unat (mib_shard_index b) := shard_items r (unat (mib_shard_index b)) @ [PathMarketBarrier b])"
      "ro_pending_barrier r' = ro_pending_barrier r" "ro_pending_fact r' = ro_pending_fact r"
proof -
  obtain r1 e where p: "push_shard (unat (mib_shard_index b)) (PathMarketBarrier b) r = (r1, e)" by fastforce
  from p show thesis
  proof (cases rule: push_shard_cases)
    case invalid
    then show thesis using assms p faulted by (simp add: begin_market_barrier_def route_market_barrier_def)
  next
    case (full q)
    then have r': "r' = r\<lparr>ro_pending_barrier := Some (PendingMarketBarrier b), ro_barriers_deferred := ro_barriers_deferred r + 1\<rparr>"
      "res = RRR_kBLOCKED"
      using assms p by (simp_all add: begin_market_barrier_def route_market_barrier_def)
    then show thesis using latched shard_items_cong [of r' r] by (simp add: held_def)
  next
    case (enqueued q)
    then have r': "r' = r1\<lparr>ro_market_barriers_delivered := ro_market_barriers_delivered r1 + 1\<rparr>" "res = RRR_kCOMPLETED"
      using assms p by (simp_all add: begin_market_barrier_def route_market_barrier_def)
    have rt: "routing r' = routing (r\<lparr>ro_shard_queues := (ro_shard_queues r)[unat (mib_shard_index b) :=
        Some (q\<lparr>bq_items := bq_items q @ [PathMarketBarrier b]\<rparr>)]\<rparr>)"
      using enqueued(5) r' by simp
    show thesis using delivered [OF r'(2)] held_enqueued [OF enqueued(2,4) rt] shard_items_enqueued [OF enqueued(2,4) rt]
        routing_eq(4,5) [OF rt] by simp
  qed
qed

section \<open>Routing a frame\<close>

text \<open>Everything \<open>route_frame\<close> does to the queues and the pending barrier.\<close>

lemma route_frame_cases:
  assumes "route_frame t1 t2 h r = (r', res)"
  defines "i \<equiv> unat (fh_shard_index h)" and "h' \<equiv> h\<lparr>fh_router_publish_ts_ns := t2\<rparr>"
  obtains (delivered) "res = RRR_kCOMPLETED" "held r' = held r + {#h'#}"
      "shard_items r' = (shard_items r)(i := shard_items r i @ [PathFrame h'])"
      "ro_pending_barrier r' = ro_pending_barrier r" "ro_pending_fact r' = ro_pending_fact r"
    | (unroutable) "res = RRR_kFAULTED" "shard_queue r i = None" "shard_items r' = shard_items r"
      "held r' = held r + (if room (ro_logger_queue r) \<or> room (ro_recycle_queue r) then {#h'#} else {#})"
      "ro_pending_barrier r' = ro_pending_barrier r" "ro_pending_fact r' = ro_pending_fact r"
    | (leaked) "res = RRR_kFAULTED" "\<not> room (shard_queue r i)" "\<not> room (ro_logger_queue r)" "\<not> room (ro_recycle_queue r)"
      "shard_items r' = shard_items r" "held r' = held r"
      "ro_pending_barrier r' = ro_pending_barrier r" "ro_pending_fact r' = ro_pending_fact r"
    | (dropped) "res = RRR_kCOMPLETED" "\<not> is_book_frame (fh_kind h)" "held r' = held r + {#h'#}"
      "shard_items r' = shard_items r" "ro_pending_barrier r' = ro_pending_barrier r" "ro_pending_fact r' = ro_pending_fact r"
    | (barrier_latched) n where "res = RRR_kBLOCKED" "is_book_frame (fh_kind h)" "held r' = held r + {#h'#}"
      "shard_items r' = shard_items r" "ro_pending_barrier r' = Some (PendingMarketBarrier (loss_barrier h n))"
      "ro_pending_fact r' = ro_pending_fact r" "shard_queue r i \<noteq> None"
    | (barrier_sent) n where "res = RRR_kCOMPLETED" "is_book_frame (fh_kind h)" "held r' = held r + {#h'#}"
      "shard_items r' = (shard_items r)(i := shard_items r i @ [PathMarketBarrier (loss_barrier h n)])"
      "ro_pending_barrier r' = ro_pending_barrier r" "ro_pending_fact r' = ro_pending_fact r"
proof -
  define r4 where "r4 = record_channel_latency ro_router_service_latency_update (market_data_channel_index (fh_kind h)) t1 t2
    (update_channel (fh_kind h) (\<lambda>s. s\<lparr>ct_frames_observed := ct_frames_observed s + 1\<rparr>)
      (let r1 = record_channel_latency ro_wire_to_router_latency_update (market_data_channel_index (fh_kind h))
                  (fh_wire_publish_ts_ns h) t1 r
       in r1\<lparr>ro_total_frames_seen := ro_total_frames_seen r1 + 1, ro_current_frame_count := ro_current_frame_count r1 + 1\<rparr>))"
  have r4: "routing r4 = routing r" by (simp add: r4_def Let_def)
  have sq: "shard_queue r4 = shard_queue r" using routing_eq(1) [OF r4] by (simp add: shard_queue_def fun_eq_iff)
  note same = shard_items_routing [OF r4] held_routing [OF r4] routing_eq(2-5) [OF r4]
  obtain r5 e where p: "push_shard i (PathFrame h') r4 = (r5, e)" by fastforce
  then have tr: "try_route_to_shard (h\<lparr>fh_router_publish_ts_ns := t2\<rparr>) r4 = (r5, e)"
    by (simp add: try_route_to_shard_def i_def h'_def)
  note body = assms(1) [unfolded route_frame_def Let_def, folded r4_def [unfolded Let_def], unfolded tr prod.case]
  from p show thesis
  proof (cases rule: push_shard_cases)
    case invalid
    obtain r6 ok where t: "terminal_handoff h' r4 = (r6, ok)" by fastforce
    have "res = RRR_kFAULTED" and rt: "routing r' = routing r6"
      using body invalid t by (auto simp: h'_def)
    then show thesis
      using unroutable invalid(3) sq terminal_handoff_cases [OF t] same held_routing [OF rt] shard_items_routing [OF rt]
        shard_items_cong [of r6 r4] routing_eq(4,5) [OF rt] by auto
  next
    case (enqueued q)
    have res: "res = RRR_kCOMPLETED" and rt: "routing r' = routing (r4\<lparr>ro_shard_queues := (ro_shard_queues r4)[i :=
        Some (q\<lparr>bq_items := bq_items q @ [PathFrame h']\<rparr>)]\<rparr>)"
      using body enqueued by auto
    show thesis
      using delivered [OF res] held_enqueued [OF enqueued(2,4) rt] shard_items_enqueued [OF enqueued(2,4) rt]
        routing_eq(4,5) [OF rt] same by simp
  next
    case (full q)
    define r7 where "r7 = fst (send_telemetry (RC_ShardBackpressure \<lparr>sbp_shard_index = ucast (fh_shard_index h),
        sbp_affinity_key = fh_affinity_key h, sbp_market_id = fh_market_id h, sbp_event_id = fh_event_id h\<rparr>)
        (update_channel (fh_kind h) (\<lambda>s. s\<lparr>ct_downstream_delivery_losses := ct_downstream_delivery_losses s + 1\<rparr>) r4))"
    have r7: "routing r7 = routing r4" by (simp add: r7_def)
    obtain r8 ok where t: "terminal_handoff h' r7 = (r8, ok)" by fastforce
    note th = terminal_handoff_cases [OF t]
    have items8: "shard_items r8 = shard_items r"
      using th shard_items_cong [of r8 r7] shard_items_routing [OF r7] same by simp
    have held8: "held r8 = held r + (if ok then {#h'#} else {#})"
      using th held_routing [OF r7] same by simp
    have pend8: "ro_pending_barrier r8 = ro_pending_barrier r" "ro_pending_fact r8 = ro_pending_fact r"
      using th routing_eq(4,5) [OF r7] same by simp_all
    have body': "(r', res) = (if \<not> ok then (maybe_send_periodic_telemetry r8, RRR_kFAULTED)
        else if \<not> is_book_frame (fh_kind h) then (maybe_send_periodic_telemetry r8, RRR_kCOMPLETED)
        else let (r9, result) = begin_market_barrier (loss_barrier h (ro_next_incident_id r8))
               (r8\<lparr>ro_next_incident_id := ro_next_incident_id r8 + 1\<rparr>)
             in (maybe_send_periodic_telemetry r9, result))"
      using body full(1,3) t
      by (cases ok; cases "is_book_frame (fh_kind h)"; simp add: case_prod_beta Let_def r7_def h'_def)
    consider "\<not> ok" | "ok" "\<not> is_book_frame (fh_kind h)" | "ok" "is_book_frame (fh_kind h)" by blast
    then show thesis
    proof cases
      case 1
      have "\<not> room (ro_logger_queue r)" "\<not> room (ro_recycle_queue r)"
        using 1 th routing_eq(2,3) [OF r7] same by auto
      moreover have "\<not> room (shard_queue r i)" using full(4,5) sq by (simp add: fun_eq_iff)
      ultimately show thesis using leaked 1 body' held8 items8 held_routing [of r' r8] shard_items_routing [of r' r8]
          pend8 routing_eq(4,5) [of r' r8] by simp
    next
      case 2
      then show thesis using dropped body' held8 items8 pend8 held_routing [of r' r8] shard_items_routing [of r' r8]
          routing_eq(4,5) [of r' r8] by simp
    next
      case 3
      let ?n = "ro_next_incident_id r8"
      obtain r9 result where b: "begin_market_barrier (loss_barrier h ?n) (r8\<lparr>ro_next_incident_id := ?n + 1\<rparr>) = (r9, result)"
        by fastforce
      have r': "r' = maybe_send_periodic_telemetry r9" "res = result" using body' 3 b by auto
      have inc: "routing (r8\<lparr>ro_next_incident_id := ?n + 1\<rparr>) = routing r8" by simp
      note eqs = held8 items8 pend8 3 held_routing [OF inc] shard_items_routing [OF inc] routing_eq [OF inc]
        held_routing [of r' r9] shard_items_routing [of r' r9] routing_eq(4,5) [of r' r9]
      have reason: "mib_reason (loss_barrier h ?n) \<noteq> BIR_kNONE" by (simp add: loss_barrier_def)
      from b reason show thesis
      proof (cases rule: begin_market_barrier_cases)
        case faulted
        have "shard_queue (r8\<lparr>ro_next_incident_id := ?n + 1\<rparr>) i = shard_queue r i"
          using th routing_eq(1) [OF r7] routing_eq(1) [OF r4] by (simp add: shard_queue_def)
        with faulted full(4) sq show thesis by (simp add: loss_barrier_def i_def)
      next
        case latched
        then show thesis using barrier_latched [of ?n] r' eqs full(4) sq by simp
      next
        case delivered
        then show thesis using barrier_sent [of ?n] r' eqs by (simp add: loss_barrier_def i_def)
      qed
    qed
  qed
qed

section \<open>Properties of frame routing\<close>

text \<open>The messages to the control plane.\<close>

definition control_items :: "router \<Rightarrow> router_to_control list" where
  "control_items r = ptr_items (ro_control_queue r)"

definition free_slots :: "'a bqueue option \<Rightarrow> nat" where
  "free_slots p = (case p of None \<Rightarrow> 0 | Some q \<Rightarrow> bq_capacity q - length (bq_items q))"

definition handle_leak :: "frame_handle \<Rightarrow> router_to_control" where
  "handle_leak h = RC_RouterHandleLeak
     \<lparr>rhl_universe_version = fh_universe_version h, rhl_sid = ucast (fh_sid h), rhl_sequence = fh_sequence h,
      rhl_pool_index = fh_pool_index h, rhl_pool_generation = fh_pool_generation h,
      rhl_shard_index = ucast (fh_shard_index h), rhl_market_id = fh_market_id h, rhl_event_id = fh_event_id h\<rparr>"

lemma send_telemetry_control:
  "control_items (fst (send_telemetry t r)) = control_items r @ (if 0 < free_slots (ro_control_queue r) then [t] else [])"
  "free_slots (ro_control_queue (fst (send_telemetry t r))) = free_slots (ro_control_queue r) - 1"
  by (auto simp: send_telemetry_def control_items_def free_slots_def ptr_items_def ptr_push_def bq_push_def Let_def split: option.split)

lemma control_same [simp]:
  "ro_control_queue (update_channel k g r) = ro_control_queue r"
  "ro_control_queue (record_channel_latency ro_wire_to_router_latency_update i a b r) = ro_control_queue r"
  "ro_control_queue (record_channel_latency ro_router_service_latency_update i a b r) = ro_control_queue r"
  by (simp_all add: update_channel_def record_channel_latency_def split: option.split)

lemma periodic_control: "\<exists>ms. control_items (maybe_send_periodic_telemetry r) = control_items r @ ms"
  using send_telemetry_control(1)
  by (auto simp: maybe_send_periodic_telemetry_def Let_def case_prod_beta control_items_def)

lemma handoff_leak:
  assumes "\<not> room (ro_logger_queue r)" "\<not> room (ro_recycle_queue r)" "0 < free_slots (ro_control_queue r)"
  shows "control_items (fst (terminal_handoff h r)) = control_items r @ [handle_leak h]"
proof -
  have "terminal_handoff h r = (report_handle_leak h r, False)"
    using assms(1,2) by (simp add: terminal_handoff_def try_route_to_logger_def try_recycle_def ptr_push_eq)
  then show ?thesis using assms(3) by (simp add: report_handle_leak_def send_telemetry_control handle_leak_def)
qed

text \<open>A frame that no queue takes is reported as leaked, behind the notice that the shard is full if there is such a shard.\<close>

lemma route_frame_leak:
  assumes "route_frame t1 t2 h r = (r', res)" and "\<not> room (shard_queue r (unat (fh_shard_index h)))"
    and "\<not> room (ro_logger_queue r)" "\<not> room (ro_recycle_queue r)"
    and free: "(if shard_queue r (unat (fh_shard_index h)) = None then 1 else 2) \<le> free_slots (ro_control_queue r)"
  shows "\<exists>before after. control_items r' = control_items r @ before @ [handle_leak h] @ after"
proof -
  define r4 where "r4 = record_channel_latency ro_router_service_latency_update (market_data_channel_index (fh_kind h)) t1 t2
    (update_channel (fh_kind h) (\<lambda>s. s\<lparr>ct_frames_observed := ct_frames_observed s + 1\<rparr>)
      (let r1 = record_channel_latency ro_wire_to_router_latency_update (market_data_channel_index (fh_kind h))
                  (fh_wire_publish_ts_ns h) t1 r
       in r1\<lparr>ro_total_frames_seen := ro_total_frames_seen r1 + 1, ro_current_frame_count := ro_current_frame_count r1 + 1\<rparr>))"
  define h' where "h' = h\<lparr>fh_router_publish_ts_ns := t2\<rparr>"
  have "routing r4 = routing r" by (simp add: r4_def Let_def)
  note rt = routing_eq [OF this]
  have r4: "ro_control_queue r4 = ro_control_queue r" "shard_queue r4 = shard_queue r"
    using rt(1) by (simp_all add: r4_def Let_def shard_queue_def fun_eq_iff)
  have leak: "handle_leak h' = handle_leak h" by (simp add: h'_def handle_leak_def)
  obtain r5 e where p: "push_shard (unat (fh_shard_index h)) (PathFrame h') r4 = (r5, e)" by fastforce
  then have tr: "try_route_to_shard (h\<lparr>fh_router_publish_ts_ns := t2\<rparr>) r4 = (r5, e)"
    by (simp add: try_route_to_shard_def h'_def)
  note body = assms(1) [unfolded route_frame_def Let_def, folded r4_def [unfolded Let_def] h'_def, unfolded tr [folded h'_def] prod.case]
  from p show ?thesis
  proof (cases rule: push_shard_cases)
    case invalid
    have "r' = maybe_send_periodic_telemetry (fst (terminal_handoff h' r4))" using body invalid by simp
    moreover have "control_items (fst (terminal_handoff h' r4)) = control_items r @ [handle_leak h]"
      using handoff_leak [of r4 h'] rt(2,3) r4 assms(3,4) free invalid(3) leak by (simp add: control_items_def)
    ultimately show ?thesis using periodic_control [of "fst (terminal_handoff h' r4)"] by (metis append.assoc append_Nil)
  next
    case (full q)
    define r7 where "r7 = fst (send_telemetry (RC_ShardBackpressure \<lparr>sbp_shard_index = ucast (fh_shard_index h),
        sbp_affinity_key = fh_affinity_key h, sbp_market_id = fh_market_id h, sbp_event_id = fh_event_id h\<rparr>)
        (update_channel (fh_kind h) (\<lambda>s. s\<lparr>ct_downstream_delivery_losses := ct_downstream_delivery_losses s + 1\<rparr>) r4))"
    have "routing r7 = routing r4" by (simp add: r7_def)
    note rt7 = routing_eq [OF this]
    have two: "2 \<le> free_slots (ro_control_queue r)" using free full(4) r4(2) by simp
    have c7: "\<exists>before. control_items r7 = control_items r @ before" "0 < free_slots (ro_control_queue r7)"
      using send_telemetry_control two r4(1) by (simp_all add: r7_def control_items_def)
    have nr: "\<not> room (ro_logger_queue r7)" "\<not> room (ro_recycle_queue r7)" using rt rt7 assms(3,4) by simp_all
    have "\<not> snd (terminal_handoff h' r7)" using terminal_handoff_cases [of h' r7] nr by (metis prod.collapse)
    then have "r' = maybe_send_periodic_telemetry (fst (terminal_handoff h' r7))"
      using body full(1,3) by (simp add: case_prod_beta r7_def)
    moreover have "control_items (fst (terminal_handoff h' r7)) = control_items r7 @ [handle_leak h]"
      using handoff_leak [OF nr c7(2)] leak by simp
    ultimately show ?thesis using c7(1) periodic_control [of "fst (terminal_handoff h' r7)"] by (metis append.assoc)
  next
    case (enqueued q)
    then show ?thesis using assms(2) r4(2) by simp
  qed
qed

text \<open>C5. Routing a frame gives its buffer exactly one owner: the stamped handle is added once to one of the
  shard, logger and recycle queues. The only other outcome is that all three had no room (or do not exist);
  then no queue has it, the router reports a fault, and the control plane is told which handle leaked, unless its
  queue is too full for that message (and for the notice that the shard is full, which comes before it).\<close>

theorem route_frame_single_owner:
  assumes "ro_pending_barrier r = None" and "ro_pending_fact r = None"
    and "route_message t1 t2 (PathFrame h) r = (r', res)"
  shows "held r' = held r + {#h\<lparr>fh_router_publish_ts_ns := t2\<rparr>#}
    \<or> (held r' = held r \<and> res = RRR_kFAULTED \<and> \<not> room (shard_queue r (unat (fh_shard_index h)))
        \<and> \<not> room (ro_logger_queue r) \<and> \<not> room (ro_recycle_queue r)
        \<and> ((if shard_queue r (unat (fh_shard_index h)) = None then 1 else 2) \<le> free_slots (ro_control_queue r) \<longrightarrow>
            (\<exists>before after. control_items r' = control_items r @ before @ [handle_leak h] @ after)))"
proof -
  have run: "route_frame t1 t2 h r = (r', res)" using assms by (simp add: route_message_def)
  then show ?thesis
  proof (cases rule: route_frame_cases)
    case unroutable
    then show ?thesis using route_frame_leak [OF run] by (cases "room (ro_logger_queue r) \<or> room (ro_recycle_queue r)") (simp_all add: room_def)
  next
    case leaked
    then show ?thesis using route_frame_leak [OF run] by simp
  qed simp_all
qed

definition demo_queue :: "nat \<Rightarrow> 'a bqueue" where
  "demo_queue n = \<lparr>bq_capacity = n, bq_items = []\<rparr>"

definition demo_router :: router where
  "demo_router = make_router [Some (demo_queue 2), Some (demo_queue 0)] (Some (demo_queue 4)) (Some (demo_queue 4)) (Some (demo_queue 4))"

theorem route_frame_single_owner_witness:
  "held (fst (route_message 5 6 (PathFrame (empty_handle\<lparr>fh_shard_index := 1\<rparr>)) demo_router))
     = held demo_router + {#empty_handle\<lparr>fh_shard_index := 1, fh_router_publish_ts_ns := 6\<rparr>#}"
proof -
  let ?h = "empty_handle\<lparr>fh_shard_index := 1\<rparr>"
  have "ro_pending_barrier demo_router = None" "ro_pending_fact demo_router = None" "room (ro_logger_queue demo_router)"
    by (simp_all add: demo_router_def make_router_def room_def demo_queue_def)
  with route_frame_single_owner [OF _ _ surjective_pairing, of demo_router 5 6 ?h] show ?thesis
    by (simp add: empty_handle_def)
qed

text \<open>C6. No order-book frame is lost silently. Routing a snapshot or delta ends in one of four ways: its shard gets it; its
  shard gets, as the next message, a barrier naming the frame's market, event, universe and sequence; that
  barrier is kept as the pending barrier, which blocks all further routing; or the router reports a fault, and then the
  shard of the frame does not exist or neither the shard nor the logger nor the recycler has room. No other
  shard gets anything.\<close>

theorem lost_book_frame_raises_barrier:
  assumes "ro_pending_barrier r = None" and "ro_pending_fact r = None"
    and "route_message t1 t2 (PathFrame h) r = (r', res)"
    and "fh_kind h = FK_kORDERBOOK_SNAPSHOT \<or> fh_kind h = FK_kORDERBOOK_DELTA"
    and "i = unat (fh_shard_index h)"
  shows "(\<forall>j. j \<noteq> i \<longrightarrow> shard_items r' j = shard_items r j)
    \<and> (shard_items r' i = shard_items r i @ [PathFrame (h\<lparr>fh_router_publish_ts_ns := t2\<rparr>)] \<and> ro_pending_barrier r' = None
         \<and> res = RRR_kCOMPLETED
       \<or> (\<exists>b. mib_market_id b = fh_market_id h \<and> mib_event_id b = fh_event_id h
            \<and> mib_universe_version b = fh_universe_version h \<and> mib_sequence b = fh_sequence h
            \<and> mib_shard_event_index b = fh_shard_event_index h \<and> mib_event_market_index b = fh_event_market_index h
            \<and> mib_reason b = BIR_kROUTER_TO_SHARD_DELIVERY_LOSS
            \<and> (shard_items r' i = shard_items r i @ [PathMarketBarrier b] \<and> res = RRR_kCOMPLETED
               \<or> shard_items r' i = shard_items r i \<and> ro_pending_barrier r' = Some (PendingMarketBarrier b)
                 \<and> res = RRR_kBLOCKED
                 \<and> (\<forall>m. route_message t1 t2 m r' = (r', RRR_kBLOCKED))))
       \<or> res = RRR_kFAULTED \<and> shard_items r' i = shard_items r i
          \<and> (shard_queue r i = None
             \<or> \<not> room (shard_queue r i) \<and> \<not> room (ro_logger_queue r) \<and> \<not> room (ro_recycle_queue r)))"
proof -
  have book: "is_book_frame (fh_kind h)" using assms(4) by auto
  have "route_frame t1 t2 h r = (r', res)" using assms(1-3) by (simp add: route_message_def)
  then show ?thesis
  proof (cases rule: route_frame_cases)
    case (barrier_latched n)
    then have "\<forall>m. route_message t1 t2 m r' = (r', RRR_kBLOCKED)" by (simp add: route_message_def)
    with barrier_latched show ?thesis by (auto simp: loss_barrier_def)
  next
    case (barrier_sent n)
    then show ?thesis using assms(5) by (auto simp: loss_barrier_def)
  next
    case delivered
    then show ?thesis using assms(1,5) by simp
  next
    case unroutable
    then show ?thesis using assms(5) by simp
  next
    case leaked
    then show ?thesis using assms(5) by simp
  qed (use book in auto)
qed

theorem lost_book_frame_raises_barrier_witness:
  "\<exists>b. mib_market_id b = 7 \<and> ro_pending_barrier (fst (route_message 5 6
     (PathFrame (empty_handle\<lparr>fh_shard_index := 1, fh_market_id := 7, fh_kind := FK_kORDERBOOK_DELTA\<rparr>)) demo_router))
       = Some (PendingMarketBarrier b)"
proof -
  let ?h = "empty_handle\<lparr>fh_shard_index := 1, fh_market_id := 7, fh_kind := FK_kORDERBOOK_DELTA\<rparr>"
  let ?r = "route_message 5 6 (PathFrame ?h) demo_router"
  have pend: "ro_pending_barrier demo_router = None" "ro_pending_fact demo_router = None"
    by (simp_all add: demo_router_def make_router_def)
  have run: "route_message 5 6 (PathFrame ?h) demo_router = (fst ?r, snd ?r)" by simp
  have res: "snd ?r = RRR_kBLOCKED"
    by (simp add: route_message_def route_frame_def try_route_to_shard_def push_shard_def shard_queue_def bq_push_def
        record_channel_latency_def update_channel_def send_telemetry_def ptr_push_def terminal_handoff_def
        try_route_to_logger_def begin_market_barrier_def route_market_barrier_def loss_barrier_def kMarketDataChannelCount_def
        demo_router_def make_router_def demo_queue_def empty_handle_def Let_def)
  have "fh_kind ?h = FK_kORDERBOOK_SNAPSHOT \<or> fh_kind ?h = FK_kORDERBOOK_DELTA" by simp
  from lost_book_frame_raises_barrier [OF pend run this refl] res show ?thesis
    by (auto simp: empty_handle_def)
qed

section \<open>Subscription barriers\<close>

definition router_wf :: "router \<Rightarrow> bool" where
  "router_wf r \<longleftrightarrow> ro_shard_queues r \<noteq> [] \<and> list_all (\<lambda>p. p \<noteq> None) (ro_shard_queues r) \<and> ro_control_queue r \<noteq> None"

definition shard_count :: "router \<Rightarrow> nat" where
  "shard_count r = length (ro_shard_queues r)"

lemma router_wf_queue: "router_wf r \<Longrightarrow> i < shard_count r \<Longrightarrow> shard_queue r i \<noteq> None"
  by (simp add: router_wf_def shard_count_def shard_queue_def list_all_length)

text \<open>What pushing one subscription barrier does, on a well-formed router.\<close>

lemma push_shard_wf:
  assumes "router_wf r" and "i < shard_count r" and "push_shard i m r = (r', e)"
  shows "router_wf r'" "shard_count r' = shard_count r" "ro_control_queue r' = ro_control_queue r"
    "ro_pending_barrier r' = ro_pending_barrier r" "ro_pending_fact r' = ro_pending_fact r"
    "e = (if room (shard_queue r i) then SER_kENQUEUED else SER_kFULL)"
    "shard_items r' = (if room (shard_queue r i) then (shard_items r)(i := shard_items r i @ [m]) else shard_items r)"
proof -
  have ctrl: "ro_control_queue r' = ro_control_queue r"
    using assms(3) by (auto simp: push_shard_def update_high_water_def Let_def split: option.splits prod.splits if_splits)
  then show "ro_control_queue r' = ro_control_queue r" .
  from assms(3) have "router_wf r' \<and> shard_count r' = shard_count r \<and> ro_pending_barrier r' = ro_pending_barrier r
    \<and> ro_pending_fact r' = ro_pending_fact r \<and> e = (if room (shard_queue r i) then SER_kENQUEUED else SER_kFULL)
    \<and> shard_items r' = (if room (shard_queue r i) then (shard_items r)(i := shard_items r i @ [m]) else shard_items r)"
  proof (cases rule: push_shard_cases)
    case invalid
    with router_wf_queue [OF assms(1,2)] show ?thesis by simp
  next
    case (full q)
    then show ?thesis using assms(1) by simp
  next
    case (enqueued q)
    have "ro_shard_queues r' = (ro_shard_queues r)[i := Some (q\<lparr>bq_items := bq_items q @ [m]\<rparr>)]"
      using routing_eq(1) [OF enqueued(5)] by simp
    then have "router_wf r'" "shard_count r' = shard_count r"
      using assms(1) ctrl by (simp_all add: router_wf_def shard_count_def list_all_list_update)
    then show ?thesis using enqueued shard_items_enqueued [OF enqueued(2,4,5)] routing_eq(4,5) [OF enqueued(5)] by simp
  qed
  then show "router_wf r'" "shard_count r' = shard_count r" "ro_pending_barrier r' = ro_pending_barrier r"
    "ro_pending_fact r' = ro_pending_fact r" "e = (if room (shard_queue r i) then SER_kENQUEUED else SER_kFULL)"
    "shard_items r' = (if room (shard_queue r i) then (shard_items r)(i := shard_items r i @ [m]) else shard_items r)"
    by simp_all
qed

lemma deliver_from_spec:
  assumes "router_wf r" and "k + todo = shard_count r" and "deliver_from b todo k r = (r', k', res)"
  shows "router_wf r' \<and> shard_count r' = shard_count r \<and> ro_control_queue r' = ro_control_queue r
    \<and> ro_pending_barrier r' = ro_pending_barrier r \<and> ro_pending_fact r' = ro_pending_fact r
    \<and> k \<le> k' \<and> k' \<le> shard_count r
    \<and> res = (if k' = shard_count r then BDR_kDELIVERED else BDR_kBLOCKED)
    \<and> (k' < shard_count r \<longrightarrow> \<not> room (shard_queue r' k'))
    \<and> (\<forall>i. shard_items r' i = shard_items r i @ (if k \<le> i \<and> i < k' then [PathSubscriptionBarrier b] else []))"
  using assms
proof (induction todo arbitrary: k r)
  case 0
  then show ?case by auto
next
  case (Suc todo)
  obtain r1 e where p: "push_shard k (PathSubscriptionBarrier b) r = (r1, e)" by fastforce
  have k: "k < shard_count r" using Suc.prems(2) by simp
  note w = push_shard_wf [OF Suc.prems(1) k p]
  show ?case
  proof (cases "room (shard_queue r k)")
    case True
    have "deliver_from b todo (Suc k) r1 = (r', k', res)" using Suc.prems(3) p w(6) True by simp
    from Suc.IH [OF w(1) _ this] Suc.prems(2) w True show ?thesis by (auto split: if_splits)
  next
    case False
    then have "e = SER_kFULL" "r1 = r"
      using p w(6) router_wf_queue [OF Suc.prems(1) k] by (auto elim: push_shard_cases)
    with False Suc.prems p k show ?thesis by simp
  qed
qed

text \<open>The router together with its consumers: what they have taken from the queues so far is logged.\<close>

record router_system =
  rs_router :: router
  rs_shard_log :: "nat \<Rightarrow> market_data_path_message list"
  rs_control_log :: "router_to_control list"

datatype router_env = RE_Flush | RE_PopShard nat | RE_PopControl

definition pop_shard :: "nat \<Rightarrow> router_system \<Rightarrow> router_system" where
  "pop_shard i s = (case shard_queue (rs_router s) i of None \<Rightarrow> s
     | Some q \<Rightarrow> (let (q', x) = bq_pop q in
         s\<lparr>rs_router := (rs_router s)\<lparr>ro_shard_queues := (ro_shard_queues (rs_router s))[i := Some q']\<rparr>,
           rs_shard_log := (rs_shard_log s)(i := rs_shard_log s i @ (case x of None \<Rightarrow> [] | Some m \<Rightarrow> [m]))\<rparr>))"

definition pop_control :: "router_system \<Rightarrow> router_system" where
  "pop_control s = (case ro_control_queue (rs_router s) of None \<Rightarrow> s
     | Some q \<Rightarrow> (let (q', x) = bq_pop q in
         s\<lparr>rs_router := (rs_router s)\<lparr>ro_control_queue := Some q'\<rparr>,
           rs_control_log := rs_control_log s @ (case x of None \<Rightarrow> [] | Some m \<Rightarrow> [m])\<rparr>))"

fun env_step :: "router_env \<Rightarrow> router_system \<Rightarrow> router_system" where
  "env_step RE_Flush s = s\<lparr>rs_router := fst (flush_pending_barrier (rs_router s))\<rparr>"
| "env_step (RE_PopShard i) s = pop_shard i s"
| "env_step RE_PopControl s = pop_control s"

definition shard_stream :: "router_system \<Rightarrow> nat \<Rightarrow> market_data_path_message list" where
  "shard_stream s i = rs_shard_log s i @ shard_items (rs_router s) i"

definition control_stream :: "router_system \<Rightarrow> router_to_control list" where
  "control_stream s = rs_control_log s @ ptr_items (ro_control_queue (rs_router s))"

text \<open>The state of the delivery of \<open>b\<close>, relative to the streams before it began.\<close>

definition delivering ::
  "subscription_invalidation_barrier \<Rightarrow> (nat \<Rightarrow> market_data_path_message list) \<Rightarrow> router_to_control list \<Rightarrow> router_system \<Rightarrow> bool" where
  "delivering b S C s \<longleftrightarrow> router_wf (rs_router s) \<and>
     (let r = rs_router s; m = PathSubscriptionBarrier b; f = RC_SubscriptionBarrierDelivered (delivered_fact b)
      in case ro_pending_barrier r of
           Some (PendingSubscriptionBarrier b' k) \<Rightarrow> b' = b \<and> k < shard_count r \<and> ro_pending_fact r = None
             \<and> (\<forall>i < shard_count r. shard_stream s i = S i @ (if i < k then [m] else [])) \<and> control_stream s = C
         | Some (PendingMarketBarrier _) \<Rightarrow> False
         | None \<Rightarrow> (\<forall>i < shard_count r. shard_stream s i = S i @ [m])
             \<and> (case ro_pending_fact r of None \<Rightarrow> control_stream s = C @ [f]
                | Some g \<Rightarrow> g = delivered_fact b \<and> control_stream s = C))"

lemma pop_shard_facts:
  "shard_stream (pop_shard i s) = shard_stream s" "control_stream (pop_shard i s) = control_stream s"
  "ro_pending_barrier (rs_router (pop_shard i s)) = ro_pending_barrier (rs_router s)"
  "ro_pending_fact (rs_router (pop_shard i s)) = ro_pending_fact (rs_router s)"
  "shard_count (rs_router (pop_shard i s)) = shard_count (rs_router s)"
  "router_wf (rs_router s) \<Longrightarrow> router_wf (rs_router (pop_shard i s))"
proof -
  show "shard_stream (pop_shard i s) = shard_stream s"
  proof (cases "shard_queue (rs_router s) i")
    case None
    then show ?thesis by (simp add: pop_shard_def)
  next
    case (Some q)
    then have "i < length (ro_shard_queues (rs_router s))" "ro_shard_queues (rs_router s) ! i = Some q"
      by (auto simp: shard_queue_def split: if_splits)
    then show ?thesis using Some
      by (cases "bq_items q") (auto simp: pop_shard_def bq_pop_def shard_stream_def shard_items_def shard_queue_def
          ptr_items_def Let_def fun_eq_iff nth_list_update)
  qed
  show "control_stream (pop_shard i s) = control_stream s"
    "ro_pending_barrier (rs_router (pop_shard i s)) = ro_pending_barrier (rs_router s)"
    "ro_pending_fact (rs_router (pop_shard i s)) = ro_pending_fact (rs_router s)"
    "shard_count (rs_router (pop_shard i s)) = shard_count (rs_router s)"
    by (simp_all add: pop_shard_def control_stream_def shard_count_def case_prod_beta Let_def split: option.split)
  show "router_wf (rs_router s) \<Longrightarrow> router_wf (rs_router (pop_shard i s))"
    by (simp add: pop_shard_def router_wf_def case_prod_beta Let_def list_all_list_update split: option.split)
qed

lemma pop_control_facts:
  "shard_stream (pop_control s) = shard_stream s" "control_stream (pop_control s) = control_stream s"
  "ro_pending_barrier (rs_router (pop_control s)) = ro_pending_barrier (rs_router s)"
  "ro_pending_fact (rs_router (pop_control s)) = ro_pending_fact (rs_router s)"
  "shard_count (rs_router (pop_control s)) = shard_count (rs_router s)"
  "router_wf (rs_router s) \<Longrightarrow> router_wf (rs_router (pop_control s))"
proof -
  show "shard_stream (pop_control s) = shard_stream s"
    by (simp add: pop_control_def shard_stream_def shard_items_def shard_queue_def fun_eq_iff case_prod_beta Let_def split: option.split)
  show "control_stream (pop_control s) = control_stream s"
    by (auto simp: pop_control_def control_stream_def ptr_items_def bq_pop_def Let_def split: option.splits list.splits)
  show "ro_pending_barrier (rs_router (pop_control s)) = ro_pending_barrier (rs_router s)"
    "ro_pending_fact (rs_router (pop_control s)) = ro_pending_fact (rs_router s)"
    "shard_count (rs_router (pop_control s)) = shard_count (rs_router s)"
    "router_wf (rs_router s) \<Longrightarrow> router_wf (rs_router (pop_control s))"
    by (simp_all add: pop_control_def shard_count_def router_wf_def case_prod_beta Let_def split: option.split)
qed

lemma delivering_pop:
  "delivering b S C s \<Longrightarrow> delivering b S C (pop_shard i s)" "delivering b S C s \<Longrightarrow> delivering b S C (pop_control s)"
  by (simp_all add: delivering_def Let_def pop_shard_facts pop_control_facts split: option.splits pending_barrier.splits)

lemma finish_subscription_barrier_delivering:
  assumes wf: "router_wf r" and pend: "ro_pending_barrier r = None" "ro_pending_fact r = None"
    and all: "\<forall>i < shard_count r. L i @ shard_items r i = S i @ [PathSubscriptionBarrier b]"
    and ctrl: "M @ ptr_items (ro_control_queue r) = C"
  shows "delivering b S C \<lparr>rs_router = fst (finish_subscription_barrier b r), rs_shard_log = L, rs_control_log = M\<rparr>"
proof -
  obtain q where q: "ro_control_queue r = Some q" using wf by (auto simp: router_wf_def)
  show ?thesis
  proof (cases "room (ro_control_queue r)")
    case True
    then have eq: "fst (finish_subscription_barrier b r) = r\<lparr>ro_subscription_barriers_delivered := ro_subscription_barriers_delivered r + 1,
        ro_control_queue := Some (q\<lparr>bq_items := bq_items q @ [RC_SubscriptionBarrierDelivered (delivered_fact b)]\<rparr>)\<rparr>"
      using q by (simp add: finish_subscription_barrier_def send_telemetry_def ptr_push_eq Let_def)
    have "shard_items (fst (finish_subscription_barrier b r)) = shard_items r" unfolding eq by (rule shard_items_cong) simp
    then show ?thesis using wf pend all ctrl q
      by (simp add: delivering_def eq Let_def router_wf_def shard_count_def shard_stream_def control_stream_def ptr_items_def)
  next
    case False
    then have eq: "fst (finish_subscription_barrier b r) = r\<lparr>ro_subscription_barriers_delivered := ro_subscription_barriers_delivered r + 1,
        ro_control_queue := Some q, ro_pending_fact := Some (delivered_fact b), ro_facts_deferred := ro_facts_deferred r + 1\<rparr>"
      using q by (simp add: finish_subscription_barrier_def send_telemetry_def ptr_push_eq Let_def)
    have "shard_items (fst (finish_subscription_barrier b r)) = shard_items r" unfolding eq by (rule shard_items_cong) simp
    then show ?thesis using wf pend all ctrl q
      by (simp add: delivering_def eq Let_def router_wf_def shard_count_def shard_stream_def control_stream_def ptr_items_def)
  qed
qed

lemma delivering_flush:
  assumes d: "delivering b S C s" and reason: "sib_reason b \<noteq> BIR_kNONE"
  shows "delivering b S C (env_step RE_Flush s)"
proof -
  let ?r = "rs_router s"
  have wf: "router_wf ?r" using d by (simp add: delivering_def)
  then have ne: "ro_shard_queues ?r \<noteq> []" by (simp add: router_wf_def)
  show ?thesis
  proof (cases "ro_pending_barrier ?r")
    case None
    note pb = None
    show ?thesis
    proof (cases "ro_pending_fact ?r")
      case None
      then show ?thesis using d pb by (simp add: flush_pending_barrier_def)
    next
      case (Some g)
      obtain q where q: "ro_control_queue ?r = Some q" using wf by (auto simp: router_wf_def)
      have it: "shard_items (?r\<lparr>ro_control_queue := x, ro_pending_fact := y\<rparr>) = shard_items ?r"
        "shard_items (?r\<lparr>ro_control_queue := x\<rparr>) = shard_items ?r" for x y
        by (rule shard_items_cong; simp)+
      show ?thesis
        using d pb Some q it
        by (cases "room (ro_control_queue ?r)")
          (simp_all add: flush_pending_barrier_def send_telemetry_def ptr_push_eq delivering_def Let_def router_wf_def
            shard_count_def shard_stream_def control_stream_def ptr_items_def)
    qed
  next
    case (Some p)
    then obtain k where p: "p = PendingSubscriptionBarrier b k" and k: "k < shard_count ?r" and pf: "ro_pending_fact ?r = None"
        and st: "\<forall>i < shard_count ?r. shard_stream s i = S i @ (if i < k then [PathSubscriptionBarrier b] else [])"
        and ct: "control_stream s = C"
      using d by (cases p) (auto simp: delivering_def Let_def)
    obtain r1 k' res where dl: "deliver_from b (shard_count ?r - k) k ?r = (r1, k', res)" using prod_cases3 by blast
    have route: "route_subscription_barrier b k ?r = (r1, k', res)"
      using k reason ne dl by (simp add: route_subscription_barrier_def shard_count_def)
    note ds = deliver_from_spec [OF wf _ dl]
    have sum: "k + (shard_count ?r - k) = shard_count ?r" using k by simp
    show ?thesis
    proof (cases "k' = shard_count ?r")
      case True
      let ?r2 = "r1\<lparr>ro_pending_barrier := None\<rparr>"
      have it2: "shard_items ?r2 = shard_items r1" by (rule shard_items_cong) simp
      have "delivering b S C \<lparr>rs_router = fst (finish_subscription_barrier b ?r2), rs_shard_log = rs_shard_log s,
          rs_control_log = rs_control_log s\<rparr>"
      proof (rule finish_subscription_barrier_delivering)
        show "router_wf ?r2" "ro_pending_barrier ?r2 = None" "ro_pending_fact ?r2 = None"
          using ds [OF sum] pf by (auto simp: router_wf_def)
        show "\<forall>i < shard_count ?r2. rs_shard_log s i @ shard_items ?r2 i = S i @ [PathSubscriptionBarrier b]"
        proof (intro allI impI)
          fix i assume "i < shard_count ?r2"
          then have i: "i < shard_count ?r" using ds [OF sum] by (simp add: shard_count_def)
          have "rs_shard_log s i @ shard_items ?r i = S i @ (if i < k then [PathSubscriptionBarrier b] else [])"
            using st i by (simp add: shard_stream_def)
          moreover have "shard_items ?r2 i = shard_items ?r i @ (if k \<le> i then [PathSubscriptionBarrier b] else [])"
            using ds [OF sum] True i by (simp add: it2)
          ultimately show "rs_shard_log s i @ shard_items ?r2 i = S i @ [PathSubscriptionBarrier b]"
            by (cases "i < k") auto
        qed
        show "rs_control_log s @ ptr_items (ro_control_queue ?r2) = C"
          using ds [OF sum] ct by (simp add: control_stream_def)
      qed
      moreover have "env_step RE_Flush s = s\<lparr>rs_router := fst (finish_subscription_barrier b ?r2)\<rparr>"
        using Some p pf route True ds [OF sum] by (simp add: flush_pending_barrier_def)
      moreover have "s\<lparr>rs_router := x\<rparr> = \<lparr>rs_router = x, rs_shard_log = rs_shard_log s, rs_control_log = rs_control_log s\<rparr>" for x
        by simp
      ultimately show ?thesis by (simp only:)
    next
      case False
      let ?r2 = "r1\<lparr>ro_pending_barrier := Some (PendingSubscriptionBarrier b k')\<rparr>"
      have it2: "shard_items ?r2 = shard_items r1" by (rule shard_items_cong) simp
      have step: "env_step RE_Flush s = s\<lparr>rs_router := ?r2\<rparr>"
        using Some p pf route False ds [OF sum] by (simp add: flush_pending_barrier_def)
      have lt: "k' < shard_count ?r" "k \<le> k'" using False ds [OF sum] by auto
      have "shard_stream (s\<lparr>rs_router := ?r2\<rparr>) i = S i @ (if i < k' then [PathSubscriptionBarrier b] else [])"
        if "i < shard_count ?r" for i
      proof -
        have "rs_shard_log s i @ shard_items ?r i = S i @ (if i < k then [PathSubscriptionBarrier b] else [])"
          using st that by (simp add: shard_stream_def)
        moreover have "shard_items ?r2 i = shard_items ?r i @ (if k \<le> i \<and> i < k' then [PathSubscriptionBarrier b] else [])"
          using ds [OF sum] by (simp add: it2)
        ultimately show ?thesis using lt(2) by (cases "i < k"; cases "i < k'") (auto simp: shard_stream_def)
      qed
      then show ?thesis unfolding step using ds [OF sum] lt pf ct
        by (auto simp: delivering_def router_wf_def shard_count_def control_stream_def)
    qed
  qed
qed

lemma delivering_begin:
  assumes wf: "router_wf r" and pend: "ro_pending_barrier r = None" "ro_pending_fact r = None"
    and reason: "sib_reason b \<noteq> BIR_kNONE"
  shows "delivering b (\<lambda>i. L i @ shard_items r i) (M @ ptr_items (ro_control_queue r))
      \<lparr>rs_router = fst (begin_subscription_barrier b r), rs_shard_log = L, rs_control_log = M\<rparr>"
proof -
  have ne: "ro_shard_queues r \<noteq> []" using wf by (simp add: router_wf_def)
  obtain r1 k res where dl: "deliver_from b (shard_count r) 0 r = (r1, k, res)" using prod_cases3 by blast
  have route: "route_subscription_barrier b 0 r = (r1, k, res)"
    using reason ne dl by (simp add: route_subscription_barrier_def shard_count_def)
  have sum: "0 + shard_count r = shard_count r" by simp
  note ds = deliver_from_spec [OF wf sum dl]
  show ?thesis
  proof (cases "k = shard_count r")
    case True
    then have "begin_subscription_barrier b r = finish_subscription_barrier b r1"
      using route ds by (simp add: begin_subscription_barrier_def)
    then show ?thesis using True ds pend by (auto intro!: finish_subscription_barrier_delivering)
  next
    case False
    let ?r2 = "r1\<lparr>ro_pending_barrier := Some (PendingSubscriptionBarrier b k), ro_barriers_deferred := ro_barriers_deferred r1 + 1\<rparr>"
    have "shard_items ?r2 = shard_items r1" by (rule shard_items_cong) simp
    moreover have "fst (begin_subscription_barrier b r) = ?r2"
      using route ds False by (simp add: begin_subscription_barrier_def)
    ultimately show ?thesis using False ds pend
      by (auto simp: delivering_def router_wf_def shard_count_def shard_stream_def control_stream_def)
  qed
qed

interpretation delivery: guarded_machine env_step "delivering b S C" "\<lambda>_. sib_reason b \<noteq> BIR_kNONE" for b S C
proof (unfold_locales, goal_cases)
  case (1 s x)
  then show ?case by (cases x) (simp_all add: delivering_flush delivering_pop del: env_step.simps(1))
qed

text \<open>C7. A subscription barrier reaches every shard exactly once. After the router has taken it, in any
  interleaving of flushes with the consumers draining their queues, each shard has received nothing but at
  most this barrier; once the router is no longer blocked on it every shard has received it exactly once and
  the control plane is told exactly once, after all shards have it.\<close>

theorem subscription_barrier_exactly_once:
  assumes "router_wf r" and "ro_pending_barrier r = None" and "ro_pending_fact r = None"
    and "sib_reason b \<noteq> BIR_kNONE"
    and "s = fold env_step env \<lparr>rs_router = fst (route_message t1 t2 (PathSubscriptionBarrier b) r),
              rs_shard_log = L, rs_control_log = M\<rparr>"
  shows "(\<forall>i < shard_count (rs_router s). shard_stream s i = L i @ shard_items r i
        \<or> shard_stream s i = L i @ shard_items r i @ [PathSubscriptionBarrier b])
    \<and> (ro_pending_barrier (rs_router s) = None \<longrightarrow>
        (\<forall>i < shard_count (rs_router s). shard_stream s i = L i @ shard_items r i @ [PathSubscriptionBarrier b]))
    \<and> control_stream s = M @ ptr_items (ro_control_queue r)
        @ (if ro_pending_barrier (rs_router s) = None \<and> ro_pending_fact (rs_router s) = None
           then [RC_SubscriptionBarrierDelivered (delivered_fact b)] else [])"
proof -
  let ?r = "r\<lparr>ro_subscription_barriers_received := ro_subscription_barriers_received r + 1\<rparr>"
  let ?S = "\<lambda>i. L i @ shard_items r i" and ?C = "M @ ptr_items (ro_control_queue r)"
  have it: "shard_items ?r = shard_items r" by (rule shard_items_cong) simp
  have "fst (route_message t1 t2 (PathSubscriptionBarrier b) r) = fst (begin_subscription_barrier b ?r)"
    using assms(2,3) by (simp add: route_message_def)
  moreover have "delivering b ?S ?C \<lparr>rs_router = fst (begin_subscription_barrier b ?r), rs_shard_log = L, rs_control_log = M\<rparr>"
    using delivering_begin [of ?r b L M] assms(1-4) it by (simp add: router_wf_def)
  ultimately have "delivering b ?S ?C s"
    unfolding assms(5) using assms(4) by (intro delivery.run_invar) (simp_all add: list_all_iff)
  then show ?thesis
    by (auto simp: delivering_def Let_def split: option.splits pending_barrier.splits if_splits)
qed

definition demo_subscription_barrier :: subscription_invalidation_barrier where
  "demo_subscription_barrier = \<lparr>sib_universe_version = 4,
     sib_incident = \<lparr>iik_origin = IIO_kWIRE_SESSION, iik_producer_index = 0, iik_incident_id = 2\<rparr>,
     sib_sid = 1, sib_expected_sequence = 10, sib_observed_sequence = 12, sib_reason = BIR_kEXCHANGE_SEQUENCE_GAP\<rparr>"

definition demo_router2 :: router where
  "demo_router2 = make_router [Some (demo_queue 2), Some (demo_queue 1)] None (Some (demo_queue 4)) None"

theorem subscription_barrier_exactly_once_witness:
  "control_stream \<lparr>rs_router = fst (route_message 0 0 (PathSubscriptionBarrier demo_subscription_barrier) demo_router2),
     rs_shard_log = (\<lambda>_. []), rs_control_log = []\<rparr>
   = [RC_SubscriptionBarrierDelivered (delivered_fact demo_subscription_barrier)]"
proof -
  let ?s = "\<lparr>rs_router = fst (route_message 0 0 (PathSubscriptionBarrier demo_subscription_barrier) demo_router2),
     rs_shard_log = (\<lambda>_. []), rs_control_log = []\<rparr>"
  have pre: "router_wf demo_router2" "ro_pending_barrier demo_router2 = None" "ro_pending_fact demo_router2 = None"
    "sib_reason demo_subscription_barrier \<noteq> BIR_kNONE"
    by (simp_all add: router_wf_def demo_router2_def make_router_def demo_subscription_barrier_def)
  have run: "?s = fold env_step [] ?s" by simp
  have fin: "ro_pending_barrier (rs_router ?s) = None" "ro_pending_fact (rs_router ?s) = None"
    "ptr_items (ro_control_queue demo_router2) = []"
    by (simp_all add: route_message_def begin_subscription_barrier_def route_subscription_barrier_def numeral_2_eq_2
        push_shard_def shard_queue_def bq_push_def update_high_water_def finish_subscription_barrier_def send_telemetry_def
        ptr_push_def ptr_items_def demo_router2_def make_router_def demo_queue_def demo_subscription_barrier_def Let_def)
  from subscription_barrier_exactly_once [OF pre run] fin show ?thesis by simp
qed

section \<open>Progress\<close>

text \<open>The router over its whole life: messages arrive, pending work is flushed, the consumers take from their queues.\<close>

datatype router_op = RO_Route u64 u64 market_data_path_message | RO_Env router_env

fun router_step :: "router_op \<Rightarrow> router_system \<Rightarrow> router_system" where
  "router_step (RO_Route t1 t2 m) s = s\<lparr>rs_router := fst (route_message t1 t2 m (rs_router s))\<rparr>"
| "router_step (RO_Env e) s = env_step e s"

text \<open>What is pending can be delivered, and a fact is pending only when no barrier is.\<close>

definition latch_ok :: "router \<Rightarrow> bool" where
  "latch_ok r \<longleftrightarrow> router_wf r \<and> (ro_pending_fact r \<noteq> None \<longrightarrow> ro_pending_barrier r = None)
     \<and> (case ro_pending_barrier r of None \<Rightarrow> True
        | Some (PendingMarketBarrier b) \<Rightarrow> mib_reason b \<noteq> BIR_kNONE \<and> unat (mib_shard_index b) < shard_count r
        | Some (PendingSubscriptionBarrier b k) \<Rightarrow> sib_reason b \<noteq> BIR_kNONE \<and> k < shard_count r)"

lemma latch_ok_cong:
  assumes "router_wf r' = router_wf r" "ro_pending_fact r' = ro_pending_fact r" "ro_pending_barrier r' = ro_pending_barrier r"
    "shard_count r' = shard_count r"
  shows "latch_ok r' = latch_ok r"
  unfolding latch_ok_def assms ..

text \<open>Which queues exist.\<close>

definition shape :: "router \<Rightarrow> bool list \<times> bool" where
  "shape r = (map (\<lambda>p. p = None) (ro_shard_queues r), ro_control_queue r = None)"

lemma shape_wf: "shape r' = shape r \<Longrightarrow> router_wf r' = router_wf r"
  "shape r' = shape r \<Longrightarrow> shard_count r' = shard_count r"
proof -
  assume eq: "shape r' = shape r"
  then have m: "map (\<lambda>p. p = None) (ro_shard_queues r') = map (\<lambda>p. p = None) (ro_shard_queues r)" by (simp add: shape_def)
  then have l: "length (ro_shard_queues r') = length (ro_shard_queues r)" by (rule map_eq_imp_length_eq)
  then show "shard_count r' = shard_count r" by (simp add: shard_count_def)
  have "(ro_shard_queues r' ! i = None) = (ro_shard_queues r ! i = None)" if "i < length (ro_shard_queues r)" for i
    using arg_cong [OF m, of "\<lambda>l. l ! i"] that l by simp
  then have "list_all (\<lambda>p. p \<noteq> None) (ro_shard_queues r') = list_all (\<lambda>p. p \<noteq> None) (ro_shard_queues r)"
    using l by (simp add: list_all_length del: not_None_eq)
  then show "router_wf r' = router_wf r" using eq l by (auto simp: router_wf_def shape_def)
qed

lemma shape_telemetry [simp]:
  "shape (fst (send_telemetry t r)) = shape r" "shape (update_channel k g r) = shape r"
  "shape (maybe_send_periodic_telemetry r) = shape r" "shape (report_handle_leak h r) = shape r"
  "shape (record_channel_latency ro_wire_to_router_latency_update i a b r) = shape r"
  "shape (record_channel_latency ro_router_service_latency_update i a b r) = shape r"
proof -
  have send: "shape (fst (send_telemetry t r)) = shape r" for t r
    by (simp add: send_telemetry_def case_prod_beta Let_def shape_def ptr_push_def split: option.split)
  show "shape (fst (send_telemetry t r)) = shape r" by (rule send)
  show "shape (update_channel k g r) = shape r" by (simp add: update_channel_def shape_def split: option.split)
  show "shape (maybe_send_periodic_telemetry r) = shape r"
    using send by (simp add: maybe_send_periodic_telemetry_def Let_def case_prod_beta shape_def)
  show "shape (report_handle_leak h r) = shape r" by (simp add: report_handle_leak_def send)
  show "shape (record_channel_latency ro_wire_to_router_latency_update i a b r) = shape r"
    "shape (record_channel_latency ro_router_service_latency_update i a b r) = shape r"
    by (simp_all add: record_channel_latency_def shape_def)
qed

lemma shape_push [simp]: "shape (fst (push_shard i m r)) = shape r"
proof (cases "shard_queue r i")
  case (Some q)
  then have "i < length (ro_shard_queues r)" "ro_shard_queues r ! i = Some q" by (auto simp: shard_queue_def split: if_splits)
  then have "map (\<lambda>p. p = None) ((ro_shard_queues r)[i := Some q']) = map (\<lambda>p. p = None) (ro_shard_queues r)" for q'
    by (simp add: map_update list_update_same_conv_nth)
  then show ?thesis using Some by (simp add: push_shard_def shape_def update_high_water_def case_prod_beta Let_def)
qed (simp add: push_shard_def)

lemma shape_handoff [simp]: "shape (fst (terminal_handoff h r)) = shape r"
proof -
  have "shape (r\<lparr>ro_logger_queue := a\<rparr>) = shape r" "shape (r\<lparr>ro_recycle_queue := a\<rparr>) = shape r"
    "shape (r\<lparr>ro_total_frames_to_logger := n\<rparr>) = shape r" "shape (r\<lparr>ro_total_frames_recycled := n\<rparr>) = shape r" for r a n
    by (simp_all add: shape_def)
  then show ?thesis by (simp add: terminal_handoff_def try_route_to_logger_def try_recycle_def case_prod_beta Let_def)
qed

lemma shape_market [simp]: "shape (fst (route_market_barrier b r)) = shape r" "shape (fst (begin_market_barrier b r)) = shape r"
proof -
  show route: "shape (fst (route_market_barrier b r)) = shape r"
    using shape_push [of "unat (mib_shard_index b)" "PathMarketBarrier b" r]
    by (cases "push_shard (unat (mib_shard_index b)) (PathMarketBarrier b) r")
      (auto simp: route_market_barrier_def split: shard_enqueue_result.split)
  then show "shape (fst (begin_market_barrier b r)) = shape r"
    by (auto simp: begin_market_barrier_def shape_def split: prod.splits barrier_delivery_result.splits)
qed

lemma shape_frame [simp]: "shape (fst (route_frame t1 t2 h r)) = shape r"
proof -
  have up: "shape (r\<lparr>ro_total_frames_seen := n, ro_current_frame_count := m\<rparr>) = shape r" "shape (r\<lparr>ro_total_frames_to_shards := n\<rparr>) = shape r"
    "shape (r\<lparr>ro_next_incident_id := n\<rparr>) = shape r" for r n m by (simp_all add: shape_def)
  define r4 where "r4 = record_channel_latency ro_router_service_latency_update (market_data_channel_index (fh_kind h)) t1 t2
    (update_channel (fh_kind h) (\<lambda>s. s\<lparr>ct_frames_observed := ct_frames_observed s + 1\<rparr>)
      (let r1 = record_channel_latency ro_wire_to_router_latency_update (market_data_channel_index (fh_kind h))
                  (fh_wire_publish_ts_ns h) t1 r
       in r1\<lparr>ro_total_frames_seen := ro_total_frames_seen r1 + 1, ro_current_frame_count := ro_current_frame_count r1 + 1\<rparr>))"
  obtain r5 e where p: "try_route_to_shard (h\<lparr>fh_router_publish_ts_ns := t2\<rparr>) r4 = (r5, e)" by fastforce
  have "shape r5 = shape r4" using p shape_push by (metis try_route_to_shard_def fst_conv)
  then have r5: "shape r5 = shape r" by (simp add: r4_def Let_def up)
  show ?thesis
    unfolding route_frame_def Let_def r4_def [unfolded Let_def, symmetric] p prod.case
    using r5 by (cases e) (simp_all add: up case_prod_beta)
qed

lemma latch_ok_frame:
  assumes "latch_ok r" "ro_pending_barrier r = None" "ro_pending_fact r = None"
  shows "latch_ok (fst (route_frame t1 t2 h r))"
proof -
  obtain r' res where run: "route_frame t1 t2 h r = (r', res)" by fastforce
  have sh: "shape r' = shape r" using shape_frame [of t1 t2 h r] run by simp
  have wf: "router_wf r'" "shard_count r' = shard_count r" using shape_wf [OF sh] assms(1) by (simp_all add: latch_ok_def)
  have idx: "i < shard_count r" if "shard_queue r i \<noteq> None" for i using that by (auto simp: shard_queue_def shard_count_def split: if_splits)
  from run have "latch_ok r'"
  proof (cases rule: route_frame_cases)
    case (barrier_latched n)
    then show ?thesis using wf assms idx by (simp add: latch_ok_def loss_barrier_def)
  qed (use wf assms in \<open>simp_all add: latch_ok_def\<close>)
  then show ?thesis by (simp add: run)
qed

lemma latch_ok_market:
  assumes "latch_ok r" "ro_pending_barrier r = None" "ro_pending_fact r = None"
  shows "latch_ok (fst (begin_market_barrier b r))"
proof -
  obtain r1 e where p: "push_shard (unat (mib_shard_index b)) (PathMarketBarrier b) r = (r1, e)" by fastforce
  have sh: "shape r1 = shape r" using shape_push [of "unat (mib_shard_index b)" "PathMarketBarrier b" r] p by simp
  note wf = shape_wf [OF sh]
  from p show ?thesis
  proof (cases rule: push_shard_cases)
    case (full q)
    have "unat (mib_shard_index b) < shard_count r" using full(4) by (auto simp: shard_queue_def shard_count_def split: if_splits)
    then show ?thesis using full p assms
      by (simp add: begin_market_barrier_def route_market_barrier_def latch_ok_def router_wf_def shard_count_def)
  next
    case (enqueued q)
    then show ?thesis using p assms wf routing_eq(4,5) [OF enqueued(5)]
      by (simp add: begin_market_barrier_def route_market_barrier_def latch_ok_def router_wf_def shard_count_def)
  qed (use p assms in \<open>simp add: begin_market_barrier_def route_market_barrier_def latch_ok_def\<close>)
qed

lemma latch_ok_finish:
  assumes "router_wf r" "ro_pending_barrier r = None" "ro_pending_fact r = None"
  shows "latch_ok (fst (finish_subscription_barrier b r))"
  using assms
  by (auto simp: finish_subscription_barrier_def send_telemetry_def ptr_push_eq latch_ok_def router_wf_def Let_def)

lemma latch_ok_delivery:
  assumes wf: "router_wf r" "ro_pending_fact r = None" and k: "k < shard_count r" and reason: "sib_reason b \<noteq> BIR_kNONE"
    and run: "route_subscription_barrier b k r = (r1, k', res)"
  shows "router_wf r1 \<and> ro_pending_fact r1 = None \<and> ro_control_queue r1 = ro_control_queue r \<and> shard_count r1 = shard_count r \<and> k' \<le> shard_count r
    \<and> res = (if k' = shard_count r then BDR_kDELIVERED else BDR_kBLOCKED)
    \<and> (k' < shard_count r \<longrightarrow> \<not> room (shard_queue r1 k')) \<and> k \<le> k'
    \<and> (\<forall>i. shard_items r1 i = shard_items r i @ (if k \<le> i \<and> i < k' then [PathSubscriptionBarrier b] else []))"
proof -
  have ne: "ro_shard_queues r \<noteq> []" using wf(1) by (simp add: router_wf_def)
  have "deliver_from b (shard_count r - k) k r = (r1, k', res)"
    using run k reason ne by (simp add: route_subscription_barrier_def shard_count_def)
  from deliver_from_spec [OF wf(1) _ this] show ?thesis using k wf(2) by simp
qed

lemma latch_ok_subscription:
  assumes "latch_ok r" "ro_pending_barrier r = None" "ro_pending_fact r = None"
  shows "latch_ok (fst (begin_subscription_barrier b r))"
proof (cases "sib_reason b = BIR_kNONE")
  case True
  then show ?thesis using assms by (simp add: begin_subscription_barrier_def route_subscription_barrier_def)
next
  case False
  have wf: "router_wf r" and z: "0 < shard_count r" using assms(1) by (simp_all add: latch_ok_def router_wf_def shard_count_def)
  obtain r1 k res where route: "route_subscription_barrier b 0 r = (r1, k, res)" using prod_cases3 by blast
  note d = latch_ok_delivery [OF wf assms(3) z False route]
  have pend: "ro_pending_barrier r1 = None"
    using deliver_from_spec [OF wf, of 0 "shard_count r" b r1 k res] route False assms(2) wf
    by (simp add: route_subscription_barrier_def shard_count_def router_wf_def)
  show ?thesis
  proof (cases "k = shard_count r")
    case True
    then show ?thesis using d route pend latch_ok_finish [of r1] by (simp add: begin_subscription_barrier_def)
  next
    case k: False
    then show ?thesis using d route False by (auto simp: begin_subscription_barrier_def latch_ok_def router_wf_def shard_count_def)
  qed
qed

lemma latch_ok_flush: "latch_ok r \<Longrightarrow> latch_ok (fst (flush_pending_barrier r))"
proof (cases "ro_pending_fact r")
  case (Some f)
  assume "latch_ok r"
  then show ?thesis using Some
    by (auto simp: flush_pending_barrier_def send_telemetry_def ptr_push_eq latch_ok_def router_wf_def shard_count_def Let_def)
next
  case None
  assume ok: "latch_ok r"
  show ?thesis
  proof (cases "ro_pending_barrier r")
    case None
    then show ?thesis using \<open>ro_pending_fact r = None\<close> ok by (simp add: flush_pending_barrier_def)
  next
    case (Some p)
    show ?thesis
    proof (cases p)
      case (PendingMarketBarrier b)
      have b: "mib_reason b \<noteq> BIR_kNONE" "unat (mib_shard_index b) < shard_count r" "router_wf r"
        using ok Some PendingMarketBarrier by (simp_all add: latch_ok_def)
      obtain r1 e where p': "push_shard (unat (mib_shard_index b)) (PathMarketBarrier b) r = (r1, e)" by fastforce
      note w = push_shard_wf [OF b(3,2) p']
      show ?thesis
        using ok None Some PendingMarketBarrier b p' w
        by (cases "room (shard_queue r (unat (mib_shard_index b)))")
          (auto simp: flush_pending_barrier_def route_market_barrier_def latch_ok_def router_wf_def shard_count_def)
    next
      case (PendingSubscriptionBarrier b k)
      have b: "sib_reason b \<noteq> BIR_kNONE" "k < shard_count r" "router_wf r" using ok Some PendingSubscriptionBarrier by (simp_all add: latch_ok_def)
      obtain r1 k' res where route: "route_subscription_barrier b k r = (r1, k', res)" using prod_cases3 by blast
      note d = latch_ok_delivery [OF b(3) None b(2,1) route]
      show ?thesis
      proof (cases "k' = shard_count r")
        case True
        have "router_wf (r1\<lparr>ro_pending_barrier := None\<rparr>)" using conjunct1 [OF d] by (simp add: router_wf_def)
        then have "latch_ok (fst (finish_subscription_barrier b (r1\<lparr>ro_pending_barrier := None\<rparr>)))" using d by (intro latch_ok_finish) simp_all
        then show ?thesis using d True route None Some PendingSubscriptionBarrier by (simp add: flush_pending_barrier_def)
      next
        case False
        then show ?thesis using d route None Some PendingSubscriptionBarrier b(1)
          by (auto simp: flush_pending_barrier_def latch_ok_def router_wf_def shard_count_def)
      qed
    qed
  qed
qed

lemma latch_ok_received:
  "latch_ok (r\<lparr>ro_market_barriers_received := n\<rparr>) = latch_ok r" "latch_ok (r\<lparr>ro_subscription_barriers_received := n\<rparr>) = latch_ok r"
  by (rule latch_ok_cong; simp add: router_wf_def shard_count_def)+

lemma latch_ok_message: "latch_ok r \<Longrightarrow> latch_ok (fst (route_message t1 t2 m r))"
  using latch_ok_frame [of r t1 t2] latch_ok_market [of "r\<lparr>ro_market_barriers_received := ro_market_barriers_received r + 1\<rparr>"]
    latch_ok_subscription [of "r\<lparr>ro_subscription_barriers_received := ro_subscription_barriers_received r + 1\<rparr>"]
  by (cases m) (simp_all add: route_message_def latch_ok_received)

interpretation router_machine: guarded_machine router_step "\<lambda>s. latch_ok (rs_router s)" "\<lambda>_. True"
proof (unfold_locales, goal_cases)
  case (1 s x)
  show ?case
  proof (cases x)
    case (RO_Route t1 t2 m)
    then show ?thesis using latch_ok_message 1(1) by simp
  next
    case (RO_Env e)
    have wf: "router_wf (rs_router s)" using 1(1) by (simp add: latch_ok_def)
    have "latch_ok (rs_router (pop_shard i s)) = latch_ok (rs_router s)" "latch_ok (rs_router (pop_control s)) = latch_ok (rs_router s)" for i
      by (rule latch_ok_cong; simp add: wf pop_shard_facts pop_control_facts)+
    then have "latch_ok (rs_router (pop_shard i s))" "latch_ok (rs_router (pop_control s))" for i using 1(1) by blast+
    then show ?thesis using RO_Env latch_ok_flush 1(1) by (cases e) simp_all
  qed
qed

text \<open>The queues that the pending work waits for.\<close>

definition awaited_room :: "router \<Rightarrow> bool" where
  "awaited_room r \<longleftrightarrow> (case ro_pending_fact r of Some f \<Rightarrow> room (ro_control_queue r)
     | None \<Rightarrow> (case ro_pending_barrier r of None \<Rightarrow> True
        | Some (PendingMarketBarrier b) \<Rightarrow> room (shard_queue r (unat (mib_shard_index b)))
        | Some (PendingSubscriptionBarrier b k) \<Rightarrow>
            (\<forall>i. k \<le> i \<and> i < shard_count r \<longrightarrow> room (shard_queue r i)) \<and> room (ro_control_queue r)))"

text \<open>What a flush that completes delivers.\<close>

definition flushed :: "router \<Rightarrow> router \<Rightarrow> bool" where
  "flushed r r' \<longleftrightarrow> (case ro_pending_fact r of
       Some f \<Rightarrow> shard_items r' = shard_items r \<and> control_items r' = control_items r @ [RC_SubscriptionBarrierDelivered f]
     | None \<Rightarrow> (case ro_pending_barrier r of
         None \<Rightarrow> r' = r
       | Some (PendingMarketBarrier b) \<Rightarrow> control_items r' = control_items r \<and>
           shard_items r' = (shard_items r)(unat (mib_shard_index b) := shard_items r (unat (mib_shard_index b)) @ [PathMarketBarrier b])
       | Some (PendingSubscriptionBarrier b k) \<Rightarrow>
           (\<forall>i < shard_count r. shard_items r' i = shard_items r i @ (if k \<le> i then [PathSubscriptionBarrier b] else []))
           \<and> control_items r' = control_items r @ [RC_SubscriptionBarrierDelivered (delivered_fact b)]))"

lemma deliver_from_room:
  assumes "router_wf r" "k + todo = shard_count r" "\<forall>i. k \<le> i \<and> i < shard_count r \<longrightarrow> room (shard_queue r i)"
  shows "\<exists>r1. deliver_from b todo k r = (r1, shard_count r, BDR_kDELIVERED)"
  using assms
proof (induction todo arbitrary: k r)
  case (Suc todo)
  obtain r1 e where p: "push_shard k (PathSubscriptionBarrier b) r = (r1, e)" by fastforce
  have k: "k < shard_count r" using Suc.prems(2) by simp
  note w = push_shard_wf [OF Suc.prems(1) k p]
  have rk: "room (shard_queue r k)" using Suc.prems(3) k by simp
  have "shard_queue r1 i = shard_queue r i" if "i \<noteq> k" for i
    using p that by (auto simp: push_shard_def update_high_water_def shard_queue_def Let_def split: option.splits prod.splits if_splits)
  then have "\<forall>i. Suc k \<le> i \<and> i < shard_count r1 \<longrightarrow> room (shard_queue r1 i)" using Suc.prems(3) w(2) by simp
  with Suc.IH [OF w(1), of "Suc k"] Suc.prems(2) w p rk show ?case by auto
qed simp

text \<open>C38. The router does not stay blocked on what it can deliver. In every reachable state of a router whose queues exist, a flush
  completes when the queues it waits for have room: the queue of its shard for a market barrier, the queues of the shards that
  do not have a subscription barrier yet and the control queue for that one, the control queue for a recovery fact. It
  leaves neither a pending barrier nor a pending fact, and it has delivered exactly what was pending.\<close>

theorem flush_completes_with_room:
  assumes "router_wf (rs_router s)" "ro_pending_barrier (rs_router s) = None" "ro_pending_fact (rs_router s) = None"
    and "r = rs_router (fold router_step ops s)" "awaited_room r" "flush_pending_barrier r = (r', res)"
  shows "res = RRR_kCOMPLETED \<and> ro_pending_barrier r' = None \<and> ro_pending_fact r' = None \<and> flushed r r'"
proof -
  have ok: "latch_ok r"
    using router_machine.run_invar [of s ops] assms(1-4) by (simp add: latch_ok_def list_all_iff)
  show ?thesis
  proof (cases "ro_pending_fact r")
    case (Some f)
    then have "room (ro_control_queue r)" "ro_pending_barrier r = None" using assms(5) ok by (simp_all add: awaited_room_def latch_ok_def)
    then show ?thesis using Some assms(6) shard_items_cong [of r' r]
      by (auto simp: flush_pending_barrier_def send_telemetry_def ptr_push_eq flushed_def control_items_def ptr_items_push Let_def)
  next
    case none: None
    show ?thesis
    proof (cases "ro_pending_barrier r")
      case None
      then show ?thesis using none assms(6) by (simp add: flush_pending_barrier_def flushed_def)
    next
      case (Some p)
      show ?thesis
      proof (cases p)
        case (PendingMarketBarrier b)
        have b: "mib_reason b \<noteq> BIR_kNONE" "unat (mib_shard_index b) < shard_count r" "router_wf r" "room (shard_queue r (unat (mib_shard_index b)))"
          using ok assms(5) none Some PendingMarketBarrier by (simp_all add: latch_ok_def awaited_room_def)
        obtain r1 e where p': "push_shard (unat (mib_shard_index b)) (PathMarketBarrier b) r = (r1, e)" by fastforce
        note w = push_shard_wf [OF b(3,2) p']
        have r': "r' = r1\<lparr>ro_market_barriers_delivered := ro_market_barriers_delivered r1 + 1, ro_pending_barrier := None\<rparr>" "res = RRR_kCOMPLETED"
          using assms(6) none Some PendingMarketBarrier b p' w(6) by (simp_all add: flush_pending_barrier_def route_market_barrier_def)
        then show ?thesis using none Some PendingMarketBarrier w(3,5,7) b(4) shard_items_cong [of r' r1]
          by (simp add: flushed_def control_items_def)
      next
        case (PendingSubscriptionBarrier b k)
        have b: "sib_reason b \<noteq> BIR_kNONE" "k < shard_count r" "router_wf r" "room (ro_control_queue r)"
            "\<forall>i. k \<le> i \<and> i < shard_count r \<longrightarrow> room (shard_queue r i)"
          using ok assms(5) none Some PendingSubscriptionBarrier by (simp_all add: latch_ok_def awaited_room_def)
        obtain r1 where dl: "deliver_from b (shard_count r - k) k r = (r1, shard_count r, BDR_kDELIVERED)"
          using deliver_from_room [OF b(3) _ b(5), of "shard_count r - k"] b(2) by auto
        have route: "route_subscription_barrier b k r = (r1, shard_count r, BDR_kDELIVERED)"
          using dl b(1-3) by (simp add: route_subscription_barrier_def shard_count_def router_wf_def)
        note d = latch_ok_delivery [OF b(3) none b(2,1) route]
        have run: "finish_subscription_barrier b (r1\<lparr>ro_pending_barrier := None\<rparr>) = (r', res)"
          using assms(6) none Some PendingSubscriptionBarrier route by (simp add: flush_pending_barrier_def)
        then have r': "res = RRR_kCOMPLETED" "ro_pending_barrier r' = None" "ro_pending_fact r' = None" "ro_shard_queues r' = ro_shard_queues r1"
            "control_items r' = control_items r @ [RC_SubscriptionBarrierDelivered (delivered_fact b)]"
          using d b(4) by (auto simp: finish_subscription_barrier_def send_telemetry_def ptr_push_eq control_items_def ptr_items_def room_def Let_def
              split: if_splits)
        then show ?thesis using none Some PendingSubscriptionBarrier d shard_items_cong [OF r'(4)] by (simp add: flushed_def)
      qed
    qed
  qed
qed

definition demo_market_barrier :: market_invalidation_barrier where
  "demo_market_barrier = \<lparr>mib_universe_version = 4,
     mib_incident = \<lparr>iik_origin = IIO_kWIRE_SESSION, iik_producer_index = 0, iik_incident_id = 2\<rparr>, mib_sid = 1, mib_sequence = 10,
     mib_market_id = 7, mib_event_id = 3, mib_shard_index = 0, mib_shard_event_index = 0, mib_event_market_index = 0,
     mib_reason = BIR_kWIRE_POOL_EXHAUSTION\<rparr>"

definition demo_router1 :: router_system where
  "demo_router1 = \<lparr>rs_router = make_router [Some (demo_queue 1)] None (Some (demo_queue 4)) None, rs_shard_log = (\<lambda>_. []), rs_control_log = []\<rparr>"

definition demo_unblocked :: router where
  "demo_unblocked = rs_router (fold router_step [RO_Route 0 0 (PathMarketBarrier demo_market_barrier),
     RO_Route 0 0 (PathMarketBarrier demo_market_barrier), RO_Env (RE_PopShard 0)] demo_router1)"

theorem flush_completes_with_room_witness:
  "ro_pending_barrier demo_unblocked = Some (PendingMarketBarrier demo_market_barrier)
   \<and> snd (flush_pending_barrier demo_unblocked) = RRR_kCOMPLETED
   \<and> shard_items (fst (flush_pending_barrier demo_unblocked)) 0 = [PathMarketBarrier demo_market_barrier]"
proof -
  have pre: "router_wf (rs_router demo_router1)" "ro_pending_barrier (rs_router demo_router1) = None" "ro_pending_fact (rs_router demo_router1) = None"
    by (simp_all add: router_wf_def demo_router1_def make_router_def)
  have r: "ro_pending_barrier demo_unblocked = Some (PendingMarketBarrier demo_market_barrier)" "ro_pending_fact demo_unblocked = None"
    "shard_queue demo_unblocked 0 = Some (demo_queue 1)"
    by (simp_all add: demo_unblocked_def demo_router1_def route_message_def begin_market_barrier_def route_market_barrier_def push_shard_def
        shard_queue_def bq_push_def bq_pop_def update_high_water_def pop_shard_def make_router_def demo_queue_def demo_market_barrier_def Let_def)
  then have "awaited_room demo_unblocked" by (simp add: awaited_room_def demo_market_barrier_def room_def demo_queue_def)
  from flush_completes_with_room [OF pre demo_unblocked_def this surjective_pairing] show ?thesis using r
    by (simp add: flushed_def demo_market_barrier_def shard_items_def ptr_items_def demo_queue_def)
qed

end
