(* ===== verification/Idle_Backoff.thy ===== *)
theory Idle_Backoff
  imports Prelude
begin

text \<open>
  \<open>cpp/include/predex/utils/idle_backoff.hpp\<close>: what a worker thread does when its queues are empty.
  Under the low-latency profile it yields; under the harvest profile it spins, then yields, then sleeps
  for a doubling time. The theory gives the closed form of the whole schedule after a reset.
\<close>

section \<open>The code\<close>

datatype thread_polling_profile = TPP_kLOW_LATENCY | TPP_kHARVEST

record idle_backoff_config =
  ibc_profile :: thread_polling_profile
  ibc_spin_iterations :: u32
  ibc_yield_iterations :: u32
  ibc_min_sleep :: int
  ibc_max_sleep :: int

datatype idle_backoff_action = IBA_kSPIN | IBA_kYIELD | IBA_kSLEEP

record idle_backoff_decision =
  ibd_action :: idle_backoff_action
  ibd_sleep_duration :: int

record idle_backoff =
  ib_config :: idle_backoff_config
  ib_idle_iterations :: u64
  ib_next_sleep :: int

definition idle_backoff_make :: "idle_backoff_config \<Rightarrow> cpp_exception + idle_backoff" where
  "idle_backoff_make config =
     (if ibc_profile config = TPP_kHARVEST \<and>
         (ibc_min_sleep config \<le> 0 \<or> ibc_max_sleep config < ibc_min_sleep config)
      then Inl (invalid_argument ''Harvest idle backoff requires 0 < min_sleep <= max_sleep'')
      else Inr \<lparr>ib_config = config, ib_idle_iterations = 0, ib_next_sleep = ibc_min_sleep config\<rparr>)"

definition idle_reset :: "idle_backoff \<Rightarrow> idle_backoff" where
  "idle_reset b = b\<lparr>ib_idle_iterations := 0, ib_next_sleep := ibc_min_sleep (ib_config b)\<rparr>"

definition next_idle_decision :: "idle_backoff \<Rightarrow> idle_backoff_decision \<times> idle_backoff" where
  "next_idle_decision b =
     (let config = ib_config b in
      if ibc_profile config = TPP_kLOW_LATENCY
      then (\<lparr>ibd_action = IBA_kYIELD, ibd_sleep_duration = 0\<rparr>, b)
      else if ib_idle_iterations b < ucast (ibc_spin_iterations config)
      then (\<lparr>ibd_action = IBA_kSPIN, ibd_sleep_duration = 0\<rparr>,
            b\<lparr>ib_idle_iterations := ib_idle_iterations b + 1\<rparr>)
      else let after_spin = ib_idle_iterations b - ucast (ibc_spin_iterations config) in
      if after_spin < ucast (ibc_yield_iterations config)
      then (\<lparr>ibd_action = IBA_kYIELD, ibd_sleep_duration = 0\<rparr>,
            b\<lparr>ib_idle_iterations := ib_idle_iterations b + 1\<rparr>)
      else let sleep_duration = ib_next_sleep b;
               next_sleep = (if ib_next_sleep b < ibc_max_sleep config
                             then let remaining = ibc_max_sleep config - ib_next_sleep b
                                  in ib_next_sleep b + (if remaining < ib_next_sleep b then remaining else ib_next_sleep b)
                             else ib_next_sleep b)
           in (\<lparr>ibd_action = IBA_kSLEEP, ibd_sleep_duration = sleep_duration\<rparr>,
               b\<lparr>ib_next_sleep := next_sleep\<rparr>))"

text \<open>\<open>idle()\<close> performs the decision; the effect is the call it makes into \<open>std::this_thread\<close>, if any.\<close>

datatype thread_effect = No_Effect | Thread_Yield | Thread_Sleep_For int

definition idle :: "idle_backoff \<Rightarrow> thread_effect \<times> idle_backoff" where
  "idle b =
     (let (decision, b') = next_idle_decision b in
      (case ibd_action decision of
         IBA_kSPIN \<Rightarrow> No_Effect
       | IBA_kYIELD \<Rightarrow> Thread_Yield
       | IBA_kSLEEP \<Rightarrow> Thread_Sleep_For (ibd_sleep_duration decision), b'))"

section \<open>The schedule\<close>

text \<open>The effects of \<open>n\<close> consecutive idle rounds.\<close>

fun idle_rounds :: "nat \<Rightarrow> idle_backoff \<Rightarrow> thread_effect list \<times> idle_backoff" where
  "idle_rounds 0 b = ([], b)"
| "idle_rounds (Suc n) b =
     (let (e, b') = idle b; (es, b'') = idle_rounds n b' in (e # es, b''))"

text \<open>The specification: what round \<open>k\<close> after a reset does, and the state before that round.\<close>

definition scheduled_effect :: "idle_backoff_config \<Rightarrow> nat \<Rightarrow> thread_effect" where
  "scheduled_effect c k =
     (let s = unat (ibc_spin_iterations c); y = unat (ibc_yield_iterations c) in
      if ibc_profile c = TPP_kLOW_LATENCY then Thread_Yield
      else if k < s then No_Effect
      else if k < s + y then Thread_Yield
      else Thread_Sleep_For (min (ibc_max_sleep c) (ibc_min_sleep c * 2 ^ (k - (s + y)))))"

definition scheduled_state :: "idle_backoff_config \<Rightarrow> nat \<Rightarrow> idle_backoff" where
  "scheduled_state c k =
     (let s = unat (ibc_spin_iterations c); y = unat (ibc_yield_iterations c) in
      if ibc_profile c = TPP_kLOW_LATENCY
      then \<lparr>ib_config = c, ib_idle_iterations = 0, ib_next_sleep = ibc_min_sleep c\<rparr>
      else \<lparr>ib_config = c, ib_idle_iterations = of_nat (min k (s + y)),
            ib_next_sleep = min (ibc_max_sleep c) (ibc_min_sleep c * 2 ^ (k - (s + y)))\<rparr>)"

definition valid_idle_config :: "idle_backoff_config \<Rightarrow> bool" where
  "valid_idle_config c \<longleftrightarrow>
     ibc_profile c = TPP_kHARVEST \<longrightarrow> 0 < ibc_min_sleep c \<and> ibc_min_sleep c \<le> ibc_max_sleep c"

lemma idle_backoff_make_iff:
  "idle_backoff_make c = Inr b \<longleftrightarrow> valid_idle_config c \<and> b = scheduled_state c 0"
  by (cases "ibc_profile c") (auto simp: idle_backoff_make_def valid_idle_config_def scheduled_state_def Let_def)

lemma idle_reset_state:
  assumes "valid_idle_config c"
  shows "idle_reset (scheduled_state c k) = scheduled_state c 0"
  using assms
  by (cases "ibc_profile c") (simp_all add: idle_reset_def scheduled_state_def valid_idle_config_def Let_def)

text \<open>The two iteration limits are 32-bit, so the 64-bit round counter never wraps.\<close>

lemma limits_fit:
  "unat (x :: u32) + unat (y :: u32) < 2 ^ 64"
  using unsigned_less [of x, where 'a=nat] unsigned_less [of y, where 'a=nat] by simp

lemma unat_ucast_u32: "unat (ucast (x :: u32) :: u64) = unat x"
proof -
  have "unat x < 2 ^ 64" using unat_u32_less [of x] by simp
  then show ?thesis by (simp add: unsigned_ucast_eq take_bit_nat_eq_self)
qed

lemma doubling_step:
  assumes "0 < m" "m \<le> (M :: int)"
  shows "(let s = min M (m * 2 ^ n) in if s < M then s + (if M - s < s then M - s else s) else s)
         = min M (m * 2 ^ Suc n)"
proof (cases "m * 2 ^ n < M")
  case True
  then show ?thesis using assms by (auto simp: Let_def min_def)
next
  case False
  then have "M \<le> m * 2 ^ n" by simp
  also have "\<dots> \<le> m * 2 ^ Suc n" using assms by simp
  finally show ?thesis using False by (auto simp: Let_def min_def)
qed

lemma idle_scheduled:
  assumes "valid_idle_config c"
  shows "idle (scheduled_state c k) = (scheduled_effect c k, scheduled_state c (Suc k))"
proof (cases "ibc_profile c")
  case TPP_kLOW_LATENCY
  then show ?thesis
    by (simp add: idle_def next_idle_decision_def scheduled_state_def scheduled_effect_def Let_def)
next
  case harvest: TPP_kHARVEST
  define s where "s = unat (ibc_spin_iterations c)"
  define y where "y = unat (ibc_yield_iterations c)"
  have sy: "s + y < 2 ^ 64" unfolding s_def y_def by (rule limits_fit)
  have mM: "0 < ibc_min_sleep c" "ibc_min_sleep c \<le> ibc_max_sleep c"
    using assms harvest by (auto simp: valid_idle_config_def)
  have us: "unat (ucast (ibc_spin_iterations c) :: u64) = s" and uy: "unat (ucast (ibc_yield_iterations c) :: u64) = y"
    by (simp_all add: s_def y_def unat_ucast_u32)
  have ws: "(ucast (ibc_spin_iterations c) :: u64) = of_nat s" and wy: "(ucast (ibc_yield_iterations c) :: u64) = of_nat y"
    by (simp_all flip: us uy)
  have less: "(of_nat a :: u64) < of_nat b \<longleftrightarrow> a < b" if "a \<le> s + y" "b \<le> s + y" for a b
    using that sy by (simp add: word_less_nat_alt unat_of_nat)
  have state: "scheduled_state c j = \<lparr>ib_config = c, ib_idle_iterations = of_nat (min j (s + y)),
                 ib_next_sleep = min (ibc_max_sleep c) (ibc_min_sleep c * 2 ^ (j - (s + y)))\<rparr>" for j
    using harvest by (simp add: scheduled_state_def s_def y_def Let_def)
  consider (spin) "k < s" | (yld) "s \<le> k" "k < s + y" | (sleep) "s + y \<le> k" by linarith
  then show ?thesis
  proof cases
    case spin
    then show ?thesis
      using harvest less [of k s]
      by (simp add: idle_def next_idle_decision_def state scheduled_effect_def ws Let_def add.commute flip: s_def)
  next
    case yld
    have "(of_nat k :: u64) - of_nat s = of_nat (k - s)" using yld by simp
    then show ?thesis
      using harvest yld less [of k s] less [of "k - s" y]
      by (simp add: idle_def next_idle_decision_def state scheduled_effect_def ws wy Let_def add.commute
               flip: s_def y_def)
  next
    case sleep
    define t where "t = min (ibc_max_sleep c) (ibc_min_sleep c * 2 ^ (k - (s + y)))"
    define t' where "t' = min (ibc_max_sleep c) (ibc_min_sleep c * 2 ^ (Suc k - (s + y)))"
    have "Suc k - (s + y) = Suc (k - (s + y))" using sleep by simp
    then have doubled: "(if t < ibc_max_sleep c
        then t + (if ibc_max_sleep c - t < t then ibc_max_sleep c - t else t) else t) = t'"
      using doubling_step [OF mM, of "k - (s + y)"] by (simp only: t_def t'_def Let_def)
    have "min k (s + y) = s + y" "min (Suc k) (s + y) = s + y" using sleep by simp_all
    moreover have "(of_nat (s + y) :: u64) - of_nat s = of_nat y" by simp
    moreover have "\<not> k < s" "\<not> k < s + y" using sleep by simp_all
    ultimately show ?thesis
      using harvest less [of "s + y" s] doubled
      by (simp add: idle_def next_idle_decision_def state scheduled_effect_def ws wy Let_def
               flip: s_def y_def t_def t'_def del: of_nat_add cong: if_cong split del: if_split)
  qed
qed

lemma idle_rounds_scheduled:
  assumes "valid_idle_config c"
  shows "idle_rounds n (scheduled_state c k) = (map (scheduled_effect c) [k..<k + n], scheduled_state c (k + n))"
proof (induction n arbitrary: k)
  case (Suc n)
  have "[k..<k + Suc n] = k # [Suc k..<Suc k + n]" by (simp add: upt_rec)
  then show ?case using Suc.IH [of "Suc k"] idle_scheduled [OF assms, of k] by simp
qed simp

text \<open>The constructor throws exactly for a harvest profile without \<open>0 < min_sleep <= max_sleep\<close>. A
  constructed backoff follows one schedule for ever: under low latency it always yields; under harvest it
  spins \<open>spin_iterations\<close> times, yields \<open>yield_iterations\<close> times and then sleeps, the \<open>j\<close>-th sleep lasting
  \<open>min_sleep * 2 ^ j\<close> capped at \<open>max_sleep\<close>; and \<open>reset\<close> brings it back to the start of the schedule.\<close>

theorem idle_schedule:
  "case idle_backoff_make c of
     Inl _ \<Rightarrow> ibc_profile c = TPP_kHARVEST \<and> (ibc_min_sleep c \<le> 0 \<or> ibc_max_sleep c < ibc_min_sleep c)
   | Inr b \<Rightarrow> valid_idle_config c \<and>
       fst (idle_rounds n b) = map (scheduled_effect c) [0..<n] \<and>
       idle_reset (snd (idle_rounds n b)) = b"
proof (cases "idle_backoff_make c")
  case (Inl e)
  then show ?thesis by (auto simp: idle_backoff_make_def split: if_splits)
next
  case (Inr b)
  then have c: "valid_idle_config c" and b: "b = scheduled_state c 0" by (simp_all add: idle_backoff_make_iff)
  show ?thesis
    using Inr idle_rounds_scheduled [OF c, of n 0] idle_reset_state [OF c] c b by simp
qed

end
