(* ===== verification/Oms_Types.thy ===== *)
theory Oms_Types
  imports Market_Types Bounded_Queue
begin

text \<open>
  The data of the order manager: \<open>cpp/include/predex/oms/order_intents.hpp\<close>,
  \<open>cpp/include/predex/oms/oms_types.hpp\<close>, the records of \<open>cpp/include/predex/oms/oms.hpp\<close> and the parts
  of \<open>control_types.hpp\<close> it exchanges with the control plane. An identifier in a fixed character buffer
  with a length (\<open>ClientOrderId\<close>, \<open>ExchangeOrderId\<close>, \<open>VenueTradeId\<close>) is the string it views.
\<close>

section \<open>Order intents\<close>

datatype time_in_force = TIF_kGTC | TIF_kIOC | TIF_kFOK
datatype order_type = OT_kLIMIT | OT_kMARKETABLE_LIMIT
datatype liquidity_intent = LI_kUNKNOWN | LI_kMAKER | LI_kTAKER
datatype outcome = O_kUNKNOWN | O_kYES | O_kNO
datatype order_action = OA_kUNKNOWN | OA_kBUY | OA_kSELL
datatype group_admission_policy = GAP_kUNKNOWN | GAP_kALL_OR_NONE

type_synonym oms_request_id = u64
type_synonym oms_group_id = u64
type_synonym group_intent_id = u64
type_synonym timestamp_ns = u64

record intent_context =
  ic_strategy_index :: u16
  ic_market_id :: market_id
  ic_event_id :: event_id
  ic_strategy_id :: u32
  ic_strategy_intent_id :: u32
  ic_signal_id :: u32
  ic_group_intent_id :: group_intent_id
  ic_leg_index :: u8
  ic_leg_count :: u8
  ic_universe_version :: u64
  ic_event_revision :: u64
  ic_source_shard_index :: u32
  ic_ingress_timestamp_ns :: timestamp_ns
  ic_book_apply_timestamp_ns :: timestamp_ns
  ic_observation_publish_timestamp_ns :: timestamp_ns
  ic_strategy_dequeue_timestamp_ns :: timestamp_ns
  ic_evaluation_complete_timestamp_ns :: timestamp_ns
  ic_intent_publish_timestamp_ns :: timestamp_ns

definition empty_context :: intent_context where
  "empty_context = \<lparr>ic_strategy_index = 0, ic_market_id = 0, ic_event_id = 0, ic_strategy_id = 0,
     ic_strategy_intent_id = 0, ic_signal_id = 0, ic_group_intent_id = 0, ic_leg_index = 0, ic_leg_count = 0,
     ic_universe_version = 0, ic_event_revision = 0, ic_source_shard_index = 0, ic_ingress_timestamp_ns = 0,
     ic_book_apply_timestamp_ns = 0, ic_observation_publish_timestamp_ns = 0, ic_strategy_dequeue_timestamp_ns = 0,
     ic_evaluation_complete_timestamp_ns = 0, ic_intent_publish_timestamp_ns = 0\<rparr>"

record new_order_intent =
  noi_context :: intent_context
  noi_outcome :: outcome
  noi_action :: order_action
  noi_liquidity_intent :: liquidity_intent
  noi_order_type :: order_type
  noi_time_in_force :: time_in_force
  noi_price_ticks :: i64
  noi_quantity_lots :: i64

record cancel_order_intent =
  coi_context :: intent_context
  coi_target_oms_request_id :: oms_request_id

record modify_order_intent =
  moi_context :: intent_context
  moi_target_oms_request_id :: oms_request_id

definition kMAX_ORDERS_PER_GROUP :: nat where "kMAX_ORDERS_PER_GROUP = 10"

text \<open>\<open>new_orders\<close> is an array of \<open>kMAX_ORDERS_PER_GROUP\<close> elements of which \<open>leg_count\<close> are used.\<close>

record group_order_intent =
  goi_context :: intent_context
  goi_new_orders :: "new_order_intent list"
  goi_leg_count :: u8
  goi_admission_policy :: group_admission_policy
  goi_expected_gross_edge_ticks :: u64
  goi_estimated_fee_ticks :: u64
  goi_expected_net_edge_ticks :: u64

datatype strategy_intent =
    IntentNewOrder new_order_intent
  | IntentCancelOrder cancel_order_intent
  | IntentModifyOrder modify_order_intent
  | IntentGroupOrder group_order_intent

section \<open>Identifiers\<close>

type_synonym client_order_id = string
type_synonym exchange_order_id = string
type_synonym venue_trade_id = string

definition kLENGTH_CLIENT_ORDER_ID :: nat where "kLENGTH_CLIENT_ORDER_ID = 64"

text \<open>\<open>assign_from\<close>: a string that does not fit with its terminator clears the identifier.\<close>

definition id_assign_from :: "string \<Rightarrow> string \<times> bool" where
  "id_assign_from str = (if length str \<ge> kLENGTH_CLIENT_ORDER_ID then ([], False) else (str, True))"

section \<open>Messages to the strategies\<close>

record oms_context =
  oc_oms_request_id :: oms_request_id
  oc_context :: intent_context

datatype oms_response_type = ORT_kUNKNOWN | ORT_kACCEPTED | ORT_kREJECTED

datatype reject_reason =
    RR_kNONE | RR_kTRADING_DISABLED | RR_kRISK_REJECTED | RR_kINVALID_INTENT | RR_kUNKNOWN_TARGET_ORDER
  | RR_kDUPLICATE_INTENT | RR_kOMS_NOT_READY | RR_kUNKNOWN_MARKET | RR_kMARKET_NOT_TRADEABLE
  | RR_kEXECUTION_BLOCKED

record oms_response =
  or_context :: oms_context
  or_response_type :: oms_response_type
  or_reject_reason :: reject_reason
  or_recv_ts_ns :: u64
  or_response_ts_ns :: u64

datatype order_state =
    OS_kUNKNOWN | OS_kPENDING_SUBMIT | OS_kWORKING | OS_kREJECTED | OS_kPARTIALLY_FILLED | OS_kFILLED
  | OS_kPENDING_CANCEL | OS_kCANCELED | OS_kPENDING_MODIFY | OS_kEXPIRED | OS_kUNCERTAIN

datatype venue_event_source =
    VES_kUNKNOWN | VES_kREST_RESPONSE | VES_kWEBSOCKET_FEED | VES_kRECONCILIATION | VES_kOMS_INTERNAL

record order_state_update =
  osu_client_order_id :: client_order_id
  osu_exchange_order_id :: exchange_order_id
  osu_context :: oms_context
  osu_order_state :: order_state
  osu_update_source :: venue_event_source
  osu_working_qty_lots :: i64
  osu_working_price_ticks :: i64
  osu_outcome :: outcome
  osu_ordered_qty_lots :: i64
  osu_cumulative_filled_qty_lots :: i64
  osu_leaves_qty_lots :: i64
  osu_last_fill_qty_lots :: i64
  osu_last_fill_price_ticks :: i64
  osu_last_update_ts_ns :: u64

datatype group_admission_state = GAS_kUNKNOWN | GAS_kACCEPTED | GAS_kREJECTED

record group_admission_response =
  gar_context :: intent_context
  gar_oms_group_id :: oms_group_id
  gar_admission_state :: group_admission_state
  gar_reject_reason :: reject_reason
  gar_admitted_leg_count :: u8
  gar_reserved_capital_ticks :: u64
  gar_recv_ts_ns :: u64
  gar_response_ts_ns :: u64

datatype group_execution_state =
    GES_kUNKNOWN | GES_kADMITTED | GES_kPENDING_VENUE | GES_kWORKING | GES_kPARTIALLY_FILLED | GES_kCOMPLETED
  | GES_kCANCELING_REMAINDER | GES_kUNWINDING | GES_kFLATTENED | GES_kUNCERTAIN | GES_kREPAIR_FAILED
  | GES_kREJECTED | GES_kREPAIR_REQUIRED | GES_kABORTED

datatype group_failure_reason =
    GFR_kNONE | GFR_kLEG_REJECTED | GFR_kLEG_NOT_SENT | GFR_kLEG_EXPIRED_UNFILLED | GFR_kLEG_PARTIALLY_FILLED
  | GFR_kLEG_TIMEOUT | GFR_kLEG_TRANSPORT_ERROR | GFR_kCANCEL_FAILED | GFR_kUNWIND_FAILED
  | GFR_kVENUE_STATE_UNCERTAIN | GFR_kLEG_CANCELED | GFR_kBATCH_RESPONSE_MISMATCH

record group_leg_state =
  gls_oms_request_id :: oms_request_id
  gls_market_id :: market_id
  gls_leg_index :: u8
  gls_order_state :: order_state
  gls_ordered_qty_lots :: i64
  gls_cumulative_filled_qty_lots :: i64
  gls_leaves_qty_lots :: i64

definition empty_leg_state :: group_leg_state where
  "empty_leg_state = \<lparr>gls_oms_request_id = 0, gls_market_id = 0, gls_leg_index = 0, gls_order_state = OS_kUNKNOWN,
     gls_ordered_qty_lots = 0, gls_cumulative_filled_qty_lots = 0, gls_leaves_qty_lots = 0\<rparr>"

record group_state_update =
  gsu_context :: intent_context
  gsu_oms_group_id :: oms_group_id
  gsu_execution_state :: group_execution_state
  gsu_failure_reason :: group_failure_reason
  gsu_legs :: "group_leg_state list"
  gsu_leg_count :: u8
  gsu_repair_attempt_count :: u8
  gsu_residual_exposure_present :: bool
  gsu_last_update_ts_ns :: u64

record strategy_portfolio_update =
  spu_strategy_index :: u16
  spu_sequence :: u64
  spu_allocation_limit_ticks :: i64
  spu_available_capital_ticks :: i64
  spu_reserved_order_capital_ticks :: i64
  spu_inventory_exposure_ticks :: i64
  spu_realized_pnl_ticks :: i64
  spu_fees_paid_ticks :: i64
  spu_venue_available_balance_ticks :: i64
  spu_venue_portfolio_reconciled :: bool
  spu_open_order_count :: u32
  spu_active_group_count :: u32
  spu_update_ts_ns :: u64

record strategy_market_position_update =
  smpu_strategy_index :: u16
  smpu_sequence :: u64
  smpu_market_id :: market_id
  smpu_event_id :: event_id
  smpu_net_position_lots :: i64
  smpu_resting_buy_qty_lots :: i64
  smpu_resting_sell_qty_lots :: i64
  smpu_average_entry_price_ticks :: i64
  smpu_position_cost_ticks :: i64
  smpu_market_exposure_ticks :: i64
  smpu_realized_pnl_ticks :: i64
  smpu_fees_paid_ticks :: i64
  smpu_update_ts_ns :: u64

datatype oms_to_strategy_message =
    MsgOmsResponse oms_response
  | MsgOrderStateUpdate order_state_update
  | MsgGroupAdmissionResponse group_admission_response
  | MsgGroupStateUpdate group_state_update
  | MsgStrategyPortfolioUpdate strategy_portfolio_update
  | MsgStrategyMarketPositionUpdate strategy_market_position_update

section \<open>Commands to the exchange\<close>

record submit_order_cmd =
  soc_oms_request_id :: oms_request_id
  soc_client_order_id :: client_order_id
  soc_new_order_intent :: new_order_intent
  soc_submission_ts_ns :: u64
  soc_reduce_only :: bool

text \<open>The array of orders is the list of its first \<open>order_count\<close> elements; the rest is never read.\<close>

record submit_order_batch_cmd =
  sob_oms_request_id :: oms_request_id
  sob_oms_group_id :: oms_group_id
  sob_group_context :: intent_context
  sob_orders :: "submit_order_cmd list"
  sob_order_count :: u8
  sob_submission_ts_ns :: u64

record cancel_order_cmd =
  coc_oms_request_id :: oms_request_id
  coc_client_order_id :: client_order_id
  coc_exchange_order_id :: "exchange_order_id option"
  coc_cancel_order_intent :: cancel_order_intent
  coc_submission_ts_ns :: u64

record modify_order_cmd =
  moc_oms_request_id :: oms_request_id
  moc_client_order_id :: client_order_id
  moc_exchange_order_id :: "exchange_order_id option"
  moc_modify_order_intent :: modify_order_intent
  moc_submission_ts_ns :: u64

record request_portfolio_reconciliation =
  rpr_reconciliation_id :: u64
  rpr_universe_version :: u64
  rpr_submission_ts_ns :: u64

record close_order_rest_egress =
  core_oms_request_id :: oms_request_id
  core_submission_ts_ns :: u64
  core_shutdown_epoch :: u64

datatype oms_to_kalshi_command =
    CmdSubmitOrder submit_order_cmd
  | CmdSubmitOrderBatch submit_order_batch_cmd
  | CmdCancelOrder cancel_order_cmd
  | CmdModifyOrder modify_order_cmd
  | CmdRequestPortfolioReconciliation request_portfolio_reconciliation
  | CmdCloseOrderRestEgress close_order_rest_egress

section \<open>Events from the exchange\<close>

datatype rest_command_kind =
    RCK_kUNKNOWN | RCK_kSUBMIT_ORDER | RCK_kCANCEL_ORDER | RCK_kMODIFY_ORDER | RCK_kSUBMIT_ORDER_BATCH
  | RCK_kPORTFOLIO_RECONCILIATION

datatype rest_result_code =
    RRC_kUNKNOWN | RRC_kACKED | RRC_kREJECTED | RRC_kTIMEOUT | RRC_kTRANSPORT_ERROR | RRC_kNOT_SENT

datatype venue_reject_reason =
    VRR_kNone | VRR_kInvalidRequest | VRR_kInvalidOrder | VRR_kDuplicateOrder | VRR_kOrderNotFound
  | VRR_kMarketClosed | VRR_kMarketHalted | VRR_kRiskRejected | VRR_kRateLimited | VRR_kVenueDown
  | VRR_kAuthFailed | VRR_kOrderAlreadyTerminal | VRR_kUnknown

record rest_order_response =
  ror_context :: oms_context
  ror_command_kind :: rest_command_kind
  ror_result_code :: rest_result_code
  ror_client_order_id :: client_order_id
  ror_exchange_order_id :: exchange_order_id
  ror_transport_submit_ts_ns :: u64
  ror_transport_recv_ts_ns :: u64
  ror_http_status_code :: u16
  ror_retry_count :: u16
  ror_venue_reject_reason :: venue_reject_reason
  ror_raw_reason_message :: string
  ror_execution_summary_present :: bool
  ror_acknowledged_fill_qty_lots :: i64
  ror_acknowledged_remaining_qty_lots :: i64
  ror_acknowledged_average_fill_price_ticks :: i64
  ror_acknowledged_fee_paid_ticks :: i64
  ror_venue_ts_ms :: u64

record rest_order_batch_response =
  rob_batch_oms_request_id :: oms_request_id
  rob_oms_group_id :: oms_group_id
  rob_group_context :: intent_context
  rob_result_code :: rest_result_code
  rob_order_responses :: "rest_order_response list"
  rob_requested_order_count :: u8
  rob_response_order_count :: u8
  rob_transport_submit_ts_ns :: u64
  rob_transport_recv_ts_ns :: u64
  rob_http_status_code :: u16
  rob_retry_count :: u16
  rob_venue_reject_reason :: venue_reject_reason
  rob_raw_reason_message :: string

datatype private_ws_order_event_kind = PWK_kUNKNOWN | PWK_kUSER_ORDER | PWK_kFILL | PWK_kMARKET_POSITION

record private_ws_order_event =
  pwe_event_kind :: private_ws_order_event_kind
  pwe_client_order_id :: client_order_id
  pwe_exchange_order_id :: exchange_order_id
  pwe_trade_id :: venue_trade_id
  pwe_market_id :: market_id
  pwe_outcome :: outcome
  pwe_action :: order_action
  pwe_recv_ts_ns :: u64
  pwe_venue_ts_ns :: u64
  pwe_ws_sequence :: u64
  pwe_order_state :: order_state
  pwe_ordered_qty_lots :: i64
  pwe_cumulative_filled_qty_lots :: i64
  pwe_leaves_qty_lots :: i64
  pwe_last_fill_qty_lots :: i64
  pwe_last_fill_price_ticks :: i64
  pwe_net_position_lots :: i64
  pwe_position_cost_ticks :: i64
  pwe_realized_pnl_ticks :: i64
  pwe_fees_paid_ticks :: i64
  pwe_position_fee_cost_ticks :: i64
  pwe_volume_lots :: i64

record venue_market_position_snapshot =
  vmp_market_ticker :: string
  vmp_market_id :: market_id
  vmp_event_id :: event_id
  vmp_net_position_lots :: i64
  vmp_position_cost_ticks :: i64
  vmp_market_exposure_ticks :: i64
  vmp_realized_pnl_ticks :: i64
  vmp_fees_paid_ticks :: i64
  vmp_position_fee_cost_ticks :: i64
  vmp_volume_lots :: i64
  vmp_position_cost_present :: bool
  vmp_market_exposure_present :: bool
  vmp_realized_pnl_present :: bool
  vmp_fees_paid_present :: bool

datatype portfolio_reconciliation_result_code = PRR_kUNKNOWN | PRR_kCOMPLETE | PRR_kFAILED

record venue_portfolio_snapshot =
  vps_reconciliation_id :: u64
  vps_universe_version :: u64
  vps_result_code :: portfolio_reconciliation_result_code
  vps_available_balance_ticks :: i64
  vps_portfolio_value_ticks :: i64
  vps_market_positions :: "venue_market_position_snapshot list"
  vps_request_ts_ns :: u64
  vps_received_ts_ns :: u64
  vps_error_message :: string

record order_rest_egress_drained =
  ored_shutdown_epoch :: u64
  ored_completion_ts_ns :: u64

datatype kalshi_to_oms_event =
    EvRestOrderResponse rest_order_response
  | EvRestOrderBatchResponse rest_order_batch_response
  | EvPrivateWsOrderEvent private_ws_order_event
  | EvReconciledOrderSnapshot
  | EvVenuePortfolioSnapshot venue_portfolio_snapshot
  | EvOrderRestEgressDrained order_rest_egress_drained

section \<open>Exchange with the control plane\<close>

record order_market_route =
  omr_market_id :: market_id
  omr_event_id :: event_id
  omr_kalshi_ticker :: string
  omr_tradeable :: bool
  omr_price_level_structure :: price_level_structure
  omr_strike_key :: "i64 option"
  omr_market_time_s :: u64
  omr_market_close_time_s :: u64
  omr_market_expected_expiration_time_s :: u64
  omr_market_expiration_time_s :: u64

record order_route_universe =
  oru_version :: u64
  oru_market_routes :: "order_market_route list"

datatype control_to_oms_command =
    CtlApplyOrderRouteUniverse "order_route_universe option"
  | CtlAllowTrading
  | CtlDisableTrading
  | CtlCancelAllOrders

record oms_telemetry_snapshot =
  ots_installed_universe_version :: u64
  ots_unknown_market_rejects :: u64
  ots_non_tradeable_market_rejects :: u64
  ots_strategy_intents_received :: u64
  ots_strategy_intents_processed :: u64
  ots_strategy_intents_rejected :: u64
  ots_kalshi_commands_sent :: u64
  ots_kalshi_commands_failed :: u64
  ots_rest_responses_seen :: u64
  ots_private_ws_events_seen :: u64
  ots_reconciliation_events_seen :: u64
  ots_portfolio_reconciliations_requested :: u64
  ots_portfolio_reconciliations_completed :: u64
  ots_portfolio_reconciliations_failed :: u64
  ots_duplicate_fills_ignored :: u64
  ots_venue_position_updates_seen :: u64
  ots_venue_available_balance_ticks :: i64
  ots_portfolio_reconciled :: bool
  ots_order_state_updates_sent :: u64
  ots_strategy_response_backpressure :: u64
  ots_execution_incidents_latched :: u64
  ots_group_repair_attempts :: u64
  ots_group_repair_commands_sent :: u64
  ots_group_repairs_completed :: u64
  ots_group_repairs_failed :: u64
  ots_execution_incident_active :: bool
  ots_live_orders :: u64
  ots_pending_submit_orders :: u64
  ots_uncertain_orders :: u64

definition empty_telemetry :: oms_telemetry_snapshot where
  "empty_telemetry = \<lparr>ots_installed_universe_version = 0, ots_unknown_market_rejects = 0,
     ots_non_tradeable_market_rejects = 0, ots_strategy_intents_received = 0, ots_strategy_intents_processed = 0,
     ots_strategy_intents_rejected = 0, ots_kalshi_commands_sent = 0, ots_kalshi_commands_failed = 0,
     ots_rest_responses_seen = 0, ots_private_ws_events_seen = 0, ots_reconciliation_events_seen = 0,
     ots_portfolio_reconciliations_requested = 0, ots_portfolio_reconciliations_completed = 0,
     ots_portfolio_reconciliations_failed = 0, ots_duplicate_fills_ignored = 0, ots_venue_position_updates_seen = 0,
     ots_venue_available_balance_ticks = 0, ots_portfolio_reconciled = False, ots_order_state_updates_sent = 0,
     ots_strategy_response_backpressure = 0, ots_execution_incidents_latched = 0, ots_group_repair_attempts = 0,
     ots_group_repair_commands_sent = 0, ots_group_repairs_completed = 0, ots_group_repairs_failed = 0,
     ots_execution_incident_active = False, ots_live_orders = 0, ots_pending_submit_orders = 0,
     ots_uncertain_orders = 0\<rparr>"

record oms_rest_egress_drained =
  ord_shutdown_epoch :: u64
  ord_completion_ts_ns :: u64
  ord_live_orders :: u64
  ord_uncertain_orders :: u64

datatype oms_to_control_status =
    StOmsReady
  | StOmsFaulted string
  | StOmsTelemetry oms_telemetry_snapshot
  | StOmsTradingEnabledChanged bool
  | StOmsCancelAllStateChanged bool u64
  | StOmsRestEgressDrained oms_rest_egress_drained

section \<open>Records of the order manager\<close>

record order_record =
  ord_context :: oms_context
  ord_client_order_id :: client_order_id
  ord_exchange_order_id :: "exchange_order_id option"
  ord_order_state :: order_state
  ord_previous_order_state :: order_state
  ord_outcome :: outcome
  ord_action :: order_action
  ord_liquidity_intent :: liquidity_intent
  ord_order_type :: order_type
  ord_time_in_force :: time_in_force
  ord_market_id :: market_id
  ord_ordered_qty_lots :: i64
  ord_working_price_ticks :: i64
  ord_cumulative_filled_qty_lots :: i64
  ord_leaves_qty_lots :: i64
  ord_pending_command_oms_request_id :: oms_request_id
  ord_pending_command_kind :: rest_command_kind
  ord_oms_group_id :: oms_group_id
  ord_group_leg_index :: u8
  ord_repair_order :: bool
  ord_terminal_accounted :: bool
  ord_reserved_capital_ticks :: i64

text \<open>An order as the three places that create one fill it in: what is not given starts out as zero.\<close>

definition make_order_record ::
  "oms_context \<Rightarrow> client_order_id \<Rightarrow> new_order_intent \<Rightarrow> market_id \<Rightarrow> order_record" where
  "make_order_record context client_order_id i market = \<lparr>ord_context = context,
     ord_client_order_id = client_order_id, ord_exchange_order_id = None,
     ord_order_state = OS_kPENDING_SUBMIT, ord_previous_order_state = OS_kUNKNOWN,
     ord_outcome = noi_outcome i, ord_action = noi_action i, ord_liquidity_intent = noi_liquidity_intent i,
     ord_order_type = noi_order_type i, ord_time_in_force = noi_time_in_force i, ord_market_id = market,
     ord_ordered_qty_lots = noi_quantity_lots i, ord_working_price_ticks = noi_price_ticks i,
     ord_cumulative_filled_qty_lots = 0, ord_leaves_qty_lots = noi_quantity_lots i,
     ord_pending_command_oms_request_id = 0, ord_pending_command_kind = RCK_kUNKNOWN, ord_oms_group_id = 0,
     ord_group_leg_index = 0, ord_repair_order = False, ord_terminal_accounted = False,
     ord_reserved_capital_ticks = 0\<rparr>"

record oms_risk_config =
  rk_strategy_allocation_limit_ticks :: i64
  rk_venue_safety_reserve_ticks :: i64
  rk_maximum_group_reservation_ticks :: u64
  rk_maximum_group_legs :: u8
  rk_maximum_group_repair_attempts :: u8
  rk_maximum_group_intent_age_ns :: u64
  rk_portfolio_reconciliation_interval_ns :: u64
  rk_require_portfolio_reconciliation :: bool

record group_admission_check =
  gac_accepted :: bool
  gac_reject_reason :: reject_reason
  gac_required_capital_ticks :: u64

record group_record =
  gr_oms_group_id :: oms_group_id
  gr_context :: intent_context
  gr_batch_oms_request_id :: oms_request_id
  gr_execution_state :: group_execution_state
  gr_failure_reason :: group_failure_reason
  gr_original_leg_request_ids :: "oms_request_id list"
  gr_active_repair_request_ids :: "oms_request_id list"
  gr_residual_yes_lots :: "i64 list"
  gr_leg_count :: u8
  gr_cancel_attempt_count :: u8
  gr_repair_attempt_count :: u8
  gr_reserved_capital_ticks :: u64
  gr_residual_exposure_present :: bool
  gr_capital_released :: bool
  gr_venue_state_uncertain :: bool
  gr_admitted_ts_ns :: u64
  gr_last_update_ts_ns :: u64

definition empty_group :: "intent_context \<Rightarrow> group_record" where
  "empty_group context = \<lparr>gr_oms_group_id = 0, gr_context = context, gr_batch_oms_request_id = 0,
     gr_execution_state = GES_kUNKNOWN, gr_failure_reason = GFR_kNONE,
     gr_original_leg_request_ids = replicate kMAX_ORDERS_PER_GROUP 0,
     gr_active_repair_request_ids = replicate kMAX_ORDERS_PER_GROUP 0,
     gr_residual_yes_lots = replicate kMAX_ORDERS_PER_GROUP 0, gr_leg_count = 0, gr_cancel_attempt_count = 0,
     gr_repair_attempt_count = 0, gr_reserved_capital_ticks = 0, gr_residual_exposure_present = False,
     gr_capital_released = False, gr_venue_state_uncertain = False, gr_admitted_ts_ns = 0,
     gr_last_update_ts_ns = 0\<rparr>"

record strategy_portfolio_record =
  sp_strategy_index :: u16
  sp_next_sequence :: u64
  sp_allocation_limit_ticks :: i64
  sp_available_capital_ticks :: i64
  sp_reserved_order_capital_ticks :: i64
  sp_inventory_exposure_ticks :: i64
  sp_realized_pnl_ticks :: i64
  sp_fees_paid_ticks :: i64
  sp_open_order_count :: u32
  sp_active_group_count :: u32

record strategy_market_position_record =
  mp_strategy_index :: u16
  mp_market_id :: market_id
  mp_event_id :: event_id
  mp_net_position_lots :: i64
  mp_resting_buy_qty_lots :: i64
  mp_resting_sell_qty_lots :: i64
  mp_average_entry_price_ticks :: i64
  mp_position_cost_ticks :: i64
  mp_market_exposure_ticks :: i64
  mp_realized_pnl_ticks :: i64
  mp_fees_paid_ticks :: i64

definition empty_position :: "u16 \<Rightarrow> market_id \<Rightarrow> event_id \<Rightarrow> strategy_market_position_record" where
  "empty_position strategy market event = \<lparr>mp_strategy_index = strategy, mp_market_id = market,
     mp_event_id = event, mp_net_position_lots = 0, mp_resting_buy_qty_lots = 0, mp_resting_sell_qty_lots = 0,
     mp_average_entry_price_ticks = 0, mp_position_cost_ticks = 0, mp_market_exposure_ticks = 0,
     mp_realized_pnl_ticks = 0, mp_fees_paid_ticks = 0\<rparr>"

record venue_portfolio_record =
  vp_available_balance_ticks :: i64
  vp_portfolio_value_ticks :: i64
  vp_reconciliation_id :: u64
  vp_received_ts_ns :: u64
  vp_reconciled :: bool

end
