(* ===== verification/Oms_State.thy ===== *)
theory Oms_State
  imports Oms_Types
begin

text \<open>
  The state of \<open>class Oms\<close> (\<open>cpp/include/predex/oms/oms.hpp\<close>) and the operations of
  \<open>cpp/src/oms/oms.cpp\<close> that the handlers share: money arithmetic, lookups, capital, and the messages to
  the strategies, the exchange and the control plane. A reference into one of the maps is the key it was
  found under. Every call of \<open>now_ns()\<close> consumes the next reading of \<open>om_clock\<close>.
\<close>

section \<open>Arithmetic\<close>

definition kPRICE_TICKS_PER_DOLLAR :: u64 where "kPRICE_TICKS_PER_DOLLAR = 10000"
definition kQUANTITY_LOTS_PER_CONTRACT :: u64 where "kQUANTITY_LOTS_PER_CONTRACT = 100"
definition kGROUP_ADMISSION_RESPONSE_SLOTS :: nat where "kGROUP_ADMISSION_RESPONSE_SLOTS = 3"
definition kPORTFOLIO_RECONCILIATION_RETRY_NS :: u64 where "kPORTFOLIO_RECONCILIATION_RETRY_NS = 1000000000"

definition valid_timestamp_chain :: "intent_context \<Rightarrow> bool" where
  "valid_timestamp_chain c \<longleftrightarrow>
     ic_ingress_timestamp_ns c \<noteq> 0
   \<and> ic_ingress_timestamp_ns c \<le> ic_book_apply_timestamp_ns c
   \<and> ic_book_apply_timestamp_ns c \<le> ic_observation_publish_timestamp_ns c
   \<and> ic_observation_publish_timestamp_ns c \<le> ic_strategy_dequeue_timestamp_ns c
   \<and> ic_strategy_dequeue_timestamp_ns c \<le> ic_evaluation_complete_timestamp_ns c
   \<and> ic_evaluation_complete_timestamp_ns c \<le> ic_intent_publish_timestamp_ns c"

definition full_notional_reservation :: "i64 \<Rightarrow> u64 option" where
  "full_notional_reservation quantity_lots =
     (if quantity_lots \<le> 0 then None
      else let unsigned_quantity = to_u64 quantity_lots
      in if unsigned_quantity > u64_max div kPRICE_TICKS_PER_DOLLAR then None
      else let product = unsigned_quantity * kPRICE_TICKS_PER_DOLLAR
      in Some (product div kQUANTITY_LOTS_PER_CONTRACT
               + (if product mod kQUANTITY_LOTS_PER_CONTRACT \<noteq> 0 then 1 else 0)))"

definition absolute_lots :: "i64 \<Rightarrow> u64 option" where
  "absolute_lots quantity_lots =
     (if quantity_lots = i64_min then None
      else Some (to_u64 (if quantity_lots < 0 then - quantity_lots else quantity_lots)))"

definition inventory_full_notional_exposure :: "u64 \<Rightarrow> u64 option" where
  "inventory_full_notional_exposure absolute_quantity_lots =
     (if absolute_quantity_lots = 0 then Some 0
      else if absolute_quantity_lots > to_u64 i64_max then None
      else full_notional_reservation (to_i64 absolute_quantity_lots))"

definition monetary_ticks :: "u64 \<Rightarrow> i64 \<Rightarrow> i64 option" where
  "monetary_ticks quantity_lots price_ticks =
     (if price_ticks < 0
         \<or> quantity_lots > to_u64 i64_max div to_u64 (if price_ticks = 0 then 1 else price_ticks)
      then None
      else let product = to_i64 quantity_lots * price_ticks
           in Some (product div to_i64 kQUANTITY_LOTS_PER_CONTRACT))"

definition signed_yes_lots :: "outcome \<Rightarrow> order_action \<Rightarrow> i64 \<Rightarrow> i64 option" where
  "signed_yes_lots oc action quantity_lots =
     (if quantity_lots \<le> 0 \<or> oc = O_kUNKNOWN \<or> action = OA_kUNKNOWN then None
      else let positive = (oc = O_kYES \<and> action = OA_kBUY \<or> oc = O_kNO \<and> action = OA_kSELL)
           in Some (if positive then quantity_lots else - quantity_lots))"

text \<open>The average entry price is computed in \<open>long double\<close>, which has a 64-bit significand on the x86-64
  targets of the program: every product, sum and quotient is rounded to 64 significant bits, ties to
  even, and the cast to \<open>std::int64_t\<close> truncates. A quotient below one truncates to zero, because the
  divisor is below \<open>2 ^ 64\<close> and the quotient therefore cannot round up to one.\<close>

function bit_count :: "int \<Rightarrow> nat" where
  "bit_count n = (if n \<le> 0 then 0 else Suc (bit_count (n div 2)))"
  by pat_completeness auto
termination
  by (relation "measure nat") auto

declare bit_count.simps [simp del]

definition round_half_even :: "int \<Rightarrow> int \<Rightarrow> int" where
  "round_half_even a b =
     (let q = a div b; r = a mod b in if 2 * r > b \<or> (2 * r = b \<and> odd q) then q + 1 else q)"

definition ld_round :: "int \<Rightarrow> int" where
  "ld_round z = (let n = \<bar>z\<bar>; k = bit_count n - 64 in sgn z * (round_half_even n (2 ^ k) * 2 ^ k))"

definition ld_divide_truncate :: "int \<Rightarrow> u64 \<Rightarrow> int" where
  "ld_divide_truncate z d =
     (let n = \<bar>z\<bar>; q = n div uint d; k = 64 - bit_count q
      in if q = 0 then 0 else sgn z * (round_half_even (n * 2 ^ k) (uint d) div 2 ^ k))"

definition weighted_average :: "u64 \<Rightarrow> i64 \<Rightarrow> u64 \<Rightarrow> i64 \<Rightarrow> u64 \<Rightarrow> i64" where
  "weighted_average old_abs old_price delta_abs delta_price new_abs =
     (let weighted = ld_round (ld_round (uint old_abs * old_price) + ld_round (uint delta_abs * delta_price))
      in ld_divide_truncate weighted new_abs)"

section \<open>Maps\<close>

text \<open>Writing through a reference to the element stored under a key.\<close>

definition um_adjust :: "'k \<Rightarrow> ('v \<Rightarrow> 'v) \<Rightarrow> ('k, 'v) umap \<Rightarrow> ('k, 'v) umap" where
  "um_adjust k f m = um_map_values (\<lambda>k' v. if k' = k then f v else v) m"

lemma um_find_adjust [simp]:
  "um_find (um_adjust k f m) k' = (if k' = k then map_option f (um_find m k) else um_find m k')"
  by (cases "um_find m k'") (auto simp: um_adjust_def um_find_map_values)

lemma um_wf_adjust [simp]: "um_wf (um_adjust k f m) = um_wf m"
  by (simp add: um_adjust_def)

lemma um_keys_adjust [simp]: "map fst (um_adjust k f m) = map fst m"
  by (simp add: um_adjust_def um_map_values_def case_prod_beta comp_def)

section \<open>State\<close>

record oms =
  om_order_by_client :: "(client_order_id, oms_request_id) umap"
  om_order_by_exchange :: "(exchange_order_id, oms_request_id) umap"
  om_orders :: "(oms_request_id, order_record) umap"
  om_market_routes :: "(market_id, order_market_route) umap"
  om_universe :: "order_route_universe option"
  om_groups :: "(oms_group_id, group_record) umap"
  om_group_by_intent :: "(u16, (group_intent_id, oms_group_id) umap) umap"
  om_portfolios :: "(u16, strategy_portfolio_record) umap"
  om_positions :: "(u16, (market_id, strategy_market_position_record) umap) umap"
  om_venue_positions :: "(market_id, venue_market_position_snapshot) umap"
  om_accounted_trades :: "venue_trade_id list"
  om_intent_queues :: "strategy_intent bqueue option list"
  om_response_queues :: "oms_to_strategy_message bqueue option list"
  om_control_queue :: "control_to_oms_command bqueue"
  om_status_queue :: "oms_to_control_status bqueue"
  om_kalshi_queue :: "oms_to_kalshi_command bqueue"
  om_venue_queues :: "kalshi_to_oms_event bqueue option list"
  om_risk :: oms_risk_config
  om_venue_portfolio :: venue_portfolio_record
  om_telemetry :: oms_telemetry_snapshot
  om_trading_enabled :: bool
  om_cancel_all_requested :: bool
  om_ready_reported :: bool
  om_execution_incident_active :: bool
  om_execution_fault_reported :: bool
  om_defer_group_state_updates :: bool
  om_next_oms_request_id :: oms_request_id
  om_next_oms_group_id :: oms_group_id
  om_next_reconciliation_id :: u64
  om_active_reconciliation_id :: u64
  om_next_reconciliation_due_ts_ns :: u64
  om_portfolio_reconciliation_needed :: bool
  om_pending_rest_egress_drained :: "oms_rest_egress_drained option"
  om_clock :: "nat \<Rightarrow> u64"

definition make_oms ::
  "strategy_intent bqueue option list \<Rightarrow> oms_to_strategy_message bqueue option list \<Rightarrow> control_to_oms_command bqueue
   \<Rightarrow> oms_to_control_status bqueue \<Rightarrow> oms_to_kalshi_command bqueue \<Rightarrow> kalshi_to_oms_event bqueue option list
   \<Rightarrow> oms_risk_config \<Rightarrow> (nat \<Rightarrow> u64) \<Rightarrow> oms" where
  "make_oms intents responses control status kalshi venue risk clock =
     \<lparr>om_order_by_client = [], om_order_by_exchange = [], om_orders = [], om_market_routes = [],
      om_universe = None, om_groups = [], om_group_by_intent = [], om_portfolios = [], om_positions = [],
      om_venue_positions = [], om_accounted_trades = [], om_intent_queues = intents,
      om_response_queues = responses, om_control_queue = control, om_status_queue = status,
      om_kalshi_queue = kalshi, om_venue_queues = venue, om_risk = risk,
      om_venue_portfolio = \<lparr>vp_available_balance_ticks = 0, vp_portfolio_value_ticks = 0,
        vp_reconciliation_id = 0, vp_received_ts_ns = 0, vp_reconciled = False\<rparr>,
      om_telemetry = empty_telemetry, om_trading_enabled = False, om_cancel_all_requested = False,
      om_ready_reported = False, om_execution_incident_active = False, om_execution_fault_reported = False,
      om_defer_group_state_updates = False, om_next_oms_request_id = 1, om_next_oms_group_id = 1,
      om_next_reconciliation_id = 1, om_active_reconciliation_id = 0, om_next_reconciliation_due_ts_ns = 0,
      om_portfolio_reconciliation_needed = False, om_pending_rest_egress_drained = None, om_clock = clock\<rparr>"

definition now_ns :: "oms \<Rightarrow> u64 \<times> oms" where
  "now_ns s = (om_clock s 0, s\<lparr>om_clock := (\<lambda>n. om_clock s (Suc n))\<rparr>)"

definition take_request_id :: "oms \<Rightarrow> oms_request_id \<times> oms" where
  "take_request_id s = (om_next_oms_request_id s, s\<lparr>om_next_oms_request_id := om_next_oms_request_id s + 1\<rparr>)"

abbreviation count :: "(oms_telemetry_snapshot \<Rightarrow> oms_telemetry_snapshot) \<Rightarrow> oms \<Rightarrow> oms" where
  "count f s \<equiv> s\<lparr>om_telemetry := f (om_telemetry s)\<rparr>"

definition upd_order :: "oms_request_id \<Rightarrow> (order_record \<Rightarrow> order_record) \<Rightarrow> oms \<Rightarrow> oms" where
  "upd_order rid f s = s\<lparr>om_orders := um_adjust rid f (om_orders s)\<rparr>"

definition upd_group :: "oms_group_id \<Rightarrow> (group_record \<Rightarrow> group_record) \<Rightarrow> oms \<Rightarrow> oms" where
  "upd_group gid f s = s\<lparr>om_groups := um_adjust gid f (om_groups s)\<rparr>"

definition upd_portfolio :: "u16 \<Rightarrow> (strategy_portfolio_record \<Rightarrow> strategy_portfolio_record) \<Rightarrow> oms \<Rightarrow> oms" where
  "upd_portfolio i f s = s\<lparr>om_portfolios := um_adjust i f (om_portfolios s)\<rparr>"

definition upd_position ::
  "u16 \<Rightarrow> market_id \<Rightarrow> (strategy_market_position_record \<Rightarrow> strategy_market_position_record) \<Rightarrow> oms \<Rightarrow> oms" where
  "upd_position i mid f s = s\<lparr>om_positions := um_adjust i (um_adjust mid f) (om_positions s)\<rparr>"

section \<open>Order states and lookups\<close>

definition is_terminal :: "order_state \<Rightarrow> bool" where
  "is_terminal st \<longleftrightarrow> st = OS_kFILLED \<or> st = OS_kCANCELED \<or> st = OS_kREJECTED \<or> st = OS_kEXPIRED"

definition is_live :: "order_state \<Rightarrow> bool" where
  "is_live st \<longleftrightarrow> st \<noteq> OS_kUNKNOWN \<and> \<not> is_terminal st"

definition is_cancelable :: "order_state \<Rightarrow> bool" where
  "is_cancelable st \<longleftrightarrow> st = OS_kPENDING_SUBMIT \<or> st = OS_kWORKING \<or> st = OS_kPARTIALLY_FILLED \<or> st = OS_kUNCERTAIN"

text \<open>\<open>std::to_chars\<close> of an unsigned integer: its decimal digits.\<close>

fun decimal_digits :: "nat \<Rightarrow> string" where
  "decimal_digits n =
     (if n < 10 then [char_of (48 + n)] else decimal_digits (n div 10) @ [char_of (48 + n mod 10)])"

declare decimal_digits.simps [simp del]

definition make_client_order_id :: "oms_request_id \<Rightarrow> client_order_id" where
  "make_client_order_id rid =
     (let identity = ''px-'' @ decimal_digits (unat rid)
      in if length identity > kLENGTH_CLIENT_ORDER_ID then [] else fst (id_assign_from identity))"

definition make_context :: "oms_request_id \<Rightarrow> intent_context \<Rightarrow> oms_context" where
  "make_context rid context = \<lparr>oc_oms_request_id = rid, oc_context = context\<rparr>"

definition make_order_state_update :: "order_record \<Rightarrow> venue_event_source \<Rightarrow> u64 \<Rightarrow> order_state_update" where
  "make_order_state_update r source update_ts_ns =
     \<lparr>osu_client_order_id = ord_client_order_id r,
      osu_exchange_order_id = (case ord_exchange_order_id r of None \<Rightarrow> [] | Some x \<Rightarrow> x),
      osu_context = ord_context r, osu_order_state = ord_order_state r, osu_update_source = source,
      osu_working_qty_lots = ord_leaves_qty_lots r, osu_working_price_ticks = ord_working_price_ticks r,
      osu_outcome = ord_outcome r, osu_ordered_qty_lots = ord_ordered_qty_lots r,
      osu_cumulative_filled_qty_lots = ord_cumulative_filled_qty_lots r,
      osu_leaves_qty_lots = ord_leaves_qty_lots r, osu_last_fill_qty_lots = 0,
      osu_last_fill_price_ticks = 0, osu_last_update_ts_ns = update_ts_ns\<rparr>"

abbreviation find_order :: "oms \<Rightarrow> oms_request_id \<Rightarrow> order_record option" where
  "find_order s rid \<equiv> um_find (om_orders s) rid"

definition order_key :: "oms \<Rightarrow> oms_request_id \<Rightarrow> oms_request_id option" where
  "order_key s rid = map_option (\<lambda>_. rid) (find_order s rid)"

definition find_order_by_client :: "oms \<Rightarrow> client_order_id \<Rightarrow> oms_request_id option" where
  "find_order_by_client s cid =
     (if cid = [] then None
      else case um_find (om_order_by_client s) cid of None \<Rightarrow> None | Some rid \<Rightarrow> order_key s rid)"

definition find_order_by_exchange :: "oms \<Rightarrow> exchange_order_id \<Rightarrow> oms_request_id option" where
  "find_order_by_exchange s xid =
     (if xid = [] then None
      else case um_find (om_order_by_exchange s) xid of None \<Rightarrow> None | Some rid \<Rightarrow> order_key s rid)"

definition find_order_for_rest_response :: "oms \<Rightarrow> rest_order_response \<Rightarrow> oms_request_id option" where
  "find_order_for_rest_response s response =
     (if ror_client_order_id response \<noteq> [] then find_order_by_client s (ror_client_order_id response)
      else if ror_exchange_order_id response \<noteq> [] then find_order_by_exchange s (ror_exchange_order_id response)
      else let rid = oc_oms_request_id (ror_context response)
      in case order_key s rid of
        Some k \<Rightarrow> Some k
      | None \<Rightarrow>
          if rid \<noteq> 0
          then map_option fst (find (\<lambda>(_, r). ord_pending_command_oms_request_id r = rid) (om_orders s))
          else None)"

abbreviation find_group :: "oms \<Rightarrow> oms_group_id \<Rightarrow> group_record option" where
  "find_group s gid \<equiv> um_find (om_groups s) gid"

definition find_group_by_intent :: "oms \<Rightarrow> u16 \<Rightarrow> group_intent_id \<Rightarrow> group_record option" where
  "find_group_by_intent s strategy_index group_intent_id =
     (case um_find (om_group_by_intent s) strategy_index of
        None \<Rightarrow> None
      | Some groups \<Rightarrow> (case um_find groups group_intent_id of None \<Rightarrow> None | Some gid \<Rightarrow> find_group s gid))"

abbreviation find_market_route :: "oms \<Rightarrow> market_id \<Rightarrow> order_market_route option" where
  "find_market_route s mid \<equiv> um_find (om_market_routes s) mid"

definition is_tradeable_market :: "oms \<Rightarrow> market_id \<Rightarrow> bool" where
  "is_tradeable_market s mid = (case find_market_route s mid of None \<Rightarrow> False | Some r \<Rightarrow> omr_tradeable r)"

text \<open>The three counts of orders; the counters are 64 bits wide.\<close>

definition live_order_count :: "oms \<Rightarrow> u64" where
  "live_order_count s = of_nat (length (filter (\<lambda>(_, r). is_live (ord_order_state r)) (om_orders s)))"

definition pending_submit_order_count :: "oms \<Rightarrow> u64" where
  "pending_submit_order_count s =
     of_nat (length (filter (\<lambda>(_, r). ord_order_state r = OS_kPENDING_SUBMIT) (om_orders s)))"

definition uncertain_order_count :: "oms \<Rightarrow> u64" where
  "uncertain_order_count s =
     of_nat (length (filter (\<lambda>(_, r). ord_order_state r = OS_kUNCERTAIN) (om_orders s)))"

section \<open>Sending\<close>

definition send_strategy_message :: "u16 \<Rightarrow> oms_to_strategy_message \<Rightarrow> oms \<Rightarrow> oms \<times> bool" where
  "send_strategy_message strategy_index message s =
     (let backpressure = (\<lambda>t. t\<lparr>ots_strategy_response_backpressure := ots_strategy_response_backpressure t + 1\<rparr>);
          i = unat strategy_index
      in if i \<ge> length (om_response_queues s) then (count backpressure s, False)
      else let (q, ok) = ptr_push message (om_response_queues s ! i)
      in if \<not> ok then (count backpressure s, False)
         else (s\<lparr>om_response_queues := (om_response_queues s)[i := q]\<rparr>, True))"

definition send_kalshi_command :: "oms_to_kalshi_command \<Rightarrow> oms \<Rightarrow> oms \<times> bool" where
  "send_kalshi_command command s =
     (let (q, ok) = bq_push command (om_kalshi_queue s)
      in if \<not> ok then (count (\<lambda>t. t\<lparr>ots_kalshi_commands_failed := ots_kalshi_commands_failed t + 1\<rparr>) s, False)
         else (count (\<lambda>t. t\<lparr>ots_kalshi_commands_sent := ots_kalshi_commands_sent t + 1\<rparr>)
                 (s\<lparr>om_kalshi_queue := q\<rparr>), True))"

definition send_control_status :: "oms_to_control_status \<Rightarrow> oms \<Rightarrow> oms \<times> bool" where
  "send_control_status status s =
     (let (q, ok) = bq_push status (om_status_queue s) in (s\<lparr>om_status_queue := q\<rparr>, ok))"

definition emit_order_state_update :: "oms_request_id \<Rightarrow> venue_event_source \<Rightarrow> u64 \<Rightarrow> oms \<Rightarrow> oms" where
  "emit_order_state_update rid source update_ts_ns s =
     (case find_order s rid of
        None \<Rightarrow> s
      | Some r \<Rightarrow>
          let (s1, ok) = send_strategy_message (ic_strategy_index (oc_context (ord_context r)))
                (MsgOrderStateUpdate (make_order_state_update r source update_ts_ns)) s
          in if ok then count (\<lambda>t. t\<lparr>ots_order_state_updates_sent := ots_order_state_updates_sent t + 1\<rparr>) s1 else s1)"

definition emit_trading_enabled_changed :: "oms \<Rightarrow> oms" where
  "emit_trading_enabled_changed s = fst (send_control_status (StOmsTradingEnabledChanged (om_trading_enabled s)) s)"

definition emit_telemetry :: "oms \<Rightarrow> oms" where
  "emit_telemetry s =
     (let s1 = count (\<lambda>t. t\<lparr>ots_live_orders := live_order_count s,
                 ots_pending_submit_orders := pending_submit_order_count s,
                 ots_uncertain_orders := uncertain_order_count s\<rparr>) s
      in fst (send_control_status (StOmsTelemetry (om_telemetry s1)) s1))"

definition emit_group_admission_response ::
  "group_record \<Rightarrow> group_admission_state \<Rightarrow> reject_reason \<Rightarrow> u64 \<Rightarrow> oms \<Rightarrow> oms" where
  "emit_group_admission_response grp admission_state reason recv_ts_ns s =
     (let (t, s1) = now_ns s;
          response = \<lparr>gar_context = gr_context grp, gar_oms_group_id = gr_oms_group_id grp,
            gar_admission_state = admission_state, gar_reject_reason = reason,
            gar_admitted_leg_count = (if admission_state = GAS_kACCEPTED then gr_leg_count grp else 0),
            gar_reserved_capital_ticks =
              (if admission_state = GAS_kACCEPTED then gr_reserved_capital_ticks grp else 0),
            gar_recv_ts_ns = recv_ts_ns, gar_response_ts_ns = t\<rparr>
      in fst (send_strategy_message (ic_strategy_index (gr_context grp)) (MsgGroupAdmissionResponse response) s1))"

definition leg_state_of :: "oms \<Rightarrow> group_record \<Rightarrow> nat \<Rightarrow> group_leg_state" where
  "leg_state_of s grp i =
     (if i < unat (gr_leg_count grp)
      then (case find_order s (gr_original_leg_request_ids grp ! i) of
              None \<Rightarrow> empty_leg_state
            | Some r \<Rightarrow>
                \<lparr>gls_oms_request_id = oc_oms_request_id (ord_context r), gls_market_id = ord_market_id r,
                 gls_leg_index = ord_group_leg_index r, gls_order_state = ord_order_state r,
                 gls_ordered_qty_lots = ord_ordered_qty_lots r,
                 gls_cumulative_filled_qty_lots = ord_cumulative_filled_qty_lots r,
                 gls_leaves_qty_lots = ord_leaves_qty_lots r\<rparr>)
      else empty_leg_state)"

definition emit_group_state_update :: "oms_group_id \<Rightarrow> u64 \<Rightarrow> oms \<Rightarrow> oms" where
  "emit_group_state_update gid update_ts_ns s =
     (case find_group s gid of
        None \<Rightarrow> s
      | Some grp \<Rightarrow>
          let update = \<lparr>gsu_context = gr_context grp, gsu_oms_group_id = gr_oms_group_id grp,
                gsu_execution_state = gr_execution_state grp, gsu_failure_reason = gr_failure_reason grp,
                gsu_legs = map (leg_state_of s grp) [0..<kMAX_ORDERS_PER_GROUP],
                gsu_leg_count = gr_leg_count grp, gsu_repair_attempt_count = gr_repair_attempt_count grp,
                gsu_residual_exposure_present = gr_residual_exposure_present grp,
                gsu_last_update_ts_ns = update_ts_ns\<rparr>
          in fst (send_strategy_message (ic_strategy_index (gr_context grp)) (MsgGroupStateUpdate update) s))"

section \<open>Capital\<close>

definition portfolio_ready_for_trading :: "oms \<Rightarrow> bool" where
  "portfolio_ready_for_trading s \<longleftrightarrow>
     \<not> rk_require_portfolio_reconciliation (om_risk s) \<or> vp_reconciled (om_venue_portfolio s)"

definition strategy_available :: "strategy_portfolio_record \<Rightarrow> i64" where
  "strategy_available p =
     (let positive_reservations = max 0 (sp_reserved_order_capital_ticks p);
          positive_inventory = max 0 (sp_inventory_exposure_ticks p);
          strategy_committed = (if positive_inventory > i64_max - positive_reservations then i64_max
                                else positive_reservations + positive_inventory)
      in max 0 (sp_allocation_limit_ticks p - min (sp_allocation_limit_ticks p) strategy_committed))"

primrec global_reservations :: "strategy_portfolio_record list \<Rightarrow> i64 \<Rightarrow> i64" where
  "global_reservations [] acc = acc"
| "global_reservations (p # ps) acc =
     (if sp_reserved_order_capital_ticks p > i64_max - acc then i64_max
      else global_reservations ps (acc + max 0 (sp_reserved_order_capital_ticks p)))"

definition venue_available :: "oms \<Rightarrow> i64" where
  "venue_available s =
     (let balance = vp_available_balance_ticks (om_venue_portfolio s);
          venue_after_safety = max 0 (balance - min balance (max 0 (rk_venue_safety_reserve_ticks (om_risk s))));
          reservations = global_reservations (map snd (om_portfolios s)) 0
      in max 0 (venue_after_safety - min venue_after_safety reservations))"

definition available_capital :: "oms \<Rightarrow> strategy_portfolio_record \<Rightarrow> i64" where
  "available_capital s p =
     (if \<not> rk_require_portfolio_reconciliation (om_risk s) then strategy_available p
      else if \<not> vp_reconciled (om_venue_portfolio s) then 0
      else min (strategy_available p) (venue_available s))"

definition recompute_strategy_available_capital :: "u16 \<Rightarrow> oms \<Rightarrow> oms" where
  "recompute_strategy_available_capital i s =
     upd_portfolio i (\<lambda>p. p\<lparr>sp_available_capital_ticks := available_capital s p\<rparr>) s"

text \<open>The loop over all portfolios. Recomputing one changes nothing the recomputation of another reads.\<close>

definition recompute_all_strategy_available_capital :: "oms \<Rightarrow> oms" where
  "recompute_all_strategy_available_capital s =
     s\<lparr>om_portfolios :=
        um_map_values (\<lambda>_ p. p\<lparr>sp_available_capital_ticks := available_capital s p\<rparr>) (om_portfolios s)\<rparr>"

definition new_portfolio :: "oms \<Rightarrow> u16 \<Rightarrow> strategy_portfolio_record" where
  "new_portfolio s i =
     \<lparr>sp_strategy_index = i, sp_next_sequence = 1,
      sp_allocation_limit_ticks = rk_strategy_allocation_limit_ticks (om_risk s),
      sp_available_capital_ticks = rk_strategy_allocation_limit_ticks (om_risk s),
      sp_reserved_order_capital_ticks = 0, sp_inventory_exposure_ticks = 0, sp_realized_pnl_ticks = 0,
      sp_fees_paid_ticks = 0, sp_open_order_count = 0, sp_active_group_count = 0\<rparr>"

definition ensure_strategy_portfolio :: "u16 \<Rightarrow> oms \<Rightarrow> oms" where
  "ensure_strategy_portfolio i s =
     (let (portfolios, inserted) = um_emplace i (new_portfolio s i) (om_portfolios s)
      in if inserted then recompute_strategy_available_capital i (s\<lparr>om_portfolios := portfolios\<rparr>) else s)"

definition ensure_strategy_market_position :: "u16 \<Rightarrow> market_id \<Rightarrow> event_id \<Rightarrow> oms \<Rightarrow> oms" where
  "ensure_strategy_market_position i mid eid s =
     (let positions = (case um_find (om_positions s) i of None \<Rightarrow> [] | Some ps \<Rightarrow> ps)
      in s\<lparr>om_positions := um_assign i (fst (um_emplace mid (empty_position i mid eid) positions)) (om_positions s)\<rparr>)"

definition emit_strategy_portfolio_update :: "u16 \<Rightarrow> u64 \<Rightarrow> oms \<Rightarrow> oms" where
  "emit_strategy_portfolio_update i update_ts_ns s =
     (case um_find (om_portfolios s) i of
        None \<Rightarrow> s
      | Some p \<Rightarrow>
          let update = \<lparr>spu_strategy_index = sp_strategy_index p, spu_sequence = sp_next_sequence p,
                spu_allocation_limit_ticks = sp_allocation_limit_ticks p,
                spu_available_capital_ticks = sp_available_capital_ticks p,
                spu_reserved_order_capital_ticks = sp_reserved_order_capital_ticks p,
                spu_inventory_exposure_ticks = sp_inventory_exposure_ticks p,
                spu_realized_pnl_ticks = sp_realized_pnl_ticks p, spu_fees_paid_ticks = sp_fees_paid_ticks p,
                spu_venue_available_balance_ticks = vp_available_balance_ticks (om_venue_portfolio s),
                spu_venue_portfolio_reconciled = vp_reconciled (om_venue_portfolio s),
                spu_open_order_count = sp_open_order_count p,
                spu_active_group_count = sp_active_group_count p, spu_update_ts_ns = update_ts_ns\<rparr>;
              s1 = upd_portfolio i (\<lambda>p. p\<lparr>sp_next_sequence := sp_next_sequence p + 1\<rparr>) s
          in fst (send_strategy_message (sp_strategy_index p) (MsgStrategyPortfolioUpdate update) s1))"

definition find_position :: "oms \<Rightarrow> u16 \<Rightarrow> market_id \<Rightarrow> strategy_market_position_record option" where
  "find_position s i mid =
     (case um_find (om_positions s) i of None \<Rightarrow> None | Some ps \<Rightarrow> um_find ps mid)"

definition emit_strategy_market_position_update :: "u16 \<Rightarrow> market_id \<Rightarrow> u64 \<Rightarrow> oms \<Rightarrow> oms" where
  "emit_strategy_market_position_update i mid update_ts_ns s =
     (case find_position s i mid of
        None \<Rightarrow> s
      | Some position \<Rightarrow>
          let strategy = mp_strategy_index position;
              s1 = ensure_strategy_portfolio strategy s;
              sequence = (case um_find (om_portfolios s1) strategy of None \<Rightarrow> 0 | Some p \<Rightarrow> sp_next_sequence p);
              s2 = upd_portfolio strategy (\<lambda>p. p\<lparr>sp_next_sequence := sp_next_sequence p + 1\<rparr>) s1;
              update = \<lparr>smpu_strategy_index = strategy, smpu_sequence = sequence,
                smpu_market_id = mp_market_id position, smpu_event_id = mp_event_id position,
                smpu_net_position_lots = mp_net_position_lots position,
                smpu_resting_buy_qty_lots = mp_resting_buy_qty_lots position,
                smpu_resting_sell_qty_lots = mp_resting_sell_qty_lots position,
                smpu_average_entry_price_ticks = mp_average_entry_price_ticks position,
                smpu_position_cost_ticks = mp_position_cost_ticks position,
                smpu_market_exposure_ticks = mp_market_exposure_ticks position,
                smpu_realized_pnl_ticks = mp_realized_pnl_ticks position,
                smpu_fees_paid_ticks = mp_fees_paid_ticks position, smpu_update_ts_ns = update_ts_ns\<rparr>
          in fst (send_strategy_message strategy (MsgStrategyMarketPositionUpdate update) s2))"

definition reserve_group_capital :: "group_record \<Rightarrow> oms \<Rightarrow> group_record \<times> oms \<times> bool" where
  "reserve_group_capital grp s =
     (if gr_reserved_capital_ticks grp = 0 \<or> gr_reserved_capital_ticks grp > to_u64 i64_max
      then (grp, s, False)
      else let i = ic_strategy_index (gr_context grp);
               s1 = ensure_strategy_portfolio i s;
               reservation = to_i64 (gr_reserved_capital_ticks grp)
      in case um_find (om_portfolios s1) i of
        None \<Rightarrow> (grp, s1, False)
      | Some p \<Rightarrow>
          if sp_available_capital_ticks p < reservation then (grp, s1, False)
          else let s2 = upd_portfolio i (\<lambda>p. p\<lparr>sp_reserved_order_capital_ticks := sp_reserved_order_capital_ticks p + reservation,
                          sp_active_group_count := sp_active_group_count p + 1\<rparr>) s1
               in (grp\<lparr>gr_capital_released := False\<rparr>, recompute_strategy_available_capital i s2, True))"

definition release_group_capital :: "group_record \<Rightarrow> oms \<Rightarrow> group_record \<times> oms" where
  "release_group_capital grp s =
     (if gr_capital_released grp then (grp, s)
      else let i = ic_strategy_index (gr_context grp);
               s1 = ensure_strategy_portfolio i s;
               reservation = to_i64 (gr_reserved_capital_ticks grp);
               reserved = (case um_find (om_portfolios s1) i of None \<Rightarrow> 0
                           | Some p \<Rightarrow> sp_reserved_order_capital_ticks p);
               released = min reserved reservation;
               s2 = upd_portfolio i (\<lambda>p. p\<lparr>sp_reserved_order_capital_ticks := sp_reserved_order_capital_ticks p - released,
                      sp_active_group_count := (if sp_active_group_count p > 0 then sp_active_group_count p - 1
                                                else sp_active_group_count p)\<rparr>) s1;
               s3 = recompute_strategy_available_capital i s2;
               (t, s4) = now_ns s3
           in (grp\<lparr>gr_reserved_capital_ticks := gr_reserved_capital_ticks grp - to_u64 released,
                     gr_capital_released := True\<rparr>,
               emit_strategy_portfolio_update i t s4))"

text \<open>\<open>release_group_capital\<close> on a group stored in the map.\<close>

definition release_stored_group :: "oms_group_id \<Rightarrow> oms \<Rightarrow> oms" where
  "release_stored_group gid s =
     (case find_group s gid of
        None \<Rightarrow> s
      | Some grp \<Rightarrow> let (grp', s') = release_group_capital grp s in upd_group gid (\<lambda>_. grp') s')"

end
