(* ===== verification/Oms_Groups.thy ===== *)
theory Oms_Groups
  imports Oms_State
begin

text \<open>
  Accounting of fills and terminal orders, and the repair of groups whose legs did not all fill
  (\<open>cpp/src/oms/oms.cpp\<close>, from \<open>apply_venue_market_position\<close> to \<open>account_terminal_order\<close>). A group that
  cannot complete latches the execution incident, cancels what is still open, and sends orders that take
  back the confirmed residual exposure of every leg, a bounded number of times.
\<close>

section \<open>Positions\<close>

text \<open>The exposure a position is charged with when the exchange does not report one.\<close>

definition fallback_exposure :: "i64 \<Rightarrow> i64" where
  "fallback_exposure net_position_lots =
     (case absolute_lots net_position_lots of
        None \<Rightarrow> i64_max
      | Some lots \<Rightarrow> (case inventory_full_notional_exposure lots of
          None \<Rightarrow> i64_max
        | Some e \<Rightarrow> if e \<le> to_u64 i64_max then to_i64 e else i64_max))"

definition average_entry :: "u64 option \<Rightarrow> i64 \<Rightarrow> i64" where
  "average_entry lots position_cost_ticks =
     (case lots of
        None \<Rightarrow> 0
      | Some n \<Rightarrow>
          if n > 0 \<and> position_cost_ticks \<ge> 0
             \<and> to_u64 position_cost_ticks \<le> u64_max div kQUANTITY_LOTS_PER_CONTRACT
          then to_i64 (to_u64 position_cost_ticks * kQUANTITY_LOTS_PER_CONTRACT div n) else 0)"

definition venue_position_applied ::
  "venue_market_position_snapshot \<Rightarrow> strategy_market_position_record \<Rightarrow> strategy_market_position_record" where
  "venue_position_applied position p =
     p\<lparr>mp_net_position_lots := vmp_net_position_lots position,
       mp_position_cost_ticks :=
         (if vmp_position_cost_present position then vmp_position_cost_ticks position else mp_position_cost_ticks p),
       mp_realized_pnl_ticks :=
         (if vmp_realized_pnl_present position then vmp_realized_pnl_ticks position else mp_realized_pnl_ticks p),
       mp_fees_paid_ticks :=
         (if vmp_fees_paid_present position then vmp_fees_paid_ticks position else mp_fees_paid_ticks p),
       mp_market_exposure_ticks :=
         (if vmp_market_exposure_present position then vmp_market_exposure_ticks position
          else fallback_exposure (vmp_net_position_lots position)),
       mp_average_entry_price_ticks :=
         average_entry (absolute_lots (vmp_net_position_lots position)) (vmp_position_cost_ticks position)\<rparr>"

definition apply_venue_market_position :: "venue_market_position_snapshot \<Rightarrow> u64 \<Rightarrow> oms \<Rightarrow> oms" where
  "apply_venue_market_position position update_ts_ns s =
     (let mid = vmp_market_id position in
      if mid = 0 then s
      else let s1 = s\<lparr>om_venue_positions := um_assign mid position (om_venue_positions s)\<rparr>
      in if length (om_response_queues s1) \<noteq> 1 then s1
      else let s2 = ensure_strategy_portfolio 0 (ensure_strategy_market_position 0 mid (vmp_event_id position) s1)
      in case find_position s2 0 mid of
        None \<Rightarrow> s2
      | Some p \<Rightarrow>
          let p' = venue_position_applied position p;
              s3 = upd_position 0 mid (\<lambda>_. p') s2;
              s4 = upd_portfolio 0 (\<lambda>q. q\<lparr>
                sp_inventory_exposure_ticks := sp_inventory_exposure_ticks q + (mp_market_exposure_ticks p' - mp_market_exposure_ticks p),
                sp_realized_pnl_ticks := sp_realized_pnl_ticks q + (mp_realized_pnl_ticks p' - mp_realized_pnl_ticks p),
                sp_fees_paid_ticks := sp_fees_paid_ticks q + (mp_fees_paid_ticks p' - mp_fees_paid_ticks p)\<rparr>) s3;
              s5 = recompute_all_strategy_available_capital s4;
              s6 = emit_strategy_market_position_update 0 mid update_ts_ns s5
          in emit_strategy_portfolio_update 0 update_ts_ns s6)"

section \<open>Fills\<close>

definition price_ticks_per_dollar :: i64 where "price_ticks_per_dollar = to_i64 kPRICE_TICKS_PER_DOLLAR"

text \<open>The effect of a fill on the residual exposure of its leg: the addition, or the refusal of an addition
  that would overflow.\<close>

definition add_residual :: "nat \<Rightarrow> i64 \<Rightarrow> group_record \<Rightarrow> group_record" where
  "add_residual leg signed_delta g =
     (let residual = gr_residual_yes_lots g ! leg in
      if (signed_delta > 0 \<and> residual > i64_max - signed_delta) \<or> (signed_delta < 0 \<and> residual < i64_min - signed_delta)
      then g\<lparr>gr_venue_state_uncertain := True\<rparr>
      else g\<lparr>gr_residual_yes_lots := (gr_residual_yes_lots g)[leg := residual + signed_delta]\<rparr>)"

text \<open>The position after a fill of \<open>signed_delta\<close> lots at \<open>yes_price\<close>, and the realized profit.\<close>

definition fill_position ::
  "u64 \<Rightarrow> u64 \<Rightarrow> i64 \<Rightarrow> i64 \<Rightarrow> strategy_market_position_record \<Rightarrow> strategy_market_position_record \<times> i64" where
  "fill_position old_abs delta_abs signed_delta yes_price p =
     (let net = mp_net_position_lots p;
          average = mp_average_entry_price_ticks p;
          delta_side_price = (if signed_delta > 0 then yes_price else price_ticks_per_dollar - yes_price);
          same_direction = (net = 0 \<or> (net > 0) = (signed_delta > 0));
          new_position = net + signed_delta;
          (average', pnl) =
            (if same_direction
             then let new_abs = old_abs + delta_abs
                  in (if new_abs \<noteq> 0 then weighted_average old_abs average delta_abs delta_side_price new_abs else average, 0)
             else let closed_lots = min old_abs delta_abs;
                      exit_price = (if net > 0 then yes_price else price_ticks_per_dollar - yes_price);
                      realized = (case monetary_ticks closed_lots (if exit_price - average < 0 then average - exit_price
                                                                   else exit_price - average) of
                                    None \<Rightarrow> 0
                                  | Some v \<Rightarrow> if exit_price \<ge> average then v else - v)
                  in (if delta_abs > old_abs then delta_side_price
                      else if delta_abs = old_abs then 0 else average, realized));
          new_abs = absolute_lots new_position;
          exposure = (case new_abs of None \<Rightarrow> None | Some n \<Rightarrow> inventory_full_notional_exposure n);
          cost = (case new_abs of None \<Rightarrow> None | Some n \<Rightarrow> monetary_ticks n average')
      in (p\<lparr>mp_average_entry_price_ticks := average',
            mp_realized_pnl_ticks := mp_realized_pnl_ticks p + pnl,
            mp_net_position_lots := new_position,
            mp_market_exposure_ticks := (case exposure of None \<Rightarrow> i64_max | Some e \<Rightarrow> to_i64 e),
            mp_position_cost_ticks := (case cost of None \<Rightarrow> 0 | Some c \<Rightarrow> c)\<rparr>, pnl))"

text \<open>Part of an order's reservation is given back: to the portfolio, and to its group.\<close>

definition release_order_reservation :: "oms_request_id \<Rightarrow> u16 \<Rightarrow> oms_group_id \<Rightarrow> i64 \<Rightarrow> oms \<Rightarrow> oms" where
  "release_order_reservation rid i gid released s =
     (let s1 = upd_order rid (\<lambda>r. r\<lparr>ord_reserved_capital_ticks := ord_reserved_capital_ticks r - released\<rparr>) s;
          s2 = upd_portfolio i (\<lambda>p. p\<lparr>sp_reserved_order_capital_ticks :=
                 sp_reserved_order_capital_ticks p - min (sp_reserved_order_capital_ticks p) released\<rparr>) s1
      in upd_group gid (\<lambda>g. g\<lparr>gr_reserved_capital_ticks :=
           gr_reserved_capital_ticks g - min (gr_reserved_capital_ticks g) (to_u64 released)\<rparr>) s2)"

definition account_fill :: "oms_request_id \<Rightarrow> private_ws_order_event \<Rightarrow> oms \<Rightarrow> oms" where
  "account_fill rid event s =
     (case find_order s rid of
        None \<Rightarrow> s
      | Some r \<Rightarrow>
      let oc = (if pwe_outcome event = O_kUNKNOWN then ord_outcome r else pwe_outcome event);
          action = (if pwe_action event = OA_kUNKNOWN then ord_action r else pwe_action event);
          price = pwe_last_fill_price_ticks event
      in if pwe_last_fill_qty_lots event \<le> 0 \<or> price \<le> 0 \<or> price \<ge> price_ticks_per_dollar
            \<or> oc = O_kUNKNOWN \<or> action = OA_kUNKNOWN then s
      else (case signed_yes_lots oc action (pwe_last_fill_qty_lots event) of
        None \<Rightarrow> s
      | Some signed_delta \<Rightarrow>
      let gid = ord_oms_group_id r;
          leg = ord_group_leg_index r;
          s1 = (case find_group s gid of
                  None \<Rightarrow> s
                | Some g \<Rightarrow> if leg < gr_leg_count g then upd_group gid (add_residual (unat leg) signed_delta) s else s);
          i = ic_strategy_index (oc_context (ord_context r));
          mid = ord_market_id r;
          s2 = ensure_strategy_portfolio i
                 (ensure_strategy_market_position i mid (ic_event_id (oc_context (ord_context r))) s1)
      in (case find_position s2 i mid of
        None \<Rightarrow> s2
      | Some p \<Rightarrow>
      (case (absolute_lots (mp_net_position_lots p), absolute_lots signed_delta) of
        (Some old_abs, Some delta_abs) \<Rightarrow>
          let yes_price = (if oc = O_kYES then price else price_ticks_per_dollar - price);
              (p', pnl) = fill_position old_abs delta_abs signed_delta yes_price p;
              s3 = upd_position i mid (\<lambda>_. p') s2;
              s4 = upd_portfolio i (\<lambda>q. q\<lparr>sp_realized_pnl_ticks := sp_realized_pnl_ticks q + pnl,
                     sp_inventory_exposure_ticks := sp_inventory_exposure_ticks q
                       + (mp_market_exposure_ticks p' - mp_market_exposure_ticks p)\<rparr>) s3;
              s5 = (case full_notional_reservation (pwe_last_fill_qty_lots event) of
                      None \<Rightarrow> s4
                    | Some fill_reservation \<Rightarrow>
                        release_order_reservation rid i gid
                          (min (ord_reserved_capital_ticks r) (to_i64 fill_reservation)) s4);
              s6 = recompute_all_strategy_available_capital s5;
              s7 = emit_strategy_market_position_update i mid (pwe_recv_ts_ns event) s6;
              s8 = emit_strategy_portfolio_update i (pwe_recv_ts_ns event) s7
          in s8\<lparr>om_portfolio_reconciliation_needed := rk_require_portfolio_reconciliation (om_risk s8)\<rparr>
      | _ \<Rightarrow> s2))))"

definition account_terminal_order :: "oms_request_id \<Rightarrow> u64 \<Rightarrow> oms \<Rightarrow> oms" where
  "account_terminal_order rid update_ts_ns s =
     (case find_order s rid of
        None \<Rightarrow> s
      | Some r \<Rightarrow>
      if \<not> is_terminal (ord_order_state r) \<or> ord_terminal_accounted r then s
      else let i = ic_strategy_index (oc_context (ord_context r));
               s1 = ensure_strategy_portfolio i (upd_order rid (\<lambda>r. r\<lparr>ord_terminal_accounted := True\<rparr>) s);
               s2 = upd_portfolio i (\<lambda>p. p\<lparr>sp_open_order_count :=
                      (if sp_open_order_count p > 0 then sp_open_order_count p - 1 else sp_open_order_count p)\<rparr>) s1;
               s3 = (if ord_order_state r \<noteq> OS_kFILLED \<and> ord_reserved_capital_ticks r > 0
                     then let reserved = (case um_find (om_portfolios s2) i of None \<Rightarrow> 0
                                          | Some p \<Rightarrow> sp_reserved_order_capital_ticks p)
                          in release_order_reservation rid i (ord_oms_group_id r)
                               (min reserved (ord_reserved_capital_ticks r)) s2
                     else s2);
               s4 = recompute_all_strategy_available_capital s3
           in emit_strategy_portfolio_update i update_ts_ns s4)"

section \<open>Execution incidents\<close>

definition leg_ids :: "group_record \<Rightarrow> oms_request_id list" where
  "leg_ids g = take (unat (gr_leg_count g)) (gr_original_leg_request_ids g)"

definition group_has_residual_exposure :: "group_record \<Rightarrow> bool" where
  "group_has_residual_exposure g \<longleftrightarrow> list_ex (\<lambda>lots. lots \<noteq> 0) (take (unat (gr_leg_count g)) (gr_residual_yes_lots g))"

definition group_has_confirmed_original_fill :: "oms \<Rightarrow> group_record \<Rightarrow> bool" where
  "group_has_confirmed_original_fill s g \<longleftrightarrow>
     list_ex (\<lambda>rid. case find_order s rid of None \<Rightarrow> False | Some r \<Rightarrow> ord_cumulative_filled_qty_lots r > 0) (leg_ids g)"

definition needs_repair :: "group_execution_state \<Rightarrow> bool" where
  "needs_repair st \<longleftrightarrow> st = GES_kREPAIR_REQUIRED \<or> st = GES_kCANCELING_REMAINDER \<or> st = GES_kUNWINDING
     \<or> st = GES_kUNCERTAIN \<or> st = GES_kREPAIR_FAILED"

definition latch_execution_incident :: "oms \<Rightarrow> oms" where
  "latch_execution_incident s =
     (let s1 = (if \<not> om_execution_incident_active s
                then count (\<lambda>t. t\<lparr>ots_execution_incident_active := True,
                       ots_execution_incidents_latched := ots_execution_incidents_latched t + 1\<rparr>)
                       (s\<lparr>om_execution_incident_active := True\<rparr>)
                else s)
      in if om_trading_enabled s1 then emit_trading_enabled_changed (s1\<lparr>om_trading_enabled := False\<rparr>) else s1)"

definition refresh_execution_incident_latch :: "oms \<Rightarrow> oms" where
  "refresh_execution_incident_latch s =
     (let active = list_ex (\<lambda>(_, g). needs_repair (gr_execution_state g)) (om_groups s);
          s1 = count (\<lambda>t. t\<lparr>ots_execution_incident_active := active\<rparr>) (s\<lparr>om_execution_incident_active := active\<rparr>)
      in if \<not> active then s1\<lparr>om_execution_fault_reported := False\<rparr> else s1)"

definition maybe_report_execution_fault :: "oms \<Rightarrow> oms" where
  "maybe_report_execution_fault s =
     (if om_execution_fault_reported s then s
      else case find (\<lambda>(_, g). gr_execution_state g = GES_kUNCERTAIN \<or> gr_execution_state g = GES_kREPAIR_FAILED) (om_groups s) of
        None \<Rightarrow> s
      | Some (_, g) \<Rightarrow>
          let message = (if gr_execution_state g = GES_kUNCERTAIN
                then ''OMS group execution state is uncertain; operator reconciliation required''
                else ''OMS group repair failed; residual exposure may remain'');
              (s1, ok) = send_control_status (StOmsFaulted message) s
          in if ok then s1\<lparr>om_execution_fault_reported := True\<rparr> else s1)"

definition fail_group_repair :: "oms_group_id \<Rightarrow> group_failure_reason \<Rightarrow> u64 \<Rightarrow> oms \<Rightarrow> oms" where
  "fail_group_repair gid reason update_ts_ns s =
     (case find_group s gid of
        None \<Rightarrow> s
      | Some g \<Rightarrow>
          let newly_failed = (gr_execution_state g \<noteq> GES_kREPAIR_FAILED);
              s1 = upd_group gid (\<lambda>g. g\<lparr>gr_execution_state := GES_kREPAIR_FAILED, gr_failure_reason := reason,
                     gr_residual_exposure_present := group_has_residual_exposure g,
                     gr_last_update_ts_ns := update_ts_ns\<rparr>) s;
              s2 = latch_execution_incident s1;
              s3 = (if newly_failed
                    then emit_telemetry (emit_group_state_update gid update_ts_ns
                           (count (\<lambda>t. t\<lparr>ots_group_repairs_failed := ots_group_repairs_failed t + 1\<rparr>) s2))
                    else s2)
          in maybe_report_execution_fault s3)"

section \<open>Cancelling\<close>

definition emit_cancel_command_for_record ::
  "oms_request_id \<Rightarrow> intent_context \<Rightarrow> oms_request_id \<Rightarrow> u64 \<Rightarrow> oms \<Rightarrow> oms \<times> bool" where
  "emit_cancel_command_for_record rid context command_oms_request_id submission_ts_ns s =
     (case find_order s rid of
        None \<Rightarrow> (s, False)
      | Some r \<Rightarrow>
      if \<not> is_cancelable (ord_order_state r) then (s, False)
      else let command = \<lparr>coc_oms_request_id = command_oms_request_id,
                 coc_client_order_id = ord_client_order_id r, coc_exchange_order_id = ord_exchange_order_id r,
                 coc_cancel_order_intent = \<lparr>coi_context = context,
                   coi_target_oms_request_id = oc_oms_request_id (ord_context r)\<rparr>,
                 coc_submission_ts_ns = submission_ts_ns\<rparr>;
               (s1, ok) = send_kalshi_command (CmdCancelOrder command) s
      in if \<not> ok then (s1, False)
         else let s2 = upd_order rid (\<lambda>r. r\<lparr>ord_previous_order_state := ord_order_state r,
                          ord_order_state := OS_kPENDING_CANCEL,
                          ord_pending_command_oms_request_id := command_oms_request_id,
                          ord_pending_command_kind := RCK_kCANCEL_ORDER\<rparr>) s1
              in (emit_order_state_update rid VES_kOMS_INTERNAL submission_ts_ns s2, True))"

text \<open>A loop that cancels a list of orders, a fresh request id for each; \<open>contexts\<close> chooses the context the
  command carries. The result counts the commands sent.\<close>

primrec cancel_each ::
  "(order_record \<Rightarrow> intent_context) \<Rightarrow> u64 \<Rightarrow> oms_request_id list \<Rightarrow> oms \<Rightarrow> oms \<times> nat" where
  "cancel_each contexts ts [] s = (s, 0)"
| "cancel_each contexts ts (rid # rids) s =
     (let (command_id, s1) = take_request_id s;
          context = (case find_order s1 rid of None \<Rightarrow> empty_context | Some r \<Rightarrow> contexts r);
          (s2, ok) = emit_cancel_command_for_record rid context command_id ts s1;
          (s3, n) = cancel_each contexts ts rids s2
      in (s3, if ok then Suc n else n))"

section \<open>Repair\<close>

text \<open>First loop of \<open>continue_group_repair\<close>: is the venue state uncertain, which original legs can be
  cancelled, is a cancellation pending.\<close>

definition scan_original :: "oms \<Rightarrow> oms_request_id \<Rightarrow> bool \<times> oms_request_id list \<times> bool \<Rightarrow> bool \<times> oms_request_id list \<times> bool" where
  "scan_original s rid acc =
     (case acc of (uncertain, cancelable, pending) \<Rightarrow>
      case find_order s rid of
        None \<Rightarrow> (True, cancelable, pending)
      | Some r \<Rightarrow>
          let uncertain' = (uncertain \<or> ord_order_state r = OS_kUNCERTAIN)
          in if ord_order_state r = OS_kPENDING_CANCEL then (uncertain', cancelable, True)
             else if is_cancelable (ord_order_state r) then (uncertain', cancelable @ [rid], pending)
             else (uncertain', cancelable, pending))"

text \<open>Second loop: forget repair orders that have ended, note live and uncertain ones.\<close>

definition scan_repair :: "oms \<Rightarrow> nat \<Rightarrow> oms_request_id list \<times> bool \<times> bool \<Rightarrow> oms_request_id list \<times> bool \<times> bool" where
  "scan_repair s i acc =
     (case acc of (active, uncertain, live) \<Rightarrow>
      if active ! i = 0 then acc
      else case find_order s (active ! i) of
        None \<Rightarrow> (active, True, live)
      | Some r \<Rightarrow>
          if ord_order_state r = OS_kUNCERTAIN then (active, True, live)
          else if is_live (ord_order_state r) then (active, uncertain, True)
          else (active[i := 0], uncertain, live))"

fun repair_action_of :: "outcome \<Rightarrow> bool \<Rightarrow> order_action option" where
  "repair_action_of O_kYES need_positive_yes = Some (if need_positive_yes then OA_kBUY else OA_kSELL)"
| "repair_action_of O_kNO need_positive_yes = Some (if need_positive_yes then OA_kSELL else OA_kBUY)"
| "repair_action_of O_kUNKNOWN need_positive_yes = None"

definition repair_intent_of :: "order_record \<Rightarrow> nat \<Rightarrow> order_action \<Rightarrow> u64 \<Rightarrow> new_order_intent" where
  "repair_intent_of original i repair_action quantity =
     \<lparr>noi_context = (oc_context (ord_context original))\<lparr>ic_leg_index := of_nat i\<rparr>,
      noi_outcome = ord_outcome original, noi_action = repair_action, noi_liquidity_intent = LI_kTAKER,
      noi_order_type = OT_kMARKETABLE_LIMIT, noi_time_in_force = TIF_kFOK,
      noi_price_ticks = (if repair_action = OA_kBUY then to_i64 (kPRICE_TICKS_PER_DOLLAR - 1) else 1),
      noi_quantity_lots = to_i64 quantity\<rparr>"

definition set_uncertain :: "oms_group_id \<Rightarrow> bool \<Rightarrow> oms \<Rightarrow> oms" where
  "set_uncertain gid b s = upd_group gid (\<lambda>g. g\<lparr>gr_venue_state_uncertain := b\<rparr>) s"

text \<open>One round of the loop that sends repair orders: the order for leg \<open>i\<close>, whether to go on, and whether
  a command was sent. \<open>sent_before\<close> tells whether an earlier leg's command was sent.\<close>

definition submit_repair_order :: "oms_group_id \<Rightarrow> u64 \<Rightarrow> nat \<Rightarrow> bool \<Rightarrow> group_record \<Rightarrow> oms \<Rightarrow> oms \<times> bool" where
  "submit_repair_order gid update_ts_ns i sent_before g s =
     (let residual = gr_residual_yes_lots g ! i
      in case (find_order s (gr_original_leg_request_ids g ! i), absolute_lots residual) of
        (Some original, Some quantity) \<Rightarrow>
          if quantity = 0 \<or> quantity > to_u64 i64_max then (set_uncertain gid True s, False)
          else (case repair_action_of (ord_outcome original) (residual < 0) of
            None \<Rightarrow> (set_uncertain gid True s, False)
          | Some repair_action \<Rightarrow>
          let (rid, s1) = take_request_id s;
              cid = make_client_order_id rid
          in if cid = [] then (set_uncertain gid True s1, False)
          else let repair_intent = repair_intent_of original i repair_action quantity;
                   repair_record = (make_order_record (make_context rid (noi_context repair_intent)) cid
                       repair_intent (ord_market_id original))\<lparr>
                     ord_pending_command_oms_request_id := rid, ord_pending_command_kind := RCK_kSUBMIT_ORDER,
                     ord_oms_group_id := gr_oms_group_id g, ord_group_leg_index := of_nat i, ord_repair_order := True\<rparr>;
                   s2 = s1\<lparr>om_orders := fst (um_emplace rid repair_record (om_orders s1)),
                           om_order_by_client := fst (um_emplace cid rid (om_order_by_client s1))\<rparr>;
                   s3 = upd_group gid (\<lambda>g. g\<lparr>gr_active_repair_request_ids := (gr_active_repair_request_ids g)[i := rid]\<rparr>) s2;
                   (s4, ok) = send_kalshi_command (CmdSubmitOrder \<lparr>soc_oms_request_id = rid, soc_client_order_id = cid,
                      soc_new_order_intent = repair_intent, soc_submission_ts_ns = update_ts_ns, soc_reduce_only = True\<rparr>) s3
          in if ok then (s4, True)
             else (upd_group gid (\<lambda>g. g\<lparr>gr_active_repair_request_ids := (gr_active_repair_request_ids g)[i := 0],
                      gr_venue_state_uncertain := sent_before\<rparr>)
                    (s4\<lparr>om_order_by_client := um_erase cid (om_order_by_client s4),
                        om_orders := um_erase rid (om_orders s4)\<rparr>), False))
      | _ \<Rightarrow> (set_uncertain gid True s, False))"

primrec submit_repair_orders :: "oms_group_id \<Rightarrow> u64 \<Rightarrow> nat list \<Rightarrow> nat \<Rightarrow> oms \<Rightarrow> oms \<times> nat" where
  "submit_repair_orders gid ts [] commands_sent s = (s, commands_sent)"
| "submit_repair_orders gid ts (i # is) commands_sent s =
     (case find_group s gid of
        None \<Rightarrow> (s, commands_sent)
      | Some g \<Rightarrow>
          if gr_residual_yes_lots g ! i = 0 then submit_repair_orders gid ts is commands_sent s
          else let (s1, sent) = submit_repair_order gid ts i (commands_sent > 0) g s
               in if sent then submit_repair_orders gid ts is (Suc commands_sent) s1 else (s1, commands_sent))"

text \<open>Room for \<open>n\<close> commands on the way to the exchange.\<close>

definition kalshi_room :: "oms \<Rightarrow> nat \<Rightarrow> bool" where
  "kalshi_room s n \<longleftrightarrow>
     \<not> (bq_size (om_kalshi_queue s) > bq_capacity (om_kalshi_queue s)
        \<or> bq_capacity (om_kalshi_queue s) - bq_size (om_kalshi_queue s) < n)"

text \<open>The branch that cancels the remaining original orders.\<close>

definition cancel_remainder :: "oms_group_id \<Rightarrow> u64 \<Rightarrow> oms_request_id list \<Rightarrow> group_record \<Rightarrow> oms \<Rightarrow> oms" where
  "cancel_remainder gid update_ts_ns cancelable g s =
     (if gr_cancel_attempt_count g \<ge> rk_maximum_group_repair_attempts (om_risk s)
      then (if gr_venue_state_uncertain g
            then maybe_report_execution_fault (emit_group_state_update gid update_ts_ns
                   (upd_group gid (\<lambda>g. g\<lparr>gr_execution_state := GES_kUNCERTAIN, gr_last_update_ts_ns := update_ts_ns\<rparr>) s))
            else fail_group_repair gid GFR_kCANCEL_FAILED update_ts_ns s)
      else if \<not> kalshi_room s (length cancelable)
      then upd_group gid (\<lambda>g. g\<lparr>gr_execution_state :=
             (if gr_venue_state_uncertain g then GES_kUNCERTAIN else GES_kREPAIR_REQUIRED)\<rparr>) s
      else let (s1, commands_sent) = cancel_each (\<lambda>_. gr_context g) update_ts_ns cancelable s;
               s2 = (if commands_sent \<noteq> length cancelable then set_uncertain gid True s1 else s1);
               s3 = (if commands_sent > 0
                     then count (\<lambda>t. t\<lparr>ots_group_repair_commands_sent := ots_group_repair_commands_sent t + of_nat commands_sent\<rparr>)
                            (upd_group gid (\<lambda>g. g\<lparr>gr_cancel_attempt_count := gr_cancel_attempt_count g + 1\<rparr>) s2)
                     else s2);
               s4 = upd_group gid (\<lambda>g. g\<lparr>gr_execution_state :=
                      (if gr_venue_state_uncertain g then GES_kUNCERTAIN else GES_kCANCELING_REMAINDER),
                      gr_last_update_ts_ns := update_ts_ns\<rparr>) s3;
               s5 = emit_telemetry (emit_group_state_update gid update_ts_ns s4)
           in (case find_group s5 gid of
                 None \<Rightarrow> s5
               | Some g5 \<Rightarrow>
                   if gr_venue_state_uncertain g5
                   then maybe_report_execution_fault
                          (s5\<lparr>om_portfolio_reconciliation_needed := rk_require_portfolio_reconciliation (om_risk s5)\<rparr>)
                   else s5))"

text \<open>The branch for a group without residual exposure: it is over and its capital is released.\<close>

definition finish_repair :: "oms_group_id \<Rightarrow> u64 \<Rightarrow> group_record \<Rightarrow> oms \<Rightarrow> oms" where
  "finish_repair gid update_ts_ns g s =
     (let repaired = group_has_confirmed_original_fill s g;
          s1 = upd_group gid (\<lambda>g. g\<lparr>gr_execution_state := (if repaired then GES_kFLATTENED else GES_kABORTED),
                 gr_failure_reason := (if repaired then gr_failure_reason g else GFR_kNONE),
                 gr_last_update_ts_ns := update_ts_ns\<rparr>) s;
          s2 = release_stored_group gid s1;
          s3 = (if repaired then count (\<lambda>t. t\<lparr>ots_group_repairs_completed := ots_group_repairs_completed t + 1\<rparr>) s2 else s2)
      in emit_telemetry (refresh_execution_incident_latch (emit_group_state_update gid update_ts_ns s3)))"

text \<open>The branch that sends the orders which take back the residual exposure.\<close>

definition unwind :: "oms_group_id \<Rightarrow> u64 \<Rightarrow> group_record \<Rightarrow> oms \<Rightarrow> oms" where
  "unwind gid update_ts_ns g s =
     (let legs = unat (gr_leg_count g);
          repair_count = length (filter (\<lambda>lots. lots \<noteq> 0) (take legs (gr_residual_yes_lots g)))
      in if \<not> kalshi_room s repair_count
      then upd_group gid (\<lambda>g. g\<lparr>gr_execution_state := GES_kREPAIR_REQUIRED\<rparr>) s
      else let (s1, commands_sent) = submit_repair_orders gid update_ts_ns [0..<legs] 0 s
      in case find_group s1 gid of
        None \<Rightarrow> s1
      | Some g1 \<Rightarrow>
      if gr_venue_state_uncertain g1
      then maybe_report_execution_fault (emit_telemetry (emit_group_state_update gid update_ts_ns
             (latch_execution_incident (upd_group gid (\<lambda>g. g\<lparr>gr_execution_state := GES_kUNCERTAIN,
                gr_failure_reason := GFR_kVENUE_STATE_UNCERTAIN, gr_last_update_ts_ns := update_ts_ns\<rparr>) s1))))
      else if commands_sent = 0 then s1
      else let i = ic_strategy_index (gr_context g1);
               s2 = count (\<lambda>t. t\<lparr>ots_group_repair_attempts := ots_group_repair_attempts t + 1,
                      ots_group_repair_commands_sent := ots_group_repair_commands_sent t + of_nat commands_sent\<rparr>)
                      (upd_group gid (\<lambda>g. g\<lparr>gr_repair_attempt_count := gr_repair_attempt_count g + 1\<rparr>) s1);
               s3 = upd_portfolio i (\<lambda>p. p\<lparr>sp_open_order_count := sp_open_order_count p + of_nat commands_sent\<rparr>)
                      (ensure_strategy_portfolio i s2);
               s4 = upd_group gid (\<lambda>g. g\<lparr>gr_execution_state := GES_kUNWINDING, gr_last_update_ts_ns := update_ts_ns\<rparr>) s3
           in emit_telemetry (emit_strategy_portfolio_update i update_ts_ns (emit_group_state_update gid update_ts_ns s4)))"

text \<open>From the second loop on: nothing is left to cancel.\<close>

definition repair_exposure :: "oms_group_id \<Rightarrow> u64 \<Rightarrow> group_record \<Rightarrow> oms \<Rightarrow> oms" where
  "repair_exposure gid update_ts_ns g s =
     (let (active, uncertain, live) =
            fold (scan_repair s) [0..<unat (gr_leg_count g)]
              (gr_active_repair_request_ids g, gr_venue_state_uncertain g, False);
          g1 = g\<lparr>gr_active_repair_request_ids := active, gr_venue_state_uncertain := uncertain,
                 gr_residual_exposure_present := group_has_residual_exposure g\<rparr>;
          s1 = upd_group gid (\<lambda>_. g1) s
      in if uncertain
      then maybe_report_execution_fault (emit_telemetry (emit_group_state_update gid update_ts_ns
             ((upd_group gid (\<lambda>g. g\<lparr>gr_execution_state := GES_kUNCERTAIN,
                 gr_failure_reason := GFR_kVENUE_STATE_UNCERTAIN, gr_last_update_ts_ns := update_ts_ns\<rparr>) s1)
               \<lparr>om_portfolio_reconciliation_needed := rk_require_portfolio_reconciliation (om_risk s)\<rparr>)))
      else if \<not> gr_residual_exposure_present g1 then finish_repair gid update_ts_ns g1 s1
      else if live then upd_group gid (\<lambda>g. g\<lparr>gr_execution_state := GES_kUNWINDING\<rparr>) s1
      else if gr_repair_attempt_count g1 \<ge> rk_maximum_group_repair_attempts (om_risk s)
      then fail_group_repair gid GFR_kUNWIND_FAILED update_ts_ns s1
      else unwind gid update_ts_ns g1 s1)"

definition continue_group_repair :: "oms_group_id \<Rightarrow> u64 \<Rightarrow> oms \<Rightarrow> oms" where
  "continue_group_repair gid update_ts_ns s =
     (case find_group s gid of
        None \<Rightarrow> s
      | Some g \<Rightarrow>
      if gr_capital_released g \<or> gr_execution_state g = GES_kREPAIR_FAILED then s
      else let (uncertain, cancelable, pending) =
                 fold (scan_original s) (leg_ids g) (gr_venue_state_uncertain g, [], False);
               g1 = g\<lparr>gr_venue_state_uncertain := uncertain\<rparr>;
               s1 = upd_group gid (\<lambda>_. g1) s
      in if cancelable \<noteq> [] then cancel_remainder gid update_ts_ns cancelable g1 s1
      else if pending
      then (if uncertain
            then maybe_report_execution_fault (upd_group gid (\<lambda>g. g\<lparr>gr_execution_state := GES_kUNCERTAIN\<rparr>) s1)
            else upd_group gid (\<lambda>g. g\<lparr>gr_execution_state := GES_kCANCELING_REMAINDER\<rparr>) s1)
      else repair_exposure gid update_ts_ns g1 s1)"

definition begin_group_repair :: "oms_group_id \<Rightarrow> group_failure_reason \<Rightarrow> u64 \<Rightarrow> oms \<Rightarrow> oms" where
  "begin_group_repair gid reason update_ts_ns s =
     (case find_group s gid of
        None \<Rightarrow> s
      | Some g \<Rightarrow>
          let already_repairing = needs_repair (gr_execution_state g);
              uncertain = (gr_venue_state_uncertain g \<or> reason = GFR_kVENUE_STATE_UNCERTAIN);
              s1 = upd_group gid (\<lambda>g. g\<lparr>gr_venue_state_uncertain := uncertain, gr_failure_reason := reason,
                     gr_residual_exposure_present := group_has_residual_exposure g,
                     gr_execution_state := (if uncertain then GES_kUNCERTAIN else GES_kREPAIR_REQUIRED),
                     gr_last_update_ts_ns := update_ts_ns\<rparr>) s;
              s2 = latch_execution_incident s1;
              s3 = (if \<not> already_repairing then emit_telemetry (emit_group_state_update gid update_ts_ns s2) else s2)
          in continue_group_repair gid update_ts_ns s3)"

definition service_group :: "u64 \<Rightarrow> oms_group_id \<Rightarrow> oms \<times> nat \<Rightarrow> oms \<times> nat" where
  "service_group update_ts_ns gid acc =
     (case acc of (s, progressed) \<Rightarrow>
      case find_group s gid of
        None \<Rightarrow> acc
      | Some g \<Rightarrow>
      if gr_execution_state g \<noteq> GES_kREPAIR_REQUIRED \<and> gr_execution_state g \<noteq> GES_kCANCELING_REMAINDER
         \<and> gr_execution_state g \<noteq> GES_kUNWINDING then acc
      else let s1 = continue_group_repair gid update_ts_ns s
      in case find_group s1 gid of
        None \<Rightarrow> (s1, progressed)
      | Some g1 \<Rightarrow>
          (s1, if gr_execution_state g1 \<noteq> gr_execution_state g \<or> gr_cancel_attempt_count g1 \<noteq> gr_cancel_attempt_count g
                  \<or> gr_repair_attempt_count g1 \<noteq> gr_repair_attempt_count g
               then Suc progressed else progressed))"

definition service_execution_incidents :: "oms \<Rightarrow> oms \<times> nat" where
  "service_execution_incidents s =
     (let (update_ts_ns, s1) = now_ns s;
          (s2, progressed) = fold (service_group update_ts_ns) (map fst (om_groups s1)) (s1, 0)
      in (maybe_report_execution_fault s2, progressed))"

section \<open>Following the orders of a group\<close>

record leg_summary =
  ls_all_filled :: bool
  ls_all_terminal :: bool
  ls_any_fill :: bool
  ls_any_uncertain :: bool
  ls_any_partial :: bool
  ls_any_terminal_failure :: bool
  ls_fills_fully_accounted :: bool

definition summarize_leg :: "oms \<Rightarrow> oms_request_id \<Rightarrow> leg_summary \<Rightarrow> leg_summary" where
  "summarize_leg s rid m =
     (case find_order s rid of
        None \<Rightarrow> m\<lparr>ls_any_uncertain := True, ls_all_filled := False, ls_all_terminal := False,
                  ls_fills_fully_accounted := False\<rparr>
      | Some leg \<Rightarrow>
          let st = ord_order_state leg in
          m\<lparr>ls_all_filled := (ls_all_filled m \<and> st = OS_kFILLED),
            ls_all_terminal := (ls_all_terminal m \<and> is_terminal st),
            ls_any_fill := (ls_any_fill m \<or> ord_cumulative_filled_qty_lots leg > 0),
            ls_any_uncertain := (ls_any_uncertain m \<or> st = OS_kUNCERTAIN),
            ls_any_partial := (ls_any_partial m \<or> st = OS_kPARTIALLY_FILLED),
            ls_any_terminal_failure := (ls_any_terminal_failure m \<or> (is_terminal st \<and> st \<noteq> OS_kFILLED)),
            ls_fills_fully_accounted := (ls_fills_fully_accounted m \<and> ord_reserved_capital_ticks leg = 0)\<rparr>)"

definition summarize_legs :: "oms \<Rightarrow> group_record \<Rightarrow> leg_summary" where
  "summarize_legs s g =
     fold (summarize_leg s) (leg_ids g)
       \<lparr>ls_all_filled = True, ls_all_terminal = True, ls_any_fill = False, ls_any_uncertain = False,
        ls_any_partial = False, ls_any_terminal_failure = False, ls_fills_fully_accounted = True\<rparr>"

text \<open>A group that ends without repair.\<close>

definition conclude_group :: "oms_group_id \<Rightarrow> group_execution_state \<Rightarrow> u64 \<Rightarrow> oms \<Rightarrow> oms" where
  "conclude_group gid st update_ts_ns s =
     emit_group_state_update gid update_ts_ns (release_stored_group gid
       (upd_group gid (\<lambda>g. g\<lparr>gr_execution_state := st, gr_failure_reason := GFR_kNONE,
          gr_residual_exposure_present := False, gr_last_update_ts_ns := update_ts_ns\<rparr>) s))"

definition update_group_after_order_state_change :: "oms_request_id \<Rightarrow> u64 \<Rightarrow> oms \<Rightarrow> oms" where
  "update_group_after_order_state_change rid update_ts_ns s =
     (case find_order s rid of
        None \<Rightarrow> s
      | Some r \<Rightarrow>
      let gid = ord_oms_group_id r in
      if gid = 0 then s
      else (case find_group s gid of
        None \<Rightarrow> s
      | Some g \<Rightarrow>
      if ord_repair_order r \<or> needs_repair (gr_execution_state g)
      then let s1 = (if ord_order_state r = OS_kUNCERTAIN then set_uncertain gid True s else s)
           in if gr_execution_state g \<noteq> GES_kREPAIR_FAILED then continue_group_repair gid update_ts_ns s1 else s1
      else if gr_capital_released g then s
      else let m = summarize_legs s g;
               s1 = upd_group gid (\<lambda>g. g\<lparr>gr_residual_exposure_present := group_has_residual_exposure g\<rparr>) s
      in if ls_any_uncertain m \<or> gr_venue_state_uncertain g \<or> (ls_all_filled m \<and> \<not> ls_fills_fully_accounted m)
      then begin_group_repair gid GFR_kVENUE_STATE_UNCERTAIN update_ts_ns s1
      else if ls_all_filled m then conclude_group gid GES_kCOMPLETED update_ts_ns s1
      else if ls_all_terminal m \<and> \<not> ls_any_fill m then conclude_group gid GES_kABORTED update_ts_ns s1
      else if ls_any_partial m \<or> ls_any_terminal_failure m \<or> (ls_all_terminal m \<and> ls_any_fill m)
      then begin_group_repair gid GFR_kLEG_PARTIALLY_FILLED update_ts_ns s1
      else emit_group_state_update gid update_ts_ns
             (upd_group gid (\<lambda>g. g\<lparr>gr_execution_state := (if ls_any_fill m then GES_kPARTIALLY_FILLED else GES_kWORKING),
                gr_last_update_ts_ns := update_ts_ns\<rparr>) s1)))"

end
