(* ===== verification/Oms_Handlers.thy ===== *)
theory Oms_Handlers
  imports Oms_Groups
begin

text \<open>
  The handlers of \<open>cpp/src/oms/oms.cpp\<close>: intents from the strategies, events from the exchange, commands
  from the control plane, and the pump that drains the queues.
\<close>

section \<open>Admission of groups\<close>

definition rejected_check :: "reject_reason \<Rightarrow> group_admission_check" where
  "rejected_check reason = \<lparr>gac_accepted = False, gac_reject_reason = reason, gac_required_capital_ticks = 0\<rparr>"

text \<open>The checks of one leg, in the order of the code: the reason for a rejection, or the capital required
  so far.\<close>

definition check_leg :: "oms \<Rightarrow> group_order_intent \<Rightarrow> nat \<Rightarrow> u64 \<Rightarrow> reject_reason + u64" where
  "check_leg s grp i required =
     (let leg = goi_new_orders grp ! i; c = noi_context leg; gc = goi_context grp
      in if ic_strategy_index c \<noteq> ic_strategy_index gc \<or> ic_event_id c \<noteq> ic_event_id gc
            \<or> ic_strategy_id c \<noteq> ic_strategy_id gc \<or> ic_signal_id c \<noteq> ic_signal_id gc
            \<or> ic_group_intent_id c \<noteq> ic_group_intent_id gc \<or> ic_universe_version c \<noteq> ic_universe_version gc
            \<or> ic_event_revision c \<noteq> ic_event_revision gc \<or> ic_source_shard_index c \<noteq> ic_source_shard_index gc
            \<or> ic_leg_index c \<noteq> of_nat i \<or> ic_leg_count c \<noteq> goi_leg_count grp
            \<or> ic_market_id c = 0 \<or> ic_strategy_intent_id c = 0
      then Inl RR_kINVALID_INTENT
      else if noi_price_ticks leg \<le> 0 \<or> noi_price_ticks leg \<ge> to_i64 kPRICE_TICKS_PER_DOLLAR
            \<or> noi_quantity_lots leg \<le> 0 \<or> noi_outcome leg = O_kUNKNOWN \<or> noi_action leg = OA_kUNKNOWN
            \<or> noi_liquidity_intent leg \<noteq> LI_kTAKER \<or> noi_order_type leg \<noteq> OT_kMARKETABLE_LIMIT
            \<or> noi_time_in_force leg \<noteq> TIF_kFOK
      then Inl RR_kINVALID_INTENT
      else if \<not> valid_timestamp_chain c then Inl RR_kINVALID_INTENT
      else case find_market_route s (ic_market_id c) of
        None \<Rightarrow> Inl RR_kUNKNOWN_MARKET
      | Some route \<Rightarrow>
      if \<not> omr_tradeable route then Inl RR_kMARKET_NOT_TRADEABLE
      else if omr_event_id route \<noteq> ic_event_id gc then Inl RR_kINVALID_INTENT
      else if list_ex (\<lambda>e. ic_market_id (noi_context e) = ic_market_id c
                 \<or> ic_strategy_intent_id (noi_context e) = ic_strategy_intent_id c) (take i (goi_new_orders grp))
      then Inl RR_kINVALID_INTENT
      else (case full_notional_reservation (noi_quantity_lots leg) of
        None \<Rightarrow> Inl RR_kRISK_REJECTED
      | Some leg_reservation \<Rightarrow>
          if required > u64_max - leg_reservation then Inl RR_kRISK_REJECTED
          else Inr (required + leg_reservation)))"

primrec check_legs :: "oms \<Rightarrow> group_order_intent \<Rightarrow> nat list \<Rightarrow> u64 \<Rightarrow> reject_reason + u64" where
  "check_legs s grp [] required = Inr required"
| "check_legs s grp (i # is) required =
     (case check_leg s grp i required of Inl reason \<Rightarrow> Inl reason | Inr required' \<Rightarrow> check_legs s grp is required')"

definition response_slots_free :: "oms \<Rightarrow> u16 \<Rightarrow> bool" where
  "response_slots_free s i =
     (case nth_opt (om_response_queues s) (unat i) of
        Some (Some q) \<Rightarrow> \<not> (bq_size q > bq_capacity q \<or> bq_capacity q - bq_size q < kGROUP_ADMISSION_RESPONSE_SLOTS)
      | _ \<Rightarrow> False)"

text \<open>The checks before the clock is read, the ones after it, and the whole. Reading the clock is the only
  effect; it happens only when the first group of checks has passed.\<close>

definition check_group_static :: "oms \<Rightarrow> group_order_intent \<Rightarrow> reject_reason option" where
  "check_group_static s grp =
     (let gc = goi_context grp; risk = om_risk s in
      if om_execution_incident_active s then Some RR_kEXECUTION_BLOCKED
      else if \<not> om_trading_enabled s then Some RR_kTRADING_DISABLED
      else case om_universe s of
        None \<Rightarrow> Some RR_kOMS_NOT_READY
      | Some universe \<Rightarrow>
      if oru_version universe = 0 then Some RR_kOMS_NOT_READY
      else if \<not> portfolio_ready_for_trading s then Some RR_kOMS_NOT_READY
      else if goi_admission_policy grp \<noteq> GAP_kALL_OR_NONE then Some RR_kINVALID_INTENT
      else if \<not> response_slots_free s (ic_strategy_index gc) then Some RR_kOMS_NOT_READY
      else if ic_group_intent_id gc = 0 \<or> ic_event_id gc = 0 \<or> ic_universe_version gc = 0
            \<or> ic_event_revision gc = 0 \<or> ic_leg_count gc \<noteq> goi_leg_count grp
      then Some RR_kINVALID_INTENT
      else if ic_universe_version gc \<noteq> oru_version universe then Some RR_kINVALID_INTENT
      else if goi_leg_count grp < 2 \<or> unat (goi_leg_count grp) > kMAX_ORDERS_PER_GROUP
            \<or> goi_leg_count grp > rk_maximum_group_legs risk
      then Some RR_kINVALID_INTENT
      else if rk_strategy_allocation_limit_ticks risk \<le> 0 \<or> rk_maximum_group_reservation_ticks risk = 0
            \<or> rk_maximum_group_intent_age_ns risk = 0
      then Some RR_kRISK_REJECTED
      else if \<not> valid_timestamp_chain gc then Some RR_kINVALID_INTENT
      else None)"

definition check_group_timed :: "oms \<Rightarrow> group_order_intent \<Rightarrow> u64 \<Rightarrow> group_admission_check" where
  "check_group_timed s grp current_time_ns =
     (let gc = goi_context grp; risk = om_risk s in
      if ic_intent_publish_timestamp_ns gc > current_time_ns
         \<or> current_time_ns - ic_intent_publish_timestamp_ns gc > rk_maximum_group_intent_age_ns risk
      then rejected_check RR_kINVALID_INTENT
      else if find_group_by_intent s (ic_strategy_index gc) (ic_group_intent_id gc) \<noteq> None
      then rejected_check RR_kDUPLICATE_INTENT
      else if goi_expected_gross_edge_ticks grp < goi_estimated_fee_ticks grp
            \<or> goi_expected_net_edge_ticks grp \<noteq> goi_expected_gross_edge_ticks grp - goi_estimated_fee_ticks grp
            \<or> goi_expected_net_edge_ticks grp = 0
      then rejected_check RR_kINVALID_INTENT
      else case check_legs s grp [0..<unat (goi_leg_count grp)] 0 of
        Inl reason \<Rightarrow> rejected_check reason
      | Inr required \<Rightarrow>
      if required = 0 \<or> required > rk_maximum_group_reservation_ticks risk \<or> required > to_u64 i64_max
      then rejected_check RR_kRISK_REJECTED
      else let available = (case um_find (om_portfolios s) (ic_strategy_index gc) of
                              None \<Rightarrow> rk_strategy_allocation_limit_ticks risk
                            | Some p \<Rightarrow> sp_available_capital_ticks p)
      in if available < 0 \<or> required > to_u64 available then rejected_check RR_kRISK_REJECTED
      else \<lparr>gac_accepted = True, gac_reject_reason = RR_kNONE, gac_required_capital_ticks = required\<rparr>)"

definition check_group_admission :: "group_order_intent \<Rightarrow> oms \<Rightarrow> group_admission_check \<times> oms" where
  "check_group_admission grp s =
     (case check_group_static s grp of
        Some reason \<Rightarrow> (rejected_check reason, s)
      | None \<Rightarrow> let (t, s1) = now_ns s in (check_group_timed s grp t, s1))"

section \<open>Intents\<close>

definition respond ::
  "oms_context \<Rightarrow> u64 \<Rightarrow> oms_response_type \<Rightarrow> reject_reason \<Rightarrow> oms \<Rightarrow> u64 \<times> oms" where
  "respond context recv_ts type reason s =
     (let (t, s1) = now_ns s;
          response = \<lparr>or_context = context, or_response_type = type, or_reject_reason = reason,
            or_recv_ts_ns = recv_ts, or_response_ts_ns = t\<rparr>
      in (t, fst (send_strategy_message (ic_strategy_index (oc_context context)) (MsgOmsResponse response) s1)))"

abbreviation count_rejected :: "oms \<Rightarrow> oms" where
  "count_rejected \<equiv> count (\<lambda>t. t\<lparr>ots_strategy_intents_rejected := ots_strategy_intents_rejected t + 1\<rparr>)"

abbreviation count_processed :: "oms \<Rightarrow> oms" where
  "count_processed \<equiv> count (\<lambda>t. t\<lparr>ots_strategy_intents_processed := ots_strategy_intents_processed t + 1\<rparr>)"

definition reject_intent :: "oms_context \<Rightarrow> u64 \<Rightarrow> reject_reason \<Rightarrow> oms \<Rightarrow> oms" where
  "reject_intent context recv_ts reason s = snd (respond context recv_ts ORT_kREJECTED reason (count_rejected s))"

definition handle_new_order :: "new_order_intent \<Rightarrow> oms \<Rightarrow> oms" where
  "handle_new_order intent s =
     (let (recv_ts, s1) = now_ns s;
          (rid, s2) = take_request_id s1;
          context = make_context rid (noi_context intent);
          i = ic_strategy_index (noi_context intent);
          reject = reject_intent context recv_ts
      in if om_execution_incident_active s2 then reject RR_kEXECUTION_BLOCKED s2
      else if \<not> om_trading_enabled s2 then reject RR_kTRADING_DISABLED s2
      else if \<not> portfolio_ready_for_trading s2 then reject RR_kOMS_NOT_READY s2
      else if noi_quantity_lots intent \<le> 0 \<or> noi_price_ticks intent \<le> 0 \<or> noi_outcome intent = O_kUNKNOWN
            \<or> noi_action intent = OA_kUNKNOWN
      then reject RR_kINVALID_INTENT s2
      else case find_market_route s2 (ic_market_id (noi_context intent)) of
        None \<Rightarrow> reject RR_kUNKNOWN_MARKET
                  (count (\<lambda>t. t\<lparr>ots_unknown_market_rejects := ots_unknown_market_rejects t + 1\<rparr>) s2)
      | Some route \<Rightarrow>
      if \<not> omr_tradeable route
      then reject RR_kMARKET_NOT_TRADEABLE
             (count (\<lambda>t. t\<lparr>ots_non_tradeable_market_rejects := ots_non_tradeable_market_rejects t + 1\<rparr>) s2)
      else let cid = make_client_order_id rid
      in if cid = [] then reject RR_kOMS_NOT_READY s2
      else (case full_notional_reservation (noi_quantity_lots intent) of
        None \<Rightarrow> reject RR_kRISK_REJECTED s2
      | Some required_capital \<Rightarrow>
      if required_capital > to_u64 i64_max then reject RR_kRISK_REJECTED s2
      else let s3 = ensure_strategy_portfolio i s2;
               reservation = to_i64 required_capital
      in (case um_find (om_portfolios s3) i of
        None \<Rightarrow> s3
      | Some p \<Rightarrow>
      if sp_available_capital_ticks p < reservation then reject RR_kRISK_REJECTED s3
      else let s4 = recompute_all_strategy_available_capital
                 (upd_portfolio i (\<lambda>p. p\<lparr>sp_reserved_order_capital_ticks := sp_reserved_order_capital_ticks p + reservation\<rparr>) s3);
               (submission_ts, s5) = now_ns s4;
               (s6, ok) = send_kalshi_command (CmdSubmitOrder \<lparr>soc_oms_request_id = rid, soc_client_order_id = cid,
                  soc_new_order_intent = intent, soc_submission_ts_ns = submission_ts, soc_reduce_only = False\<rparr>) s5
      in if \<not> ok
      then reject RR_kOMS_NOT_READY (recompute_all_strategy_available_capital
             (upd_portfolio i (\<lambda>p. p\<lparr>sp_reserved_order_capital_ticks := sp_reserved_order_capital_ticks p - reservation\<rparr>) s6))
      else let rec = (make_order_record context cid intent (ic_market_id (noi_context intent)))
                       \<lparr>ord_reserved_capital_ticks := reservation\<rparr>;
               s7 = s6\<lparr>om_orders := fst (um_emplace rid rec (om_orders s6)),
                       om_order_by_client := fst (um_emplace cid rid (om_order_by_client s6))\<rparr>;
               s8 = count_processed (upd_portfolio i (\<lambda>p. p\<lparr>sp_open_order_count := sp_open_order_count p + 1\<rparr>) s7);
               (t, s9) = respond context recv_ts ORT_kACCEPTED RR_kNONE s8
           in emit_strategy_portfolio_update i t s9)))"

definition handle_cancel_order :: "cancel_order_intent \<Rightarrow> oms \<Rightarrow> oms" where
  "handle_cancel_order intent s =
     (let (recv_ts, s1) = now_ns s;
          (rid, s2) = take_request_id s1;
          context = make_context rid (coi_context intent);
          reject = reject_intent context recv_ts
      in case find_order s2 (coi_target_oms_request_id intent) of
        None \<Rightarrow> reject RR_kUNKNOWN_TARGET_ORDER s2
      | Some _ \<Rightarrow>
          let (t, s3) = now_ns s2;
              (s4, ok) = emit_cancel_command_for_record (coi_target_oms_request_id intent) (coi_context intent) rid t s3
          in if \<not> ok then reject RR_kOMS_NOT_READY s4
             else snd (respond context recv_ts ORT_kACCEPTED RR_kNONE (count_processed s4)))"

definition handle_modify_order :: "modify_order_intent \<Rightarrow> oms \<Rightarrow> oms" where
  "handle_modify_order intent s =
     (let (recv_ts, s1) = now_ns s;
          (rid, s2) = take_request_id s1;
          context = make_context rid (moi_context intent);
          target_id = moi_target_oms_request_id intent;
          reject = reject_intent context recv_ts
      in if om_execution_incident_active s2 then reject RR_kEXECUTION_BLOCKED s2
      else case find_order s2 target_id of
        None \<Rightarrow> reject RR_kUNKNOWN_TARGET_ORDER s2
      | Some target \<Rightarrow>
          let (t, s3) = now_ns s2;
              (s4, ok) = send_kalshi_command (CmdModifyOrder \<lparr>moc_oms_request_id = rid,
                 moc_client_order_id = ord_client_order_id target, moc_exchange_order_id = ord_exchange_order_id target,
                 moc_modify_order_intent = intent, moc_submission_ts_ns = t\<rparr>) s3
          in if \<not> ok then reject RR_kOMS_NOT_READY s4
             else let s5 = upd_order target_id (\<lambda>r. r\<lparr>ord_previous_order_state := ord_order_state r,
                             ord_order_state := OS_kPENDING_MODIFY, ord_pending_command_oms_request_id := rid,
                             ord_pending_command_kind := RCK_kMODIFY_ORDER\<rparr>) s4;
                      (t', s6) = now_ns s5;
                      s7 = count_processed (emit_order_state_update target_id VES_kOMS_INTERNAL t' s6)
                  in snd (respond context recv_ts ORT_kACCEPTED RR_kNONE s7))"

text \<open>The loop that gives every leg a request id and builds its command and its record. \<open>None\<close>: no client
  order id could be made.\<close>

primrec build_legs ::
  "group_order_intent \<Rightarrow> oms_group_id \<Rightarrow> u64 \<Rightarrow> nat list \<Rightarrow> oms \<Rightarrow> oms \<times> (submit_order_cmd \<times> order_record) list option" where
  "build_legs intent gid ts [] s = (s, Some [])"
| "build_legs intent gid ts (i # is) s =
     (let leg = goi_new_orders intent ! i;
          (rid, s1) = take_request_id s;
          cid = make_client_order_id rid
      in if cid = [] then (s1, None)
      else let command = \<lparr>soc_oms_request_id = rid, soc_client_order_id = cid, soc_new_order_intent = leg,
                 soc_submission_ts_ns = ts, soc_reduce_only = False\<rparr>;
               reserved = (case full_notional_reservation (noi_quantity_lots leg) of None \<Rightarrow> 0 | Some v \<Rightarrow> v);
               rec = (make_order_record (make_context rid (noi_context leg)) cid leg (ic_market_id (noi_context leg)))
                 \<lparr>ord_pending_command_oms_request_id := rid, ord_pending_command_kind := RCK_kSUBMIT_ORDER,
                  ord_oms_group_id := gid, ord_group_leg_index := of_nat i, ord_repair_order := False,
                  ord_reserved_capital_ticks := to_i64 reserved\<rparr>;
               (s2, rest) = build_legs intent gid ts is s1
           in (s2, map_option ((#) (command, rec)) rest))"

definition insert_leg :: "submit_order_cmd \<times> order_record \<Rightarrow> oms \<Rightarrow> oms" where
  "insert_leg leg s =
     (let rid = soc_oms_request_id (fst leg)
      in s\<lparr>om_orders := fst (um_emplace rid (snd leg) (om_orders s)),
           om_order_by_client := fst (um_emplace (ord_client_order_id (snd leg)) rid (om_order_by_client s))\<rparr>)"

definition erase_leg :: "submit_order_cmd \<times> order_record \<Rightarrow> oms \<Rightarrow> oms" where
  "erase_leg leg s =
     (let rid = soc_oms_request_id (fst leg)
      in s\<lparr>om_order_by_client := um_erase (ord_client_order_id (snd leg)) (om_order_by_client s),
           om_orders := um_erase rid (om_orders s)\<rparr>)"

definition reject_group :: "group_order_intent \<Rightarrow> u64 \<Rightarrow> reject_reason \<Rightarrow> oms \<Rightarrow> oms" where
  "reject_group intent recv_ts_ns reason s =
     (let (t, s1) = now_ns (count_rejected s);
          rejected = (empty_group (goi_context intent))\<lparr>gr_execution_state := GES_kREJECTED,
            gr_leg_count := goi_leg_count intent, gr_last_update_ts_ns := t\<rparr>
      in emit_group_admission_response rejected GAS_kREJECTED reason recv_ts_ns s1)"

text \<open>Undoing the insertion of a group whose batch could not be sent.\<close>

definition withdraw_group ::
  "group_order_intent \<Rightarrow> oms_group_id \<Rightarrow> (submit_order_cmd \<times> order_record) list \<Rightarrow> oms \<Rightarrow> oms" where
  "withdraw_group intent gid legs s =
     (let i = ic_strategy_index (goi_context intent);
          s1 = fold erase_leg legs s;
          s2 = (case um_find (om_group_by_intent s1) i of
                  None \<Rightarrow> s1
                | Some groups \<Rightarrow>
                    let groups' = um_erase (ic_group_intent_id (goi_context intent)) groups
                    in if groups' = [] then s1\<lparr>om_group_by_intent := um_erase i (om_group_by_intent s1)\<rparr>
                       else s1\<lparr>om_group_by_intent := um_assign i groups' (om_group_by_intent s1)\<rparr>);
          s3 = release_stored_group gid s2
      in s3\<lparr>om_groups := um_erase gid (om_groups s3)\<rparr>)"

definition register_group ::
  "group_order_intent \<Rightarrow> oms_group_id \<Rightarrow> (submit_order_cmd \<times> order_record) list \<Rightarrow> oms \<Rightarrow> oms" where
  "register_group intent gid legs s =
     (let i = ic_strategy_index (goi_context intent);
          groups = (case um_find (om_group_by_intent s) i of None \<Rightarrow> [] | Some gs \<Rightarrow> gs);
          s1 = s\<lparr>om_group_by_intent :=
                 um_assign i (fst (um_emplace (ic_group_intent_id (goi_context intent)) gid groups)) (om_group_by_intent s)\<rparr>
      in fold insert_leg legs s1)"

text \<open>The group as it is recorded: the array of leg ids is filled up with zeros.\<close>

definition admitted_group ::
  "group_order_intent \<Rightarrow> oms_group_id \<Rightarrow> oms_request_id \<Rightarrow> u64 \<Rightarrow> u64 \<Rightarrow> (submit_order_cmd \<times> order_record) list \<Rightarrow> group_record" where
  "admitted_group intent gid batch_id submission_ts_ns required_capital_ticks legs =
     (let ids = map (\<lambda>(command, _). soc_oms_request_id command) legs
      in (empty_group (goi_context intent))\<lparr>gr_oms_group_id := gid, gr_batch_oms_request_id := batch_id,
            gr_execution_state := GES_kADMITTED, gr_leg_count := goi_leg_count intent,
            gr_original_leg_request_ids := ids @ replicate (kMAX_ORDERS_PER_GROUP - length ids) 0,
            gr_reserved_capital_ticks := required_capital_ticks,
            gr_admitted_ts_ns := submission_ts_ns, gr_last_update_ts_ns := submission_ts_ns\<rparr>)"

text \<open>From the reservation to the answer, once all legs are built.\<close>

definition admit_group ::
  "group_order_intent \<Rightarrow> u64 \<Rightarrow> group_record \<Rightarrow> u64 \<Rightarrow> (submit_order_cmd \<times> order_record) list \<Rightarrow> oms \<Rightarrow> oms" where
  "admit_group intent recv_ts_ns grp submission_ts_ns legs s5 =
     (let i = ic_strategy_index (goi_context intent);
          gid = gr_oms_group_id grp;
          reject = reject_group intent recv_ts_ns;
          (grp1, s6, reserved) = reserve_group_capital grp s5
      in if \<not> reserved then reject RR_kRISK_REJECTED s6
      else let (groups, inserted) = um_emplace gid grp1 (om_groups s6)
      in if \<not> inserted then reject RR_kDUPLICATE_INTENT (snd (release_group_capital grp1 s6))
      else let s7 = register_group intent gid legs (s6\<lparr>om_groups := groups\<rparr>);
               (s8, ok) = send_kalshi_command (CmdSubmitOrderBatch \<lparr>sob_oms_request_id = gr_batch_oms_request_id grp,
                  sob_oms_group_id = gid, sob_group_context = goi_context intent, sob_orders = map fst legs,
                  sob_order_count = goi_leg_count intent, sob_submission_ts_ns = submission_ts_ns\<rparr>) s7
      in if \<not> ok then reject RR_kOMS_NOT_READY (withdraw_group intent gid legs s8)
      else let s9 = count_processed (upd_group gid (\<lambda>g. g\<lparr>gr_execution_state := GES_kPENDING_VENUE,
                      gr_last_update_ts_ns := submission_ts_ns\<rparr>) s8);
               s10 = upd_portfolio i (\<lambda>p. p\<lparr>sp_open_order_count := sp_open_order_count p + ucast (goi_leg_count intent)\<rparr>)
                       (ensure_strategy_portfolio i s9);
               s11 = (case find_group s10 gid of None \<Rightarrow> s10
                      | Some g \<Rightarrow> emit_group_admission_response g GAS_kACCEPTED RR_kNONE recv_ts_ns s10)
           in emit_strategy_portfolio_update i submission_ts_ns (emit_group_state_update gid submission_ts_ns s11))"

definition handle_group_order :: "group_order_intent \<Rightarrow> oms \<Rightarrow> oms" where
  "handle_group_order intent s =
     (let (recv_ts_ns, s1) = now_ns s;
          (admission, s2) = check_group_admission intent s1;
          reject = reject_group intent recv_ts_ns
      in if \<not> gac_accepted admission then reject (gac_reject_reason admission) s2
      else let gid = om_next_oms_group_id s2;
               (batch_id, s3) = take_request_id (s2\<lparr>om_next_oms_group_id := gid + 1\<rparr>);
               (submission_ts_ns, s4) = now_ns s3;
               (s5, built) = build_legs intent gid submission_ts_ns [0..<unat (goi_leg_count intent)] s4
      in case built of
        None \<Rightarrow> reject RR_kOMS_NOT_READY s5
      | Some legs \<Rightarrow>
          admit_group intent recv_ts_ns
            (admitted_group intent gid batch_id submission_ts_ns (gac_required_capital_ticks admission) legs)
            submission_ts_ns legs s5)"

fun handle_strategy_intent :: "strategy_intent \<Rightarrow> oms \<Rightarrow> oms" where
  "handle_strategy_intent (IntentNewOrder i) s = handle_new_order i s"
| "handle_strategy_intent (IntentCancelOrder i) s = handle_cancel_order i s"
| "handle_strategy_intent (IntentModifyOrder i) s = handle_modify_order i s"
| "handle_strategy_intent (IntentGroupOrder i) s = handle_group_order i s"

section \<open>Events from the exchange\<close>

definition clear_pending_command :: "order_record \<Rightarrow> order_record" where
  "clear_pending_command r = r\<lparr>ord_pending_command_oms_request_id := 0, ord_pending_command_kind := RCK_kUNKNOWN,
     ord_previous_order_state := OS_kUNKNOWN\<rparr>"

definition restore_previous_state :: "order_record \<Rightarrow> order_record" where
  "restore_previous_state r =
     clear_pending_command (if ord_previous_order_state r \<noteq> OS_kUNKNOWN
                            then r\<lparr>ord_order_state := ord_previous_order_state r\<rparr> else r)"

definition note_exchange_id :: "exchange_order_id \<Rightarrow> oms_request_id \<Rightarrow> oms \<Rightarrow> oms" where
  "note_exchange_id xid rid s =
     (if xid = [] then s
      else (case find_order s rid of
              None \<Rightarrow> s
            | Some r \<Rightarrow>
                (upd_order rid (\<lambda>r. r\<lparr>ord_exchange_order_id := Some xid\<rparr>) s)
                  \<lparr>om_order_by_exchange := um_assign xid (oc_oms_request_id (ord_context r)) (om_order_by_exchange s)\<rparr>))"

text \<open>The order after a REST reply, by result code and by the command it answers.\<close>

definition rest_refused :: "rest_command_kind \<Rightarrow> order_record \<Rightarrow> order_record" where
  "rest_refused kind r =
     (if kind = RCK_kSUBMIT_ORDER
      then clear_pending_command (r\<lparr>ord_order_state := OS_kREJECTED, ord_leaves_qty_lots := 0\<rparr>)
      else if kind = RCK_kCANCEL_ORDER \<or> kind = RCK_kMODIFY_ORDER then restore_previous_state r
      else r)"

fun rest_transition :: "rest_result_code \<Rightarrow> rest_command_kind \<Rightarrow> order_record \<Rightarrow> order_record" where
  "rest_transition RRC_kACKED kind r =
     clear_pending_command
       (case kind of
          RCK_kSUBMIT_ORDER \<Rightarrow> r\<lparr>ord_order_state := OS_kWORKING\<rparr>
        | RCK_kCANCEL_ORDER \<Rightarrow> r\<lparr>ord_order_state := OS_kPENDING_CANCEL\<rparr>
        | RCK_kMODIFY_ORDER \<Rightarrow> r\<lparr>ord_order_state := OS_kPENDING_MODIFY\<rparr>
        | _ \<Rightarrow> r)"
| "rest_transition RRC_kREJECTED kind r = rest_refused kind r"
| "rest_transition RRC_kNOT_SENT kind r = rest_refused kind r"
| "rest_transition RRC_kTIMEOUT kind r =
     r\<lparr>ord_previous_order_state := ord_order_state r, ord_order_state := OS_kUNCERTAIN\<rparr>"
| "rest_transition RRC_kTRANSPORT_ERROR kind r =
     r\<lparr>ord_previous_order_state := ord_order_state r, ord_order_state := OS_kUNCERTAIN\<rparr>"
| "rest_transition RRC_kUNKNOWN kind r = r"

definition handle_rest_order_response :: "rest_order_response \<Rightarrow> oms \<Rightarrow> oms" where
  "handle_rest_order_response response s =
     (let s1 = count (\<lambda>t. t\<lparr>ots_rest_responses_seen := ots_rest_responses_seen t + 1\<rparr>) s
      in case find_order_for_rest_response s1 response of
        None \<Rightarrow> s1
      | Some rid \<Rightarrow>
          let s2 = note_exchange_id (ror_exchange_order_id response) rid s1;
              s3 = upd_order rid (rest_transition (ror_result_code response) (ror_command_kind response)) s2;
              ts = ror_transport_recv_ts_ns response;
              s4 = emit_order_state_update rid VES_kREST_RESPONSE ts s3;
              s5 = account_terminal_order rid ts s4
          in if \<not> om_defer_group_state_updates s5 then update_group_after_order_state_change rid ts s5 else s5)"

definition stamp_leg_response :: "rest_order_batch_response \<Rightarrow> rest_order_response \<Rightarrow> rest_order_response" where
  "stamp_leg_response response leg =
     (if ror_result_code leg = RRC_kUNKNOWN
      then leg\<lparr>ror_result_code := (if rob_result_code response = RRC_kUNKNOWN then RRC_kTRANSPORT_ERROR
                                   else rob_result_code response),
               ror_venue_reject_reason := rob_venue_reject_reason response,
               ror_raw_reason_message := (if ror_raw_reason_message leg = [] then rob_raw_reason_message response
                                          else ror_raw_reason_message leg)\<rparr>
      else leg)"

definition handle_leg_response :: "rest_order_batch_response \<Rightarrow> nat \<Rightarrow> oms \<times> bool \<Rightarrow> oms \<times> bool" where
  "handle_leg_response response i acc =
     (case acc of (s, missing) \<Rightarrow>
      let leg = stamp_leg_response response (rob_order_responses response ! i)
      in if oc_oms_request_id (ror_context leg) = 0 then (s, True)
         else (handle_rest_order_response leg s, missing))"

definition handle_rest_order_batch_response :: "rest_order_batch_response \<Rightarrow> oms \<Rightarrow> oms" where
  "handle_rest_order_batch_response response s =
     (let requested = unat (rob_requested_order_count response);
          safe_order_count = min requested kMAX_ORDERS_PER_GROUP;
          previous_defer = om_defer_group_state_updates s;
          (s1, missing) = fold (handle_leg_response response) [0..<safe_order_count]
             (s\<lparr>om_defer_group_state_updates := True\<rparr>, safe_order_count \<noteq> requested);
          s2 = s1\<lparr>om_defer_group_state_updates := previous_defer\<rparr>;
          gid = rob_oms_group_id response;
          ts = rob_transport_recv_ts_ns response
      in if previous_defer then s2
      else case find_group s2 gid of
        None \<Rightarrow> s2
      | Some g \<Rightarrow>
      if gr_leg_count g = 0 then s2
      else let first = gr_original_leg_request_ids g ! 0
      in if missing \<or> find_order s2 first = None
         then begin_group_repair gid GFR_kVENUE_STATE_UNCERTAIN ts (set_uncertain gid True s2)
         else update_group_after_order_state_change first ts s2)"

definition handle_market_position_event :: "private_ws_order_event \<Rightarrow> oms \<Rightarrow> oms" where
  "handle_market_position_event event s =
     (let position = \<lparr>vmp_market_ticker = [], vmp_market_id = pwe_market_id event,
            vmp_event_id = (case find_market_route s (pwe_market_id event) of None \<Rightarrow> 0 | Some r \<Rightarrow> omr_event_id r),
            vmp_net_position_lots = pwe_net_position_lots event, vmp_position_cost_ticks = pwe_position_cost_ticks event,
            vmp_market_exposure_ticks = 0, vmp_realized_pnl_ticks = pwe_realized_pnl_ticks event,
            vmp_fees_paid_ticks = pwe_fees_paid_ticks event,
            vmp_position_fee_cost_ticks = pwe_position_fee_cost_ticks event, vmp_volume_lots = pwe_volume_lots event,
            vmp_position_cost_present = True, vmp_market_exposure_present = False,
            vmp_realized_pnl_present = True, vmp_fees_paid_present = True\<rparr>;
          s1 = apply_venue_market_position position (pwe_recv_ts_ns event) s;
          s2 = count (\<lambda>t. t\<lparr>ots_venue_position_updates_seen := ots_venue_position_updates_seen t + 1\<rparr>) s1
      in emit_telemetry (s2\<lparr>om_portfolio_reconciliation_needed := rk_require_portfolio_reconciliation (om_risk s2)\<rparr>))"

definition user_order_transition :: "private_ws_order_event \<Rightarrow> order_record \<Rightarrow> order_record" where
  "user_order_transition event r =
     clear_pending_command (r\<lparr>ord_order_state := pwe_order_state event, ord_outcome := pwe_outcome event,
       ord_market_id := pwe_market_id event, ord_ordered_qty_lots := pwe_ordered_qty_lots event,
       ord_cumulative_filled_qty_lots := pwe_cumulative_filled_qty_lots event,
       ord_leaves_qty_lots := pwe_leaves_qty_lots event\<rparr>)"

definition fill_transition :: "private_ws_order_event \<Rightarrow> order_record \<Rightarrow> order_record" where
  "fill_transition event r =
     (let r1 = r\<lparr>ord_outcome := (if pwe_outcome event \<noteq> O_kUNKNOWN then pwe_outcome event else ord_outcome r),
                 ord_market_id := (if pwe_market_id event \<noteq> 0 then pwe_market_id event else ord_market_id r),
                 ord_cumulative_filled_qty_lots := ord_cumulative_filled_qty_lots r + pwe_last_fill_qty_lots event,
                 ord_leaves_qty_lots :=
                   (if ord_leaves_qty_lots r \<ge> pwe_last_fill_qty_lots event
                    then ord_leaves_qty_lots r - pwe_last_fill_qty_lots event else ord_leaves_qty_lots r)\<rparr>
      in if ord_leaves_qty_lots r1 = 0 \<and> ord_ordered_qty_lots r1 > 0
         then clear_pending_command (r1\<lparr>ord_order_state := OS_kFILLED\<rparr>)
         else if ord_cumulative_filled_qty_lots r1 > 0 then r1\<lparr>ord_order_state := OS_kPARTIALLY_FILLED\<rparr> else r1)"

definition after_ws_update :: "oms_request_id \<Rightarrow> u64 \<Rightarrow> oms \<Rightarrow> oms" where
  "after_ws_update rid ts s =
     update_group_after_order_state_change rid ts
       (account_terminal_order rid ts (emit_order_state_update rid VES_kWEBSOCKET_FEED ts s))"

definition handle_private_ws_order_event :: "private_ws_order_event \<Rightarrow> oms \<Rightarrow> oms" where
  "handle_private_ws_order_event event s =
     (let s1 = count (\<lambda>t. t\<lparr>ots_private_ws_events_seen := ots_private_ws_events_seen t + 1\<rparr>) s
      in if pwe_event_kind event = PWK_kMARKET_POSITION then handle_market_position_event event s1
      else let found = (case find_order_by_client s1 (pwe_client_order_id event) of
                          Some rid \<Rightarrow> Some rid
                        | None \<Rightarrow> find_order_by_exchange s1 (pwe_exchange_order_id event))
      in case found of
        None \<Rightarrow> s1
      | Some rid \<Rightarrow>
          let s2 = note_exchange_id (pwe_exchange_order_id event) rid s1;
              ts = pwe_recv_ts_ns event
          in (case pwe_event_kind event of
                PWK_kUSER_ORDER \<Rightarrow> after_ws_update rid ts (upd_order rid (user_order_transition event) s2)
              | PWK_kFILL \<Rightarrow>
                  if pwe_trade_id event = [] then s2
                  else if List.member (om_accounted_trades s2) (pwe_trade_id event)
                  then count (\<lambda>t. t\<lparr>ots_duplicate_fills_ignored := ots_duplicate_fills_ignored t + 1\<rparr>) s2
                  else let s3 = s2\<lparr>om_accounted_trades := pwe_trade_id event # om_accounted_trades s2\<rparr>;
                           s4 = account_fill rid event (upd_order rid (fill_transition event) s3)
                       in after_ws_update rid ts s4
              | _ \<Rightarrow> s2))"

text \<open>One round of the loop over the reconciled venue positions.\<close>

definition reconciled_position ::
  "venue_market_position_snapshot \<Rightarrow> strategy_market_position_record option \<Rightarrow> strategy_market_position_record" where
  "reconciled_position v previous =
     (let cost = (if vmp_position_cost_present v then vmp_position_cost_ticks v
                  else case previous of None \<Rightarrow> 0 | Some p \<Rightarrow> mp_position_cost_ticks p);
          previous_realized = (case previous of None \<Rightarrow> 0 | Some p \<Rightarrow> mp_realized_pnl_ticks p);
          previous_fees = (case previous of None \<Rightarrow> 0 | Some p \<Rightarrow> mp_fees_paid_ticks p);
          average = (if vmp_position_cost_present v then average_entry (absolute_lots (vmp_net_position_lots v)) cost
                     else case previous of None \<Rightarrow> 0 | Some p \<Rightarrow> mp_average_entry_price_ticks p)
      in (empty_position 0 (vmp_market_id v) (vmp_event_id v))\<lparr>
           mp_net_position_lots := vmp_net_position_lots v, mp_average_entry_price_ticks := average,
           mp_position_cost_ticks := cost,
           mp_market_exposure_ticks := (if vmp_market_exposure_present v then vmp_market_exposure_ticks v
                                        else fallback_exposure (vmp_net_position_lots v)),
           mp_realized_pnl_ticks := (if vmp_realized_pnl_present v then vmp_realized_pnl_ticks v else previous_realized),
           mp_fees_paid_ticks := (if vmp_fees_paid_present v then vmp_fees_paid_ticks v else previous_fees)\<rparr>)"

definition reconcile_market ::
  "(market_id, strategy_market_position_record) umap \<Rightarrow> u64 \<Rightarrow> market_id \<times> venue_market_position_snapshot \<Rightarrow> oms \<Rightarrow> oms" where
  "reconcile_market previous_positions ts entry s =
     (let (mid, v) = entry;
          previous = um_find previous_positions mid;
          position = (reconciled_position v previous)\<lparr>mp_market_id := mid\<rparr>;
          previous_realized = (case previous of None \<Rightarrow> 0 | Some p \<Rightarrow> mp_realized_pnl_ticks p);
          previous_fees = (case previous of None \<Rightarrow> 0 | Some p \<Rightarrow> mp_fees_paid_ticks p);
          s1 = s\<lparr>om_positions := um_adjust 0 (um_assign mid position) (om_positions s)\<rparr>;
          s2 = upd_portfolio 0 (\<lambda>q. q\<lparr>
             sp_inventory_exposure_ticks := sp_inventory_exposure_ticks q + mp_market_exposure_ticks position,
             sp_realized_pnl_ticks := sp_realized_pnl_ticks q + (mp_realized_pnl_ticks position - previous_realized),
             sp_fees_paid_ticks := sp_fees_paid_ticks q + (mp_fees_paid_ticks position - previous_fees)\<rparr>) s1
      in emit_strategy_market_position_update 0 mid ts s2)"

definition keep_closed_market :: "u64 \<Rightarrow> market_id \<times> strategy_market_position_record \<Rightarrow> oms \<Rightarrow> oms" where
  "keep_closed_market ts entry s =
     (let (mid, previous) = entry in
      if find_position s 0 mid \<noteq> None then s
      else let closed = (empty_position 0 mid (mp_event_id previous))\<lparr>
                 mp_realized_pnl_ticks := mp_realized_pnl_ticks previous, mp_fees_paid_ticks := mp_fees_paid_ticks previous\<rparr>
           in emit_strategy_market_position_update 0 mid ts
                (s\<lparr>om_positions := um_adjust 0 (\<lambda>ps. fst (um_emplace mid closed ps)) (om_positions s)\<rparr>))"

text \<open>The single-strategy policy: all reconciled inventory belongs to strategy 0.\<close>

definition reconcile_single_strategy :: "u64 \<Rightarrow> oms \<Rightarrow> oms" where
  "reconcile_single_strategy ts s =
     (let previous_positions = (case um_find (om_positions s) 0 of None \<Rightarrow> [] | Some ps \<Rightarrow> ps);
          s1 = ensure_strategy_portfolio 0 (s\<lparr>om_positions := um_assign 0 [] (om_positions s)\<rparr>);
          s2 = upd_portfolio 0 (\<lambda>p. p\<lparr>sp_inventory_exposure_ticks := 0\<rparr>) s1;
          s3 = fold (reconcile_market previous_positions ts) (om_venue_positions s2) s2
      in fold (keep_closed_market ts) previous_positions s3)"

definition maybe_report_ready :: "oms \<Rightarrow> oms" where
  "maybe_report_ready s =
     (if om_ready_reported s \<or> om_universe s = None \<or> map_option oru_version (om_universe s) = Some 0
         \<or> \<not> portfolio_ready_for_trading s then s
      else let (s1, ok) = send_control_status StOmsReady s in if ok then s1\<lparr>om_ready_reported := True\<rparr> else s1)"

definition portfolio_reconciliation_failed :: "oms \<Rightarrow> oms" where
  "portfolio_reconciliation_failed s =
     (let s1 = count (\<lambda>t. t\<lparr>ots_portfolio_reconciled := False,
                 ots_portfolio_reconciliations_failed := ots_portfolio_reconciliations_failed t + 1\<rparr>)
                 (s\<lparr>om_venue_portfolio := (om_venue_portfolio s)\<lparr>vp_reconciled := False\<rparr>,
                    om_portfolio_reconciliation_needed := True\<rparr>);
          (t, s2) = now_ns s1;
          s3 = s2\<lparr>om_next_reconciliation_due_ts_ns := t + kPORTFOLIO_RECONCILIATION_RETRY_NS\<rparr>;
          s4 = (if om_trading_enabled s3 then emit_trading_enabled_changed (s3\<lparr>om_trading_enabled := False\<rparr>) else s3)
      in emit_telemetry (recompute_all_strategy_available_capital s4))"

definition portfolio_reconciliation_complete :: "venue_portfolio_snapshot \<Rightarrow> oms \<Rightarrow> oms" where
  "portfolio_reconciliation_complete snapshot s =
     (let ts = vps_received_ts_ns snapshot;
          positions = fold (\<lambda>v m. if vmp_market_id v \<noteq> 0 then um_assign (vmp_market_id v) v m else m)
                        (vps_market_positions snapshot) [];
          s1 = s\<lparr>om_venue_portfolio := \<lparr>vp_available_balance_ticks = vps_available_balance_ticks snapshot,
                   vp_portfolio_value_ticks = vps_portfolio_value_ticks snapshot,
                   vp_reconciliation_id = vps_reconciliation_id snapshot, vp_received_ts_ns = ts,
                   vp_reconciled = True\<rparr>,
                 om_venue_positions := positions\<rparr>;
          s2 = (if length (om_response_queues s1) = 1 then reconcile_single_strategy ts s1 else s1);
          s3 = count (\<lambda>t. t\<lparr>ots_portfolio_reconciled := True,
                 ots_venue_available_balance_ticks := vp_available_balance_ticks (om_venue_portfolio s2),
                 ots_portfolio_reconciliations_completed := ots_portfolio_reconciliations_completed t + 1\<rparr>) s2;
          interval = rk_portfolio_reconciliation_interval_ns (om_risk s3);
          s4 = (if interval = 0 then s3\<lparr>om_next_reconciliation_due_ts_ns := 0\<rparr>
                else let (t, s') = now_ns s3 in s'\<lparr>om_next_reconciliation_due_ts_ns := t + interval\<rparr>);
          s5 = recompute_all_strategy_available_capital s4;
          s6 = fold (\<lambda>i. emit_strategy_portfolio_update i ts) (map fst (om_portfolios s5)) s5
      in maybe_report_ready (emit_telemetry s6))"

definition handle_venue_portfolio_snapshot :: "venue_portfolio_snapshot \<Rightarrow> oms \<Rightarrow> oms" where
  "handle_venue_portfolio_snapshot snapshot s =
     (let s1 = count (\<lambda>t. t\<lparr>ots_reconciliation_events_seen := ots_reconciliation_events_seen t + 1\<rparr>) s
      in if vps_reconciliation_id snapshot = 0 \<or> vps_reconciliation_id snapshot \<noteq> om_active_reconciliation_id s1 then s1
      else if map_option oru_version (om_universe s1) \<noteq> Some (vps_universe_version snapshot)
      then s1\<lparr>om_active_reconciliation_id := 0, om_portfolio_reconciliation_needed := True,
              om_next_reconciliation_due_ts_ns := 0\<rparr>
      else let s2 = s1\<lparr>om_active_reconciliation_id := 0\<rparr>
      in if vps_result_code snapshot \<noteq> PRR_kCOMPLETE then portfolio_reconciliation_failed s2
         else portfolio_reconciliation_complete snapshot s2)"

definition try_send_pending_control_status :: "oms \<Rightarrow> oms \<times> bool" where
  "try_send_pending_control_status s =
     (case om_pending_rest_egress_drained s of
        None \<Rightarrow> (s, False)
      | Some d \<Rightarrow>
          let (s1, ok) = send_control_status (StOmsRestEgressDrained d) s
          in if ok then (s1\<lparr>om_pending_rest_egress_drained := None\<rparr>, True) else (s1, False))"

definition handle_order_rest_egress_drained :: "order_rest_egress_drained \<Rightarrow> oms \<Rightarrow> oms" where
  "handle_order_rest_egress_drained drained s =
     fst (try_send_pending_control_status (s\<lparr>om_pending_rest_egress_drained := Some
       \<lparr>ord_shutdown_epoch = ored_shutdown_epoch drained, ord_completion_ts_ns = ored_completion_ts_ns drained,
        ord_live_orders = live_order_count s, ord_uncertain_orders = uncertain_order_count s\<rparr>\<rparr>))"

fun handle_venue_event :: "kalshi_to_oms_event \<Rightarrow> oms \<Rightarrow> oms" where
  "handle_venue_event (EvRestOrderResponse r) s = handle_rest_order_response r s"
| "handle_venue_event (EvRestOrderBatchResponse r) s = handle_rest_order_batch_response r s"
| "handle_venue_event (EvPrivateWsOrderEvent e) s = handle_private_ws_order_event e s"
| "handle_venue_event EvReconciledOrderSnapshot s =
     count (\<lambda>t. t\<lparr>ots_reconciliation_events_seen := ots_reconciliation_events_seen t + 1\<rparr>) s"
| "handle_venue_event (EvVenuePortfolioSnapshot p) s = handle_venue_portfolio_snapshot p s"
| "handle_venue_event (EvOrderRestEgressDrained d) s = handle_order_rest_egress_drained d s"

section \<open>Commands from the control plane\<close>

definition handle_allow_trading :: "oms \<Rightarrow> oms" where
  "handle_allow_trading s =
     emit_trading_enabled_changed (s\<lparr>om_trading_enabled :=
       (\<not> om_execution_incident_active s \<and> om_universe s \<noteq> None \<and> map_option oru_version (om_universe s) \<noteq> Some 0
        \<and> portfolio_ready_for_trading s)\<rparr>)"

definition handle_disable_trading :: "oms \<Rightarrow> oms" where
  "handle_disable_trading s = emit_trading_enabled_changed (s\<lparr>om_trading_enabled := False\<rparr>)"

definition handle_cancel_all_orders :: "oms \<Rightarrow> oms" where
  "handle_cancel_all_orders s =
     (let (submission_ts, s1) = now_ns (s\<lparr>om_cancel_all_requested := True, om_trading_enabled := False\<rparr>);
          (s2, _) = cancel_each (\<lambda>r. oc_context (ord_context r)) submission_ts (map fst (om_orders s1)) s1
      in fst (send_control_status (StOmsCancelAllStateChanged (om_cancel_all_requested s2) (live_order_count s2)) s2))"

definition handle_apply_order_route_universe :: "order_route_universe option \<Rightarrow> oms \<Rightarrow> oms" where
  "handle_apply_order_route_universe snapshot s =
     (let version_of = (\<lambda>u. case u of None \<Rightarrow> 0 | Some x \<Rightarrow> oru_version x);
          previous_version = version_of (om_universe s);
          routes = (case snapshot of None \<Rightarrow> []
                    | Some u \<Rightarrow> fold (\<lambda>route. um_assign (omr_market_id route) route) (oru_market_routes u) []);
          s1 = count (\<lambda>t. t\<lparr>ots_installed_universe_version := version_of snapshot\<rparr>)
                 (s\<lparr>om_universe := snapshot, om_market_routes := routes\<rparr>);
          s2 = (if snapshot = None \<or> version_of snapshot \<noteq> previous_version
                then let s' = s1\<lparr>om_ready_reported := False\<rparr>;
                         s'' = (if om_trading_enabled s' then emit_trading_enabled_changed (s'\<lparr>om_trading_enabled := False\<rparr>) else s')
                     in if rk_require_portfolio_reconciliation (om_risk s'')
                        then recompute_all_strategy_available_capital
                               (count (\<lambda>t. t\<lparr>ots_portfolio_reconciled := False\<rparr>)
                                 (s''\<lparr>om_venue_portfolio := (om_venue_portfolio s'')\<lparr>vp_reconciled := False\<rparr>,
                                      om_portfolio_reconciliation_needed := (snapshot \<noteq> None),
                                      om_next_reconciliation_due_ts_ns := 0\<rparr>))
                        else s''
                else s1)
      in emit_telemetry s2)"

fun handle_control_command :: "control_to_oms_command \<Rightarrow> oms \<Rightarrow> oms" where
  "handle_control_command (CtlApplyOrderRouteUniverse u) s = handle_apply_order_route_universe u s"
| "handle_control_command CtlAllowTrading s = handle_allow_trading s"
| "handle_control_command CtlDisableTrading s = handle_disable_trading s"
| "handle_control_command CtlCancelAllOrders s = handle_cancel_all_orders s"

definition maybe_request_portfolio_reconciliation :: "oms \<Rightarrow> oms \<times> bool" where
  "maybe_request_portfolio_reconciliation s =
     (case om_universe s of
        None \<Rightarrow> (s, False)
      | Some universe \<Rightarrow>
      if \<not> rk_require_portfolio_reconciliation (om_risk s) \<or> oru_version universe = 0 \<or> om_active_reconciliation_id s \<noteq> 0
      then (s, False)
      else let (current_time, s1) = now_ns s
      in if om_portfolio_reconciliation_needed s1 \<and> om_next_reconciliation_due_ts_ns s1 \<noteq> 0
            \<and> current_time < om_next_reconciliation_due_ts_ns s1 then (s1, False)
      else let periodic_due = (rk_portfolio_reconciliation_interval_ns (om_risk s1) \<noteq> 0
                 \<and> vp_reconciled (om_venue_portfolio s1) \<and> current_time \<ge> om_next_reconciliation_due_ts_ns s1)
      in if \<not> om_portfolio_reconciliation_needed s1 \<and> \<not> periodic_due then (s1, False)
      else let reconciliation_id = om_next_reconciliation_id s1;
               (s2, ok) = send_kalshi_command (CmdRequestPortfolioReconciliation \<lparr>rpr_reconciliation_id = reconciliation_id,
                  rpr_universe_version = oru_version universe, rpr_submission_ts_ns = current_time\<rparr>)
                  (s1\<lparr>om_next_reconciliation_id := reconciliation_id + 1\<rparr>)
      in if \<not> ok then (s2, False)
         else (emit_telemetry (count (\<lambda>t. t\<lparr>ots_portfolio_reconciliations_requested := ots_portfolio_reconciliations_requested t + 1\<rparr>)
                 (s2\<lparr>om_active_reconciliation_id := reconciliation_id, om_portfolio_reconciliation_needed := False\<rparr>)), True))"

end
