(* ===== verification/Oms_Frames.thy ===== *)
theory Oms_Frames
  imports Oms_Handlers
begin

text \<open>
  What the shared operations of the order manager leave unchanged: messages touch queues, telemetry and
  the clock only, and an update through a reference touches one map.
\<close>

lemma now_ns_frame [simp]:
  "om_groups (snd (now_ns s)) = om_groups s"
  "om_orders (snd (now_ns s)) = om_orders s"
  "om_order_by_client (snd (now_ns s)) = om_order_by_client s"
  "om_order_by_exchange (snd (now_ns s)) = om_order_by_exchange s"
  "om_risk (snd (now_ns s)) = om_risk s"
  "om_execution_incident_active (snd (now_ns s)) = om_execution_incident_active s"
  "om_trading_enabled (snd (now_ns s)) = om_trading_enabled s"
  "om_universe (snd (now_ns s)) = om_universe s"
  "om_venue_portfolio (snd (now_ns s)) = om_venue_portfolio s"
  "om_next_oms_request_id (snd (now_ns s)) = om_next_oms_request_id s"
  "om_next_oms_group_id (snd (now_ns s)) = om_next_oms_group_id s"
  "om_accounted_trades (snd (now_ns s)) = om_accounted_trades s"
  "om_portfolios (snd (now_ns s)) = om_portfolios s"
  "om_positions (snd (now_ns s)) = om_positions s"
  "om_defer_group_state_updates (snd (now_ns s)) = om_defer_group_state_updates s"
  "om_market_routes (snd (now_ns s)) = om_market_routes s"
  "om_group_by_intent (snd (now_ns s)) = om_group_by_intent s"
  "om_kalshi_queue (snd (now_ns s)) = om_kalshi_queue s"
  "length (om_response_queues (snd (now_ns s))) = length (om_response_queues s)"
  by (simp_all add: now_ns_def)

lemma take_request_id_frame [simp]:
  "om_groups (snd (take_request_id s)) = om_groups s"
  "om_orders (snd (take_request_id s)) = om_orders s"
  "om_order_by_client (snd (take_request_id s)) = om_order_by_client s"
  "om_order_by_exchange (snd (take_request_id s)) = om_order_by_exchange s"
  "om_risk (snd (take_request_id s)) = om_risk s"
  "om_execution_incident_active (snd (take_request_id s)) = om_execution_incident_active s"
  "om_trading_enabled (snd (take_request_id s)) = om_trading_enabled s"
  "om_universe (snd (take_request_id s)) = om_universe s"
  "om_venue_portfolio (snd (take_request_id s)) = om_venue_portfolio s"
  "om_next_oms_group_id (snd (take_request_id s)) = om_next_oms_group_id s"
  "om_accounted_trades (snd (take_request_id s)) = om_accounted_trades s"
  "om_portfolios (snd (take_request_id s)) = om_portfolios s"
  "om_positions (snd (take_request_id s)) = om_positions s"
  "om_defer_group_state_updates (snd (take_request_id s)) = om_defer_group_state_updates s"
  "om_market_routes (snd (take_request_id s)) = om_market_routes s"
  "om_group_by_intent (snd (take_request_id s)) = om_group_by_intent s"
  "om_kalshi_queue (snd (take_request_id s)) = om_kalshi_queue s"
  "length (om_response_queues (snd (take_request_id s))) = length (om_response_queues s)"
  by (simp_all add: take_request_id_def)

lemma send_strategy_message_frame [simp]:
  "om_groups (fst (send_strategy_message i m s)) = om_groups s"
  "om_orders (fst (send_strategy_message i m s)) = om_orders s"
  "om_order_by_client (fst (send_strategy_message i m s)) = om_order_by_client s"
  "om_order_by_exchange (fst (send_strategy_message i m s)) = om_order_by_exchange s"
  "om_risk (fst (send_strategy_message i m s)) = om_risk s"
  "om_execution_incident_active (fst (send_strategy_message i m s)) = om_execution_incident_active s"
  "om_trading_enabled (fst (send_strategy_message i m s)) = om_trading_enabled s"
  "om_universe (fst (send_strategy_message i m s)) = om_universe s"
  "om_venue_portfolio (fst (send_strategy_message i m s)) = om_venue_portfolio s"
  "om_next_oms_request_id (fst (send_strategy_message i m s)) = om_next_oms_request_id s"
  "om_next_oms_group_id (fst (send_strategy_message i m s)) = om_next_oms_group_id s"
  "om_accounted_trades (fst (send_strategy_message i m s)) = om_accounted_trades s"
  "om_portfolios (fst (send_strategy_message i m s)) = om_portfolios s"
  "om_positions (fst (send_strategy_message i m s)) = om_positions s"
  "om_defer_group_state_updates (fst (send_strategy_message i m s)) = om_defer_group_state_updates s"
  "om_market_routes (fst (send_strategy_message i m s)) = om_market_routes s"
  "om_group_by_intent (fst (send_strategy_message i m s)) = om_group_by_intent s"
  "om_kalshi_queue (fst (send_strategy_message i m s)) = om_kalshi_queue s"
  "length (om_response_queues (fst (send_strategy_message i m s))) = length (om_response_queues s)"
  by (simp_all add: send_strategy_message_def Let_def case_prod_beta split: option.splits)

lemma send_kalshi_command_frame [simp]:
  "om_groups (fst (send_kalshi_command c s)) = om_groups s"
  "om_orders (fst (send_kalshi_command c s)) = om_orders s"
  "om_order_by_client (fst (send_kalshi_command c s)) = om_order_by_client s"
  "om_order_by_exchange (fst (send_kalshi_command c s)) = om_order_by_exchange s"
  "om_risk (fst (send_kalshi_command c s)) = om_risk s"
  "om_execution_incident_active (fst (send_kalshi_command c s)) = om_execution_incident_active s"
  "om_trading_enabled (fst (send_kalshi_command c s)) = om_trading_enabled s"
  "om_universe (fst (send_kalshi_command c s)) = om_universe s"
  "om_venue_portfolio (fst (send_kalshi_command c s)) = om_venue_portfolio s"
  "om_next_oms_request_id (fst (send_kalshi_command c s)) = om_next_oms_request_id s"
  "om_next_oms_group_id (fst (send_kalshi_command c s)) = om_next_oms_group_id s"
  "om_accounted_trades (fst (send_kalshi_command c s)) = om_accounted_trades s"
  "om_portfolios (fst (send_kalshi_command c s)) = om_portfolios s"
  "om_positions (fst (send_kalshi_command c s)) = om_positions s"
  "om_defer_group_state_updates (fst (send_kalshi_command c s)) = om_defer_group_state_updates s"
  "om_market_routes (fst (send_kalshi_command c s)) = om_market_routes s"
  "om_group_by_intent (fst (send_kalshi_command c s)) = om_group_by_intent s"
  "length (om_response_queues (fst (send_kalshi_command c s))) = length (om_response_queues s)"
  by (simp_all add: send_kalshi_command_def Let_def case_prod_beta split: option.splits)

lemma send_control_status_frame [simp]:
  "om_groups (fst (send_control_status c s)) = om_groups s"
  "om_orders (fst (send_control_status c s)) = om_orders s"
  "om_order_by_client (fst (send_control_status c s)) = om_order_by_client s"
  "om_order_by_exchange (fst (send_control_status c s)) = om_order_by_exchange s"
  "om_risk (fst (send_control_status c s)) = om_risk s"
  "om_execution_incident_active (fst (send_control_status c s)) = om_execution_incident_active s"
  "om_trading_enabled (fst (send_control_status c s)) = om_trading_enabled s"
  "om_universe (fst (send_control_status c s)) = om_universe s"
  "om_venue_portfolio (fst (send_control_status c s)) = om_venue_portfolio s"
  "om_next_oms_request_id (fst (send_control_status c s)) = om_next_oms_request_id s"
  "om_next_oms_group_id (fst (send_control_status c s)) = om_next_oms_group_id s"
  "om_accounted_trades (fst (send_control_status c s)) = om_accounted_trades s"
  "om_portfolios (fst (send_control_status c s)) = om_portfolios s"
  "om_positions (fst (send_control_status c s)) = om_positions s"
  "om_defer_group_state_updates (fst (send_control_status c s)) = om_defer_group_state_updates s"
  "om_market_routes (fst (send_control_status c s)) = om_market_routes s"
  "om_group_by_intent (fst (send_control_status c s)) = om_group_by_intent s"
  "om_kalshi_queue (fst (send_control_status c s)) = om_kalshi_queue s"
  "length (om_response_queues (fst (send_control_status c s))) = length (om_response_queues s)"
  by (simp_all add: send_control_status_def Let_def case_prod_beta split: option.splits)

lemma emit_order_state_update_frame [simp]:
  "om_groups (emit_order_state_update rid src t s) = om_groups s"
  "om_orders (emit_order_state_update rid src t s) = om_orders s"
  "om_order_by_client (emit_order_state_update rid src t s) = om_order_by_client s"
  "om_order_by_exchange (emit_order_state_update rid src t s) = om_order_by_exchange s"
  "om_risk (emit_order_state_update rid src t s) = om_risk s"
  "om_execution_incident_active (emit_order_state_update rid src t s) = om_execution_incident_active s"
  "om_trading_enabled (emit_order_state_update rid src t s) = om_trading_enabled s"
  "om_universe (emit_order_state_update rid src t s) = om_universe s"
  "om_venue_portfolio (emit_order_state_update rid src t s) = om_venue_portfolio s"
  "om_next_oms_request_id (emit_order_state_update rid src t s) = om_next_oms_request_id s"
  "om_next_oms_group_id (emit_order_state_update rid src t s) = om_next_oms_group_id s"
  "om_accounted_trades (emit_order_state_update rid src t s) = om_accounted_trades s"
  "om_portfolios (emit_order_state_update rid src t s) = om_portfolios s"
  "om_positions (emit_order_state_update rid src t s) = om_positions s"
  "om_defer_group_state_updates (emit_order_state_update rid src t s) = om_defer_group_state_updates s"
  "om_market_routes (emit_order_state_update rid src t s) = om_market_routes s"
  "om_group_by_intent (emit_order_state_update rid src t s) = om_group_by_intent s"
  "om_kalshi_queue (emit_order_state_update rid src t s) = om_kalshi_queue s"
  "length (om_response_queues (emit_order_state_update rid src t s)) = length (om_response_queues s)"
  by (simp_all add: emit_order_state_update_def Let_def case_prod_beta split: option.splits)

lemma emit_trading_enabled_changed_frame [simp]:
  "om_groups (emit_trading_enabled_changed s) = om_groups s"
  "om_orders (emit_trading_enabled_changed s) = om_orders s"
  "om_order_by_client (emit_trading_enabled_changed s) = om_order_by_client s"
  "om_order_by_exchange (emit_trading_enabled_changed s) = om_order_by_exchange s"
  "om_risk (emit_trading_enabled_changed s) = om_risk s"
  "om_execution_incident_active (emit_trading_enabled_changed s) = om_execution_incident_active s"
  "om_trading_enabled (emit_trading_enabled_changed s) = om_trading_enabled s"
  "om_universe (emit_trading_enabled_changed s) = om_universe s"
  "om_venue_portfolio (emit_trading_enabled_changed s) = om_venue_portfolio s"
  "om_next_oms_request_id (emit_trading_enabled_changed s) = om_next_oms_request_id s"
  "om_next_oms_group_id (emit_trading_enabled_changed s) = om_next_oms_group_id s"
  "om_accounted_trades (emit_trading_enabled_changed s) = om_accounted_trades s"
  "om_portfolios (emit_trading_enabled_changed s) = om_portfolios s"
  "om_positions (emit_trading_enabled_changed s) = om_positions s"
  "om_defer_group_state_updates (emit_trading_enabled_changed s) = om_defer_group_state_updates s"
  "om_market_routes (emit_trading_enabled_changed s) = om_market_routes s"
  "om_group_by_intent (emit_trading_enabled_changed s) = om_group_by_intent s"
  "om_kalshi_queue (emit_trading_enabled_changed s) = om_kalshi_queue s"
  "length (om_response_queues (emit_trading_enabled_changed s)) = length (om_response_queues s)"
  by (simp_all add: emit_trading_enabled_changed_def Let_def case_prod_beta split: option.splits)

lemma emit_telemetry_frame [simp]:
  "om_groups (emit_telemetry s) = om_groups s"
  "om_orders (emit_telemetry s) = om_orders s"
  "om_order_by_client (emit_telemetry s) = om_order_by_client s"
  "om_order_by_exchange (emit_telemetry s) = om_order_by_exchange s"
  "om_risk (emit_telemetry s) = om_risk s"
  "om_execution_incident_active (emit_telemetry s) = om_execution_incident_active s"
  "om_trading_enabled (emit_telemetry s) = om_trading_enabled s"
  "om_universe (emit_telemetry s) = om_universe s"
  "om_venue_portfolio (emit_telemetry s) = om_venue_portfolio s"
  "om_next_oms_request_id (emit_telemetry s) = om_next_oms_request_id s"
  "om_next_oms_group_id (emit_telemetry s) = om_next_oms_group_id s"
  "om_accounted_trades (emit_telemetry s) = om_accounted_trades s"
  "om_portfolios (emit_telemetry s) = om_portfolios s"
  "om_positions (emit_telemetry s) = om_positions s"
  "om_defer_group_state_updates (emit_telemetry s) = om_defer_group_state_updates s"
  "om_market_routes (emit_telemetry s) = om_market_routes s"
  "om_group_by_intent (emit_telemetry s) = om_group_by_intent s"
  "om_kalshi_queue (emit_telemetry s) = om_kalshi_queue s"
  "length (om_response_queues (emit_telemetry s)) = length (om_response_queues s)"
  by (simp_all add: emit_telemetry_def Let_def case_prod_beta split: option.splits)

lemma emit_group_admission_response_frame [simp]:
  "om_groups (emit_group_admission_response g st r t s) = om_groups s"
  "om_orders (emit_group_admission_response g st r t s) = om_orders s"
  "om_order_by_client (emit_group_admission_response g st r t s) = om_order_by_client s"
  "om_order_by_exchange (emit_group_admission_response g st r t s) = om_order_by_exchange s"
  "om_risk (emit_group_admission_response g st r t s) = om_risk s"
  "om_execution_incident_active (emit_group_admission_response g st r t s) = om_execution_incident_active s"
  "om_trading_enabled (emit_group_admission_response g st r t s) = om_trading_enabled s"
  "om_universe (emit_group_admission_response g st r t s) = om_universe s"
  "om_venue_portfolio (emit_group_admission_response g st r t s) = om_venue_portfolio s"
  "om_next_oms_request_id (emit_group_admission_response g st r t s) = om_next_oms_request_id s"
  "om_next_oms_group_id (emit_group_admission_response g st r t s) = om_next_oms_group_id s"
  "om_accounted_trades (emit_group_admission_response g st r t s) = om_accounted_trades s"
  "om_portfolios (emit_group_admission_response g st r t s) = om_portfolios s"
  "om_positions (emit_group_admission_response g st r t s) = om_positions s"
  "om_defer_group_state_updates (emit_group_admission_response g st r t s) = om_defer_group_state_updates s"
  "om_market_routes (emit_group_admission_response g st r t s) = om_market_routes s"
  "om_group_by_intent (emit_group_admission_response g st r t s) = om_group_by_intent s"
  "om_kalshi_queue (emit_group_admission_response g st r t s) = om_kalshi_queue s"
  "length (om_response_queues (emit_group_admission_response g st r t s)) = length (om_response_queues s)"
  by (simp_all add: emit_group_admission_response_def Let_def case_prod_beta split: option.splits)

lemma emit_group_state_update_frame [simp]:
  "om_groups (emit_group_state_update gid t s) = om_groups s"
  "om_orders (emit_group_state_update gid t s) = om_orders s"
  "om_order_by_client (emit_group_state_update gid t s) = om_order_by_client s"
  "om_order_by_exchange (emit_group_state_update gid t s) = om_order_by_exchange s"
  "om_risk (emit_group_state_update gid t s) = om_risk s"
  "om_execution_incident_active (emit_group_state_update gid t s) = om_execution_incident_active s"
  "om_trading_enabled (emit_group_state_update gid t s) = om_trading_enabled s"
  "om_universe (emit_group_state_update gid t s) = om_universe s"
  "om_venue_portfolio (emit_group_state_update gid t s) = om_venue_portfolio s"
  "om_next_oms_request_id (emit_group_state_update gid t s) = om_next_oms_request_id s"
  "om_next_oms_group_id (emit_group_state_update gid t s) = om_next_oms_group_id s"
  "om_accounted_trades (emit_group_state_update gid t s) = om_accounted_trades s"
  "om_portfolios (emit_group_state_update gid t s) = om_portfolios s"
  "om_positions (emit_group_state_update gid t s) = om_positions s"
  "om_defer_group_state_updates (emit_group_state_update gid t s) = om_defer_group_state_updates s"
  "om_market_routes (emit_group_state_update gid t s) = om_market_routes s"
  "om_group_by_intent (emit_group_state_update gid t s) = om_group_by_intent s"
  "om_kalshi_queue (emit_group_state_update gid t s) = om_kalshi_queue s"
  "length (om_response_queues (emit_group_state_update gid t s)) = length (om_response_queues s)"
  by (simp_all add: emit_group_state_update_def Let_def case_prod_beta split: option.splits)

lemma maybe_report_execution_fault_frame [simp]:
  "om_groups (maybe_report_execution_fault s) = om_groups s"
  "om_orders (maybe_report_execution_fault s) = om_orders s"
  "om_order_by_client (maybe_report_execution_fault s) = om_order_by_client s"
  "om_order_by_exchange (maybe_report_execution_fault s) = om_order_by_exchange s"
  "om_risk (maybe_report_execution_fault s) = om_risk s"
  "om_execution_incident_active (maybe_report_execution_fault s) = om_execution_incident_active s"
  "om_trading_enabled (maybe_report_execution_fault s) = om_trading_enabled s"
  "om_universe (maybe_report_execution_fault s) = om_universe s"
  "om_venue_portfolio (maybe_report_execution_fault s) = om_venue_portfolio s"
  "om_next_oms_request_id (maybe_report_execution_fault s) = om_next_oms_request_id s"
  "om_next_oms_group_id (maybe_report_execution_fault s) = om_next_oms_group_id s"
  "om_accounted_trades (maybe_report_execution_fault s) = om_accounted_trades s"
  "om_portfolios (maybe_report_execution_fault s) = om_portfolios s"
  "om_positions (maybe_report_execution_fault s) = om_positions s"
  "om_defer_group_state_updates (maybe_report_execution_fault s) = om_defer_group_state_updates s"
  "om_market_routes (maybe_report_execution_fault s) = om_market_routes s"
  "om_group_by_intent (maybe_report_execution_fault s) = om_group_by_intent s"
  "om_kalshi_queue (maybe_report_execution_fault s) = om_kalshi_queue s"
  "length (om_response_queues (maybe_report_execution_fault s)) = length (om_response_queues s)"
  by (simp_all add: maybe_report_execution_fault_def Let_def case_prod_beta split: option.splits)

lemma upd_order_frame [simp]:
  "om_groups (upd_order rid f s) = om_groups s"
  "om_order_by_client (upd_order rid f s) = om_order_by_client s"
  "om_order_by_exchange (upd_order rid f s) = om_order_by_exchange s"
  "om_risk (upd_order rid f s) = om_risk s"
  "om_execution_incident_active (upd_order rid f s) = om_execution_incident_active s"
  "om_trading_enabled (upd_order rid f s) = om_trading_enabled s"
  "om_universe (upd_order rid f s) = om_universe s"
  "om_venue_portfolio (upd_order rid f s) = om_venue_portfolio s"
  "om_next_oms_request_id (upd_order rid f s) = om_next_oms_request_id s"
  "om_next_oms_group_id (upd_order rid f s) = om_next_oms_group_id s"
  "om_accounted_trades (upd_order rid f s) = om_accounted_trades s"
  "om_portfolios (upd_order rid f s) = om_portfolios s"
  "om_positions (upd_order rid f s) = om_positions s"
  "om_defer_group_state_updates (upd_order rid f s) = om_defer_group_state_updates s"
  "om_market_routes (upd_order rid f s) = om_market_routes s"
  "om_group_by_intent (upd_order rid f s) = om_group_by_intent s"
  "om_kalshi_queue (upd_order rid f s) = om_kalshi_queue s"
  "length (om_response_queues (upd_order rid f s)) = length (om_response_queues s)"
  by (simp_all add: upd_order_def)

lemma upd_group_frame [simp]:
  "om_orders (upd_group gid f s) = om_orders s"
  "om_order_by_client (upd_group gid f s) = om_order_by_client s"
  "om_order_by_exchange (upd_group gid f s) = om_order_by_exchange s"
  "om_risk (upd_group gid f s) = om_risk s"
  "om_execution_incident_active (upd_group gid f s) = om_execution_incident_active s"
  "om_trading_enabled (upd_group gid f s) = om_trading_enabled s"
  "om_universe (upd_group gid f s) = om_universe s"
  "om_venue_portfolio (upd_group gid f s) = om_venue_portfolio s"
  "om_next_oms_request_id (upd_group gid f s) = om_next_oms_request_id s"
  "om_next_oms_group_id (upd_group gid f s) = om_next_oms_group_id s"
  "om_accounted_trades (upd_group gid f s) = om_accounted_trades s"
  "om_portfolios (upd_group gid f s) = om_portfolios s"
  "om_positions (upd_group gid f s) = om_positions s"
  "om_defer_group_state_updates (upd_group gid f s) = om_defer_group_state_updates s"
  "om_market_routes (upd_group gid f s) = om_market_routes s"
  "om_group_by_intent (upd_group gid f s) = om_group_by_intent s"
  "om_kalshi_queue (upd_group gid f s) = om_kalshi_queue s"
  "length (om_response_queues (upd_group gid f s)) = length (om_response_queues s)"
  by (simp_all add: upd_group_def)

lemma upd_portfolio_frame [simp]:
  "om_groups (upd_portfolio i f s) = om_groups s"
  "om_orders (upd_portfolio i f s) = om_orders s"
  "om_order_by_client (upd_portfolio i f s) = om_order_by_client s"
  "om_order_by_exchange (upd_portfolio i f s) = om_order_by_exchange s"
  "om_risk (upd_portfolio i f s) = om_risk s"
  "om_execution_incident_active (upd_portfolio i f s) = om_execution_incident_active s"
  "om_trading_enabled (upd_portfolio i f s) = om_trading_enabled s"
  "om_universe (upd_portfolio i f s) = om_universe s"
  "om_venue_portfolio (upd_portfolio i f s) = om_venue_portfolio s"
  "om_next_oms_request_id (upd_portfolio i f s) = om_next_oms_request_id s"
  "om_next_oms_group_id (upd_portfolio i f s) = om_next_oms_group_id s"
  "om_accounted_trades (upd_portfolio i f s) = om_accounted_trades s"
  "om_positions (upd_portfolio i f s) = om_positions s"
  "om_defer_group_state_updates (upd_portfolio i f s) = om_defer_group_state_updates s"
  "om_market_routes (upd_portfolio i f s) = om_market_routes s"
  "om_group_by_intent (upd_portfolio i f s) = om_group_by_intent s"
  "om_kalshi_queue (upd_portfolio i f s) = om_kalshi_queue s"
  "length (om_response_queues (upd_portfolio i f s)) = length (om_response_queues s)"
  by (simp_all add: upd_portfolio_def)

lemma upd_position_frame [simp]:
  "om_groups (upd_position i m f s) = om_groups s"
  "om_orders (upd_position i m f s) = om_orders s"
  "om_order_by_client (upd_position i m f s) = om_order_by_client s"
  "om_order_by_exchange (upd_position i m f s) = om_order_by_exchange s"
  "om_risk (upd_position i m f s) = om_risk s"
  "om_execution_incident_active (upd_position i m f s) = om_execution_incident_active s"
  "om_trading_enabled (upd_position i m f s) = om_trading_enabled s"
  "om_universe (upd_position i m f s) = om_universe s"
  "om_venue_portfolio (upd_position i m f s) = om_venue_portfolio s"
  "om_next_oms_request_id (upd_position i m f s) = om_next_oms_request_id s"
  "om_next_oms_group_id (upd_position i m f s) = om_next_oms_group_id s"
  "om_accounted_trades (upd_position i m f s) = om_accounted_trades s"
  "om_portfolios (upd_position i m f s) = om_portfolios s"
  "om_defer_group_state_updates (upd_position i m f s) = om_defer_group_state_updates s"
  "om_market_routes (upd_position i m f s) = om_market_routes s"
  "om_group_by_intent (upd_position i m f s) = om_group_by_intent s"
  "om_kalshi_queue (upd_position i m f s) = om_kalshi_queue s"
  "length (om_response_queues (upd_position i m f s)) = length (om_response_queues s)"
  by (simp_all add: upd_position_def)

lemma recompute_strategy_available_capital_frame [simp]:
  "om_groups (recompute_strategy_available_capital i s) = om_groups s"
  "om_orders (recompute_strategy_available_capital i s) = om_orders s"
  "om_order_by_client (recompute_strategy_available_capital i s) = om_order_by_client s"
  "om_order_by_exchange (recompute_strategy_available_capital i s) = om_order_by_exchange s"
  "om_risk (recompute_strategy_available_capital i s) = om_risk s"
  "om_execution_incident_active (recompute_strategy_available_capital i s) = om_execution_incident_active s"
  "om_trading_enabled (recompute_strategy_available_capital i s) = om_trading_enabled s"
  "om_universe (recompute_strategy_available_capital i s) = om_universe s"
  "om_venue_portfolio (recompute_strategy_available_capital i s) = om_venue_portfolio s"
  "om_next_oms_request_id (recompute_strategy_available_capital i s) = om_next_oms_request_id s"
  "om_next_oms_group_id (recompute_strategy_available_capital i s) = om_next_oms_group_id s"
  "om_accounted_trades (recompute_strategy_available_capital i s) = om_accounted_trades s"
  "om_positions (recompute_strategy_available_capital i s) = om_positions s"
  "om_defer_group_state_updates (recompute_strategy_available_capital i s) = om_defer_group_state_updates s"
  "om_market_routes (recompute_strategy_available_capital i s) = om_market_routes s"
  "om_group_by_intent (recompute_strategy_available_capital i s) = om_group_by_intent s"
  "om_kalshi_queue (recompute_strategy_available_capital i s) = om_kalshi_queue s"
  "length (om_response_queues (recompute_strategy_available_capital i s)) = length (om_response_queues s)"
  by (simp_all add: recompute_strategy_available_capital_def)

lemma recompute_all_strategy_available_capital_frame [simp]:
  "om_groups (recompute_all_strategy_available_capital s) = om_groups s"
  "om_orders (recompute_all_strategy_available_capital s) = om_orders s"
  "om_order_by_client (recompute_all_strategy_available_capital s) = om_order_by_client s"
  "om_order_by_exchange (recompute_all_strategy_available_capital s) = om_order_by_exchange s"
  "om_risk (recompute_all_strategy_available_capital s) = om_risk s"
  "om_execution_incident_active (recompute_all_strategy_available_capital s) = om_execution_incident_active s"
  "om_trading_enabled (recompute_all_strategy_available_capital s) = om_trading_enabled s"
  "om_universe (recompute_all_strategy_available_capital s) = om_universe s"
  "om_venue_portfolio (recompute_all_strategy_available_capital s) = om_venue_portfolio s"
  "om_next_oms_request_id (recompute_all_strategy_available_capital s) = om_next_oms_request_id s"
  "om_next_oms_group_id (recompute_all_strategy_available_capital s) = om_next_oms_group_id s"
  "om_accounted_trades (recompute_all_strategy_available_capital s) = om_accounted_trades s"
  "om_positions (recompute_all_strategy_available_capital s) = om_positions s"
  "om_defer_group_state_updates (recompute_all_strategy_available_capital s) = om_defer_group_state_updates s"
  "om_market_routes (recompute_all_strategy_available_capital s) = om_market_routes s"
  "om_group_by_intent (recompute_all_strategy_available_capital s) = om_group_by_intent s"
  "om_kalshi_queue (recompute_all_strategy_available_capital s) = om_kalshi_queue s"
  "length (om_response_queues (recompute_all_strategy_available_capital s)) = length (om_response_queues s)"
  by (simp_all add: recompute_all_strategy_available_capital_def)

lemma ensure_strategy_portfolio_frame [simp]:
  "om_groups (ensure_strategy_portfolio i s) = om_groups s"
  "om_orders (ensure_strategy_portfolio i s) = om_orders s"
  "om_order_by_client (ensure_strategy_portfolio i s) = om_order_by_client s"
  "om_order_by_exchange (ensure_strategy_portfolio i s) = om_order_by_exchange s"
  "om_risk (ensure_strategy_portfolio i s) = om_risk s"
  "om_execution_incident_active (ensure_strategy_portfolio i s) = om_execution_incident_active s"
  "om_trading_enabled (ensure_strategy_portfolio i s) = om_trading_enabled s"
  "om_universe (ensure_strategy_portfolio i s) = om_universe s"
  "om_venue_portfolio (ensure_strategy_portfolio i s) = om_venue_portfolio s"
  "om_next_oms_request_id (ensure_strategy_portfolio i s) = om_next_oms_request_id s"
  "om_next_oms_group_id (ensure_strategy_portfolio i s) = om_next_oms_group_id s"
  "om_accounted_trades (ensure_strategy_portfolio i s) = om_accounted_trades s"
  "om_positions (ensure_strategy_portfolio i s) = om_positions s"
  "om_defer_group_state_updates (ensure_strategy_portfolio i s) = om_defer_group_state_updates s"
  "om_market_routes (ensure_strategy_portfolio i s) = om_market_routes s"
  "om_group_by_intent (ensure_strategy_portfolio i s) = om_group_by_intent s"
  "om_kalshi_queue (ensure_strategy_portfolio i s) = om_kalshi_queue s"
  "length (om_response_queues (ensure_strategy_portfolio i s)) = length (om_response_queues s)"
  by (simp_all add: ensure_strategy_portfolio_def Let_def case_prod_beta split: option.splits)

lemma ensure_strategy_market_position_frame [simp]:
  "om_groups (ensure_strategy_market_position i m e s) = om_groups s"
  "om_orders (ensure_strategy_market_position i m e s) = om_orders s"
  "om_order_by_client (ensure_strategy_market_position i m e s) = om_order_by_client s"
  "om_order_by_exchange (ensure_strategy_market_position i m e s) = om_order_by_exchange s"
  "om_risk (ensure_strategy_market_position i m e s) = om_risk s"
  "om_execution_incident_active (ensure_strategy_market_position i m e s) = om_execution_incident_active s"
  "om_trading_enabled (ensure_strategy_market_position i m e s) = om_trading_enabled s"
  "om_universe (ensure_strategy_market_position i m e s) = om_universe s"
  "om_venue_portfolio (ensure_strategy_market_position i m e s) = om_venue_portfolio s"
  "om_next_oms_request_id (ensure_strategy_market_position i m e s) = om_next_oms_request_id s"
  "om_next_oms_group_id (ensure_strategy_market_position i m e s) = om_next_oms_group_id s"
  "om_accounted_trades (ensure_strategy_market_position i m e s) = om_accounted_trades s"
  "om_portfolios (ensure_strategy_market_position i m e s) = om_portfolios s"
  "om_defer_group_state_updates (ensure_strategy_market_position i m e s) = om_defer_group_state_updates s"
  "om_market_routes (ensure_strategy_market_position i m e s) = om_market_routes s"
  "om_group_by_intent (ensure_strategy_market_position i m e s) = om_group_by_intent s"
  "om_kalshi_queue (ensure_strategy_market_position i m e s) = om_kalshi_queue s"
  "length (om_response_queues (ensure_strategy_market_position i m e s)) = length (om_response_queues s)"
  by (simp_all add: ensure_strategy_market_position_def Let_def case_prod_beta split: option.splits)

lemma emit_strategy_portfolio_update_frame [simp]:
  "om_groups (emit_strategy_portfolio_update i t s) = om_groups s"
  "om_orders (emit_strategy_portfolio_update i t s) = om_orders s"
  "om_order_by_client (emit_strategy_portfolio_update i t s) = om_order_by_client s"
  "om_order_by_exchange (emit_strategy_portfolio_update i t s) = om_order_by_exchange s"
  "om_risk (emit_strategy_portfolio_update i t s) = om_risk s"
  "om_execution_incident_active (emit_strategy_portfolio_update i t s) = om_execution_incident_active s"
  "om_trading_enabled (emit_strategy_portfolio_update i t s) = om_trading_enabled s"
  "om_universe (emit_strategy_portfolio_update i t s) = om_universe s"
  "om_venue_portfolio (emit_strategy_portfolio_update i t s) = om_venue_portfolio s"
  "om_next_oms_request_id (emit_strategy_portfolio_update i t s) = om_next_oms_request_id s"
  "om_next_oms_group_id (emit_strategy_portfolio_update i t s) = om_next_oms_group_id s"
  "om_accounted_trades (emit_strategy_portfolio_update i t s) = om_accounted_trades s"
  "om_positions (emit_strategy_portfolio_update i t s) = om_positions s"
  "om_defer_group_state_updates (emit_strategy_portfolio_update i t s) = om_defer_group_state_updates s"
  "om_market_routes (emit_strategy_portfolio_update i t s) = om_market_routes s"
  "om_group_by_intent (emit_strategy_portfolio_update i t s) = om_group_by_intent s"
  "om_kalshi_queue (emit_strategy_portfolio_update i t s) = om_kalshi_queue s"
  "length (om_response_queues (emit_strategy_portfolio_update i t s)) = length (om_response_queues s)"
  by (simp_all add: emit_strategy_portfolio_update_def Let_def case_prod_beta split: option.splits)

lemma emit_strategy_market_position_update_frame [simp]:
  "om_groups (emit_strategy_market_position_update i m t s) = om_groups s"
  "om_orders (emit_strategy_market_position_update i m t s) = om_orders s"
  "om_order_by_client (emit_strategy_market_position_update i m t s) = om_order_by_client s"
  "om_order_by_exchange (emit_strategy_market_position_update i m t s) = om_order_by_exchange s"
  "om_risk (emit_strategy_market_position_update i m t s) = om_risk s"
  "om_execution_incident_active (emit_strategy_market_position_update i m t s) = om_execution_incident_active s"
  "om_trading_enabled (emit_strategy_market_position_update i m t s) = om_trading_enabled s"
  "om_universe (emit_strategy_market_position_update i m t s) = om_universe s"
  "om_venue_portfolio (emit_strategy_market_position_update i m t s) = om_venue_portfolio s"
  "om_next_oms_request_id (emit_strategy_market_position_update i m t s) = om_next_oms_request_id s"
  "om_next_oms_group_id (emit_strategy_market_position_update i m t s) = om_next_oms_group_id s"
  "om_accounted_trades (emit_strategy_market_position_update i m t s) = om_accounted_trades s"
  "om_positions (emit_strategy_market_position_update i m t s) = om_positions s"
  "om_defer_group_state_updates (emit_strategy_market_position_update i m t s) = om_defer_group_state_updates s"
  "om_market_routes (emit_strategy_market_position_update i m t s) = om_market_routes s"
  "om_group_by_intent (emit_strategy_market_position_update i m t s) = om_group_by_intent s"
  "om_kalshi_queue (emit_strategy_market_position_update i m t s) = om_kalshi_queue s"
  "length (om_response_queues (emit_strategy_market_position_update i m t s)) = length (om_response_queues s)"
  by (simp_all add: emit_strategy_market_position_update_def Let_def case_prod_beta split: option.splits)

lemma release_group_capital_frame [simp]:
  "om_groups (snd (release_group_capital g s)) = om_groups s"
  "om_orders (snd (release_group_capital g s)) = om_orders s"
  "om_order_by_client (snd (release_group_capital g s)) = om_order_by_client s"
  "om_order_by_exchange (snd (release_group_capital g s)) = om_order_by_exchange s"
  "om_risk (snd (release_group_capital g s)) = om_risk s"
  "om_execution_incident_active (snd (release_group_capital g s)) = om_execution_incident_active s"
  "om_trading_enabled (snd (release_group_capital g s)) = om_trading_enabled s"
  "om_universe (snd (release_group_capital g s)) = om_universe s"
  "om_venue_portfolio (snd (release_group_capital g s)) = om_venue_portfolio s"
  "om_next_oms_request_id (snd (release_group_capital g s)) = om_next_oms_request_id s"
  "om_next_oms_group_id (snd (release_group_capital g s)) = om_next_oms_group_id s"
  "om_accounted_trades (snd (release_group_capital g s)) = om_accounted_trades s"
  "om_positions (snd (release_group_capital g s)) = om_positions s"
  "om_defer_group_state_updates (snd (release_group_capital g s)) = om_defer_group_state_updates s"
  "om_market_routes (snd (release_group_capital g s)) = om_market_routes s"
  "om_group_by_intent (snd (release_group_capital g s)) = om_group_by_intent s"
  "om_kalshi_queue (snd (release_group_capital g s)) = om_kalshi_queue s"
  "length (om_response_queues (snd (release_group_capital g s))) = length (om_response_queues s)"
  by (simp_all add: release_group_capital_def Let_def case_prod_beta split: option.splits)

lemma set_uncertain_frame [simp]:
  "om_orders (set_uncertain gid b s) = om_orders s"
  "om_order_by_client (set_uncertain gid b s) = om_order_by_client s"
  "om_order_by_exchange (set_uncertain gid b s) = om_order_by_exchange s"
  "om_risk (set_uncertain gid b s) = om_risk s"
  "om_execution_incident_active (set_uncertain gid b s) = om_execution_incident_active s"
  "om_trading_enabled (set_uncertain gid b s) = om_trading_enabled s"
  "om_universe (set_uncertain gid b s) = om_universe s"
  "om_venue_portfolio (set_uncertain gid b s) = om_venue_portfolio s"
  "om_next_oms_request_id (set_uncertain gid b s) = om_next_oms_request_id s"
  "om_next_oms_group_id (set_uncertain gid b s) = om_next_oms_group_id s"
  "om_accounted_trades (set_uncertain gid b s) = om_accounted_trades s"
  "om_portfolios (set_uncertain gid b s) = om_portfolios s"
  "om_positions (set_uncertain gid b s) = om_positions s"
  "om_defer_group_state_updates (set_uncertain gid b s) = om_defer_group_state_updates s"
  "om_market_routes (set_uncertain gid b s) = om_market_routes s"
  "om_group_by_intent (set_uncertain gid b s) = om_group_by_intent s"
  "om_kalshi_queue (set_uncertain gid b s) = om_kalshi_queue s"
  "length (om_response_queues (set_uncertain gid b s)) = length (om_response_queues s)"
  by (simp_all add: set_uncertain_def Let_def case_prod_beta split: option.splits)

lemma note_exchange_id_frame [simp]:
  "om_groups (note_exchange_id x rid s) = om_groups s"
  "om_order_by_client (note_exchange_id x rid s) = om_order_by_client s"
  "om_risk (note_exchange_id x rid s) = om_risk s"
  "om_execution_incident_active (note_exchange_id x rid s) = om_execution_incident_active s"
  "om_trading_enabled (note_exchange_id x rid s) = om_trading_enabled s"
  "om_universe (note_exchange_id x rid s) = om_universe s"
  "om_venue_portfolio (note_exchange_id x rid s) = om_venue_portfolio s"
  "om_next_oms_request_id (note_exchange_id x rid s) = om_next_oms_request_id s"
  "om_next_oms_group_id (note_exchange_id x rid s) = om_next_oms_group_id s"
  "om_accounted_trades (note_exchange_id x rid s) = om_accounted_trades s"
  "om_portfolios (note_exchange_id x rid s) = om_portfolios s"
  "om_positions (note_exchange_id x rid s) = om_positions s"
  "om_defer_group_state_updates (note_exchange_id x rid s) = om_defer_group_state_updates s"
  "om_market_routes (note_exchange_id x rid s) = om_market_routes s"
  "om_group_by_intent (note_exchange_id x rid s) = om_group_by_intent s"
  "om_kalshi_queue (note_exchange_id x rid s) = om_kalshi_queue s"
  "length (om_response_queues (note_exchange_id x rid s)) = length (om_response_queues s)"
  by (simp_all add: note_exchange_id_def Let_def case_prod_beta split: option.splits)

lemma respond_frame [simp]:
  "om_groups (snd (respond c t ty r s)) = om_groups s"
  "om_orders (snd (respond c t ty r s)) = om_orders s"
  "om_order_by_client (snd (respond c t ty r s)) = om_order_by_client s"
  "om_order_by_exchange (snd (respond c t ty r s)) = om_order_by_exchange s"
  "om_risk (snd (respond c t ty r s)) = om_risk s"
  "om_execution_incident_active (snd (respond c t ty r s)) = om_execution_incident_active s"
  "om_trading_enabled (snd (respond c t ty r s)) = om_trading_enabled s"
  "om_universe (snd (respond c t ty r s)) = om_universe s"
  "om_venue_portfolio (snd (respond c t ty r s)) = om_venue_portfolio s"
  "om_next_oms_request_id (snd (respond c t ty r s)) = om_next_oms_request_id s"
  "om_next_oms_group_id (snd (respond c t ty r s)) = om_next_oms_group_id s"
  "om_accounted_trades (snd (respond c t ty r s)) = om_accounted_trades s"
  "om_portfolios (snd (respond c t ty r s)) = om_portfolios s"
  "om_positions (snd (respond c t ty r s)) = om_positions s"
  "om_defer_group_state_updates (snd (respond c t ty r s)) = om_defer_group_state_updates s"
  "om_market_routes (snd (respond c t ty r s)) = om_market_routes s"
  "om_group_by_intent (snd (respond c t ty r s)) = om_group_by_intent s"
  "om_kalshi_queue (snd (respond c t ty r s)) = om_kalshi_queue s"
  "length (om_response_queues (snd (respond c t ty r s))) = length (om_response_queues s)"
  by (simp_all add: respond_def Let_def case_prod_beta split: option.splits)

lemma reject_intent_frame [simp]:
  "om_groups (reject_intent c t r s) = om_groups s"
  "om_orders (reject_intent c t r s) = om_orders s"
  "om_order_by_client (reject_intent c t r s) = om_order_by_client s"
  "om_order_by_exchange (reject_intent c t r s) = om_order_by_exchange s"
  "om_risk (reject_intent c t r s) = om_risk s"
  "om_execution_incident_active (reject_intent c t r s) = om_execution_incident_active s"
  "om_trading_enabled (reject_intent c t r s) = om_trading_enabled s"
  "om_universe (reject_intent c t r s) = om_universe s"
  "om_venue_portfolio (reject_intent c t r s) = om_venue_portfolio s"
  "om_next_oms_request_id (reject_intent c t r s) = om_next_oms_request_id s"
  "om_next_oms_group_id (reject_intent c t r s) = om_next_oms_group_id s"
  "om_accounted_trades (reject_intent c t r s) = om_accounted_trades s"
  "om_portfolios (reject_intent c t r s) = om_portfolios s"
  "om_positions (reject_intent c t r s) = om_positions s"
  "om_defer_group_state_updates (reject_intent c t r s) = om_defer_group_state_updates s"
  "om_market_routes (reject_intent c t r s) = om_market_routes s"
  "om_group_by_intent (reject_intent c t r s) = om_group_by_intent s"
  "om_kalshi_queue (reject_intent c t r s) = om_kalshi_queue s"
  "length (om_response_queues (reject_intent c t r s)) = length (om_response_queues s)"
  by (simp_all add: reject_intent_def Let_def case_prod_beta split: option.splits)

lemma reject_group_frame [simp]:
  "om_groups (reject_group g t r s) = om_groups s"
  "om_orders (reject_group g t r s) = om_orders s"
  "om_order_by_client (reject_group g t r s) = om_order_by_client s"
  "om_order_by_exchange (reject_group g t r s) = om_order_by_exchange s"
  "om_risk (reject_group g t r s) = om_risk s"
  "om_execution_incident_active (reject_group g t r s) = om_execution_incident_active s"
  "om_trading_enabled (reject_group g t r s) = om_trading_enabled s"
  "om_universe (reject_group g t r s) = om_universe s"
  "om_venue_portfolio (reject_group g t r s) = om_venue_portfolio s"
  "om_next_oms_request_id (reject_group g t r s) = om_next_oms_request_id s"
  "om_next_oms_group_id (reject_group g t r s) = om_next_oms_group_id s"
  "om_accounted_trades (reject_group g t r s) = om_accounted_trades s"
  "om_portfolios (reject_group g t r s) = om_portfolios s"
  "om_positions (reject_group g t r s) = om_positions s"
  "om_defer_group_state_updates (reject_group g t r s) = om_defer_group_state_updates s"
  "om_market_routes (reject_group g t r s) = om_market_routes s"
  "om_group_by_intent (reject_group g t r s) = om_group_by_intent s"
  "om_kalshi_queue (reject_group g t r s) = om_kalshi_queue s"
  "length (om_response_queues (reject_group g t r s)) = length (om_response_queues s)"
  by (simp_all add: reject_group_def Let_def case_prod_beta split: option.splits)


end
