(* ===== verification/Oms_Invariant.thy ===== *)
theory Oms_Invariant
  imports Oms_Frames
begin

text \<open>
  The invariant of the order manager. It says of every group that its repair state is latched as an
  execution incident and that its attempts stay within the configured limit; of every order that its
  reservation is not negative and that a repair order belongs to a group under repair; of every
  portfolio that reservations stay within the strategy's allocation and that the available capital is
  at most what the allocation leaves; and that trading is enabled only without an incident, with a
  universe and with a reconciled portfolio.

  Inside a handler two parts can be broken for a while: the available capital lags behind (\<open>b\<close> false),
  and the state of a group runs ahead of the latch (the groups in \<open>E\<close>).
\<close>

lemma um_find_single: "um_find [(k, v)] k' = (if k' = k then Some v else None)"
  by (simp add: um_find_def)

section \<open>The invariant\<close>

definition in_repair :: "group_record \<Rightarrow> bool" where
  "in_repair g \<longleftrightarrow> needs_repair (gr_execution_state g) \<or> gr_capital_released g"

definition group_ok :: "oms_group_id set \<Rightarrow> oms \<Rightarrow> oms_group_id \<Rightarrow> group_record \<Rightarrow> bool" where
  "group_ok E s gid g \<longleftrightarrow>
     gr_oms_group_id g = gid
   \<and> (gid \<notin> E \<longrightarrow> needs_repair (gr_execution_state g) \<longrightarrow> om_execution_incident_active s)
   \<and> gr_cancel_attempt_count g \<le> rk_maximum_group_repair_attempts (om_risk s)
   \<and> gr_repair_attempt_count g \<le> rk_maximum_group_repair_attempts (om_risk s)
   \<and> gr_reserved_capital_ticks g \<le> to_u64 i64_max"

definition order_ok :: "oms_group_id set \<Rightarrow> oms \<Rightarrow> order_record \<Rightarrow> bool" where
  "order_ok E s r \<longleftrightarrow> 0 \<le> ord_reserved_capital_ticks r
   \<and> (ord_repair_order r \<longrightarrow>
        (\<exists>g. find_group s (ord_oms_group_id r) = Some g \<and> (ord_oms_group_id r \<in> E \<or> in_repair g)))"

definition portfolio_base :: "oms \<Rightarrow> strategy_portfolio_record \<Rightarrow> bool" where
  "portfolio_base s p \<longleftrightarrow>
     sp_allocation_limit_ticks p = rk_strategy_allocation_limit_ticks (om_risk s)
   \<and> 0 \<le> sp_reserved_order_capital_ticks p
   \<and> sp_reserved_order_capital_ticks p \<le> max 0 (rk_strategy_allocation_limit_ticks (om_risk s))"

definition available_ok :: "strategy_portfolio_record \<Rightarrow> bool" where
  "available_ok p \<longleftrightarrow> 0 \<le> sp_available_capital_ticks p \<and> sp_available_capital_ticks p \<le> strategy_available p"

definition trading_gate :: "oms \<Rightarrow> bool" where
  "trading_gate s \<longleftrightarrow> (om_trading_enabled s \<longrightarrow>
     \<not> om_execution_incident_active s \<and> (\<exists>u. om_universe s = Some u \<and> oru_version u \<noteq> 0) \<and> portfolio_ready_for_trading s)"

definition oms_ok :: "bool \<Rightarrow> oms_group_id set \<Rightarrow> oms \<Rightarrow> bool" where
  "oms_ok b E s \<longleftrightarrow>
     rk_strategy_allocation_limit_ticks (om_risk s) \<le> i64_max
   \<and> um_wf (om_groups s)
   \<and> (\<forall>gid g. find_group s gid = Some g \<longrightarrow> group_ok E s gid g)
   \<and> (\<forall>rid r. find_order s rid = Some r \<longrightarrow> order_ok E s r)
   \<and> (\<forall>i p. um_find (om_portfolios s) i = Some p \<longrightarrow> portfolio_base s p \<and> (b \<longrightarrow> available_ok p))
   \<and> trading_gate s"

abbreviation oms_inv :: "oms \<Rightarrow> bool" where "oms_inv \<equiv> oms_ok True {}"

lemmas oms_ok_defs = oms_ok_def group_ok_def order_ok_def portfolio_base_def trading_gate_def portfolio_ready_for_trading_def

lemma oms_ok_weaken: "oms_ok b E s \<Longrightarrow> (b' \<longrightarrow> b) \<Longrightarrow> E \<subseteq> E' \<Longrightarrow> oms_ok b' E' s"
  unfolding oms_ok_def group_ok_def order_ok_def by (meson subsetD)

section \<open>Frames\<close>

definition oms_core where
  "oms_core s = (om_risk s, om_groups s, om_orders s, om_portfolios s, om_execution_incident_active s,
     om_trading_enabled s, om_universe s, om_venue_portfolio s)"

lemma oms_ok_core: "oms_core s = oms_core s' \<Longrightarrow> oms_ok b E s = oms_ok b E s'"
  by (simp add: oms_core_def oms_ok_defs)

lemma oms_ok_update [simp]:
  "oms_ok b E (s\<lparr>om_telemetry := t\<rparr>) = oms_ok b E s"
  "oms_ok b E (s\<lparr>om_order_by_client := c\<rparr>) = oms_ok b E s"
  "oms_ok b E (s\<lparr>om_order_by_exchange := x\<rparr>) = oms_ok b E s"
  "oms_ok b E (s\<lparr>om_positions := ps\<rparr>) = oms_ok b E s"
  "oms_ok b E (s\<lparr>om_venue_positions := vs\<rparr>) = oms_ok b E s"
  "oms_ok b E (s\<lparr>om_group_by_intent := gi\<rparr>) = oms_ok b E s"
  "oms_ok b E (s\<lparr>om_accounted_trades := ts\<rparr>) = oms_ok b E s"
  "oms_ok b E (s\<lparr>om_market_routes := rs\<rparr>) = oms_ok b E s"
  "oms_ok b E (s\<lparr>om_portfolio_reconciliation_needed := n\<rparr>) = oms_ok b E s"
  "oms_ok b E (s\<lparr>om_next_reconciliation_due_ts_ns := u\<rparr>) = oms_ok b E s"
  "oms_ok b E (s\<lparr>om_next_reconciliation_id := u\<rparr>) = oms_ok b E s"
  "oms_ok b E (s\<lparr>om_active_reconciliation_id := u\<rparr>) = oms_ok b E s"
  "oms_ok b E (s\<lparr>om_next_oms_group_id := u\<rparr>) = oms_ok b E s"
  "oms_ok b E (s\<lparr>om_next_oms_request_id := u\<rparr>) = oms_ok b E s"
  "oms_ok b E (s\<lparr>om_defer_group_state_updates := n\<rparr>) = oms_ok b E s"
  "oms_ok b E (s\<lparr>om_ready_reported := n\<rparr>) = oms_ok b E s"
  "oms_ok b E (s\<lparr>om_execution_fault_reported := n\<rparr>) = oms_ok b E s"
  "oms_ok b E (s\<lparr>om_cancel_all_requested := n\<rparr>) = oms_ok b E s"
  "oms_ok b E (s\<lparr>om_pending_rest_egress_drained := d\<rparr>) = oms_ok b E s"
  "oms_ok b E (s\<lparr>om_intent_queues := iq\<rparr>) = oms_ok b E s"
  "oms_ok b E (s\<lparr>om_response_queues := rq\<rparr>) = oms_ok b E s"
  "oms_ok b E (s\<lparr>om_control_queue := cq\<rparr>) = oms_ok b E s"
  "oms_ok b E (s\<lparr>om_status_queue := sq\<rparr>) = oms_ok b E s"
  "oms_ok b E (s\<lparr>om_kalshi_queue := kq\<rparr>) = oms_ok b E s"
  "oms_ok b E (s\<lparr>om_venue_queues := vq\<rparr>) = oms_ok b E s"
  "oms_ok b E (s\<lparr>om_clock := ck\<rparr>) = oms_ok b E s"
  by (simp_all add: oms_ok_defs)

lemma oms_ok_emit [simp]:
  "oms_ok b E (snd (now_ns s)) = oms_ok b E s"
  "oms_ok b E (snd (take_request_id s)) = oms_ok b E s"
  "oms_ok b E (fst (send_strategy_message i m s)) = oms_ok b E s"
  "oms_ok b E (fst (send_kalshi_command c s)) = oms_ok b E s"
  "oms_ok b E (fst (send_control_status c' s)) = oms_ok b E s"
  "oms_ok b E (emit_order_state_update rid src t s) = oms_ok b E s"
  "oms_ok b E (emit_trading_enabled_changed s) = oms_ok b E s"
  "oms_ok b E (emit_telemetry s) = oms_ok b E s"
  "oms_ok b E (emit_group_admission_response g st rr t s) = oms_ok b E s"
  "oms_ok b E (emit_group_state_update gid t s) = oms_ok b E s"
  "oms_ok b E (maybe_report_execution_fault s) = oms_ok b E s"
  "oms_ok b E (upd_position i mid f s) = oms_ok b E s"
  "oms_ok b E (ensure_strategy_market_position i mid eid s) = oms_ok b E s"
  "oms_ok b E (snd (respond oc t ty rr s)) = oms_ok b E s"
  "oms_ok b E (reject_intent oc t rr s) = oms_ok b E s"
  "oms_ok b E (reject_group gi t rr s) = oms_ok b E s"
  by (rule oms_ok_core, simp add: oms_core_def)+

section \<open>Updates through references\<close>

lemma oms_ok_parts:
  assumes "om_risk s' = om_risk s" "om_execution_incident_active s' = om_execution_incident_active s"
  shows "group_ok E s' = group_ok E s" "portfolio_base s' = portfolio_base s"
  using assms by (simp_all add: group_ok_def portfolio_base_def fun_eq_iff)

lemma trading_gate_cong:
  assumes "om_risk s' = om_risk s" "om_execution_incident_active s' = om_execution_incident_active s"
    "om_trading_enabled s' = om_trading_enabled s" "om_universe s' = om_universe s" "om_venue_portfolio s' = om_venue_portfolio s"
  shows "trading_gate s' = trading_gate s"
  using assms by (simp add: trading_gate_def portfolio_ready_for_trading_def)

lemma order_ok_cong: "om_groups s' = om_groups s \<Longrightarrow> order_ok E s' = order_ok E s"
  by (simp add: order_ok_def fun_eq_iff)

lemma oms_ok_upd_group:
  assumes ok: "oms_ok b E s"
    and g: "\<And>g. find_group s gid = Some g \<Longrightarrow>
      group_ok E s gid (f g) \<and> (gid \<notin> E \<longrightarrow> in_repair g \<longrightarrow> in_repair (f g))"
  shows "oms_ok b E (upd_group gid f s)"
proof -
  have "group_ok E s gid' g'" if "find_group (upd_group gid f s) gid' = Some g'" for gid' g'
    using that ok g by (auto simp: upd_group_def oms_ok_def split: if_splits)
  moreover have "order_ok E (upd_group gid f s) r" if "order_ok E s r" for r
    using that g by (auto simp: order_ok_def upd_group_def)
  moreover have "group_ok E (upd_group gid f s) = group_ok E s" "portfolio_base (upd_group gid f s) = portfolio_base s"
    "trading_gate (upd_group gid f s) = trading_gate s"
    by (rule oms_ok_parts trading_gate_cong; simp)+
  moreover have "um_wf (om_groups (upd_group gid f s)) = um_wf (om_groups s)" by (simp add: upd_group_def)
  ultimately show ?thesis using ok unfolding oms_ok_def by (metis upd_group_frame)
qed

lemma oms_ok_upd_order:
  assumes ok: "oms_ok b E s"
    and r: "\<And>r. find_order s rid = Some r \<Longrightarrow> 0 \<le> ord_reserved_capital_ticks r \<Longrightarrow>
      0 \<le> ord_reserved_capital_ticks (f r) \<and> ord_repair_order (f r) = ord_repair_order r
      \<and> ord_oms_group_id (f r) = ord_oms_group_id r"
  shows "oms_ok b E (upd_order rid f s)"
proof -
  have "order_ok E s r'" if h: "find_order (upd_order rid f s) rid' = Some r'" for rid' r'
  proof (cases "rid' = rid")
    case True
    then obtain r0 where r0: "find_order s rid = Some r0" "r' = f r0" using h by (auto simp: upd_order_def)
    then have "order_ok E s r0" using ok by (auto simp: oms_ok_def)
    then show ?thesis using r [OF r0(1)] r0(2) by (simp add: order_ok_def)
  next
    case False
    then show ?thesis using h ok by (auto simp: upd_order_def oms_ok_def)
  qed
  moreover have "group_ok E (upd_order rid f s) = group_ok E s" "portfolio_base (upd_order rid f s) = portfolio_base s"
    "trading_gate (upd_order rid f s) = trading_gate s" "order_ok E (upd_order rid f s) = order_ok E s"
    by (rule oms_ok_parts trading_gate_cong order_ok_cong; simp)+
  ultimately show ?thesis using ok unfolding oms_ok_def by simp
qed

lemma oms_ok_upd_portfolio:
  assumes ok: "oms_ok b E s"
    and p: "\<And>p. um_find (om_portfolios s) i = Some p \<Longrightarrow> portfolio_base s p \<Longrightarrow> (b \<Longrightarrow> available_ok p) \<Longrightarrow>
      portfolio_base s (f p) \<and> (b' \<longrightarrow> available_ok (f p))"
    and bb: "b' \<Longrightarrow> b"
  shows "oms_ok b' E (upd_portfolio i f s)"
proof -
  have "portfolio_base s p \<and> (b' \<longrightarrow> available_ok p)"
    if "um_find (um_adjust i f (om_portfolios s)) j = Some p" for j p
    using that ok p bb by (auto simp: oms_ok_def split: if_splits)
  then show ?thesis
    using ok by (simp add: oms_ok_defs upd_portfolio_def)
qed

lemma oms_ok_upd_portfolio_frame:
  assumes "oms_ok b E s"
    and "\<And>p. sp_allocation_limit_ticks (f p) = sp_allocation_limit_ticks p
      \<and> sp_reserved_order_capital_ticks (f p) = sp_reserved_order_capital_ticks p
      \<and> sp_available_capital_ticks (f p) = sp_available_capital_ticks p
      \<and> sp_inventory_exposure_ticks (f p) = sp_inventory_exposure_ticks p"
  shows "oms_ok b E (upd_portfolio i f s)"
  using assms(1) by (rule oms_ok_upd_portfolio)
    (simp_all add: assms(2) portfolio_base_def available_ok_def strategy_available_def)

section \<open>Capital\<close>

lemma strategy_available_nonneg: "0 \<le> strategy_available p"
  by (simp add: strategy_available_def Let_def)

lemma venue_available_nonneg: "0 \<le> venue_available s"
  by (simp add: venue_available_def Let_def)

lemma available_ok_recomputed: "available_ok (p\<lparr>sp_available_capital_ticks := available_capital s p\<rparr>)"
  using strategy_available_nonneg [of p] venue_available_nonneg [of s]
  by (auto simp: available_ok_def available_capital_def strategy_available_def)

lemma portfolio_base_available [simp]:
  "portfolio_base s (p\<lparr>sp_available_capital_ticks := c\<rparr>) = portfolio_base s p"
  by (simp add: portfolio_base_def)

lemma oms_ok_recompute_all:
  assumes "oms_ok b E s"
  shows "oms_ok b' E (recompute_all_strategy_available_capital s)"
proof -
  have "portfolio_base s p \<and> available_ok p"
    if "um_find (om_portfolios (recompute_all_strategy_available_capital s)) i = Some p" for i p
    using that assms
    by (auto simp: recompute_all_strategy_available_capital_def um_find_map_values oms_ok_def available_ok_recomputed)
  then show ?thesis using assms by (simp add: oms_ok_defs)
qed

lemma oms_ok_recompute:
  assumes "oms_ok b E s"
  shows "oms_ok b E (recompute_strategy_available_capital i s)"
  unfolding recompute_strategy_available_capital_def
  by (rule oms_ok_upd_portfolio [OF assms]) (simp_all add: available_ok_recomputed)

lemma oms_ok_ensure_portfolio:
  assumes "oms_ok b E s"
  shows "oms_ok b E (ensure_strategy_portfolio i s)"
proof (cases "um_find (om_portfolios s) i")
  case (Some p)
  then show ?thesis using assms by (simp add: ensure_strategy_portfolio_def um_emplace_def)
next
  case None
  let ?s = "s\<lparr>om_portfolios := om_portfolios s @ [(i, new_portfolio s i)]\<rparr>"
  let ?s' = "recompute_strategy_available_capital i ?s"
  have "portfolio_base s p \<and> (b \<longrightarrow> available_ok p)" if "um_find (om_portfolios ?s') j = Some p" for j p
  proof (cases "j = i")
    case True
    then have "p = (new_portfolio s i)\<lparr>sp_available_capital_ticks := available_capital ?s (new_portfolio s i)\<rparr>"
      using that None
      by (auto simp: recompute_strategy_available_capital_def upd_portfolio_def um_find_append um_find_single split: option.splits)
    then show ?thesis
      using available_ok_recomputed [of ?s "new_portfolio s i"] by (simp add: portfolio_base_def new_portfolio_def)
  next
    case False
    then have "um_find (om_portfolios s) j = Some p"
      using that by (auto simp: recompute_strategy_available_capital_def upd_portfolio_def um_find_append um_find_single split: option.splits)
    then show ?thesis using assms by (auto simp: oms_ok_def)
  qed
  then have "oms_ok b E ?s'" using assms by (simp add: oms_ok_defs)
  then show ?thesis using None by (simp add: ensure_strategy_portfolio_def um_emplace_def)
qed

lemma oms_ok_emit_portfolio:
  assumes "oms_ok b E s"
  shows "oms_ok b E (emit_strategy_portfolio_update i t s)"
  using oms_ok_upd_portfolio_frame [OF assms, of "\<lambda>p. p\<lparr>sp_next_sequence := sp_next_sequence p + 1\<rparr>" i] assms
  by (simp add: emit_strategy_portfolio_update_def Let_def split: option.splits)

lemma oms_ok_emit_position:
  assumes "oms_ok b E s"
  shows "oms_ok b E (emit_strategy_market_position_update i mid t s)"
  using oms_ok_upd_portfolio_frame [OF oms_ok_ensure_portfolio [OF assms], of "\<lambda>p. p\<lparr>sp_next_sequence := sp_next_sequence p + 1\<rparr>"] assms
  by (simp add: emit_strategy_market_position_update_def Let_def split: option.splits)

lemmas oms_ok_intros [predex_inv] =
  oms_ok_ensure_portfolio oms_ok_emit_portfolio oms_ok_emit_position oms_ok_recompute oms_ok_recompute_all

end
