(* ===== verification/Oms_Preserve.thy ===== *)
theory Oms_Preserve
  imports Oms_Invariant
begin

text \<open>
  Every operation of the order manager keeps the invariant of \<open>Oms_Invariant\<close>: capital first, then
  fills, then the repair of groups, then the handlers.
\<close>

section \<open>Reservations\<close>

lemma unat_i64_max: "unat (to_u64 i64_max) = 9223372036854775807"
  by simp

lemma to_i64_small:
  assumes "(w :: u64) \<le> to_u64 i64_max"
  shows "to_i64 w = int (unat w)"
proof -
  have "unat w \<le> 9223372036854775807" using assms unat_i64_max by (simp add: word_le_nat_alt)
  then have "unat w < 2 ^ 63" by simp
  then show ?thesis by (rule sint_small_u64)
qed

lemma full_notional_small:
  assumes "full_notional_reservation q = Some w"
  shows "w \<le> to_u64 i64_max" "0 \<le> to_i64 w"
proof -
  define x where "x = to_u64 q * kPRICE_TICKS_PER_DOLLAR"
  have "w = x div 100 + (if x mod 100 \<noteq> 0 then 1 else (0 :: u64))"
    using assms unfolding full_notional_reservation_def kQUANTITY_LOTS_PER_CONTRACT_def Let_def x_def
    by (cases "to_u64 q * kPRICE_TICKS_PER_DOLLAR mod 100 = 0") (auto simp only: option.inject option.distinct if_True if_False not_False_eq_True split: if_splits)
  moreover have "unat (x div 100) < 184467440737095517" using unat_u64_less [of x] by (simp add: unat_div_distrib)
  ultimately have "unat w \<le> 184467440737095517"
    using unat_add_no_wrap [of "x div 100" 1] by (auto split: if_splits)
  then show "w \<le> to_u64 i64_max" by (simp add: word_le_nat_alt)
  then show "0 \<le> to_i64 w" by (simp add: to_i64_small)
qed

lemma um_adjust_adjust: "um_adjust k f (um_adjust k g m) = um_adjust k (\<lambda>v. f (g v)) m"
  by (simp add: um_adjust_def um_map_values_def case_prod_beta)

lemma strategy_available_antimono:
  assumes "sp_reserved_order_capital_ticks q \<le> sp_reserved_order_capital_ticks p"
    "sp_inventory_exposure_ticks q = sp_inventory_exposure_ticks p"
    "sp_allocation_limit_ticks q = sp_allocation_limit_ticks p" "sp_allocation_limit_ticks p \<le> i64_max"
  shows "strategy_available p \<le> strategy_available q"
  using assms unfolding strategy_available_def Let_def by (auto simp: max_def min_def)

text \<open>Changing a portfolio and recomputing its available capital.\<close>

lemma oms_ok_change_recompute:
  assumes ok: "oms_ok b E s"
    and p: "\<And>p. um_find (om_portfolios s) i = Some p \<Longrightarrow> portfolio_base s p \<Longrightarrow> (b \<Longrightarrow> available_ok p) \<Longrightarrow> portfolio_base s (f p)"
  shows "oms_ok b E (recompute_strategy_available_capital i (upd_portfolio i f s))"
proof -
  let ?s = "upd_portfolio i f s"
  have "recompute_strategy_available_capital i ?s
      = upd_portfolio i (\<lambda>p. (f p)\<lparr>sp_available_capital_ticks := available_capital ?s (f p)\<rparr>) s"
    by (simp add: recompute_strategy_available_capital_def upd_portfolio_def um_adjust_adjust)
  then show ?thesis
    using oms_ok_upd_portfolio [OF ok, where b' = b and i = i
        and f = "\<lambda>p. (f p)\<lparr>sp_available_capital_ticks := available_capital ?s (f p)\<rparr>"]
      p available_ok_recomputed by simp
qed

lemma reservation_fits:
  assumes "portfolio_base s p" "available_ok p" "r \<le> sp_available_capital_ticks p" "0 < r"
    "rk_strategy_allocation_limit_ticks (om_risk s) \<le> i64_max"
  shows "sp_reserved_order_capital_ticks p + r \<le> rk_strategy_allocation_limit_ticks (om_risk s)"
  using assms by (auto simp: portfolio_base_def available_ok_def strategy_available_def Let_def split: if_splits)

lemma oms_ok_alloc: "oms_ok b E s \<Longrightarrow> rk_strategy_allocation_limit_ticks (om_risk s) \<le> i64_max"
  by (simp add: oms_ok_def)

lemma oms_ok_portfolio:
  assumes "oms_ok b E s" "um_find (om_portfolios s) i = Some p"
  shows "portfolio_base s p" "b \<Longrightarrow> available_ok p"
  using assms by (auto simp: oms_ok_def)

lemma oms_ok_group: "oms_ok b E s \<Longrightarrow> find_group s gid = Some g \<Longrightarrow> group_ok E s gid g"
  by (simp add: oms_ok_def)

lemma oms_ok_order: "oms_ok b E s \<Longrightarrow> find_order s rid = Some r \<Longrightarrow> order_ok E s r"
  by (auto simp: oms_ok_def)

lemma oms_ok_reserve:
  assumes ok: "oms_ok True E s" and res: "reserve_group_capital g s = (g', s', okay)"
  shows "oms_ok True E s'"
    and "okay \<Longrightarrow> g' = g\<lparr>gr_capital_released := False\<rparr> \<and> gr_reserved_capital_ticks g \<le> to_u64 i64_max"
proof -
  let ?i = "ic_strategy_index (gr_context g)"
  let ?s = "ensure_strategy_portfolio ?i s"
  let ?r = "to_i64 (gr_reserved_capital_ticks g)"
  have ok1: "oms_ok True E ?s" using ok by (rule oms_ok_ensure_portfolio)
  have step: "oms_ok True E (recompute_strategy_available_capital ?i (upd_portfolio ?i
      (\<lambda>p. p\<lparr>sp_reserved_order_capital_ticks := sp_reserved_order_capital_ticks p + ?r,
             sp_active_group_count := sp_active_group_count p + 1\<rparr>) ?s))"
    if "um_find (om_portfolios ?s) ?i = Some p" "?r \<le> sp_available_capital_ticks p"
      "gr_reserved_capital_ticks g \<noteq> 0" "gr_reserved_capital_ticks g \<le> to_u64 i64_max" for p
  proof (rule oms_ok_change_recompute [OF ok1])
    fix p' assume p': "um_find (om_portfolios ?s) ?i = Some p'" "portfolio_base ?s p'" "True \<Longrightarrow> available_ok p'"
    have "?r = int (unat (gr_reserved_capital_ticks g))" using that(4) by (rule to_i64_small)
    moreover have "0 < unat (gr_reserved_capital_ticks g)" using that(3) by (simp add: unat_gt_0)
    ultimately have "0 < ?r" by linarith
    with reservation_fits [OF p'(2) p'(3) [OF TrueI] _ _ oms_ok_alloc [OF ok1], of ?r] that(1,2) p'(1,2)
    show "portfolio_base ?s (p'\<lparr>sp_reserved_order_capital_ticks := sp_reserved_order_capital_ticks p' + ?r,
        sp_active_group_count := sp_active_group_count p' + 1\<rparr>)"
      by (auto simp: portfolio_base_def)
  qed
  show "oms_ok True E s'"
    using res ok ok1 step by (auto simp: reserve_group_capital_def Let_def not_less split: if_splits option.splits)
  show "okay \<Longrightarrow> g' = g\<lparr>gr_capital_released := False\<rparr> \<and> gr_reserved_capital_ticks g \<le> to_u64 i64_max"
    using res by (auto simp: reserve_group_capital_def Let_def not_less split: if_splits option.splits)
qed

lemma release_group_capital_group:
  assumes "gr_reserved_capital_ticks g \<le> to_u64 i64_max" "oms_ok b E s"
  shows "\<exists>w \<le> to_u64 i64_max. fst (release_group_capital g s) = g\<lparr>gr_reserved_capital_ticks := w, gr_capital_released := True\<rparr>"
proof (cases "gr_capital_released g")
  case True
  then show ?thesis using assms by (intro exI [of _ "gr_reserved_capital_ticks g"]) (simp add: release_group_capital_def)
next
  case False
  let ?i = "ic_strategy_index (gr_context g)"
  define reserved where "reserved = (case um_find (om_portfolios (ensure_strategy_portfolio ?i s)) ?i of None \<Rightarrow> 0
    | Some p \<Rightarrow> sp_reserved_order_capital_ticks p)"
  have "0 \<le> reserved"
    using oms_ok_portfolio(1) [OF oms_ok_ensure_portfolio [OF assms(2)]]
    by (auto simp: reserved_def portfolio_base_def split: option.splits)
  define k where "k = nat (min reserved (to_i64 (gr_reserved_capital_ticks g)))"
  have w: "to_i64 (gr_reserved_capital_ticks g) = int (unat (gr_reserved_capital_ticks g))"
    using assms(1) by (rule to_i64_small)
  then have k: "k \<le> unat (gr_reserved_capital_ticks g)" "min reserved (to_i64 (gr_reserved_capital_ticks g)) = int k"
    using \<open>0 \<le> reserved\<close> by (simp_all only: k_def)
  have "unat (of_nat k :: u64) = k"
    using k(1) unat_u64_less [of "gr_reserved_capital_ticks g"] by (simp add: unat_of_nat)
  then have "(of_nat k :: u64) \<le> gr_reserved_capital_ticks g" using k(1) by (simp add: word_le_nat_alt)
  then have "gr_reserved_capital_ticks g - of_nat k \<le> gr_reserved_capital_ticks g" by (simp add: word_le_nat_alt unat_sub)
  then have "gr_reserved_capital_ticks g - of_nat k \<le> to_u64 i64_max" using assms(1) by (rule order_trans)
  moreover have "fst (release_group_capital g s)
      = g\<lparr>gr_reserved_capital_ticks := gr_reserved_capital_ticks g - of_nat k, gr_capital_released := True\<rparr>"
    using False k(2) by (simp add: release_group_capital_def Let_def case_prod_beta flip: reserved_def)
  ultimately show ?thesis by blast
qed

lemma oms_ok_release_group_capital:
  assumes "oms_ok b E s" "gr_reserved_capital_ticks g \<le> to_u64 i64_max"
  shows "oms_ok b E (snd (release_group_capital g s))"
proof -
  let ?i = "ic_strategy_index (gr_context g)"
  let ?s = "ensure_strategy_portfolio ?i s"
  let ?res = "case um_find (om_portfolios ?s) ?i of None \<Rightarrow> 0 | Some p \<Rightarrow> sp_reserved_order_capital_ticks p"
  let ?rel = "min ?res (to_i64 (gr_reserved_capital_ticks g))"
  have "oms_ok b E (recompute_strategy_available_capital ?i (upd_portfolio ?i
      (\<lambda>p. p\<lparr>sp_reserved_order_capital_ticks := sp_reserved_order_capital_ticks p - ?rel,
             sp_active_group_count := (if sp_active_group_count p > 0 then sp_active_group_count p - 1 else sp_active_group_count p)\<rparr>) ?s))"
    using oms_ok_ensure_portfolio [OF assms(1), of ?i]
    by (rule oms_ok_change_recompute) (use to_i64_small [OF assms(2)] in \<open>simp only: portfolio_base_def, simp, linarith\<close>)
  then show ?thesis
    using assms(1) by (auto simp add: release_group_capital_def Let_def case_prod_beta intro!: oms_ok_emit_portfolio)
qed

lemma oms_ok_release_order:
  assumes "oms_ok b E s" "0 \<le> released"
    "\<And>r. find_order s rid = Some r \<Longrightarrow> released \<le> ord_reserved_capital_ticks r"
  shows "oms_ok b E (release_order_reservation rid i gid released s)"
proof -
  let ?s1 = "upd_order rid (\<lambda>r. r\<lparr>ord_reserved_capital_ticks := ord_reserved_capital_ticks r - released\<rparr>) s"
  let ?s2 = "upd_portfolio i (\<lambda>p. p\<lparr>sp_reserved_order_capital_ticks :=
                 sp_reserved_order_capital_ticks p - min (sp_reserved_order_capital_ticks p) released\<rparr>) ?s1"
  have 1: "oms_ok b E ?s1" using assms(1) by (rule oms_ok_upd_order) (auto simp: assms(3))
  have 2: "oms_ok b E ?s2" using 1
  proof (rule oms_ok_upd_portfolio)
    fix p assume p: "um_find (om_portfolios ?s1) i = Some p" "portfolio_base ?s1 p" "b \<Longrightarrow> available_ok p"
    let ?p = "p\<lparr>sp_reserved_order_capital_ticks := sp_reserved_order_capital_ticks p - min (sp_reserved_order_capital_ticks p) released\<rparr>"
    have "portfolio_base ?s1 ?p" using p(2) assms(2) by (auto simp: portfolio_base_def)
    moreover have "available_ok ?p" if b
    proof -
      have "strategy_available p \<le> strategy_available ?p"
        using p(2) assms(2) oms_ok_alloc [OF 1] by (intro strategy_available_antimono) (auto simp: portfolio_base_def)
      then show ?thesis using p(3) [OF that] by (auto simp: available_ok_def)
    qed
    ultimately show "portfolio_base ?s1 ?p \<and> (b \<longrightarrow> available_ok ?p)" by blast
  qed
  show ?thesis
    unfolding release_order_reservation_def Let_def
  proof (rule oms_ok_upd_group [OF 2], goal_cases)
    case (1 g)
    then have "group_ok E ?s2 gid g" by (rule oms_ok_group [OF 2])
    moreover have "gr_reserved_capital_ticks g - min (gr_reserved_capital_ticks g) (to_u64 released) \<le> gr_reserved_capital_ticks g"
      by (simp add: word_le_nat_alt unat_sub min_def)
    ultimately show ?case by (auto simp: group_ok_def in_repair_def)
  qed
qed

end
