(* ===== verification/Oms_Repair_Invariant.thy ===== *)
theory Oms_Repair_Invariant
  imports Oms_Preserve
begin

text \<open>
  Accounting and repair keep the invariant of \<open>Oms_Invariant\<close>: fills, terminal orders, venue positions,
  the execution incident latch, and every branch of the repair of a group.
\<close>

section \<open>Rules for case distinctions and updates\<close>

lemma oms_ok_if: "(c \<Longrightarrow> oms_ok b E s) \<Longrightarrow> (\<not> c \<Longrightarrow> oms_ok b E s') \<Longrightarrow> oms_ok b E (if c then s else s')"
  by simp

lemma oms_ok_option:
  "(x = None \<Longrightarrow> oms_ok b E s) \<Longrightarrow> (\<And>v. x = Some v \<Longrightarrow> oms_ok b E (f v)) \<Longrightarrow>
   oms_ok b E (case x of None \<Rightarrow> s | Some v \<Rightarrow> f v)"
  by (cases x) simp_all

lemma oms_ok_prod: "(\<And>a c. x = (a, c) \<Longrightarrow> oms_ok b E (f a c)) \<Longrightarrow> oms_ok b E (case x of (a, c) \<Rightarrow> f a c)"
  by (cases x) simp

lemma oms_ok_fold: "oms_ok b E s \<Longrightarrow> (\<And>x s. x \<in> set xs \<Longrightarrow> oms_ok b E s \<Longrightarrow> oms_ok b E (f x s)) \<Longrightarrow> oms_ok b E (fold f xs s)"
  by (induction xs arbitrary: s) auto

lemmas oms_ok_cases = oms_ok_if oms_ok_option oms_ok_prod

lemma oms_ok_upd_order_keep:
  assumes "oms_ok b E s"
    and "\<And>r. ord_reserved_capital_ticks (f r) = ord_reserved_capital_ticks r"
    and "\<And>r. ord_repair_order (f r) = ord_repair_order r"
    and "\<And>r. ord_oms_group_id (f r) = ord_oms_group_id r"
  shows "oms_ok b E (upd_order rid f s)"
  using assms by (intro oms_ok_upd_order) simp_all

lemma oms_ok_upd_group_keep:
  assumes ok: "oms_ok b E s"
    and id: "\<And>g. gr_oms_group_id (f g) = gr_oms_group_id g"
    and res: "\<And>g. gr_reserved_capital_ticks (f g) = gr_reserved_capital_ticks g"
    and can: "\<And>g. gr_cancel_attempt_count (f g) = gr_cancel_attempt_count g"
    and rep: "\<And>g. gr_repair_attempt_count (f g) = gr_repair_attempt_count g"
    and rel: "\<And>g. gr_capital_released (f g) = gr_capital_released g"
    and st: "\<And>g. find_group s gid = Some g \<Longrightarrow> gid \<in> E \<or> gr_execution_state (f g) = gr_execution_state g
      \<or> (needs_repair (gr_execution_state (f g)) \<and> om_execution_incident_active s)
      \<or> (\<not> in_repair g \<and> \<not> needs_repair (gr_execution_state (f g)))"
  shows "oms_ok b E (upd_group gid f s)"
proof (rule oms_ok_upd_group [OF ok])
  fix g assume g: "find_group s gid = Some g"
  show "group_ok E s gid (f g) \<and> (gid \<notin> E \<longrightarrow> in_repair g \<longrightarrow> in_repair (f g))"
    using st [OF g] oms_ok_group [OF ok g] by (auto simp: group_ok_def in_repair_def id res can rep rel)
qed

lemma oms_ok_set_uncertain [simp]:
  assumes "oms_ok b E s"
  shows "oms_ok b E (set_uncertain gid u s)"
  unfolding set_uncertain_def using assms by (rule oms_ok_upd_group_keep) simp_all

section \<open>Accounting\<close>

lemma oms_ok_account_terminal_order:
  assumes "oms_ok b E s"
  shows "oms_ok b E (account_terminal_order rid t s)"
proof (cases "find_order s rid")
  case None
  then show ?thesis using assms by (simp add: account_terminal_order_def)
next
  case (Some r)
  show ?thesis
  proof (cases "\<not> is_terminal (ord_order_state r) \<or> ord_terminal_accounted r")
    case True
    then show ?thesis using assms Some by (simp add: account_terminal_order_def)
  next
    case False
    let ?i = "ic_strategy_index (oc_context (ord_context r))"
    let ?s1 = "ensure_strategy_portfolio ?i (upd_order rid (\<lambda>r. r\<lparr>ord_terminal_accounted := True\<rparr>) s)"
    let ?s2 = "upd_portfolio ?i (\<lambda>p. p\<lparr>sp_open_order_count :=
        (if sp_open_order_count p > 0 then sp_open_order_count p - 1 else sp_open_order_count p)\<rparr>) ?s1"
    let ?res = "case um_find (om_portfolios ?s2) ?i of None \<Rightarrow> 0 | Some p \<Rightarrow> sp_reserved_order_capital_ticks p"
    have s2: "oms_ok b E ?s2"
      using assms by (intro oms_ok_upd_portfolio_frame oms_ok_ensure_portfolio oms_ok_upd_order_keep) simp_all
    have "0 \<le> ?res" using oms_ok_portfolio(1) [OF s2] by (auto simp: portfolio_base_def split: option.splits)
    moreover have "find_order ?s2 rid = Some (r\<lparr>ord_terminal_accounted := True\<rparr>)"
      using Some by (simp add: upd_order_def)
    ultimately have s3: "ord_reserved_capital_ticks r > 0 \<Longrightarrow>
        oms_ok b E (release_order_reservation rid ?i (ord_oms_group_id r) (min ?res (ord_reserved_capital_ticks r)) ?s2)"
      by (intro oms_ok_release_order [OF s2]) auto
    show ?thesis
      using False Some s2 s3
      by (auto simp: account_terminal_order_def Let_def intro!: oms_ok_emit_portfolio oms_ok_recompute_all)
  qed
qed

lemma oms_ok_inventory:
  assumes "oms_ok b E s"
    and "\<And>p. sp_allocation_limit_ticks (f p) = sp_allocation_limit_ticks p"
    and "\<And>p. sp_reserved_order_capital_ticks (f p) = sp_reserved_order_capital_ticks p"
  shows "oms_ok False E (upd_portfolio i f s)"
  using assms(1) by (rule oms_ok_upd_portfolio) (simp_all add: assms(2,3) portfolio_base_def)

lemma oms_ok_apply_venue_market_position:
  assumes "oms_ok b E s"
  shows "oms_ok b E (apply_venue_market_position p t s)"
proof -
  let ?s = "ensure_strategy_portfolio 0 (ensure_strategy_market_position 0 (vmp_market_id p) (vmp_event_id p)
    (s\<lparr>om_venue_positions := um_assign (vmp_market_id p) p (om_venue_positions s)\<rparr>))"
  have ok: "oms_ok b E ?s" using assms by (intro oms_ok_ensure_portfolio) simp
  have "oms_ok b E (emit_strategy_portfolio_update 0 t (emit_strategy_market_position_update 0 (vmp_market_id p) t
      (recompute_all_strategy_available_capital (upd_portfolio 0 f (upd_position 0 (vmp_market_id p) g ?s)))))"
    if "\<And>q. sp_allocation_limit_ticks (f q) = sp_allocation_limit_ticks q"
      "\<And>q. sp_reserved_order_capital_ticks (f q) = sp_reserved_order_capital_ticks q" for f g
    using that ok by (intro oms_ok_emit_portfolio oms_ok_emit_position oms_ok_recompute_all [where b = False] oms_ok_inventory [where b = b]) simp_all
  with ok assms show ?thesis
    by (auto simp: apply_venue_market_position_def Let_def split: option.split)
qed

lemma oms_ok_add_residual:
  assumes "oms_ok b E s"
  shows "oms_ok b E (upd_group gid (add_residual leg d) s)"
  using assms by (rule oms_ok_upd_group_keep) (simp_all add: add_residual_def Let_def)

lemma oms_ok_account_fill:
  assumes ok: "oms_ok b E s"
  shows "oms_ok b E (account_fill rid event s)"
proof (cases "find_order s rid")
  case None
  then show ?thesis using ok by (simp add: account_fill_def)
next
  case (Some r)
  let ?i = "ic_strategy_index (oc_context (ord_context r))"
  let ?gid = "ord_oms_group_id r"
  define s1 where "s1 d = (case find_group s ?gid of None \<Rightarrow> s
     | Some g \<Rightarrow> if ord_group_leg_index r < gr_leg_count g
                 then upd_group ?gid (add_residual (unat (ord_group_leg_index r)) d) s else s)" for d
  define s2 where "s2 d = ensure_strategy_portfolio ?i
     (ensure_strategy_market_position ?i (ord_market_id r) (ic_event_id (oc_context (ord_context r))) (s1 d))" for d
  have ok1: "oms_ok b E (s1 d)" for d using ok by (auto simp: s1_def intro: oms_ok_add_residual split: option.split)
  then have ok2: "oms_ok b E (s2 d)" for d by (simp add: s2_def oms_ok_ensure_portfolio)
  have orders: "om_orders (s2 d) = om_orders s" for d by (simp add: s2_def s1_def split: option.split)
  have ok4: "oms_ok False E (upd_portfolio ?i f (upd_position ?i mid g (s2 d)))"
    if "\<And>q. sp_allocation_limit_ticks (f q) = sp_allocation_limit_ticks q"
      "\<And>q. sp_reserved_order_capital_ticks (f q) = sp_reserved_order_capital_ticks q" for f g d mid
    using ok2 [of d] that by (intro oms_ok_inventory [where b = b]) simp_all
  have "0 \<le> ord_reserved_capital_ticks r" using oms_ok_order [OF ok Some] by (simp add: order_ok_def)
  then have ok5: "oms_ok False E (release_order_reservation rid ?i ?gid (min (ord_reserved_capital_ticks r) (to_i64 w))
      (upd_portfolio ?i f (upd_position ?i mid g (s2 d))))"
    if "full_notional_reservation q = Some w" "\<And>q. sp_allocation_limit_ticks (f q) = sp_allocation_limit_ticks q"
      "\<And>q. sp_reserved_order_capital_ticks (f q) = sp_reserved_order_capital_ticks q" for q w f g d mid
    using ok4 [OF that(2,3)] full_notional_small(2) [OF that(1)] Some orders
    by (intro oms_ok_release_order) auto
  have tail: "oms_ok b E ((emit_strategy_portfolio_update i t (emit_strategy_market_position_update i mid t
      (recompute_all_strategy_available_capital s5)))\<lparr>om_portfolio_reconciliation_needed := x\<rparr>)"
    if "oms_ok False E s5" for s5 i t mid x
    unfolding oms_ok_update using that by (intro oms_ok_emit_portfolio oms_ok_emit_position oms_ok_recompute_all)
  show ?thesis
    unfolding account_fill_def Some option.case Let_def s1_def [symmetric] s2_def [symmetric]
    by (intro oms_ok_cases ok ok2 tail ok4 ok5; (assumption | simp))
qed

section \<open>The incident latch\<close>

lemma oms_ok_latch:
  assumes "oms_ok b E s"
  shows "oms_ok b E (latch_execution_incident s)"
  using assms by (auto simp: latch_execution_incident_def Let_def oms_ok_defs)

lemma latch_execution_incident_simps [simp]:
  "om_execution_incident_active (latch_execution_incident s)"
  "\<not> om_trading_enabled (latch_execution_incident s)"
  "om_groups (latch_execution_incident s) = om_groups s"
  "om_orders (latch_execution_incident s) = om_orders s"
  "om_risk (latch_execution_incident s) = om_risk s"
  by (simp_all add: latch_execution_incident_def Let_def)

text \<open>Once the incident is latched, or a group counts as repaired, its exemption can be dropped.\<close>

lemma oms_ok_unexempt:
  assumes ok: "oms_ok b {gid} s"
    and g: "\<And>g. find_group s gid = Some g \<Longrightarrow> in_repair g \<and> (needs_repair (gr_execution_state g) \<longrightarrow> om_execution_incident_active s)"
  shows "oms_ok b {} s"
  using ok g unfolding oms_ok_def group_ok_def order_ok_def by (auto 0 4)

lemma oms_ok_refresh:
  assumes ok: "oms_ok b {} s"
  shows "oms_ok b {} (refresh_execution_incident_latch s)"
proof -
  let ?active = "list_ex (\<lambda>(_, g). needs_repair (gr_execution_state g)) (om_groups s)"
  have wf: "um_wf (om_groups s)" using ok by (simp add: oms_ok_def)
  have "om_execution_incident_active s" if a: ?active
  proof -
    obtain gid g where "(gid, g) \<in> set (om_groups s)" "needs_repair (gr_execution_state g)"
      using a by (auto simp: list_ex_iff)
    then show ?thesis using oms_ok_group [OF ok um_find_eq [OF wf]] by (auto simp: group_ok_def)
  qed
  moreover have "?active" if "find_group s gid = Some g" "needs_repair (gr_execution_state g)" for gid g
    using that um_find_in_set by (fastforce simp: list_ex_iff)
  ultimately show ?thesis
    using ok by (auto simp: refresh_execution_incident_latch_def Let_def oms_ok_defs)
qed

lemma oms_ok_fail_group_repair:
  assumes "oms_ok b {} s" "om_execution_incident_active s"
  shows "oms_ok b {} (fail_group_repair gid reason t s)"
  using assms unfolding fail_group_repair_def Let_def
  by (intro oms_ok_cases) (auto simp: needs_repair_def intro!: oms_ok_latch oms_ok_upd_group_keep)

section \<open>Cancelling\<close>

lemma oms_ok_emit_cancel:
  assumes "oms_ok b E s"
  shows "oms_ok b E (fst (emit_cancel_command_for_record rid c command t s))"
  using assms
  by (auto simp: emit_cancel_command_for_record_def Let_def case_prod_beta split: option.split
      intro!: oms_ok_upd_order_keep)

lemma emit_cancel_frame [simp]:
  "om_groups (fst (emit_cancel_command_for_record rid c command t s)) = om_groups s"
  "om_risk (fst (emit_cancel_command_for_record rid c command t s)) = om_risk s"
  "om_execution_incident_active (fst (emit_cancel_command_for_record rid c command t s)) = om_execution_incident_active s"
  by (simp_all add: emit_cancel_command_for_record_def Let_def case_prod_beta split: option.split)

lemma oms_ok_cancel_each:
  assumes "oms_ok b E s"
  shows "oms_ok b E (fst (cancel_each contexts t rids s))"
  using assms by (induction rids arbitrary: s) (simp_all add: Let_def case_prod_beta oms_ok_emit_cancel)

lemma cancel_each_frame [simp]:
  "om_groups (fst (cancel_each contexts t rids s)) = om_groups s"
  "om_risk (fst (cancel_each contexts t rids s)) = om_risk s"
  "om_execution_incident_active (fst (cancel_each contexts t rids s)) = om_execution_incident_active s"
  by (induction rids arbitrary: s) (simp_all add: Let_def case_prod_beta)

text \<open>Counting an attempt that is still allowed.\<close>

lemma oms_ok_count_attempt:
  assumes ok: "oms_ok b E s"
    and g: "\<And>g. find_group s gid = Some g \<Longrightarrow> gr_cancel_attempt_count g < rk_maximum_group_repair_attempts (om_risk s)"
  shows "oms_ok b E (upd_group gid (\<lambda>g. g\<lparr>gr_cancel_attempt_count := gr_cancel_attempt_count g + 1\<rparr>) s)"
  using ok
proof (rule oms_ok_upd_group)
  fix g assume "find_group s gid = Some g"
  from oms_ok_group [OF ok this] inc_le [OF g [OF this]]
  show "group_ok E s gid (g\<lparr>gr_cancel_attempt_count := gr_cancel_attempt_count g + 1\<rparr>)
      \<and> (gid \<notin> E \<longrightarrow> in_repair g \<longrightarrow> in_repair (g\<lparr>gr_cancel_attempt_count := gr_cancel_attempt_count g + 1\<rparr>))"
    by (simp add: group_ok_def in_repair_def)
qed

lemma oms_ok_count_repair:
  assumes ok: "oms_ok b E s"
    and g: "\<And>g. find_group s gid = Some g \<Longrightarrow> gr_repair_attempt_count g < rk_maximum_group_repair_attempts (om_risk s)"
  shows "oms_ok b E (upd_group gid (\<lambda>g. g\<lparr>gr_repair_attempt_count := gr_repair_attempt_count g + 1\<rparr>) s)"
  using ok
proof (rule oms_ok_upd_group)
  fix g assume "find_group s gid = Some g"
  from oms_ok_group [OF ok this] inc_le [OF g [OF this]]
  show "group_ok E s gid (g\<lparr>gr_repair_attempt_count := gr_repair_attempt_count g + 1\<rparr>)
      \<and> (gid \<notin> E \<longrightarrow> in_repair g \<longrightarrow> in_repair (g\<lparr>gr_repair_attempt_count := gr_repair_attempt_count g + 1\<rparr>))"
    by (simp add: group_ok_def in_repair_def)
qed

section \<open>Repair\<close>

lemma oms_ok_cancel_remainder:
  assumes ok: "oms_ok b {} s" and act: "om_execution_incident_active s" and g: "find_group s gid = Some g"
  shows "oms_ok b {} (cancel_remainder gid t cancelable g s)"
proof (cases "gr_cancel_attempt_count g \<ge> rk_maximum_group_repair_attempts (om_risk s)")
  case True
  have "oms_ok b {} (upd_group gid (\<lambda>g. g\<lparr>gr_execution_state := GES_kUNCERTAIN, gr_last_update_ts_ns := t\<rparr>) s)"
    using ok by (rule oms_ok_upd_group_keep) (simp_all add: act needs_repair_def)
  then show ?thesis
    using True oms_ok_fail_group_repair [OF ok act] by (simp add: cancel_remainder_def)
next
  case False
  let ?c = "cancel_each (\<lambda>_. gr_context g) t cancelable s"
  let ?f = "\<lambda>g. g\<lparr>gr_execution_state := (if gr_venue_state_uncertain g then GES_kUNCERTAIN else GES_kCANCELING_REMAINDER),
     gr_last_update_ts_ns := t\<rparr>"
  define s2 where "s2 = (if snd ?c \<noteq> length cancelable then set_uncertain gid True (fst ?c) else fst ?c)"
  define s3 where "s3 = (if snd ?c > 0
     then count (\<lambda>t. t\<lparr>ots_group_repair_commands_sent := ots_group_repair_commands_sent t + of_nat (snd ?c)\<rparr>)
            (upd_group gid (\<lambda>g. g\<lparr>gr_cancel_attempt_count := gr_cancel_attempt_count g + 1\<rparr>) s2)
     else s2)"
  have 2: "oms_ok b {} s2" using ok by (simp add: s2_def oms_ok_cancel_each)
  have "gr_cancel_attempt_count g' < rk_maximum_group_repair_attempts (om_risk s2)" if "find_group s2 gid = Some g'" for g'
    using that False g by (auto simp: s2_def set_uncertain_def upd_group_def split: if_splits)
  from oms_ok_count_attempt [OF 2 this] 2 have 3: "oms_ok b {} s3" by (simp add: s3_def)
  have "om_execution_incident_active s3" using act by (simp add: s3_def s2_def)
  then have 4: "oms_ok b {} (upd_group gid ?f s3)"
    by (intro oms_ok_upd_group_keep [OF 3]) (simp_all add: needs_repair_def)
  have 0: "oms_ok b {} (upd_group gid (\<lambda>g. g\<lparr>gr_execution_state :=
      (if gr_venue_state_uncertain g then GES_kUNCERTAIN else GES_kREPAIR_REQUIRED)\<rparr>) s)"
    using ok by (rule oms_ok_upd_group_keep) (simp_all add: act needs_repair_def)
  show ?thesis
    unfolding cancel_remainder_def Let_def case_prod_beta s2_def [symmetric] s3_def [symmetric]
    using False 0 4 by (intro oms_ok_cases) simp_all
qed

lemma oms_ok_release_stored:
  assumes ok: "oms_ok b E s"
  shows "oms_ok b E (release_stored_group gid s)"
proof (cases "find_group s gid")
  case None
  then show ?thesis using ok by (simp add: release_stored_group_def)
next
  case (Some g)
  have gok: "group_ok E s gid g" using ok Some by (rule oms_ok_group)
  then obtain w where w: "w \<le> to_u64 i64_max"
    "fst (release_group_capital g s) = g\<lparr>gr_reserved_capital_ticks := w, gr_capital_released := True\<rparr>"
    using release_group_capital_group [OF _ ok] by (auto simp: group_ok_def)
  have ok': "oms_ok b E (snd (release_group_capital g s))"
    using gok by (intro oms_ok_release_group_capital [OF ok]) (simp add: group_ok_def)
  show ?thesis
    using oms_ok_upd_group [OF ok', of gid "\<lambda>_. fst (release_group_capital g s)"] gok w Some
    by (simp add: release_stored_group_def case_prod_beta group_ok_def in_repair_def)
qed

lemma release_stored_group_found:
  assumes "oms_ok b E s" "find_group (release_stored_group gid s) gid = Some g'"
  shows "gr_capital_released g' \<and> (\<exists>g. find_group s gid = Some g \<and> gr_execution_state g' = gr_execution_state g)"
proof -
  obtain g where g: "find_group s gid = Some g"
    using assms(2) by (cases "find_group s gid") (simp_all add: release_stored_group_def)
  then obtain w where "fst (release_group_capital g s) = g\<lparr>gr_reserved_capital_ticks := w, gr_capital_released := True\<rparr>"
    using release_group_capital_group [OF _ assms(1)] oms_ok_group [OF assms(1) g] by (auto simp: group_ok_def)
  moreover have "g' = fst (release_group_capital g s)"
    using assms(2) g by (simp add: release_stored_group_def case_prod_beta upd_group_def)
  ultimately show ?thesis using g by simp
qed

text \<open>A group ends: it leaves the states under repair and its capital is released.\<close>

lemma oms_ok_close_group:
  assumes ok: "oms_ok b {} s"
    and "\<And>g. gr_oms_group_id (f g) = gr_oms_group_id g"
    and "\<And>g. gr_reserved_capital_ticks (f g) = gr_reserved_capital_ticks g"
    and "\<And>g. gr_cancel_attempt_count (f g) = gr_cancel_attempt_count g"
    and "\<And>g. gr_repair_attempt_count (f g) = gr_repair_attempt_count g"
    and "\<And>g. gr_capital_released (f g) = gr_capital_released g"
    and st: "\<And>g. \<not> needs_repair (gr_execution_state (f g))"
  shows "oms_ok b {} (release_stored_group gid (upd_group gid f s))"
proof -
  have "oms_ok b {gid} s" using ok by (rule oms_ok_weaken) simp_all
  then have 1: "oms_ok b {gid} (upd_group gid f s)" using assms(2-6) by (rule oms_ok_upd_group_keep) simp
  show ?thesis
  proof (rule oms_ok_unexempt [OF oms_ok_release_stored [OF 1]])
    fix g assume g: "find_group (release_stored_group gid (upd_group gid f s)) gid = Some g"
    have "gr_capital_released g" "\<not> needs_repair (gr_execution_state g)"
      using release_stored_group_found [OF 1 g] st by (auto simp: upd_group_def)
    then show "in_repair g \<and> (needs_repair (gr_execution_state g) \<longrightarrow>
        om_execution_incident_active (release_stored_group gid (upd_group gid f s)))"
      by (simp add: in_repair_def)
  qed
qed

lemma oms_ok_finish_repair:
  assumes "oms_ok b {} s"
  shows "oms_ok b {} (finish_repair gid t g s)"
  unfolding finish_repair_def Let_def
  by (auto intro!: oms_ok_refresh oms_ok_close_group [OF assms] simp: needs_repair_def)

lemma oms_ok_conclude_group:
  assumes "oms_ok b {} s" "\<not> needs_repair st"
  shows "oms_ok b {} (conclude_group gid st t s)"
  unfolding conclude_group_def by (simp add: oms_ok_close_group assms)

lemma oms_ok_insert_order:
  assumes ok: "oms_ok b E s" and r: "order_ok E s r"
  shows "oms_ok b E (s\<lparr>om_orders := fst (um_emplace rid r (om_orders s)), om_order_by_client := cs\<rparr>)"
proof -
  let ?s = "s\<lparr>om_orders := fst (um_emplace rid r (om_orders s)), om_order_by_client := cs\<rparr>"
  have "order_ok E s r'" if "find_order ?s rid' = Some r'" for rid' r'
    using that oms_ok_order [OF ok] r by (auto simp: um.find_emplace split: if_splits option.splits)
  then show ?thesis using ok by (auto simp: oms_ok_defs)
qed

lemma oms_ok_erase_order:
  assumes ok: "oms_ok b E s"
  shows "oms_ok b E (s\<lparr>om_order_by_client := cs, om_orders := um_erase rid (om_orders s)\<rparr>)"
  using ok by (auto simp: oms_ok_defs um.find_erase split: if_splits)

lemma submit_repair_order_frame [simp]:
  "om_risk (fst (submit_repair_order gid t i sent g s)) = om_risk s"
  "om_execution_incident_active (fst (submit_repair_order gid t i sent g s)) = om_execution_incident_active s"
  by (simp_all add: submit_repair_order_def Let_def case_prod_beta split: option.split)

text \<open>Sending a repair order does not change the parts of the group that the invariant speaks of.\<close>

definition same_repair :: "group_record option \<Rightarrow> group_record option \<Rightarrow> bool" where
  "same_repair g g' \<longleftrightarrow> map_option (\<lambda>g. (gr_execution_state g, gr_capital_released g, gr_repair_attempt_count g)) g
     = map_option (\<lambda>g. (gr_execution_state g, gr_capital_released g, gr_repair_attempt_count g)) g'"

lemma submit_repair_order_same:
  "same_repair (find_group (fst (submit_repair_order gid t i sent g s)) gid) (find_group s gid)"
  by (cases "find_group s gid")
    (simp_all add: same_repair_def submit_repair_order_def set_uncertain_def upd_group_def Let_def case_prod_beta split: option.split)

lemma oms_ok_submit_repair_order:
  assumes ok: "oms_ok b E s" and g: "find_group s gid = Some g" and rep: "in_repair g"
  shows "oms_ok b E (fst (submit_repair_order gid t i sent g s))"
proof -
  have id: "gr_oms_group_id g = gid" using oms_ok_group [OF ok g] by (simp add: group_ok_def)
  let ?s1 = "snd (take_request_id s)"
  have ins: "oms_ok b E (upd_group gid f (?s1\<lparr>om_orders := fst (um_emplace rid r (om_orders s)), om_order_by_client := cs\<rparr>))"
    if "ord_reserved_capital_ticks r = 0" "ord_oms_group_id r = gid"
      "f = (\<lambda>g. g\<lparr>gr_active_repair_request_ids := h g\<rparr>)" for rid r cs f h
  proof -
    have "order_ok E ?s1 r" using g rep that by (simp add: order_ok_def)
    then have "oms_ok b E (?s1\<lparr>om_orders := fst (um_emplace rid r (om_orders s)), om_order_by_client := cs\<rparr>)"
      using oms_ok_insert_order [of b E ?s1 r, where rid = rid and cs = cs] ok by simp
    then show ?thesis unfolding that(3) by (rule oms_ok_upd_group_keep) simp_all
  qed
  have del: "oms_ok b E (upd_group gid f (s'\<lparr>om_order_by_client := cs, om_orders := um_erase rid ms\<rparr>))"
    if "oms_ok b E s'" "f = (\<lambda>g. g\<lparr>gr_active_repair_request_ids := h g, gr_venue_state_uncertain := u\<rparr>)" "ms = om_orders s'" for s' f cs rid h u ms
    unfolding that(2,3) using that(1) by (intro oms_ok_upd_group_keep oms_ok_erase_order) simp_all
  have rid: "ord_reserved_capital_ticks (make_order_record c cid noi mid) = 0" for c cid noi mid
    by (simp add: make_order_record_def)
  show ?thesis
    unfolding submit_repair_order_def Let_def
    by (auto simp: case_prod_beta ok id rid split: option.split intro!: ins del)
qed

lemma submit_repair_orders_keep:
  assumes "oms_ok b E s" "find_group s gid = Some g" "in_repair g"
  shows "oms_ok b E (fst (submit_repair_orders gid t is n s))
    \<and> same_repair (find_group (fst (submit_repair_orders gid t is n s)) gid) (Some g)
    \<and> om_risk (fst (submit_repair_orders gid t is n s)) = om_risk s
    \<and> om_execution_incident_active (fst (submit_repair_orders gid t is n s)) = om_execution_incident_active s"
  using assms
proof (induction "is" arbitrary: n s g)
  case Nil
  then show ?case by (simp add: same_repair_def)
next
  case (Cons i "is")
  let ?s1 = "fst (submit_repair_order gid t i (n > 0) g s)"
  have ok1: "oms_ok b E ?s1" using Cons.prems by (rule oms_ok_submit_repair_order)
  have same: "same_repair (find_group ?s1 gid) (Some g)" using submit_repair_order_same Cons.prems(2) by metis
  then obtain g1 where g1: "find_group ?s1 gid = Some g1" "in_repair g1"
    using Cons.prems(3) by (auto simp: same_repair_def in_repair_def)
  show ?case
    using Cons.IH [OF ok1 g1, of "Suc n"] Cons.IH [OF Cons.prems, of n] Cons.prems ok1 same g1
    by (auto simp: case_prod_beta same_repair_def)
qed

lemma oms_ok_unwind:
  assumes ok: "oms_ok b {} s" and act: "om_execution_incident_active s" and g: "find_group s gid = Some g"
    and rep: "in_repair g" and lim: "gr_repair_attempt_count g < rk_maximum_group_repair_attempts (om_risk s)"
  shows "oms_ok b {} (unwind gid t g s)"
proof -
  let ?c = "submit_repair_orders gid t [0..<unat (gr_leg_count g)] 0 s"
  let ?s1 = "fst ?c"
  have 1: "oms_ok b {} ?s1" and same: "same_repair (find_group ?s1 gid) (Some g)"
    and r1: "om_risk ?s1 = om_risk s" and a1: "om_execution_incident_active ?s1"
    using submit_repair_orders_keep [OF ok g rep, of t "[0..<unat (gr_leg_count g)]" 0] act by auto
  have state: "oms_ok b {} (upd_group gid (\<lambda>g. g\<lparr>gr_execution_state := st, gr_last_update_ts_ns := t\<rparr>) s')"
    if "oms_ok b {} s'" "om_execution_incident_active s'" "needs_repair st" for s' st
    using that by (intro oms_ok_upd_group_keep) simp_all
  have unc: "oms_ok b {} (upd_group gid (\<lambda>g. g\<lparr>gr_execution_state := GES_kUNCERTAIN,
      gr_failure_reason := GFR_kVENUE_STATE_UNCERTAIN, gr_last_update_ts_ns := t\<rparr>) ?s1)"
    using 1 a1 by (intro oms_ok_upd_group_keep) (simp_all add: needs_repair_def)
  have full: "oms_ok b {} (upd_group gid (\<lambda>g. g\<lparr>gr_execution_state := GES_kREPAIR_REQUIRED\<rparr>) s)"
    using ok act by (intro oms_ok_upd_group_keep) (simp_all add: needs_repair_def)
  define s2 where "s2 = count (\<lambda>t. t\<lparr>ots_group_repair_attempts := ots_group_repair_attempts t + 1,
      ots_group_repair_commands_sent := ots_group_repair_commands_sent t + of_nat (snd ?c)\<rparr>)
      (upd_group gid (\<lambda>g. g\<lparr>gr_repair_attempt_count := gr_repair_attempt_count g + 1\<rparr>) ?s1)"
  have "oms_ok b {} s2"
    using same lim r1 oms_ok_count_repair [OF 1, of gid] by (auto simp: s2_def same_repair_def)
  moreover have "om_execution_incident_active s2" using a1 by (simp add: s2_def)
  ultimately have 4: "oms_ok b {} (upd_group gid (\<lambda>g. g\<lparr>gr_execution_state := GES_kUNWINDING, gr_last_update_ts_ns := t\<rparr>)
      (upd_portfolio i (\<lambda>p. p\<lparr>sp_open_order_count := sp_open_order_count p + of_nat n\<rparr>) (ensure_strategy_portfolio i s2)))" for i n
    by (intro state oms_ok_upd_portfolio_frame oms_ok_ensure_portfolio) (simp_all add: needs_repair_def)
  show ?thesis
    unfolding unwind_def Let_def case_prod_beta s2_def [symmetric]
    using full unc 1 4 by (intro oms_ok_cases) (simp_all add: oms_ok_latch oms_ok_emit_portfolio)
qed

text \<open>Writing back a group that was changed through a reference.\<close>

lemma oms_ok_store_group:
  assumes ok: "oms_ok b E s" and g: "find_group s gid = Some g"
    and same: "gr_oms_group_id g' = gr_oms_group_id g" "gr_reserved_capital_ticks g' = gr_reserved_capital_ticks g"
      "gr_cancel_attempt_count g' = gr_cancel_attempt_count g" "gr_repair_attempt_count g' = gr_repair_attempt_count g"
      "gr_capital_released g' = gr_capital_released g" "gr_execution_state g' = gr_execution_state g"
  shows "oms_ok b E (upd_group gid (\<lambda>_. g') s)" "find_group (upd_group gid (\<lambda>_. g') s) gid = Some g'"
proof -
  show "oms_ok b E (upd_group gid (\<lambda>_. g') s)"
    using ok by (rule oms_ok_upd_group) (use oms_ok_group [OF ok g] g same in \<open>simp add: group_ok_def in_repair_def\<close>)
  show "find_group (upd_group gid (\<lambda>_. g') s) gid = Some g'" using g by (simp add: upd_group_def)
qed

lemma oms_ok_repair_exposure:
  assumes ok: "oms_ok b {} s" and act: "om_execution_incident_active s" and g: "find_group s gid = Some g"
    and rep: "in_repair g"
  shows "oms_ok b {} (repair_exposure gid t g s)"
proof -
  obtain active uncertain live where scan: "fold (scan_repair s) [0..<unat (gr_leg_count g)]
      (gr_active_repair_request_ids g, gr_venue_state_uncertain g, False) = (active, uncertain, live)"
    by (rule prod_cases3)
  define g1 where "g1 = g\<lparr>gr_active_repair_request_ids := active, gr_venue_state_uncertain := uncertain,
     gr_residual_exposure_present := group_has_residual_exposure g\<rparr>"
  define s1 where "s1 = upd_group gid (\<lambda>_. g1) s"
  have 1: "oms_ok b {} s1" and g1: "find_group s1 gid = Some g1"
    unfolding s1_def by (rule oms_ok_store_group [OF ok g]; simp add: g1_def)+
  have rep1: "in_repair g1" using rep by (simp add: g1_def in_repair_def)
  have a1: "om_execution_incident_active s1" and r1: "om_risk s1 = om_risk s" using act by (simp_all add: s1_def)
  have unc: "oms_ok b {} (upd_group gid (\<lambda>g. g\<lparr>gr_execution_state := GES_kUNCERTAIN,
      gr_failure_reason := GFR_kVENUE_STATE_UNCERTAIN, gr_last_update_ts_ns := t\<rparr>) s1)"
    and unw: "oms_ok b {} (upd_group gid (\<lambda>g. g\<lparr>gr_execution_state := GES_kUNWINDING\<rparr>) s1)"
    using 1 by (rule oms_ok_upd_group_keep; simp add: a1 needs_repair_def)+
  show ?thesis
    unfolding repair_exposure_def scan Let_def prod.case g1_def [symmetric] s1_def [symmetric]
    using unc unw oms_ok_finish_repair [OF 1] oms_ok_fail_group_repair [OF 1 a1]
      oms_ok_unwind [OF 1 a1 g1 rep1, unfolded r1]
    by (intro oms_ok_cases) simp_all
qed

lemma oms_ok_continue_group_repair:
  assumes ok: "oms_ok b {} s" and rep: "\<And>g. find_group s gid = Some g \<Longrightarrow> in_repair g"
  shows "oms_ok b {} (continue_group_repair gid t s)"
proof (cases "find_group s gid")
  case None
  then show ?thesis using ok by (simp add: continue_group_repair_def)
next
  case (Some g)
  show ?thesis
  proof (cases "gr_capital_released g")
    case True
    then show ?thesis using ok Some by (simp add: continue_group_repair_def)
  next
    case False
    then have act: "om_execution_incident_active s"
      using rep [OF Some] oms_ok_group [OF ok Some] by (auto simp: in_repair_def group_ok_def)
    obtain uncertain cancelable pending where scan: "fold (scan_original s) (leg_ids g)
        (gr_venue_state_uncertain g, [], False) = (uncertain, cancelable, pending)" by (rule prod_cases3)
    define g1 where "g1 = g\<lparr>gr_venue_state_uncertain := uncertain\<rparr>"
    define s1 where "s1 = upd_group gid (\<lambda>_. g1) s"
    have 1: "oms_ok b {} s1" and g1: "find_group s1 gid = Some g1"
      unfolding s1_def by (rule oms_ok_store_group [OF ok Some]; simp add: g1_def)+
    have rep1: "in_repair g1" using rep [OF Some] by (simp add: g1_def in_repair_def)
    have a1: "om_execution_incident_active s1" using act by (simp add: s1_def)
    have st: "oms_ok b {} (upd_group gid (\<lambda>g. g\<lparr>gr_execution_state := GES_kUNCERTAIN\<rparr>) s1)"
      "oms_ok b {} (upd_group gid (\<lambda>g. g\<lparr>gr_execution_state := GES_kCANCELING_REMAINDER\<rparr>) s1)"
      using 1 by (rule oms_ok_upd_group_keep; simp add: a1 needs_repair_def)+
    show ?thesis
      unfolding continue_group_repair_def Some option.case scan Let_def prod.case g1_def [symmetric] s1_def [symmetric]
      using ok st oms_ok_cancel_remainder [OF 1 a1 g1] oms_ok_repair_exposure [OF 1 a1 g1 rep1]
      by (intro oms_ok_cases) simp_all
  qed
qed

lemma oms_ok_begin_group_repair:
  assumes ok: "oms_ok b {} s"
  shows "oms_ok b {} (begin_group_repair gid reason t s)"
proof (cases "find_group s gid")
  case None
  then show ?thesis using ok by (simp add: begin_group_repair_def)
next
  case (Some g)
  define f where "f = (\<lambda>h. h\<lparr>gr_venue_state_uncertain := gr_venue_state_uncertain g \<or> reason = GFR_kVENUE_STATE_UNCERTAIN,
     gr_failure_reason := reason, gr_residual_exposure_present := group_has_residual_exposure h,
     gr_execution_state := (if gr_venue_state_uncertain g \<or> reason = GFR_kVENUE_STATE_UNCERTAIN then GES_kUNCERTAIN else GES_kREPAIR_REQUIRED),
     gr_last_update_ts_ns := t\<rparr>)"
  define s2 where "s2 = latch_execution_incident (upd_group gid f s)"
  have "oms_ok b {gid} s" using ok by (rule oms_ok_weaken) simp_all
  then have "oms_ok b {gid} (upd_group gid f s)" by (rule oms_ok_upd_group_keep) (simp_all add: f_def)
  then have e: "oms_ok b {gid} s2" unfolding s2_def by (rule oms_ok_latch)
  have found: "find_group s2 gid = Some (f g)" using Some by (simp add: s2_def upd_group_def)
  have rep: "needs_repair (gr_execution_state (f g))" by (simp add: f_def needs_repair_def)
  have "oms_ok b {} s2"
    using e by (rule oms_ok_unexempt) (use found rep in \<open>simp add: in_repair_def s2_def\<close>)
  then have "oms_ok b {} (if \<not> needs_repair (gr_execution_state g) then emit_telemetry (emit_group_state_update gid t s2) else s2)"
    by simp
  then have "oms_ok b {} (continue_group_repair gid t
      (if \<not> needs_repair (gr_execution_state g) then emit_telemetry (emit_group_state_update gid t s2) else s2))"
    by (rule oms_ok_continue_group_repair) (use found rep in \<open>simp add: in_repair_def split: if_splits\<close>)
  then show ?thesis
    unfolding begin_group_repair_def Some option.case Let_def f_def [symmetric] s2_def [symmetric] .
qed

lemma oms_ok_service_group:
  assumes "oms_ok b {} (fst acc)"
  shows "oms_ok b {} (fst (service_group t gid acc))"
  using assms oms_ok_continue_group_repair [of b "fst acc" gid t]
  by (auto simp: service_group_def Let_def case_prod_beta in_repair_def needs_repair_def split: option.split)

lemma oms_ok_service_execution_incidents:
  assumes "oms_ok b {} s"
  shows "oms_ok b {} (fst (service_execution_incidents s))"
proof -
  have "oms_ok b {} (fst (fold (service_group t) gids acc))" if "oms_ok b {} (fst acc)" for t gids acc
    using that by (induction gids arbitrary: acc) (simp_all add: oms_ok_service_group)
  from this [of "(snd (now_ns s), 0)"] assms show ?thesis
    by (simp add: service_execution_incidents_def Let_def case_prod_beta)
qed

lemma oms_ok_update_group:
  assumes ok: "oms_ok b {} s"
  shows "oms_ok b {} (update_group_after_order_state_change rid t s)"
proof (cases "find_order s rid")
  case None
  then show ?thesis using ok by (simp add: update_group_after_order_state_change_def)
next
  case (Some r)
  let ?gid = "ord_oms_group_id r"
  show ?thesis
  proof (cases "find_group s ?gid")
    case None
    then show ?thesis using ok Some by (simp add: update_group_after_order_state_change_def Let_def)
  next
    case (Some g)
    note g = Some
    have flag: "oms_ok b {} (upd_group ?gid (\<lambda>g. g\<lparr>gr_residual_exposure_present := group_has_residual_exposure g\<rparr>) s)"
      using ok by (rule oms_ok_upd_group_keep) simp_all
    have work: "oms_ok b {} (upd_group ?gid (\<lambda>g. g\<lparr>gr_execution_state := st, gr_last_update_ts_ns := t\<rparr>)
        (upd_group ?gid (\<lambda>g. g\<lparr>gr_residual_exposure_present := group_has_residual_exposure g\<rparr>) s))"
      if "\<not> in_repair g" "\<not> needs_repair st" for st
      using flag by (rule oms_ok_upd_group_keep) (use that g in \<open>auto simp: upd_group_def in_repair_def\<close>)
    have rep: "oms_ok b {} (continue_group_repair ?gid t s1)"
      if "ord_repair_order r \<or> needs_repair (gr_execution_state g)" "s1 = (if c then set_uncertain ?gid True s else s)" for s1 c
    proof (rule oms_ok_continue_group_repair)
      show "oms_ok b {} s1" using ok that by simp
      fix g1 assume "find_group s1 ?gid = Some g1"
      then show "in_repair g1"
        using that g oms_ok_order [OF ok \<open>find_order s rid = Some r\<close>]
        by (auto simp: set_uncertain_def upd_group_def in_repair_def order_ok_def split: if_splits)
    qed
    show ?thesis
      unfolding update_group_after_order_state_change_def \<open>find_order s rid = Some r\<close> g option.case Let_def
      using ok rep oms_ok_begin_group_repair [OF flag] work oms_ok_conclude_group [OF flag]
      by (intro oms_ok_cases) (simp_all add: needs_repair_def in_repair_def)
  qed
qed

end
