(* ===== verification/Oms_Pump.thy ===== *)
theory Oms_Pump
  imports Oms_Handlers
begin

text \<open>
  The main loop of the order manager (\<open>cpp/src/oms/oms.cpp\<close>, \<open>pump_once\<close> and the three drains). The queues
  of strategies and of venue events are served in rounds, one message per queue and round, until a round
  finds them all empty or the budget is used up.
\<close>

definition kMAX_DRAIN :: nat where "kMAX_DRAIN = 100"

section \<open>Rounds\<close>

text \<open>The body of the inner loop for the queue at index \<open>i\<close>: the state, the messages processed so far and
  \<open>did_work\<close>.\<close>

definition drain_step ::
  "(nat \<Rightarrow> 's \<Rightarrow> 's \<times> 'e option) \<Rightarrow> ('e \<Rightarrow> 's \<Rightarrow> 's) \<Rightarrow> nat \<Rightarrow> nat \<Rightarrow> 's \<times> nat \<times> bool \<Rightarrow> 's \<times> nat \<times> bool" where
  "drain_step pop handle maximum i acc =
     (case acc of (s, processed, did_work) \<Rightarrow>
        if processed \<ge> maximum then acc
        else case pop i s of
          (s1, None) \<Rightarrow> (s1, processed, did_work)
        | (s1, Some e) \<Rightarrow> (handle e s1, Suc processed, True))"

definition drain_round ::
  "(nat \<Rightarrow> 's \<Rightarrow> 's \<times> 'e option) \<Rightarrow> ('e \<Rightarrow> 's \<Rightarrow> 's) \<Rightarrow> nat \<Rightarrow> nat \<Rightarrow> nat \<Rightarrow> 's \<Rightarrow> 's \<times> nat \<times> bool" where
  "drain_round pop handle maximum queues processed s =
     fold (drain_step pop handle maximum) [0..<queues] (s, processed, False)"

lemma drain_steps_grow:
  assumes "fold (drain_step pop handle maximum) is (s, n, d) = (s', n', d')"
  shows "n \<le> n'" "d \<longrightarrow> d'" "d' \<longrightarrow> d \<or> n < n'" "n \<le> maximum \<Longrightarrow> n' \<le> maximum"
proof -
  have "n \<le> n' \<and> (d \<longrightarrow> d') \<and> (d' \<longrightarrow> d \<or> n < n') \<and> (n \<le> maximum \<longrightarrow> n' \<le> maximum)"
    using assms
  proof (induction "is" arbitrary: s n d)
    case Nil
    then show ?case by simp
  next
    case (Cons i "is")
    obtain s1 n1 d1 where st: "drain_step pop handle maximum i (s, n, d) = (s1, n1, d1)" by (rule prod_cases3)
    have "n \<le> n1 \<and> (d \<longrightarrow> d1) \<and> (d1 \<longrightarrow> d \<or> n < n1) \<and> (n \<le> maximum \<longrightarrow> n1 \<le> maximum)"
      using st by (auto simp: drain_step_def split: if_splits prod.splits option.splits)
    moreover have "n1 \<le> n' \<and> (d1 \<longrightarrow> d') \<and> (d' \<longrightarrow> d1 \<or> n1 < n') \<and> (n1 \<le> maximum \<longrightarrow> n' \<le> maximum)"
      using Cons.prems st by (intro Cons.IH) simp
    ultimately show ?case by linarith
  qed
  then show "n \<le> n'" "d \<longrightarrow> d'" "d' \<longrightarrow> d \<or> n < n'" "n \<le> maximum \<Longrightarrow> n' \<le> maximum" by auto
qed

function drain_rounds ::
  "(nat \<Rightarrow> 's \<Rightarrow> 's \<times> 'e option) \<Rightarrow> ('e \<Rightarrow> 's \<Rightarrow> 's) \<Rightarrow> nat \<Rightarrow> nat \<Rightarrow> nat \<Rightarrow> 's \<Rightarrow> 's \<times> nat" where
  "drain_rounds pop handle maximum queues processed s =
     (if processed \<ge> maximum then (s, processed)
      else case drain_round pop handle maximum queues processed s of (s1, processed1, did_work) \<Rightarrow>
        if did_work then drain_rounds pop handle maximum queues processed1 s1 else (s1, processed1))"
  by pat_completeness auto
termination
proof (relation "measure (\<lambda>(_, _, maximum, _, processed, _). maximum - processed)", goal_cases)
  case (2 pop handle maximum queues processed s s1 rest processed1 did_work)
  then show ?case
    using drain_steps_grow(3) [of pop handle maximum "[0..<queues]" s processed False s1 processed1 did_work]
    by (auto simp: drain_round_def)
qed simp

declare drain_rounds.simps [simp del]

text \<open>What a drain relies on: taking a message and handling one keep the invariant of the component.\<close>

locale round_robin =
  fixes pop :: "nat \<Rightarrow> 's \<Rightarrow> 's \<times> 'e option"
    and handle :: "'e \<Rightarrow> 's \<Rightarrow> 's"
    and invar :: "'s \<Rightarrow> bool"
  assumes pop_invar: "invar s \<Longrightarrow> invar (fst (pop i s))"
    and handle_invar: "invar s \<Longrightarrow> invar (handle e s)"
begin

lemma steps_invar: "invar (fst acc) \<Longrightarrow> invar (fst (fold (drain_step pop handle maximum) is acc))"
proof (induction "is" arbitrary: acc)
  case (Cons i "is")
  have "invar (fst (drain_step pop handle maximum i acc))"
    using Cons.prems pop_invar [of "fst acc" i] handle_invar
    by (auto simp: drain_step_def split: prod.splits option.splits)
  then show ?case by (simp add: Cons.IH)
qed simp

lemma rounds_invar: "invar s \<Longrightarrow> invar (fst (drain_rounds pop handle maximum queues processed s))"
proof (induction "maximum - processed" arbitrary: processed s rule: less_induct)
  case less
  obtain s1 n d where r: "drain_round pop handle maximum queues processed s = (s1, n, d)" by (rule prod_cases3)
  have "invar s1" using steps_invar [of "(s, processed, False)" maximum "[0..<queues]"] less.prems r
    by (simp add: drain_round_def)
  moreover have "invar (fst (drain_rounds pop handle maximum queues n s1))" if d "processed < maximum"
  proof (rule less.hyps)
    have "processed < n" using drain_steps_grow(3) [OF r [unfolded drain_round_def]] that by simp
    then show "maximum - n < maximum - processed" using that by simp
  qed (fact \<open>invar s1\<close>)
  ultimately show ?case using less.prems r by (subst drain_rounds.simps) simp
qed

end

text \<open>What a drain promises when every index stands for a queue and handling a message does not put anything
  into one: nothing is lost, and what is left behind is left behind because the budget is used up.\<close>

locale round_robin_queues =
  fixes pop :: "nat \<Rightarrow> 's \<Rightarrow> 's \<times> 'e option"
    and handle :: "'e \<Rightarrow> 's \<Rightarrow> 's"
    and pending :: "nat \<Rightarrow> 's \<Rightarrow> 'e list"
  assumes pop_empty: "pending i s = [] \<Longrightarrow> snd (pop i s) = None"
    and pop_item: "pending i s = e # es \<Longrightarrow> snd (pop i s) = Some e"
    and pop_pending: "pending j (fst (pop i s)) = (if j = i then tl (pending i s) else pending j s)"
    and handle_pending: "pending j (handle e s) = pending j s"
begin

definition pending_count :: "nat \<Rightarrow> 's \<Rightarrow> nat" where
  "pending_count queues s = (\<Sum>i<queues. length (pending i s))"

lemma step_count:
  assumes st: "drain_step pop handle maximum i (s, n, d) = (s', n', d')" and i: "i < queues"
  shows "n' + pending_count queues s' = n + pending_count queues s"
proof (cases "n \<ge> maximum \<or> pending i s = []")
  case True
  then have "n' = n" "pending j s' = pending j s" for j
    using st pop_empty [of i s] pop_pending [of j i s]
    by (auto simp: drain_step_def split: if_splits prod.splits option.splits)
  then show ?thesis by (simp add: pending_count_def)
next
  case False
  then obtain e es where e: "pending i s = e # es" by (cases "pending i s") auto
  have n': "n' = Suc n" and p: "pending j s' = (if j = i then es else pending j s)" for j
    using st False pop_item [OF e] pop_pending [of j i s] e
    by (auto simp: drain_step_def handle_pending split: if_splits prod.splits option.splits)
  have "(\<Sum>j\<in>{..<queues} - {i}. length (pending j s')) = (\<Sum>j\<in>{..<queues} - {i}. length (pending j s))"
    by (rule sum.cong) (simp_all add: p)
  then show ?thesis
    using i n' by (simp add: pending_count_def sum.remove [of "{..<queues}" i] p e)
qed

lemma steps_count:
  assumes "fold (drain_step pop handle maximum) is (s, n, d) = (s', n', d')" "set is \<subseteq> {..<queues}"
  shows "n' + pending_count queues s' = n + pending_count queues s"
  using assms
proof (induction "is" arbitrary: s n d)
  case (Cons i "is")
  obtain s1 n1 d1 where st: "drain_step pop handle maximum i (s, n, d) = (s1, n1, d1)" by (rule prod_cases3)
  show ?case using Cons.IH [of s1 n1 d1] Cons.prems step_count [OF st, of queues] st by simp
qed simp

lemma steps_idle:
  assumes "fold (drain_step pop handle maximum) is (s, n, False) = (s', n', False)" "n' < maximum"
  shows "(\<forall>j. pending j s' = pending j s) \<and> (\<forall>i\<in>set is. pending i s = [])"
  using assms
proof (induction "is" arbitrary: s n)
  case (Cons i "is")
  obtain s1 n1 d1 where st: "drain_step pop handle maximum i (s, n, False) = (s1, n1, d1)" by (rule prod_cases3)
  have rest: "fold (drain_step pop handle maximum) is (s1, n1, d1) = (s', n', False)" using Cons.prems(1) st by simp
  have d1: "\<not> d1" and n: "n < maximum"
    using drain_steps_grow(2) [OF rest] drain_steps_grow(1) [OF Cons.prems(1)] Cons.prems(2) by auto
  have none: "pending i s = []"
    using st d1 n pop_item [of i s] by (cases "pending i s") (auto simp: drain_step_def split: prod.splits option.splits)
  then have "pending j s1 = pending j s" for j
    using st n pop_empty [OF none] pop_pending [of j i s] by (auto simp: drain_step_def split: prod.splits option.splits)
  then show ?case using Cons.IH [of s1 n1] rest d1 none Cons.prems(2) by auto
qed simp

lemma rounds_progress:
  assumes "drain_rounds pop handle maximum queues processed s = (s', n)" "processed \<le> maximum"
  shows "n \<le> maximum \<and> n + pending_count queues s' = processed + pending_count queues s
    \<and> (n = maximum \<or> (\<forall>i<queues. pending i s' = []))"
  using assms
proof (induction "maximum - processed" arbitrary: processed s rule: less_induct)
  case less
  show ?case
  proof (cases "processed = maximum")
    case True
    then show ?thesis using less.prems by (subst (asm) drain_rounds.simps) simp
  next
    case False
    obtain s1 n1 d1 where r: "drain_round pop handle maximum queues processed s = (s1, n1, d1)" by (rule prod_cases3)
    note grow = drain_steps_grow [OF r [unfolded drain_round_def]]
    have count: "n1 + pending_count queues s1 = processed + pending_count queues s"
      using steps_count [OF r [unfolded drain_round_def], of queues] by (simp add: lessThan_atLeast0)
    have run: "(if d1 then drain_rounds pop handle maximum queues n1 s1 else (s1, n1)) = (s', n)"
      using less.prems(1,2) False r by (subst (asm) drain_rounds.simps) simp
    show ?thesis
    proof (cases d1)
      case True
      then have "processed < n1" "n1 \<le> maximum" using grow(3,4) less.prems(2) by simp_all
      then show ?thesis using less.hyps [of n1 s1] run True count False less.prems(2) by simp
    next
      case idle: False
      then have "n = n1" "s' = s1" using run by simp_all
      then show ?thesis
        using steps_idle [of maximum "[0..<queues]" s processed s1 n1] r idle count grow(4) [OF less.prems(2)]
        by (auto simp: drain_round_def)
    qed
  qed
qed

end

section \<open>The queues of the order manager\<close>

definition pop_strategy_intent :: "nat \<Rightarrow> oms \<Rightarrow> oms \<times> strategy_intent option" where
  "pop_strategy_intent i s =
     (case nth_opt (om_intent_queues s) i of
        Some (Some q) \<Rightarrow> let (q', e) = bq_pop q in (s\<lparr>om_intent_queues := (om_intent_queues s)[i := Some q']\<rparr>, e)
      | _ \<Rightarrow> (s, None))"

definition pop_venue_event :: "nat \<Rightarrow> oms \<Rightarrow> oms \<times> kalshi_to_oms_event option" where
  "pop_venue_event i s =
     (case nth_opt (om_venue_queues s) i of
        Some (Some q) \<Rightarrow> let (q', e) = bq_pop q in (s\<lparr>om_venue_queues := (om_venue_queues s)[i := Some q']\<rparr>, e)
      | _ \<Rightarrow> (s, None))"

definition receive_strategy_intent :: "strategy_intent \<Rightarrow> oms \<Rightarrow> oms" where
  "receive_strategy_intent intent s =
     count (\<lambda>t. t\<lparr>ots_strategy_intents_received := ots_strategy_intents_received t + 1\<rparr>) (handle_strategy_intent intent s)"

definition drain_strategy_intents :: "nat \<Rightarrow> oms \<Rightarrow> oms \<times> nat" where
  "drain_strategy_intents maximum s =
     drain_rounds pop_strategy_intent receive_strategy_intent maximum (length (om_intent_queues s)) 0 s"

definition drain_venue_events :: "nat \<Rightarrow> oms \<Rightarrow> oms \<times> nat" where
  "drain_venue_events maximum s =
     drain_rounds pop_venue_event handle_venue_event maximum (length (om_venue_queues s)) 0 s"

primrec drain_control_commands :: "nat \<Rightarrow> oms \<Rightarrow> oms \<times> nat" where
  "drain_control_commands 0 s = (s, 0)"
| "drain_control_commands (Suc budget) s =
     (case bq_pop (om_control_queue s) of
        (q, None) \<Rightarrow> (s\<lparr>om_control_queue := q\<rparr>, 0)
      | (q, Some command) \<Rightarrow>
          let (s1, processed) = drain_control_commands budget (handle_control_command command (s\<lparr>om_control_queue := q\<rparr>))
          in (s1, Suc processed))"

datatype oms_pump_result = OPR_kOK | OPR_kNoWork | OPR_kError

definition pump_once :: "oms \<Rightarrow> oms \<times> oms_pump_result" where
  "pump_once s =
     (let (s1, sent) = try_send_pending_control_status s;
          (s2, commands) = drain_control_commands kMAX_DRAIN s1;
          (s3, events) = drain_venue_events kMAX_DRAIN s2;
          (s4, serviced) = service_execution_incidents s3;
          (s5, requested) = maybe_request_portfolio_reconciliation s4;
          s6 = maybe_report_ready s5;
          (s7, intents) = drain_strategy_intents kMAX_DRAIN s6;
          work_done = (if sent then 1 else 0) + commands + events + serviced + (if requested then 1 else 0) + intents
      in (s7, if work_done > 0 then OPR_kOK else OPR_kNoWork))"

end
