(* ===== verification/Oms_Handler_Invariant.thy ===== *)
theory Oms_Handler_Invariant
  imports Oms_Repair_Invariant Oms_Pump
begin

text \<open>
  Every handler of the order manager and the pump keep its invariant, whatever the strategies, the exchange
  and the control plane send.
\<close>

section \<open>Intents\<close>

lemma oms_ok_new_reservation:
  assumes ok: "oms_ok True E s" and w: "(w :: u64) \<le> to_u64 i64_max"
    and p: "um_find (om_portfolios s) i = Some p" "to_i64 w \<le> sp_available_capital_ticks p"
  shows "oms_ok False E (upd_portfolio i (\<lambda>p. p\<lparr>sp_reserved_order_capital_ticks := sp_reserved_order_capital_ticks p + to_i64 w\<rparr>) s)"
    (is ?one)
proof (rule oms_ok_upd_portfolio [OF ok])
  fix q assume q: "um_find (om_portfolios s) i = Some q" "portfolio_base s q" "True \<Longrightarrow> available_ok q"
  have "0 \<le> to_i64 w" using to_i64_small [OF w] by simp
  moreover have "sp_reserved_order_capital_ticks q + to_i64 w \<le> max 0 (rk_strategy_allocation_limit_ticks (om_risk s))"
  proof (cases "to_i64 w = 0")
    case True
    then show ?thesis using q(2) by (simp add: portfolio_base_def)
  next
    case False
    then show ?thesis
      using reservation_fits [OF q(2) q(3) [OF TrueI] _ _ oms_ok_alloc [OF ok], of "to_i64 w"] p q(1) \<open>0 \<le> to_i64 w\<close> by simp
  qed
  ultimately show "portfolio_base s (q\<lparr>sp_reserved_order_capital_ticks := sp_reserved_order_capital_ticks q + to_i64 w\<rparr>)
      \<and> (False \<longrightarrow> available_ok (q\<lparr>sp_reserved_order_capital_ticks := sp_reserved_order_capital_ticks q + to_i64 w\<rparr>))"
    using q(2) by (simp add: portfolio_base_def)
qed simp

lemma oms_ok_undo_reservation:
  assumes ok: "oms_ok b E s" and w: "0 \<le> r"
    and p: "\<And>p. um_find (om_portfolios s) i = Some p \<Longrightarrow> r \<le> sp_reserved_order_capital_ticks p"
  shows "oms_ok False E (upd_portfolio i (\<lambda>p. p\<lparr>sp_reserved_order_capital_ticks := sp_reserved_order_capital_ticks p - r\<rparr>) s)"
proof (rule oms_ok_upd_portfolio [OF ok], goal_cases)
  case (1 q)
  then show ?case using p [OF 1(1)] w by (simp add: portfolio_base_def)
qed simp

lemma reserved_after:
  assumes "oms_ok b E s" "0 \<le> r"
    "um_find (om_portfolios (recompute_all_strategy_available_capital (upd_portfolio i
       (\<lambda>p. p\<lparr>sp_reserved_order_capital_ticks := sp_reserved_order_capital_ticks p + r\<rparr>) s))) i = Some p"
  shows "r \<le> sp_reserved_order_capital_ticks p"
  using assms(3) oms_ok_portfolio(1) [OF assms(1), of i]
  by (auto simp: recompute_all_strategy_available_capital_def um_find_map_values upd_portfolio_def portfolio_base_def)

lemma order_ok_plain: "\<not> ord_repair_order r \<Longrightarrow> order_ok E s r = (0 \<le> ord_reserved_capital_ticks r)"
  by (simp add: order_ok_def)

text \<open>The two ways a new order ends once its capital is reserved: the command cannot be sent, or the order
  is recorded.\<close>

lemma oms_ok_handle_new_order:
  assumes "oms_inv s"
  shows "oms_inv (handle_new_order intent s)"
proof -
  let ?i = "ic_strategy_index (noi_context intent)"
  define s2 where "s2 = snd (take_request_id (snd (now_ns s)))"
  define s3 where "s3 = ensure_strategy_portfolio ?i s2"
  define s4 where "s4 w = recompute_all_strategy_available_capital (upd_portfolio ?i
     (\<lambda>p. p\<lparr>sp_reserved_order_capital_ticks := sp_reserved_order_capital_ticks p + to_i64 w\<rparr>) s3)" for w :: u64
  have 2: "oms_inv s2" using assms by (simp add: s2_def)
  then have 3: "oms_inv s3" by (simp add: s3_def oms_ok_ensure_portfolio)
  have 4: "oms_inv (s4 w)"
    if "w \<le> to_u64 i64_max" "um_find (om_portfolios s3) ?i = Some p" "to_i64 w \<le> sp_available_capital_ticks p" for w p
    unfolding s4_def using oms_ok_new_reservation [OF 3 that] by (rule oms_ok_recompute_all)
  have undo: "oms_inv (recompute_all_strategy_available_capital (upd_portfolio ?i
      (\<lambda>p. p\<lparr>sp_reserved_order_capital_ticks := sp_reserved_order_capital_ticks p - to_i64 w\<rparr>) (fst (send_kalshi_command c (snd (now_ns (s4 w)))))))"
    if "w \<le> to_u64 i64_max" "oms_inv (s4 w)" for w c
  proof (rule oms_ok_recompute_all, rule oms_ok_undo_reservation)
    show "oms_inv (fst (send_kalshi_command c (snd (now_ns (s4 w)))))" using that(2) by simp
    show w: "0 \<le> to_i64 w" using to_i64_small [OF that(1)] by simp
    fix p assume "um_find (om_portfolios (fst (send_kalshi_command c (snd (now_ns (s4 w)))))) ?i = Some p"
    then show "to_i64 w \<le> sp_reserved_order_capital_ticks p" using reserved_after [OF 3 w, of ?i p] by (simp add: s4_def)
  qed
  have recd: "oms_inv (emit_strategy_portfolio_update ?i t (snd (respond c rt ty rr (count_processed
      (upd_portfolio ?i (\<lambda>p. p\<lparr>sp_open_order_count := sp_open_order_count p + 1\<rparr>)
        (s'\<lparr>om_orders := fst (um_emplace rid ((make_order_record c' cid intent mid)\<lparr>ord_reserved_capital_ticks := to_i64 w\<rparr>) (om_orders s')),
            om_order_by_client := cs\<rparr>))))))"
    if "w \<le> to_u64 i64_max" "oms_inv s'" for w s' t c rt ty rr rid c' cid mid cs
    using that to_i64_small [OF that(1)]
    by (intro oms_ok_emit_portfolio, simp only: oms_ok_emit oms_ok_update)
      (intro oms_ok_upd_portfolio_frame oms_ok_insert_order; simp add: order_ok_plain make_order_record_def)
  show ?thesis
    unfolding handle_new_order_def Let_def case_prod_beta s2_def [symmetric] s3_def [symmetric] s4_def [symmetric]
    by (intro oms_ok_cases recd undo 3; simp add: 2 3 4 undo not_less)
qed

lemma oms_ok_handle_cancel_order:
  assumes "oms_inv s"
  shows "oms_inv (handle_cancel_order intent s)"
  using assms by (auto simp: handle_cancel_order_def Let_def case_prod_beta oms_ok_emit_cancel split: option.split)

lemma oms_ok_handle_modify_order:
  assumes "oms_inv s"
  shows "oms_inv (handle_modify_order intent s)"
  using assms unfolding handle_modify_order_def Let_def case_prod_beta
  by (intro oms_ok_cases) (auto intro!: oms_ok_upd_order_keep)

section \<open>Groups\<close>

lemma build_legs_frame:
  "oms_ok b E (fst (build_legs intent gid t is s)) = oms_ok b E s"
  "om_groups (fst (build_legs intent gid t is s)) = om_groups s"
  by (induction "is" arbitrary: s) (simp_all add: Let_def case_prod_beta)

definition plain_legs :: "(submit_order_cmd \<times> order_record) list \<Rightarrow> bool" where
  "plain_legs legs = list_all (\<lambda>(_, r). \<not> ord_repair_order r \<and> 0 \<le> ord_reserved_capital_ticks r) legs"

lemma build_legs_records:
  assumes "snd (build_legs intent gid t is s) = Some legs"
  shows "plain_legs legs"
  using assms
proof (induction "is" arbitrary: s legs)
  case Nil
  then show ?case by (simp add: plain_legs_def)
next
  case (Cons i "is")
  have res: "0 \<le> to_i64 (case full_notional_reservation q of None \<Rightarrow> 0 | Some v \<Rightarrow> v)" for q
    using full_notional_small(2) by (simp split: option.split)
  show ?case
    using Cons.prems Cons.IH by (auto simp: plain_legs_def Let_def case_prod_beta res split: if_splits)
qed

lemma oms_ok_insert_leg:
  assumes "oms_ok b E s" "\<not> ord_repair_order (snd leg)" "0 \<le> ord_reserved_capital_ticks (snd leg)"
  shows "oms_ok b E (insert_leg leg s)"
  unfolding insert_leg_def Let_def using assms by (intro oms_ok_insert_order) (simp_all add: order_ok_plain)

lemma insert_legs_orders:
  "find_order (fold insert_leg legs s) rid = Some r \<Longrightarrow> find_order s rid = Some r \<or> r \<in> snd ` set legs"
proof (induction legs arbitrary: s)
  case Nil
  then show ?case by simp
next
  case (Cons leg legs)
  then have "find_order (insert_leg leg s) rid = Some r \<or> r \<in> snd ` set legs" by simp
  then show ?case by (auto simp: insert_leg_def Let_def um.find_emplace split: if_splits)
qed

lemma erase_legs_orders: "find_order (fold erase_leg legs s) rid = Some r \<Longrightarrow> find_order s rid = Some r"
proof (induction legs arbitrary: s)
  case (Cons leg legs)
  then have "find_order (erase_leg leg s) rid = Some r" by simp
  then show ?case by (auto simp: erase_leg_def Let_def um.find_erase split: if_splits)
qed simp

lemma legs_groups [simp]:
  "om_groups (fold insert_leg legs s) = om_groups s" "om_groups (fold erase_leg legs s) = om_groups s"
  by (induction legs arbitrary: s) (simp_all add: insert_leg_def erase_leg_def Let_def)

lemma oms_ok_erase_legs: "oms_ok b E s \<Longrightarrow> oms_ok b E (fold erase_leg legs s)"
  by (rule oms_ok_fold) (simp_all add: erase_leg_def Let_def oms_ok_erase_order)

lemma oms_ok_insert_group:
  assumes ok: "oms_ok b E s" and new: "find_group s gid = None" and g: "group_ok E s gid g"
  shows "oms_ok b E (s\<lparr>om_groups := fst (um_emplace gid g (om_groups s))\<rparr>)"
proof -
  let ?s = "s\<lparr>om_groups := fst (um_emplace gid g (om_groups s))\<rparr>"
  have "order_ok E ?s r" if "order_ok E s r" for r
    using that new by (auto simp: order_ok_def um.find_emplace)
  moreover have "group_ok E s gid' g'" if "find_group ?s gid' = Some g'" for gid' g'
    using that oms_ok_group [OF ok] g new by (auto simp: um.find_emplace split: if_splits)
  moreover have "group_ok E ?s = group_ok E s" "portfolio_base ?s = portfolio_base s" "trading_gate ?s = trading_gate s"
    by (rule oms_ok_parts trading_gate_cong; simp)+
  ultimately show ?thesis using ok um.wf_emplace by (auto simp: oms_ok_def)
qed

definition no_repair_order :: "oms_group_id \<Rightarrow> oms \<Rightarrow> bool" where
  "no_repair_order gid s \<longleftrightarrow> (\<forall>rid r. find_order s rid = Some r \<longrightarrow> ord_repair_order r \<longrightarrow> ord_oms_group_id r \<noteq> gid)"

lemma oms_ok_erase_group:
  assumes ok: "oms_ok b E s" and free: "no_repair_order gid s"
  shows "oms_ok b E (s\<lparr>om_groups := um_erase gid (om_groups s)\<rparr>)"
proof -
  let ?s = "s\<lparr>om_groups := um_erase gid (om_groups s)\<rparr>"
  have "order_ok E ?s r" if "find_order s rid = Some r" for rid r
    using oms_ok_order [OF ok that] free that by (auto simp: order_ok_def no_repair_order_def um.find_erase)
  moreover have "group_ok E s gid' g'" if "find_group ?s gid' = Some g'" for gid' g'
    using that oms_ok_group [OF ok] by (auto simp: um.find_erase split: if_splits)
  moreover have "group_ok E ?s = group_ok E s" "portfolio_base ?s = portfolio_base s" "trading_gate ?s = trading_gate s"
    by (rule oms_ok_parts trading_gate_cong; simp)+
  ultimately show ?thesis using ok um.wf_erase by (auto simp: oms_ok_def)
qed

lemma release_stored_orders [simp]: "om_orders (release_stored_group gid s) = om_orders s"
  by (simp add: release_stored_group_def case_prod_beta split: option.split)

lemma oms_ok_register_group:
  assumes ok: "oms_ok b E s" and legs: "plain_legs legs"
  shows "oms_ok b E (register_group intent gid legs s)"
    and "no_repair_order gid s \<Longrightarrow> no_repair_order gid (register_group intent gid legs s)"
proof -
  show "oms_ok b E (register_group intent gid legs s)"
    unfolding register_group_def Let_def
    by (rule oms_ok_fold) (use ok legs in \<open>auto simp: plain_legs_def list_all_iff intro!: oms_ok_insert_leg\<close>)
  show "no_repair_order gid s \<Longrightarrow> no_repair_order gid (register_group intent gid legs s)"
    using legs by (fastforce simp: plain_legs_def list_all_iff no_repair_order_def register_group_def Let_def dest!: insert_legs_orders)
qed

lemma oms_ok_withdraw_group:
  assumes ok: "oms_ok b E s" and free: "no_repair_order gid s"
  shows "oms_ok b E (withdraw_group intent gid legs s)"
proof -
  define s2 where "s2 = (let s1 = fold erase_leg legs s in case um_find (om_group_by_intent s1) (ic_strategy_index (goi_context intent)) of
      None \<Rightarrow> s1
    | Some groups \<Rightarrow> let groups' = um_erase (ic_group_intent_id (goi_context intent)) groups
        in if groups' = [] then s1\<lparr>om_group_by_intent := um_erase (ic_strategy_index (goi_context intent)) (om_group_by_intent s1)\<rparr>
           else s1\<lparr>om_group_by_intent := um_assign (ic_strategy_index (goi_context intent)) groups' (om_group_by_intent s1)\<rparr>)"
  have "oms_ok b E s2" using oms_ok_erase_legs [OF ok] by (simp add: s2_def Let_def split: option.split)
  moreover have "no_repair_order gid s2"
    using free by (auto simp: no_repair_order_def s2_def Let_def dest!: erase_legs_orders split: option.splits if_splits)
  ultimately have "oms_ok b E ((release_stored_group gid s2)\<lparr>om_groups := um_erase gid (om_groups (release_stored_group gid s2))\<rparr>)"
    by (intro oms_ok_erase_group oms_ok_release_stored) (simp_all add: no_repair_order_def)
  then show ?thesis by (simp add: withdraw_group_def s2_def Let_def)
qed

lemma check_group_admission_frame:
  "oms_ok b E (snd (check_group_admission grp s)) = oms_ok b E s"
  "om_groups (snd (check_group_admission grp s)) = om_groups s"
  by (simp_all add: check_group_admission_def Let_def case_prod_beta split: option.split)

lemma check_group_timed_capital:
  "gac_accepted (check_group_timed s grp t) \<Longrightarrow> gac_required_capital_ticks (check_group_timed s grp t) \<le> to_u64 i64_max"
  by (auto simp: check_group_timed_def rejected_check_def Let_def not_less split: if_splits option.splits sum.splits)

lemma register_group_groups [simp]: "om_groups (register_group intent gid legs s) = om_groups s"
  by (simp add: register_group_def Let_def)

lemma fresh_group_no_repair_order:
  assumes "oms_inv s" "find_group s gid = None"
  shows "no_repair_order gid s"
  using oms_ok_order [OF assms(1)] assms(2) by (fastforce simp: no_repair_order_def order_ok_def)

text \<open>From the reservation on: the group and its legs are recorded, and withdrawn when the batch cannot be sent.\<close>

lemma oms_ok_admit_group:
  fixes intent :: group_order_intent and command :: oms_to_kalshi_command and t :: u64
  assumes ok: "oms_inv s"
    and res: "reserve_group_capital grp s = (grp1, s6, True)" and new: "find_group s6 gid = None"
    and grp: "gr_oms_group_id grp = gid" "gr_execution_state grp = GES_kADMITTED"
      "gr_cancel_attempt_count grp = 0" "gr_repair_attempt_count grp = 0"
    and legs: "plain_legs legs"
  defines "s8 \<equiv> fst (send_kalshi_command command (register_group intent gid legs (s6\<lparr>om_groups := fst (um_emplace gid grp1 (om_groups s6))\<rparr>)))"
  shows "oms_inv (withdraw_group intent gid legs s8)"
    and "oms_inv (upd_group gid (\<lambda>g. g\<lparr>gr_execution_state := GES_kPENDING_VENUE, gr_last_update_ts_ns := t\<rparr>) s8)"
proof -
  have 6: "oms_inv s6" and g1: "grp1 = grp\<lparr>gr_capital_released := False\<rparr>" "gr_reserved_capital_ticks grp \<le> to_u64 i64_max"
    using oms_ok_reserve [OF ok res] by auto
  have "group_ok {} s6 gid grp1" using g1 grp by (simp add: group_ok_def needs_repair_def)
  from oms_ok_insert_group [OF 6 new this]
  have ins: "oms_inv (s6\<lparr>om_groups := fst (um_emplace gid grp1 (om_groups s6))\<rparr>)" .
  have free: "no_repair_order gid (s6\<lparr>om_groups := fst (um_emplace gid grp1 (om_groups s6))\<rparr>)"
    using fresh_group_no_repair_order [OF 6 new] by (simp add: no_repair_order_def)
  have 8: "oms_inv s8" "no_repair_order gid s8"
    using oms_ok_register_group [OF ins legs] free by (simp_all add: s8_def no_repair_order_def)
  then show "oms_inv (withdraw_group intent gid legs s8)" by (rule oms_ok_withdraw_group)
  have "find_group s8 gid = Some grp1" using new by (simp add: s8_def um.find_emplace)
  then show "oms_inv (upd_group gid (\<lambda>g. g\<lparr>gr_execution_state := GES_kPENDING_VENUE, gr_last_update_ts_ns := t\<rparr>) s8)"
    using g1(1) grp(2) by (intro oms_ok_upd_group_keep [OF 8(1)]) (simp_all add: in_repair_def needs_repair_def)
qed

lemma admitted_group_simps [simp]:
  "gr_oms_group_id (admitted_group intent gid bid t w legs) = gid"
  "gr_execution_state (admitted_group intent gid bid t w legs) = GES_kADMITTED"
  "gr_cancel_attempt_count (admitted_group intent gid bid t w legs) = 0"
  "gr_repair_attempt_count (admitted_group intent gid bid t w legs) = 0"
  by (simp_all add: admitted_group_def empty_group_def Let_def)

lemma oms_ok_run_admit_group:
  assumes ok: "oms_inv s"
    and grp: "gr_execution_state grp = GES_kADMITTED" "gr_cancel_attempt_count grp = 0" "gr_repair_attempt_count grp = 0"
    and legs: "plain_legs legs"
  shows "oms_inv (admit_group intent recv grp t legs s)"
proof -
  let ?i = "ic_strategy_index (goi_context intent)"
  let ?gid = "gr_oms_group_id grp"
  obtain grp1 s6 reserved where res: "reserve_group_capital grp s = (grp1, s6, reserved)" by (rule prod_cases3)
  have 6: "oms_inv s6" using ok res by (rule oms_ok_reserve)
  have rel: "oms_inv (snd (release_group_capital grp1 s6))" if reserved
    using oms_ok_reserve [OF ok res] that by (intro oms_ok_release_group_capital) auto
  have fin: "oms_inv (emit_strategy_portfolio_update ?i t (emit_group_state_update ?gid t
      (case find_group s10 ?gid of None \<Rightarrow> s10 | Some g \<Rightarrow> emit_group_admission_response g st rr t' s10)))"
    if "oms_inv s10" for s10 t' st rr
    using that by (intro oms_ok_emit_portfolio) (simp split: option.split)
  have open_count: "oms_inv (upd_portfolio ?i (\<lambda>p. p\<lparr>sp_open_order_count := sp_open_order_count p + n\<rparr>)
      (ensure_strategy_portfolio ?i s9))" if "oms_inv s9" for s9 n
    using that by (intro oms_ok_upd_portfolio_frame oms_ok_ensure_portfolio) simp_all
  show ?thesis
  proof (cases "reserved \<and> find_group s6 ?gid = None")
    case True
    then have res': "reserve_group_capital grp s = (grp1, s6, True)" and new: "find_group s6 ?gid = None" using res by simp_all
    obtain groups where groups: "um_emplace ?gid grp1 (om_groups s6) = (groups, True)"
      "groups = fst (um_emplace ?gid grp1 (om_groups s6))"
      using new by (simp add: um_emplace_def)
    have admit: "oms_inv (withdraw_group intent ?gid legs s8)"
      "oms_inv (upd_group ?gid (\<lambda>g. g\<lparr>gr_execution_state := GES_kPENDING_VENUE, gr_last_update_ts_ns := t\<rparr>) s8)"
      if "send_kalshi_command c (register_group intent ?gid legs (s6\<lparr>om_groups := groups\<rparr>)) = (s8, ok)" for c s8 ok
      using oms_ok_admit_group [OF ok res' new refl grp legs, where intent = intent and command = c] that groups(2) by simp_all
    show ?thesis
      unfolding admit_group_def Let_def res' prod.case groups(1)
      by (intro oms_ok_cases fin open_count) (simp_all add: admit)
  next
    case False
    then show ?thesis
      using 6 rel by (auto simp: admit_group_def Let_def res um_emplace_def split: option.split)
  qed
qed

lemma oms_ok_handle_group_order:
  assumes "oms_inv s"
  shows "oms_inv (handle_group_order intent s)"
proof -
  have 2: "oms_inv s2" if "check_group_admission intent (snd (now_ns s)) = (a, s2)" for a s2
    using that assms check_group_admission_frame(1) [of True "{}" intent "snd (now_ns s)"] by simp
  have 5: "oms_inv s5" if "build_legs intent gid t is s4 = (s5, legs)" "oms_inv s4" for s4 s5 legs t "is" gid
    using build_legs_frame(1) [of True "{}" intent gid t "is" s4] that by simp
  have run: "oms_inv (admit_group intent recv (admitted_group intent gid bid t w legs) t legs s5)"
    if "build_legs intent gid t is s4 = (s5, Some legs)" "oms_inv s4" for s4 s5 legs t "is" gid recv bid w
    using build_legs_records [of intent gid t "is" s4 legs] that 5
    by (intro oms_ok_run_admit_group) auto
  show ?thesis
    unfolding handle_group_order_def Let_def now_ns_def take_request_id_def prod.case
    by (intro oms_ok_cases)
      (use 2 5 run in \<open>auto simp: now_ns_def\<close>)
qed

lemma oms_ok_handle_strategy_intent:
  assumes "oms_inv s"
  shows "oms_inv (handle_strategy_intent intent s)"
  using assms
  by (cases intent) (simp_all add: oms_ok_handle_new_order oms_ok_handle_cancel_order oms_ok_handle_modify_order oms_ok_handle_group_order)

section \<open>Events from the exchange\<close>

lemma oms_ok_note_exchange_id:
  assumes "oms_ok b E s"
  shows "oms_ok b E (note_exchange_id xid rid s)"
  using assms by (auto simp: note_exchange_id_def intro!: oms_ok_upd_order_keep split: option.split)

lemma rest_transition_keeps [simp]:
  "ord_reserved_capital_ticks (rest_transition code kind r) = ord_reserved_capital_ticks r"
  "ord_repair_order (rest_transition code kind r) = ord_repair_order r"
  "ord_oms_group_id (rest_transition code kind r) = ord_oms_group_id r"
  by (cases code; cases kind; simp add: rest_refused_def restore_previous_state_def clear_pending_command_def)+

lemma ws_transitions_keep [simp]:
  "ord_reserved_capital_ticks (user_order_transition e r) = ord_reserved_capital_ticks r"
  "ord_repair_order (user_order_transition e r) = ord_repair_order r"
  "ord_oms_group_id (user_order_transition e r) = ord_oms_group_id r"
  "ord_reserved_capital_ticks (fill_transition e r) = ord_reserved_capital_ticks r"
  "ord_repair_order (fill_transition e r) = ord_repair_order r"
  "ord_oms_group_id (fill_transition e r) = ord_oms_group_id r"
  by (simp_all add: user_order_transition_def fill_transition_def clear_pending_command_def Let_def)

lemma oms_ok_handle_rest_order_response:
  assumes "oms_inv s"
  shows "oms_inv (handle_rest_order_response response s)"
  unfolding handle_rest_order_response_def Let_def
  by (intro oms_ok_cases)
    (simp_all add: assms oms_ok_update_group oms_ok_account_terminal_order oms_ok_upd_order_keep oms_ok_note_exchange_id)

lemma oms_ok_handle_leg_responses:
  "oms_inv (fst acc) \<Longrightarrow> oms_inv (fst (fold (handle_leg_response response) is acc))"
  by (induction "is" arbitrary: acc)
    (simp_all add: handle_leg_response_def Let_def case_prod_beta oms_ok_handle_rest_order_response)

lemma oms_ok_handle_rest_order_batch_response:
  assumes "oms_inv s"
  shows "oms_inv (handle_rest_order_batch_response response s)"
proof -
  have "oms_inv s1" if "fold (handle_leg_response response) is (s\<lparr>om_defer_group_state_updates := True\<rparr>, m) = (s1, missing)" for "is" m s1 missing
    using oms_ok_handle_leg_responses [of "(s\<lparr>om_defer_group_state_updates := True\<rparr>, m)" response "is"] that assms by simp
  then show ?thesis
    unfolding handle_rest_order_batch_response_def Let_def
    by (intro oms_ok_cases; simp) (simp_all add: oms_ok_update_group oms_ok_begin_group_repair)
qed

lemma oms_ok_handle_market_position_event:
  assumes "oms_inv s"
  shows "oms_inv (handle_market_position_event event s)"
  using assms by (simp add: handle_market_position_event_def Let_def oms_ok_apply_venue_market_position)

lemma oms_ok_after_ws_update: "oms_inv s \<Longrightarrow> oms_inv (after_ws_update rid t s)"
  by (simp add: after_ws_update_def oms_ok_update_group oms_ok_account_terminal_order)

lemma oms_ok_handle_private_ws_order_event:
  assumes "oms_inv s"
  shows "oms_inv (handle_private_ws_order_event event s)"
  unfolding handle_private_ws_order_event_def Let_def
  by (cases "pwe_event_kind event"; simp only: private_ws_order_event_kind.case; intro oms_ok_cases)
    (simp_all add: assms oms_ok_handle_market_position_event oms_ok_after_ws_update oms_ok_account_fill
      oms_ok_upd_order_keep oms_ok_note_exchange_id)

section \<open>Reconciliation\<close>

lemma oms_ok_not_trading:
  assumes "oms_ok b E s" "\<not> om_trading_enabled s'" "om_risk s' = om_risk s" "om_groups s' = om_groups s"
    "om_orders s' = om_orders s" "om_portfolios s' = om_portfolios s"
    "om_execution_incident_active s' = om_execution_incident_active s"
  shows "oms_ok b E s'"
  using assms by (simp add: oms_ok_defs)

lemma oms_ok_reconciliation_failed:
  assumes "oms_inv s"
  shows "oms_inv (portfolio_reconciliation_failed s)"
  unfolding portfolio_reconciliation_failed_def Let_def case_prod_beta
  by (simp only: oms_ok_emit, rule oms_ok_recompute_all, rule oms_ok_not_trading [OF assms]) simp_all

lemma oms_ok_reconcile_single:
  assumes "oms_ok False E s"
  shows "oms_ok False E (reconcile_single_strategy t s)"
proof -
  have market: "oms_ok False E (reconcile_market prev t entry s)" if "oms_ok False E s" for prev entry s
    using that unfolding reconcile_market_def Let_def case_prod_beta
    by (intro oms_ok_emit_position oms_ok_inventory) simp_all
  have closed: "oms_ok False E (keep_closed_market t entry s)" if "oms_ok False E s" for entry s
    using that by (simp add: keep_closed_market_def Let_def case_prod_beta oms_ok_emit_position)
  have "oms_ok False E (upd_portfolio 0 (\<lambda>p. p\<lparr>sp_inventory_exposure_ticks := 0\<rparr>)
      (ensure_strategy_portfolio 0 (s\<lparr>om_positions := ps\<rparr>)))" for ps
    using assms by (intro oms_ok_inventory oms_ok_ensure_portfolio) simp_all
  then show ?thesis
    unfolding reconcile_single_strategy_def Let_def by (intro oms_ok_fold market closed)
qed

lemma oms_ok_reconciled: "oms_ok b E s \<Longrightarrow> vp_reconciled v \<Longrightarrow> oms_ok b E (s\<lparr>om_venue_portfolio := v\<rparr>)"
  by (simp add: oms_ok_defs)

lemma oms_ok_maybe_report_ready: "oms_ok b E s \<Longrightarrow> oms_ok b E (maybe_report_ready s)"
  by (simp add: maybe_report_ready_def case_prod_beta)

lemma oms_ok_reconciliation_complete:
  assumes "oms_inv s"
  shows "oms_inv (portfolio_reconciliation_complete snapshot s)"
proof -
  have tail: "oms_inv (maybe_report_ready (emit_telemetry (fold (\<lambda>i. emit_strategy_portfolio_update i t) is
      (recompute_all_strategy_available_capital s4))))" if "oms_ok False {} s4" for t "is" s4
    by (rule oms_ok_maybe_report_ready, simp only: oms_ok_emit)
      (intro oms_ok_fold oms_ok_recompute_all [OF that] oms_ok_emit_portfolio)
  have "oms_ok False {} s" using assms by (rule oms_ok_weaken) simp_all
  then show ?thesis
    unfolding portfolio_reconciliation_complete_def Let_def
    by (intro tail oms_ok_cases) (simp_all add: now_ns_def case_prod_beta oms_ok_reconcile_single oms_ok_reconciled)
qed

lemma oms_ok_handle_venue_portfolio_snapshot:
  assumes "oms_inv s"
  shows "oms_inv (handle_venue_portfolio_snapshot snapshot s)"
  using assms
  by (simp add: handle_venue_portfolio_snapshot_def Let_def oms_ok_reconciliation_failed oms_ok_reconciliation_complete)

lemma oms_ok_try_send_pending: "oms_ok b E s \<Longrightarrow> oms_ok b E (fst (try_send_pending_control_status s))"
  by (simp add: try_send_pending_control_status_def case_prod_beta split: option.split)

lemma oms_ok_handle_venue_event:
  assumes "oms_inv s"
  shows "oms_inv (handle_venue_event event s)"
  using assms
  by (cases event) (simp_all add: oms_ok_handle_rest_order_response oms_ok_handle_rest_order_batch_response
      oms_ok_handle_private_ws_order_event oms_ok_handle_venue_portfolio_snapshot handle_order_rest_egress_drained_def
      oms_ok_try_send_pending)

section \<open>Control commands\<close>

lemma oms_ok_set_trading:
  "oms_ok b E s \<Longrightarrow> (t \<Longrightarrow> trading_gate (s\<lparr>om_trading_enabled := True\<rparr>)) \<Longrightarrow> oms_ok b E (s\<lparr>om_trading_enabled := t\<rparr>)"
  by (auto simp: oms_ok_defs)

lemma oms_ok_handle_allow_trading:
  assumes "oms_inv s"
  shows "oms_inv (handle_allow_trading s)"
  unfolding handle_allow_trading_def
  by (simp only: oms_ok_emit, rule oms_ok_set_trading [OF assms]) (auto simp: trading_gate_def portfolio_ready_for_trading_def)

lemma oms_ok_handle_cancel_all_orders:
  assumes "oms_inv s"
  shows "oms_inv (handle_cancel_all_orders s)"
proof -
  have "oms_inv (s\<lparr>om_cancel_all_requested := True, om_trading_enabled := False\<rparr>)"
    using assms by (simp add: oms_ok_set_trading)
  then show ?thesis by (simp add: handle_cancel_all_orders_def Let_def case_prod_beta oms_ok_cancel_each)
qed

lemma oms_ok_handle_apply_order_route_universe:
  assumes "oms_inv s"
  shows "oms_inv (handle_apply_order_route_universe snapshot s)"
proof -
  let ?v = "\<lambda>u. case u of None \<Rightarrow> 0 | Some x \<Rightarrow> oru_version x"
  show ?thesis
  proof (cases "snapshot = None \<or> ?v snapshot \<noteq> ?v (om_universe s)")
    case True
    have "oms_inv s'" if "\<not> om_trading_enabled s'" "om_risk s' = om_risk s" "om_groups s' = om_groups s"
      "om_orders s' = om_orders s" "om_portfolios s' = om_portfolios s"
      "om_execution_incident_active s' = om_execution_incident_active s" for s'
      using assms that by (rule oms_ok_not_trading)
    with True show ?thesis
      unfolding handle_apply_order_route_universe_def Let_def
      by (simp only: if_True oms_ok_emit) (intro oms_ok_if oms_ok_recompute_all [where b = True]; simp)
  next
    case False
    then obtain u where "snapshot = Some u" "oru_version u = ?v (om_universe s)" by auto
    with assms show ?thesis
      by (auto simp: handle_apply_order_route_universe_def Let_def oms_ok_defs split: option.splits)
  qed
qed

lemma oms_ok_handle_control_command:
  assumes "oms_inv s"
  shows "oms_inv (handle_control_command command s)"
  using assms
  by (cases command) (simp_all add: oms_ok_handle_allow_trading oms_ok_handle_cancel_all_orders
      oms_ok_handle_apply_order_route_universe handle_disable_trading_def oms_ok_set_trading)

lemma oms_ok_maybe_request: "oms_ok b E s \<Longrightarrow> oms_ok b E (fst (maybe_request_portfolio_reconciliation s))"
  by (simp add: maybe_request_portfolio_reconciliation_def Let_def case_prod_beta split: option.split)

section \<open>The pump\<close>

interpretation intents: round_robin pop_strategy_intent receive_strategy_intent oms_inv
proof
  fix s i
  assume "oms_inv s"
  then show "oms_inv (fst (pop_strategy_intent i s))" by (simp add: pop_strategy_intent_def case_prod_beta split: option.split)
next
  fix s e
  assume "oms_inv s"
  then show "oms_inv (receive_strategy_intent e s)" by (simp add: receive_strategy_intent_def oms_ok_handle_strategy_intent)
qed

interpretation venue: round_robin pop_venue_event handle_venue_event oms_inv
proof
  fix s i
  assume "oms_inv s"
  then show "oms_inv (fst (pop_venue_event i s))" by (simp add: pop_venue_event_def case_prod_beta split: option.split)
qed (rule oms_ok_handle_venue_event)

lemma oms_ok_drain_control_commands:
  "oms_inv s \<Longrightarrow> oms_inv (fst (drain_control_commands budget s))"
  by (induction budget arbitrary: s)
    (auto simp: Let_def case_prod_beta oms_ok_handle_control_command split: prod.split option.split)

lemma oms_ok_pump_once:
  assumes "oms_inv s"
  shows "oms_inv (fst (pump_once s))"
  unfolding pump_once_def Let_def case_prod_beta fst_conv drain_strategy_intents_def drain_venue_events_def
  by (intro intents.rounds_invar venue.rounds_invar oms_ok_maybe_report_ready oms_ok_maybe_request
      oms_ok_service_execution_incidents oms_ok_drain_control_commands oms_ok_try_send_pending assms)

section \<open>The order manager in its environment\<close>

text \<open>The other threads put messages into the queues the order manager reads and take messages out of the
  queues it writes; in between, the order manager pumps.\<close>

datatype oms_op =
    Op_pump
  | Op_intent nat strategy_intent
  | Op_venue_event nat kalshi_to_oms_event
  | Op_control control_to_oms_command
  | Op_read_response nat
  | Op_read_status
  | Op_read_command

definition adjust_queue :: "('e bqueue \<Rightarrow> 'e bqueue) \<Rightarrow> nat \<Rightarrow> 'e bqueue option list \<Rightarrow> 'e bqueue option list" where
  "adjust_queue f i qs = (if i < length qs then qs[i := map_option f (qs ! i)] else qs)"

fun oms_step :: "oms_op \<Rightarrow> oms \<Rightarrow> oms" where
  "oms_step Op_pump s = fst (pump_once s)"
| "oms_step (Op_intent i e) s = s\<lparr>om_intent_queues := adjust_queue (\<lambda>q. fst (bq_push e q)) i (om_intent_queues s)\<rparr>"
| "oms_step (Op_venue_event i e) s = s\<lparr>om_venue_queues := adjust_queue (\<lambda>q. fst (bq_push e q)) i (om_venue_queues s)\<rparr>"
| "oms_step (Op_control c) s = s\<lparr>om_control_queue := fst (bq_push c (om_control_queue s))\<rparr>"
| "oms_step (Op_read_response i) s = s\<lparr>om_response_queues := adjust_queue (\<lambda>q. fst (bq_pop q)) i (om_response_queues s)\<rparr>"
| "oms_step Op_read_status s = s\<lparr>om_status_queue := fst (bq_pop (om_status_queue s))\<rparr>"
| "oms_step Op_read_command s = s\<lparr>om_kalshi_queue := fst (bq_pop (om_kalshi_queue s))\<rparr>"

interpretation oms: guarded_machine oms_step oms_inv "\<lambda>_. True"
proof
  fix s op
  assume "oms_inv s"
  then show "oms_inv (oms_step op s)" by (cases op) (simp_all add: oms_ok_pump_once)
qed

lemma oms_inv_make_oms:
  assumes "rk_strategy_allocation_limit_ticks risk \<le> i64_max"
  shows "oms_inv (make_oms intents responses control status kalshi venue risk clock)"
  using assms by (simp add: make_oms_def oms_ok_defs um.find_empty um.wf_empty)

lemma oms_run_inv:
  assumes "rk_strategy_allocation_limit_ticks risk \<le> i64_max"
  shows "oms_inv (fold oms_step ops (make_oms intents responses control status kalshi venue risk clock))"
  using oms.run_invar [OF oms_inv_make_oms [OF assms]] by (simp add: list_all_iff)

end
