(* ===== verification/Oms_Demo.thy ===== *)
theory Oms_Demo
  imports Oms_Handler_Invariant
begin

text \<open>
  A small order manager with two markets of one event, and the messages of a run in which a group of two
  legs is admitted. It is the concrete input of the witnesses.
\<close>

definition demo_risk :: oms_risk_config where
  "demo_risk = \<lparr>rk_strategy_allocation_limit_ticks = 50000, rk_venue_safety_reserve_ticks = 0,
     rk_maximum_group_reservation_ticks = 40000, rk_maximum_group_legs = 4, rk_maximum_group_repair_attempts = 2,
     rk_maximum_group_intent_age_ns = 1000, rk_portfolio_reconciliation_interval_ns = 0,
     rk_require_portfolio_reconciliation = False\<rparr>"

definition demo_route :: "market_id \<Rightarrow> order_market_route" where
  "demo_route mid = \<lparr>omr_market_id = mid, omr_event_id = 7, omr_kalshi_ticker = ''T'', omr_tradeable = True,
     omr_price_level_structure = PLS_kLINEAR_CENT, omr_strike_key = None, omr_market_time_s = 0, omr_market_close_time_s = 0,
     omr_market_expected_expiration_time_s = 0, omr_market_expiration_time_s = 0\<rparr>"

definition demo_universe :: order_route_universe where
  "demo_universe = \<lparr>oru_version = 1, oru_market_routes = [demo_route 1, demo_route 2]\<rparr>"

definition demo_context :: "u16 \<Rightarrow> u8 \<Rightarrow> u32 \<Rightarrow> u64 \<Rightarrow> intent_context" where
  "demo_context strategy leg intent grp = empty_context\<lparr>ic_strategy_index := strategy, ic_market_id := ucast leg + 1, ic_event_id := 7,
     ic_strategy_id := 1, ic_strategy_intent_id := intent, ic_signal_id := 1, ic_group_intent_id := grp, ic_leg_index := leg,
     ic_leg_count := 2, ic_universe_version := 1, ic_event_revision := 1, ic_ingress_timestamp_ns := 1,
     ic_book_apply_timestamp_ns := 1, ic_observation_publish_timestamp_ns := 1, ic_strategy_dequeue_timestamp_ns := 1,
     ic_evaluation_complete_timestamp_ns := 1, ic_intent_publish_timestamp_ns := 1\<rparr>"

definition demo_leg :: "u16 \<Rightarrow> u8 \<Rightarrow> u64 \<Rightarrow> i64 \<Rightarrow> new_order_intent" where
  "demo_leg strategy leg grp quantity = \<lparr>noi_context = demo_context strategy leg (ucast leg + 1) grp, noi_outcome = O_kYES, noi_action = OA_kBUY,
     noi_liquidity_intent = LI_kTAKER, noi_order_type = OT_kMARKETABLE_LIMIT, noi_time_in_force = TIF_kFOK,
     noi_price_ticks = 4000, noi_quantity_lots = quantity\<rparr>"

definition demo_group :: "u16 \<Rightarrow> u64 \<Rightarrow> i64 \<Rightarrow> group_order_intent" where
  "demo_group strategy grp quantity = \<lparr>goi_context = demo_context strategy 0 1 grp,
     goi_new_orders = [demo_leg strategy 0 grp quantity, demo_leg strategy 1 grp quantity],
     goi_leg_count = 2, goi_admission_policy = GAP_kALL_OR_NONE, goi_expected_gross_edge_ticks = 10,
     goi_estimated_fee_ticks = 2, goi_expected_net_edge_ticks = 8\<rparr>"

definition demo_queue :: "nat \<Rightarrow> 'e bqueue" where
  "demo_queue n = \<lparr>bq_capacity = n, bq_items = []\<rparr>"

definition demo_oms :: "nat \<Rightarrow> oms_risk_config \<Rightarrow> oms" where
  "demo_oms strategies risk = make_oms (replicate strategies (Some (demo_queue 4))) (replicate strategies (Some (demo_queue 16)))
     (demo_queue 4) (demo_queue 16) (demo_queue 8) [Some (demo_queue 4)] risk (\<lambda>_. 10)"

definition demo_start :: "oms_op list" where
  "demo_start = [Op_control (CtlApplyOrderRouteUniverse (Some demo_universe)), Op_control CtlAllowTrading,
     Op_intent 0 (IntentGroupOrder (demo_group 0 5 100)), Op_pump]"

definition demo_ws :: "private_ws_order_event_kind \<Rightarrow> oms_request_id \<Rightarrow> venue_trade_id \<Rightarrow> order_state \<Rightarrow> i64 \<Rightarrow> private_ws_order_event" where
  "demo_ws kind rid trade st filled = \<lparr>pwe_event_kind = kind, pwe_client_order_id = make_client_order_id rid, pwe_exchange_order_id = [],
     pwe_trade_id = trade, pwe_market_id = ucast rid - 1, pwe_outcome = O_kYES, pwe_action = OA_kBUY, pwe_recv_ts_ns = 20,
     pwe_venue_ts_ns = 0, pwe_ws_sequence = 0, pwe_order_state = st, pwe_ordered_qty_lots = 100,
     pwe_cumulative_filled_qty_lots = filled, pwe_leaves_qty_lots = 100 - filled, pwe_last_fill_qty_lots = filled,
     pwe_last_fill_price_ticks = 4000, pwe_net_position_lots = 0, pwe_position_cost_ticks = 0, pwe_realized_pnl_ticks = 0,
     pwe_fees_paid_ticks = 0, pwe_position_fee_cost_ticks = 0, pwe_volume_lots = 0\<rparr>"

definition demo_rest :: "rest_result_code \<Rightarrow> oms_request_id \<Rightarrow> rest_order_response" where
  "demo_rest code rid = \<lparr>ror_context = \<lparr>oc_oms_request_id = rid, oc_context = empty_context\<rparr>, ror_command_kind = RCK_kSUBMIT_ORDER,
     ror_result_code = code, ror_client_order_id = make_client_order_id rid, ror_exchange_order_id = [], ror_transport_submit_ts_ns = 0,
     ror_transport_recv_ts_ns = 15, ror_http_status_code = 0, ror_retry_count = 0, ror_venue_reject_reason = VRR_kNone,
     ror_raw_reason_message = [], ror_execution_summary_present = False, ror_acknowledged_fill_qty_lots = 0,
     ror_acknowledged_remaining_qty_lots = 0, ror_acknowledged_average_fill_price_ticks = 0, ror_acknowledged_fee_paid_ticks = 0,
     ror_venue_ts_ms = 0\<rparr>"

text \<open>The first leg fills, the second is refused: the order manager starts to unwind the first.\<close>

definition demo_incident :: "oms_op list" where
  "demo_incident = demo_start @ [Op_venue_event 0 (EvPrivateWsOrderEvent (demo_ws PWK_kFILL 2 ''t1'' OS_kUNKNOWN 100)),
     Op_venue_event 0 (EvRestOrderResponse (demo_rest RRC_kREJECTED 3)), Op_pump]"

text \<open>The state after the fill of the first leg.\<close>

definition demo_fill :: private_ws_order_event where
  "demo_fill = demo_ws PWK_kFILL 2 ''t1'' OS_kUNKNOWN 100"

definition demo_filled :: oms where
  "demo_filled = handle_private_ws_order_event demo_fill (fold oms_step demo_start (demo_oms 1 demo_risk))"

text \<open>What the witnesses look at in a state.\<close>

definition group_view :: "oms \<Rightarrow> oms_group_id \<Rightarrow> (group_execution_state \<times> i64 list \<times> u8 \<times> u8) option" where
  "group_view s gid = map_option (\<lambda>g. (gr_execution_state g, take 2 (gr_residual_yes_lots g), gr_cancel_attempt_count g,
     gr_repair_attempt_count g)) (find_group s gid)"

definition portfolio_view :: "oms \<Rightarrow> u16 \<Rightarrow> (i64 \<times> i64) option" where
  "portfolio_view s i = map_option (\<lambda>p. (sp_reserved_order_capital_ticks p, sp_available_capital_ticks p)) (um_find (om_portfolios s) i)"

lemma demo_start_run:
  "om_trading_enabled (fold oms_step demo_start (demo_oms 1 demo_risk))
   \<and> portfolio_view (fold oms_step demo_start (demo_oms 1 demo_risk)) 0 = Some (20000, 30000)"
  by code_simp

lemma demo_incident_run:
  "group_view (fold oms_step demo_incident (demo_oms 1 demo_risk)) 1 = Some (GES_kUNWINDING, [100, 0], 0, 1)"
  by code_simp

end
