(* ===== verification/Oms_Fixed.thy ===== *)
theory Oms_Fixed
  imports Oms_Handler_Invariant
begin

text \<open>
  No operation of the order manager changes its risk configuration or puts anything into the queues it
  reads, and only the event of a fill changes the ledger of trades. Together with the contract of a queue
  this gives the progress of the drains.
\<close>

section \<open>The fixed part of the state\<close>

definition oms_inputs :: "oms \<Rightarrow> oms_risk_config \<times> strategy_intent bqueue option list \<times> kalshi_to_oms_event bqueue option list \<times> control_to_oms_command bqueue" where
  "oms_inputs s = (om_risk s, om_intent_queues s, om_venue_queues s, om_control_queue s)"

definition oms_fixed where
  "oms_fixed s = (oms_inputs s, om_accounted_trades s)"

lemma inputs_fixed: "oms_fixed s' = oms_fixed s \<Longrightarrow> oms_inputs s' = oms_inputs s"
  by (simp add: oms_fixed_def)

lemma ledger_fixed: "oms_fixed s' = oms_fixed s \<Longrightarrow> om_accounted_trades s' = om_accounted_trades s"
  by (simp add: oms_fixed_def)

lemma fixed_update [simp]:
  "oms_fixed (s\<lparr>om_telemetry := t\<rparr>) = oms_fixed s"
  "oms_fixed (s\<lparr>om_orders := os\<rparr>) = oms_fixed s"
  "oms_fixed (s\<lparr>om_groups := gs\<rparr>) = oms_fixed s"
  "oms_fixed (s\<lparr>om_portfolios := pfs\<rparr>) = oms_fixed s"
  "oms_fixed (s\<lparr>om_universe := un\<rparr>) = oms_fixed s"
  "oms_fixed (s\<lparr>om_venue_portfolio := vp\<rparr>) = oms_fixed s"
  "oms_fixed (s\<lparr>om_trading_enabled := n\<rparr>) = oms_fixed s"
  "oms_fixed (s\<lparr>om_execution_incident_active := n\<rparr>) = oms_fixed s"
  "oms_fixed (s\<lparr>om_order_by_client := c\<rparr>) = oms_fixed s"
  "oms_fixed (s\<lparr>om_order_by_exchange := x\<rparr>) = oms_fixed s"
  "oms_fixed (s\<lparr>om_positions := ps\<rparr>) = oms_fixed s"
  "oms_fixed (s\<lparr>om_venue_positions := vs\<rparr>) = oms_fixed s"
  "oms_fixed (s\<lparr>om_group_by_intent := gi\<rparr>) = oms_fixed s"
  "oms_fixed (s\<lparr>om_market_routes := rs\<rparr>) = oms_fixed s"
  "oms_fixed (s\<lparr>om_portfolio_reconciliation_needed := n\<rparr>) = oms_fixed s"
  "oms_fixed (s\<lparr>om_next_reconciliation_due_ts_ns := u\<rparr>) = oms_fixed s"
  "oms_fixed (s\<lparr>om_next_reconciliation_id := u\<rparr>) = oms_fixed s"
  "oms_fixed (s\<lparr>om_active_reconciliation_id := u\<rparr>) = oms_fixed s"
  "oms_fixed (s\<lparr>om_next_oms_group_id := u\<rparr>) = oms_fixed s"
  "oms_fixed (s\<lparr>om_next_oms_request_id := u\<rparr>) = oms_fixed s"
  "oms_fixed (s\<lparr>om_defer_group_state_updates := n\<rparr>) = oms_fixed s"
  "oms_fixed (s\<lparr>om_ready_reported := n\<rparr>) = oms_fixed s"
  "oms_fixed (s\<lparr>om_execution_fault_reported := n\<rparr>) = oms_fixed s"
  "oms_fixed (s\<lparr>om_cancel_all_requested := n\<rparr>) = oms_fixed s"
  "oms_fixed (s\<lparr>om_pending_rest_egress_drained := d\<rparr>) = oms_fixed s"
  "oms_fixed (s\<lparr>om_response_queues := rq\<rparr>) = oms_fixed s"
  "oms_fixed (s\<lparr>om_status_queue := sq\<rparr>) = oms_fixed s"
  "oms_fixed (s\<lparr>om_kalshi_queue := kq\<rparr>) = oms_fixed s"
  "oms_fixed (s\<lparr>om_clock := ck\<rparr>) = oms_fixed s"
  by (simp_all add: oms_fixed_def oms_inputs_def)

lemma fixed_fold: "(\<And>x s. oms_fixed (f x s) = oms_fixed s) \<Longrightarrow> oms_fixed (fold f xs s) = oms_fixed s"
  by (induction xs arbitrary: s) simp_all

lemma fixed_if: "oms_fixed s = x \<Longrightarrow> oms_fixed s' = x \<Longrightarrow> oms_fixed (if c then s else s') = x"
  by simp

lemma fixed_option:
  "oms_fixed s = x \<Longrightarrow> (\<And>w. oms_fixed (f w) = x) \<Longrightarrow>
   oms_fixed (case v of None \<Rightarrow> s | Some w \<Rightarrow> f w) = x"
  by (cases v) simp_all

lemma fixed_prod: "(\<And>a b. v = (a, b) \<Longrightarrow> oms_fixed (f a b) = x) \<Longrightarrow> oms_fixed (case v of (a, b) \<Rightarrow> f a b) = x"
  by (cases v) simp

lemma fixed_let: "oms_fixed e = x \<Longrightarrow> (\<And>s. oms_fixed s = x \<Longrightarrow> oms_fixed (f s) = x) \<Longrightarrow> oms_fixed (let s = e in f s) = x"
  by simp

lemma fixed_let_pair: "(\<And>a b. e = (a, b) \<Longrightarrow> oms_fixed (f a b) = x) \<Longrightarrow> oms_fixed (let (a, b) = e in f a b) = x"
  by (cases e) simp

lemmas fixed_cases = fixed_if fixed_option fixed_prod

lemma fixed_basic [simp]:
  "oms_fixed (snd (now_ns s)) = oms_fixed s"
  "oms_fixed (snd (take_request_id s)) = oms_fixed s"
  "oms_fixed (upd_order rid fo s) = oms_fixed s"
  "oms_fixed (upd_group gid fg s) = oms_fixed s"
  "oms_fixed (upd_portfolio i fp s) = oms_fixed s"
  "oms_fixed (upd_position i mid fm s) = oms_fixed s"
  "oms_fixed (set_uncertain gid b s) = oms_fixed s"
  "oms_fixed (fst (send_strategy_message i m s)) = oms_fixed s"
  "oms_fixed (fst (send_kalshi_command c s)) = oms_fixed s"
  "oms_fixed (fst (send_control_status c' s)) = oms_fixed s"
  by (simp_all add: now_ns_def take_request_id_def upd_order_def upd_group_def upd_portfolio_def upd_position_def
      set_uncertain_def send_strategy_message_def send_kalshi_command_def send_control_status_def Let_def case_prod_beta)

lemma fixed_messages [simp]:
  "oms_fixed (emit_order_state_update rid src t s) = oms_fixed s"
  "oms_fixed (emit_trading_enabled_changed s) = oms_fixed s"
  "oms_fixed (emit_telemetry s) = oms_fixed s"
  "oms_fixed (emit_group_admission_response g st rr t s) = oms_fixed s"
  "oms_fixed (emit_group_state_update gid t s) = oms_fixed s"
  "oms_fixed (emit_strategy_portfolio_update i t s) = oms_fixed s"
  "oms_fixed (snd (respond oc t ty rr s)) = oms_fixed s"
  "oms_fixed (maybe_report_execution_fault s) = oms_fixed s"
  "oms_fixed (fst (try_send_pending_control_status s)) = oms_fixed s"
  "oms_fixed (maybe_report_ready s) = oms_fixed s"
  by (simp_all add: emit_order_state_update_def emit_trading_enabled_changed_def emit_telemetry_def
      emit_group_admission_response_def emit_group_state_update_def emit_strategy_portfolio_update_def respond_def
      maybe_report_execution_fault_def try_send_pending_control_status_def maybe_report_ready_def
      Let_def case_prod_beta split: option.split)

lemma fixed_capital [simp]:
  "oms_fixed (recompute_strategy_available_capital i s) = oms_fixed s"
  "oms_fixed (recompute_all_strategy_available_capital s) = oms_fixed s"
  "oms_fixed (ensure_strategy_portfolio i s) = oms_fixed s"
  "oms_fixed (ensure_strategy_market_position i mid eid s) = oms_fixed s"
  by (simp_all add: recompute_strategy_available_capital_def recompute_all_strategy_available_capital_def
      ensure_strategy_portfolio_def ensure_strategy_market_position_def Let_def case_prod_beta)

lemma fixed_reserve [simp]:
  "oms_fixed (fst (snd (reserve_group_capital g s))) = oms_fixed s"
  "oms_fixed (snd (release_group_capital g s)) = oms_fixed s"
  "oms_fixed (release_stored_group gid s) = oms_fixed s"
  "oms_fixed (emit_strategy_market_position_update i mid t s) = oms_fixed s"
  "oms_fixed (release_order_reservation rid i gid r s) = oms_fixed s"
  by (simp_all add: reserve_group_capital_def release_group_capital_def release_stored_group_def
      emit_strategy_market_position_update_def release_order_reservation_def Let_def case_prod_beta split: option.split)

section \<open>Accounting and repair\<close>

lemma fixed_accounting [simp]:
  "oms_fixed (apply_venue_market_position p t s) = oms_fixed s"
  "oms_fixed (account_terminal_order rid t s) = oms_fixed s"
  by (simp_all add: apply_venue_market_position_def account_terminal_order_def Let_def case_prod_beta split: option.split)

lemma fixed_account_fill [simp]: "oms_fixed (account_fill rid e s) = oms_fixed s"
  unfolding account_fill_def Let_def
  by (intro fixed_cases refl; simp split: option.split)

lemma fixed_latch [simp]:
  "oms_fixed (latch_execution_incident s) = oms_fixed s"
  "oms_fixed (refresh_execution_incident_latch s) = oms_fixed s"
  "oms_fixed (fst (emit_cancel_command_for_record rid c cid t s)) = oms_fixed s"
  by (simp_all add: latch_execution_incident_def refresh_execution_incident_latch_def emit_cancel_command_for_record_def
      Let_def case_prod_beta split: option.split)

lemma fixed_cancel [simp]:
  "oms_fixed (fail_group_repair gid reason t s) = oms_fixed s"
  "oms_fixed (fst (cancel_each contexts t rids s)) = oms_fixed s"
  "oms_fixed (finish_repair gid t g s) = oms_fixed s"
  "oms_fixed (conclude_group gid st t s) = oms_fixed s"
  by (simp_all add: fail_group_repair_def finish_repair_def conclude_group_def Let_def split: option.split)
    (induction rids arbitrary: s, simp_all add: Let_def case_prod_beta)

lemma fixed_submit_repair [simp]:
  "oms_fixed (fst (submit_repair_order gid t i sent g s)) = oms_fixed s"
  by (simp add: submit_repair_order_def Let_def case_prod_beta split: option.split)

lemma fixed_submit_repairs [simp]: "oms_fixed (fst (submit_repair_orders gid t is n s)) = oms_fixed s"
  by (induction "is" arbitrary: n s) (simp_all add: Let_def case_prod_beta split: option.split)

lemma fixed_pairs:
  "cancel_each contexts t rids s = (s1, m) \<Longrightarrow> oms_fixed s1 = oms_fixed s"
  "submit_repair_orders gid t is n s = (s1, m) \<Longrightarrow> oms_fixed s1 = oms_fixed s"
  by (metis fixed_cancel(2) fst_conv, metis fixed_submit_repairs fst_conv)

lemma fixed_cancel_remainder [simp]: "oms_fixed (cancel_remainder gid t cancelable g s) = oms_fixed s"
  unfolding cancel_remainder_def
  by (intro fixed_cases fixed_let fixed_let_pair; simp add: fixed_pairs(1))

lemma fixed_unwind [simp]: "oms_fixed (unwind gid t g s) = oms_fixed s"
  unfolding unwind_def Let_def by (intro fixed_cases) (simp_all add: fixed_pairs(2))

lemma fixed_repair_exposure [simp]: "oms_fixed (repair_exposure gid t g s) = oms_fixed s"
  unfolding repair_exposure_def Let_def by (intro fixed_cases; simp)

lemma fixed_continue [simp]: "oms_fixed (continue_group_repair gid t s) = oms_fixed s"
  unfolding continue_group_repair_def Let_def by (intro fixed_cases; simp)

lemma fixed_begin [simp]: "oms_fixed (begin_group_repair gid reason t s) = oms_fixed s"
  unfolding begin_group_repair_def Let_def by (intro fixed_cases; simp)

lemma fixed_service [simp]: "oms_fixed (fst (service_execution_incidents s)) = oms_fixed s"
proof -
  have "oms_fixed (fst (fold (service_group t) gids acc)) = oms_fixed (fst acc)" for t gids acc
    by (induction gids arbitrary: acc) (simp_all add: service_group_def Let_def case_prod_beta split: option.split)
  then show ?thesis by (simp add: service_execution_incidents_def Let_def case_prod_beta)
qed

lemma fixed_update_group [simp]: "oms_fixed (update_group_after_order_state_change rid t s) = oms_fixed s"
  unfolding update_group_after_order_state_change_def Let_def by (intro fixed_cases; simp)

section \<open>Handlers\<close>

lemma fixed_legs [simp]:
  "oms_fixed (fst (build_legs intent gid t is s)) = oms_fixed s"
  "oms_fixed (fold insert_leg legs s) = oms_fixed s"
  "oms_fixed (fold erase_leg legs s) = oms_fixed s"
  by (induction "is" arbitrary: s, simp_all add: Let_def case_prod_beta)
    (rule fixed_fold, simp add: insert_leg_def erase_leg_def Let_def)+

lemma fixed_group_parts [simp]:
  "oms_fixed (withdraw_group intent gid legs s) = oms_fixed s"
  "oms_fixed (register_group intent gid legs s) = oms_fixed s"
  "oms_fixed (reject_intent oc t rr s) = oms_fixed s"
  "oms_fixed (reject_group gi t rr s) = oms_fixed s"
  "oms_fixed (snd (check_group_admission gi s)) = oms_fixed s"
  by (simp_all add: withdraw_group_def register_group_def reject_intent_def reject_group_def check_group_admission_def
      Let_def case_prod_beta split: option.split)

lemma fixed_intents [simp]:
  "oms_fixed (handle_new_order no s) = oms_fixed s"
  "oms_fixed (handle_cancel_order co s) = oms_fixed s"
  "oms_fixed (handle_modify_order mo s) = oms_fixed s"
  "oms_fixed (admit_group gi recv grp t legs s) = oms_fixed s"
  "oms_fixed (handle_group_order gi s) = oms_fixed s"
proof -
  show admit: "oms_fixed (admit_group gi recv grp t legs s) = oms_fixed s" for s grp legs recv t
    unfolding admit_group_def Let_def case_prod_beta by (intro fixed_cases; simp split: option.split)
  show "oms_fixed (handle_new_order no s) = oms_fixed s" "oms_fixed (handle_cancel_order co s) = oms_fixed s"
    "oms_fixed (handle_modify_order mo s) = oms_fixed s" "oms_fixed (handle_group_order gi s) = oms_fixed s"
    unfolding handle_new_order_def handle_cancel_order_def handle_modify_order_def handle_group_order_def Let_def case_prod_beta
    by (intro fixed_cases; simp add: admit)+
qed

lemma fixed_handle_strategy_intent [simp]: "oms_fixed (handle_strategy_intent intent s) = oms_fixed s"
  by (cases intent) simp_all

lemma fixed_note_exchange_id [simp]: "oms_fixed (note_exchange_id xid rid s) = oms_fixed s"
  by (simp add: note_exchange_id_def split: option.split)

lemma fixed_rest [simp]: "oms_fixed (handle_rest_order_response r s) = oms_fixed s"
  unfolding handle_rest_order_response_def Let_def by (intro fixed_cases; simp)

lemma fixed_batch [simp]: "oms_fixed (handle_rest_order_batch_response r s) = oms_fixed s"
proof -
  have "oms_fixed (fst (fold (handle_leg_response r) is acc)) = oms_fixed (fst acc)" for "is" acc
    by (induction "is" arbitrary: acc) (simp_all add: handle_leg_response_def Let_def case_prod_beta)
  then show ?thesis
    unfolding handle_rest_order_batch_response_def Let_def case_prod_beta by (intro fixed_cases; simp)
qed

text \<open>A fill is entered into the ledger of trades once; no other event touches it.\<close>

lemma fixed_after_ws [simp]: "oms_fixed (after_ws_update rid t s) = oms_fixed s"
  by (simp add: after_ws_update_def)

lemma ws_fill:
  assumes "pwe_event_kind e = PWK_kFILL"
  shows "oms_fixed (handle_private_ws_order_event e s) =
    (if (find_order_by_client s (pwe_client_order_id e) = None \<and> find_order_by_exchange s (pwe_exchange_order_id e) = None)
        \<or> pwe_trade_id e = [] \<or> pwe_trade_id e \<in> set (om_accounted_trades s)
     then oms_fixed s else (oms_inputs s, pwe_trade_id e # om_accounted_trades s))"
proof -
  have look: "find_order_by_client (s\<lparr>om_telemetry := t\<rparr>) = find_order_by_client s"
    "find_order_by_exchange (s\<lparr>om_telemetry := t\<rparr>) = find_order_by_exchange s" for t
    by (simp_all add: fun_eq_iff find_order_by_client_def find_order_by_exchange_def order_key_def split: option.split)
  have "oms_fixed (s2\<lparr>om_accounted_trades := ts\<rparr>) = (oms_inputs s2, ts)" for s2 :: oms and ts
    by (simp add: oms_fixed_def oms_inputs_def)
  moreover have "om_accounted_trades (note_exchange_id xid rid (s\<lparr>om_telemetry := t\<rparr>)) = om_accounted_trades s"
    "oms_inputs (note_exchange_id xid rid (s\<lparr>om_telemetry := t\<rparr>)) = oms_inputs s" for xid rid t
    using ledger_fixed [OF fixed_note_exchange_id] inputs_fixed [OF fixed_note_exchange_id] by (simp_all add: oms_inputs_def)
  ultimately show ?thesis
    using assms by (simp add: handle_private_ws_order_event_def Let_def look split: option.split)
qed

lemma ws_other: "pwe_event_kind e \<noteq> PWK_kFILL \<Longrightarrow> oms_fixed (handle_private_ws_order_event e s) = oms_fixed s"
  unfolding handle_private_ws_order_event_def Let_def
  by (cases "pwe_event_kind e"; simp only: private_ws_order_event_kind.case; intro fixed_cases)
    (simp_all add: handle_market_position_event_def Let_def)

lemma inputs_ws [simp]: "oms_inputs (handle_private_ws_order_event e s) = oms_inputs s"
  using ws_fill [of e s] ws_other [of e s]
  by (cases "pwe_event_kind e = PWK_kFILL") (auto simp: oms_fixed_def split: if_splits)

lemma fixed_reconcile [simp]: "oms_fixed (reconcile_single_strategy t s) = oms_fixed s"
proof -
  have "oms_fixed (reconcile_market prev t entry s) = oms_fixed s" "oms_fixed (keep_closed_market t entry' s) = oms_fixed s"
    for prev entry entry' s
    by (simp_all add: reconcile_market_def keep_closed_market_def Let_def case_prod_beta)
  then show ?thesis unfolding reconcile_single_strategy_def Let_def by (subst fixed_fold, simp)+ simp
qed

lemma fixed_snapshot [simp]: "oms_fixed (handle_venue_portfolio_snapshot v s) = oms_fixed s"
proof -
  have "oms_fixed (portfolio_reconciliation_failed s) = oms_fixed s" for s
    by (simp add: portfolio_reconciliation_failed_def Let_def case_prod_beta)
  moreover have "oms_fixed (portfolio_reconciliation_complete v s) = oms_fixed s" for s
    unfolding portfolio_reconciliation_complete_def Let_def case_prod_beta
    by (simp only: fixed_messages, subst fixed_fold, simp) simp
  ultimately show ?thesis by (simp add: handle_venue_portfolio_snapshot_def Let_def)
qed

lemma inputs_handle_venue_event [simp]: "oms_inputs (handle_venue_event e s) = oms_inputs s"
  by (cases e; simp only: handle_venue_event.simps inputs_ws; rule inputs_fixed; simp add: handle_order_rest_egress_drained_def)

lemma fixed_handle_control_command [simp]: "oms_fixed (handle_control_command c s) = oms_fixed s"
proof (cases c)
  case (CtlApplyOrderRouteUniverse u)
  show ?thesis
    unfolding CtlApplyOrderRouteUniverse handle_control_command.simps handle_apply_order_route_universe_def Let_def
    by (simp only: fixed_messages) (intro fixed_if; simp)
qed (simp_all add: handle_allow_trading_def handle_disable_trading_def handle_cancel_all_orders_def Let_def case_prod_beta)

lemma fixed_request [simp]: "oms_fixed (fst (maybe_request_portfolio_reconciliation s)) = oms_fixed s"
  by (simp add: maybe_request_portfolio_reconciliation_def Let_def case_prod_beta split: option.split)

section \<open>The drains\<close>

text \<open>The messages waiting in the queue at an index; a missing queue holds none.\<close>

definition waiting :: "'e bqueue option list \<Rightarrow> nat \<Rightarrow> 'e list" where
  "waiting qs i = (case nth_opt qs i of Some (Some q) \<Rightarrow> bq_items q | _ \<Rightarrow> [])"

definition waiting_total :: "nat \<Rightarrow> 'e bqueue option list \<Rightarrow> nat" where
  "waiting_total n qs = (\<Sum>i<n. length (waiting qs i))"

lemma waiting_update:
  "nth_opt qs i = Some (Some q) \<Longrightarrow> waiting (qs[i := Some q']) j = (if j = i then bq_items q' else waiting qs j)"
  by (auto simp: waiting_def nth_opt_def nth_list_update)

interpretation intent_queues: round_robin_queues pop_strategy_intent receive_strategy_intent "\<lambda>i s. waiting (om_intent_queues s) i"
proof
  fix s :: oms and i j e es
  show "waiting (om_intent_queues s) i = [] \<Longrightarrow> snd (pop_strategy_intent i s) = None"
    and "waiting (om_intent_queues s) i = e # es \<Longrightarrow> snd (pop_strategy_intent i s) = Some e"
    by (auto simp: waiting_def pop_strategy_intent_def bq_pop_def split: option.splits)
  show "waiting (om_intent_queues (fst (pop_strategy_intent i s))) j
      = (if j = i then tl (waiting (om_intent_queues s) i) else waiting (om_intent_queues s) j)"
    by (auto simp: pop_strategy_intent_def bq_pop_def waiting_update split: option.splits list.splits)
      (auto simp: waiting_def split: option.splits)
  have "oms_fixed (receive_strategy_intent e s) = oms_fixed s" by (simp add: receive_strategy_intent_def)
  then show "waiting (om_intent_queues (receive_strategy_intent e s)) j = waiting (om_intent_queues s) j"
    by (simp add: oms_fixed_def oms_inputs_def)
qed

interpretation venue_queues: round_robin_queues pop_venue_event handle_venue_event "\<lambda>i s. waiting (om_venue_queues s) i"
proof
  fix s :: oms and i j e es
  show "waiting (om_venue_queues s) i = [] \<Longrightarrow> snd (pop_venue_event i s) = None"
    and "waiting (om_venue_queues s) i = e # es \<Longrightarrow> snd (pop_venue_event i s) = Some e"
    by (auto simp: waiting_def pop_venue_event_def bq_pop_def split: option.splits)
  show "waiting (om_venue_queues (fst (pop_venue_event i s))) j
      = (if j = i then tl (waiting (om_venue_queues s) i) else waiting (om_venue_queues s) j)"
    by (auto simp: pop_venue_event_def bq_pop_def waiting_update split: option.splits list.splits)
      (auto simp: waiting_def split: option.splits)
  have "oms_inputs (handle_venue_event e s) = oms_inputs s" by simp
  then show "waiting (om_venue_queues (handle_venue_event e s)) j = waiting (om_venue_queues s) j"
    by (simp add: oms_inputs_def)
qed

section \<open>The risk configuration\<close>

lemma risk_fixed: "oms_fixed s' = oms_fixed s \<Longrightarrow> om_risk s' = om_risk s"
  by (simp add: oms_fixed_def oms_inputs_def)

interpretation intents_risk: round_robin pop_strategy_intent receive_strategy_intent "\<lambda>s. om_risk s = risk" for risk
proof
  fix s :: oms and i e
  assume "om_risk s = risk"
  then show "om_risk (fst (pop_strategy_intent i s)) = risk" "om_risk (receive_strategy_intent e s) = risk"
    using risk_fixed [OF fixed_handle_strategy_intent]
    by (simp_all add: pop_strategy_intent_def receive_strategy_intent_def case_prod_beta split: option.split)
qed

interpretation venue_risk: round_robin pop_venue_event handle_venue_event "\<lambda>s. om_risk s = risk" for risk
proof
  fix s :: oms and i e
  assume "om_risk s = risk"
  then show "om_risk (fst (pop_venue_event i s)) = risk" "om_risk (handle_venue_event e s) = risk"
    using inputs_handle_venue_event [of e s]
    by (simp_all add: oms_inputs_def pop_venue_event_def case_prod_beta split: option.split)
qed

lemma drain_control_commands_risk: "om_risk (fst (drain_control_commands budget s)) = om_risk s"
  by (induction budget arbitrary: s)
    (simp_all add: Let_def case_prod_beta risk_fixed [OF fixed_handle_control_command] split: prod.split option.split)

lemma pump_once_risk: "om_risk (fst (pump_once s)) = om_risk s"
  unfolding pump_once_def Let_def case_prod_beta fst_conv drain_strategy_intents_def drain_venue_events_def
  by (rule intents_risk.rounds_invar)
    (simp only: risk_fixed [OF fixed_messages(10)] risk_fixed [OF fixed_request] risk_fixed [OF fixed_service],
     rule venue_risk.rounds_invar, simp only: drain_control_commands_risk risk_fixed [OF fixed_messages(9)])

interpretation oms_risk: guarded_machine oms_step "\<lambda>s. om_risk s = risk" "\<lambda>_. True" for risk
proof
  fix s :: oms and op
  assume "om_risk s = risk"
  then show "om_risk (oms_step op s) = risk" by (cases op) (simp_all add: pump_once_risk)
qed

end
