(* ===== verification/Oms_Properties.thy ===== *)
theory Oms_Properties
  imports Oms_Demo Oms_Fixed
begin

text \<open>
  The properties of the order manager in every state it can reach, whatever the strategies, the exchange
  and the control plane send it and however its pump is interleaved with them: the trading gate, the repair
  of groups and the capital limits; and the progress of its drains.
\<close>

section \<open>Reachable states\<close>

text \<open>The states that a run of \<open>oms_step\<close> leads to from a new order manager with the given configuration.\<close>

inductive oms_reachable :: "oms_risk_config \<Rightarrow> oms \<Rightarrow> bool" for risk where
  reach_start: "oms_reachable risk (make_oms intents responses control status kalshi venue risk clock)"
| reach_step: "oms_reachable risk s \<Longrightarrow> oms_reachable risk (oms_step op s)"

lemma oms_reachable_run: "oms_reachable risk s \<Longrightarrow> oms_reachable risk (fold oms_step ops s)"
  by (induction ops arbitrary: s) (simp_all add: reach_step)

lemma oms_reachable_risk: "oms_reachable risk s \<Longrightarrow> om_risk s = risk"
  by (induction rule: oms_reachable.induct) (simp_all add: make_oms_def oms_risk.step_invar)

lemma oms_reachable_inv:
  "oms_reachable risk s \<Longrightarrow> rk_strategy_allocation_limit_ticks risk \<le> i64_max \<Longrightarrow> oms_inv s"
  by (induction rule: oms_reachable.induct) (simp_all add: oms_inv_make_oms oms.step_invar)

lemma demo_reachable: "oms_reachable demo_risk (fold oms_step ops (demo_oms n demo_risk))"
  unfolding demo_oms_def by (rule oms_reachable_run [OF reach_start])

lemma demo_risk_small: "rk_strategy_allocation_limit_ticks demo_risk \<le> i64_max"
  by (simp add: demo_risk_def)

section \<open>Trading and repair\<close>

lemma incident_latched:
  assumes "oms_inv s" "find_group s gid = Some g" "needs_repair (gr_execution_state g)"
  shows "om_execution_incident_active s"
  using oms_ok_group [OF assms(1,2)] assms(3) by (simp add: group_ok_def)

text \<open>C12. In every reachable state in which trading is enabled, no group is under repair and no incident
  is active, a universe with a version is installed, and the portfolio is reconciled if that is required.\<close>

theorem trading_enabled_safely:
  assumes "oms_reachable risk s" "rk_strategy_allocation_limit_ticks risk \<le> i64_max" "om_trading_enabled s"
  shows "(\<forall>gid g. find_group s gid = Some g \<longrightarrow> \<not> needs_repair (gr_execution_state g))
    \<and> \<not> om_execution_incident_active s \<and> (\<exists>u. om_universe s = Some u \<and> oru_version u \<noteq> 0)
    \<and> portfolio_ready_for_trading s"
proof -
  have inv: "oms_inv s" using assms(1,2) by (rule oms_reachable_inv)
  then have "trading_gate s" by (simp add: oms_ok_def)
  then show ?thesis using incident_latched [OF inv] assms(3) by (auto simp: trading_gate_def)
qed

theorem trading_enabled_safely_witness:
  "om_trading_enabled (fold oms_step demo_start (demo_oms 1 demo_risk))
   \<and> \<not> om_execution_incident_active (fold oms_step demo_start (demo_oms 1 demo_risk))"
  using trading_enabled_safely [OF demo_reachable demo_risk_small, of demo_start 1] demo_start_run by blast

lemma blocked_static: "om_execution_incident_active s \<Longrightarrow> check_group_static s grp = Some RR_kEXECUTION_BLOCKED"
  by (simp add: check_group_static_def)

lemma blocked_intents:
  assumes "om_execution_incident_active s"
  shows "handle_new_order no s = reject_intent (make_context (fst (take_request_id (snd (now_ns s)))) (noi_context no)) (fst (now_ns s))
      RR_kEXECUTION_BLOCKED (snd (take_request_id (snd (now_ns s))))"
    and "handle_modify_order mo s = reject_intent (make_context (fst (take_request_id (snd (now_ns s)))) (moi_context mo)) (fst (now_ns s))
      RR_kEXECUTION_BLOCKED (snd (take_request_id (snd (now_ns s))))"
    and "handle_group_order gi s = reject_group gi (fst (now_ns s)) RR_kEXECUTION_BLOCKED (snd (now_ns s))"
  using assms by (simp_all add: handle_new_order_def handle_modify_order_def handle_group_order_def
      check_group_admission_def blocked_static rejected_check_def Let_def case_prod_beta)

text \<open>C13. While a group is under repair in a reachable state, an intent that could create exposure (a new order,
  a group, a modification) sends no command to the exchange and changes no order, no group and no portfolio.\<close>

theorem repair_blocks_new_exposure:
  assumes "oms_reachable risk s" "rk_strategy_allocation_limit_ticks risk \<le> i64_max"
    "find_group s gid = Some g" "needs_repair (gr_execution_state g)" "\<nexists>c. intent = IntentCancelOrder c"
  shows "om_kalshi_queue (handle_strategy_intent intent s) = om_kalshi_queue s
    \<and> om_orders (handle_strategy_intent intent s) = om_orders s
    \<and> om_groups (handle_strategy_intent intent s) = om_groups s
    \<and> om_portfolios (handle_strategy_intent intent s) = om_portfolios s"
proof -
  have "om_execution_incident_active s" using incident_latched [OF oms_reachable_inv [OF assms(1,2)] assms(3,4)] .
  then show ?thesis using assms(5) by (cases intent) (simp_all add: blocked_intents)
qed

theorem repair_blocks_new_exposure_witness:
  "om_kalshi_queue (handle_strategy_intent (IntentGroupOrder (demo_group 0 6 100)) (fold oms_step demo_incident (demo_oms 1 demo_risk)))
   = om_kalshi_queue (fold oms_step demo_incident (demo_oms 1 demo_risk))"
proof -
  obtain g where g: "find_group (fold oms_step demo_incident (demo_oms 1 demo_risk)) 1 = Some g" "gr_execution_state g = GES_kUNWINDING"
    using demo_incident_run by (auto simp: group_view_def)
  show ?thesis
    using repair_blocks_new_exposure [OF demo_reachable demo_risk_small g(1), of "IntentGroupOrder (demo_group 0 6 100)"] g(2)
    by (simp add: needs_repair_def)
qed

text \<open>C15. In every reachable state the cancel attempts and the repair attempts of a group stay within the
  configured maximum, for every maximum an 8-bit counter can hold: the counters never wrap.\<close>

theorem repair_attempts_bounded:
  assumes "oms_reachable risk s" "rk_strategy_allocation_limit_ticks risk \<le> i64_max" "find_group s gid = Some g"
  shows "gr_cancel_attempt_count g \<le> rk_maximum_group_repair_attempts risk
    \<and> gr_repair_attempt_count g \<le> rk_maximum_group_repair_attempts risk"
  using oms_ok_group [OF oms_reachable_inv [OF assms(1,2)] assms(3)] oms_reachable_risk [OF assms(1)]
  by (simp add: group_ok_def)

theorem repair_attempts_bounded_witness:
  "\<exists>g. find_group (fold oms_step demo_incident (demo_oms 1 demo_risk)) 1 = Some g
     \<and> gr_repair_attempt_count g = 1 \<and> gr_repair_attempt_count g \<le> rk_maximum_group_repair_attempts demo_risk"
proof -
  obtain g where g: "find_group (fold oms_step demo_incident (demo_oms 1 demo_risk)) 1 = Some g" "gr_repair_attempt_count g = 1"
    using demo_incident_run by (auto simp: group_view_def)
  show ?thesis using repair_attempts_bounded [OF demo_reachable demo_risk_small g(1)] g by blast
qed

section \<open>Capital\<close>

lemma reserved_and_available:
  assumes "portfolio_base s p" "available_ok p" "rk_strategy_allocation_limit_ticks (om_risk s) \<le> i64_max"
  shows "sp_reserved_order_capital_ticks p + sp_available_capital_ticks p \<le> max 0 (rk_strategy_allocation_limit_ticks (om_risk s))"
  using assms by (auto simp: portfolio_base_def available_ok_def strategy_available_def Let_def min_def max_def split: if_splits)

text \<open>C14. In every reachable state the reservations of a strategy and the capital it may still use are not
  negative, and together they stay within the allocation of the strategy.\<close>

theorem capital_within_allocation:
  assumes "oms_reachable risk s" "rk_strategy_allocation_limit_ticks risk \<le> i64_max" "um_find (om_portfolios s) i = Some p"
  shows "0 \<le> sp_reserved_order_capital_ticks p \<and> 0 \<le> sp_available_capital_ticks p
    \<and> sp_reserved_order_capital_ticks p + sp_available_capital_ticks p \<le> max 0 (rk_strategy_allocation_limit_ticks risk)"
proof -
  have inv: "oms_inv s" using assms(1,2) by (rule oms_reachable_inv)
  have risk: "om_risk s = risk" using assms(1) by (rule oms_reachable_risk)
  show ?thesis
    using oms_ok_portfolio [OF inv assms(3)] reserved_and_available [of s p] assms(2)
    unfolding risk by (simp add: portfolio_base_def available_ok_def)
qed

theorem capital_within_allocation_witness:
  "\<exists>p. um_find (om_portfolios (fold oms_step demo_start (demo_oms 1 demo_risk))) 0 = Some p
     \<and> sp_reserved_order_capital_ticks p = 20000
     \<and> sp_reserved_order_capital_ticks p + sp_available_capital_ticks p \<le> max 0 (rk_strategy_allocation_limit_ticks demo_risk)"
proof -
  obtain p where p: "um_find (om_portfolios (fold oms_step demo_start (demo_oms 1 demo_risk))) 0 = Some p"
      "sp_reserved_order_capital_ticks p = 20000"
    using demo_start_run by (auto simp: portfolio_view_def)
  show ?thesis using capital_within_allocation [OF demo_reachable demo_risk_small p(1)] p by blast
qed

section \<open>Progress\<close>

text \<open>A drain handles exactly the messages it takes out of the queues, at most as many as its budget, and
  leaves a message behind only when the budget is used up: first the intents, then the venue events.\<close>

theorem drains_progress:
  assumes "drain_strategy_intents maximum s = (s1, n)" "drain_venue_events maximum s = (s2, m)"
    "qi = length (om_intent_queues s)" "qv = length (om_venue_queues s)"
  shows "n \<le> maximum \<and> n + waiting_total qi (om_intent_queues s1) = waiting_total qi (om_intent_queues s)
      \<and> (n = maximum \<or> (\<forall>i<qi. waiting (om_intent_queues s1) i = []))
    \<and> m \<le> maximum \<and> m + waiting_total qv (om_venue_queues s2) = waiting_total qv (om_venue_queues s)
      \<and> (m = maximum \<or> (\<forall>i<qv. waiting (om_venue_queues s2) i = []))"
  using intent_queues.rounds_progress [of maximum qi 0 s s1 n] venue_queues.rounds_progress [of maximum qv 0 s s2 m] assms
  by (simp add: drain_strategy_intents_def drain_venue_events_def intent_queues.pending_count_def
      venue_queues.pending_count_def waiting_total_def)

theorem drains_progress_witness:
  "\<exists>s1 n. drain_strategy_intents 100 (fold oms_step (take 3 demo_start) (demo_oms 1 demo_risk)) = (s1, n)
     \<and> n = 1 \<and> waiting (om_intent_queues s1) 0 = []"
proof -
  let ?s = "fold oms_step (take 3 demo_start) (demo_oms 1 demo_risk)"
  obtain s1 n where i: "drain_strategy_intents 100 ?s = (s1, n)" by fastforce
  obtain s2 m where v: "drain_venue_events 100 ?s = (s2, m)" by fastforce
  have q: "length (om_intent_queues ?s) = 1 \<and> waiting_total 1 (om_intent_queues ?s) = 1" by code_simp
  have w: "waiting_total 1 (om_intent_queues s1) = length (waiting (om_intent_queues s1) 0)" by (simp add: waiting_total_def)
  from drains_progress [OF i v refl refl] q w have "n = 1 \<and> waiting (om_intent_queues s1) 0 = []" by auto
  then show ?thesis using i by blast
qed

end
