(* ===== verification/Oms_Accounting.thy ===== *)
theory Oms_Accounting
  imports Oms_Demo Oms_Fixed
begin

text \<open>
  What single operations of the order manager compute: reservations and averages, the admission of a group,
  the accounting of fills and of terminal orders, repair orders, and client order ids.
\<close>

section \<open>Reservations\<close>

lemma to_u64_small: "0 \<le> z \<Longrightarrow> z \<le> i64_max \<Longrightarrow> uint (to_u64 z) = z"
  by (simp add: uint_word_of_int)

text \<open>The largest quantity whose reservation can be computed without overflow.\<close>

definition max_reservable_lots :: i64 where "max_reservable_lots = 1844674407370955"

lemma uint_reservation: "0 < q \<Longrightarrow> q \<le> max_reservable_lots \<Longrightarrow> uint (100 * to_u64 q) = 100 * q"
  by (simp add: uint_word_ariths uint_word_of_int max_reservable_lots_def)

lemma full_notional_iff:
  assumes "q \<le> i64_max"
  shows "full_notional_reservation q = (if 0 < q \<and> q \<le> max_reservable_lots then Some (to_u64 (100 * q)) else None)"
proof (cases "0 < q")
  case True
  have u: "uint (to_u64 q) = q" using True assms by (intro to_u64_small) simp_all
  have le: "\<not> to_u64 q > u64_max div kPRICE_TICKS_PER_DOLLAR \<longleftrightarrow> q \<le> max_reservable_lots"
    by (simp only: not_less word_le_def u) (simp add: kPRICE_TICKS_PER_DOLLAR_def max_reservable_lots_def)
  show ?thesis
  proof (cases "q \<le> max_reservable_lots")
    case small: True
    have prod: "uint (to_u64 q * kPRICE_TICKS_PER_DOLLAR) = 10000 * q"
      using True small by (simp add: uint_word_ariths u kPRICE_TICKS_PER_DOLLAR_def max_reservable_lots_def)
    have "uint (to_u64 q * kPRICE_TICKS_PER_DOLLAR mod 100) = 0" by (simp add: uint_mod prod)
    then have m: "to_u64 q * kPRICE_TICKS_PER_DOLLAR mod 100 = 0" by (simp add: word_uint_eq_iff)
    have "to_u64 q * kPRICE_TICKS_PER_DOLLAR div 100 = to_u64 (100 * q)"
      by (rule word_uint_eqI) (simp add: uint_div prod uint_reservation [OF True small])
    then show ?thesis
      using True small le m by (simp add: full_notional_reservation_def kQUANTITY_LOTS_PER_CONTRACT_def Let_def)
  next
    case False
    then show ?thesis using True le by (simp add: full_notional_reservation_def Let_def)
  qed
qed (simp add: full_notional_reservation_def)

section \<open>Admission of a group\<close>

abbreviation leg_of :: "group_order_intent \<Rightarrow> nat \<Rightarrow> new_order_intent" where
  "leg_of grp i \<equiv> goi_new_orders grp ! i"

text \<open>What a leg has to satisfy: it belongs to the group, it is a marketable order that fills or dies, its
  time stamps are in order, its market is tradeable and belongs to the event, and no earlier leg has its
  market or its intent id.\<close>

definition admissible_leg :: "oms \<Rightarrow> group_order_intent \<Rightarrow> nat \<Rightarrow> bool" where
  "admissible_leg s grp i \<longleftrightarrow>
     (let leg = leg_of grp i; c = noi_context leg; gc = goi_context grp in
      ic_strategy_index c = ic_strategy_index gc \<and> ic_event_id c = ic_event_id gc \<and> ic_strategy_id c = ic_strategy_id gc
    \<and> ic_signal_id c = ic_signal_id gc \<and> ic_group_intent_id c = ic_group_intent_id gc
    \<and> ic_universe_version c = ic_universe_version gc \<and> ic_event_revision c = ic_event_revision gc
    \<and> ic_source_shard_index c = ic_source_shard_index gc \<and> ic_leg_index c = of_nat i \<and> ic_leg_count c = goi_leg_count grp
    \<and> ic_market_id c \<noteq> 0 \<and> ic_strategy_intent_id c \<noteq> 0
    \<and> 0 < noi_price_ticks leg \<and> noi_price_ticks leg < 10000 \<and> 0 < noi_quantity_lots leg
    \<and> noi_quantity_lots leg \<le> max_reservable_lots
    \<and> noi_outcome leg \<noteq> O_kUNKNOWN \<and> noi_action leg \<noteq> OA_kUNKNOWN \<and> noi_liquidity_intent leg = LI_kTAKER
    \<and> noi_order_type leg = OT_kMARKETABLE_LIMIT \<and> noi_time_in_force leg = TIF_kFOK
    \<and> valid_timestamp_chain c
    \<and> (\<exists>route. find_market_route s (ic_market_id c) = Some route \<and> omr_tradeable route \<and> omr_event_id route = ic_event_id gc)
    \<and> list_all (\<lambda>e. ic_market_id (noi_context e) \<noteq> ic_market_id c
         \<and> ic_strategy_intent_id (noi_context e) \<noteq> ic_strategy_intent_id c) (take i (goi_new_orders grp)))"

lemma check_leg_iff:
  assumes "noi_quantity_lots (leg_of grp i) \<le> i64_max"
  shows "check_leg s grp i r = Inr r' \<longleftrightarrow>
    admissible_leg s grp i \<and> uint r + 100 * noi_quantity_lots (leg_of grp i) < 2 ^ 64
    \<and> uint r' = uint r + 100 * noi_quantity_lots (leg_of grp i)"
proof -
  let ?q = "noi_quantity_lots (leg_of grp i)"
  have room: "\<not> r > u64_max - to_u64 (100 * q) \<longleftrightarrow> uint r + 100 * q < 2 ^ 64"
    and sum: "uint r + 100 * q < 2 ^ 64 \<Longrightarrow> (r + to_u64 (100 * q) = r') = (uint r' = uint r + 100 * q)"
    if "0 < q" "q \<le> max_reservable_lots" for q
  proof -
    have u: "uint (to_u64 (100 * q)) = 100 * q" using uint_reservation [OF that] by simp
    have "uint (u64_max - to_u64 (100 * q)) = 2 ^ 64 - 1 - 100 * q"
      using that to_u64_small [of q] by (simp add: uint_word_ariths max_reservable_lots_def)
    then show "\<not> r > u64_max - to_u64 (100 * q) \<longleftrightarrow> uint r + 100 * q < 2 ^ 64"
      by (simp only: not_less word_le_def) linarith
    assume "uint r + 100 * q < 2 ^ 64"
    then have "uint (r + to_u64 (100 * q)) = uint r + 100 * q"
      using that to_u64_small [of q] by (simp add: uint_word_ariths max_reservable_lots_def)
    then show "(r + to_u64 (100 * q) = r') = (uint r' = uint r + 100 * q)" by (auto simp: word_uint_eq_iff)
  qed
  show ?thesis
    using room [of ?q] sum [of ?q] full_notional_iff [OF assms]
    by (auto simp: check_leg_def admissible_leg_def Let_def kPRICE_TICKS_PER_DOLLAR_def list_ex_iff list_all_iff not_le split: option.splits)
qed

lemma check_legs_iff:
  assumes "\<And>i. i < n \<Longrightarrow> noi_quantity_lots (leg_of grp i) \<le> i64_max" "k \<le> n"
  shows "check_legs s grp [k..<n] r = Inr r' \<longleftrightarrow>
    (\<forall>i\<in>{k..<n}. admissible_leg s grp i)
    \<and> uint r + 100 * (\<Sum>i=k..<n. noi_quantity_lots (leg_of grp i)) < 2 ^ 64
    \<and> uint r' = uint r + 100 * (\<Sum>i=k..<n. noi_quantity_lots (leg_of grp i))"
  using assms(2)
proof (induction "n - k" arbitrary: k r)
  case 0
  then show ?case using uint_lt2p [of r] by (auto simp: word_uint_eq_iff)
next
  case (Suc m)
  then have k: "k < n" by simp
  let ?q = "\<lambda>i. noi_quantity_lots (leg_of grp i)"
  have sum: "(\<Sum>i=k..<n. ?q i) = ?q k + (\<Sum>i=Suc k..<n. ?q i)" using k by (simp add: sum.atLeast_Suc_lessThan)
  have set: "{k..<n} = insert k {Suc k..<n}" using k by auto
  have IH: "check_legs s grp [Suc k..<n] v = Inr r' \<longleftrightarrow> (\<forall>i\<in>{Suc k..<n}. admissible_leg s grp i)
      \<and> uint v + 100 * (\<Sum>i=Suc k..<n. ?q i) < 2 ^ 64 \<and> uint r' = uint v + 100 * (\<Sum>i=Suc k..<n. ?q i)" for v
    using Suc.hyps(1) [of "Suc k" v] Suc.hyps(2) k by simp
  have pos: "0 \<le> (\<Sum>i=Suc k..<n. ?q i)" if "\<forall>i\<in>{Suc k..<n}. admissible_leg s grp i"
    using that by (intro sum_nonneg) (auto simp: admissible_leg_def Let_def intro: less_imp_le)
  have unfold: "check_legs s grp [k..<n] r = Inr r' \<longleftrightarrow>
      (\<exists>v. check_leg s grp k r = Inr v \<and> check_legs s grp [Suc k..<n] v = Inr r')"
    using k by (simp add: upt_conv_Cons split: sum.split)
  show ?case
    unfolding unfold check_leg_iff [OF assms(1) [OF k]] IH sum set
  proof (intro iffI, goal_cases)
    case 1
    then show ?case by (auto simp: algebra_simps)
  next
    case 2
    let ?v = "word_of_int (uint r + 100 * ?q k) :: u64"
    have "uint r + 100 * ?q k < 2 ^ 64" using 2 pos by auto
    moreover have "0 \<le> uint r + 100 * ?q k" using 2 by (auto simp: admissible_leg_def Let_def intro!: add_nonneg_nonneg)
    ultimately have "uint ?v = uint r + 100 * ?q k" by (simp only: uint_word_of_int, intro mod_pos_pos_trivial) simp_all
    then show ?case using 2 \<open>uint r + 100 * ?q k < 2 ^ 64\<close> by (intro exI [of _ ?v]) (auto simp: algebra_simps)
  qed
qed

definition group_capital :: "group_order_intent \<Rightarrow> int" where
  "group_capital grp = 100 * (\<Sum>i<unat (goi_leg_count grp). noi_quantity_lots (leg_of grp i))"

definition available_for :: "oms \<Rightarrow> u16 \<Rightarrow> i64" where
  "available_for s i = (case um_find (om_portfolios s) i of None \<Rightarrow> rk_strategy_allocation_limit_ticks (om_risk s)
     | Some p \<Rightarrow> sp_available_capital_ticks p)"

text \<open>What a group has to satisfy, as one condition: the order manager trades, the group is well-formed, fresh
  and new, every leg is admissible, and one dollar per contract of every leg is within the limits.\<close>

definition admissible_group :: "oms \<Rightarrow> group_order_intent \<Rightarrow> u64 \<Rightarrow> bool" where
  "admissible_group s grp now \<longleftrightarrow>
     (let gc = goi_context grp; risk = om_risk s in
      \<not> om_execution_incident_active s \<and> om_trading_enabled s \<and> portfolio_ready_for_trading s
    \<and> map_option oru_version (om_universe s) = Some (ic_universe_version gc) \<and> ic_universe_version gc \<noteq> 0
    \<and> goi_admission_policy grp = GAP_kALL_OR_NONE \<and> response_slots_free s (ic_strategy_index gc)
    \<and> ic_group_intent_id gc \<noteq> 0 \<and> ic_event_id gc \<noteq> 0 \<and> ic_event_revision gc \<noteq> 0 \<and> ic_leg_count gc = goi_leg_count grp
    \<and> 2 \<le> goi_leg_count grp \<and> unat (goi_leg_count grp) \<le> kMAX_ORDERS_PER_GROUP \<and> goi_leg_count grp \<le> rk_maximum_group_legs risk
    \<and> 0 < rk_strategy_allocation_limit_ticks risk \<and> rk_maximum_group_intent_age_ns risk \<noteq> 0
    \<and> valid_timestamp_chain gc \<and> ic_intent_publish_timestamp_ns gc \<le> now
    \<and> now - ic_intent_publish_timestamp_ns gc \<le> rk_maximum_group_intent_age_ns risk
    \<and> find_group_by_intent s (ic_strategy_index gc) (ic_group_intent_id gc) = None
    \<and> goi_estimated_fee_ticks grp \<le> goi_expected_gross_edge_ticks grp
    \<and> goi_expected_net_edge_ticks grp = goi_expected_gross_edge_ticks grp - goi_estimated_fee_ticks grp
    \<and> goi_expected_net_edge_ticks grp \<noteq> 0
    \<and> (\<forall>i < unat (goi_leg_count grp). admissible_leg s grp i)
    \<and> group_capital grp \<le> uint (rk_maximum_group_reservation_ticks risk) \<and> group_capital grp \<le> i64_max
    \<and> group_capital grp \<le> available_for s (ic_strategy_index gc))"

lemma static_part:
  "check_group_static s grp = None \<longleftrightarrow>
     (let gc = goi_context grp; risk = om_risk s in
      \<not> om_execution_incident_active s \<and> om_trading_enabled s \<and> portfolio_ready_for_trading s
    \<and> map_option oru_version (om_universe s) = Some (ic_universe_version gc) \<and> ic_universe_version gc \<noteq> 0
    \<and> goi_admission_policy grp = GAP_kALL_OR_NONE \<and> response_slots_free s (ic_strategy_index gc)
    \<and> ic_group_intent_id gc \<noteq> 0 \<and> ic_event_id gc \<noteq> 0 \<and> ic_event_revision gc \<noteq> 0 \<and> ic_leg_count gc = goi_leg_count grp
    \<and> 2 \<le> goi_leg_count grp \<and> unat (goi_leg_count grp) \<le> kMAX_ORDERS_PER_GROUP \<and> goi_leg_count grp \<le> rk_maximum_group_legs risk
    \<and> 0 < rk_strategy_allocation_limit_ticks risk \<and> rk_maximum_group_reservation_ticks risk \<noteq> 0
    \<and> rk_maximum_group_intent_age_ns risk \<noteq> 0 \<and> valid_timestamp_chain gc)"
  by (cases "om_universe s") (auto simp: check_group_static_def Let_def not_less not_le)

lemma timed_part:
  assumes "\<And>i. i < unat (goi_leg_count grp) \<Longrightarrow> noi_quantity_lots (leg_of grp i) \<le> i64_max"
    "available_for s (ic_strategy_index (goi_context grp)) \<le> i64_max" "goi_leg_count grp \<noteq> 0"
  shows "gac_accepted (check_group_timed s grp now) \<longleftrightarrow>
     (let gc = goi_context grp; risk = om_risk s in
      ic_intent_publish_timestamp_ns gc \<le> now
    \<and> now - ic_intent_publish_timestamp_ns gc \<le> rk_maximum_group_intent_age_ns risk
    \<and> find_group_by_intent s (ic_strategy_index gc) (ic_group_intent_id gc) = None
    \<and> goi_estimated_fee_ticks grp \<le> goi_expected_gross_edge_ticks grp
    \<and> goi_expected_net_edge_ticks grp = goi_expected_gross_edge_ticks grp - goi_estimated_fee_ticks grp
    \<and> goi_expected_net_edge_ticks grp \<noteq> 0
    \<and> (\<forall>i < unat (goi_leg_count grp). admissible_leg s grp i)
    \<and> group_capital grp \<le> uint (rk_maximum_group_reservation_ticks risk) \<and> group_capital grp \<le> i64_max
    \<and> group_capital grp \<le> available_for s (ic_strategy_index gc))" (is "?accept \<longleftrightarrow> ?spec")
    and "gac_accepted (check_group_timed s grp now) \<Longrightarrow>
      uint (gac_required_capital_ticks (check_group_timed s grp now)) = group_capital grp"
proof -
  let ?n = "unat (goi_leg_count grp)"
  let ?a = "available_for s (ic_strategy_index (goi_context grp))"
  let ?legs = "check_legs s grp [0..<?n] 0"
  let ?m = "rk_maximum_group_reservation_ticks (om_risk s)"
  have n: "0 < ?n" using assms(3) by (simp add: unat_gt_0)
  have legs: "?legs = Inr r \<longleftrightarrow> (\<forall>i < ?n. admissible_leg s grp i) \<and> group_capital grp < 2 ^ 64 \<and> uint r = group_capital grp" for r
    using check_legs_iff [of ?n grp 0 s 0 r] assms(1) by (auto simp: group_capital_def lessThan_atLeast0)
  have pos: "0 < group_capital grp" if "\<forall>i < ?n. admissible_leg s grp i"
    using that n unfolding group_capital_def
    by (intro mult_pos_pos sum_pos) (auto simp: admissible_leg_def Let_def)
  define verdict where "verdict = (case ?legs of Inl _ \<Rightarrow> False
    | Inr r \<Rightarrow> \<not> (r = 0 \<or> r > ?m \<or> r > to_u64 i64_max) \<and> \<not> (?a < 0 \<or> r > to_u64 ?a))"
  have v: "verdict \<longleftrightarrow> (\<forall>i < ?n. admissible_leg s grp i) \<and> group_capital grp \<le> uint ?m
      \<and> group_capital grp \<le> i64_max \<and> group_capital grp \<le> ?a"
  proof (cases ?legs)
    case (Inl reason)
    have "\<not> ((\<forall>i < ?n. admissible_leg s grp i) \<and> group_capital grp \<le> i64_max)"
    proof
      assume h: "(\<forall>i < ?n. admissible_leg s grp i) \<and> group_capital grp \<le> i64_max"
      then have "uint (word_of_int (group_capital grp) :: u64) = group_capital grp" using pos by (intro to_u64_small) simp_all
      then have "?legs = Inr (word_of_int (group_capital grp))" unfolding legs using h by simp
      then show False using Inl by simp
    qed
    then show ?thesis using Inl by (auto simp: verdict_def)
  next
    case (Inr r)
    then have r: "\<forall>i < ?n. admissible_leg s grp i" "uint r = group_capital grp" using legs by simp_all
    have a: "0 \<le> ?a \<Longrightarrow> uint (to_u64 ?a) = ?a" using assms(2) by (intro to_u64_small)
    have "r \<noteq> 0" using pos [OF r(1)] r(2) by auto
    then show ?thesis
      using r a pos [OF r(1)] Inr unfolding verdict_def
      by (auto simp: word_less_def not_less)
  qed
  have acc: "gac_accepted (check_group_timed s grp now) \<longleftrightarrow>
     (ic_intent_publish_timestamp_ns (goi_context grp) \<le> now
    \<and> now - ic_intent_publish_timestamp_ns (goi_context grp) \<le> rk_maximum_group_intent_age_ns (om_risk s)
    \<and> find_group_by_intent s (ic_strategy_index (goi_context grp)) (ic_group_intent_id (goi_context grp)) = None
    \<and> goi_estimated_fee_ticks grp \<le> goi_expected_gross_edge_ticks grp
    \<and> goi_expected_net_edge_ticks grp = goi_expected_gross_edge_ticks grp - goi_estimated_fee_ticks grp
    \<and> goi_expected_net_edge_ticks grp \<noteq> 0 \<and> verdict)"
    by (simp add: check_group_timed_def rejected_check_def Let_def verdict_def not_less available_for_def [symmetric] split: sum.split) auto
  show "?accept \<longleftrightarrow> ?spec" unfolding acc v Let_def by simp
  show "uint (gac_required_capital_ticks (check_group_timed s grp now)) = group_capital grp" if "gac_accepted (check_group_timed s grp now)"
  proof (cases ?legs)
    case (Inl reason)
    then show ?thesis using that unfolding acc verdict_def by simp
  next
    case (Inr r)
    then have "gac_required_capital_ticks (check_group_timed s grp now) = r"
      using that by (simp add: check_group_timed_def rejected_check_def Let_def split: if_splits)
    then show ?thesis using legs Inr by blast
  qed
qed

lemma check_group_admission_spec:
  assumes "\<And>i. i < unat (goi_leg_count grp) \<Longrightarrow> noi_quantity_lots (goi_new_orders grp ! i) \<le> i64_max"
    "available_for s (ic_strategy_index (goi_context grp)) \<le> i64_max"
  shows "(gac_accepted (fst (check_group_admission grp s)) \<longleftrightarrow> admissible_group s grp (om_clock s 0))
    \<and> (gac_accepted (fst (check_group_admission grp s)) \<longrightarrow>
        uint (gac_required_capital_ticks (fst (check_group_admission grp s))) = group_capital grp)"
proof (cases "check_group_static s grp")
  case (Some reason)
  have "\<not> admissible_group s grp (om_clock s 0)"
  proof
    assume adm: "admissible_group s grp (om_clock s 0)"
    have legs: "\<forall>i < unat (goi_leg_count grp). admissible_leg s grp i" and two: "2 \<le> goi_leg_count grp"
      using adm by (simp_all add: admissible_group_def Let_def)
    have "0 < unat (goi_leg_count grp)" using two by (simp add: word_le_nat_alt)
    then have "0 < group_capital grp"
      using legs unfolding group_capital_def by (intro mult_pos_pos sum_pos) (auto simp: admissible_leg_def Let_def)
    then have "rk_maximum_group_reservation_ticks (om_risk s) \<noteq> 0" using adm by (auto simp: admissible_group_def Let_def)
    then have "check_group_static s grp = None" using adm by (simp add: static_part admissible_group_def Let_def)
    then show False using Some by simp
  qed
  then show ?thesis using Some by (simp add: check_group_admission_def rejected_check_def)
next
  case None
  then have "goi_leg_count grp \<noteq> 0" by (auto simp: static_part Let_def)
  note timed = timed_part [OF assms this, of "om_clock s 0"]
  have "check_group_admission grp s = (check_group_timed s grp (om_clock s 0), snd (now_ns s))"
    using None by (simp add: check_group_admission_def now_ns_def)
  moreover have "gac_accepted (check_group_timed s grp (om_clock s 0)) \<longleftrightarrow> admissible_group s grp (om_clock s 0)"
    using None timed(1) by (simp add: static_part admissible_group_def Let_def)
  ultimately show ?thesis using timed(2) by simp
qed

text \<open>C16. A group is admitted exactly when it is admissible at the time of the check, and what is reserved
  for it is then one dollar per contract of every leg: the sequence of checks with its early returns and
  its 64-bit arithmetic is one condition over the integers. The two bounds are those of \<open>std::int64_t\<close>.\<close>

theorem group_admission_iff:
  assumes "\<And>i. i < unat (goi_leg_count grp) \<Longrightarrow> noi_quantity_lots (goi_new_orders grp ! i) \<le> i64_max"
    "available_for s (ic_strategy_index (goi_context grp)) \<le> i64_max"
  shows "(gac_accepted (fst (check_group_admission grp s)) \<longleftrightarrow> admissible_group s grp (om_clock s 0))
    \<and> (gac_accepted (fst (check_group_admission grp s)) \<longrightarrow>
        uint (gac_required_capital_ticks (fst (check_group_admission grp s))) = group_capital grp)"
  using check_group_admission_spec [OF assms] .

lemma demo_admission_run:
  "(let s = fold oms_step demo_start (demo_oms 1 demo_risk); g = demo_group 0 6 100; a = fst (check_group_admission g s) in
     (gac_accepted a, gac_required_capital_ticks a, om_clock s 0, available_for s (ic_strategy_index (goi_context g)) \<le> i64_max))
   = (True, 20000, 10, True)"
  by code_simp

theorem group_admission_iff_witness:
  "admissible_group (fold oms_step demo_start (demo_oms 1 demo_risk)) (demo_group 0 6 100) 10
   \<and> group_capital (demo_group 0 6 100) = 20000"
proof -
  let ?s = "fold oms_step demo_start (demo_oms 1 demo_risk)"
  have acc: "gac_accepted (fst (check_group_admission (demo_group 0 6 100) ?s))
      \<and> gac_required_capital_ticks (fst (check_group_admission (demo_group 0 6 100) ?s)) = 20000 \<and> om_clock ?s 0 = 10"
    and av: "available_for ?s (ic_strategy_index (goi_context (demo_group 0 6 100))) \<le> i64_max"
    using demo_admission_run by (simp_all add: Let_def)
  have legs: "noi_quantity_lots (goi_new_orders (demo_group 0 6 100) ! i) \<le> i64_max"
    if "i < unat (goi_leg_count (demo_group 0 6 100))" for i
  proof -
    have "i = 0 \<or> i = 1" using that by (auto simp: demo_group_def)
    then show ?thesis by (auto simp: demo_group_def demo_leg_def)
  qed
  have "uint (20000 :: u64) = 20000" by simp
  then show ?thesis using group_admission_iff [of "demo_group 0 6 100" ?s, OF legs av] acc by metis
qed

end
