(* ===== verification/Oms_Orders.thy ===== *)
theory Oms_Orders
  imports Oms_Demo Oms_Fixed
begin

text \<open>
  Single orders of the order manager: repair orders take back the residual exposure exactly, a trade and a
  terminal order are accounted once, client order ids identify their order, and the average entry price
  computed in floating point is the exact one.
\<close>

section \<open>Repair orders\<close>

lemma abs_lots_value:
  assumes "absolute_lots z = Some w" "i64_min \<le> z" "z \<le> i64_max"
  shows "to_i64 w = \<bar>z\<bar>"
proof -
  have w: "w = to_u64 \<bar>z\<bar>" and z: "z \<noteq> i64_min" using assms(1) by (auto simp: absolute_lots_def split: if_splits)
  have "\<bar>z\<bar> \<le> i64_max" using assms(2,3) z by auto
  then have "uint w = \<bar>z\<bar>" unfolding w by (simp add: uint_word_of_int)
  moreover have "w \<le> to_u64 i64_max" using \<open>uint w = \<bar>z\<bar>\<close> \<open>\<bar>z\<bar> \<le> i64_max\<close> by (simp add: word_le_def)
  ultimately show ?thesis using to_i64_small [of w] by simp
qed

lemma kalshi_sent:
  assumes "send_kalshi_command c s = (s', True)"
  shows "bq_items (om_kalshi_queue s') = bq_items (om_kalshi_queue s) @ [c]"
  using assms by (auto simp: send_kalshi_command_def bq_push_def Let_def split: if_splits)

lemma repair_signed:
  assumes "repair_action_of oc (z < 0) = Some action" "absolute_lots z = Some w" "w \<noteq> 0" "i64_min \<le> z" "z \<le> i64_max"
  shows "signed_yes_lots oc action (to_i64 w) = Some (- z)"
proof -
  have w: "to_i64 w = \<bar>z\<bar>" using assms(2,4,5) by (rule abs_lots_value)
  have "z \<noteq> 0" using assms(2,3) by (auto simp: absolute_lots_def split: if_splits)
  then show ?thesis
    using assms(1) w by (cases oc) (auto simp: signed_yes_lots_def Let_def split: if_splits)
qed

text \<open>C17. When an order that repairs a leg is sent, it is the next command to the exchange, it only reduces
  exposure, fills or dies, trades the outcome of the original leg in the context of its original order (the same market, event,
  universe and strategy), at the limit price that takes any offer, and its signed quantity is exactly the
  opposite of the residual exposure of the leg. The bounds are those of \<open>std::int64_t\<close>.\<close>

theorem repair_order_offsets_residual:
  assumes "submit_repair_order gid t i sent g s = (s', True)"
    "i64_min \<le> gr_residual_yes_lots g ! i" "gr_residual_yes_lots g ! i \<le> i64_max"
  shows "\<exists>command original. find_order s (gr_original_leg_request_ids g ! i) = Some original
    \<and> bq_items (om_kalshi_queue s') = bq_items (om_kalshi_queue s) @ [CmdSubmitOrder command]
    \<and> soc_reduce_only command \<and> noi_time_in_force (soc_new_order_intent command) = TIF_kFOK
    \<and> noi_context (soc_new_order_intent command) = (oc_context (ord_context original))\<lparr>ic_leg_index := of_nat i\<rparr>
    \<and> ic_market_id (noi_context (soc_new_order_intent command)) = ic_market_id (oc_context (ord_context original))
    \<and> noi_outcome (soc_new_order_intent command) = ord_outcome original
    \<and> noi_price_ticks (soc_new_order_intent command) = (if noi_action (soc_new_order_intent command) = OA_kBUY then 9999 else 1)
    \<and> signed_yes_lots (noi_outcome (soc_new_order_intent command)) (noi_action (soc_new_order_intent command))
        (noi_quantity_lots (soc_new_order_intent command)) = Some (- (gr_residual_yes_lots g ! i))"
proof -
  let ?z = "gr_residual_yes_lots g ! i"
  obtain original quantity where o: "find_order s (gr_original_leg_request_ids g ! i) = Some original"
      "absolute_lots ?z = Some quantity"
    using assms(1) by (auto simp: submit_repair_order_def Let_def split: option.splits)
  have q: "quantity \<noteq> 0" using assms(1) o by (auto simp: submit_repair_order_def Let_def split: if_splits)
  obtain action where a: "repair_action_of (ord_outcome original) (?z < 0) = Some action"
    using assms(1) o by (auto simp: submit_repair_order_def Let_def split: if_splits option.splits)
  let ?intent = "repair_intent_of original i action quantity"
  obtain command s3 where c: "send_kalshi_command (CmdSubmitOrder command) s3 = (s', True)"
      "om_kalshi_queue s3 = om_kalshi_queue s" "soc_reduce_only command" "soc_new_order_intent command = ?intent"
    using assms(1) o a by (auto simp: submit_repair_order_def Let_def case_prod_beta prod_eq_iff split: if_splits)
  have "signed_yes_lots (noi_outcome ?intent) (noi_action ?intent) (noi_quantity_lots ?intent) = Some (- ?z)"
    using repair_signed [OF a o(2) q assms(2,3)] by (simp add: repair_intent_of_def)
  then show ?thesis
    using c kalshi_sent [OF c(1)] o(1) by (intro exI [of _ command] exI [of _ original]) (simp add: repair_intent_of_def kPRICE_TICKS_PER_DOLLAR_def)
qed

theorem repair_order_offsets_residual_witness:
  "\<exists>command. bq_items (om_kalshi_queue (fst (submit_repair_order 1 20 0 False (the (find_group demo_filled 1)) demo_filled)))
      = bq_items (om_kalshi_queue demo_filled) @ [CmdSubmitOrder command]
    \<and> ic_market_id (noi_context (soc_new_order_intent command)) = ic_market_id (oc_context (ord_context (the (find_order demo_filled
        (gr_original_leg_request_ids (the (find_group demo_filled 1)) ! 0)))))
    \<and> signed_yes_lots (noi_outcome (soc_new_order_intent command)) (noi_action (soc_new_order_intent command))
        (noi_quantity_lots (soc_new_order_intent command)) = Some (- 100)"
proof -
  let ?r = "submit_repair_order 1 20 0 False (the (find_group demo_filled 1)) demo_filled"
  have sent: "snd ?r" and res: "gr_residual_yes_lots (the (find_group demo_filled 1)) ! 0 = 100" by code_simp+
  then have "?r = (fst ?r, True)" by (simp add: prod_eq_iff)
  from repair_order_offsets_residual [OF this] show ?thesis unfolding res by auto
qed

section \<open>Accounting once\<close>

lemma account_terminal_order_found:
  assumes "find_order s rid = Some r" "is_terminal (ord_order_state r)"
  shows "\<exists>r'. find_order (account_terminal_order rid t s) rid = Some r' \<and> ord_terminal_accounted r'"
  using assms
  by (cases "ord_terminal_accounted r")
    (auto simp: account_terminal_order_def Let_def release_order_reservation_def upd_order_def)

text \<open>A terminal order is accounted once: a second report that it has ended changes nothing, not even the
  messages to the strategy.\<close>

theorem terminal_order_accounted_once:
  "account_terminal_order rid t' (account_terminal_order rid t s) = account_terminal_order rid t s"
proof (cases "find_order s rid")
  case None
  then show ?thesis by (simp add: account_terminal_order_def)
next
  case (Some r)
  show ?thesis
  proof (cases "is_terminal (ord_order_state r)")
    case True
    obtain r' where "find_order (account_terminal_order rid t s) rid = Some r'" "ord_terminal_accounted r'"
      using account_terminal_order_found [OF Some True, of t] by blast
    then show ?thesis by (subst account_terminal_order_def) simp
  next
    case False
    then have "account_terminal_order rid t s = s" for t using Some by (simp add: account_terminal_order_def)
    then show ?thesis by simp
  qed
qed

text \<open>An order without the identifier the exchange gave it.\<close>

definition order_facts :: "order_record \<Rightarrow> order_record" where
  "order_facts r = r\<lparr>ord_exchange_order_id := None\<rparr>"

lemma note_exchange_id_facts:
  "map_option order_facts (find_order (note_exchange_id xid rid s) rid') = map_option order_facts (find_order s rid')"
  by (cases "find_order s rid'") (auto simp: note_exchange_id_def upd_order_def order_facts_def split: option.split)

lemma note_exchange_id_rest [simp]:
  "om_portfolios (note_exchange_id xid rid s) = om_portfolios s"
  "om_positions (note_exchange_id xid rid s) = om_positions s"
  "om_response_queues (note_exchange_id xid rid s) = om_response_queues s"
  by (simp_all add: note_exchange_id_def upd_order_def split: option.split)

lemma accounted_fill_skipped:
  assumes "pwe_event_kind e = PWK_kFILL" "pwe_trade_id e \<in> set (om_accounted_trades s)"
  shows "om_groups (handle_private_ws_order_event e s) = om_groups s
    \<and> om_portfolios (handle_private_ws_order_event e s) = om_portfolios s
    \<and> om_positions (handle_private_ws_order_event e s) = om_positions s
    \<and> om_kalshi_queue (handle_private_ws_order_event e s) = om_kalshi_queue s
    \<and> om_response_queues (handle_private_ws_order_event e s) = om_response_queues s
    \<and> (\<forall>rid. map_option order_facts (find_order (handle_private_ws_order_event e s) rid) = map_option order_facts (find_order s rid))"
  using assms ledger_fixed [OF fixed_note_exchange_id]
  by (simp add: handle_private_ws_order_event_def Let_def note_exchange_id_facts split: option.split)

text \<open>No operation removes a trade from the ledger.\<close>

lemma venue_event_ledger: "x \<in> set (om_accounted_trades s) \<Longrightarrow> x \<in> set (om_accounted_trades (handle_venue_event e s))"
proof (cases e)
  case (EvPrivateWsOrderEvent w)
  assume "x \<in> set (om_accounted_trades s)"
  then show ?thesis using ws_fill [of w s] ws_other [of w s] EvPrivateWsOrderEvent
    by (cases "pwe_event_kind w = PWK_kFILL") (auto simp: oms_fixed_def split: if_splits)
next
  case (EvOrderRestEgressDrained d)
  assume "x \<in> set (om_accounted_trades s)"
  then show ?thesis unfolding EvOrderRestEgressDrained handle_venue_event.simps
    by (subst ledger_fixed) (simp_all add: handle_order_rest_egress_drained_def)
qed (simp only: handle_venue_event.simps, subst ledger_fixed; simp)+

interpretation intents_ledger: round_robin pop_strategy_intent receive_strategy_intent "\<lambda>s. x \<in> set (om_accounted_trades s)" for x
proof
  fix s :: oms and i e
  assume "x \<in> set (om_accounted_trades s)"
  then show "x \<in> set (om_accounted_trades (fst (pop_strategy_intent i s)))" "x \<in> set (om_accounted_trades (receive_strategy_intent e s))"
    using ledger_fixed [OF fixed_handle_strategy_intent]
    by (simp_all add: pop_strategy_intent_def receive_strategy_intent_def case_prod_beta split: option.split)
qed

interpretation venue_ledger: round_robin pop_venue_event handle_venue_event "\<lambda>s. x \<in> set (om_accounted_trades s)" for x
proof
  fix s :: oms and i e
  assume "x \<in> set (om_accounted_trades s)"
  then show "x \<in> set (om_accounted_trades (fst (pop_venue_event i s)))" "x \<in> set (om_accounted_trades (handle_venue_event e s))"
    using venue_event_ledger by (simp_all add: pop_venue_event_def case_prod_beta split: option.split)
qed

lemma drain_control_commands_ledger: "om_accounted_trades (fst (drain_control_commands budget s)) = om_accounted_trades s"
  by (induction budget arbitrary: s)
    (simp_all add: Let_def case_prod_beta ledger_fixed [OF fixed_handle_control_command] split: prod.split option.split)

lemma pump_once_ledger: "x \<in> set (om_accounted_trades s) \<Longrightarrow> x \<in> set (om_accounted_trades (fst (pump_once s)))"
  unfolding pump_once_def Let_def case_prod_beta fst_conv drain_strategy_intents_def drain_venue_events_def
  by (rule intents_ledger.rounds_invar)
    (simp only: ledger_fixed [OF fixed_messages(10)] ledger_fixed [OF fixed_request] ledger_fixed [OF fixed_service],
     rule venue_ledger.rounds_invar, simp only: drain_control_commands_ledger ledger_fixed [OF fixed_messages(9)])

interpretation oms_ledger: guarded_machine oms_step "\<lambda>s. x \<in> set (om_accounted_trades s)" "\<lambda>_. True" for x
proof
  fix s :: oms and op
  assume "x \<in> set (om_accounted_trades s)"
  then show "x \<in> set (om_accounted_trades (oms_step op s))" by (cases op) (simp_all add: pump_once_ledger)
qed

text \<open>C18. A trade is accounted once. After a fill with a trade id has been reported for an order that is known, by its client order id
  or by the id the exchange gave it, and after any further steps of the order manager and its neighbours, another report of a fill with that
  trade id changes no group, no portfolio, no position and no order (apart from noting the exchange's id of the
  order), and sends no message to the exchange or to a strategy. What else the second report says does not matter.\<close>

theorem duplicate_fill_ignored:
  assumes "pwe_event_kind e = PWK_kFILL" "pwe_trade_id e \<noteq> []"
    "find_order_by_client s (pwe_client_order_id e) \<noteq> None \<or> find_order_by_exchange s (pwe_exchange_order_id e) \<noteq> None"
    "s1 = fold oms_step ops (handle_private_ws_order_event e s)"
    "pwe_event_kind e' = PWK_kFILL" "pwe_trade_id e' = pwe_trade_id e"
  shows "om_groups (handle_private_ws_order_event e' s1) = om_groups s1
    \<and> om_portfolios (handle_private_ws_order_event e' s1) = om_portfolios s1
    \<and> om_positions (handle_private_ws_order_event e' s1) = om_positions s1
    \<and> om_kalshi_queue (handle_private_ws_order_event e' s1) = om_kalshi_queue s1
    \<and> om_response_queues (handle_private_ws_order_event e' s1) = om_response_queues s1
    \<and> (\<forall>rid. map_option order_facts (find_order (handle_private_ws_order_event e' s1) rid) = map_option order_facts (find_order s1 rid))"
proof (rule accounted_fill_skipped [OF assms(5)])
  have "pwe_trade_id e \<in> set (om_accounted_trades (handle_private_ws_order_event e s))"
    using ws_fill [OF assms(1), of s] assms(2,3) by (auto simp: oms_fixed_def split: if_splits)
  from oms_ledger.run_invar [OF this, of ops] show "pwe_trade_id e' \<in> set (om_accounted_trades s1)"
    unfolding assms(4,6) by (simp add: list_all_iff)
qed

theorem duplicate_fill_ignored_witness:
  "om_portfolios (handle_private_ws_order_event demo_fill (oms_step Op_read_status demo_filled)) = om_portfolios (oms_step Op_read_status demo_filled)"
proof -
  have e: "pwe_event_kind demo_fill = PWK_kFILL" "pwe_trade_id demo_fill \<noteq> []" by (simp_all add: demo_fill_def demo_ws_def)
  have "find_order_by_client (fold oms_step demo_start (demo_oms 1 demo_risk)) (pwe_client_order_id demo_fill) = Some 2" by code_simp
  then have known: "find_order_by_client (fold oms_step demo_start (demo_oms 1 demo_risk)) (pwe_client_order_id demo_fill) \<noteq> None
      \<or> find_order_by_exchange (fold oms_step demo_start (demo_oms 1 demo_risk)) (pwe_exchange_order_id demo_fill) \<noteq> None" by simp
  have "oms_step Op_read_status demo_filled
      = fold oms_step [Op_read_status] (handle_private_ws_order_event demo_fill (fold oms_step demo_start (demo_oms 1 demo_risk)))"
    by (simp add: demo_filled_def)
  from duplicate_fill_ignored [OF e known this e(1) refl] show ?thesis by blast
qed

section \<open>Client order ids\<close>

definition digits_value :: "string \<Rightarrow> nat" where
  "digits_value ds = foldl (\<lambda>a c. 10 * a + (of_char c - 48)) 0 ds"

lemma digits_value_decimal: "digits_value (decimal_digits n) = n"
proof (induction n rule: decimal_digits.induct)
  case (1 n)
  have c: "of_char (char_of (48 + d) :: char) - 48 = d" if "d < 10" for d :: nat
    using that by (simp add: of_char_of)
  show ?case
  proof (cases "n < 10")
    case True
    then show ?thesis using c [of n] by (simp add: decimal_digits.simps [of n] digits_value_def)
  next
    case False
    have "digits_value (decimal_digits (n div 10) @ [char_of (48 + n mod 10)]) = 10 * (n div 10) + n mod 10"
      using 1 [OF False] c [of "n mod 10"] by (simp add: digits_value_def)
    then show ?thesis using False by (simp add: decimal_digits.simps [of n])
  qed
qed

lemma decimal_digits_length: "n < 10 ^ k \<Longrightarrow> 0 < k \<Longrightarrow> length (decimal_digits n) \<le> k"
proof (induction k arbitrary: n)
  case (Suc k)
  show ?case
  proof (cases "n < 10")
    case True
    then show ?thesis by (simp add: decimal_digits.simps [of n])
  next
    case False
    then have "0 < k" using Suc.prems(1) by (cases k) simp_all
    moreover have "n div 10 < 10 ^ k" using Suc.prems(1) by (simp add: less_mult_imp_div_less mult.commute)
    ultimately show ?thesis using Suc.IH False by (simp add: decimal_digits.simps [of n])
  qed
qed simp

text \<open>Every 64-bit request id has a client order id, it fits the buffer, and two ids are never given the same.\<close>

theorem client_order_id_injective:
  "make_client_order_id rid \<noteq> [] \<and> length (make_client_order_id rid) < kLENGTH_CLIENT_ORDER_ID
   \<and> (make_client_order_id rid = make_client_order_id rid' \<longleftrightarrow> rid = rid')"
proof -
  have len: "length (decimal_digits (unat (r :: u64))) \<le> 20" for r
    using unat_u64_less [of r] by (intro decimal_digits_length) simp_all
  have made: "make_client_order_id r = ''px-'' @ decimal_digits (unat r)" for r
    using len [of r] by (simp add: make_client_order_id_def id_assign_from_def kLENGTH_CLIENT_ORDER_ID_def)
  have "rid = rid'" if "decimal_digits (unat rid) = decimal_digits (unat rid')"
    using arg_cong [OF that, of digits_value] by (simp add: digits_value_decimal word_unat_eq_iff)
  then show ?thesis using len [of rid] by (auto simp: made kLENGTH_CLIENT_ORDER_ID_def)
qed

section \<open>The average entry price\<close>

lemma bit_count_le: "n < 2 ^ k \<Longrightarrow> bit_count n \<le> k"
proof (induction k arbitrary: n)
  case 0
  then show ?case by (simp add: bit_count.simps)
next
  case (Suc k)
  then have "n div 2 < 2 ^ k" by auto
  then show ?case using Suc.IH by (subst bit_count.simps) simp
qed

lemma int_div_times_le: "0 < d \<Longrightarrow> x div d * d \<le> (x :: int)"
  using pos_mod_sign [of d x] div_mult_mod_eq [of x d] by linarith

lemma bit_count_nonpos: "n \<le> 0 \<Longrightarrow> bit_count n = 0"
  by (simp add: bit_count.simps)

lemma bit_count_ge: "0 < n \<Longrightarrow> 2 ^ (bit_count n - 1) \<le> n"
proof (induction n rule: bit_count.induct)
  case (1 n)
  show ?case
  proof (cases "n div 2 \<le> 0")
    case True
    then show ?thesis using 1(2) bit_count_nonpos [OF True] by (simp add: bit_count.simps [of n])
  next
    case False
    then have IH: "2 ^ (bit_count (n div 2) - 1) \<le> n div 2" using 1 by simp
    have "bit_count (n div 2) = Suc (bit_count (n div 2) - 1)" using False by (simp add: bit_count.simps [of "n div 2"])
    then have "(2 :: int) ^ bit_count (n div 2) = 2 * 2 ^ (bit_count (n div 2) - 1)" by (metis power_Suc)
    then show ?thesis using IH 1(2) by (simp add: bit_count.simps [of n])
  qed
qed

lemma round_half_even_1: "round_half_even n 1 = n"
  by (simp add: round_half_even_def)

lemma ld_round_exact: "0 \<le> z \<Longrightarrow> z < 2 ^ 64 \<Longrightarrow> ld_round z = z"
  using bit_count_le [of z 64] by (simp add: ld_round_def Let_def round_half_even_1 sgn_if)

text \<open>A quotient whose fraction has denominator \<open>d < m\<close> does not reach the next integer when it is rounded to
  multiples of \<open>1 / m\<close>.\<close>

lemma round_then_truncate:
  assumes d: "0 < d" "d < m" and n: "0 \<le> (n :: int)"
  shows "round_half_even (n * m) d div m = n div d"
proof -
  let ?q = "n div d" and ?r = "n mod d"
  have split: "n * m = ?q * m * d + ?r * m" by (metis div_mult_mod_eq mult.assoc mult.commute distrib_right)
  have r: "0 \<le> ?r" "?r \<le> d - 1" using d by (simp_all add: pos_mod_bound [of d n] zle_diff1_eq)
  define f where "f = ?r * m div d"
  have div: "n * m div d = ?q * m + f" unfolding split f_def using d by (simp add: div_mult_self3)
  have "?r * m \<le> (d - 1) * m" using r d by (intro mult_right_mono) auto
  moreover have "(d - 1) * m < (m - 1) * d" using d by (simp add: algebra_simps)
  ultimately have "?r * m < (m - 1) * d" by simp
  moreover have "f * d \<le> ?r * m" unfolding f_def using d by (simp add: int_div_times_le)
  ultimately have "f * d < (m - 1) * d" by linarith
  then have f: "f < m - 1" using d by (simp add: mult_less_cancel_right)
  have "0 \<le> f" unfolding f_def using r d by (simp add: pos_imp_zdiv_nonneg_iff)
  have "round_half_even (n * m) d = ?q * m + f \<or> round_half_even (n * m) d = ?q * m + (f + 1)"
    by (simp add: round_half_even_def Let_def div)
  moreover have "(?q * m + g) div m = ?q" if "0 \<le> g" "g < m" for g using that by simp
  ultimately show ?thesis using f \<open>0 \<le> f\<close> by fastforce
qed

lemma ld_divide_exact:
  assumes "0 \<le> z" "z < 2 ^ 63" "d \<noteq> 0"
  shows "ld_divide_truncate z d = z div uint d"
proof (cases "z div uint d = 0")
  case True
  then show ?thesis using assms(1) by (simp add: ld_divide_truncate_def Let_def)
next
  case False
  have d: "0 < uint d" using assms(3) by (simp add: word_neq_0_conv [symmetric] uint_0_iff less_le)
  let ?q = "z div uint d" and ?k = "64 - bit_count (z div uint d)"
  have q: "0 < ?q" using False assms(1) d by (simp add: less_le pos_imp_zdiv_nonneg_iff)
  have "?q < 2 ^ 63" using assms(1,2) d zdiv_mono2 [of z 1 "uint d"] by simp
  then have b: "bit_count ?q \<le> 63" by (rule bit_count_le)
  have b1: "0 < bit_count ?q" using q by (simp add: bit_count.simps)
  have "uint d * 2 ^ (bit_count ?q - 1) \<le> uint d * ?q" using bit_count_ge [OF q] d by (intro mult_left_mono) simp_all
  also have "\<dots> \<le> z" using int_div_times_le [OF d] by (simp add: mult.commute)
  also have "z < 2 ^ 63" by (fact assms(2))
  also have "(2 :: int) ^ 63 = 2 ^ ?k * 2 ^ (bit_count ?q - 1)" using b b1 by (simp flip: power_add)
  finally have "uint d < 2 ^ ?k" by simp
  then show ?thesis
    using round_then_truncate [OF d _ assms(1)] False assms(1) d
    by (auto simp: ld_divide_truncate_def Let_def sgn_if)
qed

text \<open>As long as the cost of the position, in ticks times lots, stays below \<open>2 ^ 63\<close>, the average entry price
  that is computed in extended precision is the exact quotient, rounded down.\<close>

theorem weighted_average_exact:
  assumes "0 \<le> old_price" "0 \<le> delta_price" "new_abs \<noteq> 0"
    "uint old_abs * old_price + uint delta_abs * delta_price < 2 ^ 63"
  shows "weighted_average old_abs old_price delta_abs delta_price new_abs
    = (uint old_abs * old_price + uint delta_abs * delta_price) div uint new_abs"
proof -
  have nn: "0 \<le> uint old_abs * old_price" "0 \<le> uint delta_abs * delta_price" using assms(1,2) by simp_all
  then have "ld_round (uint old_abs * old_price) = uint old_abs * old_price"
    "ld_round (uint delta_abs * delta_price) = uint delta_abs * delta_price"
    "ld_round (uint old_abs * old_price + uint delta_abs * delta_price) = uint old_abs * old_price + uint delta_abs * delta_price"
    using assms(4) by (simp_all add: ld_round_exact)
  then show ?thesis using ld_divide_exact [OF _ assms(4,3)] nn by (simp add: weighted_average_def Let_def)
qed

theorem weighted_average_exact_witness: "weighted_average 300 4000 100 5001 400 = 4250"
  using weighted_average_exact [of 4000 5001 400 300 100] by simp

end
