(* ===== verification/Oms_Findings.thy ===== *)
theory Oms_Findings
  imports Oms_Demo
begin

text \<open>
  Runs of the order manager that do not do what its comments say. Each is a concrete input on which the
  model is evaluated.
\<close>

section \<open>The balance of the account is committed twice\<close>

definition demo_venue_risk :: oms_risk_config where
  "demo_venue_risk = demo_risk\<lparr>rk_require_portfolio_reconciliation := True\<rparr>"

definition demo_snapshot :: "i64 \<Rightarrow> venue_portfolio_snapshot" where
  "demo_snapshot balance = \<lparr>vps_reconciliation_id = 1, vps_universe_version = 1, vps_result_code = PRR_kCOMPLETE,
     vps_available_balance_ticks = balance, vps_portfolio_value_ticks = balance, vps_market_positions = [], vps_request_ts_ns = 1,
     vps_received_ts_ns = 2, vps_error_message = []\<rparr>"

definition total_reserved :: "oms \<Rightarrow> i64" where
  "total_reserved s = sum_list (map (sp_reserved_order_capital_ticks \<circ> snd) (om_portfolios s))"

text \<open>A group of strategy 1 is refused by the exchange and its capital released; strategy 0 then reserves
  capital, which leaves the figure of strategy 1 as it was, so that strategy 1 can reserve the same again.\<close>

definition two_strategies :: "(oms \<Rightarrow> oms) list" where
  "two_strategies = [handle_control_command (CtlApplyOrderRouteUniverse (Some demo_universe)),
     \<lambda>s. fst (maybe_request_portfolio_reconciliation s),
     handle_venue_event (EvVenuePortfolioSnapshot (demo_snapshot 30000)), handle_control_command CtlAllowTrading,
     handle_strategy_intent (IntentGroupOrder (demo_group 1 5 100)),
     handle_venue_event (EvRestOrderResponse (demo_rest RRC_kREJECTED 2)),
     handle_venue_event (EvRestOrderResponse (demo_rest RRC_kREJECTED 3)),
     \<lambda>s. fst (service_execution_incidents s), handle_control_command CtlAllowTrading,
     handle_strategy_intent (IntentGroupOrder (demo_group 0 6 100)),
     handle_strategy_intent (IntentGroupOrder (demo_group 1 7 100))]"

definition account_view :: "oms \<Rightarrow> bool \<times> i64 \<times> i64" where
  "account_view s = (om_trading_enabled s, vp_available_balance_ticks (om_venue_portfolio s), total_reserved s)"

lemma venue_balance_overcommitted:
  "account_view (fold (\<lambda>f. f) two_strategies (demo_oms 2 demo_venue_risk)) = (True, 30000, 40000)"
  by code_simp

section \<open>A fill that arrives after its order was reported filled\<close>

text \<open>The exchange reports the first leg as filled before it reports the trade, and the second leg is refused.
  The group is then closed as flattened and its capital released; the trade that follows leaves a residual
  of 100 lots that no repair order offsets.\<close>

definition late_trade :: "oms_op list" where
  "late_trade = demo_start @ [Op_venue_event 0 (EvPrivateWsOrderEvent (demo_ws PWK_kUSER_ORDER 2 [] OS_kFILLED 100)),
     Op_venue_event 0 (EvRestOrderResponse (demo_rest RRC_kREJECTED 3)), Op_pump,
     Op_venue_event 0 (EvPrivateWsOrderEvent demo_fill), Op_pump, Op_pump]"

definition exposure_view :: "oms \<Rightarrow> (group_execution_state \<times> i64 list) option \<times> i64 \<times> bool \<times> i64 option" where
  "exposure_view s = (map_option (\<lambda>g. (gr_execution_state g, take 2 (gr_residual_yes_lots g))) (find_group s 1),
     total_reserved s, om_execution_incident_active s, map_option ord_cumulative_filled_qty_lots (find_order s 2))"

text \<open>The 100 lots of the first leg are also counted twice, once from the report and once from the trade.\<close>

lemma flattened_group_keeps_residual:
  "exposure_view (fold oms_step late_trade (demo_oms 1 demo_risk)) = (Some (GES_kFLATTENED, [100, 0]), 0, False, Some 200)"
  by code_simp

section \<open>A late acknowledgement reopens a filled order\<close>

lemma late_acknowledgement_reopens_order:
  "map_option (\<lambda>r. (ord_order_state r, ord_leaves_qty_lots r))
     (find_order (fold oms_step (demo_start @ [Op_venue_event 0 (EvPrivateWsOrderEvent demo_fill), Op_pump,
        Op_venue_event 0 (EvRestOrderResponse (demo_rest RRC_kACKED 2)), Op_pump]) (demo_oms 1 demo_risk)) 2)
   = Some (OS_kWORKING, 0)"
  by code_simp

end
