(* ===== verification/Monotonic_Arb.thy ===== *)
theory Monotonic_Arb
  imports Event
begin

text \<open>
  The evaluation of a pair of neighbouring markets of a monotonic chain
  (\<open>strategy/monotonic_arb.hpp\<close>, \<open>strategy/monotonic_arb.cpp\<close>): the candidate limit prices of either leg,
  the fee of a leg, the choice of a pair of limits, and the resulting candidate or reason of rejection.
\<close>

type_synonym u128 = "128 word"

definition kPriceTicksPerDollar :: price_ticks where "kPriceTicksPerDollar = 10000"
definition kQuantityLotsPerContract :: qty_lots where "kQuantityLotsPerContract = 100"

datatype monotonic_arb_reject_reason =
    MAR_kNONE | MAR_kMARKET_NOT_TRADEABLE | MAR_kMARKET_CLOSED | MAR_kINVALID_PAIR_ORDER | MAR_kMISSING_BID_DEPTH
  | MAR_kMISSING_ASK_DEPTH | MAR_kNO_GROSS_EDGE | MAR_kINSUFFICIENT_NET_EDGE | MAR_kDEPTH_DISCONTINUITY
  | MAR_kINSUFFICIENT_QUANTITY | MAR_kPRICE_AGGRESSION_EXCEEDED | MAR_kARITHMETIC_OVERFLOW | MAR_kINVALID_CONFIG
  | MAR_kINVALID_OBSERVATION | MAR_kFEES_ERASE_EDGE

record monotonic_arb_config =
  mac_order_quantity_lots :: qty_lots
  mac_minimum_net_edge_ticks :: u64
  mac_edge_cushion_ticks :: u64
  mac_require_top_gap_continuity :: bool
  mac_maximum_top_gap_ticks :: price_ticks
  mac_require_near_top_multilevel_support :: bool
  mac_near_top_depth_window_ticks :: price_ticks
  mac_minimum_near_top_levels :: u8
  mac_bounded_easier_aggression_enabled :: bool
  mac_bounded_harder_aggression_enabled :: bool
  mac_maximum_easier_aggression_ticks :: price_ticks
  mac_maximum_harder_aggression_ticks :: price_ticks
  mac_maximum_easier_book_levels :: u8
  mac_maximum_harder_book_levels :: u8
  mac_require_full_easier_depth_for_quantity :: bool
  mac_require_full_harder_depth_for_quantity :: bool
  mac_taker_fee_rate_numerator :: u32
  mac_taker_fee_rate_denominator :: u32
  mac_execution_rounding_reserve_ticks_per_leg :: price_ticks

record fee_calculation =
  fc_total_fee_ticks :: u64
  fc_overflow :: bool

datatype arb_action = AA_kBUY_YES | AA_kSELL_YES

record monotonic_arb_leg =
  mal_market_id :: market_id
  mal_action :: arb_action
  mal_limit_price_ticks :: price_ticks
  mal_quantity_lots :: qty_lots

record monotonic_arb_candidate =
  mca_event_id :: event_id
  mca_event_revision :: u64
  mca_easier_leg :: monotonic_arb_leg
  mca_harder_leg :: monotonic_arb_leg
  mca_gross_edge_ticks :: u64
  mca_estimated_fee_ticks :: u64
  mca_net_edge_ticks :: u64
  mca_universe_version :: u64
  mca_shard_index :: u32
  mca_ingress_timestamp_ns :: u64
  mca_book_apply_timestamp_ns :: u64
  mca_observation_publish_timestamp_ns :: u64

record leg_selection =
  ls_observed_top_ticks :: price_ticks
  ls_chosen_limit_ticks :: price_ticks
  ls_scanned_levels :: u8
  ls_cumulative_quantity_lots :: qty_lots
  ls_bounded_aggression_applied :: bool

text \<open>A set of candidates is either a failure or the selections in use, at most one per level: \<open>count\<close> is
  the length of the list.\<close>

type_synonym leg_candidate_set = "monotonic_arb_reject_reason + leg_selection list"

text \<open>An evaluation is a reason or a candidate.\<close>

type_synonym monotonic_arb_evaluation = "monotonic_arb_reject_reason + monotonic_arb_candidate"

section \<open>The header of an observation\<close>

definition valid_pair_header :: "monotonic_pair_observation \<Rightarrow> bool" where
  "valid_pair_header observation =
     (let easier = mpo_easier observation; harder = mpo_harder observation in
      if mpo_event_id observation = 0 \<or> smv_market_id easier = 0 \<or> smv_market_id harder = 0 then False
      else if smv_market_id easier = smv_market_id harder then False
      else if smv_strike_key easier \<ge> smv_strike_key harder then False
      else if smv_event_market_index easier \<ge> smv_event_market_index harder then False
      else if smv_event_market_index harder - smv_event_market_index easier \<noteq> 1 then False
      else if unat (smv_ask_count easier) > kStrategyBookDepth \<or> unat (smv_bid_count harder) > kStrategyBookDepth then False
      else True)"

section \<open>Candidate limits of a leg\<close>

definition add_up_to_required :: "qty_lots \<Rightarrow> qty_lots \<Rightarrow> qty_lots \<Rightarrow> qty_lots" where
  "add_up_to_required current additional required =
     (if current \<ge> required then required
      else let remaining = required - current
           in if additional \<ge> remaining then required else current + additional)"

text \<open>The two loops are mirror images of each other; what differs is collected in \<open>scan_side\<close>: \<open>sd_away top_ticks p\<close> is
  the distance of \<open>p\<close> from a better price, \<open>sd_stuck prev p\<close> says that \<open>p\<close> is not worse than the level before.\<close>

record scan_side =
  sd_away :: "price_ticks \<Rightarrow> price_ticks \<Rightarrow> price_ticks"
  sd_stuck :: "price_ticks \<Rightarrow> price_ticks \<Rightarrow> bool"
  sd_maximum_book_levels :: u8
  sd_bounded_aggression_enabled :: bool
  sd_maximum_aggression_ticks :: price_ticks
  sd_require_full_depth :: bool

definition easier_side :: "monotonic_arb_config \<Rightarrow> scan_side" where
  "easier_side c = \<lparr>sd_away = \<lambda>better p. p - better, sd_stuck = \<lambda>previous p. p \<le> previous,
     sd_maximum_book_levels = mac_maximum_easier_book_levels c,
     sd_bounded_aggression_enabled = mac_bounded_easier_aggression_enabled c,
     sd_maximum_aggression_ticks = mac_maximum_easier_aggression_ticks c,
     sd_require_full_depth = mac_require_full_easier_depth_for_quantity c\<rparr>"

definition harder_side :: "monotonic_arb_config \<Rightarrow> scan_side" where
  "harder_side c = \<lparr>sd_away = \<lambda>better p. better - p, sd_stuck = \<lambda>previous p. p \<ge> previous,
     sd_maximum_book_levels = mac_maximum_harder_book_levels c,
     sd_bounded_aggression_enabled = mac_bounded_harder_aggression_enabled c,
     sd_maximum_aggression_ticks = mac_maximum_harder_aggression_ticks c,
     sd_require_full_depth = mac_require_full_harder_depth_for_quantity c\<rparr>"

text \<open>The local variables of the loop.\<close>

record leg_scan =
  sc_selections :: "leg_selection list"
  sc_candidate_quantity :: qty_lots
  sc_near_top_quantity :: qty_lots
  sc_near_top_levels :: u8
  sc_inside_near_top_window :: bool
  sc_candidate_scan_active :: bool
  sc_candidate_stop_reason :: monotonic_arb_reject_reason
  sc_observed_second_level :: bool
  sc_top_gap_valid :: bool
  sc_previous_price :: price_ticks

definition scan_start :: "price_ticks \<Rightarrow> leg_scan" where
  "scan_start top_ticks = \<lparr>sc_selections = [], sc_candidate_quantity = 0, sc_near_top_quantity = 0, sc_near_top_levels = 0,
     sc_inside_near_top_window = True, sc_candidate_scan_active = True, sc_candidate_stop_reason = MAR_kNONE,
     sc_observed_second_level = False, sc_top_gap_valid = False, sc_previous_price = top_ticks\<rparr>"

definition bad_level :: "strategy_book_level \<Rightarrow> bool" where
  "bad_level l \<longleftrightarrow> sbl_price_ticks l = 0 \<or> sbl_price_ticks l \<ge> kPriceTicksPerDollar \<or> sbl_quantity_lots l = 0"

text \<open>The near-top window.\<close>

definition scan_window :: "monotonic_arb_config \<Rightarrow> scan_side \<Rightarrow> price_ticks \<Rightarrow> strategy_book_level \<Rightarrow> leg_scan \<Rightarrow> leg_scan" where
  "scan_window c sd top_ticks level sc =
     (if sc_inside_near_top_window sc \<and> sd_away sd top_ticks (sbl_price_ticks level) \<le> mac_near_top_depth_window_ticks c
      then sc\<lparr>sc_near_top_quantity := sc_near_top_quantity sc + sbl_quantity_lots level,
              sc_near_top_levels := sc_near_top_levels sc + 1\<rparr>
      else sc\<lparr>sc_inside_near_top_window := False\<rparr>)"

text \<open>The candidate scan of a level within reach.\<close>

definition scan_candidate ::
  "monotonic_arb_config \<Rightarrow> scan_side \<Rightarrow> price_ticks \<Rightarrow> nat \<Rightarrow> price_ticks \<Rightarrow> strategy_book_level \<Rightarrow> leg_scan \<Rightarrow> leg_scan" where
  "scan_candidate c sd top_ticks index adjacent_gap level sc =
     (if \<not> (index < unat (sd_maximum_book_levels sd) \<and> sc_candidate_scan_active sc) then sc
      else let sc1 = (if index > 0 \<and> mac_require_top_gap_continuity c \<and> adjacent_gap > mac_maximum_top_gap_ticks c
                      then sc\<lparr>sc_candidate_scan_active := False, sc_candidate_stop_reason := MAR_kDEPTH_DISCONTINUITY\<rparr> else sc);
               aggression = sd_away sd top_ticks (sbl_price_ticks level);
               sc2 = (if sc_candidate_scan_active sc1
                         \<and> (\<not> sd_bounded_aggression_enabled sd \<and> aggression > 0 \<or> aggression > sd_maximum_aggression_ticks sd)
                      then sc1\<lparr>sc_candidate_scan_active := False, sc_candidate_stop_reason := MAR_kPRICE_AGGRESSION_EXCEEDED\<rparr>
                      else sc1)
      in if \<not> sc_candidate_scan_active sc2 then sc2
      else let quantity = add_up_to_required (sc_candidate_quantity sc2) (sbl_quantity_lots level) (mac_order_quantity_lots c);
               sc3 = sc2\<lparr>sc_candidate_quantity := quantity\<rparr>
      in if \<not> sd_require_full_depth sd \<or> quantity \<ge> mac_order_quantity_lots c
         then sc3\<lparr>sc_selections := sc_selections sc3 @ [\<lparr>ls_observed_top_ticks = top_ticks,
                ls_chosen_limit_ticks = sbl_price_ticks level, ls_scanned_levels = of_nat (index + 1),
                ls_cumulative_quantity_lots = quantity,
                ls_bounded_aggression_applied = (sbl_price_ticks level \<noteq> top_ticks)\<rparr>]\<rparr>
         else sc3)"

text \<open>The loop over the levels; \<open>None\<close> is the early return of an invalid observation.\<close>

fun scan_levels ::
  "monotonic_arb_config \<Rightarrow> scan_side \<Rightarrow> price_ticks \<Rightarrow> nat \<Rightarrow> strategy_book_level list \<Rightarrow> leg_scan \<Rightarrow> leg_scan option" where
  "scan_levels c sd top_ticks index [] sc = Some sc"
| "scan_levels c sd top_ticks index (level # levels) sc =
     (if bad_level level then None
      else if index > 0 \<and> sd_stuck sd (sc_previous_price sc) (sbl_price_ticks level) then None
      else let adjacent_gap = (if index > 0 then sd_away sd (sc_previous_price sc) (sbl_price_ticks level) else 0);
               sc1 = (if index = 1 then sc\<lparr>sc_observed_second_level := True,
                        sc_top_gap_valid := (adjacent_gap \<le> mac_maximum_top_gap_ticks c)\<rparr> else sc);
               sc2 = scan_candidate c sd top_ticks index adjacent_gap level (scan_window c sd top_ticks level sc1)
      in scan_levels c sd top_ticks (Suc index) levels (sc2\<lparr>sc_previous_price := sbl_price_ticks level\<rparr>))"

text \<open>The tests after the loop.\<close>

definition scan_result :: "monotonic_arb_config \<Rightarrow> leg_scan \<Rightarrow> leg_candidate_set" where
  "scan_result c sc =
     (if mac_require_top_gap_continuity c \<and> (\<not> sc_observed_second_level sc \<or> \<not> sc_top_gap_valid sc)
      then Inl MAR_kDEPTH_DISCONTINUITY
      else if mac_require_near_top_multilevel_support c \<and> sc_near_top_levels sc < mac_minimum_near_top_levels c
      then Inl MAR_kDEPTH_DISCONTINUITY
      else if mac_require_near_top_multilevel_support c \<and> sc_near_top_quantity sc < mac_order_quantity_lots c
      then Inl MAR_kINSUFFICIENT_QUANTITY
      else if sc_selections sc = []
      then Inl (if sc_candidate_stop_reason sc \<noteq> MAR_kNONE then sc_candidate_stop_reason sc else MAR_kINSUFFICIENT_QUANTITY)
      else Inr (sc_selections sc))"

definition collect_candidates ::
  "monotonic_arb_config \<Rightarrow> scan_side \<Rightarrow> strategy_book_level list \<Rightarrow> u8 \<Rightarrow> leg_candidate_set" where
  "collect_candidates c sd levels count =
     (if count = 0 \<or> unat count > kStrategyBookDepth then Inl MAR_kINVALID_OBSERVATION
      else if bad_level (levels ! 0) then Inl MAR_kINVALID_OBSERVATION
      else let top_ticks = sbl_price_ticks (levels ! 0)
      in case scan_levels c sd top_ticks 0 (take (unat count) levels) (scan_start top_ticks) of
        None \<Rightarrow> Inl MAR_kINVALID_OBSERVATION
      | Some sc \<Rightarrow> scan_result c sc)"

definition collect_easier_candidates :: "strategy_market_view \<Rightarrow> monotonic_arb_config \<Rightarrow> leg_candidate_set" where
  "collect_easier_candidates market c = collect_candidates c (easier_side c) (smv_asks market) (smv_ask_count market)"

definition collect_harder_candidates :: "strategy_market_view \<Rightarrow> monotonic_arb_config \<Rightarrow> leg_candidate_set" where
  "collect_harder_candidates market c = collect_candidates c (harder_side c) (smv_bids market) (smv_bid_count market)"

section \<open>Edge and fees\<close>

definition calculate_gross_edge_ticks :: "price_ticks \<Rightarrow> price_ticks \<Rightarrow> qty_lots \<Rightarrow> u64" where
  "calculate_gross_edge_ticks easier_limit harder_limit quantity_lots =
     (if harder_limit \<le> easier_limit then 0
      else (harder_limit - easier_limit) * quantity_lots div kQuantityLotsPerContract)"

definition kMaximumSafeGrossQuantityLots :: qty_lots where
  "kMaximumSafeGrossQuantityLots = (- 1) div (kPriceTicksPerDollar - 1)"

definition valid_monotonic_arb_config :: "monotonic_arb_config \<Rightarrow> bool" where
  "valid_monotonic_arb_config c =
     (if mac_order_quantity_lots c = 0 then False
      else if mac_maximum_easier_book_levels c = 0 \<or> unat (mac_maximum_easier_book_levels c) > kStrategyBookDepth then False
      else if mac_maximum_harder_book_levels c = 0 \<or> unat (mac_maximum_harder_book_levels c) > kStrategyBookDepth then False
      else if mac_require_near_top_multilevel_support c
         \<and> (mac_minimum_near_top_levels c = 0 \<or> unat (mac_minimum_near_top_levels c) > kStrategyBookDepth) then False
      else if mac_require_top_gap_continuity c \<and> mac_maximum_top_gap_ticks c = 0 then False
      else if mac_minimum_net_edge_ticks c > - 1 - mac_edge_cushion_ticks c then False
      else if mac_order_quantity_lots c > kMaximumSafeGrossQuantityLots then False
      else if mac_taker_fee_rate_denominator c = 0 then False
      else if mac_taker_fee_rate_numerator c > mac_taker_fee_rate_denominator c then False
      else True)"

definition calculate_fee :: "monotonic_arb_config \<Rightarrow> monotonic_arb_leg \<Rightarrow> fee_calculation" where
  "calculate_fee c leg =
     (if mal_quantity_lots leg = 0 then \<lparr>fc_total_fee_ticks = 0, fc_overflow = False\<rparr>
      else if mac_taker_fee_rate_denominator c = 0 \<or> mal_limit_price_ticks leg = 0
         \<or> mal_limit_price_ticks leg \<ge> kPriceTicksPerDollar
      then \<lparr>fc_total_fee_ticks = 0, fc_overflow = True\<rparr>
      else let price = ucast (mal_limit_price_ticks leg) :: u128;
               complement = ucast kPriceTicksPerDollar - price;
               numerator = ucast (mac_taker_fee_rate_numerator c) * ucast (mal_quantity_lots leg) * price * complement;
               denominator = ucast (mac_taker_fee_rate_denominator c) * ucast kQuantityLotsPerContract * ucast kPriceTicksPerDollar;
               base_fee_ticks = (numerator + denominator - 1) div denominator;
               total_fee_ticks = base_fee_ticks + ucast (mac_execution_rounding_reserve_ticks_per_leg c)
      in if total_fee_ticks > ucast (- 1 :: u64) then \<lparr>fc_total_fee_ticks = 0, fc_overflow = True\<rparr>
         else \<lparr>fc_total_fee_ticks = ucast total_fee_ticks, fc_overflow = False\<rparr>)"

section \<open>The choice of a pair of limits\<close>

record paired_selection =
  ps_easier :: leg_selection
  ps_harder :: leg_selection
  ps_gross_edge_ticks :: u64
  ps_estimated_fee_ticks :: u64
  ps_net_edge_ticks :: u64

text \<open>The local variables of the double loop; \<open>result.found\<close> is \<open>pr_selection \<noteq> None\<close>.\<close>

record pair_scan =
  pr_selection :: "paired_selection option"
  pr_saw_gross_edge :: bool
  pr_saw_fee_surviving_edge :: bool
  pr_best_depth_score :: u16

definition arb_leg :: "monotonic_arb_config \<Rightarrow> market_id \<Rightarrow> arb_action \<Rightarrow> leg_selection \<Rightarrow> monotonic_arb_leg" where
  "arb_leg c mid action sel = \<lparr>mal_market_id = mid, mal_action = action,
     mal_limit_price_ticks = ls_chosen_limit_ticks sel, mal_quantity_lots = mac_order_quantity_lots c\<rparr>"

definition depth_score :: "leg_selection \<Rightarrow> leg_selection \<Rightarrow> u16" where
  "depth_score easier harder = ucast (ls_scanned_levels easier) + ucast (ls_scanned_levels harder)"

text \<open>The body of the inner loop; \<open>Inl\<close> is the early return.\<close>

definition pair_step ::
  "monotonic_arb_config \<Rightarrow> leg_selection \<Rightarrow> u64 \<Rightarrow> leg_selection \<Rightarrow> pair_scan \<Rightarrow> monotonic_arb_reject_reason + pair_scan" where
  "pair_step c easier easier_fee harder r =
     (let required_net_edge = mac_minimum_net_edge_ticks c + mac_edge_cushion_ticks c;
          gross_edge = calculate_gross_edge_ticks (ls_chosen_limit_ticks easier) (ls_chosen_limit_ticks harder)
                         (mac_order_quantity_lots c)
      in if gross_edge = 0 then Inr r
      else let r1 = r\<lparr>pr_saw_gross_edge := True\<rparr>;
               harder_fee = calculate_fee c (arb_leg c 0 AA_kSELL_YES harder)
      in if fc_overflow harder_fee then Inl MAR_kARITHMETIC_OVERFLOW
      else if easier_fee > - 1 - fc_total_fee_ticks harder_fee then Inl MAR_kARITHMETIC_OVERFLOW
      else let total_fees = easier_fee + fc_total_fee_ticks harder_fee
      in if gross_edge \<le> total_fees then Inr r1
      else let r2 = r1\<lparr>pr_saw_fee_surviving_edge := True\<rparr>; net_edge = gross_edge - total_fees
      in if net_edge < required_net_edge then Inr r2
      else let score = depth_score easier harder;
               is_better = (case pr_selection r2 of None \<Rightarrow> True
                 | Some best \<Rightarrow> score > pr_best_depth_score r2
                     \<or> score = pr_best_depth_score r2 \<and> net_edge > ps_net_edge_ticks best)
      in if \<not> is_better then Inr r2
         else Inr (r2\<lparr>pr_selection := Some \<lparr>ps_easier = easier, ps_harder = harder, ps_gross_edge_ticks = gross_edge,
                ps_estimated_fee_ticks = total_fees, ps_net_edge_ticks = net_edge\<rparr>, pr_best_depth_score := score\<rparr>))"

primrec pair_inner ::
  "monotonic_arb_config \<Rightarrow> leg_selection \<Rightarrow> u64 \<Rightarrow> leg_selection list \<Rightarrow> pair_scan \<Rightarrow> monotonic_arb_reject_reason + pair_scan" where
  "pair_inner c easier easier_fee [] r = Inr r"
| "pair_inner c easier easier_fee (harder # harders) r =
     (case pair_step c easier easier_fee harder r of
        Inl reason \<Rightarrow> Inl reason
      | Inr r1 \<Rightarrow> pair_inner c easier easier_fee harders r1)"

primrec pair_outer ::
  "monotonic_arb_config \<Rightarrow> leg_selection list \<Rightarrow> leg_selection list \<Rightarrow> pair_scan \<Rightarrow> monotonic_arb_reject_reason + pair_scan" where
  "pair_outer c harders [] r = Inr r"
| "pair_outer c harders (easier # easiers) r =
     (let easier_fee = calculate_fee c (arb_leg c 0 AA_kBUY_YES easier)
      in if fc_overflow easier_fee then Inl MAR_kARITHMETIC_OVERFLOW
      else case pair_inner c easier (fc_total_fee_ticks easier_fee) harders r of
        Inl reason \<Rightarrow> Inl reason
      | Inr r1 \<Rightarrow> pair_outer c harders easiers r1)"

definition select_paired_limits ::
  "leg_selection list \<Rightarrow> leg_selection list \<Rightarrow> monotonic_arb_config \<Rightarrow> monotonic_arb_reject_reason + paired_selection" where
  "select_paired_limits easiers harders c =
     (case pair_outer c harders easiers \<lparr>pr_selection = None, pr_saw_gross_edge = False, pr_saw_fee_surviving_edge = False,
             pr_best_depth_score = 0\<rparr> of
        Inl reason \<Rightarrow> Inl reason
      | Inr r \<Rightarrow> (case pr_selection r of
          Some selection \<Rightarrow> Inr selection
        | None \<Rightarrow> Inl (if \<not> pr_saw_gross_edge r then MAR_kNO_GROSS_EDGE
                       else if \<not> pr_saw_fee_surviving_edge r then MAR_kFEES_ERASE_EDGE
                       else MAR_kINSUFFICIENT_NET_EDGE)))"

section \<open>The evaluation\<close>

definition market_closed :: "strategy_market_view \<Rightarrow> u64 \<Rightarrow> bool" where
  "market_closed market wall_clock_now_s \<longleftrightarrow>
     smv_market_close_time_s market \<noteq> 0 \<and> wall_clock_now_s \<ge> smv_market_close_time_s market"

definition make_candidate ::
  "monotonic_arb_config \<Rightarrow> monotonic_pair_observation \<Rightarrow> paired_selection \<Rightarrow> monotonic_arb_candidate" where
  "make_candidate c observation selection =
     \<lparr>mca_event_id = mpo_event_id observation, mca_event_revision = mpo_event_revision observation,
      mca_easier_leg = arb_leg c (smv_market_id (mpo_easier observation)) AA_kBUY_YES (ps_easier selection),
      mca_harder_leg = arb_leg c (smv_market_id (mpo_harder observation)) AA_kSELL_YES (ps_harder selection),
      mca_gross_edge_ticks = ps_gross_edge_ticks selection, mca_estimated_fee_ticks = ps_estimated_fee_ticks selection,
      mca_net_edge_ticks = ps_net_edge_ticks selection, mca_universe_version = mpo_universe_version observation,
      mca_shard_index = mpo_shard_index observation, mca_ingress_timestamp_ns = mpo_ingress_timestamp_ns observation,
      mca_book_apply_timestamp_ns = mpo_book_apply_timestamp_ns observation,
      mca_observation_publish_timestamp_ns = mpo_publish_timestamp_ns observation\<rparr>"

definition evaluate_monotonic_arb ::
  "monotonic_arb_config \<Rightarrow> monotonic_pair_observation \<Rightarrow> u64 \<Rightarrow> monotonic_arb_evaluation" where
  "evaluate_monotonic_arb c observation wall_clock_now_s =
     (let easier = mpo_easier observation; harder = mpo_harder observation in
      if \<not> valid_pair_header observation then Inl MAR_kINVALID_OBSERVATION
      else if \<not> smv_tradeable easier \<or> \<not> smv_tradeable harder then Inl MAR_kMARKET_NOT_TRADEABLE
      else if market_closed easier wall_clock_now_s \<or> market_closed harder wall_clock_now_s then Inl MAR_kMARKET_CLOSED
      else if smv_ask_count easier = 0 then Inl MAR_kMISSING_ASK_DEPTH
      else if smv_bid_count harder = 0 then Inl MAR_kMISSING_BID_DEPTH
      else case collect_easier_candidates easier c of
        Inl reason \<Rightarrow> Inl reason
      | Inr easiers \<Rightarrow>
      (case collect_harder_candidates harder c of
        Inl reason \<Rightarrow> Inl reason
      | Inr harders \<Rightarrow>
      (case select_paired_limits easiers harders c of
        Inl reason \<Rightarrow> Inl reason
      | Inr selection \<Rightarrow> Inr (make_candidate c observation selection))))"

end
