(* ===== verification/Monotonic_Arb_Properties.thy ===== *)
theory Monotonic_Arb_Properties
  imports Monotonic_Arb
begin

text \<open>
  What an accepted candidate guarantees: its limits are observed prices with enough quantity behind them, its
  edge and fees are exact, it is the best of the feasible pairs, and it earns its net edge in every settlement
  of two markets of which the harder one implies the easier one.
\<close>

section \<open>An example\<close>

definition demo_arb_config :: monotonic_arb_config where
  "demo_arb_config = \<lparr>mac_order_quantity_lots = 200, mac_minimum_net_edge_ticks = 200, mac_edge_cushion_ticks = 0,
     mac_require_top_gap_continuity = True, mac_maximum_top_gap_ticks = 200, mac_require_near_top_multilevel_support = True,
     mac_near_top_depth_window_ticks = 200, mac_minimum_near_top_levels = 2, mac_bounded_easier_aggression_enabled = True,
     mac_bounded_harder_aggression_enabled = True, mac_maximum_easier_aggression_ticks = 300,
     mac_maximum_harder_aggression_ticks = 300, mac_maximum_easier_book_levels = 3, mac_maximum_harder_book_levels = 3,
     mac_require_full_easier_depth_for_quantity = True, mac_require_full_harder_depth_for_quantity = True,
     mac_taker_fee_rate_numerator = 7, mac_taker_fee_rate_denominator = 100, mac_execution_rounding_reserve_ticks_per_leg = 0\<rparr>"

definition demo_view :: "u32 \<Rightarrow> (price_ticks \<times> qty_lots) list \<Rightarrow> strategy_market_view" where
  "demo_view k levels = (let slots = map (\<lambda>(p, q). \<lparr>sbl_price_ticks = p, sbl_quantity_lots = q\<rparr>) levels in
     \<lparr>smv_market_id = k, smv_event_market_index = k, smv_strike_key = uint k, smv_tradeable = True, smv_market_time_s = 0,
      smv_market_close_time_s = 900, smv_market_expected_expiration_time_s = 0, smv_market_expiration_time_s = 0,
      smv_bids = slots, smv_asks = slots, smv_bid_count = of_nat (length levels), smv_ask_count = of_nat (length levels)\<rparr>)"

definition demo_observation :: monotonic_pair_observation where
  "demo_observation = \<lparr>mpo_universe_version = 1, mpo_shard_index = 0, mpo_event_id = 7, mpo_event_revision = 3,
     mpo_ingress_timestamp_ns = 1, mpo_book_apply_timestamp_ns = 1, mpo_publish_timestamp_ns = 1,
     mpo_easier = demo_view 1 [(4000, 100), (4100, 300)], mpo_harder = demo_view 2 [(5200, 200), (5100, 100)]\<rparr>"

definition demo_candidate :: monotonic_arb_candidate where
  "demo_candidate = \<lparr>mca_event_id = 7, mca_event_revision = 3,
     mca_easier_leg = \<lparr>mal_market_id = 1, mal_action = AA_kBUY_YES, mal_limit_price_ticks = 4100, mal_quantity_lots = 200\<rparr>,
     mca_harder_leg = \<lparr>mal_market_id = 2, mal_action = AA_kSELL_YES, mal_limit_price_ticks = 5100, mal_quantity_lots = 200\<rparr>,
     mca_gross_edge_ticks = 2000, mca_estimated_fee_ticks = 689, mca_net_edge_ticks = 1311, mca_universe_version = 1,
     mca_shard_index = 0, mca_ingress_timestamp_ns = 1, mca_book_apply_timestamp_ns = 1,
     mca_observation_publish_timestamp_ns = 1\<rparr>"

lemma demo_arb_valid: "valid_monotonic_arb_config demo_arb_config"
  by code_simp

lemma demo_evaluation: "evaluate_monotonic_arb demo_arb_config demo_observation 10 = Inr demo_candidate"
  by code_simp

section \<open>Fees\<close>

definition round_up_div :: "nat \<Rightarrow> nat \<Rightarrow> nat" where
  "round_up_div n d = (n + d - 1) div d"

lemma round_up_div_least:
  assumes "0 < d"
  shows "n \<le> round_up_div n d * d" "round_up_div n d * d < n + d"
proof -
  have "(n + d - 1) div d * d + (n + d - 1) mod d = n + d - 1" by (rule div_mult_mod_eq)
  moreover have "(n + d - 1) mod d \<le> d - 1" using assms by (simp add: Suc_leI less_Suc_eq_le [symmetric])
  ultimately show "n \<le> round_up_div n d * d" "round_up_div n d * d < n + d"
    using assms unfolding round_up_div_def by linarith+
qed

text \<open>The fee of a leg, \<open>rate * contracts * price * (1 - price)\<close> with the price in dollars, in ticks and rounded up,
  and the reserve of the leg.\<close>

definition exact_fee :: "monotonic_arb_config \<Rightarrow> nat \<Rightarrow> nat \<Rightarrow> nat" where
  "exact_fee c price quantity =
     round_up_div (unat (mac_taker_fee_rate_numerator c) * quantity * price * (10000 - price))
       (unat (mac_taker_fee_rate_denominator c) * 100 * 10000)
     + unat (mac_execution_rounding_reserve_ticks_per_leg c)"

lemma unat_ucast_mod: "unat (ucast (w :: 'a::len word) :: 'b::len word) = unat w mod 2 ^ LENGTH('b)"
  by (simp add: unsigned_ucast_eq take_bit_eq_mod)

lemma unat_ucast_u64 [simp]: "unat (ucast (w :: u64) :: u128) = unat w"
  using unat_u64_less [of w] by (simp add: unat_ucast_mod)

lemma unat_ucast_u32_u128 [simp]: "unat (ucast (w :: u32) :: u128) = unat w"
  using unat_u32_less [of w] by (simp add: unat_ucast_mod)

lemma fee_numerator:
  fixes n :: u32 and q p :: u64
  assumes "p < kPriceTicksPerDollar"
  defines "num \<equiv> (ucast n * ucast q * ucast p * (ucast kPriceTicksPerDollar - ucast p) :: u128)"
  shows "unat num = unat n * unat q * unat p * (10000 - unat p) \<and> unat num < 2 ^ 123"
proof -
  have p: "unat p < 10000" using assms(1) by (simp add: kPriceTicksPerDollar_def word_less_nat_alt)
  have comp: "unat (ucast kPriceTicksPerDollar - ucast p :: u128) = 10000 - unat p"
    using p by (subst unat_sub) (simp_all add: word_le_nat_alt kPriceTicksPerDollar_def)
  have "unat n * unat q \<le> 4294967296 * 18446744073709551616"
    using unat_u32_less [of n] unat_u64_less [of q] by (intro mult_le_mono) simp_all
  then have a: "unat n * unat q \<le> 79228162514264337593543950336" by simp
  have b: "unat n * unat q * unat p \<le> 79228162514264337593543950336 * 10000"
    using p by (intro mult_le_mono a) simp
  have c: "unat n * unat q * unat p * (10000 - unat p) \<le> 79228162514264337593543950336 * 10000 * 10000"
    by (intro mult_le_mono b) simp
  have 1: "unat (ucast n * ucast q :: u128) = unat n * unat q"
    using a by (subst unat_mult_lem [THEN iffD1]) simp_all
  have 2: "unat (ucast n * ucast q * ucast p :: u128) = unat n * unat q * unat p"
    using b by (subst unat_mult_lem [THEN iffD1]) (simp_all add: 1)
  have 3: "unat num = unat n * unat q * unat p * (10000 - unat p)"
    unfolding num_def using c by (subst unat_mult_lem [THEN iffD1]) (simp_all add: 2 comp)
  then show ?thesis using c by simp
qed

lemma fee_denominator:
  fixes d :: u32
  assumes "d \<noteq> 0"
  defines "den \<equiv> (ucast d * ucast kQuantityLotsPerContract * ucast kPriceTicksPerDollar :: u128)"
  shows "unat den = unat d * 100 * 10000 \<and> 0 < unat den \<and> unat den < 2 ^ 52"
proof -
  have d: "0 < unat d" using assms(1) by (simp add: unat_gt_0)
  have 1: "unat (ucast d * ucast kQuantityLotsPerContract :: u128) = unat d * 100"
    using unat_u32_less [of d] by (subst unat_mult_lem [THEN iffD1]) (simp_all add: kQuantityLotsPerContract_def)
  have "unat den = unat d * 100 * 10000"
    unfolding den_def using unat_u32_less [of d]
    by (subst unat_mult_lem [THEN iffD1]) (simp_all only: 1, simp_all add: kPriceTicksPerDollar_def)
  then show ?thesis using d unat_u32_less [of d] by simp
qed

lemma calculate_fee_exact:
  assumes "mal_quantity_lots leg \<noteq> 0" "mac_taker_fee_rate_denominator c \<noteq> 0"
    "mal_limit_price_ticks leg \<noteq> 0" "mal_limit_price_ticks leg < kPriceTicksPerDollar"
  defines "f \<equiv> exact_fee c (unat (mal_limit_price_ticks leg)) (unat (mal_quantity_lots leg))"
  shows "fc_overflow (calculate_fee c leg) \<longleftrightarrow> 2 ^ 64 \<le> f"
    and "f < 2 ^ 64 \<Longrightarrow> unat (fc_total_fee_ticks (calculate_fee c leg)) = f"
proof -
  let ?n = "ucast (mac_taker_fee_rate_numerator c) * ucast (mal_quantity_lots leg) * ucast (mal_limit_price_ticks leg)
    * (ucast kPriceTicksPerDollar - ucast (mal_limit_price_ticks leg)) :: u128"
  let ?d = "ucast (mac_taker_fee_rate_denominator c) * ucast kQuantityLotsPerContract * ucast kPriceTicksPerDollar :: u128"
  let ?r = "ucast (mac_execution_rounding_reserve_ticks_per_leg c) :: u128"
  let ?total = "(?n + ?d - 1) div ?d + ?r"
  note n = fee_numerator [OF assms(4), of "mac_taker_fee_rate_numerator c" "mal_quantity_lots leg"]
  note d = fee_denominator [OF assms(2)]
  have r: "unat ?r < 2 ^ 64" using unat_u64_less by simp
  have s: "unat (?n + ?d) = unat ?n + unat ?d" using n d by (subst unat_add_lem [THEN iffD1]) auto
  have "1 \<le> ?n + ?d" using s d by (simp add: word_le_nat_alt)
  then have m: "unat (?n + ?d - 1) = unat ?n + unat ?d - 1" by (simp add: unat_sub s)
  have q: "unat ((?n + ?d - 1) div ?d) = round_up_div (unat ?n) (unat ?d)" by (simp add: unat_div_distrib m round_up_div_def)
  have "round_up_div (unat ?n) (unat ?d) * unat ?d < unat ?n + unat ?d" using round_up_div_least d by blast
  have "round_up_div (unat ?n) (unat ?d) \<le> unat ?n + unat ?d - 1" unfolding round_up_div_def by (rule div_le_dividend)
  then have "unat ?total = round_up_div (unat ?n) (unat ?d) + unat ?r"
    using n d r by (subst unat_add_lem [THEN iffD1]) (simp_all only: q, auto)
  then have t: "unat ?total = f" using n d by (simp add: f_def exact_fee_def)
  have o: "?total > ucast (- 1 :: u64) \<longleftrightarrow> 2 ^ 64 \<le> f"
    by (simp only: word_less_nat_alt t unat_ucast_u64) (simp add: unat_max_word less_eq_Suc_le)
  have np: "(kPriceTicksPerDollar \<le> mal_limit_price_ticks leg) = False" using assms(4) by simp
  show "fc_overflow (calculate_fee c leg) \<longleftrightarrow> 2 ^ 64 \<le> f"
    using assms(1-4) o by (simp add: calculate_fee_def Let_def not_le)
  show "unat (fc_total_fee_ticks (calculate_fee c leg)) = f" if "f < 2 ^ 64"
    using assms(1-3) o that t by (simp add: calculate_fee_def Let_def np unat_ucast_mod)
qed

section \<open>Gross edge\<close>

lemma gross_edge_exact:
  assumes "q \<le> kMaximumSafeGrossQuantityLots" "h < kPriceTicksPerDollar"
  shows "unat (calculate_gross_edge_ticks e h q) = (unat h - unat e) * unat q div 100"
proof (cases "h \<le> e")
  case True
  then show ?thesis by (simp add: calculate_gross_edge_ticks_def word_le_nat_alt)
next
  case False
  then have sub: "unat (h - e) = unat h - unat e" by (simp add: unat_sub)
  have h: "unat h \<le> 9999" using assms(2) by (simp add: kPriceTicksPerDollar_def word_less_nat_alt)
  have "unat q \<le> 1844858893260281" using assms(1)
    by (simp add: kMaximumSafeGrossQuantityLots_def kPriceTicksPerDollar_def word_le_nat_alt unat_div_distrib unat_max_word)
  then have "(unat h - unat e) * unat q \<le> 9999 * 1844858893260281" using h by (intro mult_le_mono) simp_all
  then have "unat ((h - e) * q) = (unat h - unat e) * unat q"
    by (subst unat_mult_lem [THEN iffD1]) (simp_all add: sub)
  then show ?thesis using False
    by (simp add: calculate_gross_edge_ticks_def unat_div_distrib kQuantityLotsPerContract_def)
qed

section \<open>Candidate limits\<close>

definition offered :: "strategy_book_level list \<Rightarrow> nat" where
  "offered levels = sum_list (map (unat \<circ> sbl_quantity_lots) levels)"

lemma offered_simps [simp]: "offered [] = 0" "offered (xs @ ys) = offered xs + offered ys" "offered [l] = unat (sbl_quantity_lots l)"
  by (simp_all add: offered_def)

lemma unat_add_up_to_required:
  assumes "unat current = min (unat required) n"
  shows "unat (add_up_to_required current additional required) = min (unat required) (n + unat additional)"
proof (cases "required \<le> current")
  case True
  then show ?thesis using assms by (auto simp: add_up_to_required_def word_le_nat_alt)
next
  case False
  then have "unat (required - current) = unat required - unat current" by (simp add: unat_sub)
  moreover have "unat (current + additional) = unat current + unat additional" if "unat current + unat additional < unat required"
    using that unat_u64_less [of required] by (subst unat_add_lem [THEN iffD1]) simp_all
  ultimately show ?thesis using False assms
    by (auto simp: add_up_to_required_def Let_def word_le_nat_alt not_le)
qed

text \<open>A selection is a level of the book within the reach of the side, with the quantity offered up to it.\<close>

definition selection_ok :: "monotonic_arb_config \<Rightarrow> scan_side \<Rightarrow> price_ticks \<Rightarrow> strategy_book_level list \<Rightarrow> leg_selection \<Rightarrow> bool" where
  "selection_ok c sd best levels sel \<longleftrightarrow>
     (\<exists>i<length levels. ls_chosen_limit_ticks sel = sbl_price_ticks (levels ! i) \<and> \<not> bad_level (levels ! i)
        \<and> i < unat (sd_maximum_book_levels sd) \<and> sd_away sd best (sbl_price_ticks (levels ! i)) \<le> sd_maximum_aggression_ticks sd
        \<and> ls_scanned_levels sel = of_nat (i + 1)
        \<and> (sd_require_full_depth sd \<longrightarrow> unat (mac_order_quantity_lots c) \<le> offered (take (Suc i) levels)))"

lemma selection_ok_append: "selection_ok c sd best xs sel \<Longrightarrow> selection_ok c sd best (xs @ ys) sel"
  unfolding selection_ok_def by (fastforce simp: nth_append)

definition scan_ok :: "monotonic_arb_config \<Rightarrow> scan_side \<Rightarrow> price_ticks \<Rightarrow> strategy_book_level list \<Rightarrow> leg_scan \<Rightarrow> bool" where
  "scan_ok c sd best seen sc \<longleftrightarrow>
     (sc_candidate_scan_active sc \<and> length seen \<le> unat (sd_maximum_book_levels sd)
        \<longrightarrow> unat (sc_candidate_quantity sc) = min (unat (mac_order_quantity_lots c)) (offered seen))
   \<and> list_all (selection_ok c sd best seen) (sc_selections sc)"

lemma scan_window_ok [simp]: "scan_ok c sd best seen (scan_window c sd b l sc) = scan_ok c sd best seen sc"
  by (simp add: scan_ok_def scan_window_def)

lemma scan_candidate_ok:
  assumes "scan_ok c sd best seen sc" "\<not> bad_level level"
  shows "scan_ok c sd best (seen @ [level]) (scan_candidate c sd best (length seen) gap level sc)"
proof (cases "length seen < unat (sd_maximum_book_levels sd) \<and> sc_candidate_scan_active sc")
  case True
  let ?q = "add_up_to_required (sc_candidate_quantity sc) (sbl_quantity_lots level) (mac_order_quantity_lots c)"
  have q: "unat ?q = min (unat (mac_order_quantity_lots c)) (offered (seen @ [level]))"
    using assms(1) True by (simp add: scan_ok_def unat_add_up_to_required)
  have sels: "list_all (selection_ok c sd best (seen @ [level])) (sc_selections sc)"
    using assms(1) by (auto simp: scan_ok_def list_all_iff intro: selection_ok_append)
  have "selection_ok c sd best (seen @ [level]) sel"
    if "ls_chosen_limit_ticks sel = sbl_price_ticks level" "ls_scanned_levels sel = of_nat (length seen + 1)"
      "\<not> sd_require_full_depth sd \<or> mac_order_quantity_lots c \<le> ?q"
      "\<not> sd_maximum_aggression_ticks sd < sd_away sd best (sbl_price_ticks level)" for sel
    unfolding selection_ok_def using that True assms(2) q
    by (intro exI [of _ "length seen"]) (auto simp: word_le_nat_alt not_less)
  then show ?thesis using True sels q
    by (auto simp: scan_candidate_def Let_def scan_ok_def split: if_splits)
next
  case False
  then show ?thesis using assms(1)
    by (auto simp: scan_candidate_def scan_ok_def list_all_iff intro: selection_ok_append)
qed

lemma scan_levels_ok:
  assumes "scan_levels c sd best (length seen) levels sc = Some sc'" "scan_ok c sd best seen sc"
  shows "scan_ok c sd best (seen @ levels) sc'"
  using assms
proof (induction levels arbitrary: seen sc)
  case (Cons level levels)
  define gap where "gap = (if length seen > 0 then sd_away sd (sc_previous_price sc) (sbl_price_ticks level) else 0)"
  define sc1 where "sc1 = (if length seen = 1 then sc\<lparr>sc_observed_second_level := True,
    sc_top_gap_valid := (gap \<le> mac_maximum_top_gap_ticks c)\<rparr> else sc)"
  have 1: "\<not> bad_level level" "sc_selections sc1 = sc_selections sc" "sc_candidate_quantity sc1 = sc_candidate_quantity sc"
       "sc_candidate_scan_active sc1 = sc_candidate_scan_active sc"
       "scan_levels c sd best (Suc (length seen)) levels
          ((scan_candidate c sd best (length seen) gap level (scan_window c sd best level sc1))\<lparr>sc_previous_price := sbl_price_ticks level\<rparr>) = Some sc'"
    using Cons.prems(1) unfolding gap_def sc1_def by (auto simp: Let_def split: if_splits)
  have "scan_ok c sd best seen (scan_window c sd best level sc1)" unfolding scan_window_ok using Cons.prems(2) 1(2-4) by (simp add: scan_ok_def)
  from scan_candidate_ok [OF this 1(1)]
  have "scan_ok c sd best (seen @ [level])
      ((scan_candidate c sd best (length seen) gap level (scan_window c sd best level sc1))\<lparr>sc_previous_price := sbl_price_ticks level\<rparr>)"
    by (simp add: scan_ok_def)
  then show ?case using Cons.IH [of "seen @ [level]"] 1(5) by simp
qed simp

lemma collect_candidates_ok:
  assumes "collect_candidates c sd levels count = Inr sels"
  shows "sels \<noteq> [] \<and> 0 < unat count \<and> unat count \<le> kStrategyBookDepth \<and> list_all (selection_ok c sd (sbl_price_ticks (levels ! 0)) (take (unat count) levels)) sels"
proof -
  from assms obtain sc where sc: "scan_levels c sd (sbl_price_ticks (levels ! 0)) 0 (take (unat count) levels) (scan_start (sbl_price_ticks (levels ! 0))) = Some sc"
      "scan_result c sc = Inr sels" "count \<noteq> 0" "unat count \<le> kStrategyBookDepth"
    by (auto simp: collect_candidates_def Let_def split: if_splits option.splits)
  have "scan_ok c sd (sbl_price_ticks (levels ! 0)) [] (scan_start (sbl_price_ticks (levels ! 0)))"
    by (simp add: scan_ok_def scan_start_def)
  from scan_levels_ok [of c sd _ "[]", OF _ this] sc show ?thesis
    by (auto simp: scan_result_def scan_ok_def unat_gt_0 split: if_splits)
qed

section \<open>The choice of a pair\<close>

definition leg_fee :: "monotonic_arb_config \<Rightarrow> leg_selection \<Rightarrow> nat" where
  "leg_fee c sel = exact_fee c (unat (ls_chosen_limit_ticks sel)) (unat (mac_order_quantity_lots c))"

definition pair_gross :: "monotonic_arb_config \<Rightarrow> leg_selection \<times> leg_selection \<Rightarrow> nat" where
  "pair_gross c p = (unat (ls_chosen_limit_ticks (snd p)) - unat (ls_chosen_limit_ticks (fst p))) * unat (mac_order_quantity_lots c) div 100"

definition pair_fees :: "monotonic_arb_config \<Rightarrow> leg_selection \<times> leg_selection \<Rightarrow> nat" where
  "pair_fees c p = leg_fee c (fst p) + leg_fee c (snd p)"

definition pair_net :: "monotonic_arb_config \<Rightarrow> leg_selection \<times> leg_selection \<Rightarrow> nat" where
  "pair_net c p = pair_gross c p - pair_fees c p"

definition pair_depth :: "leg_selection \<times> leg_selection \<Rightarrow> nat" where
  "pair_depth p = unat (ls_scanned_levels (fst p)) + unat (ls_scanned_levels (snd p))"

definition required_net :: "monotonic_arb_config \<Rightarrow> nat" where
  "required_net c = unat (mac_minimum_net_edge_ticks c) + unat (mac_edge_cushion_ticks c)"

definition feasible :: "monotonic_arb_config \<Rightarrow> leg_selection \<times> leg_selection \<Rightarrow> bool" where
  "feasible c p \<longleftrightarrow> pair_fees c p < pair_gross c p \<and> required_net c \<le> pair_net c p"

text \<open>The order of preference: deeper into the books first, then the larger net edge.\<close>

definition preferred :: "monotonic_arb_config \<Rightarrow> leg_selection \<times> leg_selection \<Rightarrow> leg_selection \<times> leg_selection \<Rightarrow> bool" where
  "preferred c p p' \<longleftrightarrow> pair_depth p' < pair_depth p \<or> pair_depth p' = pair_depth p \<and> pair_net c p' \<le> pair_net c p"

definition limit_ok :: "leg_selection \<Rightarrow> bool" where
  "limit_ok sel \<longleftrightarrow> ls_chosen_limit_ticks sel \<noteq> 0 \<and> ls_chosen_limit_ticks sel < kPriceTicksPerDollar"

lemma sum_fits_u64: "(a :: u64) \<le> - 1 - b \<longleftrightarrow> unat a + unat b < 2 ^ 64"
proof -
  have "b \<le> - 1" by simp
  then have "unat (- 1 - b) = 2 ^ 64 - 1 - unat b" by (subst unat_sub) (simp_all add: unat_max_word)
  then show ?thesis using unat_u64_less [of b] by (simp only: word_le_nat_alt) auto
qed

lemma valid_config_facts:
  assumes "valid_monotonic_arb_config c"
  shows "mac_order_quantity_lots c \<noteq> 0" "mac_order_quantity_lots c \<le> kMaximumSafeGrossQuantityLots"
    "mac_taker_fee_rate_denominator c \<noteq> 0" "unat (mac_minimum_net_edge_ticks c + mac_edge_cushion_ticks c) = required_net c"
proof -
  show "mac_order_quantity_lots c \<noteq> 0" "mac_order_quantity_lots c \<le> kMaximumSafeGrossQuantityLots"
    "mac_taker_fee_rate_denominator c \<noteq> 0"
    using assms by (auto simp: valid_monotonic_arb_config_def split: if_splits)
  have "mac_minimum_net_edge_ticks c \<le> - 1 - mac_edge_cushion_ticks c"
    using assms by (auto simp: valid_monotonic_arb_config_def split: if_splits)
  then have "unat (mac_minimum_net_edge_ticks c) + unat (mac_edge_cushion_ticks c) < 2 ^ 64" by (simp only: sum_fits_u64)
  then show "unat (mac_minimum_net_edge_ticks c + mac_edge_cushion_ticks c) = required_net c"
    unfolding required_net_def by (subst unat_add_lem [THEN iffD1]) simp_all
qed

lemma unat_depth_score: "unat (depth_score e h) = pair_depth (e, h)"
proof -
  have u: "unat (ucast (w :: u8) :: u16) = unat w" for w
    using unsigned_less [of w, where ?'a = nat] by (simp add: unat_ucast_mod)
  show ?thesis
    using unsigned_less [of "ls_scanned_levels e", where ?'a = nat] unsigned_less [of "ls_scanned_levels h", where ?'a = nat]
    by (simp add: depth_score_def pair_depth_def) (subst unat_add_lem [THEN iffD1], simp_all add: u)
qed

lemma leg_fee_calc:
  assumes "valid_monotonic_arb_config c" "limit_ok sel"
  shows "fc_overflow (calculate_fee c (arb_leg c mid a sel)) \<longleftrightarrow> 2 ^ 64 \<le> leg_fee c sel"
    and "leg_fee c sel < 2 ^ 64 \<Longrightarrow> unat (fc_total_fee_ticks (calculate_fee c (arb_leg c mid a sel))) = leg_fee c sel"
  using calculate_fee_exact [of "arb_leg c mid a sel" c] valid_config_facts [OF assms(1)] assms(2)
  by (simp_all add: arb_leg_def limit_ok_def leg_fee_def)

text \<open>What the double loop knows after the pairs in \<open>seen\<close>.\<close>

definition best_of :: "monotonic_arb_config \<Rightarrow> (leg_selection \<times> leg_selection) set \<Rightarrow> pair_scan \<Rightarrow> bool" where
  "best_of c seen r \<longleftrightarrow>
     (pr_saw_gross_edge r \<longleftrightarrow> (\<exists>p\<in>seen. 0 < pair_gross c p))
   \<and> (pr_saw_fee_surviving_edge r \<longleftrightarrow> (\<exists>p\<in>seen. pair_fees c p < pair_gross c p))
   \<and> (case pr_selection r of
        None \<Rightarrow> \<forall>p\<in>seen. \<not> feasible c p
      | Some s \<Rightarrow> let p = (ps_easier s, ps_harder s) in
          p \<in> seen \<and> feasible c p \<and> unat (ps_gross_edge_ticks s) = pair_gross c p
        \<and> unat (ps_estimated_fee_ticks s) = pair_fees c p \<and> unat (ps_net_edge_ticks s) = pair_net c p
        \<and> unat (pr_best_depth_score r) = pair_depth p \<and> (\<forall>p'\<in>seen. feasible c p' \<longrightarrow> preferred c p p'))"

lemma pair_gross_bound:
  assumes "valid_monotonic_arb_config c" "limit_ok h"
  shows "pair_gross c (e, h) < 2 ^ 64"
  using gross_edge_exact [OF valid_config_facts(2) [OF assms(1)], of "ls_chosen_limit_ticks h" "ls_chosen_limit_ticks e"]
    assms(2) unat_u64_less by (simp add: limit_ok_def pair_gross_def) metis

lemma pair_depth_bound: "pair_depth p < 2 ^ 16"
  using unat_depth_score [of "fst p" "snd p"] unsigned_less [of "depth_score (fst p) (snd p)", where ?'a = nat] by simp

text \<open>The step of the inner loop, with the words read as numbers.\<close>

lemma pair_step_cases:
  assumes "valid_monotonic_arb_config c" "limit_ok e" "limit_ok h" "unat fee = leg_fee c e"
  defines "p \<equiv> (e, h)"
  shows "pair_step c e fee h r =
    (if pair_gross c p = 0 then Inr r
     else if 2 ^ 64 \<le> pair_fees c p then Inl MAR_kARITHMETIC_OVERFLOW
     else let r1 = r\<lparr>pr_saw_gross_edge := True\<rparr>; r2 = r1\<lparr>pr_saw_fee_surviving_edge := True\<rparr> in
     if pair_gross c p \<le> pair_fees c p then Inr r1
     else if \<not> feasible c p then Inr r2
     else if (case pr_selection r of None \<Rightarrow> True
        | Some s \<Rightarrow> unat (pr_best_depth_score r) < pair_depth p
            \<or> unat (pr_best_depth_score r) = pair_depth p \<and> unat (ps_net_edge_ticks s) < pair_net c p)
     then Inr (r2\<lparr>pr_selection := Some \<lparr>ps_easier = e, ps_harder = h,
            ps_gross_edge_ticks = of_nat (pair_gross c p), ps_estimated_fee_ticks = of_nat (pair_fees c p),
            ps_net_edge_ticks = of_nat (pair_net c p)\<rparr>, pr_best_depth_score := of_nat (pair_depth p)\<rparr>)
     else Inr r2)"
proof -
  let ?g = "calculate_gross_edge_ticks (ls_chosen_limit_ticks e) (ls_chosen_limit_ticks h) (mac_order_quantity_lots c)"
  let ?hf = "calculate_fee c (arb_leg c 0 AA_kSELL_YES h)"
  note v = valid_config_facts [OF assms(1)]
  have g: "unat ?g = pair_gross c p"
    using gross_edge_exact [OF v(2)] assms(3) by (simp add: pair_gross_def p_def limit_ok_def)
  then have g0: "?g = 0 \<longleftrightarrow> pair_gross c p = 0" by (simp add: unat_eq_0 [symmetric])
  have gw: "?g = of_nat (pair_gross c p)" by (simp flip: g)
  have o: "(fc_overflow ?hf \<or> fee > - 1 - fc_total_fee_ticks ?hf) \<longleftrightarrow> 2 ^ 64 \<le> pair_fees c p"
    using leg_fee_calc [OF assms(1,3), of 0 AA_kSELL_YES]
    by (auto simp: not_le [symmetric] sum_fits_u64 assms(4) pair_fees_def p_def)
  show ?thesis
  proof (cases "2 ^ 64 \<le> pair_fees c p")
    case True
    then show ?thesis using o by (auto simp: pair_step_def Let_def g0)
  next
    case False
    then have hf: "unat (fc_total_fee_ticks ?hf) = leg_fee c h" "\<not> fc_overflow ?hf" "\<not> fee > - 1 - fc_total_fee_ticks ?hf"
      using leg_fee_calc [OF assms(1,3), of 0 AA_kSELL_YES] o by (auto simp: pair_fees_def p_def)
    have tf: "unat (fee + fc_total_fee_ticks ?hf) = pair_fees c p"
      using False by (subst unat_add_lem [THEN iffD1]) (simp_all add: assms(4) hf pair_fees_def p_def)
    have tfw: "fee + fc_total_fee_ticks ?hf = of_nat (pair_fees c p)" by (simp flip: tf)
    have le: "?g \<le> fee + fc_total_fee_ticks ?hf \<longleftrightarrow> pair_gross c p \<le> pair_fees c p" by (simp only: word_le_nat_alt g tf)
    have net: "unat (?g - (fee + fc_total_fee_ticks ?hf)) = pair_net c p" if "\<not> pair_gross c p \<le> pair_fees c p"
    proof -
      have "fee + fc_total_fee_ticks ?hf \<le> ?g" using that le by simp
      then show ?thesis by (simp add: unat_sub g tf pair_net_def)
    qed
    have netw: "?g - (fee + fc_total_fee_ticks ?hf) = of_nat (pair_net c p)" if "\<not> pair_gross c p \<le> pair_fees c p"
      using net [OF that] by (metis word_of_nat_unat)
    have lt: "?g - (fee + fc_total_fee_ticks ?hf) < mac_minimum_net_edge_ticks c + mac_edge_cushion_ticks c \<longleftrightarrow> \<not> feasible c p"
      if "\<not> pair_gross c p \<le> pair_fees c p"
      using that net [OF that] by (simp only: word_less_nat_alt v(4) feasible_def) auto
    have d: "depth_score e h = of_nat (pair_depth p)" by (metis unat_depth_score word_of_nat_unat p_def)
    have du: "(x < depth_score e h) = (unat x < pair_depth p)" "(depth_score e h = x) = (unat x = pair_depth p)" for x
      using unat_depth_score [of e h] by (auto simp: word_less_nat_alt word_unat_eq_iff p_def)
    have nu: "(x < ?g - (fee + fc_total_fee_ticks ?hf)) = (unat x < pair_net c p)" if "\<not> pair_gross c p \<le> pair_fees c p" for x
      using net [OF that] by (simp only: word_less_nat_alt)
    show ?thesis
    proof (cases "pair_gross c p \<le> pair_fees c p")
      case True
      then show ?thesis using False hf by (simp add: pair_step_def Let_def g0 le)
    next
      case g': False
      then show ?thesis using False hf lt [OF g'] nu [OF g'] du
        unfolding pair_step_def Let_def g0 le
        by (auto simp add: gw [symmetric] tfw [symmetric] netw [OF g', symmetric] d [symmetric] le split: option.split)
    qed
  qed
qed

lemma pair_step_best:
  assumes "valid_monotonic_arb_config c" "limit_ok e" "limit_ok h" "unat fee = leg_fee c e" "best_of c seen r"
    "pair_step c e fee h r = Inr r'"
  shows "best_of c (insert (e, h) seen) r'"
proof -
  let ?p = "(e, h)"
  note step = assms(6) [unfolded pair_step_cases [OF assms(1-4)]]
  show ?thesis
  proof (cases "feasible c ?p")
    case False
    with step have "pr_selection r' = pr_selection r" "pr_best_depth_score r' = pr_best_depth_score r"
      "pr_saw_gross_edge r' = (pr_saw_gross_edge r \<or> 0 < pair_gross c ?p)"
      "pr_saw_fee_surviving_edge r' = (pr_saw_fee_surviving_edge r \<or> pair_fees c ?p < pair_gross c ?p)"
      by (auto simp: Let_def split: if_splits)
    then show ?thesis using assms(5) False by (auto simp: best_of_def Let_def split: option.splits)
  next
    case True
    then have gr: "pair_fees c ?p < pair_gross c ?p" by (simp add: feasible_def)
    have small: "pair_gross c ?p < 2 ^ 64" using pair_gross_bound [OF assms(1,3)] .
    then have u: "unat (of_nat (pair_gross c ?p) :: u64) = pair_gross c ?p" "unat (of_nat (pair_fees c ?p) :: u64) = pair_fees c ?p"
      "unat (of_nat (pair_net c ?p) :: u64) = pair_net c ?p" "unat (of_nat (pair_depth ?p) :: u16) = pair_depth ?p"
      using gr pair_depth_bound [of ?p] pair_net_def [of c ?p] by (simp_all only: unat_of_nat) (simp_all add: mod_less)
    define better where "better \<longleftrightarrow> (case pr_selection r of None \<Rightarrow> True
        | Some s \<Rightarrow> unat (pr_best_depth_score r) < pair_depth ?p
            \<or> unat (pr_best_depth_score r) = pair_depth ?p \<and> unat (ps_net_edge_ticks s) < pair_net c ?p)"
    have flags: "pr_saw_gross_edge r'" "pr_saw_fee_surviving_edge r'"
      and sel: "better \<Longrightarrow> pr_selection r' = Some \<lparr>ps_easier = e, ps_harder = h,
            ps_gross_edge_ticks = of_nat (pair_gross c ?p), ps_estimated_fee_ticks = of_nat (pair_fees c ?p),
            ps_net_edge_ticks = of_nat (pair_net c ?p)\<rparr> \<and> pr_best_depth_score r' = of_nat (pair_depth ?p)"
        "\<not> better \<Longrightarrow> pr_selection r' = pr_selection r \<and> pr_best_depth_score r' = pr_best_depth_score r"
      using step True gr small unfolding better_def by (auto simp: Let_def split: if_splits)
    have "0 < pair_gross c ?p" using gr by simp
    moreover have "case pr_selection r' of None \<Rightarrow> \<forall>p\<in>insert ?p seen. \<not> feasible c p
      | Some s \<Rightarrow> let p = (ps_easier s, ps_harder s) in
          p \<in> insert ?p seen \<and> feasible c p \<and> unat (ps_gross_edge_ticks s) = pair_gross c p
        \<and> unat (ps_estimated_fee_ticks s) = pair_fees c p \<and> unat (ps_net_edge_ticks s) = pair_net c p
        \<and> unat (pr_best_depth_score r') = pair_depth p \<and> (\<forall>p'\<in>insert ?p seen. feasible c p' \<longrightarrow> preferred c p p')"
    proof (cases better)
      case B: True
      then have "\<forall>p'\<in>seen. feasible c p' \<longrightarrow> preferred c ?p p'"
        using assms(5) by (fastforce simp: better_def best_of_def preferred_def Let_def split: option.splits)
      then show ?thesis using sel(1) [OF B] True u by (simp add: preferred_def Let_def)
    next
      case B: False
      then obtain s where s: "pr_selection r = Some s" by (auto simp: better_def split: option.splits)
      then show ?thesis using sel(2) [OF B] assms(5) B
        by (auto simp: better_def best_of_def preferred_def Let_def)
    qed
    ultimately show ?thesis unfolding best_of_def using flags gr by auto
  qed
qed

lemma pair_step_overflow:
  assumes "valid_monotonic_arb_config c" "limit_ok e" "limit_ok h" "unat fee = leg_fee c e" "pair_step c e fee h r = Inl reason"
  shows "reason = MAR_kARITHMETIC_OVERFLOW \<and> 2 ^ 64 \<le> pair_fees c (e, h)"
  using assms(5) unfolding pair_step_cases [OF assms(1-4)] by (auto simp: Let_def split: if_splits)

lemma pair_inner_best:
  assumes "valid_monotonic_arb_config c" "limit_ok e" "list_all limit_ok hs" "unat fee = leg_fee c e" "best_of c seen r"
  shows "case pair_inner c e fee hs r of
      Inr r' \<Rightarrow> best_of c (seen \<union> {e} \<times> set hs) r'
    | Inl reason \<Rightarrow> reason = MAR_kARITHMETIC_OVERFLOW \<and> (\<exists>h\<in>set hs. 2 ^ 64 \<le> pair_fees c (e, h))"
  using assms(3,5)
proof (induction hs arbitrary: seen r)
  case (Cons h hs)
  show ?case
  proof (cases "pair_step c e fee h r")
    case (Inl reason)
    then show ?thesis using pair_step_overflow [OF assms(1,2) _ assms(4) Inl] Cons.prems(1) by auto
  next
    case (Inr r1)
    have "best_of c (insert (e, h) seen) r1"
      using pair_step_best [OF assms(1,2) _ assms(4) Cons.prems(2) Inr] Cons.prems(1) by simp
    moreover have "insert (e, h) seen \<union> {e} \<times> set hs = seen \<union> {e} \<times> set (h # hs)" by auto
    ultimately show ?thesis using Cons.IH [of "insert (e, h) seen" r1] Cons.prems(1) Inr by (auto split: sum.splits)
  qed
qed simp

lemma pair_outer_best:
  assumes "valid_monotonic_arb_config c" "list_all limit_ok es" "list_all limit_ok hs" "best_of c seen r"
  shows "case pair_outer c hs es r of
      Inr r' \<Rightarrow> best_of c (seen \<union> set es \<times> set hs) r'
    | Inl reason \<Rightarrow> reason = MAR_kARITHMETIC_OVERFLOW \<and> (\<exists>e\<in>set es. 2 ^ 64 \<le> leg_fee c e \<or> (\<exists>h\<in>set hs. 2 ^ 64 \<le> pair_fees c (e, h)))"
  using assms(2,4)
proof (induction es arbitrary: seen r)
  case (Cons e es)
  note fee = leg_fee_calc [OF assms(1), of e 0 AA_kBUY_YES]
  show ?case
  proof (cases "fc_overflow (calculate_fee c (arb_leg c 0 AA_kBUY_YES e))")
    case True
    then show ?thesis using fee Cons.prems(1) by auto
  next
    case False
    then have f: "unat (fc_total_fee_ticks (calculate_fee c (arb_leg c 0 AA_kBUY_YES e))) = leg_fee c e"
      using fee Cons.prems(1) by simp
    note inner = pair_inner_best [OF assms(1) _ assms(3) f Cons.prems(2)]
    have "seen \<union> {e} \<times> set hs \<union> set es \<times> set hs = seen \<union> set (e # es) \<times> set hs" by auto
    then show ?thesis
      using inner Cons.IH [of "seen \<union> {e} \<times> set hs"] Cons.prems(1) False by (fastforce simp: Let_def split: sum.splits)
  qed
qed simp

lemma select_paired_limits_outcome:
  assumes "valid_monotonic_arb_config c" "list_all limit_ok es" "list_all limit_ok hs"
  shows "case select_paired_limits es hs c of
      Inr s \<Rightarrow> \<exists>r. best_of c (set es \<times> set hs) r \<and> pr_selection r = Some s
    | Inl reason \<Rightarrow>
        reason = MAR_kARITHMETIC_OVERFLOW \<and> (\<exists>e\<in>set es. 2 ^ 64 \<le> leg_fee c e \<or> (\<exists>h\<in>set hs. 2 ^ 64 \<le> pair_fees c (e, h)))
        \<or> (\<exists>r. best_of c (set es \<times> set hs) r \<and> pr_selection r = None \<and>
             reason = (if \<not> pr_saw_gross_edge r then MAR_kNO_GROSS_EDGE
                       else if \<not> pr_saw_fee_surviving_edge r then MAR_kFEES_ERASE_EDGE
                       else MAR_kINSUFFICIENT_NET_EDGE))"
proof -
  let ?r = "\<lparr>pr_selection = None, pr_saw_gross_edge = False, pr_saw_fee_surviving_edge = False, pr_best_depth_score = 0\<rparr>"
  have "best_of c {} ?r" by (simp add: best_of_def)
  from pair_outer_best [OF assms this] show ?thesis
    by (auto simp: select_paired_limits_def split: sum.splits option.splits)
qed

text \<open>C20. The selected pair is the best of all feasible pairs of candidates (those whose edge exceeds the fees and
  leaves the required net edge): it goes as deep into the two books as any, and among the equally deep
  ones its net edge is the largest; its gross edge, fees and net edge are exact.\<close>

theorem selected_pair_is_best:
  assumes "valid_monotonic_arb_config c" "list_all limit_ok es" "list_all limit_ok hs" "select_paired_limits es hs c = Inr s"
    "p = (ps_easier s, ps_harder s)"
  shows "p \<in> set es \<times> set hs \<and> feasible c p \<and> unat (ps_gross_edge_ticks s) = pair_gross c p
    \<and> unat (ps_estimated_fee_ticks s) = pair_fees c p \<and> unat (ps_net_edge_ticks s) = pair_net c p
    \<and> (\<forall>p'\<in>set es \<times> set hs. feasible c p' \<longrightarrow> preferred c p p')"
  using select_paired_limits_outcome [OF assms(1-3)] unfolding assms(4,5)
  by (auto simp: best_of_def Let_def)

text \<open>C21. When no pair is selected the reason says why: either a fee does not fit 64 bits, or no pair is feasible,
  and then the reason tells whether there was no gross edge at all, no edge left after fees, or too little.\<close>

theorem pair_rejection_reason:
  assumes "valid_monotonic_arb_config c" "list_all limit_ok es" "list_all limit_ok hs" "select_paired_limits es hs c = Inl reason"
  shows "if reason = MAR_kARITHMETIC_OVERFLOW
    then \<exists>e\<in>set es. 2 ^ 64 \<le> leg_fee c e \<or> (\<exists>h\<in>set hs. 2 ^ 64 \<le> pair_fees c (e, h))
    else (\<forall>p\<in>set es \<times> set hs. \<not> feasible c p)
      \<and> reason = (if \<forall>p\<in>set es \<times> set hs. pair_gross c p = 0 then MAR_kNO_GROSS_EDGE
          else if \<forall>p\<in>set es \<times> set hs. pair_gross c p \<le> pair_fees c p then MAR_kFEES_ERASE_EDGE
          else MAR_kINSUFFICIENT_NET_EDGE)"
  using select_paired_limits_outcome [OF assms(1-3)] unfolding assms(4)
  by (auto simp: best_of_def not_le) (metis leD)

section \<open>The evaluation\<close>

lemma selection_limit_ok: "selection_ok c sd best levels sel \<Longrightarrow> limit_ok sel"
  by (auto simp: selection_ok_def limit_ok_def bad_level_def not_le)

lemma evaluate_accepted:
  assumes "valid_monotonic_arb_config c" "evaluate_monotonic_arb c obs now = Inr cand"
  obtains es hs s where "collect_easier_candidates (mpo_easier obs) c = Inr es" "collect_harder_candidates (mpo_harder obs) c = Inr hs"
    "select_paired_limits es hs c = Inr s" "cand = make_candidate c obs s" "valid_pair_header obs"
    "smv_tradeable (mpo_easier obs)" "smv_tradeable (mpo_harder obs)"
    "\<not> market_closed (mpo_easier obs) now" "\<not> market_closed (mpo_harder obs) now"
    "list_all limit_ok es" "list_all limit_ok hs"
proof -
  from assms(2) obtain es hs s where 1: "collect_easier_candidates (mpo_easier obs) c = Inr es" "collect_harder_candidates (mpo_harder obs) c = Inr hs"
    "select_paired_limits es hs c = Inr s" "cand = make_candidate c obs s" "valid_pair_header obs"
    "smv_tradeable (mpo_easier obs)" "smv_tradeable (mpo_harder obs)"
    "\<not> market_closed (mpo_easier obs) now" "\<not> market_closed (mpo_harder obs) now"
    by (auto simp: evaluate_monotonic_arb_def Let_def split: if_splits sum.splits)
  have "list_all limit_ok es" "list_all limit_ok hs"
    using collect_candidates_ok 1(1,2) selection_limit_ok
    by (fastforce simp: collect_easier_candidates_def collect_harder_candidates_def list_all_iff)+
  with 1 show ?thesis by (rule that)
qed

lemma accepted_pair:
  assumes "valid_monotonic_arb_config c" "evaluate_monotonic_arb c obs now = Inr cand"
  defines "e \<equiv> unat (mal_limit_price_ticks (mca_easier_leg cand))" and "h \<equiv> unat (mal_limit_price_ticks (mca_harder_leg cand))"
    and "q \<equiv> unat (mac_order_quantity_lots c)"
  shows "0 < e" "e < h" "h < 10000" "unat (mca_gross_edge_ticks cand) = (h - e) * q div 100"
    "unat (mca_estimated_fee_ticks cand) = exact_fee c e q + exact_fee c h q"
    "unat (mca_net_edge_ticks cand) + unat (mca_estimated_fee_ticks cand) = unat (mca_gross_edge_ticks cand)"
    "0 < unat (mca_net_edge_ticks cand)" "required_net c \<le> unat (mca_net_edge_ticks cand)"
proof -
  from evaluate_accepted [OF assms(1,2)] obtain es hs s where 1: "select_paired_limits es hs c = Inr s"
    "cand = make_candidate c obs s" "list_all limit_ok es" "list_all limit_ok hs" by metis
  let ?p = "(ps_easier s, ps_harder s)"
  from select_paired_limits_outcome [OF assms(1) 1(3,4)] 1(1)
  have p: "?p \<in> set es \<times> set hs" "feasible c ?p" "unat (ps_gross_edge_ticks s) = pair_gross c ?p"
    "unat (ps_estimated_fee_ticks s) = pair_fees c ?p" "unat (ps_net_edge_ticks s) = pair_net c ?p"
    by (auto simp: best_of_def Let_def)
  have lim: "limit_ok (ps_easier s)" "limit_ok (ps_harder s)" using p(1) 1(3,4) by (auto simp: list_all_iff)
  have eh: "e = unat (ls_chosen_limit_ticks (ps_easier s))" "h = unat (ls_chosen_limit_ticks (ps_harder s))"
    by (simp_all add: e_def h_def 1(2) make_candidate_def arb_leg_def)
  have g: "pair_gross c ?p = (h - e) * q div 100" by (simp add: pair_gross_def eh q_def)
  have f: "pair_fees c ?p = exact_fee c e q + exact_fee c h q" by (simp add: pair_fees_def leg_fee_def eh q_def)
  have pos: "pair_fees c ?p < pair_gross c ?p" "required_net c \<le> pair_net c ?p" using p(2) by (simp_all add: feasible_def)
  show "0 < e" "h < 10000" using lim
    by (simp_all add: eh limit_ok_def word_less_nat_alt kPriceTicksPerDollar_def unat_gt_0)
  show "e < h" using pos(1) unfolding g by (cases "e < h") auto
  show "unat (mca_gross_edge_ticks cand) = (h - e) * q div 100" using p(3) by (simp add: 1(2) make_candidate_def g)
  show "unat (mca_estimated_fee_ticks cand) = exact_fee c e q + exact_fee c h q" using p(4) by (simp add: 1(2) make_candidate_def f)
  show "unat (mca_net_edge_ticks cand) + unat (mca_estimated_fee_ticks cand) = unat (mca_gross_edge_ticks cand)"
    "0 < unat (mca_net_edge_ticks cand)" "required_net c \<le> unat (mca_net_edge_ticks cand)"
    using p(3-5) pos by (simp_all add: 1(2) make_candidate_def pair_net_def)
qed

text \<open>Settlement pays a dollar per contract of the market that turns out yes. In tick-lots, the profit before fees
  of buying \<open>q\<close> lots of the easier market at \<open>buy\<close> and selling \<open>q\<close> lots of the harder market at \<open>sell\<close>.\<close>

definition settled_profit :: "int \<Rightarrow> int \<Rightarrow> int \<Rightarrow> bool \<Rightarrow> bool \<Rightarrow> int" where
  "settled_profit q buy sell easier_yes harder_yes =
     q * ((if easier_yes then 10000 else 0) - buy) + q * (sell - (if harder_yes then 10000 else 0))"

lemma settled_profit_bound:
  assumes "harder_yes \<longrightarrow> easier_yes" "0 \<le> q" "buy \<le> e" "h \<le> sell"
  shows "q * (h - e) \<le> settled_profit q buy sell easier_yes harder_yes"
proof -
  have "q * (h - e) \<le> q * (((if easier_yes then 10000 else 0) - buy) + (sell - (if harder_yes then 10000 else 0)))"
    using assms by (intro mult_left_mono) auto
  then show ?thesis by (simp add: settled_profit_def distrib_left)
qed

text \<open>C19. An accepted candidate is an arbitrage: filled within its limits, and in every settlement in which the
  harder market is yes only if the easier one is, the profit covers the estimated fees and the net edge,
  and the net edge is at least the configured minimum and cushion.\<close>

theorem arbitrage_profit_guaranteed:
  assumes "valid_monotonic_arb_config c" "evaluate_monotonic_arb c obs now = Inr cand"
    "harder_yes \<longrightarrow> easier_yes"
    "buy \<le> int (unat (mal_limit_price_ticks (mca_easier_leg cand)))" "int (unat (mal_limit_price_ticks (mca_harder_leg cand))) \<le> sell"
  shows "100 * (int (unat (mca_net_edge_ticks cand)) + int (unat (mca_estimated_fee_ticks cand)))
      \<le> settled_profit (int (unat (mac_order_quantity_lots c))) buy sell easier_yes harder_yes
    \<and> unat (mac_minimum_net_edge_ticks c) + unat (mac_edge_cushion_ticks c) \<le> unat (mca_net_edge_ticks cand)
    \<and> 0 < unat (mca_net_edge_ticks cand)"
proof -
  let ?e = "unat (mal_limit_price_ticks (mca_easier_leg cand))" and ?h = "unat (mal_limit_price_ticks (mca_harder_leg cand))"
    and ?q = "unat (mac_order_quantity_lots c)"
  note p = accepted_pair [OF assms(1,2)]
  have "100 * ((?h - ?e) * ?q div 100) \<le> (?h - ?e) * ?q" by (rule times_div_less_eq_dividend)
  then have "100 * unat (mca_gross_edge_ticks cand) \<le> (?h - ?e) * ?q" by (simp add: p(4))
  then have "100 * int (unat (mca_gross_edge_ticks cand)) \<le> int ((?h - ?e) * ?q)" by linarith
  also have "\<dots> = int ?q * (int ?h - int ?e)" using p(2) by (simp add: of_nat_diff mult.commute)
  also have "\<dots> \<le> settled_profit (int ?q) buy sell easier_yes harder_yes"
    using assms(3-5) by (intro settled_profit_bound) simp_all
  finally show ?thesis using p(7,8) unfolding p(6) [symmetric] of_nat_add required_net_def by (intro conjI)
qed

text \<open>C22. The limits of an accepted candidate are prices of the two books within the configured reach: the easier leg
  buys at an ask and the harder leg sells at a bid, of two tradeable, open, neighbouring markets with increasing
  strikes, and where full depth is required the book offers the whole quantity at or better than the limit.
  Gross edge and fees are exact.\<close>

theorem accepted_candidate_executable:
  assumes "valid_monotonic_arb_config c" "evaluate_monotonic_arb c obs now = Inr cand"
    "e = mal_limit_price_ticks (mca_easier_leg cand)" "h = mal_limit_price_ticks (mca_harder_leg cand)"
    "q = mac_order_quantity_lots c" "asks = take (unat (smv_ask_count (mpo_easier obs))) (smv_asks (mpo_easier obs))"
    "bids = take (unat (smv_bid_count (mpo_harder obs))) (smv_bids (mpo_harder obs))"
  shows "e < h \<and> smv_strike_key (mpo_easier obs) < smv_strike_key (mpo_harder obs)
    \<and> smv_tradeable (mpo_easier obs) \<and> smv_tradeable (mpo_harder obs)
    \<and> \<not> market_closed (mpo_easier obs) now \<and> \<not> market_closed (mpo_harder obs) now
    \<and> (\<exists>i<length asks. e = sbl_price_ticks (asks ! i) \<and> e - sbl_price_ticks (asks ! 0) \<le> mac_maximum_easier_aggression_ticks c
        \<and> (mac_require_full_easier_depth_for_quantity c \<longrightarrow> unat q \<le> offered (take (Suc i) asks)))
    \<and> (\<exists>i<length bids. h = sbl_price_ticks (bids ! i) \<and> sbl_price_ticks (bids ! 0) - h \<le> mac_maximum_harder_aggression_ticks c
        \<and> (mac_require_full_harder_depth_for_quantity c \<longrightarrow> unat q \<le> offered (take (Suc i) bids)))
    \<and> unat (mca_gross_edge_ticks cand) = (unat h - unat e) * unat q div 100
    \<and> unat (mca_estimated_fee_ticks cand) = exact_fee c (unat e) (unat q) + exact_fee c (unat h) (unat q)"
proof -
  from evaluate_accepted [OF assms(1,2)] obtain es hs s where
    1: "collect_easier_candidates (mpo_easier obs) c = Inr es" "collect_harder_candidates (mpo_harder obs) c = Inr hs"
      "select_paired_limits es hs c = Inr s" "cand = make_candidate c obs s" "valid_pair_header obs"
      "list_all limit_ok es" "list_all limit_ok hs"
    and 2: "smv_tradeable (mpo_easier obs)" "smv_tradeable (mpo_harder obs)"
      "\<not> market_closed (mpo_easier obs) now" "\<not> market_closed (mpo_harder obs) now" by metis
  have mem: "ps_easier s \<in> set es" "ps_harder s \<in> set hs"
    using select_paired_limits_outcome [OF assms(1) 1(6,7)] 1(3) by (auto simp: best_of_def Let_def)
  note ce = collect_candidates_ok [OF 1(1) [unfolded collect_easier_candidates_def]]
    and ch = collect_candidates_ok [OF 1(2) [unfolded collect_harder_candidates_def]]
  have "selection_ok c (easier_side c) (sbl_price_ticks (smv_asks (mpo_easier obs) ! 0)) asks (ps_easier s)"
    "selection_ok c (harder_side c) (sbl_price_ticks (smv_bids (mpo_harder obs) ! 0)) bids (ps_harder s)"
    using ce ch mem by (simp_all add: list_all_iff assms(6,7))
  then obtain i j where i: "i < length asks" "ls_chosen_limit_ticks (ps_easier s) = sbl_price_ticks (asks ! i)"
      "ls_chosen_limit_ticks (ps_easier s) - sbl_price_ticks (smv_asks (mpo_easier obs) ! 0) \<le> mac_maximum_easier_aggression_ticks c"
      "mac_require_full_easier_depth_for_quantity c \<longrightarrow> unat q \<le> offered (take (Suc i) asks)"
    and j: "j < length bids" "ls_chosen_limit_ticks (ps_harder s) = sbl_price_ticks (bids ! j)"
      "sbl_price_ticks (smv_bids (mpo_harder obs) ! 0) - ls_chosen_limit_ticks (ps_harder s) \<le> mac_maximum_harder_aggression_ticks c"
      "mac_require_full_harder_depth_for_quantity c \<longrightarrow> unat q \<le> offered (take (Suc j) bids)"
    by (auto simp: selection_ok_def easier_side_def harder_side_def assms(5))
  have eh: "e = ls_chosen_limit_ticks (ps_easier s)" "h = ls_chosen_limit_ticks (ps_harder s)"
    by (simp_all add: assms(3,4) 1(4) make_candidate_def arb_leg_def)
  have first: "asks ! 0 = smv_asks (mpo_easier obs) ! 0" "bids ! 0 = smv_bids (mpo_harder obs) ! 0"
    using ce ch by (simp_all add: assms(6,7))
  have strike: "smv_strike_key (mpo_easier obs) < smv_strike_key (mpo_harder obs)"
    using 1(5) by (auto simp: valid_pair_header_def Let_def split: if_splits)
  note p = accepted_pair [OF assms(1,2)]
  show ?thesis
    using p(2,4,5) 2 strike i j first by (auto simp: assms(3,4,5) [symmetric] eh word_less_nat_alt)
qed

theorem arbitrage_profit_guaranteed_witness:
  "100 * (int (unat (mca_net_edge_ticks demo_candidate)) + int (unat (mca_estimated_fee_ticks demo_candidate)))
     \<le> settled_profit (int (unat (mac_order_quantity_lots demo_arb_config))) 4100 5100 True False"
  using arbitrage_profit_guaranteed [OF demo_arb_valid demo_evaluation, of False True 4100 5100]
  by (simp add: demo_candidate_def)

theorem accepted_candidate_executable_witness:
  "unat (mca_estimated_fee_ticks demo_candidate) = exact_fee demo_arb_config 4100 200 + exact_fee demo_arb_config 5100 200"
  using accepted_candidate_executable [OF demo_arb_valid demo_evaluation refl refl refl refl refl]
  by (simp add: demo_candidate_def demo_arb_config_def)

definition demo_limits :: "price_ticks \<Rightarrow> price_ticks \<Rightarrow> leg_selection list" where
  "demo_limits a b = map (\<lambda>(p, n). \<lparr>ls_observed_top_ticks = a, ls_chosen_limit_ticks = p, ls_scanned_levels = n,
     ls_cumulative_quantity_lots = 200, ls_bounded_aggression_applied = (p \<noteq> a)\<rparr>) [(a, 1), (b, 2)]"

theorem selected_pair_is_best_witness:
  "\<exists>s. select_paired_limits (demo_limits 4000 4100) (demo_limits 5200 5100) demo_arb_config = Inr s
     \<and> feasible demo_arb_config (ps_easier s, ps_harder s)"
proof -
  have ok: "list_all limit_ok (demo_limits 4000 4100)" "list_all limit_ok (demo_limits 5200 5100)" by code_simp+
  have "select_paired_limits (demo_limits 4000 4100) (demo_limits 5200 5100) demo_arb_config
    = Inr \<lparr>ps_easier = demo_limits 4000 4100 ! 1, ps_harder = demo_limits 5200 5100 ! 1, ps_gross_edge_ticks = 2000,
        ps_estimated_fee_ticks = 689, ps_net_edge_ticks = 1311\<rparr>" by code_simp
  with selected_pair_is_best [OF demo_arb_valid ok this refl] show ?thesis by blast
qed

theorem pair_rejection_reason_witness:
  "select_paired_limits (demo_limits 4000 4100) (demo_limits 4000 3900) demo_arb_config = Inl MAR_kNO_GROSS_EDGE
   \<and> \<not> feasible demo_arb_config (demo_limits 4000 4100 ! 0, demo_limits 4000 3900 ! 0)"
proof -
  have ok: "list_all limit_ok (demo_limits 4000 4100)" "list_all limit_ok (demo_limits 4000 3900)" by code_simp+
  have run: "select_paired_limits (demo_limits 4000 4100) (demo_limits 4000 3900) demo_arb_config = Inl MAR_kNO_GROSS_EDGE" by code_simp
  have "\<forall>p\<in>set (demo_limits 4000 4100) \<times> set (demo_limits 4000 3900). \<not> feasible demo_arb_config p"
    using pair_rejection_reason [OF demo_arb_valid ok run] by simp
  then show ?thesis using run by (simp add: demo_limits_def)
qed

end
