(* ===== verification/Strategy_Types.thy ===== *)
theory Strategy_Types
  imports Event
begin

text \<open>
  The messages of a shard to the strategies (\<open>strategy/strategy_types.hpp\<close>); the observation itself is in \<open>Event\<close>,
  next to the function that builds it.
\<close>

record strategy_event_unavailable =
  seu_universe_version :: u64
  seu_shard_index :: u32
  seu_event_id :: event_id
  seu_affected_market_id :: market_id
  seu_event_revision :: u64

record strategy_shard_unavailable =
  ssu_universe_version :: u64
  ssu_shard_index :: u32

datatype shard_to_strategy_message =
    SmObservation monotonic_pair_observation
  | SmEventUnavailable strategy_event_unavailable
  | SmShardUnavailable strategy_shard_unavailable

end
