(* ===== verification/Strategy.thy ===== *)
theory Strategy
  imports Monotonic_Arb Strategy_Types Latency_Histogram Oms_Types
begin

text \<open>
  The arbitrage strategy (\<open>strategy/strategy.hpp\<close>, \<open>strategy/strategy.cpp\<close>): it reads observations of its shards,
  evaluates them, keeps track of the capital it has asked for and of the groups that are under way, and sends
  group intents to the order manager. The readings of the two clocks are streams.
\<close>

section \<open>Results\<close>

datatype strategy_pump_code =
    SPC_kNO_WORK | SPC_kOBSERVATION_REJECTED | SPC_kCANDIDATE_FOUND | SPC_kEVENT_UNAVAILABLE | SPC_kSHARD_UNAVAILABLE
  | SPC_kMESSAGE_REJECTED | SPC_kOMS_MESSAGE_HANDLED | SPC_kCANDIDATE_SUPPRESSED | SPC_kINTENT_PUBLISHED
  | SPC_kINTENT_BACKPRESSURE

datatype strategy_message_reject_reason =
    SMR_kNONE | SMR_kSHARD_INDEX_MISMATCH | SMR_kUNIVERSE_VERSION_MISMATCH | SMR_kOBSERVATION_TOO_OLD
  | SMR_kINVALID_TIMESTAMP_ORDER | SMR_kNON_MONOTONIC_EVENT_REVISION | SMR_kOMS_STRATEGY_INDEX_MISMATCH
  | SMR_kSTALE_OMS_SEQUENCE

datatype strategy_intent_suppress_reason =
    SSR_kNONE | SSR_kPORTFOLIO_UNKNOWN | SSR_kPORTFOLIO_NOT_RECONCILED | SSR_kINSUFFICIENT_CAPITAL
  | SSR_kEVENT_GROUP_ACTIVE | SSR_kEXECUTION_BLOCKED | SSR_kIDENTITY_EXHAUSTED

record strategy_pump_result =
  spr_code :: strategy_pump_code
  spr_source_shard_index :: u32
  spr_message_reject_reason :: strategy_message_reject_reason
  spr_evaluation_reason :: monotonic_arb_reject_reason
  spr_intent_suppress_reason :: strategy_intent_suppress_reason
  spr_candidate :: "monotonic_arb_candidate option"
  spr_published_intent :: "group_order_intent option"

definition empty_result :: strategy_pump_result where
  "empty_result = \<lparr>spr_code = SPC_kNO_WORK, spr_source_shard_index = 0, spr_message_reject_reason = SMR_kNONE,
     spr_evaluation_reason = MAR_kNONE, spr_intent_suppress_reason = SSR_kNONE, spr_candidate = None,
     spr_published_intent = None\<rparr>"

section \<open>State\<close>

record strategy_shard_input =
  ssi_shard_index :: u32
  ssi_queue :: "shard_to_strategy_message bqueue"

record monotonic_arb_strategy_config =
  msc_strategy_id :: u32
  msc_arb_config :: monotonic_arb_config
  msc_maximum_observation_age_ns :: u64

record strategy_shard_input_stats =
  sis_shard_index :: u32
  sis_messages_seen :: u64
  sis_observations_seen :: u64
  sis_event_unavailable_seen :: u64
  sis_shard_unavailable_seen :: u64
  sis_message_rejects :: u64
  sis_shard_to_strategy_latency :: latency_histogram
  sis_ingress_to_strategy_latency :: latency_histogram

record strategy_stats =
  sts_messages_seen :: u64
  sts_observations_evaluated :: u64
  sts_candidates_found :: u64
  sts_event_unavailable_seen :: u64
  sts_shard_unavailable_seen :: u64
  sts_message_rejects :: u64
  sts_stale_observations :: u64
  sts_oms_messages_seen :: u64
  sts_intents_published :: u64
  sts_intent_backpressure :: u64
  sts_candidates_suppressed :: u64
  sts_group_admissions_accepted :: u64
  sts_group_admissions_rejected :: u64
  sts_terminal_groups_seen :: u64
  sts_unsafe_groups_seen :: u64
  sts_shard_to_strategy_latency :: latency_histogram
  sts_evaluation_latency :: latency_histogram
  sts_ingress_to_evaluation_latency :: latency_histogram

record active_group =
  ag_event_id :: event_id
  ag_pending_capital_ticks :: u64
  ag_admission_pending :: bool

record strategy =
  sg_strategy_index :: u16
  sg_active_universe_version :: u64
  sg_config :: monotonic_arb_strategy_config
  sg_shard_inputs :: "strategy_shard_input list"
  sg_to_oms_queue :: "strategy_intent bqueue"
  sg_from_oms_queue :: "oms_to_strategy_message bqueue"
  sg_next_input_index :: nat
  sg_stats :: strategy_stats
  sg_shard_input_stats :: "strategy_shard_input_stats list"
  sg_evaluation_rejections :: "u64 list"
  sg_portfolio_seen :: bool
  sg_portfolio_reconciled :: bool
  sg_execution_blocked :: bool
  sg_available_capital_ticks :: i64
  sg_last_portfolio_sequence :: u64
  sg_pending_capital_ticks :: u64
  sg_next_group_intent_id :: u64
  sg_next_strategy_intent_id :: u64
  sg_next_signal_id :: u64
  sg_last_pair_revision :: "(market_id, u64) umap"
  sg_unavailable_event_revision :: "(event_id, u64) umap"
  sg_active_group_by_event :: "(event_id, group_intent_id) umap"
  sg_active_group_by_id :: "(group_intent_id, active_group) umap"
  sg_clock :: "nat \<Rightarrow> u64"
  sg_wall_clock :: "nat \<Rightarrow> u64"

definition strategy_now_ns :: "strategy \<Rightarrow> u64 \<times> strategy" where
  "strategy_now_ns s = (sg_clock s 0, s\<lparr>sg_clock := (\<lambda>n. sg_clock s (Suc n))\<rparr>)"

definition wall_clock_now_s :: "strategy \<Rightarrow> u64 \<times> strategy" where
  "wall_clock_now_s s = (sg_wall_clock s 0, s\<lparr>sg_wall_clock := (\<lambda>n. sg_wall_clock s (Suc n))\<rparr>)"

abbreviation tally :: "(strategy_stats \<Rightarrow> strategy_stats) \<Rightarrow> strategy \<Rightarrow> strategy" where
  "tally f s \<equiv> s\<lparr>sg_stats := f (sg_stats s)\<rparr>"

definition tally_input :: "nat \<Rightarrow> (strategy_shard_input_stats \<Rightarrow> strategy_shard_input_stats) \<Rightarrow> strategy \<Rightarrow> strategy" where
  "tally_input i f s = s\<lparr>sg_shard_input_stats := (sg_shard_input_stats s)[i := f (sg_shard_input_stats s ! i)]\<rparr>"

text \<open>The constructor: \<open>Inl\<close> is the \<open>std::invalid_argument\<close> it throws; \<open>None\<close> is a null queue.\<close>

definition kREJECT_REASON_COUNT :: nat where "kREJECT_REASON_COUNT = 15"

definition empty_stats :: strategy_stats where
  "empty_stats = \<lparr>sts_messages_seen = 0, sts_observations_evaluated = 0, sts_candidates_found = 0, sts_event_unavailable_seen = 0,
     sts_shard_unavailable_seen = 0, sts_message_rejects = 0, sts_stale_observations = 0, sts_oms_messages_seen = 0,
     sts_intents_published = 0, sts_intent_backpressure = 0, sts_candidates_suppressed = 0, sts_group_admissions_accepted = 0,
     sts_group_admissions_rejected = 0, sts_terminal_groups_seen = 0, sts_unsafe_groups_seen = 0,
     sts_shard_to_strategy_latency = empty_histogram, sts_evaluation_latency = empty_histogram,
     sts_ingress_to_evaluation_latency = empty_histogram\<rparr>"

definition empty_input_stats :: "u32 \<Rightarrow> strategy_shard_input_stats" where
  "empty_input_stats i = \<lparr>sis_shard_index = i, sis_messages_seen = 0, sis_observations_seen = 0, sis_event_unavailable_seen = 0,
     sis_shard_unavailable_seen = 0, sis_message_rejects = 0, sis_shard_to_strategy_latency = empty_histogram,
     sis_ingress_to_strategy_latency = empty_histogram\<rparr>"

definition make_strategy ::
  "u16 \<Rightarrow> u64 \<Rightarrow> monotonic_arb_strategy_config \<Rightarrow> (u32 \<times> shard_to_strategy_message bqueue option) list
   \<Rightarrow> strategy_intent bqueue option \<Rightarrow> oms_to_strategy_message bqueue option \<Rightarrow> (nat \<Rightarrow> u64) \<Rightarrow> (nat \<Rightarrow> u64)
   \<Rightarrow> string + strategy" where
  "make_strategy index version config inputs to_oms from_oms clock wall_clock =
     (if version = 0 \<or> msc_strategy_id config = 0 \<or> msc_maximum_observation_age_ns config = 0
         \<or> \<not> valid_monotonic_arb_config (msc_arb_config config) \<or> to_oms = None \<or> from_oms = None \<or> inputs = []
      then Inl ''invalid monotonic arbitrage strategy configuration''
      else if list_ex (\<lambda>(_, q). q = None) inputs \<or> \<not> distinct (map fst inputs)
      then Inl ''invalid or duplicate strategy shard input''
      else Inr \<lparr>sg_strategy_index = index, sg_active_universe_version = version, sg_config = config,
             sg_shard_inputs = map (\<lambda>(i, q). \<lparr>ssi_shard_index = i, ssi_queue = the q\<rparr>) inputs,
             sg_to_oms_queue = the to_oms, sg_from_oms_queue = the from_oms, sg_next_input_index = 0,
             sg_stats = empty_stats, sg_shard_input_stats = map (empty_input_stats \<circ> fst) inputs,
             sg_evaluation_rejections = replicate kREJECT_REASON_COUNT 0, sg_portfolio_seen = False,
             sg_portfolio_reconciled = False, sg_execution_blocked = False, sg_available_capital_ticks = 0,
             sg_last_portfolio_sequence = 0, sg_pending_capital_ticks = 0, sg_next_group_intent_id = 1,
             sg_next_strategy_intent_id = 1, sg_next_signal_id = 1, sg_last_pair_revision = [],
             sg_unavailable_event_revision = [], sg_active_group_by_event = [], sg_active_group_by_id = [],
             sg_clock = clock, sg_wall_clock = wall_clock\<rparr>)"

section \<open>Messages of the order manager\<close>

definition terminal_group_state :: "group_execution_state \<Rightarrow> bool" where
  "terminal_group_state st \<longleftrightarrow> st = GES_kCOMPLETED \<or> st = GES_kFLATTENED \<or> st = GES_kABORTED \<or> st = GES_kREJECTED"

definition unsafe_group_state :: "group_execution_state \<Rightarrow> bool" where
  "unsafe_group_state st \<longleftrightarrow> st = GES_kREPAIR_REQUIRED \<or> st = GES_kUNCERTAIN \<or> st = GES_kREPAIR_FAILED"

definition reject_oms_message :: "strategy_message_reject_reason \<Rightarrow> strategy \<Rightarrow> strategy \<times> strategy_pump_result" where
  "reject_oms_message reason s =
     (tally (\<lambda>t. t\<lparr>sts_message_rejects := sts_message_rejects t + 1\<rparr>) s,
      empty_result\<lparr>spr_code := SPC_kMESSAGE_REJECTED, spr_message_reject_reason := reason\<rparr>)"

definition oms_handled :: strategy_pump_result where
  "oms_handled = empty_result\<lparr>spr_code := SPC_kOMS_MESSAGE_HANDLED\<rparr>"

text \<open>\<open>pending_capital_ticks_ -= std::min(pending_capital_ticks_, group.pending_capital_ticks)\<close>\<close>

definition release_pending :: "u64 \<Rightarrow> strategy \<Rightarrow> strategy" where
  "release_pending ticks s = s\<lparr>sg_pending_capital_ticks := sg_pending_capital_ticks s - min (sg_pending_capital_ticks s) ticks\<rparr>"

text \<open>The loop over the active groups: an admitted group's capital is now part of the portfolio.\<close>

definition settle_group :: "group_intent_id \<times> active_group \<Rightarrow> strategy \<Rightarrow> strategy" where
  "settle_group entry s =
     (let (gid, g) = entry in
      if \<not> ag_admission_pending g \<and> ag_pending_capital_ticks g > 0
      then (release_pending (ag_pending_capital_ticks g) s)\<lparr>sg_active_group_by_id :=
             um_assign gid (g\<lparr>ag_pending_capital_ticks := 0\<rparr>) (sg_active_group_by_id s)\<rparr>
      else s)"

definition on_portfolio_update :: "strategy_portfolio_update \<Rightarrow> strategy \<Rightarrow> strategy \<times> strategy_pump_result" where
  "on_portfolio_update item s =
     (if spu_strategy_index item \<noteq> sg_strategy_index s then reject_oms_message SMR_kOMS_STRATEGY_INDEX_MISMATCH s
      else if spu_sequence item \<le> sg_last_portfolio_sequence s then reject_oms_message SMR_kSTALE_OMS_SEQUENCE s
      else let s1 = s\<lparr>sg_last_portfolio_sequence := spu_sequence item, sg_portfolio_seen := True,
                 sg_portfolio_reconciled := spu_venue_portfolio_reconciled item,
                 sg_available_capital_ticks := spu_available_capital_ticks item\<rparr>
      in (fold settle_group (sg_active_group_by_id s1) s1, oms_handled))"

definition on_market_position_update :: "strategy_market_position_update \<Rightarrow> strategy \<Rightarrow> strategy \<times> strategy_pump_result" where
  "on_market_position_update item s =
     (if smpu_strategy_index item \<noteq> sg_strategy_index s then reject_oms_message SMR_kOMS_STRATEGY_INDEX_MISMATCH s
      else if smpu_sequence item \<le> sg_last_portfolio_sequence s then reject_oms_message SMR_kSTALE_OMS_SEQUENCE s
      else (s\<lparr>sg_last_portfolio_sequence := smpu_sequence item\<rparr>, oms_handled))"

text \<open>The end of a group: its capital, its event and its entry are given up.\<close>

definition forget_group :: "group_intent_id \<Rightarrow> active_group \<Rightarrow> strategy \<Rightarrow> strategy" where
  "forget_group gid g s =
     (release_pending (ag_pending_capital_ticks g) s)\<lparr>sg_active_group_by_event := um_erase (ag_event_id g) (sg_active_group_by_event s),
        sg_active_group_by_id := um_erase gid (sg_active_group_by_id s)\<rparr>"

definition on_group_admission :: "group_admission_response \<Rightarrow> strategy \<Rightarrow> strategy \<times> strategy_pump_result" where
  "on_group_admission item s =
     (let gid = ic_group_intent_id (gar_context item) in
      if ic_strategy_index (gar_context item) \<noteq> sg_strategy_index s then reject_oms_message SMR_kOMS_STRATEGY_INDEX_MISMATCH s
      else case um_find (sg_active_group_by_id s) gid of
        None \<Rightarrow> (s, oms_handled)
      | Some g \<Rightarrow>
          if gar_admission_state item = GAS_kACCEPTED
          then (tally (\<lambda>t. t\<lparr>sts_group_admissions_accepted := sts_group_admissions_accepted t + 1\<rparr>)
                  (s\<lparr>sg_active_group_by_id := um_assign gid (g\<lparr>ag_admission_pending := False\<rparr>) (sg_active_group_by_id s)\<rparr>),
                oms_handled)
          else (tally (\<lambda>t. t\<lparr>sts_group_admissions_rejected := sts_group_admissions_rejected t + 1\<rparr>) (forget_group gid g s),
                oms_handled))"

definition on_group_state :: "group_state_update \<Rightarrow> strategy \<Rightarrow> strategy \<times> strategy_pump_result" where
  "on_group_state item s =
     (let gid = ic_group_intent_id (gsu_context item) in
      if ic_strategy_index (gsu_context item) \<noteq> sg_strategy_index s then reject_oms_message SMR_kOMS_STRATEGY_INDEX_MISMATCH s
      else case um_find (sg_active_group_by_id s) gid of
        None \<Rightarrow> (s, oms_handled)
      | Some g \<Rightarrow>
          if unsafe_group_state (gsu_execution_state item)
          then (tally (\<lambda>t. t\<lparr>sts_unsafe_groups_seen := sts_unsafe_groups_seen t + 1\<rparr>) (s\<lparr>sg_execution_blocked := True\<rparr>),
                oms_handled)
          else if terminal_group_state (gsu_execution_state item)
          then (tally (\<lambda>t. t\<lparr>sts_terminal_groups_seen := sts_terminal_groups_seen t + 1\<rparr>) (forget_group gid g s), oms_handled)
          else (s, oms_handled))"

definition on_order_message :: "oms_context \<Rightarrow> strategy \<Rightarrow> strategy \<times> strategy_pump_result" where
  "on_order_message context s =
     (if ic_strategy_index (oc_context context) \<noteq> sg_strategy_index s
      then reject_oms_message SMR_kOMS_STRATEGY_INDEX_MISMATCH s else (s, oms_handled))"

definition handle_oms_message :: "oms_to_strategy_message \<Rightarrow> strategy \<Rightarrow> strategy \<times> strategy_pump_result" where
  "handle_oms_message message s =
     (let s1 = tally (\<lambda>t. t\<lparr>sts_oms_messages_seen := sts_oms_messages_seen t + 1\<rparr>) s in
      case message of
        MsgStrategyPortfolioUpdate item \<Rightarrow> on_portfolio_update item s1
      | MsgStrategyMarketPositionUpdate item \<Rightarrow> on_market_position_update item s1
      | MsgGroupAdmissionResponse item \<Rightarrow> on_group_admission item s1
      | MsgGroupStateUpdate item \<Rightarrow> on_group_state item s1
      | MsgOmsResponse item \<Rightarrow> on_order_message (or_context item) s1
      | MsgOrderStateUpdate item \<Rightarrow> on_order_message (osu_context item) s1)"

section \<open>Intents\<close>

definition leg_exposure :: "u64 \<Rightarrow> u128" where
  "leg_exposure quantity_lots =
     (let product = ucast quantity_lots * ucast kPriceTicksPerDollar
      in product div ucast kQuantityLotsPerContract + (if product mod ucast kQuantityLotsPerContract \<noteq> 0 then 1 else 0))"

definition required_capital_ticks :: "monotonic_arb_candidate \<Rightarrow> u64 option" where
  "required_capital_ticks candidate =
     (let exposure = leg_exposure (mal_quantity_lots (mca_easier_leg candidate))
                     + leg_exposure (mal_quantity_lots (mca_harder_leg candidate))
      in if exposure > ucast u64_max then None else Some (ucast exposure))"

definition u32_max :: u64 where "u32_max = 4294967295"

definition identity_exhausted :: "monotonic_arb_candidate \<Rightarrow> strategy \<Rightarrow> bool" where
  "identity_exhausted candidate s \<longleftrightarrow>
     sg_next_group_intent_id s = 0 \<or> sg_next_strategy_intent_id s = 0 \<or> sg_next_strategy_intent_id s > u32_max - 1
   \<or> sg_next_signal_id s = 0 \<or> sg_next_signal_id s > u32_max
   \<or> mal_limit_price_ticks (mca_easier_leg candidate) > to_u64 i64_max
   \<or> mal_limit_price_ticks (mca_harder_leg candidate) > to_u64 i64_max
   \<or> mal_quantity_lots (mca_easier_leg candidate) > to_u64 i64_max
   \<or> mal_quantity_lots (mca_harder_leg candidate) > to_u64 i64_max"

definition empty_new_order :: new_order_intent where
  "empty_new_order = \<lparr>noi_context = empty_context, noi_outcome = O_kUNKNOWN, noi_action = OA_kUNKNOWN,
     noi_liquidity_intent = LI_kUNKNOWN, noi_order_type = OT_kLIMIT, noi_time_in_force = TIF_kGTC, noi_price_ticks = 0,
     noi_quantity_lots = 0\<rparr>"

definition make_leg :: "intent_context \<Rightarrow> monotonic_arb_leg \<Rightarrow> u8 \<Rightarrow> u32 \<Rightarrow> new_order_intent" where
  "make_leg group_context leg leg_index strategy_intent_id =
     \<lparr>noi_context = group_context\<lparr>ic_market_id := mal_market_id leg, ic_strategy_intent_id := strategy_intent_id,
        ic_leg_index := leg_index\<rparr>,
      noi_outcome = O_kYES, noi_action = (if mal_action leg = AA_kBUY_YES then OA_kBUY else OA_kSELL),
      noi_liquidity_intent = LI_kTAKER, noi_order_type = OT_kMARKETABLE_LIMIT, noi_time_in_force = TIF_kFOK,
      noi_price_ticks = to_i64 (mal_limit_price_ticks leg), noi_quantity_lots = to_i64 (mal_quantity_lots leg)\<rparr>"

definition group_intent_context :: "monotonic_arb_candidate \<Rightarrow> u64 \<Rightarrow> u64 \<Rightarrow> u64 \<Rightarrow> strategy \<Rightarrow> intent_context" where
  "group_intent_context candidate dequeue_ts evaluation_ts publish_ts s =
     empty_context\<lparr>ic_strategy_index := sg_strategy_index s, ic_market_id := mal_market_id (mca_easier_leg candidate),
       ic_event_id := mca_event_id candidate, ic_strategy_id := msc_strategy_id (sg_config s),
       ic_signal_id := ucast (sg_next_signal_id s), ic_group_intent_id := sg_next_group_intent_id s, ic_leg_count := 2,
       ic_universe_version := mca_universe_version candidate, ic_event_revision := mca_event_revision candidate,
       ic_source_shard_index := mca_shard_index candidate, ic_ingress_timestamp_ns := mca_ingress_timestamp_ns candidate,
       ic_book_apply_timestamp_ns := mca_book_apply_timestamp_ns candidate,
       ic_observation_publish_timestamp_ns := mca_observation_publish_timestamp_ns candidate,
       ic_strategy_dequeue_timestamp_ns := dequeue_ts, ic_evaluation_complete_timestamp_ns := evaluation_ts,
       ic_intent_publish_timestamp_ns := publish_ts\<rparr>"

definition make_group_intent ::
  "monotonic_arb_candidate \<Rightarrow> u64 \<Rightarrow> u64 \<Rightarrow> u64 \<Rightarrow> strategy \<Rightarrow> strategy \<times> group_order_intent option" where
  "make_group_intent candidate dequeue_ts evaluation_ts publish_ts s =
     (if identity_exhausted candidate s then (s, None)
      else let context = group_intent_context candidate dequeue_ts evaluation_ts publish_ts s;
               first_intent_id = ucast (sg_next_strategy_intent_id s);
               second_intent_id = ucast (sg_next_strategy_intent_id s + 1);
               s1 = s\<lparr>sg_next_group_intent_id := sg_next_group_intent_id s + 1, sg_next_signal_id := sg_next_signal_id s + 1,
                      sg_next_strategy_intent_id := sg_next_strategy_intent_id s + 2\<rparr>
      in (s1, Some \<lparr>goi_context = context,
           goi_new_orders = make_leg context (mca_easier_leg candidate) 0 first_intent_id
             # make_leg context (mca_harder_leg candidate) 1 second_intent_id # replicate (kMAX_ORDERS_PER_GROUP - 2) empty_new_order,
           goi_leg_count = 2, goi_admission_policy = GAP_kALL_OR_NONE,
           goi_expected_gross_edge_ticks = mca_gross_edge_ticks candidate,
           goi_estimated_fee_ticks = mca_estimated_fee_ticks candidate,
           goi_expected_net_edge_ticks = mca_net_edge_ticks candidate\<rparr>))"

section \<open>Messages of the shards\<close>

definition reject_input :: "nat \<Rightarrow> u32 \<Rightarrow> strategy_message_reject_reason \<Rightarrow> strategy \<Rightarrow> strategy \<times> strategy_pump_result" where
  "reject_input i source reason s =
     (tally_input i (\<lambda>t. t\<lparr>sis_message_rejects := sis_message_rejects t + 1\<rparr>)
        (tally (\<lambda>t. t\<lparr>sts_message_rejects := sts_message_rejects t + 1\<rparr>) s),
      empty_result\<lparr>spr_code := SPC_kMESSAGE_REJECTED, spr_source_shard_index := source, spr_message_reject_reason := reason\<rparr>)"

text \<open>\<open>None\<close> when the message fits its input.\<close>

definition message_matches_input :: "nat \<Rightarrow> u32 \<Rightarrow> u64 \<Rightarrow> strategy \<Rightarrow> strategy_message_reject_reason option" where
  "message_matches_input i message_shard_index message_universe_version s =
     (if i \<ge> length (sg_shard_inputs s) \<or> ssi_shard_index (sg_shard_inputs s ! i) \<noteq> message_shard_index
      then Some SMR_kSHARD_INDEX_MISMATCH
      else if message_universe_version \<noteq> sg_active_universe_version s then Some SMR_kUNIVERSE_VERSION_MISMATCH
      else None)"

definition suppress :: "u32 \<Rightarrow> monotonic_arb_candidate option \<Rightarrow> strategy_intent_suppress_reason \<Rightarrow> strategy \<Rightarrow> strategy \<times> strategy_pump_result" where
  "suppress source candidate reason s =
     (tally (\<lambda>t. t\<lparr>sts_candidates_suppressed := sts_candidates_suppressed t + 1\<rparr>) s,
      empty_result\<lparr>spr_code := SPC_kCANDIDATE_SUPPRESSED, spr_source_shard_index := source,
        spr_intent_suppress_reason := reason, spr_candidate := candidate\<rparr>)"

text \<open>The intent goes to the order manager, and the group into the ledger unless the queue is full.\<close>

definition send_intent ::
  "u32 \<Rightarrow> monotonic_arb_candidate \<Rightarrow> u64 \<Rightarrow> group_order_intent \<Rightarrow> strategy \<Rightarrow> strategy \<times> strategy_pump_result" where
  "send_intent source candidate required intent s2 =
     (let gid = ic_group_intent_id (goi_context intent); (q, ok) = bq_push (IntentGroupOrder intent) (sg_to_oms_queue s2);
          base = empty_result\<lparr>spr_source_shard_index := source, spr_candidate := Some candidate\<rparr>
      in if \<not> ok
      then (tally (\<lambda>t. t\<lparr>sts_intent_backpressure := sts_intent_backpressure t + 1\<rparr>) s2,
            base\<lparr>spr_code := SPC_kINTENT_BACKPRESSURE\<rparr>)
      else (tally (\<lambda>t. t\<lparr>sts_intents_published := sts_intents_published t + 1\<rparr>)
              (s2\<lparr>sg_to_oms_queue := q,
                 sg_active_group_by_event := um_assign (mca_event_id candidate) gid (sg_active_group_by_event s2),
                 sg_active_group_by_id := um_assign gid \<lparr>ag_event_id = mca_event_id candidate,
                   ag_pending_capital_ticks = required, ag_admission_pending = True\<rparr> (sg_active_group_by_id s2),
                 sg_pending_capital_ticks := sg_pending_capital_ticks s2 + required\<rparr>),
            base\<lparr>spr_code := SPC_kINTENT_PUBLISHED, spr_published_intent := Some intent\<rparr>))"

text \<open>From the required capital on: a found candidate is suppressed, refused by a full queue, or published.\<close>

definition publish_candidate ::
  "u32 \<Rightarrow> monotonic_arb_candidate \<Rightarrow> u64 \<Rightarrow> u64 \<Rightarrow> strategy \<Rightarrow> strategy \<times> strategy_pump_result" where
  "publish_candidate source candidate dequeue_ts evaluation_ts s =
     (let suppressed = suppress source (Some candidate) in
      case required_capital_ticks candidate of
        None \<Rightarrow> suppressed SSR_kINSUFFICIENT_CAPITAL s
      | Some required \<Rightarrow>
      if \<not> sg_portfolio_seen s then suppressed SSR_kPORTFOLIO_UNKNOWN s
      else if \<not> sg_portfolio_reconciled s then suppressed SSR_kPORTFOLIO_NOT_RECONCILED s
      else let available = to_u64 (max 0 (sg_available_capital_ticks s))
      in if sg_pending_capital_ticks s > available \<or> required > available - sg_pending_capital_ticks s
      then suppressed SSR_kINSUFFICIENT_CAPITAL s
      else let (publish_ts, s1) = strategy_now_ns s
      in case make_group_intent candidate dequeue_ts evaluation_ts publish_ts s1 of
        (s2, None) \<Rightarrow> suppressed SSR_kIDENTITY_EXHAUSTED (s2\<lparr>sg_execution_blocked := True\<rparr>)
      | (s2, Some intent) \<Rightarrow> send_intent source candidate required intent s2)"

definition reason_index :: "monotonic_arb_reject_reason \<Rightarrow> nat" where
  "reason_index r = (case r of
       MAR_kNONE \<Rightarrow> 0 | MAR_kMARKET_NOT_TRADEABLE \<Rightarrow> 1 | MAR_kMARKET_CLOSED \<Rightarrow> 2 | MAR_kINVALID_PAIR_ORDER \<Rightarrow> 3
     | MAR_kMISSING_BID_DEPTH \<Rightarrow> 4 | MAR_kMISSING_ASK_DEPTH \<Rightarrow> 5 | MAR_kNO_GROSS_EDGE \<Rightarrow> 6
     | MAR_kINSUFFICIENT_NET_EDGE \<Rightarrow> 7 | MAR_kDEPTH_DISCONTINUITY \<Rightarrow> 8 | MAR_kINSUFFICIENT_QUANTITY \<Rightarrow> 9
     | MAR_kPRICE_AGGRESSION_EXCEEDED \<Rightarrow> 10 | MAR_kARITHMETIC_OVERFLOW \<Rightarrow> 11 | MAR_kINVALID_CONFIG \<Rightarrow> 12
     | MAR_kINVALID_OBSERVATION \<Rightarrow> 13 | MAR_kFEES_ERASE_EDGE \<Rightarrow> 14)"

text \<open>The evaluation with its time stamps and counters.\<close>

definition evaluate_observation :: "monotonic_pair_observation \<Rightarrow> u64 \<Rightarrow> strategy \<Rightarrow> strategy \<times> strategy_pump_result" where
  "evaluate_observation obs dequeue_ts s =
     (let (evaluation_start, s1) = strategy_now_ns s;
          (wall_now, s2) = wall_clock_now_s s1;
          evaluation = evaluate_monotonic_arb (msc_arb_config (sg_config s2)) obs wall_now;
          (evaluation_complete, s3) = strategy_now_ns s2;
          s4 = tally (\<lambda>t. t\<lparr>sts_observations_evaluated := sts_observations_evaluated t + 1,
                 sts_evaluation_latency := record_elapsed_ns evaluation_start evaluation_complete (sts_evaluation_latency t),
                 sts_ingress_to_evaluation_latency := record_elapsed_ns (mpo_ingress_timestamp_ns obs) evaluation_complete
                   (sts_ingress_to_evaluation_latency t)\<rparr>) s3
      in case evaluation of
        Inl reason \<Rightarrow>
          (s4\<lparr>sg_evaluation_rejections := (sg_evaluation_rejections s4)[reason_index reason :=
               (sg_evaluation_rejections s4 ! reason_index reason) + 1]\<rparr>,
           empty_result\<lparr>spr_code := SPC_kOBSERVATION_REJECTED, spr_source_shard_index := mpo_shard_index obs,
             spr_evaluation_reason := reason\<rparr>)
      | Inr candidate \<Rightarrow>
          publish_candidate (mpo_shard_index obs) candidate dequeue_ts evaluation_complete
            (tally (\<lambda>t. t\<lparr>sts_candidates_found := sts_candidates_found t + 1\<rparr>) s4))"

definition valid_observation_times :: "monotonic_pair_observation \<Rightarrow> u64 \<Rightarrow> bool" where
  "valid_observation_times obs dequeue_ts \<longleftrightarrow>
     \<not> (mpo_ingress_timestamp_ns obs = 0 \<or> mpo_ingress_timestamp_ns obs > mpo_book_apply_timestamp_ns obs
        \<or> mpo_book_apply_timestamp_ns obs > mpo_publish_timestamp_ns obs \<or> mpo_publish_timestamp_ns obs > dequeue_ts)"

definition handle_observation :: "nat \<Rightarrow> monotonic_pair_observation \<Rightarrow> u64 \<Rightarrow> strategy \<Rightarrow> strategy \<times> strategy_pump_result" where
  "handle_observation i obs dequeue_ts s =
     (let source = mpo_shard_index obs; reject = reject_input i source in
      case message_matches_input i source (mpo_universe_version obs) s of
        Some reason \<Rightarrow> reject reason s
      | None \<Rightarrow>
      let s1 = tally (\<lambda>t. t\<lparr>sts_shard_to_strategy_latency :=
                   record_elapsed_ns (mpo_publish_timestamp_ns obs) dequeue_ts (sts_shard_to_strategy_latency t)\<rparr>)
                 (tally_input i (\<lambda>t. t\<lparr>sis_observations_seen := sis_observations_seen t + 1,
                    sis_shard_to_strategy_latency :=
                      record_elapsed_ns (mpo_publish_timestamp_ns obs) dequeue_ts (sis_shard_to_strategy_latency t),
                    sis_ingress_to_strategy_latency :=
                      record_elapsed_ns (mpo_ingress_timestamp_ns obs) dequeue_ts (sis_ingress_to_strategy_latency t)\<rparr>) s)
      in if \<not> valid_observation_times obs dequeue_ts then reject SMR_kINVALID_TIMESTAMP_ORDER s1
      else if dequeue_ts - mpo_publish_timestamp_ns obs > msc_maximum_observation_age_ns (sg_config s1)
      then reject SMR_kOBSERVATION_TOO_OLD (tally (\<lambda>t. t\<lparr>sts_stale_observations := sts_stale_observations t + 1\<rparr>) s1)
      else if (case um_find (sg_unavailable_event_revision s1) (mpo_event_id obs) of
                 Some revision \<Rightarrow> mpo_event_revision obs \<le> revision | None \<Rightarrow> False)
      then reject SMR_kNON_MONOTONIC_EVENT_REVISION s1
      else if (case um_find (sg_last_pair_revision s1) (smv_market_id (mpo_easier obs)) of
                 Some revision \<Rightarrow> mpo_event_revision obs \<le> revision | None \<Rightarrow> False)
      then reject SMR_kNON_MONOTONIC_EVENT_REVISION s1
      else let s2 = s1\<lparr>sg_last_pair_revision := um_assign (smv_market_id (mpo_easier obs)) (mpo_event_revision obs)
                        (sg_last_pair_revision s1)\<rparr>
      in if sg_execution_blocked s2 then suppress source None SSR_kEXECUTION_BLOCKED s2
      else if um_find (sg_active_group_by_event s2) (mpo_event_id obs) \<noteq> None
      then suppress source None SSR_kEVENT_GROUP_ACTIVE s2
      else evaluate_observation obs dequeue_ts s2)"

definition handle_event_unavailable :: "nat \<Rightarrow> strategy_event_unavailable \<Rightarrow> strategy \<Rightarrow> strategy \<times> strategy_pump_result" where
  "handle_event_unavailable i message s =
     (case message_matches_input i (seu_shard_index message) (seu_universe_version message) s of
        Some reason \<Rightarrow> reject_input i (seu_shard_index message) reason s
      | None \<Rightarrow>
      let s1 = tally_input i (\<lambda>t. t\<lparr>sis_event_unavailable_seen := sis_event_unavailable_seen t + 1\<rparr>)
                 (tally (\<lambda>t. t\<lparr>sts_event_unavailable_seen := sts_event_unavailable_seen t + 1\<rparr>) s);
          old = (case um_find (sg_unavailable_event_revision s1) (seu_event_id message) of None \<Rightarrow> 0 | Some r \<Rightarrow> r)
      in (s1\<lparr>sg_unavailable_event_revision := um_assign (seu_event_id message) (max old (seu_event_revision message))
               (sg_unavailable_event_revision s1)\<rparr>,
          empty_result\<lparr>spr_code := SPC_kEVENT_UNAVAILABLE, spr_source_shard_index := seu_shard_index message\<rparr>))"

definition handle_shard_unavailable :: "nat \<Rightarrow> strategy_shard_unavailable \<Rightarrow> strategy \<Rightarrow> strategy \<times> strategy_pump_result" where
  "handle_shard_unavailable i message s =
     (case message_matches_input i (ssu_shard_index message) (ssu_universe_version message) s of
        Some reason \<Rightarrow> reject_input i (ssu_shard_index message) reason s
      | None \<Rightarrow>
      (tally_input i (\<lambda>t. t\<lparr>sis_shard_unavailable_seen := sis_shard_unavailable_seen t + 1\<rparr>)
         (tally (\<lambda>t. t\<lparr>sts_shard_unavailable_seen := sts_shard_unavailable_seen t + 1\<rparr>) s),
       empty_result\<lparr>spr_code := SPC_kSHARD_UNAVAILABLE, spr_source_shard_index := ssu_shard_index message\<rparr>))"

definition dispatch_message :: "nat \<Rightarrow> shard_to_strategy_message \<Rightarrow> u64 \<Rightarrow> strategy \<Rightarrow> strategy \<times> strategy_pump_result" where
  "dispatch_message i message dequeue_ts s =
     (let s1 = tally_input i (\<lambda>t. t\<lparr>sis_messages_seen := sis_messages_seen t + 1\<rparr>)
                 (tally (\<lambda>t. t\<lparr>sts_messages_seen := sts_messages_seen t + 1\<rparr>) s)
      in case message of
        SmObservation obs \<Rightarrow> handle_observation i obs dequeue_ts s1
      | SmEventUnavailable m \<Rightarrow> handle_event_unavailable i m s1
      | SmShardUnavailable m \<Rightarrow> handle_shard_unavailable i m s1)"

section \<open>The pump\<close>

text \<open>The inputs in the order in which they are tried: the first one with a message is served.\<close>

fun pump_inputs :: "nat list \<Rightarrow> strategy \<Rightarrow> strategy \<times> strategy_pump_result" where
  "pump_inputs [] s = (s, empty_result)"
| "pump_inputs (i # is) s =
     (case bq_pop (ssi_queue (sg_shard_inputs s ! i)) of
        (q, None) \<Rightarrow> pump_inputs is s
      | (q, Some message) \<Rightarrow>
          let s1 = s\<lparr>sg_shard_inputs := (sg_shard_inputs s)[i := (sg_shard_inputs s ! i)\<lparr>ssi_queue := q\<rparr>],
                     sg_next_input_index := (i + 1) mod length (sg_shard_inputs s)\<rparr>;
              (dequeue_ts, s2) = strategy_now_ns s1
          in dispatch_message i message dequeue_ts s2)"

definition strategy_pump_once :: "strategy \<Rightarrow> strategy \<times> strategy_pump_result" where
  "strategy_pump_once s =
     (case bq_pop (sg_from_oms_queue s) of
        (q, Some message) \<Rightarrow> handle_oms_message message (s\<lparr>sg_from_oms_queue := q\<rparr>)
      | (q, None) \<Rightarrow>
          let n = length (sg_shard_inputs s)
          in pump_inputs (map (\<lambda>offset. (sg_next_input_index s + offset) mod n) [0..<n]) s)"

end
