(* ===== verification/Strategy_Properties.thy ===== *)
theory Strategy_Properties
  imports Strategy Monotonic_Arb_Properties
begin

text \<open>
  The ledger of the strategy: which groups are under way for which event and how much capital they have asked
  for. Every message keeps it consistent, and an intent is published only when the ledger covers it.
\<close>

section \<open>Totals over a map\<close>

definition um_total :: "('v \<Rightarrow> nat) \<Rightarrow> ('k, 'v) umap \<Rightarrow> nat" where
  "um_total f m = sum_list (map (f \<circ> snd) m)"

lemma um_total_simps [simp]: "um_total f [] = 0" "um_total f ((k, v) # m) = f v + um_total f m"
  by (simp_all add: um_total_def)

lemma um_total_assign_new: "um_find m k = None \<Longrightarrow> um_total f (um_assign k v m) = um_total f m + f v"
  by (induction m) (auto simp: um_find_def um_assign_def split: if_splits)

lemma um_total_assign: "um_find m k = Some w \<Longrightarrow> um_total f (um_assign k v m) + f w = um_total f m + f v"
  by (induction m) (auto simp: um_find_def um_assign_def split: if_splits)

lemma um_total_erase: "um_wf m \<Longrightarrow> um_find m k = Some w \<Longrightarrow> um_total f (um_erase k m) + f w = um_total f m"
proof (induction m)
  case (Cons e m)
  obtain k' v where e: "e = (k', v)" by (cases e)
  show ?case
  proof (cases "k' = k")
    case True
    then have "um_erase k (e # m) = m" using Cons.prems(1) e
      by (auto simp: um_erase_def um_wf_def delete_id intro: delete_id)
    then show ?thesis using Cons.prems(2) e True by (simp add: um_find_def)
  next
    case False
    then show ?thesis using Cons e by (simp add: um_find_def um_erase_def um_wf_def)
  qed
qed (simp add: um_find_def)

lemma um_total_member: "um_find m k = Some v \<Longrightarrow> f v \<le> um_total f m"
  by (induction m) (auto simp: um_find_def split: if_splits)

section \<open>The invariant\<close>

text \<open>The two maps of groups are inverse to each other.\<close>

definition groups_match :: "(event_id \<rightharpoonup> group_intent_id) \<Rightarrow> (group_intent_id \<rightharpoonup> active_group) \<Rightarrow> bool" where
  "groups_match E I \<longleftrightarrow> (\<forall>ev gid. E ev = Some gid \<longleftrightarrow> (\<exists>g. I gid = Some g \<and> ag_event_id g = ev))"

lemma groups_matchD: "groups_match E I \<Longrightarrow> I gid = Some g \<Longrightarrow> E (ag_event_id g) = Some gid"
  by (auto simp: groups_match_def)

lemma groups_match_insert:
  assumes "groups_match E I" "E (ag_event_id g) = None" "I gid = None"
  shows "groups_match (E(ag_event_id g \<mapsto> gid)) (I(gid \<mapsto> g))"
proof -
  have "ag_event_id g' \<noteq> ag_event_id g" if "I gid' = Some g'" for gid' g' using groups_matchD [OF assms(1) that] assms(2) by auto
  then show ?thesis using assms by (auto simp: groups_match_def)
qed

lemma groups_match_replace:
  assumes "groups_match E I" "I gid = Some g" "ag_event_id g' = ag_event_id g"
  shows "groups_match E (I(gid \<mapsto> g'))"
  using assms by (auto simp: groups_match_def)

lemma groups_match_erase:
  assumes "groups_match E I" "I gid = Some g"
  shows "groups_match (E(ag_event_id g := None)) (I(gid := None))"
  unfolding groups_match_def
proof (intro allI)
  fix ev gid'
  have m: "E ev = Some gid' \<longleftrightarrow> (\<exists>g'. I gid' = Some g' \<and> ag_event_id g' = ev)"
    using assms(1) by (simp add: groups_match_def)
  have own: "E (ag_event_id g) = Some gid" using groups_matchD [OF assms] .
  show "(E(ag_event_id g := None)) ev = Some gid' \<longleftrightarrow> (\<exists>g'. (I(gid := None)) gid' = Some g' \<and> ag_event_id g' = ev)"
  proof (cases "gid' = gid")
    case True
    then show ?thesis using m assms(2) by auto
  next
    case False
    then show ?thesis using m own by (cases "ev = ag_event_id g") simp_all
  qed
qed

abbreviation pending_of :: "active_group \<Rightarrow> nat" where "pending_of g \<equiv> unat (ag_pending_capital_ticks g)"

definition strategy_ok :: "strategy \<Rightarrow> bool" where
  "strategy_ok s \<longleftrightarrow>
     um_wf (sg_active_group_by_id s)
   \<and> groups_match (um_find (sg_active_group_by_event s)) (um_find (sg_active_group_by_id s))
   \<and> (\<forall>gid g. um_find (sg_active_group_by_id s) gid = Some g \<longrightarrow>
        sg_next_group_intent_id s = 0 \<or> gid < sg_next_group_intent_id s)
   \<and> unat (sg_pending_capital_ticks s) = um_total pending_of (sg_active_group_by_id s)
   \<and> sg_available_capital_ticks s \<le> i64_max"

text \<open>The part of the state it speaks about.\<close>

definition ledger :: "strategy \<Rightarrow> (event_id, group_intent_id) umap \<times> (group_intent_id, active_group) umap \<times> u64 \<times> u64 \<times> i64" where
  "ledger s = (sg_active_group_by_event s, sg_active_group_by_id s, sg_next_group_intent_id s, sg_pending_capital_ticks s,
     sg_available_capital_ticks s)"

lemma strategy_ok_ledger: "ledger s' = ledger s \<Longrightarrow> strategy_ok s \<Longrightarrow> strategy_ok s'"
  by (simp add: ledger_def strategy_ok_def)

text \<open>Everything an intent depends on.\<close>

definition standing :: "strategy \<Rightarrow> u16 \<times> u64 \<times> monotonic_arb_strategy_config \<times> strategy_intent bqueue \<times> bool \<times> bool \<times> bool \<times> u64 \<times> u64
    \<times> (event_id, group_intent_id) umap \<times> (group_intent_id, active_group) umap \<times> u64 \<times> u64 \<times> i64" where
  "standing s = (sg_strategy_index s, sg_active_universe_version s, sg_config s, sg_to_oms_queue s, sg_portfolio_seen s,
     sg_portfolio_reconciled s, sg_execution_blocked s, sg_next_strategy_intent_id s, sg_next_signal_id s, ledger s)"

lemma standing_ledger: "standing s' = standing s \<Longrightarrow> ledger s' = ledger s"
  by (simp add: standing_def)

lemma ledger_tally_input [simp]: "ledger (tally_input i f s) = ledger s"
  by (simp add: ledger_def tally_input_def)

lemma released:
  assumes "strategy_ok s" "um_find (sg_active_group_by_id s) gid = Some g"
  shows "unat (sg_pending_capital_ticks s - min (sg_pending_capital_ticks s) (ag_pending_capital_ticks g)) + pending_of g
    = um_total pending_of (sg_active_group_by_id s)"
proof -
  have le: "ag_pending_capital_ticks g \<le> sg_pending_capital_ticks s"
    using um_total_member [OF assms(2), of pending_of] assms(1) by (simp add: strategy_ok_def word_le_nat_alt)
  then have "unat (sg_pending_capital_ticks s - ag_pending_capital_ticks g) = unat (sg_pending_capital_ticks s) - pending_of g"
    by (simp add: unat_sub)
  then show ?thesis using le assms(1) by (simp add: strategy_ok_def word_le_nat_alt min_absorb2)
qed

lemma strategy_ok_replace:
  assumes ok: "strategy_ok s" and g: "um_find (sg_active_group_by_id s) gid = Some g"
    and same: "ag_event_id g' = ag_event_id g"
    and pend: "unat p + pending_of g = unat (sg_pending_capital_ticks s) + pending_of g'"
  shows "strategy_ok (s\<lparr>sg_active_group_by_id := um_assign gid g' (sg_active_group_by_id s), sg_pending_capital_ticks := p\<rparr>)"
proof -
  have "um_total pending_of (um_assign gid g' (sg_active_group_by_id s)) + pending_of g
      = um_total pending_of (sg_active_group_by_id s) + pending_of g'" by (rule um_total_assign [OF g])
  moreover have "groups_match (um_find (sg_active_group_by_event s)) ((um_find (sg_active_group_by_id s))(gid \<mapsto> g'))"
    using ok g same by (intro groups_match_replace) (simp_all add: strategy_ok_def)
  ultimately show ?thesis using ok g pend by (simp add: strategy_ok_def um.find_assign um.wf_assign)
qed

lemma strategy_ok_settle:
  assumes "strategy_ok s" "um_find (sg_active_group_by_id s) (fst entry) = Some (snd entry)"
  shows "strategy_ok (settle_group entry s)"
proof (cases entry)
  case (Pair gid g)
  let ?p = "sg_pending_capital_ticks s - min (sg_pending_capital_ticks s) (ag_pending_capital_ticks g)"
  have g: "um_find (sg_active_group_by_id s) gid = Some g" using assms(2) Pair by simp
  have "unat ?p + pending_of g = unat (sg_pending_capital_ticks s) + pending_of (g\<lparr>ag_pending_capital_ticks := 0\<rparr>)"
    using released [OF assms(1) g] assms(1) by (simp add: strategy_ok_def)
  from strategy_ok_replace [OF assms(1) g _ this]
  have "strategy_ok (settle_group entry s)" if "\<not> ag_admission_pending g" "ag_pending_capital_ticks g > 0"
    by (rule strategy_ok_ledger [rotated]) (use that Pair in \<open>simp_all add: ledger_def settle_group_def release_pending_def\<close>)
  then show ?thesis using assms(1) Pair by (auto simp: settle_group_def)
qed

lemma settle_other:
  "fst entry \<noteq> k \<Longrightarrow> um_find (sg_active_group_by_id (settle_group entry s)) k = um_find (sg_active_group_by_id s) k"
  by (cases entry) (simp add: settle_group_def release_pending_def um.find_assign)

lemma strategy_ok_settle_all:
  assumes "strategy_ok s" "distinct (map fst es)" "\<And>e. e \<in> set es \<Longrightarrow> um_find (sg_active_group_by_id s) (fst e) = Some (snd e)"
  shows "strategy_ok (fold settle_group es s)"
  using assms
proof (induction es arbitrary: s)
  case (Cons e es)
  have "strategy_ok (settle_group e s)" using Cons.prems by (intro strategy_ok_settle) simp_all
  moreover have "um_find (sg_active_group_by_id (settle_group e s)) (fst e') = Some (snd e')" if "e' \<in> set es" for e'
    using Cons.prems(2,3) that by (subst settle_other) force+
  ultimately show ?case using Cons.IH Cons.prems(2) by simp
qed simp

lemma strategy_ok_forget:
  assumes ok: "strategy_ok s" and g: "um_find (sg_active_group_by_id s) gid = Some g"
  shows "strategy_ok (forget_group gid g s)"
proof -
  have wf: "um_wf (sg_active_group_by_id s)" using ok by (simp add: strategy_ok_def)
  have "um_total pending_of (um_erase gid (sg_active_group_by_id s)) + pending_of g = um_total pending_of (sg_active_group_by_id s)"
    by (rule um_total_erase [OF wf g])
  moreover have "groups_match ((um_find (sg_active_group_by_event s))(ag_event_id g := None))
      ((um_find (sg_active_group_by_id s))(gid := None))"
    using ok g by (intro groups_match_erase) (simp_all add: strategy_ok_def)
  ultimately show ?thesis using ok released [OF ok g]
    by (simp add: strategy_ok_def forget_group_def release_pending_def um.find_erase um.wf_erase)
qed

lemma strategy_ok_insert:
  assumes ok: "strategy_ok s" and ev: "um_find (sg_active_group_by_event s) ev = None"
    and gid: "gid = sg_next_group_intent_id s" "gid \<noteq> 0"
    and fits: "unat (sg_pending_capital_ticks s) + unat required < 2 ^ 64"
  shows "strategy_ok (s\<lparr>sg_active_group_by_event := um_assign ev gid (sg_active_group_by_event s),
      sg_active_group_by_id := um_assign gid \<lparr>ag_event_id = ev, ag_pending_capital_ticks = required, ag_admission_pending = True\<rparr>
        (sg_active_group_by_id s),
      sg_pending_capital_ticks := sg_pending_capital_ticks s + required, sg_next_group_intent_id := gid + 1\<rparr>)"
proof -
  let ?g = "\<lparr>ag_event_id = ev, ag_pending_capital_ticks = required, ag_admission_pending = True\<rparr>"
  have new: "um_find (sg_active_group_by_id s) gid = None"
    using ok gid by (cases "um_find (sg_active_group_by_id s) gid") (auto simp: strategy_ok_def)
  have sum: "unat (sg_pending_capital_ticks s + required) = unat (sg_pending_capital_ticks s) + unat required"
    using fits by (subst unat_add_lem [THEN iffD1]) simp_all
  have le: "gid + 1 = 0 \<or> x < gid + 1" if "x \<le> gid" for x
    using that word_less_succ [of gid] by (meson order_le_less_trans)
  have "groups_match ((um_find (sg_active_group_by_event s))(ev \<mapsto> gid)) ((um_find (sg_active_group_by_id s))(gid \<mapsto> ?g))"
    using groups_match_insert [of _ _ ?g gid] ok ev new by (simp add: strategy_ok_def)
  moreover have "gid + 1 = 0 \<or> x < gid + 1" if "um_find (sg_active_group_by_id s) x = Some g" for x g
    using ok that gid by (intro le) (auto simp: strategy_ok_def)
  ultimately show ?thesis
    using ok sum gid le [of gid] new
    by (auto simp: strategy_ok_def um.find_assign um.wf_assign um_total_assign_new)
qed

lemma strategy_ok_bump:
  "strategy_ok s \<Longrightarrow> ledger s' = (sg_active_group_by_event s, sg_active_group_by_id s, sg_next_group_intent_id s + 1,
     sg_pending_capital_ticks s, sg_available_capital_ticks s) \<Longrightarrow> sg_next_group_intent_id s \<noteq> 0 \<Longrightarrow> strategy_ok s'"
  using word_less_succ [of "sg_next_group_intent_id s"] unfolding strategy_ok_def ledger_def by (auto dest: order.strict_trans)

section \<open>Publication\<close>

lemma capital_fits:
  assumes "\<not> (pending > to_u64 (max 0 available) \<or> required > to_u64 (max 0 available) - pending)" "available \<le> i64_max"
  shows "int (unat pending) + int (unat required) \<le> max 0 available"
proof -
  have a: "uint (to_u64 (max 0 available)) = max 0 available" using assms(2) by (simp add: uint_word_of_int max_def)
  have p: "pending \<le> to_u64 (max 0 available)" using assms(1) by (simp add: not_less)
  have "unat (to_u64 (max 0 available) - pending) = unat (to_u64 (max 0 available)) - unat pending" using p by (rule unat_sub)
  moreover have "unat required \<le> unat (to_u64 (max 0 available) - pending)" using assms(1) by (simp add: word_le_nat_alt not_less)
  moreover have "unat pending \<le> unat (to_u64 (max 0 available))" using p by (simp add: word_le_nat_alt)
  ultimately have "int (unat pending) + int (unat required) \<le> int (unat (to_u64 (max 0 available)))" by linarith
  then show ?thesis using a by simp
qed

text \<open>A candidate is suppressed, or an intent is made and offered to the order manager.\<close>

lemma make_group_intent_cases:
  assumes "make_group_intent candidate dequeue_ts evaluation_ts ts s = (s', r)"
  obtains (exhausted) "r = None" "s' = s"
    | (made) i where "r = Some i" "\<not> identity_exhausted candidate s" "ic_group_intent_id (goi_context i) = sg_next_group_intent_id s"
        "s' = s\<lparr>sg_next_group_intent_id := sg_next_group_intent_id s + 1, sg_next_signal_id := sg_next_signal_id s + 1,
           sg_next_strategy_intent_id := sg_next_strategy_intent_id s + 2\<rparr>"
  using assms by (cases "identity_exhausted candidate s") (auto simp: make_group_intent_def group_intent_context_def Let_def)

lemma ledger_suppress: "ledger (fst (suppress a b c s)) = ledger s" "spr_published_intent (snd (suppress a b c s)) = None"
  by (simp_all add: suppress_def empty_result_def ledger_def)

lemma ledger_now: "ledger (snd (strategy_now_ns s)) = ledger s"
  by (simp add: strategy_now_ns_def ledger_def)

lemma publish_candidate_cases:
  assumes "publish_candidate source candidate dequeue_ts evaluation_ts s = (s', r)"
  obtains (suppressed) "ledger s' = ledger s" "spr_published_intent r = None"
    | (offered) required i s2 where "required_capital_ticks candidate = Some required" "sg_portfolio_seen s" "sg_portfolio_reconciled s"
        "\<not> (sg_pending_capital_ticks s > to_u64 (max 0 (sg_available_capital_ticks s))
          \<or> required > to_u64 (max 0 (sg_available_capital_ticks s)) - sg_pending_capital_ticks s)"
        "make_group_intent candidate dequeue_ts evaluation_ts (sg_clock s 0) (snd (strategy_now_ns s)) = (s2, Some i)"
        "send_intent source candidate required i s2 = (s', r)"
proof -
  have sup: thesis if "suppress a b c t = (s', r)" "ledger t = ledger s" for a b c t
    using suppressed that ledger_suppress [of a b c t] by simp
  obtain ts where now: "strategy_now_ns s = (sg_clock s 0, ts)" by (simp add: strategy_now_ns_def)
  obtain s2 mi where mg: "make_group_intent candidate dequeue_ts evaluation_ts (sg_clock s 0) ts = (s2, mi)" by fastforce
  have "ledger (s2\<lparr>sg_execution_blocked := True\<rparr>) = ledger s" if "mi = None"
    using that mg ledger_now [of s] now by (cases rule: make_group_intent_cases [OF mg]) (simp_all add: ledger_def)
  then show thesis using assms sup offered unfolding publish_candidate_def Let_def now
    by (simp add: now mg split: option.splits if_splits)
qed

text \<open>The state in which the intent was made, and everything that held when it was published.\<close>

lemma published_candidate:
  assumes "publish_candidate source candidate dequeue_ts evaluation_ts s = (s', r)" "spr_published_intent r = Some intent"
  obtains required where "required_capital_ticks candidate = Some required" "sg_portfolio_seen s" "sg_portfolio_reconciled s"
    "\<not> (sg_pending_capital_ticks s > to_u64 (max 0 (sg_available_capital_ticks s))
       \<or> required > to_u64 (max 0 (sg_available_capital_ticks s)) - sg_pending_capital_ticks s)"
    "\<not> identity_exhausted candidate s"
    "make_group_intent candidate dequeue_ts evaluation_ts (sg_clock s 0) (snd (strategy_now_ns s))
       = (snd (strategy_now_ns s)\<lparr>sg_next_group_intent_id := sg_next_group_intent_id s + 1, sg_next_signal_id := sg_next_signal_id s + 1,
            sg_next_strategy_intent_id := sg_next_strategy_intent_id s + 2\<rparr>, Some intent)"
    "bq_items (sg_to_oms_queue s') = bq_items (sg_to_oms_queue s) @ [IntentGroupOrder intent]"
    "ledger s' = (um_assign (mca_event_id candidate) (sg_next_group_intent_id s) (sg_active_group_by_event s),
       um_assign (sg_next_group_intent_id s) \<lparr>ag_event_id = mca_event_id candidate, ag_pending_capital_ticks = required,
         ag_admission_pending = True\<rparr> (sg_active_group_by_id s),
       sg_next_group_intent_id s + 1, sg_pending_capital_ticks s + required, sg_available_capital_ticks s)"
  using assms(1)
proof (cases rule: publish_candidate_cases)
  case (offered required i s2)
  let ?n = "snd (strategy_now_ns s)"
  have same: "sg_next_group_intent_id ?n = sg_next_group_intent_id s" "sg_next_signal_id ?n = sg_next_signal_id s"
    "sg_next_strategy_intent_id ?n = sg_next_strategy_intent_id s" "sg_active_group_by_event ?n = sg_active_group_by_event s"
    "sg_active_group_by_id ?n = sg_active_group_by_id s" "sg_pending_capital_ticks ?n = sg_pending_capital_ticks s"
    "sg_to_oms_queue ?n = sg_to_oms_queue s" "sg_available_capital_ticks ?n = sg_available_capital_ticks s"
    "identity_exhausted candidate ?n = identity_exhausted candidate s"
    by (simp_all add: strategy_now_ns_def identity_exhausted_def)
  have made: "\<not> identity_exhausted candidate s" "ic_group_intent_id (goi_context i) = sg_next_group_intent_id s"
    "s2 = ?n\<lparr>sg_next_group_intent_id := sg_next_group_intent_id s + 1, sg_next_signal_id := sg_next_signal_id s + 1,
       sg_next_strategy_intent_id := sg_next_strategy_intent_id s + 2\<rparr>"
    using offered(5) by (cases rule: make_group_intent_cases; simp add: same)+
  show thesis
  proof (cases rule: bq_push_cases [of "IntentGroupOrder i" "sg_to_oms_queue s2"])
    case sent
    with offered(6) assms(2) have "intent = i" by (auto simp: send_intent_def Let_def)
    moreover have "bq_items (sg_to_oms_queue s') = bq_items (sg_to_oms_queue s) @ [IntentGroupOrder i]"
      "ledger s' = (um_assign (mca_event_id candidate) (sg_next_group_intent_id s) (sg_active_group_by_event s),
         um_assign (sg_next_group_intent_id s) \<lparr>ag_event_id = mca_event_id candidate, ag_pending_capital_ticks = required,
           ag_admission_pending = True\<rparr> (sg_active_group_by_id s),
         sg_next_group_intent_id s + 1, sg_pending_capital_ticks s + required, sg_available_capital_ticks s)"
      using offered(6) sent same made(2,3) by (auto simp: send_intent_def Let_def ledger_def)
    ultimately show thesis using that [OF offered(1-4) made(1)] offered(5) made(3) by simp
  next
    case full
    with offered(6) assms(2) show thesis by (auto simp: send_intent_def empty_result_def Let_def)
  qed
qed (use assms(2) in simp)

lemma publish_candidate_ledger:
  assumes "publish_candidate source candidate dequeue_ts evaluation_ts s = (s', r)" "spr_published_intent r = None"
  shows "ledger s' = ledger s \<or> sg_next_group_intent_id s \<noteq> 0 \<and> ledger s' = (sg_active_group_by_event s, sg_active_group_by_id s,
     sg_next_group_intent_id s + 1, sg_pending_capital_ticks s, sg_available_capital_ticks s)"
  using assms(1)
proof (cases rule: publish_candidate_cases)
  case (offered required i s2)
  show ?thesis
  proof (cases rule: bq_push_cases [of "IntentGroupOrder i" "sg_to_oms_queue s2"])
    case full
    have same: "ledger s' = ledger s2" using full offered(6) by (auto simp: send_intent_def ledger_def Let_def)
    show ?thesis unfolding same using offered(5)
      by (cases rule: make_group_intent_cases) (simp_all add: ledger_def identity_exhausted_def strategy_now_ns_def)
  qed (use offered(6) assms(2) in \<open>auto simp: send_intent_def Let_def\<close>)
qed simp

lemma strategy_ok_publish:
  assumes "strategy_ok s" "um_find (sg_active_group_by_event s) (mca_event_id candidate) = None"
  shows "strategy_ok (fst (publish_candidate source candidate dequeue_ts evaluation_ts s))"
proof -
  obtain s' r where run: "publish_candidate source candidate dequeue_ts evaluation_ts s = (s', r)" by fastforce
  show ?thesis
  proof (cases "spr_published_intent r")
    case None
    from publish_candidate_ledger [OF run None] show ?thesis
      unfolding run fst_conv by (elim disjE conjE) (erule strategy_ok_ledger strategy_ok_bump [OF assms(1)], use assms(1) in simp)+
  next
    case (Some intent)
    from published_candidate [OF run Some] obtain required where 1: "\<not> identity_exhausted candidate s"
      "\<not> (sg_pending_capital_ticks s > to_u64 (max 0 (sg_available_capital_ticks s))
       \<or> required > to_u64 (max 0 (sg_available_capital_ticks s)) - sg_pending_capital_ticks s)"
      "ledger s' = (um_assign (mca_event_id candidate) (sg_next_group_intent_id s) (sg_active_group_by_event s),
       um_assign (sg_next_group_intent_id s) \<lparr>ag_event_id = mca_event_id candidate, ag_pending_capital_ticks = required,
         ag_admission_pending = True\<rparr> (sg_active_group_by_id s),
       sg_next_group_intent_id s + 1, sg_pending_capital_ticks s + required, sg_available_capital_ticks s)" by metis
    have av: "sg_available_capital_ticks s \<le> i64_max" using assms(1) by (simp add: strategy_ok_def)
    have fits: "unat (sg_pending_capital_ticks s) + unat required < 2 ^ 64"
    proof -
      have "max 0 (sg_available_capital_ticks s) \<le> i64_max" using av by simp
      then have "unat (sg_pending_capital_ticks s) + unat required < 18446744073709551616"
        using capital_fits [OF 1(2) av] by linarith
      then show ?thesis by simp
    qed
    have id: "sg_next_group_intent_id s \<noteq> 0" using 1(1) by (simp add: identity_exhausted_def)
    from strategy_ok_insert [OF assms(1,2) refl id fits] show ?thesis
      unfolding run fst_conv by (rule strategy_ok_ledger [rotated]) (simp add: 1(3), simp add: ledger_def)
  qed
qed

section \<open>Handlers\<close>

lemma handle_observation_cases:
  obtains (rejected) s1 source reason where "handle_observation i obs d s = reject_input i source reason s1" "ledger s1 = ledger s"
  | (suppressed) s1 source reason where "handle_observation i obs d s = suppress source None reason s1" "ledger s1 = ledger s"
  | (evaluated) s1 where "handle_observation i obs d s = evaluate_observation obs d s1" "standing s1 = standing s"
      "sg_clock s1 = sg_clock s" "\<not> sg_execution_blocked s"
      "um_find (sg_active_group_by_event s) (mpo_event_id obs) = None"
      "valid_observation_times obs d" "mpo_universe_version obs = sg_active_universe_version s"
proof -
  define s1 where "s1 = tally (\<lambda>t. t\<lparr>sts_shard_to_strategy_latency :=
                   record_elapsed_ns (mpo_publish_timestamp_ns obs) d (sts_shard_to_strategy_latency t)\<rparr>)
                 (tally_input i (\<lambda>t. t\<lparr>sis_observations_seen := sis_observations_seen t + 1,
                    sis_shard_to_strategy_latency :=
                      record_elapsed_ns (mpo_publish_timestamp_ns obs) d (sis_shard_to_strategy_latency t),
                    sis_ingress_to_strategy_latency :=
                      record_elapsed_ns (mpo_ingress_timestamp_ns obs) d (sis_ingress_to_strategy_latency t)\<rparr>) s)"
  have l: "standing s1 = standing s" "sg_clock s1 = sg_clock s"
    by (simp_all add: s1_def standing_def ledger_def tally_input_def)
  show thesis
  proof (cases "message_matches_input i (mpo_shard_index obs) (mpo_universe_version obs) s")
    case (Some reason)
    then show ?thesis by (intro rejected [of _ reason s]) (simp_all add: handle_observation_def Let_def)
  next
    case None
    then have v: "mpo_universe_version obs = sg_active_universe_version s" by (simp add: message_matches_input_def split: if_splits)
    have "handle_observation i obs d s =
     (if \<not> valid_observation_times obs d then reject_input i (mpo_shard_index obs) SMR_kINVALID_TIMESTAMP_ORDER s1
      else if d - mpo_publish_timestamp_ns obs > msc_maximum_observation_age_ns (sg_config s1)
      then reject_input i (mpo_shard_index obs) SMR_kOBSERVATION_TOO_OLD (tally (\<lambda>t. t\<lparr>sts_stale_observations := sts_stale_observations t + 1\<rparr>) s1)
      else if (case um_find (sg_unavailable_event_revision s1) (mpo_event_id obs) of
                 Some revision \<Rightarrow> mpo_event_revision obs \<le> revision | None \<Rightarrow> False)
      then reject_input i (mpo_shard_index obs) SMR_kNON_MONOTONIC_EVENT_REVISION s1
      else if (case um_find (sg_last_pair_revision s1) (smv_market_id (mpo_easier obs)) of
                 Some revision \<Rightarrow> mpo_event_revision obs \<le> revision | None \<Rightarrow> False)
      then reject_input i (mpo_shard_index obs) SMR_kNON_MONOTONIC_EVENT_REVISION s1
      else let s2 = s1\<lparr>sg_last_pair_revision := um_assign (smv_market_id (mpo_easier obs)) (mpo_event_revision obs)
                        (sg_last_pair_revision s1)\<rparr>
      in if sg_execution_blocked s2 then suppress (mpo_shard_index obs) None SSR_kEXECUTION_BLOCKED s2
      else if um_find (sg_active_group_by_event s2) (mpo_event_id obs) \<noteq> None
      then suppress (mpo_shard_index obs) None SSR_kEVENT_GROUP_ACTIVE s2
      else evaluate_observation obs d s2)"
      using None by (simp only: handle_observation_def s1_def Let_def option.case)
    then show ?thesis using l v
      by (auto simp: Let_def standing_def ledger_def split: if_splits intro: rejected suppressed evaluated)
  qed
qed

lemma candidate_event: "evaluate_monotonic_arb c obs now = Inr cand \<Longrightarrow> mca_event_id cand = mpo_event_id obs"
  by (auto simp: evaluate_monotonic_arb_def make_candidate_def Let_def split: if_splits sum.splits)

text \<open>An evaluation either leaves the ledger alone or hands its candidate to \<open>publish_candidate\<close>.\<close>

lemma evaluate_observation_cases:
  obtains (refused) s1 where "fst (evaluate_observation obs d s) = s1" "ledger s1 = ledger s"
      "spr_published_intent (snd (evaluate_observation obs d s)) = None"
  | (found) s1 cand where
      "evaluate_observation obs d s = publish_candidate (mpo_shard_index obs) cand d (sg_clock s 1) s1"
      "evaluate_monotonic_arb (msc_arb_config (sg_config s)) obs (sg_wall_clock s 0) = Inr cand"
      "standing s1 = standing s" "sg_clock s1 = (\<lambda>n. sg_clock s (n + 2))"
proof (cases "evaluate_monotonic_arb (msc_arb_config (sg_config s)) obs (sg_wall_clock s 0)")
  case (Inl reason)
  show ?thesis
    by (rule refused [OF refl])
      (simp_all add: evaluate_observation_def strategy_now_ns_def wall_clock_now_s_def Let_def Inl ledger_def empty_result_def)
next
  case (Inr cand)
  show ?thesis
    by (rule found [of cand "tally (\<lambda>t. t\<lparr>sts_candidates_found := sts_candidates_found t + 1\<rparr>)
       (tally (\<lambda>t. t\<lparr>sts_observations_evaluated := sts_observations_evaluated t + 1,
                 sts_evaluation_latency := record_elapsed_ns (sg_clock s 0) (sg_clock s 1) (sts_evaluation_latency t),
                 sts_ingress_to_evaluation_latency := record_elapsed_ns (mpo_ingress_timestamp_ns obs) (sg_clock s 1)
                   (sts_ingress_to_evaluation_latency t)\<rparr>)
         (s\<lparr>sg_wall_clock := (\<lambda>n. sg_wall_clock s (Suc n)), sg_clock := (\<lambda>n. sg_clock s (n + 2))\<rparr>))"])
      (simp_all add: evaluate_observation_def strategy_now_ns_def wall_clock_now_s_def Let_def Inr standing_def ledger_def)
qed

lemma strategy_ok_evaluate:
  assumes "strategy_ok s" "um_find (sg_active_group_by_event s) (mpo_event_id obs) = None"
  shows "strategy_ok (fst (evaluate_observation obs d s))"
proof (cases rule: evaluate_observation_cases [of obs d s])
  case (refused s1)
  then show ?thesis using strategy_ok_ledger [OF refused(2) assms(1)] by simp
next
  case (found s1 cand)
  have "um_find (sg_active_group_by_event s1) (mca_event_id cand) = None"
    using found(3) assms(2) candidate_event [OF found(2)] by (simp add: standing_def ledger_def)
  then show ?thesis using strategy_ok_publish [OF strategy_ok_ledger [OF standing_ledger [OF found(3)] assms(1)]] found(1) by simp
qed

lemma strategy_ok_observation:
  assumes "strategy_ok s"
  shows "strategy_ok (fst (handle_observation i obs d s))"
proof (cases rule: handle_observation_cases [of i obs d s])
  case (rejected s1 source reason)
  have "ledger (fst (reject_input i source reason s1)) = ledger s1" by (simp add: reject_input_def) (simp add: ledger_def)
  then show ?thesis using rejected strategy_ok_ledger assms by metis
next
  case (suppressed s1 source reason)
  have "ledger (fst (suppress source None reason s1)) = ledger s1" by (simp add: suppress_def ledger_def)
  then show ?thesis using suppressed strategy_ok_ledger assms by metis
next
  case (evaluated s1)
  have "um_find (sg_active_group_by_event s1) (mpo_event_id obs) = None" using evaluated(2,5) by (simp add: standing_def ledger_def)
  then show ?thesis using strategy_ok_evaluate [OF strategy_ok_ledger [OF standing_ledger [OF evaluated(2)] assms]] evaluated(1) by simp
qed

lemma strategy_ok_dispatch:
  assumes "strategy_ok s"
  shows "strategy_ok (fst (dispatch_message i message d s))"
proof -
  define s1 where "s1 = tally_input i (\<lambda>t. t\<lparr>sis_messages_seen := sis_messages_seen t + 1\<rparr>)
                 (tally (\<lambda>t. t\<lparr>sts_messages_seen := sts_messages_seen t + 1\<rparr>) s)"
  have l: "ledger s1 = ledger s" by (simp add: s1_def) (simp add: ledger_def)
  have 1: "strategy_ok s1" using strategy_ok_ledger [OF l assms] .
  have other: "ledger (fst (handle_event_unavailable i m s1)) = ledger s1" "ledger (fst (handle_shard_unavailable i m' s1)) = ledger s1" for m m'
    by (simp_all add: handle_event_unavailable_def handle_shard_unavailable_def reject_input_def ledger_def tally_input_def
        Let_def split: option.split)
  show ?thesis
    using strategy_ok_observation [OF 1] strategy_ok_ledger [OF other(1) 1] strategy_ok_ledger [OF other(2) 1]
    by (cases message) (simp_all add: dispatch_message_def Let_def s1_def [symmetric])
qed

text \<open>The capital figure of a message fits \<open>std::int64_t\<close>.\<close>

fun message_ok :: "oms_to_strategy_message \<Rightarrow> bool" where
  "message_ok (MsgStrategyPortfolioUpdate u) = (spu_available_capital_ticks u \<le> i64_max)"
| "message_ok _ = True"

lemma strategy_ok_oms_message:
  assumes "strategy_ok s" "message_ok message"
  shows "strategy_ok (fst (handle_oms_message message s))"
proof -
  define s1 where "s1 = tally (\<lambda>t. t\<lparr>sts_oms_messages_seen := sts_oms_messages_seen t + 1\<rparr>) s"
  have ok: "strategy_ok s1" using assms(1) by (rule strategy_ok_ledger [rotated]) (simp add: s1_def ledger_def)
  have reject: "strategy_ok (fst (reject_oms_message reason s1))" for reason
    using ok by (rule strategy_ok_ledger [rotated]) (simp add: reject_oms_message_def ledger_def)
  have portfolio: "strategy_ok (fst (on_portfolio_update u s1))" if "spu_available_capital_ticks u \<le> i64_max" for u
  proof -
    let ?s = "s1\<lparr>sg_last_portfolio_sequence := spu_sequence u, sg_portfolio_seen := True,
                 sg_portfolio_reconciled := spu_venue_portfolio_reconciled u,
                 sg_available_capital_ticks := spu_available_capital_ticks u\<rparr>"
    have s: "strategy_ok ?s" using ok that by (simp add: strategy_ok_def)
    then have wf: "um_wf (sg_active_group_by_id s1)" by (simp add: strategy_ok_def)
    have "strategy_ok (fold settle_group (sg_active_group_by_id ?s) ?s)"
      using wf by (intro strategy_ok_settle_all s) (auto simp: um_wf_def um_find_eq)
    then show ?thesis using reject by (simp add: on_portfolio_update_def)
  qed
  have position: "strategy_ok (fst (on_market_position_update u s1))" for u
    using reject ok by (auto simp: on_market_position_update_def strategy_ok_def)
  have tallied: "strategy_ok (s'\<lparr>sg_stats := t\<rparr>) \<longleftrightarrow> strategy_ok s'" for t s' by (simp add: strategy_ok_def)
  have admission: "strategy_ok (fst (on_group_admission u s1))" for u
    using reject ok strategy_ok_forget [OF ok] strategy_ok_replace [OF ok, of _ _ _ "sg_pending_capital_ticks s1"]
    by (auto simp: on_group_admission_def Let_def tallied split: option.split)
  have group_state: "strategy_ok (fst (on_group_state u s1))" for u
    using reject ok strategy_ok_forget [OF ok]
    by (auto simp: on_group_state_def Let_def tallied strategy_ok_def split: option.split)
  have order: "strategy_ok (fst (on_order_message c s1))" for c using reject ok by (simp add: on_order_message_def)
  show ?thesis
    using portfolio position admission group_state order assms(2)
    by (cases message) (simp_all add: handle_oms_message_def s1_def [symmetric] Let_def)
qed

section \<open>The strategy in its environment\<close>

text \<open>No handler puts anything into the queue it reads from the order manager.\<close>

lemma publish_from_oms: "sg_from_oms_queue (fst (publish_candidate source cand d e s)) = sg_from_oms_queue s"
  by (simp add: publish_candidate_def send_intent_def suppress_def make_group_intent_def strategy_now_ns_def Let_def case_prod_beta
      split: option.split)

lemma evaluate_from_oms: "sg_from_oms_queue (fst (evaluate_observation obs d s)) = sg_from_oms_queue s"
  by (simp add: evaluate_observation_def strategy_now_ns_def wall_clock_now_s_def publish_from_oms Let_def split: sum.split)

lemma dispatch_from_oms: "sg_from_oms_queue (fst (dispatch_message i message d s)) = sg_from_oms_queue s"
proof -
  have "sg_from_oms_queue (fst (handle_observation i obs d s)) = sg_from_oms_queue s" for obs s
    by (simp add: handle_observation_def reject_input_def suppress_def tally_input_def evaluate_from_oms Let_def split: option.split)
  then show ?thesis
    by (simp add: dispatch_message_def handle_event_unavailable_def handle_shard_unavailable_def reject_input_def tally_input_def
        Let_def split: shard_to_strategy_message.split option.split)
qed

lemma settle_from_oms: "sg_from_oms_queue (fold settle_group es s) = sg_from_oms_queue s"
  by (induction es arbitrary: s) (simp_all add: settle_group_def release_pending_def split: prod.split)

lemma oms_message_from_oms: "sg_from_oms_queue (fst (handle_oms_message message s)) = sg_from_oms_queue s"
  by (cases message) (simp_all add: handle_oms_message_def on_portfolio_update_def on_market_position_update_def on_group_admission_def
      on_group_state_def on_order_message_def reject_oms_message_def forget_group_def release_pending_def settle_from_oms Let_def
      split: option.split)

lemma settle_clock: "sg_clock (fold settle_group es s) = sg_clock s"
  by (induction es arbitrary: s) (simp_all add: settle_group_def release_pending_def split: prod.split)

lemma oms_message_clock: "sg_clock (fst (handle_oms_message message s)) = sg_clock s"
  by (cases message) (simp_all add: handle_oms_message_def on_portfolio_update_def on_market_position_update_def on_group_admission_def
      on_group_state_def on_order_message_def reject_oms_message_def forget_group_def release_pending_def settle_clock Let_def
      split: option.split)

text \<open>What a pump does with the shards: nothing, or it dispatches one message.\<close>

lemma pump_inputs_cases:
  obtains (idle) "pump_inputs is s = (s, empty_result)"
  | (dispatched) i message s1 where "pump_inputs is s = dispatch_message i message (sg_clock s 0) s1" "i \<in> set is"
      "standing s1 = standing s" "sg_from_oms_queue s1 = sg_from_oms_queue s" "sg_clock s1 = (\<lambda>n. sg_clock s (Suc n))"
proof (induction "is" arbitrary: thesis)
  case Nil
  then show ?case by simp
next
  case (Cons i "is")
  obtain q m where pop: "bq_pop (ssi_queue (sg_shard_inputs s ! i)) = (q, m)" by fastforce
  show ?case
  proof (cases m)
    case None
    then have eq: "pump_inputs (i # is) s = pump_inputs is s" using pop by simp
    show ?thesis
    proof (rule Cons.IH)
      assume "pump_inputs is s = (s, empty_result)"
      then show thesis using Cons.prems(1) eq by simp
    next
      fix j message s1
      assume "pump_inputs is s = dispatch_message j message (sg_clock s 0) s1" "j \<in> set is"
        and "standing s1 = standing s" "sg_from_oms_queue s1 = sg_from_oms_queue s" "sg_clock s1 = (\<lambda>n. sg_clock s (Suc n))"
      then show thesis using Cons.prems(2) [of j message s1] eq by simp
    qed
  next
    case (Some message)
    show ?thesis
      by (rule Cons.prems(2) [of i message "s\<lparr>sg_shard_inputs := (sg_shard_inputs s)[i := (sg_shard_inputs s ! i)\<lparr>ssi_queue := q\<rparr>],
             sg_next_input_index := (i + 1) mod length (sg_shard_inputs s), sg_clock := (\<lambda>n. sg_clock s (Suc n))\<rparr>"])
        (simp_all add: pop Some strategy_now_ns_def Let_def standing_def ledger_def)
  qed
qed

datatype strategy_op =
    SOp_pump
  | SOp_oms_message oms_to_strategy_message
  | SOp_shard_message nat shard_to_strategy_message
  | SOp_take_intent

fun strategy_step :: "strategy_op \<Rightarrow> strategy \<Rightarrow> strategy" where
  "strategy_step SOp_pump s = fst (strategy_pump_once s)"
| "strategy_step (SOp_oms_message m) s = s\<lparr>sg_from_oms_queue := fst (bq_push m (sg_from_oms_queue s))\<rparr>"
| "strategy_step (SOp_shard_message i m) s = s\<lparr>sg_shard_inputs := (sg_shard_inputs s)[i :=
     (sg_shard_inputs s ! i)\<lparr>ssi_queue := fst (bq_push m (ssi_queue (sg_shard_inputs s ! i)))\<rparr>]\<rparr>"
| "strategy_step SOp_take_intent s = s\<lparr>sg_to_oms_queue := fst (bq_pop (sg_to_oms_queue s))\<rparr>"

fun strategy_op_ok :: "strategy_op \<Rightarrow> bool" where
  "strategy_op_ok (SOp_oms_message m) = message_ok m"
| "strategy_op_ok _ = True"

definition strategy_inv :: "strategy \<Rightarrow> bool" where
  "strategy_inv s \<longleftrightarrow> strategy_ok s \<and> list_all message_ok (bq_items (sg_from_oms_queue s))"

lemma strategy_inv_pump:
  assumes "strategy_inv s"
  shows "strategy_inv (fst (strategy_pump_once s))"
proof (cases "bq_items (sg_from_oms_queue s)")
  case Nil
  let ?is = "map (\<lambda>offset. (sg_next_input_index s + offset) mod length (sg_shard_inputs s)) [0..<length (sg_shard_inputs s)]"
  have eq: "strategy_pump_once s = pump_inputs ?is s" using Nil by (simp add: strategy_pump_once_def bq_pop_def Let_def)
  show ?thesis
  proof (cases rule: pump_inputs_cases [of ?is s])
    case idle
    then show ?thesis using assms eq by simp
  next
    case (dispatched i message s1)
    have "strategy_ok s1" using strategy_ok_ledger [OF standing_ledger [OF dispatched(3)]] assms by (simp add: strategy_inv_def)
    then show ?thesis using strategy_ok_dispatch dispatched(1,4) assms eq by (simp add: strategy_inv_def dispatch_from_oms)
  qed
next
  case (Cons m ms)
  let ?s = "s\<lparr>sg_from_oms_queue := (sg_from_oms_queue s)\<lparr>bq_items := ms\<rparr>\<rparr>"
  have "strategy_ok ?s" using assms strategy_ok_ledger [of ?s s] by (simp add: strategy_inv_def ledger_def)
  then have "strategy_ok (fst (handle_oms_message m ?s))" using assms Cons by (intro strategy_ok_oms_message) (simp_all add: strategy_inv_def)
  then show ?thesis using assms Cons by (simp add: strategy_pump_once_def bq_pop_def strategy_inv_def oms_message_from_oms)
qed

interpretation strategy_machine: guarded_machine strategy_step strategy_inv strategy_op_ok
proof
  fix s op
  assume inv: "strategy_inv s" and ok: "strategy_op_ok op"
  show "strategy_inv (strategy_step op s)"
  proof (cases op)
    case SOp_pump
    then show ?thesis using strategy_inv_pump [OF inv] by simp
  next
    case (SOp_oms_message m)
    have "strategy_ok (strategy_step op s)" using inv strategy_ok_ledger [of "strategy_step op s" s] SOp_oms_message by (simp add: strategy_inv_def ledger_def)
    then show ?thesis using inv ok SOp_oms_message by (simp add: strategy_inv_def bq_push_def)
  next
    case (SOp_shard_message i m)
    then show ?thesis using inv strategy_ok_ledger [of "strategy_step op s" s] by (simp add: strategy_inv_def ledger_def)
  next
    case SOp_take_intent
    then show ?thesis using inv strategy_ok_ledger [of "strategy_step op s" s] by (simp add: strategy_inv_def ledger_def)
  qed
qed

lemma make_strategy_inv:
  assumes "make_strategy index version config inputs to_oms from_oms clock wall = Inr s" "list_all message_ok (bq_items (the from_oms))"
  shows "strategy_inv s"
  using assms by (auto simp: make_strategy_def strategy_inv_def strategy_ok_def groups_match_def um.find_empty um.wf_empty split: if_splits)

section \<open>An example\<close>

definition demo_portfolio :: "i64 \<Rightarrow> strategy_portfolio_update" where
  "demo_portfolio available = \<lparr>spu_strategy_index = 0, spu_sequence = 1, spu_allocation_limit_ticks = 50000,
     spu_available_capital_ticks = available, spu_reserved_order_capital_ticks = 0, spu_inventory_exposure_ticks = 0,
     spu_realized_pnl_ticks = 0, spu_fees_paid_ticks = 0, spu_venue_available_balance_ticks = 0,
     spu_venue_portfolio_reconciled = True, spu_open_order_count = 0, spu_active_group_count = 0, spu_update_ts_ns = 5\<rparr>"

definition demo_strategy :: "string + strategy" where
  "demo_strategy = make_strategy 0 1 \<lparr>msc_strategy_id = 1, msc_arb_config = demo_arb_config, msc_maximum_observation_age_ns = 100\<rparr>
     [(0, Some \<lparr>bq_capacity = 4, bq_items = []\<rparr>)] (Some \<lparr>bq_capacity = 4, bq_items = []\<rparr>) (Some \<lparr>bq_capacity = 4, bq_items = []\<rparr>)
     (\<lambda>_. 10) (\<lambda>_. 20)"

definition demo_strategy_ops :: "strategy_op list" where
  "demo_strategy_ops = [SOp_oms_message (MsgStrategyPortfolioUpdate (demo_portfolio 50000)), SOp_pump,
     SOp_shard_message 0 (SmObservation demo_observation)]"

definition demo_strategy_ready :: strategy where
  "demo_strategy_ready = fold strategy_step demo_strategy_ops (projr demo_strategy)"

lemma demo_strategy_made: "demo_strategy = Inr (projr demo_strategy)"
proof -
  have "\<not> isl demo_strategy" by code_simp
  then show ?thesis by simp
qed

lemma demo_strategy_ops_ok: "list_all strategy_op_ok demo_strategy_ops"
  by (simp add: demo_strategy_ops_def demo_portfolio_def)

lemma demo_strategy_ready_inv: "strategy_inv demo_strategy_ready"
  using make_strategy_inv [OF demo_strategy_made [unfolded demo_strategy_def]]
    strategy_machine.run_invar [OF _ demo_strategy_ops_ok]
  by (simp add: demo_strategy_ready_def demo_strategy_def)

lemma demo_run:
  "(let s = demo_strategy_ready; r = strategy_pump_once s in
     (spr_published_intent (snd r) \<noteq> None, unat (sg_pending_capital_ticks (fst r)), unat (sg_pending_capital_ticks s)))
   = (True, 40000, 0)"
  by code_simp

lemma demo_published:
  "spr_published_intent (snd (strategy_pump_once demo_strategy_ready)) \<noteq> None"
  "unat (sg_pending_capital_ticks (fst (strategy_pump_once demo_strategy_ready))) = 40000"
  "unat (sg_pending_capital_ticks demo_strategy_ready) = 0"
  using demo_run by (simp_all add: Let_def)

lemma demo_strategy_clock: "sg_clock demo_strategy_ready n = 10"
proof -
  have "sg_clock (projr demo_strategy) n = 10" by (simp add: demo_strategy_def make_strategy_def demo_arb_valid)
  moreover have "bq_items (sg_from_oms_queue (projr demo_strategy)) = []" "bq_capacity (sg_from_oms_queue (projr demo_strategy)) = 4"
    by (simp_all add: demo_strategy_def make_strategy_def demo_arb_valid)
  ultimately show ?thesis
    by (simp add: demo_strategy_ready_def demo_strategy_ops_def strategy_pump_once_def bq_push_def bq_pop_def oms_message_clock)
qed

section \<open>Properties\<close>

text \<open>C23. Over any run from a new strategy, whatever the shards and the order manager send, the two maps of groups are
  inverse to each other, so an event has at most one group under way, and the pending capital is exactly the
  sum over the groups; no counter wraps.\<close>

theorem strategy_ledger_consistent:
  assumes "make_strategy index version config inputs to_oms from_oms clock wall = Inr s0"
    "list_all message_ok (bq_items (the from_oms))" "list_all strategy_op_ok ops" "s = fold strategy_step ops s0"
  shows "(\<forall>ev gid. um_find (sg_active_group_by_event s) ev = Some gid \<longleftrightarrow>
      (\<exists>g. um_find (sg_active_group_by_id s) gid = Some g \<and> ag_event_id g = ev))
    \<and> unat (sg_pending_capital_ticks s) = (\<Sum>(gid, g)\<leftarrow>sg_active_group_by_id s. unat (ag_pending_capital_ticks g))"
proof -
  have "strategy_ok s" using strategy_machine.run_invar [OF make_strategy_inv [OF assms(1,2)] assms(3)] assms(4) by (simp add: strategy_inv_def)
  then show ?thesis by (simp add: strategy_ok_def groups_match_def um_total_def comp_def case_prod_unfold)
qed

text \<open>Everything that holds when a pump publishes an intent.\<close>

lemma pump_published:
  assumes "strategy_pump_once s = (s', r)" "spr_published_intent r = Some intent"
  obtains obs cand wall s1 where "evaluate_monotonic_arb (msc_arb_config (sg_config s)) obs wall = Inr cand"
    "standing s1 = standing s" "sg_clock s1 = (\<lambda>n. sg_clock s (n + 3))" "valid_observation_times obs (sg_clock s 0)"
    "mpo_universe_version obs = sg_active_universe_version s" "\<not> sg_execution_blocked s"
    "um_find (sg_active_group_by_event s) (mca_event_id cand) = None"
    "publish_candidate (mpo_shard_index obs) cand (sg_clock s 0) (sg_clock s 2) s1 = (s', r)"
proof -
  let ?is = "map (\<lambda>offset. (sg_next_input_index s + offset) mod length (sg_shard_inputs s)) [0..<length (sg_shard_inputs s)]"
  have none: "spr_published_intent (snd (handle_oms_message m s1)) = None" for m s1
    by (simp add: handle_oms_message_def on_portfolio_update_def on_market_position_update_def on_group_admission_def
        on_group_state_def on_order_message_def reject_oms_message_def oms_handled_def empty_result_def Let_def
        split: oms_to_strategy_message.split option.split)
  have run: "pump_inputs ?is s = (s', r)"
  proof (cases "bq_items (sg_from_oms_queue s)")
    case Nil
    then show ?thesis using assms(1) by (simp add: strategy_pump_once_def bq_pop_def Let_def)
  next
    case (Cons m ms)
    then have "handle_oms_message m (s\<lparr>sg_from_oms_queue := (sg_from_oms_queue s)\<lparr>bq_items := ms\<rparr>\<rparr>) = (s', r)"
      using assms(1) by (simp add: strategy_pump_once_def bq_pop_def)
    then show ?thesis using none assms(2) by (metis option.distinct(1) snd_conv)
  qed
  show thesis
  proof (cases rule: pump_inputs_cases [of ?is s])
    case idle
    then show ?thesis using run assms(2) by (simp add: empty_result_def)
  next
    case (dispatched i message s1)
    define s2 where "s2 = tally_input i (\<lambda>t. t\<lparr>sis_messages_seen := sis_messages_seen t + 1\<rparr>)
                 (tally (\<lambda>t. t\<lparr>sts_messages_seen := sts_messages_seen t + 1\<rparr>) s1)"
    have st2: "standing s2 = standing s" "sg_clock s2 = (\<lambda>n. sg_clock s (Suc n))"
      using dispatched(3,5) by (simp_all add: s2_def standing_def ledger_def tally_input_def)
    obtain obs where obs: "handle_observation i obs (sg_clock s 0) s2 = (s', r)"
      using run dispatched(1) assms(2) unfolding dispatch_message_def Let_def s2_def [symmetric]
      by (cases message) (auto simp: handle_event_unavailable_def handle_shard_unavailable_def reject_input_def empty_result_def Let_def
          split: option.splits)
    show ?thesis
    proof (cases rule: handle_observation_cases [of i obs "sg_clock s 0" s2])
      case (evaluated s3)
      show ?thesis
      proof (cases rule: evaluate_observation_cases [of obs "sg_clock s 0" s3])
        case (found s4 cand)
        show ?thesis
          by (rule that [of obs _ cand s4])
            (use found evaluated st2 obs candidate_event [OF found(2)] in
              \<open>simp_all add: standing_def ledger_def numeral_2_eq_2 numeral_3_eq_3\<close>)
      qed (use obs evaluated(1) assms(2) in simp)
    qed (use obs assms(2) in \<open>simp_all add: reject_input_def suppress_def empty_result_def\<close>)
  qed
qed

text \<open>C24. A pump publishes an intent only when no group is under way for the event and no group was unsafe, on a
  known and reconciled portfolio, with a fresh group id, and when the capital of the new group together with
  the capital already asked for stays within what the order manager reported; the intent is appended to the
  queue of the order manager and the group is entered into the ledger.\<close>

theorem published_intent_covered:
  assumes "strategy_inv s" "strategy_pump_once s = (s', r)" "spr_published_intent r = Some intent"
    "ev = ic_event_id (goi_context intent)" "gid = ic_group_intent_id (goi_context intent)"
  shows "\<not> sg_execution_blocked s \<and> sg_portfolio_seen s \<and> sg_portfolio_reconciled s
    \<and> um_find (sg_active_group_by_event s) ev = None \<and> um_find (sg_active_group_by_id s) gid = None
    \<and> int (unat (sg_pending_capital_ticks s')) \<le> max 0 (sg_available_capital_ticks s)
    \<and> um_find (sg_active_group_by_event s') ev = Some gid
    \<and> bq_items (sg_to_oms_queue s') = bq_items (sg_to_oms_queue s) @ [IntentGroupOrder intent]"
proof -
  obtain obs :: monotonic_pair_observation and cand wall s1 where
    1: "standing s1 = standing s" "\<not> sg_execution_blocked s" "um_find (sg_active_group_by_event s) (mca_event_id cand) = None"
      "publish_candidate (mpo_shard_index obs) cand (sg_clock s 0) (sg_clock s 2) s1 = (s', r)"
    by (rule pump_published [OF assms(2,3)]) (rule that)
  have ok: "strategy_ok s" using assms(1) by (simp add: strategy_inv_def)
  from published_candidate [OF 1(4) assms(3)] obtain required where
    2: "sg_portfolio_seen s1" "sg_portfolio_reconciled s1"
      "\<not> (sg_pending_capital_ticks s1 > to_u64 (max 0 (sg_available_capital_ticks s1))
         \<or> required > to_u64 (max 0 (sg_available_capital_ticks s1)) - sg_pending_capital_ticks s1)"
      "\<not> identity_exhausted cand s1"
      "make_group_intent cand (sg_clock s 0) (sg_clock s 2) (sg_clock s1 0) (snd (strategy_now_ns s1))
         = (snd (strategy_now_ns s1)\<lparr>sg_next_group_intent_id := sg_next_group_intent_id s1 + 1, sg_next_signal_id := sg_next_signal_id s1 + 1,
            sg_next_strategy_intent_id := sg_next_strategy_intent_id s1 + 2\<rparr>, Some intent)"
      "bq_items (sg_to_oms_queue s') = bq_items (sg_to_oms_queue s1) @ [IntentGroupOrder intent]"
      "ledger s' = (um_assign (mca_event_id cand) (sg_next_group_intent_id s1) (sg_active_group_by_event s1),
       um_assign (sg_next_group_intent_id s1) \<lparr>ag_event_id = mca_event_id cand, ag_pending_capital_ticks = required,
         ag_admission_pending = True\<rparr> (sg_active_group_by_id s1),
       sg_next_group_intent_id s1 + 1, sg_pending_capital_ticks s1 + required, sg_available_capital_ticks s1)" by metis
  have st: "sg_portfolio_seen s1 = sg_portfolio_seen s" "sg_portfolio_reconciled s1 = sg_portfolio_reconciled s"
    "sg_pending_capital_ticks s1 = sg_pending_capital_ticks s" "sg_available_capital_ticks s1 = sg_available_capital_ticks s"
    "sg_next_group_intent_id s1 = sg_next_group_intent_id s" "sg_to_oms_queue s1 = sg_to_oms_queue s"
    "sg_active_group_by_event s1 = sg_active_group_by_event s"
    using 1(1) by (simp_all add: standing_def ledger_def)
  have ids: "ev = mca_event_id cand" "gid = sg_next_group_intent_id s" using 2(4,5) assms(4,5) st(5)
    by (auto simp: make_group_intent_def group_intent_context_def strategy_now_ns_def Let_def split: if_splits)
  have "gid \<noteq> 0" using 2(4) st(5) ids(2) by (simp add: identity_exhausted_def)
  then have fresh: "um_find (sg_active_group_by_id s) gid = None"
    using ok ids(2) by (cases "um_find (sg_active_group_by_id s) gid") (auto simp: strategy_ok_def)
  have av: "sg_available_capital_ticks s \<le> i64_max" using ok by (simp add: strategy_ok_def)
  have fits: "int (unat (sg_pending_capital_ticks s)) + int (unat required) \<le> max 0 (sg_available_capital_ticks s)"
    using capital_fits [OF _ av] 2(3) st by simp
  have "unat (sg_pending_capital_ticks s + required) \<le> unat (sg_pending_capital_ticks s) + unat required"
    by (simp add: unat_word_ariths)
  then have "int (unat (sg_pending_capital_ticks s')) \<le> max 0 (sg_available_capital_ticks s)"
    using fits 2(7) st(3) by (simp only: ledger_def prod.inject)
  then show ?thesis using 1(2,3) 2(1,2,6,7) st ids fresh by (simp add: ledger_def um.find_assign)
qed

theorem strategy_ledger_consistent_witness:
  "unat (sg_pending_capital_ticks (fst (strategy_pump_once demo_strategy_ready))) = 40000
   \<and> (\<Sum>(gid, g)\<leftarrow>sg_active_group_by_id (fst (strategy_pump_once demo_strategy_ready)). unat (ag_pending_capital_ticks g)) = 40000"
proof -
  have ops: "list_all strategy_op_ok (demo_strategy_ops @ [SOp_pump])" using demo_strategy_ops_ok by simp
  with demo_published(2) strategy_ledger_consistent [OF demo_strategy_made [unfolded demo_strategy_def] _ ops refl, folded demo_strategy_def]
  show ?thesis by (simp add: demo_strategy_ready_def)
qed

theorem published_intent_covered_witness:
  "int (unat (sg_pending_capital_ticks (fst (strategy_pump_once demo_strategy_ready)))) \<le> max 0 (sg_available_capital_ticks demo_strategy_ready)"
proof -
  obtain intent where "spr_published_intent (snd (strategy_pump_once demo_strategy_ready)) = Some intent"
    using demo_published(1) by auto
  from published_intent_covered [OF demo_strategy_ready_inv _ this refl refl] show ?thesis by fastforce
qed

end
