(* ===== verification/Strategy_Oms.thy ===== *)
theory Strategy_Oms
  imports Strategy_Properties Oms_Accounting
begin

text \<open>
  The strategy and the order manager together: an intent that the strategy publishes meets every condition the
  order manager puts on an intent, and the two compute the same capital for it.
\<close>

section \<open>Capital\<close>

lemma unat_leg_exposure: "unat (leg_exposure q) = 100 * unat q"
proof -
  have q: "unat q < 18446744073709551616" by (rule unat_u64_less)
  have p: "unat (ucast q * ucast kPriceTicksPerDollar :: u128) = unat q * 10000"
    using q by (subst unat_mult_lem [THEN iffD1]) (simp_all add: kPriceTicksPerDollar_def)
  have "unat (ucast q * ucast kPriceTicksPerDollar mod ucast kQuantityLotsPerContract :: u128) = 0"
    by (simp add: unat_mod p kQuantityLotsPerContract_def)
  then have m: "ucast q * ucast kPriceTicksPerDollar mod ucast kQuantityLotsPerContract = (0 :: u128)" by (simp add: unat_eq_0)
  have "unat (ucast q * ucast kPriceTicksPerDollar div ucast kQuantityLotsPerContract :: u128) = 100 * unat q"
    by (simp add: unat_div_distrib p kQuantityLotsPerContract_def)
  then show ?thesis by (simp add: leg_exposure_def Let_def m)
qed

lemma required_capital_exact:
  assumes "required_capital_ticks cand = Some required"
  shows "unat required = 100 * (unat (mal_quantity_lots (mca_easier_leg cand)) + unat (mal_quantity_lots (mca_harder_leg cand)))"
proof -
  let ?e = "leg_exposure (mal_quantity_lots (mca_easier_leg cand))" and ?h = "leg_exposure (mal_quantity_lots (mca_harder_leg cand))"
  have sum: "unat (?e + ?h) = unat ?e + unat ?h"
    using unat_u64_less [of "mal_quantity_lots (mca_easier_leg cand)"] unat_u64_less [of "mal_quantity_lots (mca_harder_leg cand)"]
    by (subst unat_add_lem [THEN iffD1]) (simp_all add: unat_leg_exposure)
  have "\<not> ?e + ?h > ucast u64_max" "required = ucast (?e + ?h)"
    using assms by (auto simp: required_capital_ticks_def Let_def split: if_splits)
  moreover from this(1) have "unat (?e + ?h) < 18446744073709551616" by (simp add: word_less_nat_alt unat_max_word not_less)
  ultimately show ?thesis by (simp add: unat_ucast_mod sum) (simp add: unat_leg_exposure)
qed

section \<open>Intents\<close>

lemma published_intent_shape:
  assumes "strategy_pump_once s = (s', r)" "spr_published_intent r = Some intent"
  obtains obs :: monotonic_pair_observation and cand wall required c where
    "evaluate_monotonic_arb (msc_arb_config (sg_config s)) obs wall = Inr cand" "valid_observation_times obs (sg_clock s 0)"
    "mpo_universe_version obs = sg_active_universe_version s" "\<not> identity_exhausted cand s"
    "required_capital_ticks cand = Some required" "sg_pending_capital_ticks s' = sg_pending_capital_ticks s + required"
    "\<not> (sg_pending_capital_ticks s > to_u64 (max 0 (sg_available_capital_ticks s))
       \<or> required > to_u64 (max 0 (sg_available_capital_ticks s)) - sg_pending_capital_ticks s)"
    "c = group_intent_context cand (sg_clock s 0) (sg_clock s 2) (sg_clock s 3) s"
    "intent = \<lparr>goi_context = c,
       goi_new_orders = make_leg c (mca_easier_leg cand) 0 (ucast (sg_next_strategy_intent_id s))
         # make_leg c (mca_harder_leg cand) 1 (ucast (sg_next_strategy_intent_id s + 1)) # replicate (kMAX_ORDERS_PER_GROUP - 2) empty_new_order,
       goi_leg_count = 2, goi_admission_policy = GAP_kALL_OR_NONE,
       goi_expected_gross_edge_ticks = mca_gross_edge_ticks cand, goi_estimated_fee_ticks = mca_estimated_fee_ticks cand,
       goi_expected_net_edge_ticks = mca_net_edge_ticks cand\<rparr>"
proof (rule pump_published [OF assms])
  fix obs :: monotonic_pair_observation and cand wall s1
  assume 1: "evaluate_monotonic_arb (msc_arb_config (sg_config s)) obs wall = Inr cand"
    "standing s1 = standing s" "sg_clock s1 = (\<lambda>n. sg_clock s (n + 3))" "valid_observation_times obs (sg_clock s 0)"
    "mpo_universe_version obs = sg_active_universe_version s"
    and run: "publish_candidate (mpo_shard_index obs) cand (sg_clock s 0) (sg_clock s 2) s1 = (s', r)"
  have st: "sg_strategy_index s1 = sg_strategy_index s" "sg_config s1 = sg_config s" "sg_next_signal_id s1 = sg_next_signal_id s"
    "sg_next_strategy_intent_id s1 = sg_next_strategy_intent_id s" "sg_next_group_intent_id s1 = sg_next_group_intent_id s"
    "sg_pending_capital_ticks s1 = sg_pending_capital_ticks s" "sg_available_capital_ticks s1 = sg_available_capital_ticks s"
    using 1(2) by (simp_all add: standing_def ledger_def)
  have ctx: "group_intent_context cand a b e (snd (strategy_now_ns s1)) = group_intent_context cand a b e s" for a b e
    using st by (simp add: group_intent_context_def strategy_now_ns_def)
  show thesis
  proof (rule published_candidate [OF run assms(2)])
    fix required
    assume 2: "required_capital_ticks cand = Some required" "\<not> identity_exhausted cand s1"
      "\<not> (sg_pending_capital_ticks s1 > to_u64 (max 0 (sg_available_capital_ticks s1))
       \<or> required > to_u64 (max 0 (sg_available_capital_ticks s1)) - sg_pending_capital_ticks s1)"
      "ledger s' = (um_assign (mca_event_id cand) (sg_next_group_intent_id s1) (sg_active_group_by_event s1),
       um_assign (sg_next_group_intent_id s1) \<lparr>ag_event_id = mca_event_id cand, ag_pending_capital_ticks = required,
         ag_admission_pending = True\<rparr> (sg_active_group_by_id s1),
       sg_next_group_intent_id s1 + 1, sg_pending_capital_ticks s1 + required, sg_available_capital_ticks s1)"
      and made: "make_group_intent cand (sg_clock s 0) (sg_clock s 2) (sg_clock s1 0) (snd (strategy_now_ns s1))
       = (snd (strategy_now_ns s1)\<lparr>sg_next_group_intent_id := sg_next_group_intent_id s1 + 1, sg_next_signal_id := sg_next_signal_id s1 + 1,
            sg_next_strategy_intent_id := sg_next_strategy_intent_id s1 + 2\<rparr>, Some intent)"
    have id: "\<not> identity_exhausted cand s" "\<not> identity_exhausted cand (snd (strategy_now_ns s1))"
      using 2(2) st by (simp_all add: identity_exhausted_def strategy_now_ns_def)
    show thesis
      by (rule that [OF 1(1,4,5) id(1) 2(1) _ _ refl])
        (use 2(3,4) st made id(2) 1(3) in \<open>simp_all add: ledger_def make_group_intent_def Let_def ctx, simp_all add: strategy_now_ns_def\<close>)
  qed
qed

text \<open>The conditions of the order manager that do not concern the intent itself: its own state and limits.\<close>

definition oms_side :: "oms \<Rightarrow> group_order_intent \<Rightarrow> u64 \<Rightarrow> bool" where
  "oms_side s grp now \<longleftrightarrow>
     (let gc = goi_context grp; risk = om_risk s in
      \<not> om_execution_incident_active s \<and> om_trading_enabled s \<and> portfolio_ready_for_trading s
    \<and> map_option oru_version (om_universe s) = Some (ic_universe_version gc) \<and> response_slots_free s (ic_strategy_index gc)
    \<and> 2 \<le> rk_maximum_group_legs risk \<and> 0 < rk_strategy_allocation_limit_ticks risk \<and> rk_maximum_group_intent_age_ns risk \<noteq> 0
    \<and> ic_intent_publish_timestamp_ns gc \<le> now \<and> now - ic_intent_publish_timestamp_ns gc \<le> rk_maximum_group_intent_age_ns risk
    \<and> find_group_by_intent s (ic_strategy_index gc) (ic_group_intent_id gc) = None
    \<and> (\<forall>i < 2. \<exists>route. find_market_route s (ic_market_id (noi_context (goi_new_orders grp ! i))) = Some route
         \<and> omr_tradeable route \<and> omr_event_id route = ic_event_id gc)
    \<and> group_capital grp \<le> uint (rk_maximum_group_reservation_ticks risk) \<and> group_capital grp \<le> available_for s (ic_strategy_index gc))"

lemma to_i64_small_unat: "w \<le> to_u64 i64_max \<Longrightarrow> to_i64 w = int (unat w)"
  using sint_small_u64 [of w] by (simp add: word_le_nat_alt)

lemma candidate_shape:
  assumes "evaluate_monotonic_arb c obs wall = Inr cand"
  shows "mal_quantity_lots (mca_easier_leg cand) = mac_order_quantity_lots c" "mal_quantity_lots (mca_harder_leg cand) = mac_order_quantity_lots c"
    "mca_event_id cand \<noteq> 0" "mal_market_id (mca_easier_leg cand) \<noteq> 0" "mal_market_id (mca_harder_leg cand) \<noteq> 0"
    "mal_market_id (mca_easier_leg cand) \<noteq> mal_market_id (mca_harder_leg cand)" "mca_universe_version cand = mpo_universe_version obs"
    "mca_ingress_timestamp_ns cand = mpo_ingress_timestamp_ns obs" "mca_book_apply_timestamp_ns cand = mpo_book_apply_timestamp_ns obs"
    "mca_observation_publish_timestamp_ns cand = mpo_publish_timestamp_ns obs" "mal_action (mca_easier_leg cand) = AA_kBUY_YES"
    "mal_action (mca_harder_leg cand) = AA_kSELL_YES"
  using assms
  by (auto simp: evaluate_monotonic_arb_def make_candidate_def arb_leg_def valid_pair_header_def Let_def split: if_splits sum.splits)

lemma intent_ids:
  assumes "\<not> identity_exhausted cand s"
  shows "ucast (sg_next_strategy_intent_id s) \<noteq> (0 :: u32)" "ucast (sg_next_strategy_intent_id s + 1) \<noteq> (0 :: u32)"
    "ucast (sg_next_strategy_intent_id s) \<noteq> (ucast (sg_next_strategy_intent_id s + 1) :: u32)"
proof -
  let ?n = "sg_next_strategy_intent_id s"
  have "?n \<noteq> 0" "\<not> ?n > u32_max - 1" using assms by (simp_all add: identity_exhausted_def)
  then have n: "0 < unat ?n" "unat ?n \<le> 4294967294" by (simp_all add: unat_gt_0 u32_max_def word_less_nat_alt not_less)
  then have "unat (?n + 1) = unat ?n + 1" by (subst unat_add_lem [THEN iffD1]) simp_all
  then have "unat (ucast ?n :: u32) = unat ?n" "unat (ucast (?n + 1) :: u32) = unat ?n + 1" using n by (simp_all add: unat_ucast_mod)
  then show "ucast ?n \<noteq> (0 :: u32)" "ucast (?n + 1) \<noteq> (0 :: u32)" "ucast ?n \<noteq> (ucast (?n + 1) :: u32)"
    using n(1) by (metis unat_0 not_less0, metis unat_0 add_is_0 zero_neq_one, metis n_not_Suc_n Suc_eq_plus1)
qed

lemma intent_times:
  assumes "valid_observation_times obs (sg_clock s 0)" "evaluate_monotonic_arb c obs wall = Inr cand"
    "\<And>n. sg_clock s n \<le> sg_clock s (Suc n)"
  shows "valid_timestamp_chain (group_intent_context cand (sg_clock s 0) (sg_clock s 2) (sg_clock s 3) s)"
proof -
  have "sg_clock s 0 \<le> sg_clock s 1" "sg_clock s 1 \<le> sg_clock s 2" "sg_clock s 2 \<le> sg_clock s 3"
    using assms(3) [of 0] assms(3) [of 1] assms(3) [of 2] by (simp_all add: numeral_2_eq_2 numeral_3_eq_3)
  then show ?thesis using assms(1) candidate_shape(8-10) [OF assms(2)]
    by (simp add: valid_timestamp_chain_def group_intent_context_def valid_observation_times_def not_less)
qed

lemma made_leg_admissible:
  assumes "goi_context grp = c" "goi_new_orders grp ! i = make_leg c leg (of_nat i) sid" "ic_leg_count c = goi_leg_count grp"
    and "0 < to_i64 (mal_limit_price_ticks leg)" "to_i64 (mal_limit_price_ticks leg) < 10000"
    and "0 < to_i64 (mal_quantity_lots leg)"
    and "mal_market_id leg \<noteq> 0" "sid \<noteq> 0" "valid_timestamp_chain c"
    and "list_all (\<lambda>e. ic_market_id (noi_context e) \<noteq> mal_market_id leg \<and> ic_strategy_intent_id (noi_context e) \<noteq> sid)
      (take i (goi_new_orders grp))"
  shows "admissible_leg s grp i \<longleftrightarrow> to_i64 (mal_quantity_lots leg) \<le> max_reservable_lots \<and> (\<exists>route. find_market_route s (ic_market_id (noi_context (goi_new_orders grp ! i))) = Some route
    \<and> omr_tradeable route \<and> omr_event_id route = ic_event_id c)"
proof -
  have "valid_timestamp_chain (c\<lparr>ic_market_id := a, ic_strategy_intent_id := b, ic_leg_index := d\<rparr>)" for a b d
    using assms(9) by (simp add: valid_timestamp_chain_def)
  then show ?thesis using assms by (auto simp: admissible_leg_def make_leg_def Let_def)
qed

text \<open>C25. What the order manager can hold against a group that the strategy publishes. For a strategy with a valid
  configuration and a clock that does not run backwards, the group is admitted exactly when the state and the limits of the order manager
  allow it and three more conditions hold that the strategy does not check: its universe has a version, the revision of the event is
  not zero, and the configured quantity is small enough for the 64-bit product of the order manager. The capital that the admission check
  then requires is exactly the capital by which the strategy has raised its pending capital. The bound on the available
  capital is that of \<open>std::int64_t\<close>.\<close>

theorem published_group_admissible:
  assumes "strategy_inv s" "strategy_pump_once s = (s', r)" "spr_published_intent r = Some intent"
    and config: "valid_monotonic_arb_config (msc_arb_config (sg_config s))"
    and clock: "\<And>n. sg_clock s n \<le> sg_clock s (Suc n)"
    and range: "available_for oms (sg_strategy_index s) \<le> i64_max"
  shows "(gac_accepted (fst (check_group_admission intent oms)) \<longleftrightarrow> oms_side oms intent (om_clock oms 0)
        \<and> ic_universe_version (goi_context intent) \<noteq> 0 \<and> ic_event_revision (goi_context intent) \<noteq> 0
        \<and> uint (mac_order_quantity_lots (msc_arb_config (sg_config s))) \<le> max_reservable_lots)
    \<and> (gac_accepted (fst (check_group_admission intent oms)) \<longrightarrow>
        uint (gac_required_capital_ticks (fst (check_group_admission intent oms)))
          = int (unat (sg_pending_capital_ticks s')) - int (unat (sg_pending_capital_ticks s)))"
proof (rule published_intent_shape [OF assms(2,3)])
  fix obs :: monotonic_pair_observation and cand :: monotonic_arb_candidate and wall required c
  let ?cfg = "msc_arb_config (sg_config s)"
  assume eval: "evaluate_monotonic_arb ?cfg obs wall = Inr cand" and times: "valid_observation_times obs (sg_clock s 0)"
    and version: "mpo_universe_version obs = sg_active_universe_version s" and ids: "\<not> identity_exhausted cand s"
    and req: "required_capital_ticks cand = Some required" "sg_pending_capital_ticks s' = sg_pending_capital_ticks s + required"
      "\<not> (sg_pending_capital_ticks s > to_u64 (max 0 (sg_available_capital_ticks s))
       \<or> required > to_u64 (max 0 (sg_available_capital_ticks s)) - sg_pending_capital_ticks s)"
    and c: "c = group_intent_context cand (sg_clock s 0) (sg_clock s 2) (sg_clock s 3) s"
    and intent: "intent = \<lparr>goi_context = c, goi_new_orders = make_leg c (mca_easier_leg cand) 0 (ucast (sg_next_strategy_intent_id s))
         # make_leg c (mca_harder_leg cand) 1 (ucast (sg_next_strategy_intent_id s + 1)) # replicate (kMAX_ORDERS_PER_GROUP - 2) empty_new_order,
       goi_leg_count = 2, goi_admission_policy = GAP_kALL_OR_NONE,
       goi_expected_gross_edge_ticks = mca_gross_edge_ticks cand, goi_estimated_fee_ticks = mca_estimated_fee_ticks cand,
       goi_expected_net_edge_ticks = mca_net_edge_ticks cand\<rparr>"
  note shape = candidate_shape [OF eval] and pair = accepted_pair [OF config eval]
  let ?q = "unat (mac_order_quantity_lots ?cfg)"
  have q: "0 < ?q" using valid_config_facts(1) [OF config] by (simp add: unat_gt_0)
  have "?q \<le> 9223372036854775807" using ids shape(1) by (simp add: identity_exhausted_def not_less word_le_nat_alt)
  then have small_q: "int ?q \<le> i64_max" by linarith
  have words: "to_i64 (mal_quantity_lots (mca_easier_leg cand)) = int ?q" "to_i64 (mal_quantity_lots (mca_harder_leg cand)) = int ?q"
    "to_i64 (mal_limit_price_ticks (mca_easier_leg cand)) = int (unat (mal_limit_price_ticks (mca_easier_leg cand)))"
    "to_i64 (mal_limit_price_ticks (mca_harder_leg cand)) = int (unat (mal_limit_price_ticks (mca_harder_leg cand)))"
    using ids shape(1,2) by (simp_all add: identity_exhausted_def to_i64_small_unat not_less)
  have leg: "noi_quantity_lots (leg_of intent i) = int ?q" if "i < 2" for i
    using that words by (cases i) (auto simp: intent make_leg_def less_Suc_eq)
  have two: "{..<unat (goi_leg_count intent)} = {0, 1}" by (auto simp: intent)
  have "group_capital intent = 100 * (int ?q + int ?q)" unfolding group_capital_def two by (simp add: leg)
  moreover have reqn: "unat required = 100 * (?q + ?q)" using required_capital_exact [OF req(1)] shape(1,2) by simp
  ultimately have cap: "group_capital intent = int (unat required)" by simp
  have av: "sg_available_capital_ticks s \<le> i64_max" using assms(1) by (simp add: strategy_inv_def strategy_ok_def)
  have le: "int (unat (sg_pending_capital_ticks s)) + int (unat required) \<le> i64_max" using capital_fits [OF req(3) av] av by linarith
  then have "unat (sg_pending_capital_ticks s) + unat required < 18446744073709551616" by linarith
  then have pend: "unat (sg_pending_capital_ticks s') = unat (sg_pending_capital_ticks s) + unat required"
    unfolding req(2) by (subst unat_add_lem [THEN iffD1]) simp_all
  have chain: "valid_timestamp_chain c" unfolding c by (rule intent_times [OF times eval clock])
  have ctx: "ic_event_id c \<noteq> 0" "ic_universe_version c = sg_active_universe_version s" "ic_leg_count c = 2" "ic_group_intent_id c \<noteq> 0"
      "ic_strategy_index c = sg_strategy_index s"
    using shape(3,7) version ids by (simp_all add: c group_intent_context_def identity_exhausted_def)
  have fields: "goi_context intent = c" "goi_leg_count intent = 2" "goi_admission_policy intent = GAP_kALL_OR_NONE"
      "goi_new_orders intent ! 0 = make_leg c (mca_easier_leg cand) 0 (ucast (sg_next_strategy_intent_id s))"
      "goi_new_orders intent ! 1 = make_leg c (mca_harder_leg cand) 1 (ucast (sg_next_strategy_intent_id s + 1))"
      "take 1 (goi_new_orders intent) = [make_leg c (mca_easier_leg cand) 0 (ucast (sg_next_strategy_intent_id s))]"
      "goi_expected_gross_edge_ticks intent = mca_gross_edge_ticks cand" "goi_estimated_fee_ticks intent = mca_estimated_fee_ticks cand"
      "goi_expected_net_edge_ticks intent = mca_net_edge_ticks cand"
    by (simp_all add: intent)
  have prices: "0 < to_i64 (mal_limit_price_ticks (mca_easier_leg cand))" "to_i64 (mal_limit_price_ticks (mca_easier_leg cand)) < 10000"
    "0 < to_i64 (mal_limit_price_ticks (mca_harder_leg cand))" "to_i64 (mal_limit_price_ticks (mca_harder_leg cand)) < 10000"
    using pair(1-3) unfolding words by linarith+
  have q': "0 < int ?q" using q by linarith
  have one: "admissible_leg oms intent 0 \<longleftrightarrow> int ?q \<le> max_reservable_lots \<and> (\<exists>route. find_market_route oms (ic_market_id (noi_context (goi_new_orders intent ! 0))) = Some route
         \<and> omr_tradeable route \<and> omr_event_id route = ic_event_id c)"
    using made_leg_admissible [OF fields(1) _ _ prices(1,2) q' [folded words(1)] shape(4) intent_ids(1) [OF ids] chain]
      fields(2,4) ctx(3) words(1) by simp
  have two_leg: "admissible_leg oms intent 1 \<longleftrightarrow> int ?q \<le> max_reservable_lots \<and> (\<exists>route. find_market_route oms (ic_market_id (noi_context (goi_new_orders intent ! 1))) = Some route
         \<and> omr_tradeable route \<and> omr_event_id route = ic_event_id c)"
    using made_leg_admissible [OF fields(1) _ _ prices(3,4) q' [folded words(2)] shape(5) intent_ids(2) [OF ids] chain]
      fields(2,5,6) ctx(3) shape(6) intent_ids(3) [OF ids] words(2) by (simp add: make_leg_def)
  have legs: "(\<forall>i < 2. P i) \<longleftrightarrow> P 0 \<and> P 1" for P :: "nat \<Rightarrow> bool" by (auto simp: less_Suc_eq numeral_2_eq_2)
  have edge: "mca_estimated_fee_ticks cand \<le> mca_gross_edge_ticks cand"
    "mca_net_edge_ticks cand = mca_gross_edge_ticks cand - mca_estimated_fee_ticks cand" "mca_net_edge_ticks cand \<noteq> 0"
    using pair(6,7) by (auto simp: word_le_nat_alt unat_sub word_unat_eq_iff)
  have small: "group_capital intent \<le> i64_max" using cap le by linarith
  have adm: "admissible_group oms intent now \<longleftrightarrow> oms_side oms intent now \<and> ic_universe_version (goi_context intent) \<noteq> 0
      \<and> ic_event_revision (goi_context intent) \<noteq> 0 \<and> int ?q \<le> max_reservable_lots" for now
    unfolding admissible_group_def oms_side_def Let_def fields
    by (auto simp: legs one two_leg [unfolded One_nat_def] ctx chain edge(1) edge(2) [symmetric] edge(3) small kMAX_ORDERS_PER_GROUP_def)
  have free: "available_for oms (ic_strategy_index (goi_context intent)) \<le> i64_max" using range ctx(5) by (simp add: intent)
  have lots: "noi_quantity_lots (leg_of intent i) \<le> i64_max" if "i < unat (goi_leg_count intent)" for i
    using leg [of i] that small_q by (simp add: intent)
  have "group_capital intent = int (unat (sg_pending_capital_ticks s')) - int (unat (sg_pending_capital_ticks s))"
    using cap pend by linarith
  then show ?thesis using check_group_admission_spec [OF lots free] unfolding adm uint_nat by metis
qed

definition demo_trading :: oms where
  "demo_trading = fold oms_step [Op_control (CtlApplyOrderRouteUniverse (Some demo_universe)), Op_control CtlAllowTrading, Op_pump]
     (demo_oms 1 demo_risk)"

lemma demo_composed_run:
  "(let s = demo_strategy_ready; c = sg_config s; intent = the (spr_published_intent (snd (strategy_pump_once s))); oms = demo_trading in
     (valid_monotonic_arb_config (msc_arb_config c), available_for oms (sg_strategy_index s) \<le> i64_max,
      gac_accepted (fst (check_group_admission intent oms)), om_clock oms 0))
   = (True, True, True, 10)"
  by code_simp

theorem published_group_admissible_witness:
  "oms_side demo_trading (the (spr_published_intent (snd (strategy_pump_once demo_strategy_ready)))) 10
   \<and> uint (gac_required_capital_ticks (fst (check_group_admission
        (the (spr_published_intent (snd (strategy_pump_once demo_strategy_ready)))) demo_trading))) = 40000"
proof -
  let ?r = "strategy_pump_once demo_strategy_ready"
  let ?intent = "the (spr_published_intent (snd ?r))"
  have pub: "spr_published_intent (snd ?r) = Some ?intent" using demo_published(1) by (cases "spr_published_intent (snd ?r)") simp_all
  have run: "?r = (fst ?r, snd ?r)" by simp
  have clock: "sg_clock demo_strategy_ready n \<le> sg_clock demo_strategy_ready (Suc n)" for n by (simp add: demo_strategy_clock)
  have cfg: "valid_monotonic_arb_config (msc_arb_config (sg_config demo_strategy_ready))"
    and range: "available_for demo_trading (sg_strategy_index demo_strategy_ready) \<le> i64_max"
    and acc: "gac_accepted (fst (check_group_admission ?intent demo_trading))" "om_clock demo_trading 0 = 10"
    using demo_composed_run by (simp_all add: Let_def)
  show ?thesis
    using published_group_admissible [OF demo_strategy_ready_inv run pub cfg clock range] acc demo_published(2,3) by simp
qed

end
