(* ===== verification/Shard.thy ===== *)
theory Shard
  imports Strategy_Types Event_Store Frame_Pool Control_Types Latency_Histogram Bounded_Queue
begin

text \<open>
  The shard worker (\<open>shard/shard.hpp\<close>, \<open>shard/shard_types.hpp\<close>, \<open>shard/shard.cpp\<close>): it applies the frames and
  barriers of the router to its event store, reports lost books to the control plane, publishes observations
  to the strategy and passes every frame on to the logger. The market parser is the argument \<open>parse\<close>, the
  frame pool it reads is the argument \<open>pool\<close>, and \<open>alloc_ok\<close> says whether the allocations of a snapshot succeed.
\<close>

section \<open>Messages\<close>

datatype kalshi_parse_failure_reason =
    PFR_kNONE | PFR_kUNSUPPORTED_FRAME_KIND | PFR_kINVALID_JSON | PFR_kMISSING_FIELD | PFR_kINVALID_SIDE
  | PFR_kINVALID_PRICE | PFR_kINVALID_QUANTITY

type_synonym market_parser = "frame_handle \<Rightarrow> kalshi_frame \<Rightarrow> kalshi_parse_failure_reason + kalshi_parsed_event"

datatype shard_run_state =
    SRS_kUNINSTALLED | SRS_kLIVE | SRS_kPREPARING_STOP | SRS_kSAFE_TO_STOP | SRS_kDRAINING | SRS_kDRAINED | SRS_kFAULTED

datatype control_to_shard_command =
    InstallShardUniverse u64 u32 "kalshi_event list"
  | PrepareStopUniverse u64 u32
  | DrainShardUniverse u64 u32
  | ResumeShardUniverse u64 u32

record shard_stats =
  shs_frames_seen :: u64
  shs_frames_applied :: u64
  shs_parse_rejects :: u64
  shs_event_rejects :: u64
  shs_event_desyncs :: u64
  shs_frames_to_logger :: u64
  shs_frames_recycled :: u64
  shs_leaked_handles :: u64
  shs_missed_frames_to_logger :: u64
  shs_event_ignored :: u64
  shs_market_barriers_seen :: u64
  shs_subscription_barriers_seen :: u64
  shs_barrier_rejects :: u64
  shs_markets_became_unusable :: u64
  shs_markets_recovery_required :: u64
  shs_markets_already_awaiting_recovery :: u64
  shs_router_to_shard_latency :: "latency_histogram list"
  shs_shard_service_latency :: "latency_histogram list"
  shs_ingress_to_shard_latency :: "latency_histogram list"
  shs_ingress_to_book_apply_latency :: "latency_histogram list"
  shs_strategy_observations_published :: u64
  shs_strategy_event_unavailable_published :: u64
  shs_strategy_shard_unavailable_published :: u64
  shs_strategy_projection_failures :: u64
  shs_strategy_enqueue_failures :: u64
  shs_strategy_messages_suppressed :: u64

definition empty_shard_stats :: shard_stats where
  "empty_shard_stats = \<lparr>shs_frames_seen = 0, shs_frames_applied = 0, shs_parse_rejects = 0, shs_event_rejects = 0,
     shs_event_desyncs = 0, shs_frames_to_logger = 0, shs_frames_recycled = 0, shs_leaked_handles = 0,
     shs_missed_frames_to_logger = 0, shs_event_ignored = 0, shs_market_barriers_seen = 0, shs_subscription_barriers_seen = 0,
     shs_barrier_rejects = 0, shs_markets_became_unusable = 0, shs_markets_recovery_required = 0,
     shs_markets_already_awaiting_recovery = 0,
     shs_router_to_shard_latency = replicate kMarketDataChannelCount empty_histogram,
     shs_shard_service_latency = replicate kMarketDataChannelCount empty_histogram,
     shs_ingress_to_shard_latency = replicate kMarketDataChannelCount empty_histogram,
     shs_ingress_to_book_apply_latency = replicate kMarketDataChannelCount empty_histogram,
     shs_strategy_observations_published = 0, shs_strategy_event_unavailable_published = 0,
     shs_strategy_shard_unavailable_published = 0, shs_strategy_projection_failures = 0, shs_strategy_enqueue_failures = 0,
     shs_strategy_messages_suppressed = 0\<rparr>"

text \<open>The alternatives \<open>ShardParseRejected\<close>, \<open>ShardApplyRejected\<close>, \<open>ShardEventDesynced\<close> and \<open>ShardStats\<close> of the variant
  are never sent.\<close>

datatype shard_to_control_message =
    ShardUniverseInstalled u64 u32 nat
  | ShardSafeToStopUniverse u64 u32 string
  | ShardDrainComplete u64 u32 shard_stats
  | ShardTelemetry u32 u64 shard_stats
  | ShardFaulted u32 u64 string
  | ShardMarketRecoveryRequired shard_market_recovery_required
  | ShardRecoverySnapshotApplied shard_recovery_snapshot_applied

datatype shard_pump_code =
    SPC_kIDLE | SPC_kAPPLIED | SPC_kPARSE_REJECTED | SPC_kEVENT_REJECTED | SPC_kEVENT_DESYNCED | SPC_kMISSING_FRAME
  | SPC_kLOGGER_BACKPRESSURE | SPC_kHANDLE_LEAK | SPC_kDRAINED_FRAME | SPC_kDRAIN_COMPLETE | SPC_kEVENT_IGNORED
  | SPC_kMARKET_BARRIER_HANDLED | SPC_kSUBSCRIPTION_BARRIER_HANDLED | SPC_kINTEGRITY_BARRIER_REJECTED
  | SPC_kFRAME_ROUTE_REJECTED

text \<open>A field that a branch leaves default-constructed is \<open>None\<close>.\<close>

record shard_pump_result =
  shr_code :: shard_pump_code
  shr_parse_result :: "kalshi_parse_failure_reason option"
  shr_event_result :: "event_apply_result option"
  shr_incident :: "integrity_incident_key option"
  shr_market_invalidation :: "book_invalidation_result option"
  shr_subscription_invalidation :: "book_invalidation_summary option"

definition shard_result :: "shard_pump_code \<Rightarrow> shard_pump_result" where
  "shard_result code = \<lparr>shr_code = code, shr_parse_result = None, shr_event_result = None, shr_incident = None,
     shr_market_invalidation = None, shr_subscription_invalidation = None\<rparr>"

datatype market_data_dispatch_mode = DM_kLIVE | DM_kDRAINING

section \<open>State\<close>

record shard =
  sh_shard_index :: u32
  sh_installed_universe_version :: u64
  sh_next_shard_incident_id :: u64
  sh_run_state :: shard_run_state
  sh_router_queue :: "market_data_path_message bqueue"
  sh_logger_queue :: "frame_handle bqueue"
  sh_recycle_queue :: "frame_handle bqueue"
  sh_to_control_queue :: "shard_to_control_message bqueue"
  sh_from_control_queue :: "control_to_shard_command bqueue"
  sh_strategy_queue :: "shard_to_strategy_message bqueue"
  sh_event_store :: event_store
  sh_stats :: shard_stats
  sh_next_telemetry_send :: int
  sh_pending_recovery_status :: "shard_to_control_message option"
  sh_strategy_publication_faulted :: bool
  sh_clock :: "nat \<Rightarrow> u64"
  sh_steady_clock :: "nat \<Rightarrow> int"

definition shard_make ::
  "u32 \<Rightarrow> market_data_path_message bqueue \<Rightarrow> frame_handle bqueue \<Rightarrow> frame_handle bqueue \<Rightarrow> shard_to_control_message bqueue
   \<Rightarrow> control_to_shard_command bqueue \<Rightarrow> shard_to_strategy_message bqueue \<Rightarrow> (nat \<Rightarrow> u64) \<Rightarrow> (nat \<Rightarrow> int) \<Rightarrow> shard" where
  "shard_make index router logger recycle_q to_control from_control strategy clock steady =
     \<lparr>sh_shard_index = index, sh_installed_universe_version = 0, sh_next_shard_incident_id = 1, sh_run_state = SRS_kUNINSTALLED,
      sh_router_queue = router, sh_logger_queue = logger, sh_recycle_queue = recycle_q, sh_to_control_queue = to_control,
      sh_from_control_queue = from_control, sh_strategy_queue = strategy, sh_event_store = [], sh_stats = empty_shard_stats,
      sh_next_telemetry_send = 0, sh_pending_recovery_status = None, sh_strategy_publication_faulted = False,
      sh_clock = clock, sh_steady_clock = steady\<rparr>"

definition shard_now_ns :: "shard \<Rightarrow> u64 \<times> shard" where
  "shard_now_ns s = (sh_clock s 0, s\<lparr>sh_clock := (\<lambda>n. sh_clock s (Suc n))\<rparr>)"

abbreviation tally_shard :: "(shard_stats \<Rightarrow> shard_stats) \<Rightarrow> shard \<Rightarrow> shard" where
  "tally_shard f s \<equiv> s\<lparr>sh_stats := f (sh_stats s)\<rparr>"

section \<open>Messages to the control plane\<close>

definition shard_send_control :: "shard_to_control_message \<Rightarrow> shard \<Rightarrow> shard \<times> bool" where
  "shard_send_control message s =
     (let (q, ok) = bq_push message (sh_to_control_queue s) in (s\<lparr>sh_to_control_queue := q\<rparr>, ok))"

definition send_or_defer_recovery_status :: "shard_to_control_message \<Rightarrow> shard \<Rightarrow> shard \<times> bool" where
  "send_or_defer_recovery_status message s =
     (if sh_pending_recovery_status s \<noteq> None then (s, False)
      else case shard_send_control message s of
        (s1, True) \<Rightarrow> (s1, True)
      | (s1, False) \<Rightarrow> (s1\<lparr>sh_pending_recovery_status := Some message\<rparr>, True))"

definition flush_pending_recovery_status :: "shard \<Rightarrow> shard \<times> bool" where
  "flush_pending_recovery_status s =
     (case sh_pending_recovery_status s of
        None \<Rightarrow> (s, True)
      | Some message \<Rightarrow> (case shard_send_control message s of
          (s1, False) \<Rightarrow> (s1, False)
        | (s1, True) \<Rightarrow> (s1\<lparr>sh_pending_recovery_status := None\<rparr>, True)))"

definition report_market_recovery_required ::
  "u64 \<Rightarrow> integrity_incident_key \<Rightarrow> u32 \<Rightarrow> u64 \<Rightarrow> market_id \<Rightarrow> event_id \<Rightarrow> book_invalidation_reason \<Rightarrow> shard \<Rightarrow> shard \<times> bool" where
  "report_market_recovery_required universe_version incident sid sequence market_id event_id reason s =
     send_or_defer_recovery_status (ShardMarketRecoveryRequired
       \<lparr>smr_universe_version = universe_version, smr_shard_index = sh_shard_index s, smr_incident = incident, smr_sid = sid,
        smr_sequence = sequence, smr_market_id = market_id, smr_event_id = event_id, smr_reason = reason\<rparr>) s"

definition fault_shard :: "u64 \<Rightarrow> string \<Rightarrow> shard \<Rightarrow> shard" where
  "fault_shard universe_version reason s =
     fst (shard_send_control (ShardFaulted (sh_shard_index s) universe_version reason) (s\<lparr>sh_run_state := SRS_kFAULTED\<rparr>))"

definition command_matches_shard :: "u64 \<Rightarrow> u32 \<Rightarrow> shard \<Rightarrow> shard \<times> bool" where
  "command_matches_shard universe_version command_shard_index s =
     (if command_shard_index \<noteq> sh_shard_index s then (fault_shard universe_version ''Shard index mismatch'' s, False)
      else if sh_installed_universe_version s = 0 \<or> universe_version \<noteq> sh_installed_universe_version s
      then (fault_shard universe_version ''Universe version mismatch'' s, False)
      else (s, True))"

definition require_run_state :: "shard_run_state \<Rightarrow> u64 \<Rightarrow> string \<Rightarrow> shard \<Rightarrow> shard \<times> bool" where
  "require_run_state expected universe_version reason s =
     (if sh_run_state s \<noteq> expected then (fault_shard universe_version reason s, False) else (s, True))"

section \<open>Handing a frame on\<close>

definition record_shard_latency ::
  "((latency_histogram list \<Rightarrow> latency_histogram list) \<Rightarrow> shard_stats \<Rightarrow> shard_stats) \<Rightarrow> nat \<Rightarrow> u64 \<Rightarrow> u64 \<Rightarrow> shard_stats \<Rightarrow> shard_stats" where
  "record_shard_latency upd i start_ns end_ns = upd (\<lambda>hs. hs[i := record_elapsed_ns start_ns end_ns (hs ! i)])"

definition shard_terminal_handoff :: "frame_handle \<Rightarrow> shard \<Rightarrow> shard \<times> bool" where
  "shard_terminal_handoff incoming s =
     (let (publish_ts, s1) = shard_now_ns s;
          h = incoming\<lparr>fh_shard_publish_ts_ns := publish_ts\<rparr>;
          i = market_data_channel_index (fh_kind h);
          s2 = (if i < kMarketDataChannelCount
                then tally_shard (\<lambda>t.
                  record_shard_latency shs_ingress_to_shard_latency_update i (fh_ingress_ts_ns h) (fh_shard_publish_ts_ns h)
                    (record_shard_latency shs_shard_service_latency_update i (fh_shard_dequeue_ts_ns h) (fh_shard_publish_ts_ns h)
                      (record_shard_latency shs_router_to_shard_latency_update i (fh_router_publish_ts_ns h) (fh_shard_dequeue_ts_ns h) t))) s1
                else s1);
          (logger, logged) = bq_push h (sh_logger_queue s2)
      in if logged
         then (tally_shard (\<lambda>t. t\<lparr>shs_frames_to_logger := shs_frames_to_logger t + 1\<rparr>) (s2\<lparr>sh_logger_queue := logger\<rparr>), True)
         else let (recycle_q, recycled) = bq_push h (sh_recycle_queue s2)
         in if \<not> recycled then (tally_shard (\<lambda>t. t\<lparr>shs_leaked_handles := shs_leaked_handles t + 1\<rparr>) s2, False)
            else (tally_shard (\<lambda>t. t\<lparr>shs_missed_frames_to_logger := shs_missed_frames_to_logger t + 1,
                    shs_frames_recycled := shs_frames_recycled t + 1\<rparr>) (s2\<lparr>sh_recycle_queue := recycle_q\<rparr>), True))"

text \<open>\<open>if (!terminal_handoff(handle)) result.code = kHANDLE_LEAK;\<close>\<close>

definition finish_frame :: "frame_handle \<Rightarrow> shard_pump_result \<Rightarrow> shard \<Rightarrow> shard \<times> shard_pump_result" where
  "finish_frame h result s =
     (let (s1, ok) = shard_terminal_handoff h s
      in (s1, if ok then result else result\<lparr>shr_code := SPC_kHANDLE_LEAK\<rparr>))"

section \<open>Messages to the strategy\<close>

definition publish_strategy_message :: "shard_to_strategy_message \<Rightarrow> shard \<Rightarrow> shard \<times> bool" where
  "publish_strategy_message message s =
     (if sh_strategy_publication_faulted s
      then (tally_shard (\<lambda>t. t\<lparr>shs_strategy_messages_suppressed := shs_strategy_messages_suppressed t + 1\<rparr>) s, False)
      else let (q, ok) = bq_push message (sh_strategy_queue s)
      in if \<not> ok
         then (tally_shard (\<lambda>t. t\<lparr>shs_strategy_enqueue_failures := shs_strategy_enqueue_failures t + 1\<rparr>)
                 (s\<lparr>sh_strategy_publication_faulted := True\<rparr>), False)
         else (tally_shard (\<lambda>t. case message of
                   SmObservation _ \<Rightarrow> t\<lparr>shs_strategy_observations_published := shs_strategy_observations_published t + 1\<rparr>
                 | SmEventUnavailable _ \<Rightarrow> t\<lparr>shs_strategy_event_unavailable_published := shs_strategy_event_unavailable_published t + 1\<rparr>
                 | SmShardUnavailable _ \<Rightarrow> t\<lparr>shs_strategy_shard_unavailable_published := shs_strategy_shard_unavailable_published t + 1\<rparr>)
                 (s\<lparr>sh_strategy_queue := q\<rparr>), True))"

definition publish_event_unavailable :: "u64 \<Rightarrow> event_id \<Rightarrow> market_id \<Rightarrow> u64 \<Rightarrow> shard \<Rightarrow> shard" where
  "publish_event_unavailable universe_version event_id affected_market_id event_revision s =
     fst (publish_strategy_message (SmEventUnavailable \<lparr>seu_universe_version = universe_version, seu_shard_index = sh_shard_index s,
       seu_event_id = event_id, seu_affected_market_id = affected_market_id, seu_event_revision = event_revision\<rparr>) s)"

definition publish_shard_unavailable :: "u64 \<Rightarrow> shard \<Rightarrow> shard" where
  "publish_shard_unavailable universe_version s =
     fst (publish_strategy_message (SmShardUnavailable \<lparr>ssu_universe_version = universe_version, ssu_shard_index = sh_shard_index s\<rparr>) s)"

definition publish_pair :: "event \<Rightarrow> frame_handle \<Rightarrow> u64 \<Rightarrow> u32 \<Rightarrow> shard \<Rightarrow> shard \<times> bool" where
  "publish_pair e handle apply_complete_ts_ns easier_index s =
     (let (publish_ts, s1) = shard_now_ns s;
          ctx = \<lparr>soc_universe_version = fh_universe_version handle, soc_shard_index = sh_shard_index s1,
                 soc_ingress_timestamp_ns = fh_ingress_ts_ns handle, soc_book_apply_timestamp_ns = apply_complete_ts_ns,
                 soc_publish_timestamp_ns = publish_ts\<rparr>
      in case build_monotonic_pair_observation e easier_index ctx of
        None \<Rightarrow> (tally_shard (\<lambda>t. t\<lparr>shs_strategy_projection_failures := shs_strategy_projection_failures t + 1\<rparr>)
                   (s1\<lparr>sh_strategy_publication_faulted := True\<rparr>), False)
      | Some observation \<Rightarrow> publish_strategy_message (SmObservation observation) s1)"

text \<open>The pairs are published one by one until one fails.\<close>

primrec publish_pairs :: "event \<Rightarrow> frame_handle \<Rightarrow> u64 \<Rightarrow> u32 list \<Rightarrow> shard \<Rightarrow> shard" where
  "publish_pairs e handle apply_ts [] s = s"
| "publish_pairs e handle apply_ts (i # is) s =
     (let (s1, ok) = publish_pair e handle apply_ts i s in if ok then publish_pairs e handle apply_ts is s1 else s1)"

definition affected_pairs :: "event \<Rightarrow> frame_handle \<Rightarrow> bool \<Rightarrow> u32 list" where
  "affected_pairs e handle event_became_usable =
     (let n = length (ev_markets e); changed = fh_event_market_index handle in
      if event_became_usable then map of_nat [0..<n - 1]
      else (if changed > 0 then [changed - 1] else []) @ (if unat changed + 1 < n then [changed] else []))"

definition publish_affected_pairs :: "frame_handle \<Rightarrow> event_apply_result \<Rightarrow> u64 \<Rightarrow> shard \<Rightarrow> shard" where
  "publish_affected_pairs handle apply_result apply_complete_ts_ns s =
     (if sh_strategy_publication_faulted s \<or> \<not> ear_book_changed apply_result \<or> fh_topology handle \<noteq> ET_kMONOTONIC_CHAIN then s
      else case get_event (sh_event_store s) (fh_shard_event_index handle) of
        None \<Rightarrow> tally_shard (\<lambda>t. t\<lparr>shs_strategy_projection_failures := shs_strategy_projection_failures t + 1\<rparr>)
                  (s\<lparr>sh_strategy_publication_faulted := True\<rparr>)
      | Some e \<Rightarrow>
          if \<not> event_usable e then s
          else publish_pairs e handle apply_complete_ts_ns (affected_pairs e handle (ear_event_became_usable apply_result)) s)"

section \<open>Frames\<close>

definition account_invalidation_result :: "book_invalidation_result \<Rightarrow> shard \<Rightarrow> shard \<times> bool" where
  "account_invalidation_result invalidation s =
     (if \<not> bir_target_found invalidation then (s, False)
      else case bir_book_sync_transition invalidation of
        BST_kBECAME_UNUSABLE \<Rightarrow> (tally_shard (\<lambda>t. t\<lparr>shs_markets_became_unusable := shs_markets_became_unusable t + 1\<rparr>) s, True)
      | BST_kRECOVERY_REQUIRED \<Rightarrow> (tally_shard (\<lambda>t. t\<lparr>shs_markets_recovery_required := shs_markets_recovery_required t + 1\<rparr>) s, True)
      | BST_kNONE \<Rightarrow> (tally_shard (\<lambda>t. t\<lparr>shs_markets_already_awaiting_recovery := shs_markets_already_awaiting_recovery t + 1\<rparr>) s, True)
      | BST_kINITIAL_SNAPSHOT_INSTALLED \<Rightarrow> (s, False)
      | BST_kRECOVERED \<Rightarrow> (s, False))"

text \<open>\<open>None\<close> when the handle names a market of this shard, otherwise the reason of the fault.\<close>

definition validate_handle_target :: "frame_handle \<Rightarrow> shard \<Rightarrow> string option" where
  "validate_handle_target h s =
     (if fh_shard_index h \<noteq> sh_shard_index s then Some ''Frame handle shard index mismatch''
      else if fh_universe_version h \<noteq> sh_installed_universe_version s then Some ''Frame handle universe version mismatch''
      else case get_event (sh_event_store s) (fh_shard_event_index h) of
        None \<Rightarrow> Some ''Frame handle event index mismatch''
      | Some e \<Rightarrow>
      if ke_event_id (ev_state e) \<noteq> fh_event_id h then Some ''Frame handle event ID mismatch''
      else if ke_shard_event_index (ev_state e) \<noteq> fh_shard_event_index h then Some ''Frame handle event route index mismatch''
      else if ke_topology (ev_state e) \<noteq> fh_topology h then Some ''Frame handle event topology mismatch''
      else case get_market e (fh_event_market_index h) of
        None \<Rightarrow> Some ''Frame handle market index mismatch''
      | Some m \<Rightarrow>
      if km_market_id m \<noteq> fh_market_id h then Some ''Frame handle market ID mismatch''
      else if km_event_market_index m \<noteq> fh_event_market_index h then Some ''Frame handle market route index mismatch''
      else None)"

definition is_order_book :: "frame_handle \<Rightarrow> bool" where
  "is_order_book h \<longleftrightarrow> fh_kind h = FK_kORDERBOOK_DELTA \<or> fh_kind h = FK_kORDERBOOK_SNAPSHOT"

definition needs_recovery :: "book_sync_transition \<Rightarrow> bool" where
  "needs_recovery t \<longleftrightarrow> t = BST_kBECAME_UNUSABLE \<or> t = BST_kRECOVERY_REQUIRED"

text \<open>A new incident of this shard, reported to the control plane.\<close>

definition report_incident :: "frame_handle \<Rightarrow> book_invalidation_reason \<Rightarrow> string \<Rightarrow> shard \<Rightarrow> shard \<times> integrity_incident_key" where
  "report_incident h reason retain_error s =
     (let incident = \<lparr>iik_origin = IIO_kSHARD, iik_producer_index = sh_shard_index s, iik_incident_id = sh_next_shard_incident_id s\<rparr>;
          s1 = s\<lparr>sh_next_shard_incident_id := sh_next_shard_incident_id s + 1\<rparr>;
          (s2, ok) = report_market_recovery_required (fh_universe_version h) incident (fh_sid h) (fh_sequence h) (fh_market_id h)
                       (fh_event_id h) reason s1
      in (if ok then s2 else fault_shard (fh_universe_version h) retain_error s2, incident))"

definition handle_missing_frame :: "frame_handle \<Rightarrow> shard \<Rightarrow> shard \<times> shard_pump_result" where
  "handle_missing_frame h s =
     (if \<not> is_order_book h then finish_frame h (shard_result SPC_kMISSING_FRAME) s
      else let (store, invalidation) = store_invalidate_market (sh_event_store s) (fh_shard_event_index h) (fh_event_market_index h)
                                (fh_market_id h) BIR_kSHARD_FRAME_MISSING;
               (s1, ok) = account_invalidation_result invalidation (s\<lparr>sh_event_store := store\<rparr>);
               s2 = (if \<not> ok then fault_shard (fh_universe_version h)
                       (if bir_target_found invalidation then ''Invalid transition returned by missing-frame invalidation''
                        else ''Market invalidation target not found for missing frame'') s1
                     else if bir_book_sync_transition invalidation = BST_kBECAME_UNUSABLE
                     then publish_event_unavailable (fh_universe_version h) (fh_event_id h) (fh_market_id h) (bir_event_revision invalidation) s1
                     else s1);
               result = (shard_result SPC_kMISSING_FRAME)\<lparr>shr_market_invalidation := Some invalidation\<rparr>
      in if needs_recovery (bir_book_sync_transition invalidation)
         then let (s3, incident) = report_incident h BIR_kSHARD_FRAME_MISSING ''Could not retain missing-frame recovery status'' s2
              in finish_frame h (result\<lparr>shr_incident := Some incident\<rparr>) s3
         else finish_frame h result s2)"

definition handle_parse_failure :: "frame_handle \<Rightarrow> kalshi_parse_failure_reason \<Rightarrow> shard \<Rightarrow> shard \<times> shard_pump_result" where
  "handle_parse_failure h reason s =
     (let s0 = tally_shard (\<lambda>t. t\<lparr>shs_parse_rejects := shs_parse_rejects t + 1\<rparr>) s;
          result = (shard_result SPC_kPARSE_REJECTED)\<lparr>shr_parse_result := Some reason\<rparr>
      in if \<not> is_order_book h then finish_frame h result s0
      else let (store, invalidation) = store_invalidate_market (sh_event_store s0) (fh_shard_event_index h) (fh_event_market_index h)
                                (fh_market_id h) BIR_kSHARD_PARSE_FAILURE;
               (s1, ok) = account_invalidation_result invalidation (s0\<lparr>sh_event_store := store\<rparr>);
               result1 = result\<lparr>shr_market_invalidation := Some invalidation\<rparr>
      in if \<not> ok
         then finish_frame h result1 (fault_shard (fh_universe_version h)
                (if bir_target_found invalidation then ''Invalid transition returned by parse-failure invalidation''
                 else ''Market invalidation target not found for parse failure'') s1)
         else let s2 = (if bir_book_sync_transition invalidation = BST_kBECAME_UNUSABLE
                        then publish_event_unavailable (fh_universe_version h) (fh_event_id h) (fh_market_id h) (bir_event_revision invalidation) s1
                        else s1)
         in if needs_recovery (bir_book_sync_transition invalidation)
            then let (s3, incident) = report_incident h BIR_kSHARD_PARSE_FAILURE ''Could not retain parse-failure recovery status'' s2
                 in finish_frame h (result1\<lparr>shr_incident := Some incident\<rparr>) s3
            else finish_frame h result1 s2)"

text \<open>The status of a recovery snapshot that was applied.\<close>

definition report_snapshot_applied :: "frame_handle \<Rightarrow> event_apply_result \<Rightarrow> shard \<Rightarrow> shard" where
  "report_snapshot_applied h r s =
     (if fh_recovery_id h \<noteq> 0 \<and> fh_kind h = FK_kORDERBOOK_SNAPSHOT
         \<and> (ear_book_sync_transition r = BST_kRECOVERED \<or> ear_book_sync_transition r = BST_kNONE)
      then let (s1, ok) = send_or_defer_recovery_status (ShardRecoverySnapshotApplied
                 \<lparr>srs_recovery_id = fh_recovery_id h, srs_universe_version = fh_universe_version h, srs_shard_index = sh_shard_index s,
                  srs_sid = fh_sid h, srs_sequence = fh_sequence h, srs_market_id = fh_market_id h,
                  srs_transition = ear_book_sync_transition r\<rparr>) s
           in if ok then s1 else fault_shard (fh_universe_version h) ''Could not retain recovery-snapshot status'' s1
      else s)"

text \<open>The book takes the message; the counters and, when the book was lost, the strategy learn of it.\<close>

definition apply_to_store :: "bool \<Rightarrow> frame_handle \<Rightarrow> kalshi_parsed_event \<Rightarrow> shard \<Rightarrow> shard \<times> event_apply_result \<times> u64" where
  "apply_to_store alloc_ok h parsed s =
     (let (store, r) = store_apply alloc_ok (sh_event_store s) h parsed;
          (apply_ts, s1) = shard_now_ns (s\<lparr>sh_event_store := store\<rparr>);
          i = market_data_channel_index (fh_kind h);
          s2 = (if is_order_book h \<and> ear_disposition r = AD_kAPPLIED \<and> i < kMarketDataChannelCount
                then tally_shard (record_shard_latency shs_ingress_to_book_apply_latency_update i (fh_ingress_ts_ns h) apply_ts) s1
                else s1);
          s3 = (case ear_book_sync_transition r of
                  BST_kBECAME_UNUSABLE \<Rightarrow> tally_shard (\<lambda>t. t\<lparr>shs_markets_became_unusable := shs_markets_became_unusable t + 1,
                    shs_event_desyncs := shs_event_desyncs t + 1\<rparr>) s2
                | BST_kRECOVERY_REQUIRED \<Rightarrow> tally_shard (\<lambda>t. t\<lparr>shs_markets_recovery_required := shs_markets_recovery_required t + 1\<rparr>) s2
                | _ \<Rightarrow> s2);
          s4 = (if ear_book_sync_transition r = BST_kBECAME_UNUSABLE
                then publish_event_unavailable (fh_universe_version h) (fh_event_id h) (fh_market_id h) (ear_event_revision r) s3 else s3)
      in (s4, r, apply_ts))"

definition apply_frame :: "bool \<Rightarrow> frame_handle \<Rightarrow> kalshi_parsed_event \<Rightarrow> shard \<Rightarrow> shard \<times> shard_pump_result" where
  "apply_frame alloc_ok h parsed s =
     (let (s4, r, apply_ts) = apply_to_store alloc_ok h parsed s
      in case ear_disposition r of
        AD_kREJECTED \<Rightarrow>
          finish_frame h ((shard_result SPC_kEVENT_REJECTED)\<lparr>shr_event_result := Some r\<rparr>)
            (tally_shard (\<lambda>t. t\<lparr>shs_event_rejects := shs_event_rejects t + 1\<rparr>) s4)
      | AD_kIGNORED \<Rightarrow>
          finish_frame h ((shard_result SPC_kEVENT_IGNORED)\<lparr>shr_event_result := Some r\<rparr>)
            (tally_shard (\<lambda>t. t\<lparr>shs_event_ignored := shs_event_ignored t + 1\<rparr>) s4)
      | AD_kAPPLIED \<Rightarrow>
          let s5 = tally_shard (\<lambda>t. t\<lparr>shs_frames_applied := shs_frames_applied t + 1\<rparr>) s4;
              s6 = (if ear_book_changed r then publish_affected_pairs h r apply_ts s5 else s5)
          in finish_frame h ((shard_result SPC_kAPPLIED)\<lparr>shr_event_result := Some r\<rparr>) (report_snapshot_applied h r s6))"

definition handle_frame_message ::
  "market_parser \<Rightarrow> frame_pool \<Rightarrow> bool \<Rightarrow> frame_handle \<Rightarrow> market_data_dispatch_mode \<Rightarrow> shard \<Rightarrow> shard \<times> shard_pump_result" where
  "handle_frame_message parse pool alloc_ok incoming mode s =
     (let (dequeue_ts, s0) = shard_now_ns s;
          h = incoming\<lparr>fh_shard_dequeue_ts_ns := dequeue_ts\<rparr>;
          s1 = tally_shard (\<lambda>t. t\<lparr>shs_frames_seen := shs_frames_seen t + 1\<rparr>) s0
      in if mode = DM_kDRAINING then finish_frame h (shard_result SPC_kDRAINED_FRAME) s1
      else case validate_handle_target h s1 of
        Some reason \<Rightarrow> finish_frame h (shard_result SPC_kFRAME_ROUTE_REJECTED) (fault_shard (fh_universe_version h) reason s1)
      | None \<Rightarrow>
      (case frame pool h of
        None \<Rightarrow> handle_missing_frame h s1
      | Some f \<Rightarrow>
      (case parse h f of
        Inl reason \<Rightarrow> handle_parse_failure h reason s1
      | Inr parsed \<Rightarrow> apply_frame alloc_ok h parsed s1)))"

section \<open>Barriers\<close>

definition reject_barrier :: "integrity_incident_key \<Rightarrow> u64 \<Rightarrow> string \<Rightarrow> shard \<Rightarrow> shard \<times> shard_pump_result" where
  "reject_barrier incident universe_version reason s =
     (fst (shard_send_control (ShardFaulted (sh_shard_index s) universe_version reason)
        (tally_shard (\<lambda>t. t\<lparr>shs_barrier_rejects := shs_barrier_rejects t + 1\<rparr>) (s\<lparr>sh_run_state := SRS_kFAULTED\<rparr>))),
      (shard_result SPC_kINTEGRITY_BARRIER_REJECTED)\<lparr>shr_incident := Some incident\<rparr>)"

definition handle_market_barrier :: "market_invalidation_barrier \<Rightarrow> shard \<Rightarrow> shard \<times> shard_pump_result" where
  "handle_market_barrier m s =
     (let s0 = tally_shard (\<lambda>t. t\<lparr>shs_market_barriers_seen := shs_market_barriers_seen t + 1\<rparr>) s;
          reject = reject_barrier (mib_incident m) (mib_universe_version m)
      in if mib_reason m = BIR_kNONE then reject ''Market invalidation barrier has no reason'' s0
      else if mib_universe_version m \<noteq> sh_installed_universe_version s0 then reject ''Market invalidation universe mismatch'' s0
      else if mib_shard_index m \<noteq> sh_shard_index s0 then reject ''Market invalidation shard mismatch'' s0
      else if (case get_event (sh_event_store s0) (mib_shard_event_index m) of
                 None \<Rightarrow> True | Some e \<Rightarrow> ke_event_id (ev_state e) \<noteq> mib_event_id m)
      then reject ''Market invalidation event mismatch'' s0
      else let (store, invalidation) = store_invalidate_market (sh_event_store s0) (mib_shard_event_index m) (mib_event_market_index m)
                                (mib_market_id m) (mib_reason m);
               s1 = s0\<lparr>sh_event_store := store\<rparr>
      in if \<not> bir_target_found invalidation
      then (let (s2, r) = reject ''Market invalidation target not found'' s1 in (s2, r\<lparr>shr_market_invalidation := Some invalidation\<rparr>))
      else let (s2, ok) = account_invalidation_result invalidation s1
      in if \<not> ok
      then (let (s3, r) = reject ''Invalid transition returned by market invalidation'' s2 in (s3, r\<lparr>shr_market_invalidation := Some invalidation\<rparr>))
      else let s3 = (if bir_book_sync_transition invalidation = BST_kBECAME_UNUSABLE
                     then publish_event_unavailable (mib_universe_version m) (mib_event_id m) (mib_market_id m) (bir_event_revision invalidation) s2
                     else s2);
               (s4, retained) = (if needs_recovery (bir_book_sync_transition invalidation)
                     then report_market_recovery_required (mib_universe_version m) (mib_incident m) (mib_sid m) (mib_sequence m)
                            (mib_market_id m) (mib_event_id m) (mib_reason m) s3
                     else (s3, True))
      in if \<not> retained then reject ''Could not retain market recovery status'' s4
         else (s4, (shard_result SPC_kMARKET_BARRIER_HANDLED)\<lparr>shr_incident := Some (mib_incident m), shr_market_invalidation := Some invalidation\<rparr>))"

definition handle_subscription_barrier :: "subscription_invalidation_barrier \<Rightarrow> shard \<Rightarrow> shard \<times> shard_pump_result" where
  "handle_subscription_barrier m s =
     (let s0 = tally_shard (\<lambda>t. t\<lparr>shs_subscription_barriers_seen := shs_subscription_barriers_seen t + 1\<rparr>) s
      in if sib_reason m = BIR_kNONE \<or> sib_universe_version m \<noteq> sh_installed_universe_version s0
      then reject_barrier (sib_incident m) (sib_universe_version m) ''Invalid order-book subscription barrier'' s0
      else let (store, summary) = store_invalidate_all (sh_event_store s0) (sib_reason m);
               s1 = s0\<lparr>sh_event_store := store\<rparr>;
               s2 = (if bis_targets_became_unusable summary > 0 then publish_shard_unavailable (sib_universe_version m) s1 else s1);
               s3 = tally_shard (\<lambda>t. t\<lparr>
                 shs_markets_became_unusable := shs_markets_became_unusable t + bis_targets_became_unusable summary,
                 shs_markets_recovery_required := shs_markets_recovery_required t + bis_targets_recovery_required summary,
                 shs_markets_already_awaiting_recovery :=
                   shs_markets_already_awaiting_recovery t + bis_targets_already_awaiting_recovery summary\<rparr>) s2
      in (s3, (shard_result SPC_kSUBSCRIPTION_BARRIER_HANDLED)\<lparr>shr_incident := Some (sib_incident m),
                shr_subscription_invalidation := Some summary\<rparr>))"

fun shard_dispatch ::
  "market_parser \<Rightarrow> frame_pool \<Rightarrow> bool \<Rightarrow> market_data_path_message \<Rightarrow> market_data_dispatch_mode \<Rightarrow> shard \<Rightarrow> shard \<times> shard_pump_result" where
  "shard_dispatch parse pool alloc_ok (PathFrame h) mode s = handle_frame_message parse pool alloc_ok h mode s"
| "shard_dispatch parse pool alloc_ok (PathMarketBarrier m) mode s = handle_market_barrier m s"
| "shard_dispatch parse pool alloc_ok (PathSubscriptionBarrier m) mode s = handle_subscription_barrier m s"

section \<open>The pump\<close>

definition drain_one_message :: "market_parser \<Rightarrow> frame_pool \<Rightarrow> bool \<Rightarrow> shard \<Rightarrow> shard \<times> shard_pump_result" where
  "drain_one_message parse pool alloc_ok s =
     (case bq_pop (sh_router_queue s) of
        (q, None) \<Rightarrow>
          let s1 = s\<lparr>sh_run_state := SRS_kDRAINED\<rparr>
          in (fst (shard_send_control (ShardDrainComplete (sh_installed_universe_version s1) (sh_shard_index s1) (sh_stats s1)) s1),
              shard_result SPC_kDRAIN_COMPLETE)
      | (q, Some message) \<Rightarrow> shard_dispatch parse pool alloc_ok message DM_kDRAINING (s\<lparr>sh_router_queue := q\<rparr>))"

definition shard_pump_once :: "market_parser \<Rightarrow> frame_pool \<Rightarrow> bool \<Rightarrow> shard \<Rightarrow> shard \<times> shard_pump_result" where
  "shard_pump_once parse pool alloc_ok s =
     (case flush_pending_recovery_status s of
        (s1, False) \<Rightarrow> (s1, shard_result SPC_kIDLE)
      | (s1, True) \<Rightarrow>
      if sh_run_state s1 = SRS_kDRAINING then drain_one_message parse pool alloc_ok s1
      else if sh_run_state s1 = SRS_kUNINSTALLED \<or> sh_run_state s1 = SRS_kDRAINED \<or> sh_run_state s1 = SRS_kFAULTED
      then (s1, shard_result SPC_kIDLE)
      else case bq_pop (sh_router_queue s1) of
        (q, None) \<Rightarrow> (s1, shard_result SPC_kIDLE)
      | (q, Some message) \<Rightarrow> shard_dispatch parse pool alloc_ok message DM_kLIVE (s1\<lparr>sh_router_queue := q\<rparr>))"

section \<open>Commands\<close>

definition handle_install :: "u64 \<Rightarrow> u32 \<Rightarrow> kalshi_event list \<Rightarrow> shard \<Rightarrow> shard" where
  "handle_install version index events s =
     (if index \<noteq> sh_shard_index s then fault_shard version ''Install shard index mismatch'' s
      else if version = 0 then fault_shard version ''Cannot install universe version zero'' s
      else if \<not> (sh_run_state s = SRS_kUNINSTALLED \<or> sh_run_state s = SRS_kDRAINED)
      then fault_shard version ''Universe install requested from invalid Shard state'' s
      else if sh_run_state s = SRS_kDRAINED \<and> version \<le> sh_installed_universe_version s
      then fault_shard version ''Replacement universe version is not newer'' s
      else let (store, ok) = store_initialize events
      in if \<not> ok then fault_shard version ''Failed to install universe events'' (s\<lparr>sh_event_store := store\<rparr>)
      else fst (shard_send_control (ShardUniverseInstalled version (sh_shard_index s) (length store))
             (s\<lparr>sh_event_store := store, sh_installed_universe_version := version, sh_stats := empty_shard_stats,
                sh_run_state := SRS_kLIVE\<rparr>)))"

definition handle_prepare_stop :: "u64 \<Rightarrow> u32 \<Rightarrow> shard \<Rightarrow> shard" where
  "handle_prepare_stop version index s =
     (case command_matches_shard version index s of
        (s1, False) \<Rightarrow> s1
      | (s1, True) \<Rightarrow> (case require_run_state SRS_kLIVE version ''Prepare stop requested before Shard was live'' s1 of
          (s2, False) \<Rightarrow> s2
        | (s2, True) \<Rightarrow> fst (shard_send_control (ShardSafeToStopUniverse version (sh_shard_index s2)
              ''No OMS or strategy lifecycle attached'') (s2\<lparr>sh_run_state := SRS_kSAFE_TO_STOP\<rparr>))))"

definition handle_drain :: "u64 \<Rightarrow> u32 \<Rightarrow> shard \<Rightarrow> shard" where
  "handle_drain version index s =
     (case command_matches_shard version index s of
        (s1, False) \<Rightarrow> s1
      | (s1, True) \<Rightarrow> (case require_run_state SRS_kSAFE_TO_STOP version ''Drain requested before Shard was safe to stop'' s1 of
          (s2, False) \<Rightarrow> s2
        | (s2, True) \<Rightarrow> s2\<lparr>sh_run_state := SRS_kDRAINING\<rparr>))"

definition handle_resume :: "u64 \<Rightarrow> u32 \<Rightarrow> shard \<Rightarrow> shard" where
  "handle_resume version index s =
     (case command_matches_shard version index s of
        (s1, False) \<Rightarrow> s1
      | (s1, True) \<Rightarrow> (case require_run_state SRS_kSAFE_TO_STOP version ''Resume requested before Shard was safe to stop'' s1 of
          (s2, False) \<Rightarrow> s2
        | (s2, True) \<Rightarrow> s2\<lparr>sh_run_state := SRS_kLIVE\<rparr>))"

fun handle_operator_command :: "control_to_shard_command \<Rightarrow> shard \<Rightarrow> shard" where
  "handle_operator_command (InstallShardUniverse version index events) s = handle_install version index events s"
| "handle_operator_command (PrepareStopUniverse version index) s = handle_prepare_stop version index s"
| "handle_operator_command (DrainShardUniverse version index) s = handle_drain version index s"
| "handle_operator_command (ResumeShardUniverse version index) s = handle_resume version index s"

definition process_one_control_command :: "shard \<Rightarrow> shard \<times> bool" where
  "process_one_control_command s =
     (case bq_pop (sh_from_control_queue s) of
        (q, None) \<Rightarrow> (s, False)
      | (q, Some command) \<Rightarrow> (handle_operator_command command (s\<lparr>sh_from_control_queue := q\<rparr>), True))"

primrec shard_drain_control_commands :: "nat \<Rightarrow> shard \<Rightarrow> shard \<times> nat" where
  "shard_drain_control_commands 0 s = (s, 0)"
| "shard_drain_control_commands (Suc max_commands) s =
     (case process_one_control_command s of
        (s1, False) \<Rightarrow> (s1, 0)
      | (s1, True) \<Rightarrow> (let (s2, n) = shard_drain_control_commands max_commands s1 in (s2, Suc n)))"

definition kSHARD_TELEMETRY_INTERVAL :: int where "kSHARD_TELEMETRY_INTERVAL = 5000 * 1000000"

definition shard_maybe_send_telemetry :: "shard \<Rightarrow> shard" where
  "shard_maybe_send_telemetry s =
     (if sh_pending_recovery_status s \<noteq> None then s
      else let now = sh_steady_clock s 0; s1 = s\<lparr>sh_steady_clock := (\<lambda>n. sh_steady_clock s (Suc n))\<rparr>
      in if now < sh_next_telemetry_send s1 then s1
      else (fst (shard_send_control (ShardTelemetry (sh_shard_index s1) (sh_installed_universe_version s1) (sh_stats s1)) s1))
             \<lparr>sh_next_telemetry_send := now + kSHARD_TELEMETRY_INTERVAL\<rparr>)"

end
