(* ===== verification/Shard_Frames.thy ===== *)
theory Shard_Frames
  imports Shard
begin

text \<open>
  What each helper of the shard leaves alone, what it sends to the control plane, and the recovery reports of a
  shard: the statuses in its control queue followed by the one it retains for the next pump.
\<close>

named_theorems shard_frame

section \<open>Fields a helper keeps\<close>

lemma now_frame [shard_frame]:
  "sh_shard_index (snd (shard_now_ns s)) = sh_shard_index s"
  "sh_installed_universe_version (snd (shard_now_ns s)) = sh_installed_universe_version s"
  "sh_run_state (snd (shard_now_ns s)) = sh_run_state s"
  "sh_router_queue (snd (shard_now_ns s)) = sh_router_queue s"
  "sh_logger_queue (snd (shard_now_ns s)) = sh_logger_queue s"
  "sh_recycle_queue (snd (shard_now_ns s)) = sh_recycle_queue s"
  "sh_to_control_queue (snd (shard_now_ns s)) = sh_to_control_queue s"
  "sh_from_control_queue (snd (shard_now_ns s)) = sh_from_control_queue s"
  "sh_strategy_queue (snd (shard_now_ns s)) = sh_strategy_queue s"
  "sh_event_store (snd (shard_now_ns s)) = sh_event_store s"
  "sh_pending_recovery_status (snd (shard_now_ns s)) = sh_pending_recovery_status s"
  "sh_strategy_publication_faulted (snd (shard_now_ns s)) = sh_strategy_publication_faulted s"
  by (simp_all add: shard_now_ns_def)

lemma send_control_frame [shard_frame]:
  "sh_shard_index (fst (shard_send_control m s)) = sh_shard_index s"
  "sh_installed_universe_version (fst (shard_send_control m s)) = sh_installed_universe_version s"
  "sh_run_state (fst (shard_send_control m s)) = sh_run_state s"
  "sh_router_queue (fst (shard_send_control m s)) = sh_router_queue s"
  "sh_logger_queue (fst (shard_send_control m s)) = sh_logger_queue s"
  "sh_recycle_queue (fst (shard_send_control m s)) = sh_recycle_queue s"
  "sh_from_control_queue (fst (shard_send_control m s)) = sh_from_control_queue s"
  "sh_strategy_queue (fst (shard_send_control m s)) = sh_strategy_queue s"
  "sh_event_store (fst (shard_send_control m s)) = sh_event_store s"
  "sh_pending_recovery_status (fst (shard_send_control m s)) = sh_pending_recovery_status s"
  "sh_strategy_publication_faulted (fst (shard_send_control m s)) = sh_strategy_publication_faulted s"
  by (simp_all add: shard_send_control_def case_prod_beta)

lemma fault_frame [shard_frame]:
  "sh_shard_index (fault_shard v r s) = sh_shard_index s"
  "sh_installed_universe_version (fault_shard v r s) = sh_installed_universe_version s"
  "sh_run_state (fault_shard v r s) = SRS_kFAULTED"
  "sh_router_queue (fault_shard v r s) = sh_router_queue s"
  "sh_logger_queue (fault_shard v r s) = sh_logger_queue s"
  "sh_recycle_queue (fault_shard v r s) = sh_recycle_queue s"
  "sh_from_control_queue (fault_shard v r s) = sh_from_control_queue s"
  "sh_strategy_queue (fault_shard v r s) = sh_strategy_queue s"
  "sh_event_store (fault_shard v r s) = sh_event_store s"
  "sh_pending_recovery_status (fault_shard v r s) = sh_pending_recovery_status s"
  "sh_strategy_publication_faulted (fault_shard v r s) = sh_strategy_publication_faulted s"
  by (simp_all add: fault_shard_def shard_frame)

lemma account_frame [shard_frame]:
  "sh_shard_index (fst (account_invalidation_result i s)) = sh_shard_index s"
  "sh_installed_universe_version (fst (account_invalidation_result i s)) = sh_installed_universe_version s"
  "sh_run_state (fst (account_invalidation_result i s)) = sh_run_state s"
  "sh_router_queue (fst (account_invalidation_result i s)) = sh_router_queue s"
  "sh_logger_queue (fst (account_invalidation_result i s)) = sh_logger_queue s"
  "sh_recycle_queue (fst (account_invalidation_result i s)) = sh_recycle_queue s"
  "sh_to_control_queue (fst (account_invalidation_result i s)) = sh_to_control_queue s"
  "sh_from_control_queue (fst (account_invalidation_result i s)) = sh_from_control_queue s"
  "sh_strategy_queue (fst (account_invalidation_result i s)) = sh_strategy_queue s"
  "sh_event_store (fst (account_invalidation_result i s)) = sh_event_store s"
  "sh_pending_recovery_status (fst (account_invalidation_result i s)) = sh_pending_recovery_status s"
  "sh_strategy_publication_faulted (fst (account_invalidation_result i s)) = sh_strategy_publication_faulted s"
  by (simp_all add: account_invalidation_result_def split: book_sync_transition.split)

lemma account_result:
  "snd (account_invalidation_result i s) \<longleftrightarrow> bir_target_found i
     \<and> bir_book_sync_transition i \<in> {BST_kBECAME_UNUSABLE, BST_kRECOVERY_REQUIRED, BST_kNONE}"
  by (simp add: account_invalidation_result_def split: book_sync_transition.split)

lemma terminal_handoff_frame [shard_frame]:
  "sh_shard_index (fst (shard_terminal_handoff h s)) = sh_shard_index s"
  "sh_installed_universe_version (fst (shard_terminal_handoff h s)) = sh_installed_universe_version s"
  "sh_run_state (fst (shard_terminal_handoff h s)) = sh_run_state s"
  "sh_router_queue (fst (shard_terminal_handoff h s)) = sh_router_queue s"
  "sh_to_control_queue (fst (shard_terminal_handoff h s)) = sh_to_control_queue s"
  "sh_from_control_queue (fst (shard_terminal_handoff h s)) = sh_from_control_queue s"
  "sh_strategy_queue (fst (shard_terminal_handoff h s)) = sh_strategy_queue s"
  "sh_event_store (fst (shard_terminal_handoff h s)) = sh_event_store s"
  "sh_pending_recovery_status (fst (shard_terminal_handoff h s)) = sh_pending_recovery_status s"
  "sh_strategy_publication_faulted (fst (shard_terminal_handoff h s)) = sh_strategy_publication_faulted s"
  by (simp_all add: shard_terminal_handoff_def Let_def case_prod_beta shard_frame)

lemma finish_frame_frame [shard_frame]:
  "sh_shard_index (fst (finish_frame h r s)) = sh_shard_index s"
  "sh_installed_universe_version (fst (finish_frame h r s)) = sh_installed_universe_version s"
  "sh_run_state (fst (finish_frame h r s)) = sh_run_state s"
  "sh_router_queue (fst (finish_frame h r s)) = sh_router_queue s"
  "sh_to_control_queue (fst (finish_frame h r s)) = sh_to_control_queue s"
  "sh_from_control_queue (fst (finish_frame h r s)) = sh_from_control_queue s"
  "sh_strategy_queue (fst (finish_frame h r s)) = sh_strategy_queue s"
  "sh_event_store (fst (finish_frame h r s)) = sh_event_store s"
  "sh_pending_recovery_status (fst (finish_frame h r s)) = sh_pending_recovery_status s"
  "sh_strategy_publication_faulted (fst (finish_frame h r s)) = sh_strategy_publication_faulted s"
  by (simp_all add: finish_frame_def case_prod_beta shard_frame)

lemma publish_message_frame [shard_frame]:
  "sh_shard_index (fst (publish_strategy_message m s)) = sh_shard_index s"
  "sh_installed_universe_version (fst (publish_strategy_message m s)) = sh_installed_universe_version s"
  "sh_run_state (fst (publish_strategy_message m s)) = sh_run_state s"
  "sh_router_queue (fst (publish_strategy_message m s)) = sh_router_queue s"
  "sh_logger_queue (fst (publish_strategy_message m s)) = sh_logger_queue s"
  "sh_recycle_queue (fst (publish_strategy_message m s)) = sh_recycle_queue s"
  "sh_to_control_queue (fst (publish_strategy_message m s)) = sh_to_control_queue s"
  "sh_from_control_queue (fst (publish_strategy_message m s)) = sh_from_control_queue s"
  "sh_event_store (fst (publish_strategy_message m s)) = sh_event_store s"
  "sh_pending_recovery_status (fst (publish_strategy_message m s)) = sh_pending_recovery_status s"
  by (simp_all add: publish_strategy_message_def Let_def case_prod_beta)

lemma unavailable_frame [shard_frame]:
  "sh_shard_index (publish_event_unavailable v e m r s) = sh_shard_index s"
  "sh_installed_universe_version (publish_event_unavailable v e m r s) = sh_installed_universe_version s"
  "sh_run_state (publish_event_unavailable v e m r s) = sh_run_state s"
  "sh_router_queue (publish_event_unavailable v e m r s) = sh_router_queue s"
  "sh_logger_queue (publish_event_unavailable v e m r s) = sh_logger_queue s"
  "sh_recycle_queue (publish_event_unavailable v e m r s) = sh_recycle_queue s"
  "sh_to_control_queue (publish_event_unavailable v e m r s) = sh_to_control_queue s"
  "sh_from_control_queue (publish_event_unavailable v e m r s) = sh_from_control_queue s"
  "sh_event_store (publish_event_unavailable v e m r s) = sh_event_store s"
  "sh_pending_recovery_status (publish_event_unavailable v e m r s) = sh_pending_recovery_status s"
  by (simp_all add: publish_event_unavailable_def shard_frame)

lemma shard_unavailable_frame [shard_frame]:
  "sh_shard_index (publish_shard_unavailable v s) = sh_shard_index s"
  "sh_installed_universe_version (publish_shard_unavailable v s) = sh_installed_universe_version s"
  "sh_run_state (publish_shard_unavailable v s) = sh_run_state s"
  "sh_router_queue (publish_shard_unavailable v s) = sh_router_queue s"
  "sh_logger_queue (publish_shard_unavailable v s) = sh_logger_queue s"
  "sh_recycle_queue (publish_shard_unavailable v s) = sh_recycle_queue s"
  "sh_to_control_queue (publish_shard_unavailable v s) = sh_to_control_queue s"
  "sh_from_control_queue (publish_shard_unavailable v s) = sh_from_control_queue s"
  "sh_event_store (publish_shard_unavailable v s) = sh_event_store s"
  "sh_pending_recovery_status (publish_shard_unavailable v s) = sh_pending_recovery_status s"
  by (simp_all add: publish_shard_unavailable_def shard_frame)

lemma publish_pair_frame [shard_frame]:
  "sh_shard_index (fst (publish_pair e h t i s)) = sh_shard_index s"
  "sh_installed_universe_version (fst (publish_pair e h t i s)) = sh_installed_universe_version s"
  "sh_run_state (fst (publish_pair e h t i s)) = sh_run_state s"
  "sh_router_queue (fst (publish_pair e h t i s)) = sh_router_queue s"
  "sh_logger_queue (fst (publish_pair e h t i s)) = sh_logger_queue s"
  "sh_recycle_queue (fst (publish_pair e h t i s)) = sh_recycle_queue s"
  "sh_to_control_queue (fst (publish_pair e h t i s)) = sh_to_control_queue s"
  "sh_from_control_queue (fst (publish_pair e h t i s)) = sh_from_control_queue s"
  "sh_event_store (fst (publish_pair e h t i s)) = sh_event_store s"
  "sh_pending_recovery_status (fst (publish_pair e h t i s)) = sh_pending_recovery_status s"
  by (simp_all add: publish_pair_def Let_def case_prod_beta shard_frame split: option.split)

lemma publish_pairs_frame [shard_frame]:
  "sh_shard_index (publish_pairs e h t is s) = sh_shard_index s"
  "sh_installed_universe_version (publish_pairs e h t is s) = sh_installed_universe_version s"
  "sh_run_state (publish_pairs e h t is s) = sh_run_state s"
  "sh_router_queue (publish_pairs e h t is s) = sh_router_queue s"
  "sh_logger_queue (publish_pairs e h t is s) = sh_logger_queue s"
  "sh_recycle_queue (publish_pairs e h t is s) = sh_recycle_queue s"
  "sh_to_control_queue (publish_pairs e h t is s) = sh_to_control_queue s"
  "sh_from_control_queue (publish_pairs e h t is s) = sh_from_control_queue s"
  "sh_event_store (publish_pairs e h t is s) = sh_event_store s"
  "sh_pending_recovery_status (publish_pairs e h t is s) = sh_pending_recovery_status s"
  by (induction "is" arbitrary: s) (simp_all add: case_prod_beta shard_frame)

lemma publish_affected_frame [shard_frame]:
  "sh_shard_index (publish_affected_pairs h r t s) = sh_shard_index s"
  "sh_installed_universe_version (publish_affected_pairs h r t s) = sh_installed_universe_version s"
  "sh_run_state (publish_affected_pairs h r t s) = sh_run_state s"
  "sh_router_queue (publish_affected_pairs h r t s) = sh_router_queue s"
  "sh_logger_queue (publish_affected_pairs h r t s) = sh_logger_queue s"
  "sh_recycle_queue (publish_affected_pairs h r t s) = sh_recycle_queue s"
  "sh_to_control_queue (publish_affected_pairs h r t s) = sh_to_control_queue s"
  "sh_from_control_queue (publish_affected_pairs h r t s) = sh_from_control_queue s"
  "sh_event_store (publish_affected_pairs h r t s) = sh_event_store s"
  "sh_pending_recovery_status (publish_affected_pairs h r t s) = sh_pending_recovery_status s"
  by (simp_all add: publish_affected_pairs_def shard_frame split: option.split)

section \<open>Statuses for the control plane\<close>

definition is_recovery_status :: "shard_to_control_message \<Rightarrow> bool" where
  "is_recovery_status m = (case m of ShardMarketRecoveryRequired _ \<Rightarrow> True | ShardRecoverySnapshotApplied _ \<Rightarrow> True | _ \<Rightarrow> False)"

definition recovery_reports :: "shard \<Rightarrow> shard_to_control_message list" where
  "recovery_reports s = filter is_recovery_status (bq_items (sh_to_control_queue s)) @
     (case sh_pending_recovery_status s of None \<Rightarrow> [] | Some m \<Rightarrow> [m])"

lemma recovery_reports_cong:
  "sh_to_control_queue s = sh_to_control_queue t \<Longrightarrow> sh_pending_recovery_status s = sh_pending_recovery_status t
     \<Longrightarrow> recovery_reports s = recovery_reports t"
  by (simp add: recovery_reports_def)

lemma send_control_items:
  "bq_items (sh_to_control_queue (fst (shard_send_control m s))) = bq_items (sh_to_control_queue s)
     @ (if snd (shard_send_control m s) then [m] else [])"
  by (cases rule: bq_push_cases [of m "sh_to_control_queue s"]) (simp_all add: shard_send_control_def)

lemma send_other_reports:
  "\<not> is_recovery_status m \<Longrightarrow> recovery_reports (fst (shard_send_control m s)) = recovery_reports s"
  by (simp add: recovery_reports_def send_control_items shard_frame)

lemma fault_reports: "recovery_reports (fault_shard v r s) = recovery_reports s"
  by (simp add: fault_shard_def send_control_items shard_frame is_recovery_status_def recovery_reports_def)

text \<open>A status is sent or retained when none is retained already.\<close>

lemma send_or_defer_reports:
  assumes "sh_pending_recovery_status s = None" and "is_recovery_status m"
  shows "recovery_reports (fst (send_or_defer_recovery_status m s)) = recovery_reports s @ [m]"
    and "snd (send_or_defer_recovery_status m s)"
  using assms send_control_items [of m s] send_control_frame(10) [of m s]
  by (auto simp: send_or_defer_recovery_status_def recovery_reports_def split: prod.splits bool.splits if_splits)

lemma send_or_defer_frame [shard_frame]:
  "sh_shard_index (fst (send_or_defer_recovery_status m s)) = sh_shard_index s"
  "sh_installed_universe_version (fst (send_or_defer_recovery_status m s)) = sh_installed_universe_version s"
  "sh_run_state (fst (send_or_defer_recovery_status m s)) = sh_run_state s"
  "sh_router_queue (fst (send_or_defer_recovery_status m s)) = sh_router_queue s"
  "sh_logger_queue (fst (send_or_defer_recovery_status m s)) = sh_logger_queue s"
  "sh_recycle_queue (fst (send_or_defer_recovery_status m s)) = sh_recycle_queue s"
  "sh_from_control_queue (fst (send_or_defer_recovery_status m s)) = sh_from_control_queue s"
  "sh_strategy_queue (fst (send_or_defer_recovery_status m s)) = sh_strategy_queue s"
  "sh_event_store (fst (send_or_defer_recovery_status m s)) = sh_event_store s"
  "sh_strategy_publication_faulted (fst (send_or_defer_recovery_status m s)) = sh_strategy_publication_faulted s"
  using send_control_frame [of m s]
  by (auto simp: send_or_defer_recovery_status_def split: prod.split bool.split)

lemma flush_cases:
  obtains (none) "flush_pending_recovery_status s = (s, True)" "sh_pending_recovery_status s = None"
    | (sent) m where "sh_pending_recovery_status s = Some m"
        "flush_pending_recovery_status s = (s\<lparr>sh_to_control_queue := (sh_to_control_queue s)\<lparr>bq_items :=
           bq_items (sh_to_control_queue s) @ [m]\<rparr>, sh_pending_recovery_status := None\<rparr>, True)"
    | (full) m where "sh_pending_recovery_status s = Some m" "flush_pending_recovery_status s = (s, False)"
proof (cases "sh_pending_recovery_status s")
  case None
  then show ?thesis by (intro none) (simp_all add: flush_pending_recovery_status_def)
next
  case (Some m)
  then show ?thesis
    by (cases rule: bq_push_cases [of m "sh_to_control_queue s"])
      (auto simp: flush_pending_recovery_status_def shard_send_control_def intro: sent full)
qed

lemma flush_frame [shard_frame]:
  "sh_shard_index (fst (flush_pending_recovery_status s)) = sh_shard_index s"
  "sh_installed_universe_version (fst (flush_pending_recovery_status s)) = sh_installed_universe_version s"
  "sh_run_state (fst (flush_pending_recovery_status s)) = sh_run_state s"
  "sh_router_queue (fst (flush_pending_recovery_status s)) = sh_router_queue s"
  "sh_logger_queue (fst (flush_pending_recovery_status s)) = sh_logger_queue s"
  "sh_recycle_queue (fst (flush_pending_recovery_status s)) = sh_recycle_queue s"
  "sh_from_control_queue (fst (flush_pending_recovery_status s)) = sh_from_control_queue s"
  "sh_strategy_queue (fst (flush_pending_recovery_status s)) = sh_strategy_queue s"
  "sh_event_store (fst (flush_pending_recovery_status s)) = sh_event_store s"
  "sh_strategy_publication_faulted (fst (flush_pending_recovery_status s)) = sh_strategy_publication_faulted s"
  by (cases rule: flush_cases [of s]; simp)+

text \<open>The retained status of a shard is a recovery status.\<close>

definition pending_ok :: "shard \<Rightarrow> bool" where
  "pending_ok s \<longleftrightarrow> (\<forall>m. sh_pending_recovery_status s = Some m \<longrightarrow> is_recovery_status m)"

lemma flush_reports:
  assumes "pending_ok s"
  shows "recovery_reports (fst (flush_pending_recovery_status s)) = recovery_reports s"
  using assms by (cases rule: flush_cases [of s]) (simp_all add: recovery_reports_def pending_ok_def)

lemma flush_pending:
  "sh_pending_recovery_status (fst (flush_pending_recovery_status s)) =
     (if snd (flush_pending_recovery_status s) then None else sh_pending_recovery_status s)"
  by (cases rule: flush_cases [of s]) simp_all

lemma report_required_frame:
  "report_market_recovery_required v k sid q m e r s = send_or_defer_recovery_status (ShardMarketRecoveryRequired
     \<lparr>smr_universe_version = v, smr_shard_index = sh_shard_index s, smr_incident = k, smr_sid = sid, smr_sequence = q,
      smr_market_id = m, smr_event_id = e, smr_reason = r\<rparr>) s"
  by (simp add: report_market_recovery_required_def)

end
