(* ===== verification/Shard_Knowledge.thy ===== *)
theory Shard_Knowledge
  imports Shard_Frames
begin

text \<open>
  What a strategy can know of the books of a shard: the pairs of a universe it learns from the stream of messages of
  that shard, and how each publication of the shard extends it.
\<close>

section \<open>The channel to the strategy\<close>

definition channel_push ::
  "shard_to_strategy_message \<Rightarrow> shard_to_strategy_message bqueue \<times> bool \<Rightarrow> shard_to_strategy_message bqueue \<times> bool" where
  "channel_push m c = (case c of (q, faulted) \<Rightarrow>
     if faulted then (q, True) else (case bq_push m q of (q', ok) \<Rightarrow> (q', \<not> ok)))"

definition channel :: "shard \<Rightarrow> shard_to_strategy_message bqueue \<times> bool" where
  "channel s = (sh_strategy_queue s, sh_strategy_publication_faulted s)"

lemma channel_fault [simp]: "channel (fault_shard v r s) = channel s"
  by (simp add: channel_def shard_frame)

lemma channel_finish [simp]: "channel (fst (finish_frame h r s)) = channel s"
  by (simp add: channel_def shard_frame)

lemma channel_account [simp]: "channel (fst (account_invalidation_result i s)) = channel s"
  by (simp add: channel_def shard_frame)

lemma channel_send [simp]: "channel (fst (shard_send_control m s)) = channel s"
  by (simp add: channel_def shard_frame)

lemma channel_send_or_defer [simp]: "channel (fst (send_or_defer_recovery_status m s)) = channel s"
  by (simp add: channel_def shard_frame)

lemma channel_now [simp]: "channel (snd (shard_now_ns s)) = channel s"
  by (simp add: channel_def shard_frame)

lemma channel_updates [simp]:
  "channel (s\<lparr>sh_stats := st\<rparr>) = channel s" "channel (s\<lparr>sh_event_store := es\<rparr>) = channel s"
  "channel (s\<lparr>sh_next_shard_incident_id := n\<rparr>) = channel s" "channel (s\<lparr>sh_run_state := rs\<rparr>) = channel s"
  "channel (s\<lparr>sh_router_queue := rq\<rparr>) = channel s"
  by (simp_all add: channel_def)

lemma channel_publish: "channel (fst (publish_strategy_message m s)) = channel_push m (channel s)"
  by (cases rule: bq_push_cases [of m "sh_strategy_queue s"])
    (simp_all add: channel_def channel_push_def publish_strategy_message_def)

lemma publish_faulted: "\<not> snd (publish_strategy_message m s) \<longleftrightarrow> snd (channel (fst (publish_strategy_message m s)))"
  by (cases rule: bq_push_cases [of m "sh_strategy_queue s"]) (simp_all add: channel_def publish_strategy_message_def)

section \<open>What a message says\<close>

type_synonym pair_views = "strategy_market_view \<times> strategy_market_view"

fun message_version :: "shard_to_strategy_message \<Rightarrow> u64" where
  "message_version (SmObservation obs) = mpo_universe_version obs"
| "message_version (SmEventUnavailable u) = seu_universe_version u"
| "message_version (SmShardUnavailable u) = ssu_universe_version u"

fun learn :: "u64 \<Rightarrow> shard_to_strategy_message \<Rightarrow> (event_id \<times> u32 \<rightharpoonup> pair_views) \<Rightarrow> (event_id \<times> u32 \<rightharpoonup> pair_views)" where
  "learn v (SmObservation obs) K =
     (if mpo_universe_version obs = v
      then K((mpo_event_id obs, smv_event_market_index (mpo_easier obs)) \<mapsto> (mpo_easier obs, mpo_harder obs)) else K)"
| "learn v (SmEventUnavailable u) K =
     (if seu_universe_version u = v then (\<lambda>k. if fst k = seu_event_id u then None else K k) else K)"
| "learn v (SmShardUnavailable u) K = (if ssu_universe_version u = v then Map.empty else K)"

definition knowledge :: "u64 \<Rightarrow> shard_to_strategy_message list \<Rightarrow> (event_id \<times> u32 \<rightharpoonup> pair_views)" where
  "knowledge v ms = fold (learn v) ms Map.empty"

lemma knowledge_snoc [simp]: "knowledge v (ms @ [m]) = learn v m (knowledge v ms)"
  by (simp add: knowledge_def)

lemma learn_other_version: "message_version m \<noteq> v \<Longrightarrow> learn v m K = K"
  by (cases m) simp_all

lemma knowledge_fresh: "list_all (\<lambda>m. message_version m \<noteq> v) ms \<Longrightarrow> knowledge v ms = Map.empty"
  by (induction ms rule: rev_induct) (simp_all add: learn_other_version knowledge_def)

section \<open>What the books say\<close>

definition pair_of :: "monotonic_pair_observation \<Rightarrow> pair_views" where
  "pair_of obs = (mpo_easier obs, mpo_harder obs)"

definition no_context :: strategy_observation_context where
  "no_context = \<lparr>soc_universe_version = 0, soc_shard_index = 0, soc_ingress_timestamp_ns = 0,
     soc_book_apply_timestamp_ns = 0, soc_publish_timestamp_ns = 0\<rparr>"

definition current_pair :: "event \<Rightarrow> u32 \<Rightarrow> pair_views option" where
  "current_pair e i = map_option pair_of (build_monotonic_pair_observation e i no_context)"

lemma build_context:
  "map_option pair_of (build_monotonic_pair_observation e i ctx) = current_pair e i"
  by (auto simp: current_pair_def build_monotonic_pair_observation_def pair_of_def Let_def split: option.splits)

lemma build_SomeD:
  assumes "build_monotonic_pair_observation e i ctx = Some obs"
  shows "current_pair e i = Some (mpo_easier obs, mpo_harder obs)"
    and "mpo_universe_version obs = soc_universe_version ctx" and "mpo_event_id obs = ke_event_id (ev_state e)"
    and "smv_event_market_index (mpo_easier obs) = i"
proof -
  show "current_pair e i = Some (mpo_easier obs, mpo_harder obs)"
    using assms build_context [of e i ctx] by (simp add: pair_of_def)
  show "mpo_universe_version obs = soc_universe_version ctx" "mpo_event_id obs = ke_event_id (ev_state e)"
    "smv_event_market_index (mpo_easier obs) = i"
    using assms by (auto simp: build_monotonic_pair_observation_def market_view_of_def Let_def split: if_splits option.splits)
qed

lemma current_pair_unusable: "\<not> event_usable e \<Longrightarrow> current_pair e i = None"
  by (simp add: current_pair_def build_monotonic_pair_observation_def)

lemma current_pair_topology: "ke_topology (ev_state e) \<noteq> ET_kMONOTONIC_CHAIN \<Longrightarrow> current_pair e i = None"
  by (simp add: current_pair_def build_monotonic_pair_observation_def)

lemma current_pair_range: "length (ev_markets e) \<le> Suc (unat i) \<Longrightarrow> current_pair e i = None"
  by (auto simp: current_pair_def build_monotonic_pair_observation_def)

lemma current_pair_state: "ev_state e = ev_state e' \<Longrightarrow> current_pair e i = current_pair e' i"
  by (simp add: current_pair_def build_monotonic_pair_observation_def event_usable_def Let_def pair_of_def split: option.split)

text \<open>A changed book matters to the two pairs that include its market.\<close>

lemma current_pair_elsewhere:
  assumes "ev_state e' = (ev_state e)\<lparr>ke_markets := (ev_markets e)[unat j := m]\<rparr>" and "event_usable e" "event_usable e'"
    and "length (ev_markets e) < 2 ^ 32" and "i \<noteq> j" "i + 1 \<noteq> j"
  shows "current_pair e' i = current_pair e i"
proof -
  have "unat i \<noteq> unat j" "unat (i + 1) \<noteq> unat j" using assms(5,6) by (simp_all add: unsigned_word_eqI word_unat_eq_iff)
  then show ?thesis using assms(1-3)
    by (simp add: current_pair_def build_monotonic_pair_observation_def Let_def pair_of_def split: option.split)
qed

section \<open>Publishing\<close>

text \<open>The messages sent so far are the ones the strategy has taken, \<open>taken\<close>, and those in the queue.\<close>

lemma channel_push_learn:
  assumes "\<not> snd (channel_push m c)"
  shows "\<not> snd c" and "knowledge v (taken @ bq_items (fst (channel_push m c))) = learn v m (knowledge v (taken @ bq_items (fst c)))"
  using assms by (auto simp: channel_push_def bq_push_def case_prod_beta simp flip: append_assoc split: if_splits)

lemma publish_pair_learn:
  assumes "\<not> snd (channel (fst (publish_pair e h t i s)))" and "fh_universe_version h = v"
  shows "\<not> snd (channel s)" and "snd (publish_pair e h t i s)"
    and "knowledge v (taken @ bq_items (fst (channel (fst (publish_pair e h t i s))))) =
      (knowledge v (taken @ bq_items (fst (channel s)))) ((ke_event_id (ev_state e), i) := current_pair e i)"
proof -
  let ?c = "\<lparr>soc_universe_version = fh_universe_version h, soc_shard_index = sh_shard_index (snd (shard_now_ns s)),
     soc_ingress_timestamp_ns = fh_ingress_ts_ns h, soc_book_apply_timestamp_ns = t,
     soc_publish_timestamp_ns = fst (shard_now_ns s)\<rparr>"
  obtain obs where b: "build_monotonic_pair_observation e i ?c = Some obs"
    using assms(1) by (auto simp: publish_pair_def case_prod_beta Let_def channel_def split: option.splits)
  then have p: "publish_pair e h t i s = publish_strategy_message (SmObservation obs) (snd (shard_now_ns s))"
    by (simp add: publish_pair_def case_prod_beta Let_def)
  have f: "\<not> snd (channel_push (SmObservation obs) (channel s))" using assms(1) p by (simp add: channel_publish)
  show "\<not> snd (channel s)" using channel_push_learn(1) [OF f] .
  show "snd (publish_pair e h t i s)" using p assms(1) publish_faulted by metis
  show "knowledge v (taken @ bq_items (fst (channel (fst (publish_pair e h t i s))))) =
      (knowledge v (taken @ bq_items (fst (channel s)))) ((ke_event_id (ev_state e), i) := current_pair e i)"
    using channel_push_learn(2) [OF f] build_SomeD [OF b] assms(2) by (simp add: p channel_publish)
qed

lemma publish_pairs_learn:
  assumes "\<not> snd (channel (publish_pairs e h t is s))" and "fh_universe_version h = v"
  shows "\<not> snd (channel s) \<and> knowledge v (taken @ bq_items (fst (channel (publish_pairs e h t is s)))) =
      (\<lambda>k. if fst k = ke_event_id (ev_state e) \<and> snd k \<in> set is then current_pair e (snd k)
           else knowledge v (taken @ bq_items (fst (channel s))) k)"
  using assms
proof (induction "is" arbitrary: s)
  case (Cons i "is")
  let ?s = "fst (publish_pair e h t i s)"
  have "\<not> snd (channel ?s)"
    using Cons.prems(1) Cons.IH [of ?s, OF _ Cons.prems(2)] by (auto simp: case_prod_beta split: if_splits)
  note p = publish_pair_learn [OF this Cons.prems(2)]
  have "publish_pairs e h t (i # is) s = publish_pairs e h t is ?s" using p(2) by (simp add: case_prod_beta)
  then show ?case using Cons.IH [of ?s] Cons.prems p by (auto simp: fun_eq_iff)
qed (simp add: fun_eq_iff)

end
