(* ===== verification/Shard_Steps.thy ===== *)
theory Shard_Steps
  imports Shard_Knowledge
begin

text \<open>
  The effect of the handlers of the shard on its books, on what the strategy knows of them and on the reports for
  the control plane.
\<close>

section \<open>One market changes\<close>

definition event_id_of :: "event \<Rightarrow> event_id" where
  "event_id_of e = ke_event_id (ev_state e)"

definition with_market :: "event \<Rightarrow> u32 \<Rightarrow> kalshi_market \<Rightarrow> kalshi_event" where
  "with_market e i m = (ev_state e)\<lparr>ke_markets := (ev_markets e)[unat i := m]\<rparr>"

lemma apply_to_market_cases:
  obtains (same) "fst (apply_to_market a m p) = m" "\<not> (is_book_message p \<and> mar_disposition (snd (apply_to_market a m p)) = AD_kAPPLIED)"
      "mar_book_sync_transition (snd (apply_to_market a m p)) = BST_kNONE"
    | (changed) b where "fst (apply_to_market a m p) = set_book m b" "book_usable b"
        "is_book_message p" "mar_disposition (snd (apply_to_market a m p)) = AD_kAPPLIED"
        "mar_book_sync_transition (snd (apply_to_market a m p)) \<noteq> BST_kBECAME_UNUSABLE"
    | (lost) b where "fst (apply_to_market a m p) = set_book m b" "\<not> book_usable b"
        "mar_disposition (snd (apply_to_market a m p)) = AD_kREJECTED"
        "mar_book_sync_transition (snd (apply_to_market a m p)) = BST_kBECAME_UNUSABLE \<longleftrightarrow> book_usable (km_book m)"
proof (cases p)
  case (PE_Snapshot x)
  have rej: thesis if r: "apply_snapshot a m x = reject_snapshot m why" for why
  proof (cases "why = MAR_kINVALID_BOOK_SCALE")
    case True
    then show thesis using PE_Snapshot r by (intro same) (simp_all add: apply_to_market_def reject_snapshot_def)
  next
    case False
    then show thesis using PE_Snapshot r
      by (intro lost [of "book_invalidate (km_book m)"])
        (simp_all add: apply_to_market_def reject_snapshot_def Let_def book_usable_def split: book_sync_state.split)
  qed
  obtain c ok where g: "set_index_grid a (empty_book\<lparr>kb_scale := kb_scale (km_book m)\<rparr>) = (c, ok)" by fastforce
  show thesis
  proof (cases "\<exists>why. apply_snapshot a m x = reject_snapshot m why")
    case True
    then show thesis using rej by blast
  next
    case False
    then obtain bids asks where "apply_snapshot a m x = (set_book m (c\<lparr>kb_bids := bids, kb_asks := asks, kb_sync_state := BSS_kSYNCHRONIZED\<rparr>),
       \<lparr>mar_disposition = AD_kAPPLIED, mar_book_sync_transition =
          (if \<not> book_usable (km_book m) then (if kb_sync_state (km_book m) = BSS_kAWAITING_INITIAL_SNAPSHOT
             then BST_kINITIAL_SNAPSHOT_INSTALLED else BST_kRECOVERED) else BST_kNONE), mar_reason = MAR_kNONE\<rparr>)"
      by (auto simp: apply_snapshot_def g Let_def split: if_splits option.splits)
    then show thesis using PE_Snapshot
      by (intro changed [of "c\<lparr>kb_bids := bids, kb_asks := asks, kb_sync_state := BSS_kSYNCHRONIZED\<rparr>"])
        (simp_all add: apply_to_market_def is_book_message_def book_usable_def)
  qed
next
  case (PE_Delta d)
  have rej: thesis if "apply_delta m d = reject_delta m why" for why
    using that PE_Delta by (intro lost [of "book_invalidate (km_book m)"])
      (simp_all add: apply_to_market_def reject_delta_def Let_def book_usable_def)
  show thesis
  proof (cases "kb_sync_state (km_book m) = BSS_kSYNCHRONIZED")
    case True
    show thesis
    proof (cases "\<exists>why. apply_delta m d = reject_delta m why")
      case False
      then obtain b where "apply_delta m d = (set_book m b, applied)" "kb_sync_state b = BSS_kSYNCHRONIZED"
        using True by (fastforce simp: apply_delta_def Let_def split: option.splits side.splits sum.splits)
      then show thesis using PE_Delta
        by (intro changed [of b]) (simp_all add: apply_to_market_def is_book_message_def book_usable_def applied_def)
    qed (use rej in blast)
  next
    case False
    then show thesis using PE_Delta
      by (intro same) (cases "kb_sync_state (km_book m)"; simp add: apply_to_market_def apply_delta_def Let_def)+
  qed
qed (rule same; simp add: apply_to_market_def apply_trade_def apply_lifecycle_def is_book_message_def applied_def)+

lemma event_usable_update:
  assumes "ev_state e' = with_market e i (set_book (ev_markets e ! unat i) b)" and "unat i < length (ev_markets e)"
  shows "event_usable e \<Longrightarrow> event_usable e' \<longleftrightarrow> book_usable b"
    and "\<not> book_usable b \<Longrightarrow> \<not> event_usable e'"
  using assms by (auto simp: event_usable_def with_market_def list_all_length nth_list_update)

text \<open>Applying a message leaves an event as it is, changes the book of one market to a usable one and says so, or
  makes it unusable and says so.\<close>

lemma event_apply_cases:
  assumes "unat i < length (ev_markets e)" and "event_apply a e i p = (e', r)"
  obtains (same) "ev_state e' = ev_state e" "\<not> ear_book_changed r" "ear_book_sync_transition r = BST_kNONE"
    | (changed) m where "ev_state e' = with_market e i m" "ear_book_changed r" "ear_disposition r = AD_kAPPLIED"
        "ear_book_sync_transition r \<noteq> BST_kBECAME_UNUSABLE" "ear_event_became_usable r \<longleftrightarrow> \<not> event_usable e \<and> event_usable e'"
        "event_usable e \<Longrightarrow> event_usable e'"
    | (lost) m where "ev_state e' = with_market e i m" "\<not> ear_book_changed r" "ear_disposition r = AD_kREJECTED"
        "ear_book_sync_transition r = BST_kBECAME_UNUSABLE \<longleftrightarrow> book_usable (km_book (ev_markets e ! unat i))"
        "\<not> event_usable e'"
proof -
  let ?m = "ev_markets e ! unat i"
  obtain m' q where q: "apply_to_market a ?m p = (m', q)" by fastforce
  have e': "ev_state e' = with_market e i m'" and r: "ear_disposition r = mar_disposition q"
      "ear_book_sync_transition r = mar_book_sync_transition q"
      "ear_book_changed r \<longleftrightarrow> is_book_message p \<and> mar_disposition q = AD_kAPPLIED"
      "ear_event_became_usable r \<longleftrightarrow> \<not> event_usable e \<and> event_usable e'"
    using assms q by (auto simp: event_apply_def Let_def update_derived_state_after_market_update_def set_market_def
        with_market_def split: if_splits)
  show thesis
  proof (cases rule: apply_to_market_cases [of a ?m p])
    case same
    then show thesis using q e' r by (intro that(1)) (simp_all add: with_market_def)
  next
    case (changed b)
    then show thesis using q e' r event_usable_update(1) [of e' e i b] assms(1) by (intro that(2) [of m']) auto
  next
    case (lost b)
    then show thesis using q e' r event_usable_update(2) [of e' e i b] assms(1) by (intro that(3) [of m']) auto
  qed
qed

section \<open>The store\<close>

text \<open>Event ids are distinct, an event has fewer than \<open>2 ^ 32\<close> markets and the shard fewer than \<open>2 ^ 64\<close>.\<close>

definition store_ok :: "event_store \<Rightarrow> bool" where
  "store_ok es \<longleftrightarrow> distinct (map event_id_of es) \<and> list_all (\<lambda>e. length (ev_markets e) < 2 ^ 32) es
     \<and> sum_list (map (\<lambda>e. length (ev_markets e)) es) < 2 ^ 64"

definition same_shape :: "event \<Rightarrow> event \<Rightarrow> bool" where
  "same_shape e e' \<longleftrightarrow> event_id_of e' = event_id_of e \<and> length (ev_markets e') = length (ev_markets e)"

lemma same_shape_with_market: "ev_state e' = with_market e i m \<Longrightarrow> same_shape e e'"
  by (simp add: same_shape_def event_id_of_def with_market_def)

lemma same_shape_state: "ev_state e' = ev_state e \<Longrightarrow> same_shape e e'"
  by (simp add: same_shape_def event_id_of_def)

lemma store_ok_update:
  assumes "store_ok es" and "k < length es" and "same_shape (es ! k) e"
  shows "store_ok (es[k := e])"
proof -
  have "map event_id_of (es[k := e]) = map event_id_of es"
    "map (\<lambda>e. length (ev_markets e)) (es[k := e]) = map (\<lambda>e. length (ev_markets e)) es"
    using assms(2,3) by (simp_all add: same_shape_def map_update list_update_same_conv_nth)
  then show ?thesis using assms by (simp add: store_ok_def same_shape_def list_all_length nth_list_update)
qed

lemma store_ok_ids: "store_ok es \<Longrightarrow> k < length es \<Longrightarrow> l < length es \<Longrightarrow> event_id_of (es ! k) = event_id_of (es ! l) \<longleftrightarrow> k = l"
  using nth_eq_iff_index_eq [of "map event_id_of es" k l] by (simp add: store_ok_def)

text \<open>The strategy knows exactly the pairs of the books.\<close>

definition knows_books :: "u64 \<Rightarrow> event_store \<Rightarrow> shard_to_strategy_message list \<Rightarrow> bool" where
  "knows_books v es H \<longleftrightarrow> (\<forall>e \<in> set es. \<forall>i. knowledge v H (event_id_of e, i) = current_pair e i)"

lemma knows_booksD: "knows_books v es H \<Longrightarrow> k < length es \<Longrightarrow> knowledge v H (event_id_of (es ! k), i) = current_pair (es ! k) i"
  by (simp add: knows_books_def)

lemma knows_books_update:
  assumes "store_ok es" and "k < length es" and "same_shape (es ! k) e" and "knows_books v es H"
    and "\<And>i. knowledge v H' (event_id_of e, i) = current_pair e i"
    and "\<And>x i. x \<noteq> event_id_of e \<Longrightarrow> knowledge v H' (x, i) = knowledge v H (x, i)"
  shows "knows_books v (es[k := e]) H'"
proof -
  have "knowledge v H' (event_id_of (es[k := e] ! l), i) = current_pair (es[k := e] ! l) i" if "l < length es" for l i
  proof (cases "l = k")
    case False
    then have "event_id_of (es ! l) \<noteq> event_id_of e"
      using store_ok_ids [OF assms(1) that assms(2)] assms(3) by (simp add: same_shape_def)
    then show ?thesis using False assms(6) knows_booksD [OF assms(4) that] by simp
  qed (use assms(2,5) in simp)
  then show ?thesis by (auto simp: knows_books_def in_set_conv_nth)
qed

lemma knows_books_same:
  assumes "store_ok es" and "k < length es" and "ev_state e = ev_state (es ! k)" and "knows_books v es H"
  shows "knows_books v (es[k := e]) H"
proof (rule knows_books_update [OF assms(1,2) same_shape_state [OF assms(3)] assms(4)])
  fix i
  show "knowledge v H (event_id_of e, i) = current_pair e i"
    using knows_booksD [OF assms(4,2)] assms(3) current_pair_state [OF assms(3)] by (simp add: event_id_of_def)
qed simp

text \<open>An event whose book became unusable: the strategy is told when the event was usable.\<close>

lemma knows_books_lost:
  assumes "store_ok es" and "k < length es" and "same_shape (es ! k) e" and "\<not> event_usable e" and "knows_books v es H"
    and told: "seu_universe_version u = v" "seu_event_id u = event_id_of e"
  shows "knows_books v (es[k := e]) (H @ [SmEventUnavailable u])"
    and "\<not> event_usable (es ! k) \<Longrightarrow> knows_books v (es[k := e]) H"
proof -
  show "knows_books v (es[k := e]) (H @ [SmEventUnavailable u])"
    using told assms(4) by (intro knows_books_update [OF assms(1-3,5)]) (simp_all add: current_pair_unusable)
  show "knows_books v (es[k := e]) H" if "\<not> event_usable (es ! k)"
    using that knows_booksD [OF assms(5,2)] assms(3,4)
    by (intro knows_books_update [OF assms(1-3,5)]) (simp_all add: current_pair_unusable same_shape_def)
qed

section \<open>Handles\<close>

text \<open>A handle that passes the checks of \<open>validate_handle_target\<close> names a market of the store.\<close>

lemma validate_handle_targetD:
  assumes "validate_handle_target h s = None"
  shows "fh_universe_version h = sh_installed_universe_version s"
    and "unat (fh_shard_event_index h) < length (sh_event_store s)"
    and "event_id_of (sh_event_store s ! unat (fh_shard_event_index h)) = fh_event_id h"
    and "ke_topology (ev_state (sh_event_store s ! unat (fh_shard_event_index h))) = fh_topology h"
    and "unat (fh_event_market_index h) < length (ev_markets (sh_event_store s ! unat (fh_shard_event_index h)))"
    and "km_market_id (ev_markets (sh_event_store s ! unat (fh_shard_event_index h)) ! unat (fh_event_market_index h)) = fh_market_id h"
  using assms by (auto simp: validate_handle_target_def get_event_def get_market_def event_id_of_def
      split: if_splits option.splits)

section \<open>A lost book\<close>

text \<open>What a barrier for a market, a missing frame and a frame that does not parse do: the book of the market stops
  being usable, the strategy is told when it was usable, and the control plane gets one report unless the market is
  waiting for a recovery snapshot already.\<close>

definition market_lost ::
  "u64 \<Rightarrow> integrity_incident_key \<Rightarrow> u32 \<Rightarrow> u64 \<Rightarrow> u32 \<Rightarrow> u32 \<Rightarrow> market_id \<Rightarrow> event_id \<Rightarrow> book_invalidation_reason \<Rightarrow> shard \<Rightarrow> shard \<Rightarrow> bool" where
  "market_lost v incident sid sequence ei mi market_id event_id reason s s' \<longleftrightarrow>
     (let e = sh_event_store s ! unat ei; m = ev_markets e ! unat mi; old = kb_sync_state (km_book m);
          e' = fst (invalidate_market e mi reason)
      in sh_event_store s' = (sh_event_store s)[unat ei := e']
       \<and> kb_sync_state (km_book (ev_markets e' ! unat mi)) = BSS_kAWAITING_RECOVERY_SNAPSHOT
       \<and> channel s' = (if old = BSS_kSYNCHRONIZED
            then channel_push (SmEventUnavailable \<lparr>seu_universe_version = v, seu_shard_index = sh_shard_index s, seu_event_id = event_id,
                   seu_affected_market_id = market_id, seu_event_revision = ev_revision e'\<rparr>) (channel s)
            else channel s)
       \<and> recovery_reports s' = recovery_reports s @ (if old = BSS_kAWAITING_RECOVERY_SNAPSHOT then [] else
            [ShardMarketRecoveryRequired \<lparr>smr_universe_version = v, smr_shard_index = sh_shard_index s, smr_incident = incident,
               smr_sid = sid, smr_sequence = sequence, smr_market_id = market_id, smr_event_id = event_id, smr_reason = reason\<rparr>])
       \<and> sh_run_state s' = sh_run_state s)"

lemma store_invalidate_market_found:
  assumes "unat ei < length es" and "unat mi < length (ev_markets (es ! unat ei))"
    and "km_market_id (ev_markets (es ! unat ei) ! unat mi) = mid"
  shows "store_invalidate_market es ei mi mid r =
     (es[unat ei := fst (invalidate_market (es ! unat ei) mi r)], snd (invalidate_market (es ! unat ei) mi r))"
    and "bir_target_found (snd (invalidate_market (es ! unat ei) mi r))"
    and "bir_book_sync_transition (snd (invalidate_market (es ! unat ei) mi r)) =
      invalidation_transition (kb_sync_state (km_book (ev_markets (es ! unat ei) ! unat mi)))"
    and "bir_event_revision (snd (invalidate_market (es ! unat ei) mi r)) = ev_revision (fst (invalidate_market (es ! unat ei) mi r))"
    and "kb_sync_state (km_book (ev_markets (fst (invalidate_market (es ! unat ei) mi r)) ! unat mi)) = BSS_kAWAITING_RECOVERY_SNAPSHOT"
proof -
  show "store_invalidate_market es ei mi mid r =
     (es[unat ei := fst (invalidate_market (es ! unat ei) mi r)], snd (invalidate_market (es ! unat ei) mi r))"
    using assms by (simp add: store_invalidate_market_def get_market_def nth_opt_def case_prod_beta)
  show "kb_sync_state (km_book (ev_markets (fst (invalidate_market (es ! unat ei) mi r)) ! unat mi)) = BSS_kAWAITING_RECOVERY_SNAPSHOT"
    using assms(2) by (simp add: invalidate_market_markets modify_nth_def)
qed (use assms(2) in \<open>simp_all add: invalidate_market_def Let_def\<close>)

lemma needs_recovery_transition: "needs_recovery (invalidation_transition st) \<longleftrightarrow> st \<noteq> BSS_kAWAITING_RECOVERY_SNAPSHOT"
  by (cases st) (simp_all add: needs_recovery_def invalidation_transition_def)

lemma became_unusable_transition: "invalidation_transition st = BST_kBECAME_UNUSABLE \<longleftrightarrow> st = BSS_kSYNCHRONIZED"
  by (cases st) (simp_all add: invalidation_transition_def)

text \<open>The common tail of the three handlers: tell the strategy, then report. A report can always be retained, since
  none is pending.\<close>

lemma lost_told:
  assumes found: "unat ei < length (sh_event_store s)" "unat mi < length (ev_markets (sh_event_store s ! unat ei))"
      "km_market_id (ev_markets (sh_event_store s ! unat ei) ! unat mi) = mid"
    and none: "sh_pending_recovery_status s = None"
    and res: "store_invalidate_market (sh_event_store s) ei mi mid reason = (store, res)"
    and u: "sh_event_store u = store" "channel u = channel s" "sh_to_control_queue u = sh_to_control_queue s"
      "sh_pending_recovery_status u = None" "sh_run_state u = sh_run_state s" "sh_shard_index u = sh_shard_index s"
    and t: "t = (if bir_book_sync_transition res = BST_kBECAME_UNUSABLE
      then publish_event_unavailable v eid mid (bir_event_revision res) u else u)"
  shows "\<not> needs_recovery (bir_book_sync_transition res) \<Longrightarrow> market_lost v k sid q ei mi mid eid reason s t"
    and "needs_recovery (bir_book_sync_transition res) \<Longrightarrow> w = t \<or> w = t\<lparr>sh_next_shard_incident_id := n\<rparr> \<Longrightarrow>
      market_lost v k sid q ei mi mid eid reason s (fst (report_market_recovery_required v k sid q mid eid reason w))
      \<and> snd (report_market_recovery_required v k sid q mid eid reason w)"
proof -
  note f = store_invalidate_market_found [OF found, of reason]
  let ?e = "sh_event_store s ! unat ei"
  let ?old = "kb_sync_state (km_book (ev_markets ?e ! unat mi))"
  have store: "store = (sh_event_store s)[unat ei := fst (invalidate_market ?e mi reason)]"
    and r: "res = snd (invalidate_market ?e mi reason)" using f(1) res by auto
  have tf: "sh_event_store t = store" "sh_to_control_queue t = sh_to_control_queue s" "sh_pending_recovery_status t = None"
    "sh_run_state t = sh_run_state s" "sh_shard_index t = sh_shard_index s"
    using u t by (simp_all add: shard_frame)
  have tc: "channel t = (if ?old = BSS_kSYNCHRONIZED
      then channel_push (SmEventUnavailable \<lparr>seu_universe_version = v, seu_shard_index = sh_shard_index s, seu_event_id = eid,
         seu_affected_market_id = mid, seu_event_revision = ev_revision (fst (invalidate_market ?e mi reason))\<rparr>) (channel s)
      else channel s)"
    using u t f(3,4) by (simp add: r became_unusable_transition publish_event_unavailable_def channel_publish)
  have rt: "recovery_reports t = recovery_reports s" using tf(2,3) none by (simp add: recovery_reports_def)
  show "market_lost v k sid q ei mi mid eid reason s t" if "\<not> needs_recovery (bir_book_sync_transition res)"
    using that f(3,5) tf tc rt by (simp add: market_lost_def Let_def store r needs_recovery_transition)
  let ?m = "ShardMarketRecoveryRequired \<lparr>smr_universe_version = v, smr_shard_index = sh_shard_index s, smr_incident = k,
     smr_sid = sid, smr_sequence = q, smr_market_id = mid, smr_event_id = eid, smr_reason = reason\<rparr>"
  show "market_lost v k sid q ei mi mid eid reason s (fst (report_market_recovery_required v k sid q mid eid reason w))
      \<and> snd (report_market_recovery_required v k sid q mid eid reason w)"
    if need: "needs_recovery (bir_book_sync_transition res)" and "w = t \<or> w = t\<lparr>sh_next_shard_incident_id := n\<rparr>"
  proof -
    have w: "sh_event_store w = store" "channel w = channel t" "sh_pending_recovery_status w = None" "sh_run_state w = sh_run_state s"
      "sh_shard_index w = sh_shard_index s" "recovery_reports w = recovery_reports s"
      using that(2) tf rt by (auto simp: recovery_reports_def)
    have "recovery_reports (fst (send_or_defer_recovery_status ?m w)) = recovery_reports s @ [?m]"
      "snd (send_or_defer_recovery_status ?m w)"
      using send_or_defer_reports [OF w(3), of ?m] w(6) by (simp_all add: is_recovery_status_def)
    then show ?thesis using need f(3,5) w tc
      by (simp add: market_lost_def Let_def store r needs_recovery_transition report_required_frame shard_frame)
  qed
qed

lemma market_lost_finish:
  "market_lost v k sid q ei mi mid eid r s t \<Longrightarrow> market_lost v k sid q ei mi mid eid r s (fst (finish_frame h res t))"
  by (simp add: market_lost_def Let_def recovery_reports_def shard_frame)

definition shard_incident :: "shard \<Rightarrow> integrity_incident_key" where
  "shard_incident s = \<lparr>iik_origin = IIO_kSHARD, iik_producer_index = sh_shard_index s, iik_incident_id = sh_next_shard_incident_id s\<rparr>"

abbreviation frame_lost :: "frame_handle \<Rightarrow> book_invalidation_reason \<Rightarrow> shard \<Rightarrow> shard \<Rightarrow> bool" where
  "frame_lost h reason s s' \<equiv> market_lost (fh_universe_version h) (shard_incident s) (fh_sid h) (fh_sequence h)
     (fh_shard_event_index h) (fh_event_market_index h) (fh_market_id h) (fh_event_id h) reason s s'"

lemma incident_frame:
  "sh_next_shard_incident_id (fst (account_invalidation_result i s)) = sh_next_shard_incident_id s"
  "sh_next_shard_incident_id (publish_event_unavailable v e m r s) = sh_next_shard_incident_id s"
  by (simp_all add: account_invalidation_result_def publish_event_unavailable_def publish_strategy_message_def case_prod_beta Let_def
      split: book_sync_transition.split)

lemma account_found:
  "bir_target_found i \<Longrightarrow> bir_book_sync_transition i = invalidation_transition st \<Longrightarrow> snd (account_invalidation_result i s)"
  by (cases st) (simp_all add: account_result invalidation_transition_def)

lemma frame_lost_tail:
  assumes valid: "validate_handle_target h s = None" and none: "sh_pending_recovery_status s = None"
    and res: "store_invalidate_market (sh_event_store s) (fh_shard_event_index h) (fh_event_market_index h) (fh_market_id h) reason
      = (store, res)"
    and u: "u = fst (account_invalidation_result res (s\<lparr>sh_event_store := store\<rparr>))
      \<or> u = fst (account_invalidation_result res (tally_shard f s\<lparr>sh_event_store := store\<rparr>))"
    and t: "t = (if bir_book_sync_transition res = BST_kBECAME_UNUSABLE
      then publish_event_unavailable (fh_universe_version h) (fh_event_id h) (fh_market_id h) (bir_event_revision res) u else u)"
  shows "\<not> needs_recovery (bir_book_sync_transition res) \<Longrightarrow> frame_lost h reason s t"
    and "needs_recovery (bir_book_sync_transition res) \<Longrightarrow> frame_lost h reason s (fst (report_incident h reason err t))"
    and "snd (account_invalidation_result res x)"
proof -
  note v = validate_handle_targetD [OF valid]
  have uf: "sh_event_store u = store" "channel u = channel s" "sh_to_control_queue u = sh_to_control_queue s"
      "sh_pending_recovery_status u = None" "sh_run_state u = sh_run_state s" "sh_shard_index u = sh_shard_index s"
      "sh_next_shard_incident_id u = sh_next_shard_incident_id s"
    using u none by (auto simp: shard_frame incident_frame)
  note told = lost_told [OF v(2,5,6) none res uf(1-6) t]
  show "frame_lost h reason s t" if "\<not> needs_recovery (bir_book_sync_transition res)" using told(1) [OF that] .
  have "shard_incident t = shard_incident s" using uf(6,7) t by (simp add: shard_incident_def shard_frame incident_frame)
  then show "frame_lost h reason s (fst (report_incident h reason err t))" if "needs_recovery (bir_book_sync_transition res)"
    using told(2) [OF that, of "t\<lparr>sh_next_shard_incident_id := sh_next_shard_incident_id t + 1\<rparr>", OF disjI2, OF refl,
      of "shard_incident t" "fh_sid h" "fh_sequence h"]
    by (simp add: report_incident_def shard_incident_def case_prod_beta Let_def)
  show "snd (account_invalidation_result res x)"
    using store_invalidate_market_found(1-3) [OF v(2,5,6), of reason] res by (auto intro: account_found)
qed

lemma missing_frame_lost:
  assumes "validate_handle_target h s = None" and "sh_pending_recovery_status s = None" and "is_order_book h"
  shows "frame_lost h BIR_kSHARD_FRAME_MISSING s (fst (handle_missing_frame h s))"
proof -
  obtain store res where res: "store_invalidate_market (sh_event_store s) (fh_shard_event_index h) (fh_event_market_index h)
      (fh_market_id h) BIR_kSHARD_FRAME_MISSING = (store, res)" by fastforce
  note tail = frame_lost_tail [OF assms(1,2) res disjI1 [OF refl] refl]
  show ?thesis using tail(1,2) assms(3)
    by (cases "bir_book_sync_transition res")
      (simp_all add: handle_missing_frame_def needs_recovery_def res tail(3) case_prod_beta Let_def market_lost_finish)
qed

lemma parse_failure_lost:
  assumes "validate_handle_target h s = None" and "sh_pending_recovery_status s = None" and "is_order_book h"
  shows "frame_lost h BIR_kSHARD_PARSE_FAILURE s (fst (handle_parse_failure h why s))"
proof -
  obtain store res where res: "store_invalidate_market (sh_event_store s) (fh_shard_event_index h) (fh_event_market_index h)
      (fh_market_id h) BIR_kSHARD_PARSE_FAILURE = (store, res)" by fastforce
  note tail = frame_lost_tail [where f = "\<lambda>t. t\<lparr>shs_parse_rejects := shs_parse_rejects t + 1\<rparr>", OF assms(1,2) res disjI2 [OF refl] refl]
  show ?thesis using tail(1,2) assms(3)
    by (cases "bir_book_sync_transition res")
      (simp_all add: handle_parse_failure_def needs_recovery_def res tail(3) case_prod_beta Let_def market_lost_finish)
qed

text \<open>A barrier for a market that the shard has.\<close>

definition barrier_ok :: "market_invalidation_barrier \<Rightarrow> shard \<Rightarrow> bool" where
  "barrier_ok m s \<longleftrightarrow> mib_reason m \<noteq> BIR_kNONE \<and> mib_universe_version m = sh_installed_universe_version s
     \<and> mib_shard_index m = sh_shard_index s \<and> unat (mib_shard_event_index m) < length (sh_event_store s)
     \<and> event_id_of (sh_event_store s ! unat (mib_shard_event_index m)) = mib_event_id m
     \<and> unat (mib_event_market_index m) < length (ev_markets (sh_event_store s ! unat (mib_shard_event_index m)))
     \<and> km_market_id (ev_markets (sh_event_store s ! unat (mib_shard_event_index m)) ! unat (mib_event_market_index m)) = mib_market_id m"

abbreviation barrier_lost :: "market_invalidation_barrier \<Rightarrow> shard \<Rightarrow> shard \<Rightarrow> bool" where
  "barrier_lost m s s' \<equiv> market_lost (mib_universe_version m) (mib_incident m) (mib_sid m) (mib_sequence m)
     (mib_shard_event_index m) (mib_event_market_index m) (mib_market_id m) (mib_event_id m) (mib_reason m) s s'"

lemma market_barrier_lost:
  assumes "barrier_ok m s" and "sh_pending_recovery_status s = None"
  shows "barrier_lost m s (fst (handle_market_barrier m s))"
    and "shr_code (snd (handle_market_barrier m s)) = SPC_kMARKET_BARRIER_HANDLED"
proof -
  let ?ei = "mib_shard_event_index m" and ?mi = "mib_event_market_index m"
  have f: "unat ?ei < length (sh_event_store s)" "unat ?mi < length (ev_markets (sh_event_store s ! unat ?ei))"
    "km_market_id (ev_markets (sh_event_store s ! unat ?ei) ! unat ?mi) = mib_market_id m"
    using assms(1) by (simp_all add: barrier_ok_def)
  let ?s = "tally_shard (\<lambda>t. t\<lparr>shs_market_barriers_seen := shs_market_barriers_seen t + 1\<rparr>) s"
  obtain store res where res: "store_invalidate_market (sh_event_store s) ?ei ?mi (mib_market_id m) (mib_reason m) = (store, res)"
    by fastforce
  let ?u = "fst (account_invalidation_result res (?s\<lparr>sh_event_store := store\<rparr>))"
  let ?t = "if bir_book_sync_transition res = BST_kBECAME_UNUSABLE
    then publish_event_unavailable (mib_universe_version m) (mib_event_id m) (mib_market_id m) (bir_event_revision res) ?u else ?u"
  note told = lost_told [OF f assms(2) res, of ?u ?t "mib_universe_version m" "mib_event_id m"]
  have ok: "bir_target_found res" "snd (account_invalidation_result res (?s\<lparr>sh_event_store := store\<rparr>))"
    using store_invalidate_market_found(1-3) [OF f, of "mib_reason m"] res by (auto intro: account_found)
  have ev: "get_event (sh_event_store s) ?ei = Some (sh_event_store s ! unat ?ei)" using f(1) by (simp add: get_event_def)
  have h: "handle_market_barrier m s = (if needs_recovery (bir_book_sync_transition res)
      then (fst (report_market_recovery_required (mib_universe_version m) (mib_incident m) (mib_sid m) (mib_sequence m)
              (mib_market_id m) (mib_event_id m) (mib_reason m) ?t),
            (shard_result SPC_kMARKET_BARRIER_HANDLED)\<lparr>shr_incident := Some (mib_incident m), shr_market_invalidation := Some res\<rparr>)
      else (?t, (shard_result SPC_kMARKET_BARRIER_HANDLED)\<lparr>shr_incident := Some (mib_incident m), shr_market_invalidation := Some res\<rparr>))"
    using assms ok told(2) [of ?t]
    by (simp add: handle_market_barrier_def barrier_ok_def event_id_of_def ev res case_prod_beta Let_def shard_frame)
  show "barrier_lost m s (fst (handle_market_barrier m s))"
    using told(1) told(2) [of ?t] assms(2) by (simp add: h shard_frame)
  show "shr_code (snd (handle_market_barrier m s)) = SPC_kMARKET_BARRIER_HANDLED" by (simp add: h shard_result_def)
qed

text \<open>Every other barrier for a market is refused and leaves the shard faulted.\<close>

lemma barrier_refused:
  assumes "\<not> barrier_ok m s"
  shows "sh_run_state (fst (handle_market_barrier m s)) = SRS_kFAULTED"
    and "shr_code (snd (handle_market_barrier m s)) = SPC_kINTEGRITY_BARRIER_REJECTED"
    and "sh_event_store (fst (handle_market_barrier m s)) = sh_event_store s"
    and "channel (fst (handle_market_barrier m s)) = channel s"
    and "recovery_reports (fst (handle_market_barrier m s)) = recovery_reports s"
    and "sh_pending_recovery_status (fst (handle_market_barrier m s)) = sh_pending_recovery_status s"
proof -
  define refused where "refused = (\<lambda>out. \<exists>v why st x. out = (\<lambda>(a, r). (a, r\<lparr>shr_market_invalidation := x\<rparr>))
      (reject_barrier (mib_incident m) v why (s\<lparr>sh_stats := st\<rparr>)))"
  have base: "refused (reject_barrier (mib_incident m) v why (s\<lparr>sh_stats := st\<rparr>))" for v why st
    unfolding refused_def by (intro exI [of _ v] exI [of _ why] exI [of _ st] exI [of _ None]) (simp add: reject_barrier_def shard_result_def)
  have found: "fst (store_invalidate_market (sh_event_store s) (mib_shard_event_index m) (mib_event_market_index m)
        (mib_market_id m) (mib_reason m)) = sh_event_store s
      \<and> \<not> bir_target_found (snd (store_invalidate_market (sh_event_store s) (mib_shard_event_index m) (mib_event_market_index m)
        (mib_market_id m) (mib_reason m)))"
    if "\<not> (mib_reason m = BIR_kNONE \<or> mib_universe_version m \<noteq> sh_installed_universe_version s \<or> mib_shard_index m \<noteq> sh_shard_index s
      \<or> (case get_event (sh_event_store s) (mib_shard_event_index m) of
          None \<Rightarrow> True | Some e \<Rightarrow> ke_event_id (ev_state e) \<noteq> mib_event_id m))"
    using that assms by (auto simp: barrier_ok_def store_invalidate_market_def get_event_def get_market_def event_id_of_def nth_opt_def
        Let_def split: if_splits)
  have late: "refused ((\<lambda>(a, r). (a, r\<lparr>shr_market_invalidation := x\<rparr>))
      (reject_barrier (mib_incident m) v why (s\<lparr>sh_stats := st\<rparr>)))" for v why st x
    unfolding refused_def by blast
  have "refused (handle_market_barrier m s)"
  proof (cases "mib_reason m = BIR_kNONE \<or> mib_universe_version m \<noteq> sh_installed_universe_version s \<or> mib_shard_index m \<noteq> sh_shard_index s
      \<or> (case get_event (sh_event_store s) (mib_shard_event_index m) of
          None \<Rightarrow> True | Some e \<Rightarrow> ke_event_id (ev_state e) \<noteq> mib_event_id m)")
    case True
    then show ?thesis using base unfolding handle_market_barrier_def Let_def by auto
  next
    case False
    then show ?thesis using found [OF False] late by (simp add: handle_market_barrier_def case_prod_beta Let_def)
  qed
  then obtain v why st x where r: "handle_market_barrier m s = (\<lambda>(a, r). (a, r\<lparr>shr_market_invalidation := x\<rparr>))
      (reject_barrier (mib_incident m) v why (s\<lparr>sh_stats := st\<rparr>))" by (auto simp: refused_def)
  show "sh_run_state (fst (handle_market_barrier m s)) = SRS_kFAULTED"
    "shr_code (snd (handle_market_barrier m s)) = SPC_kINTEGRITY_BARRIER_REJECTED"
    "sh_event_store (fst (handle_market_barrier m s)) = sh_event_store s"
    "channel (fst (handle_market_barrier m s)) = channel s"
    "recovery_reports (fst (handle_market_barrier m s)) = recovery_reports s"
    "sh_pending_recovery_status (fst (handle_market_barrier m s)) = sh_pending_recovery_status s"
    by (simp_all add: r reject_barrier_def shard_result_def case_prod_beta shard_frame send_other_reports is_recovery_status_def
        recovery_reports_def send_control_items channel_def)
qed

end
