(* ===== verification/Shard_Publication.thy ===== *)
theory Shard_Publication
  imports Shard_Steps
begin

text \<open>
  Every handler keeps the strategy informed: as long as publication has not failed, what the strategy knows of the
  installed universe is what the books say.
\<close>

definition informed :: "shard_to_strategy_message list \<Rightarrow> shard \<Rightarrow> bool" where
  "informed taken s \<longleftrightarrow> sh_strategy_publication_faulted s
     \<or> knows_books (sh_installed_universe_version s) (sh_event_store s) (taken @ bq_items (sh_strategy_queue s))"

lemma informed_channel:
  "informed taken s \<longleftrightarrow> snd (channel s)
     \<or> knows_books (sh_installed_universe_version s) (sh_event_store s) (taken @ bq_items (fst (channel s)))"
  by (simp add: informed_def channel_def)

lemma informed_cong:
  "channel s' = channel s \<Longrightarrow> sh_installed_universe_version s' = sh_installed_universe_version s
     \<Longrightarrow> sh_event_store s' = sh_event_store s \<Longrightarrow> informed taken s' \<longleftrightarrow> informed taken s"
  by (simp add: informed_channel)

lemma channel_push_knowledge:
  "\<not> snd (channel_push m c) \<Longrightarrow> taken @ bq_items (fst (channel_push m c)) = (taken @ bq_items (fst c)) @ [m]"
  by (auto simp: channel_push_def bq_push_def case_prod_beta split: if_splits)

section \<open>Lost books\<close>

lemma invalidate_market_state:
  assumes "unat i < length (ev_markets e)"
  shows "same_shape e (fst (invalidate_market e i r))" and "\<not> event_usable (fst (invalidate_market e i r))"
proof -
  have "ev_state (fst (invalidate_market e i r)) = ev_state e
      \<or> ev_state (fst (invalidate_market e i r)) = with_market e i (set_book (ev_markets e ! unat i) (book_invalidate (km_book (ev_markets e ! unat i))))"
    using assms by (simp add: invalidate_market_def Let_def set_market_def with_market_def)
  then show "same_shape e (fst (invalidate_market e i r))" using same_shape_state same_shape_with_market by blast
  have "kb_sync_state (km_book (ev_markets (fst (invalidate_market e i r)) ! unat i)) = BSS_kAWAITING_RECOVERY_SNAPSHOT"
    and "unat i < length (ev_markets (fst (invalidate_market e i r)))"
    using assms by (simp_all add: invalidate_market_markets modify_nth_def)
  then show "\<not> event_usable (fst (invalidate_market e i r))"
    by (force simp: event_usable_def list_all_length book_usable_def)
qed

lemma unusable_market: "unat i < length (ev_markets e) \<Longrightarrow> kb_sync_state (km_book (ev_markets e ! unat i)) \<noteq> BSS_kSYNCHRONIZED
   \<Longrightarrow> \<not> event_usable e"
  by (force simp: event_usable_def list_all_length book_usable_def)

lemma market_lost_informed:
  assumes lost: "market_lost v k sid q ei mi mid eid reason s s'"
    and found: "unat ei < length (sh_event_store s)" "unat mi < length (ev_markets (sh_event_store s ! unat ei))"
    and same: "v = sh_installed_universe_version s" "sh_installed_universe_version s' = sh_installed_universe_version s"
      "eid = event_id_of (sh_event_store s ! unat ei)"
    and ok: "store_ok (sh_event_store s)" "informed taken s"
  shows "informed taken s'" and "store_ok (sh_event_store s')"
proof -
  let ?e = "sh_event_store s ! unat ei"
  let ?e' = "fst (invalidate_market ?e mi reason)"
  let ?u = "\<lparr>seu_universe_version = v, seu_shard_index = sh_shard_index s, seu_event_id = eid, seu_affected_market_id = mid,
    seu_event_revision = ev_revision ?e'\<rparr>"
  note st = invalidate_market_state [OF found(2), of reason]
  have store: "sh_event_store s' = (sh_event_store s)[unat ei := ?e']"
    and chan: "channel s' = (if kb_sync_state (km_book (ev_markets ?e ! unat mi)) = BSS_kSYNCHRONIZED
      then channel_push (SmEventUnavailable ?u) (channel s) else channel s)"
    using lost by (simp_all add: market_lost_def Let_def)
  show "store_ok (sh_event_store s')" using store_ok_update [OF ok(1) found(1) st(1)] by (simp add: store)
  have id: "eid = event_id_of ?e'" using same(3) st(1) by (simp add: same_shape_def)
  show "informed taken s'"
  proof (cases "snd (channel s')")
    case False
    show ?thesis
    proof (cases "kb_sync_state (km_book (ev_markets ?e ! unat mi)) = BSS_kSYNCHRONIZED")
      case True
      with chan False have c: "channel s' = channel_push (SmEventUnavailable ?u) (channel s)"
        and f: "\<not> snd (channel_push (SmEventUnavailable ?u) (channel s))" by simp_all
      have "knows_books v (sh_event_store s) (taken @ bq_items (fst (channel s)))"
        using ok(2) channel_push_learn(1) [OF f] same(1) by (simp add: informed_channel)
      from knows_books_lost(1) [OF ok(1) found(1) st this, of ?u] show ?thesis
        using channel_push_knowledge [OF f, of taken] id same by (simp add: informed_channel c store)
    next
      case False
      then have c: "channel s' = channel s" using chan by simp
      with ok(2) \<open>\<not> snd (channel s')\<close> have "knows_books v (sh_event_store s) (taken @ bq_items (fst (channel s)))"
        using same(1) by (simp add: informed_channel)
      from knows_books_lost(2) [OF ok(1) found(1) st this, of ?u, OF _ _ unusable_market [OF found(2) False]] show ?thesis
        using c id same by (simp add: informed_channel store)
    qed
  qed (simp add: informed_channel)
qed

section \<open>Applied frames\<close>

lemma affected_pairs_complete:
  assumes shape: "ev_state e' = with_market e j m" and small: "length (ev_markets e) < 2 ^ 32"
    and us: "event_usable e'" and j: "unat j < length (ev_markets e)" "fh_event_market_index h = j"
    and i: "i \<notin> set (affected_pairs e' h (\<not> event_usable e))"
  shows "current_pair e' i = current_pair e i"
proof (cases "event_usable e")
  case False
  have "length (ev_markets e') \<le> Suc (unat i)"
  proof (rule ccontr)
    assume "\<not> length (ev_markets e') \<le> Suc (unat i)"
    then have "i = of_nat (unat i)" "unat i < length (ev_markets e') - 1" by simp_all
    then have "i \<in> set (map of_nat [0..<length (ev_markets e') - 1])" by (metis atLeastLessThan_iff image_eqI le0 set_map set_upt)
    then show False using i False by (simp add: affected_pairs_def)
  qed
  then show ?thesis using current_pair_range current_pair_unusable [OF False] by simp
next
  case True
  have len: "length (ev_markets e') = length (ev_markets e)" using shape by (simp add: with_market_def)
  have L: "i \<notin> set ((if j > 0 then [j - 1] else []) @ (if unat j + 1 < length (ev_markets e') then [j] else []))"
    using i True j(2) by (simp add: affected_pairs_def Let_def)
  have edge: "length (ev_markets e) \<le> Suc (unat i)" if "i = j \<or> i + 1 = j"
  proof (cases "i = j")
    case True
    then show ?thesis using L len by (auto split: if_splits)
  next
    case False
    then have "i + 1 = j" using that by simp
    moreover from this L have "j = 0" by (auto simp: word_gt_0 split: if_splits)
    ultimately have "i = - 1" by (simp add: eq_neg_iff_add_eq_0)
    then show ?thesis using small by (simp add: unat_max_word)
  qed
  show ?thesis
  proof (cases "i = j \<or> i + 1 = j")
    case True
    then show ?thesis using edge [OF True] len by (simp add: current_pair_range)
  next
    case False
    then show ?thesis using current_pair_elsewhere [of e' e j m i] shape \<open>event_usable e\<close> us small by (simp add: with_market_def)
  qed
qed

lemma publish_affected_informed:
  assumes store: "sh_event_store s = es[k := e']" and k: "k < length es" "k = unat (fh_shard_event_index h)"
    and shape: "ev_state e' = with_market (es ! k) (fh_event_market_index h) m"
    and j: "unat (fh_event_market_index h) < length (ev_markets (es ! k))"
    and v: "fh_universe_version h = sh_installed_universe_version s" and top: "ke_topology (ev_state (es ! k)) = fh_topology h"
    and r: "ear_book_changed r" "ear_event_became_usable r \<longleftrightarrow> \<not> event_usable (es ! k) \<and> event_usable e'" "event_usable (es ! k) \<Longrightarrow> event_usable e'"
    and ok: "store_ok es" "snd (channel s) \<or> knows_books (sh_installed_universe_version s) es (taken @ bq_items (fst (channel s)))"
  shows "informed taken (publish_affected_pairs h r t s)"
proof (cases "snd (channel (publish_affected_pairs h r t s))")
  case True
  then show ?thesis by (simp add: informed_channel)
next
  case ok': False
  let ?v = "sh_installed_universe_version s" and ?e = "es ! k" and ?H = "taken @ bq_items (fst (channel s))"
  have small: "length (ev_markets ?e) < 2 ^ 32" using ok(1) k(1) by (auto simp: store_ok_def list_all_length)
  have sh: "same_shape ?e e'" using same_shape_with_market [OF shape] .
  have id: "event_id_of e' = event_id_of ?e" using sh by (simp add: same_shape_def)
  have ev: "get_event (sh_event_store s) (fh_shard_event_index h) = Some e'"
    using store k by (simp add: get_event_def)
  have same_keys: "informed taken (publish_affected_pairs h r t s)"
    if "publish_affected_pairs h r t s = s" "\<And>i. current_pair e' i = None" "\<And>i. current_pair ?e i = None" "\<not> snd (channel s)"
  proof -
    have kn: "knows_books ?v es ?H" using ok(2) that(4) by simp
    have "knows_books ?v (es[k := e']) ?H"
      using that(2,3) knows_booksD [OF kn k(1)] id by (intro knows_books_update [OF ok(1) k(1) sh kn]) simp_all
    then show ?thesis using that(1) store by (simp add: informed_channel)
  qed
  show ?thesis
  proof (cases "fh_topology h = ET_kMONOTONIC_CHAIN \<and> event_usable e' \<and> \<not> snd (channel s)")
    case False
    have "ke_topology (ev_state e') = fh_topology h" using shape top by (simp add: with_market_def)
    then have none: "current_pair e' i = None" "current_pair ?e i = None" if "\<not> snd (channel s)" for i
      using False that top r(3) by (auto intro: current_pair_topology current_pair_unusable)
    have "publish_affected_pairs h r t s = s" using False by (auto simp: publish_affected_pairs_def ev channel_def)
    then show ?thesis using same_keys none ok' by simp
  next
    case True
    let ?is = "affected_pairs e' h (\<not> event_usable ?e)"
    have p: "publish_affected_pairs h r t s = publish_pairs e' h t ?is s"
      using True r(1,2) by (simp add: publish_affected_pairs_def ev channel_def)
    note learn = publish_pairs_learn [OF ok' [unfolded p] v, of taken]
    have kn: "knows_books ?v es ?H" using ok(2) learn by simp
    have "knows_books ?v (es[k := e']) (taken @ bq_items (fst (channel (publish_pairs e' h t ?is s))))"
    proof (rule knows_books_update [OF ok(1) k(1) sh kn])
      fix i
      show "knowledge ?v (taken @ bq_items (fst (channel (publish_pairs e' h t ?is s)))) (event_id_of e', i) = current_pair e' i"
        using learn affected_pairs_complete [OF shape small _ j refl, of i] True knows_booksD [OF kn k(1), of i] id
        by (auto simp: event_id_of_def)
    next
      fix x i
      assume "x \<noteq> event_id_of e'"
      then show "knowledge ?v (taken @ bq_items (fst (channel (publish_pairs e' h t ?is s)))) (x, i) = knowledge ?v ?H (x, i)"
        using learn by (simp add: event_id_of_def)
    qed
    then show ?thesis by (simp add: informed_channel p shard_frame store)
  qed
qed

lemma report_snapshot_frame:
  "channel (report_snapshot_applied h r s) = channel s"
  "sh_installed_universe_version (report_snapshot_applied h r s) = sh_installed_universe_version s"
  "sh_event_store (report_snapshot_applied h r s) = sh_event_store s"
  "sh_router_queue (report_snapshot_applied h r s) = sh_router_queue s"
  "sh_logger_queue (report_snapshot_applied h r s) = sh_logger_queue s"
  "sh_recycle_queue (report_snapshot_applied h r s) = sh_recycle_queue s"
  "sh_from_control_queue (report_snapshot_applied h r s) = sh_from_control_queue s"
  "sh_shard_index (report_snapshot_applied h r s) = sh_shard_index s"
  by (simp_all add: report_snapshot_applied_def case_prod_beta Let_def shard_frame)

lemma apply_to_store_effect:
  assumes "store_apply alloc_ok (sh_event_store s) h parsed = (store, r)"
  obtains s4 ts where "apply_to_store alloc_ok h parsed s = (s4, r, ts)"
    "sh_event_store s4 = store" "sh_installed_universe_version s4 = sh_installed_universe_version s"
    "channel s4 = (if ear_book_sync_transition r = BST_kBECAME_UNUSABLE
       then channel_push (SmEventUnavailable \<lparr>seu_universe_version = fh_universe_version h, seu_shard_index = sh_shard_index s,
         seu_event_id = fh_event_id h, seu_affected_market_id = fh_market_id h, seu_event_revision = ear_event_revision r\<rparr>) (channel s)
       else channel s)"
    "sh_run_state s4 = sh_run_state s" "sh_to_control_queue s4 = sh_to_control_queue s"
    "sh_pending_recovery_status s4 = sh_pending_recovery_status s" "sh_router_queue s4 = sh_router_queue s"
    "sh_logger_queue s4 = sh_logger_queue s" "sh_recycle_queue s4 = sh_recycle_queue s"
    "sh_from_control_queue s4 = sh_from_control_queue s" "sh_shard_index s4 = sh_shard_index s"
  using assms
  by (cases "ear_book_sync_transition r")
    (auto simp: apply_to_store_def case_prod_beta Let_def shard_frame publish_event_unavailable_def channel_publish)

lemma apply_frame_informed:
  assumes valid: "validate_handle_target h s = None" and ok: "store_ok (sh_event_store s)" "informed taken s"
  shows "informed taken (fst (apply_frame alloc_ok h parsed s))" and "store_ok (sh_event_store (fst (apply_frame alloc_ok h parsed s)))"
proof -
  note v = validate_handle_targetD [OF valid]
  let ?k = "unat (fh_shard_event_index h)" and ?es = "sh_event_store s"
  obtain e' r where e': "event_apply alloc_ok (?es ! ?k) (fh_event_market_index h) parsed = (e', r)" by fastforce
  have sa: "store_apply alloc_ok ?es h parsed = (?es[?k := e'], r)" using v(2) e' by (simp add: store_apply_def)
  let ?f = "fst (apply_frame alloc_ok h parsed s)"
  let ?u = "\<lparr>seu_universe_version = fh_universe_version h, seu_shard_index = sh_shard_index s, seu_event_id = fh_event_id h,
    seu_affected_market_id = fh_market_id h, seu_event_revision = ear_event_revision r\<rparr>"
  obtain s4 ts where s4: "apply_to_store alloc_ok h parsed s = (s4, r, ts)"
      "sh_event_store s4 = ?es[?k := e']" "sh_installed_universe_version s4 = sh_installed_universe_version s"
      "channel s4 = (if ear_book_sync_transition r = BST_kBECAME_UNUSABLE
         then channel_push (SmEventUnavailable ?u) (channel s) else channel s)"
    using sa by (rule apply_to_store_effect)
  have store: "sh_event_store ?f = ?es[?k := e']" and version: "sh_installed_universe_version ?f = sh_installed_universe_version s"
    using s4 by (cases "ear_disposition r"; simp add: apply_frame_def Let_def shard_frame report_snapshot_frame)+
  have quiet: "channel ?f = (if ear_book_sync_transition r = BST_kBECAME_UNUSABLE
      then channel_push (SmEventUnavailable ?u) (channel s) else channel s)" if "\<not> ear_book_changed r"
    using that s4 by (cases "ear_disposition r"; simp add: apply_frame_def Let_def report_snapshot_frame)
  show "store_ok (sh_event_store ?f)"
  proof -
    from v(5) e' have "same_shape (?es ! ?k) e'"
      by (cases rule: event_apply_cases) (auto intro: same_shape_state same_shape_with_market)
    from store_ok_update [OF ok(1) v(2) this] show ?thesis by (simp add: store)
  qed
  from v(5) e' show "informed taken ?f"
  proof (cases rule: event_apply_cases)
    case same
    then have "channel ?f = channel s" using quiet by simp
    then show ?thesis using ok knows_books_same [OF ok(1) v(2) same(1)] by (auto simp: informed_channel store version)
  next
    case (lost m)
    have sh: "same_shape (?es ! ?k) e'" using same_shape_with_market [OF lost(1)] .
    then have id: "event_id_of e' = fh_event_id h" using v(3) by (simp add: same_shape_def)
    show ?thesis
    proof (cases "snd (channel ?f)")
      case False
      have kn: "knows_books (sh_installed_universe_version s) ?es (taken @ bq_items (fst (channel s)))"
        using ok(2) quiet lost(2) False channel_push_learn(1) by (auto simp: informed_channel split: if_splits)
      show ?thesis
      proof (cases "ear_book_sync_transition r = BST_kBECAME_UNUSABLE")
        case True
        then have c: "channel ?f = channel_push (SmEventUnavailable ?u) (channel s)" using quiet lost(2) by simp
        show ?thesis using knows_books_lost(1) [OF ok(1) v(2) sh lost(5) kn, of ?u] channel_push_knowledge [of "SmEventUnavailable ?u" "channel s" taken] False v(1) id
          by (simp add: informed_channel c store version)
      next
        case nb: False
        then have "\<not> event_usable (?es ! ?k)" using lost(4) v(5) by (auto simp: event_usable_def list_all_length)
        then show ?thesis using knows_books_lost(2) [OF ok(1) v(2) sh lost(5) kn, of ?u] quiet lost(2) nb v(1) id
          by (simp add: informed_channel store version)
      qed
    qed (simp add: informed_channel)
  next
    case (changed m)
    define s5 where "s5 = tally_shard (\<lambda>t. t\<lparr>shs_frames_applied := shs_frames_applied t + 1\<rparr>) s4"
    have f: "channel ?f = channel (publish_affected_pairs h r ts s5)" "channel s5 = channel s"
      "sh_event_store s5 = ?es[?k := e']" "sh_installed_universe_version s5 = sh_installed_universe_version s"
      using changed(2-4) s4 by (simp_all add: apply_frame_def Let_def report_snapshot_frame s5_def)
    have "informed taken (publish_affected_pairs h r ts s5)"
      using f(2-4) ok changed v by (intro publish_affected_informed [OF f(3) v(2) refl changed(1) v(5)]) (auto simp: informed_channel)
    then show ?thesis using f by (simp add: informed_channel shard_frame store version)
  qed
qed

section \<open>Subscription barriers\<close>

lemma invalidate_all_step_state: "event_id_of (fst (fold (invalidate_all_step r) is (e, x))) = event_id_of e"
proof (induction "is" arbitrary: e x)
  case (Cons i "is")
  have "event_id_of (fst (invalidate_market e (of_nat i) r)) = event_id_of e"
    by (simp add: invalidate_market_def Let_def set_market_def event_id_of_def)
  moreover have "invalidate_all_step r i (e, x) = (fst (invalidate_market e (of_nat i) r), count_invalidation (snd (invalidate_market e (of_nat i) r)) x)"
    by (simp add: invalidate_all_step_def case_prod_beta)
  ultimately show ?case using Cons.IH by simp
qed simp

lemma event_invalidate_all_state:
  assumes "length (ev_markets e) < 2 ^ 32"
  shows "same_shape e (fst (event_invalidate_all e r))" and "\<not> event_usable (fst (event_invalidate_all e r))"
  using event_invalidate_all_markets [OF assms, of r]
  by (auto simp: same_shape_def event_invalidate_all_def invalidate_all_step_state event_usable_def list_all_iff book_usable_def)

lemma store_invalidate_all_map: "fst (store_invalidate_all es r) = map (\<lambda>e. fst (event_invalidate_all e r)) es"
  by (induction es) (simp_all add: case_prod_beta)

lemma store_invalidate_all_count:
  "list_all (\<lambda>e. length (ev_markets e) < 2 ^ 32) es \<Longrightarrow>
     bis_targets_became_unusable (snd (store_invalidate_all es r)) = of_nat (count_state BSS_kSYNCHRONIZED (store_markets es))"
proof (induction es)
  case (Cons e es)
  then show ?case using event_invalidate_all_summary [of e r]
    by (simp add: case_prod_beta store_markets_def summary_of_def count_state_def)
qed (simp add: empty_summary_def store_markets_def count_state_def)

lemma store_ok_map:
  assumes "store_ok es" and "\<And>e. e \<in> set es \<Longrightarrow> same_shape e (f e)"
  shows "store_ok (map f es)"
proof -
  have "map event_id_of (map f es) = map event_id_of es" "map (\<lambda>e. length (ev_markets e)) (map f es) = map (\<lambda>e. length (ev_markets e)) es"
    using assms(2) by (simp_all add: same_shape_def)
  moreover have "list_all (\<lambda>e. length (ev_markets e) < 2 ^ 32) (map f es)"
    using assms by (auto simp: store_ok_def list_all_iff same_shape_def)
  ultimately show ?thesis using assms(1) unfolding store_ok_def by (simp only:)
qed

lemma store_ok_count:
  assumes "store_ok es"
  shows "(of_nat (count_state BSS_kSYNCHRONIZED (store_markets es)) :: u64) > 0 \<longleftrightarrow>
    (\<exists>e \<in> set es. \<exists>m \<in> set (ev_markets e). book_usable (km_book m))"
proof -
  have "length (store_markets es) = sum_list (map (\<lambda>e. length (ev_markets e)) es)"
    by (simp add: store_markets_def length_concat comp_def)
  then have "length (store_markets es) < 2 ^ 64" using assms by (simp add: store_ok_def)
  then have "count_state BSS_kSYNCHRONIZED (store_markets es) < 2 ^ 64"
    unfolding count_state_def by (rule le_less_trans [OF length_filter_le])
  then have "(of_nat (count_state BSS_kSYNCHRONIZED (store_markets es)) :: u64) > 0 \<longleftrightarrow> count_state BSS_kSYNCHRONIZED (store_markets es) > 0"
    by (simp add: word_less_nat_alt unat_of_nat)
  also have "\<dots> \<longleftrightarrow> (\<exists>e \<in> set es. \<exists>m \<in> set (ev_markets e). book_usable (km_book m))"
    by (auto simp: count_state_def store_markets_def filter_empty_conv book_usable_def)
  finally show ?thesis .
qed

lemma subscription_barrier_effect:
  assumes "sib_reason m \<noteq> BIR_kNONE" and "sib_universe_version m = sh_installed_universe_version s"
    and "store_ok (sh_event_store s)"
  shows "sh_event_store (fst (handle_subscription_barrier m s)) = map (\<lambda>e. fst (event_invalidate_all e (sib_reason m))) (sh_event_store s)"
    and "channel (fst (handle_subscription_barrier m s)) =
      (if \<exists>e \<in> set (sh_event_store s). \<exists>x \<in> set (ev_markets e). book_usable (km_book x)
       then channel_push (SmShardUnavailable \<lparr>ssu_universe_version = sib_universe_version m, ssu_shard_index = sh_shard_index s\<rparr>) (channel s)
       else channel s)"
proof -
  have len: "list_all (\<lambda>e. length (ev_markets e) < 2 ^ 32) (sh_event_store s)" using assms(3) by (simp add: store_ok_def)
  note c = store_invalidate_all_count [OF len, of "sib_reason m"] store_ok_count [OF assms(3)]
  show "sh_event_store (fst (handle_subscription_barrier m s)) = map (\<lambda>e. fst (event_invalidate_all e (sib_reason m))) (sh_event_store s)"
    using assms(1,2) by (simp add: handle_subscription_barrier_def case_prod_beta Let_def shard_frame store_invalidate_all_map)
  show "channel (fst (handle_subscription_barrier m s)) =
      (if \<exists>e \<in> set (sh_event_store s). \<exists>x \<in> set (ev_markets e). book_usable (km_book x)
       then channel_push (SmShardUnavailable \<lparr>ssu_universe_version = sib_universe_version m, ssu_shard_index = sh_shard_index s\<rparr>) (channel s)
       else channel s)"
    using assms(1,2) c by (simp add: handle_subscription_barrier_def case_prod_beta Let_def publish_shard_unavailable_def channel_publish)
qed

lemma subscription_barrier_informed:
  assumes "sib_reason m \<noteq> BIR_kNONE" and "sib_universe_version m = sh_installed_universe_version s"
    and ok: "store_ok (sh_event_store s)" "informed taken s"
    and v: "sh_installed_universe_version (fst (handle_subscription_barrier m s)) = sh_installed_universe_version s"
  shows "informed taken (fst (handle_subscription_barrier m s))" and "store_ok (sh_event_store (fst (handle_subscription_barrier m s)))"
proof -
  let ?s = "fst (handle_subscription_barrier m s)" and ?u = "SmShardUnavailable \<lparr>ssu_universe_version = sib_universe_version m, ssu_shard_index = sh_shard_index s\<rparr>"
  let ?g = "\<lambda>e. fst (event_invalidate_all e (sib_reason m))"
  note eff = subscription_barrier_effect [OF assms(1,2) ok(1)]
  have st: "same_shape e (?g e)" "\<not> event_usable (?g e)" if "e \<in> set (sh_event_store s)" for e
    using that ok(1) event_invalidate_all_state [of e] by (auto simp: store_ok_def list_all_iff)
  show "store_ok (sh_event_store ?s)" unfolding eff(1) by (rule store_ok_map [OF ok(1) st(1)])
  show "informed taken ?s"
  proof (cases "snd (channel ?s)")
    case False
    show ?thesis
    proof (cases "\<exists>e \<in> set (sh_event_store s). \<exists>x \<in> set (ev_markets e). book_usable (km_book x)")
      case True
      then have c: "channel ?s = channel_push ?u (channel s)" using eff(2) by simp
      then have "taken @ bq_items (fst (channel ?s)) = (taken @ bq_items (fst (channel s))) @ [?u]"
        using channel_push_knowledge [of ?u "channel s" taken] False by simp
      then show ?thesis using st(2) assms(2) by (auto simp: informed_channel eff(1) v knows_books_def current_pair_unusable simp del: append_assoc)
    next
      case none: False
      then have c: "channel ?s = channel s" using eff(2) by simp
      have "\<not> event_usable e" if "e \<in> set (sh_event_store s)" for e
        using none that by (cases "ev_markets e") (auto simp: event_usable_def)
      then show ?thesis using ok(2) st False
        by (auto simp: informed_channel eff(1) v c knows_books_def current_pair_unusable same_shape_def)
    qed
  qed (simp add: informed_channel)
qed

end
