(* ===== verification/Shard_World.thy ===== *)
theory Shard_World
  imports Shard_Publication
begin

text \<open>
  The shard among the other threads: the router and the control plane fill its input queues, the strategy, the logger,
  the recycler and the control plane empty its output queues, in any order.
\<close>

section \<open>What a handler keeps\<close>

definition kept :: "shard \<Rightarrow> shard \<Rightarrow> bool" where
  "kept s s' \<longleftrightarrow> sh_logger_queue s' = sh_logger_queue s \<and> sh_recycle_queue s' = sh_recycle_queue s
     \<and> sh_router_queue s' = sh_router_queue s \<and> sh_from_control_queue s' = sh_from_control_queue s
     \<and> sh_installed_universe_version s' = sh_installed_universe_version s \<and> sh_shard_index s' = sh_shard_index s
     \<and> (sh_run_state s' = sh_run_state s \<or> sh_run_state s' = SRS_kFAULTED)"

lemma kept_trans: "kept s t \<Longrightarrow> kept t u \<Longrightarrow> kept s u"
  by (auto simp: kept_def)

lemma kept_helpers [simp]:
  "kept s s" "kept s (snd (shard_now_ns s))" "kept s (s\<lparr>sh_stats := st\<rparr>)" "kept s (s\<lparr>sh_event_store := es\<rparr>)"
  "kept s (s\<lparr>sh_next_shard_incident_id := n\<rparr>)"
  "kept s (fault_shard v r s)" "kept s (fst (shard_send_control m s))" "kept s (fst (account_invalidation_result i s))"
  "kept s (publish_event_unavailable v e m' r' s)" "kept s (publish_shard_unavailable v s)" "kept s (publish_affected_pairs h a t s)"
  "kept s (fst (send_or_defer_recovery_status m s))"
  by (simp_all add: kept_def shard_frame)

lemma kept_report_incident: "kept s (fst (report_incident h r err s))"
  by (simp add: report_incident_def report_required_frame case_prod_beta Let_def kept_def shard_frame)

lemma kept_report_snapshot: "kept s (report_snapshot_applied h r s)"
  by (simp add: report_snapshot_applied_def case_prod_beta Let_def kept_def shard_frame)

text \<open>A frame ends in the hand-off to the logger or the recycler.\<close>

definition finishes :: "frame_handle \<Rightarrow> shard \<Rightarrow> shard \<times> shard_pump_result \<Rightarrow> bool" where
  "finishes h s out \<longleftrightarrow> (\<exists>res s'. out = finish_frame h res s' \<and> shr_code res \<noteq> SPC_kHANDLE_LEAK \<and> kept s s')"

lemma finishesI: "kept s s' \<Longrightarrow> shr_code res \<noteq> SPC_kHANDLE_LEAK \<Longrightarrow> finishes h s (finish_frame h res s')"
  by (auto simp: finishes_def)

lemma finishes_kept: "kept s t \<Longrightarrow> finishes h t out \<Longrightarrow> finishes h s out"
  by (auto simp: finishes_def intro: kept_trans)

lemma kept_after:
  assumes "kept s s1"
  shows "kept s (fault_shard v r s1)" "kept s (publish_event_unavailable v e m r' s1)" "kept s (s1\<lparr>sh_stats := st\<rparr>)"
    "kept s (fst (report_incident h why err s1))" "kept s (publish_affected_pairs h a t s1)" "kept s (report_snapshot_applied h a s1)"
  using assms kept_trans [OF assms kept_report_incident] kept_trans [OF assms kept_report_snapshot] by (auto elim: kept_trans)

lemma missing_finishes: "finishes h s (handle_missing_frame h s)"
proof -
  obtain store res where res: "store_invalidate_market (sh_event_store s) (fh_shard_event_index h) (fh_event_market_index h)
      (fh_market_id h) BIR_kSHARD_FRAME_MISSING = (store, res)" by fastforce
  define s1 where "s1 = fst (account_invalidation_result res (s\<lparr>sh_event_store := store\<rparr>))"
  have "kept s s1" unfolding s1_def by (rule kept_trans [of _ "s\<lparr>sh_event_store := store\<rparr>"]) simp_all
  then show ?thesis
    by (auto simp: handle_missing_frame_def res case_prod_beta Let_def shard_result_def s1_def [symmetric] intro!: finishesI kept_after)
qed

lemma parse_finishes: "finishes h s (handle_parse_failure h why s)"
proof -
  define s0 where "s0 = tally_shard (\<lambda>t. t\<lparr>shs_parse_rejects := shs_parse_rejects t + 1\<rparr>) s"
  obtain store res where res: "store_invalidate_market (sh_event_store s0) (fh_shard_event_index h) (fh_event_market_index h)
      (fh_market_id h) BIR_kSHARD_PARSE_FAILURE = (store, res)" by fastforce
  define s1 where "s1 = fst (account_invalidation_result res (s0\<lparr>sh_event_store := store\<rparr>))"
  have k0: "kept s s0" by (simp add: s0_def)
  then have "kept s s1" unfolding s1_def
    by (rule kept_trans [OF kept_trans [of _ _ "s0\<lparr>sh_event_store := store\<rparr>"]]) simp_all
  then show ?thesis
    by (auto simp: handle_parse_failure_def s0_def [symmetric] res case_prod_beta Let_def shard_result_def s1_def [symmetric]
        intro!: finishesI k0 kept_after)
qed

lemma kept_apply_to_store: "kept s (fst (apply_to_store a h parsed s))"
proof -
  obtain store r where "store_apply a (sh_event_store s) h parsed = (store, r)" by fastforce
  then show ?thesis by (rule apply_to_store_effect) (simp add: kept_def)
qed

lemma apply_finishes: "finishes h s (apply_frame a h parsed s)"
proof -
  obtain s4 r ts where s4: "apply_to_store a h parsed s = (s4, r, ts)" by (cases "apply_to_store a h parsed s")
  have "kept s s4" using kept_apply_to_store [of s a h parsed] s4 by simp
  then show ?thesis
    by (cases "ear_disposition r") (simp_all add: apply_frame_def s4 Let_def shard_result_def finishesI kept_after)
qed

lemma frame_finishes:
  "finishes (h\<lparr>fh_shard_dequeue_ts_ns := sh_clock s 0\<rparr>) s (handle_frame_message parse pool a h mode s)"
proof -
  let ?h = "h\<lparr>fh_shard_dequeue_ts_ns := sh_clock s 0\<rparr>"
  define s1 where "s1 = tally_shard (\<lambda>t. t\<lparr>shs_frames_seen := shs_frames_seen t + 1\<rparr>) (snd (shard_now_ns s))"
  have now: "fst (shard_now_ns s) = sh_clock s 0" by (simp add: shard_now_ns_def)
  have k: "kept s s1" unfolding s1_def by (rule kept_trans [of _ "snd (shard_now_ns s)"]) simp_all
  have kf: "kept s (fault_shard v r s1)" for v r using k by (rule kept_trans) simp
  show ?thesis
    by (auto simp: handle_frame_message_def case_prod_beta Let_def now s1_def [symmetric] shard_result_def
        intro!: finishesI k kf finishes_kept [OF k] missing_finishes parse_finishes apply_finishes
        split: option.split sum.split)
qed

section \<open>Progress of a handler\<close>

text \<open>The messages to the strategy are of the installed universe, and the reports for the control plane only grow.\<close>

definition sends :: "shard \<Rightarrow> shard \<Rightarrow> bool" where
  "sends s s' \<longleftrightarrow> (\<exists>ms. bq_items (fst (channel s')) = bq_items (fst (channel s)) @ ms
     \<and> list_all (\<lambda>m. message_version m = sh_installed_universe_version s) ms)"

definition reports_grow :: "shard \<Rightarrow> shard \<Rightarrow> bool" where
  "reports_grow s s' \<longleftrightarrow> (\<exists>ms. recovery_reports s' = recovery_reports s @ ms \<and> list_all is_recovery_status ms)"

definition progress :: "shard \<Rightarrow> shard \<Rightarrow> bool" where
  "progress s s' \<longleftrightarrow> sends s s' \<and> reports_grow s s' \<and> (\<forall>taken. store_ok (sh_event_store s) \<and> informed taken s \<longrightarrow>
     store_ok (sh_event_store s') \<and> informed taken s')"

lemma progress_same:
  assumes "channel s' = channel s" "sh_event_store s' = sh_event_store s" "recovery_reports s' = recovery_reports s"
    "sh_installed_universe_version s' = sh_installed_universe_version s"
  shows "progress s s'"
  using assms by (simp add: progress_def sends_def reports_grow_def informed_channel)

lemma progress_start:
  assumes "channel t = channel s" "sh_event_store t = sh_event_store s" "recovery_reports t = recovery_reports s"
    "sh_installed_universe_version t = sh_installed_universe_version s" and "progress t s'"
  shows "progress s s'"
proof -
  have "informed taken t = informed taken s" for taken by (simp add: informed_channel assms(1-4))
  then show ?thesis using assms(5) unfolding progress_def sends_def reports_grow_def assms(1-4) by blast
qed

lemma sends_push:
  assumes "channel s' = (if c then channel_push m (channel s) else channel s)" "message_version m = sh_installed_universe_version s"
  shows "sends s s'"
  using assms by (auto simp: sends_def channel_push_def bq_push_def case_prod_beta)

lemma market_lost_progress:
  assumes "market_lost v k sid q ei mi mid eid reason s s'"
    "unat ei < length (sh_event_store s)" "unat mi < length (ev_markets (sh_event_store s ! unat ei))"
    "v = sh_installed_universe_version s" "sh_installed_universe_version s' = sh_installed_universe_version s"
    "eid = event_id_of (sh_event_store s ! unat ei)"
  shows "progress s s'"
proof -
  have "sends s s'" using assms(1,4) by (auto simp: market_lost_def Let_def intro: sends_push)
  moreover have "reports_grow s s'" using assms(1) by (auto simp: market_lost_def Let_def reports_grow_def is_recovery_status_def)
  ultimately show ?thesis using market_lost_informed [OF assms] by (auto simp: progress_def)
qed

lemma sends_refl: "sends s s"
  by (simp add: sends_def)

lemma sends_trans: "sends s t \<Longrightarrow> sh_installed_universe_version t = sh_installed_universe_version s \<Longrightarrow> sends t u \<Longrightarrow> sends s u"
  by (fastforce simp: sends_def)

lemma sends_pair:
  assumes "fh_universe_version h = sh_installed_universe_version s"
  shows "sends s (fst (publish_pair e h t i s))"
proof -
  let ?ctx = "\<lparr>soc_universe_version = fh_universe_version h, soc_shard_index = sh_shard_index (snd (shard_now_ns s)),
     soc_ingress_timestamp_ns = fh_ingress_ts_ns h, soc_book_apply_timestamp_ns = t, soc_publish_timestamp_ns = fst (shard_now_ns s)\<rparr>"
  show ?thesis
  proof (cases "build_monotonic_pair_observation e i ?ctx")
    case None
    then show ?thesis by (simp add: publish_pair_def case_prod_beta Let_def sends_def channel_def shard_frame)
  next
    case (Some obs)
    then have "channel (fst (publish_pair e h t i s)) = (if True then channel_push (SmObservation obs) (channel s) else channel s)"
      by (simp add: publish_pair_def case_prod_beta Let_def channel_publish)
    from sends_push [OF this] show ?thesis using build_SomeD(2) [OF Some] assms by simp
  qed
qed

lemma sends_pairs:
  "fh_universe_version h = sh_installed_universe_version s \<Longrightarrow> sends s (publish_pairs e h t is s)"
proof (induction "is" arbitrary: s)
  case (Cons i "is")
  let ?s = "fst (publish_pair e h t i s)"
  have "sends s ?s" using sends_pair [OF Cons.prems] .
  moreover have "sends ?s (publish_pairs e h t is ?s)" using Cons by (simp add: shard_frame)
  ultimately show ?case using sends_trans [of s ?s] by (simp add: case_prod_beta shard_frame)
qed (simp add: sends_refl)

lemma sends_affected:
  "fh_universe_version h = sh_installed_universe_version s \<Longrightarrow> sends s (publish_affected_pairs h r t s)"
  by (auto simp: publish_affected_pairs_def sends_refl sends_pairs split: option.split) (simp add: sends_def channel_def)

lemma apply_progress:
  assumes valid: "validate_handle_target h s = None" and none: "sh_pending_recovery_status s = None"
  shows "progress s (fst (apply_frame a h parsed s))"
proof -
  obtain store r where sa: "store_apply a (sh_event_store s) h parsed = (store, r)" by fastforce
  note v = validate_handle_targetD(1) [OF valid]
  obtain s4 ts where s4: "apply_to_store a h parsed s = (s4, r, ts)"
      "sh_installed_universe_version s4 = sh_installed_universe_version s"
      "channel s4 = (if ear_book_sync_transition r = BST_kBECAME_UNUSABLE
         then channel_push (SmEventUnavailable \<lparr>seu_universe_version = fh_universe_version h, seu_shard_index = sh_shard_index s,
           seu_event_id = fh_event_id h, seu_affected_market_id = fh_market_id h, seu_event_revision = ear_event_revision r\<rparr>) (channel s)
         else channel s)"
      "sh_to_control_queue s4 = sh_to_control_queue s" "sh_pending_recovery_status s4 = sh_pending_recovery_status s"
    using sa by (rule apply_to_store_effect)
  let ?f = "fst (apply_frame a h parsed s)"
  define s6 where "s6 = (let s5 = tally_shard (\<lambda>t. t\<lparr>shs_frames_applied := shs_frames_applied t + 1\<rparr>) s4
    in if ear_book_changed r then publish_affected_pairs h r ts s5 else s5)"
  have "sends s s4" using sends_push [OF s4(3)] v by simp
  moreover have "sends (tally_shard g s4) s6" "sends s4 (tally_shard g s4)" if "g = (\<lambda>t. t\<lparr>shs_frames_applied := shs_frames_applied t + 1\<rparr>)" for g
    using that s4(2) v by (auto simp: s6_def Let_def sends_affected sends_refl) (simp_all add: sends_def)
  ultimately have sent: "sends s s4" "sends s s6" using s4(2) by (auto intro: sends_trans)
  have rep: "recovery_reports s4 = recovery_reports s" "recovery_reports s6 = recovery_reports s" "sh_pending_recovery_status s6 = None"
    using s4(4,5) none by (auto simp: recovery_reports_def s6_def Let_def shard_frame)
  have grow: "reports_grow s (report_snapshot_applied h r s6)"
    using send_or_defer_reports [OF rep(3)] rep(2)
    by (auto simp: report_snapshot_applied_def reports_grow_def case_prod_beta Let_def is_recovery_status_def)
  have "sends s ?f \<and> reports_grow s ?f"
  proof (cases "ear_disposition r")
    case AD_kAPPLIED
    then have "apply_frame a h parsed s = finish_frame h ((shard_result SPC_kAPPLIED)\<lparr>shr_event_result := Some r\<rparr>) (report_snapshot_applied h r s6)"
      by (simp add: apply_frame_def s4(1) s6_def Let_def)
    then show ?thesis using sent(2) grow
      by (simp add: sends_def report_snapshot_frame reports_grow_def recovery_reports_def shard_frame)
  qed (use sent(1) rep(1) in \<open>auto simp: apply_frame_def s4(1) sends_def reports_grow_def recovery_reports_def shard_frame\<close>)
  then show ?thesis using apply_frame_informed [OF valid] by (auto simp: progress_def)
qed

lemma frame_progress:
  assumes none: "sh_pending_recovery_status s = None"
  shows "progress s (fst (handle_frame_message parse pool a h mode s))"
proof -
  let ?h = "h\<lparr>fh_shard_dequeue_ts_ns := fst (shard_now_ns s)\<rparr>"
  define s1 where "s1 = tally_shard (\<lambda>t. t\<lparr>shs_frames_seen := shs_frames_seen t + 1\<rparr>) (snd (shard_now_ns s))"
  have s1: "channel s1 = channel s" "sh_event_store s1 = sh_event_store s" "recovery_reports s1 = recovery_reports s"
    "sh_installed_universe_version s1 = sh_installed_universe_version s" and none1: "sh_pending_recovery_status s1 = None"
    using none by (simp_all add: s1_def shard_frame recovery_reports_def)
  have fin: "progress s1 (fst (finish_frame ?h res t))" if "t = s1 \<or> t = fault_shard v r s1" for res t v r
    using that by (intro progress_same) (auto simp: shard_frame fault_reports recovery_reports_def send_control_items fault_shard_def is_recovery_status_def)
  have fin0: "progress s1 (fst (finish_frame ?h res (s1\<lparr>sh_stats := st\<rparr>)))" for res st
    by (intro progress_same) (auto simp: shard_frame recovery_reports_def)
  have miss: "progress s1 (fst (handle_missing_frame ?h s1))" "progress s1 (fst (handle_parse_failure ?h why s1))"
    if valid: "validate_handle_target ?h s1 = None" for why
  proof -
    note v = validate_handle_targetD [OF valid]
    have k: "sh_installed_universe_version (fst out) = sh_installed_universe_version s1" if "finishes ?h s1 out" for out
      using that by (auto simp: finishes_def kept_def shard_frame)
    show "progress s1 (fst (handle_missing_frame ?h s1))"
    proof (cases "is_order_book ?h")
      case True
      from market_lost_progress [OF missing_frame_lost [OF valid none1 True] v(2,5,1) k [OF missing_finishes] v(3) [symmetric]] show ?thesis .
    qed (simp add: handle_missing_frame_def fin)
    show "progress s1 (fst (handle_parse_failure ?h why s1))"
    proof (cases "is_order_book ?h")
      case True
      from market_lost_progress [OF parse_failure_lost [OF valid none1 True] v(2,5,1) k [OF parse_finishes] v(3) [symmetric]] show ?thesis .
    qed (simp add: handle_parse_failure_def fin0 Let_def)
  qed
  have "progress s1 (fst (handle_frame_message parse pool a h mode s))"
    using fin [of s1] fin miss apply_progress [OF _ none1]
    by (auto simp: handle_frame_message_def case_prod_beta Let_def s1_def [symmetric] split: option.split sum.split)
  then show ?thesis by (rule progress_start [OF s1])
qed

lemma kept_barrier: "kept s (fst (handle_market_barrier m s))"
proof -
  define s0 where "s0 = tally_shard (\<lambda>t. t\<lparr>shs_market_barriers_seen := shs_market_barriers_seen t + 1\<rparr>) s"
  obtain store res where res: "store_invalidate_market (sh_event_store s0) (mib_shard_event_index m) (mib_event_market_index m)
      (mib_market_id m) (mib_reason m) = (store, res)" by fastforce
  define s2 where "s2 = fst (account_invalidation_result res (s0\<lparr>sh_event_store := store\<rparr>))"
  have k0: "kept s s0" by (simp add: s0_def)
  have k1: "kept s (s0\<lparr>sh_event_store := store\<rparr>)" using k0 by (rule kept_trans) simp
  have k2: "kept s s2" unfolding s2_def using k1 by (rule kept_trans) simp
  have rej: "kept s (fst (reject_barrier i v r t))" if "kept s t" for i v r t
    using that by (auto simp: reject_barrier_def kept_def shard_frame)
  have rep: "kept s (fst (report_market_recovery_required v i sid q x y r t))" if "kept s t" for v i sid q x y r t
    using that kept_helpers(12) by (auto simp: report_required_frame intro: kept_trans)
  show ?thesis
    unfolding handle_market_barrier_def Let_def s0_def [symmetric] res
    by (auto simp: case_prod_beta s2_def [symmetric] intro!: rej rep k0 k1 k2 kept_after)
qed

lemma kept_subscription: "kept s (fst (handle_subscription_barrier m s))"
  by (auto simp: handle_subscription_barrier_def reject_barrier_def case_prod_beta Let_def kept_def shard_frame)

lemma barrier_progress:
  assumes "sh_pending_recovery_status s = None"
  shows "progress s (fst (handle_market_barrier m s))"
proof (cases "barrier_ok m s")
  case True
  note b = True [unfolded barrier_ok_def]
  have "sh_installed_universe_version (fst (handle_market_barrier m s)) = sh_installed_universe_version s"
    using kept_barrier [of s m] by (simp add: kept_def)
  then show ?thesis using b by (intro market_lost_progress [OF market_barrier_lost(1) [OF True assms]]) simp_all
next
  case False
  then show ?thesis using kept_barrier [of s m] by (intro progress_same) (simp_all add: barrier_refused kept_def)
qed

lemma subscription_progress: "progress s (fst (handle_subscription_barrier m s))"
proof (cases "sib_reason m = BIR_kNONE \<or> sib_universe_version m \<noteq> sh_installed_universe_version s")
  case True
  then have "handle_subscription_barrier m s = reject_barrier (sib_incident m) (sib_universe_version m) ''Invalid order-book subscription barrier''
      (tally_shard (\<lambda>t. t\<lparr>shs_subscription_barriers_seen := shs_subscription_barriers_seen t + 1\<rparr>) s)"
    by (auto simp: handle_subscription_barrier_def)
  then show ?thesis
    by (intro progress_same) (simp_all add: reject_barrier_def shard_frame recovery_reports_def send_control_items is_recovery_status_def)
next
  case False
  let ?s = "fst (handle_subscription_barrier m s)"
  have v: "sh_installed_universe_version ?s = sh_installed_universe_version s" using kept_subscription [of s m] by (simp add: kept_def)
  have c: "channel ?s = (if bis_targets_became_unusable (snd (store_invalidate_all (sh_event_store s) (sib_reason m))) > 0
      then channel_push (SmShardUnavailable \<lparr>ssu_universe_version = sib_universe_version m, ssu_shard_index = sh_shard_index s\<rparr>) (channel s)
      else channel s)"
    using False by (simp add: handle_subscription_barrier_def case_prod_beta Let_def publish_shard_unavailable_def channel_publish)
  have "reports_grow s ?s"
    using False by (simp add: handle_subscription_barrier_def case_prod_beta Let_def reports_grow_def recovery_reports_def shard_frame)
  moreover have "sends s ?s" using sends_push [OF c] False by simp
  ultimately show ?thesis using subscription_barrier_informed [OF _ _ _ _ v] False by (auto simp: progress_def)
qed

lemma dispatch_progress:
  "sh_pending_recovery_status s = None \<Longrightarrow> progress s (fst (shard_dispatch parse pool a m mode s))"
  by (cases m) (simp_all add: frame_progress barrier_progress subscription_progress)

text \<open>What a dispatch leaves alone, whatever the message.\<close>

lemma dispatch_frame:
  assumes s'_def: "s' = fst (shard_dispatch parse pool a m mode s)"
  shows "sh_router_queue s' = sh_router_queue s" "sh_from_control_queue s' = sh_from_control_queue s"
    "sh_installed_universe_version s' = sh_installed_universe_version s" "sh_shard_index s' = sh_shard_index s"
    "sh_run_state s' = sh_run_state s \<or> sh_run_state s' = SRS_kFAULTED"
proof -
  have "sh_router_queue s' = sh_router_queue s \<and> sh_from_control_queue s' = sh_from_control_queue s
    \<and> sh_installed_universe_version s' = sh_installed_universe_version s \<and> sh_shard_index s' = sh_shard_index s
    \<and> (sh_run_state s' = sh_run_state s \<or> sh_run_state s' = SRS_kFAULTED)"
  proof (cases m)
    case (PathFrame h)
    then show ?thesis using frame_finishes [where h = h and s = s and parse = parse and pool = pool and a = a and mode = mode] by (auto simp: s'_def finishes_def kept_def shard_frame)
  qed (use kept_barrier kept_subscription in \<open>auto simp: s'_def kept_def\<close>)
  then show "sh_router_queue s' = sh_router_queue s" "sh_from_control_queue s' = sh_from_control_queue s"
    "sh_installed_universe_version s' = sh_installed_universe_version s" "sh_shard_index s' = sh_shard_index s"
    "sh_run_state s' = sh_run_state s \<or> sh_run_state s' = SRS_kFAULTED" by simp_all
qed

section \<open>The pump\<close>

text \<open>The pump flushes the retained status, then handles one message, is idle, or ends the drain.\<close>

lemma pump_cases:
  obtains (blocked) "shard_pump_once parse pool a s = (s, shard_result SPC_kIDLE)" "flush_pending_recovery_status s = (s, False)"
    | (idle) "snd (flush_pending_recovery_status s)"
        "shard_pump_once parse pool a s = (fst (flush_pending_recovery_status s), shard_result SPC_kIDLE)"
    | (drained) s1 where "flush_pending_recovery_status s = (s1, True)" "sh_run_state s = SRS_kDRAINING" "bq_items (sh_router_queue s) = []"
        "shard_pump_once parse pool a s = (fst (shard_send_control (ShardDrainComplete (sh_installed_universe_version s1) (sh_shard_index s1)
           (sh_stats s1)) (s1\<lparr>sh_run_state := SRS_kDRAINED\<rparr>)), shard_result SPC_kDRAIN_COMPLETE)"
    | (message) s1 m ms mode where "flush_pending_recovery_status s = (s1, True)" "bq_items (sh_router_queue s) = m # ms"
        "sh_run_state s \<in> {SRS_kLIVE, SRS_kPREPARING_STOP, SRS_kSAFE_TO_STOP, SRS_kDRAINING}"
        "mode = (if sh_run_state s = SRS_kDRAINING then DM_kDRAINING else DM_kLIVE)"
        "shard_pump_once parse pool a s = shard_dispatch parse pool a m mode
           (s1\<lparr>sh_router_queue := (sh_router_queue s)\<lparr>bq_items := ms\<rparr>\<rparr>)"
proof -
  define s1 where "s1 = fst (flush_pending_recovery_status s)"
  show thesis
  proof (cases "snd (flush_pending_recovery_status s)")
    case False
    then have "flush_pending_recovery_status s = (s, False)" by (cases rule: flush_cases [of s]) simp_all
    then show thesis by (intro blocked) (simp_all add: shard_pump_once_def)
  next
    case True
    then have fl: "flush_pending_recovery_status s = (s1, True)" by (simp add: s1_def prod_eq_iff)
    have f: "sh_run_state s1 = sh_run_state s" "sh_router_queue s1 = sh_router_queue s"
      using flush_frame [of s] fl by simp_all
    show thesis
    proof (cases "bq_items (sh_router_queue s)")
      case Nil
      then show thesis using idle [unfolded fl] drained [OF fl] f
        by (cases "sh_run_state s") (simp_all add: shard_pump_once_def fl drain_one_message_def bq_pop_def)
    next
      case (Cons m ms)
      then show thesis using idle [unfolded fl] message [OF fl Cons, of "if sh_run_state s = SRS_kDRAINING then DM_kDRAINING else DM_kLIVE"] f
        by (cases "sh_run_state s") (simp_all add: shard_pump_once_def fl drain_one_message_def bq_pop_def)
    qed
  qed
qed

end
