(* ===== verification/Shard_Invariant.thy ===== *)
theory Shard_Invariant
  imports Shard_World
begin

text \<open>
  The invariant of the shard and its life cycle, and that the pump, every command of the control plane and the
  telemetry keep them.
\<close>

section \<open>The invariant\<close>

text \<open>What the control plane may install: event ids are distinct and no book is usable yet.\<close>

fun command_ok :: "control_to_shard_command \<Rightarrow> bool" where
  "command_ok (InstallShardUniverse version index events) =
     (store_ok (map make_event events) \<and> list_all (\<lambda>e. list_all (\<lambda>m. \<not> book_usable (km_book m)) (ke_markets e)) events)"
| "command_ok _ = True"

definition shard_ok :: "shard_to_strategy_message list \<Rightarrow> shard \<Rightarrow> bool" where
  "shard_ok taken s \<longleftrightarrow> store_ok (sh_event_store s) \<and> informed taken s
     \<and> list_all (\<lambda>m. message_version m \<le> sh_installed_universe_version s) (taken @ bq_items (fst (channel s)))
     \<and> list_all is_recovery_status (recovery_reports s) \<and> list_all command_ok (bq_items (sh_from_control_queue s))
     \<and> (sh_run_state s = SRS_kUNINSTALLED \<longrightarrow> sh_installed_universe_version s = 0 \<and> taken @ bq_items (fst (channel s)) = [])"

text \<open>The life cycle; \<open>kPREPARING_STOP\<close> is only passed through inside a handler.\<close>

inductive shard_move :: "shard_run_state \<Rightarrow> shard_run_state \<Rightarrow> bool" where
  installed: "shard_move SRS_kUNINSTALLED SRS_kLIVE"
| stopped: "shard_move SRS_kLIVE SRS_kSAFE_TO_STOP"
| resumed: "shard_move SRS_kSAFE_TO_STOP SRS_kLIVE"
| draining: "shard_move SRS_kSAFE_TO_STOP SRS_kDRAINING"
| drained: "shard_move SRS_kDRAINING SRS_kDRAINED"
| replaced: "shard_move SRS_kDRAINED SRS_kLIVE"
| faulted: "shard_move x SRS_kFAULTED"

inductive_simps shard_move_from_faulted: "shard_move SRS_kFAULTED y"

definition lifecycle :: "shard \<Rightarrow> shard \<Rightarrow> bool" where
  "lifecycle s s' \<longleftrightarrow> shard_move\<^sup>*\<^sup>* (sh_run_state s) (sh_run_state s')
     \<and> sh_installed_universe_version s \<le> sh_installed_universe_version s'"

lemma lifecycle_refl: "lifecycle s s"
  by (simp add: lifecycle_def)

lemma lifecycle_trans: "lifecycle a b \<Longrightarrow> lifecycle b c \<Longrightarrow> lifecycle a c"
  by (auto simp: lifecycle_def)

lemma move_to_faulted [simp]: "shard_move\<^sup>*\<^sup>* x SRS_kFAULTED"
  by (rule r_into_rtranclp [of shard_move, OF shard_move.faulted])

lemma lifecycle_kept:
  "sh_run_state s' = sh_run_state s \<or> sh_run_state s' = SRS_kFAULTED \<Longrightarrow>
     sh_installed_universe_version s' = sh_installed_universe_version s \<Longrightarrow> lifecycle s s'"
  by (auto simp: lifecycle_def)

lemma lifecycle_move:
  "shard_move (sh_run_state s) (sh_run_state s') \<Longrightarrow> sh_installed_universe_version s \<le> sh_installed_universe_version s' \<Longrightarrow> lifecycle s s'"
  by (auto simp: lifecycle_def)

text \<open>A step that keeps the books and what the strategy and the control plane have been told.\<close>

lemma shard_ok_quiet:
  assumes "shard_ok taken s" and "channel s' = channel s" "sh_event_store s' = sh_event_store s" "recovery_reports s' = recovery_reports s"
    "sh_installed_universe_version s' = sh_installed_universe_version s" "list_all command_ok (bq_items (sh_from_control_queue s'))"
    "sh_run_state s' \<noteq> SRS_kUNINSTALLED \<or> sh_run_state s' = sh_run_state s"
  shows "shard_ok taken s'"
  using assms by (auto simp: shard_ok_def informed_channel)

lemma shard_ok_progress:
  assumes "shard_ok taken s" and "progress s s'" "sh_installed_universe_version s' = sh_installed_universe_version s"
    "sh_from_control_queue s' = sh_from_control_queue s" "sh_run_state s' \<noteq> SRS_kUNINSTALLED"
  shows "shard_ok taken s'"
proof -
  obtain ms where ms: "bq_items (fst (channel s')) = bq_items (fst (channel s)) @ ms"
      "list_all (\<lambda>m. message_version m = sh_installed_universe_version s) ms"
    using assms(2) by (auto simp: progress_def sends_def)
  then have "list_all (\<lambda>m. message_version m \<le> sh_installed_universe_version s') ms" using assms(3) by (auto simp: list_all_iff)
  then show ?thesis using assms ms(1) by (auto simp: shard_ok_def progress_def reports_grow_def)
qed

section \<open>Steps\<close>

lemma flush_quiet:
  assumes "shard_ok taken s"
  shows "shard_ok taken (fst (flush_pending_recovery_status s))"
    and "recovery_reports (fst (flush_pending_recovery_status s)) = recovery_reports s"
proof -
  have "pending_ok s" using assms by (auto simp: shard_ok_def pending_ok_def recovery_reports_def)
  from flush_reports [OF this] show r: "recovery_reports (fst (flush_pending_recovery_status s)) = recovery_reports s" .
  have "list_all command_ok (bq_items (sh_from_control_queue s))" using assms by (simp add: shard_ok_def)
  then show "shard_ok taken (fst (flush_pending_recovery_status s))"
    using r by (intro shard_ok_quiet [OF assms]) (simp_all add: channel_def shard_frame)
qed

lemma pump_step:
  assumes ok: "shard_ok taken s"
  shows "shard_ok taken (fst (shard_pump_once parse pool a s))" and "reports_grow s (fst (shard_pump_once parse pool a s))"
    and "lifecycle s (fst (shard_pump_once parse pool a s))"
proof -
  let ?s' = "fst (shard_pump_once parse pool a s)"
  have "shard_ok taken ?s' \<and> reports_grow s ?s' \<and> lifecycle s ?s'"
  proof (cases rule: pump_cases [of parse pool a s])
    case blocked
    then show ?thesis using ok by (simp add: reports_grow_def lifecycle_refl)
  next
    case idle
    then show ?thesis using flush_quiet [OF ok] by (auto simp: reports_grow_def lifecycle_def shard_frame)
  next
    case (drained s1)
    have s1: "shard_ok taken s1" "recovery_reports s1 = recovery_reports s" "sh_run_state s1 = SRS_kDRAINING"
      "sh_installed_universe_version s1 = sh_installed_universe_version s"
      using flush_quiet [OF ok] flush_frame [of s] drained(1,2) by simp_all
    have r: "recovery_reports ?s' = recovery_reports s1"
      by (simp add: drained(4) recovery_reports_def send_control_items is_recovery_status_def shard_frame)
    have c: "channel ?s' = channel s1" by (simp add: drained(4))
    have "shard_ok taken ?s'" using s1 r c
      by (intro shard_ok_quiet [OF s1(1)]) (simp_all add: drained(4) shard_frame shard_ok_def)
    moreover have "lifecycle s ?s'" using drained(2) s1(4)
      by (intro lifecycle_move) (simp_all add: drained(4) shard_frame shard_move.intros)
    ultimately show ?thesis using r s1(2) by (simp add: reports_grow_def)
  next
    case (message s1 m ms mode)
    let ?t = "s1\<lparr>sh_router_queue := (sh_router_queue s)\<lparr>bq_items := ms\<rparr>\<rparr>"
    have s1: "shard_ok taken s1" "recovery_reports s1 = recovery_reports s" "sh_run_state s1 = sh_run_state s"
      "sh_installed_universe_version s1 = sh_installed_universe_version s" "sh_pending_recovery_status s1 = None"
      using flush_quiet [OF ok] flush_frame [of s] flush_pending [of s] message(1) by simp_all
    have t: "shard_ok taken ?t" "recovery_reports ?t = recovery_reports s" "sh_pending_recovery_status ?t = None"
      "sh_run_state ?t = sh_run_state s" "sh_installed_universe_version ?t = sh_installed_universe_version s"
      using s1 by (auto simp: shard_ok_def informed_channel recovery_reports_def)
    note p = dispatch_progress [OF t(3), of parse pool a m mode] and f = dispatch_frame [OF refl, of parse pool a m mode ?t]
    have "shard_ok taken ?s'"
      using t(4) message(3) f by (intro shard_ok_progress [OF t(1)]) (use p in \<open>auto simp: message(5)\<close>)
    moreover have "reports_grow s ?s'" using p t(2) by (simp add: message(5) progress_def reports_grow_def)
    moreover have "lifecycle s ?s'" using f t(4,5) by (intro lifecycle_kept) (simp_all add: message(5))
    ultimately show ?thesis by simp
  qed
  then show "shard_ok taken ?s'" "reports_grow s ?s'" "lifecycle s ?s'" by simp_all
qed

lemma fault_step:
  assumes "shard_ok taken s"
  shows "shard_ok taken (fault_shard v r s)" and "recovery_reports (fault_shard v r s) = recovery_reports s" and "lifecycle s (fault_shard v r s)"
proof -
  show r: "recovery_reports (fault_shard v r s) = recovery_reports s" by (rule fault_reports)
  have "list_all command_ok (bq_items (sh_from_control_queue s))" using assms by (simp add: shard_ok_def)
  then show "shard_ok taken (fault_shard v r s)" using r by (intro shard_ok_quiet [OF assms]) (simp_all add: shard_frame)
  show "lifecycle s (fault_shard v r s)" by (intro lifecycle_kept) (simp_all add: shard_frame)
qed

definition quiet_step :: "shard_to_strategy_message list \<Rightarrow> shard \<Rightarrow> shard \<Rightarrow> bool" where
  "quiet_step taken s s' \<longleftrightarrow> shard_ok taken s' \<and> recovery_reports s' = recovery_reports s \<and> lifecycle s s'"

lemma quiet_fault: "shard_ok taken s \<Longrightarrow> quiet_step taken s (fault_shard v r s)"
  by (simp add: quiet_step_def fault_step)

lemma quiet_move:
  assumes "shard_ok taken s" and "shard_move (sh_run_state s) rs" "rs \<noteq> SRS_kUNINSTALLED" "\<not> is_recovery_status m"
  shows "quiet_step taken s (s\<lparr>sh_run_state := rs\<rparr>)" and "quiet_step taken s (fst (shard_send_control m (s\<lparr>sh_run_state := rs\<rparr>)))"
proof -
  let ?t = "s\<lparr>sh_run_state := rs\<rparr>"
  have c: "list_all command_ok (bq_items (sh_from_control_queue s))" using assms(1) by (simp add: shard_ok_def)
  have r: "recovery_reports ?t = recovery_reports s" "recovery_reports (fst (shard_send_control m ?t)) = recovery_reports s"
    using assms(4) by (simp_all add: recovery_reports_def send_control_items shard_frame)
  show "quiet_step taken s ?t" unfolding quiet_step_def using assms(2,3) c r(1)
    by (auto intro!: shard_ok_quiet [OF assms(1)] lifecycle_move)
  show "quiet_step taken s (fst (shard_send_control m ?t))" unfolding quiet_step_def using assms(2,3) c r(2)
    by (auto intro!: shard_ok_quiet [OF assms(1)] lifecycle_move simp: shard_frame)
qed

lemma install_step:
  assumes ok: "shard_ok taken s" and events: "command_ok (InstallShardUniverse version index events)"
  shows "quiet_step taken s (handle_install version index events s)"
proof (cases "index = sh_shard_index s \<and> version \<noteq> 0
    \<and> (sh_run_state s = SRS_kUNINSTALLED \<or> sh_run_state s = SRS_kDRAINED \<and> version > sh_installed_universe_version s)")
  case False
  then have "\<exists>r. handle_install version index events s = fault_shard version r s"
    by (auto simp: handle_install_def not_le)
  then show ?thesis using quiet_fault [OF ok] by auto
next
  case True
  let ?t = "s\<lparr>sh_event_store := map make_event events, sh_installed_universe_version := version, sh_stats := empty_shard_stats,
     sh_run_state := SRS_kLIVE\<rparr>"
  let ?s' = "handle_install version index events s"
  have eq: "?s' = fst (shard_send_control (ShardUniverseInstalled version (sh_shard_index s) (length events)) ?t)"
    using True by (auto simp: handle_install_def store_initialize_def not_le)
  have newer: "sh_installed_universe_version s < version"
    using True ok by (auto simp: shard_ok_def word_gt_0)
  let ?H = "taken @ bq_items (fst (channel s))"
  have old: "list_all (\<lambda>m. message_version m \<le> sh_installed_universe_version s) ?H" using ok by (simp add: shard_ok_def)
  then have "list_all (\<lambda>m. message_version m \<noteq> version) ?H" "list_all (\<lambda>m. message_version m \<le> version) ?H"
    using newer by (force simp: list_all_iff)+
  note H = knowledge_fresh [OF this(1)] this(2)
  have un: "\<not> event_usable (make_event e)" if "e \<in> set events" for e
    using events that by (cases "ke_markets e") (auto simp: event_usable_def make_event_def list_all_iff)
  have s': "sh_event_store ?s' = map make_event events" "channel ?s' = channel s" "sh_installed_universe_version ?s' = version"
    "sh_run_state ?s' = SRS_kLIVE" "sh_from_control_queue ?s' = sh_from_control_queue s"
    "recovery_reports ?s' = recovery_reports s"
    by (simp_all add: eq shard_frame channel_def recovery_reports_def send_control_items is_recovery_status_def)
  have "informed taken ?s'" using un H(1) by (auto simp: informed_channel s' knows_books_def current_pair_unusable)
  then have "shard_ok taken ?s'" using ok events H(2) by (simp add: shard_ok_def s')
  moreover have "shard_move (sh_run_state s) SRS_kLIVE" using True by (auto intro: shard_move.intros)
  then have "lifecycle s ?s'" unfolding lifecycle_def s' using newer by auto
  ultimately show ?thesis by (simp add: quiet_step_def s')
qed

lemma matches_cases:
  obtains (fault) r where "command_matches_shard v i s = (fault_shard v r s, False)" | (ok) "command_matches_shard v i s = (s, True)"
  by (cases "i = sh_shard_index s"; cases "sh_installed_universe_version s = 0 \<or> v \<noteq> sh_installed_universe_version s")
    (auto simp: command_matches_shard_def)

lemma require_cases:
  obtains (fault) "require_run_state rs v r s = (fault_shard v r s, False)" | (ok) "require_run_state rs v r s = (s, True)" "sh_run_state s = rs"
  by (cases "sh_run_state s = rs") (auto simp: require_run_state_def)

lemma command_step:
  assumes ok: "shard_ok taken s" and "command_ok c"
  shows "quiet_step taken s (handle_operator_command c s)"
proof (cases c)
  case (InstallShardUniverse v i es)
  then show ?thesis using install_step [OF ok] assms(2) by simp
next
  case (PrepareStopUniverse v i)
  then show ?thesis
    by (cases rule: matches_cases [of v i s]; cases rule: require_cases [of SRS_kLIVE v "''Prepare stop requested before Shard was live''" s])
      (auto simp: handle_prepare_stop_def is_recovery_status_def intro!: quiet_fault [OF ok] quiet_move [OF ok] shard_move.intros)
next
  case (DrainShardUniverse v i)
  then show ?thesis
    by (cases rule: matches_cases [of v i s]; cases rule: require_cases [of SRS_kSAFE_TO_STOP v "''Drain requested before Shard was safe to stop''" s])
      (auto simp: handle_drain_def intro!: quiet_fault [OF ok] quiet_move(1) [OF ok _ _, of _ "ShardFaulted 0 0 []"] shard_move.intros
        simp: is_recovery_status_def)
next
  case (ResumeShardUniverse v i)
  then show ?thesis
    by (cases rule: matches_cases [of v i s]; cases rule: require_cases [of SRS_kSAFE_TO_STOP v "''Resume requested before Shard was safe to stop''" s])
      (auto simp: handle_resume_def intro!: quiet_fault [OF ok] quiet_move(1) [OF ok _ _, of _ "ShardFaulted 0 0 []"] shard_move.intros
        simp: is_recovery_status_def)
qed

lemma quiet_trans: "quiet_step taken s t \<Longrightarrow> quiet_step taken t u \<Longrightarrow> quiet_step taken s u"
  by (auto simp: quiet_step_def intro: lifecycle_trans)

lemma process_command_step:
  assumes ok: "shard_ok taken s"
  shows "quiet_step taken s (fst (process_one_control_command s))"
proof (cases "bq_items (sh_from_control_queue s)")
  case Nil
  then show ?thesis using ok by (simp add: process_one_control_command_def bq_pop_def quiet_step_def lifecycle_refl)
next
  case (Cons c cs)
  let ?t = "s\<lparr>sh_from_control_queue := (sh_from_control_queue s)\<lparr>bq_items := cs\<rparr>\<rparr>"
  have c: "command_ok c" "list_all command_ok cs" using ok Cons by (simp_all add: shard_ok_def)
  have r: "recovery_reports ?t = recovery_reports s" by (simp add: recovery_reports_def)
  have t: "shard_ok taken ?t" using c(2) r by (intro shard_ok_quiet [OF ok]) (simp_all add: channel_def)
  have "quiet_step taken s ?t" using t r by (simp add: quiet_step_def lifecycle_def)
  then have "quiet_step taken s (handle_operator_command c ?t)" using command_step [OF t c(1)] by (rule quiet_trans)
  then show ?thesis using Cons by (simp add: process_one_control_command_def bq_pop_def)
qed

lemma commands_step: "shard_ok taken s \<Longrightarrow> quiet_step taken s (fst (shard_drain_control_commands n s))"
proof (induction n arbitrary: s)
  case 0
  then show ?case by (simp add: quiet_step_def lifecycle_refl)
next
  case (Suc n)
  note p = process_command_step [OF Suc.prems]
  obtain s1 more where s1: "process_one_control_command s = (s1, more)" by fastforce
  have q: "quiet_step taken s s1" using p s1 by simp
  then have "quiet_step taken s1 (fst (shard_drain_control_commands n s1))" by (intro Suc.IH) (simp add: quiet_step_def)
  from quiet_trans [OF q this] show ?case using q by (cases more) (simp_all add: s1 case_prod_beta)
qed

lemma telemetry_step:
  assumes ok: "shard_ok taken s"
  shows "quiet_step taken s (shard_maybe_send_telemetry s)"
proof -
  let ?s' = "shard_maybe_send_telemetry s"
  have r: "recovery_reports ?s' = recovery_reports s"
    by (simp add: shard_maybe_send_telemetry_def Let_def recovery_reports_def send_control_items is_recovery_status_def shard_frame)
  have f: "channel ?s' = channel s" "sh_event_store ?s' = sh_event_store s" "sh_installed_universe_version ?s' = sh_installed_universe_version s"
    "sh_from_control_queue ?s' = sh_from_control_queue s" "sh_run_state ?s' = sh_run_state s"
    by (simp_all add: shard_maybe_send_telemetry_def Let_def channel_def shard_frame)
  have "list_all command_ok (bq_items (sh_from_control_queue s))" using ok by (simp add: shard_ok_def)
  then show ?thesis using r f by (auto simp: quiet_step_def intro!: shard_ok_quiet [OF ok] lifecycle_kept)
qed

end
