(* ===== verification/Shard_Properties.thy ===== *)
theory Shard_Properties
  imports Shard_Invariant "HOL-Library.Sublist"
begin

text \<open>
  The shard among the other threads: the router and the control plane fill its input queues, the strategy, the logger,
  the recycler and the control plane empty its output queues, in any order; the properties of the frames, reports
  and observations it passes on.
\<close>

section \<open>The shard and its neighbours\<close>

text \<open>The shard, with the messages the strategy and the control plane have taken so far.\<close>

record shard_world =
  sw_shard :: shard
  sw_strategy :: "shard_to_strategy_message list"
  sw_control :: "shard_to_control_message list"

datatype shard_op =
    ShPump market_parser frame_pool bool
  | ShCommands nat
  | ShTelemetry
  | ShRoute market_data_path_message
  | ShCommand control_to_shard_command
  | ShTakeStrategy
  | ShTakeControl
  | ShTakeLogger
  | ShTakeRecycle

fun shard_world_step :: "shard_op \<Rightarrow> shard_world \<Rightarrow> shard_world" where
  "shard_world_step (ShPump parse pool a) w = w\<lparr>sw_shard := fst (shard_pump_once parse pool a (sw_shard w))\<rparr>"
| "shard_world_step (ShCommands n) w = w\<lparr>sw_shard := fst (shard_drain_control_commands n (sw_shard w))\<rparr>"
| "shard_world_step ShTelemetry w = w\<lparr>sw_shard := shard_maybe_send_telemetry (sw_shard w)\<rparr>"
| "shard_world_step (ShRoute m) w = w\<lparr>sw_shard := (sw_shard w)\<lparr>sh_router_queue := fst (bq_push m (sh_router_queue (sw_shard w)))\<rparr>\<rparr>"
| "shard_world_step (ShCommand c) w =
     w\<lparr>sw_shard := (sw_shard w)\<lparr>sh_from_control_queue := fst (bq_push c (sh_from_control_queue (sw_shard w)))\<rparr>\<rparr>"
| "shard_world_step ShTakeStrategy w = (case bq_pop (sh_strategy_queue (sw_shard w)) of
     (q, None) \<Rightarrow> w | (q, Some m) \<Rightarrow> w\<lparr>sw_shard := (sw_shard w)\<lparr>sh_strategy_queue := q\<rparr>, sw_strategy := sw_strategy w @ [m]\<rparr>)"
| "shard_world_step ShTakeControl w = (case bq_pop (sh_to_control_queue (sw_shard w)) of
     (q, None) \<Rightarrow> w | (q, Some m) \<Rightarrow> w\<lparr>sw_shard := (sw_shard w)\<lparr>sh_to_control_queue := q\<rparr>, sw_control := sw_control w @ [m]\<rparr>)"
| "shard_world_step ShTakeLogger w = w\<lparr>sw_shard := (sw_shard w)\<lparr>sh_logger_queue := fst (bq_pop (sh_logger_queue (sw_shard w)))\<rparr>\<rparr>"
| "shard_world_step ShTakeRecycle w = w\<lparr>sw_shard := (sw_shard w)\<lparr>sh_recycle_queue := fst (bq_pop (sh_recycle_queue (sw_shard w)))\<rparr>\<rparr>"

fun shard_op_ok :: "shard_op \<Rightarrow> bool" where
  "shard_op_ok (ShCommand c) = command_ok c"
| "shard_op_ok _ = True"

definition world_ok :: "shard_world \<Rightarrow> bool" where
  "world_ok w \<longleftrightarrow> shard_ok (sw_strategy w) (sw_shard w)"

text \<open>All recovery reports made so far, in their order: those the control plane has, those in its queue and the one
  the shard retains.\<close>

definition all_reports :: "shard_world \<Rightarrow> shard_to_control_message list" where
  "all_reports w = filter is_recovery_status (sw_control w) @ recovery_reports (sw_shard w)"

definition world_moves :: "shard_world \<Rightarrow> shard_world \<Rightarrow> bool" where
  "world_moves w w' \<longleftrightarrow> prefix (all_reports w) (all_reports w') \<and> lifecycle (sw_shard w) (sw_shard w')"

lemma list_all_filter [simp]: "list_all P (filter P xs)"
  by (simp add: list_all_iff)

lemma shard_world_moves:
  assumes ok: "world_ok w" "shard_op_ok op"
  shows "world_ok (shard_world_step op w) \<and> world_moves w (shard_world_step op w)"
proof (cases op)
  case (ShPump parse pool a)
  then show ?thesis using pump_step [of "sw_strategy w" "sw_shard w" parse pool a] ok(1)
    by (auto simp: world_ok_def world_moves_def all_reports_def reports_grow_def)
next
  case (ShCommands n)
  then show ?thesis using commands_step [of "sw_strategy w" "sw_shard w" n] ok(1)
    by (simp add: world_ok_def world_moves_def all_reports_def quiet_step_def)
next
  case ShTelemetry
  then show ?thesis using telemetry_step [of "sw_strategy w" "sw_shard w"] ok(1)
    by (simp add: world_ok_def world_moves_def all_reports_def quiet_step_def)
next
  case (ShRoute m)
  then show ?thesis using ok(1)
    by (simp add: world_ok_def world_moves_def all_reports_def shard_ok_def informed_channel recovery_reports_def lifecycle_def)
next
  case (ShCommand c)
  have "channel ((sw_shard w)\<lparr>sh_from_control_queue := q\<rparr>) = channel (sw_shard w)" for q by (simp add: channel_def)
  then show ?thesis using ok ShCommand
    by (simp add: world_ok_def world_moves_def all_reports_def shard_ok_def informed_channel recovery_reports_def lifecycle_def bq_push_def)
next
  case ShTakeStrategy
  then show ?thesis using ok(1)
    by (cases "bq_items (sh_strategy_queue (sw_shard w))")
      (simp_all add: world_ok_def world_moves_def all_reports_def shard_ok_def informed_channel channel_def recovery_reports_def
        lifecycle_def bq_pop_def)
next
  case ShTakeControl
  then show ?thesis using ok(1)
    by (cases "bq_items (sh_to_control_queue (sw_shard w))")
      (simp_all add: world_ok_def world_moves_def all_reports_def shard_ok_def informed_channel channel_def recovery_reports_def
        lifecycle_def bq_pop_def)
next
  case ShTakeLogger
  then show ?thesis using ok(1)
    by (simp add: world_ok_def world_moves_def all_reports_def shard_ok_def informed_channel channel_def recovery_reports_def lifecycle_def)
next
  case ShTakeRecycle
  then show ?thesis using ok(1)
    by (simp add: world_ok_def world_moves_def all_reports_def shard_ok_def informed_channel channel_def recovery_reports_def lifecycle_def)
qed

interpretation shard_machine: guarded_machine shard_world_step world_ok shard_op_ok
  by unfold_locales (use shard_world_moves in blast)

lemma world_moves_run:
  assumes "world_ok w" "list_all shard_op_ok ops"
  shows "world_moves w (fold shard_world_step ops w)"
proof (rule shard_machine.run_mono [OF _ _ _ assms])
  show "world_moves w w" for w by (simp add: world_moves_def lifecycle_refl)
  show "world_moves a c" if "world_moves a b" "world_moves b c" for a b c
    using that unfolding world_moves_def by (blast intro: prefix_order.trans lifecycle_trans)
qed (use shard_world_moves in blast)

text \<open>A new shard whose queue to the strategy is empty and whose commands are acceptable.\<close>

definition new_world :: "shard_world \<Rightarrow> bool" where
  "new_world w \<longleftrightarrow> sw_strategy w = [] \<and> sw_control w = []
     \<and> (\<exists>index router logger recycle_q to_control from_control strategy clock steady.
          sw_shard w = shard_make index router logger recycle_q to_control from_control strategy clock steady
          \<and> bq_items strategy = [] \<and> list_all command_ok (bq_items from_control))"

lemma new_world_ok: "new_world w \<Longrightarrow> world_ok w"
  by (auto simp: new_world_def world_ok_def shard_ok_def shard_make_def store_ok_def informed_channel knows_books_def channel_def
      recovery_reports_def)

section \<open>One message\<close>

definition takes_messages :: "shard \<Rightarrow> bool" where
  "takes_messages s \<longleftrightarrow> sh_run_state s = SRS_kLIVE \<or> sh_run_state s = SRS_kSAFE_TO_STOP"

lemma pump_message:
  assumes "sh_pending_recovery_status s = None" "takes_messages s" "bq_items (sh_router_queue s) = m # ms"
  shows "shard_pump_once parse pool a s =
     shard_dispatch parse pool a m DM_kLIVE (s\<lparr>sh_router_queue := (sh_router_queue s)\<lparr>bq_items := ms\<rparr>\<rparr>)"
  using assms by (auto simp: shard_pump_once_def flush_pending_recovery_status_def takes_messages_def bq_pop_def)

text \<open>What a popped frame looks like, and that its time stamps do not matter to its target.\<close>

abbreviation dequeued :: "frame_handle \<Rightarrow> shard \<Rightarrow> frame_handle" where
  "dequeued h s \<equiv> h\<lparr>fh_shard_dequeue_ts_ns := sh_clock s 0\<rparr>"

lemma validate_dequeued:
  "validate_handle_target (h\<lparr>fh_shard_dequeue_ts_ns := t\<rparr>) s = validate_handle_target h s"
  by (simp add: validate_handle_target_def split: option.split)

lemma validate_same:
  "sh_shard_index s' = sh_shard_index s \<Longrightarrow> sh_installed_universe_version s' = sh_installed_universe_version s
     \<Longrightarrow> sh_event_store s' = sh_event_store s \<Longrightarrow> validate_handle_target h s' = validate_handle_target h s"
  by (simp add: validate_handle_target_def)

text \<open>The state a live frame is handled in.\<close>

definition frame_state :: "market_data_path_message list \<Rightarrow> shard \<Rightarrow> shard" where
  "frame_state ms s = tally_shard (\<lambda>t. t\<lparr>shs_frames_seen := shs_frames_seen t + 1\<rparr>)
     (snd (shard_now_ns (s\<lparr>sh_router_queue := (sh_router_queue s)\<lparr>bq_items := ms\<rparr>\<rparr>)))"

lemma frame_state:
  "sh_event_store (frame_state ms s) = sh_event_store s" "channel (frame_state ms s) = channel s"
  "recovery_reports (frame_state ms s) = recovery_reports s" "sh_run_state (frame_state ms s) = sh_run_state s"
  "sh_shard_index (frame_state ms s) = sh_shard_index s" "shard_incident (frame_state ms s) = shard_incident s"
  "sh_installed_universe_version (frame_state ms s) = sh_installed_universe_version s"
  "sh_pending_recovery_status (frame_state ms s) = sh_pending_recovery_status s"
  by (simp_all add: frame_state_def shard_now_ns_def channel_def recovery_reports_def shard_incident_def)

lemma pump_frame:
  assumes "sh_pending_recovery_status s = None" "takes_messages s" "bq_items (sh_router_queue s) = PathFrame h # ms"
    "validate_handle_target h s = None"
  shows "shard_pump_once parse pool a s = (case frame pool h of
      None \<Rightarrow> handle_missing_frame (dequeued h s) (frame_state ms s)
    | Some f \<Rightarrow> (case parse (dequeued h s) f of
        Inl reason \<Rightarrow> handle_parse_failure (dequeued h s) reason (frame_state ms s)
      | Inr parsed \<Rightarrow> apply_frame a (dequeued h s) parsed (frame_state ms s)))"
proof -
  let ?t = "s\<lparr>sh_router_queue := (sh_router_queue s)\<lparr>bq_items := ms\<rparr>\<rparr>"
  have v: "validate_handle_target (dequeued h s) (frame_state ms s) = None"
    using assms(4) validate_same [OF frame_state(5,7,1)] by (simp add: validate_dequeued)
  have now: "shard_now_ns ?t = (sh_clock s 0, snd (shard_now_ns ?t))" by (simp add: shard_now_ns_def)
  have f: "frame pool (dequeued h s) = frame pool h" by (simp add: frame_def is_live_handle_def)
  have "shard_pump_once parse pool a s = handle_frame_message parse pool a h DM_kLIVE ?t" by (simp add: pump_message [OF assms(1-3)])
  also have "\<dots> = (case frame pool (dequeued h s) of
      None \<Rightarrow> handle_missing_frame (dequeued h s) (frame_state ms s)
    | Some f \<Rightarrow> (case parse (dequeued h s) f of
        Inl reason \<Rightarrow> handle_parse_failure (dequeued h s) reason (frame_state ms s)
      | Inr parsed \<Rightarrow> apply_frame a (dequeued h s) parsed (frame_state ms s)))"
    unfolding handle_frame_message_def by (subst now) (simp only: Let_def prod.case frame_state_def [symmetric] v option.case simp_thms if_False market_data_dispatch_mode.distinct)
  finally show ?thesis unfolding f .
qed


text \<open>Where a frame ends.\<close>

lemma finish_frame_outcome:
  assumes "finish_frame h res u = (s', r)" "shr_code res \<noteq> SPC_kHANDLE_LEAK"
  shows "sh_router_queue s' = sh_router_queue u \<and> (\<exists>t h'. h' = h\<lparr>fh_shard_publish_ts_ns := t\<rparr>
    \<and> (if shr_code r = SPC_kHANDLE_LEAK
       then \<not> snd (bq_push h' (sh_logger_queue u)) \<and> \<not> snd (bq_push h' (sh_recycle_queue u))
         \<and> sh_logger_queue s' = sh_logger_queue u \<and> sh_recycle_queue s' = sh_recycle_queue u
       else if snd (bq_push h' (sh_logger_queue u))
       then sh_logger_queue s' = fst (bq_push h' (sh_logger_queue u)) \<and> sh_recycle_queue s' = sh_recycle_queue u
       else snd (bq_push h' (sh_recycle_queue u)) \<and> sh_logger_queue s' = sh_logger_queue u
         \<and> sh_recycle_queue s' = fst (bq_push h' (sh_recycle_queue u))))"
proof -
  let ?h = "h\<lparr>fh_shard_publish_ts_ns := sh_clock u 0\<rparr>"
  have "sh_router_queue s' = sh_router_queue u" using assms(1) finish_frame_frame(4) [of h res u] by simp
  moreover have "if shr_code r = SPC_kHANDLE_LEAK
       then \<not> snd (bq_push ?h (sh_logger_queue u)) \<and> \<not> snd (bq_push ?h (sh_recycle_queue u))
         \<and> sh_logger_queue s' = sh_logger_queue u \<and> sh_recycle_queue s' = sh_recycle_queue u
       else if snd (bq_push ?h (sh_logger_queue u))
       then sh_logger_queue s' = fst (bq_push ?h (sh_logger_queue u)) \<and> sh_recycle_queue s' = sh_recycle_queue u
       else snd (bq_push ?h (sh_recycle_queue u)) \<and> sh_logger_queue s' = sh_logger_queue u
         \<and> sh_recycle_queue s' = fst (bq_push ?h (sh_recycle_queue u))"
    using assms
    by (auto simp: finish_frame_def shard_terminal_handoff_def shard_now_ns_def Let_def case_prod_beta split: if_splits)
  ultimately show ?thesis by blast
qed



lemma event_apply_rejected_delta:
  assumes "unat i < length (ev_markets e)" "event_apply a e i (PE_Delta d) = (e', r)" "ear_disposition r = AD_kREJECTED"
  shows "kb_sync_state (km_book (ev_markets e ! unat i)) = BSS_kSYNCHRONIZED
    \<and> kb_sync_state (km_book (ev_markets e' ! unat i)) = BSS_kAWAITING_RECOVERY_SNAPSHOT"
proof -
  let ?m = "ev_markets e ! unat i"
  obtain m' q where q: "apply_delta ?m d = (m', q)" by fastforce
  have e': "ev_markets e' = (ev_markets e)[unat i := m']" and rej: "mar_disposition q = AD_kREJECTED"
    using assms q by (auto simp: event_apply_def apply_to_market_def Let_def update_derived_state_after_market_update_def set_market_def
        split: if_splits)
  have "kb_sync_state (km_book ?m) = BSS_kSYNCHRONIZED" using q rej
    by (cases "kb_sync_state (km_book ?m)") (auto simp: apply_delta_def)
  moreover have "m' = set_book ?m (book_invalidate (km_book ?m))" using q rej calculation
    by (auto simp: apply_delta_def reject_delta_def applied_def Let_def split: option.splits side.splits sum.splits)
  ultimately show ?thesis using e' assms(1) by simp
qed

section \<open>Examples\<close>

definition demo_queue :: "'a bqueue" where
  "demo_queue = \<lparr>bq_capacity = 4, bq_items = []\<rparr>"

definition demo_shard_event :: kalshi_event where
  "demo_shard_event = \<lparr>ke_event_id = 3, ke_topology = ET_kMONOTONIC_CHAIN, ke_shard_event_index = 0,
     ke_markets = [demo_market, demo_market\<lparr>km_market_id := 8, km_event_market_index := 1, km_strike_key := Some 20\<rparr>],
     ke_derived_state = EDS_monostate\<rparr>"

definition demo_world :: shard_world where
  "demo_world = \<lparr>sw_shard = shard_make 0 demo_queue demo_queue demo_queue demo_queue demo_queue demo_queue (\<lambda>_. 5) (\<lambda>_. 0),
     sw_strategy = [], sw_control = []\<rparr>"

definition demo_frame :: frame_handle where
  "demo_frame = empty_handle\<lparr>fh_universe_version := 1, fh_market_id := 8, fh_event_id := 3, fh_topology := ET_kMONOTONIC_CHAIN,
     fh_event_market_index := 1, fh_kind := FK_kORDERBOOK_SNAPSHOT, fh_pool_generation := 1\<rparr>"

definition demo_barrier :: market_invalidation_barrier where
  "demo_barrier = \<lparr>mib_universe_version = 1, mib_incident = \<lparr>iik_origin = IIO_kROUTER, iik_producer_index = 0, iik_incident_id = 4\<rparr>,
     mib_sid = 2, mib_sequence = 9, mib_market_id = 7, mib_event_id = 3, mib_shard_index = 0, mib_shard_event_index = 0,
     mib_event_market_index = 0, mib_reason = BIR_kROUTER_TO_SHARD_DELIVERY_LOSS\<rparr>"

definition demo_parse :: market_parser where
  "demo_parse h f = Inl PFR_kINVALID_JSON"

text \<open>A universe is installed, a barrier makes the first market lose its book, and a frame of the second has no buffer.\<close>

definition demo_shard_start :: "shard_op list" where
  "demo_shard_start = [ShCommand (InstallShardUniverse 1 0 [demo_shard_event]), ShCommands 1,
     ShRoute (PathMarketBarrier demo_barrier), ShRoute (PathFrame demo_frame)]"

definition demo_before :: shard_world where
  "demo_before = fold shard_world_step (demo_shard_start @ [ShPump demo_parse example_pool True]) demo_world"

definition demo_rest :: "shard_op list" where
  "demo_rest = [ShPump demo_parse example_pool True, ShTakeControl]"

lemma demo_shard_run:
  "(let w0 = demo_before; s0 = sw_shard w0; w = fold shard_world_step demo_rest w0; s = sw_shard w in
     (sh_pending_recovery_status s0, sh_run_state s0, bq_items (sh_router_queue s0), validate_handle_target demo_frame s0,
      sh_run_state s, sh_strategy_publication_faulted s, length (sh_event_store s), length (all_reports w),
      length (bq_items (sh_logger_queue s)), sh_installed_universe_version s))
   = (None, SRS_kLIVE, [PathFrame demo_frame], None, SRS_kLIVE, False, 1, 2, 1, 1)"
  by code_simp

lemmas demo_shard_facts = demo_shard_run [unfolded Let_def prod.inject]

lemma demo_before_state:
  "sh_pending_recovery_status (sw_shard demo_before) = None" "sh_run_state (sw_shard demo_before) = SRS_kLIVE"
  "bq_items (sh_router_queue (sw_shard demo_before)) = [PathFrame demo_frame]"
  "validate_handle_target demo_frame (sw_shard demo_before) = None"
  using demo_shard_facts by simp_all

lemma demo_world_new: "new_world demo_world"
  unfolding new_world_def demo_world_def by (intro conjI exI) (rule refl | simp add: demo_queue_def)+

lemma demo_shard_ops_ok:
  "list_all shard_op_ok (demo_shard_start @ [ShPump demo_parse example_pool True])" "list_all shard_op_ok demo_rest"
  by (simp_all add: demo_shard_start_def demo_rest_def store_ok_def event_id_of_def make_event_def demo_shard_event_def demo_market_def
      empty_book_def book_usable_def)

text \<open>A live shard with the two live books and a delta without a side.\<close>

definition demo_delta :: market_parser where
  "demo_delta h f = Inr (PE_Delta \<lparr>dd_side = S_kUNKNOWN, dd_price_ticks = 4200, dd_delta_qty_lots = 1\<rparr>)"

definition demo_live_shard :: shard where
  "demo_live_shard = (sw_shard demo_world)\<lparr>sh_run_state := SRS_kLIVE, sh_installed_universe_version := 1, sh_event_store := [demo_chain],
     sh_router_queue := \<lparr>bq_capacity = 4, bq_items = [PathFrame demo_frame]\<rparr>\<rparr>"

definition demo_full_pool :: frame_pool where
  "demo_full_pool = example_pool\<lparr>fp_free_slots := [1], fp_in_use := [1, 0]\<rparr>"

section \<open>Properties\<close>

text \<open>C26. What the strategy can know of the books is what the books are. Over any run of a new shard among its neighbours,
  as long as no publication has failed, the pairs a reader of the message stream holds for the installed universe
  (the messages taken and those still queued, an observation setting a pair and an unavailability clearing an
  event or the shard) are exactly the observations of the current books: none for an event that is not usable,
  and for a usable one the levels as they are now, not older ones.\<close>

theorem strategy_knows_books:
  assumes "new_world w0" "list_all shard_op_ok ops" "w = fold shard_world_step ops w0"
    "\<not> sh_strategy_publication_faulted (sw_shard w)" "e \<in> set (sh_event_store (sw_shard w))"
  shows "knowledge (sh_installed_universe_version (sw_shard w)) (sw_strategy w @ bq_items (sh_strategy_queue (sw_shard w)))
      (event_id_of e, i) = current_pair e i"
proof -
  have "world_ok w" using shard_machine.run_invar [OF new_world_ok [OF assms(1)] assms(2)] assms(3) by simp
  then show ?thesis using assms(4,5) by (auto simp: world_ok_def shard_ok_def informed_def knows_books_def)
qed

theorem strategy_knows_books_witness:
  "(let w = fold shard_world_step demo_rest demo_before in
     knowledge (sh_installed_universe_version (sw_shard w)) (sw_strategy w @ bq_items (sh_strategy_queue (sw_shard w)))
       (event_id_of (sh_event_store (sw_shard w) ! 0), 0) = current_pair (sh_event_store (sw_shard w) ! 0) 0
     \<and> length (sh_event_store (sw_shard w)) = 1)"
proof -
  let ?ops = "(demo_shard_start @ [ShPump demo_parse example_pool True]) @ demo_rest"
  let ?w = "fold shard_world_step demo_rest demo_before"
  have w: "?w = fold shard_world_step ?ops demo_world" by (simp add: demo_before_def)
  have "list_all shard_op_ok ?ops" using demo_shard_ops_ok by simp
  moreover have "\<not> sh_strategy_publication_faulted (sw_shard ?w)" "length (sh_event_store (sw_shard ?w)) = 1"
    using demo_shard_facts by simp_all
  ultimately show ?thesis using strategy_knows_books [OF demo_world_new _ w, of "sh_event_store (sw_shard ?w) ! 0" 0] by (simp add: Let_def)
qed

text \<open>C27. A recovery report is never lost, duplicated or reordered: between any two moments of a run the sequence of
  reports (those the control plane took, those in its queue, the one the shard retains while the queue is full) only
  grows at its end.\<close>

theorem recovery_reports_never_lost:
  assumes "new_world w0" "list_all shard_op_ok ops" "list_all shard_op_ok later" "w = fold shard_world_step ops w0"
  shows "prefix (filter is_recovery_status (sw_control w) @ recovery_reports (sw_shard w))
    (filter is_recovery_status (sw_control (fold shard_world_step later w)) @ recovery_reports (sw_shard (fold shard_world_step later w)))"
proof -
  have "world_ok w" using shard_machine.run_invar [OF new_world_ok [OF assms(1)] assms(2)] assms(4) by simp
  from world_moves_run [OF this assms(3)] show ?thesis by (simp add: world_moves_def all_reports_def)
qed

theorem recovery_reports_never_lost_witness:
  "prefix (all_reports demo_before) (all_reports (fold shard_world_step demo_rest demo_before))
   \<and> length (all_reports (fold shard_world_step demo_rest demo_before)) = 2"
  using recovery_reports_never_lost [OF demo_world_new demo_shard_ops_ok demo_before_def] demo_shard_facts by (simp add: all_reports_def)













text \<open>C29. A frame is never dropped or duplicated. Whatever the shard makes of a frame it takes from the router (drained,
  refused, missing, not parsable, applied or not), the handle, with its two time stamps, goes to exactly one place:
  the logger, or the recycler when the logger queue is full, or nowhere, and then both queues are full and the
  result says that a handle leaked.\<close>

theorem shard_frame_handed_on:
  assumes "shard_pump_once parse pool a s = (s', r)" "bq_items (sh_router_queue s) = PathFrame h # ms"
    "snd (flush_pending_recovery_status s)" "takes_messages s \<or> sh_run_state s = SRS_kDRAINING"
  shows "bq_items (sh_router_queue s') = ms \<and> (\<exists>t h'. h' = h\<lparr>fh_shard_dequeue_ts_ns := sh_clock s 0, fh_shard_publish_ts_ns := t\<rparr>
    \<and> (if shr_code r = SPC_kHANDLE_LEAK
       then \<not> snd (bq_push h' (sh_logger_queue s)) \<and> \<not> snd (bq_push h' (sh_recycle_queue s))
         \<and> sh_logger_queue s' = sh_logger_queue s \<and> sh_recycle_queue s' = sh_recycle_queue s
       else if snd (bq_push h' (sh_logger_queue s))
       then sh_logger_queue s' = fst (bq_push h' (sh_logger_queue s)) \<and> sh_recycle_queue s' = sh_recycle_queue s
       else snd (bq_push h' (sh_recycle_queue s)) \<and> sh_logger_queue s' = sh_logger_queue s
         \<and> sh_recycle_queue s' = fst (bq_push h' (sh_recycle_queue s))))"
proof -
  define s1 where "s1 = fst (flush_pending_recovery_status s)"
  have fl: "flush_pending_recovery_status s = (s1, True)" using assms(3) by (simp add: s1_def prod_eq_iff)
  have fr: "sh_run_state s1 = sh_run_state s" "sh_router_queue s1 = sh_router_queue s" using flush_frame [of s] by (simp_all add: s1_def)
  obtain mode where d: "handle_frame_message parse pool a h mode (s1\<lparr>sh_router_queue := (sh_router_queue s)\<lparr>bq_items := ms\<rparr>\<rparr>) = (s', r)"
    using fl fr assms(1,2,4)
    by (cases "sh_run_state s") (auto simp: shard_pump_once_def takes_messages_def drain_one_message_def bq_pop_def)
  let ?t = "s1\<lparr>sh_router_queue := (sh_router_queue s)\<lparr>bq_items := ms\<rparr>\<rparr>"
  have s1: "sh_clock ?t = sh_clock s" "sh_logger_queue ?t = sh_logger_queue s" "sh_recycle_queue ?t = sh_recycle_queue s"
    unfolding s1_def by (cases rule: flush_cases [of s]; simp)+
  obtain res u where f: "(s', r) = finish_frame (h\<lparr>fh_shard_dequeue_ts_ns := sh_clock s 0\<rparr>) res u" "shr_code res \<noteq> SPC_kHANDLE_LEAK" "kept ?t u"
    using frame_finishes [where h = h and s = ?t and parse = parse and pool = pool and a = a and mode = mode] d s1(1)
    by (auto simp: finishes_def)
  from finish_frame_outcome [OF f(1) [symmetric] f(2)] f(3) s1 show ?thesis by (auto simp: kept_def)
qed

theorem shard_frame_handed_on_witness:
  "bq_items (sh_router_queue (fst (shard_pump_once demo_parse example_pool True (sw_shard demo_before)))) = []"
proof -
  let ?s = "sw_shard demo_before"
  obtain s' r where run: "shard_pump_once demo_parse example_pool True ?s = (s', r)" by fastforce
  have "snd (flush_pending_recovery_status ?s)" "takes_messages ?s"
    using demo_before_state by (simp_all add: flush_pending_recovery_status_def takes_messages_def)
  then show ?thesis using shard_frame_handed_on [OF run demo_before_state(3)] run by simp
qed



text \<open>A refused message loses the book without a report: when a delta is refused on a usable book, the book is
  discarded until a recovery snapshot and the strategy is told, but nothing is reported to the control plane, so
  nothing asks the venue for that snapshot.\<close>

theorem refused_delta_unreported:
  assumes "shard_pump_once parse pool a s = (s', r)" "sh_pending_recovery_status s = None" "takes_messages s"
    "bq_items (sh_router_queue s) = PathFrame h # ms" "validate_handle_target h s = None"
    "frame pool h = Some f" "parse (dequeued h s) f = Inr (PE_Delta d)" "shr_code r = SPC_kEVENT_REJECTED"
    "e = sh_event_store s ! unat (fh_shard_event_index h)" "e' = sh_event_store s' ! unat (fh_shard_event_index h)"
  shows "kb_sync_state (km_book (ev_markets e ! unat (fh_event_market_index h))) = BSS_kSYNCHRONIZED
    \<and> kb_sync_state (km_book (ev_markets e' ! unat (fh_event_market_index h))) = BSS_kAWAITING_RECOVERY_SNAPSHOT
    \<and> recovery_reports s' = recovery_reports s"
proof -
  let ?t = "frame_state ms s" and ?h = "dequeued h s" and ?k = "unat (fh_shard_event_index h)" and ?i = "fh_event_market_index h"
  note v = validate_handle_targetD [OF assms(5)]
  have run: "apply_frame a ?h (PE_Delta d) ?t = (s', r)"
    using pump_frame [OF assms(2-5), of parse pool a] assms(1,6,7) by simp
  obtain e1 q where e1: "event_apply a e ?i (PE_Delta d) = (e1, q)" by fastforce
  have sa: "store_apply a (sh_event_store ?t) ?h (PE_Delta d) = ((sh_event_store s)[?k := e1], q)"
    using v(2) e1 assms(9) by (simp add: store_apply_def frame_state)
  obtain s4 ts where s4: "apply_to_store a ?h (PE_Delta d) ?t = (s4, q, ts)" "sh_event_store s4 = (sh_event_store s)[?k := e1]"
      "sh_to_control_queue s4 = sh_to_control_queue ?t" "sh_pending_recovery_status s4 = sh_pending_recovery_status ?t"
    using sa by (rule apply_to_store_effect)
  have rej: "ear_disposition q = AD_kREJECTED" using run assms(8) s4(1)
    by (cases "ear_disposition q") (auto simp: apply_frame_def shard_result_def finish_frame_def case_prod_beta Let_def split: if_splits)
  have s': "sh_event_store s' = (sh_event_store s)[?k := e1]" "recovery_reports s' = recovery_reports ?t"
    using run s4 rej by (auto simp: apply_frame_def recovery_reports_def shard_frame dest!: arg_cong [of _ _ fst])
  have m: "unat ?i < length (ev_markets e)" using v(5) assms(9) by simp
  from event_apply_rejected_delta [OF m e1 rej] show ?thesis using s' v(2) assms(9,10) by (simp add: frame_state)
qed

theorem refused_delta_unreported_witness:
  "recovery_reports (fst (shard_pump_once demo_delta demo_full_pool True demo_live_shard)) = []
   \<and> kb_sync_state (km_book (ev_markets (sh_event_store (fst (shard_pump_once demo_delta demo_full_pool True demo_live_shard)) ! 0) ! 1))
       = BSS_kAWAITING_RECOVERY_SNAPSHOT"
proof -
  let ?s = demo_live_shard
  obtain s' r where run: "shard_pump_once demo_delta demo_full_pool True ?s = (s', r)" by fastforce
  have s: "sh_pending_recovery_status ?s = None" "takes_messages ?s" "bq_items (sh_router_queue ?s) = PathFrame demo_frame # []"
    "validate_handle_target demo_frame ?s = None"
    by (simp_all add: demo_live_shard_def demo_world_def shard_make_def takes_messages_def validate_handle_target_def demo_frame_def
        empty_handle_def get_event_def get_market_def demo_chain_def make_event_def demo_market_def nth_opt_def)
  obtain f where f: "frame demo_full_pool demo_frame = Some f"
    by (simp add: frame_def is_live_handle_def demo_full_pool_def example_pool_def demo_frame_def empty_handle_def)
  have "shr_code r = SPC_kEVENT_REJECTED"
  proof -
    let ?d = "PE_Delta \<lparr>dd_side = S_kUNKNOWN, dd_price_ticks = 4200, dd_delta_qty_lots = 1\<rparr>" and ?h = "dequeued demo_frame ?s"
    have run': "apply_frame True ?h ?d (frame_state [] ?s) = (s', r)"
      using pump_frame [OF s, of demo_delta demo_full_pool True] run f by (simp add: demo_delta_def)
    have "kb_sync_state (km_book (ev_markets demo_chain ! 1)) = BSS_kSYNCHRONIZED"
      by (simp add: demo_chain_def make_event_def demo_live_book_def)
    then have "ear_disposition (snd (event_apply True demo_chain 1 ?d)) = AD_kREJECTED"
      by (simp add: event_apply_def apply_to_market_def apply_delta_def reject_delta_def Let_def case_prod_beta
          demo_chain_def make_event_def split: option.split)
    then obtain store q where q: "store_apply True (sh_event_store (frame_state [] ?s)) ?h ?d = (store, q)" "ear_disposition q = AD_kREJECTED"
      by (auto simp: frame_state store_apply_def demo_live_shard_def demo_frame_def empty_handle_def case_prod_beta)
    from q(1) obtain s4 ts where s4: "apply_to_store True ?h ?d (frame_state [] ?s) = (s4, q, ts)"
        "sh_logger_queue s4 = sh_logger_queue (frame_state [] ?s)" by (rule apply_to_store_effect)
    have "sh_logger_queue s4 = demo_queue"
      using s4(2) by (simp add: frame_state_def shard_now_ns_def demo_live_shard_def demo_world_def shard_make_def)
    then have "snd (shard_terminal_handoff ?h (tally_shard g s4))" for g
      by (simp add: shard_terminal_handoff_def shard_now_ns_def Let_def demo_queue_def bq_push_def)
    then show ?thesis using run' s4(1) q(2) by (auto simp: apply_frame_def finish_frame_def shard_result_def case_prod_beta)
  qed
  note rej = refused_delta_unreported [OF run s f demo_delta_def [of "dequeued demo_frame ?s" f] this refl refl]
  have "recovery_reports ?s = []" by (simp add: recovery_reports_def demo_live_shard_def demo_world_def shard_make_def demo_queue_def)
  moreover have "unat (fh_shard_event_index demo_frame) = 0" "unat (fh_event_market_index demo_frame) = 1"
    by (simp_all add: demo_frame_def empty_handle_def)
  ultimately show ?thesis using rej unfolding run by simp
qed

end
