(* ===== verification/Wire_Sequence.thy ===== *)
theory Wire_Sequence
  imports Market_Types
begin

text \<open>
  The sequence numbers of the subscriptions (\<open>SidSequenceObserver\<close> of
  \<open>cpp/include/predex/ingest/kalshi/market_data/wire_session.hpp\<close>): how the wire session notices that the exchange
  has sent something it did not receive.
\<close>

section \<open>The observer\<close>

datatype market_data_channel = MC_kORDERBOOK_DELTA | MC_kTRADE | MC_kMARKET_LIFECYCLE

fun channel_value :: "market_data_channel \<Rightarrow> u8" where
  "channel_value MC_kORDERBOOK_DELTA = 1"
| "channel_value MC_kTRADE = 2"
| "channel_value MC_kMARKET_LIFECYCLE = 3"

record active_sid_state =
  as_channel :: market_data_channel
  as_last_sequence :: "u64 option"

datatype sequence_observation_code =
    SOC_kFIRST | SOC_kCONTIGUOUS | SOC_kGAP | SOC_kDUPLICATE | SOC_kSTALE | SOC_kINACTIVE_SID

text \<open>The channel of an inactive sid is the value 0, which is no enumerator: \<open>None\<close>.\<close>

record sequence_observation =
  so_code :: sequence_observation_code
  so_channel :: "market_data_channel option"
  so_expected_sequence :: u64
  so_observed_sequence :: u64

type_synonym sid_observer = "(u32, active_sid_state) umap"

definition sid_activate :: "u32 \<Rightarrow> market_data_channel \<Rightarrow> sid_observer \<Rightarrow> sid_observer" where
  "sid_activate sid channel states = um_assign sid \<lparr>as_channel = channel, as_last_sequence = None\<rparr> states"

definition sid_deactivate :: "u32 \<Rightarrow> sid_observer \<Rightarrow> sid_observer" where
  "sid_deactivate sid states = um_erase sid states"

definition sid_active :: "sid_observer \<Rightarrow> u32 \<Rightarrow> bool" where
  "sid_active states sid \<longleftrightarrow> um_find states sid \<noteq> None"

definition sid_channel :: "sid_observer \<Rightarrow> u32 \<Rightarrow> u8" where
  "sid_channel states sid = (case um_find states sid of None \<Rightarrow> 0 | Some state \<Rightarrow> channel_value (as_channel state))"

definition sid_observe :: "u32 \<Rightarrow> u64 \<Rightarrow> sid_observer \<Rightarrow> sid_observer \<times> sequence_observation" where
  "sid_observe sid sequence states =
     (case um_find states sid of
        None \<Rightarrow> (states, \<lparr>so_code = SOC_kINACTIVE_SID, so_channel = None, so_expected_sequence = 0, so_observed_sequence = sequence\<rparr>)
      | Some state \<Rightarrow>
          let observation = (\<lambda>code expected. \<lparr>so_code = code, so_channel = Some (as_channel state), so_expected_sequence = expected,
                so_observed_sequence = sequence\<rparr>);
              advanced = um_assign sid (state\<lparr>as_last_sequence := Some sequence\<rparr>) states
          in (case as_last_sequence state of
                None \<Rightarrow> (advanced, observation SOC_kFIRST sequence)
              | Some previous \<Rightarrow>
                  let next_expected = (if previous = u64_max then previous else previous + 1)
                  in if sequence = previous then (states, observation SOC_kDUPLICATE next_expected)
                     else if previous \<noteq> u64_max \<and> sequence = next_expected then (advanced, observation SOC_kCONTIGUOUS next_expected)
                     else if sequence > previous then (advanced, observation SOC_kGAP next_expected)
                     else (states, observation SOC_kSTALE next_expected)))"

section \<open>The history of a subscription\<close>

text \<open>Operations on the observer while one subscription stays active: the others come and go.\<close>

datatype sid_op = SidActivate u32 market_data_channel | SidDeactivate u32 | SidObserve u32 u64

fun sid_step :: "sid_op \<Rightarrow> sid_observer \<Rightarrow> sid_observer" where
  "sid_step (SidActivate sid channel) states = sid_activate sid channel states"
| "sid_step (SidDeactivate sid) states = sid_deactivate sid states"
| "sid_step (SidObserve sid sequence) states = fst (sid_observe sid sequence states)"

fun keeps_sid :: "u32 \<Rightarrow> sid_op \<Rightarrow> bool" where
  "keeps_sid sid (SidActivate sid' channel) \<longleftrightarrow> sid' \<noteq> sid"
| "keeps_sid sid (SidDeactivate sid') \<longleftrightarrow> sid' \<noteq> sid"
| "keeps_sid sid (SidObserve sid' sequence) \<longleftrightarrow> True"

text \<open>The sequence numbers observed on a subscription, and what the observer said of each.\<close>

fun observed :: "u32 \<Rightarrow> sid_op list \<Rightarrow> u64 list" where
  "observed sid [] = []"
| "observed sid (SidObserve sid' q # ops) = (if sid' = sid then q # observed sid ops else observed sid ops)"
| "observed sid (_ # ops) = observed sid ops"

fun sid_codes :: "u32 \<Rightarrow> sid_op list \<Rightarrow> sid_observer \<Rightarrow> sequence_observation_code list" where
  "sid_codes sid [] states = []"
| "sid_codes sid (SidObserve sid' q # ops) states =
     (if sid' = sid then [so_code (snd (sid_observe sid' q states))] else []) @ sid_codes sid ops (sid_step (SidObserve sid' q) states)"
| "sid_codes sid (op # ops) states = sid_codes sid ops (sid_step op states)"

text \<open>What the code has to be, given the greatest number observed before.\<close>

definition code_of :: "u64 option \<Rightarrow> u64 \<Rightarrow> sequence_observation_code" where
  "code_of seen q = (case seen of None \<Rightarrow> SOC_kFIRST | Some p \<Rightarrow>
     if q = p then SOC_kDUPLICATE else if q < p then SOC_kSTALE else if unat q = unat p + 1 then SOC_kCONTIGUOUS else SOC_kGAP)"

definition latest :: "u64 option \<Rightarrow> u64 \<Rightarrow> u64 option" where
  "latest seen q = (case seen of None \<Rightarrow> Some q | Some p \<Rightarrow> Some (max p q))"

lemma succ_word: "p \<noteq> u64_max \<Longrightarrow> q = p + 1 \<longleftrightarrow> unat q = unat p + 1" for p q :: u64
proof -
  assume "p \<noteq> u64_max"
  then have "1 + p \<noteq> 0" by (metis add.commute add_eq_0_iff)
  then have "unat (p + 1) = Suc (unat p)" using unatSuc [of p] by (simp add: add.commute)
  then show ?thesis by (metis Suc_eq_plus1 word_unat_eq_iff)
qed

lemma sid_observe_found:
  assumes "um_find states sid = Some st"
  shows "so_code (snd (sid_observe sid q states)) = code_of (as_last_sequence st) q"
    and "um_find (fst (sid_observe sid q states)) sid = Some (st\<lparr>as_last_sequence := latest (as_last_sequence st) q\<rparr>)"
proof -
  have "so_code (snd (sid_observe sid q states)) = code_of (as_last_sequence st) q
    \<and> um_find (fst (sid_observe sid q states)) sid = Some (st\<lparr>as_last_sequence := latest (as_last_sequence st) q\<rparr>)"
  proof (cases "as_last_sequence st")
    case None
    then show ?thesis using assms by (simp add: sid_observe_def code_of_def latest_def um.find_assign)
  next
    case (Some p)
    have top: "q = p \<or> q < p" if "p = u64_max" using that word_order.extremum_unique [of q] by (auto simp: word_order.not_eq_extremum)
    have next_q: "q > p" if "unat q = unat p + 1" using that by (simp add: word_less_nat_alt)
    have st: "st\<lparr>as_last_sequence := Some p\<rparr> = st" using Some by (cases st) simp
    show ?thesis using assms Some top next_q st succ_word [of p q]
      by (auto simp: sid_observe_def code_of_def latest_def um.find_assign Let_def max_def not_le)
  qed
  then show "so_code (snd (sid_observe sid q states)) = code_of (as_last_sequence st) q"
    "um_find (fst (sid_observe sid q states)) sid = Some (st\<lparr>as_last_sequence := latest (as_last_sequence st) q\<rparr>)" by simp_all
qed

lemma sid_observe_other: "sid' \<noteq> sid \<Longrightarrow> um_find (fst (sid_observe sid' q states)) sid = um_find states sid"
  by (auto simp: sid_observe_def um.find_assign Let_def split: option.split)

text \<open>The codes of a run are those of its history.\<close>

fun history_codes :: "u64 option \<Rightarrow> u64 list \<Rightarrow> sequence_observation_code list" where
  "history_codes seen [] = []"
| "history_codes seen (q # qs) = code_of seen q # history_codes (latest seen q) qs"

lemma sid_run:
  assumes "um_find states sid = Some st" "list_all (keeps_sid sid) ops"
  shows "sid_codes sid ops states = history_codes (as_last_sequence st) (observed sid ops)
    \<and> um_find (fold sid_step ops states) sid = Some (st\<lparr>as_last_sequence := fold (\<lambda>q seen. latest seen q) (observed sid ops) (as_last_sequence st)\<rparr>)"
  using assms
proof (induction ops arbitrary: states st)
  case (Cons op ops)
  show ?case
  proof (cases op)
    case (SidObserve sid' q)
    show ?thesis
    proof (cases "sid' = sid")
      case True
      then show ?thesis using Cons.IH [OF sid_observe_found(2) [OF Cons.prems(1)]] Cons.prems SidObserve
        by (simp add: sid_observe_found(1))
    next
      case False
      then show ?thesis using Cons.IH [of "fst (sid_observe sid' q states)" st] Cons.prems SidObserve by (simp add: sid_observe_other)
    qed
  next
    case (SidActivate sid' c)
    then have "um_find (sid_activate sid' c states) sid = Some st" using Cons.prems by (auto simp: sid_activate_def um.find_assign)
    from Cons.IH [OF this] show ?thesis using Cons.prems SidActivate by simp
  next
    case (SidDeactivate sid')
    then have "um_find (sid_deactivate sid' states) sid = Some st" using Cons.prems by (auto simp: sid_deactivate_def um.find_erase)
    from Cons.IH [OF this] show ?thesis using Cons.prems SidDeactivate by simp
  qed
qed simp

text \<open>Without a gap, the numbers observed have no hole.\<close>

definition no_hole :: "u64 \<Rightarrow> u64 \<Rightarrow> u64 set \<Rightarrow> bool" where
  "no_hole a b A \<longleftrightarrow> (\<forall>n. a \<le> n \<and> n \<le> b \<longrightarrow> n \<in> A)"

lemma history_no_hole:
  assumes "SOC_kGAP \<notin> set (history_codes (Some p) qs)" "no_hole a p A" "qs' = map_option id (fold (\<lambda>q seen. latest seen q) qs (Some p))"
  shows "\<exists>b. qs' = Some b \<and> no_hole a b (A \<union> set qs) \<and> p \<le> b"
  using assms
proof (induction qs arbitrary: p A)
  case (Cons q qs)
  have hole: "no_hole a (max p q) (A \<union> {q})"
  proof -
    consider "q \<le> p" | "unat q = unat p + 1" using Cons.prems(1) by (auto simp: code_of_def split: if_splits)
    then show ?thesis
    proof cases
      case 1
      then show ?thesis using Cons.prems(2) by (auto simp: no_hole_def max_def)
    next
      case 2
      then have "max p q = q" "\<And>n. n \<le> q \<Longrightarrow> n \<le> p \<or> n = q"
        by (auto simp: max_def word_le_nat_alt word_unat_eq_iff)
      then show ?thesis using Cons.prems(2) by (auto simp: no_hole_def)
    qed
  qed
  have "\<exists>b. qs' = Some b \<and> no_hole a b ((A \<union> {q}) \<union> set qs) \<and> max p q \<le> b"
    using Cons.prems(1,3) by (intro Cons.IH [OF _ hole]) (simp_all add: latest_def)
  moreover have "(A \<union> {q}) \<union> set qs = A \<union> set (q # qs)" by auto
  ultimately show ?case by (metis max.cobounded1 order.trans)
qed (simp add: no_hole_def)

section \<open>Property\<close>

text \<open>C9. A lost message of the exchange is noticed. Whatever happens to the other subscriptions, what the observer says of the
  numbers of an active subscription is determined by the greatest one so far, without wrap-around: first,
  contiguous, gap, duplicate or stale. When it reports no gap, every number between the first and the
  greatest has been observed.\<close>

theorem sequence_loss_detected:
  assumes "um_find states sid = Some \<lparr>as_channel = c, as_last_sequence = None\<rparr>" "list_all (keeps_sid sid) ops"
    "observed sid ops = q # qs"
  shows "sid_codes sid ops states = history_codes None (q # qs)
    \<and> (SOC_kGAP \<notin> set (sid_codes sid ops states) \<longrightarrow>
       (\<exists>greatest. um_find (fold sid_step ops states) sid = Some \<lparr>as_channel = c, as_last_sequence = Some greatest\<rparr>
          \<and> (\<forall>n. q \<le> n \<and> n \<le> greatest \<longrightarrow> n \<in> set (q # qs))))"
proof -
  note run = sid_run [OF assms(1,2), unfolded assms(3) active_sid_state.simps]
  have "no_hole q q {q}" by (auto simp: no_hole_def)
  note hole = history_no_hole [OF _ this, of qs]
  show ?thesis
  proof (cases "SOC_kGAP \<in> set (sid_codes sid ops states)")
    case False
    then have "SOC_kGAP \<notin> set (history_codes (Some q) qs)" using run by (simp add: latest_def)
    from hole [OF this refl] show ?thesis using run by (auto simp: latest_def no_hole_def option.map_id)
  qed (use run in simp)
qed

definition demo_sid_ops :: "sid_op list" where
  "demo_sid_ops = [SidObserve 4 10, SidActivate 5 MC_kTRADE, SidObserve 4 11, SidObserve 5 90, SidObserve 4 11, SidObserve 4 12]"

definition demo_observer :: sid_observer where
  "demo_observer = sid_activate 4 MC_kORDERBOOK_DELTA []"

theorem sequence_loss_detected_witness:
  "sid_codes 4 demo_sid_ops demo_observer = [SOC_kFIRST, SOC_kCONTIGUOUS, SOC_kDUPLICATE, SOC_kCONTIGUOUS]"
proof -
  have a: "um_find demo_observer 4 = Some \<lparr>as_channel = MC_kORDERBOOK_DELTA, as_last_sequence = None\<rparr>"
    by (simp add: demo_observer_def sid_activate_def um.find_assign)
  have "list_all (keeps_sid 4) demo_sid_ops" "observed 4 demo_sid_ops = 10 # [11, 11, 12]" by (simp_all add: demo_sid_ops_def)
  from sequence_loss_detected [OF a this]
  have "sid_codes 4 demo_sid_ops demo_observer = history_codes None [10, 11, 11, 12]" by simp
  then show ?thesis by (simp add: code_of_def latest_def max_def)
qed

end
