(* ===== verification/Wire_Session.thy ===== *)
theory Wire_Session
  imports Wire_Sequence Router Frame_Pool
begin

text \<open>
  The wire session (\<open>cpp/include/predex/ingest/kalshi/market_data/wire_session.hpp\<close> and
  \<open>cpp/src/ingest/kalshi/market_data/wire_session.cpp\<close>): it subscribes to the channels of the exchange, checks the sequence
  numbers of what arrives, stores each frame in the pool and passes its handle to the router; what is lost becomes
  an invalidation barrier. It also asks the exchange for the snapshots of a recovery.

  The JSON library is the argument \<open>js\<close>, and the padding of a frame is \<open>padding\<close>. The websocket answers through streams: the results of \<open>connect\<close> and
  \<open>send_text\<close>, the texts of \<open>last_error\<close>; \<open>ws_calls\<close> logs the calls that the session makes. A JSON text that is sent is
  its JSON value.
\<close>

section \<open>JSON\<close>

text \<open>What the code uses of \<open>simdjson::ondemand\<close>: \<open>iterate\<close>, \<open>get_object\<close>, \<open>find_field_unordered\<close> and the typed readers.\<close>

record ('o, 'v) json_api =
  ja_document :: "u8 list \<Rightarrow> bool"
  ja_root :: "u8 list \<Rightarrow> 'o option"
  ja_find :: "'o \<Rightarrow> string \<Rightarrow> 'v option"
  ja_uint64 :: "'v \<Rightarrow> u64 option"
  ja_int64 :: "'v \<Rightarrow> int option"
  ja_string :: "'v \<Rightarrow> string option"
  ja_object :: "'v \<Rightarrow> 'o option"

definition read_uint64 :: "('o, 'v) json_api \<Rightarrow> 'o \<Rightarrow> string \<Rightarrow> u64 option" where
  "read_uint64 js obj key = Option.bind (ja_find js obj key) (ja_uint64 js)"

definition read_int64 :: "('o, 'v) json_api \<Rightarrow> 'o \<Rightarrow> string \<Rightarrow> int option" where
  "read_int64 js obj key = Option.bind (ja_find js obj key) (ja_int64 js)"

definition read_string :: "('o, 'v) json_api \<Rightarrow> 'o \<Rightarrow> string \<Rightarrow> string option" where
  "read_string js obj key = Option.bind (ja_find js obj key) (ja_string js)"

definition read_object :: "('o, 'v) json_api \<Rightarrow> 'o \<Rightarrow> string \<Rightarrow> 'o option" where
  "read_object js obj key = Option.bind (ja_find js obj key) (ja_object js)"

definition frame_kind_from_type :: "string \<Rightarrow> frame_kind" where
  "frame_kind_from_type t =
     (if t = ''orderbook_delta'' then FK_kORDERBOOK_DELTA
      else if t = ''orderbook_snapshot'' then FK_kORDERBOOK_SNAPSHOT
      else if t = ''trade'' then FK_kTRADE
      else if t = ''market_lifecycle'' \<or> t = ''market_lifecycle_v2'' \<or> t = ''event_fee_update'' then FK_kLIFECYCLE
      else FK_kUNKNOWN)"

text \<open>The value behind a text that is sent (\<open>nlohmann::json\<close>, \<open>exchange/kalshi/adapters/market_data_handler.cpp\<close>).\<close>

datatype json = JNum int | JStr string | JArr "json list" | JObj "(string \<times> json) list"

fun channel_to_string :: "market_data_channel \<Rightarrow> string" where
  "channel_to_string MC_kORDERBOOK_DELTA = ''orderbook_delta''"
| "channel_to_string MC_kTRADE = ''trade''"
| "channel_to_string MC_kMARKET_LIFECYCLE = ''market_lifecycle_v2''"

definition tickers_field :: "string list \<Rightarrow> (string \<times> json) list" where
  "tickers_field tickers = (if tickers = [] then [] else [(''market_tickers'', JArr (map JStr tickers))])"

definition build_subscribe_message :: "u64 \<Rightarrow> market_data_channel \<Rightarrow> string list \<Rightarrow> json" where
  "build_subscribe_message req_id channel tickers =
     JObj [(''id'', JNum (uint req_id)), (''cmd'', JStr ''subscribe''),
           (''params'', JObj ((''channels'', JArr [JStr (channel_to_string channel)]) # tickers_field tickers))]"

definition build_update_message :: "u64 \<Rightarrow> int \<Rightarrow> string list \<Rightarrow> string \<Rightarrow> json" where
  "build_update_message req_id session_id tickers action =
     JObj [(''id'', JNum (uint req_id)), (''cmd'', JStr ''update_subscription''),
           (''params'', JObj ([(''sid'', JNum session_id), (''action'', JStr action)] @ tickers_field tickers))]"

definition build_unsubscribe_message :: "u64 \<Rightarrow> int list \<Rightarrow> json" where
  "build_unsubscribe_message req_id session_ids =
     JObj [(''id'', JNum (uint req_id)), (''cmd'', JStr ''unsubscribe''),
           (''params'', JObj [(''sids'', JArr (map JNum session_ids))])]"

section \<open>Messages\<close>

text \<open>\<open>ApplyUniverseSnapshotIo\<close> carries a shared pointer, which may be null.\<close>

datatype control_to_io_command =
    ApplyUniverseSnapshotIo "universe_snapshot option"
  | ConnectIo
  | DisconnectIo
  | RecoverMarketIo recover_market_io

record unknown_market_ticker_stats =
  umt_market_ticker :: string
  umt_frame_kind :: frame_kind
  umt_sid :: u64
  umt_channel :: u8

record io_telemetry =
  it_frames_received :: u64
  it_frames_published :: u64
  it_frames_dropped :: u64
  it_oversized_frames :: u64
  it_pool_exhausted :: u64
  it_missing_frame_slot :: u64
  it_envelope_parse_failed :: u64
  it_envelope_missing_market_ticker :: u64
  it_envelope_unsupported_type :: u64
  it_inactive_sid :: u64
  it_unknown_market_ticker :: u64
  it_unknown_market_ticker_samples :: "unknown_market_ticker_stats list"
  it_stamp_failed :: u64
  it_router_enqueue_failed :: u64
  it_logger_fallback_enqueued :: u64
  it_logger_fallback_failed :: u64
  it_recycle_failures :: u64
  it_snapshot_requests_sent :: u64
  it_snapshot_requests_accepted :: u64
  it_snapshot_requests_failed :: u64
  it_frame_pool_in_use_high_water :: u64
  it_router_queue_depth_high_water :: u64
  it_channel_stats :: "channel_telemetry list"
  it_wire_service_latency :: "latency_histogram list"

datatype io_to_control_status =
    IoConnected
  | IoDisconnected string
  | IoUniverseSnapshotApplied u64
  | IoSubscriptionReady u64
  | IoFaulted string
  | IoTelemetry io_telemetry
  | IoRecoveryRequestAccepted io_recovery_request_accepted
  | IoRecoveryRequestFailed io_recovery_request_failed

datatype subscription_phase =
    SP_kIDLE | SP_kSUBSCRIBE_PENDING | SP_kSUBSCRIBED | SP_kUPDATE_PENDING | SP_kUNSUBSCRIBE_PENDING | SP_kFAULTED

datatype ws_command_kind = WCK_kSUBSCRIBE | WCK_kADD_MARKETS | WCK_kDELETE_MARKETS | WCK_kUNSUBSCRIBE | WCK_kGET_SNAPSHOT

datatype incoming_message_kind = IMK_kCONTROL_RESPONSE | IMK_kMARKET_DATA | IMK_kIGNORE | IMK_kMALFORMED

datatype send_status = SS_kACCEPTED | SS_kCLOSED | SS_kQUEUE_FULL | SS_kERROR

datatype read_result = RS_kPENDING | RS_kMESSAGE "u8 list" | RS_kCLOSED | RS_kERROR

record active_subscription =
  sub_channel :: market_data_channel
  sub_phase :: subscription_phase
  sub_sid :: "u32 option"
  sub_market_ids :: "market_id list"
  sub_last_error :: string

record pending_recovery_tag =
  prt_recovery_id :: recovery_id
  prt_universe_version :: u64
  prt_request_attempt :: u32

record recovery_command_context =
  rcc_recovery_id :: recovery_id
  rcc_universe_version :: u64
  rcc_market_id :: market_id
  rcc_request_attempt :: u32

record pending_ws_command =
  pwc_ws_command_id :: u64
  pwc_kind :: ws_command_kind
  pwc_channel :: market_data_channel
  pwc_market_ids :: "market_id list"
  pwc_recovery_context :: "recovery_command_context option"

record market_data_envelope =
  env_kind :: frame_kind
  env_sid :: u32
  env_sequence :: u64
  env_market_ticker :: string

datatype envelope_parse_code =
    EPC_kOK | EPC_kINVALID_JSON | EPC_kMISSING_SID | EPC_kSID_OUT_OF_RANGE | EPC_kMISSING_TYPE | EPC_kUNSUPPORTED_TYPE
  | EPC_kMISSING_SEQUENCE | EPC_kMISSING_MSG | EPC_kMISSING_MARKET_TICKER

datatype stamp_handle_code = SHC_kOK | SHC_kUNKNOWN_KIND | SHC_kEMPTY_MARKET_TICKER | SHC_kINACTIVE_SID | SHC_kUNKNOWN_MARKET_TICKER

datatype transport_call = TC_Connect | TC_Send json | TC_Consume | TC_Close

section \<open>State\<close>

record wire_session =
  ws_frame_pool :: frame_pool
  ws_router_queue :: "market_data_path_message bqueue"
  ws_control_to_io_queue :: "control_to_io_command bqueue"
  ws_io_to_control_queue :: "io_to_control_status bqueue"
  ws_recycle_queues :: "frame_handle bqueue option list"
  ws_logger_queue :: "frame_handle bqueue"
  ws_connected :: bool
  ws_last_error :: string
  ws_desired_universe :: "universe_snapshot option"
  ws_market_route_by_ticker :: "(string, universe_market_route) umap"
  ws_market_route_by_id :: "(market_id, universe_market_route) umap"
  ws_desired_channels :: "market_data_channel list"
  ws_active_subscriptions :: "(market_data_channel, active_subscription) umap"
  ws_pending_ws_commands :: "(u64, pending_ws_command) umap"
  ws_next_recycle_queue_idx :: nat
  ws_telemetry :: io_telemetry
  ws_next_telemetry_send :: int
  ws_next_ws_command_id :: u64
  ws_pending_recovery_by_market :: "(market_id, pending_recovery_tag) umap"
  ws_sequence_observer :: sid_observer
  ws_pending_integrity_barrier :: "market_data_path_message option"
  ws_next_wire_incident_id :: u64
  ws_pending_recovery_statuses :: "io_to_control_status list"
  ws_clock :: "nat \<Rightarrow> u64"
  ws_steady_clock :: "nat \<Rightarrow> int"
  ws_connect_results :: "nat \<Rightarrow> bool"
  ws_send_results :: "nat \<Rightarrow> send_status"
  ws_transport_errors :: "nat \<Rightarrow> string"
  ws_calls :: "transport_call list"

definition kMAX_RECYCLE_BATCH_SIZE :: nat where "kMAX_RECYCLE_BATCH_SIZE = 64"
definition kMAX_UNKNOWN_MARKET_TICKER_SAMPLES :: nat where "kMAX_UNKNOWN_MARKET_TICKER_SAMPLES = 8"
definition kIO_TELEMETRY_INTERVAL :: int where "kIO_TELEMETRY_INTERVAL = 250 * 1000000"

definition empty_io_telemetry :: io_telemetry where
  "empty_io_telemetry = \<lparr>it_frames_received = 0, it_frames_published = 0, it_frames_dropped = 0, it_oversized_frames = 0,
     it_pool_exhausted = 0, it_missing_frame_slot = 0, it_envelope_parse_failed = 0, it_envelope_missing_market_ticker = 0,
     it_envelope_unsupported_type = 0, it_inactive_sid = 0, it_unknown_market_ticker = 0, it_unknown_market_ticker_samples = [],
     it_stamp_failed = 0, it_router_enqueue_failed = 0, it_logger_fallback_enqueued = 0, it_logger_fallback_failed = 0,
     it_recycle_failures = 0, it_snapshot_requests_sent = 0, it_snapshot_requests_accepted = 0, it_snapshot_requests_failed = 0,
     it_frame_pool_in_use_high_water = 0, it_router_queue_depth_high_water = 0, it_channel_stats = make_channel_telemetry,
     it_wire_service_latency = replicate kMarketDataChannelCount empty_histogram\<rparr>"

abbreviation tally_wire :: "(io_telemetry \<Rightarrow> io_telemetry) \<Rightarrow> wire_session \<Rightarrow> wire_session" where
  "tally_wire f s \<equiv> s\<lparr>ws_telemetry := f (ws_telemetry s)\<rparr>"

definition wire_now_ns :: "wire_session \<Rightarrow> u64 \<times> wire_session" where
  "wire_now_ns s = (ws_clock s 0, s\<lparr>ws_clock := (\<lambda>n. ws_clock s (Suc n))\<rparr>)"

definition wire_steady_now :: "wire_session \<Rightarrow> int \<times> wire_session" where
  "wire_steady_now s = (ws_steady_clock s 0, s\<lparr>ws_steady_clock := (\<lambda>n. ws_steady_clock s (Suc n))\<rparr>)"

definition transport_connect :: "wire_session \<Rightarrow> wire_session \<times> bool" where
  "transport_connect s = (s\<lparr>ws_connect_results := (\<lambda>n. ws_connect_results s (Suc n)), ws_calls := ws_calls s @ [TC_Connect]\<rparr>,
     ws_connect_results s 0)"

definition transport_send :: "json \<Rightarrow> wire_session \<Rightarrow> wire_session \<times> send_status" where
  "transport_send m s = (s\<lparr>ws_send_results := (\<lambda>n. ws_send_results s (Suc n)), ws_calls := ws_calls s @ [TC_Send m]\<rparr>,
     ws_send_results s 0)"

definition transport_error :: "wire_session \<Rightarrow> wire_session \<times> string" where
  "transport_error s = (s\<lparr>ws_transport_errors := (\<lambda>n. ws_transport_errors s (Suc n))\<rparr>, ws_transport_errors s 0)"

definition next_ws_command_id :: "wire_session \<Rightarrow> u64 \<times> wire_session" where
  "next_ws_command_id s = (ws_next_ws_command_id s, s\<lparr>ws_next_ws_command_id := ws_next_ws_command_id s + 1\<rparr>)"

definition universe_version_of :: "wire_session \<Rightarrow> u64" where
  "universe_version_of s = (case ws_desired_universe s of None \<Rightarrow> 0 | Some u \<Rightarrow> us_version u)"

section \<open>Barriers and statuses\<close>

text \<open>The counters of the channel of an observation; the zero value has none.\<close>

definition update_channel_telemetry :: "market_data_channel option \<Rightarrow> (channel_telemetry \<Rightarrow> channel_telemetry) \<Rightarrow> wire_session \<Rightarrow> wire_session" where
  "update_channel_telemetry channel f s = (case channel of None \<Rightarrow> s
     | Some c \<Rightarrow> let i = unat (channel_value c) - 1
         in tally_wire (\<lambda>t. t\<lparr>it_channel_stats := (it_channel_stats t)[i := f (it_channel_stats t ! i)]\<rparr>) s)"

definition update_capacity_high_water :: "wire_session \<Rightarrow> wire_session" where
  "update_capacity_high_water s = tally_wire (\<lambda>t. t\<lparr>
     it_frame_pool_in_use_high_water := max (it_frame_pool_in_use_high_water t)
       (of_nat (fp_capacity (ws_frame_pool s) - fp_available (ws_frame_pool s))),
     it_router_queue_depth_high_water := max (it_router_queue_depth_high_water t) (of_nat (bq_size (ws_router_queue s)))\<rparr>) s"

definition flush_pending_integrity_barrier :: "wire_session \<Rightarrow> wire_session \<times> bool" where
  "flush_pending_integrity_barrier s =
     (case ws_pending_integrity_barrier s of
        None \<Rightarrow> (s, True)
      | Some barrier \<Rightarrow> (case bq_push barrier (ws_router_queue s) of
          (q, False) \<Rightarrow> (s, False)
        | (q, True) \<Rightarrow> ((update_capacity_high_water (s\<lparr>ws_router_queue := q\<rparr>))\<lparr>ws_pending_integrity_barrier := None\<rparr>, True)))"

definition send_or_defer_integrity_barrier :: "market_data_path_message \<Rightarrow> wire_session \<Rightarrow> wire_session \<times> bool" where
  "send_or_defer_integrity_barrier barrier s =
     (if ws_pending_integrity_barrier s \<noteq> None then (s, False)
      else case bq_push barrier (ws_router_queue s) of
        (q, True) \<Rightarrow> (update_capacity_high_water (s\<lparr>ws_router_queue := q\<rparr>), True)
      | (q, False) \<Rightarrow> (s\<lparr>ws_pending_integrity_barrier := Some barrier\<rparr>, False))"

definition push_control_status :: "io_to_control_status \<Rightarrow> wire_session \<Rightarrow> wire_session \<times> bool" where
  "push_control_status status s = (let (q, ok) = bq_push status (ws_io_to_control_queue s) in (s\<lparr>ws_io_to_control_queue := q\<rparr>, ok))"

definition count_recovery_status :: "io_to_control_status \<Rightarrow> wire_session \<Rightarrow> wire_session" where
  "count_recovery_status status s =
     (case status of
        IoRecoveryRequestAccepted _ \<Rightarrow> tally_wire (\<lambda>t. t\<lparr>it_snapshot_requests_accepted := it_snapshot_requests_accepted t + 1\<rparr>) s
      | IoRecoveryRequestFailed _ \<Rightarrow> tally_wire (\<lambda>t. t\<lparr>it_snapshot_requests_failed := it_snapshot_requests_failed t + 1\<rparr>) s
      | _ \<Rightarrow> s)"

definition wire_send_or_defer_status :: "io_to_control_status \<Rightarrow> wire_session \<Rightarrow> wire_session" where
  "wire_send_or_defer_status status s =
     (let s1 = count_recovery_status status s
      in if ws_pending_recovery_statuses s1 = []
         then (case push_control_status status s1 of
                 (s2, True) \<Rightarrow> s2
               | (s2, False) \<Rightarrow> s2\<lparr>ws_pending_recovery_statuses := [status]\<rparr>)
         else s1\<lparr>ws_pending_recovery_statuses := ws_pending_recovery_statuses s1 @ [status]\<rparr>)"

text \<open>The loop over the retained statuses.\<close>

primrec flush_statuses :: "io_to_control_status list \<Rightarrow> wire_session \<Rightarrow> wire_session \<times> bool" where
  "flush_statuses [] s = (s\<lparr>ws_pending_recovery_statuses := []\<rparr>, True)"
| "flush_statuses (status # rest) s =
     (case push_control_status status s of
        (s1, False) \<Rightarrow> (s1\<lparr>ws_pending_recovery_statuses := status # rest\<rparr>, False)
      | (s1, True) \<Rightarrow> flush_statuses rest s1)"

definition flush_pending_recovery_statuses :: "wire_session \<Rightarrow> wire_session \<times> bool" where
  "flush_pending_recovery_statuses s = flush_statuses (ws_pending_recovery_statuses s) s"

definition wire_maybe_send_telemetry :: "wire_session \<Rightarrow> wire_session" where
  "wire_maybe_send_telemetry s =
     (let (now, s1) = wire_steady_now s
      in if now < ws_next_telemetry_send s1 \<or> ws_pending_recovery_statuses s1 \<noteq> [] then s1
         else (fst (push_control_status (IoTelemetry (ws_telemetry s1)) s1))\<lparr>ws_next_telemetry_send := now + kIO_TELEMETRY_INTERVAL\<rparr>)"

definition recycle_handle :: "frame_handle \<Rightarrow> wire_session \<Rightarrow> wire_session" where
  "recycle_handle h s = (case recycle h (ws_frame_pool s) of
     (p, True) \<Rightarrow> s\<lparr>ws_frame_pool := p\<rparr>
   | (p, False) \<Rightarrow> tally_wire (\<lambda>t. t\<lparr>it_recycle_failures := it_recycle_failures t + 1\<rparr>) s)"

definition record_unknown_market_ticker :: "unknown_market_ticker_stats \<Rightarrow> wire_session \<Rightarrow> wire_session" where
  "record_unknown_market_ticker sample s =
     (let samples = it_unknown_market_ticker_samples (ws_telemetry s)
      in if sample \<in> set samples \<or> length samples \<ge> kMAX_UNKNOWN_MARKET_TICKER_SAMPLES then s
         else tally_wire (\<lambda>t. t\<lparr>it_unknown_market_ticker_samples := samples @ [sample]\<rparr>) s)"

text \<open>Handles come back from the queues in turn until a batch is recycled or every queue in a row was empty. An index
  beyond the queues does not occur; the loop ends there.\<close>

function recycle_loop ::
  "nat \<Rightarrow> nat \<Rightarrow> frame_handle bqueue option list \<Rightarrow> nat \<Rightarrow> frame_pool \<Rightarrow> u64
   \<Rightarrow> frame_handle bqueue option list \<times> nat \<times> frame_pool \<times> u64" where
  "recycle_loop total_recycled empty_queues queues idx pool failures =
     (if total_recycled < kMAX_RECYCLE_BATCH_SIZE \<and> empty_queues < length queues \<and> idx < length queues
      then let next_idx = (idx + 1) mod length queues
           in case queues ! idx of
             None \<Rightarrow> recycle_loop total_recycled (empty_queues + 1) queues next_idx pool failures
           | Some q \<Rightarrow> (case bq_items q of
               [] \<Rightarrow> recycle_loop total_recycled (empty_queues + 1) queues next_idx pool failures
             | h # rest \<Rightarrow>
                 let queues' = queues[idx := Some (q\<lparr>bq_items := rest\<rparr>)]; (pool', ok) = recycle h pool
                 in if ok then recycle_loop (total_recycled + 1) 0 queues' next_idx pool' failures
                    else recycle_loop total_recycled 0 queues' next_idx pool' (failures + 1))
      else (queues, idx, pool, failures))"
  by pat_completeness auto

definition queued :: "frame_handle bqueue option list \<Rightarrow> nat" where
  "queued queues = sum_list (map (\<lambda>q. case q of None \<Rightarrow> 0 | Some q \<Rightarrow> length (bq_items q)) queues)"

lemma queued_pop:
  assumes "idx < length queues" "queues ! idx = Some q" "bq_items q = h # rest"
  shows "queued (queues[idx := Some (q\<lparr>bq_items := rest\<rparr>)]) < queued queues"
proof -
  have "queues = take idx queues @ queues ! idx # drop (Suc idx) queues" using assms(1) by (rule id_take_nth_drop)
  then have "queued queues = queued (take idx queues) + length (bq_items q) + queued (drop (Suc idx) queues)"
    using assms(2) by (metis (no_types, lifting) add.assoc list.simps(9) map_append option.case(2) queued_def sum_list.Cons sum_list_append)
  moreover have "queued (queues[idx := Some (q\<lparr>bq_items := rest\<rparr>)]) = queued (take idx queues) + length rest + queued (drop (Suc idx) queues)"
    using assms(1) by (simp add: upd_conv_take_nth_drop queued_def)
  ultimately show ?thesis using assms(3) by simp
qed

termination recycle_loop
proof (relation "measures [\<lambda>(t, e, qs, i, p, f). queued qs, \<lambda>(t, e, qs, i, p, f). length qs - e]")
qed (auto simp: queued_pop)

declare recycle_loop.simps [simp del]

definition drain_recycle_queues :: "wire_session \<Rightarrow> wire_session" where
  "drain_recycle_queues s =
     (if ws_recycle_queues s = [] then s
      else let (queues, idx, pool, failures) =
                 recycle_loop 0 0 (ws_recycle_queues s) (ws_next_recycle_queue_idx s) (ws_frame_pool s) (it_recycle_failures (ws_telemetry s))
           in tally_wire (\<lambda>t. t\<lparr>it_recycle_failures := failures\<rparr>)
                (s\<lparr>ws_recycle_queues := queues, ws_next_recycle_queue_idx := idx, ws_frame_pool := pool\<rparr>))"

end
