(* ===== verification/Wire_Handlers.thy ===== *)
theory Wire_Handlers
  imports Wire_Session
begin

text \<open>
  The handlers of the wire session (\<open>cpp/src/ingest/kalshi/market_data/wire_session.cpp\<close>): commands of the control
  plane, responses of the exchange, market data, and one round of the loop.
\<close>

section \<open>Subscriptions\<close>

definition request_failed :: "recovery_id \<Rightarrow> u64 \<Rightarrow> market_id \<Rightarrow> u32 \<Rightarrow> string \<Rightarrow> io_to_control_status" where
  "request_failed recovery_id version market_id attempt reason =
     IoRecoveryRequestFailed \<lparr>irf_recovery_id = recovery_id, irf_universe_version = version, irf_market_id = market_id,
       irf_request_attempt = attempt, irf_reason = reason\<rparr>"

definition request_accepted :: "recovery_id \<Rightarrow> u64 \<Rightarrow> market_id \<Rightarrow> u32 \<Rightarrow> io_to_control_status" where
  "request_accepted recovery_id version market_id attempt =
     IoRecoveryRequestAccepted \<lparr>ira_recovery_id = recovery_id, ira_universe_version = version, ira_market_id = market_id,
       ira_request_attempt = attempt\<rparr>"

text \<open>Every pending recovery fails, in the order of the map.\<close>

primrec fail_tags :: "(market_id \<times> pending_recovery_tag) list \<Rightarrow> wire_session \<Rightarrow> wire_session" where
  "fail_tags [] s = s"
| "fail_tags (t # ts) s = (case t of (market_id, tag) \<Rightarrow>
     fail_tags ts (wire_send_or_defer_status (request_failed (prt_recovery_id tag) (prt_universe_version tag) market_id
       (prt_request_attempt tag) ''Transport reset before recovery snapshot delivery'') s))"

definition clear_transport_subscription_state :: "wire_session \<Rightarrow> wire_session" where
  "clear_transport_subscription_state s =
     (fail_tags (ws_pending_recovery_by_market s) s)\<lparr>ws_pending_recovery_by_market := [], ws_pending_ws_commands := [],
       ws_active_subscriptions := [], ws_sequence_observer := []\<rparr>"

definition report_fault :: "string \<Rightarrow> wire_session \<Rightarrow> wire_session" where
  "report_fault error_message s =
     (let s1 = clear_transport_subscription_state (s\<lparr>ws_connected := False, ws_last_error := error_message\<rparr>)
      in fst (push_control_status (IoFaulted (ws_last_error s1)) s1))"

definition channel_digit :: "market_data_channel \<Rightarrow> string" where
  "channel_digit c = (case c of MC_kORDERBOOK_DELTA \<Rightarrow> ''1'' | MC_kTRADE \<Rightarrow> ''2'' | MC_kMARKET_LIFECYCLE \<Rightarrow> ''3'')"

definition idle_subscription :: "market_data_channel \<Rightarrow> active_subscription" where
  "idle_subscription channel = \<lparr>sub_channel = channel, sub_phase = SP_kIDLE, sub_sid = None, sub_market_ids = [], sub_last_error = []\<rparr>"

definition set_subscription :: "market_data_channel \<Rightarrow> active_subscription \<Rightarrow> wire_session \<Rightarrow> wire_session" where
  "set_subscription channel sub s = s\<lparr>ws_active_subscriptions := um_assign channel sub (ws_active_subscriptions s)\<rparr>"

definition add_pending_command :: "pending_ws_command \<Rightarrow> wire_session \<Rightarrow> wire_session" where
  "add_pending_command c s = s\<lparr>ws_pending_ws_commands := fst (um_emplace (pwc_ws_command_id c) c (ws_pending_ws_commands s))\<rparr>"

definition subscribe_channel :: "market_data_channel \<Rightarrow> string list \<Rightarrow> wire_session \<Rightarrow> wire_session \<times> bool" where
  "subscribe_channel channel tickers s =
     (let (ws_command_id, s1) = next_ws_command_id s;
          s2 = add_pending_command \<lparr>pwc_ws_command_id = ws_command_id, pwc_kind = WCK_kSUBSCRIBE, pwc_channel = channel,
                 pwc_market_ids = [], pwc_recovery_context = None\<rparr> s1;
          sub = (case um_find (ws_active_subscriptions s2) channel of None \<Rightarrow> idle_subscription channel | Some sub \<Rightarrow> sub);
          s3 = (case sub_sid sub of None \<Rightarrow> s2
                | Some sid \<Rightarrow> s2\<lparr>ws_sequence_observer := sid_deactivate sid (ws_sequence_observer s2)\<rparr>);
          s4 = set_subscription channel \<lparr>sub_channel = channel, sub_phase = SP_kSUBSCRIBE_PENDING, sub_sid = None, sub_market_ids = [],
                 sub_last_error = []\<rparr> s3;
          (s5, send_status) = transport_send (build_subscribe_message ws_command_id channel tickers) s4
      in (s5, send_status = SS_kACCEPTED))"

primrec subscribe_channels :: "string list \<Rightarrow> market_data_channel list \<Rightarrow> wire_session \<Rightarrow> wire_session \<times> bool" where
  "subscribe_channels tickers [] s = (s, True)"
| "subscribe_channels tickers (channel # channels) s =
     (case subscribe_channel channel tickers s of
        (s1, True) \<Rightarrow> subscribe_channels tickers channels s1
      | (s1, False) \<Rightarrow>
          let s2 = report_fault (''Failed to subscribe to channel '' @ channel_digit channel) s1
          in (fst (subscribe_channels tickers channels s2), False))"

definition subscribe_active_universe :: "wire_session \<Rightarrow> wire_session \<times> bool" where
  "subscribe_active_universe s =
     (case ws_desired_universe s of
        None \<Rightarrow> (report_fault ''Cannot subscribe to universe - no snapshot applied'' s, False)
      | Some u \<Rightarrow> subscribe_channels (map umr_kalshi_ticker (us_market_routes u)) (ws_desired_channels s) s)"

text \<open>The market ids of tickers, or the first ticker that is not in the universe.\<close>

primrec market_ids_of :: "(string, universe_market_route) umap \<Rightarrow> string list \<Rightarrow> string + market_id list" where
  "market_ids_of routes [] = Inr []"
| "market_ids_of routes (ticker # tickers) =
     (case um_find routes ticker of
        None \<Rightarrow> Inl ticker
      | Some route \<Rightarrow> (case market_ids_of routes tickers of Inl t \<Rightarrow> Inl t | Inr ids \<Rightarrow> Inr (umr_market_id route # ids)))"

text \<open>The common body of \<open>add_markets\<close> and \<open>delete_markets\<close>, which differ in the texts and the kind of the command.\<close>

definition update_markets ::
  "ws_command_kind \<Rightarrow> string \<Rightarrow> string \<Rightarrow> string \<Rightarrow> market_data_channel \<Rightarrow> string list \<Rightarrow> wire_session \<Rightarrow> wire_session \<times> bool" where
  "update_markets kind channel_error market_error action channel tickers s =
     (case um_find (ws_active_subscriptions s) channel of
        None \<Rightarrow> (report_fault (channel_error @ '' - subscription not found: '' @ channel_digit channel) s, False)
      | Some sub \<Rightarrow>
      (case sub_sid sub of
        None \<Rightarrow> (report_fault (channel_error @ '' - subscription not active: '' @ channel_digit channel) s, False)
      | Some sid \<Rightarrow>
      (case market_ids_of (ws_market_route_by_ticker s) tickers of
        Inl ticker \<Rightarrow> (report_fault (market_error @ '' - ticker not found in universe: '' @ ticker) s, False)
      | Inr market_ids \<Rightarrow>
          let (ws_command_id, s1) = next_ws_command_id s;
              s2 = add_pending_command \<lparr>pwc_ws_command_id = ws_command_id, pwc_kind = kind, pwc_channel = channel,
                     pwc_market_ids = market_ids, pwc_recovery_context = None\<rparr> s1;
              s3 = set_subscription channel (sub\<lparr>sub_phase := SP_kUPDATE_PENDING\<rparr>) s2;
              (s4, send_status) = transport_send (build_update_message ws_command_id (uint sid) tickers action) s3
          in if send_status \<noteq> SS_kACCEPTED
             then let (s5, err) = transport_error (s4\<lparr>ws_pending_ws_commands := um_erase ws_command_id (ws_pending_ws_commands s4)\<rparr>)
                  in (set_subscription channel (sub\<lparr>sub_phase := SP_kSUBSCRIBED, sub_last_error := err\<rparr>) s5, False)
             else (s4, True))))"

definition add_markets :: "market_data_channel \<Rightarrow> string list \<Rightarrow> wire_session \<Rightarrow> wire_session \<times> bool" where
  "add_markets = update_markets WCK_kADD_MARKETS ''Cannot add markets to channel'' ''Cannot add market'' ''add_markets''"

definition delete_markets :: "market_data_channel \<Rightarrow> string list \<Rightarrow> wire_session \<Rightarrow> wire_session \<times> bool" where
  "delete_markets = update_markets WCK_kDELETE_MARKETS ''Cannot delete markets from channel'' ''Cannot delete market'' ''delete_markets''"

definition unsubscribe_channel :: "market_data_channel \<Rightarrow> wire_session \<Rightarrow> wire_session \<times> bool" where
  "unsubscribe_channel channel s =
     (case um_find (ws_active_subscriptions s) channel of
        None \<Rightarrow> (report_fault (''Cannot unsubscribe from channel - not currently subscribed: '' @ channel_digit channel) s, False)
      | Some sub \<Rightarrow>
      (case sub_sid sub of
        None \<Rightarrow> (report_fault (''Cannot unsubscribe from channel - subscription has no SID: '' @ channel_digit channel) s, False)
      | Some sid \<Rightarrow>
          if sub_phase sub \<noteq> SP_kSUBSCRIBED
          then (report_fault (''Cannot unsubscribe from channel - subscription is not active: '' @ channel_digit channel) s, False)
          else let (ws_command_id, s1) = next_ws_command_id s;
              s2 = add_pending_command \<lparr>pwc_ws_command_id = ws_command_id, pwc_kind = WCK_kUNSUBSCRIBE, pwc_channel = channel,
                     pwc_market_ids = [], pwc_recovery_context = None\<rparr> s1;
              s3 = set_subscription channel (sub\<lparr>sub_phase := SP_kUNSUBSCRIBE_PENDING\<rparr>) s2;
              (s4, send_status) = transport_send (build_unsubscribe_message ws_command_id [uint sid]) s3
          in if send_status \<noteq> SS_kACCEPTED
             then let (s5, err) = transport_error (s4\<lparr>ws_pending_ws_commands := um_erase ws_command_id (ws_pending_ws_commands s4)\<rparr>)
                  in (set_subscription channel (sub\<lparr>sub_phase := SP_kSUBSCRIBED, sub_last_error := err\<rparr>) s5, False)
             else (s4, True)))"

section \<open>Commands of the control plane\<close>

definition wire_connect :: "wire_session \<Rightarrow> wire_session \<times> bool" where
  "wire_connect s =
     (case transport_connect s of
        (s1, True) \<Rightarrow>
          let s2 = clear_transport_subscription_state (s1\<lparr>ws_connected := True, ws_last_error := []\<rparr>);
              s3 = fst (push_control_status IoConnected s2)
          in (if ws_desired_universe s3 \<noteq> None then fst (subscribe_active_universe s3) else s3, True)
      | (s1, False) \<Rightarrow>
          let (s2, err) = transport_error (s1\<lparr>ws_connected := False\<rparr>);
              s3 = s2\<lparr>ws_last_error := err\<rparr>
          in (report_fault (''Failed to connect: '' @ ws_last_error s3) s3, False))"

definition wire_disconnect :: "string \<Rightarrow> wire_session \<Rightarrow> wire_session" where
  "wire_disconnect reason s =
     (let s1 = clear_transport_subscription_state (s\<lparr>ws_calls := ws_calls s @ [TC_Close], ws_connected := False, ws_last_error := reason\<rparr>)
      in fst (push_control_status (IoDisconnected (ws_last_error s1)) s1))"

definition is_snapshot_command :: "pending_ws_command \<Rightarrow> bool" where
  "is_snapshot_command c \<longleftrightarrow> pwc_kind c = WCK_kGET_SNAPSHOT"

definition add_route :: "universe_market_route \<Rightarrow> wire_session \<Rightarrow> wire_session" where
  "add_route route s = s\<lparr>ws_market_route_by_ticker := fst (um_emplace (umr_kalshi_ticker route) route (ws_market_route_by_ticker s)),
     ws_market_route_by_id := fst (um_emplace (umr_market_id route) route (ws_market_route_by_id s))\<rparr>"

definition apply_universe_snapshot :: "universe_snapshot option \<Rightarrow> wire_session \<Rightarrow> wire_session" where
  "apply_universe_snapshot snapshot s =
     (case snapshot of
        None \<Rightarrow> report_fault ''Received null universe snapshot'' s
      | Some u \<Rightarrow>
          let s1 = (case ws_desired_universe s of
                Some old \<Rightarrow> if us_version old \<noteq> us_version u
                  then s\<lparr>ws_pending_recovery_by_market := [],
                         ws_pending_ws_commands := filter (\<lambda>(k, c). \<not> is_snapshot_command c) (ws_pending_ws_commands s)\<rparr>
                  else s
              | None \<Rightarrow> s);
              s2 = fold add_route (us_market_routes u) (s1\<lparr>ws_desired_universe := Some u, ws_market_route_by_ticker := [], ws_market_route_by_id := []\<rparr>);
              s3 = fst (push_control_status (IoUniverseSnapshotApplied (us_version u)) s2)
          in if ws_connected s3 \<and> ws_active_subscriptions s3 = [] then fst (subscribe_active_universe s3) else s3)"

text \<open>The checks of \<open>recover_market\<close> before the request: the reason of the failure, or the route and the sid.\<close>

definition recovery_target :: "recover_market_io \<Rightarrow> wire_session \<Rightarrow> string + universe_market_route \<times> u32" where
  "recovery_target c s =
     (if rmi_recovery_id c = 0 \<or> rmi_request_attempt c = 0 then Inl ''Invalid recovery request identity''
      else if \<not> ws_connected s then Inl ''Cannot request recovery snapshot while disconnected''
      else if (case ws_desired_universe s of None \<Rightarrow> True | Some u \<Rightarrow> us_version u \<noteq> rmi_universe_version c)
      then Inl ''Recovery request universe does not match installed universe''
      else case um_find (ws_market_route_by_id s) (rmi_market_id c) of
        None \<Rightarrow> Inl ''Recovery request market is not in the installed universe''
      | Some route \<Rightarrow>
      (case um_find (ws_active_subscriptions s) MC_kORDERBOOK_DELTA of
        None \<Rightarrow> Inl ''Order-book subscription is not active''
      | Some sub \<Rightarrow>
          if sub_phase sub \<noteq> SP_kSUBSCRIBED then Inl ''Order-book subscription is not active''
          else case sub_sid sub of
            None \<Rightarrow> Inl ''Order-book subscription is not active''
          | Some sid \<Rightarrow> Inr (route, sid)))"

definition tag_matches :: "pending_recovery_tag \<Rightarrow> recovery_id \<Rightarrow> u32 \<Rightarrow> bool" where
  "tag_matches tag recovery_id attempt \<longleftrightarrow> prt_recovery_id tag = recovery_id \<and> prt_request_attempt tag = attempt"

definition context_of :: "recover_market_io \<Rightarrow> recovery_command_context" where
  "context_of c = \<lparr>rcc_recovery_id = rmi_recovery_id c, rcc_universe_version = rmi_universe_version c, rcc_market_id = rmi_market_id c,
     rcc_request_attempt = rmi_request_attempt c\<rparr>"

text \<open>Erases the tag of a market when it passes the test, as the code does after looking it up.\<close>

definition erase_tag_if :: "(pending_recovery_tag \<Rightarrow> bool) \<Rightarrow> market_id \<Rightarrow> wire_session \<Rightarrow> wire_session" where
  "erase_tag_if P market_id s =
     (case um_find (ws_pending_recovery_by_market s) market_id of
        None \<Rightarrow> s
      | Some tag \<Rightarrow> if P tag then s\<lparr>ws_pending_recovery_by_market := um_erase market_id (ws_pending_recovery_by_market s)\<rparr> else s)"

definition send_recovery_request :: "recover_market_io \<Rightarrow> universe_market_route \<Rightarrow> u32 \<Rightarrow> wire_session \<Rightarrow> wire_session" where
  "send_recovery_request c route sid s =
     (let (ws_command_id, s1) = next_ws_command_id s;
          s2 = s1\<lparr>ws_pending_recovery_by_market := fst (um_emplace (rmi_market_id c) \<lparr>prt_recovery_id = rmi_recovery_id c,
                 prt_universe_version = rmi_universe_version c, prt_request_attempt = rmi_request_attempt c\<rparr> (ws_pending_recovery_by_market s1))\<rparr>;
          s3 = add_pending_command \<lparr>pwc_ws_command_id = ws_command_id, pwc_kind = WCK_kGET_SNAPSHOT, pwc_channel = MC_kORDERBOOK_DELTA,
                 pwc_market_ids = [rmi_market_id c], pwc_recovery_context = Some (context_of c)\<rparr> s2;
          (s4, send_status) = transport_send (build_update_message ws_command_id (uint sid) [umr_kalshi_ticker route] ''get_snapshot'') s3
      in if send_status = SS_kACCEPTED then tally_wire (\<lambda>t. t\<lparr>it_snapshot_requests_sent := it_snapshot_requests_sent t + 1\<rparr>) s4
         else let s5 = s4\<lparr>ws_pending_ws_commands := um_erase ws_command_id (ws_pending_ws_commands s4)\<rparr>;
                  s6 = erase_tag_if (\<lambda>tag. tag_matches tag (rmi_recovery_id c) (rmi_request_attempt c)) (rmi_market_id c) s5;
                  (s7, err) = transport_error s6
              in wire_send_or_defer_status (request_failed (rmi_recovery_id c) (rmi_universe_version c) (rmi_market_id c) (rmi_request_attempt c)
                   (''Failed to send recovery snapshot request: '' @ err)) s7)"

definition recover_market :: "recover_market_io \<Rightarrow> wire_session \<Rightarrow> wire_session" where
  "recover_market c s =
     (let fail_request = (\<lambda>reason. wire_send_or_defer_status
            (request_failed (rmi_recovery_id c) (rmi_universe_version c) (rmi_market_id c) (rmi_request_attempt c) reason))
      in case recovery_target c s of
        Inl reason \<Rightarrow> fail_request reason s
      | Inr (route, sid) \<Rightarrow>
      (case um_find (ws_pending_recovery_by_market s) (rmi_market_id c) of
        Some tag \<Rightarrow>
          if \<not> (tag_matches tag (rmi_recovery_id c) (rmi_request_attempt c) \<and> prt_universe_version tag = rmi_universe_version c)
          then fail_request ''Market already has a pending recovery snapshot'' s
          else if \<not> (\<exists>e \<in> set (ws_pending_ws_commands s). pwc_recovery_context (snd e) = Some (context_of c))
          then wire_send_or_defer_status (request_accepted (rmi_recovery_id c) (rmi_universe_version c) (rmi_market_id c) (rmi_request_attempt c)) s
          else s
      | None \<Rightarrow> send_recovery_request c route sid s))"

fun wire_handle_control_command :: "control_to_io_command \<Rightarrow> wire_session \<Rightarrow> wire_session" where
  "wire_handle_control_command (ApplyUniverseSnapshotIo snapshot) s = apply_universe_snapshot snapshot s"
| "wire_handle_control_command ConnectIo s = fst (wire_connect s)"
| "wire_handle_control_command DisconnectIo s = wire_disconnect [] s"
| "wire_handle_control_command (RecoverMarketIo c) s = recover_market c s"

text \<open>The handlers do not touch the queue of the commands, so the loop runs over the commands that were in it.\<close>

primrec drain_commands :: "control_to_io_command list \<Rightarrow> wire_session \<Rightarrow> wire_session" where
  "drain_commands [] s = s"
| "drain_commands (c # cs) s =
     (if ws_pending_recovery_statuses s \<noteq> [] then s
      else drain_commands cs (wire_handle_control_command c (s\<lparr>ws_control_to_io_queue := (ws_control_to_io_queue s)\<lparr>bq_items := cs\<rparr>\<rparr>)))"

definition wire_drain_control_commands :: "wire_session \<Rightarrow> wire_session" where
  "wire_drain_control_commands s = drain_commands (bq_items (ws_control_to_io_queue s)) s"

section \<open>Responses of the exchange\<close>

definition missing_type :: "pending_ws_command \<Rightarrow> wire_session \<Rightarrow> wire_session" where
  "missing_type pending s =
     (case pwc_recovery_context pending of
        Some ctx \<Rightarrow>
          wire_send_or_defer_status (request_failed (rcc_recovery_id ctx) (rcc_universe_version ctx) (rcc_market_id ctx) (rcc_request_attempt ctx)
            ''Recovery websocket response missing type'')
            (erase_tag_if (\<lambda>tag. tag_matches tag (rcc_recovery_id ctx) (rcc_request_attempt ctx)) (rcc_market_id ctx) s)
      | None \<Rightarrow> report_fault ''Websocket control response missing type'' s)"

definition snapshot_response :: "pending_ws_command \<Rightarrow> string \<Rightarrow> wire_session \<Rightarrow> wire_session" where
  "snapshot_response pending response_type s =
     (case pwc_recovery_context pending of
        None \<Rightarrow> report_fault ''Recovery websocket command missing recovery context'' s
      | Some ctx \<Rightarrow>
          let failed = (\<lambda>reason. wire_send_or_defer_status
                (request_failed (rcc_recovery_id ctx) (rcc_universe_version ctx) (rcc_market_id ctx) (rcc_request_attempt ctx) reason)
                (erase_tag_if (\<lambda>tag. tag_matches tag (rcc_recovery_id ctx) (rcc_request_attempt ctx)
                   \<and> prt_universe_version tag = rcc_universe_version ctx) (rcc_market_id ctx) s))
          in if response_type = ''error'' then failed ''Kalshi recovery snapshot request failed''
             else if response_type \<noteq> ''ok'' then failed ''Unexpected Kalshi recovery snapshot response type''
             else wire_send_or_defer_status
                    (request_accepted (rcc_recovery_id ctx) (rcc_universe_version ctx) (rcc_market_id ctx) (rcc_request_attempt ctx)) s)"

definition fault_subscription :: "market_data_channel \<Rightarrow> active_subscription \<Rightarrow> string \<Rightarrow> wire_session \<Rightarrow> wire_session" where
  "fault_subscription channel sub err s =
     report_fault err (set_subscription channel (sub\<lparr>sub_phase := SP_kFAULTED, sub_last_error := err\<rparr>) s)"

definition all_channels_subscribed :: "wire_session \<Rightarrow> bool" where
  "all_channels_subscribed s \<longleftrightarrow> ws_desired_universe s \<noteq> None
     \<and> list_all (\<lambda>channel. case um_find (ws_active_subscriptions s) channel of None \<Rightarrow> False
          | Some sub \<Rightarrow> sub_phase sub = SP_kSUBSCRIBED \<and> sub_sid sub \<noteq> None) (ws_desired_channels s)"

definition subscribed :: "('o, 'v) json_api \<Rightarrow> 'o \<Rightarrow> market_data_channel \<Rightarrow> active_subscription \<Rightarrow> wire_session \<Rightarrow> wire_session" where
  "subscribed js root channel sub s =
     (case Option.bind (read_object js root ''msg'') (\<lambda>msg. read_int64 js msg ''sid'') of
        None \<Rightarrow> fault_subscription channel sub ''Subscribed response missing sid'' s
      | Some sid \<Rightarrow>
          if sid < 0 \<or> sid > uint u32_max then fault_subscription channel sub ''Subscribed response sid out of range'' s
          else let normalized_sid = (word_of_int sid :: u32)
          in if sid_active (ws_sequence_observer s) normalized_sid \<and> sid_channel (ws_sequence_observer s) normalized_sid \<noteq> channel_value channel
          then fault_subscription channel sub ''Subscribed response reused an active sid'' s
          else let s1 = (case sub_sid sub of
                     Some old \<Rightarrow> if old \<noteq> normalized_sid then s\<lparr>ws_sequence_observer := sid_deactivate old (ws_sequence_observer s)\<rparr> else s
                   | None \<Rightarrow> s);
                   ids = (case ws_desired_universe s1 of None \<Rightarrow> [] | Some u \<Rightarrow> remdups (map umr_market_id (us_market_routes u)));
                   s2 = set_subscription channel (sub\<lparr>sub_sid := Some normalized_sid, sub_phase := SP_kSUBSCRIBED, sub_market_ids := ids,
                          sub_last_error := []\<rparr>) s1;
                   s3 = s2\<lparr>ws_sequence_observer := sid_activate normalized_sid channel (ws_sequence_observer s2)\<rparr>
          in if all_channels_subscribed s3 then fst (push_control_status (IoSubscriptionReady (universe_version_of s3)) s3) else s3)"

definition subscription_response :: "('o, 'v) json_api \<Rightarrow> 'o \<Rightarrow> pending_ws_command \<Rightarrow> string \<Rightarrow> wire_session \<Rightarrow> wire_session" where
  "subscription_response js root pending response_type s =
     (let channel = pwc_channel pending
      in case um_find (ws_active_subscriptions s) channel of
        None \<Rightarrow> report_fault ''Websocket response targeted an unknown subscription'' s
      | Some sub \<Rightarrow>
          if response_type = ''error'' then fault_subscription channel sub ''Kalshi websocket command failed'' s
          else case pwc_kind pending of
            WCK_kSUBSCRIBE \<Rightarrow> subscribed js root channel sub s
          | WCK_kADD_MARKETS \<Rightarrow> set_subscription channel (sub\<lparr>sub_market_ids := sub_market_ids sub @
                filter (\<lambda>m. m \<notin> set (sub_market_ids sub)) (remdups (pwc_market_ids pending)),
                sub_phase := SP_kSUBSCRIBED, sub_last_error := []\<rparr>) s
          | WCK_kDELETE_MARKETS \<Rightarrow> set_subscription channel (sub\<lparr>sub_market_ids :=
                filter (\<lambda>m. m \<notin> set (pwc_market_ids pending)) (sub_market_ids sub), sub_phase := SP_kSUBSCRIBED, sub_last_error := []\<rparr>) s
          | WCK_kUNSUBSCRIBE \<Rightarrow>
              let s1 = (case sub_sid sub of None \<Rightarrow> s
                    | Some sid \<Rightarrow> s\<lparr>ws_sequence_observer := sid_deactivate sid (ws_sequence_observer s)\<rparr>)
              in set_subscription channel (sub\<lparr>sub_sid := None, sub_market_ids := [], sub_phase := SP_kIDLE, sub_last_error := []\<rparr>) s1
          | WCK_kGET_SNAPSHOT \<Rightarrow> s)"

definition handle_ws_control_response :: "('o, 'v) json_api \<Rightarrow> u8 list \<Rightarrow> wire_session \<Rightarrow> wire_session" where
  "handle_ws_control_response js payload s =
     (if payload = [] then s
      else if \<not> ja_document js payload then report_fault ''Failed to parse websocket control response'' s
      else case ja_root js payload of
        None \<Rightarrow> report_fault ''Websocket control response was not a JSON object'' s
      | Some root \<Rightarrow>
      (case read_uint64 js root ''id'' of
        None \<Rightarrow> s
      | Some ws_command_id \<Rightarrow>
      (case um_find (ws_pending_ws_commands s) ws_command_id of
        None \<Rightarrow> s
      | Some pending \<Rightarrow>
          let s1 = s\<lparr>ws_pending_ws_commands := um_erase ws_command_id (ws_pending_ws_commands s)\<rparr>
          in case read_string js root ''type'' of
            None \<Rightarrow> missing_type pending s1
          | Some response_type \<Rightarrow>
              if pwc_kind pending = WCK_kGET_SNAPSHOT then snapshot_response pending response_type s1
              else subscription_response js root pending response_type s1)))"

section \<open>Market data\<close>

text \<open>The parse code and the envelope with the fields read so far.\<close>

definition parse_market_data_envelope :: "('o, 'v) json_api \<Rightarrow> u8 list \<Rightarrow> envelope_parse_code \<times> market_data_envelope" where
  "parse_market_data_envelope js payload =
     (let e0 = \<lparr>env_kind = FK_kUNKNOWN, env_sid = 0, env_sequence = 0, env_market_ticker = []\<rparr>
      in if \<not> ja_document js payload then (EPC_kINVALID_JSON, e0)
      else case ja_root js payload of
        None \<Rightarrow> (EPC_kINVALID_JSON, e0)
      | Some root \<Rightarrow>
      (case read_uint64 js root ''sid'' of
        None \<Rightarrow> (EPC_kMISSING_SID, e0)
      | Some sid \<Rightarrow>
      if sid > ucast u32_max then (EPC_kSID_OUT_OF_RANGE, e0)
      else let e1 = e0\<lparr>env_sid := ucast sid\<rparr>
      in case read_uint64 js root ''seq'' of
        None \<Rightarrow> (EPC_kMISSING_SEQUENCE, e1)
      | Some sequence \<Rightarrow>
      let e2 = e1\<lparr>env_sequence := sequence\<rparr>
      in case read_string js root ''type'' of
        None \<Rightarrow> (EPC_kMISSING_TYPE, e2)
      | Some type \<Rightarrow>
      let e3 = e2\<lparr>env_kind := frame_kind_from_type type\<rparr>
      in if env_kind e3 = FK_kUNKNOWN then (EPC_kUNSUPPORTED_TYPE, e3)
      else case read_object js root ''msg'' of
        None \<Rightarrow> (EPC_kMISSING_MSG, e3)
      | Some msg \<Rightarrow>
      (case read_string js msg ''market_ticker'' of
        None \<Rightarrow> (EPC_kMISSING_MARKET_TICKER, e3)
      | Some ticker \<Rightarrow> (EPC_kOK, e3\<lparr>env_market_ticker := ticker\<rparr>))))"

definition sequence_available :: "envelope_parse_code \<Rightarrow> bool" where
  "sequence_available code \<longleftrightarrow> code \<in> {EPC_kOK, EPC_kMISSING_TYPE, EPC_kUNSUPPORTED_TYPE, EPC_kMISSING_MSG, EPC_kMISSING_MARKET_TICKER}"

definition resolve_market_route :: "market_data_envelope \<Rightarrow> wire_session \<Rightarrow> stamp_handle_code \<times> universe_market_route option" where
  "resolve_market_route e s =
     (if env_kind e = FK_kUNKNOWN then (SHC_kUNKNOWN_KIND, None)
      else if env_market_ticker e = [] then (SHC_kEMPTY_MARKET_TICKER, None)
      else if \<not> sid_active (ws_sequence_observer s) (env_sid e) then (SHC_kINACTIVE_SID, None)
      else if ws_desired_universe s = None then (SHC_kINACTIVE_SID, None)
      else case um_find (ws_market_route_by_ticker s) (env_market_ticker e) of
        None \<Rightarrow> (SHC_kUNKNOWN_MARKET_TICKER, None)
      | Some route \<Rightarrow> (SHC_kOK, Some route))"

definition stamp_handle :: "frame_handle \<Rightarrow> market_data_envelope \<Rightarrow> universe_market_route \<Rightarrow> wire_session \<Rightarrow> frame_handle" where
  "stamp_handle h e route s = h\<lparr>fh_universe_version := universe_version_of s, fh_sequence := env_sequence e, fh_sid := env_sid e,
     fh_market_id := umr_market_id route, fh_event_id := umr_event_id route, fh_affinity_key := umr_affinity_key route,
     fh_topology := umr_topology route, fh_shard_index := umr_shard_index route, fh_shard_event_index := umr_shard_event_index route,
     fh_event_market_index := umr_event_market_index route, fh_kind := env_kind e\<rparr>"

definition wire_incident :: "wire_session \<Rightarrow> integrity_incident_key \<times> wire_session" where
  "wire_incident s = (\<lparr>iik_origin = IIO_kWIRE_SESSION, iik_producer_index = 0, iik_incident_id = ws_next_wire_incident_id s\<rparr>,
     s\<lparr>ws_next_wire_incident_id := ws_next_wire_incident_id s + 1\<rparr>)"

definition wire_dropped :: "(io_telemetry \<Rightarrow> io_telemetry) \<Rightarrow> wire_session \<Rightarrow> wire_session" where
  "wire_dropped f s = tally_wire (\<lambda>t. f (t\<lparr>it_frames_dropped := it_frames_dropped t + 1\<rparr>)) s"

text \<open>The counters of an observation.\<close>

definition observed_stats :: "sequence_observation_code \<Rightarrow> channel_telemetry \<Rightarrow> channel_telemetry" where
  "observed_stats code c =
     (let c1 = c\<lparr>ct_frames_observed := ct_frames_observed c + 1\<rparr>
      in case code of
           SOC_kGAP \<Rightarrow> c1\<lparr>ct_sequence_gaps := ct_sequence_gaps c1 + 1\<rparr>
         | SOC_kDUPLICATE \<Rightarrow> c1\<lparr>ct_duplicate_sequences := ct_duplicate_sequences c1 + 1\<rparr>
         | SOC_kSTALE \<Rightarrow> c1\<lparr>ct_stale_sequences := ct_stale_sequences c1 + 1\<rparr>
         | _ \<Rightarrow> c1)"

text \<open>The barrier of a gap of the order-book subscription; \<open>False\<close> when it had to be retained.\<close>

definition raise_gap_barrier :: "market_data_envelope \<Rightarrow> sequence_observation \<Rightarrow> wire_session \<Rightarrow> wire_session \<times> bool" where
  "raise_gap_barrier e obs s =
     (if so_code obs = SOC_kGAP \<and> so_channel obs = Some MC_kORDERBOOK_DELTA
      then let (incident, s1) = wire_incident s
           in send_or_defer_integrity_barrier (PathSubscriptionBarrier \<lparr>sib_universe_version = universe_version_of s,
                sib_incident = incident, sib_sid = env_sid e, sib_expected_sequence = so_expected_sequence obs,
                sib_observed_sequence = so_observed_sequence obs, sib_reason = BIR_kEXCHANGE_SEQUENCE_GAP\<rparr>) s1
      else (s, True))"

text \<open>The sequence number of a frame; \<open>True\<close> when the frame goes on.\<close>

definition observe_frame :: "market_data_envelope \<Rightarrow> wire_session \<Rightarrow> wire_session \<times> market_data_channel option \<times> bool" where
  "observe_frame e s =
     (let (observer, obs) = sid_observe (env_sid e) (env_sequence e) (ws_sequence_observer s);
          s1 = s\<lparr>ws_sequence_observer := observer\<rparr>
      in if so_code obs = SOC_kINACTIVE_SID
         then (wire_dropped (\<lambda>t. t\<lparr>it_stamp_failed := it_stamp_failed t + 1, it_inactive_sid := it_inactive_sid t + 1\<rparr>) s1, so_channel obs, False)
      else let (s2, sent) = raise_gap_barrier e obs (update_channel_telemetry (so_channel obs) (observed_stats (so_code obs)) s1)
      in if \<not> sent then (wire_dropped id s2, so_channel obs, False)
      else if so_code obs = SOC_kDUPLICATE \<or> so_code obs = SOC_kSTALE then (wire_dropped id s2, so_channel obs, False)
      else (s2, so_channel obs, True))"

definition affects_order_book :: "market_data_envelope \<Rightarrow> bool" where
  "affects_order_book e \<longleftrightarrow> env_kind e = FK_kORDERBOOK_SNAPSHOT \<or> env_kind e = FK_kORDERBOOK_DELTA"

definition emit_market_barrier :: "market_data_envelope \<Rightarrow> universe_market_route \<Rightarrow> book_invalidation_reason \<Rightarrow> wire_session \<Rightarrow> wire_session \<times> bool" where
  "emit_market_barrier e route reason s =
     (if \<not> affects_order_book e then (s, True)
      else let (incident, s1) = wire_incident s
           in send_or_defer_integrity_barrier (PathMarketBarrier \<lparr>mib_universe_version = universe_version_of s, mib_incident = incident,
                mib_sid = env_sid e, mib_sequence = env_sequence e, mib_market_id = umr_market_id route, mib_event_id = umr_event_id route,
                mib_shard_index = umr_shard_index route, mib_shard_event_index = umr_shard_event_index route,
                mib_event_market_index = umr_event_market_index route, mib_reason = reason\<rparr>) s1)"

definition fail_correlated_recovery :: "market_data_envelope \<Rightarrow> universe_market_route \<Rightarrow> string \<Rightarrow> wire_session \<Rightarrow> wire_session" where
  "fail_correlated_recovery e route reason s =
     (if env_kind e \<noteq> FK_kORDERBOOK_SNAPSHOT then s
      else case um_find (ws_pending_recovery_by_market s) (umr_market_id route) of
        None \<Rightarrow> s
      | Some tag \<Rightarrow>
          let ctx = \<lparr>rcc_recovery_id = prt_recovery_id tag, rcc_universe_version = prt_universe_version tag, rcc_market_id = umr_market_id route,
                rcc_request_attempt = prt_request_attempt tag\<rparr>
          in wire_send_or_defer_status (request_failed (prt_recovery_id tag) (prt_universe_version tag) (umr_market_id route)
               (prt_request_attempt tag) reason)
               (s\<lparr>ws_pending_recovery_by_market := um_erase (umr_market_id route) (ws_pending_recovery_by_market s),
                  ws_pending_ws_commands := filter (\<lambda>(k, c). pwc_recovery_context c \<noteq> Some ctx) (ws_pending_ws_commands s)\<rparr>))"

definition book_frame_lost :: "market_data_envelope \<Rightarrow> universe_market_route \<Rightarrow> book_invalidation_reason \<Rightarrow> string \<Rightarrow> wire_session \<Rightarrow> wire_session" where
  "book_frame_lost e route reason why s =
     (if affects_order_book e then fail_correlated_recovery e route why (fst (emit_market_barrier e route reason s)) else s)"

text \<open>A slot of the pool, after a second try that first takes handles back.\<close>

definition acquire_frame :: "nat \<Rightarrow> wire_session \<Rightarrow> wire_session \<times> frame_handle option" where
  "acquire_frame padding s =
     (case try_acquire padding (ws_frame_pool s) of
        (p, Some h) \<Rightarrow> (s\<lparr>ws_frame_pool := p\<rparr>, Some h)
      | (p, None) \<Rightarrow>
          let s1 = drain_recycle_queues s
          in (case try_acquire padding (ws_frame_pool s1) of
                (p1, Some h) \<Rightarrow> (s1\<lparr>ws_frame_pool := p1\<rparr>, Some h)
              | (p1, None) \<Rightarrow> (s1, None)))"

text \<open>The frame as it is stored: the payload replaces the beginning of the buffer.\<close>

definition stored_frame :: "u64 \<Rightarrow> u8 list \<Rightarrow> kalshi_frame \<Rightarrow> kalshi_frame" where
  "stored_frame ingress payload f = f\<lparr>kf_recv_ts_ns := ingress, kf_len := of_nat (length payload), kf_flags := 0,
     kf_payload := payload @ drop (length payload) (kf_payload f)\<rparr>"

text \<open>The tag of the recovery a snapshot answers.\<close>

definition recovery_tag :: "market_data_envelope \<Rightarrow> universe_market_route \<Rightarrow> u64 \<Rightarrow> wire_session \<Rightarrow> pending_recovery_tag option" where
  "recovery_tag e route version s =
     (if env_kind e = FK_kORDERBOOK_SNAPSHOT
      then (case um_find (ws_pending_recovery_by_market s) (umr_market_id route) of
              Some tag \<Rightarrow> if prt_universe_version tag = version then Some tag else None
            | None \<Rightarrow> None)
      else None)"

definition hand_to_router ::
  "market_data_channel option \<Rightarrow> market_data_envelope \<Rightarrow> universe_market_route \<Rightarrow> frame_handle \<Rightarrow> pending_recovery_tag option
   \<Rightarrow> wire_session \<Rightarrow> wire_session" where
  "hand_to_router channel e route h tag s =
     (case bq_push (PathFrame h) (ws_router_queue s) of
        (q, False) \<Rightarrow>
          let s1 = update_channel_telemetry channel (\<lambda>c. c\<lparr>ct_downstream_delivery_losses := ct_downstream_delivery_losses c + 1\<rparr>)
                 (tally_wire (\<lambda>t. t\<lparr>it_router_enqueue_failed := it_router_enqueue_failed t + 1\<rparr>) s);
              s2 = (case bq_push h (ws_logger_queue s1) of
                 (lq, False) \<Rightarrow> recycle_handle h (wire_dropped (\<lambda>t. t\<lparr>it_logger_fallback_failed := it_logger_fallback_failed t + 1\<rparr>) s1)
               | (lq, True) \<Rightarrow> update_channel_telemetry channel (\<lambda>c. c\<lparr>ct_logger_only_frames := ct_logger_only_frames c + 1\<rparr>)
                    (tally_wire (\<lambda>t. t\<lparr>it_logger_fallback_enqueued := it_logger_fallback_enqueued t + 1,
                       it_frames_published := it_frames_published t + 1\<rparr>) (s1\<lparr>ws_logger_queue := lq\<rparr>)))
          in book_frame_lost e route BIR_kWIRE_TO_ROUTER_DELIVERY_LOSS ''Recovery snapshot could not be delivered to the router'' s2
      | (q, True) \<Rightarrow>
          let s1 = update_capacity_high_water (s\<lparr>ws_router_queue := q\<rparr>);
              s2 = (case tag of None \<Rightarrow> s1 | Some t \<Rightarrow> erase_tag_if (\<lambda>t'. t' = t) (umr_market_id route) s1)
          in tally_wire (\<lambda>t. t\<lparr>it_frames_published := it_frames_published t + 1\<rparr>) s2)"

definition record_wire_latency :: "frame_handle \<Rightarrow> wire_session \<Rightarrow> wire_session" where
  "record_wire_latency h s =
     (let i = market_data_channel_index (fh_kind h)
      in if i < kMarketDataChannelCount
         then tally_wire (\<lambda>t. t\<lparr>it_wire_service_latency := (it_wire_service_latency t)[i :=
                record_elapsed_ns (fh_ingress_ts_ns h) (fh_wire_publish_ts_ns h) (it_wire_service_latency t ! i)]\<rparr>) s
         else s)"

definition deliver_frame ::
  "nat \<Rightarrow> u8 list \<Rightarrow> u64 \<Rightarrow> market_data_channel option \<Rightarrow> market_data_envelope \<Rightarrow> universe_market_route \<Rightarrow> wire_session \<Rightarrow> wire_session" where
  "deliver_frame padding payload ingress channel e route s =
     (case acquire_frame padding s of
        (s1, None) \<Rightarrow>
          book_frame_lost e route BIR_kWIRE_POOL_EXHAUSTION ''Recovery snapshot dropped because the wire frame pool was exhausted''
            (wire_dropped (\<lambda>t. t\<lparr>it_pool_exhausted := it_pool_exhausted t + 1\<rparr>) s1)
      | (s1, Some h0) \<Rightarrow>
          let s2 = update_capacity_high_water s1
          in (case frame (ws_frame_pool s2) h0 of
                None \<Rightarrow>
                  book_frame_lost e route BIR_kWIRE_POOL_EXHAUSTION ''Recovery snapshot dropped because its frame slot was unavailable''
                    (recycle_handle h0 (wire_dropped (\<lambda>t. t\<lparr>it_missing_frame_slot := it_missing_frame_slot t + 1\<rparr>) s2))
              | Some f \<Rightarrow>
                  let s3 = s2\<lparr>ws_frame_pool := fst (write_frame h0 (stored_frame ingress payload f) (ws_frame_pool s2))\<rparr>;
                      h1 = (stamp_handle h0 e route s3)\<lparr>fh_ingress_ts_ns := ingress\<rparr>;
                      tag = recovery_tag e route (fh_universe_version h1) s3;
                      h2 = (case tag of None \<Rightarrow> h1 | Some t \<Rightarrow> h1\<lparr>fh_recovery_id := prt_recovery_id t\<rparr>);
                      (publish_ts, s4) = wire_now_ns s3;
                      h3 = h2\<lparr>fh_wire_publish_ts_ns := publish_ts\<rparr>;
                      s5 = record_wire_latency h3 s4
                  in hand_to_router channel e route h3 tag s5))"

text \<open>What happens to an envelope that is not delivered.\<close>

definition parse_dropped :: "envelope_parse_code \<Rightarrow> wire_session \<Rightarrow> wire_session" where
  "parse_dropped code s =
     (if code = EPC_kUNSUPPORTED_TYPE then wire_dropped (\<lambda>t. t\<lparr>it_envelope_unsupported_type := it_envelope_unsupported_type t + 1\<rparr>) s
      else if code = EPC_kMISSING_MARKET_TICKER
      then wire_dropped (\<lambda>t. t\<lparr>it_envelope_missing_market_ticker := it_envelope_missing_market_ticker t + 1\<rparr>) s
      else wire_dropped (\<lambda>t. t\<lparr>it_envelope_parse_failed := it_envelope_parse_failed t + 1\<rparr>) s)"

definition route_dropped :: "stamp_handle_code \<Rightarrow> market_data_channel option \<Rightarrow> market_data_envelope \<Rightarrow> wire_session \<Rightarrow> wire_session" where
  "route_dropped code channel e s =
     (let s1 = wire_dropped (\<lambda>t. t\<lparr>it_stamp_failed := it_stamp_failed t + 1\<rparr>) s
      in case code of
        SHC_kUNKNOWN_KIND \<Rightarrow> tally_wire (\<lambda>t. t\<lparr>it_envelope_unsupported_type := it_envelope_unsupported_type t + 1\<rparr>) s1
      | SHC_kEMPTY_MARKET_TICKER \<Rightarrow> tally_wire (\<lambda>t. t\<lparr>it_envelope_missing_market_ticker := it_envelope_missing_market_ticker t + 1\<rparr>) s1
      | SHC_kINACTIVE_SID \<Rightarrow> tally_wire (\<lambda>t. t\<lparr>it_inactive_sid := it_inactive_sid t + 1\<rparr>) s1
      | SHC_kUNKNOWN_MARKET_TICKER \<Rightarrow>
          record_unknown_market_ticker \<lparr>umt_market_ticker = env_market_ticker e, umt_frame_kind = env_kind e, umt_sid = ucast (env_sid e),
              umt_channel = sid_channel (ws_sequence_observer s) (env_sid e)\<rparr>
            (update_channel_telemetry channel (\<lambda>c. c\<lparr>ct_intentionally_filtered := ct_intentionally_filtered c + 1\<rparr>)
              (tally_wire (\<lambda>t. t\<lparr>it_unknown_market_ticker := it_unknown_market_ticker t + 1\<rparr>) s1))
      | SHC_kOK \<Rightarrow> s1)"

text \<open>A frame after its sequence number: it is dropped, or delivered when its market is known.\<close>

definition route_frame_data ::
  "nat \<Rightarrow> u8 list \<Rightarrow> u64 \<Rightarrow> envelope_parse_code \<Rightarrow> market_data_envelope \<Rightarrow> market_data_channel option \<Rightarrow> wire_session \<Rightarrow> wire_session" where
  "route_frame_data padding payload ingress code e channel s =
     (if code \<noteq> EPC_kOK then parse_dropped code s
      else case resolve_market_route e s of
        (SHC_kOK, Some route) \<Rightarrow> deliver_frame padding payload ingress channel e route s
      | (route_code, _) \<Rightarrow> route_dropped route_code channel e s)"

definition publish_market_data_frame :: "('o, 'v) json_api \<Rightarrow> nat \<Rightarrow> u8 list \<Rightarrow> u64 \<Rightarrow> wire_session \<Rightarrow> wire_session" where
  "publish_market_data_frame js padding payload ingress_ts s =
     (let (ingress, s0) = (if ingress_ts = 0 then wire_now_ns s else (ingress_ts, s));
          s1 = tally_wire (\<lambda>t. t\<lparr>it_frames_received := it_frames_received t + 1\<rparr>) s0
      in if length payload > kMaxFrameBytes
         then wire_dropped (\<lambda>t. t\<lparr>it_oversized_frames := it_oversized_frames t + 1\<rparr>) s1
      else let (code, e) = parse_market_data_envelope js payload;
               (s2, channel, go) = (if sequence_available code then observe_frame e s1 else (s1, None, True))
      in if \<not> go then s2 else route_frame_data padding payload ingress code e channel s2)"

section \<open>The transport\<close>

definition classify_incoming_message :: "('o, 'v) json_api \<Rightarrow> u8 list \<Rightarrow> wire_session \<Rightarrow> incoming_message_kind" where
  "classify_incoming_message js payload s =
     (if payload = [] then IMK_kIGNORE
      else if \<not> ja_document js payload then IMK_kMALFORMED
      else case ja_root js payload of
        None \<Rightarrow> IMK_kMALFORMED
      | Some root \<Rightarrow>
      if (case read_uint64 js root ''id'' of None \<Rightarrow> False | Some k \<Rightarrow> um_find (ws_pending_ws_commands s) k \<noteq> None) then IMK_kCONTROL_RESPONSE
      else case read_string js root ''type'' of
        None \<Rightarrow> IMK_kIGNORE
      | Some t \<Rightarrow>
      if t \<in> {''orderbook_delta'', ''orderbook_snapshot'', ''trade'', ''market_lifecycle'', ''market_lifecycle_v2'', ''event_fee_update''}
      then IMK_kMARKET_DATA
      else if t \<in> {''ok'', ''error'', ''subscribed'', ''unsubscribed''} then IMK_kIGNORE
      else if read_uint64 js root ''sid'' \<noteq> None \<and> read_uint64 js root ''seq'' \<noteq> None then IMK_kMARKET_DATA
      else IMK_kIGNORE)"

text \<open>\<open>polled\<close> and \<open>read\<close> are what the transport's \<open>poll\<close> and \<open>recv_text\<close> return.\<close>

definition service_transport_once :: "('o, 'v) json_api \<Rightarrow> nat \<Rightarrow> nat \<Rightarrow> read_result \<Rightarrow> bool \<Rightarrow> wire_session \<Rightarrow> wire_session \<times> bool" where
  "service_transport_once js padding polled read may_consume s =
     (case read of
        RS_kPENDING \<Rightarrow> (s, polled > 0)
      | RS_kCLOSED \<Rightarrow>
          let s1 = clear_transport_subscription_state (s\<lparr>ws_connected := False, ws_last_error := ''websocket closed''\<rparr>)
          in (fst (push_control_status (IoDisconnected (ws_last_error s1)) s1), True)
      | RS_kERROR \<Rightarrow> let (s1, err) = transport_error s in (report_fault (''websocket receive failed: '' @ err) s1, True)
      | RS_kMESSAGE payload \<Rightarrow>
          if \<not> may_consume then (s, polled > 0)
          else let (ingress, s1) = wire_now_ns s;
                   s2 = (case classify_incoming_message js payload s1 of
                      IMK_kIGNORE \<Rightarrow> s1
                    | IMK_kCONTROL_RESPONSE \<Rightarrow> handle_ws_control_response js payload s1
                    | IMK_kMARKET_DATA \<Rightarrow> publish_market_data_frame js padding payload ingress s1
                    | IMK_kMALFORMED \<Rightarrow> report_fault ''Malformed websocket message received'' s1)
          in (if ws_connected s2 then s2\<lparr>ws_calls := ws_calls s2 @ [TC_Consume]\<rparr> else s2, True))"

text \<open>One round of \<open>run\<close>, and the end of it.\<close>

definition wire_round :: "('o, 'v) json_api \<Rightarrow> nat \<Rightarrow> nat \<Rightarrow> read_result \<Rightarrow> wire_session \<Rightarrow> wire_session" where
  "wire_round js padding polled read s =
     (let s1 = drain_recycle_queues s;
          (s2, flushed) = flush_pending_recovery_statuses s1;
          (s3, flushed') = (if flushed then flush_pending_recovery_statuses (wire_drain_control_commands s2) else (s2, False));
          (s4, barrier_flushed) = flush_pending_integrity_barrier s3;
          s5 = (if ws_connected s4 then fst (service_transport_once js padding polled read (flushed' \<and> barrier_flushed) s4) else s4)
      in wire_maybe_send_telemetry s5)"

definition wire_stop :: "wire_session \<Rightarrow> wire_session" where
  "wire_stop s =
     wire_maybe_send_telemetry (fst (flush_pending_recovery_statuses (fst (flush_pending_integrity_barrier
       (drain_recycle_queues (wire_disconnect ''wire session stopped'' s))))))"

end
