(* ===== verification/Wire_Stream.thy ===== *)
theory Wire_Stream
  imports Wire_Handlers
begin

text \<open>
  What the wire session tells the router: the messages in the queue, followed by the barrier that is retained while the
  queue is full. A barrier is never overtaken, and a frame of an order book is never lost without one.
\<close>

section \<open>What the helpers leave alone\<close>

named_theorems wire_frame

lemma channel_telemetry_frame [wire_frame]:
  "ws_router_queue (update_channel_telemetry c f s) = ws_router_queue s"
  "ws_pending_integrity_barrier (update_channel_telemetry c f s) = ws_pending_integrity_barrier s"
  "ws_desired_universe (update_channel_telemetry c f s) = ws_desired_universe s"
  "ws_next_wire_incident_id (update_channel_telemetry c f s) = ws_next_wire_incident_id s"
  "ws_frame_pool (update_channel_telemetry c f s) = ws_frame_pool s"
  "ws_logger_queue (update_channel_telemetry c f s) = ws_logger_queue s"
  "ws_pending_recovery_by_market (update_channel_telemetry c f s) = ws_pending_recovery_by_market s"
  "ws_sequence_observer (update_channel_telemetry c f s) = ws_sequence_observer s"
  "ws_market_route_by_ticker (update_channel_telemetry c f s) = ws_market_route_by_ticker s"
  "ws_market_route_by_id (update_channel_telemetry c f s) = ws_market_route_by_id s"
  by (simp_all add: update_channel_telemetry_def Let_def split: option.split)

lemma high_water_frame [wire_frame]:
  "ws_router_queue (update_capacity_high_water s) = ws_router_queue s"
  "ws_pending_integrity_barrier (update_capacity_high_water s) = ws_pending_integrity_barrier s"
  "ws_desired_universe (update_capacity_high_water s) = ws_desired_universe s"
  "ws_next_wire_incident_id (update_capacity_high_water s) = ws_next_wire_incident_id s"
  "ws_frame_pool (update_capacity_high_water s) = ws_frame_pool s"
  "ws_logger_queue (update_capacity_high_water s) = ws_logger_queue s"
  "ws_pending_recovery_by_market (update_capacity_high_water s) = ws_pending_recovery_by_market s"
  "ws_sequence_observer (update_capacity_high_water s) = ws_sequence_observer s"
  "ws_market_route_by_ticker (update_capacity_high_water s) = ws_market_route_by_ticker s"
  "ws_market_route_by_id (update_capacity_high_water s) = ws_market_route_by_id s"
  by (simp_all add: update_capacity_high_water_def)

lemma dropped_frame [wire_frame]:
  "ws_router_queue (wire_dropped f s) = ws_router_queue s"
  "ws_pending_integrity_barrier (wire_dropped f s) = ws_pending_integrity_barrier s"
  "ws_desired_universe (wire_dropped f s) = ws_desired_universe s"
  "ws_next_wire_incident_id (wire_dropped f s) = ws_next_wire_incident_id s"
  "ws_frame_pool (wire_dropped f s) = ws_frame_pool s"
  "ws_logger_queue (wire_dropped f s) = ws_logger_queue s"
  "ws_pending_recovery_by_market (wire_dropped f s) = ws_pending_recovery_by_market s"
  "ws_sequence_observer (wire_dropped f s) = ws_sequence_observer s"
  "ws_market_route_by_ticker (wire_dropped f s) = ws_market_route_by_ticker s"
  "ws_market_route_by_id (wire_dropped f s) = ws_market_route_by_id s"
  by (simp_all add: wire_dropped_def)

lemma push_status_frame [wire_frame]:
  "ws_router_queue (fst (push_control_status m s)) = ws_router_queue s"
  "ws_pending_integrity_barrier (fst (push_control_status m s)) = ws_pending_integrity_barrier s"
  "ws_desired_universe (fst (push_control_status m s)) = ws_desired_universe s"
  "ws_next_wire_incident_id (fst (push_control_status m s)) = ws_next_wire_incident_id s"
  "ws_frame_pool (fst (push_control_status m s)) = ws_frame_pool s"
  "ws_logger_queue (fst (push_control_status m s)) = ws_logger_queue s"
  "ws_pending_recovery_by_market (fst (push_control_status m s)) = ws_pending_recovery_by_market s"
  "ws_sequence_observer (fst (push_control_status m s)) = ws_sequence_observer s"
  "ws_market_route_by_ticker (fst (push_control_status m s)) = ws_market_route_by_ticker s"
  "ws_market_route_by_id (fst (push_control_status m s)) = ws_market_route_by_id s"
  by (simp_all add: push_control_status_def case_prod_beta Let_def)

lemma count_status_frame [wire_frame]:
  "ws_router_queue (count_recovery_status m s) = ws_router_queue s"
  "ws_pending_integrity_barrier (count_recovery_status m s) = ws_pending_integrity_barrier s"
  "ws_desired_universe (count_recovery_status m s) = ws_desired_universe s"
  "ws_next_wire_incident_id (count_recovery_status m s) = ws_next_wire_incident_id s"
  "ws_frame_pool (count_recovery_status m s) = ws_frame_pool s"
  "ws_logger_queue (count_recovery_status m s) = ws_logger_queue s"
  "ws_pending_recovery_by_market (count_recovery_status m s) = ws_pending_recovery_by_market s"
  "ws_sequence_observer (count_recovery_status m s) = ws_sequence_observer s"
  "ws_market_route_by_ticker (count_recovery_status m s) = ws_market_route_by_ticker s"
  "ws_market_route_by_id (count_recovery_status m s) = ws_market_route_by_id s"
  by (simp_all add: count_recovery_status_def split: io_to_control_status.split)

lemma defer_status_frame [wire_frame]:
  "ws_router_queue (wire_send_or_defer_status m s) = ws_router_queue s"
  "ws_pending_integrity_barrier (wire_send_or_defer_status m s) = ws_pending_integrity_barrier s"
  "ws_desired_universe (wire_send_or_defer_status m s) = ws_desired_universe s"
  "ws_next_wire_incident_id (wire_send_or_defer_status m s) = ws_next_wire_incident_id s"
  "ws_frame_pool (wire_send_or_defer_status m s) = ws_frame_pool s"
  "ws_logger_queue (wire_send_or_defer_status m s) = ws_logger_queue s"
  "ws_pending_recovery_by_market (wire_send_or_defer_status m s) = ws_pending_recovery_by_market s"
  "ws_sequence_observer (wire_send_or_defer_status m s) = ws_sequence_observer s"
  "ws_market_route_by_ticker (wire_send_or_defer_status m s) = ws_market_route_by_ticker s"
  "ws_market_route_by_id (wire_send_or_defer_status m s) = ws_market_route_by_id s"
  by (simp_all add: wire_send_or_defer_status_def Let_def wire_frame case_prod_beta split: bool.split)

lemma recycle_handle_frame [wire_frame]:
  "ws_router_queue (recycle_handle h s) = ws_router_queue s"
  "ws_pending_integrity_barrier (recycle_handle h s) = ws_pending_integrity_barrier s"
  "ws_desired_universe (recycle_handle h s) = ws_desired_universe s"
  "ws_next_wire_incident_id (recycle_handle h s) = ws_next_wire_incident_id s"
  "ws_logger_queue (recycle_handle h s) = ws_logger_queue s"
  "ws_pending_recovery_by_market (recycle_handle h s) = ws_pending_recovery_by_market s"
  "ws_sequence_observer (recycle_handle h s) = ws_sequence_observer s"
  "ws_market_route_by_ticker (recycle_handle h s) = ws_market_route_by_ticker s"
  "ws_market_route_by_id (recycle_handle h s) = ws_market_route_by_id s"
  by (simp_all add: recycle_handle_def case_prod_beta split: bool.split)

lemma drain_recycle_frame [wire_frame]:
  "ws_router_queue (drain_recycle_queues s) = ws_router_queue s"
  "ws_pending_integrity_barrier (drain_recycle_queues s) = ws_pending_integrity_barrier s"
  "ws_desired_universe (drain_recycle_queues s) = ws_desired_universe s"
  "ws_next_wire_incident_id (drain_recycle_queues s) = ws_next_wire_incident_id s"
  "ws_logger_queue (drain_recycle_queues s) = ws_logger_queue s"
  "ws_pending_recovery_by_market (drain_recycle_queues s) = ws_pending_recovery_by_market s"
  "ws_sequence_observer (drain_recycle_queues s) = ws_sequence_observer s"
  "ws_market_route_by_ticker (drain_recycle_queues s) = ws_market_route_by_ticker s"
  "ws_market_route_by_id (drain_recycle_queues s) = ws_market_route_by_id s"
  by (simp_all add: drain_recycle_queues_def Let_def case_prod_beta)

lemma unknown_ticker_frame [wire_frame]:
  "ws_router_queue (record_unknown_market_ticker x s) = ws_router_queue s"
  "ws_pending_integrity_barrier (record_unknown_market_ticker x s) = ws_pending_integrity_barrier s"
  "ws_desired_universe (record_unknown_market_ticker x s) = ws_desired_universe s"
  "ws_next_wire_incident_id (record_unknown_market_ticker x s) = ws_next_wire_incident_id s"
  "ws_frame_pool (record_unknown_market_ticker x s) = ws_frame_pool s"
  "ws_logger_queue (record_unknown_market_ticker x s) = ws_logger_queue s"
  "ws_pending_recovery_by_market (record_unknown_market_ticker x s) = ws_pending_recovery_by_market s"
  "ws_sequence_observer (record_unknown_market_ticker x s) = ws_sequence_observer s"
  "ws_market_route_by_ticker (record_unknown_market_ticker x s) = ws_market_route_by_ticker s"
  "ws_market_route_by_id (record_unknown_market_ticker x s) = ws_market_route_by_id s"
  by (simp_all add: record_unknown_market_ticker_def Let_def)

lemma wire_now_frame [wire_frame]:
  "ws_router_queue (snd (wire_now_ns s)) = ws_router_queue s"
  "ws_pending_integrity_barrier (snd (wire_now_ns s)) = ws_pending_integrity_barrier s"
  "ws_desired_universe (snd (wire_now_ns s)) = ws_desired_universe s"
  "ws_next_wire_incident_id (snd (wire_now_ns s)) = ws_next_wire_incident_id s"
  "ws_frame_pool (snd (wire_now_ns s)) = ws_frame_pool s"
  "ws_logger_queue (snd (wire_now_ns s)) = ws_logger_queue s"
  "ws_pending_recovery_by_market (snd (wire_now_ns s)) = ws_pending_recovery_by_market s"
  "ws_sequence_observer (snd (wire_now_ns s)) = ws_sequence_observer s"
  "ws_market_route_by_ticker (snd (wire_now_ns s)) = ws_market_route_by_ticker s"
  "ws_market_route_by_id (snd (wire_now_ns s)) = ws_market_route_by_id s"
  by (simp_all add: wire_now_ns_def)

lemma latency_frame [wire_frame]:
  "ws_router_queue (record_wire_latency h s) = ws_router_queue s"
  "ws_pending_integrity_barrier (record_wire_latency h s) = ws_pending_integrity_barrier s"
  "ws_desired_universe (record_wire_latency h s) = ws_desired_universe s"
  "ws_next_wire_incident_id (record_wire_latency h s) = ws_next_wire_incident_id s"
  "ws_frame_pool (record_wire_latency h s) = ws_frame_pool s"
  "ws_logger_queue (record_wire_latency h s) = ws_logger_queue s"
  "ws_pending_recovery_by_market (record_wire_latency h s) = ws_pending_recovery_by_market s"
  "ws_sequence_observer (record_wire_latency h s) = ws_sequence_observer s"
  "ws_market_route_by_ticker (record_wire_latency h s) = ws_market_route_by_ticker s"
  "ws_market_route_by_id (record_wire_latency h s) = ws_market_route_by_id s"
  by (simp_all add: record_wire_latency_def Let_def)

lemma erase_tag_frame [wire_frame]:
  "ws_router_queue (erase_tag_if P m s) = ws_router_queue s"
  "ws_pending_integrity_barrier (erase_tag_if P m s) = ws_pending_integrity_barrier s"
  "ws_desired_universe (erase_tag_if P m s) = ws_desired_universe s"
  "ws_next_wire_incident_id (erase_tag_if P m s) = ws_next_wire_incident_id s"
  "ws_frame_pool (erase_tag_if P m s) = ws_frame_pool s"
  "ws_logger_queue (erase_tag_if P m s) = ws_logger_queue s"
  "ws_sequence_observer (erase_tag_if P m s) = ws_sequence_observer s"
  "ws_market_route_by_ticker (erase_tag_if P m s) = ws_market_route_by_ticker s"
  "ws_market_route_by_id (erase_tag_if P m s) = ws_market_route_by_id s"
  by (simp_all add: erase_tag_if_def split: option.split)

lemma fail_recovery_frame [wire_frame]:
  "ws_router_queue (fail_correlated_recovery e r w s) = ws_router_queue s"
  "ws_pending_integrity_barrier (fail_correlated_recovery e r w s) = ws_pending_integrity_barrier s"
  "ws_desired_universe (fail_correlated_recovery e r w s) = ws_desired_universe s"
  "ws_next_wire_incident_id (fail_correlated_recovery e r w s) = ws_next_wire_incident_id s"
  "ws_frame_pool (fail_correlated_recovery e r w s) = ws_frame_pool s"
  "ws_logger_queue (fail_correlated_recovery e r w s) = ws_logger_queue s"
  "ws_sequence_observer (fail_correlated_recovery e r w s) = ws_sequence_observer s"
  "ws_market_route_by_ticker (fail_correlated_recovery e r w s) = ws_market_route_by_ticker s"
  "ws_market_route_by_id (fail_correlated_recovery e r w s) = ws_market_route_by_id s"
  by (simp_all add: fail_correlated_recovery_def Let_def wire_frame split: option.split)

lemma acquire_frame [wire_frame]:
  "ws_router_queue (fst (acquire_frame padding s)) = ws_router_queue s"
  "ws_pending_integrity_barrier (fst (acquire_frame padding s)) = ws_pending_integrity_barrier s"
  "ws_desired_universe (fst (acquire_frame padding s)) = ws_desired_universe s"
  "ws_next_wire_incident_id (fst (acquire_frame padding s)) = ws_next_wire_incident_id s"
  "ws_logger_queue (fst (acquire_frame padding s)) = ws_logger_queue s"
  "ws_pending_recovery_by_market (fst (acquire_frame padding s)) = ws_pending_recovery_by_market s"
  "ws_sequence_observer (fst (acquire_frame padding s)) = ws_sequence_observer s"
  "ws_market_route_by_ticker (fst (acquire_frame padding s)) = ws_market_route_by_ticker s"
  "ws_market_route_by_id (fst (acquire_frame padding s)) = ws_market_route_by_id s"
  by (simp_all add: acquire_frame_def Let_def case_prod_beta wire_frame split: option.split)

lemma parse_dropped_frame [wire_frame]:
  "ws_router_queue (parse_dropped c s) = ws_router_queue s"
  "ws_pending_integrity_barrier (parse_dropped c s) = ws_pending_integrity_barrier s"
  "ws_desired_universe (parse_dropped c s) = ws_desired_universe s"
  "ws_next_wire_incident_id (parse_dropped c s) = ws_next_wire_incident_id s"
  "ws_frame_pool (parse_dropped c s) = ws_frame_pool s"
  "ws_logger_queue (parse_dropped c s) = ws_logger_queue s"
  "ws_pending_recovery_by_market (parse_dropped c s) = ws_pending_recovery_by_market s"
  "ws_sequence_observer (parse_dropped c s) = ws_sequence_observer s"
  "ws_market_route_by_ticker (parse_dropped c s) = ws_market_route_by_ticker s"
  "ws_market_route_by_id (parse_dropped c s) = ws_market_route_by_id s"
  by (simp_all add: parse_dropped_def wire_frame)

lemma route_dropped_frame [wire_frame]:
  "ws_router_queue (route_dropped k c e s) = ws_router_queue s"
  "ws_pending_integrity_barrier (route_dropped k c e s) = ws_pending_integrity_barrier s"
  "ws_desired_universe (route_dropped k c e s) = ws_desired_universe s"
  "ws_next_wire_incident_id (route_dropped k c e s) = ws_next_wire_incident_id s"
  "ws_frame_pool (route_dropped k c e s) = ws_frame_pool s"
  "ws_logger_queue (route_dropped k c e s) = ws_logger_queue s"
  "ws_pending_recovery_by_market (route_dropped k c e s) = ws_pending_recovery_by_market s"
  "ws_sequence_observer (route_dropped k c e s) = ws_sequence_observer s"
  "ws_market_route_by_ticker (route_dropped k c e s) = ws_market_route_by_ticker s"
  "ws_market_route_by_id (route_dropped k c e s) = ws_market_route_by_id s"
  by (simp_all add: route_dropped_def Let_def wire_frame split: stamp_handle_code.split)

section \<open>The stream to the router\<close>

definition stream :: "wire_session \<Rightarrow> market_data_path_message list" where
  "stream s = bq_items (ws_router_queue s) @ (case ws_pending_integrity_barrier s of None \<Rightarrow> [] | Some b \<Rightarrow> [b])"

definition calm :: "wire_session \<Rightarrow> wire_session \<Rightarrow> bool" where
  "calm s s' \<longleftrightarrow> ws_router_queue s' = ws_router_queue s \<and> ws_pending_integrity_barrier s' = ws_pending_integrity_barrier s"

lemma calm_stream: "calm s s' \<Longrightarrow> stream s' = stream s"
  by (simp add: calm_def stream_def)

lemma send_barrier:
  assumes "ws_pending_integrity_barrier s = None"
  shows "stream (fst (send_or_defer_integrity_barrier b s)) = stream s @ [b]"
    and "snd (send_or_defer_integrity_barrier b s) \<longleftrightarrow> ws_pending_integrity_barrier (fst (send_or_defer_integrity_barrier b s)) = None"
    and "ws_pending_integrity_barrier (fst (send_or_defer_integrity_barrier b s)) \<in> {None, Some b}"
proof -
  consider q where "bq_push b (ws_router_queue s) = (q, True)" "bq_items q = bq_items (ws_router_queue s) @ [b]"
    | "bq_push b (ws_router_queue s) = (ws_router_queue s, False)" by (cases rule: bq_push_cases [of b "ws_router_queue s"]) simp_all
  then have "stream (fst (send_or_defer_integrity_barrier b s)) = stream s @ [b]
    \<and> (snd (send_or_defer_integrity_barrier b s) \<longleftrightarrow> ws_pending_integrity_barrier (fst (send_or_defer_integrity_barrier b s)) = None)
    \<and> ws_pending_integrity_barrier (fst (send_or_defer_integrity_barrier b s)) \<in> {None, Some b}"
    using assms by cases (simp_all add: send_or_defer_integrity_barrier_def stream_def wire_frame)
  then show "stream (fst (send_or_defer_integrity_barrier b s)) = stream s @ [b]"
    "snd (send_or_defer_integrity_barrier b s) \<longleftrightarrow> ws_pending_integrity_barrier (fst (send_or_defer_integrity_barrier b s)) = None"
    "ws_pending_integrity_barrier (fst (send_or_defer_integrity_barrier b s)) \<in> {None, Some b}" by simp_all
qed

lemma send_barrier_frame:
  "ws_desired_universe (fst (send_or_defer_integrity_barrier b s)) = ws_desired_universe s"
  "ws_sequence_observer (fst (send_or_defer_integrity_barrier b s)) = ws_sequence_observer s"
  "ws_market_route_by_ticker (fst (send_or_defer_integrity_barrier b s)) = ws_market_route_by_ticker s"
  "ws_pending_recovery_by_market (fst (send_or_defer_integrity_barrier b s)) = ws_pending_recovery_by_market s"
  "ws_frame_pool (fst (send_or_defer_integrity_barrier b s)) = ws_frame_pool s"
  "ws_logger_queue (fst (send_or_defer_integrity_barrier b s)) = ws_logger_queue s"
  by (simp_all add: send_or_defer_integrity_barrier_def wire_frame case_prod_beta split: bool.split)

text \<open>The barrier of a sequence gap.\<close>

definition gap_barrier :: "market_data_envelope \<Rightarrow> wire_session \<Rightarrow> market_data_path_message list" where
  "gap_barrier e s = (let obs = snd (sid_observe (env_sid e) (env_sequence e) (ws_sequence_observer s)) in
     if so_code obs = SOC_kGAP \<and> so_channel obs = Some MC_kORDERBOOK_DELTA
     then [PathSubscriptionBarrier \<lparr>sib_universe_version = universe_version_of s,
             sib_incident = \<lparr>iik_origin = IIO_kWIRE_SESSION, iik_producer_index = 0, iik_incident_id = ws_next_wire_incident_id s\<rparr>,
             sib_sid = env_sid e, sib_expected_sequence = so_expected_sequence obs, sib_observed_sequence = so_observed_sequence obs,
             sib_reason = BIR_kEXCHANGE_SEQUENCE_GAP\<rparr>]
     else [])"

lemma raise_gap_frame:
  "ws_desired_universe (fst (raise_gap_barrier e obs s)) = ws_desired_universe s"
  "ws_sequence_observer (fst (raise_gap_barrier e obs s)) = ws_sequence_observer s"
  "ws_market_route_by_ticker (fst (raise_gap_barrier e obs s)) = ws_market_route_by_ticker s"
  "ws_pending_recovery_by_market (fst (raise_gap_barrier e obs s)) = ws_pending_recovery_by_market s"
  "ws_frame_pool (fst (raise_gap_barrier e obs s)) = ws_frame_pool s"
  "ws_logger_queue (fst (raise_gap_barrier e obs s)) = ws_logger_queue s"
  by (simp_all add: raise_gap_barrier_def wire_incident_def send_barrier_frame)

lemma raise_gap_stream:
  assumes "ws_pending_integrity_barrier t = None" "ws_desired_universe t = ws_desired_universe s"
    "ws_next_wire_incident_id t = ws_next_wire_incident_id s" "obs = snd (sid_observe (env_sid e) (env_sequence e) (ws_sequence_observer s))"
  shows "stream (fst (raise_gap_barrier e obs t)) = stream t @ gap_barrier e s"
    and "snd (raise_gap_barrier e obs t) \<longleftrightarrow> ws_pending_integrity_barrier (fst (raise_gap_barrier e obs t)) = None"
proof -
  let ?t = "t\<lparr>ws_next_wire_incident_id := ws_next_wire_incident_id t + 1\<rparr>"
  have "ws_pending_integrity_barrier ?t = None" "stream ?t = stream t" using assms(1) by (simp_all add: stream_def)
  moreover have "universe_version_of t = universe_version_of s" using assms(2) by (simp add: universe_version_of_def)
  ultimately show "stream (fst (raise_gap_barrier e obs t)) = stream t @ gap_barrier e s"
    "snd (raise_gap_barrier e obs t) \<longleftrightarrow> ws_pending_integrity_barrier (fst (raise_gap_barrier e obs t)) = None"
    using assms(1,3,4) by (simp_all add: raise_gap_barrier_def gap_barrier_def wire_incident_def send_barrier Let_def)
qed

lemma stream_dropped [simp]: "stream (wire_dropped f s) = stream s"
  by (simp add: stream_def wire_frame)

lemma observe_frame_stream:
  assumes "ws_pending_integrity_barrier s = None" "observe_frame e s = (s', channel, go)"
  shows "stream s' = stream s @ gap_barrier e s"
    and "go \<Longrightarrow> ws_pending_integrity_barrier s' = None"
    and "ws_desired_universe s' = ws_desired_universe s" "ws_market_route_by_ticker s' = ws_market_route_by_ticker s"
    and "ws_sequence_observer s' = fst (sid_observe (env_sid e) (env_sequence e) (ws_sequence_observer s))"
    and "ws_pending_recovery_by_market s' = ws_pending_recovery_by_market s"
    and "ws_frame_pool s' = ws_frame_pool s"
    and "go \<longleftrightarrow> so_code (snd (sid_observe (env_sid e) (env_sequence e) (ws_sequence_observer s))) \<in> {SOC_kFIRST, SOC_kCONTIGUOUS, SOC_kGAP}
      \<and> ws_pending_integrity_barrier s' = None"
proof -
  obtain observer obs where o: "sid_observe (env_sid e) (env_sequence e) (ws_sequence_observer s) = (observer, obs)" by fastforce
  define s1 where "s1 = s\<lparr>ws_sequence_observer := observer\<rparr>"
  define t where "t = update_channel_telemetry (so_channel obs) (observed_stats (so_code obs)) s1"
  define r where "r = raise_gap_barrier e obs t"
  have t: "ws_pending_integrity_barrier t = None" "stream t = stream s" "ws_desired_universe t = ws_desired_universe s"
    "ws_market_route_by_ticker t = ws_market_route_by_ticker s" "ws_sequence_observer t = observer"
    "ws_pending_recovery_by_market t = ws_pending_recovery_by_market s" "ws_next_wire_incident_id t = ws_next_wire_incident_id s"
    "ws_frame_pool t = ws_frame_pool s"
    using assms(1) by (simp_all add: t_def s1_def wire_frame stream_def)
  have s1: "stream s1 = stream s" "ws_desired_universe s1 = ws_desired_universe s" "ws_market_route_by_ticker s1 = ws_market_route_by_ticker s"
    "ws_sequence_observer s1 = observer" "ws_pending_recovery_by_market s1 = ws_pending_recovery_by_market s" "ws_frame_pool s1 = ws_frame_pool s"
    by (simp_all add: s1_def stream_def)
  have "obs = snd (sid_observe (env_sid e) (env_sequence e) (ws_sequence_observer s))" by (simp add: o)
  note rs = raise_gap_stream [OF t(1,3,7) this, folded r_def] and rf = raise_gap_frame [of e obs t, folded r_def]
  have run: "observe_frame e s = (if so_code obs = SOC_kINACTIVE_SID
      then (wire_dropped (\<lambda>t. t\<lparr>it_stamp_failed := it_stamp_failed t + 1, it_inactive_sid := it_inactive_sid t + 1\<rparr>) s1, so_channel obs, False)
      else if \<not> snd r then (wire_dropped id (fst r), so_channel obs, False)
      else if so_code obs = SOC_kDUPLICATE \<or> so_code obs = SOC_kSTALE then (wire_dropped id (fst r), so_channel obs, False)
      else (fst r, so_channel obs, True))"
    by (simp add: observe_frame_def o Let_def s1_def [symmetric] t_def [symmetric] r_def [symmetric] case_prod_beta)
  have inactive: "gap_barrier e s = []" if "so_code obs = SOC_kINACTIVE_SID" using that by (simp add: gap_barrier_def o)
  show "stream s' = stream s @ gap_barrier e s" "ws_desired_universe s' = ws_desired_universe s"
    "ws_market_route_by_ticker s' = ws_market_route_by_ticker s"
    "ws_sequence_observer s' = fst (sid_observe (env_sid e) (env_sequence e) (ws_sequence_observer s))"
    "ws_pending_recovery_by_market s' = ws_pending_recovery_by_market s" "ws_frame_pool s' = ws_frame_pool s"
    using assms(2) run rs(1) rf s1 t inactive by (auto simp: o wire_frame split: if_splits)
  show "ws_pending_integrity_barrier s' = None" if go using that assms(2) run rs(2) by (auto split: if_splits)
  show "go \<longleftrightarrow> so_code (snd (sid_observe (env_sid e) (env_sequence e) (ws_sequence_observer s))) \<in> {SOC_kFIRST, SOC_kCONTIGUOUS, SOC_kGAP}
      \<and> ws_pending_integrity_barrier s' = None"
    using assms(2) run rs(2) by (cases "so_code obs") (auto simp: o wire_frame split: if_splits)
qed

text \<open>A barrier that waits after the observation is the one of the gap.\<close>

lemma observe_frame_pending:
  assumes "ws_pending_integrity_barrier s = None" "observe_frame e s = (s', channel, go)" "ws_pending_integrity_barrier s' \<noteq> None"
  shows "gap_barrier e s \<noteq> [] \<and> ws_pending_integrity_barrier s' = Some (hd (gap_barrier e s))"
proof -
  obtain observer obs where o: "sid_observe (env_sid e) (env_sequence e) (ws_sequence_observer s) = (observer, obs)" by fastforce
  define t where "t = update_channel_telemetry (so_channel obs) (observed_stats (so_code obs)) (s\<lparr>ws_sequence_observer := observer\<rparr>)"
  let ?t = "t\<lparr>ws_next_wire_incident_id := ws_next_wire_incident_id t + 1\<rparr>"
  have t: "ws_pending_integrity_barrier ?t = None" "universe_version_of t = universe_version_of s" "ws_next_wire_incident_id t = ws_next_wire_incident_id s"
    using assms(1) by (simp_all add: t_def wire_frame universe_version_of_def)
  have "ws_pending_integrity_barrier s' = ws_pending_integrity_barrier (fst (raise_gap_barrier e obs t)) \<or> ws_pending_integrity_barrier s' = None"
    using assms(1,2) by (auto simp: observe_frame_def o Let_def t_def [symmetric] case_prod_beta wire_frame split: if_splits)
  then have p: "ws_pending_integrity_barrier s' = ws_pending_integrity_barrier (fst (raise_gap_barrier e obs t))" using assms(3) by auto
  then have "so_code obs = SOC_kGAP \<and> so_channel obs = Some MC_kORDERBOOK_DELTA"
    using assms(3) t(1) by (auto simp: raise_gap_barrier_def split: if_splits)
  then have g: "raise_gap_barrier e obs t = send_or_defer_integrity_barrier (hd (gap_barrier e s)) ?t" "gap_barrier e s \<noteq> []"
    using t(2,3) by (simp_all add: raise_gap_barrier_def gap_barrier_def o wire_incident_def Let_def)
  then show ?thesis using send_barrier(3) [OF t(1), of "hd (gap_barrier e s)"] p assms(3) by auto
qed

text \<open>The barrier of a market.\<close>

definition market_barrier :: "market_data_envelope \<Rightarrow> universe_market_route \<Rightarrow> book_invalidation_reason \<Rightarrow> wire_session \<Rightarrow> market_invalidation_barrier" where
  "market_barrier e route reason s = \<lparr>mib_universe_version = universe_version_of s,
     mib_incident = \<lparr>iik_origin = IIO_kWIRE_SESSION, iik_producer_index = 0, iik_incident_id = ws_next_wire_incident_id s\<rparr>,
     mib_sid = env_sid e, mib_sequence = env_sequence e, mib_market_id = umr_market_id route, mib_event_id = umr_event_id route,
     mib_shard_index = umr_shard_index route, mib_shard_event_index = umr_shard_event_index route,
     mib_event_market_index = umr_event_market_index route, mib_reason = reason\<rparr>"

lemma book_frame_lost_stream:
  assumes "ws_pending_integrity_barrier s = None"
  shows "stream (book_frame_lost e route reason why s) =
    stream s @ (if affects_order_book e then [PathMarketBarrier (market_barrier e route reason s)] else [])"
proof -
  let ?s = "s\<lparr>ws_next_wire_incident_id := ws_next_wire_incident_id s + 1\<rparr>"
  have s: "ws_pending_integrity_barrier ?s = None" "stream ?s = stream s" using assms by (simp_all add: stream_def)
  have "stream (fail_correlated_recovery e route why x) = stream x" for x by (simp add: stream_def wire_frame)
  then show ?thesis
    by (simp add: book_frame_lost_def emit_market_barrier_def wire_incident_def send_barrier(1) [OF s(1)] s(2) market_barrier_def)
qed

text \<open>What a frame and a barrier for it say.\<close>

definition frame_of :: "market_data_envelope \<Rightarrow> universe_market_route \<Rightarrow> wire_session \<Rightarrow> market_data_path_message \<Rightarrow> bool" where
  "frame_of e route s m \<longleftrightarrow> (\<exists>h. m = PathFrame h \<and> fh_universe_version h = universe_version_of s \<and> fh_sequence h = env_sequence e
     \<and> fh_sid h = env_sid e \<and> fh_kind h = env_kind e \<and> fh_market_id h = umr_market_id route \<and> fh_event_id h = umr_event_id route
     \<and> fh_shard_index h = umr_shard_index route \<and> fh_shard_event_index h = umr_shard_event_index route
     \<and> fh_event_market_index h = umr_event_market_index route
     \<and> fh_recovery_id h = (case recovery_tag e route (universe_version_of s) s of None \<Rightarrow> 0 | Some t \<Rightarrow> prt_recovery_id t))"

definition barrier_of :: "market_data_envelope \<Rightarrow> universe_market_route \<Rightarrow> wire_session \<Rightarrow> market_data_path_message \<Rightarrow> bool" where
  "barrier_of e route s m \<longleftrightarrow> (\<exists>b. m = PathMarketBarrier b \<and> mib_universe_version b = universe_version_of s \<and> mib_sequence b = env_sequence e
     \<and> mib_sid b = env_sid e \<and> mib_market_id b = umr_market_id route \<and> mib_event_id b = umr_event_id route
     \<and> mib_shard_index b = umr_shard_index route \<and> mib_shard_event_index b = umr_shard_event_index route
     \<and> mib_event_market_index b = umr_event_market_index route \<and> mib_reason b \<noteq> BIR_kNONE)"

lemma barrier_of_market_barrier:
  "universe_version_of t = universe_version_of s \<Longrightarrow> reason \<noteq> BIR_kNONE \<Longrightarrow> barrier_of e route s (PathMarketBarrier (market_barrier e route reason t))"
  by (simp add: barrier_of_def market_barrier_def)

section \<open>Delivering a frame\<close>

text \<open>Where the handle of an acquired slot goes: the router, the logger, or back to the pool.\<close>

lemma version_frame: "ws_desired_universe t = ws_desired_universe s \<Longrightarrow> universe_version_of t = universe_version_of s"
  by (simp add: universe_version_of_def)

lemma hand_to_router_cases:
  assumes "ws_pending_integrity_barrier s = None"
  obtains (router) "stream (hand_to_router channel e route h tag s) = stream s @ [PathFrame h]"
      "ws_pending_integrity_barrier (hand_to_router channel e route h tag s) = None"
      "ws_frame_pool (hand_to_router channel e route h tag s) = ws_frame_pool s"
      "ws_logger_queue (hand_to_router channel e route h tag s) = ws_logger_queue s"
    | (logger) t where "stream (hand_to_router channel e route h tag s) = stream s @
          (if affects_order_book e then [PathMarketBarrier (market_barrier e route BIR_kWIRE_TO_ROUTER_DELIVERY_LOSS t)] else [])"
      "universe_version_of t = universe_version_of s" "ws_frame_pool (hand_to_router channel e route h tag s) = ws_frame_pool s"
      "bq_items (ws_logger_queue (hand_to_router channel e route h tag s)) = bq_items (ws_logger_queue s) @ [h]"
    | (recycled) t where "stream (hand_to_router channel e route h tag s) = stream s @
          (if affects_order_book e then [PathMarketBarrier (market_barrier e route BIR_kWIRE_TO_ROUTER_DELIVERY_LOSS t)] else [])"
      "universe_version_of t = universe_version_of s"
      "ws_frame_pool (hand_to_router channel e route h tag s) = fst (recycle h (ws_frame_pool s))"
      "ws_logger_queue (hand_to_router channel e route h tag s) = ws_logger_queue s"
proof -
  have lost: "ws_frame_pool (book_frame_lost e route reason why x) = ws_frame_pool x"
    "ws_logger_queue (book_frame_lost e route reason why x) = ws_logger_queue x" for reason why x
    by (simp_all add: book_frame_lost_def emit_market_barrier_def wire_incident_def send_barrier_frame wire_frame)
  define s1 where "s1 = update_channel_telemetry channel (\<lambda>c. c\<lparr>ct_downstream_delivery_losses := ct_downstream_delivery_losses c + 1\<rparr>)
     (tally_wire (\<lambda>t. t\<lparr>it_router_enqueue_failed := it_router_enqueue_failed t + 1\<rparr>) s)"
  have s1: "ws_pending_integrity_barrier s1 = None" "stream s1 = stream s" "ws_frame_pool s1 = ws_frame_pool s"
    "ws_logger_queue s1 = ws_logger_queue s" "universe_version_of s1 = universe_version_of s"
    using assms by (simp_all add: s1_def wire_frame stream_def universe_version_of_def)
  show thesis
  proof (cases "snd (bq_push (PathFrame h) (ws_router_queue s))")
    case True
    then obtain q where q: "bq_push (PathFrame h) (ws_router_queue s) = (q, True)" "bq_items q = bq_items (ws_router_queue s) @ [PathFrame h]"
      by (cases rule: bq_push_cases [of "PathFrame h" "ws_router_queue s"]) simp_all
    show thesis using assms
      by (intro router) (simp_all add: hand_to_router_def q Let_def stream_def wire_frame split: option.split)
  next
    case full: False
    then obtain q where q: "bq_push (PathFrame h) (ws_router_queue s) = (q, False)" by (metis prod.collapse)
    show thesis
    proof (cases "snd (bq_push h (ws_logger_queue s))")
      case True
      then obtain lq where lq: "bq_push h (ws_logger_queue s1) = (lq, True)" "bq_items lq = bq_items (ws_logger_queue s) @ [h]"
        using s1(4) by (cases rule: bq_push_cases [of h "ws_logger_queue s"]) simp_all
      let ?t = "update_channel_telemetry channel (\<lambda>c. c\<lparr>ct_logger_only_frames := ct_logger_only_frames c + 1\<rparr>)
         (tally_wire (\<lambda>t. t\<lparr>it_logger_fallback_enqueued := it_logger_fallback_enqueued t + 1,
            it_frames_published := it_frames_published t + 1\<rparr>) (s1\<lparr>ws_logger_queue := lq\<rparr>))"
      have t: "ws_pending_integrity_barrier ?t = None" "stream ?t = stream s" "ws_frame_pool ?t = ws_frame_pool s" "ws_logger_queue ?t = lq"
        "universe_version_of ?t = universe_version_of s"
        using s1 by (simp_all add: wire_frame stream_def universe_version_of_def)
      have run: "hand_to_router channel e route h tag s =
          book_frame_lost e route BIR_kWIRE_TO_ROUTER_DELIVERY_LOSS ''Recovery snapshot could not be delivered to the router'' ?t"
        by (simp add: hand_to_router_def q s1_def [symmetric] lq Let_def)
      show thesis by (rule logger [of ?t]) (simp_all only: run book_frame_lost_stream [OF t(1)] t lost lq(2))
    next
      case False
      then obtain lq where lq: "bq_push h (ws_logger_queue s1) = (lq, False)" using s1(4) by (metis prod.collapse)
      let ?t = "recycle_handle h (wire_dropped (\<lambda>t. t\<lparr>it_logger_fallback_failed := it_logger_fallback_failed t + 1\<rparr>) s1)"
      have "fst (recycle h p) = p" if "\<not> snd (recycle h p)" for p using that by (auto simp: recycle_def Let_def split: if_splits)
      then have "ws_frame_pool ?t = fst (recycle h (ws_frame_pool s))"
        using s1(3) by (simp add: recycle_handle_def case_prod_beta wire_frame split: bool.split)
      then have t: "ws_pending_integrity_barrier ?t = None" "stream ?t = stream s" "ws_frame_pool ?t = fst (recycle h (ws_frame_pool s))"
        "ws_logger_queue ?t = ws_logger_queue s" "universe_version_of ?t = universe_version_of s"
        using s1 by (simp_all add: wire_frame stream_def universe_version_of_def)
      have run: "hand_to_router channel e route h tag s =
          book_frame_lost e route BIR_kWIRE_TO_ROUTER_DELIVERY_LOSS ''Recovery snapshot could not be delivered to the router'' ?t"
        by (simp add: hand_to_router_def q s1_def [symmetric] lq Let_def)
      show thesis by (rule recycled [of ?t]) (simp_all only: run book_frame_lost_stream [OF t(1)] t lost)
    qed
  qed
qed

text \<open>The handle that is handed to the router, and the state in which it is.\<close>

definition handed ::
  "u8 list \<Rightarrow> u64 \<Rightarrow> market_data_envelope \<Rightarrow> universe_market_route \<Rightarrow> frame_handle \<Rightarrow> kalshi_frame \<Rightarrow> wire_session \<Rightarrow> frame_handle \<times> wire_session" where
  "handed payload ingress e route h0 f s =
     (let s3 = s\<lparr>ws_frame_pool := fst (write_frame h0 (stored_frame ingress payload f) (ws_frame_pool s))\<rparr>;
          h1 = (stamp_handle h0 e route s3)\<lparr>fh_ingress_ts_ns := ingress\<rparr>;
          tag = recovery_tag e route (fh_universe_version h1) s3;
          h2 = (case tag of None \<Rightarrow> h1 | Some t \<Rightarrow> h1\<lparr>fh_recovery_id := prt_recovery_id t\<rparr>);
          (publish_ts, s4) = wire_now_ns s3;
          h3 = h2\<lparr>fh_wire_publish_ts_ns := publish_ts\<rparr>
      in (h3, record_wire_latency h3 s4))"

lemma deliver_frame_handed:
  assumes "acquire_frame padding s = (s1, Some h0)" "frame (ws_frame_pool s1) h0 = Some f"
  shows "\<exists>tag. deliver_frame padding payload ingress channel e route s =
    hand_to_router channel e route (fst (handed payload ingress e route h0 f (update_capacity_high_water s1))) tag
      (snd (handed payload ingress e route h0 f (update_capacity_high_water s1)))"
  using assms by (auto simp: deliver_frame_def handed_def Let_def case_prod_beta wire_frame)

lemma handed_facts:
  assumes "handed payload ingress e route h0 f s = (h, s')" "fh_recovery_id h0 = 0"
  shows "frame_of e route s (PathFrame h)" "fh_pool_index h = fh_pool_index h0" "fh_pool_generation h = fh_pool_generation h0"
    "ws_frame_pool s' = fst (write_frame h0 (stored_frame ingress payload f) (ws_frame_pool s))" "stream s' = stream s"
    "ws_pending_integrity_barrier s' = ws_pending_integrity_barrier s" "ws_logger_queue s' = ws_logger_queue s"
    "ws_desired_universe s' = ws_desired_universe s"
proof -
  let ?s3 = "s\<lparr>ws_frame_pool := fst (write_frame h0 (stored_frame ingress payload f) (ws_frame_pool s))\<rparr>"
  let ?h1 = "(stamp_handle h0 e route ?s3)\<lparr>fh_ingress_ts_ns := ingress\<rparr>"
  define tag where "tag = recovery_tag e route (universe_version_of s) s"
  have v: "universe_version_of ?s3 = universe_version_of s" by (simp add: universe_version_of_def)
  have "fh_universe_version ?h1 = universe_version_of s" by (simp add: stamp_handle_def v)
  moreover have "recovery_tag e route w ?s3 = recovery_tag e route w s" for w by (simp add: recovery_tag_def)
  ultimately have h: "h = (case tag of None \<Rightarrow> ?h1 | Some t \<Rightarrow> ?h1\<lparr>fh_recovery_id := prt_recovery_id t\<rparr>)\<lparr>fh_wire_publish_ts_ns := ws_clock s 0\<rparr>"
    using assms(1) by (simp add: handed_def Let_def case_prod_beta wire_now_ns_def tag_def)
  show "frame_of e route s (PathFrame h)" "fh_pool_index h = fh_pool_index h0" "fh_pool_generation h = fh_pool_generation h0"
    unfolding h frame_of_def tag_def [symmetric] using assms(2) v by (cases tag; simp add: stamp_handle_def)+
  have "s' = record_wire_latency h (snd (wire_now_ns ?s3))" using assms(1) unfolding handed_def Let_def case_prod_beta by blast
  then show "ws_frame_pool s' = fst (write_frame h0 (stored_frame ingress payload f) (ws_frame_pool s))" "stream s' = stream s"
    "ws_pending_integrity_barrier s' = ws_pending_integrity_barrier s" "ws_logger_queue s' = ws_logger_queue s"
    "ws_desired_universe s' = ws_desired_universe s"
    by (simp_all add: wire_frame stream_def)
qed

lemma frame_of_cong:
  "ws_desired_universe t = ws_desired_universe s \<Longrightarrow> ws_pending_recovery_by_market t = ws_pending_recovery_by_market s
     \<Longrightarrow> frame_of e route t m \<longleftrightarrow> frame_of e route s m"
  by (simp add: frame_of_def recovery_tag_def universe_version_of_def cong: option.case_cong)

lemma acquire_fresh: "acquire_frame padding s = (s1, Some h0) \<Longrightarrow> fh_recovery_id h0 = 0"
  by (auto simp: acquire_frame_def try_acquire_def empty_handle_def Let_def split: if_splits)

lemma deliver_frame_stream:
  assumes "ws_pending_integrity_barrier s = None"
  shows "\<exists>ms. stream (deliver_frame padding payload ingress channel e route s) = stream s @ ms
    \<and> ((\<exists>m. ms = [m] \<and> (frame_of e route s m \<or> affects_order_book e \<and> barrier_of e route s m)) \<or> \<not> affects_order_book e \<and> ms = [])"
proof -
  obtain s1 r where acq: "acquire_frame padding s = (s1, r)" by fastforce
  have s1: "ws_pending_integrity_barrier s1 = None" "stream s1 = stream s" "ws_desired_universe s1 = ws_desired_universe s"
    "ws_pending_recovery_by_market s1 = ws_pending_recovery_by_market s"
    using acquire_frame [of padding s] acq assms by (simp_all add: stream_def)
  note v = version_frame [OF s1(3)]
  show ?thesis
  proof (cases r)
    case None
    let ?t = "wire_dropped (\<lambda>t. t\<lparr>it_pool_exhausted := it_pool_exhausted t + 1\<rparr>) s1"
    have t: "ws_pending_integrity_barrier ?t = None" "universe_version_of ?t = universe_version_of s"
      using s1(1) v by (simp_all add: wire_frame universe_version_of_def)
    show ?thesis using acq None barrier_of_market_barrier [OF t(2), of BIR_kWIRE_POOL_EXHAUSTION e route]
      by (simp add: deliver_frame_def book_frame_lost_stream [OF t(1)] s1(2))
  next
    case (Some h0)
    let ?s2 = "update_capacity_high_water s1"
    have s2: "ws_pending_integrity_barrier ?s2 = None" "stream ?s2 = stream s" "ws_desired_universe ?s2 = ws_desired_universe s"
      "ws_pending_recovery_by_market ?s2 = ws_pending_recovery_by_market s"
      using s1 by (simp_all add: wire_frame stream_def)
    show ?thesis
    proof (cases "frame (ws_frame_pool s1) h0")
      case None
      let ?t = "recycle_handle h0 (wire_dropped (\<lambda>t. t\<lparr>it_missing_frame_slot := it_missing_frame_slot t + 1\<rparr>) ?s2)"
      have t: "ws_pending_integrity_barrier ?t = None" "universe_version_of ?t = universe_version_of s" "stream ?t = stream s"
        using s2 by (simp_all add: wire_frame universe_version_of_def stream_def)
      have "deliver_frame padding payload ingress channel e route s = book_frame_lost e route BIR_kWIRE_POOL_EXHAUSTION
          ''Recovery snapshot dropped because its frame slot was unavailable'' ?t"
        using acq Some None by (simp add: deliver_frame_def wire_frame Let_def)
      then show ?thesis using barrier_of_market_barrier [OF t(2), of BIR_kWIRE_POOL_EXHAUSTION e route]
        by (simp add: book_frame_lost_stream [OF t(1)] t(3))
    next
      case (Some f)
      obtain h s5 where hd: "handed payload ingress e route h0 f ?s2 = (h, s5)" by fastforce
      note hf = handed_facts [OF hd acquire_fresh [OF acq [unfolded \<open>r = Some h0\<close>]]]
      obtain tag where run: "deliver_frame padding payload ingress channel e route s = hand_to_router channel e route h tag s5"
        using deliver_frame_handed [OF acq [unfolded \<open>r = Some h0\<close>] Some, of payload ingress channel e route] hd by auto
      have p: "ws_pending_integrity_barrier s5 = None" "stream s5 = stream s" "universe_version_of s5 = universe_version_of s"
        using hf s2 by (simp_all add: universe_version_of_def)
      have fo: "frame_of e route s (PathFrame h)" using hf(1) frame_of_cong [OF s2(3,4)] by simp
      from p(1) show ?thesis
      proof (cases rule: hand_to_router_cases [of s5 channel e route h tag])
        case router
        then show ?thesis using run p(2) fo by auto
      next
        case (logger t)
        then show ?thesis using run p barrier_of_market_barrier [of t s BIR_kWIRE_TO_ROUTER_DELIVERY_LOSS e route] by auto
      next
        case (recycled t)
        then show ?thesis using run p barrier_of_market_barrier [of t s BIR_kWIRE_TO_ROUTER_DELIVERY_LOSS e route] by auto
      qed
    qed
  qed
qed

end
