(* ===== verification/Wire_Properties.thy ===== *)
theory Wire_Properties
  imports Wire_Stream
begin

text \<open>
  What the wire session guarantees for a frame: a loss becomes a barrier, in its place in the stream, and the slot of a
  frame has one owner.
\<close>

section \<open>A frame\<close>

text \<open>A frame whose market the session knows and whose sequence number is new.\<close>

definition routable :: "market_data_envelope \<Rightarrow> universe_market_route \<Rightarrow> wire_session \<Rightarrow> bool" where
  "routable e route s \<longleftrightarrow> env_market_ticker e \<noteq> [] \<and> ws_desired_universe s \<noteq> None
     \<and> um_find (ws_market_route_by_ticker s) (env_market_ticker e) = Some route
     \<and> so_code (snd (sid_observe (env_sid e) (env_sequence e) (ws_sequence_observer s))) \<in> {SOC_kFIRST, SOC_kCONTIGUOUS, SOC_kGAP}"

lemma observe_active:
  "so_code (snd (sid_observe sid q states)) \<noteq> SOC_kINACTIVE_SID \<Longrightarrow> sid_active (fst (sid_observe sid q states)) sid"
  using sid_observe_found(2) [of states sid _ q] by (cases "um_find states sid") (auto simp: sid_active_def sid_observe_def)

lemma affects_known: "affects_order_book e \<Longrightarrow> env_kind e \<noteq> FK_kUNKNOWN"
  by (auto simp: affects_order_book_def)

lemma barrier_of_cong: "ws_desired_universe t = ws_desired_universe s \<Longrightarrow> barrier_of e route t m \<longleftrightarrow> barrier_of e route s m"
  by (simp add: barrier_of_def universe_version_of_def)

lemma route_dropped_stream: "stream (route_dropped k c e s) = stream s" "stream (parse_dropped code s) = stream s"
  by (simp_all add: stream_def wire_frame)

lemma route_frame_data_stream:
  assumes "ws_pending_integrity_barrier s = None"
  shows "\<exists>ms. stream (route_frame_data padding payload ingress code e channel s) = stream s @ ms
    \<and> (ms = [] \<or> (\<exists>m route. ms = [m] \<and> code = EPC_kOK \<and> resolve_market_route e s = (SHC_kOK, Some route)
         \<and> (frame_of e route s m \<or> affects_order_book e \<and> barrier_of e route s m)))
    \<and> (code = EPC_kOK \<and> affects_order_book e \<and> resolve_market_route e s = (SHC_kOK, Some route)
        \<longrightarrow> (\<exists>m. ms = [m] \<and> (frame_of e route s m \<or> barrier_of e route s m)))"
proof (cases "code = EPC_kOK \<and> (\<exists>route. resolve_market_route e s = (SHC_kOK, Some route))")
  case True
  then obtain route' where r: "resolve_market_route e s = (SHC_kOK, Some route')" by auto
  then have run: "route_frame_data padding payload ingress code e channel s = deliver_frame padding payload ingress channel e route' s"
    using True by (simp add: route_frame_data_def)
  obtain ms where "stream (deliver_frame padding payload ingress channel e route' s) = stream s @ ms"
      "(\<exists>m. ms = [m] \<and> (frame_of e route' s m \<or> affects_order_book e \<and> barrier_of e route' s m)) \<or> \<not> affects_order_book e \<and> ms = []"
    using deliver_frame_stream [OF assms, of padding payload ingress channel e route'] by auto
  then show ?thesis using run r True by auto
next
  case False
  then have "stream (route_frame_data padding payload ingress code e channel s) = stream s"
    by (auto simp: route_frame_data_def route_dropped_stream resolve_market_route_def split: option.splits stamp_handle_code.splits)
  then show ?thesis using False by auto
qed

lemma publish_observed:
  assumes "length payload \<le> kMaxFrameBytes" "parse_market_data_envelope js payload = (code, e)" "sequence_available code"
  obtains ingress' t where "stream t = stream s" "ws_pending_integrity_barrier t = ws_pending_integrity_barrier s"
    "ws_desired_universe t = ws_desired_universe s" "ws_market_route_by_ticker t = ws_market_route_by_ticker s"
    "ws_sequence_observer t = ws_sequence_observer s" "ws_pending_recovery_by_market t = ws_pending_recovery_by_market s"
    "ws_next_wire_incident_id t = ws_next_wire_incident_id s" "ws_frame_pool t = ws_frame_pool s"
    "publish_market_data_frame js padding payload ingress s = (case observe_frame e t of (s2, channel, go) \<Rightarrow>
       if \<not> go then s2 else route_frame_data padding payload ingress' code e channel s2)"
proof -
  obtain i s0 where i: "(if ingress = 0 then wire_now_ns s else (ingress, s)) = (i, s0)" by fastforce
  then have s0: "s0 = s \<or> s0 = snd (wire_now_ns s)" by (auto split: if_splits)
  define t where "t = tally_wire (\<lambda>t. t\<lparr>it_frames_received := it_frames_received t + 1\<rparr>) s0"
  obtain s2 channel go where o: "observe_frame e t = (s2, channel, go)" by (cases "observe_frame e t")
  have run: "publish_market_data_frame js padding payload ingress s = (case observe_frame e t of (s2, channel, go) \<Rightarrow>
      if \<not> go then s2 else route_frame_data padding payload i code e channel s2)"
    unfolding publish_market_data_frame_def i Let_def prod.case t_def [symmetric] assms(2) o using assms(1,3) by simp
  show thesis using s0 by (intro that [OF _ _ _ _ _ _ _ _ run]) (auto simp: t_def wire_frame stream_def)
qed

section \<open>The slot of a frame\<close>

lemma recycle_loop_wf:
  "pool_wf pool \<Longrightarrow> recycle_loop n k queues idx pool failures = (queues', idx', pool', failures') \<Longrightarrow> pool_wf pool'"
proof (induction n k queues idx pool failures rule: recycle_loop.induct)
  case (1 n k queues idx pool failures)
  note wf = "1.prems"(1) and run = "1.prems"(2) and eq = recycle_loop.simps [of n k queues idx pool failures]
  show ?case
  proof (cases "n < kMAX_RECYCLE_BATCH_SIZE \<and> k < length queues \<and> idx < length queues")
    case True
    note IH = "1.IH" [OF True refl]
    show ?thesis
    proof (cases "queues ! idx")
      case None
      then show ?thesis using IH(1) [OF None wf] run True by (simp add: eq)
    next
      case (Some q)
      show ?thesis
      proof (cases "bq_items q")
        case Nil
        then show ?thesis using IH(2) [OF Some Nil wf] run True Some by (simp add: eq)
      next
        case (Cons h rest)
        obtain pool1 ok where r: "recycle h pool = (pool1, ok)" by fastforce
        have "pool_wf pool1" using recycle_wf [OF wf, of h] r by simp
        then show ?thesis using IH(3) [OF Some Cons refl r [symmetric] refl] IH(4) [OF Some Cons refl r [symmetric] refl] run True Some Cons r
          by (cases ok) (simp_all add: eq)
      qed
    qed
  next
    case False
    then have "recycle_loop n k queues idx pool failures = (queues, idx, pool, failures)" unfolding eq by (rule if_not_P)
    then show ?thesis using wf run by simp
  qed
qed

lemma drain_recycle_wf: "pool_wf (ws_frame_pool s) \<Longrightarrow> pool_wf (ws_frame_pool (drain_recycle_queues s))"
  using recycle_loop_wf [of "ws_frame_pool s" 0 0 "ws_recycle_queues s" "ws_next_recycle_queue_idx s" "it_recycle_failures (ws_telemetry s)"]
  by (simp add: drain_recycle_queues_def Let_def case_prod_beta prod_eq_iff)

lemma acquire_live:
  assumes "pool_wf (ws_frame_pool s)" "acquire_frame padding s = (s1, Some h0)"
  shows "is_live_handle (ws_frame_pool s1) h0" "frame (ws_frame_pool s1) h0 = Some (empty_frame padding)" "pool_wf (ws_frame_pool s1)"
proof -
  obtain p where p: "pool_wf p" "try_acquire padding p = (ws_frame_pool s1, Some h0)"
    using assms drain_recycle_wf [OF assms(1)] by (auto simp: acquire_frame_def Let_def split: prod.splits option.splits)
  show "pool_wf (ws_frame_pool s1)" using try_acquire_wf [OF p(1), of padding] p(2) by simp
  from try_acquire_exclusive [OF p] show "is_live_handle (ws_frame_pool s1) h0" "frame (ws_frame_pool s1) h0 = Some (empty_frame padding)"
    by simp_all
qed

text \<open>Liveness depends on the slot and the generation only; recycling ends it.\<close>

definition same_slot :: "frame_handle \<Rightarrow> frame_handle \<Rightarrow> bool" where
  "same_slot h h' \<longleftrightarrow> fh_pool_index h = fh_pool_index h' \<and> fh_pool_generation h = fh_pool_generation h'"

lemma live_same_slot: "same_slot h h' \<Longrightarrow> is_live_handle p h = is_live_handle p h'"
  by (simp add: is_live_handle_iff same_slot_def)

lemma recycled_not_live:
  assumes "pool_wf p" "is_live_handle p h"
  shows "\<not> is_live_handle (fst (recycle h p)) h"
  using assms by (auto simp: recycle_def is_live_handle_iff pool_wf_def Let_def)

section \<open>Examples\<close>

text \<open>A reader for one message: a delta with number 12 of the market \<open>T\<close> on the subscription 4.\<close>

definition demo_json :: "(bool, string) json_api" where
  "demo_json = \<lparr>ja_document = (\<lambda>_. True), ja_root = (\<lambda>_. Some True), ja_find = (\<lambda>_ key. Some key),
     ja_uint64 = (\<lambda>key. if key = ''sid'' then Some 4 else if key = ''seq'' then Some 12 else None),
     ja_int64 = (\<lambda>_. None),
     ja_string = (\<lambda>key. if key = ''type'' then Some ''orderbook_delta'' else if key = ''market_ticker'' then Some ''T'' else None),
     ja_object = (\<lambda>_. Some False)\<rparr>"

definition demo_route :: universe_market_route where
  "demo_route = \<lparr>umr_kalshi_ticker = ''T'', umr_market_id = 7, umr_event_id = 3, umr_affinity_key = 0, umr_topology = ET_kMONOTONIC_CHAIN,
     umr_shard_index = 0, umr_shard_event_index = 0, umr_event_market_index = 0, umr_tradeable = True,
     umr_price_level_structure = PLS_kLINEAR_CENT, umr_strike_key = None, umr_market_time_s = 0, umr_market_close_time_s = 0,
     umr_market_expected_expiration_time_s = 0, umr_market_expiration_time_s = 0\<rparr>"

definition demo_wire :: wire_session where
  "demo_wire = \<lparr>ws_frame_pool = example_pool, ws_router_queue = \<lparr>bq_capacity = 4, bq_items = []\<rparr>,
     ws_control_to_io_queue = \<lparr>bq_capacity = 4, bq_items = []\<rparr>, ws_io_to_control_queue = \<lparr>bq_capacity = 4, bq_items = []\<rparr>,
     ws_recycle_queues = [], ws_logger_queue = \<lparr>bq_capacity = 4, bq_items = []\<rparr>, ws_connected = True, ws_last_error = [],
     ws_desired_universe = Some \<lparr>us_version = 1, us_events = [], us_market_routes = [demo_route]\<rparr>,
     ws_market_route_by_ticker = [(''T'', demo_route)], ws_market_route_by_id = [(7, demo_route)],
     ws_desired_channels = [MC_kORDERBOOK_DELTA], ws_active_subscriptions = [], ws_pending_ws_commands = [],
     ws_next_recycle_queue_idx = 0, ws_telemetry = empty_io_telemetry, ws_next_telemetry_send = 0, ws_next_ws_command_id = 1,
     ws_pending_recovery_by_market = [], ws_sequence_observer = [(4, \<lparr>as_channel = MC_kORDERBOOK_DELTA, as_last_sequence = Some 10\<rparr>)],
     ws_pending_integrity_barrier = None, ws_next_wire_incident_id = 1, ws_pending_recovery_statuses = [], ws_clock = (\<lambda>_. 5),
     ws_steady_clock = (\<lambda>_. 0), ws_connect_results = (\<lambda>_. True), ws_send_results = (\<lambda>_. SS_kACCEPTED),
     ws_transport_errors = (\<lambda>_. []), ws_calls = []\<rparr>"

definition demo_envelope :: market_data_envelope where
  "demo_envelope = \<lparr>env_kind = FK_kORDERBOOK_DELTA, env_sid = 4, env_sequence = 12, env_market_ticker = ''T''\<rparr>"

lemma demo_parse_envelope: "parse_market_data_envelope demo_json [1] = (EPC_kOK, demo_envelope)"
  by code_simp

lemma demo_routable: "routable demo_envelope demo_route demo_wire" "length (gap_barrier demo_envelope demo_wire) = 1"
proof -
  have o: "so_code (snd (sid_observe 4 12 (ws_sequence_observer demo_wire))) = SOC_kGAP"
    "so_channel (snd (sid_observe 4 12 (ws_sequence_observer demo_wire))) = Some MC_kORDERBOOK_DELTA"
    by (simp_all add: demo_wire_def sid_observe_def um_find_def Let_def)
  then show "length (gap_barrier demo_envelope demo_wire) = 1" by (simp add: gap_barrier_def demo_envelope_def Let_def)
  show "routable demo_envelope demo_route demo_wire"
    using o(1) by (simp add: routable_def demo_envelope_def) (simp add: demo_wire_def um_find_def)
qed

section \<open>Properties\<close>

text \<open>C8. A lost order-book frame becomes a barrier, in its place. Let no barrier be waiting and let a payload of at most
  \<open>kMaxFrameBytes\<close> yield a sequence number. It adds to the stream to the router first the barrier of a gap of the
  order-book subscription, if there is one, with the expected and the observed number, and then at most one message,
  and that only when the envelope is complete, the number is new and the market is in the universe: the frame with
  the route, sequence number and recovery id that belong to it, or, for an order-book frame, a barrier for its
  market. Such an order-book frame always adds one of the two, whatever the pool and the queues hold, unless the
  barrier of the gap itself has to wait: then nothing follows it. Nothing is promised for a trade frame, or for
  a frame whose envelope is incomplete or whose market is unknown: they may be dropped without a message.\<close>

theorem wire_losses_become_barriers:
  assumes "ws_pending_integrity_barrier s = None" "length payload \<le> kMaxFrameBytes"
    "parse_market_data_envelope js payload = (code, e)" "sequence_available code" "s' = publish_market_data_frame js padding payload ingress s"
  shows "\<exists>ms. stream s' = stream s @ gap_barrier e s @ ms
    \<and> (ms = [] \<or> (\<exists>m route. ms = [m] \<and> code = EPC_kOK \<and> routable e route s
         \<and> (frame_of e route s m \<or> affects_order_book e \<and> barrier_of e route s m)))
    \<and> (code = EPC_kOK \<and> affects_order_book e \<and> routable e route s \<longrightarrow>
        (\<exists>m. ms = [m] \<and> (frame_of e route s m \<or> barrier_of e route s m))
        \<or> ms = [] \<and> gap_barrier e s \<noteq> [] \<and> ws_pending_integrity_barrier s' = Some (hd (gap_barrier e s)))"
proof -
  obtain ingress' t where t: "stream t = stream s" "ws_pending_integrity_barrier t = None"
      "ws_desired_universe t = ws_desired_universe s" "ws_market_route_by_ticker t = ws_market_route_by_ticker s"
      "ws_sequence_observer t = ws_sequence_observer s" "ws_pending_recovery_by_market t = ws_pending_recovery_by_market s"
      "ws_next_wire_incident_id t = ws_next_wire_incident_id s"
      "s' = (case observe_frame e t of (s2, channel, go) \<Rightarrow> if \<not> go then s2 else route_frame_data padding payload ingress' code e channel s2)"
    unfolding assms(1) [symmetric] assms(5) by (rule publish_observed [OF assms(2-4), where s = s and padding = padding and ingress = ingress])
  obtain s2 channel go where o: "observe_frame e t = (s2, channel, go)" by (cases "observe_frame e t")
  note obs = observe_frame_stream [OF t(2) o]
  have gap: "gap_barrier e t = gap_barrier e s" using t by (simp add: gap_barrier_def universe_version_of_def Let_def)
  have st: "stream s2 = stream s @ gap_barrier e s" using obs(1) t(1) gap by simp
  have s2: "ws_desired_universe s2 = ws_desired_universe s" "ws_pending_recovery_by_market s2 = ws_pending_recovery_by_market s"
    using obs(3,6) t by simp_all
  note cong = frame_of_cong [OF s2] barrier_of_cong [OF s2(1)]
  show ?thesis
  proof (cases go)
    case True
    have resolved: "resolve_market_route e s2 = (SHC_kOK, Some route)" if "affects_order_book e" "routable e route s"
    proof -
      have "sid_active (ws_sequence_observer s2) (env_sid e)"
        using that(2) observe_active [of "env_sid e" "env_sequence e"] obs(5) t(5) by (auto simp: routable_def)
      then show ?thesis using that affects_known obs(4) t(4) s2(1) by (simp add: resolve_market_route_def routable_def)
    qed
    have routed: "routable e r s" if "resolve_market_route e s2 = (SHC_kOK, Some r)" for r
      using that True obs(4,8) t(4,5) s2(1) by (auto simp: resolve_market_route_def routable_def split: if_splits option.splits)
    from route_frame_data_stream [OF obs(2) [OF True], of padding payload ingress' code e channel route]
    obtain ms where ms: "stream s' = stream s @ gap_barrier e s @ ms"
      "ms = [] \<or> (\<exists>m r. ms = [m] \<and> code = EPC_kOK \<and> resolve_market_route e s2 = (SHC_kOK, Some r)
         \<and> (frame_of e r s m \<or> affects_order_book e \<and> barrier_of e r s m))"
      "code = EPC_kOK \<and> affects_order_book e \<and> resolve_market_route e s2 = (SHC_kOK, Some route)
        \<longrightarrow> (\<exists>m. ms = [m] \<and> (frame_of e route s m \<or> barrier_of e route s m))"
      using t(8) o True st unfolding cong by auto
    then show ?thesis using resolved routed by blast
  next
    case False
    then have s': "s' = s2" using t(8) o by simp
    have "ws_pending_integrity_barrier s2 \<noteq> None" if "routable e route s"
      using False obs(8) that t(5) by (auto simp: routable_def)
    moreover have "gap_barrier e s \<noteq> [] \<and> ws_pending_integrity_barrier s2 = Some (hd (gap_barrier e s))" if "ws_pending_integrity_barrier s2 \<noteq> None"
      using observe_frame_pending [OF t(2) o that] gap by simp
    ultimately show ?thesis using s' st by auto
  qed
qed

theorem wire_losses_become_barriers_witness:
  "\<exists>ms. stream (publish_market_data_frame demo_json 64 [1] 9 demo_wire) = stream demo_wire @ gap_barrier demo_envelope demo_wire @ ms
     \<and> length (gap_barrier demo_envelope demo_wire) = 1
     \<and> (length ms = 1 \<or> ws_pending_integrity_barrier (publish_market_data_frame demo_json 64 [1] 9 demo_wire) \<noteq> None)"
proof -
  have "ws_pending_integrity_barrier demo_wire = None" "length [1 :: u8] \<le> kMaxFrameBytes" "sequence_available EPC_kOK"
    "affects_order_book demo_envelope"
    by (simp_all add: demo_wire_def kMaxFrameBytes_def sequence_available_def affects_order_book_def demo_envelope_def)
  then show ?thesis
    using wire_losses_become_barriers [OF _ _ demo_parse_envelope _ refl, where s = demo_wire and route = demo_route and padding = 64 and ingress = 9] demo_routable by fastforce
qed

text \<open>C11. The slot of a frame has one owner. When a slot has been acquired for a frame, its handle goes to exactly one place:
  to the router, or to the logger when the router is full, and then the slot is in use and holds the payload; or
  nowhere, when both are full, and then the slot is free again.\<close>

theorem wire_frame_single_owner:
  assumes "pool_wf (ws_frame_pool s)" "ws_pending_integrity_barrier s = None" "acquire_frame padding s = (s1, Some h0)"
    "s' = deliver_frame padding payload ingress channel e route s"
  shows "\<exists>h. same_slot h h0
    \<and> (stream s' = stream s @ [PathFrame h] \<and> ws_logger_queue s' = ws_logger_queue s
          \<and> frame (ws_frame_pool s') h = Some (stored_frame ingress payload (empty_frame padding))
       \<or> list_all (\<lambda>m. \<forall>x. m \<noteq> PathFrame x) (drop (length (stream s)) (stream s'))
          \<and> bq_items (ws_logger_queue s') = bq_items (ws_logger_queue s) @ [h]
          \<and> frame (ws_frame_pool s') h = Some (stored_frame ingress payload (empty_frame padding))
       \<or> list_all (\<lambda>m. \<forall>x. m \<noteq> PathFrame x) (drop (length (stream s)) (stream s'))
          \<and> ws_logger_queue s' = ws_logger_queue s \<and> \<not> is_live_handle (ws_frame_pool s') h)"
proof -
  note live = acquire_live [OF assms(1,3)]
  let ?s2 = "update_capacity_high_water s1" and ?f = "stored_frame ingress payload (empty_frame padding)"
  have s1: "ws_pending_integrity_barrier s1 = None" "stream s1 = stream s" "ws_logger_queue s1 = ws_logger_queue s"
    using acquire_frame [of padding s] assms(2,3) by (simp_all add: stream_def)
  obtain h s5 where hd: "handed payload ingress e route h0 (empty_frame padding) ?s2 = (h, s5)" by fastforce
  note hf = handed_facts [OF hd acquire_fresh [OF assms(3)]]
  obtain tag where run: "s' = hand_to_router channel e route h tag s5"
    using deliver_frame_handed [OF assms(3) live(2), of payload ingress channel e route] hd assms(4) by auto
  have same: "same_slot h h0" using hf(2,3) by (simp add: same_slot_def)
  have pool: "ws_frame_pool s5 = fst (write_frame h0 ?f (ws_frame_pool s1))" using hf(4) by (simp add: wire_frame)
  have w: "pool_wf (ws_frame_pool s5)" "is_live_handle (ws_frame_pool s5) h" "frame (ws_frame_pool s5) h = Some ?f"
  proof -
    show "pool_wf (ws_frame_pool s5)" unfolding pool by (rule write_frame_wf [OF live(3)])
    have "is_live_handle (ws_frame_pool s5) h0" "frame (ws_frame_pool s5) h0 = Some ?f"
      using live(1) by (auto simp: pool write_frame_def is_live_handle_iff frame_def)
    then show "is_live_handle (ws_frame_pool s5) h" "frame (ws_frame_pool s5) h = Some ?f"
      using live_same_slot [OF same] same by (simp_all add: frame_def same_slot_def)
  qed
  have s5: "ws_pending_integrity_barrier s5 = None" "stream s5 = stream s" "ws_logger_queue s5 = ws_logger_queue s"
    using hf(5-7) s1 by (simp_all add: wire_frame stream_def)
  from s5(1) show ?thesis
  proof (cases rule: hand_to_router_cases [of s5 channel e route h tag])
    case router
    then show ?thesis using run s5 w(3) same by auto
  next
    case (logger t)
    then show ?thesis using run s5 w(3) same by (intro exI [of _ h]) simp
  next
    case (recycled t)
    then show ?thesis using run s5 recycled_not_live [OF w(1,2)] same by (intro exI [of _ h]) simp
  qed
qed

theorem wire_frame_single_owner_witness:
  "\<exists>h. same_slot h (empty_handle\<lparr>fh_pool_generation := 1\<rparr>) \<and>
     (frame (ws_frame_pool (deliver_frame 64 [1] 9 None demo_envelope demo_route demo_wire)) h = Some (stored_frame 9 [1] (empty_frame 64))
      \<or> \<not> is_live_handle (ws_frame_pool (deliver_frame 64 [1] 9 None demo_envelope demo_route demo_wire)) h)"
proof -
  have pool: "pool_wf (ws_frame_pool demo_wire)" "ws_pending_integrity_barrier demo_wire = None"
    using example_pool_wf by (simp_all add: demo_wire_def)
  have "snd (try_acquire 64 example_pool) = Some (empty_handle\<lparr>fh_pool_generation := 1\<rparr>)"
    by (simp add: try_acquire_def example_pool_def empty_handle_def)
  then obtain p where "try_acquire 64 (ws_frame_pool demo_wire) = (p, Some (empty_handle\<lparr>fh_pool_generation := 1\<rparr>))"
    by (metis prod.collapse demo_wire_def wire_session.select_convs(1))
  then have "acquire_frame 64 demo_wire = (demo_wire\<lparr>ws_frame_pool := p\<rparr>, Some (empty_handle\<lparr>fh_pool_generation := 1\<rparr>))"
    by (simp add: acquire_frame_def)
  from wire_frame_single_owner [OF pool this refl, of "[1]" 9 None demo_envelope demo_route] show ?thesis by blast
qed

end
