(* ===== verification/Wire_Replies.thy ===== *)
theory Wire_Replies
  imports Wire_Properties "HOL-Library.Sublist"
begin

text \<open>
  The answers of the wire session to the recovery requests of the control plane: they are sent in their order, retained while the
  queue is full, and a reset of the transport answers every request that is still open.
\<close>

section \<open>The replies\<close>

named_theorems reply_frame

definition is_reply :: "io_to_control_status \<Rightarrow> bool" where
  "is_reply m = (case m of IoRecoveryRequestAccepted _ \<Rightarrow> True | IoRecoveryRequestFailed _ \<Rightarrow> True | _ \<Rightarrow> False)"

definition replies :: "wire_session \<Rightarrow> io_to_control_status list" where
  "replies s = filter is_reply (bq_items (ws_io_to_control_queue s)) @ ws_pending_recovery_statuses s"

definition answers :: "wire_session \<Rightarrow> wire_session \<Rightarrow> bool" where
  "answers s s' \<longleftrightarrow> (list_all is_reply (ws_pending_recovery_statuses s) \<longrightarrow>
     list_all is_reply (ws_pending_recovery_statuses s') \<and> prefix (replies s) (replies s'))"

lemma answers_trans: "answers s t \<Longrightarrow> answers t u \<Longrightarrow> answers s u"
  by (auto simp: answers_def intro: prefix_order.trans)

lemma answers_quiet:
  "ws_io_to_control_queue s' = ws_io_to_control_queue s \<Longrightarrow> ws_pending_recovery_statuses s' = ws_pending_recovery_statuses s \<Longrightarrow> answers s s'"
  by (simp add: answers_def replies_def)

lemma answers_refl [simp]: "answers s s"
  by (simp add: answers_quiet)

text \<open>A change of the other fields before or after.\<close>

lemma answers_after:
  "answers s t \<Longrightarrow> ws_io_to_control_queue u = ws_io_to_control_queue t \<Longrightarrow> ws_pending_recovery_statuses u = ws_pending_recovery_statuses t \<Longrightarrow> answers s u"
  by (rule answers_trans [OF _ answers_quiet])

lemma answers_before:
  "answers t u \<Longrightarrow> ws_io_to_control_queue t = ws_io_to_control_queue s \<Longrightarrow> ws_pending_recovery_statuses t = ws_pending_recovery_statuses s \<Longrightarrow> answers s u"
  by (rule answers_trans [OF answers_quiet])

lemma channel_quiet [reply_frame]:
  "ws_io_to_control_queue (update_channel_telemetry c f s) = ws_io_to_control_queue s" "ws_pending_recovery_statuses (update_channel_telemetry c f s) = ws_pending_recovery_statuses s"
  by (simp_all add: update_channel_telemetry_def Let_def split: option.split)

lemma capacity_quiet [reply_frame]:
  "ws_io_to_control_queue (update_capacity_high_water s) = ws_io_to_control_queue s" "ws_pending_recovery_statuses (update_capacity_high_water s) = ws_pending_recovery_statuses s"
  by (simp_all add: update_capacity_high_water_def)

lemma wire_dropped_quiet [reply_frame]:
  "ws_io_to_control_queue (wire_dropped f s) = ws_io_to_control_queue s" "ws_pending_recovery_statuses (wire_dropped f s) = ws_pending_recovery_statuses s"
  by (simp_all add: wire_dropped_def)

lemma count_reply_quiet [reply_frame]:
  "ws_io_to_control_queue (count_recovery_status m s) = ws_io_to_control_queue s" "ws_pending_recovery_statuses (count_recovery_status m s) = ws_pending_recovery_statuses s"
  by (simp_all add: count_recovery_status_def split: io_to_control_status.split)

lemma handle_recycled_quiet [reply_frame]:
  "ws_io_to_control_queue (recycle_handle h s) = ws_io_to_control_queue s" "ws_pending_recovery_statuses (recycle_handle h s) = ws_pending_recovery_statuses s"
  by (simp_all add: recycle_handle_def case_prod_beta split: bool.split)

lemma queues_drained_quiet [reply_frame]:
  "ws_io_to_control_queue (drain_recycle_queues s) = ws_io_to_control_queue s" "ws_pending_recovery_statuses (drain_recycle_queues s) = ws_pending_recovery_statuses s"
  by (simp_all add: drain_recycle_queues_def Let_def case_prod_beta)

lemma ticker_recorded_quiet [reply_frame]:
  "ws_io_to_control_queue (record_unknown_market_ticker x s) = ws_io_to_control_queue s" "ws_pending_recovery_statuses (record_unknown_market_ticker x s) = ws_pending_recovery_statuses s"
  by (simp_all add: record_unknown_market_ticker_def Let_def)

lemma clock_quiet [reply_frame]:
  "ws_io_to_control_queue (snd (wire_now_ns s)) = ws_io_to_control_queue s" "ws_pending_recovery_statuses (snd (wire_now_ns s)) = ws_pending_recovery_statuses s"
  by (simp_all add: wire_now_ns_def)

lemma steady_quiet [reply_frame]:
  "ws_io_to_control_queue (snd (wire_steady_now s)) = ws_io_to_control_queue s" "ws_pending_recovery_statuses (snd (wire_steady_now s)) = ws_pending_recovery_statuses s"
  by (simp_all add: wire_steady_now_def)

lemma latency_quiet [reply_frame]:
  "ws_io_to_control_queue (record_wire_latency h s) = ws_io_to_control_queue s" "ws_pending_recovery_statuses (record_wire_latency h s) = ws_pending_recovery_statuses s"
  by (simp_all add: record_wire_latency_def Let_def)

lemma tag_erased_quiet [reply_frame]:
  "ws_io_to_control_queue (erase_tag_if P m s) = ws_io_to_control_queue s" "ws_pending_recovery_statuses (erase_tag_if P m s) = ws_pending_recovery_statuses s"
  by (simp_all add: erase_tag_if_def split: option.split)

lemma barrier_sent_quiet [reply_frame]:
  "ws_io_to_control_queue (fst (send_or_defer_integrity_barrier b s)) = ws_io_to_control_queue s" "ws_pending_recovery_statuses (fst (send_or_defer_integrity_barrier b s)) = ws_pending_recovery_statuses s"
  by (simp_all add: send_or_defer_integrity_barrier_def reply_frame case_prod_beta split: bool.split)

lemma barrier_flushed_quiet [reply_frame]:
  "ws_io_to_control_queue (fst (flush_pending_integrity_barrier s)) = ws_io_to_control_queue s" "ws_pending_recovery_statuses (fst (flush_pending_integrity_barrier s)) = ws_pending_recovery_statuses s"
  by (simp_all add: flush_pending_integrity_barrier_def reply_frame case_prod_beta split: option.split bool.split)

lemma acquired_quiet [reply_frame]:
  "ws_io_to_control_queue (fst (acquire_frame padding s)) = ws_io_to_control_queue s" "ws_pending_recovery_statuses (fst (acquire_frame padding s)) = ws_pending_recovery_statuses s"
  by (simp_all add: acquire_frame_def Let_def case_prod_beta reply_frame split: option.split)

lemma frame_dropped_quiet [reply_frame]:
  "ws_io_to_control_queue (parse_dropped c s) = ws_io_to_control_queue s" "ws_pending_recovery_statuses (parse_dropped c s) = ws_pending_recovery_statuses s"
  by (simp_all add: parse_dropped_def reply_frame)

lemma frame_unrouted_quiet [reply_frame]:
  "ws_io_to_control_queue (route_dropped k c e s) = ws_io_to_control_queue s" "ws_pending_recovery_statuses (route_dropped k c e s) = ws_pending_recovery_statuses s"
  by (simp_all add: route_dropped_def Let_def reply_frame split: stamp_handle_code.split)

lemma gap_raised_quiet [reply_frame]:
  "ws_io_to_control_queue (fst (raise_gap_barrier e obs s)) = ws_io_to_control_queue s" "ws_pending_recovery_statuses (fst (raise_gap_barrier e obs s)) = ws_pending_recovery_statuses s"
  by (simp_all add: raise_gap_barrier_def wire_incident_def reply_frame)

lemma frame_observed_quiet [reply_frame]:
  "ws_io_to_control_queue (fst (observe_frame e s)) = ws_io_to_control_queue s" "ws_pending_recovery_statuses (fst (observe_frame e s)) = ws_pending_recovery_statuses s"
  by (simp_all add: observe_frame_def Let_def case_prod_beta reply_frame)

lemma barrier_emitted_quiet [reply_frame]:
  "ws_io_to_control_queue (fst (emit_market_barrier e r w s)) = ws_io_to_control_queue s" "ws_pending_recovery_statuses (fst (emit_market_barrier e r w s)) = ws_pending_recovery_statuses s"
  by (simp_all add: emit_market_barrier_def wire_incident_def reply_frame)

lemma subscription_set_quiet [reply_frame]:
  "ws_io_to_control_queue (set_subscription c sub s) = ws_io_to_control_queue s" "ws_pending_recovery_statuses (set_subscription c sub s) = ws_pending_recovery_statuses s"
  by (simp_all add: set_subscription_def)

lemma command_added_quiet [reply_frame]:
  "ws_io_to_control_queue (add_pending_command c s) = ws_io_to_control_queue s" "ws_pending_recovery_statuses (add_pending_command c s) = ws_pending_recovery_statuses s"
  by (simp_all add: add_pending_command_def)

lemma sent_quiet [reply_frame]:
  "ws_io_to_control_queue (fst (transport_send m s)) = ws_io_to_control_queue s" "ws_pending_recovery_statuses (fst (transport_send m s)) = ws_pending_recovery_statuses s"
  by (simp_all add: transport_send_def)

lemma connected_quiet [reply_frame]:
  "ws_io_to_control_queue (fst (transport_connect s)) = ws_io_to_control_queue s" "ws_pending_recovery_statuses (fst (transport_connect s)) = ws_pending_recovery_statuses s"
  by (simp_all add: transport_connect_def)

lemma error_read_quiet [reply_frame]:
  "ws_io_to_control_queue (fst (transport_error s)) = ws_io_to_control_queue s" "ws_pending_recovery_statuses (fst (transport_error s)) = ws_pending_recovery_statuses s"
  by (simp_all add: transport_error_def)

lemma id_taken_quiet [reply_frame]:
  "ws_io_to_control_queue (snd (next_ws_command_id s)) = ws_io_to_control_queue s" "ws_pending_recovery_statuses (snd (next_ws_command_id s)) = ws_pending_recovery_statuses s"
  by (simp_all add: next_ws_command_id_def)

lemma routes_quiet [reply_frame]:
  "ws_io_to_control_queue (fold add_route rs s) = ws_io_to_control_queue s"
  "ws_pending_recovery_statuses (fold add_route rs s) = ws_pending_recovery_statuses s"
  by (induction rs arbitrary: s) (simp_all add: add_route_def)

lemma subscribe_quiet [reply_frame]:
  "ws_io_to_control_queue (fst (subscribe_channel c ts s)) = ws_io_to_control_queue s"
  "ws_pending_recovery_statuses (fst (subscribe_channel c ts s)) = ws_pending_recovery_statuses s"
  by (simp_all add: subscribe_channel_def Let_def case_prod_beta reply_frame split: option.split)

section \<open>What is sent\<close>

text \<open>A status of another kind may be lost when the queue is full; a reply is sent or retained behind the others.\<close>

lemma push_other: "\<not> is_reply m \<Longrightarrow> answers s (fst (push_control_status m s))"
  by (cases rule: bq_push_cases [of m "ws_io_to_control_queue s"]) (simp_all add: push_control_status_def answers_def replies_def)

lemma push_frame:
  "ws_pending_recovery_statuses (fst (push_control_status m s)) = ws_pending_recovery_statuses s"
  "filter is_reply (bq_items (ws_io_to_control_queue (fst (push_control_status m s)))) =
     filter is_reply (bq_items (ws_io_to_control_queue s)) @ (if snd (push_control_status m s) \<and> is_reply m then [m] else [])"
  by (cases rule: bq_push_cases [of m "ws_io_to_control_queue s"]; simp add: push_control_status_def)+

lemma reply_sent:
  assumes "is_reply m"
  shows "replies (wire_send_or_defer_status m s) = replies s @ [m]"
    and "list_all is_reply (ws_pending_recovery_statuses s) \<Longrightarrow> list_all is_reply (ws_pending_recovery_statuses (wire_send_or_defer_status m s))"
proof -
  let ?s = "count_recovery_status m s"
  obtain s2 ok where p: "push_control_status m ?s = (s2, ok)" by fastforce
  have f: "ws_pending_recovery_statuses s2 = ws_pending_recovery_statuses s"
    "filter is_reply (bq_items (ws_io_to_control_queue s2)) = filter is_reply (bq_items (ws_io_to_control_queue s)) @ (if ok then [m] else [])"
    using push_frame [of m ?s] p assms by (simp_all add: reply_frame)
  show "replies (wire_send_or_defer_status m s) = replies s @ [m]"
    using f by (cases ok) (simp_all add: wire_send_or_defer_status_def p replies_def reply_frame Let_def)
  show "list_all is_reply (ws_pending_recovery_statuses (wire_send_or_defer_status m s))" if "list_all is_reply (ws_pending_recovery_statuses s)"
    using f assms that by (cases ok) (simp_all add: wire_send_or_defer_status_def p reply_frame Let_def)
qed

lemma answers_reply: "is_reply m \<Longrightarrow> answers s (wire_send_or_defer_status m s)"
  by (simp add: answers_def reply_sent)

lemma is_reply_requests [simp]: "is_reply (request_failed r v m a w)" "is_reply (request_accepted r v m a)"
  by (simp_all add: is_reply_def request_failed_def request_accepted_def)

lemma is_reply_others [simp]:
  "\<not> is_reply IoConnected" "\<not> is_reply (IoDisconnected x)" "\<not> is_reply (IoUniverseSnapshotApplied n)" "\<not> is_reply (IoSubscriptionReady n)"
  "\<not> is_reply (IoFaulted x)" "\<not> is_reply (IoTelemetry t)"
  by (simp_all add: is_reply_def)

lemma flush_statuses_replies:
  "list_all is_reply sts \<Longrightarrow> replies (fst (flush_statuses sts s)) = filter is_reply (bq_items (ws_io_to_control_queue s)) @ sts
     \<and> list_all is_reply (ws_pending_recovery_statuses (fst (flush_statuses sts s)))"
proof (induction sts arbitrary: s)
  case (Cons m sts)
  obtain s1 ok where p: "push_control_status m s = (s1, ok)" by fastforce
  show ?case using push_frame [of m s] p Cons by (cases ok) (simp_all add: replies_def)
qed (simp add: replies_def)

lemma answers_flush: "answers s (fst (flush_pending_recovery_statuses s))"
  using flush_statuses_replies [of "ws_pending_recovery_statuses s" s] by (auto simp: answers_def flush_pending_recovery_statuses_def replies_def)

section \<open>Resets\<close>

definition reset_reply :: "market_id \<times> pending_recovery_tag \<Rightarrow> io_to_control_status" where
  "reset_reply t = request_failed (prt_recovery_id (snd t)) (prt_universe_version (snd t)) (fst t) (prt_request_attempt (snd t))
     ''Transport reset before recovery snapshot delivery''"

lemma fail_tags_replies:
  "replies (fail_tags ts s) = replies s @ map reset_reply ts
     \<and> (list_all is_reply (ws_pending_recovery_statuses s) \<longrightarrow> list_all is_reply (ws_pending_recovery_statuses (fail_tags ts s)))"
proof (induction ts arbitrary: s)
  case (Cons t ts)
  obtain m tag where t: "t = (m, tag)" by fastforce
  show ?case using Cons.IH reply_sent by (simp add: t reset_reply_def)
qed simp

lemma reset_replies:
  "replies (clear_transport_subscription_state s) = replies s @ map reset_reply (ws_pending_recovery_by_market s)"
  "list_all is_reply (ws_pending_recovery_statuses s) \<Longrightarrow> list_all is_reply (ws_pending_recovery_statuses (clear_transport_subscription_state s))"
  "ws_pending_recovery_by_market (clear_transport_subscription_state s) = []"
  using fail_tags_replies [of "ws_pending_recovery_by_market s" s] by (simp_all add: clear_transport_subscription_state_def replies_def)

lemma answers_reset: "answers s (clear_transport_subscription_state s)"
  by (simp add: answers_def reset_replies)

lemma answers_fault: "answers s (report_fault err s)"
proof -
  have "answers s (clear_transport_subscription_state (s\<lparr>ws_connected := False, ws_last_error := err\<rparr>))"
    by (rule answers_before [OF answers_reset]) simp_all
  then show ?thesis unfolding report_fault_def Let_def by (rule answers_trans [OF _ push_other]) simp
qed

section \<open>The handlers\<close>

lemma answers_subscribe_channels: "answers s (fst (subscribe_channels ts cs s))"
proof (induction cs arbitrary: s)
  case (Cons c cs)
  obtain s1 ok where p: "subscribe_channel c ts s = (s1, ok)" by fastforce
  have a: "answers s s1" using subscribe_quiet [of c ts s] p by (simp add: answers_quiet)
  show ?case
  proof (cases ok)
    case True
    then show ?thesis using answers_trans [OF a Cons.IH] p by simp
  next
    case False
    then show ?thesis using answers_trans [OF answers_trans [OF a answers_fault] Cons.IH] p by (simp add: Let_def)
  qed
qed simp

lemma answers_subscribe: "answers s (fst (subscribe_active_universe s))"
  by (simp add: subscribe_active_universe_def answers_fault answers_subscribe_channels split: option.split)

lemma answers_connect: "answers s (fst (wire_connect s))"
proof -
  obtain s1 ok where p: "transport_connect s = (s1, ok)" by fastforce
  have a: "answers s s1" using connected_quiet [of s] p by (simp add: answers_quiet)
  show ?thesis
  proof (cases ok)
    case True
    let ?t = "clear_transport_subscription_state (s1\<lparr>ws_connected := True, ws_last_error := []\<rparr>)"
    let ?u = "fst (push_control_status IoConnected ?t)"
    have "answers s1 ?t" by (rule answers_before [OF answers_reset]) simp_all
    then have u: "answers s ?u" using answers_trans [OF a] push_other [of IoConnected ?t] by (meson answers_trans is_reply_others(1))
    show ?thesis using p True u answers_trans [OF u answers_subscribe] by (simp add: wire_connect_def Let_def)
  next
    case False
    obtain s2 err where e: "transport_error (s1\<lparr>ws_connected := False\<rparr>) = (s2, err)" by fastforce
    have b: "answers s1 (s2\<lparr>ws_last_error := err\<rparr>)" using error_read_quiet [of "s1\<lparr>ws_connected := False\<rparr>"] e by (simp add: answers_quiet)
    then show ?thesis using p False e answers_trans [OF answers_trans [OF a b] answers_fault] by (simp add: wire_connect_def Let_def)
  qed
qed

lemma answers_disconnect: "answers s (wire_disconnect reason s)"
proof -
  let ?t = "s\<lparr>ws_calls := ws_calls s @ [TC_Close], ws_connected := False, ws_last_error := reason\<rparr>"
  have "answers s (clear_transport_subscription_state ?t)" by (rule answers_before [OF answers_reset]) simp_all
  then show ?thesis unfolding wire_disconnect_def Let_def by (rule answers_trans [OF _ push_other]) simp
qed

lemma answers_universe: "answers s (apply_universe_snapshot u s)"
proof (cases u)
  case (Some v)
  define s2 where "s2 = (let s1 = (case ws_desired_universe s of
        Some old \<Rightarrow> if us_version old \<noteq> us_version v
          then s\<lparr>ws_pending_recovery_by_market := [], ws_pending_ws_commands := filter (\<lambda>(k, c). \<not> is_snapshot_command c) (ws_pending_ws_commands s)\<rparr>
          else s
      | None \<Rightarrow> s)
    in fold add_route (us_market_routes v) (s1\<lparr>ws_desired_universe := Some v, ws_market_route_by_ticker := [], ws_market_route_by_id := []\<rparr>))"
  define s3 where "s3 = fst (push_control_status (IoUniverseSnapshotApplied (us_version v)) s2)"
  have "answers s s2" unfolding s2_def Let_def by (rule answers_quiet; simp add: reply_frame split: option.split)
  then have a: "answers s s3" unfolding s3_def by (rule answers_trans [OF _ push_other]) simp
  have "apply_universe_snapshot u s = (if ws_connected s3 \<and> ws_active_subscriptions s3 = [] then fst (subscribe_active_universe s3) else s3)"
    unfolding apply_universe_snapshot_def Some option.case Let_def s3_def s2_def ..
  then show ?thesis using a answers_trans [OF a answers_subscribe] by simp
qed (simp add: apply_universe_snapshot_def answers_fault)

lemma answers_request: "answers s (send_recovery_request c route sid s)"
proof -
  define s3 where "s3 = add_pending_command \<lparr>pwc_ws_command_id = fst (next_ws_command_id s), pwc_kind = WCK_kGET_SNAPSHOT,
      pwc_channel = MC_kORDERBOOK_DELTA, pwc_market_ids = [rmi_market_id c], pwc_recovery_context = Some (context_of c)\<rparr>
    ((snd (next_ws_command_id s))\<lparr>ws_pending_recovery_by_market := fst (um_emplace (rmi_market_id c) \<lparr>prt_recovery_id = rmi_recovery_id c,
       prt_universe_version = rmi_universe_version c, prt_request_attempt = rmi_request_attempt c\<rparr> (ws_pending_recovery_by_market (snd (next_ws_command_id s))))\<rparr>)"
  obtain s4 st where s4: "transport_send (build_update_message (fst (next_ws_command_id s)) (uint sid) [umr_kalshi_ticker route] ''get_snapshot'') s3 = (s4, st)"
    by fastforce
  have q: "ws_io_to_control_queue s3 = ws_io_to_control_queue s" "ws_pending_recovery_statuses s3 = ws_pending_recovery_statuses s"
    by (simp_all add: s3_def reply_frame)
  have "s4 = fst (transport_send (build_update_message (fst (next_ws_command_id s)) (uint sid) [umr_kalshi_ticker route] ''get_snapshot'') s3)"
    by (simp only: s4 fst_conv)
  then have a: "answers s s4" by (intro answers_quiet) (simp_all only: sent_quiet q)
  show ?thesis
  proof (cases "st = SS_kACCEPTED")
    case True
    then have "send_recovery_request c route sid s = tally_wire (\<lambda>t. t\<lparr>it_snapshot_requests_sent := it_snapshot_requests_sent t + 1\<rparr>) s4"
      unfolding send_recovery_request_def Let_def case_prod_beta s3_def [symmetric] by (simp add: s4)
    then show ?thesis using answers_after [OF a] by simp
  next
    case False
    define s7 where "s7 = transport_error (erase_tag_if (\<lambda>tag. tag_matches tag (rmi_recovery_id c) (rmi_request_attempt c)) (rmi_market_id c)
       (s4\<lparr>ws_pending_ws_commands := um_erase (fst (next_ws_command_id s)) (ws_pending_ws_commands s4)\<rparr>))"
    have b: "answers s (fst s7)" unfolding s7_def by (rule answers_after [OF a]) (simp_all add: reply_frame)
    have "send_recovery_request c route sid s = wire_send_or_defer_status (request_failed (rmi_recovery_id c) (rmi_universe_version c)
        (rmi_market_id c) (rmi_request_attempt c) (''Failed to send recovery snapshot request: '' @ snd s7)) (fst s7)"
      unfolding send_recovery_request_def Let_def case_prod_beta s3_def [symmetric] using False by (simp add: s4 s7_def)
    then show ?thesis using answers_trans [OF b answers_reply] by simp
  qed
qed

lemma answers_recover: "answers s (recover_market c s)"
  by (simp add: recover_market_def Let_def answers_reply answers_request split: sum.split prod.split option.split)

lemma answers_command: "answers s (wire_handle_control_command c s)"
  by (cases c) (simp_all add: answers_universe answers_connect answers_disconnect answers_recover)

lemma answers_drain_commands: "answers s (drain_commands cs s)"
proof (induction cs arbitrary: s)
  case (Cons c cs)
  let ?t = "s\<lparr>ws_control_to_io_queue := (ws_control_to_io_queue s)\<lparr>bq_items := cs\<rparr>\<rparr>"
  have "answers s (wire_handle_control_command c ?t)" by (rule answers_before [OF answers_command]) simp_all
  then show ?case using answers_trans [OF _ Cons.IH] by simp
qed simp

lemma answers_response: "answers s (handle_ws_control_response js payload s)"
proof -
  have missing: "answers s (missing_type pending s)" for pending s
    by (auto simp: missing_type_def answers_fault split: option.split intro!: answers_before [OF answers_reply] simp: reply_frame)
  have snapshot: "answers s (snapshot_response pending type s)" for pending type s
    by (auto simp: snapshot_response_def answers_fault answers_reply Let_def split: option.split intro!: answers_before [OF answers_reply] simp: reply_frame)
  have fault: "answers s (fault_subscription channel sub err s)" for channel sub err s
    unfolding fault_subscription_def by (rule answers_before [OF answers_fault]) (simp_all add: reply_frame)
  have observer: "answers s (t\<lparr>ws_sequence_observer := x\<rparr>)"
    if "ws_io_to_control_queue t = ws_io_to_control_queue s" "ws_pending_recovery_statuses t = ws_pending_recovery_statuses s" for s t x
    using that by (intro answers_quiet) simp_all
  have sub: "answers s (subscribed js root channel sub s)" for root channel sub s
    by (auto simp: subscribed_def fault Let_def split: option.split intro!: answers_before [OF push_other] observer simp: reply_frame)
  have subscription: "answers s (subscription_response js root pending type s)" for root pending type s
    by (auto simp: subscription_response_def answers_fault fault sub Let_def split: option.split ws_command_kind.split intro!: answers_quiet simp: reply_frame)
  show ?thesis
    by (auto simp: handle_ws_control_response_def answers_fault Let_def split: option.split
        intro!: answers_before [OF missing] answers_before [OF snapshot] answers_before [OF subscription])
qed

lemma answers_correlated: "answers s (fail_correlated_recovery e route why s)"
  by (auto simp: fail_correlated_recovery_def Let_def split: option.split intro!: answers_before [OF answers_reply])

lemma answers_lost: "answers s (book_frame_lost e route reason why s)"
  by (auto simp: book_frame_lost_def reply_frame intro!: answers_before [OF answers_correlated])

lemma answers_hand: "answers s (hand_to_router channel e route h tag s)"
proof (cases "snd (bq_push (PathFrame h) (ws_router_queue s))")
  case True
  then show ?thesis by (intro answers_quiet) (simp_all add: hand_to_router_def Let_def case_prod_beta reply_frame split: option.split)
next
  case False
  then show ?thesis unfolding hand_to_router_def Let_def case_prod_beta
    by (auto simp: reply_frame split: bool.split intro!: answers_before [OF answers_lost])
qed

lemma answers_deliver: "answers s (deliver_frame padding payload ingress channel e route s)"
proof -
  obtain s1 r where acq: "acquire_frame padding s = (s1, r)" by fastforce
  have a: "answers s s1" using acquired_quiet [of padding s] acq by (simp add: answers_quiet)
  have "answers s1 (deliver_frame padding payload ingress channel e route s)"
    unfolding deliver_frame_def acq Let_def case_prod_beta
    by (auto simp: reply_frame split: option.split intro!: answers_before [OF answers_lost] answers_before [OF answers_hand])
  then show ?thesis using a by (rule answers_trans [rotated])
qed

lemma answers_publish: "answers s (publish_market_data_frame js padding payload ingress s)"
proof -
  have route: "answers s (route_frame_data padding payload i code e channel s)" for i code e channel s
    by (auto simp: route_frame_data_def answers_deliver split: prod.split stamp_handle_code.split option.split intro!: answers_quiet simp: reply_frame)
  show ?thesis
    unfolding publish_market_data_frame_def Let_def case_prod_beta
    by (auto simp: reply_frame intro!: answers_quiet answers_before [OF route])
qed

lemma answers_transport: "answers s (fst (service_transport_once js padding polled read may s))"
proof (cases read)
  case RS_kCLOSED
  have "answers s (clear_transport_subscription_state (s\<lparr>ws_connected := False, ws_last_error := ''websocket closed''\<rparr>))"
    by (rule answers_before [OF answers_reset]) simp_all
  then show ?thesis using RS_kCLOSED answers_trans [OF _ push_other] by (simp add: service_transport_once_def Let_def)
next
  case RS_kERROR
  then show ?thesis by (auto simp: service_transport_once_def case_prod_beta reply_frame intro!: answers_before [OF answers_fault])
next
  case (RS_kMESSAGE payload)
  define s2 where "s2 = (case classify_incoming_message js payload (snd (wire_now_ns s)) of
       IMK_kIGNORE \<Rightarrow> snd (wire_now_ns s)
     | IMK_kCONTROL_RESPONSE \<Rightarrow> handle_ws_control_response js payload (snd (wire_now_ns s))
     | IMK_kMARKET_DATA \<Rightarrow> publish_market_data_frame js padding payload (fst (wire_now_ns s)) (snd (wire_now_ns s))
     | IMK_kMALFORMED \<Rightarrow> report_fault ''Malformed websocket message received'' (snd (wire_now_ns s)))"
  have "answers s s2" unfolding s2_def
    by (auto simp: reply_frame split: incoming_message_kind.split
        intro!: answers_quiet answers_before [OF answers_response] answers_before [OF answers_publish] answers_before [OF answers_fault])
  then show ?thesis using RS_kMESSAGE answers_after [of s s2]
    by (simp add: service_transport_once_def Let_def case_prod_beta s2_def [symmetric])
qed (simp add: service_transport_once_def)

lemma answers_telemetry: "answers s (wire_maybe_send_telemetry s)"
proof -
  let ?s = "snd (wire_steady_now s)"
  have a: "answers s ?s" by (simp add: answers_quiet reply_frame)
  have "answers s (fst (push_control_status (IoTelemetry (ws_telemetry ?s)) ?s))" using answers_trans [OF a push_other] by simp
  then show ?thesis using a answers_after unfolding wire_maybe_send_telemetry_def Let_def case_prod_beta by auto
qed

lemma answers_round: "answers s (wire_round js padding polled read s)"
proof -
  define s2 where "s2 = flush_pending_recovery_statuses (drain_recycle_queues s)"
  define s3 where "s3 = (if snd s2 then flush_pending_recovery_statuses (wire_drain_control_commands (fst s2)) else (fst s2, False))"
  define s4 where "s4 = flush_pending_integrity_barrier (fst s3)"
  define s5 where "s5 = (if ws_connected (fst s4) then fst (service_transport_once js padding polled read (snd s3 \<and> snd s4) (fst s4)) else fst s4)"
  have "answers s (fst s2)" unfolding s2_def by (rule answers_before [OF answers_flush]) (simp_all add: reply_frame)
  moreover have "answers (fst s2) (fst s3)"
    using answers_trans [OF answers_drain_commands answers_flush] by (simp add: s3_def wire_drain_control_commands_def)
  moreover have "answers (fst s3) (fst s4)" unfolding s4_def by (rule answers_quiet) (simp_all add: reply_frame)
  moreover have "answers (fst s4) s5" by (simp add: s5_def answers_transport)
  ultimately have "answers s s5" by (blast intro: answers_trans)
  then show ?thesis unfolding wire_round_def Let_def case_prod_beta s2_def [symmetric] s3_def [symmetric] s4_def [symmetric] s5_def [symmetric]
    by (rule answers_trans [OF _ answers_telemetry])
qed

lemma answers_stop: "answers s (wire_stop s)"
proof -
  let ?t = "fst (flush_pending_integrity_barrier (drain_recycle_queues (wire_disconnect ''wire session stopped'' s)))"
  have "answers s ?t" by (rule answers_after [OF answers_disconnect]) (simp_all add: reply_frame)
  from answers_trans [OF this answers_flush] show ?thesis unfolding wire_stop_def by (rule answers_trans [OF _ answers_telemetry])
qed

section \<open>The session among its neighbours\<close>

text \<open>The session runs a round or stops; the control plane sends a command or takes a status; the router and the logger take what
  they are sent; a frame comes back for recycling. The statuses the control plane has taken are kept.\<close>

record wire_world =
  ww_session :: wire_session
  ww_statuses :: "io_to_control_status list"

datatype ('o, 'v) wire_op =
    WireRound "('o, 'v) json_api" nat nat read_result
  | WireStop
  | WireCommand control_to_io_command
  | WireTakeStatus
  | WireTakeMessage
  | WireTakeLog
  | WireRecycle nat frame_handle

fun wire_world_step :: "('o, 'v) wire_op \<Rightarrow> wire_world \<Rightarrow> wire_world" where
  "wire_world_step (WireRound js padding polled read) w = w\<lparr>ww_session := wire_round js padding polled read (ww_session w)\<rparr>"
| "wire_world_step WireStop w = w\<lparr>ww_session := wire_stop (ww_session w)\<rparr>"
| "wire_world_step (WireCommand c) w = (let s = ww_session w
     in w\<lparr>ww_session := s\<lparr>ws_control_to_io_queue := fst (bq_push c (ws_control_to_io_queue s))\<rparr>\<rparr>)"
| "wire_world_step WireTakeStatus w = (let s = ww_session w
     in case bq_pop (ws_io_to_control_queue s) of
          (q, None) \<Rightarrow> w
        | (q, Some m) \<Rightarrow> w\<lparr>ww_session := s\<lparr>ws_io_to_control_queue := q\<rparr>, ww_statuses := ww_statuses w @ [m]\<rparr>)"
| "wire_world_step WireTakeMessage w = (let s = ww_session w
     in w\<lparr>ww_session := s\<lparr>ws_router_queue := fst (bq_pop (ws_router_queue s))\<rparr>\<rparr>)"
| "wire_world_step WireTakeLog w = (let s = ww_session w
     in w\<lparr>ww_session := s\<lparr>ws_logger_queue := fst (bq_pop (ws_logger_queue s))\<rparr>\<rparr>)"
| "wire_world_step (WireRecycle i h) w = (let s = ww_session w
     in w\<lparr>ww_session := s\<lparr>ws_recycle_queues := (ws_recycle_queues s)[i := map_option (\<lambda>q. fst (bq_push h q)) (ws_recycle_queues s ! i)]\<rparr>\<rparr>)"

definition retained_replies :: "wire_world \<Rightarrow> bool" where
  "retained_replies w \<longleftrightarrow> list_all is_reply (ws_pending_recovery_statuses (ww_session w))"

definition all_replies :: "wire_world \<Rightarrow> io_to_control_status list" where
  "all_replies w = filter is_reply (ww_statuses w) @ replies (ww_session w)"

lemma answers_step:
  assumes "answers (ww_session w) s" "retained_replies w"
  shows "retained_replies (w\<lparr>ww_session := s\<rparr>) \<and> prefix (all_replies w) (all_replies (w\<lparr>ww_session := s\<rparr>))"
  using assms by (simp add: answers_def retained_replies_def all_replies_def)

lemma wire_world_moves:
  assumes "retained_replies w"
  shows "retained_replies (wire_world_step x w) \<and> prefix (all_replies w) (all_replies (wire_world_step x w))"
proof (cases x)
  case WireTakeStatus
  then show ?thesis using assms
    by (cases "bq_items (ws_io_to_control_queue (ww_session w))")
      (simp_all add: bq_pop_def Let_def retained_replies_def all_replies_def replies_def)
qed (use answers_step [OF answers_round assms] answers_step [OF answers_stop assms] answers_step [OF answers_quiet assms] in \<open>simp_all add: Let_def\<close>)

interpretation wire_machine: guarded_machine wire_world_step retained_replies "\<lambda>_. True"
  by unfold_locales (simp add: wire_world_moves)

section \<open>Property\<close>

text \<open>A request for a recovery waits for its snapshot when the transport is reset.\<close>

definition demo_waiting :: wire_session where
  "demo_waiting = demo_wire\<lparr>ws_pending_recovery_by_market := [(7, \<lparr>prt_recovery_id = 2, prt_universe_version = 1, prt_request_attempt = 1\<rparr>)]\<rparr>"

definition demo_stopped :: "wire_world" where
  "demo_stopped = fold wire_world_step [WireStop :: (bool, string) wire_op, WireTakeStatus] \<lparr>ww_session = demo_waiting, ww_statuses = []\<rparr>"

text \<open>C10. The control plane gets every answer to its recovery requests. Over any interleaving of the session with its neighbours,
  from a state with nothing retained, the sequence of answers (those taken, those in the queue, those retained while it is full)
  only grows at its end: none is lost, duplicated or overtaken. And a reset of the transport leaves no request without
  an answer: it appends exactly one failure for each request whose snapshot is still awaited, with the ids of that request, and
  forgets the requests.\<close>

theorem recovery_replies_never_lost:
  assumes "ws_pending_recovery_statuses (ww_session w0) = []" "w = fold wire_world_step ops w0"
  shows "prefix (all_replies w) (all_replies (fold wire_world_step later w))
    \<and> replies (clear_transport_subscription_state (ww_session w))
        = replies (ww_session w) @ map reset_reply (ws_pending_recovery_by_market (ww_session w))
    \<and> ws_pending_recovery_by_market (clear_transport_subscription_state (ww_session w)) = []"
proof -
  have "list_all (\<lambda>_. True) ops" "list_all (\<lambda>_. True) later" by (simp_all add: list_all_iff)
  moreover from this have "retained_replies w"
    using wire_machine.run_invar [of w0 ops] assms by (simp add: retained_replies_def)
  ultimately have "prefix (all_replies w) (all_replies (fold wire_world_step later w))"
    using wire_machine.run_mono [of "\<lambda>v v'. prefix (all_replies v) (all_replies v')" w later] wire_world_moves
    by (meson prefix_order.refl prefix_order.trans)
  then show ?thesis by (simp add: reset_replies)
qed

theorem recovery_replies_never_lost_witness:
  "prefix (all_replies \<lparr>ww_session = demo_waiting, ww_statuses = []\<rparr>) (all_replies demo_stopped)
   \<and> replies (clear_transport_subscription_state demo_waiting)
       = [request_failed 2 1 7 1 ''Transport reset before recovery snapshot delivery'']"
proof -
  have "ws_pending_recovery_statuses demo_waiting = []" "replies demo_waiting = []"
    by (simp_all add: demo_waiting_def demo_wire_def replies_def)
  moreover have "map reset_reply (ws_pending_recovery_by_market demo_waiting) = [request_failed 2 1 7 1 ''Transport reset before recovery snapshot delivery'']"
    by (simp add: demo_waiting_def reset_reply_def)
  ultimately show ?thesis
    using recovery_replies_never_lost [of "\<lparr>ww_session = demo_waiting, ww_statuses = []\<rparr>" _ "[] :: (bool, string) wire_op list"
        "[WireStop :: (bool, string) wire_op, WireTakeStatus]", OF _ refl]
    by (simp add: demo_stopped_def)
qed

end
