(* ===== verification/Spec2Isabelle.thy ===== *)
theory Spec2Isabelle
  imports
    Spsc_Queue Frame_Pool Money_Ticks Event_Store Recovery_Properties Router_Properties
    Latency_Histogram Idle_Backoff Oms_Properties Oms_Accounting Oms_Orders Oms_Findings
    Monotonic_Arb_Properties Strategy_Properties Strategy_Oms Shard_Properties
    Wire_Replies
begin

text \<open>
  PredEx is a trading system for the Kalshi exchange, written in C++ (\<open>cpp/\<close>). Threads own their state
  and talk through single-producer single-consumer queues. Market data arrives on a websocket in the
  wire session, is stored in a frame pool, goes through the router to one of several shards, which keep
  the order books and publish observations to the strategy; the strategy sends order intents to the
  order manager, which talks to the exchange. The control plane supervises all of them; its recovery
  coordinator asks for new snapshots when a part of the market data has been lost.

  The theories, in the order of the pipeline, and the code they model:

  \<^item> \<open>Prelude\<close>: machine types, exceptions, \<open>std::unordered_map\<close> as an association list behind the
    locale \<open>dictionary\<close>, and the locales \<open>guarded_machine\<close> (an invariant kept by every step is kept by
    every run) and \<open>functional_refinement\<close> (a simulation step lifts to runs).
  \<^item> \<open>Bounded_Queue\<close> and \<open>Spsc_Queue\<close>: \<open>utils/spsc.hpp\<close>. The locale \<open>bounded_fifo\<close> is what the users of a
    queue rely on; it is interpreted by the list queue that the component models use and by the ring
    itself. \<open>spsc_step\<close> interleaves producer and consumer at their atomic accesses.
  \<^item> \<open>Market_Types\<close>, \<open>Frame_Pool\<close>: \<open>ingest/kalshi/market_data/frame_pool.hpp\<close>, \<open>integrity_messages.hpp\<close>.
  \<^item> \<open>Money_Ticks\<close>: \<open>exchange/kalshi/money_ticks.hpp\<close>.
  \<^item> \<open>Book\<close>, \<open>Event\<close>, \<open>Event_Store\<close>: \<open>shard/models.hpp\<close>, \<open>shard/event.cpp\<close>, \<open>shard/event_store.cpp\<close>. The
    abstract book is a quantity per price; \<open>event\<close> interprets \<open>functional_refinement\<close>.
  \<^item> \<open>Router\<close>, \<open>Router_Properties\<close>: \<open>router/router.cpp\<close>, \<open>router.hpp\<close>; \<open>router_machine\<close> interprets
    \<open>guarded_machine\<close> on the router and the readers of its queues.
  \<^item> \<open>Control_Types\<close>, \<open>Recovery\<close>, \<open>Recovery_Properties\<close>: \<open>control/recovery_coordinator.cpp\<close>.
  \<^item> \<open>Latency_Histogram\<close>, \<open>Idle_Backoff\<close>: \<open>utils/latency_histogram.hpp\<close>, \<open>utils/idle_backoff.hpp\<close>.

  \<^item> \<open>Oms_Types\<close>, \<open>Oms_State\<close>, \<open>Oms_Groups\<close>, \<open>Oms_Handlers\<close>, \<open>Oms_Pump\<close>: \<open>oms/order_intents.hpp\<close>,
    \<open>oms/oms_types.hpp\<close>, \<open>oms/oms.hpp\<close> and \<open>oms/oms.cpp\<close>, from the data to the main loop;
    \<open>Oms_Frames\<close>, \<open>Oms_Invariant\<close>, \<open>Oms_Preserve\<close>, \<open>Oms_Repair_Invariant\<close>, \<open>Oms_Handler_Invariant\<close>: what
    each operation leaves alone, the invariant of the order manager, and its preservation by every handler
    and by the pump; \<open>Oms_Fixed\<close>: the parts no handler touches. The locale \<open>round_robin_queues\<close> of
    \<open>Oms_Pump\<close> is the fair drain over several queues; it is interpreted by the drains of the intents and
    of the venue events. \<open>oms_step\<close> interleaves the pump with the other threads and interprets
    \<open>guarded_machine\<close>.
  \<^item> \<open>Oms_Demo\<close>, \<open>Oms_Properties\<close>, \<open>Oms_Accounting\<close>, \<open>Oms_Orders\<close>, \<open>Oms_Findings\<close>: the concrete run of
    the witnesses, the properties of the reachable states, group admission, the accounting of orders and
    trades (\<open>oms_ledger\<close> interprets \<open>guarded_machine\<close>: an accounted trade stays accounted), and three runs in which the code departs from its comments.
  \<^item> \<open>Monotonic_Arb\<close>, \<open>Strategy_Types\<close>, \<open>Strategy\<close>: \<open>strategy/monotonic_arb.cpp\<close>, \<open>strategy/strategy_types.hpp\<close>,
    \<open>strategy/strategy.cpp\<close> and their headers; \<open>Monotonic_Arb_Properties\<close>, \<open>Strategy_Properties\<close>: the candidates and the
    ledger of the groups under way (\<open>strategy_machine\<close> interprets \<open>guarded_machine\<close>); \<open>Strategy_Oms\<close>: an intent of the strategy
    before the checks of the order manager.
  \<^item> \<open>Shard\<close>: \<open>shard/shard.cpp\<close>, \<open>shard.hpp\<close>, \<open>shard_types.hpp\<close>; \<open>Shard_Frames\<close>, \<open>Shard_Knowledge\<close>, \<open>Shard_Steps\<close>,
    \<open>Shard_Publication\<close>: what each handler changes, what a reader of the stream to the strategy knows, and that every handler
    keeps it informed; \<open>Shard_World\<close>, \<open>Shard_Invariant\<close>, \<open>Shard_Properties\<close>: the shard among the other threads, its life cycle
    and its properties (\<open>shard_machine\<close> interprets \<open>guarded_machine\<close>).
  \<^item> \<open>Wire_Sequence\<close>, \<open>Wire_Session\<close>, \<open>Wire_Handlers\<close>: \<open>ingest/kalshi/market_data/wire_session.hpp\<close>, \<open>wire_session.cpp\<close> and the
    requests of \<open>exchange/kalshi/adapters/market_data_handler.cpp\<close>; \<open>Wire_Stream\<close>, \<open>Wire_Properties\<close>: what the session tells the
    router; \<open>Wire_Replies\<close>: its answers to the recovery requests (\<open>wire_machine\<close> interprets \<open>guarded_machine\<close>).

  Conventions. An unsigned integer is a word of its width, a signed 64-bit integer an \<open>int\<close> whose bounds
  are tested where the code tests them; a clock reading, an allocation that may fail and the length of
  the parser padding are arguments. The JSON library (simdjson) is an argument of the wire session, the
  market parser an argument of the shard; the websocket answers through streams of results. A struct is a record whose fields carry a prefix for the struct, an
  enumerator \<open>kNAME\<close> of \<open>Enum\<close> is a constructor \<open>E_kNAME\<close>. Every loop is structural recursion over the
  container it walks, or a function with a termination proof; the one fuel argument is that of
  \<open>destroy_range\<close>, and \<open>capacity\<close> rounds are proved to be enough.

  What the theorems show. Queues: no item is lost, duplicated or reordered under any interleaving.
  Frames: a buffer has one owner, and a stale handle is refused. Books: every sequence of messages gives
  the abstract book, a book that refused a message or was invalidated is unusable until a snapshot, and what the strategy
  sees is the top of the book. Router: a lost order-book frame becomes a barrier or a
  fault, a leaked handle is reported, a barrier is delivered once and does not stay pending when its queues have room.
  Recovery: one recovery in flight per market, bounded retries, and which events end a recovery;
  a lost sequence number latches every routed market; timeouts are complete and counted exactly.
  Order manager: trading is enabled only without an incident and with a universe and a portfolio; a group
  under repair blocks new exposure; repair attempts and reserved capital are bounded in every reachable
  state; an admitted group satisfies every limit; a trade and a terminal order are accounted once.
  Strategy: an accepted candidate earns its net edge in every settlement and is the best feasible pair; the
  ledger of groups is consistent, and a published intent is covered; the checks of the order manager it
  passes for certain, those that depend on the order manager's own state, and the three that the strategy leaves open. Shard: what a reader of its stream knows is what the books
  are; reports of recoveries are neither lost nor reordered; a frame has one owner; every command
  and pump follows the edges of the life cycle.
  Wire session: a missing sequence number is noticed; a gap, and the loss of a well-formed order-book frame of a known market, becomes a barrier in its place;
  a frame has one owner; an answer to a recovery request is neither lost nor overtaken, and a reset of the
  transport answers every request that is open.

  Not modelled: the control plane apart from the recovery coordinator and the messages it exchanges
  (start-up, shut-down and reporting); the market and order parsers, which walk JSON through simdjson; the
  order REST adapter and the network sessions (Boost.Asio, Beast, nghttp2); OpenSSL signing; configuration
  files, the operator socket, file logging, the clock and the executables.
\<close>

end
